(* ===== verification/Inf_Prelude.thy ===== *)
theory Inf_Prelude
  imports Main "HOL-Library.Monad_Syntax" "HOL-Library.Sublist"
begin

text \<open>
  Shared vocabulary of the development: the theorem collections the component theories fill,
  the few operations of Rust's standard library that the modelled code calls on strings and
  integers, and the lemmas on the option monad, on lists and on maps that several components
  use.

  A Rust \<open>String\<close> is a \<^typ>\<open>string\<close> (a list of bytes). A result of option type whose
  \<^term>\<open>None\<close> stands for "the call does not return normally" (a panic, or a loop that never
  ends) is composed with the \<open>do\<close> notation of the option monad.
\<close>

named_theorems frame_simps \<open>equations that say which part of a state an operation leaves alone\<close>
named_theorems inv_intros \<open>preservation of the well-formedness invariants\<close>
named_theorems run_simps \<open>the operations as rewrite rules, for evaluating closed terms\<close>

section \<open>The option monad\<close>

text \<open>
  The termination arguments below are structural, so the recursive calls of a continuation need
  no assumption about the value they continue from.
\<close>

lemma bind_fundef_cong [fundef_cong]:
  "m = m' \<Longrightarrow> (\<And>x. f x = g x) \<Longrightarrow> Option.bind m f = Option.bind m' g"
  by (metis ext)

lemma bind_Some_iff: "Option.bind m f = Some r \<longleftrightarrow> (\<exists>x. m = Some x \<and> f x = Some r)"
  by (cases m) auto

lemma bind_SomeE:
  assumes "Option.bind m f = Some r"
  obtains x where "m = Some x" "f x = Some r"
  using assms by (cases m) auto

lemma bind_not_None: "m \<noteq> None \<Longrightarrow> (\<And>x. m = Some x \<Longrightarrow> f x \<noteq> None) \<Longrightarrow> Option.bind m f \<noteq> None"
  by (cases m) auto

text \<open>Applying a function that may panic to the elements of a list, left to right.\<close>

fun map_opt :: "('a \<Rightarrow> 'b option) \<Rightarrow> 'a list \<Rightarrow> 'b list option" where
  "map_opt f [] = Some []"
| "map_opt f (x # xs) = do { y \<leftarrow> f x; ys \<leftarrow> map_opt f xs; Some (y # ys) }"

lemma map_opt_cong [fundef_cong]:
  "xs = ys \<Longrightarrow> (\<And>x. x \<in> set ys \<Longrightarrow> f x = g x) \<Longrightarrow> map_opt f xs = map_opt g ys"
proof (induction ys arbitrary: xs)
  case (Cons y ys)
  then show ?case by (cases "g y") auto
qed simp

lemma map_opt_None_iff: "map_opt f xs = None \<longleftrightarrow> (\<exists>x\<in>set xs. f x = None)"
  by (induction xs) (auto split: Option.bind_split)

lemma map_opt_Some_length: "map_opt f xs = Some ys \<Longrightarrow> length ys = length xs"
  by (induction xs arbitrary: ys) (auto simp: bind_Some_iff)

lemma map_opt_Some_nth:
  "map_opt f xs = Some ys \<Longrightarrow> i < length xs \<Longrightarrow> f (xs ! i) = Some (ys ! i)"
proof (induction xs arbitrary: ys i)
  case (Cons x xs)
  then show ?case by (cases i) (auto simp: bind_Some_iff)
qed simp

lemma map_opt_total: "(\<And>x. x \<in> set xs \<Longrightarrow> f x = Some (g x)) \<Longrightarrow> map_opt f xs = Some (map g xs)"
  by (induction xs) auto

section \<open>Folding a state over a list\<close>

text \<open>
  A Rust \<open>for\<close> loop whose body may panic: the state is threaded from one element to the next.
\<close>

fun fold_opt :: "('a \<Rightarrow> 's \<Rightarrow> 's option) \<Rightarrow> 'a list \<Rightarrow> 's \<Rightarrow> 's option" where
  "fold_opt f [] s = Some s"
| "fold_opt f (x # xs) s = do { s' \<leftarrow> f x s; fold_opt f xs s' }"

lemma fold_opt_rel:
  assumes "fold_opt f xs s = Some s'"
    and "R s s"
    and "\<And>x t t'. x \<in> set xs \<Longrightarrow> R s t \<Longrightarrow> f x t = Some t' \<Longrightarrow> R s t'"
  shows "R s s'"
proof -
  have "fold_opt f xs t = Some s' \<Longrightarrow> R s t \<Longrightarrow>
      (\<And>x t t'. x \<in> set xs \<Longrightarrow> R s t \<Longrightarrow> f x t = Some t' \<Longrightarrow> R s t') \<Longrightarrow> R s s'" for t
  proof (induction xs arbitrary: t)
    case Nil
    then show ?case by simp
  next
    case (Cons x xs)
    from Cons.prems(1) obtain t' where t': "f x t = Some t'" "fold_opt f xs t' = Some s'"
      by (auto elim: bind_SomeE)
    have "R s t'" using Cons.prems(3) [OF _ Cons.prems(2) t'(1)] by simp
    then show ?case
      using Cons.IH [OF t'(2)] Cons.prems(3) by (meson list.set_intros(2))
  qed
  then show ?thesis using assms by blast
qed

lemma fold_opt_returns:
  assumes "P s"
    and "\<And>x t. x \<in> set xs \<Longrightarrow> P t \<Longrightarrow> \<exists>t'. f x t = Some t' \<and> P t'"
  shows "\<exists>s'. fold_opt f xs s = Some s' \<and> P s'"
  using assms
proof (induction xs arbitrary: s)
  case (Cons x xs)
  obtain t' where "f x s = Some t'" "P t'"
    using Cons.prems(2) [OF _ Cons.prems(1)] by auto
  then show ?case using Cons.IH [of t'] Cons.prems(2) by auto
qed simp

section \<open>Numbers as text\<close>

text \<open>The decimal \<open>Display\<close> of an unsigned integer.\<close>

fun show_nat :: "nat \<Rightarrow> string" where
  "show_nat n = (if n < 10 then [char_of (48 + n)] else show_nat (n div 10) @ [char_of (48 + n mod 10)])"

declare show_nat.simps [simp del, run_simps]

text \<open>
  \<open>str::parse::<u32>\<close>: an optional plus sign, then one or more decimal digits, and the value
  must fit in 32 bits; anything else is an error.
\<close>

definition digit_value :: "char \<Rightarrow> nat option" where
  "digit_value c = (if 48 \<le> (of_char c :: nat) \<and> (of_char c :: nat) \<le> 57 then Some (of_char c - 48) else None)"

fun parse_digits :: "nat \<Rightarrow> string \<Rightarrow> nat option" where
  "parse_digits acc [] = Some acc"
| "parse_digits acc (c # cs) =
     do { d \<leftarrow> digit_value c;
          let v = acc * 10 + d;
          if v < 2 ^ 32 then parse_digits v cs else None }"

definition parse_u32 :: "string \<Rightarrow> nat option" where
  "parse_u32 s =
     (case s of
        [] \<Rightarrow> None
      | c # cs \<Rightarrow> if c = CHR ''+'' then (if cs = [] then None else parse_digits 0 cs)
                  else parse_digits 0 s)"

lemma parse_digits_bound: "parse_digits acc s = Some n \<Longrightarrow> acc < 2 ^ 32 \<Longrightarrow> n < 2 ^ 32"
  by (induction acc s rule: parse_digits.induct) (auto simp: Let_def bind_Some_iff split: if_splits)

lemma parse_u32_bound: "parse_u32 s = Some n \<Longrightarrow> n < 2 ^ 32"
  by (auto simp: parse_u32_def simp del: parse_digits.simps dest!: parse_digits_bound
      split: list.splits if_splits)

section \<open>ASCII case folding and joining\<close>

text \<open>
  \<open>str::to_lowercase\<close> and \<open>str::eq_ignore_ascii_case\<close>. The grammar of the language only
  produces ASCII identifiers, on which \<open>to_lowercase\<close> is the byte-wise ASCII folding.
\<close>

definition ascii_lower_char :: "char \<Rightarrow> char" where
  "ascii_lower_char c =
     (if 65 \<le> (of_char c :: nat) \<and> (of_char c :: nat) \<le> 90 then char_of ((of_char c :: nat) + 32) else c)"

definition to_lowercase :: "string \<Rightarrow> string" where
  "to_lowercase s = map ascii_lower_char s"

definition eq_ignore_ascii_case :: "string \<Rightarrow> string \<Rightarrow> bool" where
  "eq_ignore_ascii_case s t \<longleftrightarrow> to_lowercase s = to_lowercase t"

lemma of_char_char_of_small: "n < 256 \<Longrightarrow> of_char (char_of n :: char) = (n :: nat)"
  by simp

lemma ascii_lower_char_idem [simp]: "ascii_lower_char (ascii_lower_char c) = ascii_lower_char c"
  by (auto simp: ascii_lower_char_def)

lemma to_lowercase_idem [simp]: "to_lowercase (to_lowercase s) = to_lowercase s"
  by (simp add: to_lowercase_def)

lemma to_lowercase_length [simp]: "length (to_lowercase s) = length s"
  by (simp add: to_lowercase_def)

text \<open>\<open>[String]::join\<close>.\<close>

fun join :: "string \<Rightarrow> string list \<Rightarrow> string" where
  "join sep [] = []"
| "join sep [x] = x"
| "join sep (x # y # zs) = x @ sep @ join sep (y # zs)"

lemma join_eq_Nil_iff: "sep \<noteq> [] \<Longrightarrow> join sep xs = [] \<longleftrightarrow> xs = [] \<or> xs = [[]]"
  by (induction sep xs rule: join.induct) auto

section \<open>Association lists as hash maps\<close>

text \<open>
  A small hash map whose emptiness the code tests is an association list read through
  \<^const>\<open>map_of\<close>; \<open>assoc_insert\<close> is its \<open>insert\<close>.
\<close>

definition assoc_insert :: "'k \<Rightarrow> 'v \<Rightarrow> ('k \<times> 'v) list \<Rightarrow> ('k \<times> 'v) list" where
  "assoc_insert k v m = (k, v) # filter (\<lambda>(k', _). k' \<noteq> k) m"

lemma map_of_assoc_insert [simp]: "map_of (assoc_insert k v m) = (map_of m)(k \<mapsto> v)"
proof
  fix x
  show "map_of (assoc_insert k v m) x = ((map_of m)(k \<mapsto> v)) x"
    by (cases "x = k") (auto simp: assoc_insert_def, induction m, auto)
qed

lemma assoc_insert_not_Nil [simp]: "assoc_insert k v m \<noteq> []"
  by (simp add: assoc_insert_def)

end
