(* ===== verification/AstNodes.thy ===== *)
theory AstNodes
  imports Inf_Prelude
begin

text \<open>
  The abstract syntax tree of \<open>core/ast/src/nodes.rs\<close> and the queries of
  \<open>core/ast/src/nodes_impl.rs\<close> that the later phases use.

  A node struct that is not part of a recursion is a record with the fields \<open>ast_node!\<close> gives
  it: \<open>id\<close>, \<open>location\<close> and its own. A node struct inside the recursion of types, expressions
  and literals (or of blocks and statements, or of definitions) is the constructor of its enum
  variant, with the same fields in the same order: \<open>Expr_Binary i l left op right\<close> is
  \<open>Expression::Binary(BinaryExpression { id: i, location: l, left, operator, right })\<close>. \<open>Rc\<close> and
  \<open>RefCell\<close> are left out, because nothing writes to a node after the parser built it. Node
  identifiers and positions are \<open>u32\<close> values that the code only copies and compares.
\<close>

section \<open>Leaves\<close>

record location =
  offset_start :: nat
  offset_end :: nat
  start_line :: nat
  start_column :: nat
  end_line :: nat
  end_column :: nat

definition default_location :: location where
  "default_location =
     \<lparr>offset_start = 0, offset_end = 0, start_line = 0, start_column = 0, end_line = 0, end_column = 0\<rparr>"

definition show_location :: "location \<Rightarrow> string" where
  "show_location l = show_nat (start_line l) @ '':'' @ show_nat (start_column l)"

definition u32_max :: nat where
  "u32_max = 4294967295"

datatype visibility = Private | Public

datatype unary_operator_kind = UnOp_Not | UnOp_Neg | UnOp_BitNot

datatype simple_type_kind =
    Simple_Unit | Simple_Bool
  | Simple_I8 | Simple_I16 | Simple_I32 | Simple_I64
  | Simple_U8 | Simple_U16 | Simple_U32 | Simple_U64

primrec simple_type_as_str :: "simple_type_kind \<Rightarrow> string" where
  "simple_type_as_str Simple_Unit = ''unit''"
| "simple_type_as_str Simple_Bool = ''bool''"
| "simple_type_as_str Simple_I8 = ''i8''"
| "simple_type_as_str Simple_I16 = ''i16''"
| "simple_type_as_str Simple_I32 = ''i32''"
| "simple_type_as_str Simple_I64 = ''i64''"
| "simple_type_as_str Simple_U8 = ''u8''"
| "simple_type_as_str Simple_U16 = ''u16''"
| "simple_type_as_str Simple_U32 = ''u32''"
| "simple_type_as_str Simple_U64 = ''u64''"

datatype operator_kind =
    Op_Pow | Op_Add | Op_Sub | Op_Mul | Op_Div | Op_Mod
  | Op_And | Op_Or
  | Op_Eq | Op_Ne | Op_Lt | Op_Le | Op_Gt | Op_Ge
  | Op_BitAnd | Op_BitOr | Op_BitXor | Op_BitNot | Op_Shl | Op_Shr

record ident =
  ident_id :: nat
  ident_location :: location
  ident_name :: string

record generic_type =
  gt_id :: nat
  gt_location :: location
  gt_base :: ident
  gt_parameters :: "ident list"

record qualified_name =
  qn_id :: nat
  qn_location :: location
  qn_qualifier :: ident
  qn_name :: ident

record type_qualified_name =
  tqn_id :: nat
  tqn_location :: location
  tqn_alias :: ident
  tqn_name :: ident

section \<open>Types, expressions and literals\<close>

datatype ty =
    Type_Array nat location ty expression
  | Type_Simple simple_type_kind
  | Type_Generic generic_type
  | Type_Function nat location "ty list option" "ty option"
  | Type_QualifiedName qualified_name
  | Type_Qualified type_qualified_name
  | Type_Custom ident
and expression =
    Expr_ArrayIndexAccess nat location expression expression
  | Expr_Binary nat location expression operator_kind expression
  | Expr_MemberAccess nat location expression ident
  | Expr_TypeMemberAccess nat location expression ident
  | Expr_FunctionCall nat location expression "ident list option"
      "(ident option \<times> expression) list option"
  | Expr_Struct nat location ident "(ident \<times> expression) list option"
  | Expr_PrefixUnary nat location expression unary_operator_kind
  | Expr_Parenthesized nat location expression
  | Expr_Literal literal
  | Expr_Identifier ident
  | Expr_Type ty
  | Expr_Uzumaki nat location
and literal =
    Lit_Array nat location "expression list option"
  | Lit_Bool nat location bool
  | Lit_String nat location string
  | Lit_Number nat location string
  | Lit_Unit nat location

section \<open>Statements\<close>

record constant_definition =
  cd_id :: nat
  cd_location :: location
  cd_visibility :: visibility
  cd_name :: ident
  cd_ty :: ty
  cd_value :: literal

datatype block_type =
    Block_Block nat location "statement list"
  | Block_Assume nat location "statement list"
  | Block_Forall nat location "statement list"
  | Block_Exists nat location "statement list"
  | Block_Unique nat location "statement list"
and statement =
    Stmt_Block block_type
  | Stmt_Expression expression
  | Stmt_Assign nat location expression expression
  | Stmt_Return nat location expression
  | Stmt_Loop nat location "expression option" block_type
  | Stmt_Break nat location
  | Stmt_If nat location expression block_type "block_type option"
  | Stmt_VariableDefinition nat location ident ty "expression option" bool
  | Stmt_TypeDefinition nat location ident ty
  | Stmt_Assert nat location expression
  | Stmt_ConstantDefinition constant_definition

section \<open>Definitions and source files\<close>

record argument =
  arg_id :: nat
  arg_location :: location
  arg_name :: ident
  arg_is_mut :: bool
  arg_ty :: ty

record self_reference =
  self_id :: nat
  self_location :: location
  self_is_mut :: bool

record ignore_argument =
  ig_id :: nat
  ig_location :: location
  ig_ty :: ty

datatype argument_type =
    Arg_SelfReference self_reference
  | Arg_IgnoreArgument ignore_argument
  | Arg_Argument argument
  | Arg_Type ty

record struct_field =
  sf_id :: nat
  sf_location :: location
  sf_name :: ident
  sf_type :: ty

record function_definition =
  fd_id :: nat
  fd_location :: location
  fd_visibility :: visibility
  fd_name :: ident
  fd_type_parameters :: "ident list option"
  fd_arguments :: "argument_type list option"
  fd_returns :: "ty option"
  fd_body :: block_type

record external_function_definition =
  ef_id :: nat
  ef_location :: location
  ef_visibility :: visibility
  ef_name :: ident
  ef_arguments :: "argument_type list option"
  ef_returns :: "ty option"

record struct_definition =
  sd_id :: nat
  sd_location :: location
  sd_visibility :: visibility
  sd_name :: ident
  sd_fields :: "struct_field list"
  sd_methods :: "function_definition list"

record enum_definition =
  ed_id :: nat
  ed_location :: location
  ed_visibility :: visibility
  ed_name :: ident
  ed_variants :: "ident list"

record type_definition =
  td_id :: nat
  td_location :: location
  td_visibility :: visibility
  td_name :: ident
  td_ty :: ty

datatype ast_definition =
    Def_Spec nat location visibility ident "ast_definition list"
  | Def_Struct struct_definition
  | Def_Enum enum_definition
  | Def_Constant constant_definition
  | Def_Function function_definition
  | Def_ExternalFunction external_function_definition
  | Def_Type type_definition
  | Def_Module nat location visibility ident "ast_definition list option"

record use_directive =
  ud_id :: nat
  ud_location :: location
  ud_imported_types :: "ident list option"
  ud_segments :: "ident list option"
  ud_from :: "string option"

datatype directive = Directive_Use use_directive

record source_file =
  src_id :: nat
  src_location :: location
  src_source :: string
  src_directives :: "directive list"
  src_definitions :: "ast_definition list"

datatype ast_node =
    Node_SourceFile source_file
  | Node_Directive directive
  | Node_Definition ast_definition
  | Node_BlockType block_type
  | Node_Statement statement
  | Node_Expression expression
  | Node_Literal literal
  | Node_Type ty
  | Node_ArgumentType argument_type
  | Node_Misc struct_field

section \<open>Identifiers and positions of nodes\<close>

primrec literal_id :: "literal \<Rightarrow> nat" where
  "literal_id (Lit_Array i _ _) = i"
| "literal_id (Lit_Bool i _ _) = i"
| "literal_id (Lit_String i _ _) = i"
| "literal_id (Lit_Number i _ _) = i"
| "literal_id (Lit_Unit i _) = i"

primrec literal_location :: "literal \<Rightarrow> location" where
  "literal_location (Lit_Array _ l _) = l"
| "literal_location (Lit_Bool _ l _) = l"
| "literal_location (Lit_String _ l _) = l"
| "literal_location (Lit_Number _ l _) = l"
| "literal_location (Lit_Unit _ l) = l"

text \<open>A simple type is no arena node: its ident is the sentinel \<open>u32::MAX\<close>.\<close>

primrec type_id :: "ty \<Rightarrow> nat" where
  "type_id (Type_Array i _ _ _) = i"
| "type_id (Type_Simple _) = u32_max"
| "type_id (Type_Generic g) = gt_id g"
| "type_id (Type_Function i _ _ _) = i"
| "type_id (Type_QualifiedName q) = qn_id q"
| "type_id (Type_Qualified q) = tqn_id q"
| "type_id (Type_Custom x) = ident_id x"

primrec type_location :: "ty \<Rightarrow> location" where
  "type_location (Type_Array _ l _ _) = l"
| "type_location (Type_Simple _) = default_location"
| "type_location (Type_Generic g) = gt_location g"
| "type_location (Type_Function _ l _ _) = l"
| "type_location (Type_QualifiedName q) = qn_location q"
| "type_location (Type_Qualified q) = tqn_location q"
| "type_location (Type_Custom x) = ident_location x"

primrec expression_id :: "expression \<Rightarrow> nat" where
  "expression_id (Expr_ArrayIndexAccess i _ _ _) = i"
| "expression_id (Expr_Binary i _ _ _ _) = i"
| "expression_id (Expr_MemberAccess i _ _ _) = i"
| "expression_id (Expr_TypeMemberAccess i _ _ _) = i"
| "expression_id (Expr_FunctionCall i _ _ _ _) = i"
| "expression_id (Expr_Struct i _ _ _) = i"
| "expression_id (Expr_PrefixUnary i _ _ _) = i"
| "expression_id (Expr_Parenthesized i _ _) = i"
| "expression_id (Expr_Literal l) = literal_id l"
| "expression_id (Expr_Identifier x) = ident_id x"
| "expression_id (Expr_Type t) = type_id t"
| "expression_id (Expr_Uzumaki i _) = i"

primrec expression_location :: "expression \<Rightarrow> location" where
  "expression_location (Expr_ArrayIndexAccess _ l _ _) = l"
| "expression_location (Expr_Binary _ l _ _ _) = l"
| "expression_location (Expr_MemberAccess _ l _ _) = l"
| "expression_location (Expr_TypeMemberAccess _ l _ _) = l"
| "expression_location (Expr_FunctionCall _ l _ _ _) = l"
| "expression_location (Expr_Struct _ l _ _) = l"
| "expression_location (Expr_PrefixUnary _ l _ _) = l"
| "expression_location (Expr_Parenthesized _ l _) = l"
| "expression_location (Expr_Literal l) = literal_location l"
| "expression_location (Expr_Identifier x) = ident_location x"
| "expression_location (Expr_Type t) = type_location t"
| "expression_location (Expr_Uzumaki _ l) = l"

primrec block_id :: "block_type \<Rightarrow> nat" where
  "block_id (Block_Block i _ _) = i"
| "block_id (Block_Assume i _ _) = i"
| "block_id (Block_Forall i _ _) = i"
| "block_id (Block_Exists i _ _) = i"
| "block_id (Block_Unique i _ _) = i"

primrec block_location :: "block_type \<Rightarrow> location" where
  "block_location (Block_Block _ l _) = l"
| "block_location (Block_Assume _ l _) = l"
| "block_location (Block_Forall _ l _) = l"
| "block_location (Block_Exists _ l _) = l"
| "block_location (Block_Unique _ l _) = l"

primrec statement_id :: "statement \<Rightarrow> nat" where
  "statement_id (Stmt_Block b) = block_id b"
| "statement_id (Stmt_Expression e) = expression_id e"
| "statement_id (Stmt_Assign i _ _ _) = i"
| "statement_id (Stmt_Return i _ _) = i"
| "statement_id (Stmt_Loop i _ _ _) = i"
| "statement_id (Stmt_Break i _) = i"
| "statement_id (Stmt_If i _ _ _ _) = i"
| "statement_id (Stmt_VariableDefinition i _ _ _ _ _) = i"
| "statement_id (Stmt_TypeDefinition i _ _ _) = i"
| "statement_id (Stmt_Assert i _ _) = i"
| "statement_id (Stmt_ConstantDefinition c) = cd_id c"

primrec statement_location :: "statement \<Rightarrow> location" where
  "statement_location (Stmt_Block b) = block_location b"
| "statement_location (Stmt_Expression e) = expression_location e"
| "statement_location (Stmt_Assign _ l _ _) = l"
| "statement_location (Stmt_Return _ l _) = l"
| "statement_location (Stmt_Loop _ l _ _) = l"
| "statement_location (Stmt_Break _ l) = l"
| "statement_location (Stmt_If _ l _ _ _) = l"
| "statement_location (Stmt_VariableDefinition _ l _ _ _ _) = l"
| "statement_location (Stmt_TypeDefinition _ l _ _) = l"
| "statement_location (Stmt_Assert _ l _) = l"
| "statement_location (Stmt_ConstantDefinition c) = cd_location c"

primrec definition_id :: "ast_definition \<Rightarrow> nat" where
  "definition_id (Def_Spec i _ _ _ _) = i"
| "definition_id (Def_Struct d) = sd_id d"
| "definition_id (Def_Enum d) = ed_id d"
| "definition_id (Def_Constant d) = cd_id d"
| "definition_id (Def_Function d) = fd_id d"
| "definition_id (Def_ExternalFunction d) = ef_id d"
| "definition_id (Def_Type d) = td_id d"
| "definition_id (Def_Module i _ _ _ _) = i"

primrec definition_location :: "ast_definition \<Rightarrow> location" where
  "definition_location (Def_Spec _ l _ _ _) = l"
| "definition_location (Def_Struct d) = sd_location d"
| "definition_location (Def_Enum d) = ed_location d"
| "definition_location (Def_Constant d) = cd_location d"
| "definition_location (Def_Function d) = fd_location d"
| "definition_location (Def_ExternalFunction d) = ef_location d"
| "definition_location (Def_Type d) = td_location d"
| "definition_location (Def_Module _ l _ _ _) = l"

primrec argument_type_id :: "argument_type \<Rightarrow> nat" where
  "argument_type_id (Arg_SelfReference a) = self_id a"
| "argument_type_id (Arg_IgnoreArgument a) = ig_id a"
| "argument_type_id (Arg_Argument a) = arg_id a"
| "argument_type_id (Arg_Type t) = type_id t"

primrec argument_type_location :: "argument_type \<Rightarrow> location" where
  "argument_type_location (Arg_SelfReference a) = self_location a"
| "argument_type_location (Arg_IgnoreArgument a) = ig_location a"
| "argument_type_location (Arg_Argument a) = arg_location a"
| "argument_type_location (Arg_Type t) = type_location t"

fun node_id :: "ast_node \<Rightarrow> nat" where
  "node_id (Node_SourceFile f) = src_id f"
| "node_id (Node_Directive (Directive_Use u)) = ud_id u"
| "node_id (Node_Definition d) = definition_id d"
| "node_id (Node_BlockType b) = block_id b"
| "node_id (Node_Statement s) = statement_id s"
| "node_id (Node_Expression e) = expression_id e"
| "node_id (Node_Literal l) = literal_id l"
| "node_id (Node_Type t) = type_id t"
| "node_id (Node_ArgumentType a) = argument_type_id a"
| "node_id (Node_Misc f) = sf_id f"

fun node_location :: "ast_node \<Rightarrow> location" where
  "node_location (Node_SourceFile f) = src_location f"
| "node_location (Node_Directive (Directive_Use u)) = ud_location u"
| "node_location (Node_Definition d) = definition_location d"
| "node_location (Node_BlockType b) = block_location b"
| "node_location (Node_Statement s) = statement_location s"
| "node_location (Node_Expression e) = expression_location e"
| "node_location (Node_Literal l) = literal_location l"
| "node_location (Node_Type t) = type_location t"
| "node_location (Node_ArgumentType a) = argument_type_location a"
| "node_location (Node_Misc f) = sf_location f"

definition node_start_line :: "ast_node \<Rightarrow> nat" where
  "node_start_line n = start_line (node_location n)"

section \<open>Queries on the tree\<close>

primrec block_statements :: "block_type \<Rightarrow> statement list" where
  "block_statements (Block_Block _ _ ss) = ss"
| "block_statements (Block_Forall _ _ ss) = ss"
| "block_statements (Block_Assume _ _ ss) = ss"
| "block_statements (Block_Exists _ _ ss) = ss"
| "block_statements (Block_Unique _ _ ss) = ss"

fun is_uzumaki :: "expression \<Rightarrow> bool" where
  "is_uzumaki (Expr_Uzumaki _ _) = True"
| "is_uzumaki _ = False"

definition expression_is_non_det :: "expression \<Rightarrow> bool" where
  "expression_is_non_det e = is_uzumaki e"

fun is_plain_block :: "block_type \<Rightarrow> bool" where
  "is_plain_block (Block_Block _ _ _) = True"
| "is_plain_block _ = False"

fun block_is_non_det :: "block_type \<Rightarrow> bool"
and statement_is_non_det :: "statement \<Rightarrow> bool" where
  "block_is_non_det (Block_Block _ _ ss) = list_ex statement_is_non_det ss"
| "block_is_non_det (Block_Assume _ _ _) = True"
| "block_is_non_det (Block_Forall _ _ _) = True"
| "block_is_non_det (Block_Exists _ _ _) = True"
| "block_is_non_det (Block_Unique _ _ _) = True"
| "statement_is_non_det (Stmt_Block b) = (\<not> is_plain_block b)"
| "statement_is_non_det (Stmt_Expression e) = expression_is_non_det e"
| "statement_is_non_det (Stmt_Return _ _ e) = expression_is_non_det e"
| "statement_is_non_det (Stmt_Loop _ _ c _) =
     (case c of None \<Rightarrow> False | Some e \<Rightarrow> expression_is_non_det e)"
| "statement_is_non_det (Stmt_If _ _ c b1 b2) =
     (expression_is_non_det c \<or> block_is_non_det b1
      \<or> (case b2 of None \<Rightarrow> False | Some b \<Rightarrow> block_is_non_det b))"
| "statement_is_non_det (Stmt_VariableDefinition _ _ _ _ v _) =
     (case v of None \<Rightarrow> False | Some e \<Rightarrow> expression_is_non_det e)"
| "statement_is_non_det _ = False"

text \<open>
  \<open>BlockType::is_void\<close>: the nested function looks for a \<open>return\<close> among the statements, and
  into a nested block through the \emph{negated} answer of the recursive call.
\<close>

fun block_is_void :: "block_type \<Rightarrow> bool"
and finds_return :: "statement list \<Rightarrow> bool" where
  "block_is_void (Block_Block _ _ ss) = (\<not> finds_return ss)"
| "block_is_void (Block_Assume _ _ ss) = (\<not> finds_return ss)"
| "block_is_void (Block_Forall _ _ ss) = (\<not> finds_return ss)"
| "block_is_void (Block_Exists _ _ ss) = (\<not> finds_return ss)"
| "block_is_void (Block_Unique _ _ ss) = (\<not> finds_return ss)"
| "finds_return [] = False"
| "finds_return (Stmt_Return _ _ _ # ss) = True"
| "finds_return (Stmt_Block b # ss) = (if block_is_void b then True else finds_return ss)"
| "finds_return (_ # ss) = finds_return ss"

fun type_is_unit :: "ty \<Rightarrow> bool" where
  "type_is_unit (Type_Simple Simple_Unit) = True"
| "type_is_unit _ = False"

definition function_has_parameters :: "function_definition \<Rightarrow> bool" where
  "function_has_parameters f =
     (case fd_arguments f of Some as \<Rightarrow> as \<noteq> [] | None \<Rightarrow> False)"

definition function_is_void :: "function_definition \<Rightarrow> bool" where
  "function_is_void f = (case fd_returns f of None \<Rightarrow> True | Some t \<Rightarrow> type_is_unit t)"

definition function_is_non_det :: "function_definition \<Rightarrow> bool" where
  "function_is_non_det f = block_is_non_det (fd_body f)"

fun function_call_name :: "expression \<Rightarrow> string" where
  "function_call_name (Expr_Identifier x) = ident_name x"
| "function_call_name (Expr_MemberAccess _ _ _ x) = ident_name x"
| "function_call_name _ = []"

fun source_file_specs :: "source_file \<Rightarrow> ast_definition list" where
  "source_file_specs f =
     filter (\<lambda>d. case d of Def_Spec _ _ _ _ _ \<Rightarrow> True | _ \<Rightarrow> False) (src_definitions f)"

definition source_file_functions :: "source_file \<Rightarrow> function_definition list" where
  "source_file_functions f =
     concat (map (\<lambda>d. case d of Def_Function fd \<Rightarrow> [fd] | _ \<Rightarrow> []) (src_definitions f))"

end
