(* ===== verification/AstArena.thy ===== *)
theory AstArena
  imports AstNodes "HOL-Library.Multiset" "HOL-Library.Multiset_Order"
begin

text \<open>
  The node store \<open>core/ast/src/arena.rs\<close>. The three hash maps are partial maps on node
  identifiers. \<open>FxHashMap\<close> iterates in an order the code does not control, so an operation that
  iterates takes the order of the keys as its argument \<open>ord\<close>. \<open>add_node\<close> returns
  \<^term>\<open>None\<close> where one of its assertions fails, and the two loops that follow links
  (\<open>climb_parents\<close>, \<open>children_loop\<close>) are \<^term>\<open>None\<close> where the Rust loop does not end.
\<close>

section \<open>The store\<close>

record arena =
  ar_nodes :: "nat \<rightharpoonup> ast_node"
  ar_parent_map :: "nat \<rightharpoonup> nat"
  ar_children_map :: "nat \<rightharpoonup> nat list"

definition empty_arena :: arena where
  "empty_arena = \<lparr>ar_nodes = Map.empty, ar_parent_map = Map.empty, ar_children_map = Map.empty\<rparr>"

fun is_source_file :: "ast_node \<Rightarrow> bool" where
  "is_source_file (Node_SourceFile _) = True"
| "is_source_file _ = False"

definition list_nodes_cmp :: "nat list \<Rightarrow> arena \<Rightarrow> (ast_node \<Rightarrow> 'a option) \<Rightarrow> 'a list" where
  "list_nodes_cmp ord a cmp = List.map_filter (\<lambda>i. Option.bind (ar_nodes a i) cmp) ord"

definition source_files :: "nat list \<Rightarrow> arena \<Rightarrow> source_file list" where
  "source_files ord a =
     list_nodes_cmp ord a (\<lambda>n. case n of Node_SourceFile f \<Rightarrow> Some f | _ \<Rightarrow> None)"

definition arena_functions :: "nat list \<Rightarrow> arena \<Rightarrow> function_definition list" where
  "arena_functions ord a =
     list_nodes_cmp ord a (\<lambda>n. case n of Node_Definition (Def_Function f) \<Rightarrow> Some f | _ \<Rightarrow> None)"

definition list_type_definitions :: "nat list \<Rightarrow> arena \<Rightarrow> type_definition list" where
  "list_type_definitions ord a =
     list_nodes_cmp ord a (\<lambda>n. case n of Node_Definition (Def_Type t) \<Rightarrow> Some t | _ \<Rightarrow> None)"

definition filter_nodes :: "nat list \<Rightarrow> arena \<Rightarrow> (ast_node \<Rightarrow> bool) \<Rightarrow> ast_node list" where
  "filter_nodes ord a p = filter p (List.map_filter (ar_nodes a) ord)"

definition add_node :: "ast_node \<Rightarrow> nat \<Rightarrow> arena \<Rightarrow> arena option" where
  "add_node node parent a =
     (if node_id node = 0 then None
      else if ar_nodes a (node_id node) \<noteq> None then None
      else
        (let i = node_id node;
             a1 = a\<lparr>ar_nodes := (ar_nodes a)(i \<mapsto> node)\<rparr>
         in if parent \<noteq> u32_max then
              Some (a1\<lparr>ar_parent_map := (ar_parent_map a1)(i \<mapsto> parent),
                       ar_children_map := (ar_children_map a1)(parent \<mapsto>
                         (case ar_children_map a1 parent of None \<Rightarrow> [i] | Some cs \<Rightarrow> cs @ [i]))\<rparr>)
            else Some a1))"

definition find_node :: "arena \<Rightarrow> nat \<Rightarrow> ast_node option" where
  "find_node a i = ar_nodes a i"

definition find_parent_node :: "arena \<Rightarrow> nat \<Rightarrow> nat option" where
  "find_parent_node a i = ar_parent_map a i"

section \<open>Walking up\<close>

partial_function (option) climb_parents :: "(nat \<rightharpoonup> nat) \<Rightarrow> nat \<Rightarrow> nat option" where
  "climb_parents pm i = (case pm i of None \<Rightarrow> Some i | Some p \<Rightarrow> climb_parents pm p)"

definition find_source_file_for_node :: "arena \<Rightarrow> nat \<Rightarrow> nat option option" where
  "find_source_file_for_node a i =
     (case ar_nodes a i of
        None \<Rightarrow> Some None
      | Some node \<Rightarrow>
          if is_source_file node then Some (Some i)
          else do { root \<leftarrow> climb_parents (ar_parent_map a) i;
                    Some (case ar_nodes a root of
                            None \<Rightarrow> None
                          | Some r \<Rightarrow> if is_source_file r then Some root else None) })"

text \<open>
  \<open>str::get(start..end)\<close> also fails when an end of the range is inside a multi-byte character.
\<close>

definition is_char_boundary :: "string \<Rightarrow> nat \<Rightarrow> bool" where
  "is_char_boundary s i \<longleftrightarrow> i = 0 \<or> i = length s
     \<or> (i < length s \<and> ((of_char (s ! i) :: nat) < 128 \<or> 192 \<le> (of_char (s ! i) :: nat)))"

definition str_get :: "string \<Rightarrow> nat \<Rightarrow> nat \<Rightarrow> string option" where
  "str_get s i j =
     (if i \<le> j \<and> is_char_boundary s i \<and> is_char_boundary s j then Some (take (j - i) (drop i s))
      else None)"

definition get_node_source :: "arena \<Rightarrow> nat \<Rightarrow> string option option" where
  "get_node_source a i =
     do { file \<leftarrow> find_source_file_for_node a i;
          Some (do { source_file_id \<leftarrow> file;
                     node \<leftarrow> ar_nodes a i;
                     let loc = node_location node;
                     source_node \<leftarrow> ar_nodes a source_file_id;
                     case source_node of
                       Node_SourceFile sf \<Rightarrow>
                         if offset_start loc \<le> offset_end loc
                            \<and> offset_end loc \<le> length (src_source sf)
                         then str_get (src_source sf) (offset_start loc) (offset_end loc)
                         else None
                     | _ \<Rightarrow> None }) }"

section \<open>Walking down\<close>

definition list_nodes_children :: "arena \<Rightarrow> nat \<Rightarrow> ast_node list" where
  "list_nodes_children a i =
     (case ar_children_map a i of None \<Rightarrow> [] | Some cs \<Rightarrow> List.map_filter (ar_nodes a) cs)"

text \<open>The \<open>while let Some(n) = stack.pop()\<close> loop; the top of the stack is the end of the list.\<close>

partial_function (option) children_loop ::
  "arena \<Rightarrow> (ast_node \<Rightarrow> bool) \<Rightarrow> ast_node list \<Rightarrow> ast_node list \<Rightarrow> ast_node list option" where
  "children_loop a cmp stack result =
     (if stack = [] then Some result
      else
        (let current = last stack
         in children_loop a cmp
              (butlast stack @ filter cmp (list_nodes_children a (node_id current)))
              (if cmp current then result @ [current] else result)))"

definition get_children_cmp :: "arena \<Rightarrow> nat \<Rightarrow> (ast_node \<Rightarrow> bool) \<Rightarrow> ast_node list option" where
  "get_children_cmp a i cmp =
     children_loop a cmp (case find_node a i of None \<Rightarrow> [] | Some n \<Rightarrow> [n]) []"

declare climb_parents.simps [run_simps] and children_loop.simps [run_simps]

section \<open>Well-formed stores\<close>

text \<open>
  What the three maps promise each other: a node is stored under its own identifier, which is
  not zero; the parent link and the children list of a pair of nodes agree; no child is listed
  twice.
\<close>

definition wf_arena :: "arena \<Rightarrow> bool" where
  "wf_arena a \<longleftrightarrow>
     (\<forall>i n. ar_nodes a i = Some n \<longrightarrow> node_id n = i \<and> i \<noteq> 0)
     \<and> (\<forall>i p. ar_parent_map a i = Some p \<longrightarrow>
          ar_nodes a i \<noteq> None \<and> p \<noteq> u32_max \<and> (\<exists>cs. ar_children_map a p = Some cs \<and> i \<in> set cs))
     \<and> (\<forall>p cs. ar_children_map a p = Some cs \<longrightarrow>
          distinct cs \<and> (\<forall>c\<in>set cs. ar_parent_map a c = Some p))"

lemma wf_arena_empty: "wf_arena empty_arena"
  by (simp add: wf_arena_def empty_arena_def)

lemma wf_arenaD:
  assumes "wf_arena a"
  shows "ar_nodes a i = Some n \<Longrightarrow> node_id n = i"
    and "ar_nodes a i = Some n \<Longrightarrow> i \<noteq> 0"
    and "ar_parent_map a i = Some p \<Longrightarrow> ar_nodes a i \<noteq> None"
    and "ar_children_map a p = Some cs \<Longrightarrow> c \<in> set cs \<Longrightarrow> ar_parent_map a c = Some p"
    and "ar_children_map a p = Some cs \<Longrightarrow> distinct cs"
  using assms unfolding wf_arena_def by blast+

lemma wf_arena_child_iff:
  assumes "wf_arena a"
  shows "ar_parent_map a c = Some p \<longleftrightarrow> (\<exists>cs. ar_children_map a p = Some cs \<and> c \<in> set cs)"
  using assms unfolding wf_arena_def by blast

lemma add_node_SomeD:
  assumes "add_node n p a = Some a'"
  shows "node_id n \<noteq> 0" "ar_nodes a (node_id n) = None"
    "ar_nodes a' = (ar_nodes a)(node_id n \<mapsto> n)"
    "ar_parent_map a' = (if p = u32_max then ar_parent_map a else (ar_parent_map a)(node_id n \<mapsto> p))"
    "ar_children_map a' = (if p = u32_max then ar_children_map a
       else (ar_children_map a)(p \<mapsto>
         (case ar_children_map a p of None \<Rightarrow> [] | Some cs \<Rightarrow> cs) @ [node_id n]))"
  using assms by (auto simp: add_node_def Let_def split: if_splits option.splits)

lemma add_node_wf [inv_intros]:
  assumes wf: "wf_arena a" and add: "add_node n p a = Some a'"
  shows "wf_arena a'"
proof -
  note eqs = add_node_SomeD [OF add]
  have fresh: "ar_parent_map a (node_id n) = None"
    using wf eqs(2) by (metis not_None_eq wf_arenaD(3))
  have not_listed: "node_id n \<notin> set cs" if "ar_children_map a q = Some cs" for q cs
    using wf_arenaD(4) [OF wf that] fresh by auto
  show ?thesis
  proof (cases "p = u32_max")
    case True
    with wf eqs(1-3) show ?thesis
      unfolding wf_arena_def eqs by (auto split: if_splits)
  next
    case False
    let ?cs = "case ar_children_map a p of None \<Rightarrow> [] | Some cs \<Rightarrow> cs"
    have cs: "distinct ?cs" "node_id n \<notin> set ?cs" "c \<in> set ?cs \<Longrightarrow> ar_parent_map a c = Some p" for c
      using wf_arenaD(4,5) [OF wf] not_listed by (cases "ar_children_map a p"; simp)+
    have up: "\<exists>cs. ar_children_map a q = Some cs \<and> i \<in> set cs" if "ar_parent_map a i = Some q" for i q
      using wf_arena_child_iff [OF wf] that by blast
    have nodes: "node_id m = i \<and> i \<noteq> 0" if "ar_nodes a' i = Some m" for i m
      using that eqs(1,3) wf_arenaD(1,2) [OF wf] by (auto split: if_splits)
    have parents: "ar_nodes a' i \<noteq> None \<and> q \<noteq> u32_max
        \<and> (\<exists>cs. ar_children_map a' q = Some cs \<and> i \<in> set cs)"
      if "ar_parent_map a' i = Some q" for i q
    proof (cases "i = node_id n")
      case True
      with that False show ?thesis by (simp add: eqs)
    next
      case False
      with that \<open>p \<noteq> u32_max\<close> have q: "ar_parent_map a i = Some q" by (simp add: eqs)
      with wf have "q \<noteq> u32_max" unfolding wf_arena_def by blast
      with up [OF q] wf_arenaD(3) [OF wf q] show ?thesis
        using \<open>p \<noteq> u32_max\<close> by (auto simp: eqs)
    qed
    have children: "distinct ds \<and> (\<forall>c\<in>set ds. ar_parent_map a' c = Some q)"
      if "ar_children_map a' q = Some ds" for q ds
    proof (cases "q = p")
      case True
      with that False have "ds = ?cs @ [node_id n]" by (simp add: eqs)
      with cs False True show ?thesis by (auto simp: eqs)
    next
      case False
      with that \<open>p \<noteq> u32_max\<close> have q: "ar_children_map a q = Some ds" by (simp add: eqs)
      with wf_arenaD(4,5) [OF wf q] not_listed [OF q] \<open>p \<noteq> u32_max\<close> show ?thesis
        by (auto simp: eqs)
    qed
    from nodes parents children show ?thesis
      unfolding wf_arena_def by blast
  qed
qed


section \<open>Walking up ends at the root\<close>

text \<open>
  The builder numbers a node before it builds the node's children, so a parent link always goes
  to a smaller identifier. The loop up the links then ends, at the only ancestor without parent.
\<close>

definition parents_decrease :: "arena \<Rightarrow> bool" where
  "parents_decrease a \<longleftrightarrow> (\<forall>i p. ar_parent_map a i = Some p \<longrightarrow> p < i)"

definition parent_rel :: "(nat \<rightharpoonup> nat) \<Rightarrow> (nat \<times> nat) set" where
  "parent_rel pm = {(i, p). pm i = Some p}"

lemma climb_parents_root:
  assumes dec: "\<And>i p. pm i = Some p \<Longrightarrow> p < i"
  shows "\<exists>r. climb_parents pm i = Some r \<and> pm r = None \<and> (i, r) \<in> (parent_rel pm)\<^sup>*"
proof (induction i rule: less_induct)
  case (less i)
  show ?case
  proof (cases "pm i")
    case None
    then show ?thesis by (simp add: climb_parents.simps)
  next
    case (Some p)
    from less.IH [OF dec [OF Some]] obtain r
      where r: "climb_parents pm p = Some r" "pm r = None" "(p, r) \<in> (parent_rel pm)\<^sup>*" by blast
    have "(i, p) \<in> parent_rel pm" using Some by (simp add: parent_rel_def)
    then have "(i, r) \<in> (parent_rel pm)\<^sup>*" using r(3) by (rule converse_rtrancl_into_rtrancl)
    with r(1,2) Some show ?thesis by (simp add: climb_parents.simps [of pm i])
  qed
qed

lemma root_unique:
  assumes "(i, r) \<in> (parent_rel pm)\<^sup>*" "pm r = None" "(i, q) \<in> (parent_rel pm)\<^sup>*" "pm q = None"
  shows "q = r"
  using assms
proof (induction rule: converse_rtrancl_induct)
  case base
  then show ?case by (auto simp: parent_rel_def elim: converse_rtranclE)
next
  case (step i p)
  from step.hyps(1) have p: "pm i = Some p" by (simp add: parent_rel_def)
  from step.prems(2) have "(p, q) \<in> (parent_rel pm)\<^sup>*"
    using p step.prems(3) by (auto simp: parent_rel_def elim: converse_rtranclE)
  then show ?case using step.IH step.prems(1,3) by simp
qed

section \<open>Walking down visits the selected subtree\<close>

text \<open>
  \<open>below a cmp n m\<close>: from \<open>n\<close>, the node \<open>m\<close> is reached through children that satisfy \<open>cmp\<close>.
\<close>

inductive below :: "arena \<Rightarrow> (ast_node \<Rightarrow> bool) \<Rightarrow> ast_node \<Rightarrow> ast_node \<Rightarrow> bool"
  for a cmp where
  here: "below a cmp n n"
| child: "c \<in> set (list_nodes_children a (node_id n)) \<Longrightarrow> cmp c \<Longrightarrow> below a cmp c m \<Longrightarrow> below a cmp n m"

inductive_cases belowE: "below a cmp n m"

lemma below_unfold:
  "below a cmp n m \<longleftrightarrow>
     m = n \<or> (\<exists>c\<in>set (filter cmp (list_nodes_children a (node_id n))). below a cmp c m)"
  by (auto intro: below.intros elim: belowE)

lemma list_nodes_childrenD:
  assumes wf: "wf_arena a" and dec: "parents_decrease a"
    and mem: "c \<in> set (list_nodes_children a i)"
  shows "ar_nodes a (node_id c) = Some c" "i < node_id c"
proof -
  obtain cs j where cs: "ar_children_map a i = Some cs" "j \<in> set cs" "ar_nodes a j = Some c"
    using mem by (cases "ar_children_map a i") (auto simp: list_nodes_children_def List.map_filter_def)
  from wf_arenaD(1) [OF wf cs(3)] cs(3) show "ar_nodes a (node_id c) = Some c" by simp
  have "ar_parent_map a j = Some i" using wf_arenaD(4) [OF wf cs(1,2)] .
  then have "i < j" using dec by (simp add: parents_decrease_def)
  then show "i < node_id c" using wf_arenaD(1) [OF wf cs(3)] by simp
qed

lemma children_loop_correct:
  assumes wf: "wf_arena a" and dec: "parents_decrease a"
    and bound: "\<And>i n. ar_nodes a i = Some n \<Longrightarrow> i < N"
    and stack: "\<forall>n\<in>set st. ar_nodes a (node_id n) = Some n"
  shows "\<exists>res'. children_loop a cmp st res = Some res'
    \<and> set res' = set res \<union> {m. cmp m \<and> (\<exists>n\<in>set st. below a cmp n m)}"
  using stack
proof (induction "image_mset (\<lambda>n. N - node_id n) (mset st)" arbitrary: st res rule: less_induct)
  case less
  show ?case
  proof (cases "st = []")
    case True
    then show ?thesis by (simp add: children_loop.simps)
  next
    case False
    define top rest where "top = last st" and "rest = butlast st"
    define kids where "kids = filter cmp (list_nodes_children a (node_id top))"
    have st: "st = rest @ [top]" using False by (simp add: top_def rest_def)
    have kids: "ar_nodes a (node_id c) = Some c \<and> node_id top < node_id c" if "c \<in> set kids" for c
      using list_nodes_childrenD [OF wf dec] that by (auto simp: kids_def)
    have top_lt: "node_id top < N" using bound less.prems st by force
    have smaller: "\<forall>k\<in>#image_mset (\<lambda>n. N - node_id n) (mset kids).
        \<exists>j\<in>#{#N - node_id top#}. (k, j) \<in> {(x, y). x < y}"
      using kids top_lt by (auto intro: diff_less_mono2)
    have "image_mset (\<lambda>n. N - node_id n) (mset (rest @ kids)) < image_mset (\<lambda>n. N - node_id n) (mset st)"
      unfolding less_multiset_def st
      using one_step_implies_mult [OF _ smaller, of "image_mset (\<lambda>n. N - node_id n) (mset rest)"]
      by (simp add: multp_def)
    moreover have "\<forall>n\<in>set (rest @ kids). ar_nodes a (node_id n) = Some n"
      using less.prems kids st by auto
    ultimately obtain res' where res':
      "children_loop a cmp (rest @ kids) (if cmp top then res @ [top] else res) = Some res'"
      "set res' = set (if cmp top then res @ [top] else res)
         \<union> {m. cmp m \<and> (\<exists>n\<in>set (rest @ kids). below a cmp n m)}"
      using less.hyps by blast
    have "children_loop a cmp st res = Some res'"
      using False res'(1) by (subst children_loop.simps) (simp add: Let_def top_def rest_def kids_def split: if_splits)
    moreover have "set res' = set res \<union> {m. cmp m \<and> (\<exists>n\<in>set st. below a cmp n m)}"
      unfolding res'(2) using below_unfold [of a cmp top] by (auto simp: st kids_def)
    ultimately show ?thesis by blast
  qed
qed

end
