(* ===== verification/TypeInfos.thy ===== *)
theory TypeInfos
  imports AstNodes
begin

text \<open>
  The type representation of the checker, \<open>core/type-checker/src/type_info.rs\<close>: numeric types,
  type kinds, \<open>TypeInfo\<close>, the conversion from syntax, and substitution of type parameters.
  The conversion returns \<^term>\<open>None\<close> where \<open>extract_array_size\<close> panics.
\<close>

section \<open>Numeric types\<close>

datatype number_type = Num_I8 | Num_I16 | Num_I32 | Num_I64 | Num_U8 | Num_U16 | Num_U32 | Num_U64

definition number_type_all :: "number_type list" where
  "number_type_all = [Num_I8, Num_I16, Num_I32, Num_I64, Num_U8, Num_U16, Num_U32, Num_U64]"

primrec number_type_as_str :: "number_type \<Rightarrow> string" where
  "number_type_as_str Num_I8 = ''i8''"
| "number_type_as_str Num_I16 = ''i16''"
| "number_type_as_str Num_I32 = ''i32''"
| "number_type_as_str Num_I64 = ''i64''"
| "number_type_as_str Num_U8 = ''u8''"
| "number_type_as_str Num_U16 = ''u16''"
| "number_type_as_str Num_U32 = ''u32''"
| "number_type_as_str Num_U64 = ''u64''"

fun number_type_is_signed :: "number_type \<Rightarrow> bool" where
  "number_type_is_signed Num_I8 = True"
| "number_type_is_signed Num_I16 = True"
| "number_type_is_signed Num_I32 = True"
| "number_type_is_signed Num_I64 = True"
| "number_type_is_signed _ = False"

definition number_type_from_str :: "string \<Rightarrow> number_type option" where
  "number_type_from_str s =
     find (\<lambda>nt. eq_ignore_ascii_case (number_type_as_str nt) s) number_type_all"

section \<open>Kinds and types\<close>

datatype type_info = TypeInfo (ti_kind: type_info_kind) (ti_type_params: "string list")
and type_info_kind =
    Kind_Unit
  | Kind_Bool
  | Kind_String
  | Kind_Number number_type
  | Kind_Custom string
  | Kind_Array type_info nat
  | Kind_Generic string
  | Kind_QualifiedName string
  | Kind_Qualified string
  | Kind_Function string
  | Kind_Struct string
  | Kind_Enum string
  | Kind_Spec string

definition default_type_info :: type_info where
  "default_type_info = TypeInfo Kind_Unit []"

definition boolean_type :: type_info where
  "boolean_type = TypeInfo Kind_Bool []"

definition string_type :: type_info where
  "string_type = TypeInfo Kind_String []"

fun show_type_info :: "type_info \<Rightarrow> string"
and show_kind :: "type_info_kind \<Rightarrow> string" where
  "show_type_info (TypeInfo k ps) =
     (if ps = [] then show_kind k
      else show_kind k @ '' '' @ join '' '' (map (\<lambda>tp. tp @ [CHR 0x27]) ps))"
| "show_kind Kind_Unit = ''Unit''"
| "show_kind Kind_Bool = ''Bool''"
| "show_kind Kind_String = ''String''"
| "show_kind (Kind_Number nt) = number_type_as_str nt"
| "show_kind (Kind_Array t n) = ''['' @ show_type_info t @ ''; '' @ show_nat n @ '']''"
| "show_kind (Kind_Custom s) = s"
| "show_kind (Kind_Spec s) = s"
| "show_kind (Kind_Struct s) = s"
| "show_kind (Kind_Enum s) = s"
| "show_kind (Kind_QualifiedName s) = s"
| "show_kind (Kind_Qualified s) = s"
| "show_kind (Kind_Function s) = s"
| "show_kind (Kind_Generic s) = s @ [CHR 0x27]"

definition non_numeric_builtins :: "(string \<times> type_info_kind) list" where
  "non_numeric_builtins = [(''unit'', Kind_Unit), (''bool'', Kind_Bool), (''string'', Kind_String)]"

fun kind_is_number :: "type_info_kind \<Rightarrow> bool" where
  "kind_is_number (Kind_Number _) = True"
| "kind_is_number _ = False"

fun as_builtin_str :: "type_info_kind \<Rightarrow> string option" where
  "as_builtin_str Kind_Unit = Some ''unit''"
| "as_builtin_str Kind_Bool = Some ''bool''"
| "as_builtin_str Kind_String = Some ''string''"
| "as_builtin_str (Kind_Number nt) = Some (number_type_as_str nt)"
| "as_builtin_str _ = None"

definition from_builtin_str :: "string \<Rightarrow> type_info_kind option" where
  "from_builtin_str s =
     (case number_type_from_str s of
        Some nt \<Rightarrow> Some (Kind_Number nt)
      | None \<Rightarrow> map_option snd (find (\<lambda>(name, _). eq_ignore_ascii_case name s) non_numeric_builtins))"

definition is_number :: "type_info \<Rightarrow> bool" where
  "is_number t = kind_is_number (ti_kind t)"

definition is_array :: "type_info \<Rightarrow> bool" where
  "is_array t = (case ti_kind t of Kind_Array _ _ \<Rightarrow> True | _ \<Rightarrow> False)"

definition is_bool :: "type_info \<Rightarrow> bool" where
  "is_bool t = (case ti_kind t of Kind_Bool \<Rightarrow> True | _ \<Rightarrow> False)"

definition is_struct :: "type_info \<Rightarrow> bool" where
  "is_struct t = (case ti_kind t of Kind_Struct _ \<Rightarrow> True | _ \<Rightarrow> False)"

definition is_generic :: "type_info \<Rightarrow> bool" where
  "is_generic t = (case ti_kind t of Kind_Generic _ \<Rightarrow> True | _ \<Rightarrow> False)"

definition is_signed_integer :: "type_info \<Rightarrow> bool" where
  "is_signed_integer t = (case ti_kind t of Kind_Number nt \<Rightarrow> number_type_is_signed nt | _ \<Rightarrow> False)"

section \<open>Conversion from syntax\<close>

text \<open>
  \<open>extract_array_size\<close>: the size must be a numeric literal that \<open>parse::<u32>\<close> accepts; the
  \<open>unwrap\<close>, the \<open>todo!\<close> on an identifier and the final \<open>panic!\<close> are \<^term>\<open>None\<close>.
\<close>

fun extract_array_size :: "expression \<Rightarrow> nat option" where
  "extract_array_size (Expr_Literal (Lit_Number _ _ v)) = parse_u32 v"
| "extract_array_size _ = None"

definition type_kind_from_simple_type :: "string \<Rightarrow> type_info_kind" where
  "type_kind_from_simple_type s =
     (case from_builtin_str s of Some k \<Rightarrow> k | None \<Rightarrow> Kind_Custom s)"

primrec type_kind_from_simple_type_kind :: "simple_type_kind \<Rightarrow> type_info_kind" where
  "type_kind_from_simple_type_kind Simple_Unit = Kind_Unit"
| "type_kind_from_simple_type_kind Simple_Bool = Kind_Bool"
| "type_kind_from_simple_type_kind Simple_I8 = Kind_Number Num_I8"
| "type_kind_from_simple_type_kind Simple_I16 = Kind_Number Num_I16"
| "type_kind_from_simple_type_kind Simple_I32 = Kind_Number Num_I32"
| "type_kind_from_simple_type_kind Simple_I64 = Kind_Number Num_I64"
| "type_kind_from_simple_type_kind Simple_U8 = Kind_Number Num_U8"
| "type_kind_from_simple_type_kind Simple_U16 = Kind_Number Num_U16"
| "type_kind_from_simple_type_kind Simple_U32 = Kind_Number Num_U32"
| "type_kind_from_simple_type_kind Simple_U64 = Kind_Number Num_U64"

fun new_with_type_params :: "ty \<Rightarrow> string list \<Rightarrow> type_info option" where
  "new_with_type_params (Type_Simple k) tps =
     Some (TypeInfo (type_kind_from_simple_type_kind k) [])"
| "new_with_type_params (Type_Generic g) tps =
     Some (TypeInfo (Kind_Generic (ident_name (gt_base g))) (map ident_name (gt_parameters g)))"
| "new_with_type_params (Type_QualifiedName q) tps =
     Some (TypeInfo (Kind_QualifiedName
       (ident_name (qn_qualifier q) @ ''::'' @ ident_name (qn_name q))) [])"
| "new_with_type_params (Type_Qualified q) tps =
     Some (TypeInfo (Kind_Qualified (ident_name (tqn_name q))) [])"
| "new_with_type_params (Type_Array _ _ elem sz) tps =
     do { n \<leftarrow> extract_array_size sz;
          t \<leftarrow> new_with_type_params elem tps;
          Some (TypeInfo (Kind_Array t n) []) }"
| "new_with_type_params (Type_Function _ _ params returns) tps =
     do { param_types \<leftarrow> (case params of
             Some ps \<Rightarrow> map_opt (\<lambda>p. new_with_type_params p tps) ps | None \<Rightarrow> Some []);
          return_type \<leftarrow> (case returns of
             Some r \<Rightarrow> new_with_type_params r tps | None \<Rightarrow> Some default_type_info);
          Some (TypeInfo (Kind_Function (''Function<'' @ show_nat (length param_types) @ '', ''
             @ show_kind (ti_kind return_type) @ ''>'')) []) }"
| "new_with_type_params (Type_Custom c) tps =
     (if ident_name c \<in> set tps then Some (TypeInfo (Kind_Generic (ident_name c)) [])
      else Some (TypeInfo (type_kind_from_simple_type (ident_name c)) []))"

definition type_info_new :: "ty \<Rightarrow> type_info option" where
  "type_info_new t = new_with_type_params t []"

section \<open>Substitution of type parameters\<close>

fun substitute :: "type_info \<Rightarrow> (string \<times> type_info) list \<Rightarrow> type_info" where
  "substitute (TypeInfo (Kind_Generic n) ps) \<sigma> =
     (case map_of \<sigma> n of Some concrete \<Rightarrow> concrete | None \<Rightarrow> TypeInfo (Kind_Generic n) ps)"
| "substitute (TypeInfo (Kind_Array e n) ps) \<sigma> = TypeInfo (Kind_Array (substitute e \<sigma>) n) []"
| "substitute t \<sigma> = t"

fun has_unresolved_params :: "type_info \<Rightarrow> bool" where
  "has_unresolved_params (TypeInfo (Kind_Generic _) _) = True"
| "has_unresolved_params (TypeInfo (Kind_Array e _) _) = has_unresolved_params e"
| "has_unresolved_params _ = False"

section \<open>Facts about builtin names\<close>

lemma number_type_all_complete [simp]: "nt \<in> set number_type_all"
  by (cases nt) (simp_all add: number_type_all_def)

lemma number_type_as_str_inject [simp]:
  "number_type_as_str a = number_type_as_str b \<longleftrightarrow> a = b"
  by (cases a; cases b) simp_all

lemma number_type_as_str_lower [simp]: "to_lowercase (number_type_as_str nt) = number_type_as_str nt"
  by (cases nt) (simp_all add: to_lowercase_def ascii_lower_char_def)

lemma lower_builtins [simp]:
  "to_lowercase ''unit'' = ''unit''" "to_lowercase ''bool'' = ''bool''"
  "to_lowercase ''string'' = ''string''"
  by (simp_all add: to_lowercase_def ascii_lower_char_def)

lemma number_type_from_str_iff:
  "number_type_from_str s = Some nt \<longleftrightarrow> to_lowercase s = number_type_as_str nt"
proof
  assume "number_type_from_str s = Some nt"
  then show "to_lowercase s = number_type_as_str nt"
    by (auto simp: number_type_from_str_def find_Some_iff eq_ignore_ascii_case_def)
next
  assume eq: "to_lowercase s = number_type_as_str nt"
  then have "number_type_from_str s \<noteq> None"
    by (auto simp: number_type_from_str_def find_None_iff eq_ignore_ascii_case_def)
  then obtain nt' where nt': "number_type_from_str s = Some nt'" by auto
  then have "to_lowercase s = number_type_as_str nt'"
    by (auto simp: number_type_from_str_def find_Some_iff eq_ignore_ascii_case_def)
  with eq nt' show "number_type_from_str s = Some nt" by simp
qed

lemma number_type_from_str_None_iff:
  "number_type_from_str s = None \<longleftrightarrow> (\<forall>nt. to_lowercase s \<noteq> number_type_as_str nt)"
  by (metis not_Some_eq number_type_from_str_iff)

lemma number_type_as_str_cases:
  "number_type_as_str nt \<noteq> ''unit''" "number_type_as_str nt \<noteq> ''bool''"
  "number_type_as_str nt \<noteq> ''string''"
  by (cases nt; simp)+

lemma from_builtin_str_iff:
  "from_builtin_str s = Some k \<longleftrightarrow> as_builtin_str k = Some (to_lowercase s)"
proof (cases "number_type_from_str s")
  case (Some nt)
  then have "to_lowercase s = number_type_as_str nt"
    by (simp add: number_type_from_str_iff)
  with Some show ?thesis
    by (cases k) (auto simp: from_builtin_str_def dest: number_type_as_str_cases [THEN notE, OF sym])
next
  case None
  then have "to_lowercase s \<noteq> number_type_as_str nt" for nt
    by (simp add: number_type_from_str_None_iff)
  with None show ?thesis
    by (cases k) (auto simp: from_builtin_str_def non_numeric_builtins_def eq_ignore_ascii_case_def
        dest: sym)
qed

end
