(* ===== verification/TcErrors.thy ===== *)
theory TcErrors
  imports TypeInfos
begin

text \<open>
  The errors of the type checker, \<open>core/type-checker/src/errors.rs\<close>: the error values with
  their context, the messages \<open>thiserror\<close> derives from the \<open>#[error(...)]\<close> attributes, and the
  source position of an error.
\<close>

section \<open>Contexts\<close>

datatype registration_kind =
    Reg_Type | Reg_Struct | Reg_Enum | Reg_Spec | Reg_Function | Reg_Method | Reg_Variable

primrec show_registration_kind :: "registration_kind \<Rightarrow> string" where
  "show_registration_kind Reg_Type = ''type''"
| "show_registration_kind Reg_Struct = ''struct''"
| "show_registration_kind Reg_Enum = ''enum''"
| "show_registration_kind Reg_Spec = ''spec''"
| "show_registration_kind Reg_Function = ''function''"
| "show_registration_kind Reg_Method = ''method''"
| "show_registration_kind Reg_Variable = ''variable''"

datatype type_mismatch_context =
    Mismatch_Assignment
  | Mismatch_Return
  | Mismatch_VariableDefinition
  | Mismatch_BinaryOperation operator_kind
  | Mismatch_Condition
  | Mismatch_FunctionArgument string string nat
  | Mismatch_MethodArgument string string string nat
  | Mismatch_ArrayElement

text \<open>The derived \<open>Debug\<close> output of the operator enums.\<close>

primrec debug_operator :: "operator_kind \<Rightarrow> string" where
  "debug_operator Op_Pow = ''Pow''"
| "debug_operator Op_Add = ''Add''"
| "debug_operator Op_Sub = ''Sub''"
| "debug_operator Op_Mul = ''Mul''"
| "debug_operator Op_Div = ''Div''"
| "debug_operator Op_Mod = ''Mod''"
| "debug_operator Op_And = ''And''"
| "debug_operator Op_Or = ''Or''"
| "debug_operator Op_Eq = ''Eq''"
| "debug_operator Op_Ne = ''Ne''"
| "debug_operator Op_Lt = ''Lt''"
| "debug_operator Op_Le = ''Le''"
| "debug_operator Op_Gt = ''Gt''"
| "debug_operator Op_Ge = ''Ge''"
| "debug_operator Op_BitAnd = ''BitAnd''"
| "debug_operator Op_BitOr = ''BitOr''"
| "debug_operator Op_BitXor = ''BitXor''"
| "debug_operator Op_BitNot = ''BitNot''"
| "debug_operator Op_Shl = ''Shl''"
| "debug_operator Op_Shr = ''Shr''"

primrec debug_unary_operator :: "unary_operator_kind \<Rightarrow> string" where
  "debug_unary_operator UnOp_Not = ''Not''"
| "debug_unary_operator UnOp_Neg = ''Neg''"
| "debug_unary_operator UnOp_BitNot = ''BitNot''"

definition tick :: "string \<Rightarrow> string" where
  "tick s = [CHR 0x60] @ s @ [CHR 0x60]"

primrec show_mismatch_context :: "type_mismatch_context \<Rightarrow> string" where
  "show_mismatch_context Mismatch_Assignment = ''in assignment''"
| "show_mismatch_context Mismatch_Return = ''in return statement''"
| "show_mismatch_context Mismatch_VariableDefinition = ''in variable definition''"
| "show_mismatch_context (Mismatch_BinaryOperation op) =
     ''in binary operation '' @ tick (debug_operator op)"
| "show_mismatch_context Mismatch_Condition = ''in condition''"
| "show_mismatch_context (Mismatch_FunctionArgument f a i) =
     ''in argument '' @ show_nat i @ '' '' @ tick a @ '' of function '' @ tick f"
| "show_mismatch_context (Mismatch_MethodArgument t m a i) =
     ''in argument '' @ show_nat i @ '' '' @ tick a @ '' of method '' @ tick (t @ ''::'' @ m)"
| "show_mismatch_context Mismatch_ArrayElement = ''in array element''"

datatype visibility_context =
    Vis_Function string
  | Vis_Struct string
  | Vis_Enum string
  | Vis_Field string string
  | Vis_Method string string
  | Vis_Import string

primrec show_visibility_context :: "visibility_context \<Rightarrow> string" where
  "show_visibility_context (Vis_Function n) = ''function '' @ tick n"
| "show_visibility_context (Vis_Struct n) = ''struct '' @ tick n"
| "show_visibility_context (Vis_Enum n) = ''enum '' @ tick n"
| "show_visibility_context (Vis_Field s f) = ''field '' @ tick f @ '' of struct '' @ tick s"
| "show_visibility_context (Vis_Method t m) = ''method '' @ tick m @ '' on type '' @ tick t"
| "show_visibility_context (Vis_Import p) = ''item '' @ tick p"

section \<open>Errors\<close>

text \<open>The fields stand in the order of the source; the location is the last one.\<close>

datatype type_check_error =
    TypeMismatch type_info type_info type_mismatch_context location
  | UnknownType string location
  | UnknownIdentifier string location
  | UndefinedFunction string location
  | UndefinedStruct string location
  | FieldNotFound string string location
  | VariantNotFound string string location
  | UndefinedEnum string location
  | ExpectedEnumType type_info location
  | MethodNotFound string string location
  | ArgumentCountMismatch string string nat nat location
  | TypeParameterCountMismatch string nat nat location
  | MissingTypeParameters string nat location
  | InvalidBinaryOperand operator_kind string string "type_info \<times> type_info" location
  | InvalidUnaryOperand unary_operator_kind string type_info location
  | BinaryOperandTypeMismatch operator_kind type_info type_info location
  | SelfReferenceInFunction string location
  | SelfReferenceOutsideMethod location
  | ImportResolutionFailed string location
  | CircularImport string location
  | EmptyGlobImport location
  | RegistrationFailed registration_kind string "string option" location
  | ExpectedArrayType type_info location
  | ExpectedStructType type_info location
  | MethodCallOnNonStruct type_info location
  | ArrayIndexNotNumeric type_info location
  | ArrayElementTypeMismatch type_info type_info location
  | CannotInferUzumakiType location
  | CannotInferTypeParameter string string location
  | ConflictingTypeInference string type_info type_info location
  | PrivateAccessViolation visibility_context location
  | InstanceMethodCalledAsAssociated string string location
  | AssociatedFunctionCalledAsMethod string string location

primrec error_location :: "type_check_error \<Rightarrow> location" where
  "error_location (TypeMismatch _ _ _ l) = l"
| "error_location (UnknownType _ l) = l"
| "error_location (UnknownIdentifier _ l) = l"
| "error_location (UndefinedFunction _ l) = l"
| "error_location (UndefinedStruct _ l) = l"
| "error_location (FieldNotFound _ _ l) = l"
| "error_location (VariantNotFound _ _ l) = l"
| "error_location (UndefinedEnum _ l) = l"
| "error_location (ExpectedEnumType _ l) = l"
| "error_location (MethodNotFound _ _ l) = l"
| "error_location (ArgumentCountMismatch _ _ _ _ l) = l"
| "error_location (TypeParameterCountMismatch _ _ _ l) = l"
| "error_location (MissingTypeParameters _ _ l) = l"
| "error_location (InvalidBinaryOperand _ _ _ _ l) = l"
| "error_location (InvalidUnaryOperand _ _ _ l) = l"
| "error_location (BinaryOperandTypeMismatch _ _ _ l) = l"
| "error_location (SelfReferenceInFunction _ l) = l"
| "error_location (SelfReferenceOutsideMethod l) = l"
| "error_location (ImportResolutionFailed _ l) = l"
| "error_location (CircularImport _ l) = l"
| "error_location (EmptyGlobImport l) = l"
| "error_location (RegistrationFailed _ _ _ l) = l"
| "error_location (ExpectedArrayType _ l) = l"
| "error_location (ExpectedStructType _ l) = l"
| "error_location (MethodCallOnNonStruct _ l) = l"
| "error_location (ArrayIndexNotNumeric _ l) = l"
| "error_location (ArrayElementTypeMismatch _ _ l) = l"
| "error_location (CannotInferUzumakiType l) = l"
| "error_location (CannotInferTypeParameter _ _ l) = l"
| "error_location (ConflictingTypeInference _ _ _ l) = l"
| "error_location (PrivateAccessViolation _ l) = l"
| "error_location (InstanceMethodCalledAsAssociated _ _ l) = l"
| "error_location (AssociatedFunctionCalledAsMethod _ _ l) = l"

text \<open>The text after the position, one equation per \<open>#[error(...)]\<close> attribute.\<close>

primrec error_body :: "type_check_error \<Rightarrow> string" where
  "error_body (TypeMismatch expected found ctx _) =
     ''type mismatch '' @ show_mismatch_context ctx @ '': expected '' @ tick (show_type_info expected)
     @ '', found '' @ tick (show_type_info found)"
| "error_body (UnknownType n _) = ''unknown type '' @ tick n"
| "error_body (UnknownIdentifier n _) = ''use of undeclared variable '' @ tick n"
| "error_body (UndefinedFunction n _) = ''call to undefined function '' @ tick n"
| "error_body (UndefinedStruct n _) = ''struct '' @ tick n @ '' is not defined''"
| "error_body (FieldNotFound s f _) =
     ''field '' @ tick f @ '' not found on struct '' @ tick s"
| "error_body (VariantNotFound e v _) =
     ''variant '' @ tick v @ '' not found on enum '' @ tick e"
| "error_body (UndefinedEnum n _) = ''enum '' @ tick n @ '' is not defined''"
| "error_body (ExpectedEnumType t _) =
     ''type member access requires an enum type, found '' @ tick (show_type_info t)"
| "error_body (MethodNotFound t m _) =
     ''method '' @ tick m @ '' not found on type '' @ tick t"
| "error_body (ArgumentCountMismatch k n expected found _) =
     k @ '' '' @ tick n @ '' expects '' @ show_nat expected @ '' arguments, but ''
     @ show_nat found @ '' provided''"
| "error_body (TypeParameterCountMismatch n expected found _) =
     ''type parameter count mismatch for '' @ tick n @ '': expected '' @ show_nat expected
     @ '', found '' @ show_nat found"
| "error_body (MissingTypeParameters f expected _) =
     ''function '' @ tick f @ '' requires '' @ show_nat expected
     @ '' type parameters, but none were provided''"
| "error_body (InvalidBinaryOperand op k desc _ _) =
     k @ '' operator '' @ tick (debug_operator op) @ '' cannot be applied to '' @ desc"
| "error_body (InvalidUnaryOperand op expected found _) =
     ''unary operator '' @ tick (debug_unary_operator op) @ '' can only be applied to '' @ expected
     @ '', found '' @ tick (show_type_info found)"
| "error_body (BinaryOperandTypeMismatch op l r _) =
     ''cannot apply operator '' @ tick (debug_operator op) @ '' to operands of different types: ''
     @ tick (show_type_info l) @ '' and '' @ tick (show_type_info r)"
| "error_body (SelfReferenceInFunction f _) =
     ''self reference not allowed in standalone function '' @ tick f"
| "error_body (SelfReferenceOutsideMethod _) =
     ''self reference is only allowed in methods, not functions''"
| "error_body (ImportResolutionFailed p _) = ''cannot resolve import path: '' @ p"
| "error_body (CircularImport p _) = ''circular glob import detected: '' @ p @ ''::*''"
| "error_body (EmptyGlobImport _) = ''glob import path cannot be empty''"
| "error_body (RegistrationFailed k n reason _) =
     ''error registering '' @ show_registration_kind k @ '' '' @ tick n
     @ (case reason of None \<Rightarrow> [] | Some r \<Rightarrow> '': '' @ r)"
| "error_body (ExpectedArrayType t _) =
     ''expected an array type, found '' @ tick (show_type_info t)"
| "error_body (ExpectedStructType t _) =
     ''member access requires a struct type, found '' @ tick (show_type_info t)"
| "error_body (MethodCallOnNonStruct t _) =
     ''cannot call method on non-struct type '' @ tick (show_type_info t)"
| "error_body (ArrayIndexNotNumeric t _) =
     ''array index must be of number type, found '' @ tick (show_type_info t)"
| "error_body (ArrayElementTypeMismatch expected found _) =
     ''array elements must be of the same type: expected '' @ tick (show_type_info expected)
     @ '', found '' @ tick (show_type_info found)"
| "error_body (CannotInferUzumakiType _) =
     ''cannot infer type for uzumaki expression assigned to variable of unknown type''"
| "error_body (CannotInferTypeParameter f p _) =
     ''cannot infer type parameter '' @ tick p @ '' for '' @ tick f
     @ '' - consider adding explicit type arguments''"
| "error_body (ConflictingTypeInference p first second _) =
     ''conflicting types for type parameter '' @ tick p @ '': inferred ''
     @ tick (show_type_info first) @ '' and '' @ tick (show_type_info second)"
| "error_body (PrivateAccessViolation ctx _) =
     ''cannot access private '' @ show_visibility_context ctx"
| "error_body (InstanceMethodCalledAsAssociated t m _) =
     ''instance method '' @ tick (t @ ''::'' @ m) @ '' requires a receiver, use ''
     @ tick (''instance.'' @ m @ ''()'') @ '' instead''"
| "error_body (AssociatedFunctionCalledAsMethod t m _) =
     ''associated function '' @ tick (t @ ''::'' @ m) @ '' cannot be called on an instance, use ''
     @ tick (t @ ''::'' @ m @ ''()'') @ '' instead''"

definition show_error :: "type_check_error \<Rightarrow> string" where
  "show_error e = show_location (error_location e) @ '': '' @ error_body e"

lemma show_error_not_Nil [simp]: "show_error e \<noteq> []"
  by (simp add: show_error_def)

end
