(* ===== verification/Scopes.thy ===== *)
theory Scopes
  imports TcErrors AstArena
begin

text \<open>
  The symbol table, \<open>core/type-checker/src/symbol_table.rs\<close>: a tree of scopes with their
  symbols, variables, methods and imports.

  A \<open>ScopeRef\<close> (\<open>Rc<RefCell<Scope>>\<close>) is the identifier of a scope in \<open>st_scopes\<close>, which holds
  every scope ever created; writing through a reference is an update of that map, so all holders
  of the reference see it. Reading through a reference that is not in the map, or climbing a
  parent chain that does not end, is \<^term>\<open>None\<close>; the invariant \<open>wf_symtab\<close> excludes both. Scope
  identifiers are natural numbers: the code increments a \<open>u32\<close> once per scope.
\<close>

section \<open>Symbols\<close>

record func_info =
  fi_name :: string
  fi_type_params :: "string list"
  fi_param_types :: "type_info list"
  fi_return_type :: type_info
  fi_visibility :: visibility
  fi_definition_scope_id :: nat

record struct_field_info =
  sfi_name :: string
  sfi_type_info :: type_info
  sfi_visibility :: visibility

record struct_info =
  si_name :: string
  si_fields :: "string \<rightharpoonup> struct_field_info"
  si_type_params :: "string list"
  si_visibility :: visibility
  si_definition_scope_id :: nat

record enum_info =
  ei_name :: string
  ei_variants :: "string set"
  ei_visibility :: visibility
  ei_definition_scope_id :: nat

record method_info =
  mi_signature :: func_info
  mi_visibility :: visibility
  mi_scope_id :: nat
  mi_has_self :: bool

definition is_instance_method :: "method_info \<Rightarrow> bool" where
  "is_instance_method m = mi_has_self m"

record import_item =
  ii_name :: string
  ii_alias :: "string option"

datatype import_kind = Import_Plain | Import_Glob | Import_Partial "import_item list"

record import_decl =
  imp_path :: "string list"
  imp_kind :: import_kind
  imp_location :: location

datatype symbol =
    Sym_TypeAlias type_info
  | Sym_Struct struct_info
  | Sym_Enum enum_info
  | Sym_Spec string
  | Sym_Function func_info

record resolved_import =
  ri_local_name :: string
  ri_symbol :: symbol
  ri_definition_scope_id :: nat

fun symbol_name :: "symbol \<Rightarrow> string" where
  "symbol_name (Sym_TypeAlias ti) = show_type_info ti"
| "symbol_name (Sym_Struct i) = si_name i"
| "symbol_name (Sym_Enum i) = ei_name i"
| "symbol_name (Sym_Spec n) = n"
| "symbol_name (Sym_Function f) = fi_name f"

fun as_function :: "symbol \<Rightarrow> func_info option" where
  "as_function (Sym_Function f) = Some f"
| "as_function _ = None"

fun as_struct :: "symbol \<Rightarrow> struct_info option" where
  "as_struct (Sym_Struct i) = Some i"
| "as_struct _ = None"

fun as_enum :: "symbol \<Rightarrow> enum_info option" where
  "as_enum (Sym_Enum i) = Some i"
| "as_enum _ = None"

fun as_type_info :: "symbol \<Rightarrow> type_info option" where
  "as_type_info (Sym_TypeAlias ti) = Some ti"
| "as_type_info (Sym_Struct i) = Some (TypeInfo (Kind_Struct (si_name i)) (si_type_params i))"
| "as_type_info (Sym_Enum i) = Some (TypeInfo (Kind_Enum (ei_name i)) [])"
| "as_type_info (Sym_Spec n) = Some (TypeInfo (Kind_Spec n) [])"
| "as_type_info (Sym_Function _) = None"

fun symbol_is_public :: "symbol \<Rightarrow> bool" where
  "symbol_is_public (Sym_TypeAlias _) = True"
| "symbol_is_public (Sym_Struct i) = (si_visibility i = Public)"
| "symbol_is_public (Sym_Enum i) = (ei_visibility i = Public)"
| "symbol_is_public (Sym_Spec _) = True"
| "symbol_is_public (Sym_Function f) = (fi_visibility f = Public)"

section \<open>Scopes\<close>

record scope =
  sc_id :: nat
  sc_name :: string
  sc_full_path :: string
  sc_visibility :: visibility
  sc_parent :: "nat option"
  sc_children :: "nat list"
  sc_symbols :: "string \<rightharpoonup> symbol"
  sc_variables :: "string \<rightharpoonup> nat \<times> type_info"
  sc_methods :: "string \<rightharpoonup> method_info list"
  sc_imports :: "import_decl list"
  sc_resolved_imports :: "string \<rightharpoonup> resolved_import"

definition scope_new :: "nat \<Rightarrow> string \<Rightarrow> string \<Rightarrow> visibility \<Rightarrow> nat option \<Rightarrow> scope" where
  "scope_new i nm path vis par =
     \<lparr>sc_id = i, sc_name = nm, sc_full_path = path, sc_visibility = vis, sc_parent = par,
      sc_children = [], sc_symbols = Map.empty, sc_variables = Map.empty, sc_methods = Map.empty,
      sc_imports = [], sc_resolved_imports = Map.empty\<rparr>"

definition scope_add_child :: "nat \<Rightarrow> scope \<Rightarrow> scope" where
  "scope_add_child c sc = sc\<lparr>sc_children := sc_children sc @ [c]\<rparr>"

definition scope_insert_symbol :: "string \<Rightarrow> symbol \<Rightarrow> scope \<Rightarrow> string + scope" where
  "scope_insert_symbol n sy sc =
     (case sc_symbols sc n of
        Some _ \<Rightarrow> Inl (''Symbol '' @ tick n @ '' already exists in this scope'')
      | None \<Rightarrow> Inr (sc\<lparr>sc_symbols := (sc_symbols sc)(n \<mapsto> sy)\<rparr>))"

definition lookup_symbol_local :: "string \<Rightarrow> scope \<Rightarrow> symbol option" where
  "lookup_symbol_local n sc = sc_symbols sc n"

definition scope_insert_variable :: "string \<Rightarrow> nat \<Rightarrow> type_info \<Rightarrow> scope \<Rightarrow> string + scope" where
  "scope_insert_variable n node t sc =
     (case sc_variables sc n of
        Some _ \<Rightarrow> Inl (''Variable '' @ tick n @ '' already declared in this scope'')
      | None \<Rightarrow> Inr (sc\<lparr>sc_variables := (sc_variables sc)(n \<mapsto> (node, t))\<rparr>))"

definition lookup_variable_local :: "string \<Rightarrow> scope \<Rightarrow> (nat \<times> type_info) option" where
  "lookup_variable_local n sc = sc_variables sc n"

definition scope_insert_method :: "string \<Rightarrow> method_info \<Rightarrow> scope \<Rightarrow> scope" where
  "scope_insert_method ty_name m sc =
     sc\<lparr>sc_methods := (sc_methods sc)(ty_name \<mapsto>
        (case sc_methods sc ty_name of None \<Rightarrow> [] | Some ms \<Rightarrow> ms) @ [m])\<rparr>"

definition lookup_method_local :: "string \<Rightarrow> string \<Rightarrow> scope \<Rightarrow> method_info option" where
  "lookup_method_local ty_name m_name sc =
     (case sc_methods sc ty_name of
        None \<Rightarrow> None
      | Some ms \<Rightarrow> find (\<lambda>m. fi_name (mi_signature m) = m_name) ms)"

definition scope_add_import :: "import_decl \<Rightarrow> scope \<Rightarrow> scope" where
  "scope_add_import i sc = sc\<lparr>sc_imports := sc_imports sc @ [i]\<rparr>"

definition scope_add_resolved_import :: "resolved_import \<Rightarrow> scope \<Rightarrow> scope" where
  "scope_add_resolved_import r sc =
     sc\<lparr>sc_resolved_imports := (sc_resolved_imports sc)(ri_local_name r \<mapsto> r)\<rparr>"

definition lookup_resolved_import :: "string \<Rightarrow> scope \<Rightarrow> resolved_import option" where
  "lookup_resolved_import n sc = sc_resolved_imports sc n"

text \<open>
  The recursion \<open>lookup_symbol\<close>, \<open>lookup_variable\<close> and \<open>lookup_method\<close> share: ask the scope
  itself, then its parent. The outer option is about returning, the inner one is the answer.
\<close>

partial_function (option) lookup_up ::
  "(scope \<Rightarrow> 'a option) \<Rightarrow> (nat \<rightharpoonup> scope) \<Rightarrow> nat \<Rightarrow> 'a option option" where
  "lookup_up local_lookup ss i =
     (case ss i of
        None \<Rightarrow> None
      | Some sc \<Rightarrow>
          (case local_lookup sc of
             Some x \<Rightarrow> Some (Some x)
           | None \<Rightarrow>
               (case sc_parent sc of
                  Some p \<Rightarrow> lookup_up local_lookup ss p
                | None \<Rightarrow> Some None)))"

declare lookup_up.simps [run_simps]

definition scope_lookup_symbol :: "(nat \<rightharpoonup> scope) \<Rightarrow> nat \<Rightarrow> string \<Rightarrow> symbol option option" where
  "scope_lookup_symbol ss i n = lookup_up (lookup_symbol_local n) ss i"

definition scope_lookup_variable :: "(nat \<rightharpoonup> scope) \<Rightarrow> nat \<Rightarrow> string \<Rightarrow> type_info option option" where
  "scope_lookup_variable ss i n = lookup_up (\<lambda>sc. map_option snd (lookup_variable_local n sc)) ss i"

definition scope_lookup_method ::
  "(nat \<rightharpoonup> scope) \<Rightarrow> nat \<Rightarrow> string \<Rightarrow> string \<Rightarrow> method_info option option" where
  "scope_lookup_method ss i ty_name m_name = lookup_up (lookup_method_local ty_name m_name) ss i"

section \<open>The table\<close>

record symbol_table =
  st_scopes :: "nat \<rightharpoonup> scope"
  st_mod_scopes :: "string \<rightharpoonup> nat"
  st_root_scope :: "nat option"
  st_current_scope :: "nat option"
  st_next_scope_id :: nat

text \<open>Writing through a reference.\<close>

definition modify_scope :: "nat \<Rightarrow> (scope \<Rightarrow> scope) \<Rightarrow> symbol_table \<Rightarrow> symbol_table option" where
  "modify_scope i f st =
     (case st_scopes st i of
        None \<Rightarrow> None
      | Some sc \<Rightarrow> Some (st\<lparr>st_scopes := (st_scopes st)(i \<mapsto> f sc)\<rparr>))"

definition try_modify_scope ::
  "nat \<Rightarrow> (scope \<Rightarrow> string + scope) \<Rightarrow> symbol_table \<Rightarrow> (string + symbol_table) option" where
  "try_modify_scope i f st =
     (case st_scopes st i of
        None \<Rightarrow> None
      | Some sc \<Rightarrow>
          Some (case f sc of
                  Inl e \<Rightarrow> Inl e
                | Inr sc' \<Rightarrow> Inr (st\<lparr>st_scopes := (st_scopes st)(i \<mapsto> sc')\<rparr>)))"

definition init_root_scope :: "symbol_table \<Rightarrow> symbol_table" where
  "init_root_scope st =
     (let i = st_next_scope_id st;
          root = scope_new i ''root'' [] Public None
      in st\<lparr>st_scopes := (st_scopes st)(i \<mapsto> root),
            st_mod_scopes := (st_mod_scopes st)([] \<mapsto> i),
            st_next_scope_id := i + 1,
            st_root_scope := Some i,
            st_current_scope := Some i\<rparr>)"

definition insert_builtin :: "string \<Rightarrow> type_info_kind \<Rightarrow> scope \<Rightarrow> scope" where
  "insert_builtin n k sc =
     (case scope_insert_symbol n (Sym_TypeAlias (TypeInfo k [])) sc of Inl _ \<Rightarrow> sc | Inr sc' \<Rightarrow> sc')"

definition init_builtin_types :: "symbol_table \<Rightarrow> symbol_table" where
  "init_builtin_types st =
     (case st_current_scope st of
        None \<Rightarrow> st
      | Some c \<Rightarrow>
          (case st_scopes st c of
             None \<Rightarrow> st
           | Some sc \<Rightarrow>
               (let sc1 = fold (\<lambda>nt. insert_builtin (number_type_as_str nt) (Kind_Number nt))
                            number_type_all sc;
                    sc2 = fold (\<lambda>(n, k). insert_builtin n k) non_numeric_builtins sc1
                in st\<lparr>st_scopes := (st_scopes st)(c \<mapsto> sc2)\<rparr>)))"

definition default_symbol_table :: symbol_table where
  "default_symbol_table =
     init_builtin_types (init_root_scope
       \<lparr>st_scopes = Map.empty, st_mod_scopes = Map.empty, st_root_scope = None,
        st_current_scope = None, st_next_scope_id = 0\<rparr>)"

definition push_scope_with_name ::
  "string \<Rightarrow> visibility \<Rightarrow> symbol_table \<Rightarrow> (nat \<times> symbol_table) option" where
  "push_scope_with_name n vis st =
     do { let parent = st_current_scope st;
          let i = st_next_scope_id st;
          full_path \<leftarrow>
            (case parent of
               Some p \<Rightarrow>
                 do { psc \<leftarrow> st_scopes st p;
                      Some (if sc_full_path psc = [] then n else sc_full_path psc @ ''::'' @ n) }
             | None \<Rightarrow> Some n);
          let new_scope = scope_new i n full_path vis parent;
          st1 \<leftarrow> (case parent of
                    Some p \<Rightarrow> modify_scope p (scope_add_child i) st
                  | None \<Rightarrow> Some st);
          Some (i, st1\<lparr>st_scopes := (st_scopes st1)(i \<mapsto> new_scope),
                       st_current_scope := Some i,
                       st_next_scope_id := i + 1\<rparr>) }"

definition push_scope :: "symbol_table \<Rightarrow> (nat \<times> symbol_table) option" where
  "push_scope st =
     push_scope_with_name (''anonymous_'' @ show_nat (st_next_scope_id st)) Private st"

definition pop_scope :: "symbol_table \<Rightarrow> symbol_table option" where
  "pop_scope st =
     (case st_current_scope st of
        None \<Rightarrow> Some st
      | Some c \<Rightarrow>
          do { sc \<leftarrow> st_scopes st c; Some (st\<lparr>st_current_scope := sc_parent sc\<rparr>) })"

section \<open>Registration in the current scope\<close>

definition register_symbol :: "string \<Rightarrow> string \<Rightarrow> (nat \<Rightarrow> symbol) \<Rightarrow> symbol_table
    \<Rightarrow> (string + symbol_table) option" where
  "register_symbol what n mk st =
     (case st_current_scope st of
        None \<Rightarrow> Some (Inl (''No active scope to register '' @ what))
      | Some c \<Rightarrow> do { sc \<leftarrow> st_scopes st c;
                       try_modify_scope c (scope_insert_symbol n (mk (sc_id sc))) st })"

definition register_type :: "string \<Rightarrow> ty option \<Rightarrow> symbol_table \<Rightarrow> (string + symbol_table) option" where
  "register_type n t st =
     (case st_current_scope st of
        None \<Rightarrow> Some (Inl ''No active scope to register type'')
      | Some c \<Rightarrow>
          do { ti \<leftarrow> (case t of
                        Some t' \<Rightarrow> type_info_new t'
                      | None \<Rightarrow> Some (TypeInfo (Kind_Custom n) []));
               try_modify_scope c (scope_insert_symbol n (Sym_TypeAlias ti)) st })"

definition struct_field_map :: "(string \<times> type_info \<times> visibility) list \<Rightarrow> string \<rightharpoonup> struct_field_info" where
  "struct_field_map flds =
     fold (\<lambda>(n, t, v) m. m(n \<mapsto> \<lparr>sfi_name = n, sfi_type_info = t, sfi_visibility = v\<rparr>)) flds Map.empty"

definition register_struct ::
  "string \<Rightarrow> (string \<times> type_info \<times> visibility) list \<Rightarrow> string list \<Rightarrow> visibility \<Rightarrow> symbol_table
   \<Rightarrow> (string + symbol_table) option" where
  "register_struct n flds tps vis st =
     register_symbol ''struct'' n (\<lambda>scope_id. Sym_Struct
       \<lparr>si_name = n, si_fields = struct_field_map flds, si_type_params = tps,
        si_visibility = vis, si_definition_scope_id = scope_id\<rparr>) st"

definition register_enum ::
  "string \<Rightarrow> string list \<Rightarrow> visibility \<Rightarrow> symbol_table \<Rightarrow> (string + symbol_table) option" where
  "register_enum n variants vis st =
     register_symbol ''enum'' n (\<lambda>scope_id. Sym_Enum
       \<lparr>ei_name = n, ei_variants = set variants, ei_visibility = vis,
        ei_definition_scope_id = scope_id\<rparr>) st"

definition register_spec :: "string \<Rightarrow> symbol_table \<Rightarrow> (string + symbol_table) option" where
  "register_spec n st = register_symbol ''spec'' n (\<lambda>_. Sym_Spec n) st"

definition register_function_with_visibility ::
  "string \<Rightarrow> string list \<Rightarrow> ty list \<Rightarrow> ty \<Rightarrow> visibility \<Rightarrow> symbol_table
   \<Rightarrow> (string + symbol_table) option" where
  "register_function_with_visibility n tps params ret vis st =
     (case st_current_scope st of
        None \<Rightarrow> Some (Inl ''No active scope to register function'')
      | Some c \<Rightarrow>
          do { sc \<leftarrow> st_scopes st c;
               param_types \<leftarrow> map_opt (\<lambda>t. new_with_type_params t tps) params;
               return_type \<leftarrow> new_with_type_params ret tps;
               try_modify_scope c (scope_insert_symbol n (Sym_Function
                 \<lparr>fi_name = n, fi_type_params = tps, fi_param_types = param_types,
                  fi_return_type = return_type, fi_visibility = vis,
                  fi_definition_scope_id = sc_id sc\<rparr>)) st })"

definition register_function ::
  "string \<Rightarrow> string list \<Rightarrow> ty list \<Rightarrow> ty \<Rightarrow> symbol_table \<Rightarrow> (string + symbol_table) option" where
  "register_function n tps params ret st =
     register_function_with_visibility n tps params ret Private st"

definition push_variable_to_scope ::
  "string \<Rightarrow> type_info \<Rightarrow> symbol_table \<Rightarrow> (string + symbol_table) option" where
  "push_variable_to_scope n t st =
     (case st_current_scope st of
        None \<Rightarrow> Some (Inl ''No active scope to push variable'')
      | Some c \<Rightarrow> try_modify_scope c (scope_insert_variable n 0 t) st)"

definition register_method ::
  "string \<Rightarrow> func_info \<Rightarrow> visibility \<Rightarrow> bool \<Rightarrow> symbol_table \<Rightarrow> (string + symbol_table) option" where
  "register_method ty_name sig vis has_self st =
     (case st_current_scope st of
        None \<Rightarrow> Some (Inl ''No active scope to register method'')
      | Some c \<Rightarrow>
          do { sc \<leftarrow> st_scopes st c;
               st' \<leftarrow> modify_scope c (scope_insert_method ty_name
                 \<lparr>mi_signature = sig, mi_visibility = vis, mi_scope_id = sc_id sc,
                  mi_has_self = has_self\<rparr>) st;
               Some (Inr st') })"

definition register_import :: "import_decl \<Rightarrow> symbol_table \<Rightarrow> (string + symbol_table) option" where
  "register_import i st =
     (case st_current_scope st of
        None \<Rightarrow> Some (Inl ''No active scope to register import'')
      | Some c \<Rightarrow> do { st' \<leftarrow> modify_scope c (scope_add_import i) st; Some (Inr st') })"

section \<open>Lookups from the current scope\<close>

definition lookup_symbol :: "string \<Rightarrow> symbol_table \<Rightarrow> symbol option option" where
  "lookup_symbol n st =
     (case st_current_scope st of
        None \<Rightarrow> Some None
      | Some c \<Rightarrow> scope_lookup_symbol (st_scopes st) c n)"

definition lookup_type :: "string \<Rightarrow> symbol_table \<Rightarrow> type_info option option" where
  "lookup_type n st =
     (case st_current_scope st of
        None \<Rightarrow> Some None
      | Some c \<Rightarrow>
          do { s \<leftarrow> scope_lookup_symbol (st_scopes st) c n;
               case s of
                 Some sy \<Rightarrow> Some (as_type_info sy)
               | None \<Rightarrow>
                   do { s' \<leftarrow> scope_lookup_symbol (st_scopes st) c (to_lowercase n);
                        case s' of Some sy \<Rightarrow> Some (as_type_info sy) | None \<Rightarrow> Some None } })"

definition lookup_variable :: "string \<Rightarrow> symbol_table \<Rightarrow> type_info option option" where
  "lookup_variable n st =
     (case st_current_scope st of
        None \<Rightarrow> Some None
      | Some c \<Rightarrow> scope_lookup_variable (st_scopes st) c n)"

definition lookup_function :: "string \<Rightarrow> symbol_table \<Rightarrow> func_info option option" where
  "lookup_function n st = do { s \<leftarrow> lookup_symbol n st; Some (Option.bind s as_function) }"

definition lookup_struct :: "string \<Rightarrow> symbol_table \<Rightarrow> struct_info option option" where
  "lookup_struct n st = do { s \<leftarrow> lookup_symbol n st; Some (Option.bind s as_struct) }"

definition lookup_enum :: "string \<Rightarrow> symbol_table \<Rightarrow> enum_info option option" where
  "lookup_enum n st = do { s \<leftarrow> lookup_symbol n st; Some (Option.bind s as_enum) }"

definition lookup_method :: "string \<Rightarrow> string \<Rightarrow> symbol_table \<Rightarrow> method_info option option" where
  "lookup_method ty_name m_name st =
     (case st_current_scope st of
        None \<Rightarrow> Some None
      | Some c \<Rightarrow> scope_lookup_method (st_scopes st) c ty_name m_name)"

section \<open>Modules and qualified names\<close>

definition get_scope :: "symbol_table \<Rightarrow> nat \<Rightarrow> scope option" where
  "get_scope st i = st_scopes st i"

definition current_scope_id :: "symbol_table \<Rightarrow> nat option" where
  "current_scope_id st = Option.bind (st_current_scope st) (\<lambda>c. map_option sc_id (st_scopes st c))"

definition all_scope_ids :: "nat list \<Rightarrow> symbol_table \<Rightarrow> nat list" where
  "all_scope_ids ord st = filter (\<lambda>i. \<not> Option.is_none (st_scopes st i)) ord"

definition register_mod_scope :: "nat \<Rightarrow> symbol_table \<Rightarrow> symbol_table" where
  "register_mod_scope i st =
     (case get_scope st i of
        None \<Rightarrow> st
      | Some sc \<Rightarrow> st\<lparr>st_mod_scopes := (st_mod_scopes st)(sc_full_path sc \<mapsto> i)\<rparr>)"

definition enter_module :: "string \<Rightarrow> visibility \<Rightarrow> symbol_table \<Rightarrow> (nat \<times> symbol_table) option" where
  "enter_module n vis st =
     do { (i, st') \<leftarrow> push_scope_with_name n vis st; Some (i, register_mod_scope i st') }"

definition find_module_scope :: "string list \<Rightarrow> symbol_table \<Rightarrow> nat option" where
  "find_module_scope path st =
     Option.bind (st_mod_scopes st (join ''::'' path)) (\<lambda>r. map_option sc_id (st_scopes st r))"

definition get_public_symbols_from_scope ::
  "string list \<Rightarrow> nat \<Rightarrow> symbol_table \<Rightarrow> (string \<times> symbol) list" where
  "get_public_symbols_from_scope ord i st =
     (case get_scope st i of
        None \<Rightarrow> []
      | Some sc \<Rightarrow>
          filter (\<lambda>(n, sy). symbol_is_public sy)
            (List.map_filter (\<lambda>n. map_option (Pair n) (sc_symbols sc n)) ord))"

definition find_child :: "(nat \<rightharpoonup> scope) \<Rightarrow> string \<Rightarrow> scope \<Rightarrow> nat option" where
  "find_child ss n sc =
     find (\<lambda>c. case ss c of Some csc \<Rightarrow> sc_name csc = n | None \<Rightarrow> False) (sc_children sc)"

fun resolve_path :: "(nat \<rightharpoonup> scope) \<Rightarrow> nat \<Rightarrow> string list \<Rightarrow> (symbol \<times> nat) option" where
  "resolve_path ss i [] = None"
| "resolve_path ss i [seg] =
     do { sc \<leftarrow> ss i; sy \<leftarrow> lookup_symbol_local seg sc; Some (sy, sc_id sc) }"
| "resolve_path ss i (seg # seg' # rest) =
     do { sc \<leftarrow> ss i; c \<leftarrow> find_child ss seg sc; resolve_path ss c (seg' # rest) }"

definition resolve_qualified_name ::
  "string list \<Rightarrow> nat \<Rightarrow> symbol_table \<Rightarrow> (symbol \<times> nat) option" where
  "resolve_qualified_name path from_scope_id st =
     (case path of
        [] \<Rightarrow> None
      | first # rest \<Rightarrow>
          if first = ''self'' then
            do { sc \<leftarrow> get_scope st from_scope_id; resolve_path (st_scopes st) from_scope_id rest }
          else
            do { root \<leftarrow> st_root_scope st; resolve_path (st_scopes st) root path })"

section \<open>External modules\<close>

definition argument_types :: "argument_type list option \<Rightarrow> ty list" where
  "argument_types args =
     List.map_filter (\<lambda>a. case a of
         Arg_Argument x \<Rightarrow> Some (arg_ty x)
       | Arg_IgnoreArgument x \<Rightarrow> Some (ig_ty x)
       | Arg_Type t \<Rightarrow> Some t
       | Arg_SelfReference _ \<Rightarrow> None)
     (case args of None \<Rightarrow> [] | Some as \<Rightarrow> as)"

definition type_parameter_names :: "ident list option \<Rightarrow> string list" where
  "type_parameter_names tps = (case tps of None \<Rightarrow> [] | Some xs \<Rightarrow> map ident_name xs)"

definition return_type_or_unit :: "ty option \<Rightarrow> ty" where
  "return_type_or_unit r = (case r of None \<Rightarrow> Type_Simple Simple_Unit | Some t \<Rightarrow> t)"

definition struct_fields :: "struct_field list \<Rightarrow> (string \<times> type_info \<times> visibility) list option" where
  "struct_fields fs =
     map_opt (\<lambda>f. do { t \<leftarrow> type_info_new (sf_type f); Some (ident_name (sf_name f), t, Private) }) fs"

fun register_definition_from_external ::
  "ast_definition \<Rightarrow> symbol_table \<Rightarrow> (string + symbol_table) option" where
  "register_definition_from_external (Def_Struct s) st =
     do { flds \<leftarrow> struct_fields (sd_fields s);
          register_struct (ident_name (sd_name s)) flds [] (sd_visibility s) st }"
| "register_definition_from_external (Def_Enum e) st =
     register_enum (ident_name (ed_name e)) (map ident_name (ed_variants e)) (ed_visibility e) st"
| "register_definition_from_external (Def_Spec _ _ _ n _) st = register_spec (ident_name n) st"
| "register_definition_from_external (Def_Function f) st =
     register_function_with_visibility (ident_name (fd_name f))
       (type_parameter_names (fd_type_parameters f)) (argument_types (fd_arguments f))
       (return_type_or_unit (fd_returns f)) (fd_visibility f) st"
| "register_definition_from_external (Def_Type t) st =
     register_type (ident_name (td_name t)) (Some (td_ty t)) st"
| "register_definition_from_external (Def_Constant _) st = Some (Inr st)"
| "register_definition_from_external (Def_ExternalFunction _) st = Some (Inr st)"
| "register_definition_from_external (Def_Module _ _ _ _ _) st = Some (Inr st)"

text \<open>
  The registration loop stops at the first error (the \<open>?\<close> of the source) with the table as it
  is then: the module's scope is still the current one.
\<close>

fun register_external_definitions ::
  "ast_definition list \<Rightarrow> symbol_table \<Rightarrow> (string option \<times> symbol_table) option" where
  "register_external_definitions [] st = Some (None, st)"
| "register_external_definitions (d # ds) st =
     do { r \<leftarrow> register_definition_from_external d st;
          case r of
            Inl e \<Rightarrow> Some (Some e, st)
          | Inr st' \<Rightarrow> register_external_definitions ds st' }"

definition load_external_module ::
  "string \<Rightarrow> nat list \<Rightarrow> arena \<Rightarrow> symbol_table \<Rightarrow> ((string + nat) \<times> symbol_table) option" where
  "load_external_module module_name ord a st =
     do { (i, st1) \<leftarrow> push_scope_with_name module_name Public st;
          let st2 = register_mod_scope i st1;
          (err, st3) \<leftarrow> register_external_definitions (concat (map src_definitions (source_files ord a))) st2;
          case err of
            Some e \<Rightarrow> Some (Inl e, st3)
          | None \<Rightarrow> do { st4 \<leftarrow> pop_scope st3; Some (Inr i, st4) } }"

end
