(* ===== verification/TypedContexts.thy ===== *)
theory TypedContexts
  imports Scopes
begin

text \<open>
  The store of inferred types, \<open>core/type-checker/src/typed_context.rs\<close>: the arena, the map from
  node identifiers to types and the symbol table, with the queries the later phases use. The
  queries that iterate over the arena take the iteration order \<open>ord\<close> of its hash map.
\<close>

record typed_context =
  cx_symbol_table :: symbol_table
  cx_node_types :: "nat \<rightharpoonup> type_info"
  cx_arena :: arena

definition typed_context_new :: "arena \<Rightarrow> typed_context" where
  "typed_context_new a =
     \<lparr>cx_symbol_table = default_symbol_table, cx_node_types = Map.empty, cx_arena = a\<rparr>"

definition cx_source_files :: "nat list \<Rightarrow> typed_context \<Rightarrow> source_file list" where
  "cx_source_files ord cx = source_files ord (cx_arena cx)"

definition cx_functions :: "nat list \<Rightarrow> typed_context \<Rightarrow> function_definition list" where
  "cx_functions ord cx = arena_functions ord (cx_arena cx)"

definition cx_filter_nodes :: "nat list \<Rightarrow> (ast_node \<Rightarrow> bool) \<Rightarrow> typed_context \<Rightarrow> ast_node list" where
  "cx_filter_nodes ord p cx = filter_nodes ord (cx_arena cx) p"

definition get_node_typeinfo :: "nat \<Rightarrow> typed_context \<Rightarrow> type_info option" where
  "get_node_typeinfo i cx = cx_node_types cx i"

definition is_node_type :: "nat \<Rightarrow> (type_info_kind \<Rightarrow> bool) \<Rightarrow> typed_context \<Rightarrow> bool" where
  "is_node_type i check cx =
     (case get_node_typeinfo i cx of Some t \<Rightarrow> check (ti_kind t) | None \<Rightarrow> False)"

definition is_node_i32 :: "nat \<Rightarrow> typed_context \<Rightarrow> bool" where
  "is_node_i32 i cx = is_node_type i (\<lambda>k. k = Kind_Number Num_I32) cx"

definition is_node_i64 :: "nat \<Rightarrow> typed_context \<Rightarrow> bool" where
  "is_node_i64 i cx = is_node_type i (\<lambda>k. k = Kind_Number Num_I64) cx"

definition get_parent_node :: "nat \<Rightarrow> typed_context \<Rightarrow> ast_node option" where
  "get_parent_node i cx = do { p \<leftarrow> find_parent_node (cx_arena cx) i; find_node (cx_arena cx) p }"

definition cx_set_node_typeinfo :: "nat \<Rightarrow> type_info \<Rightarrow> typed_context \<Rightarrow> typed_context" where
  "cx_set_node_typeinfo i t cx = cx\<lparr>cx_node_types := (cx_node_types cx)(i \<mapsto> t)\<rparr>"

section \<open>Expressions left without a type\<close>

fun is_value_expression :: "expression \<Rightarrow> bool" where
  "is_value_expression (Expr_Type _) = False"
| "is_value_expression (Expr_Identifier _) = False"
| "is_value_expression (Expr_Literal _) = False"
| "is_value_expression _ = True"

primrec expression_kind_name :: "expression \<Rightarrow> string" where
  "expression_kind_name (Expr_ArrayIndexAccess _ _ _ _) = ''ArrayIndexAccess''"
| "expression_kind_name (Expr_Binary _ _ _ _ _) = ''Binary''"
| "expression_kind_name (Expr_MemberAccess _ _ _ _) = ''MemberAccess''"
| "expression_kind_name (Expr_TypeMemberAccess _ _ _ _) = ''TypeMemberAccess''"
| "expression_kind_name (Expr_FunctionCall _ _ _ _ _) = ''FunctionCall''"
| "expression_kind_name (Expr_Struct _ _ _ _) = ''Struct''"
| "expression_kind_name (Expr_PrefixUnary _ _ _ _) = ''PrefixUnary''"
| "expression_kind_name (Expr_Parenthesized _ _ _) = ''Parenthesized''"
| "expression_kind_name (Expr_Literal _) = ''Literal''"
| "expression_kind_name (Expr_Identifier _) = ''Identifier''"
| "expression_kind_name (Expr_Type _) = ''Type''"
| "expression_kind_name (Expr_Uzumaki _ _) = ''Uzumaki''"

record missing_expression_type =
  miss_id :: nat
  miss_kind :: string
  miss_location :: location

fun is_value_node :: "ast_node \<Rightarrow> bool" where
  "is_value_node (Node_Expression e) = is_value_expression e"
| "is_value_node _ = False"

fun missing_type :: "typed_context \<Rightarrow> ast_node \<Rightarrow> missing_expression_type option" where
  "missing_type cx (Node_Expression e) =
     (if cx_node_types cx (expression_id e) = None
      then Some \<lparr>miss_id = expression_id e, miss_kind = expression_kind_name e,
                 miss_location = expression_location e\<rparr>
      else None)"
| "missing_type cx _ = None"

definition find_untyped_expressions :: "nat list \<Rightarrow> typed_context \<Rightarrow> missing_expression_type list" where
  "find_untyped_expressions ord cx =
     List.map_filter (missing_type cx) (cx_filter_nodes ord is_value_node cx)"

end
