(* ===== verification/ArenaProperties.thy ===== *)
theory ArenaProperties
  imports AstArena TypedContexts
begin

text \<open>
  The properties of the node store and of the queries on the tree (\<open>core/ast/src/arena.rs\<close>,
  \<open>core/ast/src/nodes_impl.rs\<close>), each with a witness on a small tree.
\<close>

section \<open>A small tree\<close>

definition example_ident :: "nat \<Rightarrow> string \<Rightarrow> ident" where
  "example_ident i n = \<lparr>ident_id = i, ident_location = default_location, ident_name = n\<rparr>"

definition example_file :: ast_node where
  "example_file = Node_SourceFile
     \<lparr>src_id = 1, src_location = default_location, src_source = [], src_directives = [], src_definitions = []\<rparr>"

definition example_leaf :: "nat \<Rightarrow> ast_node" where
  "example_leaf i = Node_Expression (Expr_Identifier (example_ident i ''x''))"

text \<open>The file 1 with the child 2, which has the child 3.\<close>

definition example_arena :: arena where
  "example_arena =
     \<lparr>ar_nodes = [1 \<mapsto> example_file, 2 \<mapsto> example_leaf 2, 3 \<mapsto> example_leaf 3],
      ar_parent_map = [2 \<mapsto> 1, 3 \<mapsto> 2], ar_children_map = [1 \<mapsto> [2], 2 \<mapsto> [3]]\<rparr>"

lemmas example_defs = example_arena_def example_file_def example_leaf_def example_ident_def

lemma example_arena_ok: "wf_arena example_arena" "parents_decrease example_arena"
  by (auto simp: wf_arena_def parents_decrease_def example_defs u32_max_def)

section \<open>Building the store\<close>

text \<open>\<open>Arena::add_node\<close> panics exactly on the identifier zero and on an identifier that is taken.
  Otherwise it stores the node, and on a well-formed store the result is well-formed: node,
  parent link and children lists agree and no child is listed twice.\<close>

theorem add_node_correct:
  assumes "wf_arena a"
  shows "(add_node n p a = None \<longleftrightarrow> node_id n = 0 \<or> ar_nodes a (node_id n) \<noteq> None)
    \<and> (\<forall>a'. add_node n p a = Some a' \<longrightarrow> wf_arena a' \<and> find_node a' (node_id n) = Some n
         \<and> find_parent_node a' (node_id n) = (if p = u32_max then None else Some p))"
proof (intro conjI allI impI)
  show "add_node n p a = None \<longleftrightarrow> node_id n = 0 \<or> ar_nodes a (node_id n) \<noteq> None"
    by (auto simp: add_node_def Let_def)
  fix a' assume add: "add_node n p a = Some a'"
  show "wf_arena a'" by (rule add_node_wf [OF assms add])
  note eqs = add_node_SomeD [OF add]
  show "find_node a' (node_id n) = Some n" by (simp add: find_node_def eqs)
  have "ar_parent_map a (node_id n) = None" using assms eqs(2) by (metis not_None_eq wf_arenaD(3))
  then show "find_parent_node a' (node_id n) = (if p = u32_max then None else Some p)"
    by (simp add: find_parent_node_def eqs)
qed

theorem add_node_correct_witness:
  "add_node (example_leaf 4) 2 example_arena \<noteq> None \<and> add_node (example_leaf 3) 2 example_arena = None"
  using add_node_correct [OF example_arena_ok(1), of "example_leaf 4" 2]
    add_node_correct [OF example_arena_ok(1), of "example_leaf 3" 2]
  by (simp add: example_defs)

text \<open>The loop of \<open>find_source_file_for_node\<close> ends when parent links go to smaller identifiers, and
  finds the source file at the root above the node, if the root is one.\<close>

theorem find_source_file_correct:
  assumes wf: "wf_arena a" and dec: "parents_decrease a" and n: "ar_nodes a i = Some n"
    and plain: "\<not> is_source_file n"
  shows "\<exists>r. (i, r) \<in> (parent_rel (ar_parent_map a))\<^sup>* \<and> ar_parent_map a r = None
    \<and> find_source_file_for_node a i =
        Some (case ar_nodes a r of Some m \<Rightarrow> if is_source_file m then Some r else None | None \<Rightarrow> None)"
proof -
  have "\<And>i p. ar_parent_map a i = Some p \<Longrightarrow> p < i" using dec by (simp add: parents_decrease_def)
  from climb_parents_root [OF this] obtain r where r: "climb_parents (ar_parent_map a) i = Some r"
    "ar_parent_map a r = None" "(i, r) \<in> (parent_rel (ar_parent_map a))\<^sup>*" by blast
  then have "find_source_file_for_node a i =
      Some (case ar_nodes a r of Some m \<Rightarrow> if is_source_file m then Some r else None | None \<Rightarrow> None)"
    using n plain by (auto simp: find_source_file_for_node_def split: option.split)
  with r show ?thesis by blast
qed

theorem find_source_file_correct_witness:
  "find_source_file_for_node example_arena 3 = Some (Some 1)
   \<and> (\<exists>r. (3, r) \<in> (parent_rel (ar_parent_map example_arena))\<^sup>* \<and> ar_parent_map example_arena r = None)"
proof -
  have n: "ar_nodes example_arena 3 = Some (example_leaf 3)" "\<not> is_source_file (example_leaf 3)"
    by (simp_all add: example_defs)
  have "find_source_file_for_node example_arena 3 = Some (Some 1)"
    by (simp add: find_source_file_for_node_def run_simps example_defs)
  with find_source_file_correct [OF example_arena_ok n] show ?thesis by blast
qed

text \<open>\<open>get_children_cmp\<close> ends, and returns the selected nodes among those reached from the start
  by going down through selected children, and no others.\<close>

theorem get_children_cmp_correct:
  assumes wf: "wf_arena a" and dec: "parents_decrease a"
    and bound: "\<And>i n. ar_nodes a i = Some n \<Longrightarrow> i < N" and n: "ar_nodes a i = Some n"
  shows "\<exists>res. get_children_cmp a i cmp = Some res \<and> set res = {m. cmp m \<and> below a cmp n m}"
proof -
  have "node_id n = i" by (rule wf_arenaD(1) [OF wf n])
  then have "\<forall>m\<in>set [n]. ar_nodes a (node_id m) = Some m" using n by simp
  from children_loop_correct [OF wf dec bound this, where cmp = cmp and res = "[]"] show ?thesis
    using n by (simp add: get_children_cmp_def find_node_def)
qed

theorem get_children_cmp_correct_witness:
  "\<exists>res. get_children_cmp example_arena 2 (\<lambda>_. True) = Some res
     \<and> set res = {m. True \<and> below example_arena (\<lambda>_. True) (example_leaf 2) m}"
  by (rule get_children_cmp_correct [OF example_arena_ok, of 4])
    (auto simp: example_defs split: if_splits)

section \<open>Queries on blocks\<close>

fun is_return :: "statement \<Rightarrow> bool" where
  "is_return (Stmt_Return _ _ _) = True"
| "is_return _ = False"

fun is_nested_block :: "statement \<Rightarrow> bool" where
  "is_nested_block (Stmt_Block _) = True"
| "is_nested_block _ = False"

lemma finds_return_flat: "list_all (\<lambda>s. \<not> is_nested_block s) ss \<Longrightarrow> finds_return ss = list_ex is_return ss"
proof (induction ss)
  case (Cons s ss)
  then show ?case by (cases s) simp_all
qed simp

text \<open>On the first nested block of a statement list that has no \<open>return\<close> before it,
  \<open>BlockType::is_void\<close> goes the wrong way round: a nested block that is void makes the outer block
  non-void, and a nested block with a \<open>return\<close> is passed over.\<close>

theorem nested_block_inverts_void:
  assumes "list_all (\<lambda>s. \<not> is_nested_block s \<and> \<not> is_return s) before"
  shows "block_is_void (Block_Block i l (before @ Stmt_Block b # after)) =
    (\<not> block_is_void b \<and> block_is_void (Block_Block i l after))"
proof -
  have "finds_return (before @ Stmt_Block b # after) = finds_return (Stmt_Block b # after)"
    using assms
  proof (induction before)
    case (Cons s before)
    then show ?case by (cases s) simp_all
  qed simp
  then show ?thesis by simp
qed

theorem nested_block_inverts_void_witness:
  "block_is_void (Block_Block 1 default_location
      ([Stmt_Break 2 default_location] @ Stmt_Block (Block_Block 3 default_location
         [Stmt_Return 4 default_location (Expr_Uzumaki 5 default_location)]) # []))
   \<and> \<not> block_is_void (Block_Block 1 default_location
      ([Stmt_Break 2 default_location] @ Stmt_Block (Block_Block 3 default_location []) # []))"
  using nested_block_inverts_void [of "[Stmt_Break 2 default_location]" 1 default_location
      "Block_Block 3 default_location [Stmt_Return 4 default_location (Expr_Uzumaki 5 default_location)]" "[]"]
    nested_block_inverts_void [of "[Stmt_Break 2 default_location]" 1 default_location
      "Block_Block 3 default_location []" "[]"]
  by simp

text \<open>A block whose statements include no nested block is void exactly when none of them is a
  \<open>return\<close>, whatever the kind of the block.\<close>

theorem flat_block_is_void:
  assumes "list_all (\<lambda>s. \<not> is_nested_block s) (block_statements b)"
  shows "block_is_void b = (\<not> list_ex is_return (block_statements b))"
  using finds_return_flat [OF assms] by (cases b) simp_all

theorem flat_block_is_void_witness:
  "block_is_void (Block_Assume 1 default_location [Stmt_Break 2 default_location])
     = (\<not> list_ex is_return [Stmt_Break 2 default_location])"
  using flat_block_is_void [of "Block_Assume 1 default_location [Stmt_Break 2 default_location]"] by simp

end
