(* ===== verification/CheckerState.thy ===== *)
theory CheckerState
  imports TypedContexts
begin

text \<open>
  The state of \<open>core/type-checker/src/type_checker.rs\<close> and its helpers: error reporting with
  deduplication, the visibility check, the validation of type references, and the registration
  and resolution of imports.

  The methods take \<open>&mut self\<close> and \<open>&mut ctx\<close>; the model threads both as one record, the
  fields of \<open>TypeChecker\<close> and the context \<open>tc_ctx\<close>.
\<close>

section \<open>State\<close>

record checker =
  tc_symbol_table :: symbol_table
  tc_errors :: "type_check_error list"
  tc_glob_in_progress :: "nat set"
  tc_reported :: "string set"
  tc_ctx :: typed_context

definition default_checker :: "typed_context \<Rightarrow> checker" where
  "default_checker cx =
     \<lparr>tc_symbol_table = default_symbol_table, tc_errors = [], tc_glob_in_progress = {},
      tc_reported = {}, tc_ctx = cx\<rparr>"

definition push_error :: "type_check_error \<Rightarrow> checker \<Rightarrow> checker" where
  "push_error e s = s\<lparr>tc_errors := tc_errors s @ [e]\<rparr>"

definition set_node_typeinfo :: "nat \<Rightarrow> type_info \<Rightarrow> checker \<Rightarrow> checker" where
  "set_node_typeinfo i t s = s\<lparr>tc_ctx := cx_set_node_typeinfo i t (tc_ctx s)\<rparr>"

definition node_typeinfo :: "nat \<Rightarrow> checker \<Rightarrow> type_info option" where
  "node_typeinfo i s = get_node_typeinfo i (tc_ctx s)"

definition set_symbol_table :: "symbol_table \<Rightarrow> checker \<Rightarrow> checker" where
  "set_symbol_table st s = s\<lparr>tc_symbol_table := st\<rparr>"

text \<open>The key under which \<open>push_error_dedup\<close> reports an error at most once.\<close>

fun dedup_key :: "type_check_error \<Rightarrow> string option" where
  "dedup_key (UnknownType n _) = Some (''UnknownType:'' @ n)"
| "dedup_key (UndefinedFunction n _) = Some (''UndefinedFunction:'' @ n)"
| "dedup_key (UnknownIdentifier n _) = Some (''UnknownIdentifier:'' @ n)"
| "dedup_key (UndefinedStruct n _) = Some (''UndefinedStruct:'' @ n)"
| "dedup_key (UndefinedEnum n _) = Some (''UndefinedEnum:'' @ n)"
| "dedup_key _ = None"

definition push_error_dedup :: "type_check_error \<Rightarrow> checker \<Rightarrow> checker" where
  "push_error_dedup e s =
     (case dedup_key e of
        Some key \<Rightarrow>
          if key \<in> tc_reported s then s
          else push_error e (s\<lparr>tc_reported := insert key (tc_reported s)\<rparr>)
      | None \<Rightarrow> push_error e s)"

text \<open>Running an operation of the symbol table that can fail, and reporting its failure.\<close>

definition report_registration ::
  "(symbol_table \<Rightarrow> (string + symbol_table) option) \<Rightarrow> (string \<Rightarrow> type_check_error)
   \<Rightarrow> checker \<Rightarrow> checker option" where
  "report_registration op err s =
     do { r \<leftarrow> op (tc_symbol_table s);
          Some (case r of
                  Inl msg \<Rightarrow> push_error (err msg) s
                | Inr st \<Rightarrow> set_symbol_table st s) }"

definition enter_scope :: "checker \<Rightarrow> checker option" where
  "enter_scope s =
     do { (_, st) \<leftarrow> push_scope (tc_symbol_table s); Some (set_symbol_table st s) }"

definition leave_scope :: "checker \<Rightarrow> checker option" where
  "leave_scope s = do { st \<leftarrow> pop_scope (tc_symbol_table s); Some (set_symbol_table st s) }"

section \<open>Visibility\<close>

partial_function (option) is_scope_descendant_of :: "(nat \<rightharpoonup> scope) \<Rightarrow> nat \<Rightarrow> nat \<Rightarrow> bool option" where
  "is_scope_descendant_of ss current target =
     (if current = target then Some True
      else
        (case ss current of
           None \<Rightarrow> Some False
         | Some sc \<Rightarrow>
             (case sc_parent sc of
                None \<Rightarrow> Some False
              | Some p \<Rightarrow>
                  (case ss p of
                     None \<Rightarrow> None
                   | Some psc \<Rightarrow> is_scope_descendant_of ss (sc_id psc) target))))"

declare is_scope_descendant_of.simps [run_simps]

fun check_visibility :: "visibility \<Rightarrow> nat \<Rightarrow> nat \<Rightarrow> checker \<Rightarrow> bool option" where
  "check_visibility Public definition_scope access_scope s = Some True"
| "check_visibility Private definition_scope access_scope s =
     is_scope_descendant_of (st_scopes (tc_symbol_table s)) access_scope definition_scope"

definition check_and_report_visibility ::
  "visibility \<Rightarrow> nat \<Rightarrow> location \<Rightarrow> visibility_context \<Rightarrow> checker \<Rightarrow> (bool \<times> checker) option" where
  "check_and_report_visibility vis definition_scope loc vctx s =
     do { let access_scope =
            (case current_scope_id (tc_symbol_table s) of Some i \<Rightarrow> i | None \<Rightarrow> 0);
          ok \<leftarrow> check_visibility vis definition_scope access_scope s;
          if ok then Some (True, s)
          else Some (False, push_error (PrivateAccessViolation vctx loc) s) }"

section \<open>Validation of type references\<close>

fun validate_generic_params :: "ident list \<Rightarrow> string list \<Rightarrow> checker \<Rightarrow> checker option" where
  "validate_generic_params [] names s = Some s"
| "validate_generic_params (p # ps) names s =
     do { s' \<leftarrow>
            (if ident_name p \<in> set names then Some s
             else do { found \<leftarrow> lookup_type (ident_name p) (tc_symbol_table s);
                       Some (if found = None
                             then push_error_dedup (UnknownType (ident_name p) (ident_location p)) s
                             else s) });
          validate_generic_params ps names s' }"

fun validate_type :: "ty \<Rightarrow> ident list option \<Rightarrow> checker \<Rightarrow> checker option" where
  "validate_type (Type_Array _ _ elem _) tps s = validate_type elem tps s"
| "validate_type (Type_Simple _) tps s = Some s"
| "validate_type (Type_Generic g) tps s =
     do { found \<leftarrow> lookup_type (ident_name (gt_base g)) (tc_symbol_table s);
          let s' = (if found = None
                    then push_error_dedup
                           (UnknownType (ident_name (gt_base g)) (ident_location (gt_base g))) s
                    else s);
          validate_generic_params (gt_parameters g) (type_parameter_names tps) s' }"
| "validate_type (Type_Function _ _ _ _) tps s = Some s"
| "validate_type (Type_QualifiedName _) tps s = Some s"
| "validate_type (Type_Qualified _) tps s = Some s"
| "validate_type (Type_Custom x) tps s =
     (if ident_name x \<in> set (type_parameter_names tps) then Some s
      else
        do { found \<leftarrow> lookup_type (ident_name x) (tc_symbol_table s);
             Some (if found = None
                   then push_error_dedup (UnknownType (ident_name x) (ident_location x)) s
                   else s) })"

section \<open>Imports\<close>

definition use_path :: "use_directive \<Rightarrow> string list" where
  "use_path u = (case ud_segments u of None \<Rightarrow> [] | Some segs \<Rightarrow> map ident_name segs)"

definition use_kind :: "use_directive \<Rightarrow> import_kind" where
  "use_kind u =
     (case ud_imported_types u of
        None \<Rightarrow> Import_Plain
      | Some ts \<Rightarrow>
          if ts = [] then Import_Plain
          else Import_Partial (map (\<lambda>t. \<lparr>ii_name = ident_name t, ii_alias = None\<rparr>) ts))"

definition process_use_statement :: "use_directive \<Rightarrow> symbol_table \<Rightarrow> (string + symbol_table) option" where
  "process_use_statement u st =
     register_import \<lparr>imp_path = use_path u, imp_kind = use_kind u, imp_location = ud_location u\<rparr> st"

fun process_directive :: "directive \<Rightarrow> checker \<Rightarrow> checker option" where
  "process_directive (Directive_Use u) s =
     report_registration (process_use_statement u)
       (\<lambda>_. ImportResolutionFailed (join ''::'' (use_path u)) (ud_location u)) s"

definition process_directives :: "nat list \<Rightarrow> checker \<Rightarrow> checker option" where
  "process_directives ord s =
     fold_opt (\<lambda>f. fold_opt process_directive (src_directives f)) (cx_source_files ord (tc_ctx s)) s"

definition bind_import :: "nat \<Rightarrow> resolved_import \<Rightarrow> checker \<Rightarrow> checker" where
  "bind_import scope_id r s =
     (case modify_scope scope_id (scope_add_resolved_import r) (tc_symbol_table s) of
        None \<Rightarrow> s
      | Some st \<Rightarrow> set_symbol_table st s)"

text \<open>
  One path of an import: the plain form and each item of the partial form share it, with the
  path to resolve, the path to show in a visibility error, the path to show when nothing is
  found, and the local name.
\<close>

definition resolve_import_path ::
  "string list \<Rightarrow> string \<Rightarrow> string \<Rightarrow> string \<Rightarrow> location \<Rightarrow> nat \<Rightarrow> checker \<Rightarrow> checker option" where
  "resolve_import_path path shown_path failed_path local_name loc scope_id s =
     (case resolve_qualified_name path scope_id (tc_symbol_table s) of
        Some (sy, def_scope_id) \<Rightarrow>
          do { s' \<leftarrow>
                 (if symbol_is_public sy then Some s
                  else map_option snd
                         (check_and_report_visibility Private def_scope_id loc (Vis_Import shown_path) s));
               Some (bind_import scope_id
                 \<lparr>ri_local_name = local_name, ri_symbol = sy, ri_definition_scope_id = def_scope_id\<rparr> s') }
      | None \<Rightarrow> Some (push_error (ImportResolutionFailed failed_path loc) s))"

definition resolve_import_item :: "string list \<Rightarrow> location \<Rightarrow> nat \<Rightarrow> import_item \<Rightarrow> checker \<Rightarrow> checker option" where
  "resolve_import_item path loc scope_id item s =
     (let full_path = path @ [ii_name item]
      in resolve_import_path full_path (join ''::'' full_path)
           (join ''::'' path @ ''::'' @ ii_name item)
           (case ii_alias item of Some al \<Rightarrow> al | None \<Rightarrow> ii_name item) loc scope_id s)"

definition resolve_glob_import ::
  "(nat \<Rightarrow> string list) \<Rightarrow> string list \<Rightarrow> location \<Rightarrow> nat \<Rightarrow> checker \<Rightarrow> checker" where
  "resolve_glob_import sym_ord path loc into_scope_id s =
     (if path = [] then push_error (EmptyGlobImport loc) s
      else
        (case find_module_scope path (tc_symbol_table s) of
           None \<Rightarrow> push_error (ImportResolutionFailed (join ''::'' path @ ''::* - module not found'') loc) s
         | Some target \<Rightarrow>
             if target \<in> tc_glob_in_progress s then push_error (CircularImport (join ''::'' path) loc) s
             else
               (let s1 = s\<lparr>tc_glob_in_progress := insert target (tc_glob_in_progress s)\<rparr>;
                    public_symbols =
                      get_public_symbols_from_scope (sym_ord target) target (tc_symbol_table s1);
                    s2 = (case get_scope (tc_symbol_table s1) into_scope_id of
                            None \<Rightarrow> s1
                          | Some _ \<Rightarrow>
                              fold (\<lambda>(n, sy). bind_import into_scope_id
                                      \<lparr>ri_local_name = n, ri_symbol = sy,
                                       ri_definition_scope_id = target\<rparr>) public_symbols s1)
                in s2\<lparr>tc_glob_in_progress := tc_glob_in_progress s2 - {target}\<rparr>)))"

definition resolve_import ::
  "(nat \<Rightarrow> string list) \<Rightarrow> nat \<Rightarrow> import_decl \<Rightarrow> checker \<Rightarrow> checker option" where
  "resolve_import sym_ord scope_id i s =
     (case imp_kind i of
        Import_Plain \<Rightarrow>
          (if imp_path i = [] then Some s
           else resolve_import_path (imp_path i) (join ''::'' (imp_path i)) (join ''::'' (imp_path i))
                  (last (imp_path i)) (imp_location i) scope_id s)
      | Import_Partial items \<Rightarrow>
          fold_opt (resolve_import_item (imp_path i) (imp_location i) scope_id) items s
      | Import_Glob \<Rightarrow>
          Some (resolve_glob_import sym_ord (imp_path i) (imp_location i) scope_id s))"

definition resolve_imports_in_scope ::
  "(nat \<Rightarrow> string list) \<Rightarrow> nat \<Rightarrow> checker \<Rightarrow> checker option" where
  "resolve_imports_in_scope sym_ord scope_id s =
     (case get_scope (tc_symbol_table s) scope_id of
        None \<Rightarrow> Some s
      | Some sc \<Rightarrow> fold_opt (resolve_import sym_ord scope_id) (sc_imports sc) s)"

definition resolve_imports :: "nat list \<Rightarrow> (nat \<Rightarrow> string list) \<Rightarrow> checker \<Rightarrow> checker option" where
  "resolve_imports scope_ord sym_ord s =
     fold_opt (resolve_imports_in_scope sym_ord) (all_scope_ids scope_ord (tc_symbol_table s)) s"

end
