(* ===== verification/InferExpr.thy ===== *)
theory InferExpr
  imports CheckerState
begin

text \<open>
  Type inference for expressions, \<open>TypeChecker::infer_expression\<close> in
  \<open>core/type-checker/src/type_checker.rs\<close>. The part of each arm that runs after the recursive
  calls is a definition of its own; \<open>infer_expression\<close> makes the calls in the order of the source
  and threads the state through them. The answer is the inferred type, if any, and the new state;
  \<^term>\<open>None\<close> is a panic (an array size that is no literal, an array literal with an empty
  element vector) or a lookup that does not return.
\<close>

section \<open>Array indexing and member access\<close>

definition check_index_type :: "location \<Rightarrow> type_info option \<Rightarrow> checker \<Rightarrow> checker" where
  "check_index_type l index_type s =
     (case index_type of
        Some t \<Rightarrow> if \<not> is_number t then push_error (ArrayIndexNotNumeric t l) s else s
      | None \<Rightarrow> s)"

definition array_index_result ::
  "nat \<Rightarrow> location \<Rightarrow> type_info \<Rightarrow> checker \<Rightarrow> type_info option \<times> checker" where
  "array_index_result i l array_type s =
     (case ti_kind array_type of
        Kind_Array elem _ \<Rightarrow> (Some elem, set_node_typeinfo i elem s)
      | _ \<Rightarrow> (None, push_error (ExpectedArrayType array_type l) s))"

definition struct_name_of :: "type_info \<Rightarrow> checker \<Rightarrow> string option option" where
  "struct_name_of t s =
     (case ti_kind t of
        Kind_Struct n \<Rightarrow> Some (Some n)
      | Kind_Custom n \<Rightarrow>
          do { info \<leftarrow> lookup_struct n (tc_symbol_table s);
               Some (case info of Some _ \<Rightarrow> Some n | None \<Rightarrow> None) }
      | _ \<Rightarrow> Some None)"

definition member_access_result ::
  "nat \<Rightarrow> location \<Rightarrow> string \<Rightarrow> type_info \<Rightarrow> checker \<Rightarrow> (type_info option \<times> checker) option" where
  "member_access_result i l field_name object_type s =
     do { struct_name \<leftarrow> struct_name_of object_type s;
          case struct_name of
            None \<Rightarrow> Some (None, push_error (ExpectedStructType object_type l) s)
          | Some n \<Rightarrow>
              do { info \<leftarrow> lookup_struct n (tc_symbol_table s);
                   case info of
                     None \<Rightarrow> Some (None, push_error (FieldNotFound n field_name l) s)
                   | Some struct_info \<Rightarrow>
                       (case si_fields struct_info field_name of
                          None \<Rightarrow> Some (None, push_error (FieldNotFound n field_name l) s)
                        | Some field_info \<Rightarrow>
                            do { (_, s1) \<leftarrow> check_and_report_visibility (sfi_visibility field_info)
                                   (si_definition_scope_id struct_info) l (Vis_Field n field_name) s;
                                 Some (Some (sfi_type_info field_info),
                                       set_node_typeinfo i (sfi_type_info field_info) s1) }) } }"

definition enum_variant_result ::
  "nat \<Rightarrow> location \<Rightarrow> string \<Rightarrow> string \<Rightarrow> checker \<Rightarrow> (type_info option \<times> checker) option" where
  "enum_variant_result i l enum_name variant_name s =
     do { info \<leftarrow> lookup_enum enum_name (tc_symbol_table s);
          case info of
            None \<Rightarrow> Some (None, push_error_dedup (UndefinedEnum enum_name l) s)
          | Some enum_info \<Rightarrow>
              if variant_name \<in> ei_variants enum_info then
                do { (_, s1) \<leftarrow> check_and_report_visibility (ei_visibility enum_info)
                       (ei_definition_scope_id enum_info) l (Vis_Enum enum_name) s;
                     let enum_type = TypeInfo (Kind_Enum enum_name) [];
                     Some (Some enum_type, set_node_typeinfo i enum_type s1) }
              else Some (None, push_error (VariantNotFound enum_name variant_name l) s) }"

text \<open>What stands before the \<open>::\<close> of \<open>Enum::Variant\<close>: a name, another type, or an expression.\<close>

datatype enum_qualifier = Enum_Named string | Enum_Other_Type ty | Enum_Expression

fun enum_qualifier_of :: "expression \<Rightarrow> enum_qualifier" where
  "enum_qualifier_of (Expr_Type (Type_Custom x)) = Enum_Named (ident_name x)"
| "enum_qualifier_of (Expr_Type t) = Enum_Other_Type t"
| "enum_qualifier_of (Expr_Identifier x) = Enum_Named (ident_name x)"
| "enum_qualifier_of _ = Enum_Expression"

definition enum_variant_of_type ::
  "nat \<Rightarrow> location \<Rightarrow> string \<Rightarrow> type_info option \<Rightarrow> checker \<Rightarrow> (type_info option \<times> checker) option" where
  "enum_variant_of_type i l variant_name expr_type s =
     (case expr_type of
        None \<Rightarrow> Some (None, s)
      | Some t \<Rightarrow>
          (case ti_kind t of
             Kind_Enum n \<Rightarrow> enum_variant_result i l n variant_name s
           | _ \<Rightarrow> Some (None, push_error (ExpectedEnumType t l) s)))"

section \<open>Calls\<close>

text \<open>The type a \<open>Type::function\<close> callee names.\<close>

fun associated_type_name :: "expression \<Rightarrow> string option" where
  "associated_type_name (Expr_Type (Type_Custom x)) = Some (ident_name x)"
| "associated_type_name (Expr_Type (Type_QualifiedName q)) =
     Some (ident_name (qn_qualifier q) @ ''::'' @ ident_name (qn_name q))"
| "associated_type_name (Expr_Type (Type_Qualified q)) =
     Some (ident_name (tqn_alias q) @ ''::'' @ ident_name (tqn_name q))"
| "associated_type_name (Expr_Identifier x) = Some (ident_name x)"
| "associated_type_name _ = None"

text \<open>
  The method a callee \<open>Type::function\<close> finds, unless the type is an enum: the identifier and
  position of the callee, the type, the method's name and its information.
\<close>

fun associated_method ::
  "expression \<Rightarrow> checker \<Rightarrow> (nat \<times> location \<times> string \<times> string \<times> method_info) option option" where
  "associated_method (Expr_TypeMemberAccess mi ml inner m) s =
     (case associated_type_name inner of
        None \<Rightarrow> Some None
      | Some type_name \<Rightarrow>
          do { enum_info \<leftarrow> lookup_enum type_name (tc_symbol_table s);
               case enum_info of
                 Some _ \<Rightarrow> Some None
               | None \<Rightarrow>
                   do { method \<leftarrow> lookup_method type_name (ident_name m) (tc_symbol_table s);
                        Some (map_option (\<lambda>info. (mi, ml, type_name, ident_name m, info)) method) } })"
| "associated_method _ s = Some None"

definition argument_count :: "'a list option \<Rightarrow> nat" where
  "argument_count args = (case args of None \<Rightarrow> 0 | Some as \<Rightarrow> length as)"

definition check_method_signature ::
  "string \<Rightarrow> string \<Rightarrow> location \<Rightarrow> location \<Rightarrow> nat \<Rightarrow> method_info \<Rightarrow> checker \<Rightarrow> checker option" where
  "check_method_signature type_name method_name member_loc call_loc arg_count info s =
     do { (_, s1) \<leftarrow> check_and_report_visibility (mi_visibility info) (mi_scope_id info) member_loc
            (Vis_Method type_name method_name) s;
          let expected = length (fi_param_types (mi_signature info));
          Some (if arg_count \<noteq> expected
                then push_error (ArgumentCountMismatch ''method'' (type_name @ ''::'' @ method_name)
                       expected arg_count call_loc) s1
                else s1) }"

definition check_associated_call ::
  "string \<Rightarrow> string \<Rightarrow> location \<Rightarrow> location \<Rightarrow> nat \<Rightarrow> method_info \<Rightarrow> checker \<Rightarrow> checker option" where
  "check_associated_call type_name method_name member_loc call_loc arg_count info s =
     check_method_signature type_name method_name member_loc call_loc arg_count info
       (if is_instance_method info
        then push_error (InstanceMethodCalledAsAssociated type_name method_name member_loc) s
        else s)"

definition check_instance_call ::
  "string \<Rightarrow> string \<Rightarrow> location \<Rightarrow> location \<Rightarrow> nat \<Rightarrow> method_info \<Rightarrow> checker \<Rightarrow> checker option" where
  "check_instance_call type_name method_name member_loc call_loc arg_count info s =
     check_method_signature type_name method_name member_loc call_loc arg_count info
       (if \<not> is_instance_method info
        then push_error (AssociatedFunctionCalledAsMethod type_name method_name member_loc) s
        else s)"

definition method_call_result ::
  "nat \<Rightarrow> nat \<Rightarrow> string \<Rightarrow> string \<Rightarrow> method_info \<Rightarrow> checker \<Rightarrow> type_info option \<times> checker" where
  "method_call_result call_id member_id type_name method_name info s =
     (let ret = fi_return_type (mi_signature info)
      in (Some ret,
          set_node_typeinfo call_id ret
            (set_node_typeinfo member_id
               (TypeInfo (Kind_Function (type_name @ ''::'' @ method_name)) []) s)))"

text \<open>Explicit type arguments: one concrete type per declared parameter.\<close>

fun concrete_types :: "ident list \<Rightarrow> symbol_table \<Rightarrow> type_info list option" where
  "concrete_types [] st = Some []"
| "concrete_types (x # xs) st =
     do { t \<leftarrow> lookup_type (ident_name x) st;
          ts \<leftarrow> concrete_types xs st;
          Some ((case t of Some t' \<Rightarrow> t' | None \<Rightarrow> TypeInfo (Kind_Custom (ident_name x)) []) # ts) }"

definition explicit_substitutions ::
  "string \<Rightarrow> func_info \<Rightarrow> ident list \<Rightarrow> location \<Rightarrow> checker
   \<Rightarrow> ((string \<times> type_info) list \<times> checker) option" where
  "explicit_substitutions name sig type_parameters l s =
     (if length type_parameters \<noteq> length (fi_type_params sig)
      then Some ([], push_error (TypeParameterCountMismatch name (length (fi_type_params sig))
                       (length type_parameters) l) s)
      else do { ts \<leftarrow> concrete_types type_parameters (tc_symbol_table s);
                Some (fold (\<lambda>(p, t). assoc_insert p t) (zip (fi_type_params sig) ts) [], s) })"

text \<open>Inferred type arguments: what one argument says about its parameter.\<close>

definition note_type_argument ::
  "string \<Rightarrow> location \<Rightarrow> type_info option \<Rightarrow> (string \<times> type_info) list \<Rightarrow> checker
   \<Rightarrow> (string \<times> type_info) list \<times> checker" where
  "note_type_argument tp l arg_type sub s =
     (case arg_type of
        None \<Rightarrow> (sub, s)
      | Some t \<Rightarrow>
          (case map_of sub tp of
             Some existing \<Rightarrow>
               (sub, if existing \<noteq> t then push_error (ConflictingTypeInference tp existing t l) s else s)
           | None \<Rightarrow> (assoc_insert tp t sub, s)))"

definition report_uninferred ::
  "func_info \<Rightarrow> location \<Rightarrow> (string \<times> type_info) list \<Rightarrow> checker \<Rightarrow> checker" where
  "report_uninferred sig l sub s =
     fold (\<lambda>tp s. if map_of sub tp = None
                   then push_error (CannotInferTypeParameter (fi_name sig) tp l) s else s)
       (fi_type_params sig) s"

definition report_missing ::
  "string \<Rightarrow> func_info \<Rightarrow> location \<Rightarrow> (string \<times> type_info) list \<Rightarrow> checker \<Rightarrow> checker" where
  "report_missing name sig l sub s =
     (if sub = [] \<and> fi_type_params sig \<noteq> []
      then push_error (MissingTypeParameters name (length (fi_type_params sig)) l) s else s)"

definition finish_type_inference ::
  "string \<Rightarrow> func_info \<Rightarrow> bool \<Rightarrow> location \<Rightarrow> (string \<times> type_info) list \<Rightarrow> checker \<Rightarrow> checker" where
  "finish_type_inference name sig has_args l sub s =
     report_missing name sig l sub (if has_args then report_uninferred sig l sub s else s)"

definition wrong_argument_count :: "func_info \<Rightarrow> 'a list option \<Rightarrow> bool" where
  "wrong_argument_count sig args =
     (case args of None \<Rightarrow> False | Some as \<Rightarrow> length as \<noteq> length (fi_param_types sig))"

text \<open>
  What a call of a named function does before its arguments are inferred, and how it goes on:
  the call is given up, its type arguments have to be inferred, or they are known.
\<close>

datatype call_plan =
    Call_Given_Up
  | Call_Infers func_info
  | Call_Ready func_info "(string \<times> type_info) list"

definition start_function_call ::
  "string \<Rightarrow> location \<Rightarrow> ident list option \<Rightarrow> 'a list option \<Rightarrow> checker \<Rightarrow> (call_plan \<times> checker) option" where
  "start_function_call name l tps args s =
     do { signature \<leftarrow> lookup_function name (tc_symbol_table s);
          case signature of
            None \<Rightarrow> Some (Call_Given_Up, push_error_dedup (UndefinedFunction name l) s)
          | Some sig \<Rightarrow>
              do { (_, s1) \<leftarrow> check_and_report_visibility (fi_visibility sig)
                     (fi_definition_scope_id sig) l (Vis_Function name) s;
                   if wrong_argument_count sig args then
                     Some (Call_Given_Up,
                       push_error (ArgumentCountMismatch ''function'' name
                         (length (fi_param_types sig)) (argument_count args) l) s1)
                   else if fi_type_params sig = [] then Some (Call_Ready sig [], s1)
                   else
                     (case tps of
                        None \<Rightarrow> Some (Call_Infers sig, s1)
                      | Some type_parameters \<Rightarrow>
                          map_option (\<lambda>(sub, s2). (Call_Ready sig sub, s2))
                            (explicit_substitutions name sig type_parameters l s1)) } }"

text \<open>
  The same for \<open>receiver.method(...)\<close> once the receiver has a type: a missing method ends the
  call, a receiver that is no struct leaves only the arguments to infer.
\<close>

datatype method_plan =
    Method_Missing
  | Method_Bad_Receiver
  | Method_Found string method_info

definition start_instance_call ::
  "string \<Rightarrow> location \<Rightarrow> location \<Rightarrow> nat \<Rightarrow> type_info \<Rightarrow> checker \<Rightarrow> (method_plan \<times> checker) option" where
  "start_instance_call method_name member_loc l arg_count receiver_type s =
     do { type_name \<leftarrow> struct_name_of receiver_type s;
          case type_name of
            None \<Rightarrow> Some (Method_Bad_Receiver, push_error (MethodCallOnNonStruct receiver_type l) s)
          | Some tn \<Rightarrow>
              do { method \<leftarrow> lookup_method tn method_name (tc_symbol_table s);
                   case method of
                     None \<Rightarrow> Some (Method_Missing, push_error (MethodNotFound tn method_name member_loc) s)
                   | Some info \<Rightarrow>
                       do { s1 \<leftarrow> check_instance_call tn method_name member_loc l arg_count info s;
                            Some (Method_Found tn info, s1) } } }"

fun call_receiver :: "expression \<Rightarrow> (nat \<times> location \<times> expression \<times> ident) option" where
  "call_receiver (Expr_MemberAccess i l e n) = Some (i, l, e, n)"
| "call_receiver _ = None"

definition argument_list :: "'a list option \<Rightarrow> 'a list" where
  "argument_list args = (case args of None \<Rightarrow> [] | Some as \<Rightarrow> as)"

definition function_call_result ::
  "nat \<Rightarrow> func_info \<Rightarrow> (string \<times> type_info) list \<Rightarrow> checker \<Rightarrow> type_info option \<times> checker" where
  "function_call_result i sig sub s =
     (let ret = substitute (fi_return_type sig) sub in (Some ret, set_node_typeinfo i ret s))"

section \<open>Struct literals, operators, identifiers\<close>

definition struct_result ::
  "nat \<Rightarrow> location \<Rightarrow> string \<Rightarrow> checker \<Rightarrow> (type_info option \<times> checker) option" where
  "struct_result i l n s =
     (case node_typeinfo i s of
        Some t \<Rightarrow> Some (Some t, s)
      | None \<Rightarrow>
          do { struct_type \<leftarrow> lookup_type n (tc_symbol_table s);
               case struct_type of
                 Some t \<Rightarrow> Some (Some t, set_node_typeinfo i t s)
               | None \<Rightarrow> Some (None, push_error_dedup (UndefinedStruct n l) s) })"

fun unary_operand_ok :: "unary_operator_kind \<Rightarrow> type_info \<Rightarrow> bool" where
  "unary_operand_ok UnOp_Not t = is_bool t"
| "unary_operand_ok UnOp_Neg t = is_signed_integer t"
| "unary_operand_ok UnOp_BitNot t = is_number t"

fun unary_expected :: "unary_operator_kind \<Rightarrow> string" where
  "unary_expected UnOp_Not = ''booleans''"
| "unary_expected UnOp_Neg = ''signed integers (i8, i16, i32, i64)''"
| "unary_expected UnOp_BitNot = ''integers (i8, i16, i32, i64, u8, u16, u32, u64)''"

definition unary_result ::
  "nat \<Rightarrow> location \<Rightarrow> unary_operator_kind \<Rightarrow> type_info option \<Rightarrow> checker \<Rightarrow> type_info option \<times> checker" where
  "unary_result i l op operand s =
     (case operand of
        None \<Rightarrow> (None, s)
      | Some t \<Rightarrow>
          if unary_operand_ok op t then (Some t, set_node_typeinfo i t s)
          else (None, push_error (InvalidUnaryOperand op (unary_expected op) t l) s))"

datatype operator_class = Logical | Comparison | Arithmetic

primrec operator_class_of :: "operator_kind \<Rightarrow> operator_class" where
  "operator_class_of Op_And = Logical"
| "operator_class_of Op_Or = Logical"
| "operator_class_of Op_Eq = Comparison"
| "operator_class_of Op_Ne = Comparison"
| "operator_class_of Op_Lt = Comparison"
| "operator_class_of Op_Le = Comparison"
| "operator_class_of Op_Gt = Comparison"
| "operator_class_of Op_Ge = Comparison"
| "operator_class_of Op_Pow = Arithmetic"
| "operator_class_of Op_Add = Arithmetic"
| "operator_class_of Op_Sub = Arithmetic"
| "operator_class_of Op_Mul = Arithmetic"
| "operator_class_of Op_Div = Arithmetic"
| "operator_class_of Op_Mod = Arithmetic"
| "operator_class_of Op_BitAnd = Arithmetic"
| "operator_class_of Op_BitOr = Arithmetic"
| "operator_class_of Op_BitXor = Arithmetic"
| "operator_class_of Op_BitNot = Arithmetic"
| "operator_class_of Op_Shl = Arithmetic"
| "operator_class_of Op_Shr = Arithmetic"

definition binary_result ::
  "nat \<Rightarrow> location \<Rightarrow> operator_kind \<Rightarrow> type_info option \<Rightarrow> type_info option \<Rightarrow> checker
   \<Rightarrow> type_info option \<times> checker" where
  "binary_result i l op left_type right_type s =
     (case (left_type, right_type) of
        (Some lt, Some rt) \<Rightarrow>
          (let s1 = (if lt \<noteq> rt then push_error (BinaryOperandTypeMismatch op lt rt l) s else s)
           in case operator_class_of op of
                Logical \<Rightarrow>
                  (if is_bool lt \<and> is_bool rt
                   then (Some boolean_type, set_node_typeinfo i boolean_type s1)
                   else (None, push_error (InvalidBinaryOperand op ''logical'' ''non-boolean types''
                                 (lt, rt) l) s1))
              | Comparison \<Rightarrow> (Some boolean_type, set_node_typeinfo i boolean_type s1)
              | Arithmetic \<Rightarrow>
                  (let s2 = (if \<not> is_number lt \<or> \<not> is_number rt
                             then push_error (InvalidBinaryOperand op ''arithmetic'' ''non-number types''
                                    (lt, rt) l) s1
                             else s1);
                       s3 = (if lt \<noteq> rt then push_error (BinaryOperandTypeMismatch op lt rt l) s2
                             else s2)
                   in (Some lt, set_node_typeinfo i lt s3)))
      | _ \<Rightarrow> (None, s))"

definition note_parenthesized :: "nat \<Rightarrow> type_info option \<Rightarrow> checker \<Rightarrow> checker" where
  "note_parenthesized i t s = (case t of Some t' \<Rightarrow> set_node_typeinfo i t' s | None \<Rightarrow> s)"

definition check_element :: "type_info \<Rightarrow> location \<Rightarrow> type_info option \<Rightarrow> checker \<Rightarrow> checker" where
  "check_element expected l found s =
     (case found of
        Some t \<Rightarrow> if t \<noteq> expected then push_error (ArrayElementTypeMismatch expected t l) s else s
      | None \<Rightarrow> s)"

definition identifier_result :: "ident \<Rightarrow> checker \<Rightarrow> (type_info option \<times> checker) option" where
  "identifier_result x s =
     do { var_ty \<leftarrow> lookup_variable (ident_name x) (tc_symbol_table s);
          case var_ty of
            Some t \<Rightarrow> Some (Some t, set_node_typeinfo (ident_id x) t s)
          | None \<Rightarrow> Some (None, push_error_dedup (UnknownIdentifier (ident_name x) (ident_location x)) s) }"

definition number_literal_result :: "nat \<Rightarrow> checker \<Rightarrow> type_info option \<times> checker" where
  "number_literal_result i s =
     (case node_typeinfo i s of
        Some t \<Rightarrow> (Some t, s)
      | None \<Rightarrow> (let t = TypeInfo (Kind_Number Num_I32) [] in (Some t, set_node_typeinfo i t s)))"

fun array_size_of :: "ty \<Rightarrow> expression option" where
  "array_size_of (Type_Array _ _ _ sz) = Some sz"
| "array_size_of _ = None"

section \<open>Inference\<close>

lemma argument_list_size: "size_list f (argument_list args) < Suc (size_option (size_list f) args + n)"
  by (cases args) (auto simp: argument_list_def)

lemma call_receiver_size: "call_receiver f = Some (i, l, e, n) \<Longrightarrow> size e < size f"
  by (cases f) auto

lemma call_receiver_size': "call_receiver f = Some (i, l, e, n) \<Longrightarrow> size e < Suc (m + size f)"
  by (drule call_receiver_size) simp

lemma array_size_of_size: "array_size_of t = Some e \<Longrightarrow> size e < Suc (size t)"
  by (cases t) auto

function (sequential) infer_expression :: "expression \<Rightarrow> checker \<Rightarrow> (type_info option \<times> checker) option"
and infer_arguments :: "(ident option \<times> expression) list \<Rightarrow> checker \<Rightarrow> checker option"
and infer_type_params ::
  "type_info list \<Rightarrow> (ident option \<times> expression) list \<Rightarrow> location \<Rightarrow> (string \<times> type_info) list
   \<Rightarrow> checker \<Rightarrow> ((string \<times> type_info) list \<times> checker) option"
and infer_elements :: "type_info \<Rightarrow> location \<Rightarrow> expression list \<Rightarrow> checker \<Rightarrow> checker option" where
  "infer_expression (Expr_ArrayIndexAccess i l arr idx) s =
     (case node_typeinfo i s of
        Some t \<Rightarrow> Some (Some t, s)
      | None \<Rightarrow>
          do { (array_type, s1) \<leftarrow> infer_expression arr s;
               case array_type of
                 None \<Rightarrow> Some (None, s1)
               | Some at \<Rightarrow>
                   do { (index_type, s2) \<leftarrow> infer_expression idx s1;
                        Some (array_index_result i l at (check_index_type l index_type s2)) } })"
| "infer_expression (Expr_MemberAccess i l obj name) s =
     (case node_typeinfo i s of
        Some t \<Rightarrow> Some (Some t, s)
      | None \<Rightarrow>
          do { (object_type, s1) \<leftarrow> infer_expression obj s;
               case object_type of
                 None \<Rightarrow> Some (None, s1)
               | Some ot \<Rightarrow> member_access_result i l (ident_name name) ot s1 })"
| "infer_expression (Expr_TypeMemberAccess i l inner name) s =
     (case node_typeinfo i s of
        Some t \<Rightarrow> Some (Some t, s)
      | None \<Rightarrow>
          (case enum_qualifier_of inner of
             Enum_Named n \<Rightarrow> enum_variant_result i l n (ident_name name) s
           | Enum_Other_Type t \<Rightarrow>
               do { ti \<leftarrow> type_info_new t; Some (None, push_error (ExpectedEnumType ti l) s) }
           | Enum_Expression \<Rightarrow>
               do { (expr_type, s1) \<leftarrow> infer_expression inner s;
                    enum_variant_of_type i l (ident_name name) expr_type s1 }))"
| "infer_expression (Expr_FunctionCall i l f tps args) s =
     do { assoc \<leftarrow> associated_method f s;
          case assoc of
            Some (member_id, member_loc, type_name, method_name, info) \<Rightarrow>
              do { s1 \<leftarrow> check_associated_call type_name method_name member_loc l
                           (argument_count args) info s;
                   s2 \<leftarrow> infer_arguments (argument_list args) s1;
                   Some (method_call_result i member_id type_name method_name info s2) }
          | None \<Rightarrow>
              (case call_receiver f of
                 Some (member_id, member_loc, receiver, name) \<Rightarrow>
                   do { (receiver_type, s1) \<leftarrow> infer_expression receiver s;
                        case receiver_type of
                          None \<Rightarrow> do { s2 \<leftarrow> infer_arguments (argument_list args) s1; Some (None, s2) }
                        | Some rt \<Rightarrow>
                            do { (plan, s2) \<leftarrow> start_instance_call (ident_name name) member_loc l
                                   (argument_count args) rt s1;
                                 case plan of
                                   Method_Missing \<Rightarrow> Some (None, s2)
                                 | Method_Bad_Receiver \<Rightarrow>
                                     do { s3 \<leftarrow> infer_arguments (argument_list args) s2; Some (None, s3) }
                                 | Method_Found tn info \<Rightarrow>
                                     do { s3 \<leftarrow> infer_arguments (argument_list args) s2;
                                          Some (method_call_result i member_id tn (ident_name name)
                                                  info s3) } } }
               | None \<Rightarrow>
                   do { (plan, s1) \<leftarrow> start_function_call (function_call_name f) l tps args s;
                        case plan of
                          Call_Given_Up \<Rightarrow>
                            do { s2 \<leftarrow> infer_arguments (argument_list args) s1; Some (None, s2) }
                        | Call_Ready sig sub \<Rightarrow>
                            do { s2 \<leftarrow> infer_arguments (argument_list args) s1;
                                 Some (function_call_result i sig sub s2) }
                        | Call_Infers sig \<Rightarrow>
                            do { (sub, s2) \<leftarrow> infer_type_params (fi_param_types sig)
                                   (argument_list args) l [] s1;
                                 s3 \<leftarrow> infer_arguments (argument_list args)
                                         (finish_type_inference (function_call_name f) sig
                                           (args \<noteq> None) l sub s2);
                                 Some (function_call_result i sig sub s3) } }) }"
| "infer_expression (Expr_Struct i l n flds) s = struct_result i l (ident_name n) s"
| "infer_expression (Expr_PrefixUnary i l e op) s =
     do { (t, s1) \<leftarrow> infer_expression e s; Some (unary_result i l op t s1) }"
| "infer_expression (Expr_Parenthesized i l e) s =
     do { (t, s1) \<leftarrow> infer_expression e s; Some (t, note_parenthesized i t s1) }"
| "infer_expression (Expr_Binary i l left op right) s =
     (case node_typeinfo i s of
        Some t \<Rightarrow> Some (Some t, s)
      | None \<Rightarrow>
          do { (left_type, s1) \<leftarrow> infer_expression left s;
               (right_type, s2) \<leftarrow> infer_expression right s1;
               Some (binary_result i l op left_type right_type s2) })"
| "infer_expression (Expr_Literal (Lit_Array i l elems)) s =
     (case node_typeinfo i s of
        Some t \<Rightarrow> Some (Some t, s)
      | None \<Rightarrow>
          (case elems of
             None \<Rightarrow> Some (None, s)
           | Some [] \<Rightarrow> None
           | Some (e # es) \<Rightarrow>
               do { (t, s1) \<leftarrow> infer_expression e s;
                    case t of
                      None \<Rightarrow> Some (None, s1)
                    | Some et \<Rightarrow>
                        do { s2 \<leftarrow> infer_elements et l es s1;
                             let at = TypeInfo (Kind_Array et (length (e # es) mod 2 ^ 32)) [];
                             Some (Some at, set_node_typeinfo i at s2) } }))"
| "infer_expression (Expr_Literal (Lit_Bool i l b)) s =
     Some (Some boolean_type, set_node_typeinfo i boolean_type s)"
| "infer_expression (Expr_Literal (Lit_String i l v)) s =
     Some (Some string_type, set_node_typeinfo i string_type s)"
| "infer_expression (Expr_Literal (Lit_Number i l v)) s = Some (number_literal_result i s)"
| "infer_expression (Expr_Literal (Lit_Unit i l)) s =
     Some (Some default_type_info, set_node_typeinfo i default_type_info s)"
| "infer_expression (Expr_Identifier x) s = identifier_result x s"
| "infer_expression (Expr_Type t) s =
     do { ti \<leftarrow> type_info_new t;
          let s1 = set_node_typeinfo (type_id t) ti s;
          case array_size_of t of
            Some sz \<Rightarrow> do { (_, s2) \<leftarrow> infer_expression sz s1; Some (Some ti, s2) }
          | None \<Rightarrow> Some (Some ti, s1) }"
| "infer_expression (Expr_Uzumaki i l) s = Some (node_typeinfo i s, s)"
| "infer_arguments [] s = Some s"
| "infer_arguments ((_, e) # as) s =
     do { (_, s1) \<leftarrow> infer_expression e s; infer_arguments as s1 }"
| "infer_type_params (p # ps) ((_, e) # as) l sub s =
     do { (sub1, s1) \<leftarrow>
            (case ti_kind p of
               Kind_Generic tp \<Rightarrow>
                 do { (arg_type, s') \<leftarrow> infer_expression e s;
                      Some (note_type_argument tp l arg_type sub s') }
             | _ \<Rightarrow> Some (sub, s));
          infer_type_params ps as l sub1 s1 }"
| "infer_type_params _ _ l sub s = Some (sub, s)"
| "infer_elements et l [] s = Some s"
| "infer_elements et l (e # es) s =
     do { (t, s1) \<leftarrow> infer_expression e s;
          infer_elements et l es (check_element et l t s1) }"

  by pat_completeness auto

termination
  apply (relation "measure (\<lambda>x. case x of
           Inl (Inl (e, _)) \<Rightarrow> size e
         | Inl (Inr (as, _)) \<Rightarrow> size_list (size_prod (\<lambda>_. 0) size) as
         | Inr (Inl (_, as, _)) \<Rightarrow> size_list (size_prod (\<lambda>_. 0) size) as
         | Inr (Inr (_, _, es, _)) \<Rightarrow> size_list size es)")
  apply (auto split: option.splits simp: argument_list_size
              intro: call_receiver_size' array_size_of_size)
  done

end
