(* ===== verification/InferStmt.thy ===== *)
theory InferStmt
  imports InferExpr
begin

text \<open>
  Checking of statements and bodies: \<open>infer_statement\<close>, \<open>infer_variables\<close> and
  \<open>infer_method_variables\<close> of \<open>core/type-checker/src/type_checker.rs\<close>. Every block is checked in
  a scope of its own, pushed before its statements and popped after them.
\<close>

section \<open>What a statement does after its expressions are inferred\<close>

fun uzumaki_parts :: "expression \<Rightarrow> (nat \<times> location) option" where
  "uzumaki_parts (Expr_Uzumaki i l) = Some (i, l)"
| "uzumaki_parts _ = None"

definition assign_uzumaki :: "nat \<Rightarrow> location \<Rightarrow> type_info option \<Rightarrow> checker \<Rightarrow> checker" where
  "assign_uzumaki i l target s =
     (case target of
        Some t \<Rightarrow> set_node_typeinfo i t s
      | None \<Rightarrow> push_error (CannotInferUzumakiType l) s)"

definition check_assignment ::
  "location \<Rightarrow> type_info option \<Rightarrow> type_info option \<Rightarrow> checker \<Rightarrow> checker" where
  "check_assignment l target val s =
     (case (target, val) of
        (Some t, Some v) \<Rightarrow>
          if t \<noteq> v then push_error (TypeMismatch t v Mismatch_Assignment l) s else s
      | _ \<Rightarrow> s)"

definition type_or_default :: "type_info option \<Rightarrow> type_info" where
  "type_or_default t = (case t of Some t' \<Rightarrow> t' | None \<Rightarrow> default_type_info)"

definition check_return :: "location \<Rightarrow> type_info \<Rightarrow> type_info option \<Rightarrow> checker \<Rightarrow> checker" where
  "check_return l return_type val s =
     (if return_type \<noteq> type_or_default val
      then push_error (TypeMismatch return_type (type_or_default val) Mismatch_Return l) s else s)"

definition check_condition :: "location \<Rightarrow> type_info option \<Rightarrow> checker \<Rightarrow> checker" where
  "check_condition l condition_type s =
     (if (case condition_type of None \<Rightarrow> True | Some t \<Rightarrow> ti_kind t \<noteq> Kind_Bool)
      then push_error (TypeMismatch boolean_type (type_or_default condition_type) Mismatch_Condition l) s
      else s)"

definition check_initial_value ::
  "location \<Rightarrow> type_info \<Rightarrow> type_info option \<Rightarrow> checker \<Rightarrow> checker" where
  "check_initial_value l target init s =
     (case init of
        Some t \<Rightarrow>
          if t \<noteq> target then push_error (TypeMismatch target t Mismatch_VariableDefinition l) s else s
      | None \<Rightarrow> s)"

definition declare_variable :: "string \<Rightarrow> type_info \<Rightarrow> location \<Rightarrow> checker \<Rightarrow> checker option" where
  "declare_variable n t l s =
     report_registration (push_variable_to_scope n t)
       (\<lambda>err. RegistrationFailed Reg_Variable n (Some err) l) s"

definition declare_type :: "string \<Rightarrow> ty \<Rightarrow> location \<Rightarrow> checker \<Rightarrow> checker option" where
  "declare_type n t l s =
     report_registration (register_type n (Some t))
       (\<lambda>err. RegistrationFailed Reg_Type n (Some err) l) s"

definition infer_optional ::
  "expression option \<Rightarrow> location \<Rightarrow> checker \<Rightarrow> checker option" where
  "infer_optional condition l s =
     (case condition of
        None \<Rightarrow> Some s
      | Some c \<Rightarrow> do { (t, s1) \<leftarrow> infer_expression c s; Some (check_condition l t s1) })"

definition infer_initial_value ::
  "expression option \<Rightarrow> type_info \<Rightarrow> location \<Rightarrow> checker \<Rightarrow> checker option" where
  "infer_initial_value value target l s =
     (case value of
        None \<Rightarrow> Some s
      | Some e \<Rightarrow>
          (case uzumaki_parts e of
             Some (ui, _) \<Rightarrow> Some (set_node_typeinfo ui target s)
           | None \<Rightarrow>
               do { (t, s1) \<leftarrow> infer_expression e s; Some (check_initial_value l target t s1) }))"

section \<open>Statements\<close>

lemma block_statements_size: "size_list size (block_statements b) < size b"
  by (cases b) auto

function (sequential) infer_statement :: "statement \<Rightarrow> type_info \<Rightarrow> checker \<Rightarrow> checker option"
and infer_block :: "block_type \<Rightarrow> type_info \<Rightarrow> checker \<Rightarrow> checker option"
and infer_statements :: "statement list \<Rightarrow> type_info \<Rightarrow> checker \<Rightarrow> checker option" where
  "infer_statement (Stmt_Assign i l left right) rt s =
     do { (target_type, s1) \<leftarrow> infer_expression left s;
          case uzumaki_parts right of
            Some (ui, ul) \<Rightarrow> Some (assign_uzumaki ui ul target_type s1)
          | None \<Rightarrow>
              do { (value_type, s2) \<leftarrow> infer_expression right s1;
                   Some (check_assignment l target_type value_type s2) } }"
| "infer_statement (Stmt_Block b) rt s = infer_block b rt s"
| "infer_statement (Stmt_Expression e) rt s = map_option snd (infer_expression e s)"
| "infer_statement (Stmt_Return i l e) rt s =
     (case uzumaki_parts e of
        Some (ui, _) \<Rightarrow> Some (set_node_typeinfo ui rt s)
      | None \<Rightarrow> do { (value_type, s1) \<leftarrow> infer_expression e s; Some (check_return l rt value_type s1) })"
| "infer_statement (Stmt_Loop i l condition body) rt s =
     do { s1 \<leftarrow> infer_optional condition l s; infer_block body rt s1 }"
| "infer_statement (Stmt_Break i l) rt s = Some s"
| "infer_statement (Stmt_If i l condition if_arm else_arm) rt s =
     do { (t, s1) \<leftarrow> infer_expression condition s;
          s2 \<leftarrow> infer_block if_arm rt (check_condition l t s1);
          case else_arm of
            None \<Rightarrow> Some s2
          | Some b \<Rightarrow> infer_block b rt s2 }"
| "infer_statement (Stmt_VariableDefinition i l name t value is_undef) rt s =
     do { target \<leftarrow> type_info_new t;
          s1 \<leftarrow> infer_initial_value value target l s;
          s2 \<leftarrow> declare_variable (ident_name name) target l s1;
          Some (set_node_typeinfo i target (set_node_typeinfo (ident_id name) target s2)) }"
| "infer_statement (Stmt_TypeDefinition i l name t) rt s = declare_type (ident_name name) t l s"
| "infer_statement (Stmt_Assert i l e) rt s =
     do { (t, s1) \<leftarrow> infer_expression e s; Some (check_condition l t s1) }"
| "infer_statement (Stmt_ConstantDefinition c) rt s =
     do { t \<leftarrow> type_info_new (cd_ty c);
          s1 \<leftarrow> declare_variable (ident_name (cd_name c)) t (cd_location c) s;
          Some (set_node_typeinfo (cd_id c) t (set_node_typeinfo (literal_id (cd_value c)) t s1)) }"
| "infer_block b rt s =
     do { s1 \<leftarrow> enter_scope s;
          s2 \<leftarrow> infer_statements (block_statements b) rt s1;
          leave_scope s2 }"
| "infer_statements [] rt s = Some s"
| "infer_statements (st # ss) rt s =
     do { s1 \<leftarrow> infer_statement st rt s; infer_statements ss rt s1 }"
  by pat_completeness auto

termination
  apply (relation "measure (\<lambda>x. case x of
           Inl (st, _) \<Rightarrow> size st
         | Inr (Inl (b, _)) \<Rightarrow> size b
         | Inr (Inr (ss, _)) \<Rightarrow> size_list size ss)")
  apply (auto simp: block_statements_size)
  done

section \<open>Bodies\<close>

text \<open>
  The parameters become variables of the function's scope. A \<open>self\<close> parameter is an error in a
  function and a variable of the struct's type in a method.
\<close>

fun declare_parameter :: "string list \<Rightarrow> argument_type \<Rightarrow> checker \<Rightarrow> checker option" where
  "declare_parameter tps (Arg_Argument a) s =
     do { t \<leftarrow> new_with_type_params (arg_ty a) tps;
          declare_variable (ident_name (arg_name a)) t (arg_location a) s }"
| "declare_parameter tps (Arg_SelfReference r) s =
     Some (push_error (SelfReferenceOutsideMethod (self_location r)) s)"
| "declare_parameter tps (Arg_IgnoreArgument _) s = Some s"
| "declare_parameter tps (Arg_Type _) s = Some s"

definition return_type_info :: "string list \<Rightarrow> ty option \<Rightarrow> type_info option" where
  "return_type_info tps r =
     (case r of None \<Rightarrow> Some default_type_info | Some t \<Rightarrow> new_with_type_params t tps)"

definition infer_variables :: "function_definition \<Rightarrow> checker \<Rightarrow> checker option" where
  "infer_variables f s =
     do { s1 \<leftarrow> enter_scope s;
          let tps = type_parameter_names (fd_type_parameters f);
          s2 \<leftarrow> fold_opt (declare_parameter tps) (argument_list (fd_arguments f)) s1;
          rt \<leftarrow> return_type_info tps (fd_returns f);
          s3 \<leftarrow> infer_statements (block_statements (fd_body f)) rt s2;
          leave_scope s3 }"

fun declare_method_parameter :: "type_info \<Rightarrow> argument_type \<Rightarrow> checker \<Rightarrow> checker option" where
  "declare_method_parameter self_type (Arg_Argument a) s =
     do { t \<leftarrow> type_info_new (arg_ty a);
          declare_variable (ident_name (arg_name a)) t (arg_location a) s }"
| "declare_method_parameter self_type (Arg_SelfReference r) s =
     declare_variable ''self'' self_type (self_location r) s"
| "declare_method_parameter self_type (Arg_IgnoreArgument _) s = Some s"
| "declare_method_parameter self_type (Arg_Type _) s = Some s"

definition infer_method_variables :: "function_definition \<Rightarrow> type_info \<Rightarrow> checker \<Rightarrow> checker option" where
  "infer_method_variables m self_type s =
     do { s1 \<leftarrow> enter_scope s;
          s2 \<leftarrow> fold_opt (declare_method_parameter self_type) (argument_list (fd_arguments m)) s1;
          s3 \<leftarrow> fold_opt (\<lambda>st s. do { rt \<leftarrow> return_type_info [] (fd_returns m);
                                       infer_statement st rt s })
                  (block_statements (fd_body m)) s2;
          leave_scope s3 }"

end
