(* ===== verification/CheckDriver.thy ===== *)
theory CheckDriver
  imports InferStmt
begin

text \<open>
  The phases of \<open>TypeChecker::infer_types\<close> (\<open>core/type-checker/src/type_checker.rs\<close>): types,
  functions and constants are registered, then bodies are checked; and the entry point
  \<open>TypeCheckerBuilder::build_typed_context\<close> of \<open>core/type-checker/src/lib.rs\<close>.

  The source files are visited in the order \<open>ord\<close> of the arena's hash map, the scopes in the order
  \<open>scope_ord\<close>, and the symbols of a scope in the order \<open>sym_ord\<close>.
\<close>

section \<open>Registering types and methods\<close>

fun is_self_reference :: "argument_type \<Rightarrow> bool" where
  "is_self_reference (Arg_SelfReference _) = True"
| "is_self_reference _ = False"

definition method_has_self :: "function_definition \<Rightarrow> bool" where
  "method_has_self m = list_ex is_self_reference (argument_list (fd_arguments m))"

definition method_signature :: "function_definition \<Rightarrow> checker \<Rightarrow> func_info option" where
  "method_signature m s =
     do { param_types \<leftarrow> map_opt type_info_new (argument_types (fd_arguments m));
          return_type \<leftarrow> return_type_info [] (fd_returns m);
          Some \<lparr>fi_name = ident_name (fd_name m),
                fi_type_params = type_parameter_names (fd_type_parameters m),
                fi_param_types = param_types, fi_return_type = return_type,
                fi_visibility = fd_visibility m,
                fi_definition_scope_id =
                  (case current_scope_id (tc_symbol_table s) of Some i \<Rightarrow> i | None \<Rightarrow> 0)\<rparr> }"

definition register_struct_method :: "string \<Rightarrow> function_definition \<Rightarrow> checker \<Rightarrow> checker option" where
  "register_struct_method struct_name m s =
     do { sig \<leftarrow> method_signature m s;
          report_registration (register_method struct_name sig (fd_visibility m) (method_has_self m))
            (\<lambda>err. RegistrationFailed Reg_Method (struct_name @ ''::'' @ ident_name (fd_name m))
                     (Some err) (fd_location m)) s }"

definition register_type_definition :: "type_definition \<Rightarrow> checker \<Rightarrow> checker option" where
  "register_type_definition t s =
     report_registration (register_type (ident_name (td_name t)) (Some (td_ty t)))
       (\<lambda>_. RegistrationFailed Reg_Type (ident_name (td_name t)) None (td_location t)) s"

definition register_struct_definition :: "struct_definition \<Rightarrow> checker \<Rightarrow> checker option" where
  "register_struct_definition d s =
     do { flds \<leftarrow> struct_fields (sd_fields d);
          report_registration (register_struct (ident_name (sd_name d)) flds [] (sd_visibility d))
            (\<lambda>_. RegistrationFailed Reg_Struct (ident_name (sd_name d)) None (sd_location d)) s }"

definition register_enum_definition :: "enum_definition \<Rightarrow> checker \<Rightarrow> checker option" where
  "register_enum_definition d s =
     report_registration
       (register_enum (ident_name (ed_name d)) (map ident_name (ed_variants d)) (ed_visibility d))
       (\<lambda>_. RegistrationFailed Reg_Enum (ident_name (ed_name d)) None (ed_location d)) s"

definition register_spec_definition :: "ident \<Rightarrow> location \<Rightarrow> checker \<Rightarrow> checker option" where
  "register_spec_definition n l s =
     report_registration (register_spec (ident_name n))
       (\<lambda>_. RegistrationFailed Reg_Spec (ident_name n) None l) s"

fun register_types_of :: "ast_definition \<Rightarrow> checker \<Rightarrow> checker option" where
  "register_types_of (Def_Type t) s = register_type_definition t s"
| "register_types_of (Def_Struct d) s =
     do { s1 \<leftarrow> register_struct_definition d s;
          fold_opt (register_struct_method (ident_name (sd_name d))) (sd_methods d) s1 }"
| "register_types_of (Def_Enum d) s = register_enum_definition d s"
| "register_types_of (Def_Spec _ l _ n _) s = register_spec_definition n l s"
| "register_types_of (Def_Constant _) s = Some s"
| "register_types_of (Def_Function _) s = Some s"
| "register_types_of (Def_ExternalFunction _) s = Some s"
| "register_types_of (Def_Module _ _ _ _ _) s = Some s"

definition register_types :: "nat list \<Rightarrow> checker \<Rightarrow> checker option" where
  "register_types ord s =
     fold_opt (\<lambda>f. fold_opt register_types_of (src_definitions f)) (cx_source_files ord (tc_ctx s)) s"

section \<open>Registering functions and constants\<close>

definition collect_constant :: "constant_definition \<Rightarrow> checker \<Rightarrow> checker option" where
  "collect_constant c s =
     do { t \<leftarrow> type_info_new (cd_ty c);
          s1 \<leftarrow> declare_variable (ident_name (cd_name c)) t (cd_location c) s;
          Some (set_node_typeinfo (literal_id (cd_value c)) t s1) }"

fun collect_parameter :: "function_definition \<Rightarrow> argument_type \<Rightarrow> checker \<Rightarrow> checker option" where
  "collect_parameter f (Arg_SelfReference r) s =
     Some (push_error (SelfReferenceInFunction (ident_name (fd_name f)) (self_location r)) s)"
| "collect_parameter f (Arg_IgnoreArgument a) s =
     do { s1 \<leftarrow> validate_type (ig_ty a) (fd_type_parameters f) s;
          t \<leftarrow> type_info_new (ig_ty a);
          Some (set_node_typeinfo (ig_id a) t s1) }"
| "collect_parameter f (Arg_Argument a) s =
     do { s1 \<leftarrow> validate_type (arg_ty a) (fd_type_parameters f) s;
          t \<leftarrow> type_info_new (arg_ty a);
          Some (set_node_typeinfo (ident_id (arg_name a)) t (set_node_typeinfo (arg_id a) t s1)) }"
| "collect_parameter f (Arg_Type t) s = validate_type t (fd_type_parameters f) s"

definition function_node_type :: "function_definition \<Rightarrow> type_info" where
  "function_node_type f =
     TypeInfo (Kind_Function (ident_name (fd_name f))) (type_parameter_names (fd_type_parameters f))"

definition collect_return_type :: "function_definition \<Rightarrow> checker \<Rightarrow> checker option" where
  "collect_return_type f s =
     (case fd_returns f of
        None \<Rightarrow> Some s
      | Some r \<Rightarrow>
          do { s1 \<leftarrow> validate_type r (fd_type_parameters f) s;
               t \<leftarrow> type_info_new r;
               Some (set_node_typeinfo (type_id r) t s1) })"

definition collect_function :: "function_definition \<Rightarrow> checker \<Rightarrow> checker option" where
  "collect_function f s =
     do { s1 \<leftarrow> fold_opt (collect_parameter f) (argument_list (fd_arguments f)) s;
          s2 \<leftarrow> collect_return_type f
                  (set_node_typeinfo (ident_id (fd_name f)) (function_node_type f) s1);
          report_registration
            (register_function (ident_name (fd_name f)) (type_parameter_names (fd_type_parameters f))
               (argument_types (fd_arguments f)) (return_type_or_unit (fd_returns f)))
            (\<lambda>err. RegistrationFailed Reg_Function (ident_name (fd_name f)) (Some err) (fd_location f)) s2 }"

definition collect_external_function :: "external_function_definition \<Rightarrow> checker \<Rightarrow> checker option" where
  "collect_external_function f s =
     report_registration
       (register_function (ident_name (ef_name f)) [] (argument_types (ef_arguments f))
          (return_type_or_unit (ef_returns f)))
       (\<lambda>err. RegistrationFailed Reg_Function (ident_name (ef_name f)) (Some err) (ef_location f)) s"

fun collect_of :: "ast_definition \<Rightarrow> checker \<Rightarrow> checker option" where
  "collect_of (Def_Constant c) s = collect_constant c s"
| "collect_of (Def_Function f) s = collect_function f s"
| "collect_of (Def_ExternalFunction f) s = collect_external_function f s"
| "collect_of (Def_Spec _ _ _ _ _) s = Some s"
| "collect_of (Def_Struct _) s = Some s"
| "collect_of (Def_Enum _) s = Some s"
| "collect_of (Def_Type _) s = Some s"
| "collect_of (Def_Module _ _ _ _ _) s = Some s"

definition collect_function_and_constant_definitions :: "nat list \<Rightarrow> checker \<Rightarrow> checker option" where
  "collect_function_and_constant_definitions ord s =
     fold_opt (\<lambda>f. fold_opt collect_of (src_definitions f)) (cx_source_files ord (tc_ctx s)) s"

section \<open>Checking the bodies\<close>

fun check_definition :: "ast_definition \<Rightarrow> checker \<Rightarrow> checker option" where
  "check_definition (Def_Function f) s = infer_variables f s"
| "check_definition (Def_Struct d) s =
     fold_opt (\<lambda>m. infer_method_variables m (TypeInfo (Kind_Struct (ident_name (sd_name d))) []))
       (sd_methods d) s"
| "check_definition _ s = Some s"

definition check_bodies :: "nat list \<Rightarrow> checker \<Rightarrow> checker option" where
  "check_bodies ord s =
     fold_opt (\<lambda>f. fold_opt check_definition (src_definitions f)) (cx_source_files ord (tc_ctx s)) s"

definition infer_phases ::
  "nat list \<Rightarrow> nat list \<Rightarrow> (nat \<Rightarrow> string list) \<Rightarrow> checker \<Rightarrow> checker option" where
  "infer_phases ord scope_ord sym_ord s =
     do { s1 \<leftarrow> process_directives ord s;
          s2 \<leftarrow> register_types ord s1;
          s3 \<leftarrow> resolve_imports scope_ord sym_ord s2;
          s4 \<leftarrow> collect_function_and_constant_definitions ord s3;
          check_bodies ord s4 }"

text \<open>The result carries the state as well: the caller goes on with the context it lent.\<close>

definition infer_types ::
  "nat list \<Rightarrow> nat list \<Rightarrow> (nat \<Rightarrow> string list) \<Rightarrow> checker
   \<Rightarrow> ((string + symbol_table) \<times> checker) option" where
  "infer_types ord scope_ord sym_ord s =
     do { s1 \<leftarrow> infer_phases ord scope_ord sym_ord s;
          Some (if tc_errors s1 \<noteq> []
                then (Inl (join ''; '' (map show_error (tc_errors s1))), s1\<lparr>tc_errors := []\<rparr>)
                else (Inr (tc_symbol_table s1), s1)) }"

text \<open>
  The \<open>debug_assert!\<close> runs in a debug build only: \<open>debug\<close> says which build it is, and a failed
  assertion is \<^term>\<open>None\<close>.
\<close>

definition build_typed_context ::
  "bool \<Rightarrow> nat list \<Rightarrow> nat list \<Rightarrow> (nat \<Rightarrow> string list) \<Rightarrow> arena \<Rightarrow> (string + typed_context) option" where
  "build_typed_context debug ord scope_ord sym_ord a =
     do { (r, s) \<leftarrow> infer_types ord scope_ord sym_ord (default_checker (typed_context_new a));
          case r of
            Inl e \<Rightarrow> Some (Inl e)
          | Inr st \<Rightarrow>
              (let cx = (tc_ctx s)\<lparr>cx_symbol_table := st\<rparr>
               in if debug \<and> find_untyped_expressions ord cx \<noteq> [] then None else Some (Inr cx)) }"

section \<open>External modules and nested modules\<close>

text \<open>
  \<open>load_prelude\<close> takes the modules in the order of their hash map, each with its arena and that
  arena's order, and stops at the first that fails. \<open>process_module_definition\<close> is not called by
  the phases above.
\<close>

fun load_prelude :: "(string \<times> nat list \<times> arena) list \<Rightarrow> checker \<Rightarrow> (string option \<times> checker) option" where
  "load_prelude [] s = Some (None, s)"
| "load_prelude ((name, ord, a) # ms) s =
     do { (r, st) \<leftarrow> load_external_module name ord a (tc_symbol_table s);
          case r of
            Inl e \<Rightarrow> Some (Some e, set_symbol_table st s)
          | Inr _ \<Rightarrow> load_prelude ms (set_symbol_table st s) }"

definition module_constant :: "constant_definition \<Rightarrow> checker \<Rightarrow> checker option" where
  "module_constant c s =
     do { t \<leftarrow> type_info_new (cd_ty c);
          declare_variable (ident_name (cd_name c)) t (cd_location c) s }"

definition begin_module :: "string \<Rightarrow> visibility \<Rightarrow> checker \<Rightarrow> checker option" where
  "begin_module n vis s =
     do { (_, st) \<leftarrow> enter_module n vis (tc_symbol_table s); Some (set_symbol_table st s) }"

fun process_module_definition :: "ast_definition \<Rightarrow> checker \<Rightarrow> checker option"
and process_module_items :: "ast_definition list \<Rightarrow> checker \<Rightarrow> checker option" where
  "process_module_definition (Def_Module i l vis n body) s =
     do { s1 \<leftarrow> begin_module (ident_name n) vis s;
          s2 \<leftarrow> (case body of None \<Rightarrow> Some s1 | Some ds \<Rightarrow> process_module_items ds s1);
          leave_scope s2 }"
| "process_module_definition (Def_Type t) s = register_type_definition t s"
| "process_module_definition (Def_Struct d) s = register_struct_definition d s"
| "process_module_definition (Def_Enum d) s = register_enum_definition d s"
| "process_module_definition (Def_Spec i l vis n ds) s = register_spec_definition n l s"
| "process_module_definition (Def_Function f) s = infer_variables f s"
| "process_module_definition (Def_Constant c) s = module_constant c s"
| "process_module_definition (Def_ExternalFunction f) s = collect_external_function f s"
| "process_module_items [] s = Some s"
| "process_module_items (d # ds) s =
     do { s1 \<leftarrow> process_module_definition d s; process_module_items ds s1 }"

section \<open>Equality of syntactic types\<close>

definition same_length :: "'a list \<Rightarrow> 'b list \<Rightarrow> bool" where
  "same_length xs ys = (length xs = length ys)"

fun types_equal :: "ty \<Rightarrow> ty \<Rightarrow> bool"
and types_equal_list :: "ty list \<Rightarrow> ty list \<Rightarrow> bool" where
  "types_equal (Type_Simple k1) t2 = (case t2 of Type_Simple k2 \<Rightarrow> k1 = k2 | _ \<Rightarrow> False)"
| "types_equal (Type_Array _ _ e1 _) t2 =
     (case t2 of Type_Array _ _ e2 _ \<Rightarrow> types_equal e1 e2 | _ \<Rightarrow> False)"
| "types_equal (Type_Generic g1) t2 =
     (case t2 of
        Type_Generic g2 \<Rightarrow>
          ident_name (gt_base g1) = ident_name (gt_base g2) \<and> gt_parameters g1 = gt_parameters g2
      | _ \<Rightarrow> False)"
| "types_equal (Type_Qualified q1) t2 =
     (case t2 of Type_Qualified q2 \<Rightarrow> ident_name (tqn_name q1) = ident_name (tqn_name q2) | _ \<Rightarrow> False)"
| "types_equal (Type_QualifiedName q1) t2 =
     (case t2 of
        Type_QualifiedName q2 \<Rightarrow>
          ident_name (qn_qualifier q1) = ident_name (qn_qualifier q2)
          \<and> ident_name (qn_name q1) = ident_name (qn_name q2)
      | _ \<Rightarrow> False)"
| "types_equal (Type_Custom x1) t2 =
     (case t2 of Type_Custom x2 \<Rightarrow> ident_name x1 = ident_name x2 | _ \<Rightarrow> False)"
| "types_equal (Type_Function _ _ ps1 r1) t2 =
     (case t2 of
        Type_Function _ _ ps2 r2 \<Rightarrow>
          (case (r1, r2) of
             (None, None) \<Rightarrow> True
           | (Some a, Some b) \<Rightarrow> types_equal a b
           | _ \<Rightarrow> False)
          \<and> (case (ps1, ps2) of
               (None, None) \<Rightarrow> True
             | (Some as, Some bs) \<Rightarrow> same_length as bs \<and> types_equal_list as bs
             | _ \<Rightarrow> False)
      | _ \<Rightarrow> False)"
| "types_equal_list (a # as) (b # bs) = (types_equal a b \<and> types_equal_list as bs)"
| "types_equal_list _ _ = True"

end
