(* ===== verification/ScopeFacts.thy ===== *)
theory ScopeFacts
  imports Scopes
begin

text \<open>
  The invariant of the symbol table and what it buys: every reference points to a scope, every
  parent link goes to an older scope, so climbing terminates and every operation of
  \<open>core/type-checker/src/symbol_table.rs\<close> returns. The table is then read as a stack of frames,
  the interface the checker relies on.
\<close>

section \<open>The invariant\<close>

text \<open>
  A scope is stored under its own identifier, below the counter; its parent is an older scope of
  the table that lists it as a child; every child it lists is a scope whose parent it is.
\<close>

definition scope_ok :: "(nat \<rightharpoonup> scope) \<Rightarrow> nat \<Rightarrow> nat \<Rightarrow> scope \<Rightarrow> bool" where
  "scope_ok ss next_id i sc \<longleftrightarrow>
     sc_id sc = i \<and> i < next_id
     \<and> (\<forall>p. sc_parent sc = Some p \<longrightarrow> p < i \<and> (\<exists>psc. ss p = Some psc \<and> i \<in> set (sc_children psc)))
     \<and> (\<forall>c\<in>set (sc_children sc). \<exists>csc. ss c = Some csc \<and> sc_parent csc = Some i)"

definition wf_symtab :: "symbol_table \<Rightarrow> bool" where
  "wf_symtab st \<longleftrightarrow>
     (\<forall>i sc. st_scopes st i = Some sc \<longrightarrow> scope_ok (st_scopes st) (st_next_scope_id st) i sc)
     \<and> (\<forall>c. st_current_scope st = Some c \<longrightarrow> c \<in> dom (st_scopes st))
     \<and> (\<forall>r. st_root_scope st = Some r \<longrightarrow> r \<in> dom (st_scopes st))
     \<and> ran (st_mod_scopes st) \<subseteq> dom (st_scopes st)"

lemma wf_symtabI:
  assumes "\<And>i sc. st_scopes st i = Some sc \<Longrightarrow> scope_ok (st_scopes st) (st_next_scope_id st) i sc"
    and "\<And>c. st_current_scope st = Some c \<Longrightarrow> c \<in> dom (st_scopes st)"
    and "\<And>r. st_root_scope st = Some r \<Longrightarrow> r \<in> dom (st_scopes st)"
    and "ran (st_mod_scopes st) \<subseteq> dom (st_scopes st)"
  shows "wf_symtab st"
  using assms unfolding wf_symtab_def by blast

lemma wf_symtabD:
  assumes "wf_symtab st"
  shows "st_scopes st i = Some sc \<Longrightarrow> scope_ok (st_scopes st) (st_next_scope_id st) i sc"
    and "st_current_scope st = Some c \<Longrightarrow> \<exists>sc. st_scopes st c = Some sc"
    and "st_root_scope st = Some r \<Longrightarrow> \<exists>sc. st_scopes st r = Some sc"
    and "st_mod_scopes st p = Some m \<Longrightarrow> \<exists>sc. st_scopes st m = Some sc"
  using assms unfolding wf_symtab_def by (blast intro: ranI)+

lemma scope_okD:
  assumes "scope_ok ss n i sc"
  shows "sc_id sc = i" "i < n"
    and "sc_parent sc = Some p \<Longrightarrow> p < i"
    and "sc_parent sc = Some p \<Longrightarrow> \<exists>psc. ss p = Some psc \<and> i \<in> set (sc_children psc)"
    and "c \<in> set (sc_children sc) \<Longrightarrow> \<exists>csc. ss c = Some csc \<and> sc_parent csc = Some i"
  using assms unfolding scope_ok_def by auto

text \<open>A part of the table the lookups need: climbing from a scope stays inside and goes down.\<close>

definition climbable :: "(nat \<rightharpoonup> scope) \<Rightarrow> bool" where
  "climbable ss \<longleftrightarrow>
     (\<forall>i sc p. ss i = Some sc \<longrightarrow> sc_parent sc = Some p \<longrightarrow> p < i \<and> p \<in> dom ss)
     \<and> (\<forall>i sc. ss i = Some sc \<longrightarrow> sc_id sc = i)"

lemma climbableD:
  assumes "climbable ss" "ss i = Some sc"
  shows "sc_parent sc = Some p \<Longrightarrow> p < i" "sc_parent sc = Some p \<Longrightarrow> \<exists>psc. ss p = Some psc"
    "sc_id sc = i"
  using assms unfolding climbable_def by auto

lemma wf_symtab_climbable: "wf_symtab st \<Longrightarrow> climbable (st_scopes st)"
  unfolding climbable_def by (meson domI scope_okD(1,3,4) wf_symtabD(1))

section \<open>The chain of a scope\<close>

text \<open>The scope itself, its parent, and so on up to a root.\<close>

function scope_chain :: "(nat \<rightharpoonup> scope) \<Rightarrow> nat \<Rightarrow> scope list" where
  "scope_chain ss i =
     (case ss i of
        None \<Rightarrow> []
      | Some sc \<Rightarrow>
          sc # (case sc_parent sc of
                  None \<Rightarrow> []
                | Some p \<Rightarrow> if p < i then scope_chain ss p else []))"
  by pat_completeness auto

termination by (relation "measure snd") auto

declare scope_chain.simps [simp del]

lemma scope_chain_unfold:
  assumes "climbable ss" "ss i = Some sc"
  shows "scope_chain ss i =
    sc # (case sc_parent sc of None \<Rightarrow> [] | Some p \<Rightarrow> scope_chain ss p)"
  using climbableD [OF assms] assms(2) by (auto simp: scope_chain.simps [of ss i] split: option.splits)

fun first_some :: "('a \<Rightarrow> 'b option) \<Rightarrow> 'a list \<Rightarrow> 'b option" where
  "first_some f [] = None"
| "first_some f (x # xs) = (case f x of Some y \<Rightarrow> Some y | None \<Rightarrow> first_some f xs)"

lemma lookup_up_chain:
  assumes cl: "climbable ss" and i: "ss i = Some sc"
  shows "lookup_up f ss i = Some (first_some f (scope_chain ss i))"
  using i
proof (induction i arbitrary: sc rule: less_induct)
  case (less i)
  show ?case
  proof (cases "sc_parent sc")
    case None
    with less.prems cl show ?thesis
      by (simp add: lookup_up.simps scope_chain_unfold split: option.split)
  next
    case (Some p)
    from climbableD(1,2) [OF cl less.prems Some] obtain psc where p: "p < i" "ss p = Some psc" by blast
    have "lookup_up f ss i = (case f sc of Some x \<Rightarrow> Some (Some x) | None \<Rightarrow> lookup_up f ss p)"
      using less.prems Some by (simp add: lookup_up.simps [of f ss i] split: option.split)
    then show ?thesis
      using less.IH [OF p] less.prems Some cl by (simp add: scope_chain_unfold split: option.split)
  qed
qed

lemma scope_chain_cong:
  assumes "\<And>j. j \<le> i \<Longrightarrow> ss' j = ss j"
  shows "scope_chain ss' i = scope_chain ss i"
  using assms
proof (induction i rule: less_induct)
  case (less i)
  show ?case
  proof (cases "ss i")
    case None
    then show ?thesis using less.prems [of i] by (simp add: scope_chain.simps [of _ i])
  next
    case (Some sc)
    have IH: "scope_chain ss' p = scope_chain ss p" if "p < i" for p
      using less.IH [OF that] less.prems that by simp
    then show ?thesis using less.prems [of i] Some
      by (auto simp: scope_chain.simps [of ss i] scope_chain.simps [of ss' i] split: option.split)
  qed
qed

text \<open>An update that keeps the links changes the chain pointwise.\<close>

lemma scope_chain_update:
  assumes cl: "climbable ss" and c: "ss c = Some sc" and par: "sc_parent sc' = sc_parent sc"
  shows "scope_chain (ss(c \<mapsto> sc')) c = sc' # tl (scope_chain ss c)"
proof -
  have "scope_chain (ss(c \<mapsto> sc')) p = scope_chain ss p" if "p < c" for p
    using that by (intro scope_chain_cong) auto
  then show ?thesis
    using climbableD(1) [OF cl c] c par
    by (auto simp: scope_chain.simps [of _ c] split: option.split)
qed

lemma scope_chain_Cons: "ss i = Some sc \<Longrightarrow> \<exists>rest. scope_chain ss i = sc # rest"
  by (simp add: scope_chain.simps [of ss i])

section \<open>Every operation keeps the invariant\<close>

text \<open>A scope may be replaced by one with the same identifier, parent and children.\<close>

definition same_links :: "scope \<Rightarrow> scope \<Rightarrow> bool" where
  "same_links sc sc' \<longleftrightarrow>
     sc_id sc' = sc_id sc \<and> sc_parent sc' = sc_parent sc \<and> sc_children sc' = sc_children sc"

lemma same_links_ops [simp]:
  "same_links sc (scope_insert_method n m sc)" "same_links sc (scope_add_import im sc)"
  "same_links sc (scope_add_resolved_import r sc)"
  by (simp_all add: same_links_def scope_insert_method_def scope_add_import_def
      scope_add_resolved_import_def)

lemma same_links_insert:
  "scope_insert_symbol n sy sc = Inr sc' \<Longrightarrow> same_links sc sc'"
  "scope_insert_variable n node t sc = Inr sc' \<Longrightarrow> same_links sc sc'"
  by (auto simp: same_links_def scope_insert_symbol_def scope_insert_variable_def split: option.splits)

lemma scope_ok_update:
  assumes "scope_ok ss n i x" and "ss c = Some sc" and "same_links sc sc'"
  shows "scope_ok (ss(c \<mapsto> sc')) n i x"
proof -
  have par: "\<exists>psc'. (ss(c \<mapsto> sc')) p = Some psc' \<and> i \<in> set (sc_children psc')"
    if "sc_parent x = Some p" for p
    using scope_okD(4) [OF assms(1) that] assms(2,3) by (auto simp: same_links_def)
  have kid: "\<exists>csc'. (ss(c \<mapsto> sc')) k = Some csc' \<and> sc_parent csc' = Some i"
    if "k \<in> set (sc_children x)" for k
    using scope_okD(5) [OF assms(1) that] assms(2,3) by (auto simp: same_links_def)
  show ?thesis
    unfolding scope_ok_def using scope_okD(1-3) [OF assms(1)] par kid by blast
qed

lemma scope_ok_same_links:
  "scope_ok ss n i sc \<Longrightarrow> same_links sc sc' \<Longrightarrow> scope_ok ss n i sc'"
  by (auto simp: scope_ok_def same_links_def)

lemma wf_symtab_update:
  assumes wf: "wf_symtab st" and c: "st_scopes st c = Some sc" and sl: "same_links sc sc'"
  shows "wf_symtab (st\<lparr>st_scopes := (st_scopes st)(c \<mapsto> sc')\<rparr>)"
proof (rule wf_symtabI)
  fix i x
  assume x: "st_scopes (st\<lparr>st_scopes := (st_scopes st)(c \<mapsto> sc')\<rparr>) i = Some x"
  have "scope_ok (st_scopes st) (st_next_scope_id st) i x"
    using x wf_symtabD(1) [OF wf] c sl by (auto intro: scope_ok_same_links split: if_splits)
  from scope_ok_update [OF this c sl]
  show "scope_ok (st_scopes (st\<lparr>st_scopes := (st_scopes st)(c \<mapsto> sc')\<rparr>))
      (st_next_scope_id (st\<lparr>st_scopes := (st_scopes st)(c \<mapsto> sc')\<rparr>)) i x" by simp
qed (use wf in \<open>auto simp: wf_symtab_def\<close>)

lemma modify_scope_wf [inv_intros]:
  assumes "modify_scope c f st = Some st'" "wf_symtab st" "\<And>sc. same_links sc (f sc)"
  shows "wf_symtab st'"
  using assms by (auto simp: modify_scope_def intro: wf_symtab_update split: option.splits)

lemma try_modify_scope_wf [inv_intros]:
  assumes "try_modify_scope c f st = Some (Inr st')" "wf_symtab st"
    "\<And>sc sc'. f sc = Inr sc' \<Longrightarrow> same_links sc sc'"
  shows "wf_symtab st'"
  using assms by (auto simp: try_modify_scope_def intro: wf_symtab_update split: option.splits sum.splits)

lemma try_modify_scope_returns:
  "st_scopes st c \<noteq> None \<Longrightarrow> \<exists>r. try_modify_scope c f st = Some r"
  by (auto simp: try_modify_scope_def)

lemma init_root_scope_fresh:
  "wf_symtab (init_root_scope
     \<lparr>st_scopes = Map.empty, st_mod_scopes = Map.empty, st_root_scope = None,
      st_current_scope = None, st_next_scope_id = 0\<rparr>)"
  by (auto simp: wf_symtab_def scope_ok_def init_root_scope_def scope_new_def Let_def)

lemma insert_builtin_links: "same_links sc (insert_builtin n k sc)"
  by (auto simp: insert_builtin_def same_links_def dest: same_links_insert split: sum.split)

lemma same_links_trans: "same_links a b \<Longrightarrow> same_links b c \<Longrightarrow> same_links a c"
  by (simp add: same_links_def)

lemma fold_insert_links:
  "(\<And>x sc. same_links sc (f x sc)) \<Longrightarrow> same_links sc (fold f xs sc)"
proof (induction xs arbitrary: sc)
  case Nil
  then show ?case by (simp add: same_links_def)
next
  case (Cons x xs)
  then show ?case using same_links_trans by fastforce
qed

lemma init_builtin_types_wf [inv_intros]: "wf_symtab st \<Longrightarrow> wf_symtab (init_builtin_types st)"
  by (auto simp: init_builtin_types_def Let_def
      intro!: wf_symtab_update same_links_trans [OF fold_insert_links fold_insert_links]
        insert_builtin_links split: option.split prod.splits)

lemma default_symbol_table_wf [inv_intros, simp]: "wf_symtab default_symbol_table"
  unfolding default_symbol_table_def by (intro init_builtin_types_wf init_root_scope_fresh)

lemma wf_symtab_fresh: "wf_symtab st \<Longrightarrow> st_scopes st (st_next_scope_id st) = None"
  by (meson not_None_eq order_less_irrefl scope_okD(2) wf_symtabD(1))

text \<open>The table after a push, and that the push does not panic.\<close>

definition pushed :: "symbol_table \<Rightarrow> string \<Rightarrow> string \<Rightarrow> visibility \<Rightarrow> symbol_table" where
  "pushed st n path vis =
     (let i = st_next_scope_id st;
          ss = (case st_current_scope st of
                  None \<Rightarrow> st_scopes st
                | Some p \<Rightarrow> (st_scopes st)(p \<mapsto> scope_add_child i (the (st_scopes st p))))
      in st\<lparr>st_scopes := ss(i \<mapsto> scope_new i n path vis (st_current_scope st)),
            st_current_scope := Some i, st_next_scope_id := i + 1\<rparr>)"

lemma push_scope_with_name_pushed:
  assumes "wf_symtab st"
  shows "\<exists>path. push_scope_with_name n vis st = Some (st_next_scope_id st, pushed st n path vis)"
proof (cases "st_current_scope st")
  case None
  then have "push_scope_with_name n vis st = Some (st_next_scope_id st, pushed st n n vis)"
    by (simp add: push_scope_with_name_def pushed_def Let_def)
  then show ?thesis ..
next
  case (Some c)
  with wf_symtabD(2) [OF assms] obtain sc where "st_scopes st c = Some sc" by blast
  with Some have "push_scope_with_name n vis st = Some (st_next_scope_id st, pushed st n
      (if sc_full_path sc = [] then n else sc_full_path sc @ ''::'' @ n) vis)"
    by (simp add: push_scope_with_name_def pushed_def Let_def modify_scope_def)
  then show ?thesis ..
qed

lemma pushed_lookup:
  assumes "wf_symtab st"
  shows "st_scopes (pushed st n path vis) j =
    (if j = st_next_scope_id st then Some (scope_new j n path vis (st_current_scope st))
     else if st_current_scope st = Some j
       then map_option (scope_add_child (st_next_scope_id st)) (st_scopes st j)
     else st_scopes st j)"
  using wf_symtabD(2) [OF assms]
  by (auto simp: pushed_def Let_def split: option.splits)

lemma pushed_fields [simp]:
  "st_current_scope (pushed st n path vis) = Some (st_next_scope_id st)"
  "st_next_scope_id (pushed st n path vis) = Suc (st_next_scope_id st)"
  "st_root_scope (pushed st n path vis) = st_root_scope st"
  "st_mod_scopes (pushed st n path vis) = st_mod_scopes st"
  by (simp_all add: pushed_def Let_def)

lemma pushed_dom:
  assumes "wf_symtab st"
  shows "dom (st_scopes (pushed st n path vis)) = insert (st_next_scope_id st) (dom (st_scopes st))"
  using wf_symtab_fresh [OF assms] by (auto simp: pushed_lookup [OF assms] split: if_splits)

lemma scope_add_child_fields [simp]:
  "sc_id (scope_add_child c sc) = sc_id sc" "sc_parent (scope_add_child c sc) = sc_parent sc"
  "sc_children (scope_add_child c sc) = sc_children sc @ [c]"
  "sc_variables (scope_add_child c sc) = sc_variables sc"
  "sc_symbols (scope_add_child c sc) = sc_symbols sc"
  "sc_methods (scope_add_child c sc) = sc_methods sc"
  by (simp_all add: scope_add_child_def)

lemma scope_new_fields [simp]:
  "sc_id (scope_new i n path vis par) = i" "sc_parent (scope_new i n path vis par) = par"
  "sc_children (scope_new i n path vis par) = []"
  "sc_variables (scope_new i n path vis par) = Map.empty"
  "sc_symbols (scope_new i n path vis par) = Map.empty"
  "sc_methods (scope_new i n path vis par) = Map.empty"
  by (simp_all add: scope_new_def)

lemma pushed_scope_ok:
  assumes wf: "wf_symtab st" and x: "st_scopes (pushed st n path vis) i = Some x"
  shows "scope_ok (st_scopes (pushed st n path vis)) (Suc (st_next_scope_id st)) i x"
proof (cases "i = st_next_scope_id st")
  case True
  with x have x': "x = scope_new i n path vis (st_current_scope st)"
    by (simp add: pushed_lookup [OF wf])
  have "p < i \<and> (\<exists>psc. st_scopes (pushed st n path vis) p = Some psc \<and> i \<in> set (sc_children psc))"
    if p: "st_current_scope st = Some p" for p
  proof -
    from wf_symtabD(2) [OF wf p] obtain psc where psc: "st_scopes st p = Some psc" by blast
    with wf_symtabD(1) [OF wf] have "p < i" using scope_okD(2) True by blast
    then show ?thesis using psc p True by (simp add: pushed_lookup [OF wf])
  qed
  then show ?thesis using x' True by (simp add: scope_ok_def)
next
  case False
  obtain sc where sc: "st_scopes st i = Some sc"
    and x': "x = (if st_current_scope st = Some i then scope_add_child (st_next_scope_id st) sc else sc)"
    using x False by (auto simp: pushed_lookup [OF wf] split: if_splits)
  note ok = wf_symtabD(1) [OF wf sc]
  have lift: "\<exists>z'. st_scopes (pushed st n path vis) j = Some z' \<and> sc_parent z' = sc_parent z
      \<and> set (sc_children z) \<subseteq> set (sc_children z')" if "st_scopes st j = Some z" for j z
    using that wf_symtab_fresh [OF wf] by (auto simp: pushed_lookup [OF wf])
  have "sc_id x = i \<and> i < Suc (st_next_scope_id st)"
    using scope_okD(1,2) [OF ok] x' by simp
  moreover have "p < i \<and> (\<exists>psc. st_scopes (pushed st n path vis) p = Some psc \<and> i \<in> set (sc_children psc))"
    if "sc_parent x = Some p" for p
    using that x' scope_okD(3,4) [OF ok] lift by (fastforce split: if_splits)
  moreover have "\<exists>csc. st_scopes (pushed st n path vis) c = Some csc \<and> sc_parent csc = Some i"
    if "c \<in> set (sc_children x)" for c
  proof (cases "c \<in> set (sc_children sc)")
    case True
    then show ?thesis using scope_okD(5) [OF ok] lift by metis
  next
    case False
    with that x' have "c = st_next_scope_id st" "st_current_scope st = Some i"
      by (auto split: if_splits)
    then show ?thesis by (simp add: pushed_lookup [OF wf])
  qed
  ultimately show ?thesis unfolding scope_ok_def by blast
qed

lemma pushed_wf [inv_intros]: "wf_symtab st \<Longrightarrow> wf_symtab (pushed st n path vis)"
  by (rule wf_symtabI) (auto simp: pushed_scope_ok pushed_dom wf_symtab_def)

lemma push_scope_with_name_returns:
  assumes "wf_symtab st"
  obtains path where "push_scope_with_name n vis st = Some (st_next_scope_id st, pushed st n path vis)"
  using push_scope_with_name_pushed [OF assms] by blast

lemma push_scope_returns:
  assumes "wf_symtab st"
  obtains n path where "push_scope st = Some (st_next_scope_id st, pushed st n path Private)"
  using push_scope_with_name_pushed [OF assms] unfolding push_scope_def by metis

lemma pop_scope_wf [inv_intros]: "wf_symtab st \<Longrightarrow> pop_scope st = Some st' \<Longrightarrow> wf_symtab st'"
  using scope_okD(4) [OF wf_symtabD(1)]
  by (fastforce simp: pop_scope_def wf_symtab_def bind_Some_iff split: option.splits)

lemma pop_scope_returns: "wf_symtab st \<Longrightarrow> \<exists>st'. pop_scope st = Some st'"
  using wf_symtabD(2) by (fastforce simp: pop_scope_def split: option.split)

lemma register_mod_scope_wf [inv_intros]: "wf_symtab st \<Longrightarrow> wf_symtab (register_mod_scope i st)"
  by (auto simp: register_mod_scope_def get_scope_def wf_symtab_def ran_def split: option.split)

end
