(* ===== verification/ScopeSteps.thy ===== *)
theory ScopeSteps
  imports ScopeFacts
begin

text \<open>
  The symbol table as a state machine: \<open>table_step\<close> has one rule for each operation of
  \<open>core/type-checker/src/symbol_table.rs\<close> that changes the table. Every step keeps the invariant,
  and no step removes or overwrites a declaration.
\<close>

section \<open>Registrations\<close>

lemma register_symbol_wf [inv_intros]:
  "wf_symtab st \<Longrightarrow> register_symbol what n mk st = Some (Inr st') \<Longrightarrow> wf_symtab st'"
  by (auto simp: register_symbol_def bind_Some_iff intro: try_modify_scope_wf same_links_insert
      split: option.splits)

lemma register_type_wf [inv_intros]:
  "wf_symtab st \<Longrightarrow> register_type n t st = Some (Inr st') \<Longrightarrow> wf_symtab st'"
  by (auto simp: register_type_def bind_Some_iff intro: try_modify_scope_wf same_links_insert
      split: option.splits)

lemma register_function_wf [inv_intros]:
  "wf_symtab st \<Longrightarrow> register_function_with_visibility n tps ps r vis st = Some (Inr st') \<Longrightarrow> wf_symtab st'"
  by (auto simp: register_function_with_visibility_def bind_Some_iff
      intro: try_modify_scope_wf same_links_insert split: option.splits)

lemma push_variable_wf [inv_intros]:
  "wf_symtab st \<Longrightarrow> push_variable_to_scope n t st = Some (Inr st') \<Longrightarrow> wf_symtab st'"
  by (auto simp: push_variable_to_scope_def intro: try_modify_scope_wf same_links_insert
      split: option.splits)

lemma register_method_wf [inv_intros]:
  "wf_symtab st \<Longrightarrow> register_method n sig vis hs st = Some (Inr st') \<Longrightarrow> wf_symtab st'"
  by (auto simp: register_method_def bind_Some_iff intro: modify_scope_wf split: option.splits)

lemma register_import_wf [inv_intros]:
  "wf_symtab st \<Longrightarrow> register_import i st = Some (Inr st') \<Longrightarrow> wf_symtab st'"
  by (auto simp: register_import_def bind_Some_iff intro: modify_scope_wf split: option.splits)

section \<open>Steps\<close>

inductive table_step :: "symbol_table \<Rightarrow> symbol_table \<Rightarrow> bool" where
  step_push: "push_scope_with_name n vis st = Some (i, st') \<Longrightarrow> table_step st st'"
| step_pop: "pop_scope st = Some st' \<Longrightarrow> table_step st st'"
| step_type: "register_type n t st = Some (Inr st') \<Longrightarrow> table_step st st'"
| step_symbol: "register_symbol what n mk st = Some (Inr st') \<Longrightarrow> table_step st st'"
| step_function:
    "register_function_with_visibility n tps ps r vis st = Some (Inr st') \<Longrightarrow> table_step st st'"
| step_variable: "push_variable_to_scope n t st = Some (Inr st') \<Longrightarrow> table_step st st'"
| step_method: "register_method n sig vis hs st = Some (Inr st') \<Longrightarrow> table_step st st'"
| step_import: "register_import im st = Some (Inr st') \<Longrightarrow> table_step st st'"
| step_bind: "modify_scope i (scope_add_resolved_import r) st = Some st' \<Longrightarrow> table_step st st'"
| step_mod: "table_step st (register_mod_scope i st)"

inductive_cases table_stepE: "table_step st st'"

lemma table_step_wf [inv_intros]:
  assumes "table_step st st'" "wf_symtab st"
  shows "wf_symtab st'"
  using assms
proof (induction rule: table_step.induct)
  case (step_push n vis st i st')
  then show ?case using push_scope_with_name_pushed [of st n vis] pushed_wf by auto
next
  case (step_bind i r st st')
  then show ?case by (auto intro: modify_scope_wf)
qed (blast intro: pop_scope_wf register_type_wf register_symbol_wf register_function_wf
      push_variable_wf register_method_wf register_import_wf register_mod_scope_wf)+

section \<open>Nothing declared is lost\<close>

text \<open>
  A scope after some steps: the same links upwards, at least the same children, the same answers
  for every name it had, and its methods in the same order with new ones after them.
\<close>

definition scope_le :: "scope \<Rightarrow> scope \<Rightarrow> bool" where
  "scope_le sc sc' \<longleftrightarrow>
     sc_id sc' = sc_id sc \<and> sc_parent sc' = sc_parent sc
     \<and> set (sc_children sc) \<subseteq> set (sc_children sc')
     \<and> sc_symbols sc \<subseteq>\<^sub>m sc_symbols sc' \<and> sc_variables sc \<subseteq>\<^sub>m sc_variables sc'
     \<and> (\<forall>ty ms. sc_methods sc ty = Some ms \<longrightarrow> (\<exists>more. sc_methods sc' ty = Some (ms @ more)))"

definition table_le :: "symbol_table \<Rightarrow> symbol_table \<Rightarrow> bool" where
  "table_le st st' \<longleftrightarrow>
     (\<forall>i sc. st_scopes st i = Some sc \<longrightarrow> (\<exists>sc'. st_scopes st' i = Some sc' \<and> scope_le sc sc'))
     \<and> st_next_scope_id st \<le> st_next_scope_id st'"

lemma scope_le_refl [simp]: "scope_le sc sc"
  by (simp add: scope_le_def)

lemma scope_le_trans: "scope_le a b \<Longrightarrow> scope_le b c \<Longrightarrow> scope_le a c"
  unfolding scope_le_def by (fastforce intro: map_le_trans)

lemma table_le_refl [simp]: "table_le st st"
  by (simp add: table_le_def)

lemma table_le_trans: "table_le a b \<Longrightarrow> table_le b c \<Longrightarrow> table_le a c"
  unfolding table_le_def by (meson order_trans scope_le_trans)

lemma scope_le_ops:
  "scope_insert_symbol n sy sc = Inr sc' \<Longrightarrow> scope_le sc sc'"
  "scope_insert_variable n node t sc = Inr sc' \<Longrightarrow> scope_le sc sc'"
  "scope_le sc (scope_insert_method ty m sc)" "scope_le sc (scope_add_import im sc)"
  "scope_le sc (scope_add_resolved_import r sc)" "scope_le sc (scope_add_child c sc)"
  by (auto simp: scope_le_def scope_insert_symbol_def scope_insert_variable_def
      scope_insert_method_def scope_add_import_def scope_add_resolved_import_def scope_add_child_def
      map_le_def split: option.splits)

lemma modify_scope_le: "modify_scope c f st = Some st' \<Longrightarrow> (\<And>sc. scope_le sc (f sc)) \<Longrightarrow> table_le st st'"
  by (auto simp: table_le_def modify_scope_def split: option.splits)

lemma try_modify_scope_le:
  "try_modify_scope c f st = Some (Inr st') \<Longrightarrow> (\<And>sc sc'. f sc = Inr sc' \<Longrightarrow> scope_le sc sc')
   \<Longrightarrow> table_le st st'"
  by (auto simp: table_le_def try_modify_scope_def split: option.splits sum.splits)

lemma pushed_le: "wf_symtab st \<Longrightarrow> table_le st (pushed st n path vis)"
  using wf_symtab_fresh by (auto simp: table_le_def pushed_lookup scope_le_ops)

lemma table_step_le:
  assumes "table_step st st'" "wf_symtab st"
  shows "table_le st st'"
  using assms
proof (induction rule: table_step.induct)
  case (step_push n vis st i st')
  then show ?case using push_scope_with_name_pushed [of st n vis] pushed_le by auto
next
  case (step_pop st st')
  then show ?case by (auto simp: pop_scope_def table_le_def bind_Some_iff split: option.splits)
next
  case (step_mod st i)
  then show ?case by (auto simp: register_mod_scope_def table_le_def split: option.split)
qed (auto simp: register_type_def register_symbol_def register_function_with_visibility_def
      push_variable_to_scope_def register_method_def register_import_def bind_Some_iff
      intro: try_modify_scope_le modify_scope_le scope_le_ops split: option.splits)

lemma table_steps_wf_le:
  assumes "table_step\<^sup>*\<^sup>* st st'" "wf_symtab st"
  shows "wf_symtab st' \<and> table_le st st'"
  using assms
  by (induction rule: rtranclp_induct) (auto intro: table_step_wf table_le_trans table_step_le)

end
