(* ===== verification/ScopeEnv.thy ===== *)
theory ScopeEnv
  imports ScopeSteps
begin

text \<open>
  What the checker relies on when it opens and closes blocks: the symbol table behaves as a stack
  of frames. The locale \<open>lexical_env\<close> is that interface, \<open>two_namespaces\<close> adds that two
  namespaces share the blocks and nothing else; both are interpreted on the variables and on the
  symbols of the table of \<open>core/type-checker/src/symbol_table.rs\<close>.
\<close>

section \<open>The interface\<close>

text \<open>Declaring in sequence: a name that is already taken in the block is skipped.\<close>

definition declare_all ::
  "('k \<Rightarrow> 'v \<Rightarrow> 's \<Rightarrow> (string + 's) option) \<Rightarrow> ('k \<times> 'v) list \<Rightarrow> 's \<Rightarrow> 's option" where
  "declare_all decl kvs s =
     fold_opt (\<lambda>(k, v) t. map_option (case_sum (\<lambda>_. t) id) (decl k v t)) kvs s"

locale lexical_env =
  fixes inv :: "'s \<Rightarrow> bool"
    and frames :: "'s \<Rightarrow> ('k \<rightharpoonup> 'v) list"
    and open_block :: "'s \<Rightarrow> 's option"
    and close_block :: "'s \<Rightarrow> 's option"
    and declare_name :: "'k \<Rightarrow> 'v \<Rightarrow> 's \<Rightarrow> (string + 's) option"
    and find_name :: "'k \<Rightarrow> 's \<Rightarrow> 'v option option"
  assumes open_law:
      "inv s \<Longrightarrow> \<exists>s'. open_block s = Some s' \<and> inv s' \<and> frames s' = Map.empty # frames s"
    and close_law:
      "inv s \<Longrightarrow> frames s = m # fs \<Longrightarrow> \<exists>s'. close_block s = Some s' \<and> inv s' \<and> frames s' = fs"
    and declare_law:
      "inv s \<Longrightarrow> frames s = m # fs \<Longrightarrow> m k = None \<Longrightarrow>
         \<exists>s'. declare_name k v s = Some (Inr s') \<and> inv s' \<and> frames s' = m(k \<mapsto> v) # fs"
    and redeclare_law:
      "inv s \<Longrightarrow> frames s = m # fs \<Longrightarrow> m k \<noteq> None \<Longrightarrow> \<exists>e. declare_name k v s = Some (Inl e)"
    and find_law: "inv s \<Longrightarrow> find_name k s = Some (first_some (\<lambda>m. m k) (frames s))"
begin

lemma declared:
  assumes s: "inv s" "frames s = m # fs" and d: "declare_name k v s = Some (Inr s')"
  shows "m k = None" "inv s'" "frames s' = m(k \<mapsto> v) # fs"
proof -
  show fresh: "m k = None"
    using redeclare_law [OF s, of k v] d by (cases "m k") auto
  from declare_law [OF s fresh, of v] d show "inv s'" "frames s' = m(k \<mapsto> v) # fs" by auto
qed

lemma find_declared:
  assumes "inv s" "frames s = m # fs" "declare_name k v s = Some (Inr s')"
  shows "find_name k s' = Some (Some v)" "k' \<noteq> k \<Longrightarrow> find_name k' s' = find_name k' s"
  using declared [OF assms] assms(1,2) by (simp_all add: find_law)

lemma declare_once:
  assumes "inv s" "frames s = m # fs" "declare_name k v s = Some (Inr s')"
  shows "\<exists>e. declare_name k v' s' = Some (Inl e)"
  using declared [OF assms] by (auto intro: redeclare_law)

lemma declare_all_frames:
  assumes "inv s" "frames s = m # fs"
  shows "\<exists>s'. declare_all declare_name kvs s = Some s' \<and> inv s'
    \<and> frames s' = (map_of kvs ++ m) # fs"
  using assms
proof (induction kvs arbitrary: s m)
  case Nil
  then show ?case by (simp add: declare_all_def)
next
  case (Cons kv kvs)
  obtain k v where kv: "kv = (k, v)" by (cases kv)
  show ?case
  proof (cases "m k")
    case None
    from declare_law [OF Cons.prems this] obtain s1
      where s1: "declare_name k v s = Some (Inr s1)" "inv s1" "frames s1 = m(k \<mapsto> v) # fs" by blast
    have "map_of kvs ++ m(k \<mapsto> v) = map_of (kv # kvs) ++ m"
      using None kv by (auto simp: map_add_def split: option.split)
    moreover have "declare_all declare_name (kv # kvs) s = declare_all declare_name kvs s1"
      using s1(1) by (simp add: declare_all_def kv)
    ultimately show ?thesis using Cons.IH [OF s1(2,3)] by metis
  next
    case (Some w)
    then obtain e where e: "declare_name k v s = Some (Inl e)"
      using redeclare_law [OF Cons.prems] by blast
    have "map_of kvs ++ m = map_of (kv # kvs) ++ m"
      using Some kv by (auto simp: map_add_def split: option.split)
    moreover have "declare_all declare_name (kv # kvs) s = declare_all declare_name kvs s"
      using e by (simp add: declare_all_def kv)
    ultimately show ?thesis using Cons.IH [OF Cons.prems] by metis
  qed
qed

lemma block_restores:
  assumes "inv s"
  obtains s1 s2 s3 where "open_block s = Some s1" "declare_all declare_name kvs s1 = Some s2"
    "close_block s2 = Some s3" "inv s3" "frames s3 = frames s"
    "\<And>k. find_name k s3 = find_name k s"
    "\<And>k v. map_of kvs k = Some v \<Longrightarrow> find_name k s2 = Some (Some v)"
    "\<And>k. map_of kvs k = None \<Longrightarrow> find_name k s2 = find_name k s"
proof -
  from open_law [OF assms] obtain s1
    where s1: "open_block s = Some s1" "inv s1" "frames s1 = Map.empty # frames s" by blast
  from declare_all_frames [OF s1(2,3), of kvs] obtain s2
    where s2: "declare_all declare_name kvs s1 = Some s2" "inv s2" "frames s2 = map_of kvs # frames s"
    by auto
  from close_law [OF s2(2,3)] obtain s3
    where s3: "close_block s2 = Some s3" "inv s3" "frames s3 = frames s" by blast
  show thesis
    by (rule that [OF s1(1) s2(1) s3(1,2,3)]) (simp_all add: find_law assms s2 s3)
qed

end

locale two_namespaces =
  a: lexical_env inv frames_a open_block close_block declare_a find_a +
  b: lexical_env inv frames_b open_block close_block declare_b find_b
  for inv :: "'s \<Rightarrow> bool"
    and frames_a :: "'s \<Rightarrow> ('k \<rightharpoonup> 'v) list"
    and frames_b :: "'s \<Rightarrow> ('l \<rightharpoonup> 'w) list"
    and open_block :: "'s \<Rightarrow> 's option"
    and close_block :: "'s \<Rightarrow> 's option"
    and declare_a :: "'k \<Rightarrow> 'v \<Rightarrow> 's \<Rightarrow> (string + 's) option"
    and find_a :: "'k \<Rightarrow> 's \<Rightarrow> 'v option option"
    and declare_b :: "'l \<Rightarrow> 'w \<Rightarrow> 's \<Rightarrow> (string + 's) option"
    and find_b :: "'l \<Rightarrow> 's \<Rightarrow> 'w option option" +
  assumes a_keeps_b: "inv s \<Longrightarrow> declare_a k v s = Some (Inr s') \<Longrightarrow> frames_b s' = frames_b s"
    and b_keeps_a: "inv s \<Longrightarrow> declare_b l w s = Some (Inr s') \<Longrightarrow> frames_a s' = frames_a s"
begin

lemma a_never_hides_b:
  assumes "inv s" "frames_a s = m # fs" "declare_a k v s = Some (Inr s')"
  shows "find_b l s' = find_b l s"
  using a.declared(2) [OF assms] a_keeps_b [OF assms(1,3)] assms(1) by (simp add: b.find_law)

lemma b_never_hides_a:
  assumes "inv s" "frames_b s = m # fs" "declare_b l w s = Some (Inr s')"
  shows "find_a k s' = find_a k s"
  using b.declared(2) [OF assms] b_keeps_a [OF assms(1,3)] assms(1) by (simp add: a.find_law)

end

lemma first_some_map: "first_some f (map g xs) = first_some (\<lambda>x. f (g x)) xs"
  by (induction xs) (auto split: option.split)

section \<open>The table as a stack of frames\<close>

definition current_chain :: "symbol_table \<Rightarrow> scope list" where
  "current_chain st =
     (case st_current_scope st of None \<Rightarrow> [] | Some c \<Rightarrow> scope_chain (st_scopes st) c)"

definition var_frames :: "symbol_table \<Rightarrow> (string \<rightharpoonup> type_info) list" where
  "var_frames st = map (\<lambda>sc n. map_option snd (sc_variables sc n)) (current_chain st)"

definition sym_frames :: "symbol_table \<Rightarrow> (string \<rightharpoonup> symbol) list" where
  "sym_frames st = map sc_symbols (current_chain st)"

definition open_scope :: "symbol_table \<Rightarrow> symbol_table option" where
  "open_scope st = map_option snd (push_scope st)"

definition declare_symbol :: "string \<Rightarrow> symbol \<Rightarrow> symbol_table \<Rightarrow> (string + symbol_table) option" where
  "declare_symbol n sy st = register_symbol ''symbol'' n (\<lambda>_. sy) st"

lemma current_chain_pushed:
  assumes wf: "wf_symtab st"
  shows "map sc_variables (current_chain (pushed st n path vis)) =
           Map.empty # map sc_variables (current_chain st)"
    and "map sc_symbols (current_chain (pushed st n path vis)) =
           Map.empty # map sc_symbols (current_chain st)"
proof -
  let ?i = "st_next_scope_id st" and ?st' = "pushed st n path vis"
  have new: "st_scopes ?st' ?i = Some (scope_new ?i n path vis (st_current_scope st))"
    by (simp add: pushed_lookup [OF wf])
  have cl: "climbable (st_scopes ?st')" by (intro wf_symtab_climbable pushed_wf wf)
  have up: "current_chain ?st' = scope_new ?i n path vis (st_current_scope st) #
      (case st_current_scope st of None \<Rightarrow> [] | Some c \<Rightarrow> scope_chain (st_scopes ?st') c)"
    by (simp add: current_chain_def scope_chain_unfold [OF cl new])
  have chain: "scope_chain (st_scopes ?st') c =
      scope_add_child ?i sc # tl (scope_chain (st_scopes st) c)"
    if c: "st_current_scope st = Some c" "st_scopes st c = Some sc" for c sc
  proof -
    have "c < ?i" using scope_okD(2) wf_symtabD(1) [OF wf c(2)] by blast
    then have "scope_chain (st_scopes ?st') c =
        scope_chain ((st_scopes st)(c \<mapsto> scope_add_child ?i sc)) c"
      using c by (intro scope_chain_cong) (auto simp: pushed_lookup [OF wf])
    then show ?thesis
      by (simp add: scope_chain_update [OF wf_symtab_climbable [OF wf] c(2)])
  qed
  have "map sc_variables (current_chain ?st') = Map.empty # map sc_variables (current_chain st)
      \<and> map sc_symbols (current_chain ?st') = Map.empty # map sc_symbols (current_chain st)"
  proof (cases "st_current_scope st")
    case None
    then show ?thesis by (simp add: up current_chain_def [of st])
  next
    case (Some c)
    from wf_symtabD(2) [OF wf this] obtain sc where sc: "st_scopes st c = Some sc" by blast
    obtain rest where "scope_chain (st_scopes st) c = sc # rest"
      using scope_chain_Cons [of "st_scopes st" c sc] sc by blast
    then show ?thesis using Some chain [OF Some sc] by (simp add: up current_chain_def [of st])
  qed
  then show "map sc_variables (current_chain ?st') = Map.empty # map sc_variables (current_chain st)"
    "map sc_symbols (current_chain ?st') = Map.empty # map sc_symbols (current_chain st)" by blast+
qed

lemma frames_via_maps:
  "var_frames st = map (\<lambda>m n. map_option snd (m n)) (map sc_variables (current_chain st))"
  "sym_frames st = map sc_symbols (current_chain st)"
  by (simp_all add: var_frames_def sym_frames_def comp_def)

lemma open_scope_law:
  assumes wf: "wf_symtab st"
  shows "\<exists>st'. open_scope st = Some st' \<and> wf_symtab st'
    \<and> var_frames st' = Map.empty # var_frames st \<and> sym_frames st' = Map.empty # sym_frames st"
proof -
  from push_scope_returns [OF wf] obtain n path
    where "push_scope st = Some (st_next_scope_id st, pushed st n path Private)" by blast
  then have "open_scope st = Some (pushed st n path Private)" by (simp add: open_scope_def)
  moreover have "wf_symtab (pushed st n path Private)" by (rule pushed_wf [OF wf])
  moreover have "var_frames (pushed st n path Private) = Map.empty # var_frames st"
    "sym_frames (pushed st n path Private) = Map.empty # sym_frames st"
    unfolding frames_via_maps current_chain_pushed [OF wf] by simp_all
  ultimately show ?thesis by blast
qed

lemma pop_scope_chain:
  assumes wf: "wf_symtab st" and ne: "current_chain st = sc # rest"
  shows "\<exists>st'. pop_scope st = Some st' \<and> wf_symtab st' \<and> current_chain st' = rest"
proof -
  from ne obtain c where c: "st_current_scope st = Some c"
    by (auto simp: current_chain_def split: option.splits)
  from wf_symtabD(2) [OF wf c] obtain sc' where sc': "st_scopes st c = Some sc'" by blast
  let ?st' = "st\<lparr>st_current_scope := sc_parent sc'\<rparr>"
  have pop: "pop_scope st = Some ?st'" using c sc' by (simp add: pop_scope_def)
  moreover have "current_chain ?st' = rest"
    using ne c scope_chain_unfold [OF wf_symtab_climbable [OF wf] sc']
    by (auto simp: current_chain_def split: option.splits)
  ultimately show ?thesis using pop_scope_wf [OF wf pop] by blast
qed

lemma current_chain_update:
  assumes wf: "wf_symtab st" and c: "st_current_scope st = Some c" "st_scopes st c = Some sc"
    and sl: "same_links sc sc'"
  shows "current_chain (st\<lparr>st_scopes := (st_scopes st)(c \<mapsto> sc')\<rparr>) = sc' # tl (current_chain st)"
    and "\<exists>rest. current_chain st = sc # rest"
  using scope_chain_update [OF wf_symtab_climbable [OF wf] c(2)] sl c
    scope_chain_Cons [of "st_scopes st" c sc]
  by (auto simp: current_chain_def same_links_def)

lemma current_chain_scope:
  assumes "wf_symtab st" "current_chain st = sc # rest"
  obtains c where "st_current_scope st = Some c" "st_scopes st c = Some sc"
proof -
  from assms(2) obtain c where c: "st_current_scope st = Some c"
    by (auto simp: current_chain_def split: option.splits)
  from wf_symtabD(2) [OF assms(1) this] obtain sc' where "st_scopes st c = Some sc'" by blast
  with c scope_chain_Cons [of "st_scopes st" c sc'] assms(2) that show thesis
    by (auto simp: current_chain_def)
qed

section \<open>The interpretations\<close>

text \<open>A lookup asks the scopes of the current chain in order.\<close>

lemma lookup_variable_frames:
  assumes wf: "wf_symtab st"
  shows "lookup_variable n st = Some (first_some (\<lambda>m. m n) (var_frames st))"
proof (cases "st_current_scope st")
  case None
  then show ?thesis by (simp add: lookup_variable_def var_frames_def current_chain_def)
next
  case (Some c)
  from wf_symtabD(2) [OF wf this] obtain sc where "st_scopes st c = Some sc" by blast
  from lookup_up_chain [OF wf_symtab_climbable [OF wf] this] Some show ?thesis
    by (simp add: lookup_variable_def scope_lookup_variable_def lookup_variable_local_def
        var_frames_def current_chain_def first_some_map)
qed

lemma lookup_symbol_frames:
  assumes wf: "wf_symtab st"
  shows "lookup_symbol n st = Some (first_some (\<lambda>m. m n) (sym_frames st))"
proof (cases "st_current_scope st")
  case None
  then show ?thesis by (simp add: lookup_symbol_def sym_frames_def current_chain_def)
next
  case (Some c)
  from wf_symtabD(2) [OF wf this] obtain sc where "st_scopes st c = Some sc" by blast
  from lookup_up_chain [OF wf_symtab_climbable [OF wf] this] Some show ?thesis
    by (simp add: lookup_symbol_def scope_lookup_symbol_def lookup_symbol_local_def [abs_def]
        sym_frames_def current_chain_def first_some_map)
qed

text \<open>Registering a name in the scope at the head of the chain.\<close>

lemma push_variable_head:
  assumes wf: "wf_symtab st" and head: "current_chain st = sc # rest"
  shows "push_variable_to_scope n t st = Some (case scope_insert_variable n 0 t sc of
           Inl e \<Rightarrow> Inl e
         | Inr sc' \<Rightarrow> Inr (st\<lparr>st_scopes := (st_scopes st)(sc_id sc \<mapsto> sc')\<rparr>))"
    and "scope_insert_variable n 0 t sc = Inr sc' \<Longrightarrow>
         current_chain (st\<lparr>st_scopes := (st_scopes st)(sc_id sc \<mapsto> sc')\<rparr>) = sc' # rest"
proof -
  from current_chain_scope [OF wf head] obtain c
    where c: "st_current_scope st = Some c" "st_scopes st c = Some sc" by blast
  have i: "sc_id sc = c" using scope_okD(1) wf_symtabD(1) [OF wf c(2)] by blast
  show "push_variable_to_scope n t st = Some (case scope_insert_variable n 0 t sc of
           Inl e \<Rightarrow> Inl e
         | Inr sc' \<Rightarrow> Inr (st\<lparr>st_scopes := (st_scopes st)(sc_id sc \<mapsto> sc')\<rparr>))"
    using c by (simp add: push_variable_to_scope_def try_modify_scope_def i split: sum.split)
  show "current_chain (st\<lparr>st_scopes := (st_scopes st)(sc_id sc \<mapsto> sc')\<rparr>) = sc' # rest"
    if "scope_insert_variable n 0 t sc = Inr sc'"
    using current_chain_update(1) [OF wf c same_links_insert(2) [OF that]] head by (simp add: i)
qed

lemma declare_symbol_head:
  assumes wf: "wf_symtab st" and head: "current_chain st = sc # rest"
  shows "declare_symbol n sy st = Some (case scope_insert_symbol n sy sc of
           Inl e \<Rightarrow> Inl e
         | Inr sc' \<Rightarrow> Inr (st\<lparr>st_scopes := (st_scopes st)(sc_id sc \<mapsto> sc')\<rparr>))"
    and "scope_insert_symbol n sy sc = Inr sc' \<Longrightarrow>
         current_chain (st\<lparr>st_scopes := (st_scopes st)(sc_id sc \<mapsto> sc')\<rparr>) = sc' # rest"
proof -
  from current_chain_scope [OF wf head] obtain c
    where c: "st_current_scope st = Some c" "st_scopes st c = Some sc" by blast
  have i: "sc_id sc = c" using scope_okD(1) wf_symtabD(1) [OF wf c(2)] by blast
  show "declare_symbol n sy st = Some (case scope_insert_symbol n sy sc of
           Inl e \<Rightarrow> Inl e
         | Inr sc' \<Rightarrow> Inr (st\<lparr>st_scopes := (st_scopes st)(sc_id sc \<mapsto> sc')\<rparr>))"
    using c by (simp add: declare_symbol_def register_symbol_def try_modify_scope_def i split: sum.split)
  show "current_chain (st\<lparr>st_scopes := (st_scopes st)(sc_id sc \<mapsto> sc')\<rparr>) = sc' # rest"
    if "scope_insert_symbol n sy sc = Inr sc'"
    using current_chain_update(1) [OF wf c same_links_insert(1) [OF that]] head by (simp add: i)
qed

lemma insert_cases:
  "scope_insert_variable n node t sc =
     (if sc_variables sc n = None then Inr (sc\<lparr>sc_variables := (sc_variables sc)(n \<mapsto> (node, t))\<rparr>)
      else Inl (''Variable '' @ tick n @ '' already declared in this scope''))"
  "scope_insert_symbol n sy sc =
     (if sc_symbols sc n = None then Inr (sc\<lparr>sc_symbols := (sc_symbols sc)(n \<mapsto> sy)\<rparr>)
      else Inl (''Symbol '' @ tick n @ '' already exists in this scope''))"
  by (auto simp: scope_insert_variable_def scope_insert_symbol_def split: option.split)

lemma var_frames_Cons:
  "var_frames st = m # fs \<Longrightarrow> \<exists>sc rest. current_chain st = sc # rest
     \<and> m = (\<lambda>n. map_option snd (sc_variables sc n)) \<and> fs = map (\<lambda>sc n. map_option snd (sc_variables sc n)) rest"
  by (auto simp: var_frames_def)

lemma sym_frames_Cons:
  "sym_frames st = m # fs \<Longrightarrow> \<exists>sc rest. current_chain st = sc # rest
     \<and> m = sc_symbols sc \<and> fs = map sc_symbols rest"
  by (auto simp: sym_frames_def)

interpretation vars: lexical_env wf_symtab var_frames open_scope pop_scope
  push_variable_to_scope lookup_variable
proof
  fix st
  show "wf_symtab st \<Longrightarrow>
      \<exists>st'. open_scope st = Some st' \<and> wf_symtab st' \<and> var_frames st' = Map.empty # var_frames st"
    using open_scope_law by blast
next
  fix st m fs
  assume wf: "wf_symtab st" and f: "var_frames st = m # fs"
  from var_frames_Cons [OF f] obtain sc rest where h: "current_chain st = sc # rest"
    "fs = map (\<lambda>sc n. map_option snd (sc_variables sc n)) rest" by blast
  from pop_scope_chain [OF wf h(1)] h(2)
  show "\<exists>st'. pop_scope st = Some st' \<and> wf_symtab st' \<and> var_frames st' = fs"
    by (auto simp: var_frames_def)
next
  fix st m fs and n :: string and t
  assume wf: "wf_symtab st" and f: "var_frames st = m # fs" and n: "m n = None"
  from var_frames_Cons [OF f] obtain sc rest where h: "current_chain st = sc # rest"
    "m = (\<lambda>n. map_option snd (sc_variables sc n))"
    "fs = map (\<lambda>sc n. map_option snd (sc_variables sc n)) rest" by blast
  define sc' where "sc' = sc\<lparr>sc_variables := (sc_variables sc)(n \<mapsto> (0, t))\<rparr>"
  have ins: "scope_insert_variable n 0 t sc = Inr sc'"
    using n h(2) by (simp add: insert_cases sc'_def)
  let ?st' = "st\<lparr>st_scopes := (st_scopes st)(sc_id sc \<mapsto> sc')\<rparr>"
  have push: "push_variable_to_scope n t st = Some (Inr ?st')"
    using push_variable_head(1) [OF wf h(1)] ins by simp
  moreover have "var_frames ?st' = m(n \<mapsto> t) # fs"
    using push_variable_head(2) [OF wf h(1) ins] h(2,3) by (auto simp: var_frames_def sc'_def)
  ultimately show "\<exists>st'. push_variable_to_scope n t st = Some (Inr st') \<and> wf_symtab st'
      \<and> var_frames st' = m(n \<mapsto> t) # fs"
    using push_variable_wf [OF wf push] by blast
next
  fix st m fs and n :: string and t
  assume wf: "wf_symtab st" and f: "var_frames st = m # fs" and n: "m n \<noteq> None"
  from var_frames_Cons [OF f] obtain sc rest where h: "current_chain st = sc # rest"
    "m = (\<lambda>n. map_option snd (sc_variables sc n))" by blast
  then show "\<exists>e. push_variable_to_scope n t st = Some (Inl e)"
    using push_variable_head(1) [OF wf h(1)] n by (simp add: insert_cases)
next
  fix st and n :: string
  assume "wf_symtab st"
  then show "lookup_variable n st = Some (first_some (\<lambda>m. m n) (var_frames st))"
    by (rule lookup_variable_frames)
qed

interpretation syms: lexical_env wf_symtab sym_frames open_scope pop_scope
  declare_symbol lookup_symbol
proof
  fix st
  show "wf_symtab st \<Longrightarrow>
      \<exists>st'. open_scope st = Some st' \<and> wf_symtab st' \<and> sym_frames st' = Map.empty # sym_frames st"
    using open_scope_law by blast
next
  fix st m fs
  assume wf: "wf_symtab st" and f: "sym_frames st = m # fs"
  from sym_frames_Cons [OF f] obtain sc rest where h: "current_chain st = sc # rest"
    "fs = map sc_symbols rest" by blast
  from pop_scope_chain [OF wf h(1)] h(2)
  show "\<exists>st'. pop_scope st = Some st' \<and> wf_symtab st' \<and> sym_frames st' = fs"
    by (auto simp: sym_frames_def)
next
  fix st m fs and n :: string and sy
  assume wf: "wf_symtab st" and f: "sym_frames st = m # fs" and n: "m n = None"
  from sym_frames_Cons [OF f] obtain sc rest where h: "current_chain st = sc # rest"
    "m = sc_symbols sc" "fs = map sc_symbols rest" by blast
  define sc' where "sc' = sc\<lparr>sc_symbols := (sc_symbols sc)(n \<mapsto> sy)\<rparr>"
  have ins: "scope_insert_symbol n sy sc = Inr sc'"
    using n h(2) by (simp add: insert_cases sc'_def)
  let ?st' = "st\<lparr>st_scopes := (st_scopes st)(sc_id sc \<mapsto> sc')\<rparr>"
  have reg: "declare_symbol n sy st = Some (Inr ?st')"
    using declare_symbol_head(1) [OF wf h(1)] ins by simp
  moreover have "sym_frames ?st' = m(n \<mapsto> sy) # fs"
    using declare_symbol_head(2) [OF wf h(1) ins] h(2,3) by (auto simp: sym_frames_def sc'_def)
  ultimately show "\<exists>st'. declare_symbol n sy st = Some (Inr st') \<and> wf_symtab st'
      \<and> sym_frames st' = m(n \<mapsto> sy) # fs"
    using register_symbol_wf [OF wf reg [unfolded declare_symbol_def]] by blast
next
  fix st m fs and n :: string and sy
  assume wf: "wf_symtab st" and f: "sym_frames st = m # fs" and n: "m n \<noteq> None"
  from sym_frames_Cons [OF f] obtain sc rest where h: "current_chain st = sc # rest"
    "m = sc_symbols sc" by blast
  then show "\<exists>e. declare_symbol n sy st = Some (Inl e)"
    using declare_symbol_head(1) [OF wf h(1)] n by (simp add: insert_cases)
next
  fix st and n :: string
  assume "wf_symtab st"
  then show "lookup_symbol n st = Some (first_some (\<lambda>m. m n) (sym_frames st))"
    by (rule lookup_symbol_frames)
qed

lemma empty_chain_register:
  "current_chain st = [] \<Longrightarrow> wf_symtab st \<Longrightarrow> push_variable_to_scope n t st \<noteq> Some (Inr st')"
  "current_chain st = [] \<Longrightarrow> wf_symtab st \<Longrightarrow> declare_symbol n sy st \<noteq> Some (Inr st')"
  using wf_symtabD(2) scope_chain_Cons
  by (fastforce simp: current_chain_def push_variable_to_scope_def declare_symbol_def
      register_symbol_def split: option.splits)+

interpretation names: two_namespaces wf_symtab var_frames sym_frames open_scope pop_scope
  push_variable_to_scope lookup_variable declare_symbol lookup_symbol
proof
  fix st st' and n :: string and t
  assume wf: "wf_symtab st" and d: "push_variable_to_scope n t st = Some (Inr st')"
  then obtain sc rest where h: "current_chain st = sc # rest"
    using empty_chain_register(1) by (cases "current_chain st") blast+
  from d push_variable_head(1) [OF wf h] obtain sc' where sc': "scope_insert_variable n 0 t sc = Inr sc'"
    "st' = st\<lparr>st_scopes := (st_scopes st)(sc_id sc \<mapsto> sc')\<rparr>" by (auto split: sum.splits)
  then have "sc_symbols sc' = sc_symbols sc" by (auto simp: insert_cases split: if_splits)
  then show "sym_frames st' = sym_frames st"
    using push_variable_head(2) [OF wf h sc'(1)] h sc'(2) by (simp add: sym_frames_def)
next
  fix st st' and n :: string and sy
  assume wf: "wf_symtab st" and d: "declare_symbol n sy st = Some (Inr st')"
  then obtain sc rest where h: "current_chain st = sc # rest"
    using empty_chain_register(2) by (cases "current_chain st") blast+
  from d declare_symbol_head(1) [OF wf h] obtain sc' where sc': "scope_insert_symbol n sy sc = Inr sc'"
    "st' = st\<lparr>st_scopes := (st_scopes st)(sc_id sc \<mapsto> sc')\<rparr>" by (auto split: sum.splits)
  then have "sc_variables sc' = sc_variables sc" by (auto simp: insert_cases split: if_splits)
  then show "var_frames st' = var_frames st"
    using declare_symbol_head(2) [OF wf h sc'(1)] h sc'(2) by (simp add: var_frames_def)
qed

end
