(* ===== verification/ExprFacts.thy ===== *)
theory ExprFacts
  imports InferExpr ScopeEnv
begin

text \<open>
  What holds of a run of \<open>infer_expression\<close>, whatever the expression. Inference changes the
  checker in three ways only: it records a type, it pushes an error, it pushes an error that is
  deduplicated. The locale \<open>checker_relation\<close> is the interface of a relation between the states
  before and after, its lemma says that every run respects such a relation, and the
  interpretations are the relations the properties need.
\<close>

section \<open>Induction over expressions, and the ways a call can go\<close>

text \<open>
  The subexpressions \<open>infer_expression\<close> visits: the arguments of a call and the receiver of a
  method call, but not the callee itself; the size of an array type.
\<close>

lemma argument_size: "a \<in> set as \<Longrightarrow> size (snd a) \<le> size_list (size_prod (\<lambda>_. 0) size) as"
  by (induction as) auto

lemma element_size: "e \<in> set es \<Longrightarrow> size e \<le> size_list size es"
  by (induction es) auto

lemma expression_induct [case_names ArrayIndexAccess Binary MemberAccess TypeMemberAccess FunctionCall
    Struct PrefixUnary Parenthesized Array Bool String Number Unit Identifier Type Uzumaki]:
  assumes "\<And>i l arr idx. P arr \<Longrightarrow> P idx \<Longrightarrow> P (Expr_ArrayIndexAccess i l arr idx)"
    and "\<And>i l a op b. P a \<Longrightarrow> P b \<Longrightarrow> P (Expr_Binary i l a op b)"
    and "\<And>i l e n. P e \<Longrightarrow> P (Expr_MemberAccess i l e n)"
    and "\<And>i l e n. P e \<Longrightarrow> P (Expr_TypeMemberAccess i l e n)"
    and "\<And>i l f tps args.
           (\<And>a. a \<in> set (argument_list args) \<Longrightarrow> P (snd a))
           \<Longrightarrow> (\<And>mi ml r n. call_receiver f = Some (mi, ml, r, n) \<Longrightarrow> P r)
           \<Longrightarrow> P (Expr_FunctionCall i l f tps args)"
    and "\<And>i l n flds. P (Expr_Struct i l n flds)"
    and "\<And>i l e op. P e \<Longrightarrow> P (Expr_PrefixUnary i l e op)"
    and "\<And>i l e. P e \<Longrightarrow> P (Expr_Parenthesized i l e)"
    and "\<And>i l es. (\<And>e. e \<in> set (argument_list es) \<Longrightarrow> P e) \<Longrightarrow> P (Expr_Literal (Lit_Array i l es))"
    and "\<And>i l b. P (Expr_Literal (Lit_Bool i l b))"
    and "\<And>i l v. P (Expr_Literal (Lit_String i l v))"
    and "\<And>i l v. P (Expr_Literal (Lit_Number i l v))"
    and "\<And>i l. P (Expr_Literal (Lit_Unit i l))"
    and "\<And>x. P (Expr_Identifier x)"
    and "\<And>t. (\<And>sz. array_size_of t = Some sz \<Longrightarrow> P sz) \<Longrightarrow> P (Expr_Type t)"
    and "\<And>i l. P (Expr_Uzumaki i l)"
  shows "P e"
proof (induction e rule: measure_induct_rule [of size])
  case (less e)
  show ?case
  proof (cases e)
    case (Expr_FunctionCall i l f tps args)
    have "P (snd a)" if "a \<in> set (argument_list args)" for a
      using less [of "snd a"] argument_size [OF that]
        argument_list_size [of "size_prod (\<lambda>_. 0) size" args "size f"]
      by (simp add: Expr_FunctionCall)
    moreover have "P r" if "call_receiver f = Some (mi, ml, r, n)" for mi ml r n
      using less [of r] call_receiver_size [OF that] by (simp add: Expr_FunctionCall)
    ultimately show ?thesis unfolding Expr_FunctionCall by (rule assms(5))
  next
    case (Expr_Literal lit)
    show ?thesis
    proof (cases lit)
      case (Lit_Array i l es)
      have "P a" if "a \<in> set (argument_list es)" for a
        using less [of a] element_size [OF that] argument_list_size [of size es 0]
        by (simp add: Expr_Literal Lit_Array)
      then show ?thesis unfolding Expr_Literal Lit_Array by (rule assms(9))
    qed (auto simp: Expr_Literal intro: assms)
  next
    case (Expr_Type t)
    have "P sz" if "array_size_of t = Some sz" for sz
      using less [of sz] array_size_of_size [OF that] by (simp add: Expr_Type)
    then show ?thesis unfolding Expr_Type by (rule assms(15))
  qed (use less in \<open>auto intro: assms\<close>)
qed

lemma infer_call_cases [consumes 1, case_names associated untyped missing bad_receiver method_call
    given_up ready infers]:
  assumes "infer_expression (Expr_FunctionCall i l f tps args) s = Some (t, s')"
  obtains
    mi ml tn mn info s1 s2 where
      "associated_method f s = Some (Some (mi, ml, tn, mn, info))"
      "check_associated_call tn mn ml l (argument_count args) info s = Some s1"
      "infer_arguments (argument_list args) s1 = Some s2"
      "method_call_result i mi tn mn info s2 = (t, s')"
  | mi ml r n s1 where
      "call_receiver f = Some (mi, ml, r, n)" "infer_expression r s = Some (None, s1)"
      "infer_arguments (argument_list args) s1 = Some s'" "t = None"
  | mi ml r n rt s1 where
      "call_receiver f = Some (mi, ml, r, n)" "infer_expression r s = Some (Some rt, s1)"
      "start_instance_call (ident_name n) ml l (argument_count args) rt s1 = Some (Method_Missing, s')"
      "t = None"
  | mi ml r n rt s1 s2 where
      "call_receiver f = Some (mi, ml, r, n)" "infer_expression r s = Some (Some rt, s1)"
      "start_instance_call (ident_name n) ml l (argument_count args) rt s1 = Some (Method_Bad_Receiver, s2)"
      "infer_arguments (argument_list args) s2 = Some s'" "t = None"
  | mi ml r n rt tn info s1 s2 s3 where
      "call_receiver f = Some (mi, ml, r, n)" "infer_expression r s = Some (Some rt, s1)"
      "start_instance_call (ident_name n) ml l (argument_count args) rt s1 = Some (Method_Found tn info, s2)"
      "infer_arguments (argument_list args) s2 = Some s3"
      "method_call_result i mi tn (ident_name n) info s3 = (t, s')"
  | s1 where
      "start_function_call (function_call_name f) l tps args s = Some (Call_Given_Up, s1)"
      "infer_arguments (argument_list args) s1 = Some s'" "t = None"
  | sig sub s1 s2 where
      "start_function_call (function_call_name f) l tps args s = Some (Call_Ready sig sub, s1)"
      "infer_arguments (argument_list args) s1 = Some s2"
      "function_call_result i sig sub s2 = (t, s')"
      "associated_method f s = Some None" "call_receiver f = None"
  | sig sub s1 s2 s3 where
      "start_function_call (function_call_name f) l tps args s = Some (Call_Infers sig, s1)"
      "infer_type_params (fi_param_types sig) (argument_list args) l [] s1 = Some (sub, s2)"
      "infer_arguments (argument_list args)
         (finish_type_inference (function_call_name f) sig (args \<noteq> None) l sub s2) = Some s3"
      "function_call_result i sig sub s3 = (t, s')"
      "associated_method f s = Some None" "call_receiver f = None"
  using assms
  by (auto elim!: bind_SomeE split: option.splits prod.splits call_plan.splits method_plan.splits)

section \<open>Relations closed under the primitive updates\<close>

fun is_circular_import :: "type_check_error \<Rightarrow> bool" where
  "is_circular_import (CircularImport _ _) = True"
| "is_circular_import _ = False"

definition keeps :: "(checker \<Rightarrow> checker \<Rightarrow> bool) \<Rightarrow> checker \<Rightarrow> expression \<Rightarrow> bool" where
  "keeps R s0 e \<longleftrightarrow> (\<forall>s t s'. infer_expression e s = Some (t, s') \<longrightarrow> R s0 s \<longrightarrow> R s0 s')"

locale checker_relation =
  fixes R :: "checker \<Rightarrow> checker \<Rightarrow> bool"
  assumes R_refl: "R s s"
    and R_trans: "R s s1 \<Longrightarrow> R s1 s2 \<Longrightarrow> R s s2"
    and R_error: "dedup_key e = None \<Longrightarrow> \<not> is_circular_import e \<Longrightarrow> R s (push_error e s)"
    and R_dedup: "\<not> is_circular_import e \<Longrightarrow> R s (push_error_dedup e s)"
    and R_note: "R s (set_node_typeinfo i t s)"
begin

lemma R_error_step: "R s s1 \<Longrightarrow> dedup_key e = None \<Longrightarrow> \<not> is_circular_import e \<Longrightarrow> R s (push_error e s1)"
  using R_trans R_error by blast

lemma R_dedup_step: "R s s1 \<Longrightarrow> \<not> is_circular_import e \<Longrightarrow> R s (push_error_dedup e s1)"
  using R_trans R_dedup by blast

lemma R_note_step: "R s s1 \<Longrightarrow> R s (set_node_typeinfo i t s1)"
  using R_trans R_note by blast

lemmas R_intros = R_error_step R_dedup_step R_note_step

lemma R_visibility:
  assumes "check_and_report_visibility vis d l cx s1 = Some (b, s')" "R s s1"
  shows "R s s'"
  using assms by (auto elim!: bind_SomeE simp: check_and_report_visibility_def Let_def 
      intro!: R_intros split: if_splits prod.splits)

lemma R_index:
  "array_index_result i l t s1 = (t', s') \<Longrightarrow> R s s1 \<Longrightarrow> R s s'"
  "R s s1 \<Longrightarrow> R s (check_index_type l ti s1)"
  by (auto elim!: bind_SomeE simp: array_index_result_def check_index_type_def intro!: R_intros
      split: type_info_kind.splits option.split)

lemma R_member:
  "member_access_result i l f t s1 = Some (t', s') \<Longrightarrow> R s s1 \<Longrightarrow> R s s'"
  by (auto elim!: bind_SomeE simp: member_access_result_def intro!: R_intros
      split: option.splits prod.splits) (blast intro: R_visibility)+

lemma R_variant:
  "enum_variant_result i l n v s1 = Some (t', s') \<Longrightarrow> R s s1 \<Longrightarrow> R s s'"
  by (auto elim!: bind_SomeE simp: enum_variant_result_def Let_def intro!: R_intros
      split: option.splits prod.splits if_splits) (blast intro: R_visibility)+

lemma R_variant_of_type:
  "enum_variant_of_type i l v t s1 = Some (t', s') \<Longrightarrow> R s s1 \<Longrightarrow> R s s'"
  by (auto simp: enum_variant_of_type_def intro!: R_intros
      split: option.splits type_info_kind.splits) (blast intro: R_variant)+

lemma R_method_signature:
  "check_method_signature n m ml l k info s1 = Some s' \<Longrightarrow> R s s1 \<Longrightarrow> R s s'"
  by (auto elim!: bind_SomeE simp: check_method_signature_def Let_def intro!: R_intros
      split: if_splits prod.splits) (blast intro: R_visibility)+

lemma R_calls:
  "check_associated_call n m ml l k info s1 = Some s' \<Longrightarrow> R s s1 \<Longrightarrow> R s s'"
  "check_instance_call n m ml l k info s1 = Some s' \<Longrightarrow> R s s1 \<Longrightarrow> R s s'"
  by (auto simp: check_associated_call_def check_instance_call_def elim!: R_method_signature
      intro!: R_intros)

lemma R_method_result: "method_call_result i j n m info s1 = (t, s') \<Longrightarrow> R s s1 \<Longrightarrow> R s s'"
  by (auto simp: method_call_result_def Let_def intro!: R_intros)

lemma R_explicit:
  "explicit_substitutions n sig tps l s1 = Some (sub, s') \<Longrightarrow> R s s1 \<Longrightarrow> R s s'"
  by (auto elim!: bind_SomeE simp: explicit_substitutions_def intro!: R_intros split: if_splits)

lemma R_note_argument: "note_type_argument tp l t sub s1 = (sub', s') \<Longrightarrow> R s s1 \<Longrightarrow> R s s'"
  by (auto elim!: bind_SomeE simp: note_type_argument_def intro!: R_intros split: option.splits if_splits)

lemma R_uninferred: "R s s1 \<Longrightarrow> R s (report_uninferred sig l sub s1)"
proof -
  have "R s s1 \<Longrightarrow> R s (fold (\<lambda>tp s. if map_of sub tp = None
      then push_error (CannotInferTypeParameter (fi_name sig) tp l) s else s) tps s1)" for tps
    by (induction tps arbitrary: s1) (simp_all add: R_error_step)
  then show "R s s1 \<Longrightarrow> R s (report_uninferred sig l sub s1)" by (simp add: report_uninferred_def)
qed

lemma R_finish_inference: "R s s1 \<Longrightarrow> R s (finish_type_inference n sig b l sub s1)"
  by (auto elim!: bind_SomeE simp: finish_type_inference_def report_missing_def intro!: R_intros R_uninferred)

lemma R_function_call:
  "start_function_call n l tps args s1 = Some (plan, s') \<Longrightarrow> R s s1 \<Longrightarrow> R s s'"
  by (auto elim!: bind_SomeE simp: start_function_call_def intro!: R_intros
      split: option.splits prod.splits if_splits) (blast intro: R_visibility R_explicit R_intros)+

lemma R_instance_call:
  "start_instance_call m ml l k t s1 = Some (plan, s') \<Longrightarrow> R s s1 \<Longrightarrow> R s s'"
  by (auto elim!: bind_SomeE simp: start_instance_call_def intro!: R_intros
      split: option.splits prod.splits) (blast intro: R_calls)+

lemma R_function_result: "function_call_result i sig sub s1 = (t, s') \<Longrightarrow> R s s1 \<Longrightarrow> R s s'"
  by (auto elim!: bind_SomeE simp: function_call_result_def Let_def intro!: R_intros)

lemma R_struct: "struct_result i l n s1 = Some (t, s') \<Longrightarrow> R s s1 \<Longrightarrow> R s s'"
  by (auto elim!: bind_SomeE simp: struct_result_def intro!: R_intros split: option.splits prod.splits)

lemma R_operators:
  "unary_result i l op t s1 = (t', s') \<Longrightarrow> R s s1 \<Longrightarrow> R s s'"
  "binary_result i l bop lt rt s1 = (t', s') \<Longrightarrow> R s s1 \<Longrightarrow> R s s'"
  by (auto elim!: bind_SomeE simp: unary_result_def binary_result_def Let_def intro!: R_intros
      split: option.splits operator_class.splits if_splits)

lemma R_leaves:
  "R s s1 \<Longrightarrow> R s (note_parenthesized i t s1)"
  "R s s1 \<Longrightarrow> R s (check_element et l t s1)"
  "identifier_result x s1 = Some (t, s') \<Longrightarrow> R s s1 \<Longrightarrow> R s s'"
  "number_literal_result i s1 = (t, s') \<Longrightarrow> R s s1 \<Longrightarrow> R s s'"
  by (auto elim!: bind_SomeE simp: note_parenthesized_def check_element_def identifier_result_def
      number_literal_result_def Let_def intro!: R_intros split: option.splits prod.splits)

text \<open>Every run of the four mutually recursive functions, lists first.\<close>

lemma keepsD: "keeps R s0 e \<Longrightarrow> infer_expression e s = Some (t, s') \<Longrightarrow> R s0 s \<Longrightarrow> R s0 s'"
  by (simp add: keeps_def)

lemma infer_arguments_rel:
  assumes "\<And>a. a \<in> set as \<Longrightarrow> keeps R s0 (snd a)"
    and "infer_arguments as s = Some s'" "R s0 s"
  shows "R s0 s'"
  using assms
proof (induction as arbitrary: s)
  case (Cons a as)
  obtain n e where a: "a = (n, e)" by (cases a)
  from Cons.prems(2) a obtain t s1
    where s1: "infer_expression e s = Some (t, s1)" "infer_arguments as s1 = Some s'"
    by (auto elim!: bind_SomeE split: prod.splits)
  have "keeps R s0 e" using Cons.prems(1) a by force
  from keepsD [OF this s1(1) Cons.prems(3)] show ?case
    using Cons.IH [OF _ s1(2)] Cons.prems(1) by (meson list.set_intros(2))
qed simp

lemma infer_elements_rel:
  assumes "\<And>e. e \<in> set es \<Longrightarrow> keeps R s0 e"
    and "infer_elements et l es s = Some s'" "R s0 s"
  shows "R s0 s'"
  using assms
proof (induction es arbitrary: s)
  case (Cons e es)
  from Cons.prems(2) obtain t s1
    where s1: "infer_expression e s = Some (t, s1)" "infer_elements et l es (check_element et l t s1) = Some s'"
    by (auto elim!: bind_SomeE split: prod.splits)
  have "keeps R s0 e" using Cons.prems(1) by simp
  from R_leaves(2) [OF keepsD [OF this s1(1) Cons.prems(3)]] show ?case
    using Cons.IH [OF _ s1(2)] Cons.prems(1) by (meson list.set_intros(2))
qed simp

lemma infer_type_params_rel:
  assumes "\<And>a. a \<in> set as \<Longrightarrow> keeps R s0 (snd a)"
    and "infer_type_params ps as l sub s = Some (sub', s')" "R s0 s"
  shows "R s0 s'"
  using assms
proof (induction ps arbitrary: as sub s)
  case (Cons p ps)
  show ?case
  proof (cases as)
    case (Cons a as')
    obtain n e where a: "a = (n, e)" by (cases a)
    have e: "keeps R s0 e" and as': "\<And>a. a \<in> set as' \<Longrightarrow> keeps R s0 (snd a)"
      using Cons.prems(1) by (force simp: Cons a)+
    obtain sub1 s1 where s1: "infer_type_params ps as' l sub1 s1 = Some (sub', s')" "R s0 s1"
    proof (cases "\<exists>tp. ti_kind p = Kind_Generic tp")
      case True
      then obtain tp where tp: "ti_kind p = Kind_Generic tp" by blast
      from Cons.prems(2) obtain t s2 where s2: "infer_expression e s = Some (t, s2)"
        "infer_type_params ps as' l (fst (note_type_argument tp l t sub s2))
           (snd (note_type_argument tp l t sub s2)) = Some (sub', s')"
        by (auto simp: Cons a tp elim!: bind_SomeE split: prod.splits)
      from R_note_argument [OF prod.collapse [symmetric] keepsD [OF e s2(1) Cons.prems(3)]] s2(2)
      show thesis by (rule that [rotated])
    next
      case False
      then show thesis using that [of sub s] Cons.prems(2,3)
        by (auto simp: Cons a split: type_info_kind.splits)
    qed
    show ?thesis using Cons.IH [OF as' s1] by blast
  qed (use Cons.prems in simp)
qed simp

lemma infer_respects: "keeps R s0 e"
proof (induction e rule: expression_induct)
  case (ArrayIndexAccess i l arr idx)
  then show ?case unfolding keeps_def
    by (auto elim!: bind_SomeE split: option.splits prod.splits) (blast intro: R_index)+
next
  case (Binary i l a op b)
  then show ?case unfolding keeps_def
    by (auto elim!: bind_SomeE split: option.splits prod.splits) (blast intro: R_operators)+
next
  case (MemberAccess i l e n)
  then show ?case unfolding keeps_def
    by (auto elim!: bind_SomeE split: option.splits prod.splits) (blast intro: R_member)+
next
  case (TypeMemberAccess i l e n)
  then show ?case unfolding keeps_def
    by (auto elim!: bind_SomeE intro!: R_intros
        split: option.splits prod.splits enum_qualifier.splits) (blast intro: R_variant R_variant_of_type)+
next
  case (FunctionCall i l f tps args)
  have args: "R s0 s1 \<Longrightarrow> R s0 s2" if "infer_arguments (argument_list args) s1 = Some s2" for s1 s2
    using infer_arguments_rel [OF FunctionCall(1) that] by blast
  have ps: "R s0 s1 \<Longrightarrow> R s0 s2"
    if "infer_type_params ps (argument_list args) l sub s1 = Some (sub', s2)" for ps sub sub' s1 s2
    using infer_type_params_rel [OF FunctionCall(1) that] by blast
  have recv: "R s0 s1 \<Longrightarrow> R s0 s2"
    if "call_receiver f = Some (mi, ml, r, n)" "infer_expression r s1 = Some (t, s2)" for mi ml r n t s1 s2
    using keepsD [OF FunctionCall(2) [OF that(1)] that(2)] by blast
  have "R s0 s'" if "infer_expression (Expr_FunctionCall i l f tps args) s = Some (t, s')" "R s0 s" for s t s'
    using that
  proof (cases rule: infer_call_cases)
    case (associated mi ml tn mn info s1 s2)
    show ?thesis
      by (rule R_method_result [OF associated(4) args [OF associated(3) R_calls(1) [OF associated(2) that(2)]]])
  next
    case (untyped mi ml r n s1)
    show ?thesis by (rule args [OF untyped(3) recv [OF untyped(1,2) that(2)]])
  next
    case (missing mi ml r n rt s1)
    show ?thesis by (rule R_instance_call [OF missing(3) recv [OF missing(1,2) that(2)]])
  next
    case (bad_receiver mi ml r n rt s1 s2)
    show ?thesis
      by (rule args [OF bad_receiver(4) R_instance_call [OF bad_receiver(3) recv [OF bad_receiver(1,2) that(2)]]])
  next
    case (method_call mi ml r n rt tn info s1 s2 s3)
    show ?thesis
      by (rule R_method_result [OF method_call(5) args [OF method_call(4)
            R_instance_call [OF method_call(3) recv [OF method_call(1,2) that(2)]]]])
  next
    case (given_up s1)
    show ?thesis by (rule args [OF given_up(2) R_function_call [OF given_up(1) that(2)]])
  next
    case (ready sig sub s1 s2)
    show ?thesis
      by (rule R_function_result [OF ready(3) args [OF ready(2) R_function_call [OF ready(1) that(2)]]])
  next
    case (infers sig sub s1 s2 s3)
    show ?thesis
      by (rule R_function_result [OF infers(4) args [OF infers(3) R_finish_inference
            [OF ps [OF infers(2) R_function_call [OF infers(1) that(2)]]]]])
  qed
  then show ?case by (simp add: keeps_def)
next
  case (Array i l es)
  have "R s0 s'" if run: "infer_expression (Expr_Literal (Lit_Array i l es)) s = Some (t, s')" "R s0 s" for s t s'
  proof (cases "node_typeinfo i s")
    case None
    show ?thesis
    proof (cases es)
      case (Some xs)
      with run None obtain e rest where xs: "xs = e # rest" by (cases xs) auto
      have e: "keeps R s0 e" and rest: "\<And>x. x \<in> set rest \<Longrightarrow> keeps R s0 x"
        using Array by (auto simp: Some xs argument_list_def)
      from run(1) None Some xs obtain t1 s1 where s1: "infer_expression e s = Some (t1, s1)"
        by (auto elim!: bind_SomeE)
      from keepsD [OF e s1 run(2)] show ?thesis
        using run(1) None Some xs s1 infer_elements_rel [OF rest]
        by (auto simp: Let_def elim!: bind_SomeE intro!: R_note_step split: option.splits)
    qed (use run None in auto)
  qed (use run in auto)
  then show ?case by (simp add: keeps_def)
next
  case (Type t)
  then show ?case unfolding keeps_def
    by (auto simp: Let_def elim!: bind_SomeE split: option.splits prod.splits) (blast intro: R_note_step)+
next
  case (PrefixUnary i l e op)
  then show ?case unfolding keeps_def
    by (auto elim!: bind_SomeE split: prod.splits) (blast intro: R_operators)+
next
  case (Parenthesized i l e)
  then show ?case unfolding keeps_def
    by (auto elim!: bind_SomeE intro!: R_leaves(1) split: prod.splits)
next
  case (Struct i l n flds)
  then show ?case by (auto simp: keeps_def intro: R_struct)
next
  case (Number i l v)
  then show ?case by (auto simp: keeps_def intro: R_leaves(4))
next
  case (Identifier x)
  then show ?case by (auto simp: keeps_def intro: R_leaves(3))
qed (auto simp: keeps_def intro: R_note_step)

lemma infer_expression_rel: "infer_expression e s = Some (t, s') \<Longrightarrow> R s s'"
  using keepsD [OF infer_respects] R_refl by blast

lemma infer_arguments_respects: "infer_arguments as s = Some s' \<Longrightarrow> R s s'"
  using infer_arguments_rel [OF infer_respects] R_refl by blast

end

section \<open>The relations the properties need\<close>

text \<open>Inference leaves the symbol table, the arena and the glob-import set alone.\<close>

definition same_table :: "checker \<Rightarrow> checker \<Rightarrow> bool" where
  "same_table s s' \<longleftrightarrow>
     tc_symbol_table s' = tc_symbol_table s \<and> tc_glob_in_progress s' = tc_glob_in_progress s
     \<and> cx_arena (tc_ctx s') = cx_arena (tc_ctx s)"

text \<open>Errors are only added at the end, recorded types are never removed.\<close>

definition grows :: "checker \<Rightarrow> checker \<Rightarrow> bool" where
  "grows s s' \<longleftrightarrow>
     prefix (tc_errors s) (tc_errors s')
     \<and> dom (cx_node_types (tc_ctx s)) \<subseteq> dom (cx_node_types (tc_ctx s'))
     \<and> cx_arena (tc_ctx s') = cx_arena (tc_ctx s)"

text \<open>Every key among the errors is recorded as reported, and no key occurs twice.\<close>

definition dedup_ok :: "checker \<Rightarrow> bool" where
  "dedup_ok s \<longleftrightarrow>
     distinct (List.map_filter dedup_key (tc_errors s))
     \<and> set (List.map_filter dedup_key (tc_errors s)) \<subseteq> tc_reported s"

definition keeps_dedup :: "checker \<Rightarrow> checker \<Rightarrow> bool" where
  "keeps_dedup s s' \<longleftrightarrow> (dedup_ok s \<longrightarrow> dedup_ok s')"

definition no_circular :: "checker \<Rightarrow> bool" where
  "no_circular s \<longleftrightarrow>
     tc_glob_in_progress s = {} \<and> filter is_circular_import (tc_errors s) = []"

definition keeps_no_circular :: "checker \<Rightarrow> checker \<Rightarrow> bool" where
  "keeps_no_circular s s' \<longleftrightarrow> (no_circular s \<longrightarrow> no_circular s')"

lemmas primitive_defs = push_error_def push_error_dedup_def set_node_typeinfo_def
  cx_set_node_typeinfo_def set_symbol_table_def

lemma map_filter_append [simp]:
  "List.map_filter f (xs @ ys) = List.map_filter f xs @ List.map_filter f ys"
  by (simp add: List.map_filter_def)

lemma map_filter_single [simp]:
  "List.map_filter f [x] = (case f x of None \<Rightarrow> [] | Some y \<Rightarrow> [y])"
  by (simp add: List.map_filter_def split: option.split)

interpretation table: checker_relation same_table
  by unfold_locales (auto simp: same_table_def primitive_defs split: option.split)

interpretation growth: checker_relation grows
  by unfold_locales (auto simp: grows_def primitive_defs split: option.split)

interpretation dedup: checker_relation keeps_dedup
  by unfold_locales (auto simp: keeps_dedup_def dedup_ok_def primitive_defs split: option.split)

interpretation circular: checker_relation keeps_no_circular
proof
  show "keeps_no_circular s s" for s by (simp add: keeps_no_circular_def)
  show "keeps_no_circular s s1 \<Longrightarrow> keeps_no_circular s1 s2 \<Longrightarrow> keeps_no_circular s s2" for s s1 s2
    by (simp add: keeps_no_circular_def)
  show "\<not> is_circular_import e \<Longrightarrow> keeps_no_circular s (push_error e s)" for e s
    by (simp add: keeps_no_circular_def no_circular_def push_error_def)
  show "\<not> is_circular_import e \<Longrightarrow> keeps_no_circular s (push_error_dedup e s)" for e s
    by (simp add: keeps_no_circular_def no_circular_def push_error_dedup_def push_error_def
        split: option.split)
  show "keeps_no_circular s (set_node_typeinfo i t s)" for i t s
    by (simp add: keeps_no_circular_def no_circular_def set_node_typeinfo_def)
qed

end
