(* ===== verification/ExprTotal.thy ===== *)
theory ExprTotal
  imports ExprFacts
begin

text \<open>
  Inference returns: on a well-formed symbol table every lookup ends and every reference is
  valid, so the only way \<open>infer_expression\<close> can fail to return is one of its three panics.
  \<open>expr_ok\<close> excludes them: array types have numeric literals as sizes, and no array literal has an
  empty element vector.
\<close>

section \<open>Visibility is ancestry\<close>

text \<open>The scopes from which a scope is reached by going down, itself included.\<close>

definition scope_parent_rel :: "(nat \<rightharpoonup> scope) \<Rightarrow> (nat \<times> nat) set" where
  "scope_parent_rel ss = {(i, p). \<exists>sc. ss i = Some sc \<and> sc_parent sc = Some p}"

lemma is_scope_descendant_of_iff:
  assumes cl: "climbable ss"
  shows "is_scope_descendant_of ss i j = Some ((i, j) \<in> (scope_parent_rel ss)\<^sup>*)"
proof (induction i rule: less_induct)
  case (less i)
  show ?case
  proof (cases "i = j")
    case True
    then show ?thesis by (simp add: is_scope_descendant_of.simps)
  next
    case False
    have star: "(i, j) \<in> (scope_parent_rel ss)\<^sup>* \<longleftrightarrow>
        (\<exists>p. (i, p) \<in> scope_parent_rel ss \<and> (p, j) \<in> (scope_parent_rel ss)\<^sup>*)"
      using False by (blast elim: converse_rtranclE intro: converse_rtrancl_into_rtrancl)
    show ?thesis
    proof (cases "ss i")
      case None
      then show ?thesis
        using False star by (auto simp: is_scope_descendant_of.simps [of ss i] scope_parent_rel_def)
    next
      case (Some sc)
      show ?thesis
      proof (cases "sc_parent sc")
        case None
        then show ?thesis using False Some star
          by (auto simp: is_scope_descendant_of.simps [of ss i] scope_parent_rel_def)
      next
        case (Some p)
        from climbableD [OF cl \<open>ss i = Some sc\<close>] Some obtain psc
          where p: "p < i" "ss p = Some psc" by blast
        have "sc_id psc = p" using climbableD(3) [OF cl p(2)] .
        then have "is_scope_descendant_of ss i j = is_scope_descendant_of ss p j"
          using False Some \<open>ss i = Some sc\<close> p(2) by (simp add: is_scope_descendant_of.simps [of ss i])
        moreover have "(i, q) \<in> scope_parent_rel ss \<longleftrightarrow> q = p" for q
          using Some \<open>ss i = Some sc\<close> by (auto simp: scope_parent_rel_def)
        ultimately show ?thesis using less.IH [OF p(1)] star by simp
      qed
    qed
  qed
qed

section \<open>The lookups return\<close>

lemma lookup_up_returns:
  assumes "climbable ss" "ss i \<noteq> None"
  shows "\<exists>r. lookup_up f ss i = Some r"
  using lookup_up_chain [OF assms(1)] assms(2) by blast

lemma lookups_return:
  assumes "wf_symtab st"
  shows "\<exists>r. lookup_symbol n st = Some r" "\<exists>r. lookup_type n st = Some r"
    "\<exists>r. lookup_variable n st = Some r" "\<exists>r. lookup_function n st = Some r"
    "\<exists>r. lookup_struct n st = Some r" "\<exists>r. lookup_enum n st = Some r"
    "\<exists>r. lookup_method ty n st = Some r"
proof -
  have up: "\<exists>r. lookup_up f (st_scopes st) c = Some r" if "st_current_scope st = Some c" for f c
    using lookup_up_returns [OF wf_symtab_climbable [OF assms]] wf_symtabD(2) [OF assms that] by fastforce
  have sym: "\<exists>r. scope_lookup_symbol (st_scopes st) c n = Some r"
    if "st_current_scope st = Some c" for c n
    using up [OF that] by (simp add: scope_lookup_symbol_def)
  show s: "\<exists>r. lookup_symbol n st = Some r" for n
    using sym by (auto simp: lookup_symbol_def split: option.split)
  show "\<exists>r. lookup_function n st = Some r" "\<exists>r. lookup_struct n st = Some r"
    "\<exists>r. lookup_enum n st = Some r"
    using s [of n] by (auto simp: lookup_function_def lookup_struct_def lookup_enum_def)
  show "\<exists>r. lookup_variable n st = Some r"
    using up by (auto simp: lookup_variable_def scope_lookup_variable_def split: option.split)
  show "\<exists>r. lookup_method ty n st = Some r"
    using up by (auto simp: lookup_method_def scope_lookup_method_def split: option.split)
  show "\<exists>r. lookup_type n st = Some r"
  proof (cases "st_current_scope st")
    case (Some c)
    from sym [OF this] obtain r r' where "scope_lookup_symbol (st_scopes st) c n = Some r"
      "scope_lookup_symbol (st_scopes st) c (to_lowercase n) = Some r'" by meson
    with Some show ?thesis by (auto simp: lookup_type_def split: option.split)
  qed (simp add: lookup_type_def)
qed

lemma visibility_returns:
  assumes "wf_symtab (tc_symbol_table s)"
  shows "\<exists>b s'. check_and_report_visibility vis d l cx s = Some (b, s')
    \<and> tc_symbol_table s' = tc_symbol_table s"
proof -
  let ?a = "case current_scope_id (tc_symbol_table s) of Some i \<Rightarrow> i | None \<Rightarrow> 0"
  obtain b where "check_visibility vis d ?a s = Some b"
    using is_scope_descendant_of_iff [OF wf_symtab_climbable [OF assms]] by (cases vis) auto
  then show ?thesis
    by (cases b) (auto simp: check_and_report_visibility_def Let_def push_error_def)
qed

section \<open>Expressions that cannot panic\<close>

function (sequential) expr_ok :: "expression \<Rightarrow> bool" where
  "expr_ok (Expr_ArrayIndexAccess _ _ arr idx) = (expr_ok arr \<and> expr_ok idx)"
| "expr_ok (Expr_Binary _ _ a _ b) = (expr_ok a \<and> expr_ok b)"
| "expr_ok (Expr_MemberAccess _ _ e _) = expr_ok e"
| "expr_ok (Expr_TypeMemberAccess _ _ e _) =
     (case enum_qualifier_of e of
        Enum_Named _ \<Rightarrow> True
      | Enum_Other_Type t \<Rightarrow> type_info_new t \<noteq> None
      | Enum_Expression \<Rightarrow> expr_ok e)"
| "expr_ok (Expr_FunctionCall _ _ f _ args) =
     (list_all (\<lambda>a. expr_ok (snd a)) (argument_list args)
      \<and> (case call_receiver f of None \<Rightarrow> True | Some (_, _, r, _) \<Rightarrow> expr_ok r))"
| "expr_ok (Expr_PrefixUnary _ _ e _) = expr_ok e"
| "expr_ok (Expr_Parenthesized _ _ e) = expr_ok e"
| "expr_ok (Expr_Literal (Lit_Array _ _ es)) =
     (es \<noteq> Some [] \<and> list_all expr_ok (argument_list es))"
| "expr_ok (Expr_Type t) =
     (type_info_new t \<noteq> None
      \<and> (case array_size_of t of None \<Rightarrow> True | Some sz \<Rightarrow> expr_ok sz))"
| "expr_ok _ = True"
  by pat_completeness auto

termination
proof (relation "measure size", goal_cases)
  case (8 i l f tps args a)
  then show ?case
    using argument_size [of a "argument_list args"]
      argument_list_size [of "size_prod (\<lambda>_. 0) size" args "size f"] by simp
next
  case (9 i l f tps args a b c d e g h)
  then show ?case by (auto intro: call_receiver_size')
next
  case (12 i l es a)
  then show ?case
    using element_size [of a "argument_list es"] argument_list_size [of size es 0] by simp
next
  case (13 t a)
  then show ?case by (auto intro: array_size_of_size)
qed auto


section \<open>Inference returns\<close>

text \<open>A run that returns leaves the symbol table as it was, so the next run finds it well-formed.\<close>

abbreviation table_ok :: "checker \<Rightarrow> bool" where
  "table_ok s \<equiv> wf_symtab (tc_symbol_table s)"

definition returns :: "expression \<Rightarrow> bool" where
  "returns e \<longleftrightarrow> (\<forall>s. table_ok s \<longrightarrow> (\<exists>t s'. infer_expression e s = Some (t, s') \<and> table_ok s'))"

lemma returnsD: "returns e \<Longrightarrow> table_ok s \<Longrightarrow> \<exists>t s'. infer_expression e s = Some (t, s') \<and> table_ok s'"
  by (simp add: returns_def)

lemma returnsI:
  assumes "\<And>s. table_ok s \<Longrightarrow> infer_expression e s \<noteq> None"
  shows "returns e"
  using assms table.infer_expression_rel by (fastforce simp: returns_def same_table_def)

lemma table_simps [simp]:
  "tc_symbol_table (push_error e s) = tc_symbol_table s"
  "tc_symbol_table (push_error_dedup e s) = tc_symbol_table s"
  "tc_symbol_table (set_node_typeinfo i t s) = tc_symbol_table s"
  by (simp_all add: primitive_defs split: option.split)

lemma struct_name_returns:
  assumes ok: "table_ok s"
  shows "\<exists>r. struct_name_of t s = Some r"
proof (cases "ti_kind t")
  case (Kind_Custom n)
  obtain x where "lookup_struct n (tc_symbol_table s) = Some x" using lookups_return(5) [OF ok] by blast
  with Kind_Custom show ?thesis by (simp add: struct_name_of_def)
qed (simp_all add: struct_name_of_def)

lemma visibility_obtain:
  assumes "table_ok s"
  obtains b s' where "check_and_report_visibility vis d l cx s = Some (b, s')" "table_ok s'"
  using visibility_returns [OF assms] assms by metis

lemma member_access_returns:
  assumes ok: "table_ok s"
  shows "member_access_result i l f t s \<noteq> None"
proof -
  from struct_name_returns [OF ok] obtain r where r: "struct_name_of t s = Some r" by blast
  show ?thesis
  proof (cases r)
    case (Some n)
    obtain info where i: "lookup_struct n (tc_symbol_table s) = Some info"
      using lookups_return(5) [OF ok] by blast
    show ?thesis
    proof (cases "\<exists>si fld. info = Some si \<and> si_fields si f = Some fld")
      case True
      then obtain si fld where f: "info = Some si" "si_fields si f = Some fld" by blast
      obtain b s' where "check_and_report_visibility (sfi_visibility fld) (si_definition_scope_id si) l
          (Vis_Field n f) s = Some (b, s')" using visibility_obtain [OF ok] .
      then show ?thesis using r Some i f by (simp add: member_access_result_def)
    next
      case False
      then show ?thesis using r Some i by (auto simp: member_access_result_def split: option.split)
    qed
  qed (simp add: member_access_result_def r)
qed

lemma enum_variant_returns:
  assumes ok: "table_ok s"
  shows "enum_variant_result i l n v s \<noteq> None"
proof -
  obtain info where i: "lookup_enum n (tc_symbol_table s) = Some info"
    using lookups_return(6) [OF ok] by blast
  show ?thesis
  proof (cases info)
    case (Some ei)
    obtain b s' where "check_and_report_visibility (ei_visibility ei) (ei_definition_scope_id ei) l
        (Vis_Enum n) s = Some (b, s')" using visibility_obtain [OF ok] .
    then show ?thesis using i Some by (simp add: enum_variant_result_def Let_def)
  qed (simp add: enum_variant_result_def i)
qed

lemma enum_variant_of_type_returns:
  "table_ok s \<Longrightarrow> enum_variant_of_type i l v t s \<noteq> None"
  using enum_variant_returns by (auto simp: enum_variant_of_type_def split: option.split type_info_kind.split)

lemma method_signature_returns:
  "table_ok s \<Longrightarrow> \<exists>s'. check_method_signature n m ml l k info s = Some s' \<and> table_ok s'"
  using visibility_returns [of s "mi_visibility info" "mi_scope_id info" ml "Vis_Method n m"]
  by (auto simp: check_method_signature_def Let_def)

lemma calls_return:
  "table_ok s \<Longrightarrow> \<exists>s'. check_associated_call n m ml l k info s = Some s' \<and> table_ok s'"
  "table_ok s \<Longrightarrow> \<exists>s'. check_instance_call n m ml l k info s = Some s' \<and> table_ok s'"
  by (simp_all add: check_associated_call_def check_instance_call_def method_signature_returns)

lemma associated_method_returns:
  assumes ok: "table_ok s"
  shows "\<exists>r. associated_method f s = Some r"
proof (cases "\<exists>i l e n tn. f = Expr_TypeMemberAccess i l e n \<and> associated_type_name e = Some tn")
  case True
  then obtain i l e n tn where f: "f = Expr_TypeMemberAccess i l e n" "associated_type_name e = Some tn"
    by blast
  obtain x where "lookup_enum tn (tc_symbol_table s) = Some x" using lookups_return(6) [OF ok] by blast
  moreover obtain y where "lookup_method tn (ident_name n) (tc_symbol_table s) = Some y"
    using lookups_return(7) [OF ok] by blast
  ultimately show ?thesis by (simp add: f split: option.split)
next
  case False
  then show ?thesis by (cases f) auto
qed

lemma concrete_types_returns: "wf_symtab st \<Longrightarrow> \<exists>ts. concrete_types xs st = Some ts"
proof (induction xs)
  case (Cons x xs)
  then show ?case using lookups_return(2) [of st "ident_name x"] by auto
qed simp

lemma explicit_substitutions_returns:
  "table_ok s \<Longrightarrow> \<exists>sub s'. explicit_substitutions n sig tps l s = Some (sub, s') \<and> table_ok s'"
  using concrete_types_returns [of "tc_symbol_table s" tps]
  by (auto simp: explicit_substitutions_def)

lemma function_call_returns:
  assumes ok: "table_ok s"
  shows "\<exists>plan s'. start_function_call n l tps args s = Some (plan, s') \<and> table_ok s'"
proof -
  obtain r where r: "lookup_function n (tc_symbol_table s) = Some r" using lookups_return(4) [OF ok] by blast
  show ?thesis
  proof (cases r)
    case (Some sig)
    from visibility_returns [OF ok] obtain b s1 where s1:
      "check_and_report_visibility (fi_visibility sig) (fi_definition_scope_id sig) l (Vis_Function n) s = Some (b, s1)"
      "tc_symbol_table s1 = tc_symbol_table s" by metis
    then have ok1: "table_ok s1" using ok by simp
    obtain sub s2 where "explicit_substitutions n sig (the tps) l s1 = Some (sub, s2)" "table_ok s2"
      using explicit_substitutions_returns [OF ok1] by blast
    with r Some s1(1) ok1 show ?thesis
      by (cases tps) (auto simp: start_function_call_def)
  qed (simp add: start_function_call_def r ok)
qed

lemma instance_call_returns:
  assumes ok: "table_ok s"
  shows "\<exists>plan s'. start_instance_call m ml l k t s = Some (plan, s') \<and> table_ok s'"
proof -
  obtain r where r: "struct_name_of t s = Some r" using struct_name_returns [OF ok] by blast
  show ?thesis
  proof (cases r)
    case (Some tn)
    obtain x where "lookup_method tn m (tc_symbol_table s) = Some x" using lookups_return(7) [OF ok] by blast
    moreover obtain s' where "check_instance_call tn m ml l k (the x) s = Some s'" "table_ok s'"
      using calls_return(2) [OF ok] by blast
    ultimately show ?thesis using r Some ok
      by (cases x) (auto simp: start_instance_call_def)
  qed (simp add: start_instance_call_def r ok)
qed


text \<open>The list functions, when every element returns.\<close>

lemma infer_arguments_returns:
  assumes "\<And>a. a \<in> set as \<Longrightarrow> returns (snd a)" "table_ok s"
  shows "\<exists>s'. infer_arguments as s = Some s' \<and> table_ok s'"
  using assms
proof (induction as arbitrary: s)
  case (Cons a as)
  obtain n e where a: "a = (n, e)" by (cases a)
  then have "returns e" using Cons.prems(1) by force
  from returnsD [OF this Cons.prems(2)] show ?case using Cons.IH Cons.prems(1) a by force
qed simp

lemma infer_elements_returns:
  assumes "\<And>e. e \<in> set es \<Longrightarrow> returns e" "table_ok s"
  shows "\<exists>s'. infer_elements et l es s = Some s' \<and> table_ok s'"
  using assms
proof (induction es arbitrary: s)
  case (Cons e es)
  from returnsD [OF Cons.prems(1) Cons.prems(2), of e] obtain t s1
    where s1: "infer_expression e s = Some (t, s1)" "table_ok s1" by auto
  then have "table_ok (check_element et l t s1)"
    by (simp add: check_element_def split: option.split)
  with s1(1) show ?case using Cons.IH Cons.prems(1) by force
qed simp

lemma infer_type_params_returns:
  assumes "\<And>a. a \<in> set as \<Longrightarrow> returns (snd a)" "table_ok s"
  shows "\<exists>sub' s'. infer_type_params ps as l sub s = Some (sub', s') \<and> table_ok s'"
  using assms
proof (induction ps arbitrary: as sub s)
  case (Cons p ps)
  show ?case
  proof (cases as)
    case (Cons a as')
    obtain n e where a: "a = (n, e)" by (cases a)
    have e: "returns e" and as': "\<And>a. a \<in> set as' \<Longrightarrow> returns (snd a)"
      using Cons.prems(1) by (force simp: Cons a)+
    show ?thesis
    proof (cases "\<exists>tp. ti_kind p = Kind_Generic tp")
      case True
      then obtain tp where tp: "ti_kind p = Kind_Generic tp" by blast
      from returnsD [OF e Cons.prems(2)] obtain t s1
        where s1: "infer_expression e s = Some (t, s1)" "table_ok s1" by blast
      have "table_ok (snd (note_type_argument tp l t sub s1))"
        using s1(2) by (simp add: note_type_argument_def split: option.split)
      then have "\<exists>sub' s'. infer_type_params ps as' l (fst (note_type_argument tp l t sub s1))
          (snd (note_type_argument tp l t sub s1)) = Some (sub', s') \<and> table_ok s'"
        by (rule Cons.IH [OF as', rotated])
      with s1(1) show ?thesis by (simp add: Cons a tp split_beta)
    next
      case False
      then show ?thesis using Cons.IH [OF as' Cons.prems(2)]
        by (auto simp: Cons a split: type_info_kind.split)
    qed
  qed (use Cons.prems in simp)
qed simp

lemma report_uninferred_table [simp]:
  "tc_symbol_table (report_uninferred sig l sub s) = tc_symbol_table s"
proof -
  have "tc_symbol_table (fold (\<lambda>tp s. if map_of sub tp = None
      then push_error (CannotInferTypeParameter (fi_name sig) tp l) s else s) tps s) = tc_symbol_table s" for tps
    by (induction tps arbitrary: s) simp_all
  then show ?thesis by (simp add: report_uninferred_def)
qed

lemma finish_inference_table [simp]:
  "tc_symbol_table (finish_type_inference n sig b l sub s) = tc_symbol_table s"
  by (simp add: finish_type_inference_def report_missing_def)

lemma expr_ok_returns: "expr_ok e \<Longrightarrow> returns e"
proof (induction e rule: expression_induct)
  case (ArrayIndexAccess i l arr idx)
  then have IH: "returns arr" "returns idx" by auto
  show ?case
  proof (rule returnsI)
    fix s assume "table_ok s"
    then obtain t1 s1 where s1: "infer_expression arr s = Some (t1, s1)" "table_ok s1"
      using returnsD [OF IH(1)] by blast
    then obtain t2 s2 where "infer_expression idx s1 = Some (t2, s2)"
      using returnsD [OF IH(2)] by blast
    with s1 show "infer_expression (Expr_ArrayIndexAccess i l arr idx) s \<noteq> None"
      by (auto split: option.split)
  qed
next
  case (Binary i l a op b)
  then have IH: "returns a" "returns b" by auto
  show ?case
  proof (rule returnsI)
    fix s assume "table_ok s"
    then obtain t1 s1 where s1: "infer_expression a s = Some (t1, s1)" "table_ok s1"
      using returnsD [OF IH(1)] by blast
    then obtain t2 s2 where "infer_expression b s1 = Some (t2, s2)"
      using returnsD [OF IH(2)] by blast
    with s1 show "infer_expression (Expr_Binary i l a op b) s \<noteq> None"
      by (auto split: option.split)
  qed
next
  case (MemberAccess i l e n)
  then have IH: "returns e" by simp
  show ?case
  proof (rule returnsI)
    fix s assume "table_ok s"
    then obtain t1 s1 where "infer_expression e s = Some (t1, s1)" "table_ok s1"
      using returnsD [OF IH] by blast
    then show "infer_expression (Expr_MemberAccess i l e n) s \<noteq> None"
      using member_access_returns by (simp split: option.split)
  qed
next
  case (TypeMemberAccess i l e n)
  show ?case
  proof (rule returnsI)
    fix s assume ok: "table_ok s"
    show "infer_expression (Expr_TypeMemberAccess i l e n) s \<noteq> None"
    proof (cases "enum_qualifier_of e")
      case Enum_Expression
      with TypeMemberAccess have "returns e" by simp
      from returnsD [OF this ok] obtain t1 s1 where "infer_expression e s = Some (t1, s1)" "table_ok s1"
        by blast
      with Enum_Expression show ?thesis
        using enum_variant_of_type_returns by (simp split: option.split)
    next
      case (Enum_Other_Type t)
      with TypeMemberAccess.prems show ?thesis by (auto split: option.split)
    next
      case (Enum_Named v)
      then show ?thesis using enum_variant_returns [OF ok] by (simp split: option.split)
    qed
  qed
next
  case (FunctionCall i l f tps args)
  let ?as = "argument_list args"
  have as: "\<And>a. a \<in> set ?as \<Longrightarrow> returns (snd a)"
    using FunctionCall.IH(1) FunctionCall.prems by (simp add: list_all_iff)
  have recv: "returns r" if "call_receiver f = Some (mi, ml, r, n)" for mi ml r n
    using FunctionCall.IH(2) [OF that] FunctionCall.prems that by simp
  have args: "\<exists>s'. infer_arguments ?as s = Some s'" if "table_ok s" for s
    using infer_arguments_returns [OF as that] by blast
  have via_method: "infer_expression (Expr_FunctionCall i l f tps args) s \<noteq> None"
    if ok: "table_ok s" and na: "associated_method f s = Some None"
      and cr: "call_receiver f = Some (mi, ml, r, n)" for s mi ml r n
  proof -
    obtain t s1 where s1: "infer_expression r s = Some (t, s1)" "table_ok s1"
      using returnsD [OF recv [OF cr] ok] by blast
    show ?thesis
    proof (cases t)
      case None
      with s1 na cr args [OF s1(2)] show ?thesis by auto
    next
      case (Some rt)
      obtain plan s2 where s2: "start_instance_call (ident_name n) ml l (argument_count args) rt s1
          = Some (plan, s2)" "table_ok s2" using instance_call_returns [OF s1(2)] by blast
      with s1 na cr Some args [OF s2(2)] show ?thesis by (cases plan) auto
    qed
  qed
  have via_function: "infer_expression (Expr_FunctionCall i l f tps args) s \<noteq> None"
    if ok: "table_ok s" and na: "associated_method f s = Some None"
      and cr: "call_receiver f = None" for s
  proof -
    obtain plan s1 where s1: "start_function_call (function_call_name f) l tps args s = Some (plan, s1)"
      "table_ok s1" using function_call_returns [OF ok] by blast
    show ?thesis
    proof (cases plan)
      case (Call_Infers sig)
      obtain sub s2 where s2: "infer_type_params (fi_param_types sig) ?as l [] s1 = Some (sub, s2)"
        "table_ok s2" using infer_type_params_returns [OF as s1(2)] by blast
      then have "table_ok (finish_type_inference (function_call_name f) sig (args \<noteq> None) l sub s2)" by simp
      from args [OF this] s1 s2 na cr Call_Infers show ?thesis by auto
    qed (use s1 na cr args [OF s1(2)] in auto)
  qed
  show ?case
  proof (rule returnsI)
    fix s assume ok: "table_ok s"
    obtain r where r: "associated_method f s = Some r" using associated_method_returns [OF ok] by blast
    show "infer_expression (Expr_FunctionCall i l f tps args) s \<noteq> None"
    proof (cases r)
      case None
      with r ok via_method via_function show ?thesis by (cases "call_receiver f") auto
    next
      case (Some x)
      obtain mi ml tn mn info where x: "x = (mi, ml, tn, mn, info)" by (cases x)
      obtain s1 where "check_associated_call tn mn ml l (argument_count args) info s = Some s1" "table_ok s1"
        using calls_return(1) [OF ok] by blast
      with r Some x args show ?thesis by force
    qed
  qed
next
  case (Struct i l n flds)
  have "struct_result i l (ident_name n) s \<noteq> None" if "table_ok s" for s
    using lookups_return(2) [OF that, of "ident_name n"]
    by (auto simp: struct_result_def split: option.split)
  then show ?case by (intro returnsI) simp
next
  case (PrefixUnary i l e op)
  then have IH: "returns e" by simp
  show ?case by (rule returnsI) (use returnsD [OF IH] in force)
next
  case (Parenthesized i l e)
  then have IH: "returns e" by simp
  show ?case by (rule returnsI) (use returnsD [OF IH] in force)
next
  case (Array i l es)
  have IH: "\<And>e. e \<in> set (argument_list es) \<Longrightarrow> returns e"
    using Array by (simp add: list_all_iff)
  show ?case
  proof (rule returnsI)
    fix s assume ok: "table_ok s"
    show "infer_expression (Expr_Literal (Lit_Array i l es)) s \<noteq> None"
    proof (cases es)
      case (Some xs)
      with Array.prems obtain e rest where xs: "xs = e # rest" by (cases xs) auto
      have e: "returns e" and rest: "\<And>x. x \<in> set rest \<Longrightarrow> returns x"
        using IH by (simp_all add: Some xs argument_list_def)
      from returnsD [OF e ok] obtain t s1 where s1: "infer_expression e s = Some (t, s1)" "table_ok s1"
        by blast
      have "\<exists>s2. infer_elements (the t) l rest s1 = Some s2"
        using infer_elements_returns [OF rest s1(2)] by blast
      with s1 Some xs show ?thesis by (cases t) (auto simp: Let_def split: option.split)
    qed (simp split: option.split)
  qed
next
  case (Identifier x)
  have "identifier_result x s \<noteq> None" if "table_ok s" for s
    using lookups_return(3) [OF that, of "ident_name x"]
    by (auto simp: identifier_result_def split: option.split)
  then show ?case by (intro returnsI) simp
next
  case (Type t)
  show ?case
  proof (rule returnsI)
    fix s assume ok: "table_ok s"
    from Type.prems obtain ti where ti: "type_info_new t = Some ti" by auto
    show "infer_expression (Expr_Type t) s \<noteq> None"
    proof (cases "array_size_of t")
      case (Some sz)
      with Type have "returns sz" by simp
      from returnsD [OF this, of "set_node_typeinfo (type_id t) ti s"] ok ti Some show ?thesis
        by (auto simp: Let_def)
    qed (simp add: ti Let_def)
  qed
qed (auto intro: returnsI)

end
