(* ===== verification/StmtFacts.thy ===== *)
theory StmtFacts
  imports ExprTotal CheckDriver
begin

text \<open>
  What holds of a whole run of the checker. The locale \<open>program_relation\<close> extends
  \<open>checker_relation\<close> by the two other ways a run changes its state: a step of the symbol table and
  a glob import. Its lemmas carry such a relation through statements, bodies, the registration
  phases and \<open>infer_phases\<close>.
\<close>

declare infer_block.simps [simp del]

section \<open>Relations closed under all updates\<close>

locale program_relation = checker_relation +
  assumes R_table: "table_step (tc_symbol_table s) st \<Longrightarrow> R s (set_symbol_table st s)"
    and R_glob: "R s (resolve_glob_import so p l i s)"
begin

lemma R_table_step: "R s s1 \<Longrightarrow> table_step (tc_symbol_table s1) st \<Longrightarrow> R s (set_symbol_table st s1)"
  using R_trans R_table by blast

lemma R_glob_step: "R s s1 \<Longrightarrow> R s (resolve_glob_import so p l i s1)"
  using R_trans R_glob by blast

lemma R_registration:
  assumes "report_registration op err s1 = Some s'" "R s s1"
    and "\<And>st'. op (tc_symbol_table s1) = Some (Inr st') \<Longrightarrow> table_step (tc_symbol_table s1) st'"
    and "\<And>m. dedup_key (err m) = None \<and> \<not> is_circular_import (err m)"
  shows "R s s'"
  using assms by (auto simp: report_registration_def elim!: bind_SomeE intro!: R_error_step R_table_step
      split: sum.splits)

lemma R_scopes:
  "enter_scope s1 = Some s' \<Longrightarrow> R s s1 \<Longrightarrow> R s s'"
  "leave_scope s1 = Some s' \<Longrightarrow> R s s1 \<Longrightarrow> R s s'"
  by (auto simp: enter_scope_def leave_scope_def push_scope_def bind_Some_iff
      intro!: R_table_step intro: table_step.intros)

lemma R_declare:
  "declare_variable n t l s1 = Some s' \<Longrightarrow> R s s1 \<Longrightarrow> R s s'"
  "declare_type n t' l s1 = Some s' \<Longrightarrow> R s s1 \<Longrightarrow> R s s'"
  by (auto simp: declare_variable_def declare_type_def elim!: R_registration intro: table_step.intros)

lemma R_infer: "infer_expression e s1 = Some (t, s') \<Longrightarrow> R s s1 \<Longrightarrow> R s s'"
  using infer_expression_rel R_trans by blast

lemma R_checks:
  "R s s1 \<Longrightarrow> R s (assign_uzumaki i l t s1)" "R s s1 \<Longrightarrow> R s (check_assignment l t v s1)"
  "R s s1 \<Longrightarrow> R s (check_return l rt v s1)" "R s s1 \<Longrightarrow> R s (check_condition l v s1)"
  "R s s1 \<Longrightarrow> R s (check_initial_value l rt v s1)"
  by (auto simp: assign_uzumaki_def check_assignment_def check_return_def check_condition_def
      check_initial_value_def intro!: R_intros split: option.split)

lemma R_optional: "infer_optional c l s1 = Some s' \<Longrightarrow> R s s1 \<Longrightarrow> R s s'"
  by (auto simp: infer_optional_def elim!: bind_SomeE intro!: R_checks intro: R_infer
      split: option.splits)

lemma R_initial: "infer_initial_value v t l s1 = Some s' \<Longrightarrow> R s s1 \<Longrightarrow> R s s'"
  by (auto simp: infer_initial_value_def elim!: bind_SomeE intro!: R_checks R_note_step intro: R_infer
      split: option.splits)

lemma R_statements:
  "infer_statement st rt s1 = Some s' \<Longrightarrow> R s s1 \<Longrightarrow> R s s'"
  "infer_block b rt s1 = Some s' \<Longrightarrow> R s s1 \<Longrightarrow> R s s'"
  "infer_statements ss rt s1 = Some s' \<Longrightarrow> R s s1 \<Longrightarrow> R s s'"
proof (induction st rt s1 and b rt s1 and ss rt s1 arbitrary: s' and s' and s'
    rule: infer_statement_infer_block_infer_statements.induct)
  case (1 i l left right rt s1)
  then show ?case
    by (auto elim!: bind_SomeE intro!: R_checks split: option.splits prod.splits) (blast intro: R_infer)+
next
  case (3 e rt s1)
  then show ?case by (auto intro: R_infer)
next
  case (4 i l e rt s1)
  then show ?case
    by (auto elim!: bind_SomeE intro!: R_checks R_note_step intro: R_infer split: option.splits)
next
  case (5 i l condition body rt s1)
  then show ?case by (auto elim!: bind_SomeE) (blast intro: R_optional)
next
  case (7 i l condition if_arm else_arm rt s1)
  then show ?case
    by (auto elim!: bind_SomeE split: option.splits) (blast intro: R_checks R_infer)+
next
  case (8 i l name t v u rt s1)
  then show ?case
    by (auto elim!: bind_SomeE intro!: R_note_step) (blast intro: R_declare R_initial)
next
  case (9 i l name t rt s1)
  then show ?case by (auto intro: R_declare)
next
  case (10 i l e rt s1)
  then show ?case by (auto elim!: bind_SomeE intro!: R_checks intro: R_infer)
next
  case (11 c rt s1)
  then show ?case by (auto elim!: bind_SomeE intro!: R_note_step intro: R_declare)
next
  case (12 b rt s1)
  then show ?case by (auto simp: infer_block.simps elim!: bind_SomeE) (blast intro: R_scopes)
next
  case (14 st ss rt s1)
  then show ?case by (auto elim!: bind_SomeE)
qed simp_all

lemma R_fold:
  assumes "fold_opt f xs s1 = Some s'" "R s s1"
    and "\<And>x t t'. x \<in> set xs \<Longrightarrow> R s t \<Longrightarrow> f x t = Some t' \<Longrightarrow> R s t'"
  shows "R s s'"
  using assms(1,2,3)
proof (induction xs arbitrary: s1)
  case (Cons x xs)
  from Cons.prems(1) obtain t where t: "f x s1 = Some t" "fold_opt f xs t = Some s'"
    by (auto elim!: bind_SomeE)
  have "R s t" using Cons.prems(3) [OF _ Cons.prems(2) t(1)] by simp
  then show ?case using Cons.IH [OF t(2)] Cons.prems(3) by (meson list.set_intros(2))
qed simp

lemma R_parameters:
  "declare_parameter tps a s1 = Some s' \<Longrightarrow> R s s1 \<Longrightarrow> R s s'"
  "declare_method_parameter self_type a s1 = Some s' \<Longrightarrow> R s s1 \<Longrightarrow> R s s'"
  by (cases a; auto elim!: bind_SomeE intro!: R_error_step intro: R_declare)+

lemma R_bodies:
  "infer_variables f s1 = Some s' \<Longrightarrow> R s s1 \<Longrightarrow> R s s'"
  "infer_method_variables f self_type s1 = Some s' \<Longrightarrow> R s s1 \<Longrightarrow> R s s'"
proof -
  assume s1: "R s s1"
  show "R s s'" if run: "infer_variables f s1 = Some s'"
  proof -
    from run obtain s2 s3 s4 rt where r: "enter_scope s1 = Some s2"
      "fold_opt (declare_parameter (type_parameter_names (fd_type_parameters f)))
         (argument_list (fd_arguments f)) s2 = Some s3"
      "infer_statements (block_statements (fd_body f)) rt s3 = Some s4" "leave_scope s4 = Some s'"
      by (auto simp: infer_variables_def Let_def elim!: bind_SomeE)
    have "R s s3" by (rule R_fold [OF r(2) R_scopes(1) [OF r(1) s1] R_parameters(1)])
    then show ?thesis using R_scopes(2) [OF r(4) R_statements(3) [OF r(3)]] by blast
  qed
  show "R s s'" if run: "infer_method_variables f self_type s1 = Some s'"
  proof -
    from run obtain s2 s3 s4 where r: "enter_scope s1 = Some s2"
      "fold_opt (declare_method_parameter self_type) (argument_list (fd_arguments f)) s2 = Some s3"
      "fold_opt (\<lambda>st s. do { rt \<leftarrow> return_type_info [] (fd_returns f); infer_statement st rt s })
         (block_statements (fd_body f)) s3 = Some s4" "leave_scope s4 = Some s'"
      by (auto simp: infer_method_variables_def elim!: bind_SomeE)
    have s3: "R s s3" by (rule R_fold [OF r(2) R_scopes(1) [OF r(1) s1] R_parameters(2)])
    have "R s s4"
      by (rule R_fold [OF r(3) s3]) (auto elim!: bind_SomeE intro: R_statements(1))
    then show ?thesis by (rule R_scopes(2) [OF r(4)])
  qed
qed

lemma R_validate_params: "validate_generic_params ps ns s1 = Some s' \<Longrightarrow> R s s1 \<Longrightarrow> R s s'"
proof (induction ps arbitrary: s1)
  case (Cons p ps)
  show ?case
  proof (cases "ident_name p \<in> set ns")
    case True
    then show ?thesis using Cons by simp
  next
    case False
    with Cons.prems(1) obtain x :: "type_info option" where "validate_generic_params ps ns (if x = None
        then push_error_dedup (UnknownType (ident_name p) (ident_location p)) s1 else s1) = Some s'"
      by (auto elim!: bind_SomeE)
    then show ?thesis by (rule Cons.IH) (simp add: R_dedup_step Cons.prems(2))
  qed
qed simp

lemma R_validate: "validate_type t tps s1 = Some s' \<Longrightarrow> R s s1 \<Longrightarrow> R s s'"
proof (induction t tps s1 rule: validate_type.induct)
  case (3 g tps s1)
  from 3(1) obtain x :: "type_info option" where "validate_generic_params (gt_parameters g) (type_parameter_names tps)
      (if x = None then push_error_dedup (UnknownType (ident_name (gt_base g)) (ident_location (gt_base g))) s1
       else s1) = Some s'"
    by (auto simp: Let_def elim!: bind_SomeE)
  then show ?case by (rule R_validate_params) (simp add: R_dedup_step 3(2))
next
  case (7 x tps s1)
  then show ?case by (auto elim!: bind_SomeE intro!: R_dedup_step split: if_splits)
qed auto

lemma R_registrations:
  "register_struct_method n m s1 = Some s' \<Longrightarrow> R s s1 \<Longrightarrow> R s s'"
  "register_type_definition td s1 = Some s' \<Longrightarrow> R s s1 \<Longrightarrow> R s s'"
  "register_struct_definition sd s1 = Some s' \<Longrightarrow> R s s1 \<Longrightarrow> R s s'"
  "register_enum_definition ed s1 = Some s' \<Longrightarrow> R s s1 \<Longrightarrow> R s s'"
  "register_spec_definition sn l s1 = Some s' \<Longrightarrow> R s s1 \<Longrightarrow> R s s'"
  "collect_external_function ef s1 = Some s' \<Longrightarrow> R s s1 \<Longrightarrow> R s s'"
  by (auto simp: register_struct_method_def register_type_definition_def register_struct_definition_def
      register_enum_definition_def register_spec_definition_def collect_external_function_def
      register_struct_def register_enum_def register_spec_def register_function_def
      elim!: bind_SomeE R_registration intro: table_step.intros)

lemma R_register_types_of:
  assumes "register_types_of d s1 = Some s'" "R s s1"
  shows "R s s'"
proof (cases d)
  case (Def_Struct sd)
  with assms(1) obtain s2 where r: "register_struct_definition sd s1 = Some s2"
    "fold_opt (register_struct_method (ident_name (sd_name sd))) (sd_methods sd) s2 = Some s'"
    by (auto elim!: bind_SomeE)
  show ?thesis by (rule R_fold [OF r(2) R_registrations(3) [OF r(1) assms(2)] R_registrations(1)])
qed (use assms in \<open>auto intro: R_registrations\<close>)

lemma R_collect_parameter: "collect_parameter f a s1 = Some s' \<Longrightarrow> R s s1 \<Longrightarrow> R s s'"
  by (cases a) (auto elim!: bind_SomeE intro!: R_error_step R_note_step intro: R_validate)

lemma R_collect_function:
  assumes "collect_function f s1 = Some s'" "R s s1"
  shows "R s s'"
proof -
  from assms(1) obtain s2 s3 where r:
    "fold_opt (collect_parameter f) (argument_list (fd_arguments f)) s1 = Some s2"
    "collect_return_type f (set_node_typeinfo (ident_id (fd_name f)) (function_node_type f) s2) = Some s3"
    "report_registration
       (register_function (ident_name (fd_name f)) (type_parameter_names (fd_type_parameters f))
          (argument_types (fd_arguments f)) (return_type_or_unit (fd_returns f)))
       (\<lambda>err. RegistrationFailed Reg_Function (ident_name (fd_name f)) (Some err) (fd_location f)) s3 = Some s'"
    by (auto simp: collect_function_def elim!: bind_SomeE)
  have "R s s2" by (rule R_fold [OF r(1) assms(2) R_collect_parameter])
  then have "R s s3" using r(2)
    by (auto simp: collect_return_type_def elim!: bind_SomeE intro!: R_note_step
        intro: R_validate split: option.splits)
  then show ?thesis using r(3)
    by (auto simp: register_function_def elim!: R_registration intro: table_step.intros)
qed

lemma R_collect_of: "collect_of d s1 = Some s' \<Longrightarrow> R s s1 \<Longrightarrow> R s s'"
  by (cases d) (auto simp: collect_constant_def elim!: bind_SomeE intro!: R_note_step
      intro: R_collect_function R_registrations R_declare)

lemma R_check_definition:
  assumes "check_definition d s1 = Some s'" "R s s1"
  shows "R s s'"
proof (cases d)
  case (Def_Struct sd)
  with assms(1) have "fold_opt (\<lambda>m. infer_method_variables m (TypeInfo (Kind_Struct (ident_name (sd_name sd))) []))
       (sd_methods sd) s1 = Some s'" by simp
  then show ?thesis by (rule R_fold [OF _ assms(2) R_bodies(2)])
qed (use assms in \<open>auto intro: R_bodies\<close>)

lemma R_process_directive: "process_directive d s1 = Some s' \<Longrightarrow> R s s1 \<Longrightarrow> R s s'"
  by (cases d) (auto simp: process_use_statement_def elim!: R_registration intro: table_step.intros)

lemma R_bind_import: "R s s1 \<Longrightarrow> R s (bind_import i r s1)"
  by (auto simp: bind_import_def intro!: R_table_step table_step.step_bind split: option.split)

lemma R_import_path: "resolve_import_path p sp fp n l i s1 = Some s' \<Longrightarrow> R s s1 \<Longrightarrow> R s s'"
  by (auto simp: resolve_import_path_def elim!: bind_SomeE intro!: R_bind_import R_error_step
      intro: R_visibility split: option.splits if_splits)

lemma R_import: 
  assumes "resolve_import so i im s1 = Some s'" "R s s1"
  shows "R s s'"
proof (cases "imp_kind im")
  case (Import_Partial items)
  with assms(1) have "fold_opt (resolve_import_item (imp_path im) (imp_location im) i) items s1 = Some s'"
    by (simp add: resolve_import_def)
  then show ?thesis
    by (rule R_fold [OF _ assms(2)]) (auto simp: resolve_import_item_def Let_def intro: R_import_path)
qed (use assms in \<open>auto simp: resolve_import_def intro: R_import_path R_glob_step split: if_splits\<close>)

lemma R_imports_in_scope:
  assumes "resolve_imports_in_scope so i s1 = Some s'" "R s s1"
  shows "R s s'"
proof (cases "get_scope (tc_symbol_table s1) i")
  case (Some sc)
  with assms(1) have "fold_opt (resolve_import so i) (sc_imports sc) s1 = Some s'"
    by (simp add: resolve_imports_in_scope_def)
  then show ?thesis by (rule R_fold [OF _ assms(2) R_import])
qed (use assms in \<open>simp add: resolve_imports_in_scope_def\<close>)

lemma R_files:
  assumes "fold_opt (\<lambda>f. fold_opt g (h f)) fs s1 = Some s'" "R s s1"
    and "\<And>d t t'. g d t = Some t' \<Longrightarrow> R s t \<Longrightarrow> R s t'"
  shows "R s s'"
  by (rule R_fold [OF assms(1,2)], erule R_fold, assumption) (rule assms(3))

lemma R_phase_steps:
  assumes "process_directives ord s = Some s1" "register_types ord s1 = Some s2"
    "resolve_imports scope_ord so s2 = Some s3"
    "collect_function_and_constant_definitions ord s3 = Some s4" "check_bodies ord s4 = Some s5"
  shows "R s s1" "R s1 s2" "R s2 s3" "R s3 s4" "R s4 s5"
proof -
  show "R s s1" by (rule R_files [OF assms(1) [unfolded process_directives_def] R_refl R_process_directive])
  show "R s1 s2" by (rule R_files [OF assms(2) [unfolded register_types_def] R_refl R_register_types_of])
  show "R s2 s3" by (rule R_fold [OF assms(3) [unfolded resolve_imports_def] R_refl R_imports_in_scope])
  show "R s3 s4"
    by (rule R_files [OF assms(4) [unfolded collect_function_and_constant_definitions_def] R_refl R_collect_of])
  show "R s4 s5" by (rule R_files [OF assms(5) [unfolded check_bodies_def] R_refl R_check_definition])
qed

lemma R_phases:
  assumes "infer_phases ord scope_ord so s = Some s'"
  shows "R s s'"
proof -
  from assms obtain s1 s2 s3 s4 where r: "process_directives ord s = Some s1"
    "register_types ord s1 = Some s2" "resolve_imports scope_ord so s2 = Some s3"
    "collect_function_and_constant_definitions ord s3 = Some s4" "check_bodies ord s4 = Some s'"
    by (auto simp: infer_phases_def elim!: bind_SomeE)
  show ?thesis using R_phase_steps [OF r] R_trans by blast
qed

lemma R_module:
  "process_module_definition d s1 = Some s' \<Longrightarrow> R s s1 \<Longrightarrow> R s s'"
  "process_module_items ds s1 = Some s' \<Longrightarrow> R s s1 \<Longrightarrow> R s s'"
proof (induction d s1 and ds s1 arbitrary: s' and s'
    rule: process_module_definition_process_module_items.induct)
  case (1 i l vis n body s1)
  from 1(2) obtain st j s2 where r: "push_scope_with_name (ident_name n) vis (tc_symbol_table s1) = Some (j, st)"
    "(case body of None \<Rightarrow> Some (set_symbol_table (register_mod_scope j st) s1)
      | Some ds \<Rightarrow> process_module_items ds (set_symbol_table (register_mod_scope j st) s1)) = Some s2"
    "leave_scope s2 = Some s'"
    by (auto simp: begin_module_def enter_module_def elim!: bind_SomeE)
  have "R s (set_symbol_table (register_mod_scope j st) (set_symbol_table st s1))"
    using r(1) 1(3) by (intro R_table_step) (auto simp: set_symbol_table_def intro: table_step.intros)
  then have "R s (set_symbol_table (register_mod_scope j st) s1)" by (simp add: set_symbol_table_def)
  then have "R s s2" using r(2) 1(1) by (auto split: option.splits)
  then show ?case by (rule R_scopes(2) [OF r(3)])
next
  case (7 c s1)
  then show ?case by (auto simp: module_constant_def elim!: bind_SomeE intro: R_declare)
next
  case (10 d ds s1)
  then show ?case by (auto elim!: bind_SomeE)
qed (auto intro: R_registrations R_bodies)

end

section \<open>The interpretations\<close>

text \<open>A glob import binds names and may push one error; it leaves its set as it found it.\<close>

lemma bind_import_frame [simp]:
  "tc_errors (bind_import i r s) = tc_errors s" "tc_ctx (bind_import i r s) = tc_ctx s"
  "tc_reported (bind_import i r s) = tc_reported s"
  "tc_glob_in_progress (bind_import i r s) = tc_glob_in_progress s"
  by (simp_all add: bind_import_def set_symbol_table_def split: option.split)

lemma fold_bind_import_frame [simp]:
  "tc_errors (fold (\<lambda>(n, sy). bind_import i (f n sy)) xs s) = tc_errors s"
  "tc_ctx (fold (\<lambda>(n, sy). bind_import i (f n sy)) xs s) = tc_ctx s"
  "tc_reported (fold (\<lambda>(n, sy). bind_import i (f n sy)) xs s) = tc_reported s"
  "tc_glob_in_progress (fold (\<lambda>(n, sy). bind_import i (f n sy)) xs s) = tc_glob_in_progress s"
  by (induction xs arbitrary: s) (auto split: prod.split)

lemma resolve_glob_import_frame:
  "tc_ctx (resolve_glob_import so p l i s) = tc_ctx s"
  "tc_reported (resolve_glob_import so p l i s) = tc_reported s"
  "tc_glob_in_progress (resolve_glob_import so p l i s) = tc_glob_in_progress s"
  "tc_errors (resolve_glob_import so p l i s) = tc_errors s
   \<or> (\<exists>e. tc_errors (resolve_glob_import so p l i s) = tc_errors s @ [e] \<and> dedup_key e = None
        \<and> (tc_glob_in_progress s = {} \<longrightarrow> \<not> is_circular_import e))"
  by (auto simp: resolve_glob_import_def Let_def push_error_def split: option.split)

lemma fold_bind_import_table:
  assumes "wf_symtab (tc_symbol_table s)"
  shows "wf_symtab (tc_symbol_table (fold (\<lambda>(n, sy). bind_import i (f n sy)) xs s))
    \<and> table_le (tc_symbol_table s) (tc_symbol_table (fold (\<lambda>(n, sy). bind_import i (f n sy)) xs s))"
  using assms
proof (induction xs arbitrary: s)
  case (Cons x xs)
  obtain n sy where x: "x = (n, sy)" by (cases x)
  let ?s = "bind_import i (f n sy) s"
  have "wf_symtab (tc_symbol_table ?s) \<and> table_le (tc_symbol_table s) (tc_symbol_table ?s)"
    using Cons.prems by (auto simp: bind_import_def set_symbol_table_def split: option.split
        intro: modify_scope_wf modify_scope_le scope_le_ops)
  then show ?case using Cons.IH [of ?s] x table_le_trans by auto
qed simp

text \<open>The table stays well-formed and keeps what was declared.\<close>

definition extends_table :: "checker \<Rightarrow> checker \<Rightarrow> bool" where
  "extends_table s s' \<longleftrightarrow>
     (wf_symtab (tc_symbol_table s) \<longrightarrow>
        wf_symtab (tc_symbol_table s') \<and> table_le (tc_symbol_table s) (tc_symbol_table s'))"

lemma resolve_glob_import_table: "extends_table s (resolve_glob_import so p l i s)"
proof -
  have "wf_symtab (tc_symbol_table (fold (\<lambda>(n, sy). bind_import i (f n sy)) xs (s\<lparr>tc_glob_in_progress := G\<rparr>)))"
    "table_le (tc_symbol_table s)
       (tc_symbol_table (fold (\<lambda>(n, sy). bind_import i (f n sy)) xs (s\<lparr>tc_glob_in_progress := G\<rparr>)))"
    if "table_ok s" for f xs G
    using fold_bind_import_table [of "s\<lparr>tc_glob_in_progress := G\<rparr>" i f xs] that by simp_all
  then show ?thesis
    by (auto simp: extends_table_def resolve_glob_import_def Let_def push_error_def split: option.split)
qed

interpretation growth: program_relation grows
proof unfold_locales
  show "grows s (set_symbol_table st s)" for s st
    by (simp add: grows_def set_symbol_table_def)
  show "grows s (resolve_glob_import so p l i s)" for s so p l i
    using resolve_glob_import_frame [of so p l i s] by (auto simp: grows_def)
qed

interpretation dedup: program_relation keeps_dedup
proof unfold_locales
  show "keeps_dedup s (set_symbol_table st s)" for s st
    by (simp add: keeps_dedup_def dedup_ok_def set_symbol_table_def)
  show "keeps_dedup s (resolve_glob_import so p l i s)" for s so p l i
    using resolve_glob_import_frame(2,4) [of so p l i s]
    by (auto simp: keeps_dedup_def dedup_ok_def)
qed

interpretation circular: program_relation keeps_no_circular
proof unfold_locales
  show "keeps_no_circular s (set_symbol_table st s)" for s st
    by (simp add: keeps_no_circular_def no_circular_def set_symbol_table_def)
  show "keeps_no_circular s (resolve_glob_import so p l i s)" for s so p l i
    using resolve_glob_import_frame(3,4) [of so p l i s]
    by (auto simp: keeps_no_circular_def no_circular_def)
qed

interpretation extension: program_relation extends_table
proof unfold_locales
  show "extends_table s s" for s by (simp add: extends_table_def)
  show "extends_table s s1 \<Longrightarrow> extends_table s1 s2 \<Longrightarrow> extends_table s s2" for s s1 s2
    by (auto simp: extends_table_def intro: table_le_trans)
  show "extends_table s (push_error e s)" for e s by (simp add: extends_table_def)
  show "extends_table s (push_error_dedup e s)" for e s by (simp add: extends_table_def)
  show "extends_table s (set_node_typeinfo i t s)" for i t s by (simp add: extends_table_def)
  show "table_step (tc_symbol_table s) st \<Longrightarrow> extends_table s (set_symbol_table st s)" for s st
    by (auto simp: extends_table_def set_symbol_table_def intro: table_step_wf table_step_le)
  show "extends_table s (resolve_glob_import so p l i s)" for s so p l i
    by (rule resolve_glob_import_table)
qed

end
