(* ===== verification/StmtTotal.thy ===== *)
theory StmtTotal
  imports StmtFacts
begin

text \<open>
  Statements and bodies return, and they respect the block structure: a statement changes only
  the innermost block, and a block leaves no trace in the scopes around it.
\<close>

section \<open>Statements that cannot panic\<close>

definition type_ok :: "ty \<Rightarrow> bool" where
  "type_ok t \<longleftrightarrow> type_info_new t \<noteq> None"

lemma statement_size: "x \<in> set (block_statements b) \<Longrightarrow> size x < size b"
  using size_list_estimation' [of x "block_statements b" "size x" size] block_statements_size [of b]
  by simp

function (sequential) stmt_ok :: "statement \<Rightarrow> bool" and block_ok :: "block_type \<Rightarrow> bool" where
  "stmt_ok (Stmt_Block b) = block_ok b"
| "stmt_ok (Stmt_Expression e) = expr_ok e"
| "stmt_ok (Stmt_Assign _ _ a b) = (expr_ok a \<and> expr_ok b)"
| "stmt_ok (Stmt_Return _ _ e) = expr_ok e"
| "stmt_ok (Stmt_Loop _ _ c b) = (pred_option expr_ok c \<and> block_ok b)"
| "stmt_ok (Stmt_Break _ _) = True"
| "stmt_ok (Stmt_If _ _ c b e) =
     (expr_ok c \<and> block_ok b \<and> (case e of None \<Rightarrow> True | Some b' \<Rightarrow> block_ok b'))"
| "stmt_ok (Stmt_VariableDefinition _ _ _ t v _) = (type_ok t \<and> pred_option expr_ok v)"
| "stmt_ok (Stmt_TypeDefinition _ _ _ t) = type_ok t"
| "stmt_ok (Stmt_Assert _ _ e) = expr_ok e"
| "stmt_ok (Stmt_ConstantDefinition c) = type_ok (cd_ty c)"
| "block_ok b = list_all stmt_ok (block_statements b)"
  by pat_completeness auto

termination
  by (relation "measure (\<lambda>x. case x of Inl s \<Rightarrow> size s | Inr b \<Rightarrow> size b)")
    (auto simp: statement_size)

declare block_ok.simps [simp del]

section \<open>Scopes, registrations and checks return\<close>

lemma scopes_return:
  assumes "table_ok s"
  shows "\<exists>s'. enter_scope s = Some s' \<and> table_ok s'" "\<exists>s'. leave_scope s = Some s' \<and> table_ok s'"
proof -
  from push_scope_returns [OF assms] obtain n path
    where "push_scope (tc_symbol_table s) = Some (st_next_scope_id (tc_symbol_table s),
      pushed (tc_symbol_table s) n path Private)" .
  then show "\<exists>s'. enter_scope s = Some s' \<and> table_ok s'"
    using pushed_wf [OF assms] by (simp add: enter_scope_def set_symbol_table_def)
  from pop_scope_returns [OF assms] obtain st where "pop_scope (tc_symbol_table s) = Some st" by blast
  then show "\<exists>s'. leave_scope s = Some s' \<and> table_ok s'"
    using pop_scope_wf [OF assms] by (simp add: leave_scope_def set_symbol_table_def)
qed

lemma registration_returns:
  assumes "\<exists>r. op (tc_symbol_table s) = Some r"
    and "\<And>st'. op (tc_symbol_table s) = Some (Inr st') \<Longrightarrow> wf_symtab st'" "table_ok s"
  shows "\<exists>s'. report_registration op err s = Some s' \<and> table_ok s'"
proof -
  from assms(1) obtain r where r: "op (tc_symbol_table s) = Some r" by blast
  with assms(2,3) show ?thesis
    by (cases r) (simp_all add: report_registration_def set_symbol_table_def)
qed

lemma registers_return:
  assumes "wf_symtab st"
  shows "\<exists>r. push_variable_to_scope n t st = Some r" "\<exists>r. register_symbol what n mk st = Some r"
    "type_info_new ty \<noteq> None \<Longrightarrow> \<exists>r. register_type n (Some ty) st = Some r"
    "\<exists>r. register_method n sig vis hs st = Some r" "\<exists>r. register_import im st = Some r"
    "(\<And>p. p \<in> set ps \<Longrightarrow> new_with_type_params p tps \<noteq> None) \<Longrightarrow> new_with_type_params ret tps \<noteq> None
     \<Longrightarrow> \<exists>r. register_function_with_visibility n tps ps ret vis st = Some r"
proof -
  have ex: "\<exists>sc. st_scopes st c = Some sc" if "st_current_scope st = Some c" for c
    using wf_symtabD(2) [OF assms that] .
  show "\<exists>r. push_variable_to_scope n t st = Some r" "\<exists>r. register_symbol what n mk st = Some r"
    "type_info_new ty \<noteq> None \<Longrightarrow> \<exists>r. register_type n (Some ty) st = Some r"
    "\<exists>r. register_method n sig vis hs st = Some r" "\<exists>r. register_import im st = Some r"
    using ex by (cases "st_current_scope st"; force simp: push_variable_to_scope_def register_symbol_def
        register_type_def register_method_def register_import_def try_modify_scope_def modify_scope_def)+
  assume ps: "\<And>p. p \<in> set ps \<Longrightarrow> new_with_type_params p tps \<noteq> None"
    and "new_with_type_params ret tps \<noteq> None"
  then obtain pts rt where "map_opt (\<lambda>t. new_with_type_params t tps) ps = Some pts"
    "new_with_type_params ret tps = Some rt"
    using map_opt_None_iff [of "\<lambda>t. new_with_type_params t tps" ps] by blast
  then show "\<exists>r. register_function_with_visibility n tps ps ret vis st = Some r"
    using ex by (cases "st_current_scope st")
      (force simp: register_function_with_visibility_def try_modify_scope_def)+
qed

lemma declare_returns:
  "table_ok s \<Longrightarrow> \<exists>s'. declare_variable n t l s = Some s' \<and> table_ok s'"
  "table_ok s \<Longrightarrow> type_ok ty \<Longrightarrow> \<exists>s'. declare_type n ty l s = Some s' \<and> table_ok s'"
  unfolding declare_variable_def declare_type_def type_ok_def
  by (blast intro: registration_returns registers_return push_variable_wf register_type_wf)+

lemma check_tables [simp]:
  "tc_symbol_table (assign_uzumaki i l t s) = tc_symbol_table s"
  "tc_symbol_table (check_assignment l t v s) = tc_symbol_table s"
  "tc_symbol_table (check_return l rt v s) = tc_symbol_table s"
  "tc_symbol_table (check_condition l v s) = tc_symbol_table s"
  "tc_symbol_table (check_initial_value l rt v s) = tc_symbol_table s"
  by (simp_all add: assign_uzumaki_def check_assignment_def check_return_def check_condition_def
      check_initial_value_def split: option.split)

lemma infer_returns:
  "expr_ok e \<Longrightarrow> table_ok s \<Longrightarrow> \<exists>t s'. infer_expression e s = Some (t, s') \<and> table_ok s'"
  using expr_ok_returns by (blast dest: returnsD)

lemma optional_returns:
  "pred_option expr_ok c \<Longrightarrow> table_ok s \<Longrightarrow> \<exists>s'. infer_optional c l s = Some s' \<and> table_ok s'"
  using infer_returns by (cases c) (fastforce simp: infer_optional_def)+

lemma initial_value_returns:
  "pred_option expr_ok v \<Longrightarrow> table_ok s \<Longrightarrow> \<exists>s'. infer_initial_value v t l s = Some s' \<and> table_ok s'"
proof (cases v)
  case (Some e)
  assume "pred_option expr_ok v" "table_ok s"
  with Some infer_returns [of e s] show ?thesis
    by (auto simp: infer_initial_value_def split: option.split)
qed (simp add: infer_initial_value_def)

lemma statements_return:
  "stmt_ok st \<Longrightarrow> table_ok s \<Longrightarrow> \<exists>s'. infer_statement st rt s = Some s' \<and> table_ok s'"
  "block_ok b \<Longrightarrow> table_ok s \<Longrightarrow> \<exists>s'. infer_block b rt s = Some s' \<and> table_ok s'"
  "list_all stmt_ok ss \<Longrightarrow> table_ok s \<Longrightarrow> \<exists>s'. infer_statements ss rt s = Some s' \<and> table_ok s'"
proof (induction st rt s and b rt s and ss rt s
    rule: infer_statement_infer_block_infer_statements.induct)
  case (1 i l left right rt s)
  then obtain t1 s1 where s1: "infer_expression left s = Some (t1, s1)" "table_ok s1"
    using infer_returns by (metis stmt_ok.simps(3))
  then obtain t2 s2 where "infer_expression right s1 = Some (t2, s2)" "table_ok s2"
    using infer_returns 1(1) by (metis stmt_ok.simps(3))
  with s1 show ?case by (simp split: option.split)
next
  case (3 e rt s)
  then show ?case using infer_returns by force
next
  case (4 i l e rt s)
  then obtain t1 s1 where "infer_expression e s = Some (t1, s1)" "table_ok s1"
    using infer_returns by (metis stmt_ok.simps(4))
  with 4(2) show ?case by (simp split: option.split)
next
  case (5 i l condition body rt s)
  then obtain s1 where "infer_optional condition l s = Some s1" "table_ok s1"
    using optional_returns by (metis stmt_ok.simps(5))
  with 5 show ?case by simp
next
  case (7 i l condition if_arm else_arm rt s)
  then obtain t1 s1 where s1: "infer_expression condition s = Some (t1, s1)" "table_ok s1"
    using infer_returns by (metis stmt_ok.simps(7))
  then have "table_ok (check_condition l t1 s1)" by simp
  with 7(1,3) obtain s2
    where s2: "infer_block if_arm rt (check_condition l t1 s1) = Some s2" "table_ok s2"
    by (metis stmt_ok.simps(7))
  show ?case
  proof (cases else_arm)
    case (Some b)
    with 7 s2 obtain s3 where "infer_block b rt s2 = Some s3" "table_ok s3" by force
    with s1 s2 Some show ?thesis by simp
  qed (use s1 s2 in simp)
next
  case (8 i l name t v u rt s)
  then obtain ti where ti: "type_info_new t = Some ti" by (auto simp: type_ok_def)
  from 8 obtain s1 where s1: "infer_initial_value v ti l s = Some s1" "table_ok s1"
    using initial_value_returns by (metis stmt_ok.simps(8))
  then obtain s2 where "declare_variable (ident_name name) ti l s1 = Some s2" "table_ok s2"
    using declare_returns(1) by blast
  with ti s1 show ?case by simp
next
  case (9 i l name t rt s)
  then show ?case using declare_returns(2) by simp
next
  case (10 i l e rt s)
  then obtain t1 s1 where "infer_expression e s = Some (t1, s1)" "table_ok s1"
    using infer_returns by (metis stmt_ok.simps(10))
  then show ?case by simp
next
  case (11 c rt s)
  then obtain ti where ti: "type_info_new (cd_ty c) = Some ti" by (auto simp: type_ok_def)
  from 11 obtain s1 where "declare_variable (ident_name (cd_name c)) ti (cd_location c) s = Some s1"
    "table_ok s1" using declare_returns(1) by blast
  with ti show ?case by simp
next
  case (12 b rt s)
  obtain s1 where s1: "enter_scope s = Some s1" "table_ok s1" using scopes_return(1) 12(3) by blast
  with 12(1) [of s1] 12(2) obtain s2 where s2: "infer_statements (block_statements b) rt s1 = Some s2"
    "table_ok s2" by (auto simp: block_ok.simps)
  then obtain s3 where "leave_scope s2 = Some s3" "table_ok s3" using scopes_return(2) by blast
  with s1 s2 show ?case by (simp add: infer_block.simps)
next
  case (14 st ss rt s)
  then obtain s1 where "infer_statement st rt s = Some s1" "table_ok s1" by auto
  with 14 show ?case by simp
qed simp_all

section \<open>Definitions that cannot panic\<close>

text \<open>Whether the conversion of a type panics does not depend on the type parameters.\<close>

lemma new_with_type_params_None_iff:
  "new_with_type_params t tps = None \<longleftrightarrow> new_with_type_params t [] = None"
proof (induction t tps rule: new_with_type_params.induct)
  case (6 i l params returns tps)
  have p: "(case params of Some ps \<Rightarrow> map_opt (\<lambda>p. new_with_type_params p tps) ps | None \<Rightarrow> Some []) = None
      \<longleftrightarrow> (case params of Some ps \<Rightarrow> map_opt (\<lambda>p. new_with_type_params p []) ps | None \<Rightarrow> Some []) = None"
    using 6(1) by (auto simp: map_opt_None_iff split: option.split)
  have r: "(case returns of Some r \<Rightarrow> new_with_type_params r tps | None \<Rightarrow> Some default_type_info) = None
      \<longleftrightarrow> (case returns of Some r \<Rightarrow> new_with_type_params r [] | None \<Rightarrow> Some default_type_info) = None"
    using 6(2) by (auto split: option.split)
  show ?case using p r by (simp split: Option.bind_split) (metis not_None_eq)
qed (auto split: Option.bind_split)

lemma type_ok_params: "type_ok t \<Longrightarrow> new_with_type_params t tps \<noteq> None"
  by (metis new_with_type_params_None_iff type_info_new_def type_ok_def)

fun argument_ok :: "argument_type \<Rightarrow> bool" where
  "argument_ok (Arg_SelfReference _) = True"
| "argument_ok (Arg_IgnoreArgument a) = type_ok (ig_ty a)"
| "argument_ok (Arg_Argument a) = type_ok (arg_ty a)"
| "argument_ok (Arg_Type t) = type_ok t"

definition signature_ok :: "argument_type list option \<Rightarrow> ty option \<Rightarrow> bool" where
  "signature_ok args ret \<longleftrightarrow> list_all argument_ok (argument_list args) \<and> pred_option type_ok ret"

definition function_ok :: "function_definition \<Rightarrow> bool" where
  "function_ok f \<longleftrightarrow> signature_ok (fd_arguments f) (fd_returns f) \<and> block_ok (fd_body f)"

fun definition_ok :: "ast_definition \<Rightarrow> bool" where
  "definition_ok (Def_Type t) = type_ok (td_ty t)"
| "definition_ok (Def_Struct d) =
     (list_all (\<lambda>f. type_ok (sf_type f)) (sd_fields d) \<and> list_all function_ok (sd_methods d))"
| "definition_ok (Def_Constant c) = type_ok (cd_ty c)"
| "definition_ok (Def_Function f) = function_ok f"
| "definition_ok (Def_ExternalFunction f) = signature_ok (ef_arguments f) (ef_returns f)"
| "definition_ok _ = True"

lemma argument_types_ok:
  "signature_ok args ret \<Longrightarrow> p \<in> set (argument_types args) \<Longrightarrow> type_ok p"
  by (auto simp: signature_ok_def argument_types_def argument_list_def list_all_iff
      List.map_filter_def split: option.splits argument_type.splits)

lemma return_type_ok: "signature_ok args ret \<Longrightarrow> type_ok (return_type_or_unit ret)"
  by (auto simp: signature_ok_def return_type_or_unit_def type_ok_def type_info_new_def split: option.split)

lemma return_type_info_ok: "signature_ok args ret \<Longrightarrow> \<exists>t. return_type_info tps ret = Some t"
  using type_ok_params by (fastforce simp: signature_ok_def return_type_info_def split: option.split)

section \<open>The phases return\<close>

lemma fold_table_ok:
  assumes "\<And>x s. x \<in> set xs \<Longrightarrow> table_ok s \<Longrightarrow> \<exists>s'. f x s = Some s' \<and> table_ok s'" "table_ok s"
  shows "\<exists>s'. fold_opt f xs s = Some s' \<and> table_ok s'"
  by (rule fold_opt_returns [where P = table_ok, OF assms(2) assms(1)])

lemma parameter_returns:
  assumes "argument_ok a" "table_ok s"
  shows "\<exists>s'. declare_parameter tps a s = Some s' \<and> table_ok s'"
    "\<exists>s'. declare_method_parameter self_type a s = Some s' \<and> table_ok s'"
proof -
  have decl: "\<exists>s'. declare_variable n t l s = Some s' \<and> table_ok s'" for n t l
    using declare_returns(1) [OF assms(2)] .
  have t: "\<exists>t. new_with_type_params (arg_ty x) tps' = Some t" if "a = Arg_Argument x" for x tps'
    using type_ok_params [of "arg_ty x" tps'] assms(1) that by auto
  show "\<exists>s'. declare_parameter tps a s = Some s' \<and> table_ok s'"
  proof (cases a)
    case (Arg_Argument x)
    from t [OF this, of tps] obtain ti where "new_with_type_params (arg_ty x) tps = Some ti" by blast
    with Arg_Argument decl show ?thesis by simp
  qed (simp_all add: assms(2))
  show "\<exists>s'. declare_method_parameter self_type a s = Some s' \<and> table_ok s'"
  proof (cases a)
    case (Arg_Argument x)
    from t [OF this, of "[]"] obtain ti where "type_info_new (arg_ty x) = Some ti"
      by (auto simp: type_info_new_def)
    with Arg_Argument decl show ?thesis by simp
  qed (simp_all add: assms(2) decl)
qed

lemma bodies_return:
  assumes f: "function_ok f" and s: "table_ok s"
  shows "\<exists>s'. infer_variables f s = Some s' \<and> table_ok s'"
    "\<exists>s'. infer_method_variables f self_type s = Some s' \<and> table_ok s'"
proof -
  have args: "\<And>a. a \<in> set (argument_list (fd_arguments f)) \<Longrightarrow> argument_ok a"
    using f by (auto simp: function_ok_def signature_ok_def list_all_iff)
  have body: "list_all stmt_ok (block_statements (fd_body f))"
    using f by (simp add: function_ok_def block_ok.simps)
  have ret: "\<exists>t. return_type_info tps (fd_returns f) = Some t" for tps
    using f return_type_info_ok unfolding function_ok_def by blast
  obtain s1 where s1: "enter_scope s = Some s1" "table_ok s1" using scopes_return(1) [OF s] by blast
  show "\<exists>s'. infer_variables f s = Some s' \<and> table_ok s'"
  proof -
    let ?tps = "type_parameter_names (fd_type_parameters f)"
    obtain s2 where s2: "fold_opt (declare_parameter ?tps) (argument_list (fd_arguments f)) s1 = Some s2"
      "table_ok s2" using fold_table_ok [where f = "declare_parameter ?tps", OF parameter_returns(1) [OF args] s1(2)]
      by blast
    obtain rt where rt: "return_type_info ?tps (fd_returns f) = Some rt" using ret by blast
    obtain s3 where s3: "infer_statements (block_statements (fd_body f)) rt s2 = Some s3" "table_ok s3"
      using statements_return(3) [OF body s2(2)] by blast
    obtain s4 where "leave_scope s3 = Some s4" "table_ok s4" using scopes_return(2) [OF s3(2)] by blast
    with s1 s2 rt s3 show ?thesis by (simp add: infer_variables_def Let_def)
  qed
  show "\<exists>s'. infer_method_variables f self_type s = Some s' \<and> table_ok s'"
  proof -
    obtain s2 where s2: "fold_opt (declare_method_parameter self_type) (argument_list (fd_arguments f)) s1 = Some s2"
      "table_ok s2" using fold_table_ok [where f = "declare_method_parameter self_type",
          OF parameter_returns(2) [OF args] s1(2)] by blast
    obtain rt where rt: "return_type_info [] (fd_returns f) = Some rt" using ret by blast
    obtain s3 where s3: "fold_opt (\<lambda>st s. do { rt \<leftarrow> return_type_info [] (fd_returns f); infer_statement st rt s })
        (block_statements (fd_body f)) s2 = Some s3" "table_ok s3"
      using fold_table_ok [where f = "\<lambda>st s. infer_statement st rt s", OF statements_return(1) s2(2)] body
      by (auto simp: rt list_all_iff)
    obtain s4 where "leave_scope s3 = Some s4" "table_ok s4" using scopes_return(2) [OF s3(2)] by blast
    with s1 s2 s3 show ?thesis by (simp add: infer_method_variables_def)
  qed
qed

lemma validate_params_returns:
  "table_ok s \<Longrightarrow> \<exists>s'. validate_generic_params ps ns s = Some s' \<and> table_ok s'"
proof (induction ps arbitrary: s)
  case (Cons p ps)
  obtain r where "lookup_type (ident_name p) (tc_symbol_table s) = Some r"
    using lookups_return(2) [OF Cons.prems] by blast
  with Cons show ?case by simp
qed simp

lemma validate_returns: "table_ok s \<Longrightarrow> \<exists>s'. validate_type t tps s = Some s' \<and> table_ok s'"
proof (induction t tps s rule: validate_type.induct)
  case (3 g tps s)
  obtain r where "lookup_type (ident_name (gt_base g)) (tc_symbol_table s) = Some r"
    using lookups_return(2) [OF 3] by blast
  then show ?case using validate_params_returns 3 by (simp add: Let_def)
next
  case (7 x tps s)
  obtain r where "lookup_type (ident_name x) (tc_symbol_table s) = Some r"
    using lookups_return(2) [OF 7] by blast
  then show ?case using 7 by simp
qed auto

lemma register_returns:
  assumes s: "table_ok s"
  shows "function_ok m \<Longrightarrow> \<exists>s'. register_struct_method n m s = Some s' \<and> table_ok s'"
    "type_ok (td_ty td) \<Longrightarrow> \<exists>s'. register_type_definition td s = Some s' \<and> table_ok s'"
    "list_all (\<lambda>f. type_ok (sf_type f)) (sd_fields sd)
     \<Longrightarrow> \<exists>s'. register_struct_definition sd s = Some s' \<and> table_ok s'"
    "\<exists>s'. register_enum_definition ed s = Some s' \<and> table_ok s'"
    "\<exists>s'. register_spec_definition sn l s = Some s' \<and> table_ok s'"
    "signature_ok args ret \<Longrightarrow> \<exists>s'. report_registration
       (register_function fname tps (argument_types args) (return_type_or_unit ret)) err s = Some s' \<and> table_ok s'"
proof -
  note reg = registers_return [OF s]
  show "\<exists>s'. register_struct_method n m s = Some s' \<and> table_ok s'" if "function_ok m"
  proof -
    have m: "signature_ok (fd_arguments m) (fd_returns m)" using that by (simp add: function_ok_def)
    have "map_opt type_info_new (argument_types (fd_arguments m)) \<noteq> None"
      using argument_types_ok [OF m] by (auto simp: map_opt_None_iff type_ok_def)
    moreover obtain rt where "return_type_info [] (fd_returns m) = Some rt"
      using return_type_info_ok [OF m] by blast
    ultimately obtain sig where "method_signature m s = Some sig" by (auto simp: method_signature_def)
    moreover have "\<exists>s'. report_registration (register_method n sig (fd_visibility m) (method_has_self m))
        err s = Some s' \<and> table_ok s'" for err
      by (rule registration_returns) (rule reg(4) | erule register_method_wf [OF s] | rule s)+
    ultimately show ?thesis by (simp add: register_struct_method_def)
  qed
  show "\<exists>s'. register_type_definition td s = Some s' \<and> table_ok s'" if "type_ok (td_ty td)"
    unfolding register_type_definition_def
    by (rule registration_returns)
      (rule reg(3) | erule register_type_wf [OF s] | rule s | rule that [unfolded type_ok_def])+
  show "\<exists>s'. register_struct_definition sd s = Some s' \<and> table_ok s'"
    if "list_all (\<lambda>f. type_ok (sf_type f)) (sd_fields sd)"
  proof -
    have "struct_fields (sd_fields sd) \<noteq> None"
      using that by (auto simp: struct_fields_def map_opt_None_iff list_all_iff type_ok_def
          split: Option.bind_splits)
    then obtain flds where "struct_fields (sd_fields sd) = Some flds" by blast
    moreover have "\<exists>s'. report_registration (register_struct (ident_name (sd_name sd)) flds []
        (sd_visibility sd)) err s = Some s' \<and> table_ok s'" for err
      unfolding register_struct_def by (rule registration_returns) (rule reg(2) | erule register_symbol_wf [OF s] | rule s)+
    ultimately show ?thesis by (simp add: register_struct_definition_def)
  qed
  show "\<exists>s'. register_enum_definition ed s = Some s' \<and> table_ok s'"
    unfolding register_enum_definition_def register_enum_def
    by (rule registration_returns) (rule reg(2) | erule register_symbol_wf [OF s] | rule s)+
  show "\<exists>s'. register_spec_definition sn l s = Some s' \<and> table_ok s'"
    unfolding register_spec_definition_def register_spec_def
    by (rule registration_returns) (rule reg(2) | erule register_symbol_wf [OF s] | rule s)+
  show "\<exists>s'. report_registration
       (register_function fname tps (argument_types args) (return_type_or_unit ret)) err s = Some s' \<and> table_ok s'"
    if so: "signature_ok args ret"
    unfolding register_function_def
    by (rule registration_returns)
      (rule reg(6) type_ok_params argument_types_ok [OF so] return_type_ok [OF so]
        | erule register_function_wf [OF s] | rule s | assumption)+
qed

lemma register_types_of_returns:
  assumes "definition_ok d" "table_ok s"
  shows "\<exists>s'. register_types_of d s = Some s' \<and> table_ok s'"
proof (cases d)
  case (Def_Struct sd)
  with assms obtain s1 where s1: "register_struct_definition sd s = Some s1" "table_ok s1"
    using register_returns(3) by auto
  have "\<exists>s'. fold_opt (register_struct_method (ident_name (sd_name sd))) (sd_methods sd) s1 = Some s' \<and> table_ok s'"
    by (rule fold_table_ok [OF register_returns(1) s1(2)]) (use assms(1) Def_Struct in \<open>auto simp: list_all_iff\<close>)
  with s1 Def_Struct show ?thesis by simp
qed (use assms register_returns in auto)

lemma collect_parameter_returns:
  assumes "argument_ok a" "table_ok s"
  shows "\<exists>s'. collect_parameter f a s = Some s' \<and> table_ok s'"
proof (cases a)
  case (Arg_IgnoreArgument x)
  obtain s1 where "validate_type (ig_ty x) (fd_type_parameters f) s = Some s1" "table_ok s1"
    using validate_returns [OF assms(2)] by blast
  with assms(1) Arg_IgnoreArgument show ?thesis by (auto simp: type_ok_def)
next
  case (Arg_Argument x)
  obtain s1 where "validate_type (arg_ty x) (fd_type_parameters f) s = Some s1" "table_ok s1"
    using validate_returns [OF assms(2)] by blast
  with assms(1) Arg_Argument show ?thesis by (auto simp: type_ok_def)
qed (use validate_returns [OF assms(2)] assms(2) in simp_all)

lemma collect_of_returns:
  assumes d: "definition_ok d" and s: "table_ok s"
  shows "\<exists>s'. collect_of d s = Some s' \<and> table_ok s'"
proof (cases d)
  case (Def_Constant c)
  with d obtain t where t: "type_info_new (cd_ty c) = Some t" by (auto simp: type_ok_def)
  obtain s1 where "declare_variable (ident_name (cd_name c)) t (cd_location c) s = Some s1" "table_ok s1"
    using declare_returns(1) [OF s] by blast
  with t Def_Constant show ?thesis by (simp add: collect_constant_def)
next
  case (Def_Function f)
  with d have so: "signature_ok (fd_arguments f) (fd_returns f)" by (simp add: function_ok_def)
  then have args: "\<And>a. a \<in> set (argument_list (fd_arguments f)) \<Longrightarrow> argument_ok a"
    by (auto simp: signature_ok_def list_all_iff)
  have "\<exists>s'. fold_opt (collect_parameter f) (argument_list (fd_arguments f)) s = Some s' \<and> table_ok s'"
    by (rule fold_table_ok [OF _ s]) (rule collect_parameter_returns [OF args])
  then obtain s1 where s1: "fold_opt (collect_parameter f) (argument_list (fd_arguments f)) s = Some s1"
    "table_ok s1" by blast
  let ?s1 = "set_node_typeinfo (ident_id (fd_name f)) (function_node_type f) s1"
  have "\<exists>s2. collect_return_type f ?s1 = Some s2 \<and> table_ok s2"
  proof (cases "fd_returns f")
    case (Some r)
    obtain s2 where "validate_type r (fd_type_parameters f) ?s1 = Some s2" "table_ok s2"
      using validate_returns [of ?s1] s1(2) by auto
    moreover obtain t where "type_info_new r = Some t"
      using so Some by (auto simp: signature_ok_def type_ok_def)
    ultimately show ?thesis using Some by (simp add: collect_return_type_def)
  qed (simp add: collect_return_type_def s1(2))
  then obtain s2 where s2: "collect_return_type f ?s1 = Some s2" "table_ok s2" by blast
  from register_returns(6) [OF s2(2) so] s1(1) s2(1) Def_Function show ?thesis
    by (simp add: collect_function_def)
next
  case (Def_ExternalFunction f)
  with d register_returns(6) [OF s] show ?thesis by (simp add: collect_external_function_def)
qed (use s in simp_all)

lemma check_definition_returns:
  assumes "definition_ok d" "table_ok s"
  shows "\<exists>s'. check_definition d s = Some s' \<and> table_ok s'"
proof (cases d)
  case (Def_Struct sd)
  have "\<exists>s'. fold_opt (\<lambda>m. infer_method_variables m (TypeInfo (Kind_Struct (ident_name (sd_name sd))) []))
      (sd_methods sd) s = Some s' \<and> table_ok s'"
    by (rule fold_table_ok [OF bodies_return(2) assms(2)])
      (use assms(1) Def_Struct in \<open>auto simp: list_all_iff\<close>)
  with Def_Struct show ?thesis by simp
qed (use assms bodies_return(1) in auto)

lemma process_directive_returns: "table_ok s \<Longrightarrow> \<exists>s'. process_directive d s = Some s' \<and> table_ok s'"
  by (cases d) (auto simp: process_use_statement_def intro!: registration_returns registers_return(5)
      elim: register_import_wf [rotated])

lemma bind_import_table: "table_ok s \<Longrightarrow> table_ok (bind_import i r s)"
  by (auto simp: bind_import_def set_symbol_table_def intro: modify_scope_wf split: option.split)

lemma import_path_returns:
  assumes s: "table_ok s"
  shows "\<exists>s'. resolve_import_path p sp fp n l i s = Some s' \<and> table_ok s'"
proof (cases "resolve_qualified_name p i (tc_symbol_table s)")
  case (Some x)
  obtain sy d where x: "x = (sy, d)" by (cases x)
  obtain b s1 where "check_and_report_visibility Private d l (Vis_Import sp) s = Some (b, s1)" "table_ok s1"
    using visibility_obtain [OF s] .
  with Some x s show ?thesis by (simp add: resolve_import_path_def bind_import_table)
qed (simp add: resolve_import_path_def s)

lemma import_returns:
  assumes s: "table_ok s"
  shows "\<exists>s'. resolve_import so i im s = Some s' \<and> table_ok s'"
proof (cases "imp_kind im")
  case (Import_Partial items)
  have "\<exists>s'. fold_opt (resolve_import_item (imp_path im) (imp_location im) i) items s = Some s' \<and> table_ok s'"
    by (rule fold_table_ok [OF _ s]) (auto simp: resolve_import_item_def Let_def intro: import_path_returns)
  with Import_Partial show ?thesis by (simp add: resolve_import_def)
next
  case Import_Glob
  then show ?thesis using resolve_glob_import_table s by (simp add: resolve_import_def extends_table_def)
qed (use import_path_returns [OF s] s in \<open>simp add: resolve_import_def\<close>)

lemma imports_in_scope_returns:
  assumes s: "table_ok s"
  shows "\<exists>s'. resolve_imports_in_scope so i s = Some s' \<and> table_ok s'"
proof (cases "get_scope (tc_symbol_table s) i")
  case (Some sc)
  with fold_table_ok [where f = "resolve_import so i", OF import_returns s] show ?thesis
    by (simp add: resolve_imports_in_scope_def)
qed (simp add: resolve_imports_in_scope_def s)

text \<open>A program whose definitions cannot panic is checked to the end.\<close>

definition program_ok :: "nat list \<Rightarrow> arena \<Rightarrow> bool" where
  "program_ok ord a \<longleftrightarrow> (\<forall>f\<in>set (source_files ord a). \<forall>d\<in>set (src_definitions f). definition_ok d)"

lemma files_return:
  assumes "table_ok s"
    and "\<And>f d s. f \<in> set fs \<Longrightarrow> d \<in> set (h f) \<Longrightarrow> table_ok s \<Longrightarrow> \<exists>s'. g d s = Some s' \<and> table_ok s'"
  shows "\<exists>s'. fold_opt (\<lambda>f. fold_opt g (h f)) fs s = Some s' \<and> table_ok s'"
  by (rule fold_table_ok [OF fold_table_ok [OF assms(2)] assms(1)])

lemma same_files: "grows s s' \<Longrightarrow> cx_source_files ord (tc_ctx s') = cx_source_files ord (tc_ctx s)"
  by (simp add: grows_def cx_source_files_def)

lemma phases_return:
  assumes s: "table_ok s" and ok: "program_ok ord (cx_arena (tc_ctx s))"
  shows "\<exists>s'. infer_phases ord scope_ord so s = Some s' \<and> table_ok s'"
proof -
  let ?fs = "cx_source_files ord (tc_ctx s)"
  have defs: "definition_ok d" if "f \<in> set ?fs" "d \<in> set (src_definitions f)" for f d
    using ok that by (auto simp: program_ok_def cx_source_files_def)
  have "\<exists>s'. process_directives ord s = Some s' \<and> table_ok s'"
    unfolding process_directives_def by (rule files_return [OF s]) (rule process_directive_returns)
  then obtain s1 where s1: "process_directives ord s = Some s1" "table_ok s1" by blast
  have g1: "grows s s1"
    by (rule growth.R_files [OF s1(1) [unfolded process_directives_def] growth.R_refl growth.R_process_directive])
  have "\<exists>s'. register_types ord s1 = Some s' \<and> table_ok s'"
    unfolding register_types_def same_files [OF g1]
    by (rule files_return [OF s1(2)]) (rule register_types_of_returns [OF defs])
  then obtain s2 where s2: "register_types ord s1 = Some s2" "table_ok s2" by blast
  have g2: "grows s s2"
    by (rule growth.R_files [OF s2(1) [unfolded register_types_def] g1 growth.R_register_types_of])
  have "\<exists>s'. resolve_imports scope_ord so s2 = Some s' \<and> table_ok s'"
    unfolding resolve_imports_def by (rule fold_table_ok [OF _ s2(2)]) (rule imports_in_scope_returns)
  then obtain s3 where s3: "resolve_imports scope_ord so s2 = Some s3" "table_ok s3" by blast
  have g3: "grows s s3"
    by (rule growth.R_fold [OF s3(1) [unfolded resolve_imports_def] g2 growth.R_imports_in_scope])
  have "\<exists>s'. collect_function_and_constant_definitions ord s3 = Some s' \<and> table_ok s'"
    unfolding collect_function_and_constant_definitions_def same_files [OF g3]
    by (rule files_return [OF s3(2)]) (rule collect_of_returns [OF defs])
  then obtain s4 where s4: "collect_function_and_constant_definitions ord s3 = Some s4" "table_ok s4" by blast
  have g4: "grows s s4"
    by (rule growth.R_files [OF s4(1) [unfolded collect_function_and_constant_definitions_def] g3
          growth.R_collect_of])
  have "\<exists>s'. check_bodies ord s4 = Some s' \<and> table_ok s'"
    unfolding check_bodies_def same_files [OF g4]
    by (rule files_return [OF s4(2)]) (rule check_definition_returns [OF defs])
  then obtain s5 where "check_bodies ord s4 = Some s5" "table_ok s5" by blast
  with s1 s2 s3 s4 show ?thesis by (simp add: infer_phases_def)
qed

end
