(* ===== verification/TypeProperties.thy ===== *)
theory TypeProperties
  imports CheckDriver StmtTotal
begin

text \<open>
  The properties of the type representation (\<open>core/type-checker/src/type_info.rs\<close>) and of the
  syntactic equality \<open>types_equal\<close> (\<open>core/type-checker/src/type_checker.rs\<close>).
\<close>

section \<open>Builtin names\<close>

text \<open>\<open>TypeInfoKind::from_builtin_str\<close> accepts exactly the names of the builtin types, whatever
  their case, and inverts \<open>as_builtin_str\<close>: it returns a kind if and only if the lower-case form of
  its argument is that kind's name.\<close>

theorem builtin_names_round_trip:
  "(from_builtin_str s = Some k \<longleftrightarrow> as_builtin_str k = Some (to_lowercase s))
   \<and> (\<forall>nt. number_type_from_str (number_type_as_str nt) = Some nt)"
  using from_builtin_str_iff number_type_from_str_iff by simp

text \<open>The symbols of the only scope of the table a run starts with.\<close>

definition builtin_symbols :: "(string \<times> symbol) list" where
  "builtin_symbols =
     map (\<lambda>nt. (number_type_as_str nt, Sym_TypeAlias (TypeInfo (Kind_Number nt) []))) number_type_all
     @ map (\<lambda>(n, k). (n, Sym_TypeAlias (TypeInfo k []))) non_numeric_builtins"

lemma default_table_fields:
  "st_current_scope default_symbol_table = Some 0"
  "\<exists>sc. st_scopes default_symbol_table 0 = Some sc \<and> sc_parent sc = None
     \<and> sc_symbols sc = map_of builtin_symbols"
  by (simp_all add: default_symbol_table_def init_root_scope_def init_builtin_types_def Let_def
      number_type_all_def non_numeric_builtins_def insert_builtin_def scope_insert_symbol_def
      scope_new_def fun_eq_iff builtin_symbols_def)

lemma builtin_symbols_of:
  assumes "as_builtin_str k = Some n"
  shows "map_of builtin_symbols n = Some (Sym_TypeAlias (TypeInfo k []))"
proof -
  have n: "n = the (as_builtin_str k)" "as_builtin_str k \<noteq> None" using assms by simp_all
  show ?thesis
  proof (cases k)
    case (Kind_Number nt)
    then show ?thesis unfolding n(1)
      by (cases nt) (simp_all add: builtin_symbols_def number_type_all_def non_numeric_builtins_def)
  qed (use n in \<open>simp_all add: builtin_symbols_def number_type_all_def non_numeric_builtins_def\<close>)
qed

lemma builtin_symbols_iff:
  "map_of builtin_symbols n =
     (if to_lowercase n = n then map_option (\<lambda>k. Sym_TypeAlias (TypeInfo k [])) (from_builtin_str n) else None)"
proof -
  have lower: "to_lowercase n = n" if "map_of builtin_symbols n = Some sy" for sy
    using map_of_SomeD [OF that] by (auto simp: builtin_symbols_def non_numeric_builtins_def)
  have "map_of builtin_symbols n = map_option (\<lambda>k. Sym_TypeAlias (TypeInfo k [])) (from_builtin_str n)"
    if n: "to_lowercase n = n"
  proof (cases "from_builtin_str n")
    case (Some k)
    then have "as_builtin_str k = Some n" using n by (simp add: from_builtin_str_iff)
    then show ?thesis using Some by (simp add: builtin_symbols_of)
  next
    case None
    then have "as_builtin_str k \<noteq> Some n" for k
      using from_builtin_str_iff [of n k] n by auto
    from allI [of "\<lambda>nt. as_builtin_str (Kind_Number nt) \<noteq> Some n", OF this] this [of Kind_Unit] this [of Kind_Bool] this [of Kind_String]
    show ?thesis using None
      by (auto simp: builtin_symbols_def map_of_eq_None_iff non_numeric_builtins_def)
  qed
  then show ?thesis using lower by (metis not_None_eq)
qed

text \<open>In the table a run starts with, a name resolves to a type exactly when it is a builtin name
  in some case, and then to that builtin type.\<close>

theorem builtin_names_resolve:
  "lookup_type n default_symbol_table = Some (map_option (\<lambda>k. TypeInfo k []) (from_builtin_str n))"
proof -
  obtain sc where sc: "st_scopes default_symbol_table 0 = Some sc" "sc_parent sc = None"
    "sc_symbols sc = map_of builtin_symbols" using default_table_fields(2) by blast
  have look: "scope_lookup_symbol (st_scopes default_symbol_table) 0 m = Some (map_of builtin_symbols m)" for m
    using sc by (simp add: scope_lookup_symbol_def lookup_up.simps lookup_symbol_local_def split: option.split)
  have fold: "from_builtin_str (to_lowercase n) = from_builtin_str n"
    by (metis from_builtin_str_iff not_None_eq to_lowercase_idem)
  show ?thesis
    by (auto simp: lookup_type_def default_table_fields(1) look builtin_symbols_iff fold split: option.split)
qed

section \<open>Conversion from syntax\<close>

text \<open>Every array size in the type is a numeric literal that fits 32 bits.\<close>

fun sizes_ok :: "ty \<Rightarrow> bool" where
  "sizes_ok (Type_Array _ _ elem sz) = (extract_array_size sz \<noteq> None \<and> sizes_ok elem)"
| "sizes_ok (Type_Function _ _ ps r) =
     ((case ps of None \<Rightarrow> True | Some ts \<Rightarrow> list_all sizes_ok ts)
      \<and> (case r of None \<Rightarrow> True | Some t \<Rightarrow> sizes_ok t))"
| "sizes_ok _ = True"

text \<open>Every array length in a type fits 32 bits.\<close>

fun lengths_u32 :: "type_info \<Rightarrow> bool" where
  "lengths_u32 (TypeInfo (Kind_Array e n) _) = (n < 2 ^ 32 \<and> lengths_u32 e)"
| "lengths_u32 _ = True"

lemma conversion_None_iff: "new_with_type_params t tps = None \<longleftrightarrow> \<not> sizes_ok t"
proof (induction t tps rule: new_with_type_params.induct)
  case (6 i l params returns tps)
  have p: "(case params of Some ps \<Rightarrow> map_opt (\<lambda>p. new_with_type_params p tps) ps | None \<Rightarrow> Some []) = None
      \<longleftrightarrow> \<not> (case params of None \<Rightarrow> True | Some ts \<Rightarrow> list_all sizes_ok ts)"
    using 6(1) by (auto simp: map_opt_None_iff list_all_iff split: option.split)
  have r: "(case returns of Some r \<Rightarrow> new_with_type_params r tps | None \<Rightarrow> Some default_type_info) = None
      \<longleftrightarrow> \<not> (case returns of None \<Rightarrow> True | Some t \<Rightarrow> sizes_ok t)"
    using 6(2) by (auto split: option.split)
  show ?case using p r by (simp split: Option.bind_split) (metis not_None_eq)
qed (auto split: Option.bind_split)

lemma simple_kind_lengths: "lengths_u32 (TypeInfo (type_kind_from_simple_type_kind k) ps)"
  by (cases k) simp_all

lemma from_builtin_lengths: "from_builtin_str s = Some k \<Longrightarrow> lengths_u32 (TypeInfo k ps)"
  by (cases k) (auto simp: from_builtin_str_iff)

lemma conversion_lengths: "new_with_type_params t tps = Some ti \<Longrightarrow> lengths_u32 ti"
proof (induction t tps arbitrary: ti rule: new_with_type_params.induct)
  case (5 i l elem sz tps)
  from 5(2) obtain n e where "extract_array_size sz = Some n" "new_with_type_params elem tps = Some e"
    "ti = TypeInfo (Kind_Array e n) []" by (auto simp: bind_Some_iff)
  moreover have "n < 2 ^ 32" if "extract_array_size sz = Some n" for n
    using that parse_u32_bound by (cases sz rule: extract_array_size.cases) auto
  ultimately show ?case using 5(1) by auto
next
  case (7 c tps)
  then show ?case
    by (auto simp: type_kind_from_simple_type_def from_builtin_lengths split: if_splits option.splits)
qed (auto simp: simple_kind_lengths bind_Some_iff)

text \<open>\<open>TypeInfo::new_with_type_params\<close> panics exactly on a type that contains an array size which
  is not a numeric literal of 32 bits; otherwise every array length of the result fits 32 bits.\<close>

theorem conversion_panics_iff:
  "(new_with_type_params t tps = None \<longleftrightarrow> \<not> sizes_ok t)
   \<and> pred_option lengths_u32 (new_with_type_params t tps)"
  using conversion_None_iff [of t tps] conversion_lengths [of t tps]
  by (cases "new_with_type_params t tps") auto

section \<open>Substitution\<close>

text \<open>The type parameters a substitution can reach.\<close>

fun reachable_params :: "type_info \<Rightarrow> string set" where
  "reachable_params (TypeInfo (Kind_Generic n) _) = {n}"
| "reachable_params (TypeInfo (Kind_Array e _) _) = reachable_params e"
| "reachable_params _ = {}"

lemma has_unresolved_iff: "has_unresolved_params t \<longleftrightarrow> reachable_params t \<noteq> {}"
  by (induction t rule: reachable_params.induct) auto

lemma substitute_params:
  "reachable_params (substitute t \<sigma>) =
     (\<Union>n\<in>reachable_params t. case map_of \<sigma> n of None \<Rightarrow> {n} | Some c \<Rightarrow> reachable_params c)"
  by (induction t \<sigma> rule: substitute.induct) (auto split: option.split)

text \<open>After \<open>TypeInfo::substitute\<close> the type parameters that remain are those the substitution does
  not bind and those of the types it put in; so a substitution that binds every parameter to a
  resolved type leaves a resolved type.\<close>

theorem substitution_resolves:
  "reachable_params (substitute t \<sigma>) =
     (\<Union>n\<in>reachable_params t. case map_of \<sigma> n of None \<Rightarrow> {n} | Some c \<Rightarrow> reachable_params c)
   \<and> (has_unresolved_params (substitute t \<sigma>) \<longleftrightarrow>
        (\<exists>n\<in>reachable_params t. map_of \<sigma> n = None \<or> has_unresolved_params (the (map_of \<sigma> n))))"
proof -
  have "(case map_of \<sigma> n of None \<Rightarrow> {n} | Some c \<Rightarrow> reachable_params c) \<noteq> {}
      \<longleftrightarrow> map_of \<sigma> n = None \<or> has_unresolved_params (the (map_of \<sigma> n))" for n
    by (simp add: has_unresolved_iff split: option.split)
  then show ?thesis by (simp only: has_unresolved_iff substitute_params) blast
qed

section \<open>Equality of syntactic types\<close>

text \<open>
  What \<open>types_equal\<close> compares: names and structure, but no array sizes, and no identifiers of nodes
  or positions, except those of the parameters of a generic type, which it compares as nodes.
\<close>

datatype type_shape =
    Shape_Simple simple_type_kind
  | Shape_Array type_shape
  | Shape_Generic string "ident list"
  | Shape_Function "type_shape list option" "type_shape option"
  | Shape_QualifiedName string string
  | Shape_Qualified string
  | Shape_Custom string

fun shape_of :: "ty \<Rightarrow> type_shape" where
  "shape_of (Type_Simple k) = Shape_Simple k"
| "shape_of (Type_Array _ _ e _) = Shape_Array (shape_of e)"
| "shape_of (Type_Generic g) = Shape_Generic (ident_name (gt_base g)) (gt_parameters g)"
| "shape_of (Type_Function _ _ ps r) = Shape_Function (map_option (map shape_of) ps) (map_option shape_of r)"
| "shape_of (Type_QualifiedName q) =
     Shape_QualifiedName (ident_name (qn_qualifier q)) (ident_name (qn_name q))"
| "shape_of (Type_Qualified q) = Shape_Qualified (ident_name (tqn_name q))"
| "shape_of (Type_Custom x) = Shape_Custom (ident_name x)"

lemma types_equal_shape:
  "types_equal a b \<longleftrightarrow> shape_of a = shape_of b"
  "same_length as bs \<Longrightarrow> types_equal_list as bs \<longleftrightarrow> map shape_of as = map shape_of bs"
proof (induction a b and as bs rule: types_equal_types_equal_list.induct)
  case (7 i l ps1 r1 t2)
  show ?case
  proof (cases t2)
    case (Type_Function j m ps2 r2)
    have "(case (r1, r2) of (None, None) \<Rightarrow> True | (Some a, Some b) \<Rightarrow> types_equal a b | _ \<Rightarrow> False)
        \<longleftrightarrow> map_option shape_of r1 = map_option shape_of r2"
      using 7(1) [OF Type_Function] by (cases r1; cases r2) auto
    moreover have "(case (ps1, ps2) of (None, None) \<Rightarrow> True
        | (Some as, Some bs) \<Rightarrow> same_length as bs \<and> types_equal_list as bs | _ \<Rightarrow> False)
        \<longleftrightarrow> map_option (map shape_of) ps1 = map_option (map shape_of) ps2"
      using 7(2) [OF Type_Function] by (cases ps1; cases ps2) (auto simp: same_length_def dest: map_eq_imp_length_eq)
    ultimately show ?thesis using Type_Function by (simp add: conj_commute)
  qed auto
qed (auto simp: same_length_def split: ty.splits)

text \<open>\<open>types_equal\<close> is equality of the shapes of two types, hence an equivalence; array sizes are
  not part of the shape.\<close>

theorem types_equal_is_shape_equality:
  "types_equal a b \<longleftrightarrow> shape_of a = shape_of b"
  by (rule types_equal_shape(1))

end
