(* ===== verification/BlockScoping.thy ===== *)
theory BlockScoping
  imports StmtTotal
begin

text \<open>
  The block structure of a checked body: a statement can add names to the innermost frame and does
  nothing else to the frames, and after a block, a function or a method every frame is as before.
  The proofs use the stack-of-frames interface \<open>lexical_env\<close> through its interpretations.
\<close>

text \<open>The same frames, except that the innermost may have new names.\<close>

definition extends_head :: "('k \<rightharpoonup> 'v) list \<Rightarrow> ('k \<rightharpoonup> 'v) list \<Rightarrow> bool" where
  "extends_head fs fs' \<longleftrightarrow>
     (case fs of
        [] \<Rightarrow> fs' = []
      | m # rest \<Rightarrow> (case fs' of [] \<Rightarrow> False | m' # rest' \<Rightarrow> m \<subseteq>\<^sub>m m' \<and> rest' = rest))"

lemma extends_head_refl [simp]: "extends_head fs fs"
  by (simp add: extends_head_def split: list.split)

lemma extends_head_trans: "extends_head a b \<Longrightarrow> extends_head b c \<Longrightarrow> extends_head a c"
  by (auto simp: extends_head_def split: list.splits intro: map_le_trans)

lemma extends_head_Cons: "extends_head (m # fs) x \<Longrightarrow> \<exists>m'. x = m' # fs"
  by (auto simp: extends_head_def split: list.splits)

definition block_step :: "symbol_table \<Rightarrow> symbol_table \<Rightarrow> bool" where
  "block_step st st' \<longleftrightarrow>
     st_current_scope st' = st_current_scope st
     \<and> extends_head (var_frames st) (var_frames st') \<and> extends_head (sym_frames st) (sym_frames st')"

definition same_frames :: "symbol_table \<Rightarrow> symbol_table \<Rightarrow> bool" where
  "same_frames st st' \<longleftrightarrow>
     st_current_scope st' = st_current_scope st \<and> var_frames st' = var_frames st
     \<and> sym_frames st' = sym_frames st"

lemma block_step_refl [simp]: "block_step st st"
  by (simp add: block_step_def)

lemma block_step_trans: "block_step a b \<Longrightarrow> block_step b c \<Longrightarrow> block_step a c"
  by (auto simp: block_step_def intro: extends_head_trans)

lemma same_frames_step: "same_frames a b \<Longrightarrow> block_step a b"
  by (simp add: same_frames_def block_step_def)

lemma same_frames_lookups:
  assumes "same_frames st st'" "wf_symtab st" "wf_symtab st'"
  shows "lookup_variable n st' = lookup_variable n st" "lookup_symbol n st' = lookup_symbol n st"
    "lookup_type n st' = lookup_type n st"
proof -
  show "lookup_variable n st' = lookup_variable n st"
    using assms by (simp add: same_frames_def vars.find_law)
  show sym: "lookup_symbol n st' = lookup_symbol n st" for n
    using assms by (simp add: same_frames_def syms.find_law)
  show "lookup_type n st' = lookup_type n st"
    using sym [of n] sym [of "to_lowercase n"] assms(1)
    by (cases "st_current_scope st") (simp_all add: lookup_type_def lookup_symbol_def same_frames_def)
qed

section \<open>Single steps\<close>

lemma current_after_insert:
  "push_variable_to_scope n t st = Some (Inr st') \<Longrightarrow> st_current_scope st' = st_current_scope st"
  "declare_symbol n sy st = Some (Inr st') \<Longrightarrow> st_current_scope st' = st_current_scope st"
  by (auto simp: push_variable_to_scope_def declare_symbol_def register_symbol_def try_modify_scope_def
      bind_Some_iff split: option.splits sum.splits)

lemma declare_frames:
  assumes wf: "wf_symtab st"
  shows "push_variable_to_scope n t st = Some (Inr st') \<Longrightarrow> block_step st st'"
    "declare_symbol n sy st = Some (Inr st') \<Longrightarrow> block_step st st'"
proof -
  have nonempty: "\<exists>sc rest. current_chain st = sc # rest"
    if "push_variable_to_scope n t st = Some (Inr st') \<or> declare_symbol n sy st = Some (Inr st')"
    using empty_chain_register [of st] wf that by (cases "current_chain st") auto
  show "block_step st st'" if d: "push_variable_to_scope n t st = Some (Inr st')"
  proof -
    from nonempty d obtain m fs where f: "var_frames st = m # fs" by (auto simp: var_frames_def)
    from vars.declared [OF wf f d] names.a_keeps_b [OF wf d] current_after_insert(1) [OF d] f
    show ?thesis by (auto simp: block_step_def extends_head_def map_le_def)
  qed
  show "block_step st st'" if d: "declare_symbol n sy st = Some (Inr st')"
  proof -
    from nonempty d obtain m fs where f: "sym_frames st = m # fs" by (auto simp: sym_frames_def)
    from syms.declared [OF wf f d] names.b_keeps_a [OF wf d] current_after_insert(2) [OF d] f
    show ?thesis by (auto simp: block_step_def extends_head_def map_le_def)
  qed
qed

lemma register_type_declares:
  "register_type n t st = Some (Inr st') \<Longrightarrow> \<exists>ti. declare_symbol n (Sym_TypeAlias ti) st = Some (Inr st')"
  by (auto simp: register_type_def declare_symbol_def register_symbol_def try_modify_scope_def
      bind_Some_iff split: option.splits)

lemma declare_steps:
  assumes "table_ok s"
  shows "declare_variable n t l s = Some s' \<Longrightarrow> block_step (tc_symbol_table s) (tc_symbol_table s')"
    "declare_type n ty l s = Some s' \<Longrightarrow> block_step (tc_symbol_table s) (tc_symbol_table s')"
  using declare_frames [OF assms] register_type_declares
  by (fastforce simp: declare_variable_def declare_type_def report_registration_def set_symbol_table_def
      elim!: bind_SomeE split: sum.splits)+

lemma infer_step:
  "infer_expression e s = Some (t, s') \<Longrightarrow> tc_symbol_table s' = tc_symbol_table s"
  using table.infer_expression_rel by (simp add: same_table_def)

lemma optional_steps:
  "infer_optional c l s = Some s' \<Longrightarrow> tc_symbol_table s' = tc_symbol_table s"
  "infer_initial_value v t l s = Some s' \<Longrightarrow> tc_symbol_table s' = tc_symbol_table s"
  by (auto simp: infer_optional_def infer_initial_value_def elim!: bind_SomeE dest!: infer_step
      split: option.splits)

text \<open>A run of statements between entering and leaving a scope.\<close>

lemma bracket:
  assumes s: "table_ok s" and e: "enter_scope s = Some s1"
    and body: "block_step (tc_symbol_table s1) (tc_symbol_table s2)" "table_ok s2"
      "table_le (tc_symbol_table s1) (tc_symbol_table s2)"
    and l: "leave_scope s2 = Some s3"
  shows "same_frames (tc_symbol_table s) (tc_symbol_table s3)"
proof -
  let ?st = "tc_symbol_table s" and ?st2 = "tc_symbol_table s2"
  from push_scope_returns [OF s] obtain n path
    where p: "push_scope ?st = Some (st_next_scope_id ?st, pushed ?st n path Private)" .
  with e have st1: "tc_symbol_table s1 = pushed ?st n path Private"
    by (auto simp: enter_scope_def set_symbol_table_def)
  have "open_scope ?st = Some (tc_symbol_table s1)" by (simp add: open_scope_def p st1)
  with open_scope_law [OF s] have f1: "var_frames (tc_symbol_table s1) = Map.empty # var_frames ?st"
    "sym_frames (tc_symbol_table s1) = Map.empty # sym_frames ?st" by auto
  from body(1) f1 obtain m m' where f2: "var_frames ?st2 = m # var_frames ?st"
    "sym_frames ?st2 = m' # sym_frames ?st"
    unfolding block_step_def by (metis extends_head_Cons)
  have pop: "pop_scope ?st2 = Some (tc_symbol_table s3)"
    using l by (auto simp: leave_scope_def set_symbol_table_def elim!: bind_SomeE)
  from vars.close_law [OF body(2) f2(1)] syms.close_law [OF body(2) f2(2)] pop
  have f3: "var_frames (tc_symbol_table s3) = var_frames ?st" "sym_frames (tc_symbol_table s3) = sym_frames ?st"
    by auto
  have "st_current_scope ?st2 = Some (st_next_scope_id ?st)"
    using body(1) by (simp add: block_step_def st1)
  moreover obtain sc where sc: "st_scopes ?st2 (st_next_scope_id ?st) = Some sc"
    "sc_parent sc = st_current_scope ?st"
    using body(3) pushed_lookup [OF s, of n path Private "st_next_scope_id ?st"]
    by (fastforce simp: table_le_def scope_le_def st1)
  ultimately have "st_current_scope (tc_symbol_table s3) = st_current_scope ?st"
    using pop by (auto simp: pop_scope_def dest!: arg_cong [where f = st_current_scope])
  with f3 show ?thesis by (simp add: same_frames_def)
qed

section \<open>Statements, blocks and bodies\<close>

lemma extends: "extends_table s s' \<Longrightarrow> table_ok s
    \<Longrightarrow> table_ok s' \<and> table_le (tc_symbol_table s) (tc_symbol_table s')"
  by (simp add: extends_table_def)

lemmas statement_extends =
  extends [OF extension.R_statements(1) [OF _ extension.R_refl]]
  extends [OF extension.R_statements(2) [OF _ extension.R_refl]]
  extends [OF extension.R_statements(3) [OF _ extension.R_refl]]

lemma statement_steps:
  "infer_statement st rt s = Some s' \<Longrightarrow> table_ok s
   \<Longrightarrow> block_step (tc_symbol_table s) (tc_symbol_table s')"
  "infer_block b rt s = Some s' \<Longrightarrow> table_ok s
   \<Longrightarrow> same_frames (tc_symbol_table s) (tc_symbol_table s')"
  "infer_statements ss rt s = Some s' \<Longrightarrow> table_ok s
   \<Longrightarrow> block_step (tc_symbol_table s) (tc_symbol_table s')"
proof (induction st rt s and b rt s and ss rt s arbitrary: s' and s' and s'
    rule: infer_statement_infer_block_infer_statements.induct)
  case (1 i l left right rt s)
  then show ?case by (auto elim!: bind_SomeE dest!: infer_step split: option.splits)
next
  case (2 b rt s)
  then show ?case by (simp add: same_frames_step)
next
  case (3 e rt s)
  then show ?case by (auto dest!: infer_step)
next
  case (4 i l e rt s)
  then show ?case by (auto elim!: bind_SomeE dest!: infer_step split: option.splits)
next
  case (5 i l condition body rt s)
  from 5(2) obtain s1 where s1: "infer_optional condition l s = Some s1" "infer_block body rt s1 = Some s'"
    by (auto elim!: bind_SomeE)
  show ?case using 5(1) [OF s1(2)] 5(3) optional_steps(1) [OF s1(1)] by (simp add: same_frames_step)
next
  case (7 i l condition if_arm else_arm rt s)
  from 7(3) obtain t1 s1 s2 where r: "infer_expression condition s = Some (t1, s1)"
    "infer_block if_arm rt (check_condition l t1 s1) = Some s2"
    "(case else_arm of None \<Rightarrow> Some s2 | Some b \<Rightarrow> infer_block b rt s2) = Some s'"
    by (auto elim!: bind_SomeE)
  have ok: "table_ok (check_condition l t1 s1)" using 7(4) infer_step [OF r(1)] by simp
  have f: "same_frames (tc_symbol_table s) (tc_symbol_table s2)"
    using 7(1) [OF _ r(2) ok] infer_step [OF r(1)] by simp
  have ok2: "table_ok s2" using statement_extends(2) [OF r(2) ok] by simp
  show ?case
  proof (cases else_arm)
    case (Some b)
    with r(3) 7(2) ok2 have "same_frames (tc_symbol_table s2) (tc_symbol_table s')" by simp
    with f show ?thesis by (intro block_step_trans [OF same_frames_step same_frames_step])
  qed (use r(3) f in \<open>simp add: same_frames_step\<close>)
next
  case (8 i l name t v u rt s)
  from 8(1) obtain ti s1 s2 where r: "infer_initial_value v ti l s = Some s1"
    "declare_variable (ident_name name) ti l s1 = Some s2"
    "tc_symbol_table s' = tc_symbol_table s2"
    by (auto elim!: bind_SomeE)
  then show ?case using declare_steps(1) [OF _ r(2)] optional_steps(2) [OF r(1)] 8(2) by simp
next
  case (9 i l name t rt s)
  then show ?case using declare_steps(2) by simp
next
  case (10 i l e rt s)
  then show ?case by (auto elim!: bind_SomeE dest!: infer_step)
next
  case (11 c rt s)
  from 11(1) obtain ti s1 where r: "declare_variable (ident_name (cd_name c)) ti (cd_location c) s = Some s1"
    "tc_symbol_table s' = tc_symbol_table s1"
    by (auto elim!: bind_SomeE)
  then show ?case using declare_steps(1) [OF 11(2) r(1)] by simp
next
  case (12 b rt s)
  from 12(2) obtain s1 s2 where r: "enter_scope s = Some s1"
    "infer_statements (block_statements b) rt s1 = Some s2" "leave_scope s2 = Some s'"
    by (auto simp: infer_block.simps elim!: bind_SomeE)
  have ok1: "table_ok s1" using scopes_return(1) [OF 12(3)] r(1) by auto
  from statement_extends(3) [OF r(2) ok1] 12(1) [OF r(2) ok1]
  show ?case using bracket [OF 12(3) r(1) _ _ _ r(3)] by blast
next
  case (14 st ss rt s)
  from 14(3) obtain s1 where r: "infer_statement st rt s = Some s1" "infer_statements ss rt s1 = Some s'"
    by (auto elim!: bind_SomeE)
  have "table_ok s1" using statement_extends(1) [OF r(1) 14(4)] by simp
  with 14(1) [OF r(1) 14(4)] 14(2) [OF r(2)] show ?case by (blast intro: block_step_trans)
qed simp_all

lemma parameter_steps:
  assumes "table_ok s"
  shows "declare_parameter tps a s = Some s' \<Longrightarrow> block_step (tc_symbol_table s) (tc_symbol_table s')"
    "declare_method_parameter self_type a s = Some s' \<Longrightarrow> block_step (tc_symbol_table s) (tc_symbol_table s')"
  by (cases a; auto elim!: bind_SomeE intro: declare_steps [OF assms])+

text \<open>A fold of steps is a step; the invariant and the growth of the table come along.\<close>

definition good_step :: "checker \<Rightarrow> checker \<Rightarrow> bool" where
  "good_step s s' \<longleftrightarrow> (table_ok s \<longrightarrow> table_ok s'
     \<and> table_le (tc_symbol_table s) (tc_symbol_table s') \<and> block_step (tc_symbol_table s) (tc_symbol_table s'))"

lemma good_stepI:
  "extends_table s s' \<Longrightarrow> (table_ok s \<Longrightarrow> block_step (tc_symbol_table s) (tc_symbol_table s')) \<Longrightarrow> good_step s s'"
  by (simp add: good_step_def extends_table_def)

lemma fold_good_step:
  assumes "fold_opt f xs s = Some s'" "\<And>x t t'. f x t = Some t' \<Longrightarrow> good_step t t'"
  shows "good_step s s'"
  by (rule fold_opt_rel [OF assms(1)])
    (use assms(2) in \<open>fastforce simp: good_step_def intro: table_le_trans block_step_trans\<close>)+

lemma body_frames:
  assumes s: "table_ok s"
  shows "infer_variables f s = Some s' \<Longrightarrow> same_frames (tc_symbol_table s) (tc_symbol_table s')"
    "infer_method_variables f self_type s = Some s' \<Longrightarrow> same_frames (tc_symbol_table s) (tc_symbol_table s')"
proof -
  have params: "good_step t t'" if "declare_parameter tps a t = Some t'" for t t' tps a
    by (rule good_stepI [OF extension.R_parameters(1) [OF that extension.R_refl] parameter_steps(1) [OF _ that]])
  have mparams: "good_step t t'" if "declare_method_parameter self_type a t = Some t'" for t t' a
    by (rule good_stepI [OF extension.R_parameters(2) [OF that extension.R_refl] parameter_steps(2) [OF _ that]])
  have stmt: "good_step t t'" if "infer_statement x rt t = Some t'" for t t' x rt
    by (rule good_stepI [OF extension.R_statements(1) [OF that extension.R_refl] statement_steps(1) [OF that]])
  have stmts: "good_step t t'" if "infer_statements xs rt t = Some t'" for t t' xs rt
    by (rule good_stepI [OF extension.R_statements(3) [OF that extension.R_refl] statement_steps(3) [OF that]])
  have ok1: "table_ok s1" if "enter_scope s = Some s1" for s1
    using scopes_return(1) [OF s] that by auto
  have join: "same_frames (tc_symbol_table s) (tc_symbol_table s')"
    if "enter_scope s = Some s1" "good_step s1 s2" "good_step s2 s3" "leave_scope s3 = Some s'" for s1 s2 s3 s'
  proof -
    have g12: "table_ok s2" "table_le (tc_symbol_table s1) (tc_symbol_table s2)"
      "block_step (tc_symbol_table s1) (tc_symbol_table s2)"
      using that(2) ok1 [OF that(1)] by (simp_all add: good_step_def)
    have g23: "table_ok s3" "table_le (tc_symbol_table s2) (tc_symbol_table s3)"
      "block_step (tc_symbol_table s2) (tc_symbol_table s3)"
      using that(3) g12(1) by (simp_all add: good_step_def)
    show ?thesis
      by (rule bracket [OF s that(1) block_step_trans [OF g12(3) g23(3)] g23(1)
            table_le_trans [OF g12(2) g23(2)] that(4)])
  qed
  show "same_frames (tc_symbol_table s) (tc_symbol_table s')" if run: "infer_variables f s = Some s'"
  proof -
    from run obtain s1 s2 s3 rt where r: "enter_scope s = Some s1"
      "fold_opt (declare_parameter (type_parameter_names (fd_type_parameters f)))
         (argument_list (fd_arguments f)) s1 = Some s2"
      "infer_statements (block_statements (fd_body f)) rt s2 = Some s3" "leave_scope s3 = Some s'"
      by (auto simp: infer_variables_def Let_def elim!: bind_SomeE)
    show ?thesis
      by (rule join [OF r(1) fold_good_step [OF r(2)] stmts [OF r(3)] r(4)]) (rule params)
  qed
  show "same_frames (tc_symbol_table s) (tc_symbol_table s')" if run: "infer_method_variables f self_type s = Some s'"
  proof -
    from run obtain s1 s2 s3 where r: "enter_scope s = Some s1"
      "fold_opt (declare_method_parameter self_type) (argument_list (fd_arguments f)) s1 = Some s2"
      "fold_opt (\<lambda>st s. do { rt \<leftarrow> return_type_info [] (fd_returns f); infer_statement st rt s })
         (block_statements (fd_body f)) s2 = Some s3" "leave_scope s3 = Some s'"
      by (auto simp: infer_method_variables_def elim!: bind_SomeE)
    show ?thesis
      by (rule join [OF r(1) fold_good_step [OF r(2)] fold_good_step [OF r(3)] r(4)])
        (auto elim!: bind_SomeE intro: mparams stmt)
  qed
qed

end
