(* ===== verification/TableProperties.thy ===== *)
theory TableProperties
  imports ExprTotal ScopeEnv StmtTotal BlockScoping
begin

text \<open>
  The properties of the symbol table (\<open>core/type-checker/src/symbol_table.rs\<close>) and of the
  visibility check of \<open>core/type-checker/src/type_checker.rs\<close>, each with a witness on the table a
  run starts with.
\<close>

section \<open>The table a run starts with\<close>

lemma default_scope:
  obtains sc where "st_scopes default_symbol_table 0 = Some sc" "sc_parent sc = None" "sc_id sc = 0"
    "sc_full_path sc = []"
  by (simp add: default_symbol_table_def init_root_scope_def init_builtin_types_def Let_def
      number_type_all_def non_numeric_builtins_def insert_builtin_def scope_insert_symbol_def
      scope_new_def)

lemma default_current [simp]:
  "st_current_scope default_symbol_table = Some 0" "st_root_scope default_symbol_table = Some 0"
  "st_next_scope_id default_symbol_table = 1"
  by (simp_all add: default_symbol_table_def init_root_scope_def init_builtin_types_def Let_def)

lemma default_lookup_variable: "lookup_variable n default_symbol_table = Some None"
  by (simp add: default_symbol_table_def init_root_scope_def init_builtin_types_def Let_def
      number_type_all_def non_numeric_builtins_def insert_builtin_def scope_insert_symbol_def
      scope_new_def lookup_variable_def scope_lookup_variable_def lookup_up.simps
      lookup_variable_local_def)

lemma current_frames:
  assumes wf: "wf_symtab st" and c: "st_current_scope st = Some c"
  obtains m fs m' fs' where "var_frames st = m # fs" "sym_frames st = m' # fs'"
proof -
  from wf_symtabD(2) [OF wf c] obtain sc where "st_scopes st c = Some sc" by blast
  from scope_chain_Cons [where ss = "st_scopes st" and i = c, OF this] c that show thesis
    by (auto simp: var_frames_def sym_frames_def current_chain_def)
qed

section \<open>Lookups\<close>

definition method_frames :: "symbol_table \<Rightarrow> (string \<rightharpoonup> method_info list) list" where
  "method_frames st = map sc_methods (current_chain st)"

lemma lookup_method_frames:
  assumes wf: "wf_symtab st"
  shows "lookup_method ty n st = Some (first_some
      (\<lambda>m. Option.bind (m ty) (find (\<lambda>i. fi_name (mi_signature i) = n))) (method_frames st))"
proof (cases "st_current_scope st")
  case (Some c)
  have local: "lookup_method_local ty n = (\<lambda>sc. Option.bind (sc_methods sc ty)
      (find (\<lambda>i. fi_name (mi_signature i) = n)))"
    by (simp add: fun_eq_iff lookup_method_local_def split: option.split)
  from wf_symtabD(2) [OF wf Some] obtain sc where "st_scopes st c = Some sc" by blast
  from lookup_up_chain [OF wf_symtab_climbable [OF wf] this] Some show ?thesis
    by (simp add: lookup_method_def scope_lookup_method_def local method_frames_def
        current_chain_def first_some_map)
qed (simp add: lookup_method_def method_frames_def current_chain_def)

text \<open>On a well-formed table, looking up a variable, a symbol or a method returns, and gives the
  answer of the innermost scope that has one, on the way from the current scope to the root.\<close>

theorem lookups_take_innermost:
  assumes "wf_symtab st"
  shows "lookup_variable n st = Some (first_some (\<lambda>m. m n) (var_frames st))
    \<and> lookup_symbol n st = Some (first_some (\<lambda>m. m n) (sym_frames st))
    \<and> lookup_method ty n st = Some (first_some
         (\<lambda>m. Option.bind (m ty) (find (\<lambda>i. fi_name (mi_signature i) = n))) (method_frames st))"
  by (intro conjI lookup_variable_frames lookup_symbol_frames lookup_method_frames assms)

theorem lookups_take_innermost_witness:
  "lookup_variable ''x'' default_symbol_table =
      Some (first_some (\<lambda>m. m ''x'') (var_frames default_symbol_table))
   \<and> first_some (\<lambda>m. m ''x'') (var_frames default_symbol_table) = None"
  using lookups_take_innermost [OF default_symbol_table_wf, of "''x''"] default_lookup_variable [of "''x''"]
  by simp

text \<open>Declaring a variable in the current scope fails exactly when that scope has the name
  already. Otherwise the name is found with the declared type, every other lookup answers as before,
  and declaring the name again in that scope fails.\<close>

theorem declare_then_find:
  assumes wf: "wf_symtab st" and c: "st_current_scope st = Some c"
  shows "\<exists>r. push_variable_to_scope n t st = Some r
    \<and> (case r of
         Inl e \<Rightarrow> hd (var_frames st) n \<noteq> None
       | Inr st' \<Rightarrow> hd (var_frames st) n = None \<and> wf_symtab st' \<and> lookup_variable n st' = Some (Some t)
           \<and> (\<forall>m. m \<noteq> n \<longrightarrow> lookup_variable m st' = lookup_variable m st)
           \<and> (\<forall>m. lookup_symbol m st' = lookup_symbol m st)
           \<and> (\<exists>e. push_variable_to_scope n t' st' = Some (Inl e)))"
proof -
  from current_frames [OF wf c] obtain m fs where f: "var_frames st = m # fs" by metis
  show ?thesis
  proof (cases "m n")
    case None
    from vars.declare_law [OF wf f None] obtain st'
      where st': "push_variable_to_scope n t st = Some (Inr st')" "wf_symtab st'" by blast
    show ?thesis
      using st' None f vars.find_declared [OF wf f st'(1)] vars.declare_once [OF wf f st'(1)]
        names.a_never_hides_b [OF wf f st'(1)] by auto
  next
    case (Some w)
    then show ?thesis using vars.redeclare_law [OF wf f, of n t] f by auto
  qed
qed

theorem declare_then_find_witness:
  "\<exists>st'. push_variable_to_scope ''x'' boolean_type default_symbol_table = Some (Inr st')
     \<and> lookup_variable ''x'' st' = Some (Some boolean_type)
     \<and> (\<exists>e. push_variable_to_scope ''x'' string_type st' = Some (Inl e))"
proof -
  obtain m fs where f: "var_frames default_symbol_table = m # fs"
    using current_frames [OF default_symbol_table_wf default_current(1)] by metis
  have "first_some (\<lambda>m. m ''x'') (m # fs) = None"
    using default_lookup_variable [of "''x''"] lookup_variable_frames [OF default_symbol_table_wf, of "''x''"]
    unfolding f by simp
  then have none: "hd (var_frames default_symbol_table) ''x'' = None"
    by (simp add: f split: option.splits)
  obtain r where r: "push_variable_to_scope ''x'' boolean_type default_symbol_table = Some r"
    and d: "case r of
         Inl e \<Rightarrow> hd (var_frames default_symbol_table) ''x'' \<noteq> None
       | Inr st' \<Rightarrow> hd (var_frames default_symbol_table) ''x'' = None \<and> wf_symtab st'
           \<and> lookup_variable ''x'' st' = Some (Some boolean_type)
           \<and> (\<forall>m. m \<noteq> ''x'' \<longrightarrow> lookup_variable m st' = lookup_variable m default_symbol_table)
           \<and> (\<forall>m. lookup_symbol m st' = lookup_symbol m default_symbol_table)
           \<and> (\<exists>e. push_variable_to_scope ''x'' string_type st' = Some (Inl e))"
    using declare_then_find [OF default_symbol_table_wf default_current(1), of "''x''" boolean_type string_type]
    by blast
  show ?thesis using r d none by (cases r) auto
qed

text \<open>A block that opens a scope, declares any variables and closes the scope leaves every lookup
  as it was; inside it, the names it declares are found with the type of their first declaration and
  hide outer ones, and all other names are found as outside.\<close>

theorem block_restores_lookups:
  assumes "wf_symtab st"
  shows "\<exists>st1 st2 st3. open_scope st = Some st1
    \<and> declare_all push_variable_to_scope decls st1 = Some st2 \<and> pop_scope st2 = Some st3
    \<and> (\<forall>n. lookup_variable n st3 = lookup_variable n st)
    \<and> (\<forall>n. lookup_variable n st2 =
          (case map_of decls n of Some t \<Rightarrow> Some (Some t) | None \<Rightarrow> lookup_variable n st))"
  by (rule vars.block_restores [OF assms, of decls]) (auto split: option.split)

theorem block_restores_lookups_witness:
  "\<exists>st1 st2 st3. open_scope default_symbol_table = Some st1
    \<and> declare_all push_variable_to_scope [(''x'', boolean_type), (''x'', string_type)] st1 = Some st2
    \<and> pop_scope st2 = Some st3
    \<and> lookup_variable ''x'' st2 = Some (Some boolean_type) \<and> lookup_variable ''x'' st3 = Some None"
  using block_restores_lookups [OF default_symbol_table_wf,
      of "[(''x'', boolean_type), (''x'', string_type)]"] default_lookup_variable [of "''x''"]
  by auto

section \<open>Nothing is lost\<close>

text \<open>C23: Whatever sequence of operations led from the initial table to \<open>st\<close>, and from there to
  \<open>st'\<close>: the table is well-formed, every scope of \<open>st\<close> is still there with the same parent, and no
  symbol, variable or method it had was removed or changed.\<close>

theorem reachable_tables_keep_declarations:
  assumes "table_step\<^sup>*\<^sup>* default_symbol_table st" "table_step\<^sup>*\<^sup>* st st'"
  shows "wf_symtab st' \<and> table_le st st'"
  using table_steps_wf_le [OF assms(2)] table_steps_wf_le [OF assms(1) default_symbol_table_wf] by blast

theorem reachable_tables_keep_declarations_witness:
  "\<exists>st. push_scope_with_name ''m'' Public default_symbol_table = Some (1, st)
     \<and> wf_symtab st \<and> table_le default_symbol_table st"
proof -
  from push_scope_with_name_pushed [OF default_symbol_table_wf, of "''m''" Public] obtain path
    where p: "push_scope_with_name ''m'' Public default_symbol_table =
      Some (1, pushed default_symbol_table ''m'' path Public)" by auto
  have "table_step\<^sup>*\<^sup>* default_symbol_table (pushed default_symbol_table ''m'' path Public)"
    by (rule r_into_rtranclp) (rule step_push [OF p])
  with p reachable_tables_keep_declarations [of default_symbol_table] show ?thesis by blast
qed

section \<open>Visibility\<close>

text \<open>The visibility check returns on a well-formed table. It allows an access exactly when the item
  is public or the current scope is the defining scope or one of its descendants; it reports one
  \<open>PrivateAccessViolation\<close> when it refuses, and changes nothing when it allows.\<close>

theorem private_access_is_ancestry:
  assumes "wf_symtab (tc_symbol_table s)" "st_current_scope (tc_symbol_table s) = Some c"
  shows "\<exists>ok. check_and_report_visibility vis d l vctx s =
      Some (ok, if ok then s else push_error (PrivateAccessViolation vctx l) s)
    \<and> (ok \<longleftrightarrow> vis = Public \<or> (c, d) \<in> (scope_parent_rel (st_scopes (tc_symbol_table s)))\<^sup>*)"
proof -
  from wf_symtabD(2) [OF assms] obtain sc where sc: "st_scopes (tc_symbol_table s) c = Some sc" by blast
  then have "sc_id sc = c" using scope_okD(1) wf_symtabD(1) [OF assms(1)] by blast
  then have "current_scope_id (tc_symbol_table s) = Some c"
    using sc assms(2) by (simp add: current_scope_id_def)
  then show ?thesis
    using is_scope_descendant_of_iff [OF wf_symtab_climbable [OF assms(1)], of c d]
    by (cases vis) (auto simp: check_and_report_visibility_def)
qed

lemma default_checker_table: "tc_symbol_table (default_checker cx) = default_symbol_table"
  by (simp add: default_checker_def)

lemma default_no_parents: "(0, j) \<in> (scope_parent_rel (st_scopes default_symbol_table))\<^sup>* \<longleftrightarrow> j = 0"
proof -
  obtain sc where "st_scopes default_symbol_table 0 = Some sc" "sc_parent sc = None"
    by (rule default_scope)
  then show ?thesis by (auto simp: scope_parent_rel_def elim: converse_rtranclE)
qed

theorem private_access_is_ancestry_witness:
  "check_and_report_visibility Private 7 default_location (Vis_Import ''p'')
        (default_checker (typed_context_new empty_arena)) =
      Some (False, push_error (PrivateAccessViolation (Vis_Import ''p'') default_location)
                     (default_checker (typed_context_new empty_arena)))
    \<and> check_and_report_visibility Private 0 default_location (Vis_Import ''p'')
        (default_checker (typed_context_new empty_arena)) =
      Some (True, default_checker (typed_context_new empty_arena))"
  using private_access_is_ancestry [of "default_checker (typed_context_new empty_arena)" 0 Private 7
      default_location "Vis_Import ''p''"]
    private_access_is_ancestry [of "default_checker (typed_context_new empty_arena)" 0 Private 0
      default_location "Vis_Import ''p''"]
  by (auto simp: default_checker_table default_no_parents)

end
