(* ===== verification/ModuleProperties.thy ===== *)
theory ModuleProperties
  imports TableProperties StmtFacts
begin

text \<open>
  The properties of modules, qualified names and imports
  (\<open>core/type-checker/src/symbol_table.rs\<close>, \<open>core/type-checker/src/type_checker.rs\<close>), and of the
  validation of type references.
\<close>

section \<open>Entering a module\<close>

lemma join_snoc: "join sep (xs @ [x]) = (if xs = [] then x else join sep xs @ sep @ x)"
proof (induction xs)
  case (Cons y ys)
  then show ?case by (cases ys) auto
qed simp

lemma enter_module_eq:
  assumes "st_current_scope st = Some c" "st_scopes st c = Some sc"
    and "path = (if sc_full_path sc = [] then n else sc_full_path sc @ ''::'' @ n)"
  shows "enter_module n vis st = Some (st_next_scope_id st, (pushed st n path vis)
    \<lparr>st_mod_scopes := (st_mod_scopes st)(path \<mapsto> st_next_scope_id st)\<rparr>)"
  using assms by (auto simp: enter_module_def push_scope_with_name_def Let_def modify_scope_def pushed_def
      register_mod_scope_def get_scope_def scope_new_def)

text \<open>Entering a module from a scope with the path \<open>path\<close> makes a new scope the current one, and
  that scope is the one found under the path extended by the module's name, also after leaving the
  module, which goes back to the scope it was entered from.\<close>

theorem enter_then_find_module:
  assumes wf: "wf_symtab st" and c: "st_current_scope st = Some c" "st_scopes st c = Some sc"
    and path: "sc_full_path sc = join ''::'' path" "[] \<notin> set path"
  shows "\<exists>i st1 st2. enter_module n vis st = Some (i, st1) \<and> wf_symtab st1
    \<and> st_scopes st i = None \<and> st_current_scope st1 = Some i
    \<and> pop_scope st1 = Some st2 \<and> st_current_scope st2 = Some c
    \<and> find_module_scope (path @ [n]) st1 = Some i \<and> find_module_scope (path @ [n]) st2 = Some i"
proof -
  define i where "i = st_next_scope_id st"
  define fp where "fp = join ''::'' (path @ [n])"
  have "fp = (if sc_full_path sc = [] then n else sc_full_path sc @ ''::'' @ n)"
    using path by (auto simp: fp_def join_snoc join_eq_Nil_iff)
  with enter_module_eq [OF c] obtain st1
    where st1: "enter_module n vis st = Some (i, st1)"
      "st1 = (pushed st n fp vis)\<lparr>st_mod_scopes := (st_mod_scopes st)(fp \<mapsto> i)\<rparr>"
    by (simp add: i_def)
  have new: "st_scopes st1 i = Some (scope_new i n fp vis (Some c))"
    using c by (simp add: st1(2) pushed_lookup [OF wf] i_def)
  have "wf_symtab st1"
  proof -
    have "st1 = register_mod_scope i (pushed st n fp vis)"
      using new by (simp add: st1(2) register_mod_scope_def get_scope_def scope_new_def)
    then show ?thesis by (simp add: register_mod_scope_wf pushed_wf wf)
  qed
  moreover have "st_scopes st i = None" using wf_symtab_fresh [OF wf] by (simp add: i_def)
  moreover have cur: "st_current_scope st1 = Some i" by (simp add: st1(2) i_def)
  moreover have "pop_scope st1 = Some (st1\<lparr>st_current_scope := Some c\<rparr>)"
    using cur new by (simp add: pop_scope_def)
  moreover have "find_module_scope (path @ [n]) (st1\<lparr>st_current_scope := x\<rparr>) = Some i" for x
    using new by (simp add: find_module_scope_def st1(2) fp_def)
  moreover have "find_module_scope (path @ [n]) st1 = Some i"
    using new by (simp add: find_module_scope_def st1(2) fp_def)
  ultimately show ?thesis using st1(1) by auto
qed

theorem enter_then_find_module_witness:
  "\<exists>i st1. enter_module ''m'' Public default_symbol_table = Some (i, st1)
     \<and> find_module_scope [''m''] st1 = Some i"
proof -
  obtain sc where "st_scopes default_symbol_table 0 = Some sc" "sc_full_path sc = []"
    by (rule default_scope)
  then show ?thesis
    using enter_then_find_module [OF default_symbol_table_wf default_current(1), of sc "[]" "''m''" Public]
    by auto
qed

section \<open>Qualified names\<close>

text \<open>Going down from a scope through children of the given names.\<close>

inductive leads_to :: "(nat \<rightharpoonup> scope) \<Rightarrow> nat \<Rightarrow> string list \<Rightarrow> nat \<Rightarrow> bool" for ss where
  leads_here: "leads_to ss i [] i"
| leads_down: "ss i = Some sc \<Longrightarrow> c \<in> set (sc_children sc) \<Longrightarrow> ss c = Some csc \<Longrightarrow> sc_name csc = seg
    \<Longrightarrow> leads_to ss c segs j \<Longrightarrow> leads_to ss i (seg # segs) j"

inductive_simps leads_to_simps [simp]: "leads_to ss i [] j" "leads_to ss i (seg # segs) j"

text \<open>No scope has two children of the same name.\<close>

definition unique_children :: "(nat \<rightharpoonup> scope) \<Rightarrow> bool" where
  "unique_children ss \<longleftrightarrow>
     (\<forall>i sc c c' csc csc'. ss i = Some sc \<longrightarrow> c \<in> set (sc_children sc) \<longrightarrow> c' \<in> set (sc_children sc)
        \<longrightarrow> ss c = Some csc \<longrightarrow> ss c' = Some csc' \<longrightarrow> sc_name csc = sc_name csc' \<longrightarrow> c = c')"

lemma find_child_iff:
  assumes "unique_children ss" "ss i = Some sc"
  shows "find_child ss seg sc = Some c \<longleftrightarrow>
    c \<in> set (sc_children sc) \<and> (\<exists>csc. ss c = Some csc \<and> sc_name csc = seg)"
proof
  assume "find_child ss seg sc = Some c"
  then show "c \<in> set (sc_children sc) \<and> (\<exists>csc. ss c = Some csc \<and> sc_name csc = seg)"
    by (auto simp: find_child_def find_Some_iff split: option.splits)
next
  assume c: "c \<in> set (sc_children sc) \<and> (\<exists>csc. ss c = Some csc \<and> sc_name csc = seg)"
  then have "find_child ss seg sc \<noteq> None"
    by (auto simp: find_child_def find_None_iff intro!: bexI [of _ c])
  then obtain c' where c': "find_child ss seg sc = Some c'" by blast
  then have "c' \<in> set (sc_children sc) \<and> (\<exists>csc. ss c' = Some csc \<and> sc_name csc = seg)"
    by (auto simp: find_child_def find_Some_iff split: option.splits)
  with c c' assms show "find_child ss seg sc = Some c" unfolding unique_children_def by metis
qed

lemma resolve_path_iff:
  assumes u: "unique_children ss" and cl: "climbable ss" and "segs \<noteq> []"
  shows "resolve_path ss i segs = Some (sy, j) \<longleftrightarrow>
    leads_to ss i (butlast segs) j \<and> (\<exists>sc. ss j = Some sc \<and> sc_symbols sc (last segs) = Some sy)"
  using \<open>segs \<noteq> []\<close>
proof (induction segs arbitrary: i)
  case (Cons seg segs)
  note ih = Cons.IH
  show ?case
  proof (cases segs)
    case Nil
    then show ?thesis using climbableD(3) [OF cl] by (auto simp: bind_Some_iff lookup_symbol_local_def)
  next
    case (Cons seg' rest)
    then have bl: "butlast (seg # segs) = seg # butlast segs" "last (seg # segs) = last segs" by simp_all
    have down: "resolve_path ss c segs = Some (sy, j) \<longleftrightarrow> leads_to ss c (butlast segs) j
        \<and> (\<exists>sc. ss j = Some sc \<and> sc_symbols sc (last segs) = Some sy)" for c
      using ih Cons by blast
    have child: "ss i = Some sc \<and> find_child ss seg sc = Some c \<and> P \<longleftrightarrow> ss i = Some sc
        \<and> (c \<in> set (sc_children sc) \<and> (\<exists>csc. ss c = Some csc \<and> sc_name csc = seg)) \<and> P" for sc c P
      using find_child_iff [OF u] by blast
    have "resolve_path ss i (seg # segs) = Some (sy, j) \<longleftrightarrow>
        (\<exists>sc c. ss i = Some sc \<and> find_child ss seg sc = Some c \<and> resolve_path ss c segs = Some (sy, j))"
      using Cons by (simp add: bind_Some_iff)
    also have "\<dots> \<longleftrightarrow> leads_to ss i (seg # butlast segs) j
        \<and> (\<exists>sc. ss j = Some sc \<and> sc_symbols sc (last segs) = Some sy)"
      unfolding down leads_to_simps child by blast
    finally show ?thesis unfolding bl .
  qed
qed simp

text \<open>When no scope has two children of the same name, \<open>resolve_qualified_name\<close> finds exactly the
  symbols declared in the scope that the leading segments name, going down from the scope it is
  asked from if the path starts with \<open>self\<close> and from the root otherwise; enclosing scopes are not
  searched, and an empty path or \<open>self\<close> alone resolves to nothing.\<close>

theorem resolve_qualified_name_correct:
  assumes wf: "wf_symtab st" and u: "unique_children (st_scopes st)"
  shows "resolve_qualified_name path i st = Some (sy, j) \<longleftrightarrow>
    (\<exists>start segs. (path = ''self'' # segs \<and> start = i
         \<or> path = segs \<and> hd path \<noteq> ''self'' \<and> st_root_scope st = Some start)
       \<and> segs \<noteq> [] \<and> leads_to (st_scopes st) start (butlast segs) j
       \<and> (\<exists>sc. st_scopes st j = Some sc \<and> sc_symbols sc (last segs) = Some sy))"
proof (cases path)
  case (Cons first rest)
  note iff = resolve_path_iff [OF u wf_symtab_climbable [OF wf]]
  have start: "st_scopes st i \<noteq> None" if "resolve_path (st_scopes st) i rest = Some (sy, j)"
    using that by (cases "(st_scopes st, i, rest)" rule: resolve_path.cases) (auto simp: bind_Some_iff)
  show ?thesis
  proof (cases "first = ''self''")
    case True
    then have "resolve_qualified_name path i st = Some (sy, j) \<longleftrightarrow>
        resolve_path (st_scopes st) i rest = Some (sy, j)"
      using Cons start by (auto simp: resolve_qualified_name_def get_scope_def bind_Some_iff)
    then show ?thesis using True Cons iff [of rest i] by (cases "rest = []") auto
  next
    case False
    then show ?thesis
      using Cons iff [of path] by (auto simp: resolve_qualified_name_def bind_Some_iff)
  qed
qed (simp add: resolve_qualified_name_def)

lemma default_unique_children: "unique_children (st_scopes default_symbol_table)"
proof -
  have "\<forall>i sc. st_scopes default_symbol_table i = Some sc \<longrightarrow> sc_children sc = []"
    by (simp add: default_symbol_table_def init_root_scope_def init_builtin_types_def Let_def
        number_type_all_def non_numeric_builtins_def insert_builtin_def scope_insert_symbol_def
        scope_new_def)
  then show ?thesis by (auto simp: unique_children_def)
qed

theorem resolve_qualified_name_correct_witness:
  "resolve_qualified_name [''self''] 0 default_symbol_table = None
   \<and> resolve_qualified_name [''m'', ''i32''] 0 default_symbol_table = None"
proof -
  have child: "\<not> leads_to (st_scopes default_symbol_table) 0 [''m''] j" for j
    by (simp add: default_symbol_table_def init_root_scope_def init_builtin_types_def Let_def
        number_type_all_def non_numeric_builtins_def insert_builtin_def scope_insert_symbol_def
        scope_new_def)
  note iff = resolve_qualified_name_correct [OF default_symbol_table_wf default_unique_children]
  have "resolve_qualified_name [''self''] 0 default_symbol_table \<noteq> Some (sy, j)"
    "resolve_qualified_name [''m'', ''i32''] 0 default_symbol_table \<noteq> Some (sy, j)" for sy j
    unfolding iff using child by auto
  then show ?thesis by (metis not_None_eq prod.exhaust)
qed

end
