(* ===== verification/ImportProperties.thy ===== *)
theory ImportProperties
  imports ModuleProperties BlockScoping
begin

text \<open>
  What the resolution of imports and the loading of external modules do to lookups, and what the
  validation of a type reference reports (\<open>core/type-checker/src/type_checker.rs\<close>,
  \<open>core/type-checker/src/symbol_table.rs\<close>).
\<close>

section \<open>Resolved imports and lookups\<close>

text \<open>Two tables that differ in imports at most.\<close>

definition without_imports :: "scope \<Rightarrow> scope" where
  "without_imports sc = sc\<lparr>sc_imports := [], sc_resolved_imports := Map.empty\<rparr>"

definition same_bindings :: "symbol_table \<Rightarrow> symbol_table \<Rightarrow> bool" where
  "same_bindings st st' \<longleftrightarrow>
     st_current_scope st' = st_current_scope st
     \<and> (\<forall>i. map_option without_imports (st_scopes st' i) = map_option without_imports (st_scopes st i))"

lemma same_bindings_refl [simp]: "same_bindings st st"
  by (simp add: same_bindings_def)

lemma same_bindings_trans: "same_bindings a b \<Longrightarrow> same_bindings b c \<Longrightarrow> same_bindings a c"
  by (simp add: same_bindings_def)

lemma without_imports_fields [simp]:
  "sc_parent (without_imports sc) = sc_parent sc" "sc_symbols (without_imports sc) = sc_symbols sc"
  "sc_variables (without_imports sc) = sc_variables sc" "sc_methods (without_imports sc) = sc_methods sc"
  by (simp_all add: without_imports_def)

lemma scope_chain_bindings:
  assumes "\<And>i. map_option without_imports (ss' i) = map_option without_imports (ss i)"
  shows "map without_imports (scope_chain ss' i) = map without_imports (scope_chain ss i)"
proof (induction i rule: less_induct)
  case (less i)
  show ?case
  proof (cases "ss i")
    case None
    then show ?thesis using assms [of i] by (simp add: scope_chain.simps)
  next
    case (Some sc)
    then obtain sc' where sc': "ss' i = Some sc'" "without_imports sc' = without_imports sc"
      using assms [of i] by (cases "ss' i") auto
    then have "sc_parent sc' = sc_parent sc" by (metis without_imports_fields(1))
    then show ?thesis
      using Some sc' less by (simp add: scope_chain.simps [of ss i] scope_chain.simps [of ss' i]
          split: option.split)
  qed
qed

lemma same_bindings_frames:
  assumes "same_bindings st st'"
  shows "same_frames st st'" "method_frames st' = method_frames st"
proof -
  have "map without_imports (current_chain st') = map without_imports (current_chain st)"
    using assms scope_chain_bindings [of "st_scopes st'" "st_scopes st"]
    by (simp add: same_bindings_def current_chain_def split: option.split)
  then have "map f (map without_imports (current_chain st')) = map f (map without_imports (current_chain st))"
    for f :: "scope \<Rightarrow> 'a" by simp
  from this [of sc_symbols] this [of sc_methods] this [of "\<lambda>sc n. map_option snd (sc_variables sc n)"]
  show "same_frames st st'" "method_frames st' = method_frames st"
    using assms by (simp_all add: same_frames_def same_bindings_def sym_frames_def var_frames_def
        method_frames_def comp_def)
qed

lemma bind_import_bindings: "same_bindings (tc_symbol_table s) (tc_symbol_table (bind_import i r s))"
  by (auto simp: same_bindings_def bind_import_def modify_scope_def set_symbol_table_def
      scope_add_resolved_import_def without_imports_def split: option.split)

lemma glob_import_bindings:
  "same_bindings (tc_symbol_table s) (tc_symbol_table (resolve_glob_import so p l i s))"
proof -
  have "same_bindings (tc_symbol_table t) (tc_symbol_table (fold (\<lambda>(n, sy). bind_import i (f n sy)) xs t))"
    for f xs t
    by (induction xs arbitrary: t) (auto intro: same_bindings_trans bind_import_bindings)
  from this [of "s\<lparr>tc_glob_in_progress := G\<rparr>" for G] show ?thesis
    by (auto simp: resolve_glob_import_def Let_def push_error_def split: option.split)
qed

lemma visibility_table:
  "check_and_report_visibility v d l c s = Some (b, s1) \<Longrightarrow> tc_symbol_table s1 = tc_symbol_table s"
  by (auto simp: check_and_report_visibility_def Let_def bind_Some_iff push_error_def split: if_splits)

lemma import_path_bindings:
  assumes "resolve_import_path p sp fp n l i s = Some s'"
  shows "same_bindings (tc_symbol_table s) (tc_symbol_table s')"
proof (cases "resolve_qualified_name p i (tc_symbol_table s)")
  case (Some x)
  with assms have "\<exists>s1 r. tc_symbol_table s1 = tc_symbol_table s \<and> s' = bind_import i r s1"
    by (cases x) (auto simp: resolve_import_path_def bind_Some_iff dest: visibility_table split: if_splits)
  then obtain s1 r where "tc_symbol_table s1 = tc_symbol_table s" "s' = bind_import i r s1" by blast
  then show ?thesis using bind_import_bindings [of s1] by simp
qed (use assms in \<open>auto simp: resolve_import_path_def push_error_def\<close>)

lemma fold_bindings:
  assumes "fold_opt f xs s = Some s'"
    and "\<And>x t t'. f x t = Some t' \<Longrightarrow> same_bindings (tc_symbol_table t) (tc_symbol_table t')"
  shows "same_bindings (tc_symbol_table s) (tc_symbol_table s')"
  by (rule fold_opt_rel [where R = "\<lambda>s s'. same_bindings (tc_symbol_table s) (tc_symbol_table s')",
        OF assms(1)]) (use assms(2) in \<open>auto intro: same_bindings_trans\<close>)

lemma import_bindings:
  assumes "resolve_import so i im s = Some s'"
  shows "same_bindings (tc_symbol_table s) (tc_symbol_table s')"
proof (cases "imp_kind im")
  case (Import_Partial items)
  with assms have "fold_opt (resolve_import_item (imp_path im) (imp_location im) i) items s = Some s'"
    by (simp add: resolve_import_def)
  then show ?thesis
    by (rule fold_bindings) (auto simp: resolve_import_item_def Let_def intro: import_path_bindings)
qed (use assms in \<open>auto simp: resolve_import_def intro: import_path_bindings glob_import_bindings
      split: if_splits\<close>)

lemma imports_in_scope_bindings:
  assumes "resolve_imports_in_scope so i s = Some s'"
  shows "same_bindings (tc_symbol_table s) (tc_symbol_table s')"
proof (cases "get_scope (tc_symbol_table s) i")
  case (Some sc)
  with assms have "fold_opt (resolve_import so i) (sc_imports sc) s = Some s'"
    by (simp add: resolve_imports_in_scope_def)
  then show ?thesis by (rule fold_bindings) (rule import_bindings)
qed (use assms in \<open>simp add: resolve_imports_in_scope_def\<close>)

text \<open>The import phase returns on a well-formed table, and after it every name means what it meant
  before: the resolved imports are stored, but no lookup of a variable, a symbol, a type or a method
  consults them.\<close>

theorem imports_change_no_lookup:
  assumes "wf_symtab (tc_symbol_table s)"
  shows "\<exists>s'. resolve_imports scope_ord sym_ord s = Some s'
    \<and> lookup_variable n (tc_symbol_table s') = lookup_variable n (tc_symbol_table s)
    \<and> lookup_symbol n (tc_symbol_table s') = lookup_symbol n (tc_symbol_table s)
    \<and> lookup_type n (tc_symbol_table s') = lookup_type n (tc_symbol_table s)
    \<and> lookup_method ty n (tc_symbol_table s') = lookup_method ty n (tc_symbol_table s)"
proof -
  have "\<exists>s'. resolve_imports scope_ord sym_ord s = Some s' \<and> table_ok s'"
    unfolding resolve_imports_def by (rule fold_table_ok [OF _ assms]) (rule imports_in_scope_returns)
  then obtain s' where s': "resolve_imports scope_ord sym_ord s = Some s'" "table_ok s'" by blast
  have "same_bindings (tc_symbol_table s) (tc_symbol_table s')"
    by (rule fold_bindings [OF s'(1) [unfolded resolve_imports_def] imports_in_scope_bindings])
  note frames = same_bindings_frames [OF this]
  have "lookup_method ty n (tc_symbol_table s') = lookup_method ty n (tc_symbol_table s)"
    using lookup_method_frames [OF s'(2)] lookup_method_frames [OF assms] frames(2) by simp
  with s'(1) same_frames_lookups [OF frames(1) assms s'(2)] show ?thesis by auto
qed

theorem imports_change_no_lookup_witness:
  "\<exists>s'. resolve_imports [0] (\<lambda>_. []) (default_checker (typed_context_new empty_arena)) = Some s'
    \<and> lookup_type ''Point'' (tc_symbol_table s') = lookup_type ''Point'' default_symbol_table"
  using imports_change_no_lookup [of "default_checker (typed_context_new empty_arena)" "[0]" "\<lambda>_. []" "''Point''"]
  by (auto simp: default_checker_table)

section \<open>Validation of type references\<close>

text \<open>The names of a type that have to be known types, with the identifiers they stand in.\<close>

fun checked_names :: "string list \<Rightarrow> ty \<Rightarrow> ident list" where
  "checked_names tps (Type_Array _ _ elem _) = checked_names tps elem"
| "checked_names tps (Type_Generic g) =
     gt_base g # filter (\<lambda>p. ident_name p \<notin> set tps) (gt_parameters g)"
| "checked_names tps (Type_Custom x) = (if ident_name x \<in> set tps then [] else [x])"
| "checked_names tps _ = []"

text \<open>Reporting the unknown ones among some names, in order.\<close>

definition unknown :: "symbol_table \<Rightarrow> ident \<Rightarrow> bool" where
  "unknown st x \<longleftrightarrow> lookup_type (ident_name x) st = Some None"

definition report_unknown :: "ident \<Rightarrow> checker \<Rightarrow> checker" where
  "report_unknown x s =
     (if unknown (tc_symbol_table s) x
      then push_error_dedup (UnknownType (ident_name x) (ident_location x)) s else s)"

lemma report_unknown_table [simp]: "tc_symbol_table (report_unknown x s) = tc_symbol_table s"
  by (simp add: report_unknown_def push_error_dedup_def push_error_def)

lemma validate_params_fold:
  assumes "wf_symtab (tc_symbol_table s)"
  shows "validate_generic_params ps names s =
    Some (fold report_unknown (filter (\<lambda>p. ident_name p \<notin> set names) ps) s)"
  using assms
proof (induction ps arbitrary: s)
  case (Cons p ps)
  obtain r where "lookup_type (ident_name p) (tc_symbol_table s) = Some r"
    using lookups_return(2) [OF Cons.prems] by blast
  then have "validate_generic_params (p # ps) names s =
      validate_generic_params ps names (if ident_name p \<in> set names then s else report_unknown p s)"
    by (simp add: report_unknown_def unknown_def)
  then show ?case using Cons by simp
qed simp

lemma validate_fold:
  assumes "wf_symtab (tc_symbol_table s)"
  shows "validate_type t tps s = Some (fold report_unknown (checked_names (type_parameter_names tps) t) s)"
  using assms
proof (induction t tps s rule: validate_type.induct)
  case (3 g tps s)
  obtain r where "lookup_type (ident_name (gt_base g)) (tc_symbol_table s) = Some r"
    using lookups_return(2) [OF 3] by blast
  then have "validate_type (Type_Generic g) tps s =
      validate_generic_params (gt_parameters g) (type_parameter_names tps) (report_unknown (gt_base g) s)"
    by (simp add: report_unknown_def unknown_def Let_def)
  then show ?case using 3 by (simp add: validate_params_fold)
next
  case (7 x tps s)
  obtain r where "lookup_type (ident_name x) (tc_symbol_table s) = Some r"
    using lookups_return(2) [OF 7] by blast
  then show ?case by (simp add: report_unknown_def unknown_def)
qed simp_all

definition unknown_key :: "ident \<Rightarrow> string" where
  "unknown_key x = ''UnknownType:'' @ ident_name x"

lemma report_fold:
  "\<exists>new. tc_errors (fold report_unknown xs s) =
        tc_errors s @ map (\<lambda>x. UnknownType (ident_name x) (ident_location x)) new
     \<and> distinct (map unknown_key new)
     \<and> set (map unknown_key new) = unknown_key ` {x \<in> set xs. unknown (tc_symbol_table s) x} - tc_reported s
     \<and> tc_reported (fold report_unknown xs s) =
        tc_reported s \<union> unknown_key ` {x \<in> set xs. unknown (tc_symbol_table s) x}
     \<and> set new \<subseteq> set xs"
proof (induction xs arbitrary: s)
  case (Cons x xs)
  let ?s = "report_unknown x s"
  from Cons [of ?s] obtain new where new:
    "tc_errors (fold report_unknown xs ?s) =
        tc_errors ?s @ map (\<lambda>x. UnknownType (ident_name x) (ident_location x)) new"
    "distinct (map unknown_key new)"
    "set (map unknown_key new) = unknown_key ` {x \<in> set xs. unknown (tc_symbol_table s) x} - tc_reported ?s"
    "tc_reported (fold report_unknown xs ?s) =
        tc_reported ?s \<union> unknown_key ` {x \<in> set xs. unknown (tc_symbol_table s) x}" "set new \<subseteq> set xs"
    by auto
  define K where "K = unknown_key ` {y \<in> set xs. unknown (tc_symbol_table s) y}"
  have keys: "unknown_key ` {y \<in> set (x # xs). unknown (tc_symbol_table s) y} =
      (if unknown (tc_symbol_table s) x then insert (unknown_key x) K else K)"
    unfolding K_def by auto
  note new = new [folded K_def]
  show ?case
  proof (cases "unknown (tc_symbol_table s) x \<and> unknown_key x \<notin> tc_reported s")
    case True
    then have s: "tc_errors ?s = tc_errors s @ [UnknownType (ident_name x) (ident_location x)]"
      "tc_reported ?s = insert (unknown_key x) (tc_reported s)"
      by (simp_all add: report_unknown_def push_error_dedup_def push_error_def unknown_key_def)
    show ?thesis unfolding keys
    proof (intro exI [of _ "x # new"] conjI)
      have "unknown_key x \<notin> set (map unknown_key new)" using new(3) s(2) by blast
      then show "distinct (map unknown_key (x # new))" using new(2) by simp
      show "set (map unknown_key (x # new)) =
          (if unknown (tc_symbol_table s) x then insert (unknown_key x) K else K) - tc_reported s"
        using new(3) s(2) True by auto
    qed (use new(1,4,5) s True in auto)
  next
    case False
    then have s: "tc_errors ?s = tc_errors s" "tc_reported ?s = tc_reported s"
      by (auto simp: report_unknown_def push_error_dedup_def unknown_key_def)
    show ?thesis unfolding keys
      by (intro exI [of _ new] conjI) (use False new s in \<open>auto split: if_splits\<close>)
  qed
qed simp

text \<open>Validating a type reference returns on a well-formed table and reports every unknown name of
  the type that was not reported before, once: the element type of an array, the base and the
  arguments of a generic type, a plain name. Type parameters in scope are exempt, except as the base
  of a generic type.\<close>

theorem validate_type_reports:
  assumes "wf_symtab (tc_symbol_table s)"
  shows "\<exists>s' new. validate_type t tps s = Some s'
    \<and> tc_errors s' = tc_errors s @ map (\<lambda>x. UnknownType (ident_name x) (ident_location x)) new
    \<and> distinct (map unknown_key new) \<and> set new \<subseteq> set (checked_names (type_parameter_names tps) t)
    \<and> set (map unknown_key new) =
        unknown_key ` {x \<in> set (checked_names (type_parameter_names tps) t). unknown (tc_symbol_table s) x}
        - tc_reported s"
  using validate_fold [OF assms, of t tps] report_fold [of "checked_names (type_parameter_names tps) t" s]
  by blast

theorem validate_type_reports_witness:
  "\<exists>s'. validate_type (Type_Array 1 default_location (Type_Custom \<lparr>ident_id = 2,
        ident_location = default_location, ident_name = ''T''\<rparr>) (Expr_Uzumaki 3 default_location))
        (Some [\<lparr>ident_id = 4, ident_location = default_location, ident_name = ''T''\<rparr>])
        (default_checker (typed_context_new empty_arena)) = Some s' \<and> tc_errors s' = []"
proof -
  have "wf_symtab (tc_symbol_table (default_checker (typed_context_new empty_arena)))"
    by (simp add: default_checker_table)
  from validate_type_reports [OF this, of "Type_Array 1 default_location (Type_Custom \<lparr>ident_id = 2,
        ident_location = default_location, ident_name = ''T''\<rparr>) (Expr_Uzumaki 3 default_location)"
      "Some [\<lparr>ident_id = 4, ident_location = default_location, ident_name = ''T''\<rparr>]"]
  show ?thesis by (auto simp: type_parameter_names_def default_checker_def)
qed

section \<open>External modules\<close>

lemma try_modify_current:
  "try_modify_scope c f st = Some (Inr st') \<Longrightarrow> st_current_scope st' = st_current_scope st"
  by (auto simp: try_modify_scope_def split: option.splits sum.splits)

lemma registration_keeps_current:
  "register_definition_from_external d st = Some (Inr st') \<Longrightarrow> st_current_scope st' = st_current_scope st"
  by (cases d) (auto simp: register_struct_def register_enum_def register_spec_def register_symbol_def
      register_function_with_visibility_def register_type_def bind_Some_iff
      dest!: try_modify_current split: option.splits)

lemma registration_steps:
  "register_definition_from_external d st = Some (Inr st') \<Longrightarrow> table_step\<^sup>*\<^sup>* st st'"
  by (cases d) (auto simp: register_struct_def register_enum_def register_spec_def bind_Some_iff
      intro!: r_into_rtranclp intro: table_step.intros)

lemma external_registrations:
  "register_external_definitions ds st = Some (err, st') \<Longrightarrow>
     st_current_scope st' = st_current_scope st \<and> table_step\<^sup>*\<^sup>* st st'"
proof (induction ds arbitrary: st)
  case (Cons d ds)
  from Cons.prems obtain r where r: "register_definition_from_external d st = Some r"
    "(case r of Inl e \<Rightarrow> Some (Some e, st) | Inr st' \<Rightarrow> register_external_definitions ds st') = Some (err, st')"
    by (auto simp: bind_Some_iff)
  show ?case
  proof (cases r)
    case (Inr st1)
    with r Cons.IH [of st1] registration_keeps_current [of d st st1] registration_steps [of d st st1]
    show ?thesis by (auto intro: rtranclp_trans)
  qed (use r in auto)
qed simp

text \<open>C40: Loading an external module keeps the table well-formed and everything declared before. When it
  succeeds the current scope is the one it was called from; when a definition cannot be registered,
  the scope of the half-loaded module stays the current one.\<close>

theorem load_external_module_scopes:
  assumes wf: "wf_symtab st" and run: "load_external_module n ord a st = Some (r, st')"
  shows "wf_symtab st' \<and> table_le st st'
    \<and> st_current_scope st' =
        (case r of Inl e \<Rightarrow> Some (st_next_scope_id st) | Inr i \<Rightarrow> st_current_scope st)"
proof -
  from push_scope_with_name_returns [OF wf] obtain path
    where push: "push_scope_with_name n Public st = Some (st_next_scope_id st, pushed st n path Public)" .
  let ?i = "st_next_scope_id st" and ?st1 = "pushed st n path Public"
  obtain err st3 where reg: "register_external_definitions (concat (map src_definitions (source_files ord a)))
      (register_mod_scope ?i ?st1) = Some (err, st3)"
    and fin: "(case err of Some e \<Rightarrow> Some (Inl e, st3)
      | None \<Rightarrow> do { st4 \<leftarrow> pop_scope st3; Some (Inr ?i, st4) }) = Some (r, st')"
    using run push by (auto simp: load_external_module_def bind_Some_iff)
  have "table_step\<^sup>*\<^sup>* st (register_mod_scope ?i ?st1)"
    by (rule rtranclp.rtrancl_into_rtrancl [OF r_into_rtranclp]) (rule step_push [OF push], rule step_mod)
  with external_registrations [OF reg] have steps: "table_step\<^sup>*\<^sup>* st st3"
    and cur: "st_current_scope st3 = Some ?i"
    by (auto simp: register_mod_scope_def split: option.splits)
  note ok = table_steps_wf_le [OF steps wf]
  have parent: "sc_parent sc = st_current_scope st" if "st_scopes st3 ?i = Some sc" for sc
  proof -
    have "wf_symtab (register_mod_scope ?i ?st1)" by (intro register_mod_scope_wf pushed_wf wf)
    from table_steps_wf_le [OF _ this] external_registrations [OF reg]
    have "table_le (register_mod_scope ?i ?st1) st3" by blast
    moreover have "st_scopes (register_mod_scope ?i ?st1) ?i =
        Some (scope_new ?i n path Public (st_current_scope st))"
      by (simp add: register_mod_scope_def pushed_lookup [OF wf] split: option.split)
    ultimately show ?thesis using that by (fastforce simp: table_le_def scope_le_def)
  qed
  show ?thesis
  proof (cases err)
    case None
    from wf_symtabD(2) [OF conjunct1 [OF ok] cur] obtain sc where sc: "st_scopes st3 ?i = Some sc" by blast
    have "st' = st3\<lparr>st_current_scope := sc_parent sc\<rparr>" "r = Inr ?i"
      using fin None cur sc by (auto simp: pop_scope_def)
    moreover have "table_step st3 (st3\<lparr>st_current_scope := sc_parent sc\<rparr>)"
      by (rule step_pop) (simp add: pop_scope_def cur sc)
    ultimately show ?thesis
      using table_steps_wf_le [OF rtranclp.rtrancl_into_rtrancl [OF steps] wf] parent [OF sc] by auto
  qed (use fin ok cur in auto)
qed

theorem load_external_module_scopes_witness:
  "\<exists>st'. load_external_module ''std'' [] empty_arena default_symbol_table = Some (Inr 1, st')
     \<and> st_current_scope st' = Some 0"
proof -
  from push_scope_with_name_returns [OF default_symbol_table_wf, of "''std''" Public] obtain path
    where push: "push_scope_with_name ''std'' Public default_symbol_table =
      Some (1, pushed default_symbol_table ''std'' path Public)" by auto
  have wf: "wf_symtab (register_mod_scope 1 (pushed default_symbol_table ''std'' path Public))"
    by (intro register_mod_scope_wf pushed_wf default_symbol_table_wf)
  obtain st' where "pop_scope (register_mod_scope 1 (pushed default_symbol_table ''std'' path Public)) = Some st'"
    using pop_scope_returns [OF wf] by blast
  then have run: "load_external_module ''std'' [] empty_arena default_symbol_table = Some (Inr 1, st')"
    using push by (simp add: load_external_module_def source_files_def list_nodes_cmp_def List.map_filter_def)
  from load_external_module_scopes [OF default_symbol_table_wf run] run show ?thesis by simp
qed

end
