(* ===== verification/Typing.thy ===== *)
theory Typing
  imports ExprTotal
begin

text \<open>
  The typing rules as a relation, and the soundness of inference with respect to it: when a run of
  \<open>infer_expression\<close> leaves the error list empty, the expression has a type by the rules and that
  type is the answer. The rules come in two strengths. The weak ones (\<open>typed\<close>) are what the checker enforces. The
  strict ones (\<open>documented\<close>) demand in addition what \<open>docs/type-system.md\<close> and \<open>docs/errors.md\<close> of the crate demand and
  the checker does not look at: that the arguments of a call have the types of the parameters (and that there are as many),
  that a struct literal gives every field once and with its type, and that only numbers are ordered.
  \<open>unchecked_rules\<close> is this difference at one node; where it is met, the two agree.

  Inference reads types it recorded before (the arguments of a generic call are inferred twice),
  so the induction carries that every record for a node of the expression is a type of the node.
\<close>

section \<open>The rules\<close>

text \<open>Whether a definition is visible from the current scope.\<close>

definition visible :: "checker \<Rightarrow> visibility \<Rightarrow> nat \<Rightarrow> bool" where
  "visible s vis d \<longleftrightarrow>
     check_visibility vis d (case current_scope_id (tc_symbol_table s) of Some i \<Rightarrow> i | None \<Rightarrow> 0) s
       = Some True"

text \<open>
  The substitution of a generic call without type arguments: every parameter that is a type
  variable is bound to the type of its argument, and every type variable is bound.
\<close>

definition binds_arguments ::
  "(string \<times> type_info) list \<Rightarrow> func_info \<Rightarrow> type_info list \<Rightarrow> bool" where
  "binds_arguments sub sig arg_types \<longleftrightarrow>
     (\<forall>k tp. k < length arg_types \<longrightarrow> k < length (fi_param_types sig)
        \<longrightarrow> ti_kind (fi_param_types sig ! k) = Kind_Generic tp \<longrightarrow> map_of sub tp = Some (arg_types ! k))
     \<and> (\<forall>tp\<in>set (fi_type_params sig). map_of sub tp \<noteq> None)"

text \<open>How the type parameters of a called function are bound: there are none, they are given, or they follow from the arguments.\<close>

definition binds_parameters ::
  "checker \<Rightarrow> func_info \<Rightarrow> ident list option \<Rightarrow> type_info list \<Rightarrow> (string \<times> type_info) list \<Rightarrow> bool" where
  "binds_parameters s sig tps ts sub \<longleftrightarrow>
     (fi_type_params sig = [] \<and> sub = [])
      \<or> (\<exists>ps cts. tps = Some ps \<and> length ps = length (fi_type_params sig)
           \<and> concrete_types ps (tc_symbol_table s) = Some cts
           \<and> sub = fold (\<lambda>(p, t). assoc_insert p t) (zip (fi_type_params sig) cts) [])
      \<or> (tps = None \<and> binds_arguments sub sig ts)"

text \<open>
  A value of a type where another is expected: the two are the same, or name the same struct or enum - the type of an
  annotation is \<open>Custom\<close> with the name, the type of a value has the kind that was declared.
\<close>

fun nominal :: "type_info_kind \<Rightarrow> string option" where
  "nominal (Kind_Custom n) = Some n"
| "nominal (Kind_Struct n) = Some n"
| "nominal (Kind_Enum n) = Some n"
| "nominal _ = None"

definition conforms :: "type_info \<Rightarrow> type_info \<Rightarrow> bool" where
  "conforms t p \<longleftrightarrow> t = p \<or> (\<exists>n. nominal (ti_kind t) = Some n \<and> nominal (ti_kind p) = Some n)"

inductive rules :: "bool \<Rightarrow> checker \<Rightarrow> expression \<Rightarrow> type_info \<Rightarrow> bool" for strict s where
  T_Index: "rules strict s arr at \<Longrightarrow> ti_kind at = Kind_Array et n \<Longrightarrow> rules strict s idx it \<Longrightarrow> is_number it
    \<Longrightarrow> rules strict s (Expr_ArrayIndexAccess i l arr idx) et"
| T_Member: "rules strict s e ot \<Longrightarrow> struct_name_of ot s = Some (Some n)
    \<Longrightarrow> lookup_struct n (tc_symbol_table s) = Some (Some si) \<Longrightarrow> si_fields si (ident_name f) = Some fld
    \<Longrightarrow> visible s (sfi_visibility fld) (si_definition_scope_id si)
    \<Longrightarrow> rules strict s (Expr_MemberAccess i l e f) (sfi_type_info fld)"
| T_Variant: "enum_qualifier_of e = Enum_Named n
    \<Longrightarrow> lookup_enum n (tc_symbol_table s) = Some (Some ei) \<Longrightarrow> ident_name v \<in> ei_variants ei
    \<Longrightarrow> visible s (ei_visibility ei) (ei_definition_scope_id ei)
    \<Longrightarrow> rules strict s (Expr_TypeMemberAccess i l e v) (TypeInfo (Kind_Enum n) [])"
| T_VariantOf: "enum_qualifier_of e = Enum_Expression \<Longrightarrow> rules strict s e t \<Longrightarrow> ti_kind t = Kind_Enum n
    \<Longrightarrow> lookup_enum n (tc_symbol_table s) = Some (Some ei) \<Longrightarrow> ident_name v \<in> ei_variants ei
    \<Longrightarrow> visible s (ei_visibility ei) (ei_definition_scope_id ei)
    \<Longrightarrow> rules strict s (Expr_TypeMemberAccess i l e v) (TypeInfo (Kind_Enum n) [])"
| T_Associated: "associated_method f s = Some (Some (mi, ml, tn, mn, info)) \<Longrightarrow> \<not> is_instance_method info
    \<Longrightarrow> visible s (mi_visibility info) (mi_scope_id info)
    \<Longrightarrow> length (fi_param_types (mi_signature info)) = argument_count args
    \<Longrightarrow> list_all2 (\<lambda>a t. rules strict s (snd a) t) (argument_list args) ts
    \<Longrightarrow> strict \<longrightarrow> list_all2 conforms ts (fi_param_types (mi_signature info))
    \<Longrightarrow> rules strict s (Expr_FunctionCall i l f tps args) (fi_return_type (mi_signature info))"
| T_Method: "call_receiver f = Some (mi, ml, r, n) \<Longrightarrow> rules strict s r rt \<Longrightarrow> struct_name_of rt s = Some (Some tn)
    \<Longrightarrow> lookup_method tn (ident_name n) (tc_symbol_table s) = Some (Some info) \<Longrightarrow> is_instance_method info
    \<Longrightarrow> visible s (mi_visibility info) (mi_scope_id info)
    \<Longrightarrow> length (fi_param_types (mi_signature info)) = argument_count args
    \<Longrightarrow> list_all2 (\<lambda>a t. rules strict s (snd a) t) (argument_list args) ts
    \<Longrightarrow> strict \<longrightarrow> list_all2 conforms ts (fi_param_types (mi_signature info))
    \<Longrightarrow> rules strict s (Expr_FunctionCall i l f tps args) (fi_return_type (mi_signature info))"
| T_Call: "associated_method f s = Some None \<Longrightarrow> call_receiver f = None
    \<Longrightarrow> lookup_function (function_call_name f) (tc_symbol_table s) = Some (Some sig)
    \<Longrightarrow> visible s (fi_visibility sig) (fi_definition_scope_id sig)
    \<Longrightarrow> \<not> wrong_argument_count sig args
    \<Longrightarrow> list_all2 (\<lambda>a t. rules strict s (snd a) t) (argument_list args) ts
    \<Longrightarrow> binds_parameters s sig tps ts sub
    \<Longrightarrow> strict \<longrightarrow> list_all2 conforms ts (map (\<lambda>p. substitute p sub) (fi_param_types sig))
    \<Longrightarrow> rules strict s (Expr_FunctionCall i l f tps args) (substitute (fi_return_type sig) sub)"
| T_Struct: "\<not> strict \<Longrightarrow> lookup_type (ident_name n) (tc_symbol_table s) = Some (Some t)
    \<Longrightarrow> rules strict s (Expr_Struct i l n flds) t"
| T_Fields: "lookup_type (ident_name n) (tc_symbol_table s) = Some (Some t)
    \<Longrightarrow> lookup_struct (ident_name n) (tc_symbol_table s) = Some (Some si)
    \<Longrightarrow> distinct (map (\<lambda>f. ident_name (fst f)) (argument_list flds))
    \<Longrightarrow> set (map (\<lambda>f. ident_name (fst f)) (argument_list flds)) = dom (si_fields si)
    \<Longrightarrow> list_all2 (\<lambda>f ft. rules strict s (snd f) ft) (argument_list flds) fts
    \<Longrightarrow> list_all2 (\<lambda>f ft. \<exists>fld. si_fields si (ident_name (fst f)) = Some fld \<and> conforms ft (sfi_type_info fld))
          (argument_list flds) fts
    \<Longrightarrow> rules strict s (Expr_Struct i l n flds) t"
| T_Unary: "rules strict s e t \<Longrightarrow> unary_operand_ok op t \<Longrightarrow> rules strict s (Expr_PrefixUnary i l e op) t"
| T_Parenthesized: "rules strict s e t \<Longrightarrow> rules strict s (Expr_Parenthesized i l e) t"
| T_Logical: "operator_class_of op = Logical \<Longrightarrow> rules strict s a t \<Longrightarrow> rules strict s b t \<Longrightarrow> is_bool t
    \<Longrightarrow> rules strict s (Expr_Binary i l a op b) boolean_type"
| T_Comparison: "operator_class_of op = Comparison \<Longrightarrow> rules strict s a t \<Longrightarrow> rules strict s b t
    \<Longrightarrow> strict \<longrightarrow> op \<in> {Op_Eq, Op_Ne} \<or> is_number t
    \<Longrightarrow> rules strict s (Expr_Binary i l a op b) boolean_type"
| T_Arithmetic: "operator_class_of op = Arithmetic \<Longrightarrow> rules strict s a t \<Longrightarrow> rules strict s b t \<Longrightarrow> is_number t
    \<Longrightarrow> rules strict s (Expr_Binary i l a op b) t"
| T_Array: "rules strict s e t \<Longrightarrow> list_all (\<lambda>x. rules strict s x t) es
    \<Longrightarrow> rules strict s (Expr_Literal (Lit_Array i l (Some (e # es))))
          (TypeInfo (Kind_Array t (length (e # es) mod 2 ^ 32)) [])"
| T_Bool: "rules strict s (Expr_Literal (Lit_Bool i l b)) boolean_type"
| T_String: "rules strict s (Expr_Literal (Lit_String i l v)) string_type"
| T_Number: "t = (case node_typeinfo i s of Some t' \<Rightarrow> t' | None \<Rightarrow> TypeInfo (Kind_Number Num_I32) [])
    \<Longrightarrow> rules strict s (Expr_Literal (Lit_Number i l v)) t"
| T_Unit: "rules strict s (Expr_Literal (Lit_Unit i l)) default_type_info"
| T_Variable: "lookup_variable (ident_name x) (tc_symbol_table s) = Some (Some t)
    \<Longrightarrow> rules strict s (Expr_Identifier x) t"
| T_Type: "type_info_new t = Some ti \<Longrightarrow> rules strict s (Expr_Type t) ti"

abbreviation typed :: "checker \<Rightarrow> expression \<Rightarrow> type_info \<Rightarrow> bool" where
  "typed \<equiv> rules False"

abbreviation documented :: "checker \<Rightarrow> expression \<Rightarrow> type_info \<Rightarrow> bool" where
  "documented \<equiv> rules True"

section \<open>The nodes of an expression\<close>

text \<open>The expressions a run on \<open>e\<close> visits, \<open>e\<close> first.\<close>

function (sequential) visited :: "expression \<Rightarrow> expression list" where
  "visited (Expr_ArrayIndexAccess i l arr idx) =
     Expr_ArrayIndexAccess i l arr idx # visited arr @ visited idx"
| "visited (Expr_Binary i l a op b) = Expr_Binary i l a op b # visited a @ visited b"
| "visited (Expr_MemberAccess i l e n) = Expr_MemberAccess i l e n # visited e"
| "visited (Expr_TypeMemberAccess i l e n) = Expr_TypeMemberAccess i l e n #
     (case enum_qualifier_of e of Enum_Expression \<Rightarrow> visited e | _ \<Rightarrow> [])"
| "visited (Expr_FunctionCall i l f tps args) = Expr_FunctionCall i l f tps args #
     concat (map (\<lambda>a. visited (snd a)) (argument_list args))
     @ (case call_receiver f of None \<Rightarrow> [] | Some (_, _, r, _) \<Rightarrow> visited r)"
| "visited (Expr_PrefixUnary i l e op) = Expr_PrefixUnary i l e op # visited e"
| "visited (Expr_Parenthesized i l e) = Expr_Parenthesized i l e # visited e"
| "visited (Expr_Literal (Lit_Array i l es)) = Expr_Literal (Lit_Array i l es) #
     concat (map visited (argument_list es))"
| "visited (Expr_Type t) = Expr_Type t #
     (case array_size_of t of None \<Rightarrow> [] | Some sz \<Rightarrow> visited sz)"
| "visited e = [e]"
  by pat_completeness auto

termination
proof (relation "measure size", goal_cases)
  case (8 i l f tps args a)
  then show ?case
    using argument_size [of a "argument_list args"]
      argument_list_size [of "size_prod (\<lambda>_. 0) size" args "size f"] by simp
next
  case (9 i l f tps args a b c d e g h)
  then show ?case by (auto intro: call_receiver_size')
next
  case (12 i l es a)
  then show ?case
    using element_size [of a "argument_list es"] argument_list_size [of size es 0] by simp
next
  case (13 t a)
  then show ?case by (auto intro: array_size_of_size)
qed auto

text \<open>
  The nodes that look for a recorded type before they are inferred, the identifiers a node
  records under, and the nodes whose type comes from the context (an uzumaki) or from nowhere (an
  array literal without elements).
\<close>

fun reads_record :: "expression \<Rightarrow> bool" where
  "reads_record (Expr_ArrayIndexAccess _ _ _ _) = True"
| "reads_record (Expr_Binary _ _ _ _ _) = True"
| "reads_record (Expr_MemberAccess _ _ _ _) = True"
| "reads_record (Expr_TypeMemberAccess _ _ _ _) = True"
| "reads_record (Expr_Struct _ _ _ _) = True"
| "reads_record (Expr_Literal (Lit_Array _ _ _)) = True"
| "reads_record (Expr_Literal (Lit_Number _ _ _)) = True"
| "reads_record _ = False"

fun records_under :: "expression \<Rightarrow> nat set" where
  "records_under (Expr_FunctionCall i _ f _ _) = {i, expression_id f}"
| "records_under e = {expression_id e}"

fun context_free :: "expression \<Rightarrow> bool" where
  "context_free (Expr_Uzumaki _ _) = False"
| "context_free (Expr_Literal (Lit_Array _ _ None)) = False"
| "context_free _ = True"

text \<open>
  The identifiers are used as the parser assigns them: what a node records is looked up by that
  node only.
\<close>

definition separate_nodes :: "expression set \<Rightarrow> bool" where
  "separate_nodes U \<longleftrightarrow>
     (\<forall>a\<in>U. \<forall>b\<in>U. reads_record b \<longrightarrow> expression_id b \<in> records_under a \<longrightarrow> a = b)"

text \<open>Every record for a node of \<open>U\<close> is a type of the node; no error has been suppressed.\<close>

definition records_ok :: "checker \<Rightarrow> expression set \<Rightarrow> checker \<Rightarrow> bool" where
  "records_ok s0 U s \<longleftrightarrow>
     tc_symbol_table s = tc_symbol_table s0 \<and> tc_reported s = {}
     \<and> (\<forall>i. node_typeinfo i s0 \<noteq> None \<longrightarrow> node_typeinfo i s \<noteq> None)
     \<and> (\<forall>e\<in>U. reads_record e \<longrightarrow> (\<forall>t. node_typeinfo (expression_id e) s = Some t \<longrightarrow> typed s0 e t))"

section \<open>What the checker leaves to the program\<close>

text \<open>The parameters of the function, method or associated function a call names, with its type parameters bound.\<close>

definition parameters_of ::
  "checker \<Rightarrow> expression \<Rightarrow> ident list option \<Rightarrow> type_info list \<Rightarrow> type_info list \<Rightarrow> bool" where
  "parameters_of s f tps ts ps \<longleftrightarrow>
     (\<exists>mi ml tn mn info. associated_method f s = Some (Some (mi, ml, tn, mn, info)) \<and> ps = fi_param_types (mi_signature info))
     \<or> (\<exists>mi ml r n rt tn info. call_receiver f = Some (mi, ml, r, n) \<and> typed s r rt \<and> struct_name_of rt s = Some (Some tn)
          \<and> lookup_method tn (ident_name n) (tc_symbol_table s) = Some (Some info) \<and> ps = fi_param_types (mi_signature info))
     \<or> (\<exists>sig sub. associated_method f s = Some None \<and> call_receiver f = None
          \<and> lookup_function (function_call_name f) (tc_symbol_table s) = Some (Some sig)
          \<and> binds_parameters s sig tps ts sub \<and> ps = map (\<lambda>p. substitute p sub) (fi_param_types sig))"

text \<open>
  The documented rules no check stands for, at one node: the arguments of a call fit the parameters, a struct literal
  that names a type has it, ordered operands are numbers.
\<close>

fun unchecked_rules :: "checker \<Rightarrow> expression \<Rightarrow> bool" where
  "unchecked_rules s (Expr_FunctionCall i l f tps args) \<longleftrightarrow>
     (\<forall>ts ps. list_all2 (\<lambda>a t. typed s (snd a) t) (argument_list args) ts \<longrightarrow> parameters_of s f tps ts ps
        \<longrightarrow> list_all2 conforms ts ps)"
| "unchecked_rules s (Expr_Struct i l n flds) \<longleftrightarrow>
     (\<forall>t. lookup_type (ident_name n) (tc_symbol_table s) = Some (Some t) \<longrightarrow> documented s (Expr_Struct i l n flds) t)"
| "unchecked_rules s (Expr_Binary i l a op b) \<longleftrightarrow>
     (op \<in> {Op_Lt, Op_Le, Op_Gt, Op_Ge} \<longrightarrow> (\<forall>t. typed s a t \<longrightarrow> typed s b t \<longrightarrow> is_number t))"
| "unchecked_rules s _ \<longleftrightarrow> True"

lemma visited_receiver: "call_receiver f = Some (mi, ml, r, n) \<Longrightarrow> set (visited r) \<subseteq> set (visited (Expr_FunctionCall i l f tps args))"
  by auto

lemma documented_arguments:
  assumes "list_all2 (\<lambda>a t. typed s (snd a) t \<and> ((\<forall>x\<in>set (visited (snd a)). unchecked_rules s x) \<longrightarrow> documented s (snd a) t)) as ts"
    and "\<forall>a\<in>set as. \<forall>x\<in>set (visited (snd a)). unchecked_rules s x"
  shows "list_all2 (\<lambda>a t. typed s (snd a) t) as ts" "list_all2 (\<lambda>a t. documented s (snd a) t) as ts"
  using assms unfolding list_all2_conv_all_nth by (simp, metis nth_mem)

lemma typed_documented:
  "typed s e t \<Longrightarrow> \<forall>x\<in>set (visited e). unchecked_rules s x \<Longrightarrow> documented s e t"
proof (induction rule: rules.induct)
  case (T_Associated f mi ml tn mn info args ts i l tps)
  have all: "\<forall>a\<in>set (argument_list args). \<forall>x\<in>set (visited (snd a)). unchecked_rules s x" using T_Associated.prems by auto
  note args = documented_arguments [OF T_Associated.IH all]
  have "parameters_of s f tps ts (fi_param_types (mi_signature info))"
    using T_Associated.hyps(1) unfolding parameters_of_def by blast
  then have "list_all2 conforms ts (fi_param_types (mi_signature info))"
    using T_Associated.prems args(1) by auto
  then show ?case by (intro rules.T_Associated [OF T_Associated.hyps(1-4) args(2)]) simp
next
  case (T_Method f mi ml r n rt tn info args ts i l tps)
  have all: "\<forall>a\<in>set (argument_list args). \<forall>x\<in>set (visited (snd a)). unchecked_rules s x" using T_Method.prems by auto
  note args = documented_arguments [OF T_Method.IH(2) all]
  have r: "documented s r rt" using T_Method.IH(1) T_Method.prems visited_receiver [OF T_Method.hyps(1)] by blast
  have "parameters_of s f tps ts (fi_param_types (mi_signature info))"
    using T_Method.hyps(1-4) unfolding parameters_of_def by blast
  then have "list_all2 conforms ts (fi_param_types (mi_signature info))"
    using T_Method.prems args(1) by auto
  then show ?case by (intro rules.T_Method [OF T_Method.hyps(1) r T_Method.hyps(3-7) args(2)]) simp
next
  case (T_Call f sig args ts tps sub i l)
  have all: "\<forall>a\<in>set (argument_list args). \<forall>x\<in>set (visited (snd a)). unchecked_rules s x" using T_Call.prems by auto
  note args = documented_arguments [OF T_Call.IH all]
  have "parameters_of s f tps ts (map (\<lambda>p. substitute p sub) (fi_param_types sig))"
    using T_Call.hyps unfolding parameters_of_def by blast
  then have "list_all2 conforms ts (map (\<lambda>p. substitute p sub) (fi_param_types sig))"
    using T_Call.prems args(1) by auto
  then show ?case by (intro rules.T_Call [OF T_Call.hyps(1-5) args(2) T_Call.hyps(6)]) simp
next
  case (T_Comparison op a t b i l)
  then have "documented s a t" "documented s b t" by simp_all
  moreover have "op \<in> {Op_Eq, Op_Ne} \<or> is_number t"
    using T_Comparison by (cases op) auto
  ultimately show ?case by (intro rules.T_Comparison [OF T_Comparison.hyps(1)]) simp_all
next
  case (T_Array e t es i l)
  then have "documented s e t" "list_all (\<lambda>x. documented s x t) es" by (auto simp: list_all_iff argument_list_def)
  then show ?case by (rule rules.T_Array)
qed (auto intro: rules.intros)

section \<open>Soundness of the single steps\<close>

lemma push_not_empty [simp]:
  "tc_errors (push_error e s) \<noteq> []"
  "tc_reported s = {} \<Longrightarrow> tc_errors (push_error_dedup e s) \<noteq> []"
  by (simp_all add: push_error_def push_error_dedup_def split: option.split)

lemma note_simps [simp]:
  "tc_errors (set_node_typeinfo i t s) = tc_errors s"
  "tc_reported (set_node_typeinfo i t s) = tc_reported s"
  "node_typeinfo j (set_node_typeinfo i t s) = (if j = i then Some t else node_typeinfo j s)"
  by (simp_all add: set_node_typeinfo_def cx_set_node_typeinfo_def node_typeinfo_def get_node_typeinfo_def)

lemma grows_empty: "grows s s' \<Longrightarrow> tc_errors s' = [] \<Longrightarrow> tc_errors s = []"
  by (simp add: grows_def)

lemma records_okD:
  assumes "records_ok s0 U s"
  shows "tc_symbol_table s = tc_symbol_table s0" "tc_reported s = {}"
    and "node_typeinfo i s = None \<Longrightarrow> node_typeinfo i s0 = None"
    and "e \<in> U \<Longrightarrow> reads_record e \<Longrightarrow> node_typeinfo (expression_id e) s = Some t \<Longrightarrow> typed s0 e t"
  using assms unfolding records_ok_def by blast+

text \<open>A node records a type it has.\<close>

lemma records_ok_note:
  assumes ok: "records_ok s0 U s" and sep: "separate_nodes U" and e: "e \<in> U"
    and i: "i \<in> records_under e" and t: "reads_record e \<Longrightarrow> typed s0 e t"
  shows "records_ok s0 U (set_node_typeinfo i t s)"
proof -
  have "typed s0 b t'" if b: "b \<in> U" "reads_record b"
    "node_typeinfo (expression_id b) (set_node_typeinfo i t s) = Some t'" for b t'
  proof (cases "expression_id b = i")
    case True
    then have "b = e" using sep b(1,2) e i by (auto simp: separate_nodes_def)
    then show ?thesis using b True t by simp
  next
    case False
    then show ?thesis using records_okD(4) [OF ok b(1,2)] b(3) by simp
  qed
  moreover have "node_typeinfo j (set_node_typeinfo i t s) \<noteq> None" if "node_typeinfo j s0 \<noteq> None" for j
    using records_okD(3) [OF ok, of j] that by auto
  ultimately show ?thesis
    unfolding records_ok_def using records_okD(1,2) [OF ok] by (metis note_simps(2) table_simps(3))
qed

text \<open>The table-reading functions see the table only.\<close>

lemma same_table_reads:
  assumes "tc_symbol_table s = tc_symbol_table s0"
  shows "struct_name_of t s = struct_name_of t s0" "associated_method f s = associated_method f s0"
    "check_visibility vis d a s = check_visibility vis d a s0"
proof -
  show "struct_name_of t s = struct_name_of t s0"
    by (cases "ti_kind t") (simp_all add: struct_name_of_def assms)
  show "check_visibility vis d a s = check_visibility vis d a s0" using assms by (cases vis) simp_all
  show "associated_method f s = associated_method f s0"
    by (cases f) (simp_all add: assms split: option.split)
qed

lemma visibility_sound:
  assumes "check_and_report_visibility vis d l cx s = Some (b, s')" "tc_errors s' = []"
    "tc_symbol_table s = tc_symbol_table s0"
  shows "s' = s" "visible s0 vis d"
  using assms same_table_reads(3) [OF assms(3)]
  by (auto simp: check_and_report_visibility_def visible_def Let_def elim!: bind_SomeE split: if_splits)

lemma index_sound:
  assumes "array_index_result i l at (check_index_type l it s) = (t, s')" "tc_errors s' = []"
  obtains et n where "ti_kind at = Kind_Array et n" "t = Some et" "s' = set_node_typeinfo i et s"
    "\<forall>t'. it = Some t' \<longrightarrow> is_number t'"
proof -
  from assms obtain et n where k: "ti_kind at = Kind_Array et n" "t = Some et"
    "s' = set_node_typeinfo i et (check_index_type l it s)"
    by (auto simp: array_index_result_def split: type_info_kind.splits)
  with assms(2) have "tc_errors (check_index_type l it s) = []" by simp
  then have "check_index_type l it s = s" "\<forall>t'. it = Some t' \<longrightarrow> is_number t'"
    by (auto simp: check_index_type_def split: option.splits if_splits)
  with k that show thesis by simp
qed

lemma member_sound:
  assumes "member_access_result i l f ot s = Some (t, s')" "tc_errors s' = []" "records_ok s0 U s"
  obtains n si fld where "struct_name_of ot s0 = Some (Some n)"
    "lookup_struct n (tc_symbol_table s0) = Some (Some si)" "si_fields si f = Some fld"
    "visible s0 (sfi_visibility fld) (si_definition_scope_id si)"
    "t = Some (sfi_type_info fld)" "s' = set_node_typeinfo i (sfi_type_info fld) s"
proof -
  note st = records_okD(1) [OF assms(3)]
  from assms(1,2) obtain n si fld b s1 where r: "struct_name_of ot s = Some (Some n)"
    "lookup_struct n (tc_symbol_table s) = Some (Some si)" "si_fields si f = Some fld"
    "check_and_report_visibility (sfi_visibility fld) (si_definition_scope_id si) l (Vis_Field n f) s = Some (b, s1)"
    "t = Some (sfi_type_info fld)" "s' = set_node_typeinfo i (sfi_type_info fld) s1"
    by (auto simp: member_access_result_def elim!: bind_SomeE split: option.splits prod.splits)
  with assms(2) have "tc_errors s1 = []" by simp
  from visibility_sound [OF r(4) this st] r st that show thesis
    by (simp add: same_table_reads [OF st])
qed

lemma variant_sound:
  assumes "enum_variant_result i l n v s = Some (t, s')" "tc_errors s' = []" "records_ok s0 U s"
  obtains ei where "lookup_enum n (tc_symbol_table s0) = Some (Some ei)" "v \<in> ei_variants ei"
    "visible s0 (ei_visibility ei) (ei_definition_scope_id ei)"
    "t = Some (TypeInfo (Kind_Enum n) [])" "s' = set_node_typeinfo i (TypeInfo (Kind_Enum n) []) s"
proof -
  note st = records_okD(1) [OF assms(3)] and rep = records_okD(2) [OF assms(3)]
  from assms(1,2) rep obtain ei b s1 where r: "lookup_enum n (tc_symbol_table s) = Some (Some ei)"
    "v \<in> ei_variants ei"
    "check_and_report_visibility (ei_visibility ei) (ei_definition_scope_id ei) l (Vis_Enum n) s = Some (b, s1)"
    "t = Some (TypeInfo (Kind_Enum n) [])" "s' = set_node_typeinfo i (TypeInfo (Kind_Enum n) []) s1"
    by (auto simp: enum_variant_result_def Let_def elim!: bind_SomeE split: option.splits prod.splits if_splits)
  with assms(2) have "tc_errors s1 = []" by simp
  from visibility_sound [OF r(3) this st] r st that show thesis by simp
qed

lemma signature_sound:
  assumes "check_method_signature tn mn ml l k info s = Some s'" "tc_errors s' = []" "records_ok s0 U s"
  shows "s' = s" "visible s0 (mi_visibility info) (mi_scope_id info)"
    "length (fi_param_types (mi_signature info)) = k"
proof -
  from assms(1,2) obtain b s1 where r: "check_and_report_visibility (mi_visibility info) (mi_scope_id info) ml
      (Vis_Method tn mn) s = Some (b, s1)" "s' = s1" "length (fi_param_types (mi_signature info)) = k"
    by (auto simp: check_method_signature_def Let_def elim!: bind_SomeE split: if_splits prod.splits)
  with assms(2) visibility_sound [OF r(1) _ records_okD(1) [OF assms(3)]]
  show "s' = s" "visible s0 (mi_visibility info) (mi_scope_id info)"
    "length (fi_param_types (mi_signature info)) = k" by simp_all
qed

lemma no_error_signature:
  "check_method_signature tn mn ml l k info s = Some s' \<Longrightarrow> tc_errors s' = [] \<Longrightarrow> tc_errors s = []"
  by (rule grows_empty [OF growth.R_method_signature [OF _ growth.R_refl]])

lemma calls_sound:
  assumes "records_ok s0 U s" "tc_errors s' = []"
  shows "check_associated_call tn mn ml l k info s = Some s' \<Longrightarrow> \<not> is_instance_method info
      \<and> s' = s \<and> visible s0 (mi_visibility info) (mi_scope_id info)
      \<and> length (fi_param_types (mi_signature info)) = k"
    "check_instance_call tn mn ml l k info s = Some s' \<Longrightarrow> is_instance_method info
      \<and> s' = s \<and> visible s0 (mi_visibility info) (mi_scope_id info)
      \<and> length (fi_param_types (mi_signature info)) = k"
  using signature_sound [OF _ assms(2,1)] no_error_signature [OF _ assms(2)]
  by (fastforce simp: check_associated_call_def check_instance_call_def split: if_splits)+

lemma operators_sound:
  "unary_result i l op ot s = (t, s') \<Longrightarrow> tc_errors s' = [] \<Longrightarrow> ot = Some t1
   \<Longrightarrow> unary_operand_ok op t1 \<and> t = Some t1 \<and> s' = set_node_typeinfo i t1 s"
  "binary_result i l bop (Some lt) (Some rt) s = (t, s') \<Longrightarrow> tc_errors s' = []
   \<Longrightarrow> lt = rt \<and> (case operator_class_of bop of
         Logical \<Rightarrow> is_bool lt \<and> t = Some boolean_type \<and> s' = set_node_typeinfo i boolean_type s
       | Comparison \<Rightarrow> t = Some boolean_type \<and> s' = set_node_typeinfo i boolean_type s
       | Arithmetic \<Rightarrow> is_number lt \<and> t = Some lt \<and> s' = set_node_typeinfo i lt s)"
  by (auto simp: unary_result_def binary_result_def Let_def split: if_splits operator_class.splits)

section \<open>Soundness\<close>

definition sound :: "checker \<Rightarrow> expression set \<Rightarrow> expression \<Rightarrow> bool" where
  "sound s0 U e \<longleftrightarrow>
     (\<forall>s t s'. records_ok s0 U s \<longrightarrow> infer_expression e s = Some (t, s') \<longrightarrow> tc_errors s' = [] \<longrightarrow>
        (\<exists>t'. t = Some t' \<and> typed s0 e t' \<and> records_ok s0 U s'))"

lemma soundD:
  assumes "sound s0 U e" "records_ok s0 U s" "infer_expression e s = Some (t, s')" "tc_errors s' = []"
  obtains t' where "t = Some t'" "typed s0 e t'" "records_ok s0 U s'"
  using assms unfolding sound_def by blast

lemma infer_no_error: "infer_expression e s = Some (t, s') \<Longrightarrow> tc_errors s' = [] \<Longrightarrow> tc_errors s = []"
  using growth.infer_expression_rel grows_empty by blast

lemma arguments_no_error: "infer_arguments as s = Some s' \<Longrightarrow> tc_errors s' = [] \<Longrightarrow> tc_errors s = []"
  using growth.infer_arguments_respects grows_empty by blast

lemma arguments_sound:
  assumes "\<And>a. a \<in> set as \<Longrightarrow> sound s0 U (snd a)" "records_ok s0 U s"
    "infer_arguments as s = Some s'" "tc_errors s' = []"
  shows "records_ok s0 U s' \<and> (\<forall>k<length as. \<exists>t. typed s0 (snd (as ! k)) t)"
  using assms
proof (induction as arbitrary: s)
  case (Cons a as)
  obtain n e where a: "a = (n, e)" by (cases a)
  from Cons.prems(3) a obtain t s1
    where r: "infer_expression e s = Some (t, s1)" "infer_arguments as s1 = Some s'"
    by (auto elim!: bind_SomeE)
  have e: "sound s0 U e" using Cons.prems(1) a by force
  obtain t' where t': "typed s0 e t'" "records_ok s0 U s1"
    by (rule soundD [OF e Cons.prems(2) r(1) arguments_no_error [OF r(2) Cons.prems(4)]])
  have "records_ok s0 U s' \<and> (\<forall>k<length as. \<exists>t. typed s0 (snd (as ! k)) t)"
    using Cons.IH [OF _ t'(2) r(2) Cons.prems(4)] Cons.prems(1) by simp
  with t'(1) show ?case by (auto simp: a nth_Cons split: nat.split)
qed simp

lemma elements_no_error:
  "infer_elements et l es s = Some s' \<Longrightarrow> tc_errors s' = [] \<Longrightarrow> tc_errors s = []"
  using growth.infer_elements_rel [OF growth.infer_respects] growth.R_refl grows_empty by blast

lemma elements_sound:
  assumes "\<And>e. e \<in> set es \<Longrightarrow> sound s0 U e" "records_ok s0 U s"
    "infer_elements et l es s = Some s'" "tc_errors s' = []"
  shows "records_ok s0 U s' \<and> list_all (\<lambda>x. typed s0 x et) es"
  using assms
proof (induction es arbitrary: s)
  case (Cons e es)
  from Cons.prems(3) obtain t s1
    where r: "infer_expression e s = Some (t, s1)" "infer_elements et l es (check_element et l t s1) = Some s'"
    by (auto elim!: bind_SomeE)
  have c: "tc_errors (check_element et l t s1) = []" by (rule elements_no_error [OF r(2) Cons.prems(4)])
  then have c': "check_element et l t s1 = s1" "t \<noteq> None \<Longrightarrow> t = Some et"
    by (auto simp: check_element_def split: option.splits if_splits)
  have "sound s0 U e" using Cons.prems(1) by simp
  then obtain t' where t': "t = Some t'" "typed s0 e t'" "records_ok s0 U s1"
    using soundD [OF _ Cons.prems(2) r(1)] c c'(1) by metis
  then show ?case using Cons.IH [OF _ t'(3)] r(2) c' Cons.prems(1,4) by simp
qed simp

lemma type_params_no_error:
  "infer_type_params ps as l sub s = Some (sub', s') \<Longrightarrow> tc_errors s' = [] \<Longrightarrow> tc_errors s = []"
  using growth.infer_type_params_rel [OF growth.infer_respects] growth.R_refl grows_empty by blast

lemma note_argument_sound:
  assumes "tc_errors (snd (note_type_argument tp l (Some t) sub s)) = []"
  shows "snd (note_type_argument tp l (Some t) sub s) = s"
    "map_of (fst (note_type_argument tp l (Some t) sub s)) tp = Some t"
    "map_of sub \<subseteq>\<^sub>m map_of (fst (note_type_argument tp l (Some t) sub s))"
  using assms by (auto simp: note_type_argument_def map_le_def split: option.splits if_splits)

lemma type_params_sound:
  assumes "\<And>a. a \<in> set as \<Longrightarrow> sound s0 U (snd a)" "records_ok s0 U s"
    "infer_type_params ps as l sub s = Some (sub', s')" "tc_errors s' = []"
  shows "records_ok s0 U s' \<and> map_of sub \<subseteq>\<^sub>m map_of sub'
    \<and> (\<forall>k tp. k < length as \<longrightarrow> k < length ps \<longrightarrow> ti_kind (ps ! k) = Kind_Generic tp
          \<longrightarrow> (\<exists>t. typed s0 (snd (as ! k)) t \<and> map_of sub' tp = Some t))"
  using assms
proof (induction ps arbitrary: as sub s)
  case (Cons p ps)
  show ?case
  proof (cases as)
    case (Cons a as')
    obtain n e where a: "a = (n, e)" by (cases a)
    have e: "sound s0 U e" and as': "\<And>a. a \<in> set as' \<Longrightarrow> sound s0 U (snd a)"
      using Cons.prems(1) by (force simp: Cons a)+
    show ?thesis
    proof (cases "\<exists>tp. ti_kind p = Kind_Generic tp")
      case True
      then obtain tp where tp: "ti_kind p = Kind_Generic tp" by blast
      from Cons.prems(3) obtain t s2 where s2: "infer_expression e s = Some (t, s2)"
        "infer_type_params ps as' l (fst (note_type_argument tp l t sub s2))
           (snd (note_type_argument tp l t sub s2)) = Some (sub', s')"
        by (auto simp: Cons a tp elim!: bind_SomeE split: prod.splits)
      have n: "tc_errors (snd (note_type_argument tp l t sub s2)) = []"
        by (rule type_params_no_error [OF s2(2) Cons.prems(4)])
      have "grows s2 (snd (note_type_argument tp l t sub s2))"
        by (rule growth.R_note_argument [OF prod.collapse [symmetric] growth.R_refl])
      then have "tc_errors s2 = []" using n by (rule grows_empty)
      then obtain t' where t': "t = Some t'" "typed s0 e t'" "records_ok s0 U s2"
        using soundD [OF e Cons.prems(2) s2(1)] by blast
      note na = note_argument_sound [OF n [unfolded t'(1)]]
      from Cons.IH [OF as' t'(3) s2(2) [unfolded t'(1) na(1)] Cons.prems(4)] na(2,3)
      show ?thesis using t'(2) tp
        by (auto simp: Cons a nth_Cons map_le_def dom_def split: nat.splits)
    next
      case False
      then have "infer_type_params ps as' l sub s = Some (sub', s')"
        using Cons.prems(3) by (auto simp: Cons a split: type_info_kind.splits)
      from Cons.IH [OF as' Cons.prems(2) this Cons.prems(4)] False show ?thesis
        by (auto simp: Cons a nth_Cons split: nat.splits)
    qed
  qed (use Cons.prems in simp)
qed simp

lemma uninferred_sound:
  "tc_errors (report_uninferred sig l sub s) = [] \<Longrightarrow>
     report_uninferred sig l sub s = s \<and> (\<forall>tp\<in>set (fi_type_params sig). map_of sub tp \<noteq> None)"
proof -
  let ?f = "\<lambda>tp s. if map_of sub tp = None then push_error (CannotInferTypeParameter (fi_name sig) tp l) s else s"
  have keep: "tc_errors s = []" if "tc_errors (fold ?f tps s) = []" for tps s
    using that
  proof (induction tps arbitrary: s)
    case (Cons tp tps)
    from Cons.IH [of "?f tp s"] Cons.prems have "tc_errors (?f tp s) = []" by simp
    then show ?case by (metis push_not_empty(1))
  qed simp
  have "tc_errors (fold ?f tps s) = [] \<Longrightarrow> fold ?f tps s = s \<and> (\<forall>tp\<in>set tps. map_of sub tp \<noteq> None)"
    for tps s
  proof (induction tps arbitrary: s)
    case (Cons tp tps)
    then have "tc_errors (fold ?f tps (?f tp s)) = []" by simp
    from keep [OF this] have "map_of sub tp \<noteq> None" by (metis push_not_empty(1))
    then obtain y where "map_of sub tp = Some y" by blast
    with Cons show ?case by simp
  qed simp
  then show "tc_errors (report_uninferred sig l sub s) = [] \<Longrightarrow>
     report_uninferred sig l sub s = s \<and> (\<forall>tp\<in>set (fi_type_params sig). map_of sub tp \<noteq> None)"
    unfolding report_uninferred_def by blast
qed

lemma finish_sound:
  assumes "tc_errors (finish_type_inference n sig b l sub s) = []" "fi_type_params sig \<noteq> []"
    "\<not> b \<Longrightarrow> sub = []"
  shows "finish_type_inference n sig b l sub s = s" "b"
    "\<forall>tp\<in>set (fi_type_params sig). map_of sub tp \<noteq> None"
  using assms uninferred_sound [of sig l sub s]
  by (auto simp: finish_type_inference_def report_missing_def split: if_splits)

lemma start_call_sound:
  assumes "start_function_call n l tps args s = Some (plan, s')" "tc_errors s' = []" "records_ok s0 U s"
  obtains sig where "lookup_function n (tc_symbol_table s0) = Some (Some sig)"
    "visible s0 (fi_visibility sig) (fi_definition_scope_id sig)" "\<not> wrong_argument_count sig args"
    "s' = s"
    "(plan = Call_Ready sig [] \<and> fi_type_params sig = [])
     \<or> (\<exists>ps cts. tps = Some ps \<and> length ps = length (fi_type_params sig)
          \<and> concrete_types ps (tc_symbol_table s0) = Some cts
          \<and> plan = Call_Ready sig (fold (\<lambda>(p, t). assoc_insert p t) (zip (fi_type_params sig) cts) []))
     \<or> (tps = None \<and> plan = Call_Infers sig \<and> fi_type_params sig \<noteq> [])"
proof -
  note st = records_okD(1) [OF assms(3)] and rep = records_okD(2) [OF assms(3)]
  obtain sig b s1 where r: "lookup_function n (tc_symbol_table s) = Some (Some sig)"
    "check_and_report_visibility (fi_visibility sig) (fi_definition_scope_id sig) l (Vis_Function n) s = Some (b, s1)"
    "\<not> wrong_argument_count sig args"
    "(plan = Call_Ready sig [] \<and> fi_type_params sig = [] \<and> s' = s1)
     \<or> (\<exists>ps cts. tps = Some ps \<and> length ps = length (fi_type_params sig)
          \<and> concrete_types ps (tc_symbol_table s1) = Some cts \<and> s' = s1
          \<and> plan = Call_Ready sig (fold (\<lambda>(p, t). assoc_insert p t) (zip (fi_type_params sig) cts) []))
     \<or> (tps = None \<and> plan = Call_Infers sig \<and> fi_type_params sig \<noteq> [] \<and> s' = s1)"
    using assms(1,2) rep
    by (auto simp: start_function_call_def explicit_substitutions_def elim!: bind_SomeE
        split: option.splits if_splits prod.splits)
  with assms(2) have "tc_errors s1 = []" by auto
  note v = visibility_sound [OF r(2) this st]
  show thesis
    by (rule that [of sig]) (use r(1,3,4) v st in auto)
qed

lemma start_instance_sound:
  assumes "start_instance_call m ml l k rt s = Some (plan, s')" "tc_errors s' = []" "records_ok s0 U s"
  obtains tn info where "plan = Method_Found tn info" "s' = s" "struct_name_of rt s0 = Some (Some tn)"
    "lookup_method tn m (tc_symbol_table s0) = Some (Some info)" "is_instance_method info"
    "visible s0 (mi_visibility info) (mi_scope_id info)"
    "length (fi_param_types (mi_signature info)) = k"
proof -
  note st = records_okD(1) [OF assms(3)]
  from assms(1,2) obtain tn info where r: "struct_name_of rt s = Some (Some tn)"
    "lookup_method tn m (tc_symbol_table s) = Some (Some info)"
    "check_instance_call tn m ml l k info s = Some s'" "plan = Method_Found tn info"
    by (auto simp: start_instance_call_def elim!: bind_SomeE split: option.splits)
  from calls_sound(2) [OF assms(3,2) r(3)] r st that show thesis
    by (simp add: same_table_reads [OF st])
qed

lemma soundI:
  assumes "\<And>s t s'. records_ok s0 U s \<Longrightarrow> infer_expression e s = Some (t, s') \<Longrightarrow> tc_errors s' = []
    \<Longrightarrow> \<exists>t'. t = Some t' \<and> typed s0 e t' \<and> records_ok s0 U s'"
  shows "sound s0 U e"
  using assms unfolding sound_def by blast

text \<open>A node that reads its record answers with it, and otherwise records what it infers.\<close>

lemma sound_recordedI:
  assumes sep: "separate_nodes U" and e: "e \<in> U" "reads_record e"
    and hit: "\<And>s t'. node_typeinfo (expression_id e) s = Some t' \<Longrightarrow> infer_expression e s = Some (Some t', s)"
    and run: "\<And>s t s'. records_ok s0 U s \<Longrightarrow> node_typeinfo (expression_id e) s = None
      \<Longrightarrow> infer_expression e s = Some (t, s') \<Longrightarrow> tc_errors s' = []
      \<Longrightarrow> \<exists>t' s1. t = Some t' \<and> typed s0 e t' \<and> records_ok s0 U s1 \<and> s' = set_node_typeinfo (expression_id e) t' s1"
  shows "sound s0 U e"
proof (rule soundI)
  fix s t s'
  assume r: "records_ok s0 U s" "infer_expression e s = Some (t, s')" "tc_errors s' = []"
  show "\<exists>t'. t = Some t' \<and> typed s0 e t' \<and> records_ok s0 U s'"
  proof (cases "node_typeinfo (expression_id e) s")
    case (Some t')
    then show ?thesis using hit [OF Some] records_okD(4) [OF r(1) e Some] r by simp
  next
    case None
    from run [OF r(1) None r(2,3)] obtain t' s1 where t': "t = Some t'" "typed s0 e t'"
      "records_ok s0 U s1" "s' = set_node_typeinfo (expression_id e) t' s1" by blast
    have "expression_id e \<in> records_under e" by (cases e) auto
    from records_ok_note [OF t'(3) sep e(1) this t'(2)] t' show ?thesis by blast
  qed
qed

lemma visited_self [simp]: "e \<in> set (visited e)"
  by (cases e rule: visited.cases) simp_all

lemma typed_list:
  assumes "\<forall>k<length as. \<exists>t. typed s0 (snd (as ! k)) t \<and> Q k t"
  obtains ts where "list_all2 (\<lambda>a t. typed s0 (snd a) t) as ts" "\<forall>k<length as. Q k (ts ! k)"
proof -
  from assms obtain ts where "length ts = length as"
    "\<forall>k<length as. typed s0 (snd (as ! k)) (ts ! k) \<and> Q k (ts ! k)"
    using Skolem_list_nth [of "length as" "\<lambda>k t. typed s0 (snd (as ! k)) t \<and> Q k t"] by blast
  then show thesis by (intro that [of ts]) (simp_all add: list_all2_conv_all_nth)
qed

lemma call_sound:
  assumes sep: "separate_nodes U" and e: "Expr_FunctionCall i l f tps args \<in> U"
    and as: "\<And>a. a \<in> set (argument_list args) \<Longrightarrow> sound s0 U (snd a)"
    and recv: "\<And>mi ml r n. call_receiver f = Some (mi, ml, r, n) \<Longrightarrow> sound s0 U r"
  shows "sound s0 U (Expr_FunctionCall i l f tps args)"
proof (rule soundI)
  fix s t s'
  let ?e = "Expr_FunctionCall i l f tps args" and ?as = "argument_list args"
  assume ok: "records_ok s0 U s" and run: "infer_expression ?e s = Some (t, s')" and ne: "tc_errors s' = []"
  have rec: "records_ok s0 U (set_node_typeinfo j t1 s1)"
    if "records_ok s0 U s1" "j = i \<or> j = expression_id f" for s1 j t1
    by (rule records_ok_note [OF that(1) sep e]) (use that(2) in auto)
  have noted: "records_ok s0 U (set_node_typeinfo i t1 (set_node_typeinfo (expression_id f) t2 s1))"
    "records_ok s0 U (set_node_typeinfo i t1 s1)" if ok1: "records_ok s0 U s1" for s1 t1 t2
    by (rule rec [OF rec [OF ok1 disjI2 [OF refl]] disjI1 [OF refl]], rule rec [OF ok1 disjI1 [OF refl]])
  have args: "records_ok s0 U s2 \<and> (\<exists>ts. list_all2 (\<lambda>a t. typed s0 (snd a) t) ?as ts)"
    if "infer_arguments ?as s1 = Some s2" "records_ok s0 U s1" "tc_errors s2 = []" for s1 s2
  proof -
    from arguments_sound [OF as that(2,1,3)] have s2: "records_ok s0 U s2"
      and "\<forall>k<length ?as. \<exists>t. typed s0 (snd (?as ! k)) t \<and> True" by simp_all
    from this(2) obtain ts where "list_all2 (\<lambda>a t. typed s0 (snd a) t) ?as ts" by (rule typed_list)
    with s2 show ?thesis by blast
  qed
  have assoc: "associated_method f s = associated_method f s0"
    by (rule same_table_reads(2) [OF records_okD(1) [OF ok]])
  show "\<exists>t'. t = Some t' \<and> typed s0 ?e t' \<and> records_ok s0 U s'"
    using run
  proof (cases rule: infer_call_cases)
    case (associated mi ml tn mn info s1 s2)
    from associated(1) have mi: "mi = expression_id f"
      by (cases f) (auto elim!: bind_SomeE split: option.splits)
    have res: "t = Some (fi_return_type (mi_signature info))"
      "s' = set_node_typeinfo i (fi_return_type (mi_signature info))
         (set_node_typeinfo (expression_id f) (TypeInfo (Kind_Function (tn @ ''::'' @ mn)) []) s2)"
      using associated(4) mi by (simp_all add: method_call_result_def Let_def)
    then have e2: "tc_errors s2 = []" using ne by simp
    have e1: "tc_errors s1 = []" by (rule arguments_no_error [OF associated(3) e2])
    from calls_sound(1) [OF ok e1 associated(2)] have c: "\<not> is_instance_method info" "s1 = s"
      "visible s0 (mi_visibility info) (mi_scope_id info)"
      "length (fi_param_types (mi_signature info)) = argument_count args" by auto
    from args [OF associated(3) _ e2] c(2) ok obtain ts
      where ts: "records_ok s0 U s2" "list_all2 (\<lambda>a t. typed s0 (snd a) t) ?as ts" by blast
    have "typed s0 ?e (fi_return_type (mi_signature info))"
      by (rule T_Associated [OF associated(1) [unfolded assoc] c(1,3,4) ts(2)]) simp
    with res noted(1) [OF ts(1)] show ?thesis by blast
  next
    case (untyped mi ml r n s1)
    then show ?thesis using soundD [OF recv [OF untyped(1)] ok untyped(2) arguments_no_error [OF untyped(3) ne]]
      by blast
  next
    case (missing mi ml r n rt s1)
    have "tc_errors s1 = []"
      using grows_empty [OF growth.R_instance_call [OF missing(3) growth.R_refl] ne] .
    then obtain t' where "records_ok s0 U s1" using soundD [OF recv [OF missing(1)] ok missing(2)] by blast
    from start_instance_sound [OF missing(3) ne this] show ?thesis by (metis method_plan.distinct(3))
  next
    case (bad_receiver mi ml r n rt s1 s2)
    have e2: "tc_errors s2 = []" by (rule arguments_no_error [OF bad_receiver(4) ne])
    have "tc_errors s1 = []"
      using grows_empty [OF growth.R_instance_call [OF bad_receiver(3) growth.R_refl] e2] .
    then obtain t' where "records_ok s0 U s1"
      using soundD [OF recv [OF bad_receiver(1)] ok bad_receiver(2)] by blast
    from start_instance_sound [OF bad_receiver(3) e2 this] show ?thesis by (metis method_plan.distinct(5))
  next
    case (method_call mi ml r n rt tn info s1 s2 s3)
    from method_call(1) have mi: "mi = expression_id f" by (cases f) auto
    have res: "t = Some (fi_return_type (mi_signature info))"
      "s' = set_node_typeinfo i (fi_return_type (mi_signature info))
         (set_node_typeinfo (expression_id f) (TypeInfo (Kind_Function (tn @ ''::'' @ ident_name n)) []) s3)"
      using method_call(5) mi by (simp_all add: method_call_result_def Let_def)
    then have e3: "tc_errors s3 = []" using ne by simp
    have e2: "tc_errors s2 = []" by (rule arguments_no_error [OF method_call(4) e3])
    have "tc_errors s1 = []"
      using grows_empty [OF growth.R_instance_call [OF method_call(3) growth.R_refl] e2] .
    then have r: "typed s0 r rt" "records_ok s0 U s1"
      using soundD [OF recv [OF method_call(1)] ok method_call(2)] by blast+
    obtain c: "s2 = s1" "struct_name_of rt s0 = Some (Some tn)"
      "lookup_method tn (ident_name n) (tc_symbol_table s0) = Some (Some info)" "is_instance_method info"
      "visible s0 (mi_visibility info) (mi_scope_id info)"
      "length (fi_param_types (mi_signature info)) = argument_count args"
      using start_instance_sound [OF method_call(3) e2 r(2)] by (metis method_plan.inject)
    from args [OF method_call(4) _ e3] c(1) r(2) obtain ts
      where ts: "records_ok s0 U s3" "list_all2 (\<lambda>a t. typed s0 (snd a) t) ?as ts" by blast
    have "typed s0 ?e (fi_return_type (mi_signature info))"
      by (rule T_Method [OF method_call(1) r(1) c(2-6) ts(2)]) simp
    with res noted(1) [OF ts(1)] show ?thesis by blast
  next
    case (given_up s1)
    have e1: "tc_errors s1 = []" by (rule arguments_no_error [OF given_up(2) ne])
    show ?thesis by (rule start_call_sound [OF given_up(1) e1 ok]) auto
  next
    case (ready sig sub s1 s2)
    have res: "t = Some (substitute (fi_return_type sig) sub)"
      "s' = set_node_typeinfo i (substitute (fi_return_type sig) sub) s2"
      using ready(3) by (simp_all add: function_call_result_def Let_def)
    then have e2: "tc_errors s2 = []" using ne by simp
    have e1: "tc_errors s1 = []" by (rule arguments_no_error [OF ready(2) e2])
    obtain sig' where c: "lookup_function (function_call_name f) (tc_symbol_table s0) = Some (Some sig')"
      "visible s0 (fi_visibility sig') (fi_definition_scope_id sig')" "\<not> wrong_argument_count sig' args"
      "s1 = s" and plan: "(Call_Ready sig sub = Call_Ready sig' [] \<and> fi_type_params sig' = [])
     \<or> (\<exists>ps cts. tps = Some ps \<and> length ps = length (fi_type_params sig')
          \<and> concrete_types ps (tc_symbol_table s0) = Some cts
          \<and> Call_Ready sig sub = Call_Ready sig' (fold (\<lambda>(p, t). assoc_insert p t) (zip (fi_type_params sig') cts) []))"
      using start_call_sound [OF ready(1) e1 ok] by (metis call_plan.distinct(5))
    from args [OF ready(2) _ e2] c(4) ok obtain ts
      where ts: "records_ok s0 U s2" "list_all2 (\<lambda>a t. typed s0 (snd a) t) ?as ts" by blast
    have sig: "sig' = sig" using plan by auto
    have "typed s0 ?e (substitute (fi_return_type sig) sub)"
      by (rule T_Call [OF ready(4) [unfolded assoc] ready(5) c(1-3) [unfolded sig] ts(2)])
        (use plan sig in \<open>auto simp: binds_parameters_def\<close>)
    with res noted(2) [OF ts(1)] show ?thesis by blast
  next
    case (infers sig sub s1 s2 s3)
    let ?fin = "finish_type_inference (function_call_name f) sig (args \<noteq> None) l sub s2"
    have res: "t = Some (substitute (fi_return_type sig) sub)"
      "s' = set_node_typeinfo i (substitute (fi_return_type sig) sub) s3"
      using infers(4) by (simp_all add: function_call_result_def Let_def)
    then have e3: "tc_errors s3 = []" using ne by simp
    have ef: "tc_errors ?fin = []" by (rule arguments_no_error [OF infers(3) e3])
    have e2: "tc_errors s2 = []"
      using grows_empty [OF growth.R_finish_inference [OF growth.R_refl] ef] .
    have e1: "tc_errors s1 = []" by (rule type_params_no_error [OF infers(2) e2])
    obtain c: "lookup_function (function_call_name f) (tc_symbol_table s0) = Some (Some sig)"
      "visible s0 (fi_visibility sig) (fi_definition_scope_id sig)" "\<not> wrong_argument_count sig args"
      "s1 = s" "tps = None" "fi_type_params sig \<noteq> []"
      by (rule start_call_sound [OF infers(1) e1 ok]) auto
    from type_params_sound [OF as _ infers(2) e2] c(4) ok have tp: "records_ok s0 U s2"
      "\<forall>k tp. k < length ?as \<longrightarrow> k < length (fi_param_types sig)
         \<longrightarrow> ti_kind (fi_param_types sig ! k) = Kind_Generic tp
         \<longrightarrow> (\<exists>t. typed s0 (snd (?as ! k)) t \<and> map_of sub tp = Some t)" by blast+
    have nil: "sub = []" if "args = None"
      using infers(2) that by (cases "fi_param_types sig") (auto simp: argument_list_def)
    have fin: "?fin = s2" "\<forall>tp\<in>set (fi_type_params sig). map_of sub tp \<noteq> None"
      using finish_sound [OF ef c(6)] nil by blast+
    from arguments_sound [OF as tp(1) infers(3) [unfolded fin(1)] e3]
    have a: "records_ok s0 U s3" "\<forall>k<length ?as. \<exists>t. typed s0 (snd (?as ! k)) t" by blast+
    have "\<forall>k<length ?as. \<exists>t. typed s0 (snd (?as ! k)) t \<and> (k < length (fi_param_types sig) \<longrightarrow>
        (\<forall>tp. ti_kind (fi_param_types sig ! k) = Kind_Generic tp \<longrightarrow> map_of sub tp = Some t))"
      using tp(2) a(2) by (metis type_info_kind.inject(4))
    then obtain ts where ts: "list_all2 (\<lambda>a t. typed s0 (snd a) t) ?as ts"
      "\<forall>k<length ?as. k < length (fi_param_types sig) \<longrightarrow>
        (\<forall>tp. ti_kind (fi_param_types sig ! k) = Kind_Generic tp \<longrightarrow> map_of sub tp = Some (ts ! k))"
      by (rule typed_list)
    have "binds_arguments sub sig ts"
      using ts fin(2) list_all2_lengthD [OF ts(1)] by (simp add: binds_arguments_def)
    then have "typed s0 ?e (substitute (fi_return_type sig) sub)"
      by (intro T_Call [OF infers(5) [unfolded assoc] infers(6) c(1-3) ts(1)]) (simp_all add: binds_parameters_def c(5))
    with res noted(2) [OF a(1)] show ?thesis by blast
  qed
qed

text \<open>The induction over the expression.\<close>

lemma infer_sound:
  assumes sep: "separate_nodes U" and cf: "\<forall>e\<in>U. context_free e"
  shows "set (visited e) \<subseteq> U \<Longrightarrow> sound s0 U e"
proof (induction e rule: expression_induct)
  case (ArrayIndexAccess i l arr idx)
  then have IH: "sound s0 U arr" "sound s0 U idx" by auto
  show ?case
  proof (rule sound_recordedI [OF sep])
    fix s t s'
    assume ok: "records_ok s0 U s" and r: "node_typeinfo (expression_id (Expr_ArrayIndexAccess i l arr idx)) s = None"
      "infer_expression (Expr_ArrayIndexAccess i l arr idx) s = Some (t, s')" "tc_errors s' = []"
    from r(1,2) obtain ta s1 where s1: "infer_expression arr s = Some (ta, s1)"
      "(case ta of None \<Rightarrow> Some (None, s1) | Some at \<Rightarrow> do { (it, s2) \<leftarrow> infer_expression idx s1;
          Some (array_index_result i l at (check_index_type l it s2)) }) = Some (t, s')"
      by (auto elim!: bind_SomeE)
    show "\<exists>t' s1. t = Some t' \<and> typed s0 (Expr_ArrayIndexAccess i l arr idx) t' \<and> records_ok s0 U s1
        \<and> s' = set_node_typeinfo (expression_id (Expr_ArrayIndexAccess i l arr idx)) t' s1"
    proof (cases ta)
      case None
      with s1 r(3) soundD [OF IH(1) ok s1(1)] show ?thesis by auto
    next
      case (Some at)
      with s1(2) obtain it s2 where s2: "infer_expression idx s1 = Some (it, s2)"
        "array_index_result i l at (check_index_type l it s2) = (t, s')"
        by (auto elim!: bind_SomeE)
      obtain et n where x: "ti_kind at = Kind_Array et n" "t = Some et" "s' = set_node_typeinfo i et s2"
        "\<forall>t'. it = Some t' \<longrightarrow> is_number t'" by (rule index_sound [OF s2(2) r(3)])
      have e2: "tc_errors s2 = []" using x(3) r(3) by simp
      obtain a: "typed s0 arr at" "records_ok s0 U s1"
        using soundD [OF IH(1) ok s1(1) infer_no_error [OF s2(1) e2]] Some by blast
      obtain t2 where b: "it = Some t2" "typed s0 idx t2" "records_ok s0 U s2"
        by (rule soundD [OF IH(2) a(2) s2(1) e2])
      have "typed s0 (Expr_ArrayIndexAccess i l arr idx) et"
        using T_Index [OF a(1) x(1) b(2)] x(4) b(1) by blast
      with x b(3) show ?thesis by auto
    qed
  qed (use ArrayIndexAccess.prems in auto)
next
  case (Binary i l a op b)
  then have IH: "sound s0 U a" "sound s0 U b" by auto
  show ?case
  proof (rule sound_recordedI [OF sep])
    fix s t s'
    assume ok: "records_ok s0 U s" and r: "node_typeinfo (expression_id (Expr_Binary i l a op b)) s = None"
      "infer_expression (Expr_Binary i l a op b) s = Some (t, s')" "tc_errors s' = []"
    from r(1,2) obtain lt s1 rt s2 where s1: "infer_expression a s = Some (lt, s1)"
      "infer_expression b s1 = Some (rt, s2)" "binary_result i l op lt rt s2 = (t, s')"
      by (auto elim!: bind_SomeE)
    have e2: "tc_errors s2 = []"
      using grows_empty [OF growth.R_operators(2) [OF s1(3) growth.R_refl] r(3)] .
    obtain t1 where a: "lt = Some t1" "typed s0 a t1" "records_ok s0 U s1"
      by (rule soundD [OF IH(1) ok s1(1) infer_no_error [OF s1(2) e2]])
    obtain t2 where b: "rt = Some t2" "typed s0 b t2" "records_ok s0 U s2"
      by (rule soundD [OF IH(2) a(3) s1(2) e2])
    from operators_sound(2) [OF s1(3) [unfolded a(1) b(1)] r(3)] a(2) b(2,3)
    show "\<exists>t' s1. t = Some t' \<and> typed s0 (Expr_Binary i l a op b) t' \<and> records_ok s0 U s1
        \<and> s' = set_node_typeinfo (expression_id (Expr_Binary i l a op b)) t' s1"
      by (auto intro: T_Logical T_Comparison T_Arithmetic split: operator_class.splits)
  qed (use Binary.prems in auto)
next
  case (MemberAccess i l e n)
  then have IH: "sound s0 U e" by auto
  show ?case
  proof (rule sound_recordedI [OF sep])
    fix s t s'
    assume ok: "records_ok s0 U s" and r: "node_typeinfo (expression_id (Expr_MemberAccess i l e n)) s = None"
      "infer_expression (Expr_MemberAccess i l e n) s = Some (t, s')" "tc_errors s' = []"
    from r(1,2) obtain ot s1 where s1: "infer_expression e s = Some (ot, s1)"
      "(case ot of None \<Rightarrow> Some (None, s1) | Some ot \<Rightarrow> member_access_result i l (ident_name n) ot s1) = Some (t, s')"
      by (auto elim!: bind_SomeE)
    show "\<exists>t' s1. t = Some t' \<and> typed s0 (Expr_MemberAccess i l e n) t' \<and> records_ok s0 U s1
        \<and> s' = set_node_typeinfo (expression_id (Expr_MemberAccess i l e n)) t' s1"
    proof (cases ot)
      case None
      with s1 r(3) soundD [OF IH ok s1(1)] show ?thesis by auto
    next
      case (Some o')
      with s1(2) have m: "member_access_result i l (ident_name n) o' s1 = Some (t, s')" by simp
      have e1: "tc_errors s1 = []" using grows_empty [OF growth.R_member [OF m growth.R_refl] r(3)] .
      obtain a: "typed s0 e o'" "records_ok s0 U s1" using soundD [OF IH ok s1(1) e1] Some by blast
      show ?thesis by (rule member_sound [OF m r(3) a(2)]) (use a T_Member in fastforce)
    qed
  qed (use MemberAccess.prems in auto)
next
  case (TypeMemberAccess i l e n)
  show ?case
  proof (rule sound_recordedI [OF sep])
    fix s t s'
    assume ok: "records_ok s0 U s" and r: "node_typeinfo (expression_id (Expr_TypeMemberAccess i l e n)) s = None"
      "infer_expression (Expr_TypeMemberAccess i l e n) s = Some (t, s')" "tc_errors s' = []"
    show "\<exists>t' s1. t = Some t' \<and> typed s0 (Expr_TypeMemberAccess i l e n) t' \<and> records_ok s0 U s1
        \<and> s' = set_node_typeinfo (expression_id (Expr_TypeMemberAccess i l e n)) t' s1"
    proof (cases "enum_qualifier_of e")
      case (Enum_Named m)
      with r(1,2) have m: "enum_variant_result i l m (ident_name n) s = Some (t, s')" by simp
      show ?thesis by (rule variant_sound [OF m r(3) ok]) (use T_Variant [OF Enum_Named] ok in fastforce)
    next
      case (Enum_Other_Type t)
      with r show ?thesis by (auto elim!: bind_SomeE)
    next
      case Enum_Expression
      with TypeMemberAccess have IH: "sound s0 U e" by auto
      from r(1,2) Enum_Expression obtain et s1 where s1: "infer_expression e s = Some (et, s1)"
        "enum_variant_of_type i l (ident_name n) et s1 = Some (t, s')"
        by (auto elim!: bind_SomeE)
      have e1: "tc_errors s1 = []" using grows_empty [OF growth.R_variant_of_type [OF s1(2) growth.R_refl] r(3)] .
      obtain t1 where a: "et = Some t1" "typed s0 e t1" "records_ok s0 U s1"
        by (rule soundD [OF IH ok s1(1) e1])
      from s1(2) a(1) r(3) obtain m where m: "ti_kind t1 = Kind_Enum m"
        "enum_variant_result i l m (ident_name n) s1 = Some (t, s')"
        by (auto simp: enum_variant_of_type_def split: type_info_kind.splits)
      show ?thesis
        by (rule variant_sound [OF m(2) r(3) a(3)])
          (use T_VariantOf [OF Enum_Expression a(2) m(1)] a(3) in fastforce)
    qed
  qed (use TypeMemberAccess.prems in auto)
next
  case (FunctionCall i l f tps args)
  have "sound s0 U (snd a)" if "a \<in> set (argument_list args)" for a
    by (rule FunctionCall.IH(1) [OF that]) (use FunctionCall.prems that in auto)
  moreover have "sound s0 U r" if "call_receiver f = Some (mi, ml, r, n)" for mi ml r n
    by (rule FunctionCall.IH(2) [OF that]) (use FunctionCall.prems that in auto)
  moreover have "Expr_FunctionCall i l f tps args \<in> U" using FunctionCall.prems by auto
  ultimately show ?case by (intro call_sound [OF sep]) auto
next
  case (Struct i l n flds)
  show ?case
  proof (rule sound_recordedI [OF sep])
    fix s t s'
    assume ok: "records_ok s0 U s" and r: "node_typeinfo (expression_id (Expr_Struct i l n flds)) s = None"
      "infer_expression (Expr_Struct i l n flds) s = Some (t, s')" "tc_errors s' = []"
    from r records_okD(1,2) [OF ok] obtain t' where "lookup_type (ident_name n) (tc_symbol_table s0) = Some (Some t')"
      "t = Some t'" "s' = set_node_typeinfo i t' s"
      by (auto simp: struct_result_def elim!: bind_SomeE split: option.splits)
    then show "\<exists>t' s1. t = Some t' \<and> typed s0 (Expr_Struct i l n flds) t' \<and> records_ok s0 U s1
        \<and> s' = set_node_typeinfo (expression_id (Expr_Struct i l n flds)) t' s1"
      using ok by (auto intro: T_Struct)
  qed (use Struct.prems in \<open>auto simp: struct_result_def\<close>)
next
  case (PrefixUnary i l e op)
  then have IH: "sound s0 U e" and e: "Expr_PrefixUnary i l e op \<in> U" by auto
  show ?case
  proof (rule soundI)
    fix s t s'
    assume ok: "records_ok s0 U s" and r: "infer_expression (Expr_PrefixUnary i l e op) s = Some (t, s')" "tc_errors s' = []"
    from r(1) obtain t1 s1 where s1: "infer_expression e s = Some (t1, s1)" "unary_result i l op t1 s1 = (t, s')"
      by (auto elim!: bind_SomeE)
    have e1: "tc_errors s1 = []" using grows_empty [OF growth.R_operators(1) [OF s1(2) growth.R_refl] r(2)] .
    obtain t2 where a: "t1 = Some t2" "typed s0 e t2" "records_ok s0 U s1" by (rule soundD [OF IH ok s1(1) e1])
    from operators_sound(1) [OF s1(2) r(2) a(1)] a records_ok_note [OF a(3) sep e]
    show "\<exists>t'. t = Some t' \<and> typed s0 (Expr_PrefixUnary i l e op) t' \<and> records_ok s0 U s'"
      by (auto intro: T_Unary)
  qed
next
  case (Parenthesized i l e)
  then have IH: "sound s0 U e" and e: "Expr_Parenthesized i l e \<in> U" by auto
  show ?case
  proof (rule soundI)
    fix s t s'
    assume ok: "records_ok s0 U s" and r: "infer_expression (Expr_Parenthesized i l e) s = Some (t, s')" "tc_errors s' = []"
    from r(1) obtain s1 where s1: "infer_expression e s = Some (t, s1)" "s' = note_parenthesized i t s1"
      by (auto elim!: bind_SomeE)
    have e1: "tc_errors s1 = []" using s1(2) r(2) by (simp add: note_parenthesized_def split: option.splits)
    obtain t2 where a: "t = Some t2" "typed s0 e t2" "records_ok s0 U s1" by (rule soundD [OF IH ok s1(1) e1])
    from s1(2) a records_ok_note [OF a(3) sep e]
    show "\<exists>t'. t = Some t' \<and> typed s0 (Expr_Parenthesized i l e) t' \<and> records_ok s0 U s'"
      by (auto simp: note_parenthesized_def intro: T_Parenthesized)
  qed
next
  case (Array i l es)
  have mem: "Expr_Literal (Lit_Array i l es) \<in> U" using Array.prems by simp
  show ?case
  proof (rule sound_recordedI [OF sep mem])
    fix s t s'
    assume ok: "records_ok s0 U s" and r: "node_typeinfo (expression_id (Expr_Literal (Lit_Array i l es))) s = None"
      "infer_expression (Expr_Literal (Lit_Array i l es)) s = Some (t, s')" "tc_errors s' = []"
    from cf mem r(1,2) obtain x xs where es: "es = Some (x # xs)"
      by (cases es) (auto split: list.splits)
    have IH: "sound s0 U x" "\<And>y. y \<in> set xs \<Longrightarrow> sound s0 U y"
      using Array by (auto simp: es argument_list_def)
    from r(1,2) obtain t1 s1 where s1: "infer_expression x s = Some (t1, s1)"
      "(case t1 of None \<Rightarrow> Some (None, s1) | Some et \<Rightarrow>
          do { s2 \<leftarrow> infer_elements et l xs s1;
               let at = TypeInfo (Kind_Array et (length (x # xs) mod 2 ^ 32)) [];
               Some (Some at, set_node_typeinfo i at s2) }) = Some (t, s')"
      by (auto simp: es elim!: bind_SomeE)
    show "\<exists>t' s1. t = Some t' \<and> typed s0 (Expr_Literal (Lit_Array i l es)) t' \<and> records_ok s0 U s1
        \<and> s' = set_node_typeinfo (expression_id (Expr_Literal (Lit_Array i l es))) t' s1"
    proof (cases t1)
      case None
      with s1 r(3) soundD [OF IH(1) ok s1(1)] show ?thesis by auto
    next
      case (Some et)
      let ?at = "TypeInfo (Kind_Array et (length (x # xs) mod 2 ^ 32)) []"
      from s1(2) Some obtain s2 where s2: "infer_elements et l xs s1 = Some s2" "t = Some ?at"
        "s' = set_node_typeinfo i ?at s2" by (auto simp: Let_def elim!: bind_SomeE)
      have e2: "tc_errors s2 = []" using s2(3) r(3) by simp
      obtain a: "typed s0 x et" "records_ok s0 U s1"
        using soundD [OF IH(1) ok s1(1) elements_no_error [OF s2(1) e2]] Some by blast
      from elements_sound [OF IH(2) a(2) s2(1) e2]
      have b: "records_ok s0 U s2" "list_all (\<lambda>y. typed s0 y et) xs" by auto
      have "typed s0 (Expr_Literal (Lit_Array i l es)) ?at" unfolding es by (rule T_Array [OF a(1) b(2)])
      with s2 b(1) show ?thesis by auto
    qed
  qed auto
next
  case (Number i l v)
  show ?case
  proof (rule sound_recordedI [OF sep])
    fix s t s'
    assume ok: "records_ok s0 U s" and r: "node_typeinfo (expression_id (Expr_Literal (Lit_Number i l v))) s = None"
      "infer_expression (Expr_Literal (Lit_Number i l v)) s = Some (t, s')" "tc_errors s' = []"
    have "node_typeinfo i s0 = None" using records_okD(3) [OF ok] r(1) by simp
    then have "typed s0 (Expr_Literal (Lit_Number i l v)) (TypeInfo (Kind_Number Num_I32) [])"
      by (intro T_Number) simp
    with r ok show "\<exists>t' s1. t = Some t' \<and> typed s0 (Expr_Literal (Lit_Number i l v)) t' \<and> records_ok s0 U s1
        \<and> s' = set_node_typeinfo (expression_id (Expr_Literal (Lit_Number i l v))) t' s1"
      by (auto simp: number_literal_result_def Let_def)
  qed (use Number.prems in \<open>auto simp: number_literal_result_def\<close>)
next
  case (Identifier x)
  then have e: "Expr_Identifier x \<in> U" by auto
  show ?case
  proof (rule soundI)
    fix s t s'
    assume ok: "records_ok s0 U s" and r: "infer_expression (Expr_Identifier x) s = Some (t, s')" "tc_errors s' = []"
    from r records_okD(1,2) [OF ok] obtain t' where v: "lookup_variable (ident_name x) (tc_symbol_table s0) = Some (Some t')"
      "t = Some t'" "s' = set_node_typeinfo (ident_id x) t' s"
      by (auto simp: identifier_result_def elim!: bind_SomeE split: option.splits)
    with records_ok_note [OF ok sep e] show "\<exists>t'. t = Some t' \<and> typed s0 (Expr_Identifier x) t' \<and> records_ok s0 U s'"
      by (auto intro: T_Variable)
  qed
next
  case (Type ty)
  then have e: "Expr_Type ty \<in> U" by auto
  show ?case
  proof (rule soundI)
    fix s t s'
    assume ok: "records_ok s0 U s" and r: "infer_expression (Expr_Type ty) s = Some (t, s')" "tc_errors s' = []"
    from r(1) obtain ti where ti: "type_info_new ty = Some ti" by (auto elim!: bind_SomeE)
    have ok1: "records_ok s0 U (set_node_typeinfo (type_id ty) ti s)"
      by (rule records_ok_note [OF ok sep e]) auto
    have "t = Some ti \<and> records_ok s0 U s'"
    proof (cases "array_size_of ty")
      case (Some sz)
      with Type have IH: "sound s0 U sz" by auto
      from r(1) ti Some obtain t2 where "infer_expression sz (set_node_typeinfo (type_id ty) ti s) = Some (t2, s')"
        "t = Some ti" by (auto simp: Let_def elim!: bind_SomeE)
      with soundD [OF IH ok1 this(1) r(2)] show ?thesis by blast
    qed (use r(1) ti ok1 in \<open>simp add: Let_def\<close>)
    with T_Type [OF ti] show "\<exists>t'. t = Some t' \<and> typed s0 (Expr_Type ty) t' \<and> records_ok s0 U s'" by blast
  qed
next
  case (Uzumaki i l)
  with cf show ?case by force
next
  case (Bool i l b)
  then have e: "Expr_Literal (Lit_Bool i l b) \<in> U" by auto
  show ?case by (rule soundI) (use records_ok_note [OF _ sep e] T_Bool in auto)
next
  case (String i l v)
  then have e: "Expr_Literal (Lit_String i l v) \<in> U" by auto
  show ?case by (rule soundI) (use records_ok_note [OF _ sep e] T_String in auto)
next
  case (Unit i l)
  then have e: "Expr_Literal (Lit_Unit i l) \<in> U" by auto
  show ?case by (rule soundI) (use records_ok_note [OF _ sep e] T_Unit in auto)
qed

end
