(* ===== verification/BodyRecords.thy ===== *)
theory BodyRecords
  imports Typing StmtTotal
begin

text \<open>
  What a run without errors records. The identifiers of a program fall into those of the expressions
  inference visits (\<open>program_nodes\<close>) and those the checker records a type for on its own
  (\<open>program_marks\<close>: parameters, function names, definitions of variables and constants, uzumaki taken
  from their context). When no two nodes share an identifier, a run that reports nothing leaves a type for every
  one of them. The difficulty is the cache: a node with a recorded type is not visited again, so its
  parts have to be recorded already (\<open>closed\<close>).
\<close>

section \<open>Nothing is suppressed while nothing is reported\<close>

definition keeps_quiet :: "checker \<Rightarrow> checker \<Rightarrow> bool" where
  "keeps_quiet s s' \<longleftrightarrow>
     ((tc_errors s = [] \<longrightarrow> tc_reported s = {}) \<longrightarrow> (tc_errors s' = [] \<longrightarrow> tc_reported s' = {}))"

interpretation quiet: program_relation keeps_quiet
proof unfold_locales
  show "keeps_quiet s (resolve_glob_import so p l i s)" for s so p l i
    using resolve_glob_import_frame(2,4) [of so p l i s] by (auto simp: keeps_quiet_def)
qed (auto simp: keeps_quiet_def primitive_defs split: option.split)

section \<open>What a visit records\<close>

text \<open>The identifiers a visited node records a type under, whenever it is given one.\<close>

fun answer_ids :: "expression \<Rightarrow> nat list" where
  "answer_ids (Expr_FunctionCall i l f tps args) =
     i # (if call_receiver f = None then [] else [expression_id f])"
| "answer_ids e = [expression_id e]"

definition filled :: "checker \<Rightarrow> expression \<Rightarrow> bool" where
  "filled s e \<longleftrightarrow> (\<forall>x\<in>set (visited e). \<forall>i\<in>set (answer_ids x). node_typeinfo i s \<noteq> None)"

definition closed :: "expression set \<Rightarrow> checker \<Rightarrow> bool" where
  "closed U s \<longleftrightarrow>
     (\<forall>e\<in>U. reads_record e \<longrightarrow> node_typeinfo (expression_id e) s \<noteq> None \<longrightarrow> filled s e)"

definition tidy :: "expression set \<Rightarrow> checker \<Rightarrow> bool" where
  "tidy U s \<longleftrightarrow> (tc_errors s = [] \<longrightarrow> tc_reported s = {}) \<and> closed U s"

lemma grows_recorded: "grows s s' \<Longrightarrow> node_typeinfo i s \<noteq> None \<Longrightarrow> node_typeinfo i s' \<noteq> None"
  by (auto simp: grows_def node_typeinfo_def get_node_typeinfo_def)

lemma filled_grows: "grows s s' \<Longrightarrow> filled s e \<Longrightarrow> filled s' e"
  unfolding filled_def using grows_recorded by blast

lemma filled_note [simp]: "filled s e \<Longrightarrow> filled (set_node_typeinfo i t s) e"
  by (simp add: filled_def)

lemma filled_push [simp]: "filled (push_error m s) e \<longleftrightarrow> filled s e" "closed U (push_error m s) \<longleftrightarrow> closed U s"
  by (simp_all add: filled_def closed_def push_error_def node_typeinfo_def get_node_typeinfo_def)

lemma filled_set_symbol_table [simp]:
  "filled (set_symbol_table st s) e \<longleftrightarrow> filled s e" "closed U (set_symbol_table st s) \<longleftrightarrow> closed U s"
  by (simp_all add: filled_def closed_def set_symbol_table_def node_typeinfo_def get_node_typeinfo_def)

lemma tidy_same: "grows s s' \<Longrightarrow> keeps_quiet s s' \<Longrightarrow> tidy U s \<Longrightarrow> closed U s' \<Longrightarrow> tidy U s'"
  by (simp add: tidy_def keeps_quiet_def)

lemma tidy_quiet: "tidy U s \<Longrightarrow> tc_errors s = [] \<Longrightarrow> records_ok s {} s"
  by (simp add: tidy_def records_ok_def)

text \<open>A node records a type once its parts have theirs; a mark is no node.\<close>

lemma tidy_note:
  assumes "tidy U s" "separate_nodes U" "e \<in> U" "i \<in> records_under e"
    and "reads_record e \<Longrightarrow> filled (set_node_typeinfo i t s) e"
  shows "tidy U (set_node_typeinfo i t s)"
proof -
  have "filled (set_node_typeinfo i t s) b" if b: "b \<in> U" "reads_record b"
    "node_typeinfo (expression_id b) (set_node_typeinfo i t s) \<noteq> None" for b
  proof (cases "expression_id b = i")
    case True
    then have "e = b" using assms(2-4) b(1,2) by (auto simp: separate_nodes_def)
    then show ?thesis using assms(5) b(2) by simp
  next
    case False
    then show ?thesis using assms(1) b by (simp add: tidy_def closed_def)
  qed
  then show ?thesis using assms(1) by (simp add: tidy_def closed_def)
qed

lemma tidy_mark:
  "tidy U s \<Longrightarrow> \<forall>b\<in>U. reads_record b \<longrightarrow> expression_id b \<noteq> i \<Longrightarrow> tidy U (set_node_typeinfo i t s)"
  by (simp add: tidy_def closed_def)

section \<open>Expressions\<close>

definition fills :: "expression set \<Rightarrow> expression \<Rightarrow> bool" where
  "fills U e \<longleftrightarrow>
     (\<forall>s t s'. tidy U s \<longrightarrow> infer_expression e s = Some (t, s') \<longrightarrow> tc_errors s' = [] \<longrightarrow>
        t \<noteq> None \<and> tidy U s' \<and> filled s' e)"

lemma fillsD:
  assumes "fills U e" "tidy U s" "infer_expression e s = Some (t, s')" "tc_errors s' = []"
  obtains t' where "t = Some t'" "tidy U s'" "filled s' e"
  using assms unfolding fills_def by blast

lemma fillsI:
  assumes "\<And>s t s'. tidy U s \<Longrightarrow> infer_expression e s = Some (t, s') \<Longrightarrow> tc_errors s' = []
    \<Longrightarrow> \<exists>t'. t = Some t' \<and> tidy U s' \<and> filled s' e"
  shows "fills U e"
  using assms unfolding fills_def by blast

lemma fills_recordedI:
  assumes sep: "separate_nodes U" and e: "e \<in> U" "reads_record e"
    and hit: "\<And>s t'. node_typeinfo (expression_id e) s = Some t' \<Longrightarrow> infer_expression e s = Some (Some t', s)"
    and run: "\<And>s t s'. tidy U s \<Longrightarrow> node_typeinfo (expression_id e) s = None
      \<Longrightarrow> infer_expression e s = Some (t, s') \<Longrightarrow> tc_errors s' = []
      \<Longrightarrow> \<exists>t' s1. t = Some t' \<and> tidy U s1 \<and> s' = set_node_typeinfo (expression_id e) t' s1
            \<and> (\<forall>x\<in>set (visited e). x \<noteq> e \<longrightarrow> (\<exists>b. x \<in> set (visited b) \<and> filled s1 b))"
  shows "fills U e"
proof (rule fillsI)
  fix s t s'
  assume r: "tidy U s" "infer_expression e s = Some (t, s')" "tc_errors s' = []"
  show "\<exists>t'. t = Some t' \<and> tidy U s' \<and> filled s' e"
  proof (cases "node_typeinfo (expression_id e) s")
    case (Some t')
    then have "filled s e" using r(1) e by (simp add: tidy_def closed_def)
    then show ?thesis using hit [OF Some] r by simp
  next
    case None
    from run [OF r(1) None r(2,3)] obtain t' s1 where t': "t = Some t'" "tidy U s1"
      "s' = set_node_typeinfo (expression_id e) t' s1"
      "\<forall>x\<in>set (visited e). x \<noteq> e \<longrightarrow> (\<exists>b. x \<in> set (visited b) \<and> filled s1 b)" by blast
    have "answer_ids e = [expression_id e]" "expression_id e \<in> records_under e" using e(2) by (cases e; simp)+
    with t'(3,4) have "filled s' e" unfolding filled_def by (metis note_simps(3) empty_iff empty_set set_ConsD option.distinct(1))
    moreover have "tidy U s'" unfolding t'(3)
      by (rule tidy_note [OF t'(2) sep e(1) \<open>expression_id e \<in> records_under e\<close>]) (use \<open>filled s' e\<close> t'(3) in simp)
    ultimately show ?thesis using t'(1) by blast
  qed
qed

lemma arguments_fill:
  assumes "\<And>a. a \<in> set as \<Longrightarrow> fills U (snd a)" "tidy U s" "infer_arguments as s = Some s'" "tc_errors s' = []"
  shows "tidy U s' \<and> (\<forall>a\<in>set as. filled s' (snd a))"
  using assms
proof (induction as arbitrary: s)
  case (Cons a as)
  obtain n e where a: "a = (n, e)" by (cases a)
  from Cons.prems(3) a obtain t s1
    where r: "infer_expression e s = Some (t, s1)" "infer_arguments as s1 = Some s'"
    by (auto elim!: bind_SomeE)
  have e: "fills U e" using Cons.prems(1) a by force
  obtain t' where t': "tidy U s1" "filled s1 e"
    by (rule fillsD [OF e Cons.prems(2) r(1) arguments_no_error [OF r(2) Cons.prems(4)]])
  have "tidy U s' \<and> (\<forall>a\<in>set as. filled s' (snd a))"
    using Cons.IH [OF _ t'(1) r(2) Cons.prems(4)] Cons.prems(1) by simp
  then show ?case using filled_grows [OF growth.infer_arguments_respects [OF r(2)] t'(2)] by (simp add: a)
qed simp

lemma elements_fill:
  assumes "\<And>e. e \<in> set es \<Longrightarrow> fills U e" "tidy U s" "infer_elements et l es s = Some s'" "tc_errors s' = []"
  shows "tidy U s' \<and> (\<forall>e\<in>set es. filled s' e) \<and> grows s s'"
  using assms
proof (induction es arbitrary: s)
  case (Cons e es)
  from Cons.prems(3) obtain t s1
    where r: "infer_expression e s = Some (t, s1)" "infer_elements et l es (check_element et l t s1) = Some s'"
    by (auto elim!: bind_SomeE)
  have c: "tc_errors (check_element et l t s1) = []" by (rule elements_no_error [OF r(2) Cons.prems(4)])
  then have c': "check_element et l t s1 = s1"
    by (auto simp: check_element_def split: option.splits if_splits)
  have "fills U e" using Cons.prems(1) by simp
  then obtain t' where t': "tidy U s1" "filled s1 e"
    using fillsD [OF _ Cons.prems(2) r(1)] c c' by metis
  have IH: "tidy U s' \<and> (\<forall>e\<in>set es. filled s' e) \<and> grows s1 s'"
    using Cons.IH [OF _ t'(1)] r(2) c' Cons.prems(1,4) by simp
  then show ?case using filled_grows [OF _ t'(2)] growth.R_trans [OF growth.infer_expression_rel [OF r(1)]] by auto
qed (simp add: growth.R_refl)

lemma type_params_fill:
  assumes "\<And>a. a \<in> set as \<Longrightarrow> fills U (snd a)" "tidy U s"
    "infer_type_params ps as l sub s = Some (sub', s')" "tc_errors s' = []"
  shows "tidy U s'"
  using assms
proof (induction ps arbitrary: as sub s)
  case (Cons p ps)
  show ?case
  proof (cases as)
    case (Cons a as')
    obtain n e where a: "a = (n, e)" by (cases a)
    have e: "fills U e" and as': "\<And>a. a \<in> set as' \<Longrightarrow> fills U (snd a)"
      using Cons.prems(1) by (force simp: Cons a)+
    show ?thesis
    proof (cases "\<exists>tp. ti_kind p = Kind_Generic tp")
      case True
      then obtain tp where tp: "ti_kind p = Kind_Generic tp" by blast
      from Cons.prems(3) obtain t s2 where s2: "infer_expression e s = Some (t, s2)"
        "infer_type_params ps as' l (fst (note_type_argument tp l t sub s2))
           (snd (note_type_argument tp l t sub s2)) = Some (sub', s')"
        by (auto simp: Cons a tp elim!: bind_SomeE split: prod.splits)
      have n: "tc_errors (snd (note_type_argument tp l t sub s2)) = []"
        by (rule type_params_no_error [OF s2(2) Cons.prems(4)])
      have "grows s2 (snd (note_type_argument tp l t sub s2))"
        by (rule growth.R_note_argument [OF prod.collapse [symmetric] growth.R_refl])
      then have "tc_errors s2 = []" using n by (rule grows_empty)
      then obtain t' where t': "t = Some t'" "tidy U s2" using fillsD [OF e Cons.prems(2) s2(1)] by blast
      show ?thesis
        by (rule Cons.IH [OF as' t'(2) s2(2) [unfolded t'(1) note_argument_sound(1) [OF n [unfolded t'(1)]]] Cons.prems(4)])
    next
      case False
      then have "infer_type_params ps as' l sub s = Some (sub', s')"
        using Cons.prems(3) by (auto simp: Cons a split: type_info_kind.splits)
      from Cons.IH [OF as' Cons.prems(2) this Cons.prems(4)] show ?thesis .
    qed
  qed (use Cons.prems in simp)
qed simp

text \<open>A call records its callee as well when that is a method of a value.\<close>

lemma call_filled:
  assumes "node_typeinfo i s \<noteq> None" "call_receiver f \<noteq> None \<Longrightarrow> node_typeinfo (expression_id f) s \<noteq> None"
    and "\<forall>a\<in>set (argument_list args). filled s (snd a)"
    and "\<And>mi ml r n. call_receiver f = Some (mi, ml, r, n) \<Longrightarrow> filled s r"
  shows "filled s (Expr_FunctionCall i l f tps args)"
  using assms unfolding filled_def by (auto split: option.splits)

lemma call_fills:
  assumes sep: "separate_nodes U" and e: "Expr_FunctionCall i l f tps args \<in> U"
    and as: "\<And>a. a \<in> set (argument_list args) \<Longrightarrow> fills U (snd a)"
    and recv: "\<And>mi ml r n. call_receiver f = Some (mi, ml, r, n) \<Longrightarrow> fills U r"
  shows "fills U (Expr_FunctionCall i l f tps args)"
proof (rule fillsI)
  fix s t s'
  let ?e = "Expr_FunctionCall i l f tps args" and ?as = "argument_list args"
  assume ok: "tidy U s" and run: "infer_expression ?e s = Some (t, s')" and ne: "tc_errors s' = []"
  have e0: "tc_errors s = []" by (rule infer_no_error [OF run ne])
  have rec: "tidy U (set_node_typeinfo j t1 s1)" if "tidy U s1" "j = i \<or> j = expression_id f" for s1 j t1
    by (rule tidy_note [OF that(1) sep e]) (use that(2) in auto)
  show "\<exists>t'. t = Some t' \<and> tidy U s' \<and> filled s' ?e"
    using run
  proof (cases rule: infer_call_cases)
    case (associated mi ml tn mn info s1 s2)
    from associated(1) have mi: "mi = expression_id f" "call_receiver f = None"
      by (cases f; auto elim!: bind_SomeE split: option.splits)+
    have res: "t = Some (fi_return_type (mi_signature info))"
      "s' = set_node_typeinfo i (fi_return_type (mi_signature info))
         (set_node_typeinfo (expression_id f) (TypeInfo (Kind_Function (tn @ ''::'' @ mn)) []) s2)"
      using associated(4) mi by (simp_all add: method_call_result_def Let_def)
    then have e2: "tc_errors s2 = []" using ne by simp
    have e1: "tc_errors s1 = []" by (rule arguments_no_error [OF associated(3) e2])
    from calls_sound(1) [OF tidy_quiet [OF ok e0] e1 associated(2)] have "s1 = s" by blast
    then have s2: "tidy U s2 \<and> (\<forall>a\<in>set ?as. filled s2 (snd a))"
      using arguments_fill [OF as _ associated(3) e2] ok by blast
    then have "filled s' ?e" unfolding res(2) by (intro call_filled) (auto simp: mi(2))
    with res s2 rec show ?thesis by blast
  next
    case (untyped mi ml r n s1)
    then show ?thesis using fillsD [OF recv [OF untyped(1)] ok untyped(2) arguments_no_error [OF untyped(3) ne]]
      by blast
  next
    case (missing mi ml r n rt s1)
    have e1: "tc_errors s1 = []" using grows_empty [OF growth.R_instance_call [OF missing(3) growth.R_refl] ne] .
    then have "tidy U s1" using fillsD [OF recv [OF missing(1)] ok missing(2)] by blast
    from start_instance_sound [OF missing(3) ne tidy_quiet [OF this e1]] show ?thesis
      by (metis method_plan.distinct(3))
  next
    case (bad_receiver mi ml r n rt s1 s2)
    have e2: "tc_errors s2 = []" by (rule arguments_no_error [OF bad_receiver(4) ne])
    have e1: "tc_errors s1 = []" using grows_empty [OF growth.R_instance_call [OF bad_receiver(3) growth.R_refl] e2] .
    then have "tidy U s1" using fillsD [OF recv [OF bad_receiver(1)] ok bad_receiver(2)] by blast
    from start_instance_sound [OF bad_receiver(3) e2 tidy_quiet [OF this e1]] show ?thesis
      by (metis method_plan.distinct(5))
  next
    case (method_call mi ml r n rt tn info s1 s2 s3)
    from method_call(1) have mi: "mi = expression_id f" by (cases f) auto
    have res: "t = Some (fi_return_type (mi_signature info))"
      "s' = set_node_typeinfo i (fi_return_type (mi_signature info))
         (set_node_typeinfo (expression_id f) (TypeInfo (Kind_Function (tn @ ''::'' @ ident_name n)) []) s3)"
      using method_call(5) mi by (simp_all add: method_call_result_def Let_def)
    then have e3: "tc_errors s3 = []" using ne by simp
    have e2: "tc_errors s2 = []" by (rule arguments_no_error [OF method_call(4) e3])
    have e1: "tc_errors s1 = []" using grows_empty [OF growth.R_instance_call [OF method_call(3) growth.R_refl] e2] .
    then have r: "tidy U s1" "filled s1 r" using fillsD [OF recv [OF method_call(1)] ok method_call(2)] by blast+
    have "s2 = s1" using start_instance_sound [OF method_call(3) e2 tidy_quiet [OF r(1) e1]] by blast
    then have s3: "tidy U s3 \<and> (\<forall>a\<in>set ?as. filled s3 (snd a))" "filled s3 r"
      using arguments_fill [OF as _ method_call(4) e3] r filled_grows [OF growth.infer_arguments_respects [OF method_call(4)]]
      by blast+
    then have "filled s' ?e" unfolding res(2) by (intro call_filled) (auto simp: method_call(1))
    with res s3 rec show ?thesis by blast
  next
    case (given_up s1)
    have e1: "tc_errors s1 = []" by (rule arguments_no_error [OF given_up(2) ne])
    show ?thesis by (rule start_call_sound [OF given_up(1) e1 tidy_quiet [OF ok e0]]) auto
  next
    case (ready sig sub s1 s2)
    have res: "t = Some (substitute (fi_return_type sig) sub)"
      "s' = set_node_typeinfo i (substitute (fi_return_type sig) sub) s2"
      using ready(3) by (simp_all add: function_call_result_def Let_def)
    then have e2: "tc_errors s2 = []" using ne by simp
    have e1: "tc_errors s1 = []" by (rule arguments_no_error [OF ready(2) e2])
    have "s1 = s" using start_call_sound [OF ready(1) e1 tidy_quiet [OF ok e0]] by blast
    then have s2: "tidy U s2 \<and> (\<forall>a\<in>set ?as. filled s2 (snd a))"
      using arguments_fill [OF as _ ready(2) e2] ok by blast
    then have "filled s' ?e" unfolding res(2) by (intro call_filled) (auto simp: ready(5))
    with res s2 rec show ?thesis by blast
  next
    case (infers sig sub s1 s2 s3)
    let ?fin = "finish_type_inference (function_call_name f) sig (args \<noteq> None) l sub s2"
    have res: "t = Some (substitute (fi_return_type sig) sub)"
      "s' = set_node_typeinfo i (substitute (fi_return_type sig) sub) s3"
      using infers(4) by (simp_all add: function_call_result_def Let_def)
    then have e3: "tc_errors s3 = []" using ne by simp
    have ef: "tc_errors ?fin = []" by (rule arguments_no_error [OF infers(3) e3])
    have e2: "tc_errors s2 = []" using grows_empty [OF growth.R_finish_inference [OF growth.R_refl] ef] .
    have e1: "tc_errors s1 = []" by (rule type_params_no_error [OF infers(2) e2])
    obtain c: "s1 = s" "fi_type_params sig \<noteq> []"
      by (rule start_call_sound [OF infers(1) e1 tidy_quiet [OF ok e0]]) auto
    have s2: "tidy U s2" using type_params_fill [OF as _ infers(2) e2] c(1) ok by blast
    have nil: "sub = []" if "args = None"
      using infers(2) that by (cases "fi_param_types sig") (auto simp: argument_list_def)
    have fin: "?fin = s2" using finish_sound(1) [OF ef c(2)] nil by blast
    have s3: "tidy U s3 \<and> (\<forall>a\<in>set ?as. filled s3 (snd a))"
      using arguments_fill [OF as s2 infers(3) [unfolded fin] e3] by blast
    then have "filled s' ?e" unfolding res(2) by (intro call_filled) (auto simp: infers(6))
    with res s3 rec show ?thesis by blast
  qed
qed

lemma infer_fills:
  assumes sep: "separate_nodes U" and cf: "\<forall>e\<in>U. context_free e"
  shows "set (visited e) \<subseteq> U \<Longrightarrow> fills U e"
proof (induction e rule: expression_induct)
  case (ArrayIndexAccess i l arr idx)
  then have IH: "fills U arr" "fills U idx" by auto
  show ?case
  proof (rule fills_recordedI [OF sep])
    fix s t s'
    let ?e = "Expr_ArrayIndexAccess i l arr idx"
    assume ok: "tidy U s" and r: "node_typeinfo (expression_id ?e) s = None"
      "infer_expression ?e s = Some (t, s')" "tc_errors s' = []"
    from r(1,2) obtain ta s1 where s1: "infer_expression arr s = Some (ta, s1)"
      "(case ta of None \<Rightarrow> Some (None, s1) | Some at \<Rightarrow> do { (it, s2) \<leftarrow> infer_expression idx s1;
          Some (array_index_result i l at (check_index_type l it s2)) }) = Some (t, s')"
      by (auto elim!: bind_SomeE)
    have "grows s1 s'" using s1(2) by (auto elim!: bind_SomeE split: option.splits prod.splits
        intro: growth.R_index growth.infer_expression_rel growth.R_refl)
    then obtain at where a: "ta = Some at" "tidy U s1" "filled s1 arr"
      using fillsD [OF IH(1) ok s1(1)] grows_empty r(3) by blast
    with s1(2) obtain it s2 where s2: "infer_expression idx s1 = Some (it, s2)"
      "array_index_result i l at (check_index_type l it s2) = (t, s')"
      by (auto elim!: bind_SomeE)
    obtain et n where x: "t = Some et" "s' = set_node_typeinfo i et s2" by (rule index_sound [OF s2(2) r(3)])
    have e2: "tc_errors s2 = []" using x(2) r(3) by simp
    obtain t2 where b: "tidy U s2" "filled s2 idx" by (rule fillsD [OF IH(2) a(2) s2(1) e2])
    have "filled s2 arr" by (rule filled_grows [OF growth.infer_expression_rel [OF s2(1)] a(3)])
    with x b show "\<exists>t' s1. t = Some t' \<and> tidy U s1 \<and> s' = set_node_typeinfo (expression_id ?e) t' s1
        \<and> (\<forall>x\<in>set (visited ?e). x \<noteq> ?e \<longrightarrow> (\<exists>b. x \<in> set (visited b) \<and> filled s1 b))" by auto
  qed (use ArrayIndexAccess.prems in auto)
next
  case (Binary i l a op b)
  then have IH: "fills U a" "fills U b" by auto
  show ?case
  proof (rule fills_recordedI [OF sep])
    fix s t s'
    let ?e = "Expr_Binary i l a op b"
    assume ok: "tidy U s" and r: "node_typeinfo (expression_id ?e) s = None"
      "infer_expression ?e s = Some (t, s')" "tc_errors s' = []"
    from r(1,2) obtain lt s1 rt s2 where s1: "infer_expression a s = Some (lt, s1)"
      "infer_expression b s1 = Some (rt, s2)" "binary_result i l op lt rt s2 = (t, s')"
      by (auto elim!: bind_SomeE)
    have e2: "tc_errors s2 = []" using grows_empty [OF growth.R_operators(2) [OF s1(3) growth.R_refl] r(3)] .
    obtain t1 where a: "lt = Some t1" "tidy U s1" "filled s1 a"
      by (rule fillsD [OF IH(1) ok s1(1) infer_no_error [OF s1(2) e2]])
    obtain t2 where b: "rt = Some t2" "tidy U s2" "filled s2 b" by (rule fillsD [OF IH(2) a(2) s1(2) e2])
    have "filled s2 a" by (rule filled_grows [OF growth.infer_expression_rel [OF s1(2)] a(3)])
    moreover have "\<exists>t'. t = Some t' \<and> s' = set_node_typeinfo i t' s2"
      using operators_sound(2) [OF s1(3) [unfolded a(1) b(1)] r(3)] by (auto split: operator_class.splits)
    ultimately show "\<exists>t' s1. t = Some t' \<and> tidy U s1 \<and> s' = set_node_typeinfo (expression_id ?e) t' s1
        \<and> (\<forall>x\<in>set (visited ?e). x \<noteq> ?e \<longrightarrow> (\<exists>b. x \<in> set (visited b) \<and> filled s1 b))"
      using b by auto
  qed (use Binary.prems in auto)
next
  case (MemberAccess i l e n)
  then have IH: "fills U e" by auto
  show ?case
  proof (rule fills_recordedI [OF sep])
    fix s t s'
    let ?e = "Expr_MemberAccess i l e n"
    assume ok: "tidy U s" and r: "node_typeinfo (expression_id ?e) s = None"
      "infer_expression ?e s = Some (t, s')" "tc_errors s' = []"
    from r(1,2) obtain ot s1 where s1: "infer_expression e s = Some (ot, s1)"
      "(case ot of None \<Rightarrow> Some (None, s1) | Some ot \<Rightarrow> member_access_result i l (ident_name n) ot s1) = Some (t, s')"
      by (auto elim!: bind_SomeE)
    have "grows s1 s'" using s1(2) by (auto split: option.splits intro: growth.R_member growth.R_refl)
    then have e1: "tc_errors s1 = []" using grows_empty r(3) by blast
    obtain o' where a: "ot = Some o'" "tidy U s1" "filled s1 e" by (rule fillsD [OF IH ok s1(1) e1])
    with s1(2) have m: "member_access_result i l (ident_name n) o' s1 = Some (t, s')" by simp
    show "\<exists>t' s1. t = Some t' \<and> tidy U s1 \<and> s' = set_node_typeinfo (expression_id ?e) t' s1
        \<and> (\<forall>x\<in>set (visited ?e). x \<noteq> ?e \<longrightarrow> (\<exists>b. x \<in> set (visited b) \<and> filled s1 b))"
      by (rule member_sound [OF m r(3) tidy_quiet [OF a(2) e1]]) (use a in auto)
  qed (use MemberAccess.prems in auto)
next
  case (TypeMemberAccess i l e n)
  show ?case
  proof (rule fills_recordedI [OF sep])
    fix s t s'
    let ?e = "Expr_TypeMemberAccess i l e n"
    assume ok: "tidy U s" and r: "node_typeinfo (expression_id ?e) s = None"
      "infer_expression ?e s = Some (t, s')" "tc_errors s' = []"
    have e0: "tc_errors s = []" by (rule infer_no_error [OF r(2,3)])
    show "\<exists>t' s1. t = Some t' \<and> tidy U s1 \<and> s' = set_node_typeinfo (expression_id ?e) t' s1
        \<and> (\<forall>x\<in>set (visited ?e). x \<noteq> ?e \<longrightarrow> (\<exists>b. x \<in> set (visited b) \<and> filled s1 b))"
    proof (cases "enum_qualifier_of e")
      case (Enum_Named m)
      with r(1,2) have m: "enum_variant_result i l m (ident_name n) s = Some (t, s')" by simp
      show ?thesis by (rule variant_sound [OF m r(3) tidy_quiet [OF ok e0]]) (use ok Enum_Named in auto)
    next
      case (Enum_Other_Type t)
      with r show ?thesis by (auto elim!: bind_SomeE)
    next
      case Enum_Expression
      with TypeMemberAccess have IH: "fills U e" by auto
      from r(1,2) Enum_Expression obtain et s1 where s1: "infer_expression e s = Some (et, s1)"
        "enum_variant_of_type i l (ident_name n) et s1 = Some (t, s')"
        by (auto elim!: bind_SomeE)
      have e1: "tc_errors s1 = []" using grows_empty [OF growth.R_variant_of_type [OF s1(2) growth.R_refl] r(3)] .
      obtain t1 where a: "et = Some t1" "tidy U s1" "filled s1 e" by (rule fillsD [OF IH ok s1(1) e1])
      from s1(2) a(1) r(3) obtain m where m: "enum_variant_result i l m (ident_name n) s1 = Some (t, s')"
        by (auto simp: enum_variant_of_type_def split: type_info_kind.splits)
      show ?thesis by (rule variant_sound [OF m r(3) tidy_quiet [OF a(2) e1]]) (use a Enum_Expression in auto)
    qed
  qed (use TypeMemberAccess.prems in auto)
next
  case (FunctionCall i l f tps args)
  have "fills U (snd a)" if "a \<in> set (argument_list args)" for a
    by (rule FunctionCall.IH(1) [OF that]) (use FunctionCall.prems that in auto)
  moreover have "fills U r" if "call_receiver f = Some (mi, ml, r, n)" for mi ml r n
    by (rule FunctionCall.IH(2) [OF that]) (use FunctionCall.prems that in auto)
  moreover have "Expr_FunctionCall i l f tps args \<in> U" using FunctionCall.prems by auto
  ultimately show ?case by (intro call_fills [OF sep]) auto
next
  case (Struct i l n flds)
  show ?case
  proof (rule fills_recordedI [OF sep])
    fix s t s'
    let ?e = "Expr_Struct i l n flds"
    assume ok: "tidy U s" and r: "node_typeinfo (expression_id ?e) s = None"
      "infer_expression ?e s = Some (t, s')" "tc_errors s' = []"
    have "tc_reported s = {}" using ok infer_no_error [OF r(2,3)] by (simp add: tidy_def)
    with r ok show "\<exists>t' s1. t = Some t' \<and> tidy U s1 \<and> s' = set_node_typeinfo (expression_id ?e) t' s1
        \<and> (\<forall>x\<in>set (visited ?e). x \<noteq> ?e \<longrightarrow> (\<exists>b. x \<in> set (visited b) \<and> filled s1 b))"
      by (fastforce simp: struct_result_def elim!: bind_SomeE split: option.splits)
  qed (use Struct.prems in \<open>auto simp: struct_result_def\<close>)
next
  case (PrefixUnary i l e op)
  then have IH: "fills U e" and e: "Expr_PrefixUnary i l e op \<in> U" by auto
  show ?case
  proof (rule fillsI)
    fix s t s'
    assume ok: "tidy U s" and r: "infer_expression (Expr_PrefixUnary i l e op) s = Some (t, s')" "tc_errors s' = []"
    from r(1) obtain t1 s1 where s1: "infer_expression e s = Some (t1, s1)" "unary_result i l op t1 s1 = (t, s')"
      by (auto elim!: bind_SomeE)
    have e1: "tc_errors s1 = []" using grows_empty [OF growth.R_operators(1) [OF s1(2) growth.R_refl] r(2)] .
    obtain t2 where a: "t1 = Some t2" "tidy U s1" "filled s1 e" by (rule fillsD [OF IH ok s1(1) e1])
    from operators_sound(1) [OF s1(2) r(2) a(1)] a tidy_note [OF a(2) sep e]
    show "\<exists>t'. t = Some t' \<and> tidy U s' \<and> filled s' (Expr_PrefixUnary i l e op)" by (auto simp: filled_def)
  qed
next
  case (Parenthesized i l e)
  then have IH: "fills U e" and e: "Expr_Parenthesized i l e \<in> U" by auto
  show ?case
  proof (rule fillsI)
    fix s t s'
    assume ok: "tidy U s" and r: "infer_expression (Expr_Parenthesized i l e) s = Some (t, s')" "tc_errors s' = []"
    from r(1) obtain s1 where s1: "infer_expression e s = Some (t, s1)" "s' = note_parenthesized i t s1"
      by (auto elim!: bind_SomeE)
    have e1: "tc_errors s1 = []" using s1(2) r(2) by (simp add: note_parenthesized_def split: option.splits)
    obtain t2 where a: "t = Some t2" "tidy U s1" "filled s1 e" by (rule fillsD [OF IH ok s1(1) e1])
    from s1(2) a tidy_note [OF a(2) sep e]
    show "\<exists>t'. t = Some t' \<and> tidy U s' \<and> filled s' (Expr_Parenthesized i l e)"
      by (auto simp: note_parenthesized_def filled_def)
  qed
next
  case (Array i l es)
  have mem: "Expr_Literal (Lit_Array i l es) \<in> U" using Array.prems by simp
  show ?case
  proof (rule fills_recordedI [OF sep mem])
    fix s t s'
    let ?e = "Expr_Literal (Lit_Array i l es)"
    assume ok: "tidy U s" and r: "node_typeinfo (expression_id ?e) s = None"
      "infer_expression ?e s = Some (t, s')" "tc_errors s' = []"
    from cf mem r(1,2) obtain x xs where es: "es = Some (x # xs)"
      by (cases es) (auto split: list.splits)
    have IH: "fills U x" "\<And>y. y \<in> set xs \<Longrightarrow> fills U y"
      using Array by (auto simp: es argument_list_def)
    from r(1,2) obtain t1 s1 where s1: "infer_expression x s = Some (t1, s1)"
      "(case t1 of None \<Rightarrow> Some (None, s1) | Some et \<Rightarrow>
          do { s2 \<leftarrow> infer_elements et l xs s1;
               let at = TypeInfo (Kind_Array et (length (x # xs) mod 2 ^ 32)) [];
               Some (Some at, set_node_typeinfo i at s2) }) = Some (t, s')"
      by (auto simp: es elim!: bind_SomeE)
    have "tc_errors s1 = []" using s1(2) r(3) elements_no_error
      by (fastforce simp: Let_def elim!: bind_SomeE split: option.splits)
    then obtain et where a: "t1 = Some et" "tidy U s1" "filled s1 x" using fillsD [OF IH(1) ok s1(1)] by blast
    let ?at = "TypeInfo (Kind_Array et (length (x # xs) mod 2 ^ 32)) []"
    from s1(2) a(1) obtain s2 where s2: "infer_elements et l xs s1 = Some s2" "t = Some ?at"
      "s' = set_node_typeinfo i ?at s2" by (auto simp: Let_def elim!: bind_SomeE)
    have e2: "tc_errors s2 = []" using s2(3) r(3) by simp
    from elements_fill [OF IH(2) a(2) s2(1) e2]
    have b: "tidy U s2" "\<forall>e\<in>set xs. filled s2 e" "filled s2 x" using filled_grows a(3) by blast+
    with s2 show "\<exists>t' s1. t = Some t' \<and> tidy U s1 \<and> s' = set_node_typeinfo (expression_id ?e) t' s1
        \<and> (\<forall>x\<in>set (visited ?e). x \<noteq> ?e \<longrightarrow> (\<exists>b. x \<in> set (visited b) \<and> filled s1 b))"
      by (auto simp: es argument_list_def)
  qed auto
next
  case (Number i l v)
  show ?case
  proof (rule fills_recordedI [OF sep])
    fix s t s'
    let ?e = "Expr_Literal (Lit_Number i l v)"
    assume ok: "tidy U s" and r: "node_typeinfo (expression_id ?e) s = None"
      "infer_expression ?e s = Some (t, s')" "tc_errors s' = []"
    then show "\<exists>t' s1. t = Some t' \<and> tidy U s1 \<and> s' = set_node_typeinfo (expression_id ?e) t' s1
        \<and> (\<forall>x\<in>set (visited ?e). x \<noteq> ?e \<longrightarrow> (\<exists>b. x \<in> set (visited b) \<and> filled s1 b))"
      by (auto simp: number_literal_result_def Let_def)
  qed (use Number.prems in \<open>auto simp: number_literal_result_def\<close>)
next
  case (Identifier x)
  then have e: "Expr_Identifier x \<in> U" by auto
  show ?case
  proof (rule fillsI)
    fix s t s'
    assume ok: "tidy U s" and r: "infer_expression (Expr_Identifier x) s = Some (t, s')" "tc_errors s' = []"
    have "tc_reported s = {}" using ok infer_no_error [OF r] by (simp add: tidy_def)
    with r obtain t' where v: "t = Some t'" "s' = set_node_typeinfo (ident_id x) t' s"
      by (auto simp: identifier_result_def elim!: bind_SomeE split: option.splits)
    with tidy_note [OF ok sep e] show "\<exists>t'. t = Some t' \<and> tidy U s' \<and> filled s' (Expr_Identifier x)"
      by (auto simp: filled_def)
  qed
next
  case (Type ty)
  then have e: "Expr_Type ty \<in> U" by auto
  show ?case
  proof (rule fillsI)
    fix s t s'
    assume ok: "tidy U s" and r: "infer_expression (Expr_Type ty) s = Some (t, s')" "tc_errors s' = []"
    from r(1) obtain ti where ti: "type_info_new ty = Some ti" by (auto elim!: bind_SomeE)
    have ok1: "tidy U (set_node_typeinfo (type_id ty) ti s)" by (rule tidy_note [OF ok sep e]) auto
    show "\<exists>t'. t = Some t' \<and> tidy U s' \<and> filled s' (Expr_Type ty)"
    proof (cases "array_size_of ty")
      case (Some sz)
      with Type have IH: "fills U sz" by auto
      from r(1) ti Some obtain t2 where t2: "infer_expression sz (set_node_typeinfo (type_id ty) ti s) = Some (t2, s')"
        "t = Some ti" by (auto simp: Let_def elim!: bind_SomeE)
      have "node_typeinfo (type_id ty) s' \<noteq> None"
        by (rule grows_recorded [OF growth.infer_expression_rel [OF t2(1)]]) simp
      with fillsD [OF IH ok1 t2(1) r(2)] t2(2) Some show ?thesis by (auto simp: filled_def)
    next
      case None
      with r(1) ti have "t = Some ti" "s' = set_node_typeinfo (type_id ty) ti s" by (simp_all add: Let_def)
      with ok1 None show ?thesis by (simp add: filled_def)
    qed
  qed
next
  case (Uzumaki i l)
  with cf show ?case by force
next
  case (Bool i l b)
  then have e: "Expr_Literal (Lit_Bool i l b) \<in> U" by auto
  show ?case by (rule fillsI) (use tidy_note [OF _ sep e] in \<open>auto simp: filled_def\<close>)
next
  case (String i l v)
  then have e: "Expr_Literal (Lit_String i l v) \<in> U" by auto
  show ?case by (rule fillsI) (use tidy_note [OF _ sep e] in \<open>auto simp: filled_def\<close>)
next
  case (Unit i l)
  then have e: "Expr_Literal (Lit_Unit i l) \<in> U" by auto
  show ?case by (rule fillsI) (use tidy_note [OF _ sep e] in \<open>auto simp: filled_def\<close>)
qed

section \<open>Steps that record nothing\<close>

lemma context_frames [simp]:
  "tc_ctx (push_error m s) = tc_ctx s" "tc_ctx (push_error_dedup m s) = tc_ctx s"
  "tc_ctx (set_symbol_table st s) = tc_ctx s"
  by (simp_all add: primitive_defs split: option.split)

lemma registration_context: "report_registration op err s = Some s' \<Longrightarrow> tc_ctx s' = tc_ctx s"
  by (auto simp: report_registration_def elim!: bind_SomeE split: sum.splits)

lemma scope_context:
  "enter_scope s = Some s' \<Longrightarrow> tc_ctx s' = tc_ctx s" "leave_scope s = Some s' \<Longrightarrow> tc_ctx s' = tc_ctx s"
  "declare_variable n t l s = Some s' \<Longrightarrow> tc_ctx s' = tc_ctx s"
  "declare_type n ty l s = Some s' \<Longrightarrow> tc_ctx s' = tc_ctx s"
  by (auto simp: enter_scope_def leave_scope_def declare_variable_def declare_type_def
      elim!: bind_SomeE dest: registration_context)

lemma parameter_context:
  "declare_parameter tps a s = Some s' \<Longrightarrow> tc_ctx s' = tc_ctx s"
  "declare_method_parameter ty a s = Some s' \<Longrightarrow> tc_ctx s' = tc_ctx s"
  by (cases a; auto elim!: bind_SomeE dest: scope_context)+

lemma generic_context: "validate_generic_params ps ns s = Some s' \<Longrightarrow> tc_ctx s' = tc_ctx s"
proof (induction ps arbitrary: s)
  case (Cons p ps)
  then show ?case by (fastforce elim!: bind_SomeE split: if_splits)
qed simp

lemma validate_context: "validate_type t tps s = Some s' \<Longrightarrow> tc_ctx s' = tc_ctx s"
  by (induction t tps s rule: validate_type.induct)
    (auto simp: Let_def elim!: bind_SomeE dest!: generic_context split: if_splits)

lemma fold_context:
  "fold_opt f xs s = Some s' \<Longrightarrow> (\<And>x t t'. x \<in> set xs \<Longrightarrow> f x t = Some t' \<Longrightarrow> tc_ctx t' = tc_ctx t)
   \<Longrightarrow> tc_ctx s' = tc_ctx s"
  by (induction xs arbitrary: s) (auto elim!: bind_SomeE, metis)

lemma register_context:
  assumes "register_types_of d s = Some s'"
  shows "tc_ctx s' = tc_ctx s"
proof (cases d)
  case (Def_Struct sd)
  with assms obtain s1 where r: "register_struct_definition sd s = Some s1"
    "fold_opt (register_struct_method (ident_name (sd_name sd))) (sd_methods sd) s1 = Some s'"
    by (auto elim!: bind_SomeE)
  have "tc_ctx s' = tc_ctx s1"
    by (rule fold_context [OF r(2)])
      (auto simp: register_struct_method_def elim!: bind_SomeE dest: registration_context)
  with r(1) show ?thesis
    by (auto simp: register_struct_definition_def elim!: bind_SomeE dest: registration_context)
qed (use assms in \<open>auto simp: register_type_definition_def register_enum_definition_def
      register_spec_definition_def dest: registration_context\<close>)

lemma visibility_context:
  "check_and_report_visibility vis d l cx s = Some (b, s') \<Longrightarrow> tc_ctx s' = tc_ctx s"
  by (auto simp: check_and_report_visibility_def Let_def elim!: bind_SomeE split: if_splits)

lemma import_path_context: "resolve_import_path p sp fp n l i s = Some s' \<Longrightarrow> tc_ctx s' = tc_ctx s"
  by (auto simp: resolve_import_path_def elim!: bind_SomeE dest: visibility_context
      split: option.splits if_splits)

lemma import_context:
  assumes "resolve_import so i im s = Some s'"
  shows "tc_ctx s' = tc_ctx s"
proof (cases "imp_kind im")
  case (Import_Partial items)
  with assms have "fold_opt (resolve_import_item (imp_path im) (imp_location im) i) items s = Some s'"
    by (simp add: resolve_import_def)
  then show ?thesis
    by (rule fold_context) (auto simp: resolve_import_item_def Let_def dest: import_path_context)
qed (use assms resolve_glob_import_frame(1) in
    \<open>auto simp: resolve_import_def dest: import_path_context split: if_splits\<close>)

lemma directive_context: "process_directive d s = Some s' \<Longrightarrow> tc_ctx s' = tc_ctx s"
  by (cases d) (auto dest: registration_context)

text \<open>Up to the collection of functions and constants no type is recorded.\<close>

lemma early_phases_context:
  assumes "process_directives ord s = Some s1" "register_types ord s1 = Some s2"
    "resolve_imports scope_ord so s2 = Some s3"
  shows "tc_ctx s3 = tc_ctx s"
proof -
  have "tc_ctx s1 = tc_ctx s"
    by (rule fold_context [OF assms(1) [unfolded process_directives_def]], erule fold_context)
      (rule directive_context)
  moreover have "tc_ctx s2 = tc_ctx s1"
    by (rule fold_context [OF assms(2) [unfolded register_types_def]], erule fold_context)
      (rule register_context)
  moreover have "tc_ctx s3 = tc_ctx s2"
    by (rule fold_context [OF assms(3) [unfolded resolve_imports_def]])
      (auto simp: resolve_imports_in_scope_def dest: import_context split: option.splits
        elim!: fold_context)
  ultimately show ?thesis by simp
qed

section \<open>The parts of a program\<close>

text \<open>
  What the checker of bodies gets to see, in order: expressions to infer, and identifiers it records a
  type for itself. An uzumaki that is assigned, returned or an initial value takes its type from there.
\<close>

datatype part = Part_Expression expression | Part_Mark nat

definition value_parts :: "expression \<Rightarrow> part list" where
  "value_parts e = (case uzumaki_parts e of Some (i, _) \<Rightarrow> [Part_Mark i] | None \<Rightarrow> [Part_Expression e])"

lemma statement_in_block: "st \<in> set (block_statements b) \<Longrightarrow> size st < size b"
  using block_statements_size [of b] size_list_estimation' [of st _ "size st" size] by fastforce

function (sequential) statement_parts :: "statement \<Rightarrow> part list"
and block_parts :: "block_type \<Rightarrow> part list" where
  "statement_parts (Stmt_Assign i l left right) = Part_Expression left # value_parts right"
| "statement_parts (Stmt_Block b) = block_parts b"
| "statement_parts (Stmt_Expression e) = [Part_Expression e]"
| "statement_parts (Stmt_Return i l e) = value_parts e"
| "statement_parts (Stmt_Loop i l condition body) =
     (case condition of None \<Rightarrow> [] | Some e \<Rightarrow> [Part_Expression e]) @ block_parts body"
| "statement_parts (Stmt_If i l condition if_arm else_arm) =
     Part_Expression condition # block_parts if_arm @ (case else_arm of None \<Rightarrow> [] | Some b \<Rightarrow> block_parts b)"
| "statement_parts (Stmt_VariableDefinition i l name t value is_undef) =
     (case value of None \<Rightarrow> [] | Some e \<Rightarrow> value_parts e) @ [Part_Mark (ident_id name), Part_Mark i]"
| "statement_parts (Stmt_Assert i l e) = [Part_Expression e]"
| "statement_parts (Stmt_ConstantDefinition c) = [Part_Mark (literal_id (cd_value c)), Part_Mark (cd_id c)]"
| "statement_parts _ = []"
| "block_parts b = concat (map statement_parts (block_statements b))"
  by pat_completeness auto

termination
  by (relation "measure (\<lambda>x. case x of Inl st \<Rightarrow> size st | Inr b \<Rightarrow> size b)")
    (auto simp: statement_in_block)

declare block_parts.simps [simp del]

fun checked_parts :: "ast_definition \<Rightarrow> part list" where
  "checked_parts (Def_Function f) = block_parts (fd_body f)"
| "checked_parts (Def_Struct d) = concat (map (\<lambda>m. block_parts (fd_body m)) (sd_methods d))"
| "checked_parts _ = []"

fun parameter_parts :: "argument_type \<Rightarrow> part list" where
  "parameter_parts (Arg_IgnoreArgument a) = [Part_Mark (ig_id a)]"
| "parameter_parts (Arg_Argument a) = [Part_Mark (arg_id a), Part_Mark (ident_id (arg_name a))]"
| "parameter_parts _ = []"

fun registered_parts :: "ast_definition \<Rightarrow> part list" where
  "registered_parts (Def_Constant c) = [Part_Mark (literal_id (cd_value c))]"
| "registered_parts (Def_Function f) =
     concat (map parameter_parts (argument_list (fd_arguments f)))
     @ Part_Mark (ident_id (fd_name f)) # (case fd_returns f of None \<Rightarrow> [] | Some r \<Rightarrow> [Part_Mark (type_id r)])"
| "registered_parts _ = []"

definition program_parts :: "nat list \<Rightarrow> arena \<Rightarrow> part list" where
  "program_parts ord a = concat (map (\<lambda>f. concat (map (\<lambda>d. registered_parts d @ checked_parts d) (src_definitions f)))
     (source_files ord a))"

primrec part_nodes :: "part \<Rightarrow> expression list" where
  "part_nodes (Part_Expression e) = visited e"
| "part_nodes (Part_Mark i) = []"

definition part_ids :: "part \<Rightarrow> nat list" where
  "part_ids p = (case p of Part_Expression e \<Rightarrow> concat (map answer_ids (visited e)) | Part_Mark i \<Rightarrow> [i])"

definition program_nodes :: "nat list \<Rightarrow> arena \<Rightarrow> expression list" where
  "program_nodes ord a = concat (map part_nodes (program_parts ord a))"

definition program_ids :: "nat list \<Rightarrow> arena \<Rightarrow> nat list" where
  "program_ids ord a = concat (map part_ids (program_parts ord a))"

text \<open>
  The identifiers of the program are those of a parser: what a node records is looked up by that node only,
  what the checker records on its own by no node. No visited node is one without a type of its own.
\<close>

definition program_separate :: "nat list \<Rightarrow> arena \<Rightarrow> bool" where
  "program_separate ord a \<longleftrightarrow>
     separate_nodes (set (program_nodes ord a))
     \<and> (\<forall>e\<in>set (program_nodes ord a). context_free e
          \<and> (reads_record e \<longrightarrow> Part_Mark (expression_id e) \<notin> set (program_parts ord a)))"

section \<open>Statements and bodies\<close>

definition part_ok :: "expression set \<Rightarrow> part \<Rightarrow> bool" where
  "part_ok U p = (case p of Part_Expression e \<Rightarrow> set (visited e) \<subseteq> U
     | Part_Mark i \<Rightarrow> \<forall>b\<in>U. reads_record b \<longrightarrow> expression_id b \<noteq> i)"

definition part_done :: "checker \<Rightarrow> part \<Rightarrow> bool" where
  "part_done s p \<longleftrightarrow> (\<forall>i\<in>set (part_ids p). node_typeinfo i s \<noteq> None)"

lemma part_simps [simp]:
  "part_ok U (Part_Expression e) \<longleftrightarrow> set (visited e) \<subseteq> U"
  "part_ok U (Part_Mark i) \<longleftrightarrow> (\<forall>b\<in>U. reads_record b \<longrightarrow> expression_id b \<noteq> i)"
  "part_done s (Part_Expression e) \<longleftrightarrow> filled s e"
  "part_done s (Part_Mark i) \<longleftrightarrow> node_typeinfo i s \<noteq> None"
  by (simp_all add: part_ok_def part_done_def part_ids_def filled_def)

lemma part_done_grows: "grows s s' \<Longrightarrow> part_done s p \<Longrightarrow> part_done s' p"
  unfolding part_done_def using grows_recorded by blast

lemma part_done_note [simp]: "part_done s p \<Longrightarrow> part_done (set_node_typeinfo i t s) p"
  by (simp add: part_done_def)

text \<open>A step does its parts.\<close>

definition does :: "expression set \<Rightarrow> part list \<Rightarrow> checker \<Rightarrow> checker \<Rightarrow> bool" where
  "does U ps s s' \<longleftrightarrow> grows s s' \<and>
     (separate_nodes U \<and> (\<forall>e\<in>U. context_free e) \<and> tidy U s \<and> tc_errors s' = [] \<and> (\<forall>p\<in>set ps. part_ok U p)
      \<longrightarrow> tidy U s' \<and> (\<forall>p\<in>set ps. part_done s' p))"

lemma same_context:
  assumes "tc_ctx s' = tc_ctx s"
  shows "filled s' e \<longleftrightarrow> filled s e" "closed U s' \<longleftrightarrow> closed U s"
  using assms by (simp_all add: closed_def filled_def node_typeinfo_def)

lemma does_nothing:
  assumes "grows s s'" "keeps_quiet s s'" "tc_ctx s' = tc_ctx s"
  shows "does U [] s s'"
  using assms same_context(2) [OF assms(3)] unfolding does_def tidy_def keeps_quiet_def by simp

lemma does_mark: "does U [Part_Mark i] s (set_node_typeinfo i t s)"
  using tidy_mark growth.R_note by (simp add: does_def)

lemma does_done:
  assumes "does U ps s s'" "separate_nodes U" "\<forall>e\<in>U. context_free e" "tidy U s" "tc_errors s' = []"
    and "\<And>p. p \<in> set ps \<Longrightarrow> part_ok U p" "p \<in> set ps"
  shows "part_done s' p"
  using assms by (simp add: does_def)

lemma does_trans:
  assumes "does U ps s s1" "does U qs s1 s2"
  shows "does U (ps @ qs) s s2"
proof -
  have g: "grows s s1" "grows s1 s2" using assms by (simp_all add: does_def)
  have "tidy U s2 \<and> (\<forall>p\<in>set (ps @ qs). part_done s2 p)"
    if t: "separate_nodes U" "\<forall>e\<in>U. context_free e" "tidy U s" "tc_errors s2 = []"
      "\<forall>p\<in>set (ps @ qs). part_ok U p"
  proof -
    have "tidy U s1" "\<forall>p\<in>set ps. part_done s1 p"
      using assms(1) t grows_empty [OF g(2) t(4)] by (simp_all add: does_def)
    moreover from this(1) have "tidy U s2" "\<forall>p\<in>set qs. part_done s2 p"
      using assms(2) t(1,2,4,5) by (simp_all add: does_def)
    ultimately show ?thesis using part_done_grows [OF g(2)] by auto
  qed
  then show ?thesis unfolding does_def using growth.R_trans [OF g] by blast
qed

lemma does_fold:
  assumes "fold_opt f xs s = Some s'" "\<And>x t t'. x \<in> set xs \<Longrightarrow> f x t = Some t' \<Longrightarrow> does U (g x) t t'"
  shows "does U (concat (map g xs)) s s'"
  using assms
proof (induction xs arbitrary: s)
  case Nil
  then show ?case by (simp add: does_def growth.R_refl)
next
  case (Cons x xs)
  from Cons.prems(1) obtain s1 where r: "f x s = Some s1" "fold_opt f xs s1 = Some s'" by (auto elim!: bind_SomeE)
  have "does U (g x) s s1" using Cons.prems(2) r(1) by simp
  moreover have "does U (concat (map g xs)) s1 s'" using Cons.IH [OF r(2)] Cons.prems(2) by simp
  ultimately show ?case using does_trans by simp
qed

lemma does_then: "does U ps s s1 \<Longrightarrow> does U [] s1 s2 \<Longrightarrow> does U ps s s2"
  using does_trans [of U ps s s1 "[]" s2] by simp

lemma does_first: "does U [] s s1 \<Longrightarrow> does U ps s1 s2 \<Longrightarrow> does U ps s s2"
  using does_trans [of U "[]" s s1 ps s2] by simp

lemma does_checks [simp, intro]:
  "does U [] s (check_assignment l t v s)" "does U [] s (check_return l rt v s)"
  "does U [] s (check_condition l v s)" "does U [] s (check_initial_value l rt v s)"
  by (rule does_nothing, rule growth.R_checks [OF growth.R_refl], rule quiet.R_checks [OF quiet.R_refl],
      simp add: check_assignment_def check_return_def check_condition_def check_initial_value_def split: option.split)+

lemma does_scopes:
  "enter_scope s = Some s' \<Longrightarrow> does U [] s s'" "leave_scope s = Some s' \<Longrightarrow> does U [] s s'"
  "declare_variable n t l s = Some s' \<Longrightarrow> does U [] s s'"
  "declare_type n ty l s = Some s' \<Longrightarrow> does U [] s s'"
  by (rule does_nothing; (rule growth.R_scopes [OF _ growth.R_refl] quiet.R_scopes [OF _ quiet.R_refl]
      growth.R_declare [OF _ growth.R_refl] quiet.R_declare [OF _ quiet.R_refl] scope_context, assumption))+

lemma does_assign_uzumaki: "does U [Part_Mark i] s (assign_uzumaki i l t s)"
proof (cases t)
  case None
  then show ?thesis by (simp add: does_def assign_uzumaki_def growth.R_error_step [OF growth.R_refl])
next
  case (Some t')
  then show ?thesis using does_mark by (simp add: assign_uzumaki_def)
qed

lemma does_infer: "infer_expression e s = Some (t, s') \<Longrightarrow> does U [Part_Expression e] s s'"
  using infer_fills [of U e] growth.infer_expression_rel
  by (auto simp: does_def elim: fillsD)

lemma does_optional:
  "infer_optional c l s = Some s' \<Longrightarrow> does U (case c of None \<Rightarrow> [] | Some e \<Rightarrow> [Part_Expression e]) s s'"
  by (auto simp: infer_optional_def elim!: bind_SomeE intro: does_then [OF does_infer] does_nothing
      growth.R_refl quiet.R_refl split: option.splits)

lemma does_initial:
  "infer_initial_value v t l s = Some s' \<Longrightarrow> does U (case v of None \<Rightarrow> [] | Some e \<Rightarrow> value_parts e) s s'"
  by (auto simp: infer_initial_value_def value_parts_def elim!: bind_SomeE intro: does_then [OF does_infer]
      does_mark does_nothing growth.R_refl quiet.R_refl split: option.splits)

lemma does_statements:
  "infer_statement st rt s = Some s' \<Longrightarrow> does U (statement_parts st) s s'"
  "infer_block b rt s = Some s' \<Longrightarrow> does U (block_parts b) s s'"
  "infer_statements ss rt s = Some s' \<Longrightarrow> does U (concat (map statement_parts ss)) s s'"
proof (induction st rt s and b rt s and ss rt s arbitrary: s' and s' and s'
    rule: infer_statement_infer_block_infer_statements.induct)
  case (1 i l left right rt s)
  then obtain t s1 where r: "infer_expression left s = Some (t, s1)"
    "(case uzumaki_parts right of Some (ui, ul) \<Rightarrow> Some (assign_uzumaki ui ul t s1)
      | None \<Rightarrow> do { (value_type, s2) \<leftarrow> infer_expression right s1;
                     Some (check_assignment l t value_type s2) }) = Some s'"
    by (auto elim!: bind_SomeE)
  have "does U (value_parts right) s1 s'" using r(2)
    by (auto simp: value_parts_def elim!: bind_SomeE intro: does_then [OF does_infer] does_assign_uzumaki
        split: option.splits prod.splits)
  from does_trans [OF does_infer [OF r(1)] this] show ?case by simp
next
  case (3 e rt s)
  then show ?case by (auto intro: does_infer)
next
  case (4 i l e rt s)
  then show ?case
    by (auto simp: value_parts_def elim!: bind_SomeE intro: does_then [OF does_infer] does_mark
        split: option.splits)
next
  case (5 i l condition body rt s)
  then obtain s1 where r: "infer_optional condition l s = Some s1" "infer_block body rt s1 = Some s'"
    by (auto elim!: bind_SomeE)
  from does_trans [OF does_optional [OF r(1)] 5(1) [OF r(2)]] show ?case by simp
next
  case (7 i l condition if_arm else_arm rt s)
  then obtain t s1 s2 where r: "infer_expression condition s = Some (t, s1)"
    "infer_block if_arm rt (check_condition l t s1) = Some s2"
    "(case else_arm of None \<Rightarrow> Some s2 | Some b \<Rightarrow> infer_block b rt s2) = Some s'"
    by (auto elim!: bind_SomeE)
  have a: "does U (block_parts if_arm) (check_condition l t s1) s2" by (rule 7(1) [OF refl r(2)])
  have "does U (case else_arm of None \<Rightarrow> [] | Some b \<Rightarrow> block_parts b) s2 s'"
    using r(3) 7(2)
    by (auto intro: does_nothing growth.R_refl quiet.R_refl split: option.splits)
  from does_trans [OF does_then [OF does_infer [OF r(1)] does_checks(3)] does_trans [OF a this]]
  show ?case by simp
next
  case (8 i l name t v u rt s)
  then obtain target s1 s2 where r: "infer_initial_value v target l s = Some s1"
    "declare_variable (ident_name name) target l s1 = Some s2"
    "s' = set_node_typeinfo i target (set_node_typeinfo (ident_id name) target s2)"
    by (auto elim!: bind_SomeE)
  from does_trans [OF does_then [OF does_initial [OF r(1)] does_scopes(3) [OF r(2)]]
      does_trans [OF does_mark [of U "ident_id name" s2 target] does_mark [of U i _ target]]] r(3)
  show ?case by simp
next
  case (9 i l name t rt s)
  then show ?case by (auto intro: does_scopes)
next
  case (10 i l e rt s)
  then show ?case by (auto elim!: bind_SomeE intro: does_then [OF does_infer])
next
  case (11 c rt s)
  then obtain t s1 where r: "declare_variable (ident_name (cd_name c)) t (cd_location c) s = Some s1"
    "s' = set_node_typeinfo (cd_id c) t (set_node_typeinfo (literal_id (cd_value c)) t s1)"
    by (auto elim!: bind_SomeE)
  from does_first [OF does_scopes(3) [OF r(1)]
      does_trans [OF does_mark [of U "literal_id (cd_value c)" s1 t] does_mark [of U "cd_id c" _ t]]] r(2)
  show ?case by simp
next
  case (12 b rt s)
  then obtain s1 s2 where r: "enter_scope s = Some s1"
    "infer_statements (block_statements b) rt s1 = Some s2" "leave_scope s2 = Some s'"
    by (auto simp: infer_block.simps elim!: bind_SomeE)
  from does_first [OF does_scopes(1) [OF r(1)] does_then [OF 12(1) [OF r(2)] does_scopes(2) [OF r(3)]]]
  show ?case by (simp add: block_parts.simps)
next
  case (14 st ss rt s)
  then obtain s1 where r: "infer_statement st rt s = Some s1" "infer_statements ss rt s1 = Some s'"
    by (auto elim!: bind_SomeE)
  from does_trans [OF 14(1) [OF r(1)] 14(2) [OF r(2)]] show ?case by simp
qed (auto intro: does_nothing growth.R_refl quiet.R_refl)

lemma does_bodies:
  "infer_variables f s = Some s' \<Longrightarrow> does U (block_parts (fd_body f)) s s'"
  "infer_method_variables f self_type s = Some s' \<Longrightarrow> does U (block_parts (fd_body f)) s s'"
proof -
  have params: "does U [] s1 s2" if "fold_opt g xs s1 = Some s2"
    "\<And>x t t'. g x t = Some t' \<Longrightarrow> grows t t' \<and> keeps_quiet t t' \<and> tc_ctx t' = tc_ctx t" for g xs s1 s2
  proof -
    have "does U (concat (map (\<lambda>_. []) xs)) s1 s2"
      by (rule does_fold [OF that(1)]) (use that(2) does_nothing in blast)
    then show ?thesis by (simp add: concat_eq_Nil_conv [THEN iffD2])
  qed
  show "does U (block_parts (fd_body f)) s s'" if run: "infer_variables f s = Some s'"
  proof -
    from run obtain s2 s3 s4 rt where r: "enter_scope s = Some s2"
      "fold_opt (declare_parameter (type_parameter_names (fd_type_parameters f)))
         (argument_list (fd_arguments f)) s2 = Some s3"
      "infer_statements (block_statements (fd_body f)) rt s3 = Some s4" "leave_scope s4 = Some s'"
      by (auto simp: infer_variables_def Let_def elim!: bind_SomeE)
    have "does U [] s2 s3"
      by (rule params [OF r(2)])
        (use growth.R_parameters(1) growth.R_refl quiet.R_parameters(1) quiet.R_refl parameter_context(1) in blast)
    from does_first [OF does_first [OF does_scopes(1) [OF r(1)] this]
        does_then [OF does_statements(3) [OF r(3)] does_scopes(2) [OF r(4)]]]
    show ?thesis by (simp add: block_parts.simps)
  qed
  show "does U (block_parts (fd_body f)) s s'" if run: "infer_method_variables f self_type s = Some s'"
  proof -
    from run obtain s2 s3 s4 where r: "enter_scope s = Some s2"
      "fold_opt (declare_method_parameter self_type) (argument_list (fd_arguments f)) s2 = Some s3"
      "fold_opt (\<lambda>st s. do { rt \<leftarrow> return_type_info [] (fd_returns f); infer_statement st rt s })
         (block_statements (fd_body f)) s3 = Some s4" "leave_scope s4 = Some s'"
      by (auto simp: infer_method_variables_def elim!: bind_SomeE)
    have "does U [] s2 s3"
      by (rule params [OF r(2)])
        (use growth.R_parameters(2) growth.R_refl quiet.R_parameters(2) quiet.R_refl parameter_context(2) in blast)
    moreover have "does U (concat (map statement_parts (block_statements (fd_body f)))) s3 s4"
      by (rule does_fold [OF r(3)]) (auto elim!: bind_SomeE intro: does_statements(1))
    ultimately show ?thesis
      using does_first [OF does_first [OF does_scopes(1) [OF r(1)]]] does_then does_scopes(2) [OF r(4)]
      by (metis block_parts.simps)
  qed
qed

lemma does_check: "check_definition d s = Some s' \<Longrightarrow> does U (checked_parts d) s s'"
  by (cases d) (auto intro: does_bodies does_nothing growth.R_refl quiet.R_refl elim!: does_fold)

lemma does_registration:
  assumes "report_registration op err s = Some s'"
    "\<And>st. op (tc_symbol_table s) = Some (Inr st) \<Longrightarrow> table_step (tc_symbol_table s) st"
    "\<And>m. dedup_key (err m) = None \<and> \<not> is_circular_import (err m)"
  shows "does U [] s s'"
  by (rule does_nothing)
    (use assms growth.R_registration [OF assms(1) growth.R_refl] quiet.R_registration [OF assms(1) quiet.R_refl]
      registration_context in blast)+

lemma does_validate: "validate_type t tps s = Some s' \<Longrightarrow> does U [] s s'"
  by (rule does_nothing, rule growth.R_validate [OF _ growth.R_refl], assumption,
      rule quiet.R_validate [OF _ quiet.R_refl], assumption, rule validate_context)

lemma does_collect_parameter:
  "collect_parameter f a s = Some s' \<Longrightarrow> does U (parameter_parts a) s s'"
proof (cases a)
  case (Arg_SelfReference r)
  assume "collect_parameter f a s = Some s'"
  with Arg_SelfReference show ?thesis
    by (auto simp: does_def growth.R_error_step [OF growth.R_refl])
next
  case (Arg_Argument x)
  assume "collect_parameter f a s = Some s'"
  with Arg_Argument obtain s1 t where r: "validate_type (arg_ty x) (fd_type_parameters f) s = Some s1"
    "s' = set_node_typeinfo (ident_id (arg_name x)) t (set_node_typeinfo (arg_id x) t s1)"
    by (auto elim!: bind_SomeE)
  from does_first [OF does_validate [OF r(1)]
      does_trans [OF does_mark [of U "arg_id x" s1 t] does_mark [of U "ident_id (arg_name x)" _ t]]] r(2)
  show ?thesis by (simp add: Arg_Argument)
qed (auto elim!: bind_SomeE intro: does_first [OF does_validate] does_mark does_validate)

lemma does_collect_function:
  assumes "collect_function f s = Some s'"
  shows "does U (registered_parts (Def_Function f)) s s'"
proof -
  from assms obtain s1 s2 where r:
    "fold_opt (collect_parameter f) (argument_list (fd_arguments f)) s = Some s1"
    "collect_return_type f (set_node_typeinfo (ident_id (fd_name f)) (function_node_type f) s1) = Some s2"
    "report_registration
       (register_function (ident_name (fd_name f)) (type_parameter_names (fd_type_parameters f))
          (argument_types (fd_arguments f)) (return_type_or_unit (fd_returns f)))
       (\<lambda>err. RegistrationFailed Reg_Function (ident_name (fd_name f)) (Some err) (fd_location f)) s2 = Some s'"
    by (auto simp: collect_function_def elim!: bind_SomeE)
  let ?s1 = "set_node_typeinfo (ident_id (fd_name f)) (function_node_type f) s1"
  have 1: "does U (concat (map parameter_parts (argument_list (fd_arguments f)))) s s1"
    by (rule does_fold [OF r(1) does_collect_parameter])
  have 2: "does U (case fd_returns f of None \<Rightarrow> [] | Some r \<Rightarrow> [Part_Mark (type_id r)]) ?s1 s2"
    using r(2) by (auto simp: collect_return_type_def elim!: bind_SomeE intro: does_first [OF does_validate]
        does_mark does_nothing growth.R_refl quiet.R_refl split: option.splits)
  have 3: "does U [] s2 s'"
    by (rule does_registration [OF r(3)]) (auto simp: register_function_def elim!: bind_SomeE intro: table_step.intros)
  from does_trans [OF 1 does_trans [OF does_mark does_then [OF 2 3]]] show ?thesis by simp
qed

lemma does_collect: "collect_of d s = Some s' \<Longrightarrow> does U (registered_parts d) s s'"
proof (cases d)
  case (Def_Constant c)
  assume "collect_of d s = Some s'"
  with Def_Constant obtain s1 t where r: "declare_variable (ident_name (cd_name c)) t (cd_location c) s = Some s1"
    "s' = set_node_typeinfo (literal_id (cd_value c)) t s1"
    by (auto simp: collect_constant_def elim!: bind_SomeE)
  from does_first [OF does_scopes(3) [OF r(1)] does_mark [of U "literal_id (cd_value c)" s1 t]] r(2)
  show ?thesis by (simp add: Def_Constant)
next
  case (Def_ExternalFunction f)
  assume "collect_of d s = Some s'"
  with Def_ExternalFunction show ?thesis
    by (auto simp: collect_external_function_def register_function_def elim!: does_registration bind_SomeE
        intro: table_step.intros)
next
  case (Def_Function f)
  assume "collect_of d s = Some s'"
  with Def_Function show ?thesis using does_collect_function by simp
qed (auto intro: does_nothing growth.R_refl quiet.R_refl)

section \<open>The whole run\<close>

lemma does_files:
  assumes "fold_opt (\<lambda>f. fold_opt g (h f)) fs s = Some s'" "\<And>d t t'. g d t = Some t' \<Longrightarrow> does U (k d) t t'"
  shows "does U (concat (map (\<lambda>f. concat (map k (h f))) fs)) s s'"
  by (rule does_fold [OF assms(1)], rule does_fold, assumption) (rule assms(2))

text \<open>A run without errors leaves a type for every identifier of the program.\<close>

lemma phases_record:
  assumes run: "infer_phases ord scope_ord so (default_checker (typed_context_new a)) = Some s'"
    and ne: "tc_errors s' = []" and sep: "program_separate ord a"
  shows "\<forall>i\<in>set (program_ids ord a). node_typeinfo i s' \<noteq> None"
proof -
  let ?s = "default_checker (typed_context_new a)" and ?U = "set (program_nodes ord a)"
  from run obtain s1 s2 s3 s4 where r: "process_directives ord ?s = Some s1"
    "register_types ord s1 = Some s2" "resolve_imports scope_ord so s2 = Some s3"
    "collect_function_and_constant_definitions ord s3 = Some s4" "check_bodies ord s4 = Some s'"
    by (auto simp: infer_phases_def elim!: bind_SomeE)
  have c3: "tc_ctx s3 = typed_context_new a"
    using early_phases_context [OF r(1-3)] by (simp add: default_checker_def)
  have "keeps_quiet ?s s3"
  proof -
    have "keeps_quiet ?s s1"
      by (rule quiet.R_files [OF r(1) [unfolded process_directives_def] quiet.R_refl quiet.R_process_directive])
    then have "keeps_quiet ?s s2"
      by (rule quiet.R_files [OF r(2) [unfolded register_types_def] _ quiet.R_register_types_of])
    then show ?thesis
      by (rule quiet.R_fold [OF r(3) [unfolded resolve_imports_def] _ quiet.R_imports_in_scope])
  qed
  then have tidy: "tidy ?U s3"
    by (simp add: tidy_def keeps_quiet_def closed_def c3 node_typeinfo_def get_node_typeinfo_def
        typed_context_new_def default_checker_def)
  let ?fs = "source_files ord a"
  let ?reg = "concat (map (\<lambda>f. concat (map registered_parts (src_definitions f))) ?fs)"
  let ?chk = "concat (map (\<lambda>f. concat (map checked_parts (src_definitions f))) ?fs)"
  have f3: "cx_source_files ord (tc_ctx s3) = ?fs" by (simp add: c3 cx_source_files_def typed_context_new_def)
  have d4: "does ?U ?reg s3 s4"
    by (rule does_files [OF r(4) [unfolded collect_function_and_constant_definitions_def f3] does_collect])
  then have f4: "cx_source_files ord (tc_ctx s4) = ?fs"
    using same_files [of s3 s4] f3 by (simp add: does_def)
  have d5: "does ?U ?chk s4 s'" by (rule does_files [OF r(5) [unfolded check_bodies_def f4] does_check])
  have parts: "set (?reg @ ?chk) = set (program_parts ord a)" by (auto simp: program_parts_def)
  have ok: "part_ok ?U p" if "p \<in> set (program_parts ord a)" for p
  proof (cases p)
    case (Part_Expression e)
    with that show ?thesis by (auto simp: program_nodes_def)
  next
    case (Part_Mark i)
    with that sep show ?thesis by (auto simp: program_separate_def)
  qed
  have u: "separate_nodes ?U" "\<forall>e\<in>?U. context_free e" using sep by (simp_all add: program_separate_def)
  have "part_done s' p" if "p \<in> set (program_parts ord a)" for p
    by (rule does_done [OF does_trans [OF d4 d5] u tidy ne]) (use ok that parts in blast)+
  then show ?thesis by (auto simp: program_ids_def part_done_def)
qed

end
