(* ===== verification/CheckerProperties.thy ===== *)
theory CheckerProperties
  imports ArenaProperties ImportProperties BodyRecords
begin

text \<open>
  The properties of the checker itself (\<open>core/type-checker/src/type_checker.rs\<close>,
  \<open>core/type-checker/src/lib.rs\<close>), each with a witness on a small program.
\<close>

section \<open>Small inputs\<close>

definition start_checker :: checker where
  "start_checker = default_checker (typed_context_new empty_arena)"

lemma start_checker_fields [simp]:
  "tc_symbol_table start_checker = default_symbol_table" "tc_errors start_checker = []"
  "tc_reported start_checker = {}" "node_typeinfo i start_checker = None"
  "cx_arena (tc_ctx start_checker) = empty_arena"
  by (simp_all add: start_checker_def default_checker_def node_typeinfo_def get_node_typeinfo_def
      typed_context_new_def)

definition example_number :: "nat \<Rightarrow> expression" where
  "example_number i = Expr_Literal (Lit_Number i default_location ''1'')"

definition example_sum :: expression where
  "example_sum = Expr_Binary 1 default_location (example_number 2) Op_Add (example_number 3)"

definition example_not :: expression where
  "example_not = Expr_PrefixUnary 4 default_location (Expr_Identifier (example_ident 5 ''x'')) UnOp_Not"

lemmas example_expressions = example_sum_def example_number_def example_not_def example_ident_def

section \<open>Expressions\<close>


lemma example_sum_run:
  "infer_expression example_sum start_checker =
     Some (Some (TypeInfo (Kind_Number Num_I32) []),
       set_node_typeinfo 1 (TypeInfo (Kind_Number Num_I32) [])
         (set_node_typeinfo 3 (TypeInfo (Kind_Number Num_I32) [])
           (set_node_typeinfo 2 (TypeInfo (Kind_Number Num_I32) []) start_checker)))"
  by (simp add: example_expressions number_literal_result_def binary_result_def Let_def is_number_def)


text \<open>Inference of an expression returns on a well-formed symbol table, if every array type in it
  has a numeric literal of 32 bits as its size and no array literal carries an empty element
  vector.\<close>

theorem inference_returns:
  assumes "expr_ok e" "wf_symtab (tc_symbol_table s)"
  shows "\<exists>t s'. infer_expression e s = Some (t, s')"
  using returnsD [OF expr_ok_returns [OF assms(1)] assms(2)] by blast

theorem inference_returns_witness: "\<exists>t s'. infer_expression example_not start_checker = Some (t, s')"
  by (rule inference_returns) (simp_all add: example_expressions)

text \<open>Inference of an expression changes neither the symbol table nor the arena nor the set of glob
  imports in progress; it only appends errors, and a node that had a type still has one.\<close>

theorem inference_frame:
  assumes "infer_expression e s = Some (t, s')"
  shows "tc_symbol_table s' = tc_symbol_table s \<and> cx_arena (tc_ctx s') = cx_arena (tc_ctx s)
    \<and> tc_glob_in_progress s' = tc_glob_in_progress s \<and> prefix (tc_errors s) (tc_errors s')
    \<and> dom (cx_node_types (tc_ctx s)) \<subseteq> dom (cx_node_types (tc_ctx s'))"
  using table.infer_expression_rel [OF assms] growth.infer_expression_rel [OF assms]
  by (simp add: same_table_def grows_def)

theorem inference_frame_witness:
  "\<exists>t s'. infer_expression example_sum start_checker = Some (t, s')
     \<and> tc_symbol_table s' = default_symbol_table"
  using inference_frame [OF example_sum_run] example_sum_run by auto

section \<open>Blocks and bodies\<close>

text \<open>C4: After a block has been checked, every name means what it meant before the block.\<close>

theorem blocks_restore_names:
  assumes wf: "wf_symtab (tc_symbol_table s)" and run: "infer_block b rt s = Some s'"
  shows "lookup_variable n (tc_symbol_table s') = lookup_variable n (tc_symbol_table s)
    \<and> lookup_symbol n (tc_symbol_table s') = lookup_symbol n (tc_symbol_table s)
    \<and> lookup_type n (tc_symbol_table s') = lookup_type n (tc_symbol_table s)"
proof -
  have "wf_symtab (tc_symbol_table s')"
    using extension.R_statements(2) [OF run extension.R_refl] wf by (simp add: extends_table_def)
  with same_frames_lookups [OF statement_steps(2) [OF run wf] wf] show ?thesis by blast
qed

definition example_block :: block_type where
  "example_block = Block_Block 20 default_location
     [Stmt_VariableDefinition 21 default_location (example_ident 22 ''x'') (Type_Simple Simple_Bool)
        (Some (Expr_Literal (Lit_Bool 23 default_location True))) False,
      Stmt_Assert 24 default_location example_not]"

lemma example_block_ok: "block_ok example_block"
  by (simp add: example_block_def block_ok.simps example_expressions type_ok_def type_info_new_def)

theorem blocks_restore_names_witness:
  "\<exists>s'. infer_block example_block default_type_info start_checker = Some s'
     \<and> lookup_variable ''x'' (tc_symbol_table s') = Some None"
proof -
  obtain s' where "infer_block example_block default_type_info start_checker = Some s'"
    using statements_return(2) [OF example_block_ok, of start_checker default_type_info] by auto
  with blocks_restore_names [OF _ this, of "''x''"] show ?thesis by (simp add: default_lookup_variable)
qed

text \<open>After the body of a function or of a method has been checked, every name means what it meant
  before.\<close>

theorem bodies_restore_names:
  assumes wf: "wf_symtab (tc_symbol_table s)"
    and run: "infer_variables f s = Some s' \<or> infer_method_variables f self_type s = Some s'"
  shows "lookup_variable n (tc_symbol_table s') = lookup_variable n (tc_symbol_table s)
    \<and> lookup_symbol n (tc_symbol_table s') = lookup_symbol n (tc_symbol_table s)
    \<and> lookup_type n (tc_symbol_table s') = lookup_type n (tc_symbol_table s)"
proof -
  have "wf_symtab (tc_symbol_table s')"
    using run extension.R_bodies [OF _ extension.R_refl] wf by (auto simp: extends_table_def)
  moreover have "same_frames (tc_symbol_table s) (tc_symbol_table s')"
    using run body_frames [OF wf] by blast
  ultimately show ?thesis using same_frames_lookups wf by blast
qed

definition example_function :: function_definition where
  "example_function = \<lparr>fd_id = 10, fd_location = default_location, fd_visibility = Public,
     fd_name = example_ident 11 ''f'', fd_type_parameters = None, fd_arguments = None,
     fd_returns = None, fd_body = example_block\<rparr>"

theorem bodies_restore_names_witness:
  "\<exists>s'. infer_variables example_function start_checker = Some s'
     \<and> lookup_variable ''x'' (tc_symbol_table s') = Some None"
proof -
  have "function_ok example_function"
    using example_block_ok by (simp add: function_ok_def example_function_def signature_ok_def argument_list_def)
  from bodies_return(1) [OF this, of start_checker] obtain s'
    where run: "infer_variables example_function start_checker = Some s'" by auto
  have "infer_variables example_function start_checker = Some s'
      \<or> infer_method_variables example_function default_type_info start_checker = Some s'"
    using run by (rule disjI1)
  from bodies_restore_names [OF _ this, of "''x''"] run show ?thesis
    by (simp add: default_lookup_variable)
qed

section \<open>A whole run\<close>

text \<open>
  Programs of one file with one function, listed by the identifiers of the file and of the value
  expression of the function's body.
\<close>

definition example_arena :: "function_definition \<Rightarrow> expression \<Rightarrow> arena" where
  "example_arena f e = empty_arena\<lparr>ar_nodes :=
     [100 \<mapsto> Node_SourceFile \<lparr>src_id = 100, src_location = default_location, src_source = [],
               src_directives = [], src_definitions = [Def_Function f]\<rparr>,
      4 \<mapsto> Node_Expression e]\<rparr>"

lemma example_arena_simps [simp]:
  "source_files [4, 100] (example_arena f e) = [\<lparr>src_id = 100, src_location = default_location, src_source = [],
     src_directives = [], src_definitions = [Def_Function f]\<rparr>]"
  "dom (ar_nodes (example_arena f e)) = {4, 100}"
  by (auto simp: source_files_def list_nodes_cmp_def example_arena_def empty_arena_def List.map_filter_def)

text \<open>The body asserts \<open>!x\<close> without a declaration of \<open>x\<close>, or sets \<open>x\<close> to the negation of an uzumaki.\<close>

definition undeclared_function :: function_definition where
  "undeclared_function = example_function\<lparr>fd_body :=
     Block_Block 20 default_location [Stmt_Assert 24 default_location example_not]\<rparr>"

definition uzumaki_not :: expression where
  "uzumaki_not = Expr_PrefixUnary 4 default_location (Expr_Uzumaki 5 default_location) UnOp_Not"

definition uzumaki_function :: function_definition where
  "uzumaki_function = example_function\<lparr>fd_body :=
     Block_Block 20 default_location
       [Stmt_VariableDefinition 21 default_location (example_ident 22 ''x'') (Type_Simple Simple_Bool)
          (Some uzumaki_not) False]\<rparr>"

lemmas example_functions = undeclared_function_def uzumaki_function_def uzumaki_not_def example_function_def
  example_block_def example_expressions

declare lookup_up.simps [code] is_scope_descendant_of.simps [code]

text \<open>C2: On every program without a panicking definition all five phases of the checker return, and each
  keeps the errors of the phases before it. In a build without debug assertions the program is then
  accepted exactly when no phase reported an error, with a well-formed symbol table; otherwise the answer is the message of all
  reported errors, joined in the order of the phases.\<close>

theorem type_check_returns:
  assumes "program_ok ord a"
  shows "\<exists>s1 s2 s3 s4 s5. process_directives ord (default_checker (typed_context_new a)) = Some s1
    \<and> register_types ord s1 = Some s2 \<and> resolve_imports scope_ord sym_ord s2 = Some s3
    \<and> collect_function_and_constant_definitions ord s3 = Some s4 \<and> check_bodies ord s4 = Some s5
    \<and> prefix (tc_errors s1) (tc_errors s2) \<and> prefix (tc_errors s2) (tc_errors s3)
    \<and> prefix (tc_errors s3) (tc_errors s4) \<and> prefix (tc_errors s4) (tc_errors s5)
    \<and> wf_symtab (tc_symbol_table s5)
    \<and> build_typed_context False ord scope_ord sym_ord a =
        Some (if \<forall>s\<in>{s1, s2, s3, s4, s5}. tc_errors s = []
              then Inr ((tc_ctx s5)\<lparr>cx_symbol_table := tc_symbol_table s5\<rparr>)
              else Inl (join ''; '' (map show_error (tc_errors s5))))"
proof -
  let ?s = "default_checker (typed_context_new a)"
  have "table_ok ?s" "program_ok ord (cx_arena (tc_ctx ?s))"
    using assms by (simp_all add: default_checker_def typed_context_new_def)
  from phases_return [OF this] obtain s5 where run: "infer_phases ord scope_ord sym_ord ?s = Some s5" by blast
  then obtain s1 s2 s3 s4 where r: "process_directives ord ?s = Some s1" "register_types ord s1 = Some s2"
    "resolve_imports scope_ord sym_ord s2 = Some s3" "collect_function_and_constant_definitions ord s3 = Some s4"
    "check_bodies ord s4 = Some s5"
    by (auto simp: infer_phases_def elim!: bind_SomeE)
  note g = growth.R_phase_steps [OF r]
  have wf: "wf_symtab (tc_symbol_table s5)"
    using extension.R_phases [OF run] by (simp add: extends_table_def default_checker_def)
  have "(\<forall>s\<in>{s1, s2, s3, s4, s5}. tc_errors s = []) \<longleftrightarrow> tc_errors s5 = []"
    using g by (auto simp: grows_def)
  with run have "build_typed_context False ord scope_ord sym_ord a =
      Some (if \<forall>s\<in>{s1, s2, s3, s4, s5}. tc_errors s = []
            then Inr ((tc_ctx s5)\<lparr>cx_symbol_table := tc_symbol_table s5\<rparr>)
            else Inl (join ''; '' (map show_error (tc_errors s5))))"
    by (simp add: build_typed_context_def infer_types_def)
  with r g wf show ?thesis unfolding grows_def by blast
qed

lemma example_program_ok:
  "program_ok [4, 100] (example_arena example_function e)"
  "program_ok [4, 100] (example_arena undeclared_function e)"
  "program_ok [4, 100] (example_arena uzumaki_function e)"
  by (simp_all add: program_ok_def function_ok_def signature_ok_def example_functions argument_list_def
      block_ok.simps type_ok_def type_info_new_def)

lemma example_program_errors:
  "map_option tc_errors (infer_phases [4, 100] [0] (\<lambda>_. [])
     (default_checker (typed_context_new (example_arena example_function example_not)))) = Some []"
  "map_option tc_errors (infer_phases [4, 100] [0] (\<lambda>_. [])
     (default_checker (typed_context_new (example_arena undeclared_function example_not)))) =
   Some [UnknownIdentifier ''x'' default_location,
         TypeMismatch boolean_type default_type_info Mismatch_Condition default_location]"
  by code_simp+

theorem type_check_returns_witness:
  "(\<exists>cx. build_typed_context False [4, 100] [0] (\<lambda>_. []) (example_arena example_function example_not) = Some (Inr cx))
   \<and> build_typed_context False [4, 100] [0] (\<lambda>_. []) (example_arena undeclared_function example_not) =
       Some (Inl (join ''; '' (map show_error [UnknownIdentifier ''x'' default_location,
         TypeMismatch boolean_type default_type_info Mismatch_Condition default_location])))"
proof -
  have run: "infer_phases ord so sy s = Some s5" if "process_directives ord s = Some s1" "register_types ord s1 = Some s2"
    "resolve_imports so sy s2 = Some s3" "collect_function_and_constant_definitions ord s3 = Some s4"
    "check_bodies ord s4 = Some s5" for ord so sy s s1 s2 s3 s4 s5
    using that by (simp add: infer_phases_def)
  have answer: "\<exists>s5. infer_phases [4, 100] [0] (\<lambda>_. []) (default_checker (typed_context_new a)) = Some s5
      \<and> build_typed_context False [4, 100] [0] (\<lambda>_. []) a =
        Some (if tc_errors s5 = [] then Inr ((tc_ctx s5)\<lparr>cx_symbol_table := tc_symbol_table s5\<rparr>)
              else Inl (join ''; '' (map show_error (tc_errors s5))))" if ok: "program_ok [4, 100] a" for a
  proof -
    from type_check_returns [OF ok, of "[0]" "\<lambda>_. []"] obtain s1 s2 s3 s4 s5 where
      r: "process_directives [4, 100] (default_checker (typed_context_new a)) = Some s1" "register_types [4, 100] s1 = Some s2"
      "resolve_imports [0] (\<lambda>_. []) s2 = Some s3" "collect_function_and_constant_definitions [4, 100] s3 = Some s4"
      "check_bodies [4, 100] s4 = Some s5" and p: "prefix (tc_errors s1) (tc_errors s2)"
      "prefix (tc_errors s2) (tc_errors s3)" "prefix (tc_errors s3) (tc_errors s4)" "prefix (tc_errors s4) (tc_errors s5)"
      and b: "build_typed_context False [4, 100] [0] (\<lambda>_. []) a =
        Some (if \<forall>s\<in>{s1, s2, s3, s4, s5}. tc_errors s = []
              then Inr ((tc_ctx s5)\<lparr>cx_symbol_table := tc_symbol_table s5\<rparr>)
              else Inl (join ''; '' (map show_error (tc_errors s5))))"
      by (elim exE conjE) (rule that)
    have "(\<forall>s\<in>{s1, s2, s3, s4, s5}. tc_errors s = []) \<longleftrightarrow> tc_errors s5 = []" using p by auto
    with b run [OF r] show ?thesis by simp
  qed
  obtain s5 where "infer_phases [4, 100] [0] (\<lambda>_. []) (default_checker (typed_context_new (example_arena example_function example_not))) = Some s5"
    "build_typed_context False [4, 100] [0] (\<lambda>_. []) (example_arena example_function example_not) =
        Some (if tc_errors s5 = [] then Inr ((tc_ctx s5)\<lparr>cx_symbol_table := tc_symbol_table s5\<rparr>)
              else Inl (join ''; '' (map show_error (tc_errors s5))))"
    using answer [OF example_program_ok(1)] by blast
  moreover obtain s6 where "infer_phases [4, 100] [0] (\<lambda>_. []) (default_checker (typed_context_new (example_arena undeclared_function example_not))) = Some s6"
    "build_typed_context False [4, 100] [0] (\<lambda>_. []) (example_arena undeclared_function example_not) =
        Some (if tc_errors s6 = [] then Inr ((tc_ctx s6)\<lparr>cx_symbol_table := tc_symbol_table s6\<rparr>)
              else Inl (join ''; '' (map show_error (tc_errors s6))))"
    using answer [OF example_program_ok(2)] by blast
  ultimately show ?thesis using example_program_errors by simp
qed

lemma untyped_iff:
  "find_untyped_expressions ord cx = [] \<longleftrightarrow>
     (\<forall>i\<in>set ord. \<forall>e. ar_nodes (cx_arena cx) i = Some (Node_Expression e) \<longrightarrow> is_value_expression e
        \<longrightarrow> cx_node_types cx (expression_id e) \<noteq> None)"
proof -
  have step: "List.map_filter f xs = [] \<longleftrightarrow> (\<forall>x\<in>set xs. f x = None)" for f :: "'a \<Rightarrow> 'b option" and xs
    by (auto simp: List.map_filter_def filter_empty_conv)
  have nodes: "n \<in> set (cx_filter_nodes ord is_value_node cx) \<longleftrightarrow>
      (\<exists>i\<in>set ord. ar_nodes (cx_arena cx) i = Some n) \<and> is_value_node n" for n
    by (force simp: cx_filter_nodes_def filter_nodes_def List.map_filter_def)
  have "find_untyped_expressions ord cx = [] \<longleftrightarrow>
      (\<forall>n. n \<in> set (cx_filter_nodes ord is_value_node cx) \<longrightarrow> missing_type cx n = None)"
    by (auto simp: find_untyped_expressions_def step)
  also have "\<dots> \<longleftrightarrow> (\<forall>i\<in>set ord. \<forall>n. ar_nodes (cx_arena cx) i = Some n \<longrightarrow> is_value_node n
      \<longrightarrow> missing_type cx n = None)" unfolding nodes by blast
  also have "\<dots> \<longleftrightarrow> (\<forall>i\<in>set ord. \<forall>e. ar_nodes (cx_arena cx) i = Some (Node_Expression e)
      \<longrightarrow> is_value_expression e \<longrightarrow> cx_node_types cx (expression_id e) \<noteq> None)"
  proof -
    have "(is_value_node n \<longrightarrow> missing_type cx n = None) \<longleftrightarrow> (\<forall>e. n = Node_Expression e \<longrightarrow>
        is_value_expression e \<longrightarrow> cx_node_types cx (expression_id e) \<noteq> None)" for n
      by (cases n) auto
    then show ?thesis by metis
  qed
  finally show ?thesis .
qed


lemma example_program_separate: "program_separate [4, 100] (example_arena example_function e)"
  by (auto simp: program_separate_def program_nodes_def program_parts_def separate_nodes_def block_parts.simps
      value_parts_def argument_list_def example_functions)

text \<open>The identifiers of the small program: the name, the variable, its value, the assertion's operand and operator.\<close>

lemma example_program_ids: "set (program_ids [4, 100] (example_arena example_function e)) = {11, 21, 22, 23, 4, 5}"
  by (auto simp: program_ids_def program_parts_def part_ids_def block_parts.simps
      value_parts_def argument_list_def example_functions)


text \<open>An uzumaki inside an expression gets no type: the checker accepts the program, and the assertion of a
  debug build fails on it.\<close>

theorem operand_uzumaki_fails_assertion:
  "map_option isl (build_typed_context False [4, 100] [0] (\<lambda>_. []) (example_arena uzumaki_function uzumaki_not)) = Some False
   \<and> build_typed_context True [4, 100] [0] (\<lambda>_. []) (example_arena uzumaki_function uzumaki_not) = None"
  by (rule conjI; code_simp)

text \<open>In one run no unknown name is reported twice: the errors that are subject to deduplication
  have different keys.\<close>

theorem unknown_names_reported_once:
  assumes "infer_phases ord scope_ord sym_ord (default_checker cx) = Some s"
  shows "distinct (List.map_filter dedup_key (tc_errors s))"
  using dedup.R_phases [OF assms]
  by (simp add: keeps_dedup_def dedup_ok_def default_checker_def List.map_filter_def)

lemma empty_program_phases: "\<exists>s. infer_phases [] [] (\<lambda>_. []) start_checker = Some s"
  by (simp add: infer_phases_def process_directives_def
      register_types_def resolve_imports_def all_scope_ids_def check_bodies_def
      collect_function_and_constant_definitions_def cx_source_files_def source_files_def
      list_nodes_cmp_def List.map_filter_def)

theorem unknown_names_reported_once_witness:
  "\<exists>s. infer_phases [] [] (\<lambda>_. []) start_checker = Some s
     \<and> distinct (List.map_filter dedup_key (tc_errors s))"
  using unknown_names_reported_once empty_program_phases unfolding start_checker_def by blast

text \<open>No run reports a circular import: the set of glob imports in progress is empty whenever an
  import is resolved.\<close>

theorem circular_import_never_reported:
  assumes "infer_phases ord scope_ord sym_ord (default_checker cx) = Some s"
  shows "\<not> (\<exists>e\<in>set (tc_errors s). is_circular_import e) \<and> tc_glob_in_progress s = {}"
  using circular.R_phases [OF assms]
  by (auto simp: keeps_no_circular_def no_circular_def default_checker_def filter_empty_conv)

theorem circular_import_never_reported_witness:
  "\<exists>s. infer_phases [] [] (\<lambda>_. []) start_checker = Some s
     \<and> \<not> (\<exists>e\<in>set (tc_errors s). is_circular_import e)"
  using circular_import_never_reported empty_program_phases unfolding start_checker_def by blast

text \<open>The list of untyped expressions is empty exactly when every expression of the arena that is
  no type, identifier or literal has a recorded type.\<close>

theorem untyped_expressions_complete:
  "find_untyped_expressions ord cx = [] \<longleftrightarrow>
     (\<forall>i\<in>set ord. \<forall>e. ar_nodes (cx_arena cx) i = Some (Node_Expression e) \<longrightarrow> is_value_expression e
        \<longrightarrow> cx_node_types cx (expression_id e) \<noteq> None)"
  by (rule untyped_iff)

theorem untyped_expressions_complete_witness:
  "find_untyped_expressions [1] (typed_context_new (empty_arena\<lparr>ar_nodes := [1 \<mapsto> Node_Expression example_sum]\<rparr>)) \<noteq> []"
  using untyped_expressions_complete [of "[1]"
      "typed_context_new (empty_arena\<lparr>ar_nodes := [1 \<mapsto> Node_Expression example_sum]\<rparr>)"]
  by (simp add: typed_context_new_def empty_arena_def example_expressions)

section \<open>Behaviour that differs from the documentation\<close>

text \<open>An arithmetic operator whose operands are numbers of two different types is reported twice,
  with the same error.\<close>

theorem operand_mismatch_reported_twice:
  assumes "node_typeinfo i s = None" "operator_class_of op = Arithmetic"
    and "infer_expression a s = Some (Some lt, s1)" "infer_expression b s1 = Some (Some rt, s2)"
    and "is_number lt" "is_number rt" "lt \<noteq> rt"
  shows "\<exists>t s3. infer_expression (Expr_Binary i l a op b) s = Some (t, s3)
    \<and> tc_errors s3 = tc_errors s2 @ [BinaryOperandTypeMismatch op lt rt l, BinaryOperandTypeMismatch op lt rt l]"
  using assms by (simp add: binary_result_def Let_def) (simp add: push_error_def)

text \<open>A sum of a constant of type \<open>i64\<close> and a literal.\<close>

definition i64_checker :: checker where
  "i64_checker = set_node_typeinfo 2 (TypeInfo (Kind_Number Num_I64) []) start_checker"

theorem operand_mismatch_reported_twice_witness:
  "\<exists>t s3 m. infer_expression example_sum i64_checker = Some (t, s3) \<and> tc_errors s3 = [m, m]"
proof -
  have "node_typeinfo 1 i64_checker = None" "operator_class_of Op_Add = Arithmetic"
    "infer_expression (example_number 2) i64_checker = Some (Some (TypeInfo (Kind_Number Num_I64) []), i64_checker)"
    "infer_expression (example_number 3) i64_checker = Some (Some (TypeInfo (Kind_Number Num_I32) []),
        set_node_typeinfo 3 (TypeInfo (Kind_Number Num_I32) []) i64_checker)"
    by (simp_all add: i64_checker_def example_expressions number_literal_result_def Let_def)
  from operand_mismatch_reported_twice [OF this, of default_location] show ?thesis
    unfolding example_sum_def
    by (simp del: infer_expression.simps add: is_number_def i64_checker_def set_node_typeinfo_def) blast
qed

text \<open>A call with as many arguments as parameters is accepted, whatever the types of the arguments are.\<close>

theorem arguments_are_not_compared:
  assumes "lookup_function (ident_name x) (tc_symbol_table s) = Some (Some sig)" "fi_type_params sig = []"
    and "check_and_report_visibility (fi_visibility sig) (fi_definition_scope_id sig) l
      (Vis_Function (ident_name x)) s = Some (True, s)"
    and "length as = length (fi_param_types sig)" "infer_arguments as s = Some s'"
  shows "infer_expression (Expr_FunctionCall i l (Expr_Identifier x) None (Some as)) s =
    Some (Some (substitute (fi_return_type sig) []), set_node_typeinfo i (substitute (fi_return_type sig) []) s')"
  using assms by (simp add: start_function_call_def wrong_argument_count_def argument_list_def
      function_call_result_def Let_def)

text \<open>The fields of a struct literal are neither compared with the struct nor inferred.\<close>

theorem struct_fields_are_not_read:
  "infer_expression (Expr_Struct i l n flds) s = infer_expression (Expr_Struct i l n flds') s"
  by simp

text \<open>Two operands of one type are ordered, whatever the type.\<close>

theorem ordering_of_equal_types_is_accepted:
  assumes "node_typeinfo i s = None" "op \<in> {Op_Lt, Op_Le, Op_Gt, Op_Ge}"
    and "infer_expression a s = Some (Some t, s1)" "infer_expression b s1 = Some (Some t, s2)"
  shows "infer_expression (Expr_Binary i l a op b) s =
    Some (Some boolean_type, set_node_typeinfo i boolean_type s2)"
  using assms by (auto simp: binary_result_def Let_def)

theorem ordering_of_equal_types_is_accepted_witness:
  "\<exists>s'. infer_expression (Expr_Binary 1 default_location (Expr_Literal (Lit_String 2 default_location ''a'')) Op_Lt
       (Expr_Literal (Lit_String 3 default_location ''b''))) start_checker = Some (Some boolean_type, s')
     \<and> tc_errors s' = []"
proof -
  let ?s1 = "set_node_typeinfo 2 string_type start_checker"
  have "infer_expression (Expr_Literal (Lit_String 2 default_location ''a'')) start_checker = Some (Some string_type, ?s1)"
    "infer_expression (Expr_Literal (Lit_String 3 default_location ''b'')) ?s1 =
       Some (Some string_type, set_node_typeinfo 3 string_type ?s1)"
    by simp_all
  from ordering_of_equal_types_is_accepted [OF start_checker_fields(4) _ this, of Op_Lt 1 default_location]
  show ?thesis by simp
qed

text \<open>A call of a known function without type parameters and without an argument list is accepted
  with the function's return type, however many parameters the function has.\<close>

theorem empty_call_is_accepted:
  assumes "lookup_function (ident_name x) (tc_symbol_table s) = Some (Some sig)" "fi_type_params sig = []"
    and vis: "check_and_report_visibility (fi_visibility sig) (fi_definition_scope_id sig) l
      (Vis_Function (ident_name x)) s = Some (True, s)"
  shows "infer_expression (Expr_FunctionCall i l (Expr_Identifier x) None None) s =
    Some (Some (substitute (fi_return_type sig) []),
      set_node_typeinfo i (substitute (fi_return_type sig) []) s)"
  using assms by (simp add: start_function_call_def wrong_argument_count_def argument_list_def
      function_call_result_def Let_def)

definition one_parameter :: func_info where
  "one_parameter = \<lparr>fi_name = ''f'', fi_type_params = [], fi_param_types = [boolean_type],
     fi_return_type = string_type, fi_visibility = Public, fi_definition_scope_id = 0\<rparr>"

text \<open>A symbol added to the table a run starts with.\<close>

lemma declared_in_default:
  assumes "\<And>nt. n \<noteq> number_type_as_str nt" "n \<noteq> ''unit''" "n \<noteq> ''bool''" "n \<noteq> ''string''"
  obtains st where "declare_symbol n sy default_symbol_table = Some (Inr st)" "wf_symtab st"
    "lookup_symbol n st = Some (Some sy)"
proof -
  obtain m fs where f: "sym_frames default_symbol_table = m # fs"
    using current_frames [OF default_symbol_table_wf default_current(1)] by metis
  have "lookup_symbol n default_symbol_table = Some None"
    using assms(1) [of Num_I8] assms(1) [of Num_I16] assms(1) [of Num_I32] assms(1) [of Num_I64]
      assms(1) [of Num_U8] assms(1) [of Num_U16] assms(1) [of Num_U32] assms(1) [of Num_U64] assms(2-)
    by (simp add: lookup_symbol_def scope_lookup_symbol_def run_simps default_symbol_table_def
        init_root_scope_def init_builtin_types_def Let_def number_type_all_def non_numeric_builtins_def
        insert_builtin_def scope_insert_symbol_def scope_new_def lookup_symbol_local_def)
  then have "m n = None"
    using syms.find_law [OF default_symbol_table_wf, of n] by (simp add: f split: option.splits)
  from syms.declare_law [OF default_symbol_table_wf f this] obtain st
    where st: "declare_symbol n sy default_symbol_table = Some (Inr st)" by blast
  with syms.declared(2) [OF default_symbol_table_wf f st] syms.find_declared(1) [OF default_symbol_table_wf f st]
    that show thesis by blast
qed

theorem empty_call_is_accepted_witness:
  "\<exists>st s'. declare_symbol ''f'' (Sym_Function one_parameter) default_symbol_table = Some (Inr st)
     \<and> infer_expression (Expr_FunctionCall 1 default_location (Expr_Identifier (example_ident 2 ''f'')) None None)
         (set_symbol_table st start_checker) = Some (Some string_type, s') \<and> tc_errors s' = []"
proof -
  have "''f'' \<noteq> number_type_as_str nt" for nt by (cases nt) simp_all
  from declared_in_default [OF this, of "Sym_Function one_parameter"] obtain st
    where st: "declare_symbol ''f'' (Sym_Function one_parameter) default_symbol_table = Some (Inr st)"
      "lookup_symbol ''f'' st = Some (Some (Sym_Function one_parameter))" by auto
  let ?s = "set_symbol_table st start_checker"
  have "lookup_function (ident_name (example_ident 2 ''f'')) (tc_symbol_table ?s) = Some (Some one_parameter)"
    using st(2) by (simp add: lookup_function_def set_symbol_table_def example_ident_def)
  moreover have "check_and_report_visibility (fi_visibility one_parameter) (fi_definition_scope_id one_parameter)
      default_location (Vis_Function (ident_name (example_ident 2 ''f''))) ?s = Some (True, ?s)"
    by (simp add: check_and_report_visibility_def one_parameter_def)
  ultimately have "infer_expression (Expr_FunctionCall 1 default_location
      (Expr_Identifier (example_ident 2 ''f'')) None None) ?s =
      Some (Some (substitute (fi_return_type one_parameter) []),
        set_node_typeinfo 1 (substitute (fi_return_type one_parameter) []) ?s)"
    by (intro empty_call_is_accepted) (simp_all add: one_parameter_def)
  with st show ?thesis by (simp add: one_parameter_def string_type_def set_symbol_table_def)
qed

theorem arguments_are_not_compared_witness:
  "\<exists>st s'. declare_symbol ''f'' (Sym_Function one_parameter) default_symbol_table = Some (Inr st)
     \<and> infer_expression (Expr_FunctionCall 1 default_location (Expr_Identifier (example_ident 2 ''f'')) None
           (Some [(None, Expr_Literal (Lit_String 3 default_location ''a''))])) (set_symbol_table st start_checker) =
         Some (Some string_type, s')
     \<and> tc_errors s' = [] \<and> fi_param_types one_parameter = [boolean_type]"
proof -
  have "''f'' \<noteq> number_type_as_str nt" for nt by (cases nt) simp_all
  from declared_in_default [OF this, of "Sym_Function one_parameter"] obtain st
    where st: "declare_symbol ''f'' (Sym_Function one_parameter) default_symbol_table = Some (Inr st)"
      "lookup_symbol ''f'' st = Some (Some (Sym_Function one_parameter))" by auto
  let ?s = "set_symbol_table st start_checker" and ?a = "(None, Expr_Literal (Lit_String 3 default_location ''a''))"
  have "lookup_function (ident_name (example_ident 2 ''f'')) (tc_symbol_table ?s) = Some (Some one_parameter)"
    using st(2) by (simp add: lookup_function_def set_symbol_table_def example_ident_def)
  moreover have "check_and_report_visibility (fi_visibility one_parameter) (fi_definition_scope_id one_parameter)
      default_location (Vis_Function (ident_name (example_ident 2 ''f''))) ?s = Some (True, ?s)"
    by (simp add: check_and_report_visibility_def one_parameter_def)
  moreover have "infer_arguments [?a] ?s = Some (set_node_typeinfo 3 string_type ?s)" by simp
  ultimately have "infer_expression (Expr_FunctionCall 1 default_location
      (Expr_Identifier (example_ident 2 ''f'')) None (Some [?a])) ?s =
      Some (Some (substitute (fi_return_type one_parameter) []),
        set_node_typeinfo 1 (substitute (fi_return_type one_parameter) []) (set_node_typeinfo 3 string_type ?s))"
    by (intro arguments_are_not_compared) (simp_all add: one_parameter_def)
  with st show ?thesis by (simp add: one_parameter_def string_type_def set_symbol_table_def)
qed

text \<open>A variable declared with the type of a struct and initialised with a literal of that struct is
  reported as a type mismatch: the declared type stays an unresolved name while the literal has the
  struct type.\<close>

theorem struct_variable_is_mismatch:
  assumes sym: "lookup_symbol (ident_name n) (tc_symbol_table s) = Some (Some (Sym_Struct si))"
    and builtin: "from_builtin_str (ident_name n) = None"
    and fresh: "node_typeinfo j s = None" and wf: "wf_symtab (tc_symbol_table s)"
  shows "\<exists>s'. infer_statement (Stmt_VariableDefinition i l x (Type_Custom n)
      (Some (Expr_Struct j k n flds)) u) rt s = Some s'
    \<and> TypeMismatch (TypeInfo (Kind_Custom (ident_name n)) [])
        (TypeInfo (Kind_Struct (si_name si)) (si_type_params si)) Mismatch_VariableDefinition l
      \<in> set (tc_errors s')"
proof -
  let ?t = "TypeInfo (Kind_Custom (ident_name n)) []"
    and ?v = "TypeInfo (Kind_Struct (si_name si)) (si_type_params si)"
  let ?s1 = "push_error (TypeMismatch ?t ?v Mismatch_VariableDefinition l) (set_node_typeinfo j ?v s)"
  have conv: "type_info_new (Type_Custom n) = Some ?t"
    using builtin by (simp add: type_info_new_def type_kind_from_simple_type_def)
  have "lookup_type (ident_name n) (tc_symbol_table s) = Some (Some ?v)"
    using sym by (auto simp: lookup_symbol_def lookup_type_def split: option.splits)
  then have "infer_initial_value (Some (Expr_Struct j k n flds)) ?t l s = Some ?s1"
    using fresh by (simp add: infer_initial_value_def struct_result_def check_initial_value_def)
  moreover obtain s2 where s2: "declare_variable (ident_name x) ?t l ?s1 = Some s2"
    using declare_returns(1) [of ?s1 "ident_name x" ?t l] wf by auto
  moreover have "prefix (tc_errors ?s1) (tc_errors s2)"
    using growth.R_declare(1) [OF s2 growth.R_refl] by (simp add: grows_def)
  then have "TypeMismatch ?t ?v Mismatch_VariableDefinition l \<in> set (tc_errors s2)"
    using set_mono_prefix by (fastforce simp: push_error_def)
  ultimately show ?thesis using conv by simp
qed

definition point_info :: struct_info where
  "point_info = \<lparr>si_name = ''Point'', si_fields = Map.empty, si_type_params = [], si_visibility = Public,
     si_definition_scope_id = 0\<rparr>"

theorem struct_variable_is_mismatch_witness:
  "\<exists>st s'. declare_symbol ''Point'' (Sym_Struct point_info) default_symbol_table = Some (Inr st)
     \<and> infer_statement (Stmt_VariableDefinition 1 default_location (example_ident 2 ''p'')
         (Type_Custom (example_ident 3 ''Point''))
         (Some (Expr_Struct 4 default_location (example_ident 3 ''Point'') None)) False)
         default_type_info (set_symbol_table st start_checker) = Some s' \<and> tc_errors s' \<noteq> []"
proof -
  have "''Point'' \<noteq> number_type_as_str nt" for nt by (cases nt) simp_all
  from declared_in_default [OF this, of "Sym_Struct point_info"] obtain st
    where st: "declare_symbol ''Point'' (Sym_Struct point_info) default_symbol_table = Some (Inr st)"
      "wf_symtab st" "lookup_symbol ''Point'' st = Some (Some (Sym_Struct point_info))" by auto
  have "from_builtin_str ''Point'' = None"
    by (simp add: from_builtin_str_def number_type_from_str_def number_type_all_def
        non_numeric_builtins_def eq_ignore_ascii_case_def to_lowercase_def ascii_lower_char_def)
  with struct_variable_is_mismatch [of "example_ident 3 ''Point''" "set_symbol_table st start_checker"
      point_info 4] st
  show ?thesis by (fastforce simp: set_symbol_table_def example_ident_def node_typeinfo_def
        get_node_typeinfo_def start_checker_def default_checker_def typed_context_new_def)
qed

end
