(* ===== verification/WasmModules.thy ===== *)
theory WasmModules
  imports Inf_Prelude
begin

text \<open>
  A WebAssembly module as the parser library (\<open>tools/inf-wasmparser\<close>) hands it to the translator
  to Rocq: value types, operators, sections. The readers of bytes are modelled in \<open>SectionReader\<close>: a reader over the
  encoded items is the sequence of its results, a left for an item that cannot be decoded.

  The operators keep the names of the enum \<open>Operator\<close>. The groups with the same payload are data
  types of their own, wrapped by one constructor of \<open>operator\<close> each. The operators whose arms in
  the translator read no payload and make no text (\<open>todo!()\<close> and the errors) are
  \<open>Named\<close> with the name of their constructor.
\<close>

section \<open>Results\<close>

text \<open>
  The outer option is the panic, the sum is the \<open>Result\<close>; \<open>attempt\<close> is the \<open>?\<close> operator.
\<close>

definition attempt :: "('e + 'a) option \<Rightarrow> ('a \<Rightarrow> ('e + 'b) option) \<Rightarrow> ('e + 'b) option" where
  "attempt m f = (case m of None \<Rightarrow> None | Some (Inl e) \<Rightarrow> Some (Inl e) | Some (Inr x) \<Rightarrow> f x)"

abbreviation ok :: "'a \<Rightarrow> ('e + 'a) option" where
  "ok x \<equiv> Some (Inr x)"

abbreviation err :: "'e \<Rightarrow> ('e + 'a) option" where
  "err e \<equiv> Some (Inl e)"

lemma attempt_simps [simp]:
  "attempt None f = None"
  "attempt (err e) f = err e"
  "attempt (ok x) f = f x"
  by (simp_all add: attempt_def)

lemma attempt_cong [fundef_cong]:
  "m = m' \<Longrightarrow> (\<And>x. f x = g x) \<Longrightarrow> attempt m f = attempt m' g"
  by (simp add: attempt_def split: option.split sum.split)

lemma attempt_ok_iff: "attempt m f = ok y \<longleftrightarrow> (\<exists>x. m = ok x \<and> f x = ok y)"
  by (simp add: attempt_def split: option.split sum.split)

lemma attempt_None_iff: "attempt m f = None \<longleftrightarrow> m = None \<or> (\<exists>x. m = ok x \<and> f x = None)"
  by (auto simp add: attempt_def split: option.split sum.split)

lemma attempt_not_None: "m \<noteq> None \<Longrightarrow> (\<And>x. m = ok x \<Longrightarrow> f x \<noteq> None) \<Longrightarrow> attempt m f \<noteq> None"
  by (auto simp add: attempt_None_iff)

text \<open>A loop with a fallible body that collects one result per item.\<close>

fun map_result :: "('a \<Rightarrow> ('e + 'b) option) \<Rightarrow> 'a list \<Rightarrow> ('e + 'b list) option" where
  "map_result f [] = ok []"
| "map_result f (x # xs) = attempt (f x) (\<lambda>y. attempt (map_result f xs) (\<lambda>ys. ok (y # ys)))"

lemma map_result_cong [fundef_cong]:
  "xs = ys \<Longrightarrow> (\<And>x. x \<in> set ys \<Longrightarrow> f x = g x) \<Longrightarrow> map_result f xs = map_result g ys"
proof (induction ys arbitrary: xs)
  case (Cons y ys)
  then show ?case by simp
qed simp

lemma map_result_ok: "(\<And>x. x \<in> set xs \<Longrightarrow> f x = ok (g x)) \<Longrightarrow> map_result f xs = ok (map g xs)"
  by (induction xs) auto

lemma map_result_not_None: "(\<And>x. x \<in> set xs \<Longrightarrow> f x \<noteq> None) \<Longrightarrow> map_result f xs \<noteq> None"
proof (induction xs)
  case (Cons x xs)
  have "map_result f xs \<noteq> None" using Cons by simp
  then show ?case using Cons.prems [of x] by (auto simp add: attempt_None_iff)
qed simp

section \<open>Types\<close>

datatype abstract_heap_type =
    Heap_Func | Heap_Extern | Heap_Any | Heap_None | Heap_NoExtern | Heap_NoFunc | Heap_Eq
  | Heap_Struct | Heap_Array | Heap_I31 | Heap_Exn | Heap_NoExn | Heap_Cont | Heap_NoCont

datatype unpacked_index = Module_index nat | RecGroup_index nat

datatype heap_type =
    Abstract (ah_shared: bool) (ah_ty: abstract_heap_type)
  | Concrete unpacked_index

text \<open>The packed \<open>RefType\<close> is its nullability and its heap type.\<close>

record ref_type =
  rt_nullable :: bool
  rt_heap_type :: heap_type

definition FUNCREF :: ref_type where
  "FUNCREF = \<lparr>rt_nullable = True, rt_heap_type = Abstract False Heap_Func\<rparr>"

definition EXTERNREF :: ref_type where
  "EXTERNREF = \<lparr>rt_nullable = True, rt_heap_type = Abstract False Heap_Extern\<rparr>"

datatype val_type = I32 | I64 | F32 | F64 | V128 | Ref ref_type

datatype wasm_block_type = Empty_type | Result_type val_type | FuncType_index nat

section \<open>Operators\<close>

record memarg =
  ma_align :: nat
  ma_max_align :: nat
  ma_offset :: nat
  ma_memory :: nat

text \<open>The targets of a branch table are read one by one, and a read can fail.\<close>

record br_table =
  bt_targets :: "(string + nat) list"
  bt_default :: nat

datatype (plugins only: size) int_relation =
    I32Eqz | I32Eq | I32Ne | I32LtS | I32LtU | I32GtS | I32GtU | I32LeS | I32LeU | I32GeS
  | I32GeU | I64Eqz | I64Eq | I64Ne | I64LtS | I64LtU | I64GtS | I64GtU | I64LeS | I64LeU
  | I64GeS | I64GeU

datatype (plugins only: size) float_relation =
    F32Eq | F32Ne | F32Lt | F32Gt | F32Le | F32Ge | F64Eq | F64Ne | F64Lt | F64Gt | F64Le
  | F64Ge

datatype (plugins only: size) int_arithmetic =
    I32Clz | I32Ctz | I32Popcnt | I32Add | I32Sub | I32Mul | I32DivS | I32DivU | I32RemS
  | I32RemU | I32And | I32Or | I32Xor | I32Shl | I32ShrS | I32ShrU | I32Rotl | I32Rotr | I64Clz
  | I64Ctz | I64Popcnt | I64Add | I64Sub | I64Mul | I64DivS | I64DivU | I64RemS | I64RemU
  | I64And | I64Or | I64Xor | I64Shl | I64ShrS | I64ShrU | I64Rotl | I64Rotr

datatype (plugins only: size) float_arithmetic =
    F32Abs | F32Neg | F32Ceil | F32Floor | F32Trunc | F32Nearest | F32Sqrt | F32Add | F32Sub
  | F32Mul | F32Div | F32Min | F32Max | F32Copysign | F64Abs | F64Neg | F64Ceil | F64Floor
  | F64Trunc | F64Nearest | F64Sqrt | F64Add | F64Sub | F64Mul | F64Div | F64Min | F64Max
  | F64Copysign

datatype (plugins only: size) conversion =
    I32WrapI64 | I32TruncF32S | I32TruncF32U | I32TruncF64S | I32TruncF64U | I64ExtendI32S
  | I64ExtendI32U | I64TruncF32S | I64TruncF32U | I64TruncF64S | I64TruncF64U | F32ConvertI32S
  | F32ConvertI32U | F32ConvertI64S | F32ConvertI64U | F32DemoteF64 | F64ConvertI32S
  | F64ConvertI32U | F64ConvertI64S | F64ConvertI64U | F64PromoteF32 | I32ReinterpretF32
  | I64ReinterpretF64 | F32ReinterpretI32 | F64ReinterpretI64

datatype (plugins only: size) memory_access =
    I32Load memarg | I64Load memarg | F32Load memarg | F64Load memarg | I32Load8S memarg
  | I32Load8U memarg | I32Load16S memarg | I32Load16U memarg | I64Load8S memarg
  | I64Load8U memarg | I64Load16S memarg | I64Load16U memarg | I64Load32S memarg
  | I64Load32U memarg | I32Store memarg | I64Store memarg | F32Store memarg | F64Store memarg
  | I32Store8 memarg | I32Store16 memarg | I64Store8 memarg | I64Store16 memarg
  | I64Store32 memarg

datatype (plugins only: size) vector_access =
    V128Load memarg | V128Load8x8S memarg | V128Load8x8U memarg | V128Load16x4S memarg
  | V128Load16x4U memarg | V128Load32x2S memarg | V128Load32x2U memarg | V128Load8Splat memarg
  | V128Load16Splat memarg | V128Load32Splat memarg | V128Load64Splat memarg
  | V128Load32Zero memarg | V128Load64Zero memarg | V128Store memarg

datatype (plugins only: size) vector_lane_access =
    V128Load8Lane memarg nat | V128Load16Lane memarg nat | V128Load32Lane memarg nat
  | V128Load64Lane memarg nat | V128Store8Lane memarg nat | V128Store16Lane memarg nat
  | V128Store32Lane memarg nat | V128Store64Lane memarg nat

datatype (plugins only: size) vector_lane =
    I8x16ExtractLaneS nat | I8x16ExtractLaneU nat | I8x16ReplaceLane nat | I16x8ExtractLaneS nat
  | I16x8ExtractLaneU nat | I16x8ReplaceLane nat | I32x4ExtractLane nat | I32x4ReplaceLane nat
  | I64x2ExtractLane nat | I64x2ReplaceLane nat | F32x4ExtractLane nat | F32x4ReplaceLane nat
  | F64x2ExtractLane nat | F64x2ReplaceLane nat

datatype (plugins only: size) vector_splat =
    I8x16Splat | I16x8Splat | I32x4Splat | I64x2Splat | F32x4Splat | F64x2Splat

datatype (plugins only: size) operator =
    Nop | Unreachable
  | Block wasm_block_type | Loop wasm_block_type | If wasm_block_type
  | Forall wasm_block_type | Exists wasm_block_type | Assume wasm_block_type
  | Unique wasm_block_type
  | I32Uzumaki int | I64Uzumaki int
  | Else | End
  | Br nat | BrIf nat | BrTable br_table | Return
  | Call nat | CallIndirect nat nat
  | Drop | Select
  | LocalGet nat | LocalSet nat | LocalTee nat | GlobalGet nat | GlobalSet nat
  | Memory_access memory_access
  | MemorySize nat | MemoryGrow nat
  | I32Const int | I64Const int | F32Const nat | F64Const nat
  | Int_relation int_relation | Float_relation float_relation
  | Int_arithmetic int_arithmetic | Float_arithmetic float_arithmetic
  | Conversion conversion
  | MemoryInit nat nat | DataDrop nat | MemoryCopy nat nat | MemoryFill nat
  | RefIsNull | RefFunc nat
  | TableFill nat | TableGet nat | TableSet nat | TableGrow nat | TableSize nat
  | Vector_access vector_access | Vector_lane_access vector_lane_access
  | V128Const "nat list"
  | Vector_lane vector_lane | Vector_splat vector_splat
  | Named string

type_synonym operators_reader = "(string + operator) list"

section \<open>Sections\<close>

record table_type =
  tt_element_type :: ref_type
  tt_table64 :: bool
  tt_initial :: nat
  tt_maximum :: "nat option"
  tt_shared :: bool

record memory_type =
  mt_memory64 :: bool
  mt_shared :: bool
  mt_initial :: nat
  mt_maximum :: "nat option"
  mt_page_size_log2 :: "nat option"

record global_type =
  gt_content_type :: val_type
  gt_mutable :: bool
  gt_shared :: bool

datatype type_ref =
    TypeRef_Func nat
  | TypeRef_Table table_type
  | TypeRef_Memory memory_type
  | TypeRef_Global global_type
  | TypeRef_Tag nat

record wasm_import =
  im_module :: string
  im_name :: string
  im_ty :: type_ref

datatype external_kind = Kind_Func | Kind_Table | Kind_Memory | Kind_Global | Kind_Tag

record wasm_export =
  ex_name :: string
  ex_kind :: external_kind
  ex_index :: nat

text \<open>A constant expression is the reader over its operators.\<close>

datatype table_init = RefNull_init | Expr_init operators_reader

record wasm_table =
  tb_ty :: table_type
  tb_init :: table_init

record wasm_global =
  gl_ty :: global_type
  gl_init_expr :: operators_reader

datatype data_kind = Data_Passive | Data_Active nat operators_reader

record wasm_data =
  da_kind :: data_kind
  da_data :: "nat list"

datatype element_kind =
    Element_Passive
  | Element_Active "nat option" operators_reader
  | Element_Declared

datatype element_items =
    Items_Functions "(string + nat) list"
  | Items_Expressions ref_type "(string + operators_reader) list"

record wasm_element =
  el_kind :: element_kind
  el_items :: element_items

text \<open>The translator reads nothing of the array, structure and continuation types.\<close>

datatype composite_type =
    Composite_Func "val_type list" "val_type list"
  | Composite_Array | Composite_Struct | Composite_Cont

type_synonym rec_group = "composite_type list"

text \<open>
  A function body: \<open>get_locals_reader\<close> and \<open>get_operators_reader\<close>, which fail when the count or the
  groups of locals cannot be read.
\<close>

record function_body =
  fb_locals_reader :: "string + (string + nat \<times> val_type) list"
  fb_operators_reader :: "string + operators_reader"

end
