(* ===== verification/RocqOperators.thy ===== *)
theory RocqOperators
  imports WasmModules
begin

text \<open>
  The text of one instruction in the Rocq library \<open>Wasm\<close>: \<open>translate_basic_operator\<close> and what it
  calls (\<open>core/wasm-to-v/src/translator.rs\<close>). The large match is cut into one function for each
  group of operators.
\<close>

section \<open>Numbers\<close>

text \<open>\<open>Display\<close> of a signed integer, two upper-case hexadecimal digits (\<open>{:02X}\<close>).\<close>

definition show_int :: "int \<Rightarrow> string" where
  "show_int i = (if i < 0 then ''-'' @ show_nat (nat (- i)) else show_nat (nat i))"

definition hex_digit :: "nat \<Rightarrow> char" where
  "hex_digit n = (if n < 10 then char_of (48 + n) else char_of (55 + n))"

definition show_hex2 :: "nat \<Rightarrow> string" where
  "show_hex2 n = [hex_digit (n div 16), hex_digit (n mod 16)]"

text \<open>\<open>i128::from_le_bytes\<close> on 16 bytes.\<close>

fun le_value :: "nat list \<Rightarrow> nat" where
  "le_value [] = 0"
| "le_value (b # bs) = b + 256 * le_value bs"

definition i128_from_le_bytes :: "nat list \<Rightarrow> int" where
  "i128_from_le_bytes bs =
     (let u = le_value bs in if u < 2 ^ 127 then int u else int u - 2 ^ 128)"

section \<open>Errors\<close>

datatype translate_error =
    Unsupported_reference_type ref_type
  | Tag_in_import
  | Tag_not_supported
  | Memory_index_not_supported
  | Atomic_not_supported string
  | Not_recognized string
  | Reader_error string

text \<open>A result of the translator: \<^term>\<open>None\<close> is a panic.\<close>

type_synonym 'a translated = "(translate_error + 'a) option"

section \<open>Types\<close>

definition translate_ref_type :: "ref_type \<Rightarrow> string translated" where
  "translate_ref_type t =
     (if t = FUNCREF then ok ''T_funcref''
      else if t = EXTERNREF then ok ''T_externref''
      else err (Unsupported_reference_type t))"

fun translate_value_type :: "val_type \<Rightarrow> string translated" where
  "translate_value_type I32 = ok ''T_num T_i32''"
| "translate_value_type I64 = ok ''T_num T_i64''"
| "translate_value_type F32 = ok ''T_num T_f32''"
| "translate_value_type F64 = ok ''T_num T_f64''"
| "translate_value_type V128 = ok ''T_vec T_v128''"
| "translate_value_type (Ref r) = attempt (translate_ref_type r) (\<lambda>t. ok (''T_ref '' @ t))"

fun translate_block_type :: "wasm_block_type \<Rightarrow> string translated" where
  "translate_block_type Empty_type = ok ''BT_valtype None''"
| "translate_block_type (FuncType_index i) = ok (''BT_id '' @ show_nat i @ ''%N'')"
| "translate_block_type (Result_type t) =
     attempt (translate_value_type t) (\<lambda>v. ok (''BT_valtype (Some ('' @ v @ ''))''))"

definition translate_memarg :: "memarg \<Rightarrow> string" where
  "translate_memarg m = ''Ma '' @ show_nat (ma_offset m) @ ''%N '' @ show_nat (ma_align m) @ ''%N''"

section \<open>Operators that are their text\<close>

primrec int_relation_text :: "int_relation \<Rightarrow> string" where
  "int_relation_text I32Eqz = ''BI_testop T_i32 TO_eqz''"
| "int_relation_text I32Eq = ''BI_relop T_i32 (Relop_i ROI_eq)''"
| "int_relation_text I32Ne = ''BI_relop T_i32 (Relop_i ROI_ne)''"
| "int_relation_text I32LtS = ''BI_relop T_i32 (Relop_i (ROI_lt SX_S))''"
| "int_relation_text I32LtU = ''BI_relop T_i32 (Relop_i (ROI_lt SX_U))''"
| "int_relation_text I32GtS = ''BI_relop T_i32 (Relop_i (ROI_gt SX_S))''"
| "int_relation_text I32GtU = ''BI_relop T_i32 (Relop_i (ROI_gt SX_U))''"
| "int_relation_text I32LeS = ''BI_relop T_i32 (Relop_i (ROI_le SX_S))''"
| "int_relation_text I32LeU = ''BI_relop T_i32 (Relop_i (ROI_le SX_U))''"
| "int_relation_text I32GeS = ''BI_relop T_i32 (Relop_i (ROI_ge SX_S))''"
| "int_relation_text I32GeU = ''BI_relop T_i32 (Relop_i (ROI_ge SX_U))''"
| "int_relation_text I64Eqz = ''BI_testop T_i64 TO_eqz''"
| "int_relation_text I64Eq = ''BI_relop T_i64 (Relop_i ROI_eq)''"
| "int_relation_text I64Ne = ''BI_relop T_i64 (Relop_i ROI_ne)''"
| "int_relation_text I64LtS = ''BI_relop T_i64 (Relop_i (ROI_lt SX_S))''"
| "int_relation_text I64LtU = ''BI_relop T_i64 (Relop_i (ROI_lt SX_U))''"
| "int_relation_text I64GtS = ''BI_relop T_i64 (Relop_i (ROI_gt SX_S))''"
| "int_relation_text I64GtU = ''BI_relop T_i64 (Relop_i (ROI_gt SX_U))''"
| "int_relation_text I64LeS = ''BI_relop T_i64 (Relop_i (ROI_le SX_S))''"
| "int_relation_text I64LeU = ''BI_relop T_i64 (Relop_i (ROI_le SX_U))''"
| "int_relation_text I64GeS = ''BI_relop T_i64 (Relop_i (ROI_ge SX_S))''"
| "int_relation_text I64GeU = ''BI_relop T_i64 (Relop_i (ROI_ge SX_U))''"

primrec float_relation_text :: "float_relation \<Rightarrow> string" where
  "float_relation_text F32Eq = ''BI_relop T_f32 (Relop_f ROI_eq)''"
| "float_relation_text F32Ne = ''BI_relop T_f32 (Relop_f ROI_ne)''"
| "float_relation_text F32Lt = ''BI_relop T_f32 (Relop_f ROI_lt)''"
| "float_relation_text F32Gt = ''BI_relop T_f32 (Relop_f ROI_gt)''"
| "float_relation_text F32Le = ''BI_relop T_f32 (Relop_f ROI_le)''"
| "float_relation_text F32Ge = ''BI_relop T_f32 (Relop_f ROI_ge)''"
| "float_relation_text F64Eq = ''BI_relop T_f64 (Relop_f ROI_eq)''"
| "float_relation_text F64Ne = ''BI_relop T_f64 (Relop_f ROI_ne)''"
| "float_relation_text F64Lt = ''BI_relop T_f64 (Relop_f ROI_lt)''"
| "float_relation_text F64Gt = ''BI_relop T_f64 (Relop_f ROI_gt)''"
| "float_relation_text F64Le = ''BI_relop T_f64 (Relop_f ROI_le)''"
| "float_relation_text F64Ge = ''BI_relop T_f64 (Relop_f ROI_ge)''"

primrec int_arithmetic_text :: "int_arithmetic \<Rightarrow> string" where
  "int_arithmetic_text I32Clz = ''BI_unop T_i32 (Unop_i UOI_clz)''"
| "int_arithmetic_text I32Ctz = ''BI_unop T_i32 (Unop_i UOI_ctz)''"
| "int_arithmetic_text I32Popcnt = ''BI_unop T_i32 (Unop_i UOI_popcnt)''"
| "int_arithmetic_text I32Add = ''BI_binop T_i32 (Binop_i BOI_add)''"
| "int_arithmetic_text I32Sub = ''BI_binop T_i32 (Binop_i BOI_sub)''"
| "int_arithmetic_text I32Mul = ''BI_binop T_i32 (Binop_i BOI_mul)''"
| "int_arithmetic_text I32DivS = ''BI_binop T_i32 (Binop_i (BOI_div SX_S))''"
| "int_arithmetic_text I32DivU = ''BI_binop T_i32 (Binop_i (BOI_div SX_U))''"
| "int_arithmetic_text I32RemS = ''BI_binop T_i32 (Binop_i (BOI_rem SX_S))''"
| "int_arithmetic_text I32RemU = ''BI_binop T_i32 (Binop_i (BOI_rem SX_U))''"
| "int_arithmetic_text I32And = ''BI_binop T_i32 (Binop_i BOI_and)''"
| "int_arithmetic_text I32Or = ''BI_binop T_i32 (Binop_i BOI_or)''"
| "int_arithmetic_text I32Xor = ''BI_binop T_i32 (Binop_i BOI_xor)''"
| "int_arithmetic_text I32Shl = ''BI_binop T_i32 (Binop_i BOI_shl)''"
| "int_arithmetic_text I32ShrS = ''BI_binop T_i32 (Binop_i (BOI_shr SX_S))''"
| "int_arithmetic_text I32ShrU = ''BI_binop T_i32 (Binop_i (BOI_shr SX_U))''"
| "int_arithmetic_text I32Rotl = ''BI_binop T_i32 (Binop_i BOI_rotl)''"
| "int_arithmetic_text I32Rotr = ''BI_binop T_i32 (Binop_i BOI_rotr)''"
| "int_arithmetic_text I64Clz = ''BI_unop T_i64 (Unop_i UOI_clz)''"
| "int_arithmetic_text I64Ctz = ''BI_unop T_i64 (Unop_i UOI_ctz)''"
| "int_arithmetic_text I64Popcnt = ''BI_unop T_i64 (Unop_i UOI_popcnt)''"
| "int_arithmetic_text I64Add = ''BI_binop T_i64 (Binop_i BOI_add)''"
| "int_arithmetic_text I64Sub = ''BI_binop T_i64 (Binop_i BOI_sub)''"
| "int_arithmetic_text I64Mul = ''BI_binop T_i64 (Binop_i BOI_mul)''"
| "int_arithmetic_text I64DivS = ''BI_binop T_i64 (Binop_i (BOI_div SX_S))''"
| "int_arithmetic_text I64DivU = ''BI_binop T_i64 (Binop_i (BOI_div SX_U))''"
| "int_arithmetic_text I64RemS = ''BI_binop T_i64 (Binop_i (BOI_rem SX_S))''"
| "int_arithmetic_text I64RemU = ''BI_binop T_i64 (Binop_i (BOI_rem SX_U))''"
| "int_arithmetic_text I64And = ''BI_binop T_i64 (Binop_i BOI_and)''"
| "int_arithmetic_text I64Or = ''BI_binop T_i64 (Binop_i BOI_or)''"
| "int_arithmetic_text I64Xor = ''BI_binop T_i64 (Binop_i BOI_xor)''"
| "int_arithmetic_text I64Shl = ''BI_binop T_i64 (Binop_i BOI_shl)''"
| "int_arithmetic_text I64ShrS = ''BI_binop T_i64 (Binop_i (BOI_shr SX_S))''"
| "int_arithmetic_text I64ShrU = ''BI_binop T_i64 (Binop_i (BOI_shr SX_U))''"
| "int_arithmetic_text I64Rotl = ''BI_binop T_i64 (Binop_i BOI_rotl)''"
| "int_arithmetic_text I64Rotr = ''BI_binop T_i64 (Binop_i BOI_rotr)''"

primrec float_arithmetic_text :: "float_arithmetic \<Rightarrow> string" where
  "float_arithmetic_text F32Abs = ''BI_unop T_f32 (Unop_f UOF_abs)''"
| "float_arithmetic_text F32Neg = ''BI_unop T_f32 (Unop_f UOF_neg)''"
| "float_arithmetic_text F32Ceil = ''BI_unop T_f32 (Unop_f UOF_ceil)''"
| "float_arithmetic_text F32Floor = ''BI_unop T_f32 (Unop_f UOF_floor)''"
| "float_arithmetic_text F32Trunc = ''BI_unop T_f32 (Unop_f UOF_trunc)''"
| "float_arithmetic_text F32Nearest = ''BI_unop T_f32 (Unop_f UOF_nearest)''"
| "float_arithmetic_text F32Sqrt = ''BI_unop T_f32 (Unop_f UOF_sqrt)''"
| "float_arithmetic_text F32Add = ''BI_binop T_f32 (Binop_f BOF_add)''"
| "float_arithmetic_text F32Sub = ''BI_binop T_f32 (Binop_f BOF_sub)''"
| "float_arithmetic_text F32Mul = ''BI_binop T_f32 (Binop_f BOF_mul)''"
| "float_arithmetic_text F32Div = ''BI_binop T_f32 (Binop_f BOF_div)''"
| "float_arithmetic_text F32Min = ''BI_binop T_f32 (Binop_f BOF_min)''"
| "float_arithmetic_text F32Max = ''BI_binop T_f32 (Binop_f BOF_max)''"
| "float_arithmetic_text F32Copysign = ''BI_binop T_f32 (Binop_f BOF_copysign)''"
| "float_arithmetic_text F64Abs = ''BI_unop T_f64 (Unop_f UOF_abs)''"
| "float_arithmetic_text F64Neg = ''BI_unop T_f64 (Unop_f UOF_neg)''"
| "float_arithmetic_text F64Ceil = ''BI_unop T_f64 (Unop_f UOF_ceil)''"
| "float_arithmetic_text F64Floor = ''BI_unop T_f64 (Unop_f UOF_floor)''"
| "float_arithmetic_text F64Trunc = ''BI_unop T_f64 (Unop_f UOF_trunc)''"
| "float_arithmetic_text F64Nearest = ''BI_unop T_f64 (Unop_f UOF_nearest)''"
| "float_arithmetic_text F64Sqrt = ''BI_unop T_f64 (Unop_f UOF_sqrt)''"
| "float_arithmetic_text F64Add = ''BI_binop T_f64 (Binop_f BOF_add)''"
| "float_arithmetic_text F64Sub = ''BI_binop T_f64 (Binop_f BOF_sub)''"
| "float_arithmetic_text F64Mul = ''BI_binop T_f64 (Binop_f BOF_mul)''"
| "float_arithmetic_text F64Div = ''BI_binop T_f64 (Binop_f BOF_div)''"
| "float_arithmetic_text F64Min = ''BI_binop T_f64 (Binop_f BOF_min)''"
| "float_arithmetic_text F64Max = ''BI_binop T_f64 (Binop_f BOF_max)''"
| "float_arithmetic_text F64Copysign = ''BI_binop T_f64 (Binop_f BOF_copysign)''"

primrec conversion_text :: "conversion \<Rightarrow> string" where
  "conversion_text I32WrapI64 = ''BI_cvtop T_i32 (CVO_wrap T_i64 None)''"
| "conversion_text I32TruncF32S = ''BI_cvtop T_i32 (CVO_trunc T_f32 (Some SX_S))''"
| "conversion_text I32TruncF32U = ''BI_cvtop T_i32 (CVO_trunc T_f32 (Some SX_U))''"
| "conversion_text I32TruncF64S = ''BI_cvtop T_i32 (CVO_trunc T_f64 (Some SX_S))''"
| "conversion_text I32TruncF64U = ''BI_cvtop T_i32 (CVO_trunc T_f64 (Some SX_U))''"
| "conversion_text I64ExtendI32S = ''BI_cvtop T_i64 (CVO_extend T_i32 (Some SX_S))''"
| "conversion_text I64ExtendI32U = ''BI_cvtop T_i64 (CVO_extend T_i32 (Some SX_U))''"
| "conversion_text I64TruncF32S = ''BI_cvtop T_i64 (CVO_trunc T_f32 (Some SX_S))''"
| "conversion_text I64TruncF32U = ''BI_cvtop T_i64 (CVO_trunc T_f32 (Some SX_U))''"
| "conversion_text I64TruncF64S = ''BI_cvtop T_i64 (CVO_trunc T_f64 (Some SX_S))''"
| "conversion_text I64TruncF64U = ''BI_cvtop T_i64 (CVO_trunc T_f64 (Some SX_U))''"
| "conversion_text F32ConvertI32S = ''BI_cvtop T_f32 (CVO_convert T_i32 (Some SX_S))''"
| "conversion_text F32ConvertI32U = ''BI_cvtop T_f32 (CVO_convert T_i32 (Some SX_U))''"
| "conversion_text F32ConvertI64S = ''BI_cvtop T_f32 (CVO_convert T_i64 (Some SX_S))''"
| "conversion_text F32ConvertI64U = ''BI_cvtop T_f32 (CVO_convert T_i64 (Some SX_U))''"
| "conversion_text F32DemoteF64 = ''BI_cvtop T_f32 (CVO_demote T_f64 None)''"
| "conversion_text F64ConvertI32S = ''BI_cvtop T_f64 (CVO_convert T_i32 (Some SX_S))''"
| "conversion_text F64ConvertI32U = ''BI_cvtop T_f64 (CVO_convert T_i32 (Some SX_U))''"
| "conversion_text F64ConvertI64S = ''BI_cvtop T_f64 (CVO_convert T_i64 (Some SX_S))''"
| "conversion_text F64ConvertI64U = ''BI_cvtop T_f64 (CVO_convert T_i64 (Some SX_U))''"
| "conversion_text F64PromoteF32 = ''BI_cvtop T_f64 (CVO_promote T_f32 None)''"
| "conversion_text I32ReinterpretF32 = ''BI_cvtop T_i32 (CVO_reinterpret T_f32 None)''"
| "conversion_text I64ReinterpretF64 = ''BI_cvtop T_i64 (CVO_reinterpret T_f64 None)''"
| "conversion_text F32ReinterpretI32 = ''BI_cvtop T_f32 (CVO_reinterpret T_i32 None)''"
| "conversion_text F64ReinterpretI64 = ''BI_cvtop T_f64 (CVO_reinterpret T_i64 None)''"

primrec memory_access_text :: "memory_access \<Rightarrow> string" where
  "memory_access_text (I32Load m) = ''BI_load T_i32 None ('' @ translate_memarg m @ '')''"
| "memory_access_text (I64Load m) = ''BI_load T_i64 None ('' @ translate_memarg m @ '')''"
| "memory_access_text (F32Load m) = ''BI_load T_f32 None ('' @ translate_memarg m @ '')''"
| "memory_access_text (F64Load m) = ''BI_load T_f64 None ('' @ translate_memarg m @ '')''"
| "memory_access_text (I32Load8S m) =
     ''BI_load T_i32 (Some (Tp_i8, SX_S)) ('' @ translate_memarg m @ '')''"
| "memory_access_text (I32Load8U m) =
     ''BI_load T_i32 (Some (Tp_i8, SX_U)) ('' @ translate_memarg m @ '')''"
| "memory_access_text (I32Load16S m) =
     ''BI_load T_i32 (Some (Tp_i16, SX_S)) ('' @ translate_memarg m @ '')''"
| "memory_access_text (I32Load16U m) =
     ''BI_load T_i32 (Some (Tp_i16, SX_U)) ('' @ translate_memarg m @ '')''"
| "memory_access_text (I64Load8S m) =
     ''BI_load T_i64 (Some (Tp_i8, SX_S)) ('' @ translate_memarg m @ '')''"
| "memory_access_text (I64Load8U m) =
     ''BI_load T_i64 (Some (Tp_i8, SX_U)) ('' @ translate_memarg m @ '')''"
| "memory_access_text (I64Load16S m) =
     ''BI_load T_i64 (Some (Tp_i16, SX_S)) ('' @ translate_memarg m @ '')''"
| "memory_access_text (I64Load16U m) =
     ''BI_load T_i64 (Some (Tp_i16, SX_U)) ('' @ translate_memarg m @ '')''"
| "memory_access_text (I64Load32S m) =
     ''BI_load T_i64 (Some (Tp_i32, SX_S)) ('' @ translate_memarg m @ '')''"
| "memory_access_text (I64Load32U m) =
     ''BI_load T_i64 (Some (Tp_i32, SX_U)) ('' @ translate_memarg m @ '')''"
| "memory_access_text (I32Store m) = ''BI_store T_i32 None ('' @ translate_memarg m @ '')''"
| "memory_access_text (I64Store m) = ''BI_store T_i64 None ('' @ translate_memarg m @ '')''"
| "memory_access_text (F32Store m) = ''BI_store T_f32 None ('' @ translate_memarg m @ '')''"
| "memory_access_text (F64Store m) = ''BI_store T_f64 None ('' @ translate_memarg m @ '')''"
| "memory_access_text (I32Store8 m) =
     ''BI_store T_i32 (Some Tp_i8) ('' @ translate_memarg m @ '')''"
| "memory_access_text (I32Store16 m) =
     ''BI_store T_i32 (Some Tp_i16) ('' @ translate_memarg m @ '')''"
| "memory_access_text (I64Store8 m) =
     ''BI_store T_i64 (Some Tp_i8) ('' @ translate_memarg m @ '')''"
| "memory_access_text (I64Store16 m) =
     ''BI_store T_i64 (Some Tp_i16) ('' @ translate_memarg m @ '')''"
| "memory_access_text (I64Store32 m) =
     ''BI_store T_i64 (Some Tp_i32) ('' @ translate_memarg m @ '')''"

primrec vector_access_text :: "vector_access \<Rightarrow> string" where
  "vector_access_text (V128Load m) =
     ''BI_load_vec LVA_packed T_i64 (Some (Tp_i16, SX_U)) ('' @ translate_memarg m @ '')''"
| "vector_access_text (V128Load8x8S m) =
     ''BI_load_vec LVA_packed T_i64 (Some (Tp_i8, SX_S)) ('' @ translate_memarg m @ '')''"
| "vector_access_text (V128Load8x8U m) =
     ''BI_load_vec LVA_packed T_i64 (Some (Tp_i8, SX_U)) ('' @ translate_memarg m @ '')''"
| "vector_access_text (V128Load16x4S m) =
     ''BI_load_vec LVA_packed T_i64 (Some (Tp_i16, SX_S)) ('' @ translate_memarg m @ '')''"
| "vector_access_text (V128Load16x4U m) =
     ''BI_load_vec LVA_packed T_i64 (Some (Tp_i16, SX_U)) ('' @ translate_memarg m @ '')''"
| "vector_access_text (V128Load32x2S m) =
     ''BI_load_vec LVA_packed T_i64 (Some (Tp_i32, SX_S)) ('' @ translate_memarg m @ '')''"
| "vector_access_text (V128Load32x2U m) =
     ''BI_load_vec LVA_packed T_i64 (Some (Tp_i32, SX_U)) ('' @ translate_memarg m @ '')''"
| "vector_access_text (V128Load8Splat m) =
     ''BI_load_vec LVA_splat Twv_8 ('' @ translate_memarg m @ '')''"
| "vector_access_text (V128Load16Splat m) =
     ''BI_load_vec LVA_splat Twv_16 ('' @ translate_memarg m @ '')''"
| "vector_access_text (V128Load32Splat m) =
     ''BI_load_vec LVA_splat Twv_32 ('' @ translate_memarg m @ '')''"
| "vector_access_text (V128Load64Splat m) =
     ''BI_load_vec LVA_splat Twv_64 ('' @ translate_memarg m @ '')''"
| "vector_access_text (V128Load32Zero m) =
     ''BI_load_vec LVA_zero Tztv_32 ('' @ translate_memarg m @ '')''"
| "vector_access_text (V128Load64Zero m) =
     ''BI_load_vec LVA_zero Tztv_64 ('' @ translate_memarg m @ '')''"
| "vector_access_text (V128Store m) = ''BI_store_vec_lane Twv_64 ('' @ translate_memarg m @ '') 0''"

primrec vector_lane_access_text :: "vector_lane_access \<Rightarrow> string" where
  "vector_lane_access_text (V128Load8Lane m l) =
     ''BI_store_vec_lane Twv_8 ('' @ translate_memarg m @ '') '' @ show_nat l"
| "vector_lane_access_text (V128Load16Lane m l) =
     ''BI_store_vec_lane Twv_16 ('' @ translate_memarg m @ '') '' @ show_nat l"
| "vector_lane_access_text (V128Load32Lane m l) =
     ''BI_store_vec_lane Twv_32 ('' @ translate_memarg m @ '') '' @ show_nat l"
| "vector_lane_access_text (V128Load64Lane m l) =
     ''BI_store_vec_lane Twv_64 ('' @ translate_memarg m @ '') '' @ show_nat l"
| "vector_lane_access_text (V128Store8Lane m l) =
     ''BI_store_vec_lane Twv_8 ('' @ translate_memarg m @ '') '' @ show_nat l"
| "vector_lane_access_text (V128Store16Lane m l) =
     ''BI_store_vec_lane Twv_16 ('' @ translate_memarg m @ '') '' @ show_nat l"
| "vector_lane_access_text (V128Store32Lane m l) =
     ''BI_store_vec_lane Twv_32 ('' @ translate_memarg m @ '') '' @ show_nat l"
| "vector_lane_access_text (V128Store64Lane m l) =
     ''BI_store_vec_lane Twv_64 ('' @ translate_memarg m @ '') '' @ show_nat l"

primrec vector_lane_text :: "vector_lane \<Rightarrow> string" where
  "vector_lane_text (I8x16ExtractLaneS l) =
     ''BI_extract_vec (SV_ishape SVI_8_16) (Some SX_S) '' @ show_nat l"
| "vector_lane_text (I8x16ExtractLaneU l) =
     ''BI_extract_vec (SV_ishape SVI_8_16) (Some SX_U) '' @ show_nat l"
| "vector_lane_text (I8x16ReplaceLane l) = ''BI_replace_vec (SV_ishape SVI_8_16) '' @ show_nat l"
| "vector_lane_text (I16x8ExtractLaneS l) =
     ''BI_extract_vec (SV_ishape SVI_16_8) (Some SX_S) '' @ show_nat l"
| "vector_lane_text (I16x8ExtractLaneU l) =
     ''BI_extract_vec (SV_ishape SVI_16_8) (Some SX_U) '' @ show_nat l"
| "vector_lane_text (I16x8ReplaceLane l) = ''BI_replace_vec (SV_ishape SVI_16_8) '' @ show_nat l"
| "vector_lane_text (I32x4ExtractLane l) =
     ''BI_extract_vec (SV_ishape SVI_32_4) (Some SX_S) '' @ show_nat l"
| "vector_lane_text (I32x4ReplaceLane l) = ''BI_replace_vec (SV_ishape SVI_32_4) '' @ show_nat l"
| "vector_lane_text (I64x2ExtractLane l) =
     ''BI_extract_vec (SV_ishape SVI_64_2) (Some SX_S) '' @ show_nat l"
| "vector_lane_text (I64x2ReplaceLane l) = ''BI_replace_vec (SV_ishape SVI_64_2) '' @ show_nat l"
| "vector_lane_text (F32x4ExtractLane l) =
     ''BI_extract_vec (SV_fshape SVF_32_4) None '' @ show_nat l"
| "vector_lane_text (F32x4ReplaceLane l) = ''BI_replace_vec (SV_fshape SVF_32_4) '' @ show_nat l"
| "vector_lane_text (F64x2ExtractLane l) =
     ''BI_extract_vec (SV_fshape SVF_64_2) None '' @ show_nat l"
| "vector_lane_text (F64x2ReplaceLane l) = ''BI_replace_vec (SV_fshape SVF_64_2) '' @ show_nat l"

primrec vector_splat_text :: "vector_splat \<Rightarrow> string" where
  "vector_splat_text I8x16Splat = ''BI_load_vec LVA_splat Twv_8''"
| "vector_splat_text I16x8Splat = ''BI_load_vec LVA_splat Twv_16''"
| "vector_splat_text I32x4Splat = ''BI_load_vec LVA_splat Twv_32''"
| "vector_splat_text I64x2Splat = ''BI_load_vec LVA_splat Twv_64''"
| "vector_splat_text F32x4Splat = ''BI_load_vec LVA_splat Twv_32''"
| "vector_splat_text F64x2Splat = ''BI_load_vec LVA_splat Twv_64''"

section \<open>Operators without a text\<close>

text \<open>The arms that are \<open>todo!()\<close>, a panic, in the order of the source.\<close>

definition gc_and_saturating_operators :: "string list" where
  "gc_and_saturating_operators =
     [''I32Extend8S'', ''I32Extend16S'', ''I64Extend8S'', ''I64Extend16S'', ''I64Extend32S'',
      ''RefEq'', ''StructNew'', ''StructNewDefault'', ''StructGet'', ''StructGetS'',
      ''StructGetU'', ''StructSet'', ''ArrayNew'', ''ArrayNewDefault'', ''ArrayNewFixed'',
      ''ArrayNewData'', ''ArrayNewElem'', ''ArrayGet'', ''ArrayGetS'', ''ArrayGetU'',
      ''ArraySet'', ''ArrayLen'', ''ArrayFill'', ''ArrayCopy'', ''ArrayInitData'',
      ''ArrayInitElem'', ''RefTestNonNull'', ''RefTestNullable'', ''RefCastNonNull'',
      ''RefCastNullable'', ''BrOnCast'', ''BrOnCastFail'', ''AnyConvertExtern'',
      ''ExternConvertAny'', ''RefI31'', ''I31GetS'', ''I31GetU'', ''I32TruncSatF32S'',
      ''I32TruncSatF32U'', ''I32TruncSatF64S'', ''I32TruncSatF64U'', ''I64TruncSatF32S'',
      ''I64TruncSatF32U'', ''I64TruncSatF64S'', ''I64TruncSatF64U'']"

definition table_operators :: "string list" where
  "table_operators =
     [''TableInit'', ''ElemDrop'', ''TableCopy'', ''TypedSelect'', ''RefNull'', ''ReturnCall'',
      ''ReturnCallIndirect'', ''MemoryDiscard'']"

definition lane_comparison_operators :: "string list" where
  "lane_comparison_operators =
     [''I8x16Shuffle'', ''I8x16Swizzle'', ''I8x16Eq'', ''I8x16Ne'', ''I8x16LtS'', ''I8x16LtU'',
      ''I8x16GtS'', ''I8x16GtU'', ''I8x16LeS'', ''I8x16LeU'', ''I8x16GeS'', ''I8x16GeU'',
      ''I16x8Eq'', ''I16x8Ne'', ''I16x8LtS'', ''I16x8LtU'', ''I16x8GtS'', ''I16x8GtU'',
      ''I16x8LeS'', ''I16x8LeU'', ''I16x8GeS'', ''I16x8GeU'', ''I32x4Eq'', ''I32x4Ne'',
      ''I32x4LtS'', ''I32x4LtU'', ''I32x4GtS'', ''I32x4GtU'', ''I32x4LeS'', ''I32x4LeU'',
      ''I32x4GeS'', ''I32x4GeU'', ''I64x2Eq'', ''I64x2Ne'', ''I64x2LtS'', ''I64x2GtS'',
      ''I64x2LeS'', ''I64x2GeS'', ''F32x4Eq'', ''F32x4Ne'', ''F32x4Lt'', ''F32x4Gt'',
      ''F32x4Le'', ''F32x4Ge'', ''F64x2Eq'', ''F64x2Ne'', ''F64x2Lt'', ''F64x2Gt'', ''F64x2Le'',
      ''F64x2Ge'']"

definition small_lane_operators :: "string list" where
  "small_lane_operators =
     [''V128Not'', ''V128And'', ''V128AndNot'', ''V128Or'', ''V128Xor'', ''V128Bitselect'',
      ''V128AnyTrue'', ''I8x16Abs'', ''I8x16Neg'', ''I8x16Popcnt'', ''I8x16AllTrue'',
      ''I8x16Bitmask'', ''I8x16NarrowI16x8S'', ''I8x16NarrowI16x8U'', ''I8x16Shl'',
      ''I8x16ShrS'', ''I8x16ShrU'', ''I8x16Add'', ''I8x16AddSatS'', ''I8x16AddSatU'',
      ''I8x16Sub'', ''I8x16SubSatS'', ''I8x16SubSatU'', ''I8x16MinS'', ''I8x16MinU'',
      ''I8x16MaxS'', ''I8x16MaxU'', ''I8x16AvgrU'', ''I16x8ExtAddPairwiseI8x16S'',
      ''I16x8ExtAddPairwiseI8x16U'', ''I16x8Abs'', ''I16x8Neg'', ''I16x8Q15MulrSatS'',
      ''I16x8AllTrue'', ''I16x8Bitmask'', ''I16x8NarrowI32x4S'', ''I16x8NarrowI32x4U'',
      ''I16x8ExtendLowI8x16S'', ''I16x8ExtendHighI8x16S'', ''I16x8ExtendLowI8x16U'',
      ''I16x8ExtendHighI8x16U'', ''I16x8Shl'', ''I16x8ShrS'', ''I16x8ShrU'', ''I16x8Add'',
      ''I16x8AddSatS'', ''I16x8AddSatU'', ''I16x8Sub'', ''I16x8SubSatS'', ''I16x8SubSatU'',
      ''I16x8Mul'', ''I16x8MinS'', ''I16x8MinU'', ''I16x8MaxS'', ''I16x8MaxU'', ''I16x8AvgrU'',
      ''I16x8ExtMulLowI8x16S'', ''I16x8ExtMulHighI8x16S'', ''I16x8ExtMulLowI8x16U'',
      ''I16x8ExtMulHighI8x16U'']"

definition wide_lane_operators :: "string list" where
  "wide_lane_operators =
     [''I32x4ExtAddPairwiseI16x8S'', ''I32x4ExtAddPairwiseI16x8U'', ''I32x4Abs'', ''I32x4Neg'',
      ''I32x4AllTrue'', ''I32x4Bitmask'', ''I32x4ExtendLowI16x8S'', ''I32x4ExtendHighI16x8S'',
      ''I32x4ExtendLowI16x8U'', ''I32x4ExtendHighI16x8U'', ''I32x4Shl'', ''I32x4ShrS'',
      ''I32x4ShrU'', ''I32x4Add'', ''I32x4Sub'', ''I32x4Mul'', ''I32x4MinS'', ''I32x4MinU'',
      ''I32x4MaxS'', ''I32x4MaxU'', ''I32x4DotI16x8S'', ''I32x4ExtMulLowI16x8S'',
      ''I32x4ExtMulHighI16x8S'', ''I32x4ExtMulLowI16x8U'', ''I32x4ExtMulHighI16x8U'',
      ''I64x2Abs'', ''I64x2Neg'', ''I64x2AllTrue'', ''I64x2Bitmask'', ''I64x2ExtendLowI32x4S'',
      ''I64x2ExtendHighI32x4S'', ''I64x2ExtendLowI32x4U'', ''I64x2ExtendHighI32x4U'',
      ''I64x2Shl'', ''I64x2ShrS'', ''I64x2ShrU'', ''I64x2Add'', ''I64x2Sub'', ''I64x2Mul'',
      ''I64x2ExtMulLowI32x4S'', ''I64x2ExtMulHighI32x4S'', ''I64x2ExtMulLowI32x4U'',
      ''I64x2ExtMulHighI32x4U'', ''F32x4Ceil'', ''F32x4Floor'', ''F32x4Trunc'', ''F32x4Nearest'',
      ''F32x4Abs'', ''F32x4Neg'', ''F32x4Sqrt'', ''F32x4Add'', ''F32x4Sub'', ''F32x4Mul'',
      ''F32x4Div'', ''F32x4Min'', ''F32x4Max'', ''F32x4PMin'', ''F32x4PMax'', ''F64x2Ceil'',
      ''F64x2Floor'', ''F64x2Trunc'', ''F64x2Nearest'', ''F64x2Abs'', ''F64x2Neg'',
      ''F64x2Sqrt'', ''F64x2Add'', ''F64x2Sub'', ''F64x2Mul'', ''F64x2Div'', ''F64x2Min'',
      ''F64x2Max'', ''F64x2PMin'', ''F64x2PMax'', ''I32x4TruncSatF32x4S'',
      ''I32x4TruncSatF32x4U'', ''F32x4ConvertI32x4S'', ''F32x4ConvertI32x4U'',
      ''I32x4TruncSatF64x2SZero'', ''I32x4TruncSatF64x2UZero'', ''F64x2ConvertLowI32x4S'',
      ''F64x2ConvertLowI32x4U'', ''F32x4DemoteF64x2Zero'', ''F64x2PromoteLowF32x4'']"

definition relaxed_and_exception_operators :: "string list" where
  "relaxed_and_exception_operators =
     [''I8x16RelaxedSwizzle'', ''I32x4RelaxedTruncF32x4S'', ''I32x4RelaxedTruncF32x4U'',
      ''I32x4RelaxedTruncF64x2SZero'', ''I32x4RelaxedTruncF64x2UZero'', ''F32x4RelaxedMadd'',
      ''F32x4RelaxedNmadd'', ''F64x2RelaxedMadd'', ''F64x2RelaxedNmadd'',
      ''I8x16RelaxedLaneselect'', ''I16x8RelaxedLaneselect'', ''I32x4RelaxedLaneselect'',
      ''I64x2RelaxedLaneselect'', ''F32x4RelaxedMin'', ''F32x4RelaxedMax'', ''F64x2RelaxedMin'',
      ''F64x2RelaxedMax'', ''I16x8RelaxedQ15mulrS'', ''I16x8RelaxedDotI8x16I7x16S'',
      ''I32x4RelaxedDotI8x16I7x16AddS'', ''TryTable'', ''Throw'', ''ThrowRef'', ''Try'',
      ''Catch'', ''Rethrow'', ''Delegate'', ''CatchAll'']"

definition typed_reference_operators :: "string list" where
  "typed_reference_operators =
     [''RefI31Shared'', ''CallRef'', ''ReturnCallRef'', ''RefAsNonNull'', ''BrOnNull'',
      ''BrOnNonNull'', ''ContNew'', ''ContBind'', ''Suspend'', ''Resume'', ''ResumeThrow'',
      ''Switch'', ''I64Add128'', ''I64Sub128'', ''I64MulWideS'', ''I64MulWideU'']"

definition unimplemented_operators :: "string list" where
  "unimplemented_operators =
     gc_and_saturating_operators @ table_operators @ lane_comparison_operators
     @ small_lane_operators @ wide_lane_operators @ relaxed_and_exception_operators
     @ typed_reference_operators"

text \<open>The two arms that return the error on atomic instructions.\<close>

definition atomic_operators :: "string list" where
  "atomic_operators =
     [''MemoryAtomicNotify'', ''MemoryAtomicWait32'', ''MemoryAtomicWait64'', ''AtomicFence'',
      ''I32AtomicLoad'', ''I64AtomicLoad'', ''I32AtomicLoad8U'', ''I32AtomicLoad16U'',
      ''I64AtomicLoad8U'', ''I64AtomicLoad16U'', ''I64AtomicLoad32U'', ''I32AtomicStore'',
      ''I64AtomicStore'', ''I32AtomicStore8'', ''I32AtomicStore16'', ''I64AtomicStore8'',
      ''I64AtomicStore16'', ''I64AtomicStore32'', ''I32AtomicRmwAdd'', ''I64AtomicRmwAdd'',
      ''I32AtomicRmw8AddU'', ''I32AtomicRmw16AddU'', ''I64AtomicRmw8AddU'',
      ''I64AtomicRmw16AddU'', ''I64AtomicRmw32AddU'', ''I32AtomicRmwSub'', ''I64AtomicRmwSub'',
      ''I32AtomicRmw8SubU'', ''I32AtomicRmw16SubU'', ''I64AtomicRmw8SubU'',
      ''I64AtomicRmw16SubU'', ''I64AtomicRmw32SubU'', ''I32AtomicRmwAnd'', ''I64AtomicRmwAnd'',
      ''I32AtomicRmw8AndU'', ''I32AtomicRmw16AndU'', ''I64AtomicRmw8AndU'',
      ''I64AtomicRmw16AndU'', ''I64AtomicRmw32AndU'', ''I32AtomicRmwOr'', ''I64AtomicRmwOr'',
      ''I32AtomicRmw8OrU'', ''I32AtomicRmw16OrU'', ''I64AtomicRmw8OrU'', ''I64AtomicRmw16OrU'',
      ''I64AtomicRmw32OrU'', ''I32AtomicRmwXor'', ''I64AtomicRmwXor'', ''I32AtomicRmw8XorU'',
      ''I32AtomicRmw16XorU'', ''I64AtomicRmw8XorU'', ''I64AtomicRmw16XorU'',
      ''I64AtomicRmw32XorU'', ''I32AtomicRmwXchg'', ''I64AtomicRmwXchg'', ''I32AtomicRmw8XchgU'',
      ''I32AtomicRmw16XchgU'', ''I64AtomicRmw8XchgU'', ''I64AtomicRmw16XchgU'',
      ''I64AtomicRmw32XchgU'', ''I32AtomicRmwCmpxchg'', ''I64AtomicRmwCmpxchg'',
      ''I32AtomicRmw8CmpxchgU'', ''I32AtomicRmw16CmpxchgU'', ''I64AtomicRmw8CmpxchgU'',
      ''I64AtomicRmw16CmpxchgU'', ''I64AtomicRmw32CmpxchgU'']"

definition shared_atomic_operators :: "string list" where
  "shared_atomic_operators =
     [''GlobalAtomicGet'', ''GlobalAtomicSet'', ''GlobalAtomicRmwAdd'', ''GlobalAtomicRmwSub'',
      ''GlobalAtomicRmwAnd'', ''GlobalAtomicRmwOr'', ''GlobalAtomicRmwXor'',
      ''GlobalAtomicRmwXchg'', ''GlobalAtomicRmwCmpxchg'', ''TableAtomicGet'',
      ''TableAtomicSet'', ''TableAtomicRmwXchg'', ''TableAtomicRmwCmpxchg'', ''StructAtomicGet'',
      ''StructAtomicGetS'', ''StructAtomicGetU'', ''StructAtomicSet'', ''StructAtomicRmwAdd'',
      ''StructAtomicRmwSub'', ''StructAtomicRmwAnd'', ''StructAtomicRmwOr'',
      ''StructAtomicRmwXor'', ''StructAtomicRmwXchg'', ''StructAtomicRmwCmpxchg'',
      ''ArrayAtomicGet'', ''ArrayAtomicGetS'', ''ArrayAtomicGetU'', ''ArrayAtomicSet'',
      ''ArrayAtomicRmwAdd'', ''ArrayAtomicRmwSub'', ''ArrayAtomicRmwAnd'', ''ArrayAtomicRmwOr'',
      ''ArrayAtomicRmwXor'', ''ArrayAtomicRmwXchg'', ''ArrayAtomicRmwCmpxchg'']"

section \<open>The operator\<close>

text \<open>
  The names of the locals, when the module has some for the function; a name is printed as a
  comment.
\<close>

type_synonym local_names = "(nat \<Rightarrow> string option) option"

definition translate_local :: "string \<Rightarrow> local_names \<Rightarrow> nat \<Rightarrow> string" where
  "translate_local head names i =
     (case names of
        Some m \<Rightarrow> (case m i of
                    Some n \<Rightarrow> head @ show_nat i @ ''%N (*'' @ n @ ''*)''
                  | None \<Rightarrow> head @ show_nat i @ ''%N'')
      | None \<Rightarrow> head @ show_nat i @ ''%N'')"

fun target_list :: "(string + nat) list \<Rightarrow> string option" where
  "target_list [] = Some ''nil''"
| "target_list (Inl e # ts) = None"
| "target_list (Inr i # ts) = do { s \<leftarrow> target_list ts; Some (show_nat i @ '' :: '' @ s) }"

definition translate_br_table :: "br_table \<Rightarrow> string translated" where
  "translate_br_table t =
     (if bt_targets t = [] then ok ''BI_br_table''
      else do { s \<leftarrow> target_list (bt_targets t); ok (''BI_br_table ('' @ s @ '')'') })"

definition translate_block_label :: "string \<Rightarrow> wasm_block_type \<Rightarrow> string translated" where
  "translate_block_label head t =
     attempt (translate_block_type t) (\<lambda>b. ok (head @ '' ('' @ b @ '')''))"

definition translate_memory_index :: "string \<Rightarrow> nat \<Rightarrow> string translated" where
  "translate_memory_index text mem = (if mem > 0 then err Memory_index_not_supported else ok text)"

definition translate_named :: "string \<Rightarrow> string translated" where
  "translate_named n =
     (if n \<in> set unimplemented_operators then None
      else if n \<in> set atomic_operators \<or> n \<in> set shared_atomic_operators
      then err (Atomic_not_supported n)
      else err (Not_recognized n))"

primrec translate_basic_operator :: "operator \<Rightarrow> local_names \<Rightarrow> string translated" where
  "translate_basic_operator Nop names = ok ''BI_nop''"
| "translate_basic_operator Unreachable names = ok ''BI_unreachable''"
| "translate_basic_operator (Block t) names = translate_block_label ''BI_block'' t"
| "translate_basic_operator (Loop t) names = translate_block_label ''BI_loop'' t"
| "translate_basic_operator (If t) names = translate_block_label ''BI_if'' t"
| "translate_basic_operator (Forall t) names = translate_block_label ''BI_forall'' t"
| "translate_basic_operator (Exists t) names = translate_block_label ''BI_exists'' t"
| "translate_basic_operator (Assume t) names = translate_block_label ''BI_assume'' t"
| "translate_basic_operator (Unique t) names = translate_block_label ''BI_unique'' t"
| "translate_basic_operator (I32Uzumaki v) names = ok ''BI_uzumaki_num T_i32''"
| "translate_basic_operator (I64Uzumaki v) names = ok ''BI_uzumaki_num T_i64''"
| "translate_basic_operator Else names = ok ''''"
| "translate_basic_operator End names = ok ''''"
| "translate_basic_operator (Br d) names = ok (''BI_br '' @ show_nat d)"
| "translate_basic_operator (BrIf d) names = ok (''BI_br_if '' @ show_nat d @ ''%N'')"
| "translate_basic_operator (BrTable t) names = translate_br_table t"
| "translate_basic_operator Return names = ok ''BI_return''"
| "translate_basic_operator (Call f) names = ok (''BI_call '' @ show_nat f)"
| "translate_basic_operator (CallIndirect t b) names =
     ok (''BI_call_indirect '' @ show_nat t @ '' '' @ show_nat b)"
| "translate_basic_operator Drop names = ok ''BI_drop''"
| "translate_basic_operator Select names = ok ''BI_select None''"
| "translate_basic_operator (LocalGet i) names = ok (translate_local ''BI_local_get '' names i)"
| "translate_basic_operator (LocalSet i) names = ok (translate_local ''BI_local_set '' names i)"
| "translate_basic_operator (LocalTee i) names = ok (translate_local ''BI_local_tee '' names i)"
| "translate_basic_operator (GlobalGet i) names = ok (''BI_global_get '' @ show_nat i @ ''%N'')"
| "translate_basic_operator (GlobalSet i) names = ok (''BI_global_set '' @ show_nat i @ ''%N'')"
| "translate_basic_operator (Memory_access a) names = ok (memory_access_text a)"
| "translate_basic_operator (MemorySize m) names = translate_memory_index ''BI_memory_size'' m"
| "translate_basic_operator (MemoryGrow m) names = translate_memory_index ''BI_memory_grow'' m"
| "translate_basic_operator (I32Const v) names = ok (''BI_const_num (Vi32 '' @ show_int v @ '')'')"
| "translate_basic_operator (I64Const v) names = ok (''BI_const_num (Vi64 '' @ show_int v @ '')'')"
| "translate_basic_operator (F32Const b) names =
     ok (''BI_const_num (VAL_float32 '' @ show_nat b @ '')'')"
| "translate_basic_operator (F64Const b) names =
     ok (''BI_const_num (VAL_float64 '' @ show_nat b @ '')'')"
| "translate_basic_operator (Int_relation r) names = ok (int_relation_text r)"
| "translate_basic_operator (Float_relation r) names = ok (float_relation_text r)"
| "translate_basic_operator (Int_arithmetic a) names = ok (int_arithmetic_text a)"
| "translate_basic_operator (Float_arithmetic a) names = ok (float_arithmetic_text a)"
| "translate_basic_operator (Conversion c) names = ok (conversion_text c)"
| "translate_basic_operator (MemoryInit d m) names = ok (''BI_memory_init '' @ show_nat d)"
| "translate_basic_operator (DataDrop d) names = ok (''BI_data_drop '' @ show_nat d)"
| "translate_basic_operator (MemoryCopy d s) names = ok ''BI_memory_copy''"
| "translate_basic_operator (MemoryFill m) names = ok ''BI_memory_fill''"
| "translate_basic_operator RefIsNull names = ok ''BI_ref_is_null''"
| "translate_basic_operator (RefFunc f) names = ok (''BI_ref_func '' @ show_nat f @ ''%N'')"
| "translate_basic_operator (TableFill t) names = ok (''BI_table_fill '' @ show_nat t @ ''%N'')"
| "translate_basic_operator (TableGet t) names = ok (''BI_table_get '' @ show_nat t @ ''%N'')"
| "translate_basic_operator (TableSet t) names = ok (''BI_table_set '' @ show_nat t @ ''%N'')"
| "translate_basic_operator (TableGrow t) names = ok (''BI_table_grow '' @ show_nat t @ ''%N'')"
| "translate_basic_operator (TableSize t) names = ok (''BI_table_size '' @ show_nat t @ ''%N'')"
| "translate_basic_operator (Vector_access a) names = ok (vector_access_text a)"
| "translate_basic_operator (Vector_lane_access a) names = ok (vector_lane_access_text a)"
| "translate_basic_operator (V128Const bs) names =
     ok (''BI_const_vec '' @ show_int (i128_from_le_bytes bs))"
| "translate_basic_operator (Vector_lane l) names = ok (vector_lane_text l)"
| "translate_basic_operator (Vector_splat s) names = ok (vector_splat_text s)"
| "translate_basic_operator (Named n) names = translate_named n"

end
