(* ===== verification/RocqTranslator.thy ===== *)
theory RocqTranslator
  imports RocqOperators
begin

text \<open>
  The translation of a parsed module to a Rocq file (\<open>core/wasm-to-v/src/translator.rs\<close>): the
  entries of each section, the reconstruction of structured expressions from the flat sequence of
  operators, their printing, the functions and the module record.
\<close>

definition nl :: string where
  "nl = [CHR 0x0A]"

definition quoted :: "string \<Rightarrow> string" where
  "quoted s = CHR 0x22 # s @ [CHR 0x22]"

definition LCB :: string where
  "LCB = ''{|'' @ nl"

definition RCB_DOT :: string where
  "RCB_DOT = ''|}.'' @ nl"

definition LIST_EXT :: string where
  "LIST_EXT = '' ::'' @ nl"

definition LIST_SEAL :: string where
  "LIST_SEAL = ''nil''"

section \<open>The parsed module\<close>

record wasm_parse_data =
  wd_mod_name :: string
  wd_func_names_map :: "(nat \<Rightarrow> string option) option"
  wd_func_locals_name_map :: "(nat \<Rightarrow> (nat \<Rightarrow> string option) option) option"
  wd_start_function :: "nat option"
  wd_imports :: "wasm_import list"
  wd_exports :: "wasm_export list"
  wd_tables :: "wasm_table list"
  wd_memory_types :: "memory_type list"
  wd_globals :: "wasm_global list"
  wd_data :: "wasm_data list"
  wd_elements :: "wasm_element list"
  wd_function_types :: "rec_group list"
  wd_function_type_indexes :: "nat list"
  wd_function_bodies :: "function_body list"
  wd_translated_function_names :: "string list"
  wd_translated_functions_string :: string

definition wasm_parse_data_new :: "string \<Rightarrow> wasm_parse_data" where
  "wasm_parse_data_new name =
     \<lparr>wd_mod_name = name, wd_func_names_map = None, wd_func_locals_name_map = None,
      wd_start_function = None, wd_imports = [], wd_exports = [], wd_tables = [],
      wd_memory_types = [], wd_globals = [], wd_data = [], wd_elements = [],
      wd_function_types = [], wd_function_type_indexes = [], wd_function_bodies = [],
      wd_translated_function_names = [], wd_translated_functions_string = ''''\<rparr>"

section \<open>Expressions\<close>

datatype rocq_part =
    Operator_part operator
  | Block_part operator rocq_expression
  | Condition_part operator rocq_expression rocq_expression
and rocq_expression =
    Rocq_expression (expression_parts: "rocq_part list") (expression_names: local_names)

fun last_part :: "rocq_part list \<Rightarrow> rocq_part option" where
  "last_part ps = (if ps = [] then None else Some (last ps))"

fun opens_block :: "operator \<Rightarrow> bool" where
  "opens_block (Block t) = True"
| "opens_block (Loop t) = True"
| "opens_block (Forall t) = True"
| "opens_block (Exists t) = True"
| "opens_block (Assume t) = True"
| "opens_block (Unique t) = True"
| "opens_block _ = False"

fun opens_condition :: "operator \<Rightarrow> bool" where
  "opens_condition (If t) = True"
| "opens_condition _ = False"

definition offset_text :: "nat \<Rightarrow> string" where
  "offset_text n = concat (replicate n ''  '')"

fun print_with_offset :: "rocq_expression \<Rightarrow> nat \<Rightarrow> string translated"
  and print_parts :: "local_names \<Rightarrow> nat \<Rightarrow> rocq_part list \<Rightarrow> string translated"
  and print_part :: "local_names \<Rightarrow> nat \<Rightarrow> rocq_part \<Rightarrow> string translated" where
  "print_with_offset (Rocq_expression ps names) n =
     attempt (print_parts names n ps) (\<lambda>s. ok (s @ offset_text n @ ''nil''))"
| "print_parts names n [] = ok ''''"
| "print_parts names n (p # ps) =
     attempt (print_part names n p) (\<lambda>s. attempt (print_parts names n ps) (\<lambda>t. ok (s @ t)))"
| "print_part names n (Operator_part op) =
     (if op = Else \<or> op = End then ok ''''
      else attempt (translate_basic_operator op names) (\<lambda>t. ok (offset_text n @ t @ LIST_EXT)))"
| "print_part names n (Block_part label body) =
     attempt (translate_basic_operator label names) (\<lambda>t.
       attempt (print_with_offset body (Suc n)) (\<lambda>b.
         ok (offset_text n @ t @ '' ('' @ nl @ b @ '') '' @ ''::'' @ nl)))"
| "print_part names n (Condition_part label yes no) =
     attempt (translate_basic_operator label names) (\<lambda>t.
       attempt (print_with_offset yes (Suc n)) (\<lambda>y.
         attempt (print_with_offset no (Suc n)) (\<lambda>z.
           ok (offset_text n @ t @ '' ('' @ nl @ y @ '') ('' @ nl @ z @ '') '' @ ''::'' @ nl))))"

text \<open>
  The loop of \<open>translate_expression\<close>: \<open>acc\<close> is \<open>result.parts\<close>, the reader is what is left of it.
  It has no error of its own; a read error is unwrapped and a condition without any part in its
  first arm is the \<open>unwrap\<close> of \<open>last_part\<close>, both panics.
\<close>

partial_function (option) translate_expression_from ::
  "rocq_part list \<Rightarrow> operators_reader \<Rightarrow> (rocq_part list \<times> operators_reader) option" where
  "translate_expression_from acc reader =
     (case reader of
        [] \<Rightarrow> Some (acc, [])
      | item # rest \<Rightarrow>
          (case item of
             Inl e \<Rightarrow> None
           | Inr op \<Rightarrow>
               if opens_block op then
                 do { (body, rest1) \<leftarrow> translate_expression_from [] rest;
                      translate_expression_from
                        (acc @ [Block_part op (Rocq_expression body None)]) rest1 }
               else if opens_condition op then
                 do { (yes, rest1) \<leftarrow> translate_expression_from [] rest;
                      last_yes \<leftarrow> last_part yes;
                      (no, rest2) \<leftarrow>
                        (if last_yes = Operator_part End then Some ([], rest1)
                         else translate_expression_from [] rest1);
                      translate_expression_from
                        (acc @ [Condition_part op (Rocq_expression yes None)
                                  (Rocq_expression no None)]) rest2 }
               else if op = Else \<or> op = End then Some (acc @ [Operator_part op], rest)
               else translate_expression_from (acc @ [Operator_part op]) rest))"

definition translate_expression :: "operators_reader \<Rightarrow> (rocq_part list \<times> operators_reader) option" where
  "translate_expression reader = translate_expression_from [] reader"

text \<open>\<open>Display for Expression\<close>: an error of the printer is replaced by a fixed text.\<close>

definition expression_to_string :: "rocq_expression \<Rightarrow> string option" where
  "expression_to_string e =
     (case print_with_offset e 2 of
        None \<Rightarrow> None
      | Some (Inl x) \<Rightarrow> Some ''Error rendering expression''
      | Some (Inr s) \<Rightarrow> Some s)"

definition translate_expr :: "operators_reader \<Rightarrow> local_names \<Rightarrow> string translated" where
  "translate_expr reader names =
     do { (parts, rest) \<leftarrow> translate_expression reader;
          s \<leftarrow> expression_to_string (Rocq_expression parts names);
          ok s }"

section \<open>Imports, exports, tables, memories, globals\<close>

definition translate_mutability :: "bool \<Rightarrow> string" where
  "translate_mutability b = (if b then ''MUT_var'' else ''MUT_const'')"

definition limits_text :: "nat \<Rightarrow> nat option \<Rightarrow> string" where
  "limits_text lo hi =
     ''{|lim_min := '' @ show_nat lo @ ''%N; lim_max := ''
     @ (case hi of Some m \<Rightarrow> ''Some('' @ show_nat m @ ''%N)'' | None \<Rightarrow> ''None'') @ ''|}''"

definition translate_table_type_limits :: "table_type \<Rightarrow> string" where
  "translate_table_type_limits t = limits_text (tt_initial t) (tt_maximum t)"

definition translate_memory_type_limits :: "memory_type \<Rightarrow> string" where
  "translate_memory_type_limits m = limits_text (mt_initial m) (mt_maximum m)"

definition translate_module_import_desc :: "wasm_import \<Rightarrow> string translated" where
  "translate_module_import_desc i =
     (case im_ty i of
        TypeRef_Func n \<Rightarrow> ok (''MID_func '' @ show_nat n @ ''%N'')
      | TypeRef_Global g \<Rightarrow>
          attempt (translate_value_type (gt_content_type g)) (\<lambda>t.
            ok (''MID_global {|tg_mut := '' @ translate_mutability (gt_mutable g)
                @ ''; tg_t := '' @ t @ ''|}''))
      | TypeRef_Memory m \<Rightarrow> ok (''MID_mem '' @ translate_memory_type_limits m)
      | TypeRef_Table t \<Rightarrow> ok (''MID_table '' @ translate_table_type_limits t)
      | TypeRef_Tag n \<Rightarrow> err Tag_in_import)"

definition translate_module_import :: "wasm_import \<Rightarrow> string translated" where
  "translate_module_import i =
     attempt (translate_module_import_desc i) (\<lambda>d.
       ok (''Mi '' @ quoted (im_module i) @ '' '' @ quoted (im_name i) @ '' ('' @ d @ '')''))"

definition translate_module_export_desc :: "wasm_export \<Rightarrow> string translated" where
  "translate_module_export_desc e =
     (case ex_kind e of
        Kind_Func \<Rightarrow> ok (''MED_func '' @ show_nat (ex_index e) @ ''%N'')
      | Kind_Table \<Rightarrow> ok (''MED_table '' @ show_nat (ex_index e) @ ''%N'')
      | Kind_Memory \<Rightarrow> ok (''MED_mem '' @ show_nat (ex_index e) @ ''%N'')
      | Kind_Global \<Rightarrow> ok (''MED_global '' @ show_nat (ex_index e) @ ''%N'')
      | Kind_Tag \<Rightarrow> err Tag_not_supported)"

definition translate_export_module :: "wasm_export \<Rightarrow> string translated" where
  "translate_export_module e =
     attempt (translate_module_export_desc e) (\<lambda>d.
       ok (''Me '' @ quoted (ex_name e) @ '' ('' @ d @ '')''))"

definition translate_table_type :: "wasm_table \<Rightarrow> string translated" where
  "translate_table_type t =
     attempt (translate_ref_type (tt_element_type (tb_ty t))) (\<lambda>r.
       ok (''Mt '' @ translate_table_type_limits (tb_ty t) @ '' '' @ r))"

definition translate_memory_type :: "memory_type \<Rightarrow> string translated" where
  "translate_memory_type m = ok (''Mm '' @ translate_memory_type_limits m)"

definition translate_global :: "wasm_global \<Rightarrow> string translated" where
  "translate_global g =
     attempt (translate_value_type (gt_content_type (gl_ty g))) (\<lambda>t.
       attempt (translate_expr (gl_init_expr g) None) (\<lambda>e.
         ok (''Mg '' @ translate_mutability (gt_mutable (gl_ty g)) @ '' ('' @ t @ '') ('' @ e @ '')'')))"

section \<open>Data and elements\<close>

definition translate_module_datamode :: "wasm_data \<Rightarrow> string translated" where
  "translate_module_datamode d =
     (case da_kind d of
        Data_Active i e \<Rightarrow>
          attempt (translate_expr e None) (\<lambda>x.
            ok (''MD_active '' @ show_nat i @ ''%N ('' @ x @ '')''))
      | Data_Passive \<Rightarrow> ok ''MD_passive'')"

definition data_bytes_text :: "nat list \<Rightarrow> string" where
  "data_bytes_text bs = concat (map (\<lambda>b. ''#'' @ show_hex2 b @ '' :: '') bs) @ ''nil''"

definition translate_data :: "wasm_data \<Rightarrow> string translated" where
  "translate_data d =
     attempt (translate_module_datamode d) (\<lambda>m.
       ok (''{|'' @ nl
           @ ''    moddata_init := '' @ data_bytes_text (da_data d) @ '';'' @ nl
           @ ''    moddata_mode := '' @ m @ '';'' @ nl
           @ ''|}''))"

definition translate_element_mode :: "element_kind \<Rightarrow> string translated" where
  "translate_element_mode k =
     (case k of
        Element_Active i e \<Rightarrow>
          attempt (translate_expr e None) (\<lambda>x.
            ok (''ME_active '' @ show_nat (case i of Some n \<Rightarrow> n | None \<Rightarrow> 0) @ ''%N ('' @ x @ '')''))
      | Element_Passive \<Rightarrow> ok ''ME_passive''
      | Element_Declared \<Rightarrow> ok ''ME_declared'')"

text \<open>An item that cannot be read is an error here, not a panic.\<close>

fun element_expressions :: "(string + operators_reader) list \<Rightarrow> string translated" where
  "element_expressions [] = ok ''''"
| "element_expressions (Inl e # es) = err (Reader_error e)"
| "element_expressions (Inr x # es) =
     attempt (translate_expr x None) (\<lambda>t.
       attempt (element_expressions es) (\<lambda>s. ok (''('' @ t @ '')'' @ '' ::'' @ nl @ s)))"

fun element_indexes :: "(string + nat) list \<Rightarrow> string translated" where
  "element_indexes [] = ok ''''"
| "element_indexes (Inl e # es) = err (Reader_error e)"
| "element_indexes (Inr i # es) =
     attempt (element_indexes es) (\<lambda>s. ok (show_nat i @ ''::'' @ s))"

fun translate_element_items :: "element_items \<Rightarrow> (string \<times> string) translated" where
  "translate_element_items (Items_Expressions r es) =
     attempt (translate_ref_type r) (\<lambda>t.
       attempt (element_expressions es) (\<lambda>s. ok (t, s @ ''nil'')))"
| "translate_element_items (Items_Functions is) =
     attempt (element_indexes is) (\<lambda>s. ok (''T_funcref'', ''ME_functions '' @ s @ ''nil''))"

definition translate_element :: "wasm_element \<Rightarrow> string translated" where
  "translate_element e =
     attempt (translate_element_mode (el_kind e)) (\<lambda>m.
       attempt (translate_element_items (el_items e)) (\<lambda>(t, i).
         ok (''{|'' @ nl
             @ ''modelem_type := '' @ t @ '';'' @ nl
             @ ''modelem_init :='' @ nl @ i @ '';'' @ nl
             @ ''modelem_mode := '' @ m @ '';'' @ nl
             @ ''|}'')))"

section \<open>Function types\<close>

fun value_types_text :: "val_type list \<Rightarrow> string translated" where
  "value_types_text [] = ok ''nil''"
| "value_types_text (t # ts) =
     attempt (translate_value_type t) (\<lambda>v.
       attempt (value_types_text ts) (\<lambda>s. ok (v @ '' :: '' @ s)))"

fun translate_composite_type :: "composite_type \<Rightarrow> string translated" where
  "translate_composite_type (Composite_Func ps rs) =
     attempt (value_types_text ps) (\<lambda>p.
       attempt (value_types_text rs) (\<lambda>r. ok (''Tf ('' @ p @ '') ('' @ r @ '')'')))"
| "translate_composite_type Composite_Array = ok ''''"
| "translate_composite_type Composite_Struct = ok ''''"
| "translate_composite_type Composite_Cont = ok ''''"

definition translate_function_type :: "rec_group \<Rightarrow> string translated" where
  "translate_function_type g = attempt (map_result translate_composite_type g) (\<lambda>ts. ok (concat ts))"

section \<open>Functions\<close>

text \<open>
  \<open>get_id\<close> is the first group of a fresh UUID. The UUIDs come from a library; \<open>uuids k\<close> is the one
  drawn by the k-th call. The argument of \<open>unwrap_or\<close> is evaluated whether or not it is used, so
  every function draws one.
\<close>

definition get_id :: "string \<Rightarrow> string" where
  "get_id uuid = takeWhile (\<lambda>c. c \<noteq> CHR ''-'') uuid"

definition function_name :: "(nat \<Rightarrow> string) \<Rightarrow> wasm_parse_data \<Rightarrow> nat \<Rightarrow> string" where
  "function_name uuids d index =
     (case wd_func_names_map d of
        Some m \<Rightarrow> (case m (index mod 2 ^ 32) of
                    Some n \<Rightarrow> n
                  | None \<Rightarrow> ''func_'' @ get_id (uuids index))
      | None \<Rightarrow> ''func_'' @ get_id (uuids index))"

fun locals_text :: "(string + nat \<times> val_type) list \<Rightarrow> string translated" where
  "locals_text [] = ok ''nil''"
| "locals_text (Inl e # ls) = None"
| "locals_text (Inr (reps, t) # ls) =
     attempt (translate_value_type t) (\<lambda>v.
       attempt (locals_text ls) (\<lambda>s. ok (concat (replicate reps (v @ '' :: '')) @ s)))"

definition translate_body :: "wasm_parse_data \<Rightarrow> nat \<Rightarrow> function_body \<Rightarrow> string translated" where
  "translate_body d modfunc_type b =
     (case fb_operators_reader b of
        Inl e \<Rightarrow> err (Reader_error e)
      | Inr reader \<Rightarrow>
          (case wd_func_locals_name_map d of
             Some m \<Rightarrow> translate_expr reader (m modfunc_type)
           | None \<Rightarrow> translate_expr reader None))"

definition translate_function ::
  "wasm_parse_data \<Rightarrow> string \<Rightarrow> nat \<Rightarrow> function_body \<Rightarrow> string translated" where
  "translate_function d name index b =
     (let modfunc_type =
            (if index < length (wd_function_type_indexes d)
             then wd_function_type_indexes d ! index else 0)
      in attempt (case fb_locals_reader b of Inl e \<Rightarrow> ok ''nil'' | Inr ls \<Rightarrow> locals_text ls)
           (\<lambda>modfunc_locals.
              attempt (translate_body d modfunc_type b) (\<lambda>modfunc_body.
                ok (''Definition '' @ name @ '' : module_func := '' @ LCB
                    @ ''  modfunc_type := '' @ show_nat modfunc_type @ ''%N;'' @ nl
                    @ ''  modfunc_locals := '' @ modfunc_locals @ '';'' @ nl
                    @ ''  modfunc_body :='' @ nl @ modfunc_body @ '';'' @ nl
                    @ RCB_DOT @ nl))))"

fun translate_functions_from ::
  "(nat \<Rightarrow> string) \<Rightarrow> nat \<Rightarrow> function_body list \<Rightarrow> wasm_parse_data
     \<Rightarrow> ((translate_error + unit) \<times> wasm_parse_data) option" where
  "translate_functions_from uuids index [] d = Some (Inr (), d)"
| "translate_functions_from uuids index (b # bs) d =
     (let name = function_name uuids d index;
          d1 = d\<lparr>wd_translated_function_names := wd_translated_function_names d @ [name]\<rparr>
      in case translate_function d1 name index b of
           None \<Rightarrow> None
         | Some (Inl e) \<Rightarrow> Some (Inl e, d1)
         | Some (Inr t) \<Rightarrow>
             translate_functions_from uuids (Suc index) bs
               (d1\<lparr>wd_translated_functions_string := wd_translated_functions_string d1 @ t\<rparr>))"

definition translate_functions ::
  "(nat \<Rightarrow> string) \<Rightarrow> wasm_parse_data \<Rightarrow> ((translate_error + unit) \<times> wasm_parse_data) option" where
  "translate_functions uuids d = translate_functions_from uuids 0 (wd_function_bodies d) d"

section \<open>The module\<close>

definition rocq_header :: string where
  "rocq_header = concat (map (\<lambda>l. l @ nl)
     [''Require Import List.'',
      ''Require Import String.'',
      ''Require Import BinNat.'',
      ''Require Import ZArith.'',
      ''From Wasm Require Import bytes.'',
      ''From Wasm Require Import numerics.'',
      ''From Wasm Require Import datatypes.'',
      '''',
      ''Definition Vi32 i := VAL_int32 (Wasm_int.int_of_Z i32m i).'',
      ''Definition Vi64 i := VAL_int64 (Wasm_int.int_of_Z i64m i).'',
      ''Definition Mt l et := {|modtab_type := {|tt_limits := l; tt_elem_type := et|}|}.'',
      ''Definition Mm l := {|modmem_type := l|}.'',
      ''Definition Mg mut t init := {|modglob_type := {|tg_mut := mut; tg_t := t|}; ''
       @ ''modglob_init := init|}.'',
      '''',
      ''Definition Mi m n d := {|'',
      ''  imp_module := list_byte_of_string m;'',
      ''  imp_name := list_byte_of_string n;'',
      ''  imp_desc := d;'',
      ''|}.'',
      '''',
      ''Definition Me n d := {|'',
      ''  modexp_name := list_byte_of_string n;'',
      ''  modexp_desc := d;'',
      ''|}.'',
      '''',
      ''Definition Ma of al := {|memarg_offset := of; memarg_align := al|}.'',
      ''''])"

text \<open>
  The loop over the entries of a section: a translated entry is appended with its separator, an
  error is pushed to the list of errors and the entry is left out.
\<close>

fun translate_entries ::
  "('a \<Rightarrow> string translated) \<Rightarrow> 'a list \<Rightarrow> (string \<times> translate_error list) option" where
  "translate_entries f [] = Some ('''', [])"
| "translate_entries f (x # xs) =
     do { r \<leftarrow> f x;
          (s, es) \<leftarrow> translate_entries f xs;
          Some (case r of
                  Inl e \<Rightarrow> (s, e # es)
                | Inr t \<Rightarrow> (''    '' @ t @ LIST_EXT @ s, es)) }"

definition translate_section ::
  "('a \<Rightarrow> string translated) \<Rightarrow> 'a list \<Rightarrow> (string \<times> translate_error list) option" where
  "translate_section f xs =
     do { (s, es) \<leftarrow> translate_entries f xs; Some (s @ ''    '' @ LIST_SEAL, es) }"

definition record_field :: "string \<Rightarrow> string \<Rightarrow> string" where
  "record_field name body = ''  '' @ name @ '' :='' @ nl @ body @ '';'' @ nl"

type_synonym section_text = string

definition module_record ::
  "wasm_parse_data \<Rightarrow> section_text \<Rightarrow> section_text \<Rightarrow> section_text \<Rightarrow> section_text
     \<Rightarrow> section_text \<Rightarrow> section_text \<Rightarrow> section_text \<Rightarrow> section_text \<Rightarrow> section_text
     \<Rightarrow> string" where
  "module_record d function_types functions tables memory_types globals elements data imps exps =
     ''Definition '' @ wd_mod_name d @ '' : module := '' @ LCB
     @ record_field ''mod_types'' function_types
     @ record_field ''mod_funcs'' functions
     @ record_field ''mod_tables'' tables
     @ record_field ''mod_mems'' memory_types
     @ record_field ''mod_globals'' globals
     @ record_field ''mod_elems'' elements
     @ record_field ''mod_datas'' data
     @ (case wd_start_function d of
          Some f \<Rightarrow> ''  mod_start := Some {|modstart_func := '' @ show_nat f @ ''%N|};'' @ nl
        | None \<Rightarrow> ''  mod_start := None;'' @ nl)
     @ record_field ''mod_imports'' imps
     @ record_field ''mod_exports'' exps
     @ RCB_DOT"

text \<open>
  The errors of the sections are collected in \<open>errors\<close>, as in the code, which never reads them.
\<close>

definition translate ::
  "(nat \<Rightarrow> string) \<Rightarrow> wasm_parse_data \<Rightarrow> ((translate_error + string) \<times> wasm_parse_data) option" where
  "translate uuids d =
     do { (imps, e1) \<leftarrow> translate_section translate_module_import (wd_imports d);
          (exps, e2) \<leftarrow> translate_section translate_export_module (wd_exports d);
          (tables, e3) \<leftarrow> translate_section translate_table_type (wd_tables d);
          (memory_types, e4) \<leftarrow> translate_section translate_memory_type (wd_memory_types d);
          (globals, e5) \<leftarrow> translate_section translate_global (wd_globals d);
          (data, e6) \<leftarrow> translate_section translate_data (wd_data d);
          (elements, e7) \<leftarrow> translate_section translate_element (wd_elements d);
          (function_types, e8) \<leftarrow>
            translate_section translate_function_type (wd_function_types d);
          (r, d1) \<leftarrow> translate_functions uuids d;
          let (definitions, names, e9) =
            (case r of
               Inr u \<Rightarrow> (wd_translated_functions_string d1,
                        concat (map (\<lambda>n. ''    '' @ n @ LIST_EXT) (wd_translated_function_names d1)),
                        [])
             | Inl e \<Rightarrow> ('''', '''', [e]));
          let functions = names @ ''    '' @ LIST_SEAL;
          let errors = e1 @ e2 @ e3 @ e4 @ e5 @ e6 @ e7 @ e8 @ e9;
          Some (Inr (rocq_header @ definitions
                     @ module_record d1 function_types functions tables memory_types globals
                         elements data imps exps), d1) }"

end
