(* ===== verification/WasmParse.thy ===== *)
theory WasmParse
  imports RocqTranslator
begin

text \<open>
  The first phase of the translation (\<open>core/wasm-to-v/src/wasm_parser.rs\<close>): one pass over the
  payloads of a module, and \<open>translate_bytes\<close>, which runs both phases. The payloads are the
  sequence of results of the parser library on the bytes; an item that cannot be decoded is an
  error of the pass, except a function's type index, which is unwrapped.
\<close>

datatype wasm_name =
    Name_Module string
  | Name_Function "(string + nat \<times> string) list"
  | Name_Local "(string + nat \<times> (string + nat \<times> string) list) list"
  | Name_Label | Name_Type | Name_Table | Name_Memory | Name_Global | Name_Element | Name_Data
  | Name_Field | Name_Tag | Name_Unknown

datatype known_custom = Custom_Name "(string + wasm_name) list" | Custom_other

text \<open>The sections of components carry nothing the pass reads.\<close>

datatype wasm_payload =
    Version
  | TypeSection "(string + rec_group) list"
  | ImportSection "(string + wasm_import) list"
  | FunctionSection "(string + nat) list"
  | TableSection "(string + wasm_table) list"
  | MemorySection "(string + memory_type) list"
  | TagSection
  | GlobalSection "(string + wasm_global) list"
  | ExportSection "(string + wasm_export) list"
  | StartSection nat
  | ElementSection "(string + wasm_element) list"
  | DataCountSection nat
  | DataSection "(string + wasm_data) list"
  | CodeSectionStart nat
  | CodeSectionEntry function_body
  | ModuleSection | InstanceSection | CoreTypeSection | ComponentSection
  | ComponentInstanceSection | ComponentAliasSection | ComponentTypeSection
  | ComponentCanonicalSection | ComponentStartSection | ComponentImportSection
  | ComponentExportSection
  | CustomSection known_custom
  | UnknownSection
  | End_payload

section \<open>Reading the items of a section\<close>

fun read_items :: "(string + 'a) list \<Rightarrow> 'a list translated" where
  "read_items [] = ok []"
| "read_items (Inl e # is) = err (Reader_error e)"
| "read_items (Inr x # is) = attempt (read_items is) (\<lambda>xs. ok (x # xs))"

fun unwrap_items :: "(string + 'a) list \<Rightarrow> 'a list option" where
  "unwrap_items [] = Some []"
| "unwrap_items (Inl e # is) = None"
| "unwrap_items (Inr x # is) = do { xs \<leftarrow> unwrap_items is; Some (x # xs) }"

section \<open>The name section\<close>

text \<open>The maps are association lists while they are filled; a later entry replaces an earlier.\<close>

definition insert_all :: "(nat \<times> 'a) list \<Rightarrow> (nat \<times> 'a) list \<Rightarrow> (nat \<times> 'a) list" where
  "insert_all ns m = fold (\<lambda>(i, n). assoc_insert i n) ns m"

fun read_local_names ::
  "(string + nat \<times> (string + nat \<times> string) list) list \<Rightarrow> (nat \<times> (nat \<times> string) list) list
     \<Rightarrow> (nat \<times> (nat \<times> string) list) list translated" where
  "read_local_names [] m = ok m"
| "read_local_names (Inl e # ls) m = err (Reader_error e)"
| "read_local_names (Inr (index, ns) # ls) m =
     attempt (read_items ns) (\<lambda>namings.
       read_local_names ls
         (assoc_insert index
            (insert_all namings (case map_of m index of Some l \<Rightarrow> l | None \<Rightarrow> [])) m))"

fun parse_name :: "wasm_name \<Rightarrow> wasm_parse_data \<Rightarrow> wasm_parse_data translated" where
  "parse_name (Name_Module n) d = ok (d\<lparr>wd_mod_name := n\<rparr>)"
| "parse_name (Name_Function ns) d =
     attempt (read_items ns) (\<lambda>namings.
       let m = insert_all namings []
       in ok (if m = [] then d else d\<lparr>wd_func_names_map := Some (map_of m)\<rparr>))"
| "parse_name (Name_Local ls) d =
     attempt (read_local_names ls []) (\<lambda>m.
       ok (if m = [] then d
           else d\<lparr>wd_func_locals_name_map :=
                  Some (\<lambda>i. map_option map_of (map_of m i))\<rparr>))"
| "parse_name _ d = ok d"

fun parse_names :: "(string + wasm_name) list \<Rightarrow> wasm_parse_data \<Rightarrow> wasm_parse_data translated" where
  "parse_names [] d = ok d"
| "parse_names (Inl e # ns) d = err (Reader_error e)"
| "parse_names (Inr n # ns) d = attempt (parse_name n d) (parse_names ns)"

section \<open>The pass\<close>

fun parse_payload :: "wasm_payload \<Rightarrow> wasm_parse_data \<Rightarrow> wasm_parse_data translated" where
  "parse_payload (TypeSection is) d =
     attempt (read_items is) (\<lambda>xs. ok (d\<lparr>wd_function_types := wd_function_types d @ xs\<rparr>))"
| "parse_payload (ImportSection is) d =
     attempt (read_items is) (\<lambda>xs. ok (d\<lparr>wd_imports := wd_imports d @ xs\<rparr>))"
| "parse_payload (FunctionSection is) d =
     do { xs \<leftarrow> unwrap_items is;
          ok (d\<lparr>wd_function_type_indexes := wd_function_type_indexes d @ xs\<rparr>) }"
| "parse_payload (TableSection is) d =
     attempt (read_items is) (\<lambda>xs. ok (d\<lparr>wd_tables := wd_tables d @ xs\<rparr>))"
| "parse_payload (MemorySection is) d =
     attempt (read_items is) (\<lambda>xs. ok (d\<lparr>wd_memory_types := wd_memory_types d @ xs\<rparr>))"
| "parse_payload (GlobalSection is) d =
     attempt (read_items is) (\<lambda>xs. ok (d\<lparr>wd_globals := wd_globals d @ xs\<rparr>))"
| "parse_payload (ExportSection is) d =
     attempt (read_items is) (\<lambda>xs. ok (d\<lparr>wd_exports := wd_exports d @ xs\<rparr>))"
| "parse_payload (StartSection f) d = ok (d\<lparr>wd_start_function := Some f\<rparr>)"
| "parse_payload (ElementSection is) d =
     attempt (read_items is) (\<lambda>xs. ok (d\<lparr>wd_elements := wd_elements d @ xs\<rparr>))"
| "parse_payload (DataSection is) d =
     attempt (read_items is) (\<lambda>xs. ok (d\<lparr>wd_data := wd_data d @ xs\<rparr>))"
| "parse_payload (CodeSectionEntry body) d =
     ok (d\<lparr>wd_function_bodies := wd_function_bodies d @ [body]\<rparr>)"
| "parse_payload (CustomSection (Custom_Name ns)) d = parse_names ns d"
| "parse_payload _ d = ok d"

fun parse_payloads ::
  "(string + wasm_payload) list \<Rightarrow> wasm_parse_data \<Rightarrow> wasm_parse_data translated" where
  "parse_payloads [] d = ok d"
| "parse_payloads (Inl e # ps) d = err (Reader_error e)"
| "parse_payloads (Inr p # ps) d = attempt (parse_payload p d) (parse_payloads ps)"

definition parse :: "string \<Rightarrow> (string + wasm_payload) list \<Rightarrow> wasm_parse_data translated" where
  "parse name payloads = parse_payloads payloads (wasm_parse_data_new name)"

definition translate_bytes ::
  "(nat \<Rightarrow> string) \<Rightarrow> string \<Rightarrow> (string + wasm_payload) list \<Rightarrow> string translated" where
  "translate_bytes uuids name payloads =
     attempt (parse name payloads) (\<lambda>d. do { (r, d1) \<leftarrow> translate uuids d; Some r })"

end
