(* ===== verification/RocqTotal.thy ===== *)
theory RocqTotal
  imports RocqFacts
begin

text \<open>
  The translator returns on every module whose code can be read and uses no operator that is a
  \<open>todo!()\<close>, and what it returns is never an error. The predicates below say what panics.
\<close>

section \<open>Modules that can be translated\<close>

fun decoded :: "'e + 'a \<Rightarrow> bool" where
  "decoded (Inl e) = False"
| "decoded (Inr x) = True"

definition renderable :: "operator \<Rightarrow> bool" where
  "renderable op = (case op of
     Named n \<Rightarrow> n \<notin> set unimplemented_operators
   | BrTable t \<Rightarrow> list_all decoded (bt_targets t)
   | _ \<Rightarrow> True)"

definition expressible :: "operators_reader \<Rightarrow> bool" where
  "expressible reader \<longleftrightarrow>
     readable reader \<and> list_all (\<lambda>i. case i of Inl e \<Rightarrow> False | Inr op \<Rightarrow> renderable op) reader"

definition expressible_data :: "wasm_data \<Rightarrow> bool" where
  "expressible_data d = (case da_kind d of Data_Active i e \<Rightarrow> expressible e | Data_Passive \<Rightarrow> True)"

definition expressible_element :: "wasm_element \<Rightarrow> bool" where
  "expressible_element e \<longleftrightarrow>
     (case el_kind e of Element_Active i x \<Rightarrow> expressible x | _ \<Rightarrow> True)
     \<and> (case el_items e of
          Items_Expressions r xs \<Rightarrow> list_all (\<lambda>i. case i of Inl e \<Rightarrow> True | Inr x \<Rightarrow> expressible x) xs
        | Items_Functions is \<Rightarrow> True)"

definition expressible_body :: "function_body \<Rightarrow> bool" where
  "expressible_body b \<longleftrightarrow>
     (case fb_locals_reader b of Inl e \<Rightarrow> True | Inr ls \<Rightarrow> list_all decoded ls)
     \<and> (case fb_operators_reader b of Inl e \<Rightarrow> True | Inr x \<Rightarrow> expressible x)"

definition expressible_module :: "wasm_parse_data \<Rightarrow> bool" where
  "expressible_module d \<longleftrightarrow>
     list_all (\<lambda>g. expressible (gl_init_expr g)) (wd_globals d)
     \<and> list_all expressible_data (wd_data d)
     \<and> list_all expressible_element (wd_elements d)
     \<and> list_all expressible_body (wd_function_bodies d)"

section \<open>Operators and expressions\<close>

lemma translate_ref_type_total: "translate_ref_type r \<noteq> None"
  by (simp add: translate_ref_type_def)

lemma translate_value_type_total: "translate_value_type t \<noteq> None"
  by (cases t) (auto simp: attempt_None_iff translate_ref_type_def simp del: not_None_eq)

lemma translate_block_label_total: "translate_block_label h t \<noteq> None"
  using translate_value_type_total
  by (cases t) (auto simp: translate_block_label_def attempt_None_iff simp del: not_None_eq)

lemma target_list_total: "list_all decoded ts \<Longrightarrow> \<exists>s. target_list ts = Some s"
  by (induction ts rule: target_list.induct) auto

lemma translate_br_table_total: "list_all decoded (bt_targets t) \<Longrightarrow> translate_br_table t \<noteq> None"
  using target_list_total [of "bt_targets t"] by (auto simp: translate_br_table_def)

lemma translate_basic_operator_total:
  "renderable op \<Longrightarrow> translate_basic_operator op names \<noteq> None"
  using translate_block_label_total translate_br_table_total
  by (cases op) (auto simp: renderable_def translate_memory_index_def translate_named_def)

lemma print_total:
  shows "list_all renderable (expression_operators e) \<Longrightarrow> print_with_offset e n \<noteq> None"
    and "list_all renderable (parts_operators ps) \<Longrightarrow> print_parts names n ps \<noteq> None"
    and "list_all renderable (part_operators p) \<Longrightarrow> print_part names n p \<noteq> None"
  by (induction e n and names n ps and names n p
      rule: print_with_offset_print_parts_print_part.induct)
    (auto simp: parts_operators_def attempt_None_iff translate_basic_operator_total
      simp del: not_None_eq)

lemma expressible_operators:
  assumes "list_all (\<lambda>i. case i of Inl e \<Rightarrow> False | Inr op \<Rightarrow> renderable op) (map Inr ops @ rest)"
  shows "list_all renderable ops"
  using assms by (simp add: list.pred_map comp_def)

lemma translate_expr_returns:
  assumes "expressible reader"
  shows "\<exists>s. translate_expr reader names = ok s"
proof -
  obtain ps rest where ps: "translate_expression_from [] reader = Some (ps, rest)"
    using assms translate_expression_from_returns unfolding expressible_def by blast
  have "list_all renderable (parts_operators ps)"
    using assms expressible_operators [of "parts_operators ps" rest]
      translate_expression_from_operators [OF ps]
    by (simp add: expressible_def)
  then have "print_with_offset (Rocq_expression ps names) 2 \<noteq> None"
    using print_total(2) by (auto simp: attempt_None_iff simp del: not_None_eq)
  then show ?thesis
    by (auto simp: translate_expr_def translate_expression_def ps expression_to_string_def
        split: option.split sum.split)
qed

lemma translate_expr_not_None: "expressible reader \<Longrightarrow> translate_expr reader names \<noteq> None"
  using translate_expr_returns by fastforce

text \<open>An expression is never an error, whatever the operators are.\<close>

lemma translate_expr_never_err: "translate_expr reader names \<noteq> err e"
  by (auto simp: translate_expr_def bind_eq_Some_conv split: prod.splits)

section \<open>Sections\<close>

lemma translate_entries_returns:
  "(\<And>x. x \<in> set xs \<Longrightarrow> f x \<noteq> None) \<Longrightarrow> \<exists>s es. translate_entries f xs = Some (s, es)"
proof (induction xs)
  case (Cons x xs)
  obtain s es where "translate_entries f xs = Some (s, es)" using Cons by auto
  moreover obtain r where "f x = Some r" using Cons.prems [of x] by auto
  ultimately show ?case by (cases r) auto
qed simp

text \<open>
  The contract of a section of the module: the translation of an entry that satisfies \<open>readable_entry\<close>
  does not panic. The loop over the entries then returns.
\<close>

locale section_returns =
  fixes entry :: "'a \<Rightarrow> string translated" and readable_entry :: "'a \<Rightarrow> bool"
  assumes entry_returns: "readable_entry x \<Longrightarrow> entry x \<noteq> None"
begin

lemma section_total:
  "list_all readable_entry xs \<Longrightarrow> \<exists>s es. translate_section entry xs = Some (s, es)"
  using translate_entries_returns [of xs entry] entry_returns
  by (fastforce simp: translate_section_def list_all_iff)

end

lemma translate_import_total: "translate_module_import i \<noteq> None"
  using translate_value_type_total
  by (auto simp: translate_module_import_def translate_module_import_desc_def attempt_None_iff
      split: type_ref.splits simp del: not_None_eq)

lemma translate_export_total: "translate_export_module e \<noteq> None"
  by (auto simp: translate_export_module_def translate_module_export_desc_def attempt_None_iff
      split: external_kind.splits simp del: not_None_eq)

lemma translate_table_total: "translate_table_type t \<noteq> None"
  using translate_ref_type_total by (auto simp: translate_table_type_def attempt_None_iff simp del: not_None_eq)

lemma translate_memory_total: "translate_memory_type m \<noteq> None"
  by (simp add: translate_memory_type_def)

lemma translate_global_total: "expressible (gl_init_expr g) \<Longrightarrow> translate_global g \<noteq> None"
  using translate_value_type_total translate_expr_not_None
  by (auto simp: translate_global_def attempt_None_iff simp del: not_None_eq)

lemma translate_data_total: "expressible_data d \<Longrightarrow> translate_data d \<noteq> None"
  using translate_expr_not_None
  by (auto simp: translate_data_def translate_module_datamode_def expressible_data_def
      attempt_None_iff split: data_kind.splits simp del: not_None_eq)

lemma element_expressions_total:
  "list_all (\<lambda>i. case i of Inl e \<Rightarrow> True | Inr x \<Rightarrow> expressible x) xs \<Longrightarrow> element_expressions xs \<noteq> None"
  using translate_expr_not_None
  by (induction xs rule: element_expressions.induct) (auto simp: attempt_None_iff simp del: not_None_eq)

lemma element_indexes_total: "element_indexes xs \<noteq> None"
  by (induction xs rule: element_indexes.induct) (auto simp: attempt_None_iff simp del: not_None_eq)

lemma translate_element_total: "expressible_element e \<Longrightarrow> translate_element e \<noteq> None"
  using translate_expr_not_None element_expressions_total element_indexes_total translate_ref_type_total
  by (cases "el_items e") (auto simp: translate_element_def translate_element_mode_def
      expressible_element_def attempt_None_iff split: element_kind.splits simp del: not_None_eq)

lemma value_types_text_total: "value_types_text ts \<noteq> None"
  using translate_value_type_total
  by (induction ts rule: value_types_text.induct) (auto simp: attempt_None_iff simp del: not_None_eq)

lemma translate_composite_total: "translate_composite_type t \<noteq> None"
  using value_types_text_total by (cases t) (auto simp: attempt_None_iff simp del: not_None_eq)

lemma translate_function_type_total: "translate_function_type g \<noteq> None"
  using map_result_not_None [of g translate_composite_type] translate_composite_total
  by (auto simp: translate_function_type_def attempt_None_iff simp del: not_None_eq)

interpretation import_section: section_returns translate_module_import "\<lambda>i. True"
  by unfold_locales (rule translate_import_total)

interpretation export_section: section_returns translate_export_module "\<lambda>e. True"
  by unfold_locales (rule translate_export_total)

interpretation table_section: section_returns translate_table_type "\<lambda>t. True"
  by unfold_locales (rule translate_table_total)

interpretation memory_section: section_returns translate_memory_type "\<lambda>m. True"
  by unfold_locales (rule translate_memory_total)

interpretation global_section: section_returns translate_global "\<lambda>g. expressible (gl_init_expr g)"
  by unfold_locales (rule translate_global_total)

interpretation data_section: section_returns translate_data expressible_data
  by unfold_locales (rule translate_data_total)

interpretation element_section: section_returns translate_element expressible_element
  by unfold_locales (rule translate_element_total)

interpretation type_section: section_returns translate_function_type "\<lambda>g. True"
  by unfold_locales (rule translate_function_type_total)

section \<open>Functions\<close>

lemma locals_text_total: "list_all decoded ls \<Longrightarrow> locals_text ls \<noteq> None"
  using translate_value_type_total
  by (induction ls rule: locals_text.induct) (auto simp: attempt_None_iff simp del: not_None_eq)

lemma translate_function_total: "expressible_body b \<Longrightarrow> translate_function d name index b \<noteq> None"
  using translate_expr_not_None locals_text_total
  by (auto simp: translate_function_def translate_body_def expressible_body_def Let_def
      attempt_None_iff split: sum.splits option.splits simp del: not_None_eq)

lemma translate_functions_from_returns:
  "list_all expressible_body bs \<Longrightarrow> \<exists>r d'. translate_functions_from uuids index bs d = Some (r, d')"
proof (induction bs arbitrary: index d)
  case (Cons b bs)
  have b: "translate_function d1 n index b \<noteq> None" for d1 n
    using Cons.prems translate_function_total by simp
  show ?case
    using Cons b by (auto simp: Let_def split: option.split sum.split)
qed simp

lemma translate_returns_ok:
  assumes "expressible_module d"
  shows "\<exists>s d'. translate uuids d = Some (Inr s, d')"
proof -
  obtain i e1 where 1: "translate_section translate_module_import (wd_imports d) = Some (i, e1)"
    using import_section.section_total [of "wd_imports d"] by (auto simp: list_all_iff)
  obtain x e2 where 2: "translate_section translate_export_module (wd_exports d) = Some (x, e2)"
    using export_section.section_total [of "wd_exports d"] by (auto simp: list_all_iff)
  obtain t e3 where 3: "translate_section translate_table_type (wd_tables d) = Some (t, e3)"
    using table_section.section_total [of "wd_tables d"] by (auto simp: list_all_iff)
  obtain m e4 where 4: "translate_section translate_memory_type (wd_memory_types d) = Some (m, e4)"
    using memory_section.section_total [of "wd_memory_types d"] by (auto simp: list_all_iff)
  obtain g e5 where 5: "translate_section translate_global (wd_globals d) = Some (g, e5)"
    using global_section.section_total [of "wd_globals d"] assms
    unfolding expressible_module_def by blast
  obtain a e6 where 6: "translate_section translate_data (wd_data d) = Some (a, e6)"
    using data_section.section_total [of "wd_data d"] assms
    unfolding expressible_module_def by blast
  obtain l e7 where 7: "translate_section translate_element (wd_elements d) = Some (l, e7)"
    using element_section.section_total [of "wd_elements d"] assms
    unfolding expressible_module_def by blast
  obtain f e8 where 8: "translate_section translate_function_type (wd_function_types d) = Some (f, e8)"
    using type_section.section_total [of "wd_function_types d"] by (auto simp: list_all_iff)
  obtain r d' where 9: "translate_functions uuids d = Some (r, d')"
    using translate_functions_from_returns [of "wd_function_bodies d"] assms
    unfolding translate_functions_def expressible_module_def by blast
  show ?thesis
    by (simp add: translate_def 1 2 3 4 5 6 7 8 9 Let_def split: sum.split)
qed

text \<open>Whatever the module, a result is not an error.\<close>

lemma translate_is_ok: "translate uuids d = Some (r, d') \<Longrightarrow> \<exists>s. r = Inr s"
  by (auto simp: translate_def Let_def elim!: bind_SomeE split: prod.splits sum.splits)

end
