(* ===== verification/RocqBrackets.thy ===== *)
theory RocqBrackets
  imports RocqFacts
begin

text \<open>
  The text the translator produces is well bracketed: parentheses and braces match, so every list,
  record, comment and argument the translator opens is closed. The matching is a scan with the
  stack of open brackets; the names that come from the module have to be balanced themselves.
\<close>

section \<open>Matching brackets\<close>

fun brackets :: "string \<Rightarrow> string \<Rightarrow> string option" where
  "brackets [] stack = Some stack"
| "brackets (c # cs) stack =
     (if c = CHR ''('' \<or> c = CHR ''{'' then brackets cs (c # stack)
      else if c = CHR '')'' \<or> c = CHR ''}'' then
        (case stack of
           [] \<Rightarrow> None
         | b # bs \<Rightarrow> if (b = CHR ''('') = (c = CHR '')'') then brackets cs bs else None)
      else brackets cs stack)"

definition balanced :: "string \<Rightarrow> bool" where
  "balanced s \<longleftrightarrow> brackets s [] = Some []"

lemma brackets_append: "brackets (s @ t) stack = Option.bind (brackets s stack) (brackets t)"
  by (induction s stack rule: brackets.induct) (auto split: list.split)

lemma brackets_deeper: "brackets s stack = Some stack' \<Longrightarrow> brackets s (stack @ x) = Some (stack' @ x)"
  by (induction s stack rule: brackets.induct) (auto split: list.splits if_splits)

lemma balanced_iff: "balanced s \<longleftrightarrow> (\<forall>stack. brackets s stack = Some stack)"
  using brackets_deeper [of s "[]" "[]"] by (auto simp: balanced_def)

lemma balancedI: "(\<And>stack. brackets s stack = Some stack) \<Longrightarrow> balanced s"
  by (simp add: balanced_iff)

lemma brackets_skip [simp]:
  "balanced s \<Longrightarrow> brackets s stack = Some stack"
  "balanced s \<Longrightarrow> brackets (s @ t) stack = brackets t stack"
  by (simp_all add: balanced_iff brackets_append)

lemma balanced_Nil [simp]: "balanced ''''"
  by (simp add: balanced_def)

lemma balanced_append [intro]: "balanced s \<Longrightarrow> balanced t \<Longrightarrow> balanced (s @ t)"
  by (simp add: balanced_iff)

lemma balanced_concat: "(\<And>s. s \<in> set ss \<Longrightarrow> balanced s) \<Longrightarrow> balanced (concat ss)"
  by (induction ss) auto

definition bracket_free :: "string \<Rightarrow> bool" where
  "bracket_free s \<longleftrightarrow> list_all (\<lambda>c. c \<notin> set ''(){}'') s"

lemma bracket_free_balanced: "bracket_free s \<Longrightarrow> balanced s"
proof -
  have "bracket_free s \<Longrightarrow> brackets s stack = Some stack" for stack
    by (induction s) (auto simp: bracket_free_def)
  then show "bracket_free s \<Longrightarrow> balanced s" by (simp add: balanced_def)
qed

section \<open>Numbers\<close>

lemma digit_no_bracket: "d < (10 :: nat) \<Longrightarrow> char_of (48 + d) \<notin> set ''(){}''"
proof -
  assume "d < (10 :: nat)"
  then have "d \<in> {0, 1, 2, 3, 4, 5, 6, 7, 8, 9}" by auto
  then show ?thesis by (auto simp: char_of_def)
qed

lemma show_nat_bracket_free: "bracket_free (show_nat n)"
proof (induction n rule: show_nat.induct)
  case (1 n)
  then show ?case
    using digit_no_bracket [of n] digit_no_bracket [of "n mod 10"]
    by (subst show_nat.simps) (auto simp: bracket_free_def)
qed

lemma balanced_show_nat [simp]: "balanced (show_nat n)"
  by (simp add: bracket_free_balanced show_nat_bracket_free)

lemma balanced_show_int [simp]: "balanced (show_int i)"
  by (rule balancedI) (simp add: show_int_def)

lemma hex_digit_no_bracket: "d < 16 \<Longrightarrow> hex_digit d \<notin> set ''(){}''"
proof -
  assume d: "d < 16"
  show ?thesis
  proof (cases "d < 10")
    case True
    then show ?thesis using digit_no_bracket by (simp add: hex_digit_def)
  next
    case False
    then have "d \<in> {10, 11, 12, 13, 14, 15}" using d by auto
    then show ?thesis by (auto simp: hex_digit_def char_of_def)
  qed
qed

lemma balanced_offset [simp]: "balanced (offset_text n)"
  unfolding offset_text_def by (rule balanced_concat) (simp add: balanced_def)

lemma brackets_nl [simp]: "brackets (nl @ t) stack = brackets t stack" "brackets nl stack = Some stack"
  by (simp_all add: nl_def)

section \<open>Operators\<close>

lemma balanced_ref_type: "translate_ref_type r = ok t \<Longrightarrow> balanced t"
  by (auto simp: translate_ref_type_def balanced_def split: if_splits)

lemma balanced_value_type: "translate_value_type v = ok t \<Longrightarrow> balanced t"
  using balanced_ref_type by (cases v) (auto simp: attempt_ok_iff intro!: balancedI)

lemma balanced_block_type: "translate_block_type b = ok t \<Longrightarrow> balanced t"
  using balanced_value_type by (cases b) (auto simp: attempt_ok_iff intro!: balancedI)

lemma balanced_block_label: "balanced h \<Longrightarrow> translate_block_label h b = ok t \<Longrightarrow> balanced t"
  using balanced_block_type
  by (auto simp: translate_block_label_def attempt_ok_iff intro!: balancedI)

lemma balanced_memarg [simp]: "balanced (translate_memarg m)"
  by (rule balancedI) (simp add: translate_memarg_def)

lemma balanced_texts [simp]:
  "balanced (int_relation_text a)" "balanced (float_relation_text b)"
  "balanced (int_arithmetic_text c)" "balanced (float_arithmetic_text d)"
  "balanced (conversion_text e)"
      apply (cases a; simp add: balanced_def)
     apply (cases b; simp add: balanced_def)
    apply (cases c; simp add: balanced_def)
   apply (cases d; simp add: balanced_def)
  apply (cases e; simp add: balanced_def)
  done

lemma balanced_access_texts [simp]:
  "balanced (memory_access_text a)" "balanced (vector_access_text b)"
  "balanced (vector_lane_access_text c)" "balanced (vector_lane_text d)"
  "balanced (vector_splat_text e)"
      apply (cases a; rule balancedI; simp)
     apply (cases b; rule balancedI; simp)
    apply (cases c; rule balancedI; simp)
   apply (cases d; rule balancedI; simp)
  apply (cases e; rule balancedI; simp)
  done

lemma balanced_target_list: "target_list ts = Some s \<Longrightarrow> balanced s"
  by (induction ts arbitrary: s rule: target_list.induct)
    (auto simp: bind_Some_iff intro!: balancedI)

lemma balanced_br_table: "translate_br_table b = ok t \<Longrightarrow> balanced t"
  using balanced_target_list
  by (auto simp: translate_br_table_def bind_Some_iff intro!: balancedI split: if_splits)

definition local_names_balanced :: "local_names \<Rightarrow> bool" where
  "local_names_balanced names = (case names of
     None \<Rightarrow> True
   | Some m \<Rightarrow> (\<forall>i. case m i of Some n \<Rightarrow> balanced n | None \<Rightarrow> True))"

lemma local_names_balanced_None [simp]: "local_names_balanced None"
  by (simp add: local_names_balanced_def)

lemma balanced_local:
  assumes "balanced h" and "local_names_balanced names"
  shows "balanced (translate_local h names i)"
proof (cases names)
  case None
  then show ?thesis using assms by (auto simp: translate_local_def intro!: balancedI)
next
  case (Some m)
  then have "case m i of Some n \<Rightarrow> balanced n | None \<Rightarrow> True"
    using assms by (simp add: local_names_balanced_def)
  then show ?thesis using assms Some
    by (auto simp: translate_local_def intro!: balancedI split: option.splits)
qed

lemma balanced_heads [simp]:
  "balanced ''BI_block''" "balanced ''BI_loop''" "balanced ''BI_if''" "balanced ''BI_forall''"
  "balanced ''BI_exists''" "balanced ''BI_assume''" "balanced ''BI_unique''"
  "balanced ''BI_local_get ''" "balanced ''BI_local_set ''" "balanced ''BI_local_tee ''"
  by (simp_all add: balanced_def)

lemma balanced_operator:
  assumes "local_names_balanced names" and t: "translate_basic_operator op names = ok t"
  shows "balanced t"
  using t assms(1)
  by (cases op)
    (auto simp: balanced_br_table balanced_local translate_memory_index_def translate_named_def
      dest: balanced_block_label [rotated] intro: balancedI split: if_splits)

section \<open>Expressions\<close>

fun part_names_balanced :: "rocq_part \<Rightarrow> bool"
  and expression_names_balanced :: "rocq_expression \<Rightarrow> bool" where
  "part_names_balanced (Operator_part op) = True"
| "part_names_balanced (Block_part label body) = expression_names_balanced body"
| "part_names_balanced (Condition_part label yes no) =
     (expression_names_balanced yes \<and> expression_names_balanced no)"
| "expression_names_balanced (Rocq_expression ps names) =
     (local_names_balanced names \<and> list_all part_names_balanced ps)"

lemma balanced_LIST_EXT [simp]: "balanced LIST_EXT"
  by (rule balancedI) (simp add: LIST_EXT_def)

lemma balanced_print:
  shows "expression_names_balanced e \<Longrightarrow> print_with_offset e n = ok s \<Longrightarrow> balanced s"
    and "local_names_balanced names \<Longrightarrow> list_all part_names_balanced ps \<Longrightarrow>
           print_parts names n ps = ok s \<Longrightarrow> balanced s"
    and "local_names_balanced names \<Longrightarrow> part_names_balanced p \<Longrightarrow>
           print_part names n p = ok s \<Longrightarrow> balanced s"
proof (induction e n and names n ps and names n p arbitrary: s and s and s
    rule: print_with_offset_print_parts_print_part.induct)
  case (1 ps names n)
  then obtain t where "balanced t" "s = t @ offset_text n @ ''nil''"
    by (auto simp: attempt_ok_iff)
  then show ?case by (auto intro!: balancedI)
next
  case (3 names n p ps)
  then show ?case by (auto simp: attempt_ok_iff)
next
  case (4 names n op)
  then show ?case
    using balanced_operator by (auto simp: attempt_ok_iff intro!: balancedI split: if_splits)
next
  case (5 names n label body)
  then show ?case by (auto simp: attempt_ok_iff intro!: balancedI dest!: balanced_operator)
next
  case (6 names n label yes no)
  then show ?case by (auto simp: attempt_ok_iff intro!: balancedI dest!: balanced_operator)
qed simp

text \<open>What the translator reads has no names below the top.\<close>

lemma translate_expression_from_names:
  "translate_expression_from acc reader = Some (ps, rest) \<Longrightarrow>
     list_all part_names_balanced acc \<Longrightarrow> list_all part_names_balanced ps"
proof (induction "length reader" arbitrary: acc reader ps rest rule: less_induct)
  case less
  note IH = less.hyps and run = less.prems
  have shorter: "length r1 \<le> length xs" if "translate_expression_from [] xs = Some (qs, r1)" for xs qs r1
    using arg_cong [OF translate_expression_from_operators [OF that], of length] by simp
  show ?case
  proof (cases reader rule: reader_cases)
    case (block op tl)
    with run obtain body r1 where b: "translate_expression_from [] tl = Some (body, r1)"
      and k: "translate_expression_from (acc @ [Block_part op (Rocq_expression body None)]) r1 = Some (ps, rest)"
      by (auto simp: bind_Some_iff)
    have "list_all part_names_balanced body" using IH [OF _ b] block by simp
    then show ?thesis using IH [OF _ k] shorter [OF b] run(2) block by simp
  next
    case (condition op tl)
    with run obtain yes r1 l no r2 where y: "translate_expression_from [] tl = Some (yes, r1)"
      and n: "(if l = Operator_part End then Some ([], r1) else translate_expression_from [] r1) = Some (no, r2)"
      and k: "translate_expression_from (acc @ [Condition_part op (Rocq_expression yes None)
                (Rocq_expression no None)]) r2 = Some (ps, rest)"
      by (auto simp: bind_Some_iff)
    have r1: "length r1 < length reader" using shorter [OF y] condition by simp
    have "list_all part_names_balanced yes" using IH [OF _ y] condition by simp
    moreover have "list_all part_names_balanced no"
      using n IH [OF r1, of "[]" no r2] by (auto split: if_splits)
    moreover have "length r2 < length reader" using n shorter [of r1 no r2] r1 by (auto split: if_splits)
    ultimately show ?thesis using IH [OF _ k] run(2) by simp
  next
    case (plain op tl)
    then show ?thesis using IH [of tl "acc @ [Operator_part op]"] run by simp
  qed (use run in auto)
qed

lemma balanced_expr:
  assumes "local_names_balanced names" and "translate_expr reader names = ok s"
  shows "balanced s"
proof -
  obtain ps rest where ps: "translate_expression_from [] reader = Some (ps, rest)"
    and s: "expression_to_string (Rocq_expression ps names) = Some s"
    using assms(2) by (auto simp: translate_expr_def translate_expression_def bind_Some_iff)
  have "expression_names_balanced (Rocq_expression ps names)"
    using translate_expression_from_names [OF ps] assms(1) by simp
  then show ?thesis
    using s balanced_print(1)
    by (auto simp: expression_to_string_def
        simp del: print_with_offset.simps expression_names_balanced.simps
        intro: balancedI split: option.splits sum.splits)
qed

section \<open>Sections\<close>

lemma balanced_quoted [simp]: "balanced s \<Longrightarrow> balanced (quoted s)"
  by (auto simp: quoted_def intro!: balancedI)

lemma balanced_limits [simp]: "balanced (limits_text lo hi)"
  by (cases hi) (auto simp: limits_text_def intro!: balancedI)

lemma balanced_type_limits [simp]:
  "balanced (translate_table_type_limits t)" "balanced (translate_memory_type_limits m)"
  by (simp_all add: translate_table_type_limits_def translate_memory_type_limits_def)

lemma balanced_mutability [simp]: "balanced (translate_mutability b)"
  by (simp add: translate_mutability_def balanced_def)

lemma balanced_import:
  "balanced (im_module i) \<Longrightarrow> balanced (im_name i) \<Longrightarrow> translate_module_import i = ok s \<Longrightarrow> balanced s"
  by (auto simp: translate_module_import_def translate_module_import_desc_def attempt_ok_iff
      intro!: balancedI dest!: balanced_value_type split: type_ref.splits)

lemma balanced_export: "balanced (ex_name e) \<Longrightarrow> translate_export_module e = ok s \<Longrightarrow> balanced s"
  by (auto simp: translate_export_module_def translate_module_export_desc_def attempt_ok_iff
      intro!: balancedI split: external_kind.splits)

lemma balanced_table: "translate_table_type t = ok s \<Longrightarrow> balanced s"
  by (auto simp: translate_table_type_def attempt_ok_iff intro!: balancedI dest!: balanced_ref_type)

lemma balanced_memory: "translate_memory_type m = ok s \<Longrightarrow> balanced s"
  by (auto simp: translate_memory_type_def intro!: balancedI)

lemma balanced_global: "translate_global g = ok s \<Longrightarrow> balanced s"
  by (auto simp: translate_global_def attempt_ok_iff
      intro!: balancedI dest!: balanced_value_type balanced_expr [OF local_names_balanced_None])

lemma balanced_data_bytes: "\<forall>b\<in>set bs. b < 256 \<Longrightarrow> balanced (data_bytes_text bs)"
proof -
  assume bs: "\<forall>b\<in>set bs. b < 256"
  have "balanced (''#'' @ show_hex2 b @ '' :: '')" if "b < 256" for b
    using that hex_digit_no_bracket [of "b div 16"] hex_digit_no_bracket [of "b mod 16"]
    by (auto simp: show_hex2_def balanced_def)
  then have "balanced (concat (map (\<lambda>b. ''#'' @ show_hex2 b @ '' :: '') bs))"
    using bs by (intro balanced_concat) auto
  then show ?thesis by (auto simp: data_bytes_text_def intro!: balancedI)
qed

lemma balanced_data:
  assumes "\<forall>b\<in>set (da_data d). b < 256" and "translate_data d = ok s"
  shows "balanced s"
  using assms balanced_data_bytes [of "da_data d"]
  by (auto simp: translate_data_def translate_module_datamode_def attempt_ok_iff
      intro!: balancedI dest!: balanced_expr [OF local_names_balanced_None] split: data_kind.splits)

lemma balanced_element_expressions: "element_expressions xs = ok s \<Longrightarrow> balanced s"
  by (induction xs arbitrary: s rule: element_expressions.induct)
    (auto simp: attempt_ok_iff intro!: balancedI dest!: balanced_expr [OF local_names_balanced_None])

lemma balanced_element_indexes: "element_indexes xs = ok s \<Longrightarrow> balanced s"
  by (induction xs arbitrary: s rule: element_indexes.induct)
    (auto simp: attempt_ok_iff intro!: balancedI)

lemma balanced_element_items: "translate_element_items is = ok (t, i) \<Longrightarrow> balanced t \<and> balanced i"
  by (cases "is") (auto simp: attempt_ok_iff intro!: balancedI
      dest!: balanced_ref_type balanced_element_expressions balanced_element_indexes)

lemma balanced_element_mode: "translate_element_mode k = ok s \<Longrightarrow> balanced s"
  by (auto simp: translate_element_mode_def attempt_ok_iff intro!: balancedI
      dest!: balanced_expr [OF local_names_balanced_None] split: element_kind.splits)

lemma balanced_element: "translate_element e = ok s \<Longrightarrow> balanced s"
  by (auto simp: translate_element_def attempt_ok_iff intro!: balancedI
      dest!: balanced_element_items balanced_element_mode)

lemma balanced_value_types: "value_types_text ts = ok s \<Longrightarrow> balanced s"
  by (induction ts arbitrary: s rule: value_types_text.induct)
    (auto simp: attempt_ok_iff intro!: balancedI dest!: balanced_value_type)

lemma balanced_composite: "translate_composite_type t = ok s \<Longrightarrow> balanced s"
  by (cases t) (auto simp: attempt_ok_iff intro!: balancedI dest!: balanced_value_types)

lemma map_result_all: "map_result f xs = ok ys \<Longrightarrow> (\<And>x y. f x = ok y \<Longrightarrow> P y) \<Longrightarrow> list_all P ys"
  by (induction xs arbitrary: ys) (auto simp: attempt_ok_iff)

lemma balanced_function_type: "translate_function_type g = ok s \<Longrightarrow> balanced s"
  using map_result_all [of translate_composite_type g _ balanced] balanced_composite
  by (auto simp: translate_function_type_def attempt_ok_iff list_all_iff intro!: balanced_concat)

lemma balanced_entries:
  "translate_entries f xs = Some (s, es) \<Longrightarrow>
     (\<And>x t. x \<in> set xs \<Longrightarrow> f x = ok t \<Longrightarrow> balanced t) \<Longrightarrow> balanced s"
proof (induction xs arbitrary: s es)
  case (Cons x xs)
  from Cons.prems(1) obtain r s1 es1 where r: "f x = Some r" "translate_entries f xs = Some (s1, es1)"
    and s: "(case r of Inl e \<Rightarrow> (s1, e # es1) | Inr t \<Rightarrow> (''    '' @ t @ LIST_EXT @ s1, es1)) = (s, es)"
    by (auto simp: bind_Some_iff)
  have "balanced s1" using Cons.IH [OF r(2)] Cons.prems(2) by auto
  then show ?case
    using s r(1) Cons.prems(2) [of x] by (cases r) (auto intro!: balancedI)
qed simp

text \<open>
  The contract of a section: the text of an entry whose names are balanced is balanced. The text of
  the section is then balanced.
\<close>

locale section_balanced =
  fixes entry :: "'a \<Rightarrow> string translated" and named :: "'a \<Rightarrow> bool"
  assumes entry_balanced: "named x \<Longrightarrow> entry x = ok t \<Longrightarrow> balanced t"
begin

lemma section_text:
  assumes "translate_section entry xs = Some (s, es)" and "list_all named xs"
  shows "balanced s"
proof -
  obtain t where t: "translate_entries entry xs = Some (t, es)" and s: "s = t @ ''    '' @ LIST_SEAL"
    using assms(1) by (auto simp: translate_section_def bind_Some_iff)
  have "balanced t"
    by (rule balanced_entries [OF t]) (use assms(2) entry_balanced in \<open>auto simp: list_all_iff\<close>)
  then show ?thesis by (auto simp: s LIST_SEAL_def intro!: balancedI)
qed

end

interpretation import_brackets: section_balanced translate_module_import "\<lambda>i. balanced (im_module i) \<and> balanced (im_name i)"
  by unfold_locales (blast intro: balanced_import)

interpretation export_brackets: section_balanced translate_export_module "\<lambda>e. balanced (ex_name e)"
  by unfold_locales (blast intro: balanced_export)

interpretation table_brackets: section_balanced translate_table_type "\<lambda>t. True"
  by unfold_locales (blast intro: balanced_table)

interpretation memory_brackets: section_balanced translate_memory_type "\<lambda>m. True"
  by unfold_locales (blast intro: balanced_memory)

interpretation global_brackets: section_balanced translate_global "\<lambda>g. True"
  by unfold_locales (blast intro: balanced_global)

interpretation data_brackets: section_balanced translate_data "\<lambda>x. \<forall>b\<in>set (da_data x). b < 256"
  by unfold_locales (blast intro: balanced_data)

interpretation element_brackets: section_balanced translate_element "\<lambda>e. True"
  by unfold_locales (blast intro: balanced_element)

interpretation type_brackets: section_balanced translate_function_type "\<lambda>g. True"
  by unfold_locales (blast intro: balanced_function_type)

section \<open>Functions\<close>

text \<open>The names a module brings with it, each balanced.\<close>

definition module_names_balanced :: "wasm_parse_data \<Rightarrow> bool" where
  "module_names_balanced d \<longleftrightarrow>
     balanced (wd_mod_name d)
     \<and> list_all (\<lambda>i. balanced (im_module i) \<and> balanced (im_name i)) (wd_imports d)
     \<and> list_all (\<lambda>e. balanced (ex_name e)) (wd_exports d)
     \<and> local_names_balanced (wd_func_names_map d)
     \<and> (case wd_func_locals_name_map d of
          None \<Rightarrow> True | Some m \<Rightarrow> (\<forall>i. local_names_balanced (m i)))
     \<and> list_all balanced (wd_translated_function_names d)
     \<and> balanced (wd_translated_functions_string d)"

lemma bracket_free_get_id: "bracket_free u \<Longrightarrow> balanced (get_id u)"
  by (rule bracket_free_balanced)
    (auto simp: bracket_free_def get_id_def list_all_iff dest!: set_takeWhileD)

lemma balanced_function_name:
  assumes "module_names_balanced d" and "\<And>k. bracket_free (uuids k)"
  shows "balanced (function_name uuids d index)"
proof (cases "wd_func_names_map d")
  case None
  then show ?thesis
    using bracket_free_get_id [OF assms(2)] by (auto simp: function_name_def intro!: balancedI)
next
  case (Some m)
  then have "case m (index mod 2 ^ 32) of Some n \<Rightarrow> balanced n | None \<Rightarrow> True"
    using assms(1) by (simp add: module_names_balanced_def local_names_balanced_def)
  then show ?thesis
    using Some bracket_free_get_id [OF assms(2)]
    by (auto simp: function_name_def intro!: balancedI split: option.splits)
qed

lemma balanced_locals: "locals_text ls = ok s \<Longrightarrow> balanced s"
proof (induction ls arbitrary: s rule: locals_text.induct)
  case (3 reps t ls)
  then obtain v u where v: "translate_value_type t = ok v" and u: "locals_text ls = ok u"
    and s: "s = concat (replicate reps (v @ '' :: '')) @ u"
    by (auto simp: attempt_ok_iff)
  have "balanced (v @ '' :: '')" using balanced_value_type [OF v] by (auto intro!: balancedI)
  then have "balanced (concat (replicate reps (v @ '' :: '')))" by (intro balanced_concat) auto
  then show ?case using "3.IH" u s by auto
qed (auto simp: balanced_def)

lemma balanced_body:
  assumes "module_names_balanced d" and "translate_body d ty b = ok s"
  shows "balanced s"
  using assms
  by (auto simp: translate_body_def module_names_balanced_def
      intro: balanced_expr [rotated] split: sum.splits option.splits)

lemma balanced_function:
  assumes "module_names_balanced d" and "balanced name" and "translate_function d name index b = ok s"
  shows "balanced s"
proof -
  define ty where "ty = (if index < length (wd_function_type_indexes d)
                         then wd_function_type_indexes d ! index else 0)"
  obtain ls bd where ls: "(case fb_locals_reader b of Inl e \<Rightarrow> ok ''nil'' | Inr ls \<Rightarrow> locals_text ls) = ok ls"
    and bd: "translate_body d ty b = ok bd" and
    s: "s = ''Definition '' @ name @ '' : module_func := '' @ LCB
          @ ''  modfunc_type := '' @ show_nat ty @ ''%N;'' @ nl
          @ ''  modfunc_locals := '' @ ls @ '';'' @ nl
          @ ''  modfunc_body :='' @ nl @ bd @ '';'' @ nl @ RCB_DOT @ nl"
    using assms(3) by (auto simp: translate_function_def Let_def attempt_ok_iff ty_def)
  have "balanced ls" using ls balanced_locals by (auto simp: balanced_def split: sum.splits)
  moreover have "balanced bd" by (rule balanced_body [OF assms(1) bd])
  moreover note s
  ultimately show ?thesis using assms(2) by (auto simp: LCB_def RCB_DOT_def intro!: balancedI)
qed

section \<open>The module\<close>

lemma balanced_functions:
  assumes "\<And>k. bracket_free (uuids k)"
  shows "translate_functions_from uuids index bs d = Some (r, d') \<Longrightarrow> module_names_balanced d \<Longrightarrow>
           module_names_balanced d'"
proof (induction bs arbitrary: index d)
  case (Cons b bs)
  define name where "name = function_name uuids d index"
  define d1 where "d1 = d\<lparr>wd_translated_function_names := wd_translated_function_names d @ [name]\<rparr>"
  have name: "balanced name"
    unfolding name_def by (rule balanced_function_name [OF Cons.prems(2) assms])
  then have d1: "module_names_balanced d1"
    using Cons.prems(2) by (simp add: module_names_balanced_def d1_def)
  consider (err) e where "translate_function d1 name index b = err e" "d' = d1"
    | (ok) t where "translate_function d1 name index b = ok t"
        "translate_functions_from uuids (Suc index) bs
           (d1\<lparr>wd_translated_functions_string := wd_translated_functions_string d1 @ t\<rparr>) = Some (r, d')"
    using Cons.prems(1)
    by (auto simp: Let_def name_def [symmetric] d1_def [symmetric] split: option.splits sum.splits)
  then show ?case
  proof cases
    case err
    then show ?thesis using d1 by simp
  next
    case (ok t)
    have "module_names_balanced
            (d1\<lparr>wd_translated_functions_string := wd_translated_functions_string d1 @ t\<rparr>)"
      using d1 balanced_function [OF d1 name ok(1)] by (auto simp: module_names_balanced_def)
    then show ?thesis using Cons.IH ok(2) by blast
  qed
qed simp

lemma balanced_header: "balanced rocq_header"
  by code_simp

lemma balanced_record_field: "balanced n \<Longrightarrow> balanced b \<Longrightarrow> balanced (record_field n b)"
  by (auto simp: record_field_def intro!: balancedI)

lemma balanced_field_names:
  "balanced ''mod_types''" "balanced ''mod_funcs''" "balanced ''mod_tables''" "balanced ''mod_mems''"
  "balanced ''mod_globals''" "balanced ''mod_elems''" "balanced ''mod_datas''"
  "balanced ''mod_imports''" "balanced ''mod_exports''"
  by (simp_all add: balanced_def)

lemma balanced_module_record:
  assumes "balanced (wd_mod_name d)" "balanced a" "balanced b" "balanced c" "balanced e" "balanced f"
    "balanced g" "balanced h" "balanced i" "balanced j"
  shows "balanced (module_record d a b c e f g h i j)"
proof -
  have "balanced (record_field ''mod_types'' a)" "balanced (record_field ''mod_funcs'' b)"
    "balanced (record_field ''mod_tables'' c)" "balanced (record_field ''mod_mems'' e)"
    "balanced (record_field ''mod_globals'' f)" "balanced (record_field ''mod_elems'' g)"
    "balanced (record_field ''mod_datas'' h)" "balanced (record_field ''mod_imports'' i)"
    "balanced (record_field ''mod_exports'' j)"
    using assms by (simp_all add: balanced_record_field balanced_field_names)
  then show ?thesis
    using assms(1)
    by (auto simp: module_record_def LCB_def RCB_DOT_def intro!: balancedI split: option.split)
qed

lemma balanced_translate:
  assumes "module_names_balanced d" and "\<And>k. bracket_free (uuids k)"
    and "list_all (\<lambda>x. \<forall>b\<in>set (da_data x). b < 256) (wd_data d)"
    and "translate uuids d = Some (Inr s, d')"
  shows "balanced s"
proof -
  have d: "list_all (\<lambda>i. balanced (im_module i) \<and> balanced (im_name i)) (wd_imports d)"
      "list_all (\<lambda>e. balanced (ex_name e)) (wd_exports d)"
    using assms(1) by (simp_all add: module_names_balanced_def)
  obtain i e1 x e2 t e3 m e4 g e5 a e6 l e7 f e8 r where
    1: "translate_section translate_module_import (wd_imports d) = Some (i, e1)" and
    2: "translate_section translate_export_module (wd_exports d) = Some (x, e2)" and
    3: "translate_section translate_table_type (wd_tables d) = Some (t, e3)" and
    4: "translate_section translate_memory_type (wd_memory_types d) = Some (m, e4)" and
    5: "translate_section translate_global (wd_globals d) = Some (g, e5)" and
    6: "translate_section translate_data (wd_data d) = Some (a, e6)" and
    7: "translate_section translate_element (wd_elements d) = Some (l, e7)" and
    8: "translate_section translate_function_type (wd_function_types d) = Some (f, e8)" and
    9: "translate_functions uuids d = Some (r, d')" and
    s: "s = rocq_header @ (case r of Inr u \<Rightarrow> wd_translated_functions_string d' | Inl e \<Rightarrow> [])
          @ module_record d' f
              ((case r of Inr u \<Rightarrow> concat (map (\<lambda>n. ''    '' @ n @ LIST_EXT)
                                    (wd_translated_function_names d'))
                | Inl e \<Rightarrow> []) @ ''    '' @ LIST_SEAL) t m g l a i x"
    using assms(4) by (auto simp: translate_def Let_def elim!: bind_SomeE split: prod.splits sum.splits)
  have d': "module_names_balanced d'"
    using balanced_functions [of uuids, OF assms(2)] 9 assms(1) unfolding translate_functions_def by blast
  have "balanced (concat (map (\<lambda>n. ''    '' @ n @ LIST_EXT) (wd_translated_function_names d')))"
    using d' by (intro balanced_concat)
      (auto simp: module_names_balanced_def list_all_iff intro!: balancedI)
  moreover define fs where "fs = (case r of Inr u \<Rightarrow> concat (map (\<lambda>n. ''    '' @ n @ LIST_EXT)
          (wd_translated_function_names d')) | Inl e \<Rightarrow> []) @ ''    '' @ LIST_SEAL"
  ultimately have names: "balanced fs"
    by (auto simp: LIST_SEAL_def intro!: balancedI split: sum.split)
  have "balanced i" by (rule import_brackets.section_text [OF 1 d(1)])
  moreover have "balanced x" by (rule export_brackets.section_text [OF 2 d(2)])
  moreover have "balanced t" using table_brackets.section_text [OF 3] by (simp add: list_all_iff)
  moreover have "balanced m" using memory_brackets.section_text [OF 4] by (simp add: list_all_iff)
  moreover have "balanced g" using global_brackets.section_text [OF 5] by (simp add: list_all_iff)
  moreover have "balanced a" by (rule data_brackets.section_text [OF 6 assms(3)])
  moreover have "balanced l" using element_brackets.section_text [OF 7] by (simp add: list_all_iff)
  moreover have "balanced f" using type_brackets.section_text [OF 8] by (simp add: list_all_iff)
  moreover have "balanced (wd_mod_name d')" "balanced (wd_translated_functions_string d')"
    using d' by (simp_all add: module_names_balanced_def)
  ultimately show ?thesis
    unfolding s fs_def [symmetric] using names balanced_header
    by (auto intro!: balanced_append balanced_module_record split: sum.split)
qed

end
