(* ===== verification/ParseFacts.thy ===== *)
theory ParseFacts
  imports WasmParse
begin

text \<open>
  What the pass over the payloads collects: for each kind of section the items of all its
  sections, in order, whatever stands between them.
\<close>

definition decoded_items :: "(string + 'a) list \<Rightarrow> 'a list" where
  "decoded_items is = concat (map (\<lambda>i. case i of Inl e \<Rightarrow> [] | Inr x \<Rightarrow> [x]) is)"

lemma decoded_items_simps [simp]:
  "decoded_items [] = []"
  "decoded_items (Inl e # is) = decoded_items is"
  "decoded_items (Inr x # is) = x # decoded_items is"
  by (simp_all add: decoded_items_def)

lemma read_items_ok: "read_items is = ok xs \<Longrightarrow> xs = decoded_items is"
  by (induction "is" arbitrary: xs rule: read_items.induct) (auto simp: attempt_ok_iff)

lemma unwrap_items_ok: "unwrap_items is = Some xs \<Longrightarrow> xs = decoded_items is"
  by (induction "is" arbitrary: xs rule: unwrap_items.induct) (auto simp: bind_Some_iff)

section \<open>The items of a payload\<close>

fun type_items :: "wasm_payload \<Rightarrow> rec_group list" where
  "type_items (TypeSection is) = decoded_items is"
| "type_items _ = []"

fun import_items :: "wasm_payload \<Rightarrow> wasm_import list" where
  "import_items (ImportSection is) = decoded_items is"
| "import_items _ = []"

fun function_items :: "wasm_payload \<Rightarrow> nat list" where
  "function_items (FunctionSection is) = decoded_items is"
| "function_items _ = []"

fun table_items :: "wasm_payload \<Rightarrow> wasm_table list" where
  "table_items (TableSection is) = decoded_items is"
| "table_items _ = []"

fun memory_items :: "wasm_payload \<Rightarrow> memory_type list" where
  "memory_items (MemorySection is) = decoded_items is"
| "memory_items _ = []"

fun global_items :: "wasm_payload \<Rightarrow> wasm_global list" where
  "global_items (GlobalSection is) = decoded_items is"
| "global_items _ = []"

fun export_items :: "wasm_payload \<Rightarrow> wasm_export list" where
  "export_items (ExportSection is) = decoded_items is"
| "export_items _ = []"

fun element_items_of :: "wasm_payload \<Rightarrow> wasm_element list" where
  "element_items_of (ElementSection is) = decoded_items is"
| "element_items_of _ = []"

fun data_items :: "wasm_payload \<Rightarrow> wasm_data list" where
  "data_items (DataSection is) = decoded_items is"
| "data_items _ = []"

fun body_items :: "wasm_payload \<Rightarrow> function_body list" where
  "body_items (CodeSectionEntry b) = [b]"
| "body_items _ = []"

fun start_items :: "wasm_payload \<Rightarrow> nat list" where
  "start_items (StartSection f) = [f]"
| "start_items _ = []"

definition gathered :: "(wasm_payload \<Rightarrow> 'a list) \<Rightarrow> (string + wasm_payload) list \<Rightarrow> 'a list" where
  "gathered items payloads = concat (map items (decoded_items payloads))"

text \<open>The state after a pass, as a function of the state before and of the payloads.\<close>

definition collected :: "wasm_parse_data \<Rightarrow> (string + wasm_payload) list \<Rightarrow> wasm_parse_data \<Rightarrow> bool" where
  "collected d payloads d' \<longleftrightarrow>
     wd_function_types d' = wd_function_types d @ gathered type_items payloads
     \<and> wd_imports d' = wd_imports d @ gathered import_items payloads
     \<and> wd_function_type_indexes d' = wd_function_type_indexes d @ gathered function_items payloads
     \<and> wd_tables d' = wd_tables d @ gathered table_items payloads
     \<and> wd_memory_types d' = wd_memory_types d @ gathered memory_items payloads
     \<and> wd_globals d' = wd_globals d @ gathered global_items payloads
     \<and> wd_exports d' = wd_exports d @ gathered export_items payloads
     \<and> wd_elements d' = wd_elements d @ gathered element_items_of payloads
     \<and> wd_data d' = wd_data d @ gathered data_items payloads
     \<and> wd_function_bodies d' = wd_function_bodies d @ gathered body_items payloads
     \<and> wd_start_function d' =
         (if gathered start_items payloads = [] then wd_start_function d
          else Some (last (gathered start_items payloads)))
     \<and> wd_translated_function_names d' = wd_translated_function_names d
     \<and> wd_translated_functions_string d' = wd_translated_functions_string d"

lemma collected_Nil [simp]: "collected d [] d"
  by (simp add: collected_def gathered_def)

lemma parse_name_collected: "parse_name n d = ok d' \<Longrightarrow> collected d [] d'"
  by (cases n) (auto simp: collected_def gathered_def attempt_ok_iff Let_def split: if_splits)

lemma parse_names_collected: "parse_names ns d = ok d' \<Longrightarrow> collected d [] d'"
proof (induction ns d rule: parse_names.induct)
  case (3 n ns d)
  then obtain d1 where "parse_name n d = ok d1" "parse_names ns d1 = ok d'"
    by (auto simp: attempt_ok_iff)
  then show ?case
    using parse_name_collected "3.IH" by (fastforce simp: collected_def gathered_def)
qed auto

lemma parse_payload_collected: "parse_payload p d = ok d' \<Longrightarrow> collected d [Inr p] d'"
proof (cases p)
  case (CustomSection c)
  assume "parse_payload p d = ok d'"
  then have "collected d [] d'"
    using CustomSection parse_names_collected by (cases c) auto
  then show ?thesis using CustomSection by (simp add: collected_def gathered_def)
qed (auto simp: collected_def gathered_def attempt_ok_iff bind_Some_iff read_items_ok unwrap_items_ok)

lemma collected_trans: "collected d [Inr p] d1 \<Longrightarrow> collected d1 ps d' \<Longrightarrow> collected d (Inr p # ps) d'"
  by (auto simp: collected_def gathered_def)

lemma parse_payloads_collected: "parse_payloads ps d = ok d' \<Longrightarrow> collected d ps d'"
proof (induction ps d rule: parse_payloads.induct)
  case (3 p ps d)
  then obtain d1 where "parse_payload p d = ok d1" "parse_payloads ps d1 = ok d'"
    by (auto simp: attempt_ok_iff)
  then show ?case using parse_payload_collected collected_trans "3.IH" by blast
qed auto

lemma parse_collected: "parse name ps = ok d \<Longrightarrow> collected (wasm_parse_data_new name) ps d"
  unfolding parse_def by (rule parse_payloads_collected)

end
