(* ===== verification/RocqProperties.thy ===== *)
theory RocqProperties
  imports RocqFacts RocqTotal RocqBrackets ParseFacts
begin

text \<open>
  The properties of the translation to Rocq, with their witnesses. The first section is the specification of the
  reconstruction of expressions.
\<close>

section \<open>Structured code\<close>

text \<open>
  Structured WebAssembly code as the specification of the reconstruction: a tree of instructions,
  its layout as a flat sequence of operators (the binary format), and the text the tree has. The
  translator reads the flat sequence; reading inverts the layout, and the text it prints is the one
  of the tree.
\<close>

datatype instr =
    Plain operator
  | Nested operator "instr list"
  | Branch operator "instr list" "instr list option"

fun instr_wf :: "instr \<Rightarrow> bool" and instrs_wf :: "instr list \<Rightarrow> bool" where
  "instr_wf (Plain op) = plain_operator op"
| "instr_wf (Nested op body) = (opens_block op \<and> instrs_wf body)"
| "instr_wf (Branch op yes None) = (opens_condition op \<and> instrs_wf yes)"
| "instr_wf (Branch op yes (Some no)) = (opens_condition op \<and> instrs_wf yes \<and> instrs_wf no)"
| "instrs_wf [] = True"
| "instrs_wf (i # is) = (instr_wf i \<and> instrs_wf is)"

text \<open>The layout.\<close>

fun instr_code :: "instr \<Rightarrow> operator list" and instrs_code :: "instr list \<Rightarrow> operator list" where
  "instr_code (Plain op) = [op]"
| "instr_code (Nested op body) = op # instrs_code body @ [End]"
| "instr_code (Branch op yes None) = op # instrs_code yes @ [End]"
| "instr_code (Branch op yes (Some no)) = op # instrs_code yes @ [Else] @ instrs_code no @ [End]"
| "instrs_code [] = []"
| "instrs_code (i # is) = instr_code i @ instrs_code is"

definition function_code :: "instr list \<Rightarrow> operators_reader" where
  "function_code is = map Inr (instrs_code is @ [End])"

text \<open>The parts the translator builds for a tree.\<close>

fun instr_part :: "instr \<Rightarrow> rocq_part" and instrs_parts :: "instr list \<Rightarrow> rocq_part list" where
  "instr_part (Plain op) = Operator_part op"
| "instr_part (Nested op body) =
     Block_part op (Rocq_expression (instrs_parts body @ [Operator_part End]) None)"
| "instr_part (Branch op yes None) =
     Condition_part op (Rocq_expression (instrs_parts yes @ [Operator_part End]) None)
       (Rocq_expression [] None)"
| "instr_part (Branch op yes (Some no)) =
     Condition_part op (Rocq_expression (instrs_parts yes @ [Operator_part Else]) None)
       (Rocq_expression (instrs_parts no @ [Operator_part End]) None)"
| "instrs_parts [] = []"
| "instrs_parts (i # is) = instr_part i # instrs_parts is"

text \<open>The text of a tree: names of locals are given to the outermost instructions only.\<close>

fun instr_text :: "local_names \<Rightarrow> nat \<Rightarrow> instr \<Rightarrow> string translated"
  and instrs_text :: "local_names \<Rightarrow> nat \<Rightarrow> instr list \<Rightarrow> string translated" where
  "instr_text names n (Plain op) =
     attempt (translate_basic_operator op names) (\<lambda>t. ok (offset_text n @ t @ LIST_EXT))"
| "instr_text names n (Nested op body) =
     attempt (translate_basic_operator op names) (\<lambda>t.
       attempt (instrs_text None (Suc n) body) (\<lambda>b.
         ok (offset_text n @ t @ '' ('' @ nl @ b @ '') ::'' @ nl)))"
| "instr_text names n (Branch op yes None) =
     attempt (translate_basic_operator op names) (\<lambda>t.
       attempt (instrs_text None (Suc n) yes) (\<lambda>y.
         ok (offset_text n @ t @ '' ('' @ nl @ y @ '') ('' @ nl @ offset_text (Suc n) @ ''nil) ::'' @ nl)))"
| "instr_text names n (Branch op yes (Some no)) =
     attempt (translate_basic_operator op names) (\<lambda>t.
       attempt (instrs_text None (Suc n) yes) (\<lambda>y.
         attempt (instrs_text None (Suc n) no) (\<lambda>z.
           ok (offset_text n @ t @ '' ('' @ nl @ y @ '') ('' @ nl @ z @ '') ::'' @ nl))))"
| "instrs_text names n [] = ok (offset_text n @ ''nil'')"
| "instrs_text names n (i # is) =
     attempt (instr_text names n i) (\<lambda>s. attempt (instrs_text names n is) (\<lambda>t. ok (s @ t)))"

text \<open>What the translator shows for a body: an error of the text is hidden.\<close>

definition shown :: "string translated \<Rightarrow> string translated" where
  "shown t = (case t of
                None \<Rightarrow> None
              | Some (Inl e) \<Rightarrow> ok ''Error rendering expression''
              | Some (Inr s) \<Rightarrow> ok s)"

section \<open>Reading inverts the layout\<close>

lemma translate_instrs:
  shows "instr_wf i \<Longrightarrow> translate_expression_from acc (map Inr (instr_code i) @ rest) =
           translate_expression_from (acc @ [instr_part i]) rest"
    and "instrs_wf is \<Longrightarrow> translate_expression_from acc (map Inr (instrs_code is) @ rest) =
           translate_expression_from (acc @ instrs_parts is) rest"
  by (induction i and "is" arbitrary: acc rest and acc rest rule: instr_code_instrs_code.induct)
    simp_all

lemma translate_expression_code:
  "instrs_wf is \<Longrightarrow>
     translate_expression (map Inr (instrs_code is @ [End]) @ rest) =
       Some (instrs_parts is @ [Operator_part End], rest)"
  using translate_instrs(2) [of "is" "[]" "Inr End # rest"]
  by (simp add: translate_expression_def)

section \<open>The text of the parts\<close>

lemma attempt_assoc: "attempt (attempt m f) g = attempt m (\<lambda>x. attempt (f x) g)"
  by (simp add: attempt_def split: option.split sum.split)

lemma print_instrs:
  shows "instr_wf i \<Longrightarrow> print_part names n (instr_part i) = instr_text names n i"
    and "instrs_wf is \<Longrightarrow> c = Else \<or> c = End \<Longrightarrow>
           attempt (print_parts names n (instrs_parts is @ [Operator_part c]))
             (\<lambda>s. ok (s @ offset_text n @ ''nil'')) = instrs_text names n is"
proof (induction names n i and names n "is" arbitrary: and c rule: instr_text_instrs_text.induct)
  case (6 names n i "is")
  have "instrs_text names n is = attempt (print_parts names n (instrs_parts is @ [Operator_part c]))
          (\<lambda>s. ok (s @ offset_text n @ ''nil''))"
    using "6.IH"(2) "6.prems" by simp
  moreover have "print_part names n (instr_part i) = instr_text names n i"
    using "6.IH"(1) "6.prems" by simp
  ultimately show ?case by (simp add: attempt_assoc)
qed (auto simp: attempt_assoc plain_operator_def)

lemma translate_expr_code:
  assumes "instrs_wf is"
  shows "translate_expr (map Inr (instrs_code is @ [End]) @ rest) names = shown (instrs_text names 2 is)"
  using assms print_instrs(2) [of "is" End names 2]
  by (simp add: translate_expr_def translate_expression_code [simplified] expression_to_string_def shown_def
      split: option.split sum.split)

section \<open>Expressions\<close>

definition example_code :: "instr list" where
  "example_code =
     [Plain (LocalGet 0),
      Branch (If Empty_type) [Plain (LocalGet 1)] (Some [Nested (Forall Empty_type) [Plain Drop]]),
      Branch (If Empty_type) [] None]"

text \<open>C24: Reading a function's code inverts the layout of structured code: for every well-formed tree
  of instructions, laid out as a flat sequence of operators with \<open>else\<close> and \<open>end\<close> marks and followed
  by anything, \<open>translate_expression\<close> returns the parts of the tree and leaves exactly what follows,
  and \<open>translate_expr\<close> returns the text of the tree, indented by nesting.\<close>

theorem structured_code_is_recovered:
  assumes "instrs_wf is"
  shows "translate_expression (map Inr (instrs_code is @ [End]) @ rest) =
           Some (instrs_parts is @ [Operator_part End], rest)
         \<and> translate_expr (map Inr (instrs_code is @ [End]) @ rest) names =
           shown (instrs_text names 2 is)"
  using translate_expression_code [OF assms] translate_expr_code [OF assms] by blast

theorem structured_code_is_recovered_witness:
  "instrs_wf example_code
   \<and> translate_expression (map Inr (instrs_code example_code @ [End])) =
       Some (instrs_parts example_code @ [Operator_part End], [])
   \<and> length (instrs_code example_code) = 10"
proof -
  have wf: "instrs_wf example_code" by (simp add: example_code_def plain_operator_def)
  then show ?thesis
    using structured_code_is_recovered [OF wf, of "[]" None] by (simp add: example_code_def)
qed

text \<open>C27: Whatever the code is, structured or cut short, what \<open>translate_expression\<close> returns holds
  every operator it consumed, in order and once: the operators of the result followed by what is left
  of the reader are the operators it was given.\<close>

theorem expression_keeps_operators:
  assumes "translate_expression reader = Some (ps, rest)"
  shows "reader = map Inr (parts_operators ps) @ rest"
  using assms translate_expression_from_operators [of "[]"] by (simp add: translate_expression_def)

theorem expression_keeps_operators_witness:
  "translate_expression [Inr (Block Empty_type), Inr Nop, Inr End, Inr End, Inr Drop] =
     Some ([Block_part (Block Empty_type) (Rocq_expression [Operator_part Nop, Operator_part End] None),
            Operator_part End], [Inr Drop])
   \<and> [Inr (Block Empty_type), Inr Nop, Inr End, Inr End, Inr Drop] =
       map Inr (parts_operators
         [Block_part (Block Empty_type) (Rocq_expression [Operator_part Nop, Operator_part End] None),
          Operator_part End]) @ [Inr Drop :: string + operator]"
proof -
  have run: "translate_expression [Inr (Block Empty_type), Inr Nop, Inr End, Inr End, Inr Drop] =
     Some ([Block_part (Block Empty_type) (Rocq_expression [Operator_part Nop, Operator_part End] None),
            Operator_part End], [Inr Drop])"
    by (simp add: translate_expression_def plain_operator_def)
  show ?thesis using run expression_keeps_operators [OF run] by blast
qed

text \<open>When some outermost instruction of a body cannot be translated (an atomic instruction, a
  memory index other than 0, an unsupported type), the whole body is shown as the fixed text
  "Error rendering expression" and the translation goes on: no error is returned.\<close>

theorem failing_operator_hides_body:
  assumes "instrs_wf (before @ Plain op # after)"
    and "instrs_text names 2 before = ok t"
    and "translate_basic_operator op names = err e"
  shows "translate_expr (function_code (before @ Plain op # after)) names =
           ok ''Error rendering expression''"
proof -
  have "instrs_text names 2 before = ok t \<Longrightarrow> instrs_text names 2 (before @ Plain op # after) = err e" for t
    using assms(3) by (induction before arbitrary: t) (auto simp: attempt_ok_iff)
  then have "instrs_text names 2 (before @ Plain op # after) = err e" using assms(2) by blast
  then show ?thesis
    using translate_expr_code [OF assms(1), of "[]" names] by (simp add: function_code_def shown_def)
qed

theorem failing_operator_hides_body_witness:
  "translate_expr (function_code ([Plain Nop] @ Plain (Named ''AtomicFence'') # [Plain Drop])) None =
     ok ''Error rendering expression''"
  by (rule failing_operator_hides_body [where t = "offset_text 2 @ ''BI_nop'' @ LIST_EXT @ offset_text 2 @ ''nil''"
        and e = "Atomic_not_supported ''AtomicFence''"])
    (simp_all add: plain_operator_def translate_named_def atomic_operators_def
      unimplemented_operators_def gc_and_saturating_operators_def table_operators_def
      lane_comparison_operators_def small_lane_operators_def wide_lane_operators_def
      relaxed_and_exception_operators_def typed_reference_operators_def)

fun accesses_local :: "instr \<Rightarrow> bool" where
  "accesses_local (Plain (LocalGet i)) = True"
| "accesses_local (Plain (LocalSet i)) = True"
| "accesses_local (Plain (LocalTee i)) = True"
| "accesses_local _ = False"

lemma translate_basic_operator_names:
  "\<not> accesses_local (Plain op) \<Longrightarrow> translate_basic_operator op names = translate_basic_operator op None"
  by (cases op) auto

lemma opener_accesses_no_local:
  "opens_block op \<Longrightarrow> \<not> accesses_local (Plain op)"
  "opens_condition op \<Longrightarrow> \<not> accesses_local (Plain op)"
  by (cases op; simp)+

lemma instr_text_names:
  "instr_wf i \<Longrightarrow> \<not> accesses_local i \<Longrightarrow> instr_text names n i = instr_text None n i"
proof (cases i)
  case (Branch op yes no)
  assume "instr_wf i"
  then show ?thesis
    using Branch translate_basic_operator_names [of op names] opener_accesses_no_local(2)
    by (cases no) auto
next
  case (Nested op body)
  assume "instr_wf i"
  then show ?thesis
    using Nested translate_basic_operator_names [of op names] opener_accesses_no_local(1) by auto
next
  case (Plain op)
  assume "\<not> accesses_local i"
  then show ?thesis using Plain translate_basic_operator_names [of op names] by auto
qed

text \<open>The names of the locals reach only the outermost instructions of a body: if every access to
  a local stands inside a block, a loop, a quantifier or a conditional, the text with names is the text
  without any.\<close>

theorem nested_names_are_lost:
  assumes "instrs_wf is" and "list_all (\<lambda>i. \<not> accesses_local i) is"
  shows "translate_expr (function_code is) names = translate_expr (function_code is) None"
proof -
  have "instrs_text names 2 is = instrs_text None 2 is"
    using assms instr_text_names [where names = names] by (induction "is") auto
  then show ?thesis
    using translate_expr_code [OF assms(1), of "[]"] by (simp add: function_code_def)
qed

theorem nested_names_are_lost_witness:
  "translate_expr (function_code [Nested (Block Empty_type) [Plain (LocalGet 0)]]) (Some [0 \<mapsto> ''x'']) =
     translate_expr (function_code [Nested (Block Empty_type) [Plain (LocalGet 0)]]) None"
  by (rule nested_names_are_lost) (simp_all add: plain_operator_def)

text \<open>Different instructions get the same Rocq text: a load of a whole vector and a widening load,
  a vector load into a lane and the store from it, the two kinds of splat, a branch table whatever
  its default target, and a memory initialisation whatever its memory.\<close>

theorem operators_share_text:
  "translate_basic_operator (Vector_access (V128Load m)) names =
     translate_basic_operator (Vector_access (V128Load16x4U m)) names
   \<and> translate_basic_operator (Vector_lane_access (V128Load8Lane m l)) names =
     translate_basic_operator (Vector_lane_access (V128Store8Lane m l)) names
   \<and> translate_basic_operator (Vector_splat I32x4Splat) names =
     translate_basic_operator (Vector_splat F32x4Splat) names
   \<and> translate_basic_operator (BrTable (t\<lparr>bt_default := d\<rparr>)) names =
     translate_basic_operator (BrTable t) names
   \<and> translate_basic_operator (MemoryInit i a) names = translate_basic_operator (MemoryInit i b) names"
  by (simp add: translate_br_table_def)

section \<open>Modules\<close>

definition example_body :: function_body where
  "example_body = \<lparr>fb_locals_reader = Inr [Inr (1, I32)], fb_operators_reader = Inr [Inr Nop, Inr End]\<rparr>"

definition example_payloads :: "(string + wasm_payload) list" where
  "example_payloads =
     [Inr Version, Inr (FunctionSection [Inr 0]), Inr (StartSection 0), Inr (CodeSectionStart 1),
      Inr (CodeSectionEntry example_body), Inr End_payload]"

definition example_module :: wasm_parse_data where
  "example_module = (wasm_parse_data_new ''m'')
     \<lparr>wd_function_type_indexes := [0], wd_start_function := Some 0,
      wd_function_bodies := [example_body]\<rparr>"

lemma example_parse: "parse ''m'' example_payloads = ok example_module"
  by (simp add: parse_def example_payloads_def example_module_def wasm_parse_data_new_def)

lemma example_expressible: "expressible_module example_module"
  by (simp add: expressible_module_def example_module_def wasm_parse_data_new_def example_body_def
      expressible_body_def expressible_def readable_def renderable_def)

text \<open>C25: The translation of a module returns, and returns a text, whenever its code can be read and
  uses no operator that the translator leaves as \<open>todo!()\<close>: every section, every function and the
  reconstruction of every expression end without a panic. Bytes that parse to such a module are
  translated.\<close>

theorem translation_returns:
  assumes "parse name payloads = ok d" and "expressible_module d"
  shows "\<exists>s d'. translate uuids d = Some (Inr s, d') \<and> translate_bytes uuids name payloads = ok s"
  using translate_returns_ok [OF assms(2), of uuids] assms(1) by (auto simp: translate_bytes_def)

theorem translation_returns_witness:
  "\<exists>s d'. translate (\<lambda>k. ''0-1'') example_module = Some (Inr s, d')
          \<and> translate_bytes (\<lambda>k. ''0-1'') ''m'' example_payloads = ok s"
  by (rule translation_returns [OF example_parse example_expressible])

text \<open>C26: The text of a module is well bracketed: when the names in the module are balanced, the UUIDs
  hold no bracket and the data are bytes, every parenthesis and brace of the translation is closed,
  in the right order.\<close>

theorem translation_is_balanced:
  assumes "module_names_balanced d" and "\<And>k. bracket_free (uuids k)"
    and "list_all (\<lambda>x. \<forall>b\<in>set (da_data x). b < 256) (wd_data d)"
    and "translate uuids d = Some (Inr s, d')"
  shows "balanced s"
  by (rule balanced_translate [OF assms])

theorem translation_is_balanced_witness:
  "\<exists>s d'. translate (\<lambda>k. ''0-1'') example_module = Some (Inr s, d') \<and> balanced s"
proof -
  obtain s d' where run: "translate (\<lambda>k. ''0-1'') example_module = Some (Inr s, d')"
    using translate_returns_ok [OF example_expressible] by blast
  have "module_names_balanced example_module"
    by (simp add: module_names_balanced_def example_module_def wasm_parse_data_new_def balanced_def)
  moreover have "bracket_free ''0-1''" by (simp add: bracket_free_def)
  ultimately have "balanced s"
    using translation_is_balanced [OF _ _ _ run] by (simp add: example_module_def wasm_parse_data_new_def)
  then show ?thesis using run by blast
qed

lemma translate_entries_drop:
  "translate_entries f xs = Some (s, es) \<Longrightarrow>
     \<exists>es'. translate_entries f (filter (\<lambda>x. \<forall>e. f x \<noteq> err e) xs) = Some (s, es')"
proof (induction xs arbitrary: s es)
  case (Cons x xs)
  then obtain r s1 es1 where "f x = Some r" "translate_entries f xs = Some (s1, es1)"
    "(case r of Inl e \<Rightarrow> (s1, e # es1) | Inr t \<Rightarrow> (''    '' @ t @ LIST_EXT @ s1, es1)) = (s, es)"
    by (auto elim!: bind_SomeE split: prod.splits)
  then show ?case using Cons.IH by (cases r) fastforce+
qed simp

lemma translate_section_drop:
  "translate_section f xs = Some (s, es) \<Longrightarrow>
     \<exists>es'. translate_section f (filter (\<lambda>x. \<forall>e. f x \<noteq> err e) xs) = Some (s, es')"
  using translate_entries_drop by (fastforce simp: translate_section_def bind_Some_iff)

lemma translate_body_imports: "translate_body (d\<lparr>wd_imports := is\<rparr>) ty b = translate_body d ty b"
  by (simp add: translate_body_def split: sum.split)

lemma translate_function_imports:
  "function_name uuids (d\<lparr>wd_imports := is\<rparr>) index = function_name uuids d index"
  "translate_function (d\<lparr>wd_imports := is\<rparr>) name index b = translate_function d name index b"
  by (simp_all add: function_name_def translate_function_def translate_body_imports Let_def)

lemma translate_functions_from_imports:
  "translate_functions_from uuids index bs (d\<lparr>wd_imports := is\<rparr>) =
     map_option (\<lambda>(r, d'). (r, d'\<lparr>wd_imports := is\<rparr>)) (translate_functions_from uuids index bs d)"
proof (induction bs arbitrary: index d)
  case (Cons b bs)
  have swap: "d\<lparr>wd_imports := is, wd_translated_function_names := ns\<rparr> =
                d\<lparr>wd_translated_function_names := ns, wd_imports := is\<rparr>"
    "d\<lparr>wd_imports := is, wd_translated_functions_string := t\<rparr> =
                d\<lparr>wd_translated_functions_string := t, wd_imports := is\<rparr>"
    for d :: wasm_parse_data and ns t
    by simp_all
  show ?case
    by (simp only: translate_functions_from.simps Let_def swap translate_function_imports
        wasm_parse_data.simps)
      (simp only: Cons.IH swap split: option.split sum.split, simp)
qed simp

lemma module_record_imports:
  "module_record (d\<lparr>wd_imports := is\<rparr>) a b c e f g h i j = module_record d a b c e f g h i j"
  by (simp add: module_record_def)

text \<open>An import that cannot be translated (a tag, a global of an unsupported type) is dropped
  without a trace: a result is never an error, and the text of the module is the text of the module
  without those imports, so the imports after it move to other indices.\<close>

theorem failing_imports_are_dropped:
  assumes "translate uuids d = Some (r, d')"
  shows "(\<exists>s. r = Inr s)
         \<and> (\<exists>d''. translate uuids
                 (d\<lparr>wd_imports := filter (\<lambda>i. \<forall>e. translate_module_import i \<noteq> err e) (wd_imports d)\<rparr>)
               = Some (r, d''))"
proof -
  define kept where "kept = filter (\<lambda>i. \<forall>e. translate_module_import i \<noteq> err e) (wd_imports d)"
  obtain i e1 x e2 t e3 m e4 g e5 a e6 l e7 f e8 u where
    1: "translate_section translate_module_import (wd_imports d) = Some (i, e1)" and
    rest: "translate_section translate_export_module (wd_exports d) = Some (x, e2)"
      "translate_section translate_table_type (wd_tables d) = Some (t, e3)"
      "translate_section translate_memory_type (wd_memory_types d) = Some (m, e4)"
      "translate_section translate_global (wd_globals d) = Some (g, e5)"
      "translate_section translate_data (wd_data d) = Some (a, e6)"
      "translate_section translate_element (wd_elements d) = Some (l, e7)"
      "translate_section translate_function_type (wd_function_types d) = Some (f, e8)" and
    9: "translate_functions uuids d = Some (u, d')"
    using assms by (auto simp: translate_def elim!: bind_SomeE split: prod.splits)
  obtain e1' where "translate_section translate_module_import kept = Some (i, e1')"
    using translate_section_drop [OF 1] kept_def by blast
  moreover have "translate_functions uuids (d\<lparr>wd_imports := kept\<rparr>) = Some (u, d'\<lparr>wd_imports := kept\<rparr>)"
    using 9 by (simp add: translate_functions_def translate_functions_from_imports)
  ultimately have "translate uuids (d\<lparr>wd_imports := kept\<rparr>) = Some (r, d'\<lparr>wd_imports := kept\<rparr>)"
    using assms 1 rest 9
    by (cases u) (simp_all add: translate_def Let_def module_record_imports)
  then show ?thesis using translate_is_ok [OF assms] kept_def by blast
qed

definition tag_import_module :: wasm_parse_data where
  "tag_import_module = (wasm_parse_data_new ''m'')
     \<lparr>wd_imports := [\<lparr>im_module = ''a'', im_name = ''t'', im_ty = TypeRef_Tag 0\<rparr>,
                     \<lparr>im_module = ''a'', im_name = ''f'', im_ty = TypeRef_Func 0\<rparr>]\<rparr>"

theorem failing_imports_are_dropped_witness:
  "\<exists>r d' d''. translate (\<lambda>k. ''0-1'') tag_import_module = Some (r, d')
     \<and> translate (\<lambda>k. ''0-1'') (tag_import_module
          \<lparr>wd_imports := [\<lparr>im_module = ''a'', im_name = ''f'', im_ty = TypeRef_Func 0\<rparr>]\<rparr>) = Some (r, d'')"
proof -
  have "expressible_module tag_import_module"
    by (simp add: expressible_module_def tag_import_module_def wasm_parse_data_new_def)
  then obtain r d' where run: "translate (\<lambda>k. ''0-1'') tag_import_module = Some (r, d')"
    using translate_returns_ok by blast
  have "filter (\<lambda>i. \<forall>e. translate_module_import i \<noteq> err e) (wd_imports tag_import_module) =
          [\<lparr>im_module = ''a'', im_name = ''f'', im_ty = TypeRef_Func 0\<rparr>]"
    by (simp add: tag_import_module_def translate_module_import_def translate_module_import_desc_def)
  then show ?thesis using failing_imports_are_dropped [OF run] run by auto
qed

text \<open>The functions of a module are named without regard to its imports: the k-th body is named by
  the entry k of the name section, which is the entry of the k-th imported function when there is one,
  so the names and texts of all functions are the same whatever is imported. The names of the locals of
  a function are those of the function whose index is its type index: bodies of the same type get
  the same ones, whatever their positions.\<close>

theorem function_naming:
  assumes "wd_function_type_indexes d = replicate n ty" and "i < n" and "j < n"
  shows "translate_functions uuids (d\<lparr>wd_imports := is\<rparr>) =
           map_option (\<lambda>(r, d'). (r, d'\<lparr>wd_imports := is\<rparr>)) (translate_functions uuids d)
         \<and> translate_function d name i b = translate_function d name j b"
  using assms
  by (simp add: translate_functions_def translate_functions_from_imports translate_function_def)

theorem function_naming_witness:
  "translate_function (example_module\<lparr>wd_function_type_indexes := replicate 2 0\<rparr>) ''f'' 0 example_body =
   translate_function (example_module\<lparr>wd_function_type_indexes := replicate 2 0\<rparr>) ''f'' 1 example_body"
  using function_naming [where n = 2 and ty = 0 and i = 0 and j = 1
      and d = "example_module\<lparr>wd_function_type_indexes := replicate 2 0\<rparr>"]
  by simp

text \<open>C28: The pass over the payloads of a module collects, for each kind of section, the items of all
  its sections in order, and nothing else: the imports, the types, the type indexes of the functions,
  the tables, memories, globals, exports, elements, data segments and bodies; the last start section
  wins. The order of sections of different kinds has no effect.\<close>

theorem parse_collects_sections:
  assumes "parse name ps = ok d"
  shows "wd_function_types d = gathered type_items ps
    \<and> wd_imports d = gathered import_items ps
    \<and> wd_function_type_indexes d = gathered function_items ps
    \<and> wd_tables d = gathered table_items ps
    \<and> wd_memory_types d = gathered memory_items ps
    \<and> wd_globals d = gathered global_items ps
    \<and> wd_exports d = gathered export_items ps
    \<and> wd_elements d = gathered element_items_of ps
    \<and> wd_data d = gathered data_items ps
    \<and> wd_function_bodies d = gathered body_items ps
    \<and> wd_start_function d =
        (if gathered start_items ps = [] then None else Some (last (gathered start_items ps)))"
  using parse_collected [OF assms] by (simp add: collected_def wasm_parse_data_new_def)

theorem parse_collects_sections_witness:
  "wd_function_bodies example_module = gathered body_items example_payloads
   \<and> wd_start_function example_module = Some 0"
  using parse_collects_sections [OF example_parse]
  by (simp add: gathered_def example_payloads_def)

section \<open>Data segments\<close>

definition hex_value :: "char \<Rightarrow> nat option" where
  "hex_value c =
     (let n = of_char c in
      if 48 \<le> n \<and> n \<le> 57 then Some (n - 48)
      else if 65 \<le> n \<and> n \<le> 70 then Some (n - 55) else None)"

text \<open>Reading back the list of bytes of a segment, \<open>#hh :: ... :: nil\<close>.\<close>

fun read_bytes :: "string \<Rightarrow> nat list option" where
  "read_bytes (c # h # l # rest) =
     (if c = CHR ''#'' then
        do { x \<leftarrow> hex_value h;
             y \<leftarrow> hex_value l;
             bs \<leftarrow> (if take 4 rest = '' :: '' then read_bytes (drop 4 rest) else None);
             Some ((16 * x + y) # bs) }
      else if c # h # l # rest = ''nil'' then Some [] else None)"
| "read_bytes _ = None"

lemma hex_value_digit: "d < 16 \<Longrightarrow> hex_value (hex_digit d) = Some d"
proof -
  assume "d < 16"
  then have "(of_char (hex_digit d) :: nat) = (if d < 10 then 48 + d else 55 + d)"
    by (simp add: hex_digit_def of_char_char_of_small)
  then show ?thesis using \<open>d < 16\<close> by (simp add: hex_value_def)
qed

text \<open>The bytes of a data segment can be read back from its text: two upper-case hexadecimal
  digits for each byte, in order.\<close>

theorem data_bytes_round_trip:
  assumes "\<forall>b\<in>set bs. b < 256"
  shows "read_bytes (data_bytes_text bs) = Some bs"
  using assms
proof (induction bs)
  case (Cons b bs)
  moreover have "b div 16 < 16" using Cons.prems by (simp add: less_mult_imp_div_less)
  ultimately show ?case
    by (simp add: data_bytes_text_def show_hex2_def hex_value_digit)
qed (simp add: data_bytes_text_def)

theorem data_bytes_round_trip_witness:
  "read_bytes (data_bytes_text [0, 255, 10]) = Some [0, 255, 10]"
  by (rule data_bytes_round_trip) simp

end
