(* ===== verification/Codegen.thy ===== *)
theory Codegen
  imports TypedContexts
begin

text \<open>
  The generation of WebAssembly through LLVM (\<open>core/wasm-codegen/src/compiler.rs\<close>, \<open>lib.rs\<close>). LLVM and
  its Rust binding are libraries: what the code does with them is the sequence of its calls, which the
  model keeps as a trace. The value of a call is the position of the call in the trace, so two
  values are the same exactly when they come from the same call. \<open>Module::get_function\<close> answers with
  a function added before under the name, as its documentation says; the builder has a position
  whenever it is used, so its calls do not fail.
\<close>

section \<open>Calls to LLVM\<close>

datatype llvm_type = Void_type | Bool_type | I8_type | I16_type | I32_type | I64_type

datatype llvm_value =
    Const_int llvm_type nat
  | Call_result nat

datatype llvm_call =
    Add_function string llvm_type
  | Add_export string string
  | Add_barriers string
  | Append_block string
  | Build_call string
  | Build_alloca llvm_type string
  | Build_store nat llvm_value
  | Build_load llvm_type nat string
  | Build_return "llvm_value option"

record compiler =
  cg_calls :: "llvm_call list"
  cg_variables :: "string \<Rightarrow> (nat \<times> llvm_type) option"
  cg_has_main :: bool

definition compiler_new :: compiler where
  "compiler_new = \<lparr>cg_calls = [], cg_variables = Map.empty, cg_has_main = False\<rparr>"

text \<open>A call, and the position that stands for its value.\<close>

definition emit :: "llvm_call \<Rightarrow> compiler \<Rightarrow> compiler" where
  "emit c s = s\<lparr>cg_calls := cg_calls s @ [c]\<rparr>"

definition next_value :: "compiler \<Rightarrow> nat" where
  "next_value s = length (cg_calls s)"

fun adds_function :: "string \<Rightarrow> llvm_call \<Rightarrow> bool" where
  "adds_function n (Add_function m t) = (m = n)"
| "adds_function n _ = False"

definition has_function :: "string \<Rightarrow> compiler \<Rightarrow> bool" where
  "has_function n s = list_ex (adds_function n) (cg_calls s)"

section \<open>Intrinsics\<close>

definition UZUMAKI_I32_INTRINSIC :: string where "UZUMAKI_I32_INTRINSIC = ''llvm.wasm.uzumaki.i32''"
definition UZUMAKI_I64_INTRINSIC :: string where "UZUMAKI_I64_INTRINSIC = ''llvm.wasm.uzumaki.i64''"
definition FORALL_START_INTRINSIC :: string where "FORALL_START_INTRINSIC = ''llvm.wasm.forall.start''"
definition FORALL_END_INTRINSIC :: string where "FORALL_END_INTRINSIC = ''llvm.wasm.forall.end''"
definition EXISTS_START_INTRINSIC :: string where "EXISTS_START_INTRINSIC = ''llvm.wasm.exists.start''"
definition EXISTS_END_INTRINSIC :: string where "EXISTS_END_INTRINSIC = ''llvm.wasm.exists.end''"
definition ASSUME_START_INTRINSIC :: string where "ASSUME_START_INTRINSIC = ''llvm.wasm.assume.start''"
definition ASSUME_END_INTRINSIC :: string where "ASSUME_END_INTRINSIC = ''llvm.wasm.assume.end''"
definition UNIQUE_START_INTRINSIC :: string where "UNIQUE_START_INTRINSIC = ''llvm.wasm.unique.start''"
definition UNIQUE_END_INTRINSIC :: string where "UNIQUE_END_INTRINSIC = ''llvm.wasm.unique.end''"

text \<open>
  Each accessor declares its intrinsic when the module does not have it yet. The function it returns
  is known by its name.
\<close>

definition get_or_add_function :: "string \<Rightarrow> llvm_type \<Rightarrow> compiler \<Rightarrow> compiler" where
  "get_or_add_function n t s = (if has_function n s then s else emit (Add_function n t) s)"

definition uzumaki_i32_intrinsic :: "compiler \<Rightarrow> string \<times> compiler" where
  "uzumaki_i32_intrinsic s = (UZUMAKI_I32_INTRINSIC, get_or_add_function UZUMAKI_I32_INTRINSIC I32_type s)"

definition uzumaki_i64_intrinsic :: "compiler \<Rightarrow> string \<times> compiler" where
  "uzumaki_i64_intrinsic s = (UZUMAKI_I64_INTRINSIC, get_or_add_function UZUMAKI_I64_INTRINSIC I64_type s)"

definition forall_start_intrinsic :: "compiler \<Rightarrow> string \<times> compiler" where
  "forall_start_intrinsic s = (FORALL_START_INTRINSIC, get_or_add_function FORALL_START_INTRINSIC Void_type s)"

definition forall_end_intrinsic :: "compiler \<Rightarrow> string \<times> compiler" where
  "forall_end_intrinsic s = (FORALL_END_INTRINSIC, get_or_add_function FORALL_END_INTRINSIC Void_type s)"

definition exists_start_intrinsic :: "compiler \<Rightarrow> string \<times> compiler" where
  "exists_start_intrinsic s = (EXISTS_START_INTRINSIC, get_or_add_function EXISTS_START_INTRINSIC Void_type s)"

definition exists_end_intrinsic :: "compiler \<Rightarrow> string \<times> compiler" where
  "exists_end_intrinsic s = (EXISTS_END_INTRINSIC, get_or_add_function EXISTS_END_INTRINSIC Void_type s)"

definition assume_start_intrinsic :: "compiler \<Rightarrow> string \<times> compiler" where
  "assume_start_intrinsic s = (ASSUME_START_INTRINSIC, get_or_add_function ASSUME_START_INTRINSIC Void_type s)"

definition assume_end_intrinsic :: "compiler \<Rightarrow> string \<times> compiler" where
  "assume_end_intrinsic s = (ASSUME_END_INTRINSIC, get_or_add_function ASSUME_END_INTRINSIC Void_type s)"

definition unique_start_intrinsic :: "compiler \<Rightarrow> string \<times> compiler" where
  "unique_start_intrinsic s = (UNIQUE_START_INTRINSIC, get_or_add_function UNIQUE_START_INTRINSIC Void_type s)"

definition unique_end_intrinsic :: "compiler \<Rightarrow> string \<times> compiler" where
  "unique_end_intrinsic s = (UNIQUE_END_INTRINSIC, get_or_add_function UNIQUE_END_INTRINSIC Void_type s)"

text \<open>Calling the function an accessor returned.\<close>

definition call_intrinsic :: "(compiler \<Rightarrow> string \<times> compiler) \<Rightarrow> compiler \<Rightarrow> compiler" where
  "call_intrinsic get s = (case get s of (n, s1) \<Rightarrow> emit (Build_call n) s1)"

section \<open>Expressions\<close>

text \<open>
  \<open>str::parse::<u64>\<close>: an optional plus sign and decimal digits whose value fits in 64 bits.
\<close>

fun parse_digits_u64 :: "nat \<Rightarrow> string \<Rightarrow> nat option" where
  "parse_digits_u64 acc [] = Some acc"
| "parse_digits_u64 acc (c # cs) =
     do { d \<leftarrow> digit_value c;
          let v = acc * 10 + d;
          if v < 2 ^ 64 then parse_digits_u64 v cs else None }"

definition parse_u64 :: "string \<Rightarrow> nat option" where
  "parse_u64 s =
     (case s of
        [] \<Rightarrow> None
      | c # cs \<Rightarrow> if c = CHR ''+'' then (if cs = [] then None else parse_digits_u64 0 cs)
                  else parse_digits_u64 0 s)"

definition number_value :: "string \<Rightarrow> nat" where
  "number_value s = (case parse_u64 s of Some v \<Rightarrow> v | None \<Rightarrow> 0)"

fun lower_literal :: "literal \<Rightarrow> llvm_value option" where
  "lower_literal (Lit_Array _ _ _) = None"
| "lower_literal (Lit_Bool _ _ b) = Some (Const_int I32_type (if b then 1 else 0))"
| "lower_literal (Lit_String _ _ _) = None"
| "lower_literal (Lit_Number _ _ v) = Some (Const_int I32_type (number_value v))"
| "lower_literal (Lit_Unit _ _) = None"

definition lower_uzumaki_i32_expression :: "compiler \<Rightarrow> llvm_value \<times> compiler" where
  "lower_uzumaki_i32_expression s =
     (case uzumaki_i32_intrinsic s of
        (n, s1) \<Rightarrow> (Call_result (next_value s1), emit (Build_call n) s1))"

definition lower_uzumaki_i64_expression :: "compiler \<Rightarrow> llvm_value \<times> compiler" where
  "lower_uzumaki_i64_expression s =
     (case uzumaki_i64_intrinsic s of
        (n, s1) \<Rightarrow> (Call_result (next_value s1), emit (Build_call n) s1))"

text \<open>The arms that are \<open>todo!()\<close>, an unknown variable and an untyped uzumaki are panics.\<close>

fun lower_expression :: "expression \<Rightarrow> typed_context \<Rightarrow> compiler \<Rightarrow> (llvm_value \<times> compiler) option" where
  "lower_expression (Expr_Literal l) cx s = do { v \<leftarrow> lower_literal l; Some (v, s) }"
| "lower_expression (Expr_Identifier x) cx s =
     do { (ptr, t) \<leftarrow> cg_variables s (ident_name x);
          Some (Call_result (next_value s), emit (Build_load t ptr (ident_name x)) s) }"
| "lower_expression (Expr_Uzumaki i _) cx s =
     (if is_node_i32 i cx then Some (lower_uzumaki_i32_expression s)
      else if is_node_i64 i cx then Some (lower_uzumaki_i64_expression s)
      else None)"
| "lower_expression _ cx s = None"

text \<open>The type of a value: a constant carries it, a call gives what it was built with.\<close>

definition call_type :: "llvm_call \<Rightarrow> llvm_type" where
  "call_type c =
     (case c of
        Build_load t p n \<Rightarrow> t
      | Build_call n \<Rightarrow>
          (if n = UZUMAKI_I32_INTRINSIC then I32_type
           else if n = UZUMAKI_I64_INTRINSIC then I64_type else Void_type)
      | _ \<Rightarrow> Void_type)"

fun value_type :: "compiler \<Rightarrow> llvm_value \<Rightarrow> llvm_type" where
  "value_type s (Const_int t v) = t"
| "value_type s (Call_result i) =
     (if i < length (cg_calls s) then call_type (cg_calls s ! i) else Void_type)"

section \<open>Statements\<close>

text \<open>
  \<open>Statement::ConstantDefinition\<close>: only an \<open>i32\<close> with a number literal is lowered, every other
  type is \<open>todo!()\<close>.
\<close>

definition lower_constant :: "constant_definition \<Rightarrow> typed_context \<Rightarrow> compiler \<Rightarrow> compiler option" where
  "lower_constant d cx s =
     do { t \<leftarrow> get_node_typeinfo (cd_id d) cx;
          if ti_kind t = Kind_Number Num_I32 then
            (case cd_value d of
               Lit_Number _ _ v \<Rightarrow>
                 (let local = next_value s;
                      s1 = emit (Build_alloca I32_type (ident_name (cd_name d))) s;
                      s2 = emit (Build_store local (Const_int I32_type (number_value v))) s1
                  in Some (s2\<lparr>cg_variables :=
                             (cg_variables s2)(ident_name (cd_name d) \<mapsto> (local, I32_type))\<rparr>))
             | _ \<Rightarrow> None)
          else None }"

text \<open>
  The block of a marker: the call that opens it, its statements, the call that closes it.
  \<open>remaining\<close> is what the iterator still holds after the statement; every call passes an iterator over
  one statement. \<open>stack\<close> is \<open>parent_blocks_stack\<close>, outermost first.
\<close>

fun lower_statement ::
  "statement \<Rightarrow> statement list \<Rightarrow> block_type list \<Rightarrow> typed_context \<Rightarrow> compiler \<Rightarrow> compiler option"
  and lower_statements ::
  "statement list \<Rightarrow> block_type list \<Rightarrow> typed_context \<Rightarrow> compiler \<Rightarrow> compiler option" where
  "lower_statement (Stmt_Block (Block_Block i l ss)) remaining stack cx s =
     lower_statements ss (stack @ [Block_Block i l ss]) cx s"
| "lower_statement (Stmt_Block (Block_Forall i l ss)) remaining stack cx s =
     do { let s1 = call_intrinsic forall_start_intrinsic s;
          s2 \<leftarrow> lower_statements ss (stack @ [Block_Forall i l ss]) cx s1;
          Some (call_intrinsic forall_end_intrinsic s2) }"
| "lower_statement (Stmt_Block (Block_Assume i l ss)) remaining stack cx s =
     do { let s1 = call_intrinsic assume_start_intrinsic s;
          s2 \<leftarrow> lower_statements ss (stack @ [Block_Assume i l ss]) cx s1;
          Some (call_intrinsic assume_end_intrinsic s2) }"
| "lower_statement (Stmt_Block (Block_Exists i l ss)) remaining stack cx s =
     do { let s1 = call_intrinsic exists_start_intrinsic s;
          s2 \<leftarrow> lower_statements ss (stack @ [Block_Exists i l ss]) cx s1;
          Some (call_intrinsic exists_end_intrinsic s2) }"
| "lower_statement (Stmt_Block (Block_Unique i l ss)) remaining stack cx s =
     do { let s1 = call_intrinsic unique_start_intrinsic s;
          s2 \<leftarrow> lower_statements ss (stack @ [Block_Unique i l ss]) cx s1;
          Some (call_intrinsic unique_end_intrinsic s2) }"
| "lower_statement (Stmt_Expression e) remaining stack cx s =
     do { (v, s1) \<leftarrow> lower_expression e cx s;
          if remaining = [] then
            (case stack of
               [] \<Rightarrow> None
             | outer # _ \<Rightarrow>
                 if block_is_non_det outer \<and> block_is_void outer then
                   Some (emit (Build_store (next_value s1) v)
                          (emit (Build_alloca (value_type s1 v) ''temp'') s1))
                 else Some s1)
          else Some s1 }"
| "lower_statement (Stmt_Return _ _ e) remaining stack cx s =
     do { (v, s1) \<leftarrow> lower_expression e cx s;
          Some (emit (Build_return (Some v)) s1) }"
| "lower_statement (Stmt_VariableDefinition _ _ _ _ _ _) remaining stack cx s = Some s"
| "lower_statement (Stmt_ConstantDefinition d) remaining stack cx s = lower_constant d cx s"
| "lower_statement _ remaining stack cx s = None"
| "lower_statements [] stack cx s = Some s"
| "lower_statements (st # ss) stack cx s =
     do { s1 \<leftarrow> lower_statement st [] stack cx s; lower_statements ss stack cx s1 }"

section \<open>Functions\<close>

text \<open>The LLVM type of a result; every other type is \<open>todo!()\<close>. Parameters are not lowered.\<close>

fun simple_return_type :: "simple_type_kind \<Rightarrow> llvm_type" where
  "simple_return_type Simple_Unit = Void_type"
| "simple_return_type Simple_Bool = Bool_type"
| "simple_return_type Simple_I8 = I8_type"
| "simple_return_type Simple_U8 = I8_type"
| "simple_return_type Simple_I16 = I16_type"
| "simple_return_type Simple_U16 = I16_type"
| "simple_return_type Simple_I32 = I32_type"
| "simple_return_type Simple_U32 = I32_type"
| "simple_return_type Simple_I64 = I64_type"
| "simple_return_type Simple_U64 = I64_type"

fun return_type :: "ty option \<Rightarrow> llvm_type option" where
  "return_type None = Some Void_type"
| "return_type (Some (Type_Simple k)) = Some (simple_return_type k)"
| "return_type (Some _) = None"

definition add_optimization_barriers :: "string \<Rightarrow> compiler \<Rightarrow> compiler" where
  "add_optimization_barriers n s = emit (Add_barriers n) s"

definition visit_function_definition ::
  "function_definition \<Rightarrow> typed_context \<Rightarrow> compiler \<Rightarrow> compiler option" where
  "visit_function_definition f cx s =
     (let name = ident_name (fd_name f);
          public = (fd_visibility f = Public);
          is_main = (name = ''main'')
      in do {
        t \<leftarrow> return_type (fd_returns f);
        let s1 = emit (Add_function name t) s;
        let s2 = (if public \<and> \<not> is_main then emit (Add_export name name) s1 else s1);
        let s3 = (if is_main \<and> public then s2\<lparr>cg_has_main := True\<rparr> else s2);
        let s4 = (if function_is_non_det f then add_optimization_barriers name s3 else s3);
        let s5 = emit (Append_block name) s4;
        s6 \<leftarrow> lower_statement (Stmt_Block (fd_body f)) [] [fd_body f] cx s5;
        Some (if function_is_void f then emit (Build_return None) s6 else s6) })"

section \<open>The module\<close>

fun visit_functions :: "function_definition list \<Rightarrow> typed_context \<Rightarrow> compiler \<Rightarrow> compiler option" where
  "visit_functions [] cx s = Some s"
| "visit_functions (f # fs) cx s =
     do { s1 \<leftarrow> visit_function_definition f cx s; visit_functions fs cx s1 }"

definition traverse_t_ast_with_compiler ::
  "nat list \<Rightarrow> typed_context \<Rightarrow> compiler \<Rightarrow> compiler option" where
  "traverse_t_ast_with_compiler ord cx s =
     visit_functions (concat (map source_file_functions (cx_source_files ord cx))) cx s"

text \<open>
  \<open>codegen\<close>: \<open>compile_to_wasm\<close> writes the module out and runs the external tools; it is a parameter
  that takes the calls made on the module, the name of the output, the optimisation level and whether
  there is a \<open>main\<close> to export.
\<close>

definition codegen ::
  "(llvm_call list \<Rightarrow> string \<Rightarrow> nat \<Rightarrow> bool \<Rightarrow> 'e + 'bytes) \<Rightarrow> nat list \<Rightarrow> typed_context
     \<Rightarrow> ('e + 'bytes) option" where
  "codegen compile_to_wasm ord cx =
     (if cx_source_files ord cx = [] then
        Some (compile_to_wasm (cg_calls compiler_new) ''output.wasm'' 3 (cg_has_main compiler_new))
      else if length (cx_source_files ord cx) > 1 then None
      else do { s \<leftarrow> traverse_t_ast_with_compiler ord cx compiler_new;
                Some (compile_to_wasm (cg_calls s) ''output.wasm'' 3 (cg_has_main s)) })"

end
