(* ===== verification/CodegenFacts.thy ===== *)
theory CodegenFacts
  imports Codegen
begin

text \<open>
  Lemmas on the code generator. The locale \<open>compiler_relation\<close> carries a relation on states from the
  calls to LLVM through the lowering of a body; its interpretations say that the trace grows, that
  variables stay, that \<open>has_main\<close>, the exports and the barriers are left alone and that an intrinsic is declared once. The
  markers of the blocks with a quantifier are followed exactly.
\<close>

section \<open>Relations kept by lowering\<close>

definition intrinsics :: "string list" where
  "intrinsics = [UZUMAKI_I32_INTRINSIC, UZUMAKI_I64_INTRINSIC,
     FORALL_START_INTRINSIC, FORALL_END_INTRINSIC, EXISTS_START_INTRINSIC, EXISTS_END_INTRINSIC,
     ASSUME_START_INTRINSIC, ASSUME_END_INTRINSIC, UNIQUE_START_INTRINSIC, UNIQUE_END_INTRINSIC]"

fun declares :: "llvm_call \<Rightarrow> string option" where
  "declares (Add_function n t) = Some n"
| "declares _ = None"

text \<open>The calls that build instructions of a body.\<close>

fun builds :: "llvm_call \<Rightarrow> bool" where
  "builds (Build_call n) = True"
| "builds (Build_alloca t n) = True"
| "builds (Build_store p v) = True"
| "builds (Build_load t p n) = True"
| "builds (Build_return v) = True"
| "builds _ = False"

lemma builds_declares: "builds c \<Longrightarrow> declares c = None"
  by (cases c) auto

lemmas intrinsic_accessors =
  uzumaki_i32_intrinsic_def uzumaki_i64_intrinsic_def forall_start_intrinsic_def
  forall_end_intrinsic_def exists_start_intrinsic_def exists_end_intrinsic_def
  assume_start_intrinsic_def assume_end_intrinsic_def unique_start_intrinsic_def
  unique_end_intrinsic_def

locale compiler_relation =
  fixes R :: "compiler \<Rightarrow> compiler \<Rightarrow> bool"
  assumes R_refl: "R s s"
    and R_trans: "R s s1 \<Longrightarrow> R s1 s2 \<Longrightarrow> R s s2"
    and R_emit: "builds c \<Longrightarrow> R s (emit c s)"
    and R_intrinsic: "n \<in> set intrinsics \<Longrightarrow> R s (get_or_add_function n t s)"
    and R_variable: "R s (s\<lparr>cg_variables := (cg_variables s)(x \<mapsto> v)\<rparr>)"
begin

lemma R_call_intrinsic:
  "get s = (n, get_or_add_function n t s) \<Longrightarrow> n \<in> set intrinsics \<Longrightarrow> R s (call_intrinsic get s)"
  using R_trans [OF R_intrinsic R_emit] by (simp add: call_intrinsic_def)

lemma R_markers:
  "R s (call_intrinsic forall_start_intrinsic s)" "R s (call_intrinsic forall_end_intrinsic s)"
  "R s (call_intrinsic exists_start_intrinsic s)" "R s (call_intrinsic exists_end_intrinsic s)"
  "R s (call_intrinsic assume_start_intrinsic s)" "R s (call_intrinsic assume_end_intrinsic s)"
  "R s (call_intrinsic unique_start_intrinsic s)" "R s (call_intrinsic unique_end_intrinsic s)"
  by (rule R_call_intrinsic, simp only: intrinsic_accessors prod.inject,
      simp add: intrinsics_def)+

lemma R_block:
  "R (call_intrinsic forall_start_intrinsic s) s1 \<Longrightarrow> R s (call_intrinsic forall_end_intrinsic s1)"
  "R (call_intrinsic exists_start_intrinsic s) s1 \<Longrightarrow> R s (call_intrinsic exists_end_intrinsic s1)"
  "R (call_intrinsic assume_start_intrinsic s) s1 \<Longrightarrow> R s (call_intrinsic assume_end_intrinsic s1)"
  "R (call_intrinsic unique_start_intrinsic s) s1 \<Longrightarrow> R s (call_intrinsic unique_end_intrinsic s1)"
  by (meson R_markers R_trans)+

lemma R_expression: "lower_expression e cx s = Some (v, s') \<Longrightarrow> R s s'"
proof (cases e)
  case (Expr_Uzumaki i l)
  assume "lower_expression e cx s = Some (v, s')"
  moreover have "R s (emit (Build_call n) (get_or_add_function n t s))" if "n \<in> set intrinsics" for n t
    using that R_trans [OF R_intrinsic R_emit] by simp
  ultimately show ?thesis
    using Expr_Uzumaki
    by (auto simp: lower_uzumaki_i32_expression_def lower_uzumaki_i64_expression_def
        intrinsic_accessors intrinsics_def split: if_splits)
qed (auto simp: bind_Some_iff R_refl R_emit)

lemma R_constant: "lower_constant d cx s = Some s' \<Longrightarrow> R s s'"
proof -
  assume "lower_constant d cx s = Some s'"
  then obtain l a b v where "s' = (emit (Build_store l v) (emit (Build_alloca I32_type a) s))
      \<lparr>cg_variables := (cg_variables (emit (Build_store l v) (emit (Build_alloca I32_type a) s)))(a \<mapsto> b)\<rparr>"
    by (auto simp: lower_constant_def Let_def bind_Some_iff split: if_splits literal.splits)
  then show ?thesis
    using R_trans [OF R_trans [OF R_emit R_emit] R_variable] by (metis builds.simps(2) builds.simps(3))
qed

lemma R_lower:
  shows "lower_statement st remaining stack cx s = Some s' \<Longrightarrow> R s s'"
    and "lower_statements ss stack cx s = Some s' \<Longrightarrow> R s s'"
proof (induction st remaining stack cx s and ss stack cx s arbitrary: s' and s'
    rule: lower_statement_lower_statements.induct)
  case (6 e remaining stack cx s)
  then obtain v s1 where e: "lower_expression e cx s = Some (v, s1)"
    and s': "s' = s1 \<or> s' = emit (Build_store (next_value s1) v)
                            (emit (Build_alloca (value_type s1 v) ''temp'') s1)"
    by (auto simp: bind_Some_iff split: if_splits list.splits)
  have "R s1 s'" using s' R_refl R_trans [OF R_emit R_emit] by auto
  then show ?case using R_expression [OF e] R_trans by blast
next
  case (7 i l e remaining stack cx s)
  then show ?case using R_expression R_emit R_trans by (fastforce simp: bind_Some_iff)
qed (auto simp: bind_Some_iff Let_def R_refl intro: R_constant R_trans R_block)

end
section \<open>Interpretations\<close>

definition grows :: "compiler \<Rightarrow> compiler \<Rightarrow> bool" where
  "grows s s' \<longleftrightarrow> (\<exists>cs. cg_calls s' = cg_calls s @ cs)"

lemma get_or_add_calls:
  "cg_calls (get_or_add_function n t s) =
     cg_calls s @ (if has_function n s then [] else [Add_function n t])"
  by (simp add: get_or_add_function_def emit_def)

interpretation trace_grows: compiler_relation grows
  by unfold_locales (auto simp: grows_def emit_def get_or_add_calls)

definition keeps_main :: "compiler \<Rightarrow> compiler \<Rightarrow> bool" where
  "keeps_main s s' \<longleftrightarrow> cg_has_main s' = cg_has_main s"

interpretation main_kept: compiler_relation keeps_main
  by unfold_locales (auto simp: keeps_main_def emit_def get_or_add_function_def)

definition keeps_variables :: "compiler \<Rightarrow> compiler \<Rightarrow> bool" where
  "keeps_variables s s' \<longleftrightarrow> dom (cg_variables s) \<subseteq> dom (cg_variables s')"

interpretation variables_kept: compiler_relation keeps_variables
  by unfold_locales (auto simp: keeps_variables_def emit_def get_or_add_function_def)

text \<open>The names exported.\<close>

fun export_of :: "llvm_call \<Rightarrow> string option" where
  "export_of (Add_export n e) = Some e"
| "export_of _ = None"

definition exported :: "compiler \<Rightarrow> string list" where
  "exported s = List.map_filter export_of (cg_calls s)"

lemma exported_emit [simp]:
  "exported (emit c s) = exported s @ (case export_of c of Some n \<Rightarrow> [n] | None \<Rightarrow> [])"
  by (simp add: exported_def emit_def List.map_filter_def split: option.split)

lemma exported_simps [simp]:
  "exported (s\<lparr>cg_variables := vs\<rparr>) = exported s"
  "exported (s\<lparr>cg_has_main := b\<rparr>) = exported s"
  by (simp_all add: exported_def)

definition keeps_exports :: "compiler \<Rightarrow> compiler \<Rightarrow> bool" where
  "keeps_exports s s' \<longleftrightarrow> exported s' = exported s"

lemma builds_export: "builds c \<Longrightarrow> export_of c = None"
  by (cases c) auto

interpretation exports_kept: compiler_relation keeps_exports
  by unfold_locales (auto simp: keeps_exports_def get_or_add_function_def builds_export)

text \<open>The functions marked against optimisation.\<close>

fun barrier_of :: "llvm_call \<Rightarrow> string option" where
  "barrier_of (Add_barriers n) = Some n"
| "barrier_of _ = None"

definition barriers :: "compiler \<Rightarrow> string list" where
  "barriers s = List.map_filter barrier_of (cg_calls s)"

lemma barriers_emit [simp]:
  "barriers (emit c s) = barriers s @ (case barrier_of c of Some n \<Rightarrow> [n] | None \<Rightarrow> [])"
  by (simp add: barriers_def emit_def List.map_filter_def split: option.split)

lemma barriers_simps [simp]:
  "barriers (s\<lparr>cg_variables := vs\<rparr>) = barriers s"
  "barriers (s\<lparr>cg_has_main := b\<rparr>) = barriers s"
  by (simp_all add: barriers_def)

definition keeps_barriers :: "compiler \<Rightarrow> compiler \<Rightarrow> bool" where
  "keeps_barriers s s' \<longleftrightarrow> barriers s' = barriers s"

lemma builds_barrier: "builds c \<Longrightarrow> barrier_of c = None"
  by (cases c) auto

interpretation barriers_kept: compiler_relation keeps_barriers
  by unfold_locales (auto simp: keeps_barriers_def get_or_add_function_def builds_barrier)

text \<open>How often a name is declared.\<close>

definition declared :: "compiler \<Rightarrow> string list" where
  "declared s = List.map_filter declares (cg_calls s)"

lemma declared_emit [simp]:
  "declared (emit c s) = declared s @ (case declares c of Some n \<Rightarrow> [n] | None \<Rightarrow> [])"
  by (simp add: declared_def emit_def List.map_filter_def split: option.split)

lemma declared_simps [simp]:
  "declared (s\<lparr>cg_variables := vs\<rparr>) = declared s"
  "declared (s\<lparr>cg_has_main := b\<rparr>) = declared s"
  by (simp_all add: declared_def)

lemma has_function_declared: "has_function n s \<longleftrightarrow> n \<in> set (declared s)"
proof -
  have "adds_function n c \<longleftrightarrow> declares c = Some n" for c by (cases c) auto
  then show ?thesis
    by (auto simp: has_function_def declared_def List.map_filter_def list_ex_iff image_iff)
qed

definition declares_once :: "compiler \<Rightarrow> compiler \<Rightarrow> bool" where
  "declares_once s s' \<longleftrightarrow>
     (\<exists>ns. declared s' = declared s @ ns \<and> distinct ns \<and> set ns \<subseteq> set intrinsics
           \<and> set ns \<inter> set (declared s) = {})"

lemma declares_once_trans:
  assumes "declares_once s t" and "declares_once t u"
  shows "declares_once s u"
proof -
  obtain ns ms where "declared t = declared s @ ns" "distinct ns" "set ns \<subseteq> set intrinsics"
    "set ns \<inter> set (declared s) = {}" "declared u = declared t @ ms" "distinct ms"
    "set ms \<subseteq> set intrinsics" "set ms \<inter> set (declared t) = {}"
    using assms unfolding declares_once_def by blast
  then show ?thesis unfolding declares_once_def by (intro exI [of _ "ns @ ms"]) auto
qed

lemma declares_once_intrinsic:
  assumes "n \<in> set intrinsics"
  shows "declares_once s (get_or_add_function n t s)"
proof (cases "n \<in> set (declared s)")
  case True
  then show ?thesis by (simp add: get_or_add_function_def has_function_declared declares_once_def)
next
  case False
  then show ?thesis
    using assms unfolding declares_once_def
    by (intro exI [of _ "[n]"]) (simp add: get_or_add_function_def has_function_declared)
qed

interpretation declared_once: compiler_relation declares_once
proof unfold_locales
  show "declares_once s s1 \<Longrightarrow> declares_once s1 s2 \<Longrightarrow> declares_once s s2" for s s1 s2
    by (rule declares_once_trans)
  show "n \<in> set intrinsics \<Longrightarrow> declares_once s (get_or_add_function n t s)" for n t s
    by (rule declares_once_intrinsic)
qed (auto simp: declares_once_def builds_declares)

section \<open>The markers of blocks\<close>

definition markers :: "string list" where
  "markers = [FORALL_START_INTRINSIC, FORALL_END_INTRINSIC, EXISTS_START_INTRINSIC,
     EXISTS_END_INTRINSIC, ASSUME_START_INTRINSIC, ASSUME_END_INTRINSIC,
     UNIQUE_START_INTRINSIC, UNIQUE_END_INTRINSIC]"

fun marker_call :: "llvm_call \<Rightarrow> string option" where
  "marker_call (Build_call n) = (if n \<in> set markers then Some n else None)"
| "marker_call _ = None"

definition called_markers :: "llvm_call list \<Rightarrow> string list" where
  "called_markers cs = List.map_filter marker_call cs"

lemma called_markers_append [simp]:
  "called_markers (cs @ ds) = called_markers cs @ called_markers ds"
  by (simp add: called_markers_def List.map_filter_def)

lemma called_markers_Cons [simp]:
  "called_markers (c # cs) = (case marker_call c of Some n \<Rightarrow> [n] | None \<Rightarrow> []) @ called_markers cs"
  "called_markers [] = []"
  by (simp_all add: called_markers_def List.map_filter_def split: option.split)

text \<open>The markers of a block, as the source nests them.\<close>

fun block_markers :: "block_type \<Rightarrow> string list"
  and statement_markers :: "statement \<Rightarrow> string list" where
  "block_markers (Block_Block _ _ ss) = concat (map statement_markers ss)"
| "block_markers (Block_Forall _ _ ss) =
     FORALL_START_INTRINSIC # concat (map statement_markers ss) @ [FORALL_END_INTRINSIC]"
| "block_markers (Block_Assume _ _ ss) =
     ASSUME_START_INTRINSIC # concat (map statement_markers ss) @ [ASSUME_END_INTRINSIC]"
| "block_markers (Block_Exists _ _ ss) =
     EXISTS_START_INTRINSIC # concat (map statement_markers ss) @ [EXISTS_END_INTRINSIC]"
| "block_markers (Block_Unique _ _ ss) =
     UNIQUE_START_INTRINSIC # concat (map statement_markers ss) @ [UNIQUE_END_INTRINSIC]"
| "statement_markers (Stmt_Block b) = block_markers b"
| "statement_markers _ = []"

definition marks :: "string list \<Rightarrow> compiler \<Rightarrow> compiler \<Rightarrow> bool" where
  "marks ms s s' \<longleftrightarrow> (\<exists>cs. cg_calls s' = cg_calls s @ cs \<and> called_markers cs = ms)"

lemma marks_refl [simp]: "marks [] s s"
  by (simp add: marks_def)

lemma marks_trans: "marks ms s s1 \<Longrightarrow> marks ns s1 s2 \<Longrightarrow> marks (ms @ ns) s s2"
  by (fastforce simp: marks_def)

lemma marks_emit: "marker_call c = None \<Longrightarrow> marks [] s (emit c s)"
  by (simp add: marks_def emit_def)

lemma marks_get_or_add: "marks [] s (get_or_add_function n t s)"
  by (simp add: marks_def get_or_add_calls)

lemma marks_call:
  assumes "get s = (n, get_or_add_function n t s)" and "n \<in> set markers"
  shows "marks [n] s (call_intrinsic get s)"
proof -
  have "marks [n] (get_or_add_function n t s) (emit (Build_call n) (get_or_add_function n t s))"
    using assms(2) by (simp add: marks_def emit_def)
  then show ?thesis
    using marks_trans [OF marks_get_or_add] assms(1) by (fastforce simp: call_intrinsic_def)
qed

lemma marks_markers:
  "marks [FORALL_START_INTRINSIC] s (call_intrinsic forall_start_intrinsic s)"
  "marks [FORALL_END_INTRINSIC] s (call_intrinsic forall_end_intrinsic s)"
  "marks [EXISTS_START_INTRINSIC] s (call_intrinsic exists_start_intrinsic s)"
  "marks [EXISTS_END_INTRINSIC] s (call_intrinsic exists_end_intrinsic s)"
  "marks [ASSUME_START_INTRINSIC] s (call_intrinsic assume_start_intrinsic s)"
  "marks [ASSUME_END_INTRINSIC] s (call_intrinsic assume_end_intrinsic s)"
  "marks [UNIQUE_START_INTRINSIC] s (call_intrinsic unique_start_intrinsic s)"
  "marks [UNIQUE_END_INTRINSIC] s (call_intrinsic unique_end_intrinsic s)"
  by (rule marks_call, simp only: intrinsic_accessors prod.inject, simp add: markers_def)+

lemma marks_expression: "lower_expression e cx s = Some (v, s') \<Longrightarrow> marks [] s s'"
proof (cases e)
  case (Expr_Uzumaki i l)
  assume "lower_expression e cx s = Some (v, s')"
  moreover have "marks [] s (emit (Build_call n) (get_or_add_function n t s))"
    if "n = UZUMAKI_I32_INTRINSIC \<or> n = UZUMAKI_I64_INTRINSIC" for n t
  proof -
    have "n \<notin> set markers"
      using that by (auto simp: markers_def UZUMAKI_I32_INTRINSIC_def UZUMAKI_I64_INTRINSIC_def
          FORALL_START_INTRINSIC_def FORALL_END_INTRINSIC_def EXISTS_START_INTRINSIC_def
          EXISTS_END_INTRINSIC_def ASSUME_START_INTRINSIC_def ASSUME_END_INTRINSIC_def
          UNIQUE_START_INTRINSIC_def UNIQUE_END_INTRINSIC_def)
    then have "marks [] (get_or_add_function n t s) (emit (Build_call n) (get_or_add_function n t s))"
      by (simp add: marks_emit)
    then show ?thesis using marks_trans [OF marks_get_or_add] by fastforce
  qed
  ultimately show ?thesis
    using Expr_Uzumaki
    by (auto simp: lower_uzumaki_i32_expression_def lower_uzumaki_i64_expression_def
        intrinsic_accessors split: if_splits)
qed (auto simp: bind_Some_iff marks_emit)

lemma marks_constant: "lower_constant d cx s = Some s' \<Longrightarrow> marks [] s s'"
  by (auto simp: lower_constant_def Let_def bind_Some_iff marks_def emit_def
      split: if_splits literal.splits)

lemma marks_lower:
  shows "lower_statement st remaining stack cx s = Some s' \<Longrightarrow> marks (statement_markers st) s s'"
    and "lower_statements ss stack cx s = Some s' \<Longrightarrow> marks (concat (map statement_markers ss)) s s'"
proof (induction st remaining stack cx s and ss stack cx s arbitrary: s' and s'
    rule: lower_statement_lower_statements.induct)
  case (6 e remaining stack cx s)
  then obtain v s1 where e: "lower_expression e cx s = Some (v, s1)"
    and s': "s' = s1 \<or> s' = emit (Build_store (next_value s1) v)
                            (emit (Build_alloca (value_type s1 v) ''temp'') s1)"
    by (auto simp: bind_Some_iff split: if_splits list.splits)
  have "marks [] s1 s'" using s' by (auto simp: marks_def emit_def)
  then show ?case using marks_trans [OF marks_expression [OF e]] by fastforce
next
  case (7 i l e remaining stack cx s)
  then obtain v s1 where "lower_expression e cx s = Some (v, s1)" "s' = emit (Build_return (Some v)) s1"
    by (auto simp: bind_Some_iff)
  then show ?case using marks_trans [OF marks_expression marks_emit] by fastforce
qed (fastforce simp: bind_Some_iff Let_def intro: marks_constant
      dest: marks_trans [OF marks_trans [OF marks_markers(1)] marks_markers(2)]
        marks_trans [OF marks_trans [OF marks_markers(3)] marks_markers(4)]
        marks_trans [OF marks_trans [OF marks_markers(5)] marks_markers(6)]
        marks_trans [OF marks_trans [OF marks_markers(7)] marks_markers(8)]
        marks_trans)+

end
