(* ===== verification/CodegenTotal.thy ===== *)
theory CodegenTotal
  imports CodegenFacts
begin

text \<open>
  The subset of the language the code generator supports, as a scan of the syntax with the names
  of the constants defined so far, and that lowering returns exactly on it.
\<close>

fun literal_supported :: "literal \<Rightarrow> bool" where
  "literal_supported (Lit_Bool _ _ _) = True"
| "literal_supported (Lit_Number _ _ _) = True"
| "literal_supported _ = False"

fun expression_supported :: "typed_context \<Rightarrow> string list \<Rightarrow> expression \<Rightarrow> bool" where
  "expression_supported cx names (Expr_Literal l) = literal_supported l"
| "expression_supported cx names (Expr_Identifier x) = (ident_name x \<in> set names)"
| "expression_supported cx names (Expr_Uzumaki i _) = (is_node_i32 i cx \<or> is_node_i64 i cx)"
| "expression_supported cx names _ = False"

fun is_number_literal :: "literal \<Rightarrow> bool" where
  "is_number_literal (Lit_Number _ _ _) = True"
| "is_number_literal _ = False"

definition constant_supported :: "typed_context \<Rightarrow> constant_definition \<Rightarrow> bool" where
  "constant_supported cx d \<longleftrightarrow>
     map_option ti_kind (get_node_typeinfo (cd_id d) cx) = Some (Kind_Number Num_I32)
     \<and> is_number_literal (cd_value d)"

text \<open>The names after a statement, when the statement is supported.\<close>

fun scan_statement :: "typed_context \<Rightarrow> statement \<Rightarrow> string list \<Rightarrow> string list option"
  and scan_statements :: "typed_context \<Rightarrow> statement list \<Rightarrow> string list \<Rightarrow> string list option" where
  "scan_statement cx (Stmt_Block (Block_Block _ _ ss)) names = scan_statements cx ss names"
| "scan_statement cx (Stmt_Block (Block_Forall _ _ ss)) names = scan_statements cx ss names"
| "scan_statement cx (Stmt_Block (Block_Assume _ _ ss)) names = scan_statements cx ss names"
| "scan_statement cx (Stmt_Block (Block_Exists _ _ ss)) names = scan_statements cx ss names"
| "scan_statement cx (Stmt_Block (Block_Unique _ _ ss)) names = scan_statements cx ss names"
| "scan_statement cx (Stmt_Expression e) names =
     (if expression_supported cx names e then Some names else None)"
| "scan_statement cx (Stmt_Return _ _ e) names =
     (if expression_supported cx names e then Some names else None)"
| "scan_statement cx (Stmt_VariableDefinition _ _ _ _ _ _) names = Some names"
| "scan_statement cx (Stmt_ConstantDefinition d) names =
     (if constant_supported cx d then Some (ident_name (cd_name d) # names) else None)"
| "scan_statement cx _ names = None"
| "scan_statements cx [] names = Some names"
| "scan_statements cx (st # ss) names =
     do { names1 \<leftarrow> scan_statement cx st names; scan_statements cx ss names1 }"

section \<open>Agreement\<close>

definition names_of :: "compiler \<Rightarrow> string list \<Rightarrow> bool" where
  "names_of s names \<longleftrightarrow> dom (cg_variables s) = set names"

lemma variables_emit [simp]: "cg_variables (emit c s) = cg_variables s"
  by (simp add: emit_def)

lemma variables_get_or_add [simp]: "cg_variables (get_or_add_function n t s) = cg_variables s"
  by (simp add: get_or_add_function_def)

lemma variables_call_intrinsic:
  "cg_variables (snd (get s)) = cg_variables s \<Longrightarrow> cg_variables (call_intrinsic get s) = cg_variables s"
  by (cases "get s") (simp add: call_intrinsic_def)

lemma variables_markers [simp]:
  "cg_variables (call_intrinsic forall_start_intrinsic s) = cg_variables s"
  "cg_variables (call_intrinsic forall_end_intrinsic s) = cg_variables s"
  "cg_variables (call_intrinsic exists_start_intrinsic s) = cg_variables s"
  "cg_variables (call_intrinsic exists_end_intrinsic s) = cg_variables s"
  "cg_variables (call_intrinsic assume_start_intrinsic s) = cg_variables s"
  "cg_variables (call_intrinsic assume_end_intrinsic s) = cg_variables s"
  "cg_variables (call_intrinsic unique_start_intrinsic s) = cg_variables s"
  "cg_variables (call_intrinsic unique_end_intrinsic s) = cg_variables s"
  by (rule variables_call_intrinsic, simp add: intrinsic_accessors)+

lemma lower_expression_variables:
  "lower_expression e cx s = Some (v, s') \<Longrightarrow> cg_variables s' = cg_variables s"
  by (cases e) (auto simp: bind_Some_iff lower_uzumaki_i32_expression_def
      lower_uzumaki_i64_expression_def intrinsic_accessors split: if_splits)

lemma lower_expression_iff:
  "names_of s names \<Longrightarrow> lower_expression e cx s = None \<longleftrightarrow> \<not> expression_supported cx names e"
proof (cases e)
  case (Expr_Literal l)
  then show ?thesis by (cases l) auto
next
  case (Expr_Identifier x)
  assume "names_of s names"
  then show ?thesis
    using Expr_Identifier by (cases "cg_variables s (ident_name x)") (auto simp: names_of_def)
qed auto

lemma lower_constant_scan:
  assumes "names_of s names"
  shows "(lower_constant d cx s = None \<longleftrightarrow> \<not> constant_supported cx d)
         \<and> (\<forall>s'. lower_constant d cx s = Some s' \<longrightarrow> names_of s' (ident_name (cd_name d) # names))"
  using assms
  by (cases "cd_value d"; cases "get_node_typeinfo (cd_id d) cx")
    (auto simp: lower_constant_def constant_supported_def Let_def names_of_def)

lemma lower_expression_cases:
  assumes "names_of s names"
  obtains "lower_expression e cx s = None" "\<not> expression_supported cx names e"
  | v s' where "lower_expression e cx s = Some (v, s')" "expression_supported cx names e"
      "names_of s' names"
proof (cases "lower_expression e cx s")
  case None
  then show ?thesis using that(1) lower_expression_iff [OF assms] by simp
next
  case (Some r)
  obtain v s' where r: "r = (v, s')" by (cases r)
  have "expression_supported cx names e"
    using lower_expression_iff [OF assms, of e cx] Some by simp
  moreover have "names_of s' names"
    using assms lower_expression_variables [of e cx s v s'] Some r by (simp add: names_of_def)
  ultimately show ?thesis using that(2) Some r by blast
qed

text \<open>
  Lowering and the scan go the same way: both stop, or both give the same names. A result agrees with
  an outcome of the scan when this holds of the two.
\<close>

definition agrees :: "compiler option \<Rightarrow> string list option \<Rightarrow> bool" where
  "agrees r n = rel_option names_of r n"

lemma agrees_simps [simp]:
  "agrees None n = (n = None)"
  "agrees r None = (r = None)"
  "agrees (Some s) (Some names) = names_of s names"
  by (cases n; simp add: agrees_def) (cases r; simp add: agrees_def)+

lemma agrees_map:
  "agrees r n \<Longrightarrow> (\<And>s. cg_variables (g s) = cg_variables s) \<Longrightarrow>
   agrees (r \<bind> (\<lambda>s. Some (g s))) n"
  by (cases r; cases n) (auto simp: names_of_def)

lemma names_of_variables: "cg_variables s' = cg_variables s \<Longrightarrow> names_of s' names = names_of s names"
  by (simp add: names_of_def)

lemma lower_constant_agrees:
  assumes "names_of s names"
  shows "agrees (lower_constant d cx s) (scan_statement cx (Stmt_ConstantDefinition d) names)"
  using lower_constant_scan [OF assms, of d cx] by (cases "lower_constant d cx s") auto

lemma lower_scan:
  shows "names_of s names \<Longrightarrow> stack \<noteq> [] \<Longrightarrow>
           agrees (lower_statement st remaining stack cx s) (scan_statement cx st names)"
    and "names_of s names \<Longrightarrow> stack \<noteq> [] \<Longrightarrow>
           agrees (lower_statements ss stack cx s) (scan_statements cx ss names)"
proof (induction st remaining stack cx s and ss stack cx s arbitrary: names and names
    rule: lower_statement_lower_statements.induct)
  case (2 i l ss remaining stack cx s)
  have "names_of (call_intrinsic forall_start_intrinsic s) names"
    using "2.prems"(1) by (simp add: names_of_def)
  then show ?case using "2.IH" by (simp add: Let_def agrees_map)
next
  case (3 i l ss remaining stack cx s)
  have "names_of (call_intrinsic assume_start_intrinsic s) names"
    using "3.prems"(1) by (simp add: names_of_def)
  then show ?case using "3.IH" by (simp add: Let_def agrees_map)
next
  case (4 i l ss remaining stack cx s)
  have "names_of (call_intrinsic exists_start_intrinsic s) names"
    using "4.prems"(1) by (simp add: names_of_def)
  then show ?case using "4.IH" by (simp add: Let_def agrees_map)
next
  case (5 i l ss remaining stack cx s)
  have "names_of (call_intrinsic unique_start_intrinsic s) names"
    using "5.prems"(1) by (simp add: names_of_def)
  then show ?case using "5.IH" by (simp add: Let_def agrees_map)
next
  case (6 e remaining stack cx s)
  show ?case
    by (rule lower_expression_cases [OF "6.prems"(1), of e cx])
      (use "6.prems"(2) in \<open>auto simp: names_of_def split: list.split\<close>)
next
  case (7 i l e remaining stack cx s)
  show ?case
    by (rule lower_expression_cases [OF "7.prems"(1), of e cx]) (auto simp: names_of_def)
next
  case (9 d remaining stack cx s)
  show ?case using lower_constant_agrees [OF "9.prems"(1)] by simp
next
  case (12 st ss stack cx s)
  have st: "agrees (lower_statement st [] stack cx s) (scan_statement cx st names)"
    using "12.IH"(1) "12.prems" by simp
  show ?case
  proof (cases "lower_statement st [] stack cx s")
    case None
    then show ?thesis using st by simp
  next
    case (Some s1)
    then obtain names1 where "scan_statement cx st names = Some names1" "names_of s1 names1"
      using st by (cases "scan_statement cx st names") auto
    then show ?thesis using Some "12.IH"(2) "12.prems"(2) by simp
  qed
qed simp_all

end
