(* ===== verification/CodegenProperties.thy ===== *)
theory CodegenProperties
  imports CodegenTotal
begin

text \<open>The properties of the code generator, with their witnesses.\<close>

section \<open>What a function adds to the trace\<close>

text \<open>The state in which the body of a function is lowered.\<close>

definition function_prologue :: "function_definition \<Rightarrow> llvm_type \<Rightarrow> compiler \<Rightarrow> compiler" where
  "function_prologue f t s =
     (let name = ident_name (fd_name f);
          public = (fd_visibility f = Public);
          is_main = (name = ''main'');
          s1 = emit (Add_function name t) s;
          s2 = (if public \<and> \<not> is_main then emit (Add_export name name) s1 else s1);
          s3 = (if is_main \<and> public then s2\<lparr>cg_has_main := True\<rparr> else s2);
          s4 = (if function_is_non_det f then add_optimization_barriers name s3 else s3)
      in emit (Append_block name) s4)"

lemma visit_function_bind:
  "visit_function_definition f cx s =
     do { t \<leftarrow> return_type (fd_returns f);
          s1 \<leftarrow> lower_statement (Stmt_Block (fd_body f)) [] [fd_body f] cx (function_prologue f t s);
          Some (if function_is_void f then emit (Build_return None) s1 else s1) }"
  by (simp only: visit_function_definition_def function_prologue_def Let_def)

lemma visit_function_SomeE:
  assumes "visit_function_definition f cx s = Some s'"
  obtains t s1 where "return_type (fd_returns f) = Some t"
    "lower_statement (Stmt_Block (fd_body f)) [] [fd_body f] cx (function_prologue f t s) = Some s1"
    "s' = (if function_is_void f then emit (Build_return None) s1 else s1)"
  using assms unfolding visit_function_bind bind_Some_iff by blast

lemma prologue_marks: "marks [] s (function_prologue f t s)"
  by (auto simp: function_prologue_def Let_def marks_def emit_def add_optimization_barriers_def)

lemma prologue_exported:
  "exported (function_prologue f t s) =
     exported s @ (if fd_visibility f = Public \<and> ident_name (fd_name f) \<noteq> ''main''
                   then [ident_name (fd_name f)] else [])"
  by (simp add: function_prologue_def Let_def add_optimization_barriers_def)

lemma prologue_main:
  "cg_has_main (function_prologue f t s) =
     (cg_has_main s \<or> fd_visibility f = Public \<and> ident_name (fd_name f) = ''main'')"
  by (auto simp: function_prologue_def Let_def emit_def add_optimization_barriers_def)

lemma prologue_barriers:
  "barriers (function_prologue f t s) =
     barriers s @ (if function_is_non_det f then [ident_name (fd_name f)] else [])"
  by (simp add: function_prologue_def Let_def add_optimization_barriers_def)

lemma prologue_declared: "declared (function_prologue f t s) = declared s @ [ident_name (fd_name f)]"
  by (simp add: function_prologue_def Let_def add_optimization_barriers_def)

lemma prologue_variables: "cg_variables (function_prologue f t s) = cg_variables s"
  by (simp add: function_prologue_def Let_def emit_def add_optimization_barriers_def)

section \<open>Blocks\<close>

definition closing_marker :: "string \<Rightarrow> string option" where
  "closing_marker m = map_of
     [(FORALL_START_INTRINSIC, FORALL_END_INTRINSIC), (EXISTS_START_INTRINSIC, EXISTS_END_INTRINSIC),
      (ASSUME_START_INTRINSIC, ASSUME_END_INTRINSIC), (UNIQUE_START_INTRINSIC, UNIQUE_END_INTRINSIC)] m"

text \<open>The markers still to come, innermost first, are \<open>open\<close>.\<close>

fun well_nested :: "string list \<Rightarrow> string list \<Rightarrow> bool" where
  "well_nested [] opened = (opened = [])"
| "well_nested (m # ms) opened =
     (case closing_marker m of
        Some e \<Rightarrow> well_nested ms (e # opened)
      | None \<Rightarrow> (case opened of [] \<Rightarrow> False | e # es \<Rightarrow> m = e \<and> well_nested ms es))"

lemmas marker_names =
  FORALL_START_INTRINSIC_def FORALL_END_INTRINSIC_def EXISTS_START_INTRINSIC_def
  EXISTS_END_INTRINSIC_def ASSUME_START_INTRINSIC_def ASSUME_END_INTRINSIC_def
  UNIQUE_START_INTRINSIC_def UNIQUE_END_INTRINSIC_def

lemma closing_markers [simp]:
  "closing_marker FORALL_START_INTRINSIC = Some FORALL_END_INTRINSIC"
  "closing_marker EXISTS_START_INTRINSIC = Some EXISTS_END_INTRINSIC"
  "closing_marker ASSUME_START_INTRINSIC = Some ASSUME_END_INTRINSIC"
  "closing_marker UNIQUE_START_INTRINSIC = Some UNIQUE_END_INTRINSIC"
  "closing_marker FORALL_END_INTRINSIC = None"
  "closing_marker EXISTS_END_INTRINSIC = None"
  "closing_marker ASSUME_END_INTRINSIC = None"
  "closing_marker UNIQUE_END_INTRINSIC = None"
  by (simp_all add: closing_marker_def marker_names)

lemma block_markers_nested:
  shows "well_nested (block_markers b @ ms) opened = well_nested ms opened"
    and "well_nested (statement_markers st @ ms) opened = well_nested ms opened"
proof (induction b and st arbitrary: ms opened and ms opened
    rule: block_markers_statement_markers.induct)
  have seq: "(\<And>st ms opened. st \<in> set ss \<Longrightarrow>
               well_nested (statement_markers st @ ms) opened = well_nested ms opened) \<Longrightarrow>
             well_nested (concat (map statement_markers ss) @ ms) opened = well_nested ms opened"
    for ss ms opened
    by (induction ss arbitrary: ms) auto
  {
    case (1 i l ss)
    then show ?case using seq [of ss ms opened] by simp
  next
    case (2 i l ss)
    then show ?case using seq [of ss "FORALL_END_INTRINSIC # ms" "FORALL_END_INTRINSIC # opened"] by simp
  next
    case (3 i l ss)
    then show ?case using seq [of ss "ASSUME_END_INTRINSIC # ms" "ASSUME_END_INTRINSIC # opened"] by simp
  next
    case (4 i l ss)
    then show ?case using seq [of ss "EXISTS_END_INTRINSIC # ms" "EXISTS_END_INTRINSIC # opened"] by simp
  next
    case (5 i l ss)
    then show ?case using seq [of ss "UNIQUE_END_INTRINSIC # ms" "UNIQUE_END_INTRINSIC # opened"] by simp
  }
qed simp_all

definition no_location :: location where
  "no_location = default_location"

definition an_ident :: "string \<Rightarrow> ident" where
  "an_ident n = \<lparr>ident_id = 9, ident_location = no_location, ident_name = n\<rparr>"

definition a_function :: "string \<Rightarrow> ty option \<Rightarrow> block_type \<Rightarrow> function_definition" where
  "a_function n r b = \<lparr>fd_id = 1, fd_location = no_location, fd_visibility = Public,
     fd_name = an_ident n, fd_type_parameters = None, fd_arguments = None, fd_returns = r,
     fd_body = b\<rparr>"

definition quantified_body :: block_type where
  "quantified_body = Block_Block 2 no_location
     [Stmt_Block (Block_Forall 3 no_location
        [Stmt_Block (Block_Exists 4 no_location [Stmt_Expression (Expr_Literal (Lit_Bool 5 no_location True))])])]"

definition quantified_function :: function_definition where
  "quantified_function = a_function ''f'' None quantified_body"

text \<open>A context in which node 7 is an \<open>i32\<close>.\<close>

definition some_context :: typed_context where
  "some_context = (typed_context_new empty_arena)
     \<lparr>cx_node_types := [7 \<mapsto> TypeInfo (Kind_Number Num_I32) []]\<rparr>"

definition constant_statement :: "string \<Rightarrow> string \<Rightarrow> statement" where
  "constant_statement n v = Stmt_ConstantDefinition
     \<lparr>cd_id = 7, cd_location = no_location, cd_visibility = Private, cd_name = an_ident n,
      cd_ty = Type_Simple Simple_I32, cd_value = Lit_Number 8 no_location v\<rparr>"

definition constant_function :: function_definition where
  "constant_function = a_function ''g'' (Some (Type_Simple Simple_I32))
     (Block_Block 10 no_location [constant_statement ''x'' ''5'',
        Stmt_Return 11 no_location (Expr_Identifier (an_ident ''x''))])"

lemma visit_function_returns_iff:
  assumes "names_of s names"
  shows "(\<exists>s'. visit_function_definition f cx s = Some s') \<longleftrightarrow>
           (\<exists>t. return_type (fd_returns f) = Some t)
           \<and> (\<exists>names'. scan_statement cx (Stmt_Block (fd_body f)) names = Some names')"
proof (cases "return_type (fd_returns f)")
  case (Some t)
  have "names_of (function_prologue f t s) names"
    using assms by (simp add: names_of_def prologue_variables)
  then show ?thesis
    using lower_scan(1) [of "function_prologue f t s" names "[fd_body f]" "Stmt_Block (fd_body f)" "[]" cx]
      Some
    by (cases "lower_statement (Stmt_Block (fd_body f)) [] [fd_body f] cx (function_prologue f t s)";
        cases "scan_statement cx (Stmt_Block (fd_body f)) names") (auto simp: visit_function_bind)
qed (simp add: visit_function_bind)

lemma names_of_new: "names_of compiler_new []"
  by (simp add: names_of_def compiler_new_def)

lemma Some_the_iff: "(\<exists>x. r = Some x) \<longleftrightarrow> r = Some (the r)"
  by (cases r) simp_all

lemmas example_defs =
  quantified_function_def constant_function_def a_function_def quantified_body_def an_ident_def
  constant_statement_def some_context_def constant_supported_def get_node_typeinfo_def

lemma lowers_quantified:
  "visit_function_definition quantified_function some_context compiler_new
     = Some (the (visit_function_definition quantified_function some_context compiler_new))"
  unfolding Some_the_iff [symmetric] visit_function_returns_iff [OF names_of_new]
  by (simp add: example_defs)

lemma lowers_constant:
  "visit_functions [constant_function] some_context compiler_new
     = Some (the (visit_functions [constant_function] some_context compiler_new))"
proof -
  have "\<exists>s. visit_function_definition constant_function some_context compiler_new = Some s"
    unfolding visit_function_returns_iff [OF names_of_new] by (simp add: example_defs)
  then show ?thesis by auto
qed

lemma visit_function_marks:
  assumes "visit_function_definition f cx s = Some s'"
  shows "marks (block_markers (fd_body f)) s s'"
proof -
  obtain t s1 where body: "lower_statement (Stmt_Block (fd_body f)) [] [fd_body f] cx
      (function_prologue f t s) = Some s1"
    and s': "s' = (if function_is_void f then emit (Build_return None) s1 else s1)"
    using visit_function_SomeE [OF assms] by blast
  have "marks [] s1 s'" using s' by (simp add: marks_emit)
  then show ?thesis
    using marks_trans [OF marks_trans [OF prologue_marks marks_lower(1) [OF body]]] by fastforce
qed

text \<open>C37: The marker intrinsics a function calls mirror the nesting of its blocks: the calls are the
  markers of the body in source order, a start and an end for every \<open>forall\<close>, \<open>exists\<close>, \<open>assume\<close> and
  \<open>unique\<close> block around the markers of its statements, and so they are well nested.\<close>

theorem markers_mirror_blocks:
  assumes "visit_function_definition f cx s = Some s'"
  shows "\<exists>cs. cg_calls s' = cg_calls s @ cs \<and> called_markers cs = block_markers (fd_body f)
              \<and> well_nested (called_markers cs) []"
proof -
  obtain cs where "cg_calls s' = cg_calls s @ cs" "called_markers cs = block_markers (fd_body f)"
    using visit_function_marks [OF assms] by (auto simp: marks_def)
  moreover have "well_nested (block_markers (fd_body f)) []"
    using block_markers_nested(1) [of "fd_body f" "[]" "[]"] by simp
  ultimately show ?thesis by auto
qed

theorem markers_mirror_blocks_witness:
  "\<exists>cs. cg_calls (the (visit_function_definition quantified_function some_context compiler_new)) = cs
        \<and> called_markers cs = [FORALL_START_INTRINSIC, EXISTS_START_INTRINSIC,
             EXISTS_END_INTRINSIC, FORALL_END_INTRINSIC]
        \<and> well_nested (called_markers cs) []"
  using markers_mirror_blocks [OF lowers_quantified]
  by (simp add: compiler_new_def quantified_function_def a_function_def quantified_body_def)

section \<open>Which functions are lowered\<close>

text \<open>C38: Code generation of a function returns exactly when its result is a primitive type or absent
  and its body stays in the supported subset: literals of numbers and booleans, names of constants
  defined before, typed uzumaki expressions, returns, \<open>i32\<close> constants, blocks and (ignored) variable
  definitions. Everything else panics.\<close>

theorem lowering_returns_iff_supported:
  assumes "names_of s names"
  shows "(\<exists>s'. visit_function_definition f cx s = Some s') \<longleftrightarrow>
           (\<exists>t. return_type (fd_returns f) = Some t)
           \<and> (\<exists>names'. scan_statement cx (Stmt_Block (fd_body f)) names = Some names')"
  using assms by (rule visit_function_returns_iff)

theorem lowering_returns_iff_supported_witness:
  "(\<exists>s'. visit_function_definition constant_function some_context compiler_new = Some s')
   \<and> visit_function_definition
       (a_function ''h'' None (Block_Block 10 no_location [Stmt_Break 11 no_location]))
       some_context compiler_new = None"
  unfolding not_Some_eq [symmetric] not_ex [symmetric]
    lowering_returns_iff_supported [OF names_of_new]
  by (simp add: example_defs)

section \<open>Declarations and exports\<close>

lemma visit_function_declares:
  assumes "visit_function_definition f cx s = Some s'"
  obtains ns where "declared s' = declared s @ ident_name (fd_name f) # ns" "distinct ns"
    "set ns \<subseteq> set intrinsics" "set ns \<inter> set (declared s) = {}" "ident_name (fd_name f) \<notin> set ns"
proof -
  obtain t s1 where body: "lower_statement (Stmt_Block (fd_body f)) [] [fd_body f] cx
      (function_prologue f t s) = Some s1"
    and s': "s' = (if function_is_void f then emit (Build_return None) s1 else s1)"
    using visit_function_SomeE [OF assms] by blast
  have "declared s' = declared s1" using s' by simp
  moreover have "declares_once (function_prologue f t s) s1" by (rule declared_once.R_lower(1) [OF body])
  ultimately show ?thesis using that unfolding declares_once_def prologue_declared by auto
qed

text \<open>Over all functions of a module with different names, none of them an intrinsic, no function is
  declared twice: each intrinsic is added at its first use only and found by its name afterwards.\<close>

theorem functions_declared_once:
  assumes "visit_functions fs cx s = Some s'"
    and "distinct (map (\<lambda>f. ident_name (fd_name f)) fs)"
    and "\<forall>f\<in>set fs. ident_name (fd_name f) \<notin> set (declared s) \<union> set intrinsics"
    and "distinct (declared s)"
  shows "distinct (declared s')
         \<and> set (declared s') \<subseteq> set (declared s) \<union> set (map (\<lambda>f. ident_name (fd_name f)) fs) \<union> set intrinsics"
  using assms
proof (induction fs arbitrary: s)
  case (Cons f fs)
  obtain s1 where f: "visit_function_definition f cx s = Some s1" and fs: "visit_functions fs cx s1 = Some s'"
    using Cons.prems(1) by (auto simp: bind_Some_iff)
  obtain ns where ns: "declared s1 = declared s @ ident_name (fd_name f) # ns" "distinct ns"
    "set ns \<subseteq> set intrinsics" "set ns \<inter> set (declared s) = {}" "ident_name (fd_name f) \<notin> set ns"
    using visit_function_declares [OF f] Cons.prems(3) by auto
  have "distinct (declared s1)" using ns Cons.prems(3,4) by auto
  moreover have "\<forall>g\<in>set fs. ident_name (fd_name g) \<notin> set (declared s1) \<union> set intrinsics"
  proof
    fix g assume "g \<in> set fs"
    then have "ident_name (fd_name g) \<noteq> ident_name (fd_name f)"
      "ident_name (fd_name g) \<notin> set (declared s) \<union> set intrinsics"
      using Cons.prems(2,3) by (auto simp: image_iff)
    then show "ident_name (fd_name g) \<notin> set (declared s1) \<union> set intrinsics" using ns(1,3) by auto
  qed
  moreover have "distinct (map (\<lambda>f. ident_name (fd_name f)) fs)" using Cons.prems(2) by simp
  ultimately have rest: "distinct (declared s')
      \<and> set (declared s') \<subseteq> set (declared s1) \<union> set (map (\<lambda>f. ident_name (fd_name f)) fs) \<union> set intrinsics"
    using Cons.IH [OF fs] by blast
  have "set (declared s1) \<subseteq> set (declared s) \<union> {ident_name (fd_name f)} \<union> set intrinsics"
    using ns(1,3) by auto
  then show ?case using rest by auto
qed simp

theorem functions_declared_once_witness:
  "distinct (declared (the (visit_functions [constant_function] some_context compiler_new)))"
  by (rule functions_declared_once [OF lowers_constant, THEN conjunct1])
    (simp_all add: constant_function_def a_function_def an_ident_def declared_def compiler_new_def
      List.map_filter_def intrinsics_def marker_names UZUMAKI_I32_INTRINSIC_def UZUMAKI_I64_INTRINSIC_def)

lemma visit_function_keeps:
  assumes "visit_function_definition f cx s = Some s'"
  obtains t where "exported s' = exported (function_prologue f t s)"
    "cg_has_main s' = cg_has_main (function_prologue f t s)"
    "barriers s' = barriers (function_prologue f t s)"
proof -
  obtain t s1 where body: "lower_statement (Stmt_Block (fd_body f)) [] [fd_body f] cx
      (function_prologue f t s) = Some s1"
    and s': "s' = (if function_is_void f then emit (Build_return None) s1 else s1)"
    using visit_function_SomeE [OF assms] by blast
  have "keeps_exports (function_prologue f t s) s1" by (rule exports_kept.R_lower(1) [OF body])
  moreover have "keeps_main (function_prologue f t s) s1" by (rule main_kept.R_lower(1) [OF body])
  moreover have "keeps_barriers (function_prologue f t s) s1" by (rule barriers_kept.R_lower(1) [OF body])
  ultimately show ?thesis
    using that [of t] s' main_kept.R_emit [of "Build_return None" s1]
    by (cases "function_is_void f") (auto simp: keeps_exports_def keeps_main_def keeps_barriers_def)
qed

text \<open>C39: A module exports exactly its public functions other than \<open>main\<close>, in source order and under
  their names, and asks the linker for \<open>main\<close> exactly when one of its functions is a public \<open>main\<close>.\<close>

theorem exports_are_public_functions:
  assumes "visit_functions fs cx s = Some s'"
  shows "exported s' = exported s @
           map (\<lambda>f. ident_name (fd_name f))
             (filter (\<lambda>f. fd_visibility f = Public \<and> ident_name (fd_name f) \<noteq> ''main'') fs)
         \<and> cg_has_main s' =
           (cg_has_main s \<or> list_ex (\<lambda>f. fd_visibility f = Public \<and> ident_name (fd_name f) = ''main'') fs)"
  using assms
proof (induction fs arbitrary: s)
  case (Cons f fs)
  obtain s1 where f: "visit_function_definition f cx s = Some s1" and fs: "visit_functions fs cx s1 = Some s'"
    using Cons.prems(1) by (auto simp: bind_Some_iff)
  obtain t where t: "exported s1 = exported (function_prologue f t s)"
    "cg_has_main s1 = cg_has_main (function_prologue f t s)"
    using visit_function_keeps [OF f] by blast
  show ?case using Cons.IH [OF fs] unfolding t prologue_exported prologue_main by auto
qed simp

theorem exports_are_public_functions_witness:
  "exported (the (visit_functions [constant_function] some_context compiler_new)) = [''g'']"
  using exports_are_public_functions [OF lowers_constant]
  by (simp add: constant_function_def a_function_def an_ident_def exported_def compiler_new_def
      List.map_filter_def)

section \<open>Barriers\<close>

text \<open>A function is protected from optimisation (\<open>optnone\<close>, \<open>noinline\<close>) exactly when one of the
  outermost statements of its body is non-deterministic, while the markers it calls come from all
  nested blocks: quantified blocks inside a plain block inside the body get no protection.\<close>

theorem barriers_depend_on_outer_statements:
  assumes "visit_function_definition f cx s = Some s'" and "fd_body f = Block_Block i l ss"
  shows "barriers s' = barriers s @ (if list_ex statement_is_non_det ss then [ident_name (fd_name f)] else [])
         \<and> marks (concat (map statement_markers ss)) s s'"
proof -
  obtain t where "barriers s' = barriers (function_prologue f t s)"
    using visit_function_keeps [OF assms(1)] by blast
  then show ?thesis
    using visit_function_marks [OF assms(1)] assms(2)
    by (simp add: prologue_barriers function_is_non_det_def)
qed

definition sheltered_function :: function_definition where
  "sheltered_function = a_function ''f'' None
     (Block_Block 20 no_location [Stmt_Block quantified_body])"

lemma lowers_sheltered:
  "visit_function_definition sheltered_function some_context compiler_new
     = Some (the (visit_function_definition sheltered_function some_context compiler_new))"
  unfolding Some_the_iff [symmetric] visit_function_returns_iff [OF names_of_new]
  by (simp add: example_defs sheltered_function_def)

theorem barriers_depend_on_outer_statements_witness:
  "barriers (the (visit_function_definition sheltered_function some_context compiler_new)) = []
   \<and> marks [FORALL_START_INTRINSIC, EXISTS_START_INTRINSIC, EXISTS_END_INTRINSIC, FORALL_END_INTRINSIC]
       compiler_new (the (visit_function_definition sheltered_function some_context compiler_new))"
  using barriers_depend_on_outer_statements [OF lowers_sheltered,
      of 20 no_location "[Stmt_Block quantified_body]"]
  by (simp add: sheltered_function_def example_defs compiler_new_def barriers_def List.map_filter_def)

section \<open>Variables and literals\<close>

text \<open>A variable definition is ignored and the table of variables outlives the function: a function
  that defines a variable and returns it loads the constant of that name an earlier function or
  block left behind, whatever the value of the variable, and panics when there is none.\<close>

theorem ignored_variable_reads_earlier_constant:
  assumes "return_type (fd_returns f) = Some t" and "\<not> function_is_void f"
    and "fd_body f = Block_Block i l [Stmt_VariableDefinition j m x a v u,
           Stmt_Return k n (Expr_Identifier x)]"
  shows "visit_function_definition f cx s =
     (case cg_variables s (ident_name x) of
        None \<Rightarrow> None
      | Some (ptr, lt) \<Rightarrow>
          (let s1 = function_prologue f t s
           in Some (emit (Build_return (Some (Call_result (next_value s1))))
                     (emit (Build_load lt ptr (ident_name x)) s1))))"
  using assms
  by (cases "cg_variables s (ident_name x)")
    (auto simp: visit_function_bind prologue_variables Let_def split: prod.split)

definition variable_function :: function_definition where
  "variable_function = a_function ''f'' (Some (Type_Simple Simple_I32))
     (Block_Block 30 no_location
       [Stmt_VariableDefinition 31 no_location (an_ident ''x'') (Type_Simple Simple_I32)
          (Some (Expr_Literal (Lit_Number 32 no_location ''7''))) False,
        Stmt_Return 33 no_location (Expr_Identifier (an_ident ''x''))])"

theorem ignored_variable_reads_earlier_constant_witness:
  "visit_function_definition variable_function some_context compiler_new = None
   \<and> visit_function_definition variable_function some_context
        (compiler_new\<lparr>cg_variables := [''x'' \<mapsto> (2, I32_type)]\<rparr>) \<noteq> None"
proof -
  note f = ignored_variable_reads_earlier_constant [of variable_function I32_type 30 no_location 31
      no_location "an_ident ''x''" "Type_Simple Simple_I32"
      "Some (Expr_Literal (Lit_Number 32 no_location ''7''))" False 33 no_location]
  show ?thesis
    by (subst (1 2) f)
      (simp_all add: variable_function_def a_function_def function_is_void_def an_ident_def
        compiler_new_def Let_def)
qed

text \<open>Whatever the declared result, a number literal that a function returns is lowered to an
  \<open>i32\<close> constant, and a literal that is not a number of 64 bits without a minus sign to zero.\<close>

theorem literal_return_is_i32:
  assumes "return_type (fd_returns f) = Some t" and "\<not> function_is_void f"
    and "fd_body f = Block_Block i l [Stmt_Return k n (Expr_Literal (Lit_Number j m v))]"
  shows "visit_function_definition f cx s =
           Some (emit (Build_return (Some (Const_int I32_type (number_value v)))) (function_prologue f t s))
         \<and> (parse_u64 v = None \<longrightarrow> number_value v = 0)"
  using assms by (simp add: visit_function_bind number_value_def)

definition wide_function :: function_definition where
  "wide_function = a_function ''f'' (Some (Type_Simple Simple_I64))
     (Block_Block 30 no_location
       [Stmt_Return 33 no_location (Expr_Literal (Lit_Number 32 no_location ''-7''))])"

theorem literal_return_is_i32_witness:
  "cg_calls (the (visit_function_definition wide_function some_context compiler_new)) =
     [Add_function ''f'' I64_type, Add_export ''f'' ''f'', Append_block ''f'',
      Build_return (Some (Const_int I32_type 0))]"
proof -
  have "number_value ''-7'' = 0" by code_simp
  moreover have "return_type (fd_returns wide_function) = Some I64_type" "\<not> function_is_void wide_function"
    by (simp_all add: wide_function_def a_function_def function_is_void_def)
  ultimately show ?thesis
    using literal_return_is_i32 [of wide_function I64_type 30 no_location 33 no_location 32
        no_location "''-7''" some_context compiler_new]
    by (simp add: wide_function_def a_function_def function_prologue_def Let_def an_ident_def
        emit_def compiler_new_def function_is_non_det_def expression_is_non_det_def)
qed

end
