(* ===== verification/SyntaxTrees.thy ===== *)
theory SyntaxTrees
  imports AstArena
begin

text \<open>
  The input of the AST builder. The tree-sitter library is not part of the repository: a parse tree is
  plain data to the builder, a node with its kind, its span, and its children, each under a field
  name or none. The accessors are the documented ones of \<open>tree_sitter::Node\<close> that the builder calls.
  The second half is what the builder uses of Rust's UTF-8 functions; a \<open>&str\<close> is its bytes.
\<close>

section \<open>Parse trees\<close>

datatype cst = Cst
  (cst_kind: string)
  (cst_named: bool)
  (cst_start: nat)
  (cst_end: nat)
  (cst_start_point: "nat \<times> nat")
  (cst_end_point: "nat \<times> nat")
  (cst_children: "(string option \<times> cst) list")

definition child_nodes :: "cst \<Rightarrow> cst list" where
  "child_nodes n = map snd (cst_children n)"

definition nth_node :: "nat \<Rightarrow> cst list \<Rightarrow> cst option" where
  "nth_node i ns = (if i < length ns then Some (ns ! i) else None)"

definition child_node :: "nat \<Rightarrow> cst \<Rightarrow> cst option" where
  "child_node i n = nth_node i (child_nodes n)"

definition named_children :: "cst \<Rightarrow> cst list" where
  "named_children n = filter cst_named (child_nodes n)"

definition named_child :: "nat \<Rightarrow> cst \<Rightarrow> cst option" where
  "named_child i n = nth_node i (named_children n)"

definition children_by_field_name :: "string \<Rightarrow> cst \<Rightarrow> cst list" where
  "children_by_field_name f n = map snd (filter (\<lambda>(g, c). g = Some f) (cst_children n))"

definition child_by_field_name :: "string \<Rightarrow> cst \<Rightarrow> cst option" where
  "child_by_field_name f n = nth_node 0 (children_by_field_name f n)"

definition is_error :: "cst \<Rightarrow> bool" where
  "is_error n \<longleftrightarrow> cst_kind n = ''ERROR''"

text \<open>Every node an accessor answers with is a child, and so smaller.\<close>

lemma child_entry_smaller: "(f, c) \<in> set (cst_children n) \<Longrightarrow> size c < size n"
proof (cases n)
  case (Cst k nm a b p q cs)
  assume "(f, c) \<in> set (cst_children n)"
  moreover have "(f, c) \<in> set xs \<Longrightarrow> size c < size_list (size_prod (\<lambda>_. 0) size) xs" for xs
    by (induction xs) auto
  ultimately show ?thesis using Cst by fastforce
qed

lemma child_nodes_smaller [termination_simp]: "c \<in> set (child_nodes n) \<Longrightarrow> size c < size n"
  by (auto simp: child_nodes_def dest: child_entry_smaller)

lemma nth_node_SomeD: "nth_node i ns = Some c \<Longrightarrow> c \<in> set ns"
  by (auto simp: nth_node_def split: if_splits)

lemma child_node_child: "child_node i n = Some c \<Longrightarrow> c \<in> set (child_nodes n)"
  by (auto simp: child_node_def dest: nth_node_SomeD)

lemma named_children_child: "c \<in> set (named_children n) \<Longrightarrow> c \<in> set (child_nodes n)"
  by (simp add: named_children_def)

lemma named_child_child: "named_child i n = Some c \<Longrightarrow> c \<in> set (child_nodes n)"
  by (auto simp: named_child_def dest: nth_node_SomeD named_children_child)

lemma children_by_field_child: "c \<in> set (children_by_field_name f n) \<Longrightarrow> c \<in> set (child_nodes n)"
  by (force simp: children_by_field_name_def child_nodes_def)

lemma child_by_field_child: "child_by_field_name f n = Some c \<Longrightarrow> c \<in> set (child_nodes n)"
  by (auto simp: child_by_field_name_def dest: nth_node_SomeD children_by_field_child)

lemmas accessor_smaller [termination_simp] =
  child_node_child [THEN child_nodes_smaller]
  named_children_child [THEN child_nodes_smaller]
  named_child_child [THEN child_nodes_smaller]
  children_by_field_child [THEN child_nodes_smaller]
  child_by_field_child [THEN child_nodes_smaller]

section \<open>UTF-8\<close>

text \<open>
  The well-formed byte sequences, as the Unicode standard lists them: the length a first byte
  announces, and the range of the second byte, which excludes overlong forms and surrogates.
\<close>

definition utf8_width :: "char \<Rightarrow> nat" where
  "utf8_width c =
     (let b = (of_char c :: nat)
      in if b < 128 then 1
         else if 194 \<le> b \<and> b \<le> 223 then 2
         else if 224 \<le> b \<and> b \<le> 239 then 3
         else if 240 \<le> b \<and> b \<le> 244 then 4 else 0)"

definition utf8_second :: "char \<Rightarrow> char \<Rightarrow> bool" where
  "utf8_second c d =
     (let b = (of_char c :: nat);
          e = (of_char d :: nat)
      in (if b = 224 then 160 else if b = 240 then 144 else 128) \<le> e
         \<and> e \<le> (if b = 237 then 159 else if b = 244 then 143 else 191))"

definition utf8_continuation :: "char \<Rightarrow> bool" where
  "utf8_continuation c = (128 \<le> (of_char c :: nat) \<and> (of_char c :: nat) \<le> 191)"

text \<open>The bytes of the first character, or of the longest prefix of one, and whether it is one.\<close>

definition utf8_head :: "char \<Rightarrow> string \<Rightarrow> nat \<times> bool" where
  "utf8_head c cs =
     (case utf8_width c of
        0 \<Rightarrow> (1, False)
      | Suc rest \<Rightarrow>
          if rest = 0 then (1, True)
          else if cs = [] \<or> \<not> utf8_second c (hd cs) then (1, False)
          else
            (let more = length (takeWhile utf8_continuation (take (rest - 1) (tl cs)))
             in (2 + more, more = rest - 1)))"

function utf8_chunks :: "string \<Rightarrow> (string \<times> bool) list" where
  "utf8_chunks [] = []"
| "utf8_chunks (c # cs) =
     (case utf8_head c cs of
        (k, ok) \<Rightarrow> (take k (c # cs), ok) # utf8_chunks (drop (k - 1) cs))"
  by pat_completeness auto
termination by (relation "measure length") auto

definition from_utf8 :: "string \<Rightarrow> string option" where
  "from_utf8 bs = (if list_all snd (utf8_chunks bs) then Some bs else None)"

definition replacement_character :: string where
  "replacement_character = [char_of (239 :: nat), char_of (191 :: nat), char_of (189 :: nat)]"

text \<open>\<open>String::from_utf8_lossy\<close>, as the list of its characters.\<close>

definition lossy_chars :: "string \<Rightarrow> string list" where
  "lossy_chars bs = map (\<lambda>(c, ok). if ok then c else replacement_character) (utf8_chunks bs)"

text \<open>Indexing a slice of bytes with a range panics out of bounds.\<close>

definition byte_slice :: "string \<Rightarrow> nat \<Rightarrow> nat \<Rightarrow> string option" where
  "byte_slice bs i j = (if i \<le> j \<and> j \<le> length bs then Some (take (j - i) (drop i bs)) else None)"

text \<open>\<open>Node::utf8_text\<close>: a panic outside the code, an error for bytes that are not UTF-8.\<close>

definition utf8_text :: "cst \<Rightarrow> string \<Rightarrow> string option option" where
  "utf8_text n code = map_option from_utf8 (byte_slice code (cst_start n) (cst_end n))"

lemma utf8_chunks_concat: "concat (map fst (utf8_chunks bs)) = bs"
proof (induction bs rule: utf8_chunks.induct)
  case (2 c cs)
  obtain k ok where k: "utf8_head c cs = (k, ok)" by (cases "utf8_head c cs")
  have "k \<noteq> 0" using k by (auto simp: utf8_head_def Let_def split: nat.splits if_splits)
  then have "take k (c # cs) @ drop (k - 1) cs = c # cs" by (cases k) auto
  then show ?case using "2.IH" k by simp
qed simp

lemma from_utf8_lossy: "from_utf8 bs = Some s \<Longrightarrow> s = bs \<and> concat (lossy_chars bs) = bs"
proof -
  assume a: "from_utf8 bs = Some s"
  then have "\<forall>x\<in>set (utf8_chunks bs). snd x" by (auto simp: from_utf8_def list_all_iff split: if_splits)
  then have "lossy_chars bs = map fst (utf8_chunks bs)" by (auto simp: lossy_chars_def)
  then show ?thesis using a utf8_chunks_concat by (auto simp: from_utf8_def split: if_splits)
qed

lemma ascii_chunks: "list_all (\<lambda>c. (of_char c :: nat) < 128) bs \<Longrightarrow> utf8_chunks bs = map (\<lambda>c. ([c], True)) bs"
  by (induction bs) (auto simp: utf8_head_def utf8_width_def Let_def)

end
