(* ===== verification/BuilderState.thy ===== *)
theory BuilderState
  imports SyntaxTrees
begin

text \<open>
  The state of the AST builder (\<open>core/ast/src/builder.rs\<close>), the steps every \<open>build_\<close> function is made
  of, and the leaves of the tree. A function takes the identifier of the parent, the parse tree, the
  code and the state, and returns the node with the new state; \<^term>\<open>None\<close> is a panic: an
  \<open>unwrap\<close> of a child the parse tree does not have, or an assertion of the arena.

  \<open>b_count\<close> is how often the global counter was incremented, counting from its first value, so
  the counter is \<open>b_count\<close> modulo 2 ^ 32.
\<close>

record builder =
  b_arena :: arena
  b_source_code :: "(cst \<times> string) list"
  b_errors :: "string list"
  b_count :: nat

definition builder_new :: "nat \<Rightarrow> builder" where
  "builder_new k = \<lparr>b_arena = empty_arena, b_source_code = [], b_errors = [], b_count = k\<rparr>"

definition add_source_code :: "cst \<Rightarrow> string \<Rightarrow> builder \<Rightarrow> builder option" where
  "add_source_code root code s =
     (if cst_kind root = ''source_file''
      then Some (s\<lparr>b_source_code := b_source_code s @ [(root, code)]\<rparr>) else None)"

section \<open>Sequencing\<close>

text \<open>\<open>unwrap\<close>, \<open>if let Some(...)\<close> and \<open>map\<close> over the children.\<close>

fun required :: "'a option \<Rightarrow> ('a \<Rightarrow> 'b option) \<Rightarrow> 'b option" where
  "required None f = None"
| "required (Some x) f = f x"

fun optional ::
  "'a option \<Rightarrow> ('a \<Rightarrow> builder \<Rightarrow> ('b \<times> builder) option) \<Rightarrow> builder \<Rightarrow> ('b option \<times> builder) option" where
  "optional None f s = Some (None, s)"
| "optional (Some x) f s = do { (y, s1) \<leftarrow> f x s; Some (Some y, s1) }"

fun build_each ::
  "('a \<Rightarrow> builder \<Rightarrow> ('b \<times> builder) option) \<Rightarrow> 'a list \<Rightarrow> builder \<Rightarrow> ('b list \<times> builder) option" where
  "build_each f [] s = Some ([], s)"
| "build_each f (x # xs) s =
     do { (y, s1) \<leftarrow> f x s; (ys, s2) \<leftarrow> build_each f xs s1; Some (y # ys, s2) }"

lemma required_cong [fundef_cong]:
  "m = m' \<Longrightarrow> (\<And>x. m' = Some x \<Longrightarrow> f x = g x) \<Longrightarrow> required m f = required m' g"
  by (cases m') auto

lemma optional_cong [fundef_cong]:
  "m = m' \<Longrightarrow> s = s' \<Longrightarrow> (\<And>x t. m' = Some x \<Longrightarrow> f x t = g x t) \<Longrightarrow> optional m f s = optional m' g s'"
  by (cases m') auto

lemma build_each_cong [fundef_cong]:
  "xs = ys \<Longrightarrow> s = t \<Longrightarrow> (\<And>x u. x \<in> set ys \<Longrightarrow> f x u = g x u) \<Longrightarrow> build_each f xs s = build_each g ys t"
proof (induction ys arbitrary: xs s t)
  case (Cons y ys)
  have "build_each f ys u = build_each g ys u" for u using Cons.IH Cons.prems(3) by simp
  then show ?case using Cons.prems by simp
qed simp

lemma fold_opt_cong [fundef_cong]:
  "xs = ys \<Longrightarrow> s = t \<Longrightarrow> (\<And>x u. x \<in> set ys \<Longrightarrow> f x u = g x u) \<Longrightarrow> fold_opt f xs s = fold_opt g ys t"
proof (induction ys arbitrary: xs s t)
  case (Cons y ys)
  have "fold_opt f ys = fold_opt g ys" using Cons.IH Cons.prems(3) by (intro ext) simp
  then show ?case using Cons.prems by simp
qed simp

text \<open>\<open>Some\<close> of a non-empty vector, \<open>None\<close> of an empty one.\<close>

definition non_empty :: "'a list \<Rightarrow> 'a list option" where
  "non_empty xs = (if xs = [] then None else Some xs)"

section \<open>Identifiers, positions and errors\<close>

definition get_node_id :: "builder \<Rightarrow> nat \<times> builder" where
  "get_node_id s = (b_count s mod 2 ^ 32, s\<lparr>b_count := Suc (b_count s)\<rparr>)"

definition u32 :: "nat \<Rightarrow> nat" where
  "u32 n = n mod 2 ^ 32"

text \<open>Rows and columns are counted from zero in the parse tree and from one in the AST.\<close>

definition get_location :: "cst \<Rightarrow> location" where
  "get_location n =
     \<lparr>offset_start = u32 (cst_start n), offset_end = u32 (cst_end n),
      start_line = u32 (u32 (fst (cst_start_point n)) + 1),
      start_column = u32 (u32 (snd (cst_start_point n)) + 1),
      end_line = u32 (u32 (fst (cst_end_point n)) + 1),
      end_column = u32 (u32 (snd (cst_end_point n)) + 1)\<rparr>"

definition push_builder_error :: "string \<Rightarrow> builder \<Rightarrow> builder" where
  "push_builder_error e s = s\<lparr>b_errors := b_errors s @ [e]\<rparr>"

definition invalid_syntax_message :: "location \<Rightarrow> string \<Rightarrow> string" where
  "invalid_syntax_message l snippet =
     ''Parse error: invalid syntax at line '' @ show_nat (start_line l) @ '':''
       @ show_nat (start_column l) @ '' near '' @ [CHR 0x27]
       @ concat (take 30 (lossy_chars snippet)) @ [CHR 0x27]"

definition collect_error :: "string \<Rightarrow> cst \<Rightarrow> builder \<Rightarrow> builder option" where
  "collect_error code c s =
     (if is_error c then
        (let l = get_location c
         in do { snippet \<leftarrow> byte_slice code (offset_start l) (offset_end l);
                 Some (push_builder_error (invalid_syntax_message l snippet) s) })
      else Some s)"

definition collect_errors :: "cst \<Rightarrow> string \<Rightarrow> builder \<Rightarrow> builder option" where
  "collect_errors n code s = fold_opt (collect_error code) (child_nodes n) s"

definition report_at :: "string \<Rightarrow> cst \<Rightarrow> builder \<Rightarrow> builder" where
  "report_at what n s = push_builder_error (what @ '' at '' @ show_location (get_location n)) s"

text \<open>\<open>''Unexpected definition kind 'x' at line:column''\<close> and its siblings.\<close>

definition report_unexpected :: "string \<Rightarrow> string \<Rightarrow> cst \<Rightarrow> builder \<Rightarrow> builder" where
  "report_unexpected what text n s =
     report_at (what @ '' '' @ [CHR 0x27] @ text @ [CHR 0x27]) n s"

definition get_visibility :: "cst \<Rightarrow> visibility" where
  "get_visibility n = (case child_by_field_name ''visibility'' n of Some _ \<Rightarrow> Public | None \<Rightarrow> Private)"

text \<open>The first two statements and the last one of most functions.\<close>

definition begin_node :: "cst \<Rightarrow> string \<Rightarrow> builder \<Rightarrow> (nat \<times> builder) option" where
  "begin_node n code s = do { s1 \<leftarrow> collect_errors n code s; Some (get_node_id s1) }"

definition arena_add :: "ast_node \<Rightarrow> nat \<Rightarrow> builder \<Rightarrow> builder option" where
  "arena_add n parent s = do { a \<leftarrow> add_node n parent (b_arena s); Some (s\<lparr>b_arena := a\<rparr>) }"

text \<open>\<open>utf8_text(code).unwrap()\<close>\<close>

definition node_text :: "cst \<Rightarrow> string \<Rightarrow> string option" where
  "node_text n code = Option.bind (utf8_text n code) (\<lambda>t. t)"

section \<open>Leaves\<close>

definition build_identifier :: "nat \<Rightarrow> cst \<Rightarrow> string \<Rightarrow> builder \<Rightarrow> (ident \<times> builder) option" where
  "build_identifier parent n code s =
     do { (i, s1) \<leftarrow> begin_node n code s;
          name \<leftarrow> node_text n code;
          let x = \<lparr>ident_id = i, ident_location = get_location n, ident_name = name\<rparr>;
          s2 \<leftarrow> arena_add (Node_Expression (Expr_Identifier x)) parent s1;
          Some (x, s2) }"

definition build_bool_literal :: "nat \<Rightarrow> cst \<Rightarrow> string \<Rightarrow> builder \<Rightarrow> (literal \<times> builder) option" where
  "build_bool_literal parent n code s =
     do { (i, s1) \<leftarrow> begin_node n code s;
          t \<leftarrow> utf8_text n code;
          let text = (case t of Some x \<Rightarrow> x | None \<Rightarrow> []);
          let s2 = (if text = ''true'' \<or> text = ''false'' then s1
                    else report_unexpected ''Unexpected boolean literal value'' text n s1);
          let l = Lit_Bool i (get_location n) (text = ''true'');
          s3 \<leftarrow> arena_add (Node_Expression (Expr_Literal l)) parent s2;
          Some (l, s3) }"

definition build_string_literal :: "nat \<Rightarrow> cst \<Rightarrow> string \<Rightarrow> builder \<Rightarrow> (literal \<times> builder) option" where
  "build_string_literal parent n code s =
     do { (i, s1) \<leftarrow> begin_node n code s;
          text \<leftarrow> node_text n code;
          let l = Lit_String i (get_location n) text;
          s2 \<leftarrow> arena_add (Node_Expression (Expr_Literal l)) parent s1;
          Some (l, s2) }"

definition build_number_literal :: "nat \<Rightarrow> cst \<Rightarrow> string \<Rightarrow> builder \<Rightarrow> (literal \<times> builder) option" where
  "build_number_literal parent n code s =
     do { (i, s1) \<leftarrow> begin_node n code s;
          text \<leftarrow> node_text n code;
          let l = Lit_Number i (get_location n) text;
          s2 \<leftarrow> arena_add (Node_Expression (Expr_Literal l)) parent s1;
          Some (l, s2) }"

definition build_unit_literal :: "nat \<Rightarrow> cst \<Rightarrow> string \<Rightarrow> builder \<Rightarrow> (literal \<times> builder) option" where
  "build_unit_literal parent n code s =
     do { (i, s1) \<leftarrow> begin_node n code s;
          let l = Lit_Unit i (get_location n);
          s2 \<leftarrow> arena_add (Node_Expression (Expr_Literal l)) parent s1;
          Some (l, s2) }"

definition build_uzumaki_expression ::
  "nat \<Rightarrow> cst \<Rightarrow> string \<Rightarrow> builder \<Rightarrow> (expression \<times> builder) option" where
  "build_uzumaki_expression parent n code s =
     do { (i, s1) \<leftarrow> begin_node n code s;
          let e = Expr_Uzumaki i (get_location n);
          s2 \<leftarrow> arena_add (Node_Expression e) parent s1;
          Some (e, s2) }"

definition build_generic_type ::
  "nat \<Rightarrow> cst \<Rightarrow> string \<Rightarrow> builder \<Rightarrow> (generic_type \<times> builder) option" where
  "build_generic_type parent n code s =
     do { (i, s1) \<leftarrow> begin_node n code s;
          (base, s2) \<leftarrow> required (child_by_field_name ''base_type'' n)
                          (\<lambda>c. build_identifier i c code s1);
          (parameters, s3) \<leftarrow> required (child_node 1 n)
             (\<lambda>args. build_each (\<lambda>c. build_identifier i c code) (children_by_field_name ''type'' args) s2);
          let g = \<lparr>gt_id = i, gt_location = get_location n, gt_base = base, gt_parameters = parameters\<rparr>;
          s4 \<leftarrow> arena_add (Node_Expression (Expr_Type (Type_Generic g))) parent s3;
          Some (g, s4) }"

definition build_type_qualified_name ::
  "nat \<Rightarrow> cst \<Rightarrow> string \<Rightarrow> builder \<Rightarrow> (type_qualified_name \<times> builder) option" where
  "build_type_qualified_name parent n code s =
     do { (i, s1) \<leftarrow> begin_node n code s;
          (alias, s2) \<leftarrow> required (child_by_field_name ''alias'' n) (\<lambda>c. build_identifier i c code s1);
          (name, s3) \<leftarrow> required (child_by_field_name ''name'' n) (\<lambda>c. build_identifier i c code s2);
          let q = \<lparr>tqn_id = i, tqn_location = get_location n, tqn_alias = alias, tqn_name = name\<rparr>;
          s4 \<leftarrow> arena_add (Node_Expression (Expr_Type (Type_Qualified q))) parent s3;
          Some (q, s4) }"

definition build_qualified_name ::
  "nat \<Rightarrow> cst \<Rightarrow> string \<Rightarrow> builder \<Rightarrow> (qualified_name \<times> builder) option" where
  "build_qualified_name parent n code s =
     do { (i, s1) \<leftarrow> begin_node n code s;
          (qualifier, s2) \<leftarrow> required (child_by_field_name ''qualifier'' n)
                               (\<lambda>c. build_identifier i c code s1);
          (name, s3) \<leftarrow> required (child_by_field_name ''name'' n) (\<lambda>c. build_identifier i c code s2);
          let q = \<lparr>qn_id = i, qn_location = get_location n, qn_qualifier = qualifier, qn_name = name\<rparr>;
          s4 \<leftarrow> arena_add (Node_Expression (Expr_Type (Type_QualifiedName q))) parent s3;
          Some (q, s4) }"

text \<open>The kinds of operator nodes.\<close>

definition binary_operator :: "string \<Rightarrow> operator_kind option" where
  "binary_operator k = map_of
     [(''**'', Op_Pow), (''&&'', Op_And), (''||'', Op_Or), (''+'', Op_Add), (''-'', Op_Sub),
      (''*'', Op_Mul), (''/'', Op_Div), (''%'', Op_Mod), (''<'', Op_Lt), (''<='', Op_Le),
      (''=='', Op_Eq), (''!='', Op_Ne), (''>='', Op_Ge), (''>'', Op_Gt), (''<<'', Op_Shl),
      (''>>'', Op_Shr), (''^'', Op_BitXor), (''&'', Op_BitAnd), (''|'', Op_BitOr)] k"

definition unary_operator :: "string \<Rightarrow> unary_operator_kind option" where
  "unary_operator k = map_of
     [(''unary_not'', UnOp_Not), (''unary_minus'', UnOp_Neg), (''unary_bitnot'', UnOp_BitNot)] k"

definition simple_type :: "string \<Rightarrow> simple_type_kind option" where
  "simple_type k = map_of
     [(''type_unit'', Simple_Unit), (''type_bool'', Simple_Bool), (''type_i8'', Simple_I8),
      (''type_i16'', Simple_I16), (''type_i32'', Simple_I32), (''type_i64'', Simple_I64),
      (''type_u8'', Simple_U8), (''type_u16'', Simple_U16), (''type_u32'', Simple_U32),
      (''type_u64'', Simple_U64)] k"

text \<open>A placeholder for what could not be parsed. It is not added to the arena.\<close>

definition error_ident :: "location \<Rightarrow> builder \<Rightarrow> ident \<times> builder" where
  "error_ident l s =
     (case get_node_id s of
        (i, s1) \<Rightarrow> (\<lparr>ident_id = i, ident_location = l, ident_name = ''<error>''\<rparr>, s1))"

definition error_expression :: "location \<Rightarrow> builder \<Rightarrow> expression \<times> builder" where
  "error_expression l s = (case error_ident l s of (x, s1) \<Rightarrow> (Expr_Identifier x, s1))"

definition empty_block :: "location \<Rightarrow> builder \<Rightarrow> block_type \<times> builder" where
  "empty_block l s = (case get_node_id s of (i, s1) \<Rightarrow> (Block_Block i l [], s1))"

definition unit_placeholder :: "location \<Rightarrow> builder \<Rightarrow> literal \<times> builder" where
  "unit_placeholder l s = (case get_node_id s of (i, s1) \<Rightarrow> (Lit_Unit i l, s1))"

end
