(* ===== verification/BuilderExpr.thy ===== *)
theory BuilderExpr
  imports BuilderState
begin

text \<open>
  The part of \<open>core/ast/src/builder.rs\<close> that builds types, expressions and literals. The functions
  recurse on the children of the parse tree.
\<close>

definition literal_kinds :: "string list" where
  "literal_kinds =
     [''bool_literal'', ''string_literal'', ''number_literal'', ''array_literal'', ''unit_literal'']"

text \<open>\<open>if let Expression::Identifier(ident) = expr { pending_name = Some(ident); }\<close>\<close>

fun name_or :: "ident option \<Rightarrow> expression \<Rightarrow> ident option" where
  "name_or pending (Expr_Identifier x) = Some x"
| "name_or pending _ = pending"

type_synonym 'a builds = "nat \<Rightarrow> cst \<Rightarrow> string \<Rightarrow> builder \<Rightarrow> ('a \<times> builder) option"

function
  build_expression :: "expression builds" and
  build_array_index_access_expression :: "expression builds" and
  build_member_access_expression :: "expression builds" and
  build_type_member_access_expression :: "expression builds" and
  build_function_call_expression :: "expression builds" and
  build_struct_expression :: "expression builds" and
  build_prefix_unary_expression :: "expression builds" and
  build_parenthesized_expression :: "expression builds" and
  build_binary_expression :: "expression builds" and
  build_literal :: "literal builds" and
  build_array_literal :: "literal builds" and
  build_type :: "ty builds" and
  build_type_array :: "ty builds" and
  build_function_type :: "ty builds"
where
  "build_expression parent n code s =
     (if cst_kind n = ''array_index_access_expression'' then
        build_array_index_access_expression parent n code s
      else if cst_kind n \<in> {''generic_name'', ''qualified_name'', ''type''} then
        do { (t, s1) \<leftarrow> build_type parent n code s; Some (Expr_Type t, s1) }
      else if cst_kind n = ''member_access_expression'' then
        build_member_access_expression parent n code s
      else if cst_kind n = ''type_member_access_expression'' then
        build_type_member_access_expression parent n code s
      else if cst_kind n = ''function_call_expression'' then
        build_function_call_expression parent n code s
      else if cst_kind n = ''struct_expression'' then build_struct_expression parent n code s
      else if cst_kind n = ''prefix_unary_expression'' then
        build_prefix_unary_expression parent n code s
      else if cst_kind n = ''parenthesized_expression'' then
        build_parenthesized_expression parent n code s
      else if cst_kind n = ''binary_expression'' then build_binary_expression parent n code s
      else if cst_kind n \<in> set literal_kinds then
        do { (l, s1) \<leftarrow> build_literal parent n code s; Some (Expr_Literal l, s1) }
      else if cst_kind n = ''uzumaki_keyword'' then build_uzumaki_expression parent n code s
      else if cst_kind n = ''identifier'' then
        do { (x, s1) \<leftarrow> build_identifier parent n code s; Some (Expr_Identifier x, s1) }
      else if cst_kind n = ''ERROR'' then
        Some (error_expression (get_location n) (report_at ''Syntax error in expression'' n s))
      else
        Some (error_expression (get_location n)
                (report_unexpected ''Unexpected expression node kind'' (cst_kind n) n s)))"
| "build_array_index_access_expression parent n code s =
     do { (i, s1) \<leftarrow> begin_node n code s;
          (array, s2) \<leftarrow> required (named_child 0 n) (\<lambda>c. build_expression i c code s1);
          (index, s3) \<leftarrow> required (named_child 1 n) (\<lambda>c. build_expression i c code s2);
          let e = Expr_ArrayIndexAccess i (get_location n) array index;
          s4 \<leftarrow> arena_add (Node_Expression e) parent s3;
          Some (e, s4) }"
| "build_member_access_expression parent n code s =
     do { (i, s1) \<leftarrow> begin_node n code s;
          (e, s2) \<leftarrow> required (child_by_field_name ''expression'' n)
                       (\<lambda>c. build_expression i c code s1);
          (name, s3) \<leftarrow> required (child_by_field_name ''name'' n) (\<lambda>c. build_identifier i c code s2);
          let e' = Expr_MemberAccess i (get_location n) e name;
          s4 \<leftarrow> arena_add (Node_Expression e') parent s3;
          Some (e', s4) }"
| "build_type_member_access_expression parent n code s =
     do { (i, s1) \<leftarrow> begin_node n code s;
          (e, s2) \<leftarrow> required (child_by_field_name ''expression'' n)
                       (\<lambda>c. build_expression i c code s1);
          (name, s3) \<leftarrow> required (child_by_field_name ''name'' n) (\<lambda>c. build_identifier i c code s2);
          let e' = Expr_TypeMemberAccess i (get_location n) e name;
          s4 \<leftarrow> arena_add (Node_Expression e') parent s3;
          Some (e', s4) }"
| "build_function_call_expression parent n code s =
     do { (i, s1) \<leftarrow> begin_node n code s;
          (callee, s2) \<leftarrow> required (child_by_field_name ''function'' n)
                            (\<lambda>c. build_expression i c code s1);
          (pending, args, s3) \<leftarrow>
            fold_opt
              (\<lambda>(field, c) (pending, args, u).
                 if field = Some ''argument_name'' then
                   do { (e, u1) \<leftarrow> build_expression i c code u;
                        Some (name_or pending e, args, u1) }
                 else if field = Some ''argument'' then
                   do { (e, u1) \<leftarrow> build_expression i c code u;
                        Some (None, args @ [(pending, e)], u1) }
                 else Some (pending, args, u))
              (cst_children n) (None, [], s2);
          (type_parameters, s4) \<leftarrow>
            optional (child_by_field_name ''type_parameters'' n)
              (\<lambda>p. build_each (\<lambda>c. build_identifier i c code) (children_by_field_name ''type'' p)) s3;
          let e = Expr_FunctionCall i (get_location n) callee
                    (Option.bind type_parameters non_empty) (non_empty args);
          s5 \<leftarrow> arena_add (Node_Expression e) parent s4;
          Some (e, s5) }"
| "build_struct_expression parent n code s =
     do { (i, s1) \<leftarrow> begin_node n code s;
          (name, s2) \<leftarrow> required (child_by_field_name ''name'' n) (\<lambda>c. build_identifier i c code s1);
          (pending, fs, s3) \<leftarrow>
            fold_opt
              (\<lambda>(field, c) (pending, fs, u).
                 if field = Some ''field'' then
                   do { (e, u1) \<leftarrow> build_expression i c code u;
                        Some (name_or pending e, fs, u1) }
                 else if field = Some ''value'' then
                   do { (e, u1) \<leftarrow> build_expression i c code u;
                        x \<leftarrow> pending;
                        Some (None, fs @ [(x, e)], u1) }
                 else Some (pending, fs, u))
              (cst_children n) (None, [], s2);
          let e = Expr_Struct i (get_location n) name (non_empty fs);
          s4 \<leftarrow> arena_add (Node_Expression e) parent s3;
          Some (e, s4) }"
| "build_prefix_unary_expression parent n code s =
     do { (i, s1) \<leftarrow> begin_node n code s;
          (e, s2) \<leftarrow> required (child_node 1 n) (\<lambda>c. build_expression i c code s1);
          operator_node \<leftarrow> child_by_field_name ''operator'' n;
          operator \<leftarrow> unary_operator (cst_kind operator_node);
          let e' = Expr_PrefixUnary i (get_location n) e operator;
          s3 \<leftarrow> arena_add (Node_Expression e') parent s2;
          Some (e', s3) }"
| "build_parenthesized_expression parent n code s =
     do { (i, s1) \<leftarrow> begin_node n code s;
          (e, s2) \<leftarrow> required (child_node 1 n) (\<lambda>c. build_expression i c code s1);
          let e' = Expr_Parenthesized i (get_location n) e;
          s3 \<leftarrow> arena_add (Node_Expression e') parent s2;
          Some (e', s3) }"
| "build_binary_expression parent n code s =
     do { (i, s1) \<leftarrow> begin_node n code s;
          (left, s2) \<leftarrow> required (child_by_field_name ''left'' n)
                          (\<lambda>c. build_expression i c code s1);
          operator_node \<leftarrow> child_by_field_name ''operator'' n;
          let (operator, s3) =
            (case binary_operator (cst_kind operator_node) of
               Some k \<Rightarrow> (k, s2)
             | None \<Rightarrow>
                 (Op_Add, report_unexpected ''Unexpected operator'' (cst_kind operator_node) n s2));
          (right, s4) \<leftarrow> required (child_by_field_name ''right'' n)
                           (\<lambda>c. build_expression i c code s3);
          let e = Expr_Binary i (get_location n) left operator right;
          s5 \<leftarrow> arena_add (Node_Expression e) parent s4;
          Some (e, s5) }"
| "build_literal parent n code s =
     (if cst_kind n = ''array_literal'' then build_array_literal parent n code s
      else if cst_kind n = ''bool_literal'' then build_bool_literal parent n code s
      else if cst_kind n = ''string_literal'' then build_string_literal parent n code s
      else if cst_kind n = ''number_literal'' then build_number_literal parent n code s
      else if cst_kind n = ''unit_literal'' then build_unit_literal parent n code s
      else Some (unit_placeholder (get_location n)
                   (report_unexpected ''Unexpected literal type'' (cst_kind n) n s)))"
| "build_array_literal parent n code s =
     do { (i, s1) \<leftarrow> begin_node n code s;
          (es, s2) \<leftarrow> build_each (\<lambda>c. build_expression i c code) (named_children n) s1;
          let l = Lit_Array i (get_location n) (non_empty es);
          s3 \<leftarrow> arena_add (Node_Expression (Expr_Literal l)) parent s2;
          Some (l, s3) }"
| "build_type parent n code s =
     (case simple_type (cst_kind n) of
        Some k \<Rightarrow> Some (Type_Simple k, s)
      | None \<Rightarrow>
          if cst_kind n = ''type_array'' then build_type_array parent n code s
          else if cst_kind n \<in> {''generic_type'', ''generic_name''} then
            do { (g, s1) \<leftarrow> build_generic_type parent n code s; Some (Type_Generic g, s1) }
          else if cst_kind n = ''type_qualified_name'' then
            do { (q, s1) \<leftarrow> build_type_qualified_name parent n code s; Some (Type_Qualified q, s1) }
          else if cst_kind n = ''qualified_name'' then
            do { (q, s1) \<leftarrow> build_qualified_name parent n code s; Some (Type_QualifiedName q, s1) }
          else if cst_kind n = ''type_fn'' then build_function_type parent n code s
          else if cst_kind n = ''identifier'' then
            do { (x, s1) \<leftarrow> build_identifier parent n code s; Some (Type_Custom x, s1) }
          else if cst_kind n = ''ERROR'' then
            Some (Type_Simple Simple_Unit, report_at ''Syntax error in type'' n s)
          else
            Some (Type_Simple Simple_Unit, report_unexpected ''Unexpected type'' (cst_kind n) n s))"
| "build_type_array parent n code s =
     do { (i, s1) \<leftarrow> begin_node n code s;
          (element, s2) \<leftarrow> required (child_by_field_name ''type'' n) (\<lambda>c. build_type i c code s1);
          (len, s3) \<leftarrow> required (child_by_field_name ''length'' n)
                         (\<lambda>c. build_expression i c code s2);
          let t = Type_Array i (get_location n) element len;
          s4 \<leftarrow> arena_add (Node_Expression (Expr_Type t)) parent s3;
          Some (t, s4) }"
| "build_function_type parent n code s =
     do { (i, s1) \<leftarrow> begin_node n code s;
          (args, s2) \<leftarrow> build_each (\<lambda>c. build_type i c code) (children_by_field_name ''argument'' n) s1;
          (returns, s3) \<leftarrow> optional (child_by_field_name ''returns'' n) (\<lambda>c. build_type i c code) s2;
          let t = Type_Function i (get_location n) (non_empty args) returns;
          s4 \<leftarrow> arena_add (Node_Expression (Expr_Type t)) parent s3;
          Some (t, s4) }"
  by pat_completeness auto
termination
  by (relation "measure (case_sum (case_sum (case_sum (\<lambda>(_, n, _). 3 * size n + 2) (case_sum (\<lambda>(_, n, _). 3 * size n) (\<lambda>(_, n, _). 3 * size n))) (case_sum (case_sum (\<lambda>(_, n, _). 3 * size n) (\<lambda>(_, n, _). 3 * size n)) (case_sum (\<lambda>(_, n, _). 3 * size n) (\<lambda>(_, n, _). 3 * size n)))) (case_sum (case_sum (\<lambda>(_, n, _). 3 * size n) (case_sum (\<lambda>(_, n, _). 3 * size n) (\<lambda>(_, n, _). 3 * size n + 1))) (case_sum (case_sum (\<lambda>(_, n, _). 3 * size n) (\<lambda>(_, n, _). 3 * size n + 1)) (case_sum (\<lambda>(_, n, _). 3 * size n) (\<lambda>(_, n, _). 3 * size n)))))")
    (auto dest!: accessor_smaller child_entry_smaller)

text \<open>The equations hold for every node, so they are used one at a time.\<close>

lemmas expression_builders =
  build_expression.simps build_array_index_access_expression.simps
  build_member_access_expression.simps build_type_member_access_expression.simps
  build_function_call_expression.simps build_struct_expression.simps
  build_prefix_unary_expression.simps build_parenthesized_expression.simps
  build_binary_expression.simps build_literal.simps build_array_literal.simps build_type.simps
  build_type_array.simps build_function_type.simps

declare expression_builders [simp del, run_simps]

end
