(* ===== verification/BuilderStmt.thy ===== *)
theory BuilderStmt
  imports BuilderExpr
begin

text \<open>
  The part of \<open>core/ast/src/builder.rs\<close> that builds statements and blocks.
\<close>

section \<open>Statements without blocks\<close>

definition build_constant_definition :: "constant_definition builds" where
  "build_constant_definition parent n code s =
     do { (i, s1) \<leftarrow> begin_node n code s;
          (t, s2) \<leftarrow> required (child_by_field_name ''type'' n) (\<lambda>c. build_type i c code s1);
          (name, s3) \<leftarrow> required (child_by_field_name ''name'' n) (\<lambda>c. build_identifier i c code s2);
          (v, s4) \<leftarrow> required (child_by_field_name ''value'' n) (\<lambda>c. build_literal i c code s3);
          let d = \<lparr>cd_id = i, cd_location = get_location n, cd_visibility = get_visibility n,
                   cd_name = name, cd_ty = t, cd_value = v\<rparr>;
          s5 \<leftarrow> arena_add (Node_Definition (Def_Constant d)) parent s4;
          Some (d, s5) }"

definition build_return_statement :: "statement builds" where
  "build_return_statement parent n code s =
     do { (i, s1) \<leftarrow> begin_node n code s;
          (e, s2) \<leftarrow>
            (case child_by_field_name ''expression'' n of
               Some c \<Rightarrow> build_expression i c code s1
             | None \<Rightarrow>
                 (let (l, u) = unit_placeholder (get_location n) s1 in Some (Expr_Literal l, u)));
          let st = Stmt_Return i (get_location n) e;
          s3 \<leftarrow> arena_add (Node_Statement st) parent s2;
          Some (st, s3) }"

definition build_variable_definition_statement :: "statement builds" where
  "build_variable_definition_statement parent n code s =
     do { (i, s1) \<leftarrow> begin_node n code s;
          (t, s2) \<leftarrow> required (child_by_field_name ''type'' n) (\<lambda>c. build_type i c code s1);
          (name, s3) \<leftarrow> required (child_by_field_name ''name'' n) (\<lambda>c. build_identifier i c code s2);
          (v, s4) \<leftarrow> optional (child_by_field_name ''value'' n) (\<lambda>c. build_expression i c code) s3;
          let is_undef = (child_by_field_name ''undef'' n \<noteq> None);
          let st = Stmt_VariableDefinition i (get_location n) name t v is_undef;
          s5 \<leftarrow> arena_add (Node_Statement st) parent s4;
          Some (st, s5) }"

definition build_type_definition_statement :: "statement builds" where
  "build_type_definition_statement parent n code s =
     do { (i, s1) \<leftarrow> begin_node n code s;
          (t, s2) \<leftarrow> required (child_by_field_name ''type'' n) (\<lambda>c. build_type i c code s1);
          (name, s3) \<leftarrow> required (child_by_field_name ''name'' n) (\<lambda>c. build_identifier i c code s2);
          let st = Stmt_TypeDefinition i (get_location n) name t;
          s4 \<leftarrow> arena_add (Node_Statement st) parent s3;
          Some (st, s4) }"

definition build_assign_statement :: "statement builds" where
  "build_assign_statement parent n code s =
     do { (i, s1) \<leftarrow> begin_node n code s;
          (left, s2) \<leftarrow> required (child_by_field_name ''left'' n) (\<lambda>c. build_expression i c code s1);
          (right, s3) \<leftarrow> required (child_by_field_name ''right'' n)
                           (\<lambda>c. build_expression i c code s2);
          let st = Stmt_Assign i (get_location n) left right;
          s4 \<leftarrow> arena_add (Node_Statement st) parent s3;
          Some (st, s4) }"

definition build_assert_statement :: "statement builds" where
  "build_assert_statement parent n code s =
     do { (i, s1) \<leftarrow> begin_node n code s;
          (e, s2) \<leftarrow> required (child_node 1 n) (\<lambda>c. build_expression i c code s1);
          let st = Stmt_Assert i (get_location n) e;
          s3 \<leftarrow> arena_add (Node_Statement st) parent s2;
          Some (st, s3) }"

definition build_break_statement :: "statement builds" where
  "build_break_statement parent n code s =
     do { (i, s1) \<leftarrow> begin_node n code s;
          let st = Stmt_Break i (get_location n);
          s2 \<leftarrow> arena_add (Node_Statement st) parent s1;
          Some (st, s2) }"

text \<open>Placeholders for statements and blocks that could not be parsed; both are in the arena.\<close>

definition create_error_statement :: "statement builds" where
  "create_error_statement parent n code s =
     (let (x, s1) = error_ident (get_location n) s
      in do { s2 \<leftarrow> arena_add (Node_Expression (Expr_Identifier x)) parent s1;
              Some (Stmt_Expression (Expr_Identifier x), s2) })"

definition create_error_block :: "block_type builds" where
  "create_error_block parent n code s =
     (let (b, s1) = empty_block (get_location n) s
      in do { s2 \<leftarrow> arena_add (Node_Statement (Stmt_Block b)) parent s1;
              Some (b, s2) })"

section \<open>Blocks\<close>

definition block_kinds :: "string list" where
  "block_kinds = [''block'', ''forall_block'', ''assume_block'', ''exists_block'', ''unique_block'']"

text \<open>The quantified blocks, by the kind of their node.\<close>

definition quantified_block ::
  "string \<Rightarrow> (nat \<Rightarrow> location \<Rightarrow> statement list \<Rightarrow> block_type) option" where
  "quantified_block k = map_of
     [(''assume_block'', Block_Assume), (''forall_block'', Block_Forall),
      (''exists_block'', Block_Exists), (''unique_block'', Block_Unique)] k"

function
  build_block :: "block_type builds" and
  build_block_statements :: "statement list builds" and
  build_statement :: "statement builds" and
  build_loop_statement :: "statement builds" and
  build_if_statement :: "statement builds"
where
  "build_block parent n code s =
     do { (i, s1) \<leftarrow> begin_node n code s;
          case quantified_block (cst_kind n) of
            Some mk \<Rightarrow>
              do { (ss, s2) \<leftarrow> optional (child_by_field_name ''body'' n)
                                (\<lambda>c. build_block_statements i c code) s1;
                   let b = mk i (get_location n) (case ss of Some xs \<Rightarrow> xs | None \<Rightarrow> []);
                   s3 \<leftarrow> arena_add (Node_Statement (Stmt_Block b)) parent s2;
                   Some (b, s3) }
          | None \<Rightarrow>
              if cst_kind n = ''block'' then
                do { (ss, s2) \<leftarrow> build_block_statements i n code s1;
                     let b = Block_Block i (get_location n) ss;
                     s3 \<leftarrow> arena_add (Node_Statement (Stmt_Block b)) parent s2;
                     Some (b, s3) }
              else if cst_kind n = ''ERROR'' then
                create_error_block parent n code (report_at ''Syntax error in block'' n s1)
              else
                create_error_block parent n code
                  (report_unexpected ''Unexpected block type'' (cst_kind n) n s1) }"
| "build_block_statements parent n code s =
     fold_opt
       (\<lambda>c (ss, u).
          do { u1 \<leftarrow> collect_errors c code u;
               if cst_named c then
                 do { (st, u2) \<leftarrow> build_statement parent c code u1; Some (ss @ [st], u2) }
               else Some (ss, u1) })
       (child_nodes n) ([], s)"
| "build_statement parent n code s =
     (if cst_kind n = ''assign_statement'' then build_assign_statement parent n code s
      else if cst_kind n \<in> set block_kinds then
        do { (b, s1) \<leftarrow> build_block parent n code s; Some (Stmt_Block b, s1) }
      else if cst_kind n = ''expression_statement'' then
        (case child_node 0 n of
           Some c \<Rightarrow> do { (e, s1) \<leftarrow> build_expression parent c code s; Some (Stmt_Expression e, s1) }
         | None \<Rightarrow> create_error_statement parent n code s)
      else if cst_kind n = ''return_statement'' then build_return_statement parent n code s
      else if cst_kind n = ''loop_statement'' then build_loop_statement parent n code s
      else if cst_kind n = ''if_statement'' then build_if_statement parent n code s
      else if cst_kind n = ''variable_definition_statement'' then
        build_variable_definition_statement parent n code s
      else if cst_kind n = ''type_definition_statement'' then
        build_type_definition_statement parent n code s
      else if cst_kind n = ''assert_statement'' then build_assert_statement parent n code s
      else if cst_kind n = ''break_statement'' then build_break_statement parent n code s
      else if cst_kind n = ''constant_definition'' then
        do { (d, s1) \<leftarrow> build_constant_definition parent n code s; Some (Stmt_ConstantDefinition d, s1) }
      else if cst_kind n = ''ERROR'' then
        create_error_statement parent n code (report_at ''Syntax error in statement'' n s)
      else
        create_error_statement parent n code
          (report_unexpected ''Unexpected statement type'' (cst_kind n) n s))"
| "build_loop_statement parent n code s =
     do { (i, s1) \<leftarrow> begin_node n code s;
          (condition, s2) \<leftarrow> optional (child_by_field_name ''condition'' n)
                               (\<lambda>c. build_expression i c code) s1;
          (body, s3) \<leftarrow>
            (case child_by_field_name ''body'' n of
               Some c \<Rightarrow> build_block i c code s2
             | None \<Rightarrow> Some (empty_block (get_location n) (report_at ''Missing loop body'' n s2)));
          let st = Stmt_Loop i (get_location n) condition body;
          s4 \<leftarrow> arena_add (Node_Statement st) parent s3;
          Some (st, s4) }"
| "build_if_statement parent n code s =
     do { (i, s1) \<leftarrow> begin_node n code s;
          (condition, s2) \<leftarrow>
            (case child_by_field_name ''condition'' n of
               Some c \<Rightarrow> build_expression i c code s1
             | None \<Rightarrow>
                 Some (error_expression (get_location n) (report_at ''Missing if condition'' n s1)));
          (if_arm, s3) \<leftarrow>
            (case child_by_field_name ''if_arm'' n of
               Some c \<Rightarrow> build_block i c code s2
             | None \<Rightarrow> Some (empty_block (get_location n) (report_at ''Missing if body'' n s2)));
          (else_arm, s4) \<leftarrow> optional (child_by_field_name ''else_arm'' n)
                              (\<lambda>c. build_block i c code) s3;
          let st = Stmt_If i (get_location n) condition if_arm else_arm;
          s5 \<leftarrow> arena_add (Node_Statement st) parent s4;
          Some (st, s5) }"
  by pat_completeness auto
termination
  by (relation "measure (case_sum
       (case_sum (\<lambda>(_, n, _). 3 * size n + 1) (\<lambda>(_, n, _). 3 * size n))
       (case_sum (\<lambda>(_, n, _). 3 * size n + 2)
          (case_sum (\<lambda>(_, n, _). 3 * size n) (\<lambda>(_, n, _). 3 * size n))))")
    (auto dest!: accessor_smaller child_nodes_smaller)

lemmas statement_builders =
  build_block.simps build_block_statements.simps build_statement.simps build_loop_statement.simps
  build_if_statement.simps

declare statement_builders [simp del, run_simps]

end
