(* ===== verification/BuilderDefs.thy ===== *)
theory BuilderDefs
  imports BuilderStmt
begin

text \<open>
  The part of \<open>core/ast/src/builder.rs\<close> that builds definitions, directives and source files.
\<close>

section \<open>Arguments and fields\<close>

text \<open>\<open>mut\<close> counts when the child of that field is a \<open>true\<close> node.\<close>

definition has_mut :: "cst \<Rightarrow> bool" where
  "has_mut n = (case child_by_field_name ''mut'' n of Some c \<Rightarrow> cst_kind c = ''true'' | None \<Rightarrow> False)"

definition build_argument :: "argument builds" where
  "build_argument parent n code s =
     do { (i, s1) \<leftarrow> begin_node n code s;
          name_node \<leftarrow> child_by_field_name ''name'' n;
          type_node \<leftarrow> child_by_field_name ''type'' n;
          (t, s2) \<leftarrow> build_type i type_node code s1;
          (name, s3) \<leftarrow> build_identifier i name_node code s2;
          let a = \<lparr>arg_id = i, arg_location = get_location n, arg_name = name, arg_is_mut = has_mut n,
                   arg_ty = t\<rparr>;
          s4 \<leftarrow> arena_add (Node_ArgumentType (Arg_Argument a)) parent s3;
          Some (a, s4) }"

definition build_self_reference :: "self_reference builds" where
  "build_self_reference parent n code s =
     do { (i, s1) \<leftarrow> begin_node n code s;
          let r = \<lparr>self_id = i, self_location = get_location n, self_is_mut = has_mut n\<rparr>;
          s2 \<leftarrow> arena_add (Node_ArgumentType (Arg_SelfReference r)) parent s1;
          Some (r, s2) }"

definition build_ignore_argument :: "ignore_argument builds" where
  "build_ignore_argument parent n code s =
     do { (i, s1) \<leftarrow> begin_node n code s;
          (t, s2) \<leftarrow> required (child_by_field_name ''type'' n) (\<lambda>c. build_type i c code s1);
          let a = \<lparr>ig_id = i, ig_location = get_location n, ig_ty = t\<rparr>;
          s3 \<leftarrow> arena_add (Node_ArgumentType (Arg_IgnoreArgument a)) parent s2;
          Some (a, s3) }"

definition build_argument_type :: "argument_type builds" where
  "build_argument_type parent n code s =
     do { s1 \<leftarrow> collect_errors n code s;
          if cst_kind n = ''argument_declaration'' then
            do { (a, s2) \<leftarrow> build_argument parent n code s1; Some (Arg_Argument a, s2) }
          else if cst_kind n = ''self_reference'' then
            do { (r, s2) \<leftarrow> build_self_reference parent n code s1; Some (Arg_SelfReference r, s2) }
          else if cst_kind n = ''ignore_argument'' then
            do { (a, s2) \<leftarrow> build_ignore_argument parent n code s1; Some (Arg_IgnoreArgument a, s2) }
          else do { (t, s2) \<leftarrow> build_type parent n code s1; Some (Arg_Type t, s2) } }"

definition build_struct_field :: "struct_field builds" where
  "build_struct_field parent n code s =
     do { (i, s1) \<leftarrow> begin_node n code s;
          (t, s2) \<leftarrow> required (child_by_field_name ''type'' n) (\<lambda>c. build_type i c code s1);
          (name, s3) \<leftarrow> required (child_by_field_name ''name'' n) (\<lambda>c. build_identifier i c code s2);
          let f = \<lparr>sf_id = i, sf_location = get_location n, sf_name = name, sf_type = t\<rparr>;
          s4 \<leftarrow> arena_add (Node_Misc f) parent s3;
          Some (f, s4) }"

section \<open>Definitions\<close>

definition build_enum_definition :: "enum_definition builds" where
  "build_enum_definition parent n code s =
     do { (i, s1) \<leftarrow> begin_node n code s;
          (name, s2) \<leftarrow> required (child_by_field_name ''name'' n) (\<lambda>c. build_identifier i c code s1);
          (variants, s3) \<leftarrow> build_each (\<lambda>c. build_identifier i c code)
                              (children_by_field_name ''variant'' n) s2;
          let d = \<lparr>ed_id = i, ed_location = get_location n, ed_visibility = get_visibility n,
                   ed_name = name, ed_variants = variants\<rparr>;
          s4 \<leftarrow> arena_add (Node_Definition (Def_Enum d)) parent s3;
          Some (d, s4) }"

text \<open>The early return for a missing name leaves the function itself out of the arena.\<close>

definition build_function_definition :: "function_definition builds" where
  "build_function_definition parent n code s =
     do { (i, s1) \<leftarrow> begin_node n code s;
          (args, s2) \<leftarrow> optional (child_by_field_name ''argument_list'' n)
             (\<lambda>l. build_each (\<lambda>c. build_argument_type i c code) (children_by_field_name ''argument'' l)) s1;
          (tps, s3) \<leftarrow> optional (child_by_field_name ''type_parameters'' n)
             (\<lambda>l. build_each (\<lambda>c. build_identifier i c code) (children_by_field_name ''type'' l)) s2;
          (returns, s4) \<leftarrow> optional (child_by_field_name ''returns'' n) (\<lambda>c. build_type i c code) s3;
          case child_by_field_name ''name'' n of
            None \<Rightarrow>
              (let (x, s5) = error_ident (get_location n) (report_at ''Missing function name'' n s4);
                   (b, s6) = empty_block (get_location n) s5
               in Some (\<lparr>fd_id = i, fd_location = get_location n, fd_visibility = Private, fd_name = x,
                         fd_type_parameters = None, fd_arguments = None, fd_returns = None,
                         fd_body = b\<rparr>, s6))
          | Some name_node \<Rightarrow>
              do { (x, s5) \<leftarrow> build_identifier i name_node code s4;
                   (b, s6) \<leftarrow>
                     (case child_by_field_name ''body'' n of
                        Some c \<Rightarrow> build_block i c code s5
                      | None \<Rightarrow>
                          Some (empty_block (get_location n) (report_at ''Missing function body'' n s5)));
                   let f = \<lparr>fd_id = i, fd_location = get_location n, fd_visibility = get_visibility n,
                            fd_name = x, fd_type_parameters = Option.bind tps non_empty,
                            fd_arguments = Option.bind args non_empty, fd_returns = returns,
                            fd_body = b\<rparr>;
                   s7 \<leftarrow> arena_add (Node_Definition (Def_Function f)) parent s6;
                   Some (f, s7) } }"

definition build_struct_definition :: "struct_definition builds" where
  "build_struct_definition parent n code s =
     do { (i, s1) \<leftarrow> begin_node n code s;
          (name, s2) \<leftarrow> required (child_by_field_name ''name'' n) (\<lambda>c. build_identifier i c code s1);
          (fs, s3) \<leftarrow> build_each (\<lambda>c. build_struct_field i c code)
                        (children_by_field_name ''field'' n) s2;
          (ms, s4) \<leftarrow> build_each (\<lambda>c. build_function_definition i c code)
                        (filter (\<lambda>c. cst_kind c = ''function_definition'')
                           (children_by_field_name ''method'' n)) s3;
          let d = \<lparr>sd_id = i, sd_location = get_location n, sd_visibility = get_visibility n,
                   sd_name = name, sd_fields = fs, sd_methods = ms\<rparr>;
          s5 \<leftarrow> arena_add (Node_Definition (Def_Struct d)) parent s4;
          Some (d, s5) }"

definition build_external_function_definition :: "external_function_definition builds" where
  "build_external_function_definition parent n code s =
     do { (i, s1) \<leftarrow> begin_node n code s;
          (name, s2) \<leftarrow> required (child_by_field_name ''name'' n) (\<lambda>c. build_identifier i c code s1);
          (args, s3) \<leftarrow> build_each (\<lambda>c. build_argument_type i c code)
                          (children_by_field_name ''argument'' n) s2;
          (returns, s4) \<leftarrow> optional (child_by_field_name ''returns'' n) (\<lambda>c. build_type i c code) s3;
          let d = \<lparr>ef_id = i, ef_location = get_location n, ef_visibility = Private, ef_name = name,
                   ef_arguments = non_empty args, ef_returns = returns\<rparr>;
          s5 \<leftarrow> arena_add (Node_Definition (Def_ExternalFunction d)) parent s4;
          Some (d, s5) }"

definition build_type_definition :: "type_definition builds" where
  "build_type_definition parent n code s =
     do { (i, s1) \<leftarrow> begin_node n code s;
          (t, s2) \<leftarrow> required (child_by_field_name ''type'' n) (\<lambda>c. build_type i c code s1);
          (name, s3) \<leftarrow> required (child_by_field_name ''name'' n) (\<lambda>c. build_identifier i c code s2);
          let d = \<lparr>td_id = i, td_location = get_location n, td_visibility = get_visibility n,
                   td_name = name, td_ty = t\<rparr>;
          s4 \<leftarrow> arena_add (Node_Definition (Def_Type d)) parent s3;
          Some (d, s4) }"

text \<open>A placeholder function for a definition that could not be parsed, outside the arena.\<close>

definition create_error_definition :: "cst \<Rightarrow> builder \<Rightarrow> ast_definition \<times> builder" where
  "create_error_definition n s =
     (let (i, s1) = get_node_id s;
          (x, s2) = error_ident (get_location n) s1;
          (b, s3) = empty_block (get_location n) s2
      in (Def_Function \<lparr>fd_id = i, fd_location = get_location n, fd_visibility = Private, fd_name = x,
            fd_type_parameters = None, fd_arguments = None, fd_returns = None, fd_body = b\<rparr>, s3))"

function
  build_definition :: "ast_definition builds" and
  build_spec_definition :: "ast_definition builds"
where
  "build_definition parent n code s =
     (if cst_kind n = ''spec_definition'' then build_spec_definition parent n code s
      else if cst_kind n = ''struct_definition'' then
        do { (d, s1) \<leftarrow> build_struct_definition parent n code s; Some (Def_Struct d, s1) }
      else if cst_kind n = ''enum_definition'' then
        do { (d, s1) \<leftarrow> build_enum_definition parent n code s; Some (Def_Enum d, s1) }
      else if cst_kind n = ''constant_definition'' then
        do { (d, s1) \<leftarrow> build_constant_definition parent n code s; Some (Def_Constant d, s1) }
      else if cst_kind n = ''function_definition'' then
        do { (d, s1) \<leftarrow> build_function_definition parent n code s; Some (Def_Function d, s1) }
      else if cst_kind n = ''external_function_definition'' then
        do { (d, s1) \<leftarrow> build_external_function_definition parent n code s;
             Some (Def_ExternalFunction d, s1) }
      else if cst_kind n = ''type_definition_statement'' then
        do { (d, s1) \<leftarrow> build_type_definition parent n code s; Some (Def_Type d, s1) }
      else if cst_kind n = ''ERROR'' then
        Some (create_error_definition n
                (push_builder_error
                   (''Syntax error at '' @ show_location (get_location n)
                      @ '': unexpected or malformed token'') s))
      else
        Some (create_error_definition n
                (report_unexpected ''Unexpected definition kind'' (cst_kind n) n s)))"
| "build_spec_definition parent n code s =
     do { (i, s1) \<leftarrow> begin_node n code s;
          (name, s2) \<leftarrow> required (child_by_field_name ''name'' n) (\<lambda>c. build_identifier i c code s1);
          (ds, s3) \<leftarrow> build_each (\<lambda>c. build_definition i c code) (drop 1 (named_children n)) s2;
          let d = Def_Spec i (get_location n) Private name ds;
          s4 \<leftarrow> arena_add (Node_Definition d) parent s3;
          Some (d, s4) }"
  by pat_completeness auto
termination
  by (relation "measure (case_sum (\<lambda>(_, n, _). 3 * size n + 1) (\<lambda>(_, n, _). 3 * size n))")
    (auto dest!: in_set_dropD accessor_smaller)

lemmas definition_builders = build_definition.simps build_spec_definition.simps

declare definition_builders [simp del, run_simps]

section \<open>Directives and source files\<close>

fun literal_text :: "literal \<Rightarrow> string" where
  "literal_text (Lit_String _ _ t) = t"
| "literal_text _ = []"

definition build_use_directive :: "use_directive builds" where
  "build_use_directive parent n code s =
     do { (i, s1) \<leftarrow> begin_node n code s;
          (from, segments, s2) \<leftarrow>
            (case child_by_field_name ''from_literal'' n of
               Some c \<Rightarrow>
                 do { (l, u) \<leftarrow> build_string_literal i c code s1; Some (Some (literal_text l), None, u) }
             | None \<Rightarrow>
                 do { (xs, u) \<leftarrow> build_each (\<lambda>c. build_identifier i c code)
                                  (children_by_field_name ''segment'' n) s1;
                      Some (None, non_empty xs, u) });
          (types, s3) \<leftarrow> build_each (\<lambda>c. build_identifier i c code)
                           (children_by_field_name ''imported_type'' n) s2;
          let d = \<lparr>ud_id = i, ud_location = get_location n, ud_imported_types = non_empty types,
                   ud_segments = segments, ud_from = from\<rparr>;
          s4 \<leftarrow> arena_add (Node_Directive (Directive_Use d)) parent s3;
          Some (d, s4) }"

text \<open>One child of the root: a directive or a definition, appended to the file.\<close>

definition build_item ::
  "nat \<Rightarrow> string \<Rightarrow> cst \<Rightarrow> directive list \<times> ast_definition list \<times> builder
     \<Rightarrow> (directive list \<times> ast_definition list \<times> builder) option" where
  "build_item i code c r =
     (case r of (us, ds, s) \<Rightarrow>
        if cst_kind c = ''use_directive'' then
          do { (u, s1) \<leftarrow> build_use_directive i c code s; Some (us @ [Directive_Use u], ds, s1) }
        else do { (d, s1) \<leftarrow> build_definition i c code s; Some (us, ds @ [d], s1) })"

definition build_source_file :: "bool \<Rightarrow> cst \<Rightarrow> string \<Rightarrow> builder \<Rightarrow> builder option" where
  "build_source_file debug root code s =
     (let (i, s1) = get_node_id s;
          chars = lossy_chars code
      in if debug \<and> replacement_character \<in> set chars then None
         else do {
           (us, ds, s2) \<leftarrow> fold_opt (build_item i code) (child_nodes root) ([], [], s1);
           arena_add (Node_SourceFile
             \<lparr>src_id = i, src_location = get_location root, src_source = concat chars,
              src_directives = us, src_definitions = ds\<rparr>) u32_max s2 })"

text \<open>The \<open>debug_assert!\<close> runs in a debug build only.\<close>

fun build_files ::
  "bool \<Rightarrow> (cst \<times> string) list \<Rightarrow> builder \<Rightarrow> ((string + arena) \<times> builder) option" where
  "build_files debug [] s = Some (Inr (b_arena s), s)"
| "build_files debug ((root, code) # files) s =
     do { s1 \<leftarrow> build_source_file debug root code s;
          if b_errors s1 \<noteq> [] then Some (Inl ''AST building failed due to errors'', s1)
          else build_files debug files s1 }"

definition build_ast :: "bool \<Rightarrow> builder \<Rightarrow> ((string + arena) \<times> builder) option" where
  "build_ast debug s = build_files debug (b_source_code s) s"

end
