(* ===== verification/BuilderFacts.thy ===== *)
theory BuilderFacts
  imports BuilderDefs
begin

text \<open>
  A relation on builder states is carried through every \<open>build_\<close> function: the locale
  \<open>builder_relation\<close> asks for it at the steps a function is made of, and \<open>keeps\<close>, \<open>finishes\<close> are the
  rules that follow the shape of the functions. The relation knows the parent its new nodes get.
\<close>

section \<open>Rules that follow the code\<close>

text \<open>\<open>st\<close> takes the state out of a result.\<close>

definition keeps ::
  "(nat \<Rightarrow> builder \<Rightarrow> builder \<Rightarrow> bool) \<Rightarrow> ('r \<Rightarrow> builder) \<Rightarrow> nat \<Rightarrow> builder \<Rightarrow> 'r option \<Rightarrow> bool" where
  "keeps R st p s m \<longleftrightarrow> (\<forall>r. m = Some r \<longrightarrow> R p s (st r))"

text \<open>
  What a node below a file says in the words of the source is what stands at its position.
\<close>

fun spelled :: "ast_node \<Rightarrow> string option" where
  "spelled (Node_Expression (Expr_Identifier x)) = Some (ident_name x)"
| "spelled (Node_Expression (Expr_Literal (Lit_Number _ _ t))) = Some t"
| "spelled (Node_Expression (Expr_Literal (Lit_String _ _ t))) = Some t"
| "spelled _ = None"

definition faithful :: "string \<Rightarrow> ast_node \<Rightarrow> bool" where
  "faithful code n \<longleftrightarrow>
     \<not> is_source_file n
     \<and> (\<forall>t. spelled n = Some t \<longrightarrow>
        t = ''<error>'' \<or> (\<exists>c. node_text c code = Some t \<and> node_location n = get_location c))"

lemma faithful_simps [simp]:
  "spelled n = None \<Longrightarrow> \<not> is_source_file n \<Longrightarrow> faithful code n"
  "ident_name x = ''<error>'' \<Longrightarrow> faithful code (Node_Expression (Expr_Identifier x))"
  "node_text c code = Some t \<Longrightarrow> faithful code
     (Node_Expression (Expr_Identifier \<lparr>ident_id = i, ident_location = get_location c, ident_name = t\<rparr>))"
  "node_text c code = Some t \<Longrightarrow> faithful code (Node_Expression (Expr_Literal (Lit_Number i (get_location c) t)))"
  "node_text c code = Some t \<Longrightarrow> faithful code (Node_Expression (Expr_Literal (Lit_String i (get_location c) t)))"
  by (auto simp: faithful_def)

text \<open>
  The rest of a function after it took its identifier \<open>i\<close> in state \<open>s0\<close>: from a state reached by work
  below \<open>i\<close> it ends by adding a node of that identifier.
\<close>

definition finishes ::
  "string \<Rightarrow> (nat \<Rightarrow> builder \<Rightarrow> builder \<Rightarrow> bool) \<Rightarrow> nat \<Rightarrow> nat \<Rightarrow> builder \<Rightarrow> builder \<Rightarrow> ('a \<times> builder) option \<Rightarrow> bool"
  where
  "finishes code R p i s0 s m \<longleftrightarrow>
     (R i s0 s \<longrightarrow>
       (\<forall>x s'. m = Some (x, s') \<longrightarrow>
          (\<exists>s1 n. R i s0 s1 \<and> node_id n = i \<and> faithful code n \<and> arena_add n p s1 = Some s')))"

locale builder_relation =
  fixes code :: string
    and R :: "nat \<Rightarrow> builder \<Rightarrow> builder \<Rightarrow> bool"
  assumes R_refl: "R p s s"
    and R_trans: "R p s s1 \<Longrightarrow> R p s1 s2 \<Longrightarrow> R p s s2"
    and R_error: "R p s (push_builder_error e s)"
    and R_skip: "get_node_id s = (i, s1) \<Longrightarrow> R p s s1"
    and R_node: "get_node_id s = (i, s1) \<Longrightarrow> R i s1 s2 \<Longrightarrow> node_id n = i
                  \<Longrightarrow> faithful code n \<Longrightarrow> arena_add n p s2 = Some s3 \<Longrightarrow> R p s s3"
    and R_drop: "get_node_id s = (i, s1) \<Longrightarrow> R i s1 s2 \<Longrightarrow> R p s (push_builder_error e s2)"
begin

lemma R_report: "R p s (report_at w n s)" "R p s (report_unexpected w t n s)"
  by (simp_all add: report_at_def report_unexpected_def R_error)

lemma keeps_Some: "R p s (st r) \<Longrightarrow> keeps R st p s (Some r)"
  by (simp add: keeps_def)

lemma keeps_pair: "R p s s' \<Longrightarrow> keeps R snd p s (Some (x, s'))"
  by (simp add: keeps_def)

lemma keeps_None: "keeps R st p s None"
  by (simp add: keeps_def)

lemma keeps_bind1: "keeps R (\<lambda>x. x) p s m \<Longrightarrow> (\<And>s1. keeps R st p s1 (f s1)) \<Longrightarrow> keeps R st p s (m \<bind> f)"
  by (auto simp: keeps_def bind_Some_iff intro: R_trans)

lemma keeps_bind2:
  "keeps R snd p s m \<Longrightarrow> (\<And>x s1. keeps R st p s1 (f x s1)) \<Longrightarrow>
   keeps R st p s (m \<bind> (\<lambda>(x, s1). f x s1))"
  by (fastforce simp: keeps_def bind_Some_iff intro: R_trans)

lemma keeps_bind3:
  "keeps R (\<lambda>(x, y, s). s) p s m \<Longrightarrow> (\<And>x y s1. keeps R st p s1 (f x y s1)) \<Longrightarrow>
   keeps R st p s (m \<bind> (\<lambda>(x, y, s1). f x y s1))"
  by (fastforce simp: keeps_def bind_Some_iff intro: R_trans)

lemma keeps_required: "(\<And>c. m = Some c \<Longrightarrow> keeps R st p s (f c)) \<Longrightarrow> keeps R st p s (required m f)"
  by (cases m) (simp_all add: keeps_def)

lemma keeps_optional:
  "(\<And>c. m = Some c \<Longrightarrow> keeps R snd p s (f c s)) \<Longrightarrow> keeps R snd p s (optional m f s)"
  by (cases m) (auto simp: keeps_def R_refl bind_Some_iff)

lemma keeps_each:
  "(\<And>c s. c \<in> set cs \<Longrightarrow> keeps R snd p s (f c s)) \<Longrightarrow> keeps R snd p s (build_each f cs s)"
proof (induction cs arbitrary: s)
  case (Cons c cs)
  have "keeps R snd p u (build_each f cs u)" for u by (rule Cons.IH) (simp add: Cons.prems)
  then show ?case
    unfolding build_each.simps by (intro keeps_bind2 keeps_Some) (simp_all add: Cons.prems R_refl)
qed (simp add: keeps_def R_refl)

lemma keeps_fold:
  "(\<And>x r. x \<in> set xs \<Longrightarrow> keeps R st p (st r) (f x r)) \<Longrightarrow> keeps R st p (st init) (fold_opt f xs init)"
proof (induction xs arbitrary: init)
  case (Cons x xs)
  show ?case unfolding keeps_def
  proof (intro allI impI)
    fix r assume "fold_opt f (x # xs) init = Some r"
    then obtain r1 where r1: "f x init = Some r1" "fold_opt f xs r1 = Some r" by (auto elim: bind_SomeE)
    have "R p (st init) (st r1)" using Cons.prems [of x init] r1(1) by (simp add: keeps_def)
    moreover have "keeps R st p (st r1) (fold_opt f xs r1)" by (rule Cons.IH) (simp add: Cons.prems)
    then have "R p (st r1) (st r)" using r1(2) by (simp add: keeps_def)
    ultimately show "R p (st init) (st r)" by (rule R_trans)
  qed
qed (simp add: keeps_def R_refl)

lemma keeps_if: "keeps R st p s a \<Longrightarrow> keeps R st p s b \<Longrightarrow> keeps R st p s (if c then a else b)"
  by simp

lemma keeps_case_option:
  "(m = None \<Longrightarrow> keeps R st p s a) \<Longrightarrow> (\<And>x. m = Some x \<Longrightarrow> keeps R st p s (f x)) \<Longrightarrow>
   keeps R st p s (case m of None \<Rightarrow> a | Some x \<Rightarrow> f x)"
  by (cases m) simp_all

lemma keeps_collect_errors: "keeps R (\<lambda>x. x) p s (collect_errors n code s)"
  unfolding collect_errors_def
  by (rule keeps_fold [where st = "\<lambda>x. x"])
    (auto simp: collect_error_def keeps_def Let_def bind_Some_iff R_refl R_error)

text \<open>What comes after the identifier.\<close>

lemma keeps_begin:
  assumes "\<And>i s1. finishes code R p i s1 s1 (f i s1)"
  shows "keeps R snd p s (begin_node n code s \<bind> (\<lambda>(i, s1). f i s1))"
  unfolding keeps_def
proof (intro allI impI)
  fix r assume "begin_node n code s \<bind> (\<lambda>(i, s1). f i s1) = Some r"
  then obtain s1 i s2 where s: "collect_errors n code s = Some s1" "get_node_id s1 = (i, s2)" "f i s2 = Some r"
    by (cases "collect_errors n code s") (auto simp: begin_node_def split: prod.splits)
  obtain s3 m where "R i s2 s3" "node_id m = i" "faithful code m" "arena_add m p s3 = Some (snd r)"
    using assms [of i s2] s(3) R_refl [of i s2] by (cases r) (auto simp: finishes_def)
  then have "R p s1 (snd r)" using R_node [OF s(2)] by blast
  moreover have "R p s s1" using keeps_collect_errors [of p s n] s(1) by (simp add: keeps_def)
  ultimately show "R p s (snd r)" using R_trans by blast
qed

lemma finishes_step: "finishes code R p i s0 s1 m \<Longrightarrow> R i s s1 \<Longrightarrow> finishes code R p i s0 s m"
  using R_trans unfolding finishes_def by blast

lemma finishes_bind2:
  assumes "keeps R snd i s m" and "\<And>x s1. finishes code R p i s0 s1 (f x s1)"
  shows "finishes code R p i s0 s (m \<bind> (\<lambda>(x, s1). f x s1))"
proof (cases m)
  case (Some r)
  then have "R i s (snd r)" using assms(1) by (simp add: keeps_def)
  then show ?thesis using Some finishes_step [OF assms(2)] by (cases r) simp
qed (simp add: finishes_def)

lemma finishes_bind3:
  assumes "keeps R (\<lambda>(x, y, s). s) i s m" and "\<And>x y s1. finishes code R p i s0 s1 (f x y s1)"
  shows "finishes code R p i s0 s (m \<bind> (\<lambda>(x, y, s1). f x y s1))"
proof (cases m)
  case (Some r)
  obtain x y t where r: "r = (x, y, t)" by (cases r)
  have "R i s t" using assms(1) Some r by (simp add: keeps_def)
  then show ?thesis using Some finishes_step [OF assms(2)] r by simp
qed (simp add: finishes_def)

lemma finishes_pure: "(\<And>x. m = Some x \<Longrightarrow> finishes code R p i s0 s (f x)) \<Longrightarrow> finishes code R p i s0 s (m \<bind> f)"
  by (auto simp: finishes_def bind_Some_iff)

lemmas finishes_text = finishes_pure [where m = "node_text n code" for n]
  finishes_pure [where m = "utf8_text n code" for n]
  finishes_pure [where m = "child_by_field_name f n" for f n]
  finishes_pure [where m = "unary_operator k" for k]

lemma finishes_add:
  "node_id n = i \<Longrightarrow> faithful code n \<Longrightarrow> finishes code R p i s0 s (arena_add n p s \<bind> (\<lambda>s'. Some (x, s')))"
  by (auto simp: finishes_def bind_Some_iff)

lemmas keeps_rules =
  keeps_begin keeps_bind3 keeps_bind2 keeps_bind1 keeps_required keeps_optional keeps_each keeps_if
  keeps_case_option keeps_None keeps_collect_errors
  finishes_bind3 finishes_bind2 finishes_text finishes_add

section \<open>Leaves\<close>

lemma keeps_identifier: "keeps R snd p s (build_identifier p n code s)"
  unfolding build_identifier_def Let_def by (intro keeps_rules) simp_all

lemma keeps_string: "keeps R snd p s (build_string_literal p n code s)"
  unfolding build_string_literal_def Let_def by (intro keeps_rules) simp_all

lemma keeps_number: "keeps R snd p s (build_number_literal p n code s)"
  unfolding build_number_literal_def Let_def by (intro keeps_rules) simp_all

lemma keeps_unit: "keeps R snd p s (build_unit_literal p n code s)"
  unfolding build_unit_literal_def Let_def by (intro keeps_rules) simp_all

lemma keeps_uzumaki: "keeps R snd p s (build_uzumaki_expression p n code s)"
  unfolding build_uzumaki_expression_def Let_def by (intro keeps_rules) simp_all

lemma keeps_bool: "keeps R snd p s (build_bool_literal p n code s)"
  unfolding build_bool_literal_def Let_def
  by (intro keeps_rules finishes_step [OF finishes_add]) (auto simp: R_refl R_report)

lemma keeps_generic: "keeps R snd p s (build_generic_type p n code s)"
  unfolding build_generic_type_def Let_def by (intro keeps_rules keeps_identifier) simp_all

lemma keeps_type_qualified: "keeps R snd p s (build_type_qualified_name p n code s)"
  unfolding build_type_qualified_name_def Let_def by (intro keeps_rules keeps_identifier) simp_all

lemma keeps_qualified: "keeps R snd p s (build_qualified_name p n code s)"
  unfolding build_qualified_name_def Let_def by (intro keeps_rules keeps_identifier) simp_all

lemma keeps_placeholders:
  "keeps R snd p s (Some (error_ident l s))"
  "keeps R snd p s (Some (error_expression l s))"
  "keeps R snd p s (Some (empty_block l s))"
  "keeps R snd p s (Some (unit_placeholder l s))"
  by (auto simp: keeps_def error_ident_def error_expression_def empty_block_def unit_placeholder_def
      intro: R_skip split: prod.split)

lemma keeps_step: "keeps R st p s1 m \<Longrightarrow> R p s s1 \<Longrightarrow> keeps R st p s m"
  using R_trans unfolding keeps_def by blast

text \<open>A placeholder after a report.\<close>

lemmas keeps_reported = keeps_placeholders [THEN keeps_step, OF R_report(1)]
  keeps_placeholders [THEN keeps_step, OF R_report(2)]

section \<open>Types and expressions\<close>

lemma keeps_array_index:
  assumes "\<And>p c s. size c < size n \<Longrightarrow> keeps R snd p s (build_expression p c code s)"
  shows "keeps R snd p s (build_array_index_access_expression p n code s)"
  unfolding build_array_index_access_expression.simps Let_def
  by (intro keeps_rules keeps_identifier assms) (auto dest: accessor_smaller)

lemma keeps_member:
  assumes "\<And>p c s. size c < size n \<Longrightarrow> keeps R snd p s (build_expression p c code s)"
  shows "keeps R snd p s (build_member_access_expression p n code s)"
  unfolding build_member_access_expression.simps Let_def
  by (intro keeps_rules keeps_identifier assms) (auto dest: accessor_smaller)

lemma keeps_type_member:
  assumes "\<And>p c s. size c < size n \<Longrightarrow> keeps R snd p s (build_expression p c code s)"
  shows "keeps R snd p s (build_type_member_access_expression p n code s)"
  unfolding build_type_member_access_expression.simps Let_def
  by (intro keeps_rules keeps_identifier assms) (auto dest: accessor_smaller)

lemma keeps_parenthesized:
  assumes "\<And>p c s. size c < size n \<Longrightarrow> keeps R snd p s (build_expression p c code s)"
  shows "keeps R snd p s (build_parenthesized_expression p n code s)"
  unfolding build_parenthesized_expression.simps Let_def
  by (intro keeps_rules keeps_identifier assms) (auto dest: accessor_smaller)

lemma keeps_prefix_unary:
  assumes "\<And>p c s. size c < size n \<Longrightarrow> keeps R snd p s (build_expression p c code s)"
  shows "keeps R snd p s (build_prefix_unary_expression p n code s)"
  unfolding build_prefix_unary_expression.simps Let_def
  by (intro keeps_rules keeps_identifier assms) (auto dest: accessor_smaller)

lemma keeps_array_literal:
  assumes "\<And>p c s. size c < size n \<Longrightarrow> keeps R snd p s (build_expression p c code s)"
  shows "keeps R snd p s (build_array_literal p n code s)"
  unfolding build_array_literal.simps Let_def
  by (intro keeps_rules keeps_identifier assms) (auto dest: accessor_smaller)

lemma keeps_type_array:
  assumes "\<And>p c s. size c < size n \<Longrightarrow> keeps R snd p s (build_expression p c code s)"
    and "\<And>p c s. size c < size n \<Longrightarrow> keeps R snd p s (build_type p c code s)"
  shows "keeps R snd p s (build_type_array p n code s)"
  unfolding build_type_array.simps Let_def
  by (intro keeps_rules keeps_identifier assms) (auto dest: accessor_smaller)

lemma keeps_function_type:
  assumes "\<And>p c s. size c < size n \<Longrightarrow> keeps R snd p s (build_type p c code s)"
  shows "keeps R snd p s (build_function_type p n code s)"
  unfolding build_function_type.simps Let_def
  by (intro keeps_rules keeps_identifier assms) (auto dest: accessor_smaller)

lemma keeps_binary:
  assumes "\<And>p c s. size c < size n \<Longrightarrow> keeps R snd p s (build_expression p c code s)"
  shows "keeps R snd p s (build_binary_expression p n code s)"
proof -
  have right: "finishes code R p i s0 u (required (child_by_field_name ''right'' n) (\<lambda>c. build_expression i c code u)
      \<bind> (\<lambda>(right, s4). arena_add (Node_Expression (Expr_Binary i (get_location n) left k right)) p s4
              \<bind> (\<lambda>s5. Some (Expr_Binary i (get_location n) left k right, s5))))"
    for i s0 u left k
    by (intro keeps_rules assms) (auto dest: accessor_smaller)
  show ?thesis
    unfolding build_binary_expression.simps Let_def
  proof (intro keeps_rules assms)
    fix i s1 left s2 operator_node
    show "finishes code R p i s1 s2
        (case case binary_operator (cst_kind operator_node) of
                None \<Rightarrow> (Op_Add, report_unexpected ''Unexpected operator'' (cst_kind operator_node) n s2)
              | Some k \<Rightarrow> (k, s2) of
           (operator, s3) \<Rightarrow> required (child_by_field_name ''right'' n) (\<lambda>c. build_expression i c code s3)
             \<bind> (\<lambda>(right, s4).
                    arena_add (Node_Expression (Expr_Binary i (get_location n) left operator right)) p s4
                    \<bind> (\<lambda>s5. Some (Expr_Binary i (get_location n) left operator right, s5))))"
      using right finishes_step [OF right R_report(2)]
      by (cases "binary_operator (cst_kind operator_node)") simp_all
  qed (auto dest: accessor_smaller)
qed

text \<open>The loops over the children of a call and of a struct expression.\<close>

lemma keeps_argument_loop:
  assumes "\<And>p c s. size c < size n \<Longrightarrow> keeps R snd p s (build_expression p c code s)"
  shows "keeps R (\<lambda>(x, y, s). s) i s
     (fold_opt
        (\<lambda>(field, c) (pending, args, u).
           if field = Some ''argument_name'' then
             build_expression i c code u \<bind> (\<lambda>(e, u1). Some (name_or pending e, args, u1))
           else if field = Some ''argument'' then
             build_expression i c code u \<bind> (\<lambda>(e, u1). Some (None, args @ [(pending, e)], u1))
           else Some (pending, args, u))
        (cst_children n) (None, [], s))"
proof -
  have step: "R i u u1" if "build_expression i c code u = Some (e, u1)" "(field, c) \<in> set (cst_children n)"
    for field c u u1 e
    using assms [of c i u] that child_entry_smaller [of field c n] by (simp add: keeps_def)
  show ?thesis
    by (intro keeps_fold [where st = "\<lambda>(x, y, s). s" and init = "(None, [], s)", simplified])
      (auto simp: keeps_def R_refl bind_Some_iff split: prod.splits if_splits intro: step)
qed

lemma keeps_call:
  assumes "\<And>p c s. size c < size n \<Longrightarrow> keeps R snd p s (build_expression p c code s)"
  shows "keeps R snd p s (build_function_call_expression p n code s)"
  unfolding build_function_call_expression.simps Let_def
  by (intro keeps_rules keeps_identifier keeps_argument_loop assms) (auto dest: accessor_smaller)

lemma keeps_struct:
  assumes "\<And>p c s. size c < size n \<Longrightarrow> keeps R snd p s (build_expression p c code s)"
  shows "keeps R snd p s (build_struct_expression p n code s)"
proof -
  have step: "R i u u1" if "build_expression i c code u = Some (e, u1)" "(field, c) \<in> set (cst_children n)"
    for i field c u u1 e
    using assms [of c i u] that child_entry_smaller [of field c n] by (simp add: keeps_def)
  have loop: "keeps R (\<lambda>(x, y, s). s) i s
     (fold_opt
        (\<lambda>(field, c) (pending, fs, u).
           if field = Some ''field'' then
             build_expression i c code u \<bind> (\<lambda>(e, u1). Some (name_or pending e, fs, u1))
           else if field = Some ''value'' then
             build_expression i c code u
             \<bind> (\<lambda>(e, u1). pending \<bind> (\<lambda>x. Some (None, fs @ [(x, e)], u1)))
           else Some (pending, fs, u))
        (cst_children n) (None, [], s))" for i s
    by (intro keeps_fold [where st = "\<lambda>(x, y, s). s" and init = "(None, [], s)", simplified])
      (auto simp: keeps_def R_refl bind_Some_iff split: prod.splits if_splits intro: step)
  show ?thesis
    unfolding build_struct_expression.simps Let_def
    by (intro keeps_rules keeps_identifier loop) simp_all
qed

lemma keeps_literal:
  assumes "\<And>p c s. size c < size n \<Longrightarrow> keeps R snd p s (build_expression p c code s)"
  shows "keeps R snd p s (build_literal p n code s)"
  unfolding build_literal.simps
  by (intro keeps_if keeps_bool keeps_string keeps_number keeps_unit keeps_reported keeps_array_literal assms)

lemma keeps_type_step:
  assumes "\<And>p c s. size c < size n \<Longrightarrow> keeps R snd p s (build_expression p c code s)"
    and "\<And>p c s. size c < size n \<Longrightarrow> keeps R snd p s (build_type p c code s)"
  shows "keeps R snd p s (build_type p n code s)"
  unfolding build_type.simps
  by (intro keeps_case_option keeps_if keeps_bind2 keeps_generic keeps_type_qualified keeps_qualified
      keeps_identifier keeps_type_array keeps_function_type keeps_pair R_refl R_report assms)

lemma keeps_expression_step:
  assumes "\<And>p c s. size c < size n \<Longrightarrow> keeps R snd p s (build_expression p c code s)"
    and "\<And>p c s. size c < size n \<Longrightarrow> keeps R snd p s (build_type p c code s)"
  shows "keeps R snd p s (build_expression p n code s)"
  unfolding build_expression.simps
  by (intro keeps_if keeps_bind2 keeps_array_index keeps_type_step [OF assms] keeps_member keeps_type_member
      keeps_call keeps_struct keeps_prefix_unary keeps_parenthesized keeps_binary keeps_literal
      keeps_uzumaki keeps_identifier keeps_reported keeps_pair R_refl assms)

lemma keeps_expression_type:
  "keeps R snd p s (build_expression p n code s) \<and> keeps R snd q t (build_type q n code t)"
proof (induction "size n" arbitrary: n p s q t rule: less_induct)
  case less
  then show ?case using keeps_expression_step keeps_type_step by blast
qed

lemmas keeps_expression = keeps_expression_type [THEN conjunct1]
lemmas keeps_type = keeps_expression_type [THEN conjunct2]

lemma keeps_any_literal: "keeps R snd p s (build_literal p n code s)"
  by (rule keeps_literal [OF keeps_expression])

lemmas expression_rules = keeps_expression keeps_type keeps_any_literal keeps_identifier keeps_reported
  keeps_placeholders

section \<open>Statements\<close>

lemma keeps_constant: "keeps R snd p s (build_constant_definition p n code s)"
  unfolding build_constant_definition_def Let_def by (intro keeps_rules expression_rules) simp_all

lemma keeps_return: "keeps R snd p s (build_return_statement p n code s)"
  unfolding build_return_statement_def Let_def
  by (intro keeps_rules expression_rules)
    (auto simp: keeps_def unit_placeholder_def intro: R_skip split: prod.split)

lemma keeps_variable_definition: "keeps R snd p s (build_variable_definition_statement p n code s)"
  unfolding build_variable_definition_statement_def Let_def by (intro keeps_rules expression_rules) simp_all

lemma keeps_type_definition_statement: "keeps R snd p s (build_type_definition_statement p n code s)"
  unfolding build_type_definition_statement_def Let_def by (intro keeps_rules expression_rules) simp_all

lemma keeps_assign: "keeps R snd p s (build_assign_statement p n code s)"
  unfolding build_assign_statement_def Let_def by (intro keeps_rules expression_rules) simp_all

lemma keeps_assert: "keeps R snd p s (build_assert_statement p n code s)"
  unfolding build_assert_statement_def Let_def by (intro keeps_rules expression_rules) simp_all

lemma keeps_break: "keeps R snd p s (build_break_statement p n code s)"
  unfolding build_break_statement_def Let_def by (intro keeps_rules) simp_all

text \<open>A placeholder that is added: a node without work below it.\<close>

lemma keeps_single:
  assumes "get_node_id s = (i, s1)" and "node_id n = i" and "faithful code n"
  shows "keeps R snd p s (arena_add n p s1 \<bind> (\<lambda>s2. Some (x, s2)))"
  using R_node [OF assms(1) R_refl assms(2,3)] by (auto simp: keeps_def bind_Some_iff)

lemma keeps_error_statement: "keeps R snd p s (create_error_statement p n code s)"
  by (cases "get_node_id s")
    (simp add: create_error_statement_def error_ident_def keeps_single)

lemma keeps_error_block: "keeps R snd p s (create_error_block p n code s)"
  by (cases "get_node_id s")
    (simp add: create_error_block_def empty_block_def keeps_single)

section \<open>Blocks\<close>

lemma keeps_block_statements:
  assumes "\<And>p c s. size c < size n \<Longrightarrow> keeps R snd p s (build_statement p c code s)"
  shows "keeps R snd p s (build_block_statements p n code s)"
proof -
  have step: "R p u u1" if "collect_errors c code u = Some u0"
    "build_statement p c code u0 = Some (st, u1)" "c \<in> set (child_nodes n)" for c u u0 u1 st
  proof -
    have "R p u u0" using keeps_collect_errors [of p u c] that(1) by (simp add: keeps_def)
    moreover have "R p u0 u1" using assms [OF child_nodes_smaller [OF that(3)]] that(2) by (simp add: keeps_def)
    ultimately show ?thesis by (rule R_trans)
  qed
  have skip: "R p u u0" if "collect_errors c code u = Some u0" for c u u0
    using keeps_collect_errors [of p u c] that by (simp add: keeps_def)
  show ?thesis
    unfolding build_block_statements.simps
    by (intro keeps_fold [where st = snd and init = "([], s)", simplified])
      (auto simp: keeps_def bind_Some_iff split: if_splits intro: step skip)
qed

text \<open>
  A block takes an identifier before its kind is known, so an unreadable block skips one.
\<close>

lemma keeps_block_step:
  assumes "\<And>p c s. size c < size n \<Longrightarrow> keeps R snd p s (build_statement p c code s)"
  shows "keeps R snd p s (build_block p n code s)"
proof -
  have nodes: "keeps R snd p s (begin_node n code s \<bind> (\<lambda>(i, s1).
      build_block_statements i n code s1 \<bind> (\<lambda>(ss, s2).
        arena_add (Node_Statement (Stmt_Block (Block_Block i (get_location n) ss))) p s2 \<bind>
          (\<lambda>s3. Some (Block_Block i (get_location n) ss, s3)))))"
    by (intro keeps_rules keeps_block_statements assms) simp_all
  have quantified: "keeps R snd p s (begin_node n code s \<bind> (\<lambda>(i, s1).
      optional (child_by_field_name ''body'' n) (\<lambda>c. build_block_statements i c code) s1 \<bind> (\<lambda>(ss, s2).
        arena_add (Node_Statement (Stmt_Block (mk i (get_location n)
            (case ss of None \<Rightarrow> [] | Some xs \<Rightarrow> xs)))) p s2 \<bind>
          (\<lambda>s3. Some (mk i (get_location n) (case ss of None \<Rightarrow> [] | Some xs \<Rightarrow> xs), s3)))))"
    if mk: "quantified_block (cst_kind n) = Some mk" for mk
  proof -
    have "block_id (mk i l ss) = i" for i l ss
      using mk by (auto simp: quantified_block_def split: if_splits)
    then show ?thesis
      by (intro keeps_rules keeps_block_statements assms) (auto dest: accessor_smaller)
  qed
  have placeholder: "keeps R snd p s (begin_node n code s \<bind> (\<lambda>(i, s1). create_error_block p n code (g s1)))"
    if "\<And>u. R p u (g u)" for g
  proof -
    have "keeps R snd p s (begin_node n code s)"
      using keeps_collect_errors [of p s n] R_skip R_trans
      by (fastforce simp: keeps_def begin_node_def bind_Some_iff)
    then show ?thesis
      by (intro keeps_bind2 keeps_step [OF keeps_error_block that])
  qed
  show ?thesis
    unfolding build_block.simps
    using nodes quantified placeholder [OF R_report(1)] placeholder [OF R_report(2)]
    by (cases "quantified_block (cst_kind n)"; cases "cst_kind n = ''block''"; cases "cst_kind n = ''ERROR''")
      (simp_all add: Let_def)
qed

lemma keeps_loop:
  assumes "\<And>p c s. size c < size n \<Longrightarrow> keeps R snd p s (build_block p c code s)"
  shows "keeps R snd p s (build_loop_statement p n code s)"
  unfolding build_loop_statement.simps Let_def
  by (intro keeps_rules expression_rules assms) (auto dest: accessor_smaller)

lemma keeps_conditional:
  assumes "\<And>p c s. size c < size n \<Longrightarrow> keeps R snd p s (build_block p c code s)"
  shows "keeps R snd p s (build_if_statement p n code s)"
  unfolding build_if_statement.simps Let_def
  by (intro keeps_rules expression_rules assms) (auto dest: accessor_smaller)

lemma keeps_statement_step:
  assumes "\<And>p c s. size c < size n \<Longrightarrow> keeps R snd p s (build_statement p c code s)"
    and "\<And>p c s. size c < size n \<Longrightarrow> keeps R snd p s (build_block p c code s)"
  shows "keeps R snd p s (build_statement p n code s)"
  unfolding build_statement.simps
  by (intro keeps_if keeps_case_option keeps_bind2 keeps_assign keeps_block_step keeps_expression
      keeps_error_statement keeps_return keeps_loop keeps_conditional keeps_variable_definition
      keeps_type_definition_statement keeps_assert keeps_break keeps_constant keeps_pair R_refl
      keeps_step [OF keeps_error_statement R_report(1)] keeps_step [OF keeps_error_statement R_report(2)]
      assms)

lemma keeps_statement_block:
  "keeps R snd p s (build_statement p n code s) \<and> keeps R snd q t (build_block q n code t)"
proof (induction "size n" arbitrary: n p s q t rule: less_induct)
  case less
  then show ?case using keeps_statement_step keeps_block_step by blast
qed

lemmas keeps_statement = keeps_statement_block [THEN conjunct1]
lemmas keeps_block = keeps_statement_block [THEN conjunct2]

section \<open>Definitions\<close>

lemma keeps_argument: "keeps R snd p s (build_argument p n code s)"
  unfolding build_argument_def Let_def by (intro keeps_rules expression_rules) simp_all

lemma keeps_self_reference: "keeps R snd p s (build_self_reference p n code s)"
  unfolding build_self_reference_def Let_def by (intro keeps_rules) simp_all

lemma keeps_ignore_argument: "keeps R snd p s (build_ignore_argument p n code s)"
  unfolding build_ignore_argument_def Let_def by (intro keeps_rules expression_rules) simp_all

lemma keeps_argument_type: "keeps R snd p s (build_argument_type p n code s)"
  unfolding build_argument_type_def
  by (intro keeps_bind1 keeps_collect_errors keeps_if keeps_bind2 keeps_argument keeps_self_reference
      keeps_ignore_argument keeps_type keeps_pair R_refl)

lemma keeps_struct_field: "keeps R snd p s (build_struct_field p n code s)"
  unfolding build_struct_field_def Let_def by (intro keeps_rules expression_rules) simp_all

lemma keeps_enum: "keeps R snd p s (build_enum_definition p n code s)"
  unfolding build_enum_definition_def Let_def by (intro keeps_rules expression_rules) simp_all

lemma keeps_external_function: "keeps R snd p s (build_external_function_definition p n code s)"
  unfolding build_external_function_definition_def Let_def
  by (intro keeps_rules expression_rules keeps_argument_type) simp_all

lemma keeps_type_definition: "keeps R snd p s (build_type_definition p n code s)"
  unfolding build_type_definition_def Let_def by (intro keeps_rules expression_rules) simp_all

lemma keeps_use_directive: "keeps R snd p s (build_use_directive p n code s)"
  unfolding build_use_directive_def Let_def
  by (intro keeps_rules keeps_identifier keeps_string)
    (auto simp: keeps_def bind_Some_iff R_refl split: option.splits prod.splits)

text \<open>
  A function without a name is dropped after its arguments and its result were built below it.
\<close>

lemma keeps_function: "keeps R snd p s (build_function_definition p n code s)"
proof -
  define signature where "signature = (\<lambda>i s1. do {
      (args, s2) \<leftarrow> optional (child_by_field_name ''argument_list'' n)
         (\<lambda>l. build_each (\<lambda>c. build_argument_type i c code) (children_by_field_name ''argument'' l)) s1;
      (tps, s3) \<leftarrow> optional (child_by_field_name ''type_parameters'' n)
         (\<lambda>l. build_each (\<lambda>c. build_identifier i c code) (children_by_field_name ''type'' l)) s2;
      (returns, s4) \<leftarrow> optional (child_by_field_name ''returns'' n) (\<lambda>c. build_type i c code) s3;
      Some ((args, tps, returns), s4) })"
  have signature: "keeps R snd i u (signature i u)" for i u
    unfolding signature_def
    by (intro keeps_rules keeps_identifier keeps_argument_type keeps_type keeps_pair R_refl)
  show ?thesis
  proof (cases "child_by_field_name ''name'' n")
    case (Some name_node)
    then show ?thesis
      unfolding build_function_definition_def Let_def Some option.case
      by (intro keeps_rules expression_rules keeps_argument_type keeps_block) simp_all
  next
    case None
    have "R p s s'" if built: "build_function_definition p n code s = Some (f, s')" for f s'
    proof -
      obtain s0 i s1 where s1: "collect_errors n code s = Some s0" "get_node_id s0 = (i, s1)"
        using built unfolding build_function_definition_def begin_node_def
        by (cases "collect_errors n code s"; cases "get_node_id (the (collect_errors n code s))") auto
      obtain x where x: "signature i s1 = Some x"
        and s': "s' = snd (empty_block (get_location n)
                  (snd (error_ident (get_location n) (report_at ''Missing function name'' n (snd x)))))"
        using built s1 None unfolding build_function_definition_def begin_node_def signature_def
        by (auto simp: bind_Some_iff split_beta Let_def)
      define s4 s5 where "s4 = snd x"
        and s5: "s5 = snd (error_ident (get_location n) (report_at ''Missing function name'' n s4))"
      have "R i s1 s4" using signature [of i s1] x by (simp add: keeps_def s4_def)
      then have "R p s0 (report_at ''Missing function name'' n s4)"
        unfolding report_at_def by (rule R_drop [OF s1(2)])
      moreover have "R p s s0" using keeps_collect_errors [of p s n] s1(1) by (simp add: keeps_def)
      moreover have "R p (report_at ''Missing function name'' n s4) s5" "R p s5 s'"
        using keeps_placeholders s5 s' by (simp_all add: keeps_def s4_def)
      ultimately show ?thesis using R_trans by blast
    qed
    then show ?thesis by (auto simp: keeps_def)
  qed
qed

lemma keeps_struct_definition: "keeps R snd p s (build_struct_definition p n code s)"
  unfolding build_struct_definition_def Let_def
  by (intro keeps_rules keeps_identifier keeps_struct_field keeps_function) simp_all

lemma keeps_error_definition: "keeps R snd p s (Some (create_error_definition n s))"
proof -
  obtain i s1 where s1: "get_node_id s = (i, s1)" by (cases "get_node_id s")
  show ?thesis
    using keeps_placeholders [where s = s1] R_skip [OF s1] R_trans
    unfolding create_error_definition_def keeps_def Let_def s1
    by (auto simp: split_beta) (metis (no_types, opaque_lifting) keeps_def keeps_placeholders(1,3) surjective_pairing snd_conv)
qed

lemma keeps_definition_step:
  assumes "\<And>p c s. size c < size n \<Longrightarrow> keeps R snd p s (build_definition p c code s)"
  shows "keeps R snd p s (build_definition p n code s)"
proof -
  have spec: "keeps R snd p s (build_spec_definition p n code s)"
    unfolding build_spec_definition.simps Let_def
    by (intro keeps_rules keeps_identifier assms) (auto dest!: in_set_dropD accessor_smaller)
  show ?thesis
    unfolding build_definition.simps
    by (intro keeps_if keeps_bind2 spec keeps_struct_definition keeps_enum keeps_constant keeps_function
        keeps_external_function keeps_type_definition keeps_pair R_refl
        keeps_step [OF keeps_error_definition R_error] keeps_step [OF keeps_error_definition R_report(2)])
qed

lemma keeps_definition: "keeps R snd p s (build_definition p n code s)"
proof (induction "size n" arbitrary: n p s rule: less_induct)
  case less
  then show ?case using keeps_definition_step by blast
qed

lemma keeps_items:
  "keeps R (\<lambda>(x, y, s). s) p s (fold_opt (build_item p code) cs (us, ds, s))"
  by (intro keeps_fold [where st = "\<lambda>(x, y, s). s" and init = "(us, ds, s)", simplified])
    (auto simp: build_item_def bind_Some_iff keeps_def split: prod.splits if_splits
      dest: keeps_definition [unfolded keeps_def, rule_format] keeps_use_directive [unfolded keeps_def, rule_format])

end
end
