(* ===== verification/BuilderArena.thy ===== *)
theory BuilderArena
  imports BuilderFacts
begin

text \<open>
  What the builder puts into the arena: the interpretations of \<open>builder_relation\<close>. As long as the counter
  has not gone round, every identifier is new, every node gets its parent, and a parent that is missing
  from the arena comes with an error.
\<close>

section \<open>Errors and counter\<close>

definition logs :: "nat \<Rightarrow> builder \<Rightarrow> builder \<Rightarrow> bool" where
  "logs p s s' \<longleftrightarrow> b_count s \<le> b_count s' \<and> (\<exists>es. b_errors s' = b_errors s @ es)
     \<and> b_source_code s' = b_source_code s"

lemma arena_add_simps:
  assumes "arena_add n p s = Some s'"
  shows "b_count s' = b_count s" "b_errors s' = b_errors s" "b_source_code s' = b_source_code s"
    "add_node n p (b_arena s) = Some (b_arena s')"
  using assms by (auto simp: arena_add_def bind_Some_iff)

lemma get_node_id_simps:
  assumes "get_node_id s = (i, s1)"
  shows "i = b_count s mod 2 ^ 32" "b_count s1 = Suc (b_count s)" "b_errors s1 = b_errors s"
    "b_arena s1 = b_arena s" "b_source_code s1 = b_source_code s"
  using assms by (auto simp: get_node_id_def)

lemma push_error_simps [simp]:
  "b_count (push_builder_error e s) = b_count s"
  "b_errors (push_builder_error e s) = b_errors s @ [e]"
  "b_arena (push_builder_error e s) = b_arena s"
  "b_source_code (push_builder_error e s) = b_source_code s"
  by (simp_all add: push_builder_error_def)

interpretation logged: builder_relation code logs for code
proof unfold_locales
  show "logs p s s1 \<Longrightarrow> logs p s1 s2 \<Longrightarrow> logs p s s2" for p s s1 s2
    by (auto simp: logs_def)
  show "get_node_id s = (i, s1) \<Longrightarrow> logs i s1 s2 \<Longrightarrow> node_id n = i \<Longrightarrow> faithful code n
      \<Longrightarrow> arena_add n p s2 = Some s3 \<Longrightarrow> logs p s s3" for code p s i s1 s2 n s3
    using get_node_id_simps [of s i s1] arena_add_simps [of n p s2 s3] by (auto simp: logs_def)
  show "get_node_id s = (i, s1) \<Longrightarrow> logs i s1 s2 \<Longrightarrow> logs p s (push_builder_error e s2)" for p s i s1 s2 e
    using get_node_id_simps [of s i s1] by (auto simp: logs_def)
  show "get_node_id s = (i, s1) \<Longrightarrow> logs p s s1" for p s i s1
    using get_node_id_simps [of s i s1] by (simp add: logs_def)
qed (simp_all add: logs_def)

section \<open>Nodes and parents\<close>

definition ids_below :: "builder \<Rightarrow> bool" where
  "ids_below s \<longleftrightarrow> wf_arena (b_arena s) \<and> (\<forall>i. ar_nodes (b_arena s) i \<noteq> None \<longrightarrow> i < b_count s)"

text \<open>The nodes added on the way from \<open>s\<close> to \<open>s'\<close>, below the node \<open>p\<close>.\<close>

definition adds_below :: "string \<Rightarrow> nat \<Rightarrow> builder \<Rightarrow> builder \<Rightarrow> bool" where
  "adds_below code p s s' \<longleftrightarrow>
     (\<forall>i<b_count s. ar_nodes (b_arena s') i = ar_nodes (b_arena s) i
        \<and> ar_parent_map (b_arena s') i = ar_parent_map (b_arena s) i)
     \<and> (\<forall>i n. b_count s \<le> i \<longrightarrow> ar_nodes (b_arena s') i = Some n \<longrightarrow>
          faithful code n
          \<and> (\<exists>q. ar_parent_map (b_arena s') i = Some q \<and> q < i \<and> (q = p \<or> b_count s \<le> q)
                 \<and> (b_errors s' = b_errors s \<longrightarrow> q = p \<or> ar_nodes (b_arena s') q \<noteq> None)))"

definition grown :: "string \<Rightarrow> nat \<Rightarrow> builder \<Rightarrow> builder \<Rightarrow> bool" where
  "grown code p s s' \<longleftrightarrow> logs p s s'
     \<and> (b_count s' \<le> u32_max \<longrightarrow> p < b_count s \<longrightarrow> ids_below s \<longrightarrow> ids_below s' \<and> adds_below code p s s')"

lemma grown_same:
  assumes "b_arena s' = b_arena s" "logs p s s'"
  shows "grown code p s s'"
  using assms by (fastforce simp: grown_def logs_def ids_below_def adds_below_def)

lemma adds_below_trans:
  assumes "adds_below code p s s1" "adds_below code p s1 s2"
    and "logs p s s1" "logs p s1 s2"
  shows "adds_below code p s s2"
proof -
  have le: "b_count s \<le> b_count s1" using assms(3) by (simp add: logs_def)
  obtain es fs where es: "b_errors s1 = b_errors s @ es" "b_errors s2 = b_errors s1 @ fs"
    using assms(3,4) by (auto simp: logs_def)
  have same: "b_errors s1 = b_errors s" "b_errors s2 = b_errors s1" if "b_errors s2 = b_errors s"
    using that es by simp_all
  have old: "ar_nodes (b_arena s2) i = ar_nodes (b_arena s1) i"
    "ar_parent_map (b_arena s2) i = ar_parent_map (b_arena s1) i" if "i < b_count s1" for i
    using assms(2) that by (simp_all add: adds_below_def)
  have "faithful code n \<and> (\<exists>q. ar_parent_map (b_arena s2) i = Some q \<and> q < i \<and> (q = p \<or> b_count s \<le> q)
          \<and> (b_errors s2 = b_errors s \<longrightarrow> q = p \<or> ar_nodes (b_arena s2) q \<noteq> None))"
    if i: "b_count s \<le> i" "ar_nodes (b_arena s2) i = Some n" for i n
  proof (cases "i < b_count s1")
    case True
    then have n: "ar_nodes (b_arena s1) i = Some n" using i(2) old by simp
    then obtain q where q: "ar_parent_map (b_arena s1) i = Some q" "q < i" "q = p \<or> b_count s \<le> q"
      "b_errors s1 = b_errors s \<longrightarrow> q = p \<or> ar_nodes (b_arena s1) q \<noteq> None" and f: "faithful code n"
      using assms(1) i(1) unfolding adds_below_def by blast
    have "ar_nodes (b_arena s2) q = ar_nodes (b_arena s1) q" using old(1) [of q] q(2) True by simp
    then show ?thesis using q f old(2) [OF True] same(1) by auto
  next
    case False
    then have "b_count s1 \<le> i" by simp
    then obtain q where "ar_parent_map (b_arena s2) i = Some q" "q < i" "q = p \<or> b_count s1 \<le> q"
      "b_errors s2 = b_errors s1 \<longrightarrow> q = p \<or> ar_nodes (b_arena s2) q \<noteq> None" and f: "faithful code n"
      using assms(2) i(2) unfolding adds_below_def by blast
    then show ?thesis using le same(2) by auto
  qed
  moreover have "ar_nodes (b_arena s2) i = ar_nodes (b_arena s) i
      \<and> ar_parent_map (b_arena s2) i = ar_parent_map (b_arena s) i" if "i < b_count s" for i
    using assms(1) old [of i] le that by (simp add: adds_below_def)
  ultimately show ?thesis unfolding adds_below_def by blast
qed

lemma grown_trans: "grown code p s s1 \<Longrightarrow> grown code p s1 s2 \<Longrightarrow> grown code p s s2"
  unfolding grown_def
  by (auto simp: logs_def intro: adds_below_trans [unfolded logs_def])

text \<open>What work below the identifier \<open>i\<close> leaves in the arena, seen from before \<open>i\<close> was taken.\<close>

lemma adds_below_child:
  assumes i: "get_node_id s = (i, s1)" "i = b_count s" and ok: "ids_below s"
    and below: "adds_below code i s1 s2"
  shows "j < b_count s \<Longrightarrow> ar_nodes (b_arena s2) j = ar_nodes (b_arena s) j
           \<and> ar_parent_map (b_arena s2) j = ar_parent_map (b_arena s) j"
    and "ar_nodes (b_arena s2) i = None"
    and "b_count s \<le> j \<Longrightarrow> ar_nodes (b_arena s2) j = Some m \<Longrightarrow>
           faithful code m
           \<and> (\<exists>q. ar_parent_map (b_arena s2) j = Some q \<and> q < j \<and> b_count s \<le> q
                  \<and> (b_errors s2 = b_errors s \<longrightarrow> q = i \<or> ar_nodes (b_arena s2) q \<noteq> None))"
proof -
  note i_simps = get_node_id_simps [OF i(1)]
  have old: "ar_nodes (b_arena s2) j = ar_nodes (b_arena s) j
      \<and> ar_parent_map (b_arena s2) j = ar_parent_map (b_arena s) j" if "j < Suc (b_count s)" for j
    using below that i_simps by (simp add: adds_below_def)
  then show "j < b_count s \<Longrightarrow> ar_nodes (b_arena s2) j = ar_nodes (b_arena s) j
           \<and> ar_parent_map (b_arena s2) j = ar_parent_map (b_arena s) j" by simp
  have "ar_nodes (b_arena s) i = None" using ok i(2) by (auto simp: ids_below_def)
  then show free: "ar_nodes (b_arena s2) i = None" using old [of i] i(2) by simp
  assume j: "b_count s \<le> j" "ar_nodes (b_arena s2) j = Some m"
  then have "j \<noteq> i" using free by auto
  then have "b_count s1 \<le> j" using j(1) i(2) i_simps(2) by simp
  then have "faithful code m \<and> (\<exists>q. ar_parent_map (b_arena s2) j = Some q \<and> q < j
      \<and> (q = i \<or> b_count s1 \<le> q)
      \<and> (b_errors s2 = b_errors s1 \<longrightarrow> q = i \<or> ar_nodes (b_arena s2) q \<noteq> None))"
    using below j(2) unfolding adds_below_def by blast
  then show "faithful code m
           \<and> (\<exists>q. ar_parent_map (b_arena s2) j = Some q \<and> q < j \<and> b_count s \<le> q
                  \<and> (b_errors s2 = b_errors s \<longrightarrow> q = i \<or> ar_nodes (b_arena s2) q \<noteq> None))"
    using i(2) i_simps(2,3) by auto
qed

lemma grown_child:
  assumes i: "get_node_id s = (i, s1)" and below: "grown code i s1 s2"
    and small: "b_count s2 \<le> u32_max" and ok: "ids_below s"
  shows "i = b_count s" "b_count s < b_count s2" "ids_below s2" "adds_below code i s1 s2"
proof -
  note i_simps = get_node_id_simps [OF i]
  show le: "b_count s < b_count s2" using below i_simps by (simp add: grown_def logs_def)
  then show i_eq: "i = b_count s" using small i_simps(1) by (simp add: u32_max_def)
  have "ids_below s1" using ok i_simps by (auto simp: ids_below_def intro: less_SucI)
  then show "ids_below s2" "adds_below code i s1 s2"
    using below small i_simps(2) i_eq by (simp_all add: grown_def)
qed

text \<open>A node is added after everything below it.\<close>

lemma grown_node:
  assumes i: "get_node_id s = (i, s1)" and below: "grown code i s1 s2"
    and n: "node_id n = i" "faithful code n" and add: "arena_add n p s2 = Some s3"
  shows "grown code p s s3"
proof -
  note i_simps = get_node_id_simps [OF i] and add_simps = arena_add_simps [OF add]
  have logs: "logs p s s3"
    using below i_simps add_simps by (auto simp: grown_def logs_def)
  have "ids_below s3 \<and> adds_below code p s s3"
    if small: "b_count s3 \<le> u32_max" and p: "p < b_count s" and ok: "ids_below s"
  proof -
    have small2: "b_count s2 \<le> u32_max" using small add_simps(1) by simp
    note s2 = grown_child [OF i below small2 ok]
    note child = adds_below_child [OF i s2(1) ok s2(4)]
    have p_max: "p \<noteq> u32_max" using p s2(2) small2 by simp
    note a = add_node_SomeD(3,4) [OF add_simps(4)]
    have nodes: "ar_nodes (b_arena s3) = (ar_nodes (b_arena s2))(i \<mapsto> n)"
      and parents: "ar_parent_map (b_arena s3) = (ar_parent_map (b_arena s2))(i \<mapsto> p)"
      using a n(1) p_max by simp_all
    have "ids_below s3"
      using s2(1-3) add_node_wf [OF _ add_simps(4)] add_simps(1) by (auto simp: ids_below_def nodes)
    moreover have "adds_below code p s s3"
      unfolding adds_below_def
    proof (intro conjI allI impI)
      fix j assume "j < b_count s"
      then show "ar_nodes (b_arena s3) j = ar_nodes (b_arena s) j"
        "ar_parent_map (b_arena s3) j = ar_parent_map (b_arena s) j"
        using child(1) s2(1) by (simp_all add: nodes parents)
    next
      fix j m assume j: "b_count s \<le> j" "ar_nodes (b_arena s3) j = Some m"
      show "faithful code m"
        using j child(3) n(2) by (cases "j = i") (auto simp: nodes)
      show "\<exists>q. ar_parent_map (b_arena s3) j = Some q \<and> q < j \<and> (q = p \<or> b_count s \<le> q)
             \<and> (b_errors s3 = b_errors s \<longrightarrow> q = p \<or> ar_nodes (b_arena s3) q \<noteq> None)"
      proof (cases "j = i")
        case True
        then show ?thesis using p s2(1) by (simp add: parents)
      next
        case False
        then obtain q where "ar_parent_map (b_arena s2) j = Some q" "q < j" "b_count s \<le> q"
          "b_errors s2 = b_errors s \<longrightarrow> q = i \<or> ar_nodes (b_arena s2) q \<noteq> None"
          using child(3) [OF j(1)] j(2) by (auto simp: nodes)
        then show ?thesis using False add_simps(2) by (auto simp: nodes parents)
      qed
    qed
    ultimately show ?thesis by blast
  qed
  then show ?thesis using logs by (simp add: grown_def)
qed

text \<open>A node that is dropped leaves children without a parent, and an error.\<close>

lemma grown_drop:
  assumes i: "get_node_id s = (i, s1)" and below: "grown code i s1 s2"
  shows "grown code p s (push_builder_error e s2)"
proof -
  have logs: "logs p s (push_builder_error e s2)"
    using below get_node_id_simps [OF i] by (auto simp: grown_def logs_def)
  then have errors: "b_errors s2 @ [e] \<noteq> b_errors s"
    using below get_node_id_simps [OF i] by (auto simp: grown_def logs_def)
  have "ids_below (push_builder_error e s2) \<and> adds_below code p s (push_builder_error e s2)"
    if small: "b_count s2 \<le> u32_max" and ok: "ids_below s"
  proof -
    note s2 = grown_child [OF i below small ok]
    note child = adds_below_child [OF i s2(1) ok s2(4)]
    have "adds_below code p s (push_builder_error e s2)"
      using child(1,3) errors unfolding adds_below_def by (simp del: not_None_eq) blast
    then show ?thesis using s2(3) by (simp add: ids_below_def)
  qed
  then show ?thesis using logs by (simp add: grown_def)
qed

interpretation arena: builder_relation code "grown code" for code
proof unfold_locales
  show "grown code p s s1 \<Longrightarrow> grown code p s1 s2 \<Longrightarrow> grown code p s s2" for p s s1 s2
    by (rule grown_trans)
  show "get_node_id s = (i, s1) \<Longrightarrow> grown code i s1 s2 \<Longrightarrow> node_id n = i \<Longrightarrow> faithful code n
      \<Longrightarrow> arena_add n p s2 = Some s3 \<Longrightarrow> grown code p s s3" for p s i s1 s2 n s3
    by (rule grown_node)
  show "get_node_id s = (i, s1) \<Longrightarrow> grown code i s1 s2 \<Longrightarrow> grown code p s (push_builder_error e s2)"
    for p s i s1 s2 e
    by (rule grown_drop)
  show "get_node_id s = (i, s1) \<Longrightarrow> grown code p s s1" for p s i s1
    by (rule grown_same) (auto dest: get_node_id_simps simp: logs_def)
qed (auto intro: grown_same simp: logs_def)

end
