(* ===== verification/BuilderTotal.thy ===== *)
theory BuilderTotal
  imports BuilderArena
begin

text \<open>
  The builder returns. \<open>shape_ok\<close> lists, for each kind of node, the children the builder unwraps, as the
  grammar provides them; \<open>well_formed\<close> asks for it everywhere, with spans inside the code. The identifiers
  a tree needs are bounded by three times its nodes: that many are taken for a definition that could
  not be parsed.
\<close>

section \<open>Well-formed trees\<close>

definition required_fields :: "string \<Rightarrow> string list" where
  "required_fields k =
     (case map_of
       [(''member_access_expression'', [''expression'', ''name'']),
        (''type_member_access_expression'', [''expression'', ''name'']),
        (''function_call_expression'', [''function'']),
        (''struct_expression'', [''name'']),
        (''prefix_unary_expression'', [''operator'']),
        (''binary_expression'', [''left'', ''operator'', ''right'']),
        (''type_array'', [''type'', ''length'']),
        (''generic_type'', [''base_type'']),
        (''generic_name'', [''base_type'']),
        (''type_qualified_name'', [''alias'', ''name'']),
        (''qualified_name'', [''qualifier'', ''name'']),
        (''constant_definition'', [''type'', ''name'', ''value'']),
        (''variable_definition_statement'', [''type'', ''name'']),
        (''type_definition_statement'', [''type'', ''name'']),
        (''assign_statement'', [''left'', ''right'']),
        (''spec_definition'', [''name'']),
        (''enum_definition'', [''name'']),
        (''struct_definition'', [''name'']),
        (''external_function_definition'', [''name'']),
        (''argument_declaration'', [''name'', ''type'']),
        (''ignore_argument'', [''type''])] k of Some fs \<Rightarrow> fs | None \<Rightarrow> [])"

definition has_field :: "cst \<Rightarrow> string \<Rightarrow> bool" where
  "has_field n f \<longleftrightarrow> child_by_field_name f n \<noteq> None"

text \<open>In a struct expression every value follows the name of its field.\<close>

fun values_named :: "bool \<Rightarrow> (string option \<times> cst) list \<Rightarrow> bool" where
  "values_named pending [] = True"
| "values_named pending ((f, c) # cs) =
     (if f = Some ''field'' then values_named (pending \<or> cst_kind c = ''identifier'') cs
      else if f = Some ''value'' then pending \<and> values_named False cs
      else values_named pending cs)"

definition shape_ok :: "cst \<Rightarrow> bool" where
  "shape_ok n \<longleftrightarrow>
     list_all (has_field n) (required_fields (cst_kind n))
     \<and> (cst_kind n = ''array_index_access_expression'' \<longrightarrow> 2 \<le> length (named_children n))
     \<and> (cst_kind n \<in> {''prefix_unary_expression'', ''parenthesized_expression'', ''assert_statement'',
           ''generic_type'', ''generic_name''} \<longrightarrow> 2 \<le> length (child_nodes n))
     \<and> (cst_kind n \<in> {''generic_type'', ''generic_name''} \<longrightarrow> fst (cst_children n ! 1) \<noteq> Some ''base_type'')
     \<and> (cst_kind n = ''prefix_unary_expression'' \<longrightarrow>
          unary_operator (cst_kind (the (child_by_field_name ''operator'' n))) \<noteq> None)
     \<and> (cst_kind n = ''struct_expression'' \<longrightarrow> values_named False (cst_children n))
     \<and> (cst_kind n = ''struct_definition'' \<longrightarrow>
          list_all (\<lambda>c. has_field c ''type'' \<and> has_field c ''name'') (children_by_field_name ''field'' n))
     \<and> (cst_kind n = ''spec_definition'' \<longrightarrow>
          list_all (\<lambda>(f, c). f \<noteq> Some ''name'') (drop 1 (filter (\<lambda>(f, c). cst_named c) (cst_children n))))"

definition span_ok :: "string \<Rightarrow> cst \<Rightarrow> bool" where
  "span_ok code n \<longleftrightarrow> node_text n code \<noteq> None
     \<and> byte_slice code (offset_start (get_location n)) (offset_end (get_location n)) \<noteq> None"

function well_formed :: "string \<Rightarrow> cst \<Rightarrow> bool" where
  "well_formed code n =
     (span_ok code n \<and> shape_ok n \<and> list_all (well_formed code) (child_nodes n))"
  by pat_completeness auto
termination by (relation "measure (\<lambda>(code, n). size n)") (auto dest: child_nodes_smaller)

function tree_size :: "cst \<Rightarrow> nat" where
  "tree_size n = 1 + sum_list (map tree_size (child_nodes n))"
  by pat_completeness auto
termination by (relation "measure size") (auto dest: child_nodes_smaller)

declare well_formed.simps [simp del] and tree_size.simps [simp del]

lemma well_formedD:
  assumes "well_formed code n"
  shows "span_ok code n" "shape_ok n" "c \<in> set (child_nodes n) \<Longrightarrow> well_formed code c"
  using assms unfolding well_formed.simps [of code n] by (auto simp: list_all_iff)

definition budget :: "cst \<Rightarrow> nat" where
  "budget n = 3 * tree_size n"

definition entries_budget :: "(string option \<times> cst) list \<Rightarrow> nat" where
  "entries_budget es = sum_list (map (\<lambda>(f, c). budget c) es)"

definition nodes_budget :: "cst list \<Rightarrow> nat" where
  "nodes_budget ns = sum_list (map budget ns)"

definition option_budget :: "cst option \<Rightarrow> nat" where
  "option_budget m = (case m of None \<Rightarrow> 0 | Some c \<Rightarrow> budget c)"

lemma budget_unfold: "budget n = 3 + entries_budget (cst_children n)"
  by (simp add: budget_def tree_size.simps [of n] entries_budget_def child_nodes_def sum_list_const_mult
      comp_def case_prod_unfold)

definition field_entries :: "string list \<Rightarrow> cst \<Rightarrow> (string option \<times> cst) list" where
  "field_entries fs n = filter (\<lambda>(g, c). g \<in> Some ` set fs) (cst_children n)"

lemma entries_budget_filter: "entries_budget (filter P es) \<le> entries_budget es"
  by (induction es) (auto simp: entries_budget_def)

lemma entries_budget_disjoint:
  "(\<And>e. e \<in> set es \<Longrightarrow> \<not> (P e \<and> Q e)) \<Longrightarrow>
   entries_budget (filter P es) + entries_budget (filter Q es) \<le> entries_budget es"
  by (induction es) (fastforce simp: entries_budget_def)+

lemma field_budget: "nodes_budget (children_by_field_name f n) = entries_budget (field_entries [f] n)"
  by (simp add: nodes_budget_def children_by_field_name_def entries_budget_def field_entries_def
      case_prod_unfold comp_def)

lemma first_field_budget: "option_budget (child_by_field_name f n) \<le> nodes_budget (children_by_field_name f n)"
  by (cases "children_by_field_name f n")
    (simp_all add: child_by_field_name_def nth_node_def option_budget_def nodes_budget_def)

lemma field_entries_Cons:
  "f \<notin> set fs \<Longrightarrow>
   entries_budget (field_entries [f] n) + entries_budget (field_entries fs n) = entries_budget (field_entries (f # fs) n)"
proof -
  assume f: "f \<notin> set fs"
  have "entries_budget (filter (\<lambda>(g, c). g \<in> Some ` set [f]) es) + entries_budget (filter (\<lambda>(g, c). g \<in> Some ` set fs) es)
      = entries_budget (filter (\<lambda>(g, c). g \<in> Some ` set (f # fs)) es)" for es
    using f by (induction es) (auto simp: entries_budget_def)
  then show ?thesis by (simp add: field_entries_def)
qed

text \<open>Different fields have different children.\<close>

lemma fields_budget:
  "distinct fs \<Longrightarrow> 3 + sum_list (map (\<lambda>f. nodes_budget (children_by_field_name f n)) fs) \<le> budget n"
proof -
  have "distinct fs \<Longrightarrow>
      sum_list (map (\<lambda>f. nodes_budget (children_by_field_name f n)) fs) = entries_budget (field_entries fs n)"
    by (induction fs) (simp_all add: field_budget field_entries_Cons, simp add: field_entries_def entries_budget_def)
  then show "distinct fs \<Longrightarrow> ?thesis"
    using entries_budget_filter [of _ "cst_children n"] by (simp add: budget_unfold field_entries_def)
qed

lemma mixed_fields_budget:
  assumes "distinct (fs @ gs)"
  shows "3 + sum_list (map (\<lambda>f. option_budget (child_by_field_name f n)) fs)
           + sum_list (map (\<lambda>f. nodes_budget (children_by_field_name f n)) gs) \<le> budget n"
proof -
  have "sum_list (map (\<lambda>f. option_budget (child_by_field_name f n)) fs)
      \<le> sum_list (map (\<lambda>f. nodes_budget (children_by_field_name f n)) fs)"
    by (rule sum_list_mono) (rule first_field_budget)
  then show ?thesis using fields_budget [OF assms, of n] by simp
qed

lemma nodes_budget_entries: "nodes_budget (child_nodes n) = entries_budget (cst_children n)"
  by (simp add: nodes_budget_def child_nodes_def entries_budget_def case_prod_unfold comp_def)

lemma nodes_budget_filter: "nodes_budget (filter P ns) \<le> nodes_budget ns"
  by (induction ns) (auto simp: nodes_budget_def)

lemma nodes_budget_drop: "nodes_budget (drop k ns) \<le> nodes_budget ns"
  by (induction ns arbitrary: k) (auto simp: nodes_budget_def drop_Cons' intro: le_add2 order_trans)

lemma children_budget: "3 + nodes_budget (child_nodes n) \<le> budget n"
  by (simp add: budget_unfold nodes_budget_entries)

lemma named_budget: "3 + nodes_budget (named_children n) \<le> budget n"
  using children_budget [of n] nodes_budget_filter [of cst_named "child_nodes n"]
  by (simp add: named_children_def)

lemma nth_budget: "option_budget (nth_node i ns) \<le> nodes_budget ns"
  by (auto simp: nth_node_def option_budget_def nodes_budget_def intro: elem_le_sum_list [of i "map budget ns", simplified])

section \<open>Rules that follow the code\<close>

text \<open>
  \<open>runs\<close>: with a budget of \<open>b\<close> identifiers left before the counter is full, the step returns and takes
  at most that many. \<open>returns\<close> leaves out what the relation \<open>grown\<close> says.
\<close>

definition returns :: "('r \<Rightarrow> builder) \<Rightarrow> nat \<Rightarrow> nat \<Rightarrow> builder \<Rightarrow> 'r option \<Rightarrow> bool" where
  "returns st p b s m \<longleftrightarrow>
     (ids_below s \<longrightarrow> p < b_count s \<longrightarrow> b_count s + b \<le> u32_max \<longrightarrow>
        (\<exists>r. m = Some r \<and> b_count (st r) \<le> b_count s + b))"

definition runs :: "string \<Rightarrow> ('r \<Rightarrow> builder) \<Rightarrow> nat \<Rightarrow> nat \<Rightarrow> builder \<Rightarrow> 'r option \<Rightarrow> bool" where
  "runs code st p b s m \<longleftrightarrow> returns st p b s m \<and> keeps (grown code) st p s m"

text \<open>The rest of a function that took its identifier \<open>i\<close> in state \<open>s0\<close>.\<close>

definition ends ::
  "string \<Rightarrow> nat \<Rightarrow> nat \<Rightarrow> builder \<Rightarrow> nat \<Rightarrow> builder \<Rightarrow> ('a \<times> builder) option \<Rightarrow> bool" where
  "ends code p i s0 b s m \<longleftrightarrow>
     (\<forall>s'. get_node_id s' = (i, s0) \<longrightarrow> ids_below s' \<longrightarrow> p < b_count s' \<longrightarrow> grown code i s0 s
        \<longrightarrow> b_count s + b \<le> u32_max \<longrightarrow> (\<exists>r. m = Some r \<and> b_count (snd r) \<le> b_count s + b))"

lemma runs_weaken: "runs code st p b s m \<Longrightarrow> b \<le> B \<Longrightarrow> runs code st p B s m"
  by (fastforce simp: runs_def returns_def)

lemma runs_returns: "keeps (grown code) st p s m \<Longrightarrow> returns st p b s m \<Longrightarrow> b \<le> B \<Longrightarrow> runs code st p B s m"
  by (fastforce simp: runs_def returns_def)

lemma runs_next:
  assumes "runs code st p b s m" "ids_below s" "p < b_count s" "b_count s + b \<le> u32_max"
  obtains r where "m = Some r" "grown code p s (st r)" "ids_below (st r)" "p < b_count (st r)"
    "b_count (st r) \<le> b_count s + b"
proof -
  obtain r where r: "m = Some r" "b_count (st r) \<le> b_count s + b"
    using assms by (auto simp: runs_def returns_def)
  have g: "grown code p s (st r)" using assms(1) r(1) by (simp add: runs_def keeps_def)
  then have "b_count s \<le> b_count (st r)" by (simp add: grown_def logs_def)
  then show ?thesis using that r g assms(2-4) by (simp add: grown_def)
qed

lemma runs_bind:
  assumes "runs code st1 p b1 s m" and "\<And>r. m = Some r \<Longrightarrow> runs code st p b2 (st1 r) (f r)"
  shows "runs code st p (b1 + b2) s (m \<bind> f)"
proof -
  have "grown code p s (st u)" if u: "m \<bind> f = Some u" for u
  proof -
    obtain r where r: "m = Some r" "f r = Some u" using u by (auto simp: bind_Some_iff)
    have "grown code p s (st1 r)" using assms(1) r(1) by (simp add: runs_def keeps_def)
    moreover have "grown code p (st1 r) (st u)" using assms(2) [OF r(1)] r(2) by (simp add: runs_def keeps_def)
    ultimately show ?thesis by (rule grown_trans)
  qed
  then have "keeps (grown code) st p s (m \<bind> f)" by (simp add: keeps_def)
  moreover have "returns st p (b1 + b2) s (m \<bind> f)"
    unfolding returns_def
  proof (intro impI)
    assume s: "ids_below s" "p < b_count s" "b_count s + (b1 + b2) \<le> u32_max"
    then have "b_count s + b1 \<le> u32_max" by simp
    then obtain r where r: "m = Some r" "ids_below (st1 r)" "p < b_count (st1 r)"
      "b_count (st1 r) \<le> b_count s + b1"
      using runs_next [OF assms(1) s(1,2)] by blast
    then have "b_count (st1 r) + b2 \<le> u32_max" using s(3) by simp
    then show "\<exists>u. m \<bind> f = Some u \<and> b_count (st u) \<le> b_count s + (b1 + b2)"
      using runs_next [OF assms(2) [OF r(1)] r(2,3)] r(1,4) by fastforce
  qed
  ultimately show ?thesis by (simp add: runs_def)
qed

lemma runs_bind1:
  "runs code (\<lambda>x. x) p b1 s m \<Longrightarrow> (\<And>s1. runs code st p b2 s1 (f s1)) \<Longrightarrow> runs code st p (b1 + b2) s (m \<bind> f)"
  by (rule runs_bind)

lemma runs_bind2:
  "runs code snd p b1 s m \<Longrightarrow> (\<And>x s1. runs code st p b2 s1 (f x s1)) \<Longrightarrow>
   runs code st p (b1 + b2) s (m \<bind> (\<lambda>(x, s1). f x s1))"
  by (rule runs_bind) (auto split: prod.split)

lemma runs_pair: "runs code snd p 0 s (Some (x, s))"
  by (simp add: runs_def returns_def keeps_def arena.R_refl)

lemma runs_map:
  "runs code snd p b s m \<Longrightarrow> runs code snd p b s (m \<bind> (\<lambda>(x, s1). Some (g x, s1)))"
  using runs_bind2 [OF _ runs_pair] by fastforce

lemma runs_placeholder:
  "runs code snd p 1 s (Some (error_ident l s))"
  "runs code snd p 1 s (Some (error_expression l s))"
  "runs code snd p 1 s (Some (empty_block l s))"
  "runs code snd p 1 s (Some (unit_placeholder l s))"
  by (simp_all add: runs_def arena.keeps_placeholders,
      simp_all add: returns_def error_expression_def error_ident_def empty_block_def
        unit_placeholder_def get_node_id_def)

lemma runs_same:
  assumes "runs code st p b s1 m" "b_arena s1 = b_arena s" "b_count s1 = b_count s" "logs p s s1"
  shows "runs code st p b s m"
proof -
  have "grown code p s s1" by (rule grown_same) (simp_all add: assms)
  then have "keeps (grown code) st p s m"
    using assms(1) by (auto simp: runs_def intro: arena.keeps_step)
  moreover have "ids_below s \<longleftrightarrow> ids_below s1" using assms by (simp add: ids_below_def)
  ultimately show ?thesis using assms by (simp add: runs_def returns_def)
qed

lemma report_simps [simp]:
  "b_count (report_at w n s) = b_count s" "b_arena (report_at w n s) = b_arena s"
  "b_count (report_unexpected w t n s) = b_count s" "b_arena (report_unexpected w t n s) = b_arena s"
  by (simp_all add: report_at_def report_unexpected_def)

lemma runs_report:
  "runs code st p b (report_at w n s) m \<Longrightarrow> runs code st p b s m"
  "runs code st p b (report_unexpected w t n s) m \<Longrightarrow> runs code st p b s m"
  by (erule runs_same, simp, simp, rule logged.R_report)+

lemma runs_required:
  "m \<noteq> None \<Longrightarrow> (\<And>c. m = Some c \<Longrightarrow> runs code st p (budget c) s (f c)) \<Longrightarrow>
   runs code st p (option_budget m) s (required m f)"
  by (cases m) (simp_all add: option_budget_def)

lemma runs_optional_by:
  "(\<And>c s. m = Some c \<Longrightarrow> runs code snd p (g c) s (f c s)) \<Longrightarrow>
   runs code snd p (case m of None \<Rightarrow> 0 | Some c \<Rightarrow> g c) s (optional m f s)"
  by (cases m) (auto simp: runs_pair intro: runs_map)

lemmas runs_optional = runs_optional_by [where g = budget, folded option_budget_def]

lemma runs_each:
  "(\<And>c s. c \<in> set cs \<Longrightarrow> runs code snd p (budget c) s (f c s)) \<Longrightarrow>
   runs code snd p (nodes_budget cs) s (build_each f cs s)"
proof (induction cs arbitrary: s)
  case (Cons c cs)
  have "runs code snd p (nodes_budget cs) u (build_each f cs u)" for u
    by (rule Cons.IH) (simp add: Cons.prems)
  then have "runs code snd p (budget c + (nodes_budget cs + 0)) s (build_each f (c # cs) s)"
    unfolding build_each.simps by (intro runs_bind2 runs_pair Cons.prems) simp_all
  then show ?case by (simp add: nodes_budget_def)
qed (simp add: runs_pair nodes_budget_def)

lemma runs_fold:
  "(\<And>x r. x \<in> set xs \<Longrightarrow> runs code st p (g x) (st r) (f x r)) \<Longrightarrow>
   runs code st p (sum_list (map g xs)) (st init) (fold_opt f xs init)"
proof (induction xs arbitrary: init)
  case Nil
  show ?case by (simp add: runs_def returns_def keeps_def arena.R_refl)
next
  case (Cons x xs)
  have "runs code st p (sum_list (map g xs)) (st r) (fold_opt f xs r)" for r
    by (rule Cons.IH) (simp add: Cons.prems)
  then have "runs code st p (g x + sum_list (map g xs)) (st init) (f x init \<bind> fold_opt f xs)"
    by (intro runs_bind [OF Cons.prems]) simp_all
  then show ?case by simp
qed

lemma runs_if: "runs code st p b s x \<Longrightarrow> runs code st p b s y \<Longrightarrow> runs code st p b s (if c then x else y)"
  by simp

lemma runs_collect:
  assumes "well_formed code n"
  shows "runs code (\<lambda>x. x) p 0 s (collect_errors n code s)"
proof -
  have "returns (\<lambda>x. x) p 0 s (collect_errors n code s)"
  proof -
    have "\<exists>u'. collect_error code c u = Some u' \<and> b_count u' = b_count s"
      if "c \<in> set (child_nodes n)" "b_count u = b_count s" for c u
      using well_formedD(1) [OF well_formedD(3) [OF assms that(1)]] that(2)
      by (auto simp: collect_error_def span_ok_def Let_def)
    then have "\<exists>u'. fold_opt (collect_error code) (child_nodes n) s = Some u' \<and> b_count u' = b_count s"
      by (intro fold_opt_returns) auto
    then show ?thesis by (auto simp: returns_def collect_errors_def)
  qed
  then show ?thesis by (simp add: runs_def arena.keeps_collect_errors)
qed

lemma returns_begin:
  assumes "well_formed code n" and "\<And>i s1. ends code p i s1 b s1 (f i s1)"
  shows "returns snd p (1 + b) s (begin_node n code s \<bind> (\<lambda>(i, s1). f i s1))"
  unfolding returns_def
proof (intro impI)
  assume s: "ids_below s" "p < b_count s" "b_count s + (1 + b) \<le> u32_max"
  then have "b_count s + 0 \<le> u32_max" by simp
  then obtain s1 where s1: "collect_errors n code s = Some s1" "ids_below s1" "p < b_count s1"
    "b_count s1 \<le> b_count s + 0"
    using runs_next [OF runs_collect [OF assms(1)] s(1,2)] by metis
  obtain i s2 where i: "get_node_id s1 = (i, s2)" by (cases "get_node_id s1")
  have "b_count s2 = Suc (b_count s1)" using get_node_id_simps [OF i] by simp
  then show "\<exists>r. begin_node n code s \<bind> (\<lambda>(i, s1). f i s1) = Some r
      \<and> b_count (snd r) \<le> b_count s + (1 + b)"
    using assms(2) [of i s2] i s1 s(3) arena.R_refl [of code i s2]
    by (fastforce simp: ends_def begin_node_def)
qed

lemma ends_bind:
  assumes "runs code st i b1 s m" and "\<And>r. m = Some r \<Longrightarrow> ends code p i s0 b2 (st r) (f r)"
  shows "ends code p i s0 (b1 + b2) s (m \<bind> f)"
  unfolding ends_def
proof (intro allI impI)
  fix s' assume s': "get_node_id s' = (i, s0)" "ids_below s'" "p < b_count s'" "grown code i s0 s"
    "b_count s + (b1 + b2) \<le> u32_max"
  then have small: "b_count s \<le> u32_max" by simp
  note s = grown_child [OF s'(1,4) small s'(2)]
  have "i < b_count s" "b_count s + b1 \<le> u32_max" using s(1,2) s'(5) by simp_all
  then obtain r where r: "m = Some r" "grown code i s (st r)" "b_count (st r) \<le> b_count s + b1"
    using runs_next [OF assms(1) s(3)] by metis
  have "grown code i s0 (st r)" using grown_trans s'(4) r(2) by blast
  then show "\<exists>r. m \<bind> f = Some r \<and> b_count (snd r) \<le> b_count s + (b1 + b2)"
    using assms(2) [OF r(1)] s' r by (fastforce simp: ends_def)
qed

lemma ends_bind2:
  "runs code snd i b1 s m \<Longrightarrow> (\<And>x s1. ends code p i s0 b2 s1 (f x s1)) \<Longrightarrow>
   ends code p i s0 (b1 + b2) s (m \<bind> (\<lambda>(x, s1). f x s1))"
  by (rule ends_bind) (auto split: prod.split)

lemma ends_bind3:
  "runs code (\<lambda>(x, y, s). s) i b1 s m \<Longrightarrow> (\<And>x y s1. ends code p i s0 b2 s1 (f x y s1)) \<Longrightarrow>
   ends code p i s0 (b1 + b2) s (m \<bind> (\<lambda>(x, y, s1). f x y s1))"
  by (rule ends_bind) (auto split: prod.split)

lemma ends_pure:
  "m \<noteq> None \<Longrightarrow> (\<And>x. m = Some x \<Longrightarrow> ends code p i s0 b s (f x)) \<Longrightarrow> ends code p i s0 b s (Option.bind m f)"
  by (cases m) simp_all

lemma ends_add:
  assumes "node_id n = i"
  shows "ends code p i s0 0 s (arena_add n p s \<bind> (\<lambda>s'. Some (x, s')))"
  unfolding ends_def
proof (intro allI impI)
  fix s' assume s': "get_node_id s' = (i, s0)" "ids_below s'" "p < b_count s'" "grown code i s0 s"
    "b_count s + 0 \<le> u32_max"
  then have small: "b_count s \<le> u32_max" by simp
  note s = grown_child [OF s'(1,4) small s'(2)]
  have "ar_nodes (b_arena s) i = None"
    by (rule adds_below_child(2) [OF s'(1) s(1) s'(2) s(4)])
  moreover have "i \<noteq> 0" using s(1) s'(3) by simp
  ultimately obtain a where "add_node n p (b_arena s) = Some a"
    using assms by (cases "p = u32_max") (simp_all add: add_node_def Let_def)
  then show "\<exists>r. arena_add n p s \<bind> (\<lambda>s'. Some (x, s')) = Some r \<and> b_count (snd r) \<le> b_count s + 0"
    by (auto simp: arena_add_def)
qed

lemma ends_same:
  assumes "ends code p i s0 b s1 m" "b_arena s1 = b_arena s" "b_count s1 = b_count s" "logs i s s1"
  shows "ends code p i s0 b s m"
proof -
  have "grown code i s s1" by (rule grown_same) (simp_all add: assms)
  then show ?thesis using assms(1,3) grown_trans unfolding ends_def by metis
qed

lemma ends_report:
  "ends code p i s0 b (report_unexpected w t n s) m \<Longrightarrow> ends code p i s0 b s m"
  by (erule ends_same, simp, simp, rule logged.R_report)

lemma ends_add_either:
  "node_id n = i \<Longrightarrow> ends code p i s0 0 s
     (arena_add n p (if c then s else report_unexpected w t m s) \<bind> (\<lambda>s'. Some (x, s')))"
  by (cases c) (simp_all add: ends_add ends_report [OF ends_add])

lemma ends_if: "ends code p i s0 b s x \<Longrightarrow> ends code p i s0 b s y \<Longrightarrow> ends code p i s0 b s (if c then x else y)"
  by simp

lemmas ends_rules = ends_bind3 ends_bind2 ends_add ends_if runs_required runs_optional runs_each

lemma child_wf:
  assumes "well_formed code n"
  shows "child_by_field_name f n = Some c \<Longrightarrow> well_formed code c"
    "c \<in> set (children_by_field_name f n) \<Longrightarrow> well_formed code c"
    "child_node k n = Some c \<Longrightarrow> well_formed code c"
    "named_child k n = Some c \<Longrightarrow> well_formed code c"
    "c \<in> set (named_children n) \<Longrightarrow> well_formed code c"
  using well_formedD(3) [OF assms]
  by (auto dest: child_by_field_child children_by_field_child child_node_child named_child_child
      named_children_child)

lemma entry_wf: "well_formed code n \<Longrightarrow> (g, c) \<in> set (cst_children n) \<Longrightarrow> well_formed code c"
  using well_formedD(3) [of code n c] by (force simp: child_nodes_def)

lemma shape_field:
  "shape_ok n \<Longrightarrow> f \<in> set (required_fields (cst_kind n)) \<Longrightarrow> child_by_field_name f n \<noteq> None"
  by (auto simp: shape_ok_def has_field_def list_all_iff)

lemma node_text_ok: "well_formed code n \<Longrightarrow> node_text n code \<noteq> None"
  using well_formedD(1) by (simp add: span_ok_def)

lemma budget_ge: "3 \<le> budget n"
  by (simp add: budget_unfold)

section \<open>Leaves\<close>

lemma runs_identifier:
  assumes "well_formed code n"
  shows "runs code snd p (budget n) s (build_identifier p n code s)"
proof (rule runs_returns [OF arena.keeps_identifier])
  show "returns snd p (1 + 0) s (build_identifier p n code s)"
    unfolding build_identifier_def Let_def
    by (intro returns_begin ends_pure ends_add assms node_text_ok) simp
qed (use budget_ge [of n] in simp)

lemma runs_leaf_literals:
  assumes wf: "well_formed code n"
  shows "runs code snd p (budget n) s (build_string_literal p n code s)"
    and "runs code snd p (budget n) s (build_number_literal p n code s)"
    and "runs code snd p (budget n) s (build_unit_literal p n code s)"
    and "runs code snd p (budget n) s (build_bool_literal p n code s)"
    and "runs code snd p (budget n) s (build_uzumaki_expression p n code s)"
proof -
  have "returns snd p (1 + 0) s (build_string_literal p n code s)"
    unfolding build_string_literal_def Let_def
    by (intro returns_begin ends_pure ends_add wf node_text_ok) simp
  then show "runs code snd p (budget n) s (build_string_literal p n code s)"
    by (rule runs_returns [OF arena.keeps_string]) (use budget_ge [of n] in simp)
  have "returns snd p (1 + 0) s (build_number_literal p n code s)"
    unfolding build_number_literal_def Let_def
    by (intro returns_begin ends_pure ends_add wf node_text_ok) simp
  then show "runs code snd p (budget n) s (build_number_literal p n code s)"
    by (rule runs_returns [OF arena.keeps_number]) (use budget_ge [of n] in simp)
  have "returns snd p (1 + 0) s (build_unit_literal p n code s)"
    unfolding build_unit_literal_def Let_def by (intro returns_begin ends_add wf) simp
  then show "runs code snd p (budget n) s (build_unit_literal p n code s)"
    by (rule runs_returns [OF arena.keeps_unit]) (use budget_ge [of n] in simp)
  have "utf8_text n code \<noteq> None" using node_text_ok [OF wf] by (auto simp: node_text_def bind_Some_iff)
  then have "returns snd p (1 + 0) s (build_bool_literal p n code s)"
    unfolding build_bool_literal_def Let_def
    by (intro returns_begin [OF wf] ends_pure [where m = "utf8_text n code"] ends_add_either) simp_all
  then show "runs code snd p (budget n) s (build_bool_literal p n code s)"
    by (rule runs_returns [OF arena.keeps_bool]) (use budget_ge [of n] in simp)
  have "returns snd p (1 + 0) s (build_uzumaki_expression p n code s)"
    unfolding build_uzumaki_expression_def Let_def by (intro returns_begin ends_add wf) simp
  then show "runs code snd p (budget n) s (build_uzumaki_expression p n code s)"
    by (rule runs_returns [OF arena.keeps_uzumaki]) (use budget_ge [of n] in simp)
qed

end
