(* ===== verification/BuilderReturns.thy ===== *)
theory BuilderReturns
  imports BuilderTotal
begin

text \<open>
  Every \<open>build_\<close> function returns on a well-formed tree within the budget of the tree.
\<close>

section \<open>Types and expressions\<close>

lemma runs_type_qualified:
  assumes wf: "well_formed code n"
    and kind: "cst_kind n = ''type_qualified_name''"
  shows "runs code snd p (budget n) s (build_type_qualified_name p n code s)"
proof (rule runs_returns [OF arena.keeps_type_qualified])
  have shape: "child_by_field_name ''alias'' n \<noteq> None" "child_by_field_name ''name'' n \<noteq> None"
    by (rule shape_field [OF well_formedD(2) [OF wf]], simp add: kind required_fields_def)+
  show "returns snd p (1 + (option_budget (child_by_field_name ''alias'' n) + (option_budget (child_by_field_name ''name'' n) + 0))) s (build_type_qualified_name p n code s)"
    unfolding build_type_qualified_name_def Let_def
    by (intro returns_begin wf ends_rules shape runs_identifier)
      (auto dest: accessor_smaller child_wf [OF wf])
qed (use mixed_fields_budget [of "[''alias'', ''name'']" "[]" n] in simp)

lemma runs_qualified:
  assumes wf: "well_formed code n"
    and kind: "cst_kind n = ''qualified_name''"
  shows "runs code snd p (budget n) s (build_qualified_name p n code s)"
proof (rule runs_returns [OF arena.keeps_qualified])
  have shape: "child_by_field_name ''qualifier'' n \<noteq> None" "child_by_field_name ''name'' n \<noteq> None"
    by (rule shape_field [OF well_formedD(2) [OF wf]], simp add: kind required_fields_def)+
  show "returns snd p (1 + (option_budget (child_by_field_name ''qualifier'' n) + (option_budget (child_by_field_name ''name'' n) + 0))) s (build_qualified_name p n code s)"
    unfolding build_qualified_name_def Let_def
    by (intro returns_begin wf ends_rules shape runs_identifier)
      (auto dest: accessor_smaller child_wf [OF wf])
qed (use mixed_fields_budget [of "[''qualifier'', ''name'']" "[]" n] in simp)

lemma runs_member:
  assumes wf: "well_formed code n"
    and kind: "cst_kind n = ''member_access_expression''"
    and E: "\<And>p c s. size c < size n \<Longrightarrow> well_formed code c \<Longrightarrow> runs code snd p (budget c) s (build_expression p c code s)"
  shows "runs code snd p (budget n) s (build_member_access_expression p n code s)"
proof (rule runs_returns [OF arena.keeps_member [OF arena.keeps_expression]])
  have shape: "child_by_field_name ''expression'' n \<noteq> None" "child_by_field_name ''name'' n \<noteq> None"
    by (rule shape_field [OF well_formedD(2) [OF wf]], simp add: kind required_fields_def)+
  show "returns snd p (1 + (option_budget (child_by_field_name ''expression'' n) + (option_budget (child_by_field_name ''name'' n) + 0))) s (build_member_access_expression p n code s)"
    unfolding build_member_access_expression.simps Let_def
    by (intro returns_begin wf ends_rules shape runs_identifier E)
      (auto dest: accessor_smaller child_wf [OF wf])
qed (use mixed_fields_budget [of "[''expression'', ''name'']" "[]" n] in simp)

lemma runs_type_member:
  assumes wf: "well_formed code n"
    and kind: "cst_kind n = ''type_member_access_expression''"
    and E: "\<And>p c s. size c < size n \<Longrightarrow> well_formed code c \<Longrightarrow> runs code snd p (budget c) s (build_expression p c code s)"
  shows "runs code snd p (budget n) s (build_type_member_access_expression p n code s)"
proof (rule runs_returns [OF arena.keeps_type_member [OF arena.keeps_expression]])
  have shape: "child_by_field_name ''expression'' n \<noteq> None" "child_by_field_name ''name'' n \<noteq> None"
    by (rule shape_field [OF well_formedD(2) [OF wf]], simp add: kind required_fields_def)+
  show "returns snd p (1 + (option_budget (child_by_field_name ''expression'' n) + (option_budget (child_by_field_name ''name'' n) + 0))) s (build_type_member_access_expression p n code s)"
    unfolding build_type_member_access_expression.simps Let_def
    by (intro returns_begin wf ends_rules shape runs_identifier E)
      (auto dest: accessor_smaller child_wf [OF wf])
qed (use mixed_fields_budget [of "[''expression'', ''name'']" "[]" n] in simp)

lemma runs_type_array:
  assumes wf: "well_formed code n"
    and kind: "cst_kind n = ''type_array''"
    and E: "\<And>p c s. size c < size n \<Longrightarrow> well_formed code c \<Longrightarrow> runs code snd p (budget c) s (build_expression p c code s)"
    and T: "\<And>p c s. size c < size n \<Longrightarrow> well_formed code c \<Longrightarrow> runs code snd p (budget c) s (build_type p c code s)"
  shows "runs code snd p (budget n) s (build_type_array p n code s)"
proof (rule runs_returns [OF arena.keeps_type_array [OF arena.keeps_expression arena.keeps_type]])
  have shape: "child_by_field_name ''type'' n \<noteq> None" "child_by_field_name ''length'' n \<noteq> None"
    by (rule shape_field [OF well_formedD(2) [OF wf]], simp add: kind required_fields_def)+
  show "returns snd p (1 + (option_budget (child_by_field_name ''type'' n) + (option_budget (child_by_field_name ''length'' n) + 0))) s (build_type_array p n code s)"
    unfolding build_type_array.simps Let_def
    by (intro returns_begin wf ends_rules shape E T)
      (auto dest: accessor_smaller child_wf [OF wf])
qed (use mixed_fields_budget [of "[''type'', ''length'']" "[]" n] in simp)

lemma runs_function_type:
  assumes wf: "well_formed code n"
    and T: "\<And>p c s. size c < size n \<Longrightarrow> well_formed code c \<Longrightarrow> runs code snd p (budget c) s (build_type p c code s)"
  shows "runs code snd p (budget n) s (build_function_type p n code s)"
proof (rule runs_returns [OF arena.keeps_function_type [OF arena.keeps_type]])
  show "returns snd p (1 + (nodes_budget (children_by_field_name ''argument'' n) + (option_budget (child_by_field_name ''returns'' n) + 0))) s (build_function_type p n code s)"
    unfolding build_function_type.simps Let_def
    by (intro returns_begin wf ends_rules T)
      (auto dest: accessor_smaller child_wf [OF wf])
qed (use mixed_fields_budget [of "[''returns'']" "[''argument'']" n] in simp)

lemma runs_array_literal:
  assumes wf: "well_formed code n"
    and E: "\<And>p c s. size c < size n \<Longrightarrow> well_formed code c \<Longrightarrow> runs code snd p (budget c) s (build_expression p c code s)"
  shows "runs code snd p (budget n) s (build_array_literal p n code s)"
proof (rule runs_returns [OF arena.keeps_array_literal [OF arena.keeps_expression]])
  show "returns snd p (1 + (nodes_budget (named_children n) + 0)) s (build_array_literal p n code s)"
    unfolding build_array_literal.simps Let_def
    by (intro returns_begin wf ends_rules E)
      (auto dest: accessor_smaller child_wf [OF wf])
qed (use named_budget [of n] in simp)

lemma nth_pair_budget: "option_budget (nth_node 0 ns) + option_budget (nth_node 1 ns) \<le> nodes_budget ns"
  by (cases ns; cases "tl ns") (auto simp: nth_node_def option_budget_def nodes_budget_def)

lemma nth_node_ok: "k < length ns \<Longrightarrow> nth_node k ns \<noteq> None"
  by (simp add: nth_node_def)

lemma runs_array_index:
  assumes wf: "well_formed code n" and kind: "cst_kind n = ''array_index_access_expression''"
    and E: "\<And>p c s. size c < size n \<Longrightarrow> well_formed code c \<Longrightarrow> runs code snd p (budget c) s (build_expression p c code s)"
  shows "runs code snd p (budget n) s (build_array_index_access_expression p n code s)"
proof (rule runs_returns [OF arena.keeps_array_index [OF arena.keeps_expression]])
  have "2 \<le> length (named_children n)" using well_formedD(2) [OF wf] kind by (simp add: shape_ok_def)
  then have shape: "named_child 0 n \<noteq> None" "named_child 1 n \<noteq> None"
    by (auto simp: named_child_def nth_node_def)
  show "returns snd p (1 + (option_budget (named_child 0 n) + (option_budget (named_child 1 n) + 0))) s
      (build_array_index_access_expression p n code s)"
    unfolding build_array_index_access_expression.simps Let_def
    by (intro returns_begin wf ends_rules shape E) (auto dest: accessor_smaller child_wf [OF wf])
qed (use named_budget [of n] nth_pair_budget [of "named_children n"] in \<open>simp add: named_child_def\<close>)

lemma second_child_budget: "1 + (option_budget (child_node 1 n) + 0) \<le> budget n"
  using children_budget [of n] nth_budget [of 1 "child_nodes n"] by (simp add: child_node_def)

lemma second_child:
  assumes "well_formed code n"
    and "cst_kind n \<in> {''prefix_unary_expression'', ''parenthesized_expression'', ''assert_statement'',
           ''generic_type'', ''generic_name''}"
  shows "child_node 1 n \<noteq> None"
  using assms nth_node_ok [of 1 "child_nodes n"] well_formedD(2) [OF assms(1)]
  unfolding shape_ok_def child_node_def by (metis Suc_1 Suc_le_lessD)

lemma runs_parenthesized:
  assumes wf: "well_formed code n" and kind: "cst_kind n = ''parenthesized_expression''"
    and E: "\<And>p c s. size c < size n \<Longrightarrow> well_formed code c \<Longrightarrow> runs code snd p (budget c) s (build_expression p c code s)"
  shows "runs code snd p (budget n) s (build_parenthesized_expression p n code s)"
proof (rule runs_returns [OF arena.keeps_parenthesized [OF arena.keeps_expression] _ second_child_budget])
  have shape: "child_node 1 n \<noteq> None" by (rule second_child [OF wf]) (simp add: kind)
  show "returns snd p (1 + (option_budget (child_node 1 n) + 0)) s (build_parenthesized_expression p n code s)"
    unfolding build_parenthesized_expression.simps Let_def
    by (intro returns_begin wf ends_rules shape E) (auto dest: accessor_smaller child_wf [OF wf])
qed

lemma runs_prefix_unary:
  assumes wf: "well_formed code n" and kind: "cst_kind n = ''prefix_unary_expression''"
    and E: "\<And>p c s. size c < size n \<Longrightarrow> well_formed code c \<Longrightarrow> runs code snd p (budget c) s (build_expression p c code s)"
  shows "runs code snd p (budget n) s (build_prefix_unary_expression p n code s)"
proof (rule runs_returns [OF arena.keeps_prefix_unary [OF arena.keeps_expression] _ second_child_budget])
  have child: "child_node 1 n \<noteq> None" by (rule second_child [OF wf]) (simp add: kind)
  have operator: "child_by_field_name ''operator'' n \<noteq> None"
    by (rule shape_field [OF well_formedD(2) [OF wf]]) (simp add: kind required_fields_def)
  then obtain c where c: "child_by_field_name ''operator'' n = Some c" by blast
  have known: "unary_operator (cst_kind c) \<noteq> None"
    using well_formedD(2) [OF wf] kind c by (simp add: shape_ok_def)
  have rest: "ends code p i s0 0 s2 (child_by_field_name ''operator'' n \<bind> (\<lambda>operator_node.
      unary_operator (cst_kind operator_node) \<bind> (\<lambda>operator.
        arena_add (Node_Expression (Expr_PrefixUnary i (get_location n) e operator)) p s2 \<bind>
          (\<lambda>s3. Some (Expr_PrefixUnary i (get_location n) e operator, s3)))))" for i s0 s2 e
    unfolding c by (rule ends_pure, simp, clarsimp, rule ends_pure [OF known], rule ends_add, simp)
  show "returns snd p (1 + (option_budget (child_node 1 n) + 0)) s (build_prefix_unary_expression p n code s)"
    unfolding build_prefix_unary_expression.simps Let_def
    by (intro returns_begin wf ends_bind2 runs_required child E rest)
      (auto dest: accessor_smaller child_wf [OF wf])
qed

lemma runs_identifiers:
  assumes "well_formed code n"
  shows "runs code snd p (budget n) s (build_each (\<lambda>c. build_identifier p c code) (children_by_field_name f n) s)"
  by (rule runs_weaken [OF runs_each])
    (use mixed_fields_budget [of "[]" "[f]" n] in \<open>auto intro: runs_identifier dest: child_wf [OF assms]\<close>)

lemma base_and_second_budget:
  assumes "fst (cst_children n ! 1) \<noteq> Some f"
  shows "3 + option_budget (child_by_field_name f n) + option_budget (child_node 1 n) \<le> budget n"
proof (cases "2 \<le> length (cst_children n)")
  case True
  then obtain x y zs where n: "cst_children n = x # y # zs"
    by (cases "cst_children n"; cases "tl (cst_children n)") auto
  have "entries_budget (field_entries [f] n) = entries_budget (filter (\<lambda>(g, c). g \<in> Some ` set [f]) (x # zs))"
    using assms n by (auto simp: field_entries_def split: prod.split)
  then have "option_budget (child_by_field_name f n) \<le> entries_budget (x # zs)"
    using first_field_budget [of f n] entries_budget_filter [of "\<lambda>(g, c). g \<in> Some ` set [f]" "x # zs"]
    by (simp only: field_budget)
  moreover have "option_budget (child_node 1 n) = budget (snd y)"
    using n by (simp add: child_node_def child_nodes_def nth_node_def option_budget_def)
  ultimately show ?thesis
    by (simp add: budget_unfold [of n] n entries_budget_def case_prod_unfold)
next
  case False
  then have "child_node 1 n = None" by (simp add: child_node_def child_nodes_def nth_node_def)
  then show ?thesis using mixed_fields_budget [of "[f]" "[]" n] by (simp add: option_budget_def)
qed

lemma runs_generic:
  assumes wf: "well_formed code n" and kind: "cst_kind n \<in> {''generic_type'', ''generic_name''}"
  shows "runs code snd p (budget n) s (build_generic_type p n code s)"
proof (rule runs_returns [OF arena.keeps_generic])
  have shape: "child_by_field_name ''base_type'' n \<noteq> None"
    by (rule shape_field [OF well_formedD(2) [OF wf]]) (use kind in \<open>auto simp: required_fields_def\<close>)
  have child: "child_node 1 n \<noteq> None" by (rule second_child [OF wf]) (use kind in auto)
  show "returns snd p (1 + (option_budget (child_by_field_name ''base_type'' n) + (option_budget (child_node 1 n) + 0))) s
      (build_generic_type p n code s)"
    unfolding build_generic_type_def Let_def
    by (intro returns_begin wf ends_bind2 ends_add runs_required shape child runs_identifier runs_identifiers)
      (auto dest: accessor_smaller child_wf [OF wf])
  have "fst (cst_children n ! 1) \<noteq> Some ''base_type''"
    using well_formedD(2) [OF wf] kind unfolding shape_ok_def by blast
  from base_and_second_budget [OF this]
  show "1 + (option_budget (child_by_field_name ''base_type'' n) + (option_budget (child_node 1 n) + 0)) \<le> budget n"
    by simp
qed

lemma runs_binary:
  assumes wf: "well_formed code n" and kind: "cst_kind n = ''binary_expression''"
    and E: "\<And>p c s. size c < size n \<Longrightarrow> well_formed code c \<Longrightarrow> runs code snd p (budget c) s (build_expression p c code s)"
  shows "runs code snd p (budget n) s (build_binary_expression p n code s)"
proof (rule runs_returns [OF arena.keeps_binary [OF arena.keeps_expression]])
  have shape: "child_by_field_name ''left'' n \<noteq> None" "child_by_field_name ''operator'' n \<noteq> None"
    "child_by_field_name ''right'' n \<noteq> None"
    by (rule shape_field [OF well_formedD(2) [OF wf]], simp add: kind required_fields_def)+
  have right: "ends code p i s0 (option_budget (child_by_field_name ''right'' n) + 0) u
      (required (child_by_field_name ''right'' n) (\<lambda>c. build_expression i c code u)
      \<bind> (\<lambda>(right, s4). arena_add (Node_Expression (Expr_Binary i (get_location n) left k right)) p s4
              \<bind> (\<lambda>s5. Some (Expr_Binary i (get_location n) left k right, s5))))"
    for i s0 u left k
    by (intro ends_rules shape E) (auto dest: accessor_smaller child_wf [OF wf])
  show "returns snd p (1 + (option_budget (child_by_field_name ''left'' n)
      + (option_budget (child_by_field_name ''right'' n) + 0))) s (build_binary_expression p n code s)"
    unfolding build_binary_expression.simps Let_def
  proof (intro returns_begin wf ends_bind2 runs_required shape E ends_pure [where m = "child_by_field_name f m" for f m])
    fix i s1 left s2 operator_node
    show "ends code p i s1 (option_budget (child_by_field_name ''right'' n) + 0) s2
        (case case binary_operator (cst_kind operator_node) of
                None \<Rightarrow> (Op_Add, report_unexpected ''Unexpected operator'' (cst_kind operator_node) n s2)
              | Some k \<Rightarrow> (k, s2) of
           (operator, s3) \<Rightarrow> required (child_by_field_name ''right'' n) (\<lambda>c. build_expression i c code s3)
             \<bind> (\<lambda>(right, s4).
                    arena_add (Node_Expression (Expr_Binary i (get_location n) left operator right)) p s4
                    \<bind> (\<lambda>s5. Some (Expr_Binary i (get_location n) left operator right, s5))))"
      using right ends_report [OF right]
      by (cases "binary_operator (cst_kind operator_node)") simp_all
  qed (auto dest: accessor_smaller child_wf [OF wf])
qed (use mixed_fields_budget [of "[''left'', ''right'']" "[]" n] in simp)

text \<open>The loops over the children of a call and of a struct expression.\<close>

definition pair_budget :: "string \<Rightarrow> string \<Rightarrow> (string option \<times> cst) list \<Rightarrow> nat" where
  "pair_budget a b es = sum_list (map (\<lambda>(f, c). if f = Some a \<or> f = Some b then budget c else 0) es)"

lemma pair_budget_fields:
  assumes "a \<noteq> b"
  shows "pair_budget a b (cst_children n)
     = nodes_budget (children_by_field_name a n) + nodes_budget (children_by_field_name b n)"
proof -
  have "pair_budget a b es = entries_budget (filter (\<lambda>(g, c). g = Some a) es) + entries_budget (filter (\<lambda>(g, c). g = Some b) es)"
    for es
    using assms by (induction es) (auto simp: pair_budget_def entries_budget_def)
  then show ?thesis by (simp add: field_budget field_entries_def)
qed

lemma runs_argument_loop:
  assumes wf: "well_formed code n" and E: "\<And>p c s. size c < size n \<Longrightarrow> well_formed code c \<Longrightarrow> runs code snd p (budget c) s (build_expression p c code s)"
  shows "runs code (\<lambda>(x, y, s). s) i (pair_budget ''argument_name'' ''argument'' (cst_children n)) s
     (fold_opt
        (\<lambda>(field, c) (pending, args, u).
           if field = Some ''argument_name'' then
             build_expression i c code u \<bind> (\<lambda>(e, u1). Some (name_or pending e, args, u1))
           else if field = Some ''argument'' then
             build_expression i c code u \<bind> (\<lambda>(e, u1). Some (None, args @ [(pending, e)], u1))
           else Some (pending, args, u))
        (cst_children n) (None, [], s))"
proof -
  have skip: "runs code (\<lambda>(x, y, s). s) i 0 u (Some (a, b, u))" for a b u
    by (simp add: runs_def returns_def keeps_def arena.R_refl)
  have step: "runs code (\<lambda>(x, y, s). s) i (budget c) u
      (build_expression i c code u \<bind> (\<lambda>(e, u1). Some (f e, g e, u1)))"
    if "(field, c) \<in> set (cst_children n)" for field c u f g
    using runs_bind2 [OF E skip] that child_entry_smaller [OF that] entry_wf [OF wf that] by fastforce
  show ?thesis
    unfolding pair_budget_def
    using step
    by (intro runs_fold [where st = "\<lambda>(x, y, s). s" and init = "(None, [], s)", simplified])
      (auto simp: skip split: prod.splits)
qed

lemma runs_call:
  assumes wf: "well_formed code n" and kind: "cst_kind n = ''function_call_expression''"
    and E: "\<And>p c s. size c < size n \<Longrightarrow> well_formed code c \<Longrightarrow> runs code snd p (budget c) s (build_expression p c code s)"
  shows "runs code snd p (budget n) s (build_function_call_expression p n code s)"
proof (rule runs_returns [OF arena.keeps_call [OF arena.keeps_expression]])
  have shape: "child_by_field_name ''function'' n \<noteq> None"
    by (rule shape_field [OF well_formedD(2) [OF wf]]) (simp add: kind required_fields_def)
  show "returns snd p (1 + (option_budget (child_by_field_name ''function'' n)
      + (pair_budget ''argument_name'' ''argument'' (cst_children n)
         + (option_budget (child_by_field_name ''type_parameters'' n) + 0)))) s
      (build_function_call_expression p n code s)"
    unfolding build_function_call_expression.simps Let_def
    by (intro returns_begin ends_bind3 ends_bind2 ends_add runs_required runs_optional shape
        runs_argument_loop wf E runs_identifiers)
      (auto dest: accessor_smaller child_wf [OF wf])
qed (use mixed_fields_budget [of "[''function'', ''type_parameters'']" "[''argument_name'', ''argument'']" n]
      in \<open>simp add: pair_budget_fields\<close>)

end
