(* ===== verification/BuilderRuns.thy ===== *)
theory BuilderRuns
  imports BuilderReturns
begin

text \<open>
  The recursion of \<open>build_expression\<close> and \<open>build_type\<close> returns on well-formed trees: one step from the
  smaller trees, then induction on the size of the tree.
\<close>

lemma runs_cases:
  "(c \<Longrightarrow> runs code st p b s x) \<Longrightarrow> (\<not> c \<Longrightarrow> runs code st p b s y) \<Longrightarrow> runs code st p b s (if c then x else y)"
  by simp

lemma runs_done: "runs code (\<lambda>(x, y, s). s) p 0 s (Some (x, y, s))"
  by (simp add: runs_def returns_def keeps_def arena.R_refl)

section \<open>Struct expressions\<close>

lemma identifier_expression:
  "cst_kind c = ''identifier'' \<Longrightarrow> build_expression i c code s = Some (e, s1) \<Longrightarrow> \<exists>x. e = Expr_Identifier x"
  by (auto simp: build_expression.simps [of i c] literal_kinds_def bind_Some_iff)

lemma name_or_kept: "pending \<noteq> None \<Longrightarrow> name_or pending e \<noteq> None"
  by (cases "(pending, e)" rule: name_or.cases) simp_all

abbreviation struct_step ::
  "nat \<Rightarrow> string \<Rightarrow> string option \<times> cst \<Rightarrow> ident option \<times> (ident \<times> expression) list \<times> builder
     \<Rightarrow> (ident option \<times> (ident \<times> expression) list \<times> builder) option" where
  "struct_step i code \<equiv>
     (\<lambda>(field, c) (pending, fs, u).
        if field = Some ''field'' then
          build_expression i c code u \<bind> (\<lambda>(e, u1). Some (name_or pending e, fs, u1))
        else if field = Some ''value'' then
          build_expression i c code u \<bind> (\<lambda>(e, u1). pending \<bind> (\<lambda>x. Some (None, fs @ [(x, e)], u1)))
        else Some (pending, fs, u))"

lemma runs_struct_loop:
  assumes "\<And>f c u. (f, c) \<in> set es \<Longrightarrow> runs code snd i (budget c) u (build_expression i c code u)"
    and "values_named b es" and "b \<Longrightarrow> pending \<noteq> None"
  shows "runs code (\<lambda>(x, y, s). s) i (pair_budget ''field'' ''value'' es) s
           (fold_opt (struct_step i code) es (pending, fs, s))"
  using assms
proof (induction es arbitrary: b pending fs s)
  case Nil
  then show ?case by (simp add: pair_budget_def runs_done)
next
  case (Cons x es)
  obtain f c where x: "x = (f, c)" by (cases x)
  have E: "runs code snd i (budget c) u (build_expression i c code u)" for u
    by (rule Cons.prems(1) [of f]) (simp add: x)
  have IH: "values_named b' es \<Longrightarrow> (b' \<Longrightarrow> pending' \<noteq> None) \<Longrightarrow>
      runs code (\<lambda>(x, y, s). s) i (pair_budget ''field'' ''value'' es) u
        (fold_opt (struct_step i code) es (pending', fs', u))" for b' pending' fs' u
    by (rule Cons.IH [where b = b']) (auto intro: Cons.prems(1))
  consider (name) "f = Some ''field''" | (val) "f = Some ''value''"
    | (other) "f \<noteq> Some ''field''" "f \<noteq> Some ''value''" by blast
  then show ?case
  proof cases
    case name
    have "values_named (b \<or> cst_kind c = ''identifier'') es" using Cons.prems(2) name x by simp
    moreover have "name_or pending e \<noteq> None"
      if "b \<or> cst_kind c = ''identifier''" "build_expression i c code s = Some (e, s1)" for e s1
      using that Cons.prems(3) name_or_kept identifier_expression by fastforce
    ultimately have rest: "runs code (\<lambda>(x, y, s). s) i (pair_budget ''field'' ''value'' es) s1
        (fold_opt (struct_step i code) es (name_or pending e, fs, s1))"
      if "build_expression i c code s = Some (e, s1)" for e s1
      using IH that by blast
    have "runs code (\<lambda>(x, y, s). s) i (budget c + pair_budget ''field'' ''value'' es) s
        (build_expression i c code s \<bind> (\<lambda>r. fold_opt (struct_step i code) es (name_or pending (fst r), fs, snd r)))"
      by (rule runs_bind [OF E]) (use rest in auto)
    then show ?thesis using name x by (simp add: pair_budget_def case_prod_unfold)
  next
    case val
    have p: "pending \<noteq> None" "values_named False es" using Cons.prems(2,3) val x by simp_all
    then obtain y where y: "pending = Some y" by blast
    have rest: "runs code (\<lambda>(x, y, s). s) i (pair_budget ''field'' ''value'' es) s1
        (fold_opt (struct_step i code) es (None, fs @ [(y, e)], s1))" for e s1
      by (rule IH [OF p(2)]) simp
    have "runs code (\<lambda>(x, y, s). s) i (budget c + pair_budget ''field'' ''value'' es) s
        (build_expression i c code s \<bind> (\<lambda>r. fold_opt (struct_step i code) es (None, fs @ [(y, fst r)], snd r)))"
      by (rule runs_bind [OF E]) (use rest in auto)
    then show ?thesis using val x y by (simp add: pair_budget_def case_prod_unfold)
  next
    case other
    have "values_named b es" using Cons.prems(2) other x by simp
    from IH [OF this Cons.prems(3)] show ?thesis using other x by (simp add: pair_budget_def)
  qed
qed

lemma runs_struct:
  assumes wf: "well_formed code n" and kind: "cst_kind n = ''struct_expression''"
    and E: "\<And>p c s. size c < size n \<Longrightarrow> well_formed code c \<Longrightarrow> runs code snd p (budget c) s (build_expression p c code s)"
  shows "runs code snd p (budget n) s (build_struct_expression p n code s)"
proof (rule runs_returns [OF arena.keeps_struct [OF arena.keeps_expression]])
  have shape: "child_by_field_name ''name'' n \<noteq> None"
    by (rule shape_field [OF well_formedD(2) [OF wf]]) (simp add: kind required_fields_def)
  have named: "values_named False (cst_children n)"
    using well_formedD(2) [OF wf] kind by (simp add: shape_ok_def)
  have children: "runs code snd i (budget c) u (build_expression i c code u)"
    if "(f, c) \<in> set (cst_children n)" for i f c u
    using E child_entry_smaller [OF that] entry_wf [OF wf that] by blast
  show "returns snd p (1 + (option_budget (child_by_field_name ''name'' n)
      + (pair_budget ''field'' ''value'' (cst_children n) + 0))) s (build_struct_expression p n code s)"
    unfolding build_struct_expression.simps Let_def
    by (intro returns_begin ends_bind3 ends_bind2 ends_add runs_required shape wf runs_identifier
        runs_struct_loop [OF children named])
      (auto dest: accessor_smaller child_wf [OF wf])
qed (use mixed_fields_budget [of "[''name'']" "[''field'', ''value'']" n]
      in \<open>simp add: pair_budget_fields\<close>)

section \<open>One step\<close>

lemma runs_literal:
  assumes wf: "well_formed code n"
    and E: "\<And>p c s. size c < size n \<Longrightarrow> well_formed code c \<Longrightarrow> runs code snd p (budget c) s (build_expression p c code s)"
  shows "runs code snd p (budget n) s (build_literal p n code s)"
  unfolding build_literal.simps
  by (intro runs_cases runs_array_literal [OF wf E] runs_leaf_literals wf
      runs_weaken [OF runs_report(2) [OF runs_placeholder(4)]])
    (use budget_ge [of n] in auto)

lemma runs_type_step:
  assumes wf: "well_formed code n"
    and E: "\<And>p c s. size c < size n \<Longrightarrow> well_formed code c \<Longrightarrow> runs code snd p (budget c) s (build_expression p c code s)"
    and T: "\<And>p c s. size c < size n \<Longrightarrow> well_formed code c \<Longrightarrow> runs code snd p (budget c) s (build_type p c code s)"
  shows "runs code snd p (budget n) s (build_type p n code s)"
proof (cases "simple_type (cst_kind n)")
  case None
  then show ?thesis
    unfolding build_type.simps option.case(1)
    by (simp only: option.case)
      (intro runs_cases runs_map runs_type_array [OF wf _ E T] runs_generic [OF wf] runs_identifier [OF wf]
        runs_type_qualified [OF wf] runs_qualified [OF wf] runs_function_type [OF wf T]
        runs_weaken [OF runs_report(1) [OF runs_pair]] runs_weaken [OF runs_report(2) [OF runs_pair]];
       simp)
next
  case (Some k)
  then show ?thesis unfolding build_type.simps by (simp add: runs_weaken [OF runs_pair])
qed

lemma runs_expression_step:
  assumes wf: "well_formed code n"
    and E: "\<And>p c s. size c < size n \<Longrightarrow> well_formed code c \<Longrightarrow> runs code snd p (budget c) s (build_expression p c code s)"
    and T: "\<And>p c s. size c < size n \<Longrightarrow> well_formed code c \<Longrightarrow> runs code snd p (budget c) s (build_type p c code s)"
  shows "runs code snd p (budget n) s (build_expression p n code s)"
  unfolding build_expression.simps
  by (intro runs_cases runs_map runs_array_index [OF wf _ E] runs_type_step [OF wf E T] runs_member [OF wf _ E]
      runs_type_member [OF wf _ E] runs_call [OF wf _ E] runs_struct [OF wf _ E] runs_prefix_unary [OF wf _ E]
      runs_parenthesized [OF wf _ E] runs_binary [OF wf _ E] runs_literal [OF wf E] runs_leaf_literals(5) [OF wf]
      runs_identifier [OF wf] runs_weaken [OF runs_report(1) [OF runs_placeholder(2)]]
      runs_weaken [OF runs_report(2) [OF runs_placeholder(2)]];
     use budget_ge [of n] in simp)

lemma runs_both:
  "well_formed code n \<Longrightarrow>
   (\<forall>p s. runs code snd p (budget n) s (build_expression p n code s))
   \<and> (\<forall>p s. runs code snd p (budget n) s (build_type p n code s))"
proof (induction n rule: measure_induct_rule [where f = size])
  case (less n)
  then show ?case by (blast intro: runs_expression_step runs_type_step)
qed

lemma runs_expression: "well_formed code n \<Longrightarrow> runs code snd p (budget n) s (build_expression p n code s)"
  using runs_both by blast

lemma runs_type: "well_formed code n \<Longrightarrow> runs code snd p (budget n) s (build_type p n code s)"
  using runs_both by blast

lemma runs_any_literal: "well_formed code n \<Longrightarrow> runs code snd p (budget n) s (build_literal p n code s)"
  by (rule runs_literal [OF _ runs_expression])

end
