(* ===== verification/BuilderBlocks.thy ===== *)
theory BuilderBlocks
  imports BuilderRuns
begin

text \<open>
  Statements and blocks return on well-formed trees.
\<close>

section \<open>More rules\<close>

lemma runs_or:
  "(\<And>c. m = Some c \<Longrightarrow> runs code st p (budget c) s (f c)) \<Longrightarrow> runs code st p b s g \<Longrightarrow>
   runs code st p (option_budget m + b) s (case m of None \<Rightarrow> g | Some c \<Rightarrow> f c)"
  by (cases m) (auto simp: option_budget_def intro: runs_weaken)

lemma runs_reported:
  "runs code snd p 1 s (Some (error_ident l (report_at w n s)))"
  "runs code snd p 1 s (Some (error_expression l (report_at w n s)))"
  "runs code snd p 1 s (Some (empty_block l (report_at w n s)))"
  by (rule runs_report, rule runs_placeholder)+

lemma runs_single:
  assumes "get_node_id s = (i, s1)" and "node_id n = i" and "faithful code n"
  shows "runs code snd p 1 s (arena_add n p s1 \<bind> (\<lambda>s2. Some (x, s2)))"
proof -
  have "returns snd p 1 s (arena_add n p s1 \<bind> (\<lambda>s2. Some (x, s2)))"
    using ends_add [OF assms(2), of code p s1 s1 x] assms(1) get_node_id_simps [OF assms(1)]
      arena.R_refl [of code i s1]
    by (auto simp: ends_def returns_def)
  then show ?thesis using arena.keeps_single [OF assms] by (simp add: runs_def)
qed

lemma runs_error_statement: "runs code snd p 1 s (create_error_statement p n code s)"
  by (cases "get_node_id s")
    (simp add: create_error_statement_def error_ident_def runs_single del: One_nat_def)

lemma runs_error_block: "runs code snd p 1 s (create_error_block p n code s)"
  by (cases "get_node_id s")
    (simp add: create_error_block_def empty_block_def runs_single del: One_nat_def)

lemma runs_begin:
  assumes "well_formed code n"
  shows "runs code snd p 1 s (begin_node n code s)"
proof -
  have "keeps (grown code) snd p s (begin_node n code s)"
    using arena.keeps_collect_errors [of code p s n] arena.R_skip arena.R_trans
    by (fastforce simp: keeps_def begin_node_def bind_Some_iff)
  moreover have "returns snd p 1 s (begin_node n code s)"
    unfolding returns_def
  proof (intro impI)
    assume s: "ids_below s" "p < b_count s" "b_count s + 1 \<le> u32_max"
    then obtain s1 where "collect_errors n code s = Some s1" "b_count s1 \<le> b_count s + 0"
      using runs_next [OF runs_collect [OF assms] s(1,2)] by (metis add_leD1 add_0_right)
    then show "\<exists>r. begin_node n code s = Some r \<and> b_count (snd r) \<le> b_count s + 1"
      by (simp add: begin_node_def get_node_id_def split: prod.split)
  qed
  ultimately show ?thesis by (simp add: runs_def)
qed

lemmas leaf_runs = runs_expression runs_type runs_any_literal runs_identifier

section \<open>Statements without blocks\<close>

lemma runs_constant:
  assumes wf: "well_formed code n" and kind: "cst_kind n = ''constant_definition''"
  shows "runs code snd p (budget n) s (build_constant_definition p n code s)"
proof (rule runs_returns [OF arena.keeps_constant])
  have shape: "child_by_field_name ''type'' n \<noteq> None" "child_by_field_name ''name'' n \<noteq> None"
    "child_by_field_name ''value'' n \<noteq> None"
    by (rule shape_field [OF well_formedD(2) [OF wf]], simp add: kind required_fields_def)+
  show "returns snd p (1 + (option_budget (child_by_field_name ''type'' n)
      + (option_budget (child_by_field_name ''name'' n) + (option_budget (child_by_field_name ''value'' n) + 0))))
      s (build_constant_definition p n code s)"
    unfolding build_constant_definition_def Let_def
    by (intro returns_begin wf ends_rules shape leaf_runs) (auto dest: child_wf [OF wf])
qed (use mixed_fields_budget [of "[''type'', ''name'', ''value'']" "[]" n] in simp)

lemma runs_return:
  assumes wf: "well_formed code n"
  shows "runs code snd p (budget n) s (build_return_statement p n code s)"
proof (rule runs_returns [OF arena.keeps_return])
  have unit: "runs code snd i 1 u (let (l, u) = unit_placeholder (get_location n) u in Some (Expr_Literal l, u))"
    for i u
    using runs_map [where g = Expr_Literal, OF runs_placeholder(4) [of code i u "get_location n"]]
    by (simp add: case_prod_unfold Let_def)
  show "returns snd p (1 + ((option_budget (child_by_field_name ''expression'' n) + 1) + 0)) s
      (build_return_statement p n code s)"
    unfolding build_return_statement_def
    by (subst (2) Let_def, intro returns_begin wf ends_bind2 ends_add runs_or leaf_runs unit)
      (auto dest: child_wf [OF wf])
qed (use mixed_fields_budget [of "[''expression'']" "[]" n] in simp)

lemma runs_variable_definition:
  assumes wf: "well_formed code n" and kind: "cst_kind n = ''variable_definition_statement''"
  shows "runs code snd p (budget n) s (build_variable_definition_statement p n code s)"
proof (rule runs_returns [OF arena.keeps_variable_definition])
  have shape: "child_by_field_name ''type'' n \<noteq> None" "child_by_field_name ''name'' n \<noteq> None"
    by (rule shape_field [OF well_formedD(2) [OF wf]], simp add: kind required_fields_def)+
  show "returns snd p (1 + (option_budget (child_by_field_name ''type'' n)
      + (option_budget (child_by_field_name ''name'' n) + (option_budget (child_by_field_name ''value'' n) + 0))))
      s (build_variable_definition_statement p n code s)"
    unfolding build_variable_definition_statement_def Let_def
    by (intro returns_begin wf ends_rules shape leaf_runs) (auto dest: child_wf [OF wf])
qed (use mixed_fields_budget [of "[''type'', ''name'', ''value'']" "[]" n] in simp)

lemma runs_type_definition_statement:
  assumes wf: "well_formed code n" and kind: "cst_kind n = ''type_definition_statement''"
  shows "runs code snd p (budget n) s (build_type_definition_statement p n code s)"
    and "runs code snd p (budget n) s (build_type_definition p n code s)"
proof -
  have shape: "child_by_field_name ''type'' n \<noteq> None" "child_by_field_name ''name'' n \<noteq> None"
    by (rule shape_field [OF well_formedD(2) [OF wf]], simp add: kind required_fields_def)+
  have b: "1 + (option_budget (child_by_field_name ''type'' n)
      + (option_budget (child_by_field_name ''name'' n) + 0)) \<le> budget n" (is "?b \<le> _")
    using mixed_fields_budget [of "[''type'', ''name'']" "[]" n] by simp
  have "returns snd p ?b s (build_type_definition_statement p n code s)"
    unfolding build_type_definition_statement_def Let_def
    by (intro returns_begin wf ends_rules shape leaf_runs) (auto dest: child_wf [OF wf])
  then show "runs code snd p (budget n) s (build_type_definition_statement p n code s)"
    by (rule runs_returns [OF arena.keeps_type_definition_statement _ b])
  have "returns snd p ?b s (build_type_definition p n code s)"
    unfolding build_type_definition_def Let_def
    by (intro returns_begin wf ends_rules shape leaf_runs) (auto dest: child_wf [OF wf])
  then show "runs code snd p (budget n) s (build_type_definition p n code s)"
    by (rule runs_returns [OF arena.keeps_type_definition _ b])
qed

lemma runs_assign:
  assumes wf: "well_formed code n" and kind: "cst_kind n = ''assign_statement''"
  shows "runs code snd p (budget n) s (build_assign_statement p n code s)"
proof (rule runs_returns [OF arena.keeps_assign])
  have shape: "child_by_field_name ''left'' n \<noteq> None" "child_by_field_name ''right'' n \<noteq> None"
    by (rule shape_field [OF well_formedD(2) [OF wf]], simp add: kind required_fields_def)+
  show "returns snd p (1 + (option_budget (child_by_field_name ''left'' n)
      + (option_budget (child_by_field_name ''right'' n) + 0))) s (build_assign_statement p n code s)"
    unfolding build_assign_statement_def Let_def
    by (intro returns_begin wf ends_rules shape leaf_runs) (auto dest: child_wf [OF wf])
qed (use mixed_fields_budget [of "[''left'', ''right'']" "[]" n] in simp)

lemma runs_assert:
  assumes wf: "well_formed code n" and kind: "cst_kind n = ''assert_statement''"
  shows "runs code snd p (budget n) s (build_assert_statement p n code s)"
proof (rule runs_returns [OF arena.keeps_assert _ second_child_budget])
  have shape: "child_node 1 n \<noteq> None" by (rule second_child [OF wf]) (simp add: kind)
  show "returns snd p (1 + (option_budget (child_node 1 n) + 0)) s (build_assert_statement p n code s)"
    unfolding build_assert_statement_def Let_def
    by (intro returns_begin wf ends_rules shape leaf_runs) (auto dest: child_wf [OF wf])
qed

lemma runs_break:
  assumes "well_formed code n"
  shows "runs code snd p (budget n) s (build_break_statement p n code s)"
proof (rule runs_returns [OF arena.keeps_break])
  show "returns snd p (1 + 0) s (build_break_statement p n code s)"
    unfolding build_break_statement_def Let_def by (intro returns_begin assms ends_add) simp
qed (use budget_ge [of n] in simp)

section \<open>Blocks\<close>

lemma runs_block_statements:
  assumes wf: "well_formed code n"
    and S: "\<And>p c s. size c < size n \<Longrightarrow> well_formed code c \<Longrightarrow> runs code snd p (budget c) s (build_statement p c code s)"
  shows "runs code snd p (nodes_budget (child_nodes n)) s (build_block_statements p n code s)"
proof -
  have step: "runs code snd p (budget c) u
      (collect_errors c code u \<bind> (\<lambda>u1.
         if cst_named c then build_statement p c code u1 \<bind> (\<lambda>(st, u2). Some (ss @ [st], u2))
         else Some (ss, u1)))"
    if c: "c \<in> set (child_nodes n)" for c u ss
  proof -
    have c_wf: "well_formed code c" by (rule well_formedD(3) [OF wf c])
    have "runs code snd p (budget c) u1
        (if cst_named c then build_statement p c code u1 \<bind> (\<lambda>(st, u2). Some (ss @ [st], u2)) else Some (ss, u1))"
      for u1
      by (intro runs_if runs_map S [OF child_nodes_smaller [OF c] c_wf] runs_weaken [OF runs_pair]) simp
    from runs_bind1 [OF runs_collect [OF c_wf] this] show ?thesis by simp
  qed
  show ?thesis
    unfolding build_block_statements.simps nodes_budget_def
    by (rule runs_fold [where st = snd and init = "([], s)", simplified]) (auto intro: step)
qed

lemma runs_block_step:
  assumes wf: "well_formed code n"
    and S: "\<And>p c s. size c < size n \<Longrightarrow> well_formed code c \<Longrightarrow> runs code snd p (budget c) s (build_statement p c code s)"
  shows "runs code snd p (budget n) s (build_block p n code s)"
proof (cases "quantified_block (cst_kind n)")
  case (Some mk)
  have mk: "block_id (mk i l ss) = i" for i l ss
    using Some by (auto simp: quantified_block_def split: if_splits)
  have body: "runs code snd i (budget c) u (build_block_statements i c code u)"
    if "child_by_field_name ''body'' n = Some c" for i c u
  proof -
    have c: "well_formed code c" "size c < size n" using that child_wf [OF wf] accessor_smaller by auto
    show ?thesis
      by (rule runs_weaken [OF runs_block_statements [OF c(1) S]])
        (use c(2) children_budget [of c] in auto)
  qed
  show ?thesis
  proof (rule runs_returns [OF arena.keeps_block])
    show "returns snd p (1 + (option_budget (child_by_field_name ''body'' n) + 0)) s (build_block p n code s)"
      unfolding build_block.simps Some option.case Let_def
      by (intro returns_begin wf ends_rules body) (auto simp: mk)
  qed (use mixed_fields_budget [of "[''body'']" "[]" n] in simp)
next
  case None
  note build = build_block.simps [of p n code s, unfolded None option.case Let_def]
  have unreadable: "runs code snd p (budget n) s (begin_node n code s \<bind> (\<lambda>(i, s1). create_error_block p n code (g s1)))"
    if "\<And>u. runs code snd p 1 u (create_error_block p n code (g u))" for g
    by (rule runs_weaken [OF runs_bind2 [OF runs_begin [OF wf] that]]) (use budget_ge [of n] in simp)
  show ?thesis
  proof (cases "cst_kind n = ''block''")
    case True
    show ?thesis
    proof (rule runs_returns [OF arena.keeps_block])
      show "returns snd p (1 + (nodes_budget (child_nodes n) + 0)) s (build_block p n code s)"
        unfolding build using True
        by (simp only: if_True simp_thms) (intro returns_begin wf ends_rules runs_block_statements [OF wf S]; simp)
    qed (use children_budget [of n] in simp)
  next
    case False
    then show ?thesis
      unfolding build
      using unreadable [OF runs_report(1) [OF runs_error_block]] unreadable [OF runs_report(2) [OF runs_error_block]]
      by (cases "cst_kind n = ''ERROR''") simp_all
  qed
qed

lemma runs_loop:
  assumes wf: "well_formed code n"
    and B: "\<And>p c s. size c < size n \<Longrightarrow> well_formed code c \<Longrightarrow> runs code snd p (budget c) s (build_block p c code s)"
  shows "runs code snd p (budget n) s (build_loop_statement p n code s)"
proof (rule runs_returns [OF arena.keeps_loop [OF arena.keeps_block]])
  show "returns snd p (1 + (option_budget (child_by_field_name ''condition'' n)
      + ((option_budget (child_by_field_name ''body'' n) + 1) + 0))) s (build_loop_statement p n code s)"
    unfolding build_loop_statement.simps Let_def
    by (intro returns_begin wf ends_bind2 ends_add runs_optional runs_or leaf_runs B runs_reported)
      (auto dest: accessor_smaller child_wf [OF wf])
qed (use mixed_fields_budget [of "[''condition'', ''body'']" "[]" n] in simp)

lemma runs_conditional:
  assumes wf: "well_formed code n"
    and B: "\<And>p c s. size c < size n \<Longrightarrow> well_formed code c \<Longrightarrow> runs code snd p (budget c) s (build_block p c code s)"
  shows "runs code snd p (budget n) s (build_if_statement p n code s)"
proof (rule runs_returns [OF arena.keeps_conditional [OF arena.keeps_block]])
  show "returns snd p (1 + ((option_budget (child_by_field_name ''condition'' n) + 1)
      + ((option_budget (child_by_field_name ''if_arm'' n) + 1)
         + (option_budget (child_by_field_name ''else_arm'' n) + 0)))) s (build_if_statement p n code s)"
    unfolding build_if_statement.simps Let_def
    by (intro returns_begin wf ends_bind2 ends_add runs_optional runs_or leaf_runs B runs_reported)
      (auto dest: accessor_smaller child_wf [OF wf])
qed (use mixed_fields_budget [of "[''condition'', ''if_arm'', ''else_arm'']" "[]" n] in simp)

lemma runs_statement_step:
  assumes wf: "well_formed code n"
    and S: "\<And>p c s. size c < size n \<Longrightarrow> well_formed code c \<Longrightarrow> runs code snd p (budget c) s (build_statement p c code s)"
    and B: "\<And>p c s. size c < size n \<Longrightarrow> well_formed code c \<Longrightarrow> runs code snd p (budget c) s (build_block p c code s)"
  shows "runs code snd p (budget n) s (build_statement p n code s)"
proof -
  have first: "option_budget (child_node 0 n) + 1 \<le> budget n"
    using children_budget [of n] nth_budget [of 0 "child_nodes n"] by (simp add: child_node_def)
  have expression: "runs code snd p (budget n) s
      (case child_node 0 n of None \<Rightarrow> create_error_statement p n code s
       | Some c \<Rightarrow> build_expression p c code s \<bind> (\<lambda>(e, s1). Some (Stmt_Expression e, s1)))"
    by (rule runs_weaken [OF runs_or first]) (auto intro!: runs_map leaf_runs runs_error_statement simp del: One_nat_def dest: child_wf [OF wf])
  show ?thesis
    unfolding build_statement.simps
    by (intro runs_cases runs_map expression runs_assign [OF wf] runs_block_step [OF wf S] runs_return [OF wf]
        runs_loop [OF wf B] runs_conditional [OF wf B] runs_variable_definition [OF wf]
        runs_type_definition_statement(1) [OF wf] runs_assert [OF wf] runs_break [OF wf] runs_constant [OF wf]
        runs_weaken [OF runs_report(1) [OF runs_error_statement]]
        runs_weaken [OF runs_report(2) [OF runs_error_statement]];
       use budget_ge [of n] in simp)
qed

lemma runs_statement_block:
  "well_formed code n \<Longrightarrow>
   (\<forall>p s. runs code snd p (budget n) s (build_statement p n code s))
   \<and> (\<forall>p s. runs code snd p (budget n) s (build_block p n code s))"
proof (induction n rule: measure_induct_rule [where f = size])
  case (less n)
  then show ?case by (blast intro: runs_statement_step runs_block_step)
qed

lemma runs_block: "well_formed code n \<Longrightarrow> runs code snd p (budget n) s (build_block p n code s)"
  using runs_statement_block by blast

end
