(* ===== verification/Utf8Facts.thy ===== *)
theory Utf8Facts
  imports SyntaxTrees
begin

text \<open>UTF-8 as the builder meets it: a valid text is cut at character boundaries by valid parts.\<close>

lemma takeWhile_take_all:
  "length (takeWhile P (take m xs)) = m \<longleftrightarrow> m \<le> length xs \<and> (\<forall>i<m. P (xs ! i))"
proof (induction m arbitrary: xs)
  case (Suc m)
  then show ?case by (cases xs) (auto simp: less_Suc_eq_0_disj)
qed simp

text \<open>A first byte starts a character when the bytes it announces follow.\<close>

lemma utf8_head_iff:
  "utf8_head c cs = (k, True) \<longleftrightarrow>
     k = utf8_width c \<and> k \<noteq> 0 \<and> k - 1 \<le> length cs \<and> (k \<noteq> 1 \<longrightarrow> utf8_second c (cs ! 0))
     \<and> (\<forall>i. 1 \<le> i \<longrightarrow> i < k - 1 \<longrightarrow> utf8_continuation (cs ! i))"
proof (cases "utf8_width c")
  case 0
  then show ?thesis by (auto simp: utf8_head_def)
next
  case (Suc rest)
  show ?thesis
  proof (cases "rest = 0 \<or> cs = []")
    case True
    then show ?thesis using Suc by (auto simp: utf8_head_def)
  next
    case False
    then obtain d es where cs: "cs = d # es" by (cases cs) auto
    have "(\<forall>i. 1 \<le> i \<longrightarrow> i < rest \<longrightarrow> utf8_continuation (cs ! i)) \<longleftrightarrow> (\<forall>i<rest - 1. utf8_continuation (es ! i))"
    proof safe
      fix i assume "\<forall>i. 1 \<le> i \<longrightarrow> i < rest \<longrightarrow> utf8_continuation (cs ! i)" "i < rest - 1"
      then have "utf8_continuation (cs ! Suc i)" by simp
      then show "utf8_continuation (es ! i)" by (simp add: cs)
    next
      fix i assume "\<forall>i<rest - 1. utf8_continuation (es ! i)" "1 \<le> i" "i < rest"
      then show "utf8_continuation (cs ! i)" by (cases i) (auto simp: cs)
    qed
    moreover have "rest - 1 \<le> length es \<longleftrightarrow> rest \<le> length cs" using False by (auto simp: cs)
    ultimately show ?thesis
      using Suc False takeWhile_take_all [of utf8_continuation "rest - 1" es]
      by (auto simp: utf8_head_def Let_def cs)
  qed
qed

lemma utf8_head_local:
  assumes "utf8_head c cs = (k, True)" and "k - 1 \<le> length ds"
    and "\<And>i. i < k - 1 \<Longrightarrow> ds ! i = cs ! i"
  shows "utf8_head c ds = (k, True)"
  using assms unfolding utf8_head_iff by (metis diff_is_0_eq' less_one not_gr0 not_less zero_less_diff less_antisym Suc_pred')

lemma utf8_head_follow:
  "utf8_head c cs = (k, True) \<Longrightarrow> i < k - 1 \<Longrightarrow>
   128 \<le> (of_char (cs ! i) :: nat) \<and> (of_char (cs ! i) :: nat) \<le> 191"
  unfolding utf8_head_iff
  by (cases i) (auto simp: utf8_second_def utf8_continuation_def Let_def split: if_splits)

definition valid_utf8 :: "string \<Rightarrow> bool" where
  "valid_utf8 bs = list_all snd (utf8_chunks bs)"

lemma valid_utf8_Nil [simp]: "valid_utf8 []"
  by (simp add: valid_utf8_def)

lemma valid_utf8_Cons:
  "valid_utf8 (c # cs) \<longleftrightarrow> (\<exists>k. utf8_head c cs = (k, True) \<and> valid_utf8 (drop (k - 1) cs))"
  by (cases "utf8_head c cs") (auto simp: valid_utf8_def)

text \<open>What follows a valid prefix of a valid text is valid.\<close>

lemma valid_utf8_rest: "valid_utf8 as \<Longrightarrow> valid_utf8 (as @ bs) \<longleftrightarrow> valid_utf8 bs"
proof (induction "length as" arbitrary: as rule: less_induct)
  case less
  show ?case
  proof (cases as)
    case (Cons c cs)
    then obtain k where k: "utf8_head c cs = (k, True)" "valid_utf8 (drop (k - 1) cs)"
      using less.prems by (auto simp: valid_utf8_Cons)
    then have le: "k - 1 \<le> length cs" using utf8_head_iff [of c cs k] by blast
    have "utf8_head c (cs @ bs) = (k, True)"
      by (rule utf8_head_local [OF k(1)]) (use le in \<open>simp_all add: nth_append\<close>)
    moreover have "drop (k - 1) (cs @ bs) = drop (k - 1) cs @ bs" using le by simp
    moreover have "valid_utf8 (drop (k - 1) cs @ bs) \<longleftrightarrow> valid_utf8 bs"
      by (rule less.hyps [OF _ k(2)]) (simp add: Cons)
    ultimately show ?thesis by (simp add: Cons valid_utf8_Cons)
  qed simp
qed

definition starts_char :: "char \<Rightarrow> bool" where
  "starts_char c \<longleftrightarrow> (of_char c :: nat) < 128 \<or> 192 \<le> (of_char c :: nat)"

lemma valid_utf8_starts: "valid_utf8 (c # cs) \<Longrightarrow> starts_char c"
  by (auto simp: valid_utf8_Cons utf8_head_iff utf8_width_def starts_char_def Let_def split: if_splits)

text \<open>The bytes before one that starts a character are valid by themselves.\<close>

lemma valid_before_start: "valid_utf8 (as @ b # bs) \<Longrightarrow> starts_char b \<Longrightarrow> valid_utf8 as"
proof (induction "length as" arbitrary: as rule: less_induct)
  case less
  show ?case
  proof (cases as)
    case (Cons c cs)
    then obtain k where k: "utf8_head c (cs @ b # bs) = (k, True)"
      "valid_utf8 (drop (k - 1) (cs @ b # bs))"
      using less.prems(1) by (auto simp: valid_utf8_Cons)
    have le: "k - 1 \<le> length cs"
    proof (rule ccontr)
      assume "\<not> k - 1 \<le> length cs"
      then have "128 \<le> (of_char b :: nat) \<and> (of_char b :: nat) \<le> 191"
        using utf8_head_follow [OF k(1), of "length cs"] by simp
      then show False using less.prems(2) by (simp add: starts_char_def)
    qed
    have "utf8_head c cs = (k, True)"
      by (rule utf8_head_local [OF k(1)]) (use le in \<open>simp_all add: nth_append\<close>)
    moreover have "valid_utf8 (drop (k - 1) cs)"
      by (rule less.hyps) (use k(2) le less.prems(2) in \<open>simp_all add: Cons\<close>)
    ultimately show ?thesis by (simp add: Cons valid_utf8_Cons)
  qed simp
qed

text \<open>A non-empty valid slice of a valid text lies between character boundaries.\<close>

lemma valid_slice_get:
  assumes "valid_utf8 code" "byte_slice code i j = Some t" "valid_utf8 t" "t \<noteq> []"
  shows "str_get code i j = Some t"
proof -
  have ij: "i \<le> j" "j \<le> length code" and t: "t = take (j - i) (drop i code)"
    using assms(2) by (auto simp: byte_slice_def split: if_splits)
  obtain c cs where c: "t = c # cs" using assms(4) by (cases t) auto
  have len: "length t = j - i" using ij t by simp
  have starts: "starts_char c" using assms(3) c valid_utf8_starts by blast
  have parts: "code = take i code @ t @ drop j code"
    using ij t by (metis append_take_drop_id drop_drop le_add_diff_inverse2 le_add_diff_inverse)
  have "valid_utf8 (take i code @ c # (cs @ drop j code))" using assms(1) parts c by simp
  then have "valid_utf8 (take i code)" using starts by (rule valid_before_start)
  then have rest: "valid_utf8 (drop j code)"
    using assms(1,3) parts valid_utf8_rest by metis
  have "is_char_boundary code i"
  proof -
    have "i < length code" using len c ij by simp
    then have "drop i code = code ! i # drop (Suc i) code" by (simp add: Cons_nth_drop_Suc)
    moreover have "j - i \<noteq> 0" using len c by simp
    ultimately have "code ! i = c" using t c by (cases "j - i") simp_all
    then show ?thesis using starts \<open>i < length code\<close> by (simp add: is_char_boundary_def starts_char_def)
  qed
  moreover have "is_char_boundary code j"
  proof (cases "j = length code")
    case False
    then have "drop j code = code ! j # drop (Suc j) code" using ij by (simp add: Cons_nth_drop_Suc)
    then have "starts_char (code ! j)" using rest valid_utf8_starts by metis
    then show ?thesis using False ij by (simp add: is_char_boundary_def starts_char_def)
  qed (simp add: is_char_boundary_def)
  ultimately show ?thesis using ij t by (simp add: str_get_def)
qed

end
