(* ===== verification/BuilderFiles.thy ===== *)
theory BuilderFiles
  imports BuilderArena Utf8Facts
begin

text \<open>
  Whole files: after \<open>build_ast\<close> every node of the arena leads up to the file it comes from, and the
  words a node carries are the text of that file at the node's position.
\<close>

section \<open>From a node to its file\<close>

lemma path_same:
  assumes "(j, r) \<in> (parent_rel pm)\<^sup>*" and "\<And>i q. pm i = Some q \<Longrightarrow> q < i"
    and "\<And>i. i \<le> j \<Longrightarrow> pm' i = pm i"
  shows "(j, r) \<in> (parent_rel pm')\<^sup>*"
  using assms(1,3)
proof (induction rule: converse_rtrancl_induct)
  case (step i q)
  have q: "pm i = Some q" using step.hyps(1) by (simp add: parent_rel_def)
  have "(q, r) \<in> (parent_rel pm')\<^sup>*"
    using step.IH step.prems assms(2) [OF q] by simp
  moreover have "(i, q) \<in> parent_rel pm'" using q step.prems [of i] by (simp add: parent_rel_def)
  ultimately show ?case by (rule converse_rtrancl_into_rtrancl [rotated])
qed simp

text \<open>The node \<open>i\<close> belongs to the file of identifier \<open>r\<close> with the text \<open>code\<close>.\<close>

definition in_file :: "(cst \<times> string) list \<Rightarrow> arena \<Rightarrow> nat \<Rightarrow> ast_node \<Rightarrow> nat \<Rightarrow> string \<Rightarrow> bool" where
  "in_file files a i n r code \<longleftrightarrow>
     (i, r) \<in> (parent_rel (ar_parent_map a))\<^sup>* \<and> ar_parent_map a r = None
     \<and> (\<exists>sf. ar_nodes a r = Some (Node_SourceFile sf) \<and> src_source sf = concat (lossy_chars code))
     \<and> code \<in> snd ` set files \<and> (i \<noteq> r \<longrightarrow> faithful code n)"

definition files_ok :: "(cst \<times> string) list \<Rightarrow> builder \<Rightarrow> bool" where
  "files_ok files s \<longleftrightarrow> ids_below s \<and> parents_decrease (b_arena s)
     \<and> (\<forall>i n. ar_nodes (b_arena s) i = Some n \<longrightarrow> (\<exists>r code. in_file files (b_arena s) i n r code))"

lemma build_source_fileE:
  assumes "build_source_file debug root code s = Some s'"
  obtains i s1 us ds s2 where "get_node_id s = (i, s1)"
    "fold_opt (build_item i code) (child_nodes root) ([], [], s1) = Some (us, ds, s2)"
    "arena_add (Node_SourceFile
       \<lparr>src_id = i, src_location = get_location root, src_source = concat (lossy_chars code),
        src_directives = us, src_definitions = ds\<rparr>) u32_max s2 = Some s'"
  using assms by (cases "get_node_id s")
    (auto simp: build_source_file_def Let_def bind_Some_iff split: if_splits prod.splits)

lemma source_file_logs:
  assumes "build_source_file debug root code s = Some s'"
  shows "b_count s < b_count s' \<and> (\<exists>es. b_errors s' = b_errors s @ es) \<and> b_source_code s' = b_source_code s"
proof -
  obtain i s1 us ds s2 n where i: "get_node_id s = (i, s1)"
    and items: "fold_opt (build_item i code) (child_nodes root) ([], [], s1) = Some (us, ds, s2)"
    and add: "arena_add n u32_max s2 = Some s'"
    by (rule build_source_fileE [OF assms]) blast
  have "logs i s1 s2" using logged.keeps_items [of i s1 code] items by (simp add: keeps_def)
  then show ?thesis
    using get_node_id_simps [OF i] arena_add_simps [OF add] by (auto simp: logs_def)
qed

lemma source_file_ok:
  assumes built: "build_source_file debug root code s = Some s'"
    and errors: "b_errors s' = b_errors s" and small: "b_count s' \<le> u32_max"
    and ok: "files_ok files s" and known: "code \<in> snd ` set files"
  shows "files_ok files s'"
proof -
  obtain i s1 us ds s2 where i: "get_node_id s = (i, s1)"
    and items: "fold_opt (build_item i code) (child_nodes root) ([], [], s1) = Some (us, ds, s2)"
    and add: "arena_add (Node_SourceFile
       \<lparr>src_id = i, src_location = get_location root, src_source = concat (lossy_chars code),
        src_directives = us, src_definitions = ds\<rparr>) u32_max s2 = Some s'"
    by (rule build_source_fileE [OF built])
  note i_simps = get_node_id_simps [OF i] and add_simps = arena_add_simps [OF add]
  have below: "grown code i s1 s2" using arena.keeps_items [of code i s1] items by (simp add: keeps_def)
  have ids: "ids_below s" and dec: "parents_decrease (b_arena s)"
    and old_files: "\<And>j n. ar_nodes (b_arena s) j = Some n \<Longrightarrow> \<exists>r c. in_file files (b_arena s) j n r c"
    using ok by (auto simp: files_ok_def)
  have small2: "b_count s2 \<le> u32_max" using small add_simps(1) by simp
  note s2 = grown_child [OF i below small2 ids]
  note child = adds_below_child [OF i s2(1) ids s2(4)]
  let ?pm = "ar_parent_map (b_arena s)" and ?pm' = "ar_parent_map (b_arena s')"
  note a = add_node_SomeD(3,4) [OF add_simps(4)]
  have nodes: "ar_nodes (b_arena s') = (ar_nodes (b_arena s2))(i \<mapsto> Node_SourceFile
       \<lparr>src_id = i, src_location = get_location root, src_source = concat (lossy_chars code),
        src_directives = us, src_definitions = ds\<rparr>)"
    and parents: "?pm' = ar_parent_map (b_arena s2)"
    using a by simp_all
  have "ids_below s'"
    using s2(1-3) add_node_wf [OF _ add_simps(4)] add_simps(1) by (auto simp: ids_below_def nodes)
  have root_parent: "?pm' i = None"
  proof -
    have "ar_parent_map (b_arena s1) i = None"
      using ids i_simps(4) s2(1) unfolding ids_below_def by (metis less_irrefl not_None_eq wf_arenaD(3))
    then show ?thesis using s2(1,4) i_simps(2) by (simp add: parents adds_below_def)
  qed
  have new_parent: "\<exists>q. ?pm' j = Some q \<and> q < j \<and> b_count s \<le> q \<and> ar_nodes (b_arena s') q \<noteq> None"
    if "b_count s \<le> j" "j \<noteq> i" "ar_nodes (b_arena s') j = Some n" for j n
  proof -
    note j = that
    have "ar_nodes (b_arena s2) j = Some n" using j(2,3) by (simp add: nodes)
    then obtain q where "ar_parent_map (b_arena s2) j = Some q" "q < j" "b_count s \<le> q"
      "q = i \<or> ar_nodes (b_arena s2) q \<noteq> None"
      using child(3) [OF j(1)] errors add_simps(2) by auto
    then show ?thesis by (auto simp: nodes parents)
  qed
  have dec': "q < j" if q: "?pm' j = Some q" for j q
  proof (cases "j < b_count s")
    case True
    then show ?thesis using child(1) [OF True] q dec by (simp add: parents parents_decrease_def)
  next
    case False
    obtain n where "ar_nodes (b_arena s') j = Some n"
      using \<open>ids_below s'\<close> wf_arenaD(3) q unfolding ids_below_def by blast
    moreover have "j \<noteq> i" using q root_parent by auto
    ultimately show ?thesis using new_parent [of j n] False q by auto
  qed
  have new_path: "(j, i) \<in> (parent_rel ?pm')\<^sup>*" if "b_count s \<le> j" "ar_nodes (b_arena s') j = Some n" for j n
    using that
  proof (induction j arbitrary: n rule: less_induct)
    case (less j)
    show ?case
    proof (cases "j = i")
      case False
      then obtain q where q: "?pm' j = Some q" "q < j" "b_count s \<le> q" "ar_nodes (b_arena s') q \<noteq> None"
        using new_parent less.prems by blast
      then have "(q, i) \<in> (parent_rel ?pm')\<^sup>*" using less.IH by blast
      moreover have "(j, q) \<in> parent_rel ?pm'" using q(1) by (simp add: parent_rel_def)
      ultimately show ?thesis by (rule converse_rtrancl_into_rtrancl [rotated])
    qed simp
  qed
  have "\<exists>r c. in_file files (b_arena s') j n r c" if n: "ar_nodes (b_arena s') j = Some n" for j n
  proof (cases "j < b_count s")
    case True
    then have old: "ar_nodes (b_arena s) j = Some n" using child(1) [OF True] s2(1) n by (simp add: nodes)
    then obtain r c where r: "in_file files (b_arena s) j n r c" using old_files by blast
    have "(j, r) \<in> (parent_rel ?pm')\<^sup>*"
      using path_same [of j r ?pm ?pm'] r dec child(1) True
      by (simp add: in_file_def parents_decrease_def parents)
    moreover have "r < b_count s" using r ids by (auto simp: in_file_def ids_below_def)
    then have "?pm' r = ?pm r" "ar_nodes (b_arena s') r = ar_nodes (b_arena s) r"
      using child(1) [of r] s2(1) by (simp_all add: parents nodes)
    ultimately have "in_file files (b_arena s') j n r c" using r unfolding in_file_def by simp
    then show ?thesis by blast
  next
    case False
    have "j \<noteq> i \<longrightarrow> faithful code n" using child(3) [of j n] False n by (auto simp: nodes)
    moreover have "(j, i) \<in> (parent_rel ?pm')\<^sup>*" using new_path [OF _ n] False by simp
    ultimately show ?thesis using root_parent known by (auto simp: in_file_def nodes)
  qed
  then show ?thesis
    using \<open>ids_below s'\<close> dec' by (simp add: files_ok_def parents_decrease_def)
qed

lemma build_files_ok:
  assumes "build_files debug fs s = Some (Inr a, s')" "b_count s' \<le> u32_max"
    and "files_ok files s" "snd ` set fs \<subseteq> snd ` set files" "b_errors s = []"
  shows "a = b_arena s' \<and> files_ok files s' \<and> b_errors s' = [] \<and> b_count s \<le> b_count s'"
  using assms
proof (induction debug fs s rule: build_files.induct)
  case (2 debug root code fs s)
  obtain s1 where s1: "build_source_file debug root code s = Some s1" "b_errors s1 = []"
    "build_files debug fs s1 = Some (Inr a, s')"
    using "2.prems"(1) by (auto simp: bind_Some_iff split: if_splits)
  have count: "b_count s1 \<le> b_count s'"
    using s1(3)
  proof (induction debug fs s1 rule: build_files.induct)
    case (2 debug root code fs s)
    then obtain u where "build_source_file debug root code s = Some u" "build_files debug fs u = Some (Inr a, s')"
      "b_errors u = []"
      by (auto simp: bind_Some_iff split: if_splits)
    then show ?case using "2.IH" source_file_logs [of debug root code s u] by fastforce
  qed simp
  have "files_ok files s1"
    by (rule source_file_ok [OF s1(1)]) (use "2.prems" s1(2) count in auto)
  then show ?case
    using "2.IH" [of s1] s1 "2.prems"(2,4) source_file_logs [OF s1(1)] by auto
qed simp

section \<open>The words of a node\<close>

lemma in_file_found:
  assumes ok: "files_ok files s" and n: "ar_nodes (b_arena s) i = Some n"
    and inf: "in_file files (b_arena s) i n r code"
  shows "find_source_file_for_node (b_arena s) i = Some (Some r)"
proof -
  let ?pm = "ar_parent_map (b_arena s)"
  obtain q where q: "climb_parents ?pm i = Some q" "?pm q = None" "(i, q) \<in> (parent_rel ?pm)\<^sup>*"
    using climb_parents_root [of ?pm i] ok by (auto simp: files_ok_def parents_decrease_def)
  have r: "(i, r) \<in> (parent_rel ?pm)\<^sup>*" "?pm r = None" using inf by (auto simp: in_file_def)
  have "q = r" by (rule root_unique [OF r q(3,2)])
  moreover obtain sf where "ar_nodes (b_arena s) r = Some (Node_SourceFile sf)"
    using inf by (auto simp: in_file_def)
  moreover have "i = r" if "is_source_file n"
    using inf that by (auto simp: in_file_def faithful_def)
  ultimately show ?thesis using q(1) n by (auto simp: find_source_file_for_node_def)
qed

text \<open>The text of the file at the node is the word of the node.\<close>

lemma spelled_source:
  assumes ok: "files_ok files s" and n: "ar_nodes (b_arena s) i = Some n"
    and t: "spelled n = Some t" "t \<noteq> []" "t \<noteq> ''<error>''"
    and codes: "\<And>code. code \<in> snd ` set files \<Longrightarrow> valid_utf8 code \<and> length code < 2 ^ 32"
  shows "get_node_source (b_arena s) i = Some (Some t)"
proof -
  obtain r code where r: "in_file files (b_arena s) i n r code" using ok n unfolding files_ok_def by blast
  note found = in_file_found [OF ok n r]
  obtain sf where sf: "ar_nodes (b_arena s) r = Some (Node_SourceFile sf)"
    "src_source sf = concat (lossy_chars code)" and code: "code \<in> snd ` set files"
    using r by (auto simp: in_file_def)
  have valid: "valid_utf8 code" and len: "length code < 2 ^ 32" using codes [OF code] by simp_all
  then have source: "src_source sf = code"
    using sf(2) from_utf8_lossy [of code code] by (simp add: from_utf8_def valid_utf8_def)
  have "i \<noteq> r" using n sf(1) t(1) by auto
  then obtain c where c: "node_text c code = Some t" "node_location n = get_location c"
    using r t by (auto simp: in_file_def faithful_def)
  have slice: "byte_slice code (cst_start c) (cst_end c) = Some t" "valid_utf8 t"
    using c(1) by (auto simp: node_text_def utf8_text_def from_utf8_def valid_utf8_def bind_Some_iff split: if_splits)
  then have range: "cst_start c \<le> cst_end c" "cst_end c \<le> length code"
    by (auto simp: byte_slice_def split: if_splits)
  have pos: "offset_start (node_location n) = cst_start c" "offset_end (node_location n) = cst_end c"
    using range len by (simp_all add: c(2) get_location_def u32_def)
  have "str_get code (cst_start c) (cst_end c) = Some t"
    by (rule valid_slice_get [OF valid slice t(2)])
  then show ?thesis
    using found n sf(1) source pos range by (simp add: get_node_source_def Let_def)
qed

end
