(* ===== verification/BuilderRoots.thy ===== *)
theory BuilderRoots
  imports BuilderBlocks BuilderFiles
begin

text \<open>
  Definitions and source files return on well-formed trees, so the whole builder does.
\<close>

section \<open>Arguments and fields\<close>

lemma runs_argument:
  assumes wf: "well_formed code n" and kind: "cst_kind n = ''argument_declaration''"
  shows "runs code snd p (budget n) s (build_argument p n code s)"
proof -
  have "child_by_field_name ''name'' n \<noteq> None" "child_by_field_name ''type'' n \<noteq> None"
    by (rule shape_field [OF well_formedD(2) [OF wf]], simp add: kind required_fields_def)+
  then obtain x t where x: "child_by_field_name ''name'' n = Some x" and t: "child_by_field_name ''type'' n = Some t"
    by blast
  have ret: "returns snd p (1 + (budget t + (budget x + 0))) s (build_argument p n code s)"
    unfolding build_argument_def x t bind.bind_lunit Let_def
    by (intro returns_begin wf ends_bind2 ends_add leaf_runs child_wf(1) [OF wf t] child_wf(1) [OF wf x]) simp
  show ?thesis
    by (rule runs_returns [OF arena.keeps_argument ret])
      (use mixed_fields_budget [of "[''name'', ''type'']" "[]" n] in \<open>simp add: x t option_budget_def\<close>)
qed

lemma runs_self_reference:
  assumes "well_formed code n"
  shows "runs code snd p (budget n) s (build_self_reference p n code s)"
proof (rule runs_returns [OF arena.keeps_self_reference])
  show "returns snd p (1 + 0) s (build_self_reference p n code s)"
    unfolding build_self_reference_def Let_def by (intro returns_begin assms ends_add) simp
qed (use budget_ge [of n] in simp)

lemma runs_ignore_argument:
  assumes wf: "well_formed code n" and kind: "cst_kind n = ''ignore_argument''"
  shows "runs code snd p (budget n) s (build_ignore_argument p n code s)"
proof (rule runs_returns [OF arena.keeps_ignore_argument])
  have shape: "child_by_field_name ''type'' n \<noteq> None"
    by (rule shape_field [OF well_formedD(2) [OF wf]]) (simp add: kind required_fields_def)
  show "returns snd p (1 + (option_budget (child_by_field_name ''type'' n) + 0)) s (build_ignore_argument p n code s)"
    unfolding build_ignore_argument_def Let_def
    by (intro returns_begin wf ends_rules shape leaf_runs) (auto dest: child_wf [OF wf])
qed (use mixed_fields_budget [of "[''type'']" "[]" n] in simp)

lemma runs_argument_type:
  assumes wf: "well_formed code n"
  shows "runs code snd p (budget n) s (build_argument_type p n code s)"
proof -
  have "runs code snd p (0 + budget n) s (build_argument_type p n code s)"
    unfolding build_argument_type_def
    by (intro runs_bind1 runs_collect [OF wf] runs_cases runs_map runs_argument [OF wf]
        runs_self_reference [OF wf] runs_ignore_argument [OF wf] runs_type [OF wf])
  then show ?thesis by simp
qed

lemma runs_struct_field:
  assumes wf: "well_formed code n" and "has_field n ''type''" "has_field n ''name''"
  shows "runs code snd p (budget n) s (build_struct_field p n code s)"
proof (rule runs_returns [OF arena.keeps_struct_field])
  have shape: "child_by_field_name ''type'' n \<noteq> None" "child_by_field_name ''name'' n \<noteq> None"
    using assms(2,3) by (simp_all add: has_field_def)
  show "returns snd p (1 + (option_budget (child_by_field_name ''type'' n)
      + (option_budget (child_by_field_name ''name'' n) + 0))) s (build_struct_field p n code s)"
    unfolding build_struct_field_def Let_def
    by (intro returns_begin wf ends_rules shape leaf_runs) (auto dest: child_wf [OF wf])
qed (use mixed_fields_budget [of "[''type'', ''name'']" "[]" n] in simp)

section \<open>Definitions\<close>

lemma runs_enum:
  assumes wf: "well_formed code n" and kind: "cst_kind n = ''enum_definition''"
  shows "runs code snd p (budget n) s (build_enum_definition p n code s)"
proof (rule runs_returns [OF arena.keeps_enum])
  have shape: "child_by_field_name ''name'' n \<noteq> None"
    by (rule shape_field [OF well_formedD(2) [OF wf]]) (simp add: kind required_fields_def)
  show "returns snd p (1 + (option_budget (child_by_field_name ''name'' n)
      + (nodes_budget (children_by_field_name ''variant'' n) + 0))) s (build_enum_definition p n code s)"
    unfolding build_enum_definition_def Let_def
    by (intro returns_begin wf ends_rules shape leaf_runs) (auto dest: child_wf [OF wf])
qed (use mixed_fields_budget [of "[''name'']" "[''variant'']" n] in simp)

lemma runs_external_function:
  assumes wf: "well_formed code n" and kind: "cst_kind n = ''external_function_definition''"
  shows "runs code snd p (budget n) s (build_external_function_definition p n code s)"
proof (rule runs_returns [OF arena.keeps_external_function])
  have shape: "child_by_field_name ''name'' n \<noteq> None"
    by (rule shape_field [OF well_formedD(2) [OF wf]]) (simp add: kind required_fields_def)
  show "returns snd p (1 + (option_budget (child_by_field_name ''name'' n)
      + (nodes_budget (children_by_field_name ''argument'' n)
         + (option_budget (child_by_field_name ''returns'' n) + 0)))) s (build_external_function_definition p n code s)"
    unfolding build_external_function_definition_def Let_def
    by (intro returns_begin wf ends_rules shape leaf_runs runs_argument_type) (auto dest: child_wf [OF wf])
qed (use mixed_fields_budget [of "[''name'', ''returns'']" "[''argument'']" n] in simp)

lemma runs_listed:
  assumes "well_formed code l"
    and "\<And>c s. c \<in> set (children_by_field_name f l) \<Longrightarrow> runs code snd p (budget c) s (g c s)"
  shows "runs code snd p (budget l) s (build_each g (children_by_field_name f l) s)"
  by (rule runs_weaken [OF runs_each [OF assms(2)]])
    (use mixed_fields_budget [of "[]" "[f]" l] in simp_all)

text \<open>A function without a name takes two more identifiers for its placeholders and adds nothing.\<close>

lemma ends_placeholders:
  "ends code p i s0 2 s
     (case error_ident l (report_at w n s) of (x, s5) \<Rightarrow> case empty_block l s5 of (b, s6) \<Rightarrow> Some (g x b, s6))"
  by (simp add: ends_def error_ident_def empty_block_def get_node_id_def)

lemma runs_function:
  assumes wf: "well_formed code n"
  shows "runs code snd p (budget n) s (build_function_definition p n code s)"
proof -
  have arguments: "runs code snd i (budget l) u
      (build_each (\<lambda>c. build_argument_type i c code) (children_by_field_name ''argument'' l) u)"
    and parameters: "runs code snd i (budget l) u
      (build_each (\<lambda>c. build_identifier i c code) (children_by_field_name ''type'' l) u)"
    if "child_by_field_name f n = Some l" for i f l u
    using child_wf(1) [OF wf that] by (auto intro!: runs_listed runs_argument_type runs_identifier dest: child_wf)
  have b: "1 + (option_budget (child_by_field_name ''argument_list'' n)
      + (option_budget (child_by_field_name ''type_parameters'' n)
         + (option_budget (child_by_field_name ''returns'' n) + k))) \<le> budget n"
    if "k \<le> option_budget (child_by_field_name ''name'' n) + (option_budget (child_by_field_name ''body'' n) + 2)"
    for k
    using that mixed_fields_budget
      [of "[''argument_list'', ''type_parameters'', ''returns'', ''name'', ''body'']" "[]" n] by simp
  show ?thesis
  proof (cases "child_by_field_name ''name'' n")
    case None
    have "returns snd p (1 + (option_budget (child_by_field_name ''argument_list'' n)
      + (option_budget (child_by_field_name ''type_parameters'' n)
         + (option_budget (child_by_field_name ''returns'' n) + 2)))) s (build_function_definition p n code s)"
      unfolding build_function_definition_def Let_def None option.case
      by (intro returns_begin [OF wf] ends_bind2 runs_optional arguments parameters runs_type ends_placeholders)
        (auto dest: child_wf [OF wf])
    then show ?thesis by (rule runs_returns [OF arena.keeps_function]) (rule b, simp)
  next
    case (Some c)
    have "returns snd p (1 + (option_budget (child_by_field_name ''argument_list'' n)
      + (option_budget (child_by_field_name ''type_parameters'' n)
         + (option_budget (child_by_field_name ''returns'' n)
            + (budget c + ((option_budget (child_by_field_name ''body'' n) + 1) + 0)))))) s
        (build_function_definition p n code s)"
      unfolding build_function_definition_def Let_def Some option.case(2)
      by (intro returns_begin [OF wf] ends_bind2 ends_add runs_optional arguments parameters runs_type runs_or
          runs_identifier runs_block runs_reported)
        (auto dest: child_wf [OF wf] intro: child_wf(1) [OF wf Some])
    then show ?thesis
      by (rule runs_returns [OF arena.keeps_function]) (rule b, simp add: Some option_budget_def)
  qed
qed

lemma runs_struct_definition:
  assumes wf: "well_formed code n" and kind: "cst_kind n = ''struct_definition''"
  shows "runs code snd p (budget n) s (build_struct_definition p n code s)"
proof (rule runs_returns [OF arena.keeps_struct_definition])
  have shape: "child_by_field_name ''name'' n \<noteq> None"
    by (rule shape_field [OF well_formedD(2) [OF wf]]) (simp add: kind required_fields_def)
  have parts: "has_field c ''type'' \<and> has_field c ''name''" if "c \<in> set (children_by_field_name ''field'' n)" for c
    using well_formedD(2) [OF wf] kind that by (auto simp: shape_ok_def list_all_iff)
  show "returns snd p (1 + (option_budget (child_by_field_name ''name'' n)
      + (nodes_budget (children_by_field_name ''field'' n)
         + (nodes_budget (filter (\<lambda>c. cst_kind c = ''function_definition'') (children_by_field_name ''method'' n)) + 0))))
      s (build_struct_definition p n code s)"
    unfolding build_struct_definition_def Let_def
    by (intro returns_begin wf ends_rules shape runs_identifier runs_struct_field runs_function)
      (auto dest: child_wf [OF wf] parts)
  show "1 + (option_budget (child_by_field_name ''name'' n)
      + (nodes_budget (children_by_field_name ''field'' n)
         + (nodes_budget (filter (\<lambda>c. cst_kind c = ''function_definition'') (children_by_field_name ''method'' n)) + 0)))
      \<le> budget n"
    using mixed_fields_budget [of "[''name'']" "[''field'', ''method'']" n]
      nodes_budget_filter [of "\<lambda>c. cst_kind c = ''function_definition''" "children_by_field_name ''method'' n"]
    by simp
qed

text \<open>The definitions of a specification are its named children after the first.\<close>

lemma specification_budget:
  assumes "list_all (\<lambda>(f, c). f \<noteq> Some ''name'') (drop 1 (filter (\<lambda>(f, c). cst_named c) (cst_children n)))"
  shows "3 + option_budget (child_by_field_name ''name'' n) + nodes_budget (drop 1 (named_children n)) \<le> budget n"
proof -
  define is_name named :: "string option \<times> cst \<Rightarrow> bool"
    where "is_name = (\<lambda>(f, c). f = Some ''name'')" and "named = (\<lambda>(f, c). cst_named c)"
  let ?es = "cst_children n" and ?ns = "filter named (cst_children n)"
  have split: "entries_budget (filter P es) + entries_budget (filter (\<lambda>e. \<not> P e) es) = entries_budget es" for P es
    by (induction es) (auto simp: entries_budget_def)
  have "named_children n = map snd ?ns"
    by (simp add: named_children_def child_nodes_def filter_map named_def comp_def case_prod_unfold)
  then have rest: "nodes_budget (drop 1 (named_children n)) = entries_budget (drop 1 ?ns)"
    by (simp add: nodes_budget_def entries_budget_def drop_map case_prod_unfold comp_def)
  have "filter is_name (drop 1 ?ns) = []"
    using assms by (auto simp: filter_empty_conv list_all_iff is_name_def named_def)
  moreover have "filter is_name ?ns = filter is_name (take 1 ?ns) @ filter is_name (drop 1 ?ns)"
    by (metis append_take_drop_id filter_append)
  ultimately have "entries_budget (filter is_name ?ns) \<le> entries_budget (take 1 ?ns)"
    using entries_budget_filter [of is_name "take 1 ?ns"] by simp
  moreover have "entries_budget ?ns = entries_budget (take 1 ?ns) + entries_budget (drop 1 ?ns)"
    unfolding entries_budget_def by (metis append_take_drop_id map_append sum_list.append)
  moreover have "entries_budget (filter is_name es)
      \<le> entries_budget (filter is_name (filter named es)) + entries_budget (filter (\<lambda>e. \<not> named e) es)" for es
    by (induction es) (auto simp: entries_budget_def)
  note this [of ?es]
  moreover have "option_budget (child_by_field_name ''name'' n) \<le> entries_budget (filter is_name ?es)"
  proof -
    have "field_entries [''name''] n = filter is_name ?es"
      by (auto simp: field_entries_def is_name_def intro: filter_cong)
    then show ?thesis using first_field_budget [of "''name''" n] by (simp add: field_budget)
  qed
  ultimately show ?thesis
    using split [of named ?es] by (simp add: budget_unfold [of n] rest del: One_nat_def)
qed

lemma runs_error_definition: "runs code snd p 3 s (Some (create_error_definition n s))"
  using arena.keeps_error_definition
  by (simp add: runs_def returns_def create_error_definition_def error_ident_def empty_block_def
      get_node_id_def)

lemma runs_definition_step:
  assumes wf: "well_formed code n"
    and D: "\<And>p c s. size c < size n \<Longrightarrow> well_formed code c \<Longrightarrow> runs code snd p (budget c) s (build_definition p c code s)"
  shows "runs code snd p (budget n) s (build_definition p n code s)"
proof -
  have spec: "runs code snd p (budget n) s (build_spec_definition p n code s)"
    if kind: "cst_kind n = ''spec_definition''"
  proof (rule runs_returns)
    have shape: "child_by_field_name ''name'' n \<noteq> None"
      by (rule shape_field [OF well_formedD(2) [OF wf]]) (simp add: kind required_fields_def)
    show "keeps (grown code) snd p s (build_spec_definition p n code s)"
      using arena.keeps_definition [of code p s n] by (simp add: build_definition.simps [of p n] kind)
    show "returns snd p (1 + (option_budget (child_by_field_name ''name'' n)
        + (nodes_budget (drop 1 (named_children n)) + 0))) s (build_spec_definition p n code s)"
      unfolding build_spec_definition.simps Let_def
      by (intro returns_begin wf ends_rules shape runs_identifier D)
        (auto dest!: in_set_dropD dest: accessor_smaller child_wf [OF wf])
    have "list_all (\<lambda>(f, c). f \<noteq> Some ''name'') (drop 1 (filter (\<lambda>(f, c). cst_named c) (cst_children n)))"
      using well_formedD(2) [OF wf] kind by (simp add: shape_ok_def)
    from specification_budget [OF this]
    show "1 + (option_budget (child_by_field_name ''name'' n)
        + (nodes_budget (drop 1 (named_children n)) + 0)) \<le> budget n" by simp
  qed
  have pushed: "runs code snd p 3 s (Some (create_error_definition n (push_builder_error e s)))" for e
    by (rule runs_same [OF runs_error_definition]) (rule logged.R_error | simp add: push_builder_error_def)+
  show ?thesis
    unfolding build_definition.simps
    by (intro runs_cases runs_map spec runs_struct_definition [OF wf] runs_enum [OF wf] runs_constant [OF wf]
        runs_function [OF wf] runs_external_function [OF wf] runs_type_definition_statement(2) [OF wf]
        runs_weaken [OF pushed] runs_weaken [OF runs_report(2) [OF runs_error_definition]] budget_ge; simp)
qed

lemma runs_definition: "well_formed code n \<Longrightarrow> runs code snd p (budget n) s (build_definition p n code s)"
proof (induction n arbitrary: p s rule: measure_induct_rule [where f = size])
  case (less n)
  then show ?case by (blast intro: runs_definition_step)
qed

section \<open>Source files\<close>

lemma runs_named_string:
  assumes wf: "well_formed code n"
  shows "runs code (\<lambda>(x, y, s). s) i
     (option_budget (child_by_field_name ''from_literal'' n) + nodes_budget (children_by_field_name ''segment'' n)) s
     (case child_by_field_name ''from_literal'' n of
        None \<Rightarrow> build_each (\<lambda>c. build_identifier i c code) (children_by_field_name ''segment'' n) s \<bind>
                  (\<lambda>(xs, u). Some (None, non_empty xs, u))
      | Some c \<Rightarrow> build_string_literal i c code s \<bind> (\<lambda>(l, u). Some (Some (literal_text l), None, u)))"
proof (rule runs_or)
  fix c assume "child_by_field_name ''from_literal'' n = Some c"
  then have "runs code (\<lambda>(x, y, s). s) i (budget c + 0) s
      (build_string_literal i c code s \<bind> (\<lambda>(l, u). Some (Some (literal_text l), None :: ident list option, u)))"
    using child_wf(1) [OF wf] by (intro runs_bind2 runs_leaf_literals(1) runs_done)
  then show "runs code (\<lambda>(x, y, s). s) i (budget c) s
      (build_string_literal i c code s \<bind> (\<lambda>(l, u). Some (Some (literal_text l), None :: ident list option, u)))"
    by simp
next
  have "runs code (\<lambda>(x, y, s). s) i (nodes_budget (children_by_field_name ''segment'' n) + 0) s
      (build_each (\<lambda>c. build_identifier i c code) (children_by_field_name ''segment'' n) s \<bind>
         (\<lambda>(xs, u). Some (None :: string option, non_empty xs, u)))"
    by (intro runs_bind2 runs_each runs_identifier runs_done) (auto dest: child_wf [OF wf])
  then show "runs code (\<lambda>(x, y, s). s) i (nodes_budget (children_by_field_name ''segment'' n)) s
      (build_each (\<lambda>c. build_identifier i c code) (children_by_field_name ''segment'' n) s \<bind>
         (\<lambda>(xs, u). Some (None :: string option, non_empty xs, u)))"
    by simp
qed

lemma runs_use_directive:
  assumes wf: "well_formed code n"
  shows "runs code snd p (budget n) s (build_use_directive p n code s)"
proof (rule runs_returns [OF arena.keeps_use_directive])
  show "returns snd p (1 + ((option_budget (child_by_field_name ''from_literal'' n)
        + nodes_budget (children_by_field_name ''segment'' n))
      + (nodes_budget (children_by_field_name ''imported_type'' n) + 0))) s (build_use_directive p n code s)"
    unfolding build_use_directive_def Let_def
    by (intro returns_begin wf ends_bind3 ends_bind2 ends_add runs_named_string runs_each runs_identifier)
      (auto dest: child_wf [OF wf])
qed (use mixed_fields_budget [of "[''from_literal'']" "[''segment'', ''imported_type'']" n] in simp)

lemma runs_item:
  assumes "well_formed code c"
  shows "runs code (\<lambda>(x, y, s). s) p (budget c) ((\<lambda>(x, y, s). s) r) (build_item p code c r)"
proof -
  obtain us ds s where r: "r = (us, ds, s)" by (cases r)
  have "runs code (\<lambda>(x, y, s). s) p (budget c + 0) s (build_item p code c (us, ds, s))"
    unfolding build_item_def prod.case
    by (intro runs_if runs_bind2 runs_use_directive runs_definition runs_done assms)
  then show ?thesis by (simp add: r)
qed

lemma source_file_returns:
  assumes wf: "well_formed code root" and clean: "\<not> (debug \<and> replacement_character \<in> set (lossy_chars code))"
    and s: "ids_below s" "0 < b_count s" "b_count s + budget root \<le> u32_max"
  shows "\<exists>s'. build_source_file debug root code s = Some s' \<and> ids_below s' \<and> 0 < b_count s'
           \<and> b_count s' \<le> b_count s + budget root"
proof -
  obtain i s1 where i: "get_node_id s = (i, s1)" by (cases "get_node_id s")
  note i_simps = get_node_id_simps [OF i]
  have i_eq: "i = b_count s" using i_simps(1) s(3) budget_ge [of root] by (simp add: u32_max_def)
  have s1: "ids_below s1" "i < b_count s1"
    using s(1) i_simps(2,4) i_eq by (auto simp: ids_below_def)
  have items: "runs code (\<lambda>(x, y, s). s) i (nodes_budget (child_nodes root)) s1
      (fold_opt (build_item i code) (child_nodes root) ([], [], s1))"
    unfolding nodes_budget_def
    by (rule runs_fold [where st = "\<lambda>(x, y, s). s" and init = "([], [], s1)", unfolded prod.case])
      (rule runs_item, rule well_formedD(3) [OF wf])
  have room: "b_count s1 + nodes_budget (child_nodes root) \<le> u32_max"
    using s(3) i_simps(2) children_budget [of root] by simp
  obtain r where r: "fold_opt (build_item i code) (child_nodes root) ([], [], s1) = Some r"
    "grown code i s1 ((\<lambda>(x, y, s). s) r)" "b_count ((\<lambda>(x, y, s). s) r) \<le> b_count s1 + nodes_budget (child_nodes root)"
    by (rule runs_next [OF items s1 room])
  obtain us ds s2 where parts: "r = (us, ds, s2)" by (cases r)
  let ?n = "Node_SourceFile \<lparr>src_id = i, src_location = get_location root, src_source = concat (lossy_chars code),
      src_directives = us, src_definitions = ds\<rparr>"
  have small: "b_count s2 \<le> u32_max" using r(3) room parts by simp
  have below: "grown code i s1 s2" using r(2) parts by simp
  note s2 = grown_child [OF i below small s(1)]
  have free: "ar_nodes (b_arena s2) i = None" by (rule adds_below_child(2) [OF i i_eq s(1) s2(4)])
  have "i \<noteq> 0" using i_eq s(2) by simp
  then obtain a where a: "add_node ?n u32_max (b_arena s2) = Some a"
    using free by (simp add: add_node_def Let_def)
  let ?s' = "s2\<lparr>b_arena := a\<rparr>"
  have built: "build_source_file debug root code s = Some ?s'"
    using clean r(1) parts a by (simp add: build_source_file_def i Let_def arena_add_def)
  have nodes: "ar_nodes a = (ar_nodes (b_arena s2))(i \<mapsto> ?n)"
    using add_node_SomeD(3) [OF a] by simp
  have "ids_below ?s'"
    using s2(1-3) add_node_wf [OF _ a] by (auto simp: ids_below_def nodes)
  moreover have "0 < b_count ?s'" "b_count ?s' \<le> b_count s + budget root"
    using s2(2) r(3) parts i_simps(2) children_budget [of root] by simp_all
  ultimately show ?thesis using built by blast
qed

definition files_budget :: "(cst \<times> string) list \<Rightarrow> nat" where
  "files_budget fs = sum_list (map (\<lambda>(root, code). 3 * tree_size root) fs)"

text \<open>A file the builder can take: a well-formed tree, and text that passes the debug assertion.\<close>

fun parsed :: "bool \<Rightarrow> cst \<times> string \<Rightarrow> bool" where
  "parsed debug (root, code) \<longleftrightarrow>
     well_formed code root \<and> \<not> (debug \<and> replacement_character \<in> set (lossy_chars code))"

lemma build_files_returns:
  assumes "list_all (parsed debug) fs"
    and "ids_below s" "0 < b_count s" "b_count s + files_budget fs \<le> u32_max"
  shows "\<exists>r s'. build_files debug fs s = Some (r, s') \<and> b_count s' \<le> u32_max"
  using assms
proof (induction debug fs s rule: build_files.induct)
  case (1 debug s)
  then show ?case by (simp add: files_budget_def)
next
  case (2 debug root code fs s)
  have budgets: "files_budget ((root, code) # fs) = budget root + files_budget fs"
    by (simp add: files_budget_def budget_def)
  obtain s1 where s1: "build_source_file debug root code s = Some s1" "ids_below s1" "0 < b_count s1"
    "b_count s1 \<le> b_count s + budget root"
    using source_file_returns [of code root debug s] "2.prems" budgets by auto
  then have room: "b_count s1 + files_budget fs \<le> u32_max" using "2.prems"(4) budgets by simp
  show ?case
  proof (cases "b_errors s1 = []")
    case True
    have "\<exists>r s'. build_files debug fs s1 = Some (r, s') \<and> b_count s' \<le> u32_max"
      by (rule "2.IH") (use True s1(2,3) room "2.prems"(1) in simp_all)
    then show ?thesis using s1(1) True by simp
  next
    case False
    then show ?thesis using s1(1) room by simp
  qed
qed

end
