(* ===== verification/BuilderProperties.thy ===== *)
theory BuilderProperties
  imports BuilderRoots
begin

text \<open>
  The properties of the AST builder: what an arena it returns looks like, that it returns at all, and
  when it reports errors. The sample is the parse tree of a file with one small function.
\<close>

section \<open>A sample\<close>

definition leaf :: "string \<Rightarrow> bool \<Rightarrow> nat \<Rightarrow> nat \<Rightarrow> cst" where
  "leaf k named a b = Cst k named a b (0, a) (0, b) []"

definition sample_code :: string where "sample_code = ''fn f() { return x; }''"

definition sample_return :: cst where
  "sample_return = Cst ''return_statement'' True 9 18 (0, 9) (0, 18)
     [(None, leaf ''return'' False 9 15), (Some ''expression'', leaf ''identifier'' True 16 17),
      (None, leaf '';'' False 17 18)]"

definition sample_body :: cst where
  "sample_body = Cst ''block'' True 7 20 (0, 7) (0, 20)
     [(None, leaf ''{'' False 7 8), (None, sample_return), (None, leaf ''}'' False 19 20)]"

definition sample_function :: cst where
  "sample_function = Cst ''function_definition'' True 0 20 (0, 0) (0, 20)
     [(None, leaf ''fn'' False 0 2), (Some ''name'', leaf ''identifier'' True 3 4),
      (None, leaf ''('' False 4 5), (None, leaf '')'' False 5 6),
      (Some ''body'', sample_body)]"

definition sample_tree :: cst where
  "sample_tree = Cst ''source_file'' True 0 20 (0, 0) (0, 20) [(None, sample_function)]"

lemmas cst_eval = child_nodes_def nth_node_def child_node_def named_children_def named_child_def
  children_by_field_name_def child_by_field_name_def is_error_def

lemma leaf_simps [simp]: "cst_kind (leaf k m a b) = k" "cst_named (leaf k m a b) = m" "cst_children (leaf k m a b) = []"
  "cst_start (leaf k m a b) = a" "cst_end (leaf k m a b) = b"
  by (simp_all add: leaf_def)


lemma ascii_utf8:
  assumes "list_all (\<lambda>c. (of_char c :: nat) < 128) bs"
  shows "from_utf8 bs = Some bs" "lossy_chars bs = map (\<lambda>c. [c]) bs" "valid_utf8 bs"
  by (simp_all add: from_utf8_def lossy_chars_def valid_utf8_def ascii_chunks [OF assms] list_all_iff)

lemma sample_text: "from_utf8 ''x'' = Some ''x''" "from_utf8 ''f'' = Some ''f''"
  by (rule ascii_utf8, simp)+

lemma sample_utf8: "lossy_chars sample_code = map (\<lambda>c. [c]) sample_code" "valid_utf8 sample_code"
  by (rule ascii_utf8, simp add: sample_code_def)+


definition put :: "ast_node \<Rightarrow> nat \<Rightarrow> arena \<Rightarrow> arena" where
  "put n p a = the (add_node n p a)"

definition at_work :: "nat \<Rightarrow> arena \<Rightarrow> builder" where
  "at_work k a = \<lparr>b_arena = a, b_source_code = [(sample_tree, sample_code)], b_errors = [], b_count = k\<rparr>"

lemma put_steps:
  assumes "node_id n \<noteq> 0" "ar_nodes a (node_id n) = None"
  shows "arena_add n p (at_work k a) = Some (at_work k (put n p a))"
    and "ar_nodes (put n p a) = (ar_nodes a)(node_id n \<mapsto> n)"
  using assms by (auto simp: arena_add_def put_def add_node_def Let_def at_work_def)

lemma sample_begin:
  "list_all (\<lambda>c. cst_kind c \<noteq> ''ERROR'') (child_nodes n) \<Longrightarrow> k < 2 ^ 32 \<Longrightarrow>
   begin_node n code (at_work k a) = Some (k, at_work (Suc k) a)"
proof -
  have "list_all (\<lambda>c. cst_kind c \<noteq> ''ERROR'') cs \<Longrightarrow> fold_opt (collect_error code) cs s = Some s" for cs s
    by (induction cs) (simp_all add: collect_error_def is_error_def)
  then show "list_all (\<lambda>c. cst_kind c \<noteq> ''ERROR'') (child_nodes n) \<Longrightarrow> k < 2 ^ 32 \<Longrightarrow> ?thesis"
    by (simp add: begin_node_def collect_errors_def get_node_id_def at_work_def)
qed

definition ident_f :: ident where
  "ident_f = \<lparr>ident_id = 3, ident_location = get_location (leaf ''identifier'' True 3 4), ident_name = ''f''\<rparr>"
definition ident_x :: ident where
  "ident_x = \<lparr>ident_id = 6, ident_location = get_location (leaf ''identifier'' True 16 17), ident_name = ''x''\<rparr>"

lemma leaf_text: "node_text (leaf k m 16 17) sample_code = Some ''x''" "node_text (leaf k m 3 4) sample_code = Some ''f''"
  by (simp_all add: node_text_def utf8_text_def byte_slice_def sample_code_def sample_text)

lemma leaf_children [simp]: "child_nodes (leaf k m a b) = []"
  by (simp add: child_nodes_def)

lemma build_f: "ar_nodes a 3 = None \<Longrightarrow>
  build_identifier 2 (leaf ''identifier'' True 3 4) sample_code (at_work 3 a)
   = Some (ident_f, at_work 4 (put (Node_Expression (Expr_Identifier ident_f)) 2 a))"
  by (simp add: build_identifier_def sample_begin leaf_text put_steps ident_f_def Let_def)

lemma build_x: "ar_nodes a 6 = None \<Longrightarrow>
  build_expression 5 (leaf ''identifier'' True 16 17) sample_code (at_work 6 a)
   = Some (Expr_Identifier ident_x, at_work 7 (put (Node_Expression (Expr_Identifier ident_x)) 5 a))"
  by (simp add: build_expression.simps literal_kinds_def build_identifier_def sample_begin leaf_text put_steps ident_x_def Let_def)


definition return_x :: statement where
  "return_x = Stmt_Return 5 (get_location sample_return) (Expr_Identifier ident_x)"

lemma build_return: "ar_nodes a 5 = None \<Longrightarrow> ar_nodes a 6 = None \<Longrightarrow>
  build_statement 4 sample_return sample_code (at_work 5 a) = Some (return_x, at_work 7 (put (Node_Statement return_x) 4
     (put (Node_Expression (Expr_Identifier ident_x)) 5 a)))"
  by (simp add: build_statement.simps block_kinds_def sample_return_def build_return_statement_def sample_begin cst_eval build_x
    put_steps ident_x_def return_x_def Let_def)

definition body_block :: block_type where
  "body_block = Block_Block 4 (get_location sample_body) [return_x]"

lemma sample_return_simps: "cst_kind sample_return = ''return_statement''" "cst_named sample_return"
  "collect_errors sample_return code s = Some s" "collect_errors (leaf k m i j) code s = Some s"
  by (simp_all add: sample_return_def collect_errors_def cst_eval collect_error_def)

lemma build_body: "ar_nodes a 4 = None \<Longrightarrow> ar_nodes a 5 = None \<Longrightarrow> ar_nodes a 6 = None \<Longrightarrow>
  build_block 2 sample_body sample_code (at_work 4 a) = Some (body_block, at_work 7 (put (Node_Statement (Stmt_Block body_block)) 2
     (put (Node_Statement return_x) 4 (put (Node_Expression (Expr_Identifier ident_x)) 5 a))))"
  by (simp add: build_block.simps build_block_statements.simps quantified_block_def sample_body_def sample_begin cst_eval build_return
    sample_return_simps put_steps body_block_def return_x_def ident_x_def Let_def)

definition function_f :: function_definition where
  "function_f = \<lparr>fd_id = 2, fd_location = get_location sample_function, fd_visibility = Private, fd_name = ident_f,
     fd_type_parameters = None, fd_arguments = None, fd_returns = None, fd_body = body_block\<rparr>"

lemma sample_body_simps: "cst_kind sample_body = ''block''"
  by (simp add: sample_body_def)

lemma build_function: "ar_nodes a = Map.empty \<Longrightarrow>
  build_definition 1 sample_function sample_code (at_work 2 a) = Some (Def_Function function_f,
    at_work 7 (put (Node_Definition (Def_Function function_f)) 1 (put (Node_Statement (Stmt_Block body_block)) 2
     (put (Node_Statement return_x) 4 (put (Node_Expression (Expr_Identifier ident_x)) 5
       (put (Node_Expression (Expr_Identifier ident_f)) 2 a))))))"
  by (simp add: build_definition.simps sample_function_def build_function_definition_def sample_begin cst_eval build_body build_f
    put_steps body_block_def function_f_def return_x_def ident_x_def ident_f_def get_visibility_def sample_body_simps Let_def)

definition file_1 :: ast_node where
  "file_1 = Node_SourceFile \<lparr>src_id = 1, src_location = get_location sample_tree, src_source = sample_code,
     src_directives = [], src_definitions = [Def_Function function_f]\<rparr>"

definition sample_arena :: arena where
  "sample_arena = put file_1 u32_max (put (Node_Definition (Def_Function function_f)) 1 (put (Node_Statement (Stmt_Block body_block)) 2
     (put (Node_Statement return_x) 4 (put (Node_Expression (Expr_Identifier ident_x)) 5
       (put (Node_Expression (Expr_Identifier ident_f)) 2 empty_arena)))))"

lemma replacement_long: "replacement_character \<notin> set (map (\<lambda>c. [c]) cs)"
  by (auto simp: replacement_character_def)

lemma sample_function_kind: "cst_kind sample_function = ''function_definition''"
  by (simp add: sample_function_def)

lemma concat_chars: "concat (map (\<lambda>c. [c]) cs) = cs"
  by (induction cs) simp_all

lemma empty_nodes: "ar_nodes empty_arena = Map.empty"
  by (simp add: empty_arena_def)

lemma sample_file: "build_source_file True sample_tree sample_code (at_work 1 empty_arena) = Some (at_work 7 sample_arena)"
proof -
  have "get_node_id (at_work 1 empty_arena) = (1, at_work 2 empty_arena)"
    by (simp add: get_node_id_def at_work_def)
  then show ?thesis
    using replacement_long [of sample_code]
    by (simp add: build_source_file_def build_item_def sample_utf8 concat_chars sample_tree_def child_nodes_def sample_function_kind
    build_function empty_nodes put_steps file_1_def sample_arena_def body_block_def function_f_def return_x_def ident_x_def ident_f_def Let_def
    del: set_map One_nat_def)
qed

lemma sample_built: "build_ast True (at_work 1 empty_arena) = Some (Inr sample_arena, at_work 7 sample_arena)"
proof -
  have "b_source_code (at_work 1 empty_arena) = [(sample_tree, sample_code)]" "b_errors (at_work 7 sample_arena) = []"
    "b_arena (at_work 7 sample_arena) = sample_arena"
    by (simp_all add: at_work_def)
  then show ?thesis by (simp add: build_ast_def sample_file del: One_nat_def)
qed

lemma sample_nodes: "ar_nodes sample_arena 3 = Some (Node_Expression (Expr_Identifier ident_f))"
  by (simp add: sample_arena_def put_steps empty_nodes file_1_def body_block_def function_f_def return_x_def ident_x_def ident_f_def)

section \<open>Properties\<close>

lemma initial_files_ok:
  assumes "b_arena s = empty_arena"
  shows "ids_below s" "files_ok (b_source_code s) s"
  using assms by (auto simp: files_ok_def ids_below_def empty_arena_def wf_arena_def parents_decrease_def)

lemma built:
  assumes "build_ast debug s = Some (Inr a, s')" "b_arena s = empty_arena" "b_errors s = []" "b_count s' \<le> u32_max"
  shows "a = b_arena s'" "files_ok (b_source_code s) s'"
  using build_files_ok [of debug "b_source_code s" s a s' "b_source_code s"] assms initial_files_ok(2) [of s]
  by (simp_all add: build_ast_def)

text \<open>C5: An arena the builder returns (while its counter has not gone round) is well formed, every parent
  has a smaller identifier than its children, and from every node \<open>find_source_file_for_node\<close>
  reaches a source file.\<close>

theorem built_arena_is_sound:
  assumes "build_ast debug s = Some (Inr a, s')" "b_arena s = empty_arena" "b_errors s = []" "b_count s' \<le> u32_max"
  shows "wf_arena a \<and> parents_decrease a
    \<and> (\<forall>i n. ar_nodes a i = Some n \<longrightarrow>
         (\<exists>r f. find_source_file_for_node a i = Some (Some r) \<and> ar_nodes a r = Some (Node_SourceFile f)))"
proof -
  note ok = built [OF assms]
  have "wf_arena a \<and> parents_decrease a" using ok by (simp add: files_ok_def ids_below_def)
  moreover have "\<exists>r f. find_source_file_for_node a i = Some (Some r) \<and> ar_nodes a r = Some (Node_SourceFile f)"
    if n: "ar_nodes a i = Some n" for i n
  proof -
    obtain r code where r: "in_file (b_source_code s) a i n r code" using ok n unfolding files_ok_def by blast
    then show ?thesis using in_file_found [OF ok(2)] n ok(1) by (auto simp: in_file_def)
  qed
  ultimately show ?thesis by blast
qed

theorem built_arena_is_sound_witness:
  "wf_arena sample_arena \<and> (\<exists>r. find_source_file_for_node sample_arena 3 = Some (Some r))"
  using built_arena_is_sound [OF sample_built] sample_nodes by (auto simp: at_work_def u32_max_def)

text \<open>C6: The words in the tree are the words of the source: for an identifier, a number or a string
  literal in the arena, \<open>get_node_source\<close> answers with exactly the text the node holds.\<close>

theorem names_are_source_text:
  assumes "build_ast debug s = Some (Inr a, s')" "b_arena s = empty_arena" "b_errors s = []" "b_count s' \<le> u32_max"
    and "list_all (\<lambda>(root, code). valid_utf8 code \<and> length code < 2 ^ 32) (b_source_code s)"
    and "ar_nodes a i = Some n" "spelled n = Some t" "t \<noteq> []" "t \<noteq> ''<error>''"
  shows "get_node_source a i = Some (Some t)"
proof -
  have codes: "valid_utf8 code \<and> length code < 2 ^ 32" if "code \<in> snd ` set (b_source_code s)" for code
    using assms(5) that by (auto simp: list_all_iff)
  have "ar_nodes (b_arena s') i = Some n" using built(1) [OF assms(1-4)] assms(6) by simp
  from spelled_source [OF built(2) [OF assms(1-4)] this assms(7-9) codes]
  show ?thesis using built(1) [OF assms(1-4)] by simp
qed

theorem names_are_source_text_witness: "get_node_source sample_arena 3 = Some (Some ''f'')"
  by (rule names_are_source_text [OF sample_built _ _ _ _ sample_nodes])
    (simp_all add: at_work_def u32_max_def sample_utf8, simp_all add: sample_code_def ident_f_def)

text \<open>C7: The builder returns: on parse trees that have the children the builder unwraps, with spans
  inside the code, \<open>build_ast\<close> neither panics nor runs on, as long as the counter has
  three identifiers left for every node of the trees.\<close>

theorem building_returns:
  assumes "list_all (parsed debug) (b_source_code s)" "b_arena s = empty_arena" "0 < b_count s"
    and "b_count s + files_budget (b_source_code s) \<le> u32_max"
  shows "\<exists>r s'. build_ast debug s = Some (r, s') \<and> b_count s' \<le> u32_max"
  unfolding build_ast_def
  by (rule build_files_returns [OF assms(1) initial_files_ok(1) [OF assms(2)] assms(3,4)])

lemma ascii_text: "list_all (\<lambda>c. (of_char c :: nat) < 128) bs \<Longrightarrow> from_utf8 bs = Some bs"
  by (rule ascii_utf8)

lemma sample_parsed: "parsed True (sample_tree, sample_code)"
  using replacement_long [of sample_code]
  by (simp add: sample_utf8 del: set_map)
    (simp add: well_formed.simps span_ok_def shape_ok_def required_fields_def has_field_def cst_eval
      node_text_def utf8_text_def byte_slice_def get_location_def u32_def sample_code_def ascii_text leaf_def
      sample_tree_def sample_function_def sample_body_def sample_return_def)

theorem building_returns_witness: "\<exists>r s'. build_ast True (at_work 1 empty_arena) = Some (r, s')"
  using building_returns [of True "at_work 1 empty_arena"] sample_parsed
  by (auto simp: at_work_def files_budget_def tree_size.simps cst_eval u32_max_def leaf_def
      sample_tree_def sample_function_def sample_body_def sample_return_def simp del: parsed.simps)

lemma item_reports:
  assumes "build_item i code c r = Some r'" "cst_kind c = ''ERROR''"
  shows "b_errors (snd (snd r')) \<noteq> []"
  using assms
  by (auto simp: build_item_def build_definition.simps [of i c] create_error_definition_def error_ident_def
      empty_block_def get_node_id_def push_builder_error_def bind_Some_iff split: prod.splits)

lemma items_report:
  assumes "fold_opt (build_item i code) cs (us, ds, s) = Some (us', ds', s')"
    and "b_errors s \<noteq> [] \<or> (\<exists>c\<in>set cs. cst_kind c = ''ERROR'')"
  shows "b_errors s' \<noteq> []"
  using assms
proof (induction cs arbitrary: us ds s)
  case (Cons c cs)
  obtain r where r: "build_item i code c (us, ds, s) = Some r" "fold_opt (build_item i code) cs r = Some (us', ds', s')"
    using Cons.prems(1) by (auto simp: bind_Some_iff)
  obtain us1 ds1 s1 where r1: "r = (us1, ds1, s1)" by (cases r)
  have "fold_opt (build_item i code) [c] (us, ds, s) = Some (us1, ds1, s1)" using r(1) r1 by simp
  then have "logs i s s1"
    using logged.keeps_items [where p = i and s = s and code = code and cs = "[c]" and us = us and ds = ds]
    unfolding keeps_def by fastforce
  then have "b_errors s1 \<noteq> [] \<or> (\<exists>c\<in>set cs. cst_kind c = ''ERROR'')"
    using Cons.prems(2) item_reports [OF r(1)] r1 by (auto simp: logs_def)
  then show ?case using Cons.IH r(2) r1 by blast
qed simp

lemma build_files_errors:
  assumes "build_files debug fs s = Some (r, s')" "b_errors s = []"
  shows "((\<exists>e. r = Inl e) \<longleftrightarrow> b_errors s' \<noteq> [])
    \<and> ((\<exists>root code c. (root, code) \<in> set fs \<and> c \<in> set (child_nodes root) \<and> cst_kind c = ''ERROR'') \<longrightarrow> (\<exists>e. r = Inl e))"
  using assms
proof (induction debug fs s rule: build_files.induct)
  case (2 debug root code fs s)
  obtain s1 where s1: "build_source_file debug root code s = Some s1"
    and rest: "(if b_errors s1 \<noteq> [] then Some (Inl ''AST building failed due to errors'', s1)
       else build_files debug fs s1) = Some (r, s')"
    using "2.prems"(1) by (auto simp: bind_Some_iff)
  have bad: "b_errors s1 \<noteq> []" if "c \<in> set (child_nodes root)" "cst_kind c = ''ERROR''" for c
    using s1 that by (elim build_source_fileE) (use items_report arena_add_simps(2) in metis)
  show ?case
  proof (cases "b_errors s1 = []")
    case True
    then show ?thesis using "2.IH" [of s1] rest bad by auto
  next
    case False
    then show ?thesis using rest by auto
  qed
qed auto

text \<open>C8: \<open>build_ast\<close> fails exactly when errors were collected, and then the errors are in the builder; a
  file with a node at the top level that could not be parsed is never accepted.\<close>

theorem building_fails_on_errors:
  assumes "build_ast debug s = Some (r, s')" "b_errors s = []"
  shows "((\<exists>e. r = Inl e) \<longleftrightarrow> b_errors s' \<noteq> [])
    \<and> ((\<exists>root code c. (root, code) \<in> set (b_source_code s) \<and> c \<in> set (child_nodes root)
          \<and> cst_kind c = ''ERROR'') \<longrightarrow> (\<exists>e. r = Inl e))"
  using build_files_errors assms unfolding build_ast_def by blast

definition broken_builder :: builder where
  "broken_builder = \<lparr>b_arena = empty_arena,
     b_source_code = [(Cst ''source_file'' True 0 20 (0, 0) (0, 20) [(None, leaf ''ERROR'' True 0 20)], sample_code)],
     b_errors = [], b_count = 1\<rparr>"

lemma broken_builder_returns: "\<exists>r s'. build_ast True broken_builder = Some (r, s')"
proof -
  have "list_all (parsed True) (b_source_code broken_builder)"
    using replacement_long [of sample_code]
    by (simp add: sample_utf8 broken_builder_def del: set_map)
      (simp add: well_formed.simps span_ok_def shape_ok_def required_fields_def cst_eval
        node_text_def utf8_text_def byte_slice_def get_location_def u32_def sample_code_def ascii_text leaf_def)
  moreover have "ids_below broken_builder" by (rule initial_files_ok) (simp add: broken_builder_def)
  ultimately show ?thesis
    using build_files_returns [of True "b_source_code broken_builder" broken_builder]
    by (auto simp: build_ast_def broken_builder_def files_budget_def tree_size.simps cst_eval u32_max_def leaf_def
        simp del: parsed.simps)
qed

theorem building_fails_on_errors_witness:
  "b_errors (at_work 7 sample_arena) = []
   \<and> (\<exists>e s'. build_ast True broken_builder = Some (Inl e, s') \<and> b_errors s' \<noteq> [])"
proof -
  obtain r s' where r: "build_ast True broken_builder = Some (r, s')" using broken_builder_returns by blast
  have "\<exists>e. r = Inl e" "b_errors s' \<noteq> []"
    using building_fails_on_errors [OF r] by (auto simp: broken_builder_def child_nodes_def)
  then show ?thesis using building_fails_on_errors [OF sample_built] r by (auto simp: at_work_def)
qed

end
