(* ===== verification/Chars.thy ===== *)
theory Chars
  imports Inf_Prelude
begin

text \<open>
  Strings of Unicode scalar values, for the parts of the program that treat text typed by a user: the
  properties of characters and the operations of \<open>str\<close> and \<open>String\<close> the program uses. Positions in a
  string are byte offsets of its UTF-8 encoding, as in the code; an offset inside a character or behind
  the end is a panic, \<^term>\<open>None\<close>.
\<close>

section \<open>Characters\<close>

type_synonym chars = "nat list"

abbreviation chars_of :: "string \<Rightarrow> chars" where
  "chars_of s \<equiv> map of_char s"

text \<open>\<open>char::is_whitespace\<close>: the Unicode property \<open>White_Space\<close>.\<close>

definition is_whitespace :: "nat \<Rightarrow> bool" where
  "is_whitespace c \<longleftrightarrow> 9 \<le> c \<and> c \<le> 13 \<or> 8192 \<le> c \<and> c \<le> 8202
     \<or> c \<in> {32, 133, 160, 5760, 8232, 8233, 8239, 8287, 12288}"

definition is_ascii_digit :: "nat \<Rightarrow> bool" where
  "is_ascii_digit c \<longleftrightarrow> 48 \<le> c \<and> c \<le> 57"

definition len_utf8 :: "nat \<Rightarrow> nat" where
  "len_utf8 c = (if c < 128 then 1 else if c < 2048 then 2 else if c < 65536 then 3 else 4)"

lemma len_utf8_pos [simp]: "0 < len_utf8 c" "len_utf8 c \<noteq> 0"
  by (simp_all add: len_utf8_def)

section \<open>Strings\<close>

text \<open>The length in bytes.\<close>

definition str_len :: "chars \<Rightarrow> nat" where
  "str_len s = sum_list (map len_utf8 s)"

lemma str_len_simps [simp]:
  "str_len [] = 0" "str_len (c # s) = len_utf8 c + str_len s" "str_len (s @ t) = str_len s + str_len t"
  by (simp_all add: str_len_def)

lemma str_len_eq_0 [simp]: "str_len s = 0 \<longleftrightarrow> s = []"
  by (cases s) (simp_all add: add_eq_0_iff_both_eq_0)

text \<open>The two slices at an offset.\<close>

fun split_at :: "nat \<Rightarrow> chars \<Rightarrow> (chars \<times> chars) option" where
  "split_at k [] = (if k = 0 then Some ([], []) else None)"
| "split_at k (c # s) =
     (if k = 0 then Some ([], c # s)
      else if len_utf8 c \<le> k then map_option (\<lambda>(a, b). (c # a, b)) (split_at (k - len_utf8 c) s)
      else None)"

lemma split_at_0 [simp]: "split_at 0 s = Some ([], s)"
  by (cases s) simp_all

lemma split_at_append [simp]: "split_at (str_len a) (a @ b) = Some (a, b)"
  by (induction a) simp_all

lemma split_at_iff: "split_at k s = Some (a, b) \<longleftrightarrow> s = a @ b \<and> k = str_len a"
proof
  assume "split_at k s = Some (a, b)"
  then show "s = a @ b \<and> k = str_len a"
  proof (induction k s arbitrary: a rule: split_at.induct)
    case (2 k c s)
    then show ?case by (auto split: if_splits)
  qed (auto split: if_splits)
qed auto

text \<open>\<open>str::char_indices\<close>, from an offset on.\<close>

fun char_indices :: "nat \<Rightarrow> chars \<Rightarrow> (nat \<times> nat) list" where
  "char_indices k [] = []"
| "char_indices k (c # s) = (k, c) # char_indices (k + len_utf8 c) s"

lemma char_indices_append [simp]:
  "char_indices k (s @ t) = char_indices k s @ char_indices (k + str_len s) t"
  by (induction s arbitrary: k) (simp_all add: add.assoc)

text \<open>\<open>String::insert\<close> and \<open>String::remove\<close>.\<close>

definition str_insert :: "nat \<Rightarrow> nat \<Rightarrow> chars \<Rightarrow> chars option" where
  "str_insert k c s = map_option (\<lambda>(a, b). a @ c # b) (split_at k s)"

definition str_remove :: "nat \<Rightarrow> chars \<Rightarrow> chars option" where
  "str_remove k s =
     (case split_at k s of
        Some (a, c # b) \<Rightarrow> Some (a @ b)
      | _ \<Rightarrow> None)"

lemma str_remove_append [simp]: "str_remove (str_len a) (a @ c # b) = Some (a @ b)"
  by (simp add: str_remove_def)

definition trim :: "chars \<Rightarrow> chars" where
  "trim s = rev (dropWhile is_whitespace (rev (dropWhile is_whitespace s)))"

definition starts_with :: "chars \<Rightarrow> chars \<Rightarrow> bool" where
  "starts_with p s \<longleftrightarrow> take (length p) s = p"

text \<open>The first of \<open>str::lines\<close>: up to the first line feed, without a carriage return before it.\<close>

definition first_line :: "chars \<Rightarrow> chars option" where
  "first_line s =
     (if s = [] then None
      else
        (let line = takeWhile (\<lambda>c. c \<noteq> 10) s
         in if length line < length s \<and> line \<noteq> [] \<and> last line = 13 then Some (butlast line) else Some line))"

end
