(* ===== verification/WatFormat.thy ===== *)
theory WatFormat
  imports Chars
begin

text \<open>
  The formatter of the WebAssembly text format (\<open>tools/wat-fmt/src/lib.rs\<close>). A text is the list of its
  Unicode scalar values. The parser indexes a slice of tokens; here the index is the list of tokens
  that are left. The printer is \<^term>\<open>None\<close> where \<open>current_indent -= 1\<close> underflows.
\<close>

section \<open>Tokens\<close>

datatype wat_token = LParen | RParen | Atom_token chars

text \<open>The loop of a quoted atom, after its first quote: up to the next one.\<close>

fun quoted :: "chars \<Rightarrow> chars \<times> chars" where
  "quoted [] = ([], [])"
| "quoted (c # cs) = (if c = 34 then ([c], cs) else (case quoted cs of (a, r) \<Rightarrow> (c # a, r)))"

definition bare_char :: "nat \<Rightarrow> bool" where
  "bare_char c \<longleftrightarrow> \<not> (is_whitespace c \<or> c = 40 \<or> c = 41)"

definition bare :: "chars \<Rightarrow> chars \<times> chars" where
  "bare cs = (takeWhile bare_char cs, dropWhile bare_char cs)"

lemma quoted_shorter: "length (snd (quoted cs)) \<le> length cs"
  by (induction cs) (auto split: prod.splits)

lemma quoted_le [termination_simp]: "(a, r) = quoted cs \<Longrightarrow> length r < Suc (length cs)"
  using quoted_shorter [of cs] by (metis le_imp_less_Suc snd_conv)

lemma bare_le [termination_simp]: "(a, r) = bare cs \<Longrightarrow> length r < Suc (length cs)"
  by (simp add: bare_def length_dropWhile_le le_imp_less_Suc)

fun tokenize :: "chars \<Rightarrow> wat_token list" where
  "tokenize [] = []"
| "tokenize (c # cs) =
     (if is_whitespace c then tokenize cs
      else if c = 40 then LParen # tokenize cs
      else if c = 41 then RParen # tokenize cs
      else if c = 34 then (case quoted cs of (a, r) \<Rightarrow> Atom_token (c # a) # tokenize r)
      else (case bare cs of (a, r) \<Rightarrow> Atom_token (c # a) # tokenize r))"

section \<open>Nodes\<close>

datatype wat_node = Atom_node chars | List_node "wat_node list"

function (sequential)
  parse_node :: "wat_token list \<Rightarrow> wat_node \<times> wat_token list" and
  parse_children :: "wat_token list \<Rightarrow> wat_node list \<times> wat_token list"
where
  "parse_node [] = (Atom_node [], [])"
| "parse_node (LParen # ts) = (case parse_children ts of (cs, r) \<Rightarrow> (List_node cs, r))"
| "parse_node (RParen # ts) = (Atom_node (chars_of '')''), ts)"
| "parse_node (Atom_token s # ts) = (Atom_node s, ts)"
| "parse_children [] = ([], [])"
| "parse_children (RParen # ts) = ([], ts)"
| "parse_children (t # ts) =
     (case parse_node (t # ts) of (c, r) \<Rightarrow> case parse_children r of (cs, r') \<Rightarrow> (c # cs, r'))"
  by pat_completeness auto

text \<open>A node takes at least one token.\<close>

lemma parse_shorter:
  "parse_node_parse_children_dom (Inl ts) \<Longrightarrow> ts \<noteq> [] \<longrightarrow> length (snd (parse_node ts)) < length ts"
  "parse_node_parse_children_dom (Inr us) \<Longrightarrow> length (snd (parse_children us)) \<le> length us"
proof (induction ts and us rule: parse_node_parse_children.pinduct)
qed (auto simp: parse_node.psimps parse_children.psimps split: prod.splits)

lemma parse_rest:
  "(c, r) = parse_node (t # ts) \<Longrightarrow> parse_node_parse_children_dom (Inl (t # ts)) \<Longrightarrow> length r < Suc (length ts)"
  using parse_shorter(1) [of "t # ts"] by (metis length_Cons list.distinct(1) snd_conv)

termination parse_node
  by (relation "measure (case_sum (\<lambda>ts. 2 * length ts) (\<lambda>ts. 2 * length ts + 1))") (auto dest: parse_rest)

lemma parse_node_shorter:
  "ts \<noteq> [] \<longrightarrow> length (snd (parse_node ts)) < length ts"
  "length (snd (parse_children us)) \<le> length us"
  by (induction ts and us rule: parse_node_parse_children.induct) (auto split: prod.splits)

lemma parse_node_rest [termination_simp]: "(c, r) = parse_node (t # ts) \<Longrightarrow> length r < Suc (length ts)"
  using parse_node_shorter(1) [of "t # ts"] by (metis length_Cons list.distinct(1) snd_conv)

fun parse_all :: "wat_token list \<Rightarrow> wat_node list" where
  "parse_all [] = []"
| "parse_all (t # ts) = (case parse_node (t # ts) of (n, r) \<Rightarrow> n # parse_all r)"

section \<open>Printing\<close>

definition indent_str :: "nat \<Rightarrow> chars" where
  "indent_str k = concat (replicate k (chars_of ''  ''))"

definition newline :: "nat \<Rightarrow> chars" where
  "newline k = 10 # indent_str k"

fun is_flat_node :: "wat_node \<Rightarrow> bool" where
  "is_flat_node (Atom_node s) = True"
| "is_flat_node (List_node cs) = list_all is_flat_node cs"

definition is_flat_list :: "wat_node list \<Rightarrow> bool" where
  "is_flat_list cs = list_all is_flat_node cs"

fun spaced :: "chars list \<Rightarrow> chars" where
  "spaced [] = []"
| "spaced [x] = x"
| "spaced (x # y # xs) = x @ 32 # spaced (y # xs)"

fun format_node_inline :: "wat_node \<Rightarrow> chars" where
  "format_node_inline (Atom_node s) = s"
| "format_node_inline (List_node cs) = 40 # spaced (map format_node_inline cs) @ [41]"

fun is_inline_signature :: "wat_node \<Rightarrow> bool" where
  "is_inline_signature (List_node (Atom_node keyword # cs)) \<longleftrightarrow>
     keyword \<in> {chars_of ''export'', chars_of ''param'', chars_of ''result''}"
| "is_inline_signature n \<longleftrightarrow> False"

fun is_opcode :: "chars \<Rightarrow> bool" where
  "is_opcode [] \<longleftrightarrow> True"
| "is_opcode (c # cs) \<longleftrightarrow>
     \<not> (c = 36 \<or> c = 34)
     \<and> \<not> ((c = 45 \<or> c = 43) \<and> list_all is_ascii_digit cs)
     \<and> \<not> (is_ascii_digit c \<and> list_all is_ascii_digit (c # cs))"

text \<open>The atoms grouped with an opcode on its line.\<close>

fun operand :: "wat_node \<Rightarrow> bool" where
  "operand (Atom_node s) \<longleftrightarrow> \<not> (is_opcode s \<or> s \<in> {chars_of ''if'', chars_of ''else'', chars_of ''end''})"
| "operand (List_node cs) \<longleftrightarrow> False"

fun operands_text :: "wat_node list \<Rightarrow> chars" where
  "operands_text (Atom_node s # ns) = (if operand (Atom_node s) then 32 # s @ operands_text ns else [])"
| "operands_text ns = []"

text \<open>The children of a \<open>func\<close> printed on its first line.\<close>

fun in_header :: "wat_node \<Rightarrow> bool" where
  "in_header (Atom_node s) \<longleftrightarrow> \<not> is_opcode s"
| "in_header (List_node cs) \<longleftrightarrow> is_inline_signature (List_node cs)"

definition header_text :: "wat_node list \<Rightarrow> chars" where
  "header_text ns = concat (map (\<lambda>n. 32 # format_node_inline n) (takeWhile in_header ns))"

lemma dropWhile_size [termination_simp]: "size_list size (dropWhile p xs) \<le> size_list size xs"
  by (induction xs) auto

lemma dropWhile_smaller [termination_simp]:
  "size_list size (dropWhile p xs) < Suc (size_list size xs + k)"
  using dropWhile_size [of p xs] by linarith

function (sequential)
  format_instructions :: "wat_node list \<Rightarrow> nat \<Rightarrow> chars option" and
  format_node :: "wat_node \<Rightarrow> nat \<Rightarrow> chars option" and
  format_lines :: "wat_node list \<Rightarrow> nat \<Rightarrow> chars option"
where
  "format_instructions [] k = Some []"
| "format_instructions (Atom_node t # ns) k =
     (if t = chars_of ''if'' then
        do { rest \<leftarrow> format_instructions ns (k + 1); Some (newline k @ t @ rest) }
      else if t = chars_of ''else'' then
        (if k = 0 then None
         else do { rest \<leftarrow> format_instructions ns (k - 1 + 1); Some (newline (k - 1) @ t @ rest) })
      else if t = chars_of ''end'' then
        do { rest \<leftarrow> format_instructions ns (k - 1); Some (newline (k - 1) @ t @ rest) }
      else if is_opcode t then
        do { rest \<leftarrow> format_instructions (dropWhile operand ns) k;
             Some (newline k @ t @ operands_text ns @ rest) }
      else do { rest \<leftarrow> format_instructions ns k; Some (newline k @ t @ rest) })"
| "format_instructions (List_node cs # ns) k =
     do { x \<leftarrow> format_node (List_node cs) k;
          rest \<leftarrow> format_instructions ns k;
          Some (newline k @ x @ rest) }"
| "format_node (Atom_node s) k = Some s"
| "format_node (List_node []) k = Some (chars_of ''()'')"
| "format_node (List_node (Atom_node t # cs)) k =
     (if t = chars_of ''module'' then
        do { body \<leftarrow> format_lines cs (k + 1); Some (40 # t @ body @ newline k @ [41]) }
      else if t = chars_of ''func'' then
        do { body \<leftarrow> format_instructions (dropWhile in_header cs) (k + 1);
             Some (40 # format_node_inline (Atom_node t) @ header_text cs @ body @ newline k @ [41]) }
      else if t \<in> {chars_of ''forall'', chars_of ''exists'', chars_of ''assume'', chars_of ''unique''} then
        do { body \<leftarrow> format_instructions cs (k + 1); Some (40 # t @ body @ newline k @ [41]) }
      else if is_flat_list (Atom_node t # cs) then Some (format_node_inline (List_node (Atom_node t # cs)))
      else
        do { x \<leftarrow> format_node (Atom_node t) (k + 1);
             body \<leftarrow> format_lines cs (k + 1);
             Some (40 # x @ body @ newline k @ [41]) })"
| "format_node (List_node (n # cs)) k =
     (if is_flat_list (n # cs) then Some (format_node_inline (List_node (n # cs)))
      else
        do { x \<leftarrow> format_node n (k + 1);
             body \<leftarrow> format_lines cs (k + 1);
             Some (40 # x @ body @ newline k @ [41]) })"
| "format_lines [] k = Some []"
| "format_lines (n # ns) k =
     do { x \<leftarrow> format_node n k; rest \<leftarrow> format_lines ns k; Some (newline k @ x @ rest) }"
  by pat_completeness auto
termination
  by (relation "measure (case_sum (\<lambda>(ns, k). 2 * size_list size ns)
        (case_sum (\<lambda>(n, k). 2 * size n) (\<lambda>(ns, k). 2 * size_list size ns + 1)))")
    (auto simp: termination_simp)

definition wat_format :: "chars \<Rightarrow> chars option" where
  "wat_format input =
     (let nodes = parse_all (tokenize input)
      in case nodes of
           [n] \<Rightarrow> format_node n 0
         | _ \<Rightarrow> map_option concat (map_opt (\<lambda>n. map_option (\<lambda>x. x @ [10]) (format_node n 0)) nodes))"

end
