(* ===== verification/WatProperties.thy ===== *)
theory WatProperties
  imports WatFormat
begin

text \<open>
  Formatting changes the layout of a text and nothing else: the printed text has the tokens of the
  input, so formatting twice is formatting once.
\<close>

section \<open>Texts that read as given tokens\<close>

text \<open>In front of a blank, a parenthesis or the end, \<open>x\<close> reads as the tokens \<open>ts\<close>.\<close>

definition boundary :: "chars \<Rightarrow> bool" where
  "boundary cs \<longleftrightarrow> cs = [] \<or> \<not> bare_char (hd cs)"

definition reads :: "chars \<Rightarrow> wat_token list \<Rightarrow> bool" where
  "reads x ts \<longleftrightarrow> (\<forall>rest. boundary rest \<longrightarrow> tokenize (x @ rest) = ts @ tokenize rest)"

lemma paren_simps [simp]:
  "\<not> is_whitespace 40" "\<not> is_whitespace 41" "\<not> is_whitespace 34" "is_whitespace 32" "is_whitespace 10"
  "\<not> bare_char 40" "\<not> bare_char 41" "\<not> bare_char 32" "\<not> bare_char 10"
  by (simp_all add: is_whitespace_def bare_char_def)

lemma reads_Nil: "reads [] []"
  by (simp add: reads_def)

lemma reads_blank: "is_whitespace w \<Longrightarrow> reads x ts \<Longrightarrow> reads (w # x) ts"
  by (simp add: reads_def)

lemma reads_open: "reads x ts \<Longrightarrow> reads (40 # x) (LParen # ts)"
  by (simp add: reads_def)

lemma reads_close: "reads [41] [RParen]"
  by (simp add: reads_def)

lemma reads_append: "reads x ts \<Longrightarrow> reads y us \<Longrightarrow> boundary y \<Longrightarrow> reads (x @ y) (ts @ us)"
  by (cases y) (auto simp: reads_def boundary_def)

lemma boundary_simps [simp]: "boundary []" "boundary (c # cs) \<longleftrightarrow> \<not> bare_char c"
  by (simp_all add: boundary_def)

lemma boundary_append: "boundary x \<Longrightarrow> boundary y \<Longrightarrow> boundary (x @ y)"
  by (cases x) simp_all

lemma reads_indent: "reads x ts \<Longrightarrow> reads (indent_str k @ x) ts"
  by (induction k) (auto simp: indent_str_def intro!: reads_blank)

lemma reads_newline: "reads x ts \<Longrightarrow> reads (newline k @ x) ts"
  by (simp add: newline_def reads_blank reads_indent)

lemma boundary_newline [simp]: "boundary (newline k @ x)"
  by (simp add: newline_def)

lemma reads_tokens: "reads x ts \<Longrightarrow> tokenize x = ts"
  unfolding reads_def by (metis append_Nil2 boundary_simps(1) tokenize.simps(1))

section \<open>Atoms\<close>

text \<open>A quoted atom that the text does not close runs to its end.\<close>

fun closed_token :: "wat_token \<Rightarrow> bool" where
  "closed_token (Atom_token (c # cs)) \<longleftrightarrow> (c = 34 \<longrightarrow> 34 \<in> set cs)"
| "closed_token t \<longleftrightarrow> True"

lemma quoted_again: "quoted cs = (a, r) \<Longrightarrow> 34 \<in> set a \<Longrightarrow> quoted (a @ rest) = (a, rest)"
  by (induction cs arbitrary: a) (auto split: prod.splits if_splits)

lemma bare_again: "bare cs = (a, r) \<Longrightarrow> boundary rest \<Longrightarrow> bare (a @ rest) = (a, rest)"
  by (cases rest) (auto simp: bare_def takeWhile_append dropWhile_append dest: set_takeWhileD)

lemma tokenize_atoms:
  "Atom_token s \<in> set (tokenize cs) \<Longrightarrow> closed_token (Atom_token s) \<Longrightarrow> reads s [Atom_token s]"
proof (induction cs rule: tokenize.induct)
  case (2 c cs)
  consider "is_whitespace c" | "c = 40" | "c = 41" | (q) "c = 34"
    | (b) "\<not> is_whitespace c" "c \<noteq> 40" "c \<noteq> 41" "c \<noteq> 34" by blast
  then show ?case
  proof cases
    case q
    obtain a r where a: "quoted cs = (a, r)" by (cases "quoted cs")
    show ?thesis
    proof (cases "s = 34 # a")
      case True
      then have "34 \<in> set a" using "2.prems"(2) by simp
      then show ?thesis using True quoted_again [OF a] q by (auto simp: reads_def)
    qed (use 2 q a in auto)
  next
    case b
    obtain a r where a: "bare cs = (a, r)" by (cases "bare cs")
    show ?thesis
    proof (cases "s = c # a")
      case True
      then show ?thesis using bare_again [OF a] b by (auto simp: reads_def)
    qed (use 2 b a in auto)
  qed (use 2 in auto)
qed simp

section \<open>Nodes\<close>

fun tokens_of :: "wat_node \<Rightarrow> wat_token list" where
  "tokens_of (Atom_node s) = [Atom_token s]"
| "tokens_of (List_node cs) = LParen # concat (map tokens_of cs) @ [RParen]"

fun node_ok :: "wat_node \<Rightarrow> bool" where
  "node_ok (Atom_node s) \<longleftrightarrow> reads s [Atom_token s]"
| "node_ok (List_node cs) \<longleftrightarrow> list_all node_ok cs"

lemma reads_spaced:
  assumes "list_all (\<lambda>n. reads (f n) (tokens_of n)) ns"
  shows "reads (spaced (map f ns)) (concat (map tokens_of ns))"
  using assms
proof (induction ns rule: induct_list012)
  case (3 n m ns)
  then have "reads (32 # spaced (map f (m # ns))) (concat (map tokens_of (m # ns)))"
    by (intro reads_blank) simp_all
  then show ?case using 3(3) reads_append [of "f n" "tokens_of n"] by simp
qed (auto intro: reads_Nil)

lemma reads_inline: "node_ok n \<Longrightarrow> reads (format_node_inline n) (tokens_of n)"
proof (induction n rule: format_node_inline.induct)
  case (2 cs)
  then have "list_all (\<lambda>n. reads (format_node_inline n) (tokens_of n)) cs"
    by (auto simp: list_all_iff)
  from reads_append [OF reads_open [OF reads_spaced [OF this]] reads_close]
  show ?case by simp
qed simp

lemma reads_operands:
  "list_all node_ok ns \<Longrightarrow>
   \<exists>ts. reads (operands_text ns) ts \<and> boundary (operands_text ns)
     \<and> concat (map tokens_of ns) = ts @ concat (map tokens_of (dropWhile operand ns))"
proof (induction ns rule: operands_text.induct)
  case (1 s ns)
  show ?case
  proof (cases "operand (Atom_node s)")
    case True
    obtain ts where ts: "reads (operands_text ns) ts" "boundary (operands_text ns)"
      "concat (map tokens_of ns) = ts @ concat (map tokens_of (dropWhile operand ns))"
      using 1 True by auto
    have "reads (32 # s @ operands_text ns) ([Atom_token s] @ ts)"
      using ts 1(2) by (intro reads_blank reads_append) simp_all
    then show ?thesis using True ts(3) by (intro exI [of _ "Atom_token s # ts"]) simp
  qed (auto intro: reads_Nil)
qed (auto intro: reads_Nil)

lemma reads_header:
  "list_all node_ok ns \<Longrightarrow>
   \<exists>ts. reads (header_text ns) ts \<and> boundary (header_text ns)
     \<and> concat (map tokens_of ns) = ts @ concat (map tokens_of (dropWhile in_header ns))"
proof (induction ns)
  case (Cons n ns)
  show ?case
  proof (cases "in_header n")
    case True
    obtain ts where ts: "reads (header_text ns) ts" "boundary (header_text ns)"
      "concat (map tokens_of ns) = ts @ concat (map tokens_of (dropWhile in_header ns))"
      using Cons by auto
    have "reads (32 # format_node_inline n @ header_text ns) (tokens_of n @ ts)"
      using ts Cons.prems by (intro reads_blank reads_append reads_inline) simp_all
    then show ?thesis using True ts by (intro exI [of _ "tokens_of n @ ts"]) (simp add: header_text_def)
  qed (auto simp: header_text_def intro: reads_Nil)
qed (auto simp: header_text_def intro: reads_Nil)

lemma list_all_dropWhile: "list_all P xs \<Longrightarrow> list_all P (dropWhile Q xs)"
  by (auto simp: list_all_iff dest: set_dropWhileD)

section \<open>The printer\<close>

lemma reads_line:
  assumes "reads t ts" "reads rest us" "boundary rest"
  shows "reads (newline k @ t @ rest) (ts @ us) \<and> boundary (newline k @ t @ rest)"
  using assms by (simp add: reads_newline reads_append)

lemma reads_closing:
  assumes "reads t ts" "reads body us" "boundary body"
  shows "reads (40 # t @ body @ newline k @ [41]) (LParen # ts @ us @ [RParen])"
  using assms by (intro reads_open reads_append reads_newline reads_close) (auto intro: boundary_append)

lemma reads_printed:
  "format_instructions ns k = Some x \<Longrightarrow> list_all node_ok ns \<Longrightarrow>
     reads x (concat (map tokens_of ns)) \<and> boundary x"
  "format_node n k = Some x \<Longrightarrow> node_ok n \<Longrightarrow> reads x (tokens_of n)"
  "format_lines ns k = Some x \<Longrightarrow> list_all node_ok ns \<Longrightarrow> reads x (concat (map tokens_of ns)) \<and> boundary x"
proof (induction ns k and n k and ns k arbitrary: x and x and x rule: format_instructions_format_node_format_lines.induct)
  case (2 t ns k)
  have t: "reads t [Atom_token t]" "list_all node_ok ns" using "2.prems" by simp_all
  show ?case
  proof (cases "t \<in> {chars_of ''if'', chars_of ''else'', chars_of ''end''} \<or> \<not> is_opcode t")
    case True
    then show ?thesis
      using 2 t reads_line [OF t(1)] by (fastforce simp: bind_Some_iff split: if_splits)
  next
    case False
    obtain ts where ts: "reads (operands_text ns) ts" "boundary (operands_text ns)"
      "concat (map tokens_of ns) = ts @ concat (map tokens_of (dropWhile operand ns))"
      using reads_operands [OF t(2)] by blast
    obtain rest where rest: "format_instructions (dropWhile operand ns) k = Some rest"
      "x = newline k @ t @ operands_text ns @ rest"
      using False "2.prems"(1) by (auto simp: bind_Some_iff)
    have "reads rest (concat (map tokens_of (dropWhile operand ns))) \<and> boundary rest"
      using "2.IH"(4) False rest(1) list_all_dropWhile [OF t(2)] by simp
    then show ?thesis
      using reads_line [OF t(1) reads_append [OF ts(1)]] ts rest(2) boundary_append by simp
  qed
next
  case (3 cs ns k)
  then show ?case using reads_line by (fastforce simp: bind_Some_iff)
next
  case (6 t cs k)
  have t: "reads t [Atom_token t]" "list_all node_ok cs" using "6.prems" by simp_all
  consider (module) "t = chars_of ''module''" | (func) "t = chars_of ''func''"
    | (block) "t \<in> {chars_of ''forall'', chars_of ''exists'', chars_of ''assume'', chars_of ''unique''}"
    | (other) "t \<noteq> chars_of ''module''" "t \<noteq> chars_of ''func''"
        "t \<notin> {chars_of ''forall'', chars_of ''exists'', chars_of ''assume'', chars_of ''unique''}" by blast
  then show ?case
  proof cases
    case module
    then obtain body where body: "format_lines cs (k + 1) = Some body" "x = 40 # t @ body @ newline k @ [41]"
      using "6.prems"(1) by (auto simp: bind_Some_iff)
    then show ?thesis using reads_closing [OF t(1)] "6.IH"(1) module t(2) by simp
  next
    case func
    obtain ts where ts: "reads (header_text cs) ts" "boundary (header_text cs)"
      "concat (map tokens_of cs) = ts @ concat (map tokens_of (dropWhile in_header cs))"
      using reads_header [OF t(2)] by blast
    obtain body where body: "format_instructions (dropWhile in_header cs) (k + 1) = Some body"
      "x = 40 # t @ (header_text cs @ body) @ newline k @ [41]"
      using "6.prems"(1) func by (auto simp: bind_Some_iff)
    have "reads body (concat (map tokens_of (dropWhile in_header cs)))" "boundary body"
      using "6.IH"(2) body(1) func list_all_dropWhile [OF t(2)] by simp_all
    then have "reads (header_text cs @ body) (concat (map tokens_of cs))" "boundary (header_text cs @ body)"
      using ts by (simp_all add: reads_append boundary_append)
    from reads_closing [OF t(1) this] show ?thesis using body(2) by simp
  next
    case block
    then obtain body where body: "format_instructions cs (k + 1) = Some body" "x = 40 # t @ body @ newline k @ [41]"
      using "6.prems"(1) by (auto simp: bind_Some_iff)
    have "reads body (concat (map tokens_of cs)) \<and> boundary body"
      using "6.IH"(3) block body(1) t(2) by auto
    then show ?thesis using reads_closing [OF t(1)] body(2) by simp
  next
    case other
    show ?thesis
    proof (cases "is_flat_list (Atom_node t # cs)")
      case True
      then have "x = format_node_inline (List_node (Atom_node t # cs))" using "6.prems"(1) other by simp
      then show ?thesis using reads_inline "6.prems"(2) by blast
    next
      case False
      then obtain body where body: "format_lines cs (k + 1) = Some body" "x = 40 # t @ body @ newline k @ [41]"
        using "6.prems"(1) other by (auto simp: bind_Some_iff)
      then show ?thesis using reads_closing [OF t(1)] "6.IH"(5) other False t(2) by simp
    qed
  qed
next
  case (7 v cs k)
  show ?case
  proof (cases "is_flat_list (List_node v # cs)")
    case True
    then have "x = format_node_inline (List_node (List_node v # cs))" using "7.prems"(1) by simp
    then show ?thesis using reads_inline "7.prems"(2) by blast
  next
    case False
    then obtain y body where body: "format_node (List_node v) (k + 1) = Some y"
      "format_lines cs (k + 1) = Some body" "x = 40 # y @ body @ newline k @ [41]"
      using "7.prems"(1) by (auto simp: bind_Some_iff)
    have "reads y (tokens_of (List_node v))" "reads body (concat (map tokens_of cs))" "boundary body"
      using "7.IH" False body "7.prems"(2) by simp_all
    from reads_closing [OF this] show ?thesis using body(3) by simp
  qed
next
  case (9 n ns k)
  then show ?case using reads_line by (fastforce simp: bind_Some_iff)
qed (auto intro: reads_Nil reads_open [OF reads_close])

section \<open>Balanced texts\<close>

text \<open>\<open>closes d ts\<close>: with \<open>d\<close> parentheses open, the tokens close every parenthesis and no more.\<close>

fun closes :: "nat \<Rightarrow> wat_token list \<Rightarrow> bool" where
  "closes d [] \<longleftrightarrow> d = 0"
| "closes d (LParen # ts) \<longleftrightarrow> closes (Suc d) ts"
| "closes d (RParen # ts) \<longleftrightarrow> 0 < d \<and> closes (d - 1) ts"
| "closes d (Atom_token s # ts) \<longleftrightarrow> closes d ts"

definition well_closed :: "chars \<Rightarrow> bool" where
  "well_closed s \<longleftrightarrow> closes 0 (tokenize s) \<and> list_all closed_token (tokenize s)"

lemma parse_tokens:
  "ts \<noteq> [] \<Longrightarrow> hd ts \<noteq> RParen \<Longrightarrow> closes d ts \<Longrightarrow>
     tokens_of (fst (parse_node ts)) @ snd (parse_node ts) = ts \<and> closes d (snd (parse_node ts))"
  "closes (Suc e) us \<Longrightarrow>
     concat (map tokens_of (fst (parse_children us))) @ RParen # snd (parse_children us) = us
     \<and> closes e (snd (parse_children us))"
proof (induction ts and us arbitrary: d and e 
    rule: parse_node_parse_children.induct [case_names no_node opened closed atom no_child last_child list_child atom_child])
  case (opened ts)
  then have "closes (Suc d) ts" by simp
  from opened.IH [OF this] show ?case by (auto split: prod.splits)
next
  case (list_child ts)
  obtain c r where c: "parse_node (LParen # ts) = (c, r)" by (cases "parse_node (LParen # ts)")
  then show ?case
    using list_child.IH(1) [of "Suc e"] list_child.IH(2) [of c r e] list_child.prems by (force split: prod.splits)
next
  case (atom_child v ts)
  then show ?case by (force split: prod.splits)
qed auto

lemma parse_all_tokens: "closes 0 ts \<Longrightarrow> concat (map tokens_of (parse_all ts)) = ts"
proof (induction ts rule: parse_all.induct)
  case (2 t ts)
  have "t \<noteq> RParen" using "2.prems" by auto
  then show ?case
    using 2 parse_tokens(1) [of "t # ts" 0] by (force split: prod.splits)
qed simp

lemma node_ok_tokens: "(\<And>s. Atom_token s \<in> set (tokens_of n) \<Longrightarrow> reads s [Atom_token s]) \<Longrightarrow> node_ok n"
  by (induction n rule: tokens_of.induct) (auto simp: list_all_iff)

lemma parsed_nodes_ok: "well_closed s \<Longrightarrow> list_all node_ok (parse_all (tokenize s))"
proof -
  assume closed: "well_closed s"
  have "reads a [Atom_token a]" if "n \<in> set (parse_all (tokenize s))" "Atom_token a \<in> set (tokens_of n)" for n a
  proof -
    have "Atom_token a \<in> set (concat (map tokens_of (parse_all (tokenize s))))" using that by auto
    moreover have "concat (map tokens_of (parse_all (tokenize s))) = tokenize s"
      using closed by (intro parse_all_tokens) (simp add: well_closed_def)
    ultimately have a: "Atom_token a \<in> set (tokenize s)" by simp
    then have "closed_token (Atom_token a)" using closed by (simp add: well_closed_def list_all_iff)
    then show ?thesis by (rule tokenize_atoms [OF a])
  qed
  then show ?thesis by (auto simp: list_all_iff intro: node_ok_tokens)
qed

lemma reads_file:
  assumes "map_opt (\<lambda>n. map_option (\<lambda>x. x @ [10]) (format_node n 0)) ns = Some xs" "list_all node_ok ns"
  shows "reads (concat xs) (concat (map tokens_of ns))"
  using assms
proof (induction ns arbitrary: xs)
  case (Cons n ns)
  obtain x ys where x: "format_node n 0 = Some x" "xs = (x @ [10]) # ys"
    "map_opt (\<lambda>n. map_option (\<lambda>x. x @ [10]) (format_node n 0)) ns = Some ys"
    using Cons.prems(1) by (auto simp: bind_Some_iff)
  have "reads (10 # concat ys) (concat (map tokens_of ns))"
    using Cons.IH [OF x(3)] Cons.prems(2) by (intro reads_blank) simp_all
  from reads_append [OF reads_printed(2) [OF x(1)] this] show ?case
    using Cons.prems(2) x(2) by simp
qed (simp add: reads_Nil)

lemma format_reads:
  assumes "well_closed s" "wat_format s = Some out"
  shows "reads out (tokenize s)"
proof -
  let ?ns = "parse_all (tokenize s)"
  note ok = parsed_nodes_ok [OF assms(1)]
  have tokens: "concat (map tokens_of ?ns) = tokenize s"
    using assms(1) parse_all_tokens by (simp add: well_closed_def)
  show ?thesis
  proof (cases "\<exists>n. ?ns = [n]")
    case True
    then show ?thesis
      using assms(2) ok tokens reads_printed(2) by (fastforce simp: wat_format_def)
  next
    case False
    then have "map_option concat (map_opt (\<lambda>n. map_option (\<lambda>x. x @ [10]) (format_node n 0)) ?ns) = Some out"
      using assms(2) by (auto simp: wat_format_def Let_def split: list.splits)
    then show ?thesis using reads_file ok tokens by fastforce
  qed
qed

section \<open>Properties\<close>


definition wat_sample :: chars where
  "wat_sample = chars_of ''(module (func $f (param $a i32) i32.const 1 if local.get $a end))''"

lemma wat_sample_tokens:
  "tokenize wat_sample =
     [LParen, Atom_token (chars_of ''module''), LParen, Atom_token (chars_of ''func''), Atom_token (chars_of ''$f''),
      LParen, Atom_token (chars_of ''param''), Atom_token (chars_of ''$a''), Atom_token (chars_of ''i32''), RParen,
      Atom_token (chars_of ''i32.const''), Atom_token (chars_of ''1''), Atom_token (chars_of ''if''),
      Atom_token (chars_of ''local.get''), Atom_token (chars_of ''$a''), Atom_token (chars_of ''end''), RParen, RParen]"
  by (simp add: wat_sample_def is_whitespace_def bare_def bare_char_def)

lemma wat_sample_formatted: "\<exists>out. wat_format wat_sample = Some out"
  by (simp add: wat_format_def wat_sample_tokens Let_def is_ascii_digit_def)


lemma prints_without_else:
  "Atom_token (chars_of ''else'') \<notin> set (concat (map tokens_of ns)) \<Longrightarrow> format_instructions ns k \<noteq> None"
  "Atom_token (chars_of ''else'') \<notin> set (tokens_of n) \<Longrightarrow> format_node n k \<noteq> None"
  "Atom_token (chars_of ''else'') \<notin> set (concat (map tokens_of ns)) \<Longrightarrow> format_lines ns k \<noteq> None"
proof (induction ns k and n k and ns k rule: format_instructions_format_node_format_lines.induct)
  case (2 t ns k)
  let ?e = "Atom_token (chars_of ''else'')"
  have no: "?e \<notin> set (concat (map tokens_of ns))" "t \<noteq> chars_of ''else''"
    "?e \<notin> set (concat (map tokens_of (dropWhile operand ns)))"
    using "2.prems" by (auto dest: set_dropWhileD)
  consider "t = chars_of ''if''" | "t \<noteq> chars_of ''if''" "t = chars_of ''end''"
    | "t \<noteq> chars_of ''if''" "t \<noteq> chars_of ''end''" "is_opcode t"
    | "t \<noteq> chars_of ''if''" "t \<noteq> chars_of ''end''" "\<not> is_opcode t" by blast
  then show ?case
  proof cases
    case 1
    then show ?thesis using "2.IH"(1) no(1) by (simp add: bind_eq_None_conv)
  next
    case 2
    then show ?thesis using "2.IH"(3) no(1,2) by (simp add: bind_eq_None_conv)
  next
    case 3
    then show ?thesis using "2.IH"(4) no(2,3) by (simp add: bind_eq_None_conv)
  next
    case 4
    then show ?thesis using "2.IH"(5) no(1,2) by (simp add: bind_eq_None_conv)
  qed
next
  case (6 t cs k)
  let ?e = "Atom_token (chars_of ''else'')"
  have no: "?e \<notin> set (concat (map tokens_of cs))"
    "?e \<notin> set (concat (map tokens_of (dropWhile in_header cs)))"
    using "6.prems" by (auto dest: set_dropWhileD)
  consider "t = chars_of ''module''" | "t = chars_of ''func''"
    | "t \<in> {chars_of ''forall'', chars_of ''exists'', chars_of ''assume'', chars_of ''unique''}"
    | "t \<noteq> chars_of ''module''" "t \<noteq> chars_of ''func''"
        "t \<notin> {chars_of ''forall'', chars_of ''exists'', chars_of ''assume'', chars_of ''unique''}" by blast
  then show ?case
  proof cases
    case 1
    then show ?thesis using "6.IH"(1) no(1) by (auto simp: bind_eq_None_conv)
  next
    case 2
    then show ?thesis using "6.IH"(2) no(2) by (auto simp: bind_eq_None_conv)
  next
    case 3
    then show ?thesis using "6.IH"(3) no(1) by (auto simp: bind_eq_None_conv)
  next
    case 4
    then show ?thesis using "6.IH"(4,5) no(1) by (auto simp: bind_eq_None_conv)
  qed
qed (auto simp: bind_eq_None_conv)

text \<open>Every atom of a tree is an atom of the tokens, apart from what stands for a missing node.\<close>

definition atoms :: "wat_token list \<Rightarrow> chars set" where
  "atoms ts = {s. Atom_token s \<in> set ts}"

lemma atoms_simps [simp]:
  "atoms [] = {}" "atoms (LParen # ts) = atoms ts" "atoms (RParen # ts) = atoms ts"
  "atoms (Atom_token s # ts) = insert s (atoms ts)" "atoms (ts @ us) = atoms ts \<union> atoms us"
  by (auto simp: atoms_def)

lemma parsed_atoms:
  "atoms (tokens_of (fst (parse_node ts)) @ snd (parse_node ts)) \<subseteq> atoms ts \<union> {[], chars_of '')''}"
  "atoms (concat (map tokens_of (fst (parse_children us))) @ snd (parse_children us)) \<subseteq> atoms us \<union> {[], chars_of '')''}"
  by (induction ts and us rule: parse_node_parse_children.induct) (auto split: prod.splits)

lemma parsed_all_atoms: "atoms (concat (map tokens_of (parse_all ts))) \<subseteq> atoms ts \<union> {[], chars_of '')''}"
proof (induction ts rule: parse_all.induct)
  case (2 t ts)
  then show ?case using parsed_atoms(1) [of "t # ts"] by (force split: prod.splits)
qed simp

lemma formats_without_else:
  assumes "Atom_token (chars_of ''else'') \<notin> set (tokenize s)"
  shows "wat_format s \<noteq> None"
proof -
  let ?ns = "parse_all (tokenize s)"
  have "chars_of ''else'' \<notin> atoms (concat (map tokens_of ?ns))"
    using parsed_all_atoms [of "tokenize s"] assms by (auto simp: atoms_def)
  then have prints: "format_node n 0 \<noteq> None" if "n \<in> set ?ns" for n
    using prints_without_else(2) that by (auto simp: atoms_def)
  have "map_opt (\<lambda>n. map_option (\<lambda>x. x @ [10]) (format_node n 0)) ns \<noteq> None" if "set ns \<subseteq> set ?ns" for ns
    using that prints by (induction ns) (auto simp: bind_eq_None_conv)
  from this [of ?ns] show ?thesis
    using prints by (auto simp: wat_format_def Let_def simp del: map_opt.simps split: list.splits)
qed

text \<open>C11: The formatter returns on every text without an \<open>else\<close>. With one it can panic, on
  valid code too: every \<open>end\<close> outdents, also the \<open>end\<close> of a \<open>block\<close> or a \<open>loop\<close>, which did not
  indent, and the \<open>else\<close> of the sample underflows.\<close>

theorem formatter_panics_only_at_else:
  assumes "wat_format s = None"
  shows "Atom_token (chars_of ''else'') \<in> set (tokenize s)"
  using formats_without_else assms by blast

definition wat_else_sample :: chars where
  "wat_else_sample = chars_of ''(func if block end block end else end)''"

theorem formatter_panics_only_at_else_witness:
  "wat_format wat_else_sample = None \<and> Atom_token (chars_of ''else'') \<in> set (tokenize wat_else_sample)"
proof -
  have "tokenize wat_else_sample =
     [LParen, Atom_token (chars_of ''func''), Atom_token (chars_of ''if''), Atom_token (chars_of ''block''),
      Atom_token (chars_of ''end''), Atom_token (chars_of ''block''), Atom_token (chars_of ''end''),
      Atom_token (chars_of ''else''), Atom_token (chars_of ''end''), RParen]"
    by (simp add: wat_else_sample_def is_whitespace_def bare_def bare_char_def)
  then have "wat_format wat_else_sample = None"
    by (simp add: wat_format_def Let_def is_ascii_digit_def)
  then show ?thesis using formatter_panics_only_at_else by blast
qed

lemma always_flat: "is_flat_node n"
  by (induction n) (simp_all add: list_all_iff)

text \<open>A list is broken into lines only by its first word: every node counts as flat, so a list that
  starts with something else than \<open>module\<close>, \<open>func\<close> or a quantifier is one line, whatever it holds.\<close>

theorem other_lists_are_one_line:
  assumes "t \<notin> {chars_of ''module'', chars_of ''func'', chars_of ''forall'', chars_of ''exists'',
                chars_of ''assume'', chars_of ''unique''}"
  shows "format_node (List_node (Atom_node t # cs)) k = Some (format_node_inline (List_node (Atom_node t # cs)))"
  using assms always_flat by (auto simp: is_flat_list_def list_all_iff)

theorem other_lists_are_one_line_witness:
  "format_node (List_node [Atom_node (chars_of ''component''),
       List_node [Atom_node (chars_of ''module''), List_node [Atom_node (chars_of ''func'')]]]) 0
     = Some (chars_of ''(component (module (func)))'')"
  by (subst other_lists_are_one_line) simp_all

end
