(* ===== verification/Pipeline.thy ===== *)
theory Pipeline
  imports CheckDriver Codegen WasmParse BuilderDefs
begin

text \<open>
  The phases put together: the functions of \<open>core/inference/src/lib.rs\<close>, the compiler's command line
  (\<open>core/cli/src/main.rs\<close>), and the modules of other packages (\<open>core/ast/src/extern_prelude.rs\<close>).
  What lies outside the repository is a parameter: the tree-sitter parser, the decoder of WebAssembly,
  the tools behind \<open>compile_to_wasm\<close>, the file system, and the iteration orders of hash maps.
\<close>

section \<open>The outside\<close>

text \<open>
  \<open>set_language\<close> fails with a message or succeeds; \<open>parse\<close> gives a tree or nothing. \<open>w_order\<close> is the order
  in which the map of an arena is iterated.
\<close>

record 'w outside =
  w_set_language :: "string option"
  w_parse_tree :: "string \<Rightarrow> cst option"
  w_order :: "arena \<Rightarrow> nat list"
  w_scope_order :: "nat list"
  w_symbol_order :: "nat \<Rightarrow> string list"
  w_compile :: "llvm_call list \<Rightarrow> string \<Rightarrow> nat \<Rightarrow> bool \<Rightarrow> string + 'w"
  w_payloads :: "'w \<Rightarrow> (string + wasm_payload) list"
  w_uuids :: "nat \<Rightarrow> string"
  w_debug :: bool

section \<open>The phases\<close>

text \<open>\<open>parse\<close>, with the number of identifiers the process has given out so far.\<close>

definition inf_parse :: "'w outside \<Rightarrow> nat \<Rightarrow> string \<Rightarrow> ((string + arena) \<times> nat) option" where
  "inf_parse w k source_code =
     (case w_set_language w of
        Some e \<Rightarrow> Some (Inl (''Failed to load Inference grammar: '' @ e), k)
      | None \<Rightarrow>
          (case w_parse_tree w source_code of
             None \<Rightarrow> Some (Inl ''Failed to parse source code'', k)
           | Some root \<Rightarrow>
               do { s \<leftarrow> add_source_code root source_code (builder_new k);
                    (r, s') \<leftarrow> build_ast (w_debug w) s;
                    Some (r, b_count s') }))"

definition type_check :: "'w outside \<Rightarrow> arena \<Rightarrow> (string + typed_context) option" where
  "type_check w a = build_typed_context (w_debug w) (w_order w a) (w_scope_order w) (w_symbol_order w) a"

definition analyze :: "typed_context \<Rightarrow> string + unit" where
  "analyze cx = Inr ()"

definition inf_codegen :: "'w outside \<Rightarrow> typed_context \<Rightarrow> (string + 'w) option" where
  "inf_codegen w cx = codegen (w_compile w) (w_order w (cx_arena cx)) cx"

definition wasm_to_v :: "'w outside \<Rightarrow> string \<Rightarrow> 'w \<Rightarrow> (string + string) option" where
  "wasm_to_v w mod_name wasm =
     do { r \<leftarrow> translate_bytes (w_uuids w) mod_name (w_payloads w wasm);
          case r of
            Inr v \<Rightarrow> Some (Inr v)
          | Inl _ \<Rightarrow> Some (Inl ''Error translating WebAssembly to V'') }"

section \<open>The command line\<close>

record cli =
  cli_path :: string
  cli_parse :: bool
  cli_analyze :: bool
  cli_codegen :: bool
  cli_wasm_output :: bool
  cli_v_output :: bool

text \<open>The files: an operation answers with its error, or does what it is asked.\<close>

record files =
  fs_exists :: "string \<Rightarrow> bool"
  fs_read :: "string \<Rightarrow> string + string"
  fs_create_dir :: "string \<Rightarrow> string option"
  fs_write :: "string \<Rightarrow> string option"

datatype 'w event =
    Print string
  | Eprint string
  | Created_dir string
  | Wrote_wasm string 'w
  | Wrote_text string string

text \<open>\<open>Path::file_stem\<close> on Unix: the last component without what follows its last dot.\<close>

fun path_segments :: "string \<Rightarrow> string list" where
  "path_segments [] = [[]]"
| "path_segments (c # cs) =
     (if c = CHR ''/'' then [] # path_segments cs
      else (case path_segments cs of [] \<Rightarrow> [[c]] | s # ss \<Rightarrow> (c # s) # ss))"

definition file_name :: "string \<Rightarrow> string option" where
  "file_name p =
     (case rev (filter (\<lambda>s. s \<noteq> [] \<and> s \<noteq> ''.'') (path_segments p)) of
        [] \<Rightarrow> None
      | s # _ \<Rightarrow> if s = ''..'' then None else Some s)"

definition file_stem :: "string \<Rightarrow> string option" where
  "file_stem p =
     map_option (\<lambda>s.
       (let before = rev (tl (dropWhile (\<lambda>c. c \<noteq> CHR ''.'') (rev s)))
        in if CHR ''.'' \<in> set s \<and> before \<noteq> [] then before else s)) (file_name p)"

definition exit_error :: "'w event list \<Rightarrow> string \<Rightarrow> ('w event list \<times> nat) option" where
  "exit_error out msg = Some (out @ [Eprint msg], 1)"

definition output_path :: "string \<Rightarrow> string \<Rightarrow> string" where
  "output_path stem extension = ''out/'' @ stem @ extension"

text \<open>The last step: the Rocq file.\<close>

definition write_v ::
  "'w outside \<Rightarrow> files \<Rightarrow> string \<Rightarrow> 'w \<Rightarrow> 'w event list \<Rightarrow> ('w event list \<times> nat) option" where
  "write_v w fs stem wasm out =
     do { r \<leftarrow> wasm_to_v w stem wasm;
          case r of
            Inl e \<Rightarrow> exit_error out (''WASM->V translation failed: '' @ e)
          | Inr v \<Rightarrow>
              (let p = output_path stem ''.v''
               in case fs_create_dir fs ''out'' of
                    Some e \<Rightarrow> exit_error out (''Failed to create output directory: '' @ e)
                  | None \<Rightarrow>
                      (case fs_write fs p of
                         Some e \<Rightarrow> exit_error (out @ [Created_dir ''out'']) (''Failed to write V file: '' @ e)
                       | None \<Rightarrow>
                           Some (out @ [Created_dir ''out'', Wrote_text p v, Print (''V generated at: '' @ p)], 0))) }"

text \<open>The last phase: code generation and the files asked for. \<open>to_str\<close> panics on a stem that is not UTF-8.\<close>

definition run_codegen ::
  "'w outside \<Rightarrow> files \<Rightarrow> cli \<Rightarrow> typed_context \<Rightarrow> 'w event list \<Rightarrow> ('w event list \<times> nat) option" where
  "run_codegen w fs args cx out =
     do { r \<leftarrow> inf_codegen w cx;
          case r of
            Inl e \<Rightarrow> exit_error out (''Codegen failed: '' @ e)
          | Inr wasm \<Rightarrow>
              do { stem \<leftarrow> from_utf8 (case file_stem (cli_path args) of Some s \<Rightarrow> s | None \<Rightarrow> ''module'');
                   let out1 = out @ [Print ''WASM generated''];
                   let p = output_path stem ''.wasm'';
                   let finish = (\<lambda>o'. if cli_v_output args then write_v w fs stem wasm o' else Some (o', 0));
                   if \<not> cli_wasm_output args then finish out1
                   else
                     (case fs_create_dir fs ''out'' of
                        Some e \<Rightarrow> exit_error out1 (''Failed to create output directory: '' @ e)
                      | None \<Rightarrow>
                          (case fs_write fs p of
                             Some e \<Rightarrow>
                               exit_error (out1 @ [Created_dir ''out'']) (''Failed to write WASM file: '' @ e)
                           | None \<Rightarrow>
                               finish (out1 @ [Created_dir ''out'', Wrote_wasm p wasm,
                                               Print (''WASM generated at: '' @ p)]))) } }"

definition main :: "'w outside \<Rightarrow> files \<Rightarrow> cli \<Rightarrow> ('w event list \<times> nat) option" where
  "main w fs args =
     (if \<not> fs_exists fs (cli_path args) then exit_error [] ''Error: path not found''
      else if \<not> (cli_parse args \<or> cli_analyze args \<or> cli_codegen args) then
        exit_error [] ''Error: at least one of --parse, --analyze, or --codegen must be specified''
      else
        (case fs_read fs (cli_path args) of
           Inl e \<Rightarrow> exit_error [] (''Error reading source file: '' @ e)
         | Inr source_code \<Rightarrow>
             do { (r, k) \<leftarrow> inf_parse w 1 source_code;
                  case r of
                    Inl e \<Rightarrow> exit_error [] (''Parse error: '' @ e)
                  | Inr a \<Rightarrow>
                      (let out = [Print (''Parsed: '' @ cli_path args)]
                       in if \<not> (cli_codegen args \<or> cli_analyze args) then Some (out, 0)
                          else
                            do { t \<leftarrow> type_check w a;
                                 case t of
                                   Inl e \<Rightarrow> exit_error out (''Type checking failed: '' @ e)
                                 | Inr cx \<Rightarrow>
                                     (case analyze cx of
                                        Inl e \<Rightarrow> exit_error out (''Analysis failed: '' @ e)
                                      | Inr u \<Rightarrow>
                                          (let out1 = out @ [Print (''Analyzed: '' @ cli_path args)]
                                           in if cli_codegen args then run_codegen w fs args cx out1
                                              else Some (out1, 0))) }) }))"

section \<open>Modules of other packages\<close>

record parsed_module =
  pm_name :: string
  pm_arena :: arena
  pm_root_path :: string

datatype ast_error =
    ModuleRootNotFound string string
  | FileReadError string string
  | ParseError string
  | AstBuildError string string

definition find_module_root :: "files \<Rightarrow> string \<Rightarrow> string option" where
  "find_module_root fs module_dir =
     find (fs_exists fs) [module_dir @ ''/src/lib.inf'', module_dir @ ''/src/main.inf'']"

definition normalize_name :: "string \<Rightarrow> string" where
  "normalize_name name = map (\<lambda>c. if c = CHR ''-'' then CHR ''_'' else c) name"

text \<open>Here a grammar that cannot be loaded is a panic (\<open>expect\<close>).\<close>

definition parse_external_module ::
  "'w outside \<Rightarrow> files \<Rightarrow> nat \<Rightarrow> string \<Rightarrow> string \<Rightarrow> (string \<rightharpoonup> parsed_module)
     \<Rightarrow> ((ast_error + (string \<rightharpoonup> parsed_module)) \<times> nat) option" where
  "parse_external_module w fs k module_dir name prelude =
     (let normalized = normalize_name name
      in if prelude normalized \<noteq> None then Some (Inr prelude, k)
         else
           (case find_module_root fs module_dir of
              None \<Rightarrow> Some (Inl (ModuleRootNotFound module_dir ''src/lib.inf or src/main.inf''), k)
            | Some root_path \<Rightarrow>
                (case fs_read fs root_path of
                   Inl e \<Rightarrow> Some (Inl (FileReadError root_path e), k)
                 | Inr source \<Rightarrow>
                     if w_set_language w \<noteq> None then None
                     else
                       (case w_parse_tree w source of
                          None \<Rightarrow> Some (Inl (ParseError root_path), k)
                        | Some root \<Rightarrow>
                            do { s \<leftarrow> add_source_code root source (builder_new k);
                                 (r, s') \<leftarrow> build_ast (w_debug w) s;
                                 case r of
                                   Inl e \<Rightarrow> Some (Inl (AstBuildError root_path e), b_count s')
                                 | Inr a \<Rightarrow>
                                     Some (Inr (prelude(normalized \<mapsto>
                                             \<lparr>pm_name = normalized, pm_arena = a, pm_root_path = root_path\<rparr>)),
                                           b_count s') }))))"

text \<open>The messages of \<open>core/ast/src/errors.rs\<close>.\<close>

fun show_ast_error :: "ast_error \<Rightarrow> string" where
  "show_ast_error (ModuleRootNotFound p expected) = ''no module root found in '' @ p @ ''. Expected '' @ expected"
| "show_ast_error (FileReadError p e) = ''failed to read '' @ p @ '': '' @ e"
| "show_ast_error (ParseError p) = ''failed to parse '' @ p"
| "show_ast_error (AstBuildError p reason) = ''failed to build AST for '' @ p @ '': '' @ reason"

end
