(* ===== verification/PipelineProperties.thy ===== *)
theory PipelineProperties
  imports Pipeline StmtFacts BuilderProperties
begin

text \<open>
  Properties of the phases together: what the command line writes and how it exits, the one source file
  of a parsed program, and the modules of other packages.
\<close>

section \<open>The command line\<close>

definition reports_error :: "'w event list \<Rightarrow> bool" where
  "reports_error out \<longleftrightarrow> (\<exists>e. Eprint e \<in> set out)"

lemma exit_error_simps:
  "exit_error out msg = Some (out', code) \<longleftrightarrow> out' = out @ [Eprint msg] \<and> code = 1"
  by (auto simp: exit_error_def)

text \<open>What is printed, and the one directory that is made; the files that are written.\<close>

definition quiet_event :: "'w event \<Rightarrow> bool" where
  "quiet_event e \<longleftrightarrow> (\<exists>s. e = Print s \<or> e = Eprint s) \<or> e = Created_dir ''out''"

fun is_file :: "'w event \<Rightarrow> bool" where
  "is_file (Wrote_wasm p wasm) = True"
| "is_file (Wrote_text p v) = True"
| "is_file e = False"

definition files_written :: "'w event list \<Rightarrow> 'w event list" where
  "files_written out = filter is_file out"

lemma quiet_simps [simp]: "quiet_event (Print s)" "quiet_event (Eprint s)" "quiet_event (Created_dir s) \<longleftrightarrow> s = ''out''"
  by (auto simp: quiet_event_def)

lemma files_written_simps [simp]: "files_written (xs @ ys) = files_written xs @ files_written ys" "files_written [] = []"
  "files_written (e # xs) = (if is_file e then e # files_written xs else files_written xs)"
  by (simp_all add: files_written_def)

text \<open>The name of the module: the stem of the path, which has to be text.\<close>

definition module_stem :: "cli \<Rightarrow> string option" where
  "module_stem args = from_utf8 (case file_stem (cli_path args) of Some s \<Rightarrow> s | None \<Rightarrow> ''module'')"

text \<open>The files the arguments ask for, in order.\<close>

definition requested :: "cli \<Rightarrow> string \<Rightarrow> 'w \<Rightarrow> string \<Rightarrow> 'w event list" where
  "requested args stem wasm v =
     (if cli_wasm_output args then [Wrote_wasm (''out/'' @ stem @ ''.wasm'') wasm] else [])
     @ (if cli_v_output args then [Wrote_text (''out/'' @ stem @ ''.v'') v] else [])"

text \<open>What the steps after type checking add to the output.\<close>

definition ends_well :: "'w event list \<Rightarrow> 'w event list \<Rightarrow> nat \<Rightarrow> 'w event set \<Rightarrow> bool" where
  "ends_well out out' code allowed \<longleftrightarrow>
     (\<exists>new. out' = out @ new
        \<and> (code = 0 \<longleftrightarrow> \<not> reports_error new) \<and> code \<le> 1
        \<and> (\<forall>e\<in>set new. quiet_event e \<or> e \<in> allowed))"

lemma write_v_ends:
  assumes "write_v w fs stem wasm out = Some (out', code)"
  shows "ends_well out out' code {Wrote_text (output_path stem ''.v'') v |v. wasm_to_v w stem wasm = Some (Inr v)}
     \<and> (code = 0 \<longrightarrow> (\<exists>v. wasm_to_v w stem wasm = Some (Inr v)
          \<and> files_written out' = files_written out @ [Wrote_text (output_path stem ''.v'') v]))"
proof -
  obtain r where r: "wasm_to_v w stem wasm = Some r" using assms by (auto simp: write_v_def bind_Some_iff)
  show ?thesis
  proof (cases r)
    case (Inl e)
    then show ?thesis
      using assms r by (auto simp: write_v_def exit_error_simps ends_well_def reports_error_def)
  next
    case (Inr v)
    then consider (dir) e where "fs_create_dir fs ''out'' = Some e"
      | (file') e where "fs_create_dir fs ''out'' = None" "fs_write fs (output_path stem ''.v'') = Some e"
      | (fine) "fs_create_dir fs ''out'' = None" "fs_write fs (output_path stem ''.v'') = None"
      by (metis not_None_eq)
    then show ?thesis
      using assms r Inr
      by cases (force simp: write_v_def exit_error_simps ends_well_def reports_error_def Let_def simp del: append_Cons)+
  qed
qed

lemma ends_well_trans:
  "\<not> reports_error new \<Longrightarrow> ends_well (out @ new) out' code allowed \<Longrightarrow>
   (\<And>e. e \<in> set new \<Longrightarrow> quiet_event e \<or> e \<in> allowed') \<Longrightarrow>
   allowed \<subseteq> allowed' \<Longrightarrow> ends_well out out' code allowed'"
  unfolding ends_well_def by (fastforce simp: reports_error_def)

definition written :: "'w outside \<Rightarrow> cli \<Rightarrow> typed_context \<Rightarrow> 'w event set" where
  "written w args cx =
     {Wrote_wasm (''out/'' @ stem @ ''.wasm'') wasm |stem wasm.
        cli_wasm_output args \<and> module_stem args = Some stem \<and> inf_codegen w cx = Some (Inr wasm)}
     \<union> {Wrote_text (''out/'' @ stem @ ''.v'') v |stem v. cli_v_output args \<and> module_stem args = Some stem
          \<and> (\<exists>wasm. inf_codegen w cx = Some (Inr wasm) \<and> wasm_to_v w stem wasm = Some (Inr v))}"

lemma run_codegen_ends:
  assumes "run_codegen w fs args cx out = Some (out', code)"
  shows "ends_well out out' code (written w args cx)
     \<and> (code = 0 \<longrightarrow> (\<exists>wasm stem v. inf_codegen w cx = Some (Inr wasm) \<and> module_stem args = Some stem
          \<and> (cli_v_output args \<longrightarrow> wasm_to_v w stem wasm = Some (Inr v))
          \<and> files_written out' = files_written out @ requested args stem wasm v))"
proof -
  obtain r where r: "inf_codegen w cx = Some r" using assms by (auto simp: run_codegen_def bind_Some_iff)
  show ?thesis
  proof (cases r)
    case (Inl e)
    then show ?thesis
      using assms r by (auto simp: run_codegen_def exit_error_simps ends_well_def reports_error_def)
  next
    case (Inr wasm)
    then obtain stem where stem: "module_stem args = Some stem"
      using assms r by (auto simp: run_codegen_def module_stem_def bind_Some_iff)
    note path = stem [unfolded module_stem_def]
    have finish: "ends_well out out' code (written w args cx)
        \<and> (code = 0 \<longrightarrow> (\<exists>v. (cli_v_output args \<longrightarrow> wasm_to_v w stem wasm = Some (Inr v))
              \<and> files_written out' = files_written out @ files_written new
                  @ (if cli_v_output args then [Wrote_text (''out/'' @ stem @ ''.v'') v] else [])))"
      if f: "(if cli_v_output args then write_v w fs stem wasm (out @ new) else Some (out @ new, 0)) = Some (out', code)"
        and new: "\<not> reports_error new"
        "\<And>e. e \<in> set new \<Longrightarrow> quiet_event e \<or> e \<in> written w args cx"
      for new
    proof (cases "cli_v_output args")
      case True
      then have v: "write_v w fs stem wasm (out @ new) = Some (out', code)" using f by simp
      note ends = write_v_ends [OF v]
      have "ends_well out out' code (written w args cx)"
        by (rule ends_well_trans [OF new(1) conjunct1 [OF ends] new(2)])
          (use True Inr r stem in \<open>auto simp: written_def output_path_def\<close>)
      then show ?thesis using ends True by (auto simp: output_path_def)
    next
      case False
      then show ?thesis using f new by (auto simp: ends_well_def)
    qed
    let ?p = "output_path stem ''.wasm''"
    consider (plain) "\<not> cli_wasm_output args"
      | (dir) e where "cli_wasm_output args" "fs_create_dir fs ''out'' = Some e"
      | (file') e where "cli_wasm_output args" "fs_create_dir fs ''out'' = None" "fs_write fs ?p = Some e"
      | (fine) "cli_wasm_output args" "fs_create_dir fs ''out'' = None" "fs_write fs ?p = None"
      by (metis not_None_eq)
    then show ?thesis
    proof cases
      case plain
      have "(if cli_v_output args then write_v w fs stem wasm (out @ [Print ''WASM generated''])
          else Some (out @ [Print ''WASM generated''], 0)) = Some (out', code)"
        using assms r Inr path plain by (simp add: run_codegen_def Let_def)
      from finish [OF this] show ?thesis using plain r Inr stem by (auto simp: reports_error_def requested_def)
    next
      case fine
      let ?new = "[Print ''WASM generated''] @ [Created_dir ''out'', Wrote_wasm ?p wasm, Print (''WASM generated at: '' @ ?p)]"
      have "(if cli_v_output args then write_v w fs stem wasm (out @ ?new) else Some (out @ ?new, 0)) = Some (out', code)"
        using assms r Inr path fine
        by (cases "cli_v_output args") (simp_all add: run_codegen_def Let_def del: append_Cons)
      note run = this
      have quiet: "\<not> reports_error ?new" by (simp add: reports_error_def)
      have only: "quiet_event e \<or> e \<in> written w args cx"
        if "e \<in> set ?new" for e
        using that fine(1) r Inr stem by (auto simp: written_def output_path_def)
      from finish [OF run quiet only] show ?thesis
        using r Inr stem fine(1) by (auto simp: requested_def output_path_def)
    qed (use assms r Inr path in \<open>auto simp: run_codegen_def Let_def exit_error_simps ends_well_def reports_error_def\<close>)
  qed
qed


text \<open>C9: The compiler's exit code tells the truth: it is 0 exactly when no error was printed, and then
  every phase that was asked for succeeded and, if code generation was one of them, exactly the files that were asked for were
  written, in order: the result of code generation to \<open>out/<stem>.wasm\<close> and its translation under the module name
  \<open><stem>\<close> to \<open>out/<stem>.v\<close>, where \<open><stem>\<close> is the stem of the source's path; without code generation nothing is written.
  Whatever the exit code, no other directory than \<open>out\<close> is made, and only these two files are ever written, with these contents and only
  if they were asked for.\<close>

theorem exit_code_tells_success:
  assumes "main w fs args = Some (out, code)"
  shows "(code = 0 \<longleftrightarrow> \<not> reports_error out)
    \<and> (code = 0 \<longrightarrow> (\<exists>source a k. fs_read fs (cli_path args) = Inr source \<and> inf_parse w 1 source = Some (Inr a, k)
         \<and> (cli_analyze args \<or> cli_codegen args \<longrightarrow> (\<exists>cx. type_check w a = Some (Inr cx)
              \<and> (cli_codegen args \<longrightarrow> (\<exists>wasm stem v. inf_codegen w cx = Some (Inr wasm) \<and> module_stem args = Some stem
                   \<and> (cli_v_output args \<longrightarrow> wasm_to_v w stem wasm = Some (Inr v))
                   \<and> files_written out = requested args stem wasm v))))
         \<and> (\<not> cli_codegen args \<longrightarrow> files_written out = [])))
    \<and> (\<forall>e\<in>set out. quiet_event e
         \<or> (\<exists>source a k cx. fs_read fs (cli_path args) = Inr source \<and> inf_parse w 1 source = Some (Inr a, k)
              \<and> type_check w a = Some (Inr cx) \<and> cli_codegen args \<and> e \<in> written w args cx))"
proof (cases "fs_exists fs (cli_path args) \<and> (cli_parse args \<or> cli_analyze args \<or> cli_codegen args)")
  case False
  then show ?thesis
    using assms by (auto simp: main_def exit_error_simps reports_error_def split: if_splits)
next
  case True
  note asked = this
  show ?thesis
  proof (cases "fs_read fs (cli_path args)")
    case (Inl e)
    then show ?thesis
      using assms asked by (auto simp: main_def exit_error_simps reports_error_def)
  next
    case (Inr source)
    note read = this
    obtain r k where r: "inf_parse w 1 source = Some (r, k)"
      using assms asked read by (auto simp: main_def bind_Some_iff)
    show ?thesis
    proof (cases r)
      case (Inl e)
      then show ?thesis
        using assms asked read r by (auto simp: main_def exit_error_simps reports_error_def)
    next
      case (Inr a)
      note parsed = this
      show ?thesis
      proof (cases "cli_codegen args \<or> cli_analyze args")
        case False
        then show ?thesis
          using assms asked read r parsed by (auto simp: main_def reports_error_def Let_def)
      next
        case True
        then obtain t where t: "type_check w a = Some t"
          using assms asked read r parsed by (auto simp: main_def bind_Some_iff Let_def)
        show ?thesis
        proof (cases t)
          case (Inl e)
          then show ?thesis
            using assms asked read r parsed True t
            by (auto simp: main_def exit_error_simps reports_error_def Let_def)
        next
          case (Inr cx)
          let ?out = "[Print (''Parsed: '' @ cli_path args)] @ [Print (''Analyzed: '' @ cli_path args)]"
          have run: "(if cli_codegen args then run_codegen w fs args cx ?out else Some (?out, 0)) = Some (out, code)"
            using assms asked read r parsed True t Inr by (simp add: main_def analyze_def Let_def del: append_Cons)
          show ?thesis
          proof (cases "cli_codegen args")
            case False
            then show ?thesis using run True read r parsed t Inr by (auto simp: reports_error_def)
          next
            case True
            then have "run_codegen w fs args cx ?out = Some (out, code)" using run by simp
            note ends = run_codegen_ends [OF this]
            then have "(code = 0) = (\<not> reports_error out)"
              by (auto simp: ends_well_def reports_error_def)
            moreover have "\<forall>e\<in>set out. quiet_event e \<or> e \<in> written w args cx"
              using ends by (auto simp: ends_well_def)
            ultimately show ?thesis using ends True read r parsed t Inr by simp
          qed
        qed
      qed
    qed
  qed
qed

text \<open>A machine: the parser knows the sample and the empty file, the tools return the calls they get.\<close>

definition empty_tree :: cst where
  "empty_tree = Cst ''source_file'' True 0 0 (0, 0) (0, 0) []"

definition machine :: "llvm_call list outside" where
  "machine = \<lparr>w_set_language = None,
     w_parse_tree = (\<lambda>s. if s = sample_code then Some sample_tree else if s = [] then Some empty_tree else None),
     w_order = (\<lambda>a. filter (\<lambda>i. ar_nodes a i \<noteq> None) [0..<10]), w_scope_order = [], w_symbol_order = (\<lambda>_. []),
     w_compile = (\<lambda>calls _ _ _. Inr calls), w_payloads = (\<lambda>_. []), w_uuids = (\<lambda>_. ''u''), w_debug = True\<rparr>"

definition disk :: files where
  "disk = \<lparr>fs_exists = (\<lambda>p. p = ''a.inf''), fs_read = (\<lambda>_. Inr []), fs_create_dir = (\<lambda>_. None), fs_write = (\<lambda>_. None)\<rparr>"

definition wasm_args :: cli where
  "wasm_args = \<lparr>cli_path = ''a.inf'', cli_parse = False, cli_analyze = False, cli_codegen = True,
     cli_wasm_output = True, cli_v_output = False\<rparr>"

definition empty_file :: source_file where
  "empty_file = \<lparr>src_id = 1, src_location = get_location empty_tree, src_source = [], src_directives = [],
     src_definitions = []\<rparr>"

definition empty_file_arena :: arena where
  "empty_file_arena = put (Node_SourceFile empty_file) u32_max empty_arena"

lemma empty_file_nodes: "ar_nodes empty_file_arena = [1 \<mapsto> Node_SourceFile empty_file]"
  by (simp add: empty_file_arena_def put_steps empty_nodes empty_file_def)

lemma machine_order: "w_order machine empty_file_arena = [1]"
  by (simp add: machine_def empty_file_nodes upt_rec)

lemma empty_file_parsed: "inf_parse machine 1 [] = Some (Inr empty_file_arena, 2)"
proof -
  have "[] \<noteq> sample_code" by (simp add: sample_code_def)
  then show ?thesis
    by (simp add: inf_parse_def machine_def add_source_code_def empty_tree_def builder_new_def build_ast_def
        build_source_file_def get_node_id_def lossy_chars_def child_nodes_def arena_add_def add_node_def
        empty_file_arena_def empty_file_def put_def Let_def empty_arena_def)
qed

lemma empty_file_checked: "\<exists>cx. type_check machine empty_file_arena = Some (Inr cx) \<and> cx_arena cx = empty_file_arena"
proof -
  have files: "source_files [1] empty_file_arena = [empty_file]"
    by (simp add: source_files_def list_nodes_cmp_def empty_file_nodes List.map_filter_def)
  show ?thesis
    unfolding type_check_def machine_order
    by (simp add: build_typed_context_def infer_types_def infer_phases_def process_directives_def
      register_types_def resolve_imports_def all_scope_ids_def check_bodies_def machine_def
      collect_function_and_constant_definitions_def cx_source_files_def files
      default_checker_def find_untyped_expressions_def cx_filter_nodes_def filter_nodes_def
      List.map_filter_def empty_file_nodes typed_context_new_def empty_file_def del: One_nat_def)
qed

lemma empty_file_main: "\<exists>out. main machine disk wasm_args = Some (out, 0)"
proof -
  obtain cx where cx: "type_check machine empty_file_arena = Some (Inr cx)" "cx_arena cx = empty_file_arena"
    using empty_file_checked by blast
  have "cx_source_files (w_order machine (cx_arena cx)) cx = [empty_file]"
    unfolding cx(2) machine_order cx_source_files_def
    by (simp add: source_files_def list_nodes_cmp_def empty_file_nodes List.map_filter_def)
  then have code: "inf_codegen machine cx = Some (Inr (cg_calls compiler_new))"
    by (simp add: inf_codegen_def codegen_def traverse_t_ast_with_compiler_def source_file_functions_def
        empty_file_def machine_def List.map_filter_def)
  have stem: "from_utf8 (case file_stem ''a.inf'' of None \<Rightarrow> ''module'' | Some s \<Rightarrow> s) = Some ''a''"
    by (simp add: file_stem_def file_name_def ascii_text)
  show ?thesis
    using empty_file_parsed cx(1) code stem
    by (simp add: main_def disk_def wasm_args_def run_codegen_def analyze_def Let_def del: One_nat_def)
qed

theorem exit_code_tells_success_witness:
  "\<exists>out wasm. main machine disk wasm_args = Some (out, 0) \<and> \<not> reports_error out
     \<and> files_written out = [Wrote_wasm ''out/a.wasm'' wasm]"
proof -
  obtain out where out: "main machine disk wasm_args = Some (out, 0)" using empty_file_main by blast
  have stem: "module_stem wasm_args = Some ''a''"
    by (simp add: module_stem_def wasm_args_def file_stem_def file_name_def ascii_text)
  from exit_code_tells_success [OF out] obtain wasm v where "\<not> reports_error out"
    "files_written out = requested wasm_args ''a'' wasm v"
    using stem by (auto simp: wasm_args_def)
  then show ?thesis using out by (simp add: requested_def) (simp add: wasm_args_def)
qed

section \<open>One source file\<close>

text \<open>In a file built into an empty arena only its own node is a source file.\<close>

lemma built_file_alone:
  assumes built: "build_source_file debug root code s = Some s'" and small: "b_count s' \<le> u32_max"
    and empty: "b_arena s = empty_arena"
  shows "\<exists>i f. ar_nodes (b_arena s') i = Some (Node_SourceFile f) \<and> src_source f = concat (lossy_chars code)
           \<and> (\<forall>j n. ar_nodes (b_arena s') j = Some n \<longrightarrow> is_source_file n \<longrightarrow> j = i)"
proof -
  obtain i s1 us ds s2 where i: "get_node_id s = (i, s1)"
    and items: "fold_opt (build_item i code) (child_nodes root) ([], [], s1) = Some (us, ds, s2)"
    and add: "arena_add (Node_SourceFile
       \<lparr>src_id = i, src_location = get_location root, src_source = concat (lossy_chars code),
        src_directives = us, src_definitions = ds\<rparr>) u32_max s2 = Some s'"
    by (rule build_source_fileE [OF built])
  have ids: "ids_below s" by (rule initial_files_ok [OF empty])
  have below: "grown code i s1 s2" using arena.keeps_items [of code i s1] items by (simp add: keeps_def)
  have "b_count s2 \<le> u32_max" using small arena_add_simps(1) [OF add] by simp
  note s2 = grown_child [OF i below this ids]
  note child = adds_below_child [OF i s2(1) ids s2(4)]
  have nodes: "ar_nodes (b_arena s') = (ar_nodes (b_arena s2))(i \<mapsto> Node_SourceFile
       \<lparr>src_id = i, src_location = get_location root, src_source = concat (lossy_chars code),
        src_directives = us, src_definitions = ds\<rparr>)"
    using add_node_SomeD(3) [OF arena_add_simps(4) [OF add]] by simp
  have "\<not> is_source_file n" if "ar_nodes (b_arena s2) j = Some n" for j n
  proof (cases "j < b_count s")
    case True
    then show ?thesis using child(1) that empty by (simp add: empty_arena_def)
  next
    case False
    then show ?thesis using child(3) [of j n] that by (simp add: faithful_def)
  qed
  then show ?thesis using nodes by (auto split: if_splits)
qed

text \<open>The order in which the map of an arena is iterated has every key once.\<close>

definition order_ok :: "'w outside \<Rightarrow> arena \<Rightarrow> bool" where
  "order_ok w a \<longleftrightarrow> distinct (w_order w a) \<and> set (w_order w a) = {i. ar_nodes a i \<noteq> None}"

lemma map_filter_unique:
  "distinct xs \<Longrightarrow> g i = Some y \<Longrightarrow> (\<And>j. j \<noteq> i \<Longrightarrow> g j = None) \<Longrightarrow>
   List.map_filter g xs = (if i \<in> set xs then [y] else [])"
proof (induction xs)
  case (Cons x xs)
  then show ?case by (cases "x = i") (simp_all add: List.map_filter_simps)
qed (simp add: List.map_filter_simps)

lemma single_file:
  assumes "distinct ord" "set ord = {i. ar_nodes a i \<noteq> None}" "ar_nodes a i = Some (Node_SourceFile f)"
    and "\<And>j n. ar_nodes a j = Some n \<Longrightarrow> is_source_file n \<Longrightarrow> j = i"
  shows "source_files ord a = [f]"
proof -
  let ?g = "\<lambda>j. Option.bind (ar_nodes a j) (\<lambda>n. case n of Node_SourceFile f \<Rightarrow> Some f | _ \<Rightarrow> None)"
  have gi: "?g i = Some f" using assms(3) by simp
  have gj: "?g j = None" if "j \<noteq> i" for j
  proof (cases "ar_nodes a j")
    case (Some n)
    then have "\<not> is_source_file n" using assms(4) that by blast
    then show ?thesis using Some by (cases n) simp_all
  qed simp
  from map_filter_unique [of ord ?g, OF assms(1) gi gj] have "List.map_filter ?g ord = (if i \<in> set ord then [f] else [])" .
  then show ?thesis using assms(1-3) by (simp add: source_files_def list_nodes_cmp_def)
qed

lemma parsed_one_file:
  assumes parsed: "inf_parse w k source = Some (Inr a, k')" "k' \<le> u32_max" and order: "order_ok w a"
  shows "\<exists>f. source_files (w_order w a) a = [f] \<and> src_source f = concat (lossy_chars source)"
proof -
  obtain root s' where root: "w_parse_tree w source = Some root" "cst_kind root = ''source_file''"
    "build_ast (w_debug w) (builder_new k\<lparr>b_source_code := [(root, source)]\<rparr>) = Some (Inr a, s')" "k' = b_count s'"
    using parsed(1)
    by (auto simp: inf_parse_def add_source_code_def builder_new_def bind_Some_iff split: option.splits if_splits)
  then obtain s1 where s1: "build_source_file (w_debug w) root source (builder_new k\<lparr>b_source_code := [(root, source)]\<rparr>) = Some s1"
    "a = b_arena s1" "s' = s1"
    by (auto simp: build_ast_def bind_Some_iff split: if_splits)
  obtain i f where f: "ar_nodes a i = Some (Node_SourceFile f)" "src_source f = concat (lossy_chars source)"
    "\<And>j n. ar_nodes a j = Some n \<Longrightarrow> is_source_file n \<Longrightarrow> j = i"
    using built_file_alone [OF s1(1)] parsed(2) root(4) s1(2,3) by (auto simp: builder_new_def)
  show ?thesis
    using single_file [OF _ _ f(1,3)] order f(2) by (auto simp: order_ok_def)
qed

text \<open>A parsed program is one source file with the text it was parsed from, and it stays so through
  type checking: code generation lowers exactly that file's functions and never meets the case of
  several files, which panics, nor that of no file.\<close>

theorem parsed_program_is_one_file:
  assumes "inf_parse w k source = Some (Inr a, k')" "k' \<le> u32_max" "order_ok w a" "type_check w a = Some (Inr cx)"
  shows "\<exists>f. source_files (w_order w a) a = [f] \<and> src_source f = concat (lossy_chars source)
    \<and> inf_codegen w cx = do { s \<leftarrow> visit_functions (source_file_functions f) cx compiler_new;
                              Some (w_compile w (cg_calls s) ''output.wasm'' 3 (cg_has_main s)) }"
proof -
  obtain f where f: "source_files (w_order w a) a = [f]" "src_source f = concat (lossy_chars source)"
    using parsed_one_file [OF assms(1-3)] by blast
  have "cx_arena cx = a"
  proof -
    from assms(4) obtain s where s: "infer_phases (w_order w a) (w_scope_order w) (w_symbol_order w)
        (default_checker (typed_context_new a)) = Some s"
      "cx = (tc_ctx s)\<lparr>cx_symbol_table := tc_symbol_table s\<rparr>"
      by (auto simp: type_check_def build_typed_context_def infer_types_def Let_def elim!: bind_SomeE split: if_splits)
    then show ?thesis
      using growth.R_phases [OF s(1)] by (simp add: grows_def default_checker_def typed_context_new_def)
  qed
  then have "cx_source_files (w_order w (cx_arena cx)) cx = [f]" using f(1) by (simp add: cx_source_files_def)
  then show ?thesis using f by (simp add: inf_codegen_def codegen_def traverse_t_ast_with_compiler_def)
qed

theorem parsed_program_is_one_file_witness:
  "\<exists>f. source_files (w_order machine empty_file_arena) empty_file_arena = [f] \<and> src_source f = []"
proof -
  obtain cx where cx: "type_check machine empty_file_arena = Some (Inr cx)" using empty_file_checked by blast
  have "order_ok machine empty_file_arena"
    unfolding order_ok_def machine_order by (simp add: empty_file_nodes)
  from parsed_program_is_one_file [OF empty_file_parsed _ this cx] show ?thesis
    by (auto simp: u32_max_def lossy_chars_def)
qed

section \<open>Modules of other packages\<close>

text \<open>C12: Loading a module adds exactly one entry, under its name with underscores for hyphens, with
  a well-formed arena; a name that is already there is not parsed again, so the first directory wins.\<close>

theorem external_modules_are_parsed_once:
  assumes "parse_external_module w fs k dir name prelude = Some (Inr prelude', k')" "k' \<le> u32_max"
  shows "dom prelude' = insert (normalize_name name) (dom prelude)
    \<and> (\<forall>m. prelude m \<noteq> None \<longrightarrow> prelude' m = prelude m)
    \<and> (prelude (normalize_name name) = None \<longrightarrow>
         (\<exists>m. prelude' (normalize_name name) = Some m \<and> wf_arena (pm_arena m) \<and> parents_decrease (pm_arena m)
            \<and> find_module_root fs dir = Some (pm_root_path m)))
    \<and> (\<forall>w2 fs2 dir2 name2 k2. normalize_name name2 = normalize_name name \<longrightarrow>
         parse_external_module w2 fs2 k2 dir2 name2 prelude' = Some (Inr prelude', k2))"
proof (cases "prelude (normalize_name name) = None")
  case False
  then show ?thesis using assms by (auto simp: parse_external_module_def Let_def)
next
  case True
  obtain root_path where root_path: "find_module_root fs dir = Some root_path"
    using assms(1) True by (cases "find_module_root fs dir") (simp_all add: parse_external_module_def Let_def)
  obtain source where source: "fs_read fs root_path = Inr source"
    using assms(1) True root_path by (cases "fs_read fs root_path") (simp_all add: parse_external_module_def Let_def)
  have grammar: "w_set_language w = None"
    using assms(1) True root_path source
    by (cases "w_set_language w") (simp_all add: parse_external_module_def Let_def)
  obtain root where root: "w_parse_tree w source = Some root"
    using assms(1) True root_path source grammar
    by (cases "w_parse_tree w source") (simp_all add: parse_external_module_def Let_def)
  note known = True root_path source grammar root
  obtain r s' where built': "build_ast (w_debug w) (builder_new k\<lparr>b_source_code := [(root, source)]\<rparr>) = Some (r, s')"
    and result: "(case r of Inl e \<Rightarrow> Some (Inl (AstBuildError root_path e), b_count s')
       | Inr a \<Rightarrow> Some (Inr (prelude(normalize_name name \<mapsto>
           \<lparr>pm_name = normalize_name name, pm_arena = a, pm_root_path = root_path\<rparr>)), b_count s')) = Some (Inr prelude', k')"
    using assms(1) known
    by (auto simp: parse_external_module_def Let_def add_source_code_def builder_new_def bind_Some_iff split: if_splits)
  then obtain a where a: "r = Inr a" by (cases r) simp_all
  have parts: "k' = b_count s'" "prelude' = prelude(normalize_name name \<mapsto>
      \<lparr>pm_name = normalize_name name, pm_arena = a, pm_root_path = root_path\<rparr>)"
    using result a by simp_all
  have "files_ok [(root, source)] s'" "a = b_arena s'"
    using built [OF built' [unfolded a]] assms(2) parts(1) by (simp_all add: builder_new_def)
  then have "wf_arena a" "parents_decrease a" by (simp_all add: files_ok_def ids_below_def)
  then show ?thesis using True root_path parts(2) by (auto simp: parse_external_module_def Let_def)
qed

definition package :: files where
  "package = \<lparr>fs_exists = (\<lambda>p. p = ''lib/src/main.inf''), fs_read = (\<lambda>_. Inr sample_code),
     fs_create_dir = (\<lambda>_. None), fs_write = (\<lambda>_. None)\<rparr>"

theorem external_modules_are_parsed_once_witness:
  "\<exists>prelude. parse_external_module machine package 1 ''lib'' ''my-lib'' Map.empty = Some (Inr prelude, 7)
     \<and> dom prelude = {''my_lib''}
     \<and> parse_external_module machine package 7 ''elsewhere'' ''my_lib'' prelude = Some (Inr prelude, 7)"
proof -
  have "builder_new 1\<lparr>b_source_code := [(sample_tree, sample_code)]\<rparr> = at_work 1 empty_arena"
    by (simp add: builder_new_def at_work_def)
  note start = this
  have "cst_kind sample_tree = ''source_file''" by (simp add: sample_tree_def)
  then have add: "add_source_code sample_tree sample_code (builder_new 1) = Some (at_work 1 empty_arena)"
    using start by (simp add: add_source_code_def builder_new_def)
  have m: "w_set_language machine = None" "w_parse_tree machine sample_code = Some sample_tree" "w_debug machine"
    by (simp_all add: machine_def)
  have f: "find_module_root package ''lib'' = Some ''lib/src/main.inf''" "fs_read package ''lib/src/main.inf'' = Inr sample_code"
    by (simp_all add: package_def find_module_root_def)
  have p: "\<exists>prelude. parse_external_module machine package 1 ''lib'' ''my-lib'' Map.empty = Some (Inr prelude, 7)"
    using sample_built m
    by (simp add: parse_external_module_def Let_def add f del: One_nat_def) (simp add: at_work_def)
  then obtain prelude where prelude: "parse_external_module machine package 1 ''lib'' ''my-lib'' Map.empty = Some (Inr prelude, 7)"
    by blast
  have name: "normalize_name ''my-lib'' = ''my_lib''" "normalize_name ''my_lib'' = ''my_lib''"
    by (simp_all add: normalize_name_def)
  have small: "7 \<le> u32_max" by (simp add: u32_max_def)
  note loaded = external_modules_are_parsed_once [OF prelude small]
  have "dom prelude = {''my_lib''}" using conjunct1 [OF loaded] by (simp add: name)
  moreover have "parse_external_module machine package 7 ''elsewhere'' ''my_lib'' prelude = Some (Inr prelude, 7)"
    using loaded by (metis name)
  ultimately show ?thesis using prelude by blast
qed

end
