(* ===== verification/TuiState.thy ===== *)
theory TuiState
  imports Chars
begin

text \<open>
  The state of the terminal interface: screens, lists with a selection, the progress of an installation
  (\<open>apps/infs/src/tui/state.rs\<close>), the menu (\<open>tui/menu.rs\<close>) and the history of commands
  (\<open>tui/widgets/command_history.rs\<close>). Instants are numbers; percentages and other texts that are only
  drawn are left out.
\<close>

section \<open>Screens and lists\<close>

datatype screen = Screen_Main | Screen_Toolchains | Screen_Doctor | Screen_Progress | Screen_VersionSelect

datatype install_progress =
    PhaseStarted chars
  | DownloadStarted nat
  | DownloadProgress nat nat
  | PhaseCompleted chars
  | Completed chars
  | Failed chars

record toolchain_metadata =
  tm_installed_at :: chars

record toolchain_info =
  ti_version :: chars
  ti_is_default :: bool
  ti_metadata :: "toolchain_metadata option"

record toolchains_state =
  ts_toolchains :: "toolchain_info list"
  ts_selected :: nat
  ts_loaded :: bool

definition toolchains_new :: toolchains_state where
  "toolchains_new = \<lparr>ts_toolchains = [], ts_selected = 0, ts_loaded = False\<rparr>"

definition toolchains_previous :: "toolchains_state \<Rightarrow> toolchains_state" where
  "toolchains_previous s = (if ts_toolchains s \<noteq> [] then s\<lparr>ts_selected := ts_selected s - 1\<rparr> else s)"

definition toolchains_next :: "toolchains_state \<Rightarrow> toolchains_state" where
  "toolchains_next s =
     (if ts_toolchains s \<noteq> []
      then s\<lparr>ts_selected := min (ts_selected s + 1) (length (ts_toolchains s) - 1)\<rparr> else s)"

datatype doctor_status = Check_Ok | Check_Warning | Check_Error

record doctor_check =
  dc_name :: chars
  dc_status :: doctor_status
  dc_message :: chars

record doctor_state =
  ds_checks :: "doctor_check list"
  ds_selected :: nat
  ds_loaded :: bool

definition doctor_new :: doctor_state where
  "doctor_new = \<lparr>ds_checks = [], ds_selected = 0, ds_loaded = False\<rparr>"

definition doctor_previous :: "doctor_state \<Rightarrow> doctor_state" where
  "doctor_previous s = (if ds_checks s \<noteq> [] then s\<lparr>ds_selected := ds_selected s - 1\<rparr> else s)"

definition doctor_next :: "doctor_state \<Rightarrow> doctor_state" where
  "doctor_next s =
     (if ds_checks s \<noteq> [] then s\<lparr>ds_selected := min (ds_selected s + 1) (length (ds_checks s) - 1)\<rparr> else s)"

definition ok_count :: "doctor_state \<Rightarrow> nat" where
  "ok_count s = length (filter (\<lambda>c. dc_status c = Check_Ok) (ds_checks s))"

definition warning_count :: "doctor_state \<Rightarrow> nat" where
  "warning_count s = length (filter (\<lambda>c. dc_status c = Check_Warning) (ds_checks s))"

definition error_count :: "doctor_state \<Rightarrow> nat" where
  "error_count s = length (filter (\<lambda>c. dc_status c = Check_Error) (ds_checks s))"

record version_select_info =
  vi_version :: chars
  vi_stable :: bool
  vi_platforms :: "chars list"
  vi_available_for_current :: bool

record version_select_state =
  vs_versions :: "version_select_info list"
  vs_selected :: nat
  vs_loaded :: bool
  vs_loading :: bool
  vs_error :: "chars option"
  vs_current_os :: chars

definition version_select_new :: version_select_state where
  "version_select_new =
     \<lparr>vs_versions = [], vs_selected = 0, vs_loaded = False, vs_loading = False, vs_error = None, vs_current_os = []\<rparr>"

definition versions_previous :: "version_select_state \<Rightarrow> version_select_state" where
  "versions_previous s = (if vs_versions s \<noteq> [] then s\<lparr>vs_selected := vs_selected s - 1\<rparr> else s)"

definition versions_next :: "version_select_state \<Rightarrow> version_select_state" where
  "versions_next s =
     (if vs_versions s \<noteq> []
      then s\<lparr>vs_selected := min (vs_selected s + 1) (length (vs_versions s) - 1)\<rparr> else s)"

definition selected_version :: "version_select_state \<Rightarrow> version_select_info option" where
  "selected_version s =
     (if vs_selected s < length (vs_versions s) then Some (vs_versions s ! vs_selected s) else None)"

definition can_install_selected :: "version_select_state \<Rightarrow> bool" where
  "can_install_selected s =
     (case selected_version s of None \<Rightarrow> False | Some v \<Rightarrow> vi_available_for_current v)"

section \<open>Progress\<close>

record progress_item =
  pi_description :: chars
  pi_current :: nat
  pi_total :: nat
  pi_completed :: bool
  pi_speed :: "nat option"
  pi_started_at :: "nat option"

definition progress_item_new :: "chars \<Rightarrow> progress_item" where
  "progress_item_new d =
     \<lparr>pi_description = d, pi_current = 0, pi_total = 0, pi_completed = False, pi_speed = None, pi_started_at = None\<rparr>"

definition item_start :: "nat \<Rightarrow> progress_item \<Rightarrow> progress_item" where
  "item_start now i = i\<lparr>pi_started_at := Some now\<rparr>"

definition update_with_speed :: "nat \<Rightarrow> nat \<Rightarrow> progress_item \<Rightarrow> progress_item" where
  "update_with_speed current speed i =
     (let i1 = i\<lparr>pi_current := current, pi_speed := Some speed\<rparr>
      in if 0 < pi_total i1 \<and> pi_total i1 \<le> pi_current i1 then i1\<lparr>pi_completed := True\<rparr> else i1)"

definition item_complete :: "progress_item \<Rightarrow> progress_item" where
  "item_complete i =
     (let i1 = i\<lparr>pi_completed := True\<rparr>
      in if 0 < pi_total i1 then i1\<lparr>pi_current := pi_total i1\<rparr> else i1)"

record progress_state =
  ps_title :: chars
  ps_items :: "progress_item list"
  ps_status :: chars
  ps_completed :: bool
  ps_error :: "chars option"

definition progress_new :: "chars \<Rightarrow> progress_state" where
  "progress_new t = \<lparr>ps_title = t, ps_items = [], ps_status = [], ps_completed = False, ps_error = None\<rparr>"

definition add_item :: "progress_item \<Rightarrow> progress_state \<Rightarrow> progress_state" where
  "add_item i p = p\<lparr>ps_items := ps_items p @ [i]\<rparr>"

definition set_status :: "chars \<Rightarrow> progress_state \<Rightarrow> progress_state" where
  "set_status s p = p\<lparr>ps_status := s\<rparr>"

definition progress_complete :: "progress_state \<Rightarrow> progress_state" where
  "progress_complete p = p\<lparr>ps_completed := True\<rparr>"

definition set_error :: "chars \<Rightarrow> progress_state \<Rightarrow> progress_state" where
  "set_error e p = p\<lparr>ps_error := Some e, ps_completed := True\<rparr>"

text \<open>\<open>items.first_mut()\<close>.\<close>

definition update_first :: "(progress_item \<Rightarrow> progress_item) \<Rightarrow> progress_state \<Rightarrow> progress_state" where
  "update_first f p = p\<lparr>ps_items := (case ps_items p of [] \<Rightarrow> [] | i # is \<Rightarrow> f i # is)\<rparr>"

section \<open>The menu\<close>

record menu_item =
  mi_label :: string
  mi_key :: nat
  mi_screen :: "screen option"
  mi_quits :: bool

definition menu_screen :: "string \<Rightarrow> char \<Rightarrow> screen \<Rightarrow> menu_item" where
  "menu_screen l k s = \<lparr>mi_label = l, mi_key = of_char k, mi_screen = Some s, mi_quits = False\<rparr>"

definition menu_quit :: "string \<Rightarrow> char \<Rightarrow> menu_item" where
  "menu_quit l k = \<lparr>mi_label = l, mi_key = of_char k, mi_screen = None, mi_quits = True\<rparr>"

definition MENU_ITEMS :: "menu_item list" where
  "MENU_ITEMS =
     [menu_screen ''Toolchains'' (CHR ''t'') Screen_Toolchains,
      menu_screen ''Doctor'' (CHR ''d'') Screen_Doctor,
      menu_quit ''Quit'' (CHR ''q'')]"

text \<open>The menu is the index of its selected item; indexing panics behind the end.\<close>

definition selected_item :: "nat \<Rightarrow> menu_item option" where
  "selected_item selected = (if selected < length MENU_ITEMS then Some (MENU_ITEMS ! selected) else None)"

definition menu_up :: "nat \<Rightarrow> nat" where
  "menu_up selected = (if selected = 0 then length MENU_ITEMS - 1 else selected - 1)"

definition menu_down :: "nat \<Rightarrow> nat" where
  "menu_down selected = (selected + 1) mod length MENU_ITEMS"

definition find_by_key :: "nat \<Rightarrow> menu_item option" where
  "find_by_key key = find (\<lambda>i. mi_key i = key) MENU_ITEMS"

section \<open>The history of commands\<close>

record command_history =
  ch_commands :: "chars list"
  ch_index :: "nat option"
  ch_max_size :: nat
  ch_temp_input :: chars

definition history_new :: command_history where
  "history_new = \<lparr>ch_commands = [], ch_index = None, ch_max_size = 100, ch_temp_input = []\<rparr>"

definition history_push :: "chars \<Rightarrow> command_history \<Rightarrow> command_history" where
  "history_push command h =
     (if command = [] then h
      else if ch_commands h \<noteq> [] \<and> last (ch_commands h) = command then h
      else
        (let cs = ch_commands h @ [command];
             cs1 = (if ch_max_size h < length cs then tl cs else cs)
         in h\<lparr>ch_commands := cs1, ch_index := None, ch_temp_input := []\<rparr>))"

text \<open>\<open>[T]::get\<close>.\<close>

definition get_nth :: "'a list \<Rightarrow> nat \<Rightarrow> 'a option" where
  "get_nth xs i = (if i < length xs then Some (xs ! i) else None)"

definition command_history_previous :: "chars \<Rightarrow> command_history \<Rightarrow> chars option \<times> command_history" where
  "command_history_previous current_input h =
     (if ch_commands h = [] then (None, h)
      else
        (case ch_index h of
           None \<Rightarrow>
             (Some (last (ch_commands h)),
              h\<lparr>ch_temp_input := current_input, ch_index := Some (length (ch_commands h) - 1)\<rparr>)
         | Some i \<Rightarrow>
             if 0 < i then (get_nth (ch_commands h) (i - 1), h\<lparr>ch_index := Some (i - 1)\<rparr>) else (None, h)))"

definition command_history_next :: "command_history \<Rightarrow> chars option \<times> command_history" where
  "command_history_next h =
     (case ch_index h of
        Some i \<Rightarrow>
          if i + 1 < length (ch_commands h) then (get_nth (ch_commands h) (i + 1), h\<lparr>ch_index := Some (i + 1)\<rparr>)
          else (Some (ch_temp_input h), h\<lparr>ch_index := None\<rparr>)
      | None \<Rightarrow> (None, h))"

definition reset_navigation :: "command_history \<Rightarrow> command_history" where
  "reset_navigation h = h\<lparr>ch_index := None, ch_temp_input := []\<rparr>"

end
