(* ===== verification/TuiApp.thy ===== *)
theory TuiApp
  imports TuiState
begin

text \<open>
  The application of the terminal interface (\<open>apps/infs/src/tui/app.rs\<close>): its state, the handling of
  keys in both input modes, the navigation between screens, the messages of background tasks and the
  event loop. A panic is \<^term>\<open>None\<close>. Of the drawing only what can panic is modelled,
  in \<open>TuiKeys\<close>, with the keys and the event loop.
\<close>

section \<open>The state\<close>

datatype input_mode = Normal | Command

text \<open>
  A receiver is known by its task: the installation of a version, or the loading of the versions.
\<close>

record app =
  app_screen :: screen
  app_input_mode :: input_mode
  app_command_input :: chars
  app_cursor_pos :: nat
  app_status_message :: chars
  app_should_quit :: bool
  app_menu :: nat
  app_toolchains_state :: toolchains_state
  app_doctor_state :: doctor_state
  app_progress_state :: progress_state
  app_command_history :: command_history
  app_pending_command :: "chars option"
  app_install_receiver :: "chars option option"
  app_previous_screen :: "screen option"
  app_version_select_state :: version_select_state
  app_version_load_receiver :: bool

definition main_hint :: chars where
  "main_hint = chars_of ''Press ':' to enter a command, 'q' to quit''"

text \<open>The keys of \<open>crossterm\<close> the code tells apart.\<close>

datatype key_code =
    Key_Char nat | Key_Up | Key_Down | Key_Left | Key_Right | Key_Home | Key_End | Key_Enter | Key_Esc
  | Key_Backspace | Key_Delete | Key_Tab | Key_Other

text \<open>
  What the application reads while it handles a key: the directories and files of the toolchains, the
  checks, the name of the platform, the output of \<open>infs\<close> with given arguments (its two streams as
  \<open>from_utf8_lossy\<close> gives them), the clock, and Unicode's lower case.
\<close>

record surroundings =
  env_paths_error :: "chars option"
  env_default_version :: "chars + chars option"
  env_installed_versions :: "chars + chars list"
  env_metadata :: "chars \<Rightarrow> toolchain_metadata option"
  env_set_default :: "chars \<Rightarrow> chars option"
  env_checks :: "doctor_check list"
  env_os :: "chars option"
  env_output :: "string list \<Rightarrow> chars + (chars \<times> chars)"
  env_now :: nat
  env_lowercase :: "chars \<Rightarrow> chars"

definition default_app :: app where
  "default_app =
     \<lparr>app_screen = Screen_Main, app_input_mode = Normal, app_command_input = [], app_cursor_pos = 0,
      app_status_message = main_hint, app_should_quit = False, app_menu = 0,
      app_toolchains_state = toolchains_new, app_doctor_state = doctor_new,
      app_progress_state = progress_new [], app_command_history = history_new, app_pending_command = None,
      app_install_receiver = None, app_previous_screen = None, app_version_select_state = version_select_new,
      app_version_load_receiver = False\<rparr>"

definition status :: "string \<Rightarrow> app \<Rightarrow> app" where
  "status s a = a\<lparr>app_status_message := chars_of s\<rparr>"

section \<open>Loading\<close>

definition load_toolchain_data :: "surroundings \<Rightarrow> app \<Rightarrow> app" where
  "load_toolchain_data e a =
     (case env_paths_error e of
        Some err \<Rightarrow>
          a\<lparr>app_status_message := chars_of ''Cannot load toolchains: '' @ err,
            app_toolchains_state := (app_toolchains_state a)\<lparr>ts_toolchains := [], ts_loaded := True\<rparr>\<rparr>
      | None \<Rightarrow>
          (let (default_version, a1) =
                 (case env_default_version e of
                    Inr v \<Rightarrow> (v, a)
                  | Inl err \<Rightarrow> (None, a\<lparr>app_status_message := chars_of ''Cannot read default version: '' @ err\<rparr>));
               (versions, a2) =
                 (case env_installed_versions e of
                    Inr vs \<Rightarrow> (vs, a1)
                  | Inl err \<Rightarrow> ([], a1\<lparr>app_status_message := chars_of ''Cannot list toolchains: '' @ err\<rparr>))
           in a2\<lparr>app_toolchains_state :=
                   \<lparr>ts_toolchains =
                      map (\<lambda>v. \<lparr>ti_version = v, ti_is_default = (default_version = Some v),
                                ti_metadata = env_metadata e v\<rparr>) versions,
                    ts_selected = 0, ts_loaded = True\<rparr>\<rparr>))"

definition load_doctor_data :: "surroundings \<Rightarrow> app \<Rightarrow> app" where
  "load_doctor_data e a =
     a\<lparr>app_doctor_state := \<lparr>ds_checks = env_checks e, ds_selected = 0, ds_loaded = True\<rparr>\<rparr>"

text \<open>The thread \<open>load_version_data\<close> starts answers through the new receiver.\<close>

definition load_version_data :: "surroundings \<Rightarrow> app \<Rightarrow> app" where
  "load_version_data e a =
     a\<lparr>app_version_load_receiver := True,
       app_version_select_state :=
         (app_version_select_state a)\<lparr>vs_loading := True, vs_error := None,
            vs_current_os := (case env_os e of Some os \<Rightarrow> os | None \<Rightarrow> chars_of ''unknown'')\<rparr>\<rparr>"

section \<open>Navigation\<close>

definition navigate_to :: "surroundings \<Rightarrow> screen \<Rightarrow> app \<Rightarrow> app" where
  "navigate_to e sc a0 =
     (let a = a0\<lparr>app_screen := sc\<rparr>
      in case sc of
           Screen_Main \<Rightarrow> a\<lparr>app_status_message := main_hint\<rparr>
         | Screen_Toolchains \<Rightarrow>
             status ''Press Enter to set as default, Esc to go back''
               (if \<not> ts_loaded (app_toolchains_state a) then load_toolchain_data e a else a)
         | Screen_Doctor \<Rightarrow>
             status ''Press 'r' to refresh, Esc to go back''
               (if \<not> ds_loaded (app_doctor_state a) then load_doctor_data e a else a)
         | Screen_Progress \<Rightarrow> status ''Operation in progress...'' a
         | Screen_VersionSelect \<Rightarrow>
             status ''Press Enter to install, Esc to go back''
               (if \<not> vs_loaded (app_version_select_state a) \<and> \<not> vs_loading (app_version_select_state a)
                then load_version_data e a else a))"

definition activate_menu_item :: "surroundings \<Rightarrow> app \<Rightarrow> app option" where
  "activate_menu_item e a =
     do { item \<leftarrow> selected_item (app_menu a);
          if mi_quits item then Some (a\<lparr>app_should_quit := True\<rparr>)
          else
            (case mi_screen item of
               Some sc \<Rightarrow> Some (navigate_to e sc a)
             | None \<Rightarrow> Some a) }"

definition start_installation :: "chars option \<Rightarrow> app \<Rightarrow> app" where
  "start_installation version a =
     a\<lparr>app_install_receiver := Some version,
       app_progress_state :=
         add_item (progress_item_new (chars_of ''Initializing...''))
           (set_status (chars_of ''Starting installation...'') (progress_new (chars_of ''Installing Toolchain''))),
       app_previous_screen := Some (app_screen a),
       app_screen := Screen_Progress,
       app_status_message := chars_of ''Installing... Press Esc to cancel.''\<rparr>"

definition return_from_progress :: "surroundings \<Rightarrow> app \<Rightarrow> app" where
  "return_from_progress e a =
     (let a1 = (if app_previous_screen a = Some Screen_Toolchains
                then a\<lparr>app_toolchains_state := (app_toolchains_state a)\<lparr>ts_loaded := False\<rparr>\<rparr> else a);
          return_screen = (case app_previous_screen a1 of Some sc \<Rightarrow> sc | None \<Rightarrow> Screen_Main)
      in navigate_to e return_screen (a1\<lparr>app_previous_screen := None, app_install_receiver := None\<rparr>))"

definition cancel_installation :: "app \<Rightarrow> app" where
  "cancel_installation a =
     a\<lparr>app_install_receiver := None,
       app_progress_state := set_error (chars_of ''Installation cancelled'') (app_progress_state a),
       app_status_message := chars_of ''Installation cancelled. Press Esc to return.''\<rparr>"

definition set_selected_toolchain_as_default :: "surroundings \<Rightarrow> app \<Rightarrow> app" where
  "set_selected_toolchain_as_default e a =
     (case get_nth (ts_toolchains (app_toolchains_state a)) (ts_selected (app_toolchains_state a)) of
        None \<Rightarrow> a
      | Some toolchain \<Rightarrow>
          if ti_is_default toolchain then
            a\<lparr>app_status_message := ti_version toolchain @ chars_of '' is already the default''\<rparr>
          else
            (case (case env_paths_error e of Some err \<Rightarrow> Some err | None \<Rightarrow> env_set_default e (ti_version toolchain)) of
               None \<Rightarrow>
                 load_toolchain_data e
                   (a\<lparr>app_status_message := chars_of ''Set '' @ ti_version toolchain @ chars_of '' as default toolchain'',
                      app_toolchains_state := (app_toolchains_state a)\<lparr>ts_loaded := False\<rparr>\<rparr>)
             | Some err \<Rightarrow> a\<lparr>app_status_message := chars_of ''Failed to set default: '' @ err\<rparr>))"

end
