(* ===== verification/Dates.thy ===== *)
theory Dates
  imports Inf_Prelude
begin

text \<open>
  Dates of installations (\<open>apps/infs/src/toolchain/paths.rs\<close>): from a Unix timestamp to a calendar date and
  back, and the age of an installation in words. Numbers are \<open>u64\<close> in the code; the reading of a date is
  \<^term>\<open>None\<close> where an operation leaves that range.
\<close>

section \<open>From a timestamp to a date\<close>

definition is_leap_year :: "nat \<Rightarrow> bool" where
  "is_leap_year year \<longleftrightarrow> year mod 4 = 0 \<and> year mod 100 \<noteq> 0 \<or> year mod 400 = 0"

definition days_in_year :: "nat \<Rightarrow> nat" where
  "days_in_year year = (if is_leap_year year then 366 else 365)"

lemma days_in_year_pos [simp]: "0 < days_in_year year"
  by (simp add: days_in_year_def)

definition month_days :: "nat \<Rightarrow> nat list" where
  "month_days year =
     (if is_leap_year year then [31, 29, 31, 30, 31, 30, 31, 31, 30, 31, 30, 31]
      else [31, 28, 31, 30, 31, 30, 31, 31, 30, 31, 30, 31])"

record date_time =
  dt_year :: nat
  dt_month :: nat
  dt_day :: nat
  dt_hours :: nat
  dt_minutes :: nat
  dt_seconds :: nat

text \<open>The loop over years; then the loop over months, which gives month 0 when it runs through.\<close>

function find_year :: "nat \<Rightarrow> nat \<Rightarrow> nat \<times> nat" where
  "find_year year remaining_days =
     (if remaining_days < days_in_year year then (year, remaining_days)
      else find_year (year + 1) (remaining_days - days_in_year year))"
  by pat_completeness auto
termination find_year
  by (relation "measure snd") (auto simp: days_in_year_def)

declare find_year.simps [simp del]

fun find_month :: "nat \<Rightarrow> nat list \<Rightarrow> nat \<Rightarrow> nat \<times> nat" where
  "find_month i [] remaining_days = (0, remaining_days)"
| "find_month i (days # ds) remaining_days =
     (if remaining_days < days then (i + 1, remaining_days)
      else find_month (i + 1) ds (remaining_days - days))"

definition from_timestamp :: "nat \<Rightarrow> date_time" where
  "from_timestamp timestamp =
     (let secs_today = timestamp mod 86400;
          (year, in_year) = find_year 1970 (timestamp div 86400);
          (month, in_month) = find_month 0 (month_days year) in_year
      in \<lparr>dt_year = year, dt_month = month, dt_day = in_month + 1, dt_hours = secs_today div 3600,
          dt_minutes = secs_today mod 3600 div 60, dt_seconds = secs_today mod 60\<rparr>)"

text \<open>\<open>{:04}\<close> and \<open>{:02}\<close>.\<close>

definition padded :: "nat \<Rightarrow> nat \<Rightarrow> string" where
  "padded w n = (let s = show_nat n in replicate (w - length s) CHR ''0'' @ s)"

definition format_timestamp :: "nat \<Rightarrow> string" where
  "format_timestamp timestamp =
     (let dt = from_timestamp timestamp
      in padded 4 (dt_year dt) @ ''-'' @ padded 2 (dt_month dt) @ ''-'' @ padded 2 (dt_day dt))"

definition format_timestamp_iso8601 :: "nat \<Rightarrow> string" where
  "format_timestamp_iso8601 timestamp =
     (let dt = from_timestamp timestamp
      in padded 4 (dt_year dt) @ ''-'' @ padded 2 (dt_month dt) @ ''-'' @ padded 2 (dt_day dt) @ ''T''
         @ padded 2 (dt_hours dt) @ '':'' @ padded 2 (dt_minutes dt) @ '':'' @ padded 2 (dt_seconds dt) @ ''Z'')"

section \<open>From a date to an age\<close>

text \<open>\<open>str::split\<close> at a character.\<close>

fun split_on :: "char \<Rightarrow> string \<Rightarrow> string list" where
  "split_on d [] = [[]]"
| "split_on d (c # s) =
     (if c = d then [] # split_on d s
      else (case split_on d s of [] \<Rightarrow> [[c]] | w # ws \<Rightarrow> (c # w) # ws))"

text \<open>\<open>str::parse::<u64>\<close>.\<close>

fun digits_u64 :: "nat \<Rightarrow> string \<Rightarrow> nat option" where
  "digits_u64 acc [] = Some acc"
| "digits_u64 acc (c # cs) =
     do { d \<leftarrow> digit_value c;
          if acc * 10 + d < 2 ^ 64 then digits_u64 (acc * 10 + d) cs else None }"

definition parse_u64 :: "string \<Rightarrow> nat option" where
  "parse_u64 s =
     (case s of
        [] \<Rightarrow> None
      | c # cs \<Rightarrow> if c = CHR ''+'' then (if cs = [] then None else digits_u64 0 cs) else digits_u64 0 s)"

definition total_days :: "nat \<Rightarrow> nat \<Rightarrow> nat \<Rightarrow> nat option" where
  "total_days year month day =
     (if day = 0 then None
      else Some (sum_list (map days_in_year [1970..<year])
                   + sum_list (take (month - 1) (month_days year)) + (day - 1)))"

definition age_text :: "nat \<Rightarrow> string" where
  "age_text diff_days =
     (if diff_days = 0 then ''today''
      else if diff_days = 1 then ''yesterday''
      else if diff_days \<le> 6 then show_nat diff_days @ '' days ago''
      else if diff_days \<le> 13 then ''1 week ago''
      else if diff_days \<le> 20 then ''2 weeks ago''
      else if diff_days \<le> 27 then ''3 weeks ago''
      else if diff_days \<le> 59 then ''1 month ago''
      else if diff_days \<le> 89 then ''2 months ago''
      else if diff_days \<le> 364 then show_nat (diff_days div 30) @ '' months ago''
      else show_nat (diff_days div 365) @ '' years ago'')"

text \<open>A text that is not a date is given back; day 0 underflows, and so may the seconds.\<close>

definition parse_and_format_relative_time :: "nat \<Rightarrow> string \<Rightarrow> string option" where
  "parse_and_format_relative_time now_secs date_str =
     (case map parse_u64 (split_on (CHR ''-'') date_str) of
        [Some year, Some month, Some day] \<Rightarrow>
          do { days \<leftarrow> total_days year month day;
               if days * 86400 < 2 ^ 64 then Some (age_text ((now_secs - days * 86400) div 86400)) else None }
      | _ \<Rightarrow> Some date_str)"

text \<open>What \<open>installed_ago\<close> says later of metadata that \<open>now\<close> wrote at a time.\<close>

definition installed_ago :: "nat \<Rightarrow> string \<Rightarrow> string option" where
  "installed_ago now_secs installed_at = parse_and_format_relative_time now_secs installed_at"

section \<open>The calendar\<close>

lemma find_year_correct:
  assumes "find_year y d = (y', r)"
  shows "y \<le> y' \<and> r < days_in_year y' \<and> d = sum_list (map days_in_year [y..<y']) + r"
  using assms
proof (induction y d rule: find_year.induct)
  case (1 y d)
  show ?case
  proof (cases "d < days_in_year y")
    case True
    then show ?thesis using 1(2) by (subst (asm) find_year.simps) simp
  next
    case False
    then have "find_year (y + 1) (d - days_in_year y) = (y', r)" using 1(2) by (subst (asm) find_year.simps) simp
    from 1(1) [OF False this] False show ?thesis by (auto simp: upt_conv_Cons)
  qed
qed

lemma find_month_correct:
  assumes "find_month i ds d = (m, r)" "d < sum_list ds"
  shows "i < m \<and> m \<le> i + length ds \<and> r < ds ! (m - 1 - i) \<and> d = sum_list (take (m - 1 - i) ds) + r"
  using assms
proof (induction i ds d rule: find_month.induct)
  case (2 i days ds d)
  show ?case
  proof (cases "d < days")
    case False
    then have IH: "i + 1 < m \<and> m \<le> i + 1 + length ds \<and> r < ds ! (m - 1 - (i + 1))
        \<and> d - days = sum_list (take (m - 1 - (i + 1)) ds) + r"
      using 2 by (metis add.commute find_month.simps(2) not_less less_diff_conv2 sum_list.Cons)
    then obtain k where "m - 1 - i = Suc k" "m - 1 - (i + 1) = k" by (metis Suc_diff_Suc Suc_eq_plus1 add_diff_cancel_left' diff_Suc_eq_diff_pred diff_commute less_diff_conv plus_1_eq_Suc zero_less_Suc)
    then show ?thesis using IH False by auto
  qed (use 2 in auto)
qed simp

lemma month_days_sum: "sum_list (month_days y) = days_in_year y" "length (month_days y) = 12"
  by (simp_all add: month_days_def days_in_year_def)

lemma month_days_le: "k < 12 \<Longrightarrow> month_days y ! k \<le> 31"
  by (auto simp: month_days_def nth_Cons' less_Suc_eq numeral_eq_Suc)

text \<open>The date of a day is the date of no other.\<close>

lemma from_timestamp_date:
  defines "dt t \<equiv> from_timestamp t"
  shows "1970 \<le> dt_year (dt t)" "1 \<le> dt_month (dt t)" "dt_month (dt t) \<le> 12"
    "1 \<le> dt_day (dt t)" "dt_day (dt t) \<le> month_days (dt_year (dt t)) ! (dt_month (dt t) - 1)"
    "total_days (dt_year (dt t)) (dt_month (dt t)) (dt_day (dt t)) = Some (t div 86400)"
proof -
  obtain y r where y: "find_year 1970 (t div 86400) = (y, r)" by (cases "find_year 1970 (t div 86400)")
  obtain m d where m: "find_month 0 (month_days y) r = (m, d)" by (cases "find_month 0 (month_days y) r")
  note year = find_year_correct [OF y]
  note month = find_month_correct [OF m] 
  have r: "r < sum_list (month_days y)" using year month_days_sum(1) by simp
  have dt: "dt_year (dt t) = y" "dt_month (dt t) = m" "dt_day (dt t) = d + 1"
    by (simp_all add: dt_def from_timestamp_def y m Let_def)
  show "1970 \<le> dt_year (dt t)" "1 \<le> dt_month (dt t)" "dt_month (dt t) \<le> 12" "1 \<le> dt_day (dt t)"
    "dt_day (dt t) \<le> month_days (dt_year (dt t)) ! (dt_month (dt t) - 1)"
    using year month [OF r] month_days_sum(2) [of y] by (auto simp: dt)
  show "total_days (dt_year (dt t)) (dt_month (dt t)) (dt_day (dt t)) = Some (t div 86400)"
    using year month [OF r] by (simp add: dt total_days_def)
qed

section \<open>Decimal numbers read back\<close>

definition decimal :: "string \<Rightarrow> bool" where
  "decimal s \<longleftrightarrow> s \<noteq> [] \<and> (\<forall>c\<in>set s. 48 \<le> (of_char c :: nat) \<and> (of_char c :: nat) \<le> 57)"

lemma digit_char: "k < 10 \<Longrightarrow> (of_char (char_of (48 + k :: nat)) :: nat) = 48 + k"
  by (rule of_char_char_of_small) simp

lemma decimal_show_nat: "decimal (show_nat n)"
proof (induction n rule: show_nat.induct)
  case (1 n)
  show ?case
  proof (cases "n < 10")
    case True
    then show ?thesis by (subst show_nat.simps) (simp add: decimal_def digit_char)
  next
    case False
    then show ?thesis using 1 digit_char [of "n mod 10"]
      by (subst show_nat.simps) (auto simp: decimal_def)
  qed
qed

lemma decimal_padded: "decimal (padded w n)"
  using decimal_show_nat [of n] by (auto simp: padded_def decimal_def Let_def)

lemma digits_u64_append:
  "digits_u64 acc (s @ t) = do { k \<leftarrow> digits_u64 acc s; digits_u64 k t }"
  by (induction acc s rule: digits_u64.induct) (auto simp: bind_Some_iff split: bind_split)

lemma digits_u64_zeros: "digits_u64 0 (replicate k CHR ''0'' @ s) = digits_u64 0 s"
  by (induction k) (simp_all add: digit_value_def)

lemma digits_u64_show_nat: "n < 2 ^ 64 \<Longrightarrow> digits_u64 0 (show_nat n) = Some n"
proof (induction n rule: show_nat.induct)
  case (1 n)
  show ?case
  proof (cases "n < 10")
    case True
    then show ?thesis by (subst show_nat.simps) (simp add: digit_value_def digit_char)
  next
    case False
    then have "digits_u64 0 (show_nat (n div 10)) = Some (n div 10)" using 1 by simp
    moreover have "show_nat n = show_nat (n div 10) @ [char_of (48 + n mod 10)]"
      using False by (subst show_nat.simps) simp
    moreover have "n div 10 * 10 + n mod 10 = n" by simp
    ultimately show ?thesis
      using 1(2) digit_char [of "n mod 10"] by (simp add: digits_u64_append digit_value_def)
  qed
qed

lemma parse_u64_padded: "n < 2 ^ 64 \<Longrightarrow> parse_u64 (padded w n) = Some n"
proof -
  assume n: "n < 2 ^ 64"
  have parsed: "digits_u64 0 (padded w n) = Some n"
    unfolding padded_def Let_def digits_u64_zeros by (rule digits_u64_show_nat [OF n])
  obtain c cs where c: "padded w n = c # cs" "48 \<le> (of_char c :: nat)"
    using decimal_padded [of w n] by (cases "padded w n") (auto simp: decimal_def)
  then have "c \<noteq> CHR ''+''" by auto
  then show ?thesis using parsed c(1) by (simp add: parse_u64_def del: digits_u64.simps)
qed

lemma split_on_none: "d \<notin> set s \<Longrightarrow> split_on d (s @ d # t) = s # split_on d t"
  by (induction s) auto

lemma split_on_last: "d \<notin> set s \<Longrightarrow> split_on d s = [s]"
  by (induction s) auto

lemma decimal_no_dash: "decimal s \<Longrightarrow> CHR ''-'' \<notin> set s"
  by (auto simp: decimal_def)

section \<open>The property\<close>

lemma days_since: "(n - d * 86400) div 86400 = n div 86400 - (d :: nat)"
proof (cases "d * 86400 \<le> n")
  case True
  then obtain r where "n = d * 86400 + r" by (metis le_iff_add)
  then show ?thesis by simp
next
  case False
  then have "n div 86400 < d" by (simp add: less_mult_imp_div_less)
  then show ?thesis using False by simp
qed

lemma sum_years_bound: "365 * (y - 1970) \<le> sum_list (map days_in_year [1970..<y])"
proof -
  have "365 * length ys \<le> sum_list (map days_in_year ys)" for ys
    by (induction ys) (simp_all add: days_in_year_def)
  from this [of "[1970..<y]"] show ?thesis by simp
qed

text \<open>C22: The date written at an installation is a date of the calendar, the date of that day and no other,
  and it is read back as that day: the age shown later is the number of days that have begun since,
  counted by the calendar, in words; a clock that was set back shows "today".\<close>

theorem installed_ago_counts_days:
  assumes "t < 2 ^ 64"
  shows "1 \<le> dt_month (from_timestamp t) \<and> dt_month (from_timestamp t) \<le> 12
    \<and> 1 \<le> dt_day (from_timestamp t)
    \<and> dt_day (from_timestamp t) \<le> month_days (dt_year (from_timestamp t)) ! (dt_month (from_timestamp t) - 1)
    \<and> (\<forall>u. format_timestamp u = format_timestamp t \<longrightarrow> u < 2 ^ 64 \<longrightarrow> u div 86400 = t div 86400)
    \<and> installed_ago now (format_timestamp t) = Some (age_text (now div 86400 - t div 86400))"
proof -
  have read: "map parse_u64 (split_on (CHR ''-'') (format_timestamp u)) =
      [Some (dt_year (from_timestamp u)), Some (dt_month (from_timestamp u)), Some (dt_day (from_timestamp u))]"
    if u: "u < 2 ^ 64" for u
  proof -
    let ?dt = "from_timestamp u"
    have "365 * (dt_year ?dt - 1970) \<le> u div 86400"
      using sum_years_bound [of "dt_year ?dt"] from_timestamp_date(4,6) [of u]
      by (auto simp: total_days_def)
    moreover have "u div 86400 \<le> 2 ^ 64 div 86400" by (rule div_le_mono) (use u in simp)
    ultimately have "dt_year ?dt - 1970 \<le> 213503982334601" by simp
    then have year: "dt_year ?dt < 2 ^ 64" by simp
    have "month_days (dt_year ?dt) ! (dt_month ?dt - 1) \<le> 31"
      using from_timestamp_date(2,3) [of u] by (intro month_days_le) auto
    then have "dt_month ?dt < 2 ^ 64" "dt_day ?dt < 2 ^ 64" using from_timestamp_date(3,5) [of u] by auto
    then show ?thesis
      using year by (simp add: format_timestamp_def Let_def split_on_none split_on_last decimal_no_dash
          decimal_padded parse_u64_padded)
  qed
  have days: "total_days (dt_year (from_timestamp u)) (dt_month (from_timestamp u)) (dt_day (from_timestamp u))
      = Some (u div 86400)" for u
    by (rule from_timestamp_date(6))
  have same: "u div 86400 = t div 86400" if "format_timestamp u = format_timestamp t" "u < 2 ^ 64" for u
    using read [OF that(2)] read [OF assms] days [of u] days [of t] that(1) by simp
  have "t div 86400 * 86400 < 2 ^ 64" using assms div_times_less_eq_dividend [of t 86400] by linarith
  moreover have "(now - t div 86400 * 86400) div 86400 = now div 86400 - t div 86400"
    by (rule days_since)
  ultimately show ?thesis
    using read [OF assms] days [of t] same from_timestamp_date(2-5) [of t]
    by (simp add: installed_ago_def parse_and_format_relative_time_def)
qed

theorem installed_ago_counts_days_witness:
  "installed_ago 951868800 (format_timestamp 951782400) = Some ''yesterday''"
proof -
  have "(951782400 :: nat) < 2 ^ 64" by simp
  from installed_ago_counts_days [OF this, of 951868800] show ?thesis by (simp add: age_text_def)
qed

end
