(* ===== verification/TuiKeys.thy ===== *)
theory TuiKeys
  imports TuiApp Dates
begin

text \<open>
  The handling of keys (\<open>apps/infs/src/tui/app.rs\<close>): editing of the command line, its history and
  completion, the commands, the keys of each screen; the computations of the drawing that can panic
  (\<open>tui/views/main_view.rs\<close>, \<open>tui/views/toolchain_view.rs\<close>); and the event loop with the messages of background tasks.
\<close>

section \<open>Editing\<close>

definition set_input :: "chars \<Rightarrow> nat \<Rightarrow> app \<Rightarrow> app" where
  "set_input s k a = a\<lparr>app_command_input := s, app_cursor_pos := k\<rparr>"

definition insert_char :: "nat \<Rightarrow> app \<Rightarrow> app option" where
  "insert_char c a =
     do { s \<leftarrow> str_insert (app_cursor_pos a) c (app_command_input a);
          Some (set_input s (app_cursor_pos a + len_utf8 c) a) }"

text \<open>\<open>char_indices().last().map_or(0, ..)\<close> of the text before the cursor.\<close>

definition prev_char_start :: "app \<Rightarrow> nat option" where
  "prev_char_start a =
     do { (before, after) \<leftarrow> split_at (app_cursor_pos a) (app_command_input a);
          Some (if before = [] then 0 else fst (last (char_indices 0 before))) }"

definition backspace :: "app \<Rightarrow> app option" where
  "backspace a =
     (if 0 < app_cursor_pos a then
        do { k \<leftarrow> prev_char_start a;
             s \<leftarrow> str_remove k (app_command_input a);
             Some (set_input s k a) }
      else Some a)"

definition delete_char :: "app \<Rightarrow> app option" where
  "delete_char a =
     (if app_cursor_pos a < str_len (app_command_input a) then
        do { s \<leftarrow> str_remove (app_cursor_pos a) (app_command_input a);
             Some (set_input s (app_cursor_pos a) a) }
      else Some a)"

definition move_cursor_left :: "app \<Rightarrow> app option" where
  "move_cursor_left a =
     (if 0 < app_cursor_pos a then do { k \<leftarrow> prev_char_start a; Some (a\<lparr>app_cursor_pos := k\<rparr>) } else Some a)"

definition move_cursor_right :: "app \<Rightarrow> app option" where
  "move_cursor_right a =
     (if app_cursor_pos a < str_len (app_command_input a) then
        do { (before, after) \<leftarrow> split_at (app_cursor_pos a) (app_command_input a);
             case after of
               [] \<Rightarrow> Some a
             | c # _ \<Rightarrow> Some (a\<lparr>app_cursor_pos := app_cursor_pos a + len_utf8 c\<rparr>) }
      else Some a)"

text \<open>To the end of the last blank before the word before the cursor; the second assignment of the code
  is for a cursor that did not move.\<close>

definition move_cursor_word_left :: "app \<Rightarrow> app option" where
  "move_cursor_word_left a =
     (if app_cursor_pos a = 0 then Some a
      else
        do { (before, after) \<leftarrow> split_at (app_cursor_pos a) (app_command_input a);
             let new_pos =
                   (case dropWhile (\<lambda>(i, c). \<not> is_whitespace c)
                           (dropWhile (\<lambda>(i, c). is_whitespace c) (rev (char_indices 0 before))) of
                      [] \<Rightarrow> 0
                    | (i, c) # _ \<Rightarrow> i + len_utf8 c);
             Some (a\<lparr>app_cursor_pos := (if new_pos = app_cursor_pos a then 0 else new_pos)\<rparr>) })"

definition move_cursor_word_right :: "app \<Rightarrow> app option" where
  "move_cursor_word_right a =
     (if str_len (app_command_input a) \<le> app_cursor_pos a then Some a
      else
        do { (before, after) \<leftarrow> split_at (app_cursor_pos a) (app_command_input a);
             let skip =
                   (case dropWhile (\<lambda>(i, c). is_whitespace c)
                           (dropWhile (\<lambda>(i, c). \<not> is_whitespace c) (char_indices 0 after)) of
                      [] \<Rightarrow> str_len after
                    | (i, c) # _ \<Rightarrow> i);
             Some (a\<lparr>app_cursor_pos := app_cursor_pos a + skip\<rparr>) })"

section \<open>History and completion\<close>

definition history_previous :: "app \<Rightarrow> app" where
  "history_previous a =
     (let (r, h) = command_history_previous (app_command_input a) (app_command_history a);
          a1 = a\<lparr>app_command_history := h\<rparr>
      in case r of None \<Rightarrow> a1 | Some cmd \<Rightarrow> set_input cmd (str_len cmd) a1)"

definition history_next :: "app \<Rightarrow> app" where
  "history_next a =
     (let (r, h) = command_history_next (app_command_history a);
          a1 = a\<lparr>app_command_history := h\<rparr>
      in case r of None \<Rightarrow> a1 | Some cmd \<Rightarrow> set_input cmd (str_len cmd) a1)"

definition KNOWN_COMMANDS :: "string list" where
  "KNOWN_COMMANDS =
     [''build'', ''run'', ''verify'', ''new'', ''install'', ''doctor'', ''help'', ''version'', ''quit'',
      ''toolchains'', ''exit'']"

definition command_hint :: string where
  "command_hint = ''Enter command (Esc to cancel, Tab to complete)''"

definition tab_complete :: "surroundings \<Rightarrow> app \<Rightarrow> app" where
  "tab_complete e a =
     (let input = env_lowercase e (trim (app_command_input a));
          matches = filter (\<lambda>cmd. starts_with input (chars_of cmd)) KNOWN_COMMANDS
      in if input = [] then a
         else
           (case matches of
              [] \<Rightarrow> status ''No matching command'' a
            | [m] \<Rightarrow> status command_hint (set_input (chars_of m) (str_len (chars_of m)) a)
            | _ \<Rightarrow> status (''Matches: '' @ join '', '' matches) a))"

section \<open>Commands\<close>

text \<open>The output of a quick command is cut at byte 57; a cut inside a character is a panic.\<close>

definition run_quick_command :: "surroundings \<Rightarrow> string list \<Rightarrow> app \<Rightarrow> app option" where
  "run_quick_command e args a =
     (case env_output e args of
        Inl err \<Rightarrow> Some (a\<lparr>app_status_message := chars_of ''Failed to run command: '' @ err\<rparr>)
      | Inr (stdout, stderr) \<Rightarrow>
          (let combined = (if stdout = [] then stderr else stdout);
               line = (case first_line combined of Some l \<Rightarrow> l | None \<Rightarrow> chars_of ''(no output)'')
           in if 60 < str_len line then
                do { (front, rest) \<leftarrow> split_at 57 line;
                     Some (a\<lparr>app_status_message := front @ chars_of ''...''\<rparr>) }
              else Some (a\<lparr>app_status_message := line\<rparr>)))"

definition execute_command :: "surroundings \<Rightarrow> app \<Rightarrow> app option" where
  "execute_command e a0 =
     (let command = env_lowercase e (trim (app_command_input a0));
          a = (set_input [] 0 a0)\<lparr>app_input_mode := Normal\<rparr>
      in if command = [] then Some (status ''No command entered'' a)
         else
           (let a1 = a\<lparr>app_command_history :=
                   reset_navigation (history_push (app_command_input a0) (app_command_history a))\<rparr>
            in if command \<in> set (map chars_of [''q'', ''quit'', ''exit'']) then Some (a1\<lparr>app_should_quit := True\<rparr>)
               else if command \<in> set (map chars_of [''toolchains'', ''t'']) then Some (navigate_to e Screen_Toolchains a1)
               else if command \<in> set (map chars_of [''doctor'', ''d'']) then Some (navigate_to e Screen_Doctor a1)
               else if command \<in> set (map chars_of [''build'', ''new'', ''install'', ''run'', ''verify'']) then
                 Some (a1\<lparr>app_pending_command := Some command, app_should_quit := True\<rparr>)
               else if command = chars_of ''help'' then run_quick_command e [''--help''] a1
               else if command = chars_of ''version'' then run_quick_command e [''version''] a1
               else Some (a1\<lparr>app_status_message := chars_of ''Unknown command: '' @ command\<rparr>)))"

section \<open>Keys\<close>

abbreviation key_char :: "char \<Rightarrow> key_code" where
  "key_char c \<equiv> Key_Char (of_char c)"

definition handle_main_key :: "surroundings \<Rightarrow> key_code \<Rightarrow> app \<Rightarrow> app option" where
  "handle_main_key e code a =
     (if code = key_char (CHR ''q'') then Some (a\<lparr>app_should_quit := True\<rparr>)
      else if code = key_char (CHR '':'') then
        Some (status command_hint
          ((set_input [] 0 a)\<lparr>app_input_mode := Command,
              app_command_history := reset_navigation (app_command_history a)\<rparr>))
      else if code = Key_Up \<or> code = key_char (CHR ''k'') then Some (a\<lparr>app_menu := menu_up (app_menu a)\<rparr>)
      else if code = Key_Down \<or> code = key_char (CHR ''j'') then Some (a\<lparr>app_menu := menu_down (app_menu a)\<rparr>)
      else if code = Key_Enter then activate_menu_item e a
      else
        (case code of
           Key_Char c \<Rightarrow>
             (case find_by_key c of
                None \<Rightarrow> Some a
              | Some item \<Rightarrow>
                  if mi_quits item then Some (a\<lparr>app_should_quit := True\<rparr>)
                  else
                    (case mi_screen item of
                       Some sc \<Rightarrow> Some (navigate_to e sc a)
                     | None \<Rightarrow> Some a))
         | _ \<Rightarrow> Some a))"

definition show_versions :: "surroundings \<Rightarrow> app \<Rightarrow> app" where
  "show_versions e a =
     navigate_to e Screen_VersionSelect
       (a\<lparr>app_previous_screen := Some Screen_Toolchains, app_version_select_state := version_select_new\<rparr>)"

definition handle_toolchains_key :: "surroundings \<Rightarrow> key_code \<Rightarrow> app \<Rightarrow> app" where
  "handle_toolchains_key e code a =
     (if code = Key_Esc then a\<lparr>app_screen := Screen_Main, app_status_message := main_hint\<rparr>
      else if code = Key_Up \<or> code = key_char (CHR ''k'') then
        a\<lparr>app_toolchains_state := toolchains_previous (app_toolchains_state a)\<rparr>
      else if code = Key_Down \<or> code = key_char (CHR ''j'') then
        a\<lparr>app_toolchains_state := toolchains_next (app_toolchains_state a)\<rparr>
      else if code = key_char (CHR ''i'') then show_versions e a
      else if code = Key_Enter then
        (if ts_toolchains (app_toolchains_state a) = [] then show_versions e a
         else set_selected_toolchain_as_default e a)
      else a)"

definition handle_doctor_key :: "surroundings \<Rightarrow> key_code \<Rightarrow> app \<Rightarrow> app" where
  "handle_doctor_key e code a =
     (if code = Key_Esc then a\<lparr>app_screen := Screen_Main, app_status_message := main_hint\<rparr>
      else if code = Key_Up \<or> code = key_char (CHR ''k'') then
        a\<lparr>app_doctor_state := doctor_previous (app_doctor_state a)\<rparr>
      else if code = Key_Down \<or> code = key_char (CHR ''j'') then
        a\<lparr>app_doctor_state := doctor_next (app_doctor_state a)\<rparr>
      else if code = key_char (CHR ''r'') then load_doctor_data e a
      else a)"

definition handle_progress_key :: "surroundings \<Rightarrow> key_code \<Rightarrow> app \<Rightarrow> app" where
  "handle_progress_key e code a =
     (if code = Key_Esc then
        (if ps_completed (app_progress_state a) then return_from_progress e a else cancel_installation a)
      else a)"

definition handle_version_select_key :: "surroundings \<Rightarrow> key_code \<Rightarrow> app \<Rightarrow> app" where
  "handle_version_select_key e code a =
     (if code = Key_Esc then
        navigate_to e (case app_previous_screen a of Some sc \<Rightarrow> sc | None \<Rightarrow> Screen_Main)
          (a\<lparr>app_previous_screen := None, app_version_load_receiver := False\<rparr>)
      else if code = Key_Up \<or> code = key_char (CHR ''k'') then
        a\<lparr>app_version_select_state := versions_previous (app_version_select_state a)\<rparr>
      else if code = Key_Down \<or> code = key_char (CHR ''j'') then
        a\<lparr>app_version_select_state := versions_next (app_version_select_state a)\<rparr>
      else if code = Key_Enter then
        (if can_install_selected (app_version_select_state a) then
           (case selected_version (app_version_select_state a) of
              Some v \<Rightarrow> start_installation (Some (vi_version v)) a
            | None \<Rightarrow> a)
         else status ''Selected version is not available for your platform'' a)
      else a)"

definition handle_normal_key :: "surroundings \<Rightarrow> key_code \<Rightarrow> app \<Rightarrow> app option" where
  "handle_normal_key e code a =
     (case app_screen a of
        Screen_Main \<Rightarrow> handle_main_key e code a
      | Screen_Toolchains \<Rightarrow> Some (handle_toolchains_key e code a)
      | Screen_Doctor \<Rightarrow> Some (handle_doctor_key e code a)
      | Screen_Progress \<Rightarrow> Some (handle_progress_key e code a)
      | Screen_VersionSelect \<Rightarrow> Some (handle_version_select_key e code a))"

fun handle_command_key :: "surroundings \<Rightarrow> key_code \<Rightarrow> bool \<Rightarrow> app \<Rightarrow> app option" where
  "handle_command_key e Key_Esc control a =
     Some (status ''Command cancelled''
       ((set_input [] 0 a)\<lparr>app_input_mode := Normal,
           app_command_history := reset_navigation (app_command_history a)\<rparr>))"
| "handle_command_key e Key_Enter control a = execute_command e a"
| "handle_command_key e Key_Backspace control a = backspace a"
| "handle_command_key e Key_Delete control a = delete_char a"
| "handle_command_key e Key_Left control a = (if control then move_cursor_word_left a else move_cursor_left a)"
| "handle_command_key e Key_Right control a = (if control then move_cursor_word_right a else move_cursor_right a)"
| "handle_command_key e Key_Home control a = Some (a\<lparr>app_cursor_pos := 0\<rparr>)"
| "handle_command_key e Key_End control a = Some (a\<lparr>app_cursor_pos := str_len (app_command_input a)\<rparr>)"
| "handle_command_key e Key_Up control a = Some (history_previous a)"
| "handle_command_key e Key_Down control a = Some (history_next a)"
| "handle_command_key e Key_Tab control a = Some (tab_complete e a)"
| "handle_command_key e (Key_Char c) control a = insert_char c a"
| "handle_command_key e Key_Other control a = Some a"

definition handle_key :: "surroundings \<Rightarrow> key_code \<Rightarrow> bool \<Rightarrow> app \<Rightarrow> app option" where
  "handle_key e code control a =
     (if control \<and> code = key_char (CHR ''c'') then Some (a\<lparr>app_should_quit := True\<rparr>)
      else
        (case app_input_mode a of
           Normal \<Rightarrow> handle_normal_key e code a
         | Command \<Rightarrow> handle_command_key e code control a))"

section \<open>Background tasks\<close>

text \<open>One message of an installation; the flag says that the receiver is to be dropped.\<close>

fun install_message :: "nat \<Rightarrow> install_progress \<Rightarrow> app \<times> bool \<Rightarrow> app \<times> bool" where
  "install_message now (PhaseStarted phase) (a, clear) =
     (a\<lparr>app_progress_state :=
          update_first (\<lambda>i. i\<lparr>pi_description := phase\<rparr>)
            (set_status (phase @ chars_of ''...'') (app_progress_state a))\<rparr>, clear)"
| "install_message now (DownloadStarted size_in_bytes) (a, clear) =
     (a\<lparr>app_progress_state := update_first (\<lambda>i. item_start now (i\<lparr>pi_total := size_in_bytes\<rparr>)) (app_progress_state a)\<rparr>, clear)"
| "install_message now (DownloadProgress downloaded speed) (a, clear) =
     (a\<lparr>app_progress_state := update_first (update_with_speed downloaded speed) (app_progress_state a)\<rparr>, clear)"
| "install_message now (PhaseCompleted phase) (a, clear) =
     (a\<lparr>app_progress_state := set_status (phase @ chars_of '' - done'') (app_progress_state a)\<rparr>, clear)"
| "install_message now (Completed version) (a, clear) =
     (a\<lparr>app_progress_state :=
          update_first (\<lambda>i. item_complete (i\<lparr>pi_description := chars_of ''Installed v'' @ version\<rparr>))
            (set_status (chars_of ''Toolchain v'' @ version @ chars_of '' installed successfully'')
              (progress_complete (app_progress_state a))),
        app_status_message := chars_of ''Installation complete! Press Esc to return.''\<rparr>, True)"
| "install_message now (Failed err) (a, clear) =
     (a\<lparr>app_progress_state := set_error err (app_progress_state a),
        app_status_message := chars_of ''Installation failed. Press Esc to return.''\<rparr>, True)"

definition poll_install_progress :: "nat \<Rightarrow> install_progress list \<Rightarrow> app \<Rightarrow> app" where
  "poll_install_progress now messages a =
     (if app_install_receiver a = None then a
      else
        (let (a1, clear) = fold (install_message now) messages (a, False)
         in if clear then a1\<lparr>app_install_receiver := None\<rparr> else a1))"

definition poll_version_loading :: "(chars + version_select_info list) option \<Rightarrow> app \<Rightarrow> app" where
  "poll_version_loading r a =
     (if \<not> app_version_load_receiver a then a
      else
        (case r of
           None \<Rightarrow> a
         | Some (Inr versions) \<Rightarrow>
             a\<lparr>app_version_load_receiver := False,
               app_version_select_state := (app_version_select_state a)
                 \<lparr>vs_versions := versions, vs_selected := 0, vs_loaded := True, vs_loading := False\<rparr>\<rparr>
         | Some (Inl err) \<Rightarrow>
             a\<lparr>app_version_load_receiver := False,
               app_version_select_state := (app_version_select_state a)
                 \<lparr>vs_error := Some err, vs_loaded := True, vs_loading := False\<rparr>\<rparr>))"

section \<open>The event loop\<close>

text \<open>
  One round: whether the build has debug assertions, so that an overflow panics; the working directory, if it can be read;
  the width of the area of the header and the position of the area of the input line, as the layout of the terminal gives them;
  the messages that have arrived, whether drawing fails, and the key that is pressed, or no
  event, or the failure to read one.
\<close>

record frame =
  fr_env :: surroundings
  fr_debug :: bool
  fr_cwd :: "chars option"
  fr_info_width :: nat
  fr_input_area :: "nat \<times> nat"
  fr_messages :: "install_progress list"
  fr_versions :: "(chars + version_select_info list) option"
  fr_draw_fails :: bool
  fr_event :: "chars + (key_code \<times> bool) option"

datatype outcome = Running app | Exits "chars + chars option"

definition cursor_display_pos :: "app \<Rightarrow> nat option" where
  "cursor_display_pos a = map_option (\<lambda>(before, after). length before) (split_at (app_cursor_pos a) (app_command_input a))"

text \<open>
  What drawing computes besides texts that cannot fail. The main screen shortens the working directory to the last bytes that
  fit, and in command mode puts the cursor behind the border and the colon in 16 bits. The list of toolchains computes the age of each from
  its date; where that leaves the range of \<open>u64\<close>, a debug build panics and a release build goes on with the wrapped number.
  A date with a character that is not ASCII is no date.
\<close>

definition display_cwd :: "nat \<Rightarrow> chars option \<Rightarrow> chars option" where
  "display_cwd width current_dir =
     (let cwd = (case current_dir of Some d \<Rightarrow> d | None \<Rightarrow> chars_of ''<unknown>'');
          max_dir_len = width - 15
      in if max_dir_len < str_len cwd \<and> 3 < max_dir_len then
           map_option (\<lambda>(before, after). chars_of ''...'' @ after) (split_at (str_len cwd - (max_dir_len - 3)) cwd)
         else Some cwd)"

definition input_cursor :: "bool \<Rightarrow> nat \<times> nat \<Rightarrow> nat \<Rightarrow> (nat \<times> nat) option" where
  "input_cursor debug area cursor_pos =
     (let x = fst area + 1 + 1 + cursor_pos mod 2 ^ 16; y = snd area + 1
      in if debug \<and> (2 ^ 16 \<le> x \<or> 2 ^ 16 \<le> y) then None else Some (x mod 2 ^ 16, y mod 2 ^ 16))"

definition main_view_render :: "frame \<Rightarrow> app \<Rightarrow> unit option" where
  "main_view_render f a =
     do { cursor_pos \<leftarrow> cursor_display_pos a;
          display_cwd (fr_info_width f) (fr_cwd f);
          if app_input_mode a = Command then map_option (\<lambda>_. ()) (input_cursor (fr_debug f) (fr_input_area f) cursor_pos)
          else Some () }"

definition is_date :: "chars \<Rightarrow> bool" where
  "is_date s \<longleftrightarrow> (\<forall>c\<in>set s. c < 128)"

definition metadata_age :: "bool \<Rightarrow> nat \<Rightarrow> toolchain_metadata \<Rightarrow> unit option" where
  "metadata_age debug now_secs m =
     (if debug \<and> is_date (tm_installed_at m) \<and> installed_ago now_secs (map char_of (tm_installed_at m)) = None
      then None else Some ())"

definition toolchain_view_render :: "frame \<Rightarrow> app \<Rightarrow> unit option" where
  "toolchain_view_render f a =
     fold_opt (\<lambda>t u. case ti_metadata t of None \<Rightarrow> Some u | Some m \<Rightarrow> metadata_age (fr_debug f) (env_now (fr_env f)) m)
       (ts_toolchains (app_toolchains_state a)) ()"

definition render :: "frame \<Rightarrow> app \<Rightarrow> unit option" where
  "render f a =
     (case app_screen a of
        Screen_Main \<Rightarrow> main_view_render f a
      | Screen_Toolchains \<Rightarrow> toolchain_view_render f a
      | _ \<Rightarrow> Some ())"

definition app_round :: "frame \<Rightarrow> app \<Rightarrow> outcome option" where
  "app_round f a0 =
     (let a = poll_version_loading (fr_versions f)
                (poll_install_progress (env_now (fr_env f)) (fr_messages f) a0)
      in do { render f a;
              if fr_draw_fails f then Some (Exits (Inl (chars_of ''failed to draw frame'')))
              else
                  (case fr_event f of
                     Inl err \<Rightarrow> Some (Exits (Inl err))
                   | Inr ev \<Rightarrow>
                       do { a1 \<leftarrow> (case ev of
                                    None \<Rightarrow> Some a
                                  | Some (code, control) \<Rightarrow> handle_key (fr_env f) code control a);
                            Some (if app_should_quit a1 then Exits (Inr (app_pending_command a1))
                                  else Running a1) }) })"

fun run_app :: "frame list \<Rightarrow> app \<Rightarrow> outcome option" where
  "run_app [] a = Some (Running a)"
| "run_app (f # fs) a =
     do { r \<leftarrow> app_round f a;
          case r of
            Running a1 \<Rightarrow> run_app fs a1
          | Exits x \<Rightarrow> Some (Exits x) }"

end
