(* ===== verification/TuiFacts.thy ===== *)
theory TuiFacts
  imports TuiKeys
begin

text \<open>
  The contract of a list with a selection, met by the three lists of the interface; the command line as
  a text with a gap at the cursor; the invariant of the application and that every handler keeps it.
\<close>

section \<open>Lists with a selection\<close>

locale selection =
  fixes items :: "'s \<Rightarrow> 'i list" and selected :: "'s \<Rightarrow> nat" and up :: "'s \<Rightarrow> 's" and down :: "'s \<Rightarrow> 's"
  assumes items_kept: "items (up s) = items s" "items (down s) = items s"
    and up_selects: "items s \<noteq> [] \<Longrightarrow> selected (up s) = selected s - 1"
    and down_selects: "items s \<noteq> [] \<Longrightarrow> selected (down s) = min (selected s + 1) (length (items s) - 1)"
    and empty_stays: "items s = [] \<Longrightarrow> up s = s" "items s = [] \<Longrightarrow> down s = s"
begin

definition in_view :: "'s \<Rightarrow> bool" where
  "in_view s \<longleftrightarrow> items s = [] \<or> selected s < length (items s)"

lemma up_in_view: "in_view s \<Longrightarrow> in_view (up s)"
  by (cases "items s = []") (auto simp: in_view_def items_kept up_selects)

lemma down_in_view: "in_view s \<Longrightarrow> in_view (down s)"
proof (cases "items s = []")
  case False
  then have "min (selected s + 1) (length (items s) - 1) < length (items s)" by (cases "items s") auto
  then show ?thesis using False by (simp add: in_view_def items_kept down_selects)
qed (simp add: empty_stays)

text \<open>Every entry is reached from the first one.\<close>

lemma down_reaches:
  assumes "items s \<noteq> []" "selected s = 0"
  shows "i < length (items s) \<Longrightarrow> items ((down ^^ i) s) = items s \<and> selected ((down ^^ i) s) = i"
proof (induction i)
  case (Suc i)
  then show ?case using assms(1) by (simp add: items_kept down_selects)
qed (use assms in simp)

end

interpretation tools: selection ts_toolchains ts_selected toolchains_previous toolchains_next
  by unfold_locales (simp_all add: toolchains_previous_def toolchains_next_def)

interpretation doctor: selection ds_checks ds_selected doctor_previous doctor_next
  by unfold_locales (simp_all add: doctor_previous_def doctor_next_def)

interpretation versions: selection vs_versions vs_selected versions_previous versions_next
  by unfold_locales (simp_all add: versions_previous_def versions_next_def)

section \<open>The command line\<close>

text \<open>The text before and behind the cursor.\<close>

definition at_gap :: "app \<Rightarrow> chars \<times> chars \<Rightarrow> bool" where
  "at_gap a z \<longleftrightarrow> app_command_input a = fst z @ snd z \<and> app_cursor_pos a = str_len (fst z)"

definition put_gap :: "chars \<times> chars \<Rightarrow> app \<Rightarrow> app" where
  "put_gap z = set_input (fst z @ snd z) (str_len (fst z))"

text \<open>What the editing keys mean there.\<close>

fun edit :: "key_code \<Rightarrow> bool \<Rightarrow> chars \<times> chars \<Rightarrow> chars \<times> chars" where
  "edit (Key_Char c) control (b, a) = (b @ [c], a)"
| "edit Key_Backspace control (b, a) = (butlast b, a)"
| "edit Key_Delete control (b, a) = (b, tl a)"
| "edit Key_Left control (b, a) =
     (if control then
        (let k = length (dropWhile (\<lambda>c. \<not> is_whitespace c) (dropWhile is_whitespace (rev b)))
         in (take k b, drop k b @ a))
      else (butlast b, drop (length b - 1) b @ a))"
| "edit Key_Right control (b, a) =
     (if control then
        (let k = length a - length (dropWhile is_whitespace (dropWhile (\<lambda>c. \<not> is_whitespace c) a))
         in (b @ take k a, drop k a))
      else (b @ take 1 a, drop 1 a))"
| "edit Key_Home control (b, a) = ([], b @ a)"
| "edit Key_End control (b, a) = (b @ a, [])"
| "edit _ control z = z"

definition edit_keys :: "key_code set" where
  "edit_keys = range Key_Char \<union> {Key_Backspace, Key_Delete, Key_Left, Key_Right, Key_Home, Key_End}"

lemma put_gap_same: "at_gap a z \<Longrightarrow> put_gap z a = a"
  by (simp add: at_gap_def put_gap_def set_input_def)

lemma put_gap_at: "at_gap (put_gap z a) z"
  by (simp add: at_gap_def put_gap_def set_input_def)

lemma split_at_gap: "at_gap a (b, c) \<Longrightarrow> split_at (app_cursor_pos a) (app_command_input a) = Some (b, c)"
  by (simp add: at_gap_def)

lemma last_char_index: "b \<noteq> [] \<Longrightarrow> fst (last (char_indices 0 b)) = str_len (butlast b)"
  by (cases b rule: rev_cases) simp_all

lemma prev_char_start_gap: "at_gap a (b, c) \<Longrightarrow> prev_char_start a = Some (str_len (butlast b))"
  by (simp add: prev_char_start_def split_at_gap last_char_index)

lemma dropWhile_indices:
  "dropWhile (\<lambda>(i, c). P c) (char_indices k s) =
     char_indices (k + str_len (takeWhile P s)) (dropWhile P s)"
  by (induction s arbitrary: k) (simp_all add: add.assoc)

lemma insert_char_gap: "at_gap a (b, c) \<Longrightarrow> insert_char x a = Some (put_gap (b @ [x], c) a)"
  by (simp add: insert_char_def str_insert_def at_gap_def put_gap_def)

lemma backspace_gap: "at_gap a (b, c) \<Longrightarrow> backspace a = Some (put_gap (butlast b, c) a)"
proof (cases b rule: rev_cases)
  case Nil
  moreover assume "at_gap a (b, c)"
  ultimately show ?thesis using put_gap_same [of a "(b, c)"] by (simp add: backspace_def at_gap_def)
next
  case (snoc b' x)
  moreover assume "at_gap a (b, c)"
  ultimately show ?thesis
    by (simp add: backspace_def prev_char_start_gap put_gap_def) (simp add: at_gap_def)
qed

lemma delete_char_gap: "at_gap a (b, c) \<Longrightarrow> delete_char a = Some (put_gap (b, tl c) a)"
  by (cases c) (simp_all add: delete_char_def at_gap_def put_gap_def set_input_def)

lemma cursor_update: "at_gap a (b, c) \<Longrightarrow> b' @ c' = b @ c \<Longrightarrow> a\<lparr>app_cursor_pos := str_len b'\<rparr> = put_gap (b', c') a"
  by (simp add: at_gap_def put_gap_def set_input_def)

lemma move_cursor_left_gap:
  "at_gap a (b, c) \<Longrightarrow> move_cursor_left a = Some (put_gap (butlast b, drop (length b - 1) b @ c) a)"
proof (cases b rule: rev_cases)
  case Nil
  moreover assume "at_gap a (b, c)"
  ultimately show ?thesis using put_gap_same [of a "(b, c)"] by (simp add: move_cursor_left_def at_gap_def)
next
  case (snoc b' x)
  moreover assume gap: "at_gap a (b, c)"
  ultimately show ?thesis
    using cursor_update [OF gap, of b' "x # c"]
    by (simp add: move_cursor_left_def prev_char_start_gap) (simp add: at_gap_def)
qed

lemma move_cursor_right_gap: "at_gap a (b, c) \<Longrightarrow> move_cursor_right a = Some (put_gap (b @ take 1 c, drop 1 c) a)"
proof (cases c)
  case Nil
  moreover assume "at_gap a (b, c)"
  ultimately show ?thesis using put_gap_same [of a "(b, c)"] by (simp add: move_cursor_right_def at_gap_def)
next
  case (Cons x c')
  moreover assume gap: "at_gap a (b, c)"
  ultimately show ?thesis
    using cursor_update [OF gap, of "b @ [x]" c']
    by (simp add: move_cursor_right_def split_at_gap) (simp add: at_gap_def)
qed

lemma rev_indices:
  "dropWhile (\<lambda>(i, c). P c) (rev (char_indices k s)) = rev (char_indices k (rev (dropWhile P (rev s))))"
  by (induction s arbitrary: k rule: rev_induct) simp_all

lemma rev_dropWhile_take: "rev (dropWhile P (rev s)) = take (length (dropWhile P (rev s))) s"
proof -
  have "rev s = takeWhile P (rev s) @ dropWhile P (rev s)" by simp
  then have "s = rev (dropWhile P (rev s)) @ rev (takeWhile P (rev s))" by (metis rev_append rev_rev_ident)
  then show ?thesis by (metis append_eq_conv_conj length_rev)
qed

lemma dropWhile_twice:
  assumes "s \<noteq> []"
  shows "length (dropWhile (\<lambda>c. \<not> P c) (dropWhile P s)) < length s"
    "length (dropWhile P (dropWhile (\<lambda>c. \<not> P c) s)) < length s"
proof -
  have le: "length (dropWhile Q t) \<le> length t" for Q :: "'a \<Rightarrow> bool" and t
    by (rule length_dropWhile_le)
  obtain c t where s: "s = c # t" using assms by (cases s) auto
  show "length (dropWhile (\<lambda>c. \<not> P c) (dropWhile P s)) < length s"
    "length (dropWhile P (dropWhile (\<lambda>c. \<not> P c) s)) < length s"
    using le [of P t] le [of "\<lambda>c. \<not> P c" t] le [of "\<lambda>c. \<not> P c" "dropWhile P t"] le [of P "dropWhile (\<lambda>c. \<not> P c) t"]
    by (auto simp: s le_imp_less_Suc)
qed

lemma word_before:
  defines "blank \<equiv> (\<lambda>(i, c). is_whitespace c)" and "word \<equiv> (\<lambda>(i, c). \<not> is_whitespace c)"
  shows "(case dropWhile word (dropWhile blank (rev (char_indices 0 b))) of
       [] \<Rightarrow> 0 | (i, c) # _ \<Rightarrow> i + len_utf8 c)
     = str_len (take (length (dropWhile (\<lambda>c. \<not> is_whitespace c) (dropWhile is_whitespace (rev b)))) b)"
proof -
  let ?s = "rev (dropWhile (\<lambda>c. \<not> is_whitespace c) (dropWhile is_whitespace (rev b)))"
  have "?s = take (length ?s) b"
    using rev_dropWhile_take [of is_whitespace b]
      rev_dropWhile_take [of "\<lambda>c. \<not> is_whitespace c" "rev (dropWhile is_whitespace (rev b))"]
    by (metis (no_types, lifting) append_eq_conv_conj append_take_drop_id length_rev length_take min.absorb2
        length_dropWhile_le rev_rev_ident take_take)
  moreover have "dropWhile word (dropWhile blank (rev (char_indices 0 b))) = rev (char_indices 0 ?s)"
    by (simp add: blank_def word_def rev_indices)
  moreover have "(case rev (char_indices 0 s) of [] \<Rightarrow> 0 | (i, c) # _ \<Rightarrow> i + len_utf8 c) = str_len s" for s
    by (cases s rule: rev_cases) simp_all
  ultimately show ?thesis by simp
qed

lemma move_cursor_word_left_gap:
  assumes gap: "at_gap a (b, c)"
  shows "move_cursor_word_left a = Some (put_gap (edit Key_Left True (b, c)) a)"
proof (cases "b = []")
  case True
  then show ?thesis using put_gap_same [OF gap] gap by (simp add: move_cursor_word_left_def at_gap_def)
next
  case False
  define k where "k = length (dropWhile (\<lambda>c. \<not> is_whitespace c) (dropWhile is_whitespace (rev b)))"
  have "k < length b" using dropWhile_twice(1) [of "rev b" is_whitespace] False by (simp add: k_def)
  then have "str_len (drop k b) \<noteq> 0" by simp
  moreover have "str_len (take k b) + str_len (drop k b) = str_len b"
    by (metis append_take_drop_id str_len_simps(3))
  ultimately have "str_len (take k b) \<noteq> str_len b" by linarith
  then have moved: "str_len (take k b) \<noteq> app_cursor_pos a" using gap by (simp add: at_gap_def)
  have "app_cursor_pos a \<noteq> 0" using False gap by (simp add: at_gap_def)
  then have "move_cursor_word_left a = Some (a\<lparr>app_cursor_pos := str_len (take k b)\<rparr>)"
    using moved by (simp add: move_cursor_word_left_def split_at_gap [OF gap] word_before k_def Let_def)
  also have "\<dots> = Some (put_gap (take k b, drop k b @ c) a)"
    using cursor_update [OF gap, of "take k b" "drop k b @ c"] by simp
  finally show ?thesis by (simp add: k_def Let_def)
qed

lemma word_after:
  defines "blank \<equiv> (\<lambda>(i, c). is_whitespace c)" and "word \<equiv> (\<lambda>(i, c). \<not> is_whitespace c)"
  shows "(case dropWhile blank (dropWhile word (char_indices 0 s)) of [] \<Rightarrow> str_len s | (i, c) # _ \<Rightarrow> i)
     = str_len (take (length s - length (dropWhile is_whitespace (dropWhile (\<lambda>c. \<not> is_whitespace c) s))) s)"
proof -
  define w where "w = takeWhile (\<lambda>c. \<not> is_whitespace c) s"
  define u where "u = takeWhile is_whitespace (dropWhile (\<lambda>c. \<not> is_whitespace c) s)"
  define r where "r = dropWhile is_whitespace (dropWhile (\<lambda>c. \<not> is_whitespace c) s)"
  have s: "s = w @ u @ r" by (simp add: w_def u_def r_def)
  have "dropWhile blank (dropWhile word (char_indices 0 s)) = char_indices (str_len (w @ u)) r"
    by (simp add: blank_def word_def dropWhile_indices w_def u_def r_def)
  moreover have "(case char_indices (str_len (w @ u)) r of [] \<Rightarrow> str_len s | (i, c) # _ \<Rightarrow> i) = str_len (w @ u)"
    by (cases r) (simp_all add: s)
  moreover have "take (length s - length r) s = w @ u" by (simp add: s)
  ultimately show ?thesis by (simp add: r_def)
qed

lemma move_cursor_word_right_gap:
  assumes gap: "at_gap a (b, c)"
  shows "move_cursor_word_right a = Some (put_gap (edit Key_Right True (b, c)) a)"
proof (cases "c = []")
  case True
  then show ?thesis using put_gap_same [OF gap] gap by (simp add: move_cursor_word_right_def at_gap_def)
next
  case False
  define k where "k = length c - length (dropWhile is_whitespace (dropWhile (\<lambda>c. \<not> is_whitespace c) c))"
  have "\<not> str_len (app_command_input a) \<le> app_cursor_pos a" using False gap by (simp add: at_gap_def)
  then have "move_cursor_word_right a = Some (a\<lparr>app_cursor_pos := str_len (b @ take k c)\<rparr>)"
    using gap by (simp add: move_cursor_word_right_def split_at_gap [OF gap] word_after k_def Let_def)
      (simp add: at_gap_def)
  also have "\<dots> = Some (put_gap (b @ take k c, drop k c) a)"
    using cursor_update [OF gap, of "b @ take k c" "drop k c"] by simp
  finally show ?thesis by (simp add: k_def Let_def)
qed

section \<open>The invariant\<close>

definition history_ok :: "command_history \<Rightarrow> bool" where
  "history_ok h \<longleftrightarrow> ch_max_size h = 100 \<and> length (ch_commands h) \<le> 100 \<and> [] \<notin> set (ch_commands h)
     \<and> (\<forall>i. ch_index h = Some i \<longrightarrow> i < length (ch_commands h))"

text \<open>The screens from which each screen is entered for a visit.\<close>

fun visited_from :: "screen \<Rightarrow> screen option set" where
  "visited_from Screen_Progress = {Some Screen_VersionSelect}"
| "visited_from Screen_VersionSelect = {None, Some Screen_Toolchains}"
| "visited_from _ = {None}"

definition pending_commands :: "chars set" where
  "pending_commands = set (map chars_of [''build'', ''new'', ''install'', ''run'', ''verify''])"

definition app_ok :: "app \<Rightarrow> bool" where
  "app_ok a \<longleftrightarrow>
     (\<exists>z. at_gap a z)
     \<and> (app_input_mode a = Normal \<longrightarrow> app_command_input a = [])
     \<and> (app_input_mode a = Command \<longrightarrow> app_screen a = Screen_Main)
     \<and> app_menu a < length MENU_ITEMS
     \<and> tools.in_view (app_toolchains_state a)
     \<and> doctor.in_view (app_doctor_state a)
     \<and> versions.in_view (app_version_select_state a)
     \<and> history_ok (app_command_history a)
     \<and> app_previous_screen a \<in> visited_from (app_screen a)
     \<and> (\<forall>c. app_pending_command a = Some c \<longrightarrow> c \<in> pending_commands)"

lemmas in_view_defs = tools.in_view_def doctor.in_view_def versions.in_view_def

lemma app_okD:
  assumes "app_ok a"
  shows "\<exists>z. at_gap a z" "app_input_mode a = Normal \<Longrightarrow> app_command_input a = []"
    "app_input_mode a = Command \<Longrightarrow> app_screen a = Screen_Main" "app_menu a < length MENU_ITEMS"
    "history_ok (app_command_history a)" "app_previous_screen a \<in> visited_from (app_screen a)"
  using assms by (simp_all add: app_ok_def)

lemma default_app_ok: "app_ok default_app"
  by (simp add: app_ok_def default_app_def at_gap_def MENU_ITEMS_def in_view_defs history_ok_def history_new_def
      toolchains_new_def doctor_new_def version_select_new_def)

text \<open>Updates that leave everything the invariant reads.\<close>

lemma app_ok_updates [simp]:
  "app_ok (a\<lparr>app_status_message := m\<rparr>) = app_ok a"
  "app_ok (a\<lparr>app_should_quit := q\<rparr>) = app_ok a"
  "app_ok (a\<lparr>app_progress_state := p\<rparr>) = app_ok a"
  "app_ok (a\<lparr>app_install_receiver := r\<rparr>) = app_ok a"
  "app_ok (a\<lparr>app_version_load_receiver := b\<rparr>) = app_ok a"
  "app_ok (status t a) = app_ok a"
  by (simp_all add: app_ok_def at_gap_def status_def)

lemma app_ok_lists:
  "app_ok a \<Longrightarrow> tools.in_view t \<Longrightarrow> app_ok (a\<lparr>app_toolchains_state := t\<rparr>)"
  "app_ok a \<Longrightarrow> doctor.in_view d \<Longrightarrow> app_ok (a\<lparr>app_doctor_state := d\<rparr>)"
  "app_ok a \<Longrightarrow> versions.in_view v \<Longrightarrow> app_ok (a\<lparr>app_version_select_state := v\<rparr>)"
  "app_ok a \<Longrightarrow> m < length MENU_ITEMS \<Longrightarrow> app_ok (a\<lparr>app_menu := m\<rparr>)"
  by (simp_all add: app_ok_def at_gap_def)

lemma app_ok_in_view:
  "app_ok a \<Longrightarrow> tools.in_view (app_toolchains_state a)"
  "app_ok a \<Longrightarrow> doctor.in_view (app_doctor_state a)"
  "app_ok a \<Longrightarrow> versions.in_view (app_version_select_state a)"
  by (simp_all add: app_ok_def)

text \<open>Loading data touches nothing but the list it loads and the message.\<close>

lemma load_toolchain_data_ok: "app_ok a \<Longrightarrow> app_ok (load_toolchain_data e a)"
  by (auto simp: load_toolchain_data_def Let_def app_ok_lists tools.in_view_def split: option.split sum.split prod.split)

lemma load_toolchain_data_frame [simp]:
  "app_screen (load_toolchain_data e a) = app_screen a"
  "app_input_mode (load_toolchain_data e a) = app_input_mode a"
  "app_previous_screen (load_toolchain_data e a) = app_previous_screen a"
  "app_should_quit (load_toolchain_data e a) = app_should_quit a"
  "app_progress_state (load_toolchain_data e a) = app_progress_state a"
  "app_install_receiver (load_toolchain_data e a) = app_install_receiver a"
  by (simp_all add: load_toolchain_data_def Let_def split: option.split sum.split)

lemma load_doctor_data_ok: "app_ok a \<Longrightarrow> app_ok (load_doctor_data e a)"
  by (simp add: load_doctor_data_def app_ok_lists doctor.in_view_def)

lemma load_version_data_ok: "app_ok a \<Longrightarrow> app_ok (load_version_data e a)"
  using app_ok_in_view(3) [of a]
  by (simp add: load_version_data_def app_ok_def at_gap_def versions.in_view_def)

lemma navigate_to_ok:
  assumes ok: "app_ok (a\<lparr>app_screen := sc\<rparr>)"
  shows "app_ok (navigate_to e sc a)"
  using ok load_toolchain_data_ok [OF ok] load_doctor_data_ok [OF ok] load_version_data_ok [OF ok]
  by (cases sc) (simp_all add: navigate_to_def Let_def)

lemma navigate_to_screen [simp]: "app_screen (navigate_to e sc a) = sc"
  by (simp add: navigate_to_def Let_def status_def load_doctor_data_def load_version_data_def split: screen.split)

lemma app_ok_screen:
  "app_ok a \<Longrightarrow> app_input_mode a = Normal \<Longrightarrow> app_previous_screen a \<in> visited_from sc \<Longrightarrow>
   app_ok (a\<lparr>app_screen := sc\<rparr>)"
  by (auto simp: app_ok_def at_gap_def)

lemma app_ok_visit:
  "app_ok a \<Longrightarrow> app_input_mode a = Normal \<Longrightarrow> p \<in> visited_from sc \<Longrightarrow>
   app_ok (a\<lparr>app_previous_screen := p, app_screen := sc\<rparr>)"
  by (auto simp: app_ok_def at_gap_def)

section \<open>Every step keeps the invariant\<close>

lemma edit_gap:
  assumes "at_gap a z" "k \<in> edit_keys"
  shows "handle_command_key e k control a = Some (put_gap (edit k control z) a)"
proof -
  obtain b c where z: "z = (b, c)" by (cases z)
  note gap = assms(1) [unfolded z]
  from assms(2) consider x where "k = Key_Char x" | "k = Key_Backspace" | "k = Key_Delete" | "k = Key_Left"
    | "k = Key_Right" | "k = Key_Home" | "k = Key_End" by (auto simp: edit_keys_def)
  then show ?thesis
  proof cases
    case 4
    then show ?thesis
      by (cases control) (simp_all add: z move_cursor_word_left_gap [OF gap] move_cursor_left_gap [OF gap])
  next
    case 5
    then show ?thesis
      by (cases control) (simp_all add: z move_cursor_word_right_gap [OF gap] move_cursor_right_gap [OF gap])
  next
    case 6
    then show ?thesis using gap by (simp add: z at_gap_def put_gap_def set_input_def)
  next
    case 7
    then show ?thesis using gap by (simp add: z at_gap_def put_gap_def set_input_def)
  qed (simp_all add: z insert_char_gap [OF gap] backspace_gap [OF gap] delete_char_gap [OF gap])
qed

lemma put_gap_ok: "app_ok a \<Longrightarrow> app_input_mode a = Command \<Longrightarrow> app_ok (put_gap z a)"
  by (auto simp: app_ok_def at_gap_def put_gap_def set_input_def)

lemma set_input_end: "set_input s (str_len s) a = put_gap (s, []) a"
  by (simp add: put_gap_def)

lemma app_ok_history:
  "app_ok a \<Longrightarrow> history_ok h \<Longrightarrow> app_ok (a\<lparr>app_command_history := h\<rparr>)"
  by (simp add: app_ok_def at_gap_def)

lemma history_push_ok: "history_ok h \<Longrightarrow> history_ok (history_push c h)"
  by (cases "ch_commands h") (auto simp: history_ok_def history_push_def Let_def)

lemma reset_navigation_ok: "history_ok h \<Longrightarrow> history_ok (reset_navigation h)"
  by (simp add: history_ok_def reset_navigation_def)

lemma command_history_previous_ok: "history_ok h \<Longrightarrow> history_ok (snd (command_history_previous s h))"
  by (auto simp: history_ok_def command_history_previous_def split: option.split)

lemma command_history_next_ok: "history_ok h \<Longrightarrow> history_ok (snd (command_history_next h))"
  by (auto simp: history_ok_def command_history_next_def split: option.split)

lemma history_previous_ok: "app_ok a \<Longrightarrow> app_input_mode a = Command \<Longrightarrow> app_ok (history_previous a)"
  using command_history_previous_ok [OF app_okD(5), of a "app_command_input a"]
  by (auto simp: history_previous_def Let_def set_input_end app_ok_history put_gap_ok split: prod.split option.split)

lemma history_next_ok: "app_ok a \<Longrightarrow> app_input_mode a = Command \<Longrightarrow> app_ok (history_next a)"
  using command_history_next_ok [OF app_okD(5), of a]
  by (auto simp: history_next_def Let_def set_input_end app_ok_history put_gap_ok split: prod.split option.split)

lemma tab_complete_ok: "app_ok a \<Longrightarrow> app_input_mode a = Command \<Longrightarrow> app_ok (tab_complete e a)"
  by (simp add: tab_complete_def Let_def set_input_end put_gap_ok split: list.split)

text \<open>Leaving and entering the command line.\<close>

lemma leave_command_ok:
  "app_ok a \<Longrightarrow> history_ok h \<Longrightarrow>
   app_ok ((set_input [] 0 a)\<lparr>app_input_mode := Normal, app_command_history := h\<rparr>)"
  by (simp add: app_ok_def at_gap_def set_input_def)

lemma enter_command_ok:
  "app_ok a \<Longrightarrow> app_screen a = Screen_Main \<Longrightarrow> history_ok h \<Longrightarrow>
   app_ok ((set_input [] 0 a)\<lparr>app_input_mode := Command, app_command_history := h\<rparr>)"
  by (simp add: app_ok_def at_gap_def set_input_def)

text \<open>A quick command panics when its output is cut inside a character.\<close>

definition cut_in_character :: "surroundings \<Rightarrow> string list \<Rightarrow> bool" where
  "cut_in_character e args \<longleftrightarrow>
     (\<exists>stdout stderr line. env_output e args = Inr (stdout, stderr)
        \<and> first_line (if stdout = [] then stderr else stdout) = Some line
        \<and> 60 < str_len line \<and> split_at 57 line = None)"

lemma run_quick_command_cases:
  "run_quick_command e args a = None \<Longrightarrow> cut_in_character e args"
  "run_quick_command e args a = Some a' \<Longrightarrow> \<exists>m. a' = a\<lparr>app_status_message := m\<rparr>"
proof -
  assume panic: "run_quick_command e args a = None"
  then obtain stdout stderr where out: "env_output e args = Inr (stdout, stderr)"
    by (auto simp: run_quick_command_def split: sum.splits)
  have no_output: "\<not> 60 < str_len (chars_of ''(no output)'')" by (simp add: str_len_def len_utf8_def)
  show "cut_in_character e args"
  proof (cases "first_line (if stdout = [] then stderr else stdout)")
    case None
    then show ?thesis using panic out no_output by (simp add: run_quick_command_def Let_def split: if_splits)
  next
    case (Some line)
    then show ?thesis
      using panic out
      by (cases "split_at 57 line") (auto simp: run_quick_command_def cut_in_character_def Let_def split: if_splits)
  qed
next
  assume "run_quick_command e args a = Some a'"
  then show "\<exists>m. a' = a\<lparr>app_status_message := m\<rparr>"
    by (auto simp: run_quick_command_def Let_def bind_Some_iff split: sum.splits if_splits)
qed

lemma leave_input_ok: "app_ok a \<Longrightarrow> app_ok ((set_input [] 0 a)\<lparr>app_input_mode := Normal\<rparr>)"
  by (simp add: app_ok_def at_gap_def set_input_def)

lemma pending_ok: "app_ok a \<Longrightarrow> c \<in> pending_commands \<Longrightarrow> app_ok (a\<lparr>app_pending_command := Some c\<rparr>)"
  by (simp add: app_ok_def at_gap_def)

definition quick_cut :: "surroundings \<Rightarrow> bool" where
  "quick_cut e \<longleftrightarrow> cut_in_character e [''--help''] \<or> cut_in_character e [''version'']"

text \<open>What is shown of a handler: it panics only on a cut, and keeps the invariant.\<close>

definition keeps_ok :: "surroundings \<Rightarrow> app option \<Rightarrow> bool" where
  "keeps_ok e r \<longleftrightarrow> (case r of None \<Rightarrow> quick_cut e | Some a \<Rightarrow> app_ok a)"

lemma keeps_ok_Some [simp]: "keeps_ok e (Some a) = app_ok a"
  by (simp add: keeps_ok_def)

lemma run_quick_command_keeps:
  "app_ok a \<Longrightarrow> args = [''--help''] \<or> args = [''version''] \<Longrightarrow> keeps_ok e (run_quick_command e args a)"
  using run_quick_command_cases [of e args a]
  by (cases "run_quick_command e args a") (auto simp: keeps_ok_def quick_cut_def)

lemma execute_command_keeps:
  assumes ok: "app_ok a" and mode: "app_input_mode a = Command"
  shows "keeps_ok e (execute_command e a)"
proof -
  define h where "h = reset_navigation (history_push (app_command_input a)
      (app_command_history ((set_input [] 0 a)\<lparr>app_input_mode := Normal\<rparr>)))"
  define a1 where "a1 = (set_input [] 0 a)\<lparr>app_input_mode := Normal, app_command_history := h\<rparr>"
  have "history_ok h"
    unfolding h_def using app_okD(5) [OF ok]
    by (simp add: set_input_def reset_navigation_ok history_push_ok)
  then have a1: "app_ok a1" unfolding a1_def by (rule leave_command_ok [OF ok])
  have "app_input_mode a1 = Normal" "app_previous_screen a1 = None"
    using app_okD(3,6) [OF ok] mode by (simp_all add: a1_def set_input_def)
  then have go: "app_ok (navigate_to e sc a1)" if "sc = Screen_Toolchains \<or> sc = Screen_Doctor" for sc
    using that by (intro navigate_to_ok app_ok_screen a1) auto
  have run: "execute_command e a =
     (let command = env_lowercase e (trim (app_command_input a)) in
      if command = [] then Some (status ''No command entered'' ((set_input [] 0 a)\<lparr>app_input_mode := Normal\<rparr>))
      else if command \<in> set (map chars_of [''q'', ''quit'', ''exit'']) then Some (a1\<lparr>app_should_quit := True\<rparr>)
      else if command \<in> set (map chars_of [''toolchains'', ''t'']) then Some (navigate_to e Screen_Toolchains a1)
      else if command \<in> set (map chars_of [''doctor'', ''d'']) then Some (navigate_to e Screen_Doctor a1)
      else if command \<in> pending_commands then
        Some (a1\<lparr>app_pending_command := Some command, app_should_quit := True\<rparr>)
      else if command = chars_of ''help'' then run_quick_command e [''--help''] a1
      else if command = chars_of ''version'' then run_quick_command e [''version''] a1
      else Some (a1\<lparr>app_status_message := chars_of ''Unknown command: '' @ command\<rparr>))"
    by (simp only: execute_command_def Let_def pending_commands_def a1_def h_def)
  show ?thesis
    unfolding run Let_def
    by (simp only: split: if_split)
      (intro conjI impI; (rule run_quick_command_keeps [OF a1])?;
       simp add: leave_input_ok [OF ok] a1 go pending_ok [OF a1])
qed

lemma menu_keys_ok: "app_ok a \<Longrightarrow> app_ok (a\<lparr>app_menu := menu_up (app_menu a)\<rparr>)"
  "app_ok a \<Longrightarrow> app_ok (a\<lparr>app_menu := menu_down (app_menu a)\<rparr>)"
  using app_okD(4) [of a] by (auto intro!: app_ok_lists simp: menu_up_def menu_down_def MENU_ITEMS_def)

lemma menu_screens:
  "selected_item i = Some m \<Longrightarrow> mi_screen m = Some sc \<Longrightarrow> sc = Screen_Toolchains \<or> sc = Screen_Doctor"
  "find_by_key k = Some m \<Longrightarrow> mi_screen m = Some sc \<Longrightarrow> sc = Screen_Toolchains \<or> sc = Screen_Doctor"
  by (auto simp: selected_item_def find_by_key_def MENU_ITEMS_def menu_screen_def menu_quit_def nth_Cons'
      split: if_splits)

lemma go_from_main:
  assumes "app_ok a" "app_input_mode a = Normal" "app_screen a = Screen_Main"
    and "sc = Screen_Toolchains \<or> sc = Screen_Doctor"
  shows "app_ok (navigate_to e sc a)"
  using assms(4) app_okD(6) [OF assms(1)] assms(3)
  by (intro navigate_to_ok app_ok_screen assms(1,2)) auto

lemma handle_main_key_keeps:
  assumes ok: "app_ok a" and normal: "app_input_mode a = Normal" and main: "app_screen a = Screen_Main"
  shows "keeps_ok e (handle_main_key e code a)"
proof -
  have menu: "keeps_ok e (activate_menu_item e a)"
  proof -
    obtain m where m: "selected_item (app_menu a) = Some m"
      using app_okD(4) [OF ok] by (simp add: selected_item_def)
    then show ?thesis
      using go_from_main [OF ok normal main menu_screens(1) [OF m]] ok
      by (auto simp: activate_menu_item_def split: option.split)
  qed
  have key: "keeps_ok e (case code of
           Key_Char c \<Rightarrow>
             (case find_by_key c of
                None \<Rightarrow> Some a
              | Some item \<Rightarrow>
                  if mi_quits item then Some (a\<lparr>app_should_quit := True\<rparr>)
                  else
                    (case mi_screen item of
                       Some sc \<Rightarrow> Some (navigate_to e sc a)
                     | None \<Rightarrow> Some a))
         | _ \<Rightarrow> Some a)"
    using go_from_main [OF ok normal main menu_screens(2)] ok
    by (auto split: key_code.split option.split)
  show ?thesis
    unfolding handle_main_key_def
    using ok menu key menu_keys_ok [OF ok]
      enter_command_ok [OF ok main reset_navigation_ok [OF app_okD(5) [OF ok]]]
    by (simp del: One_nat_def)
qed

end
