(* ===== verification/TuiProperties.thy ===== *)
theory TuiProperties
  imports TuiFacts
begin

text \<open>
  Properties of the terminal interface: when it panics, what editing and the history do, that Esc leads
  back to the main menu, and what an installation changes. Each has a witness on a small session.
\<close>

section \<open>The screens\<close>

lemma show_versions_ok:
  assumes "app_ok a" "app_input_mode a = Normal"
  shows "app_ok (show_versions e a)"
proof -
  have "app_ok (a\<lparr>app_previous_screen := Some Screen_Toolchains, app_version_select_state := version_select_new,
      app_screen := Screen_VersionSelect\<rparr>)"
    using assms by (auto simp: app_ok_def at_gap_def versions.in_view_def version_select_new_def)
  then show ?thesis unfolding show_versions_def by (rule navigate_to_ok)
qed

lemma set_default_ok: "app_ok a \<Longrightarrow> app_ok (set_selected_toolchain_as_default e a)"
  using app_ok_in_view(1) [of a]
  by (auto simp: set_selected_toolchain_as_default_def tools.in_view_def
      intro!: load_toolchain_data_ok app_ok_lists(1) split: option.split)

lemma back_to_main_ok:
  assumes "app_ok a" "app_input_mode a = Normal" "app_screen a = Screen_Toolchains \<or> app_screen a = Screen_Doctor"
  shows "app_ok (a\<lparr>app_screen := Screen_Main, app_status_message := m\<rparr>)"
  using app_ok_screen [OF assms(1,2), of Screen_Main] app_okD(6) [OF assms(1)] assms(3) by auto

lemma handle_toolchains_key_ok:
  assumes "app_ok a" "app_input_mode a = Normal" "app_screen a = Screen_Toolchains"
  shows "app_ok (handle_toolchains_key e code a)"
  using assms back_to_main_ok [OF assms(1,2)] show_versions_ok [OF assms(1,2)] set_default_ok [OF assms(1)]
    app_ok_lists(1) [OF assms(1) tools.up_in_view] app_ok_lists(1) [OF assms(1) tools.down_in_view]
    app_ok_in_view(1) [OF assms(1)]
  by (simp add: handle_toolchains_key_def)

lemma handle_doctor_key_ok:
  assumes "app_ok a" "app_input_mode a = Normal" "app_screen a = Screen_Doctor"
  shows "app_ok (handle_doctor_key e code a)"
  using assms back_to_main_ok [OF assms(1,2)] load_doctor_data_ok [OF assms(1)]
    app_ok_lists(2) [OF assms(1) doctor.up_in_view] app_ok_lists(2) [OF assms(1) doctor.down_in_view]
    app_ok_in_view(2) [OF assms(1)]
  by (simp add: handle_doctor_key_def)

lemma return_from_progress_unfold:
  assumes "app_ok a" "app_screen a = Screen_Progress"
  shows "return_from_progress e a =
     navigate_to e Screen_VersionSelect (a\<lparr>app_previous_screen := None, app_install_receiver := None\<rparr>)"
  using app_okD(6) [OF assms(1)] assms(2) by (simp add: return_from_progress_def Let_def)

lemma handle_progress_key_ok:
  assumes "app_ok a" "app_input_mode a = Normal" "app_screen a = Screen_Progress"
  shows "app_ok (handle_progress_key e code a)"
proof -
  have "app_ok (a\<lparr>app_previous_screen := None, app_install_receiver := None, app_screen := Screen_VersionSelect\<rparr>)"
    using assms by (auto simp: app_ok_def at_gap_def)
  then have "app_ok (return_from_progress e a)"
    unfolding return_from_progress_unfold [OF assms(1,3)] by (rule navigate_to_ok)
  then show ?thesis using assms(1) by (simp add: handle_progress_key_def cancel_installation_def)
qed

lemma start_installation_ok:
  assumes "app_ok a" "app_input_mode a = Normal" "app_screen a = Screen_VersionSelect"
  shows "app_ok (start_installation v a)"
proof -
  have "app_ok (a\<lparr>app_previous_screen := Some Screen_VersionSelect, app_screen := Screen_Progress\<rparr>)"
    by (rule app_ok_visit [OF assms(1,2)]) simp
  then show ?thesis by (simp add: start_installation_def assms(3) app_ok_def at_gap_def)
qed

lemma leave_versions_ok:
  assumes "app_ok a" "app_input_mode a = Normal" "app_screen a = Screen_VersionSelect"
  shows "app_ok (navigate_to e (case app_previous_screen a of Some sc \<Rightarrow> sc | None \<Rightarrow> Screen_Main)
     (a\<lparr>app_previous_screen := None, app_version_load_receiver := False\<rparr>))"
proof -
  have "app_ok (a\<lparr>app_previous_screen := None, app_version_load_receiver := False, app_screen := sc\<rparr>)"
    if "sc = Screen_Main \<or> sc = Screen_Toolchains" for sc
    using assms that by (auto simp: app_ok_def at_gap_def)
  then show ?thesis
    using app_okD(6) [OF assms(1)] assms(3) by (intro navigate_to_ok) auto
qed

lemma handle_version_select_key_ok:
  assumes "app_ok a" "app_input_mode a = Normal" "app_screen a = Screen_VersionSelect"
  shows "app_ok (handle_version_select_key e code a)"
  using assms leave_versions_ok [OF assms] start_installation_ok [OF assms]
    app_ok_lists(3) [OF assms(1) versions.up_in_view] app_ok_lists(3) [OF assms(1) versions.down_in_view]
    app_ok_in_view(3) [OF assms(1)]
  by (auto simp: handle_version_select_key_def split: option.split)

lemma handle_command_key_keeps:
  assumes ok: "app_ok a" and mode: "app_input_mode a = Command"
  shows "keeps_ok e (handle_command_key e code control a)"
proof (cases "code \<in> edit_keys")
  case True
  obtain z where "at_gap a z" using app_okD(1) [OF ok] by blast
  from edit_gap [OF this True] show ?thesis using put_gap_ok [OF ok mode] by simp
next
  case False
  then show ?thesis
    using ok mode leave_command_ok [OF ok reset_navigation_ok [OF app_okD(5) [OF ok]]]
      execute_command_keeps [OF ok mode] history_previous_ok [OF ok mode] history_next_ok [OF ok mode]
      tab_complete_ok [OF ok mode]
    by (cases code) (auto simp: edit_keys_def)
qed

lemma handle_key_keeps:
  assumes ok: "app_ok a"
  shows "keeps_ok e (handle_key e code control a)"
proof (cases "app_input_mode a")
  case Command
  then show ?thesis using ok handle_command_key_keeps [OF ok Command] by (simp add: handle_key_def)
next
  case Normal
  have "keeps_ok e (handle_normal_key e code a)"
    using handle_main_key_keeps [OF ok Normal] handle_toolchains_key_ok [OF ok Normal]
      handle_doctor_key_ok [OF ok Normal] handle_progress_key_ok [OF ok Normal] handle_version_select_key_ok [OF ok Normal]
    by (simp add: handle_normal_key_def split: screen.split)
  then show ?thesis using ok Normal by (simp add: handle_key_def)
qed

section \<open>Background tasks and rounds\<close>

text \<open>The polls touch the progress, the versions, the message and the receivers only.\<close>

definition same_session :: "app \<Rightarrow> app \<Rightarrow> bool" where
  "same_session a b \<longleftrightarrow>
     app_screen b = app_screen a \<and> app_input_mode b = app_input_mode a \<and> app_command_input b = app_command_input a
     \<and> app_cursor_pos b = app_cursor_pos a \<and> app_should_quit b = app_should_quit a \<and> app_menu b = app_menu a
     \<and> app_toolchains_state b = app_toolchains_state a \<and> app_doctor_state b = app_doctor_state a
     \<and> app_command_history b = app_command_history a \<and> app_pending_command b = app_pending_command a
     \<and> app_previous_screen b = app_previous_screen a"

lemma same_session_refl [simp]: "same_session a a"
  by (simp add: same_session_def)

lemma same_session_trans: "same_session a b \<Longrightarrow> same_session b c \<Longrightarrow> same_session a c"
  by (simp add: same_session_def)

lemma app_ok_session:
  "app_ok a \<Longrightarrow> same_session a b \<Longrightarrow> versions.in_view (app_version_select_state b) \<Longrightarrow> app_ok b"
  by (simp add: app_ok_def same_session_def at_gap_def)

lemma install_messages_session:
  "same_session a (fst (fold (install_message now) msgs (a, clear)))
   \<and> app_version_select_state (fst (fold (install_message now) msgs (a, clear))) = app_version_select_state a"
proof (induction msgs arbitrary: a clear)
  case (Cons msg msgs)
  obtain b c where b: "install_message now msg (a, clear) = (b, c)" by (cases "install_message now msg (a, clear)")
  have "same_session a b \<and> app_version_select_state b = app_version_select_state a"
    using b by (cases msg) (auto simp: same_session_def)
  then show ?case using Cons [of b c] same_session_trans by (auto simp: b)
qed simp

lemma poll_install_progress_session:
  "same_session a (poll_install_progress now msgs a)
   \<and> app_version_select_state (poll_install_progress now msgs a) = app_version_select_state a"
  using install_messages_session [of a now msgs False]
  by (auto simp: poll_install_progress_def Let_def same_session_def split: prod.split)

lemma poll_version_loading_session:
  "same_session a (poll_version_loading r a)
   \<and> (versions.in_view (app_version_select_state a) \<longrightarrow> versions.in_view (app_version_select_state (poll_version_loading r a)))"
  by (auto simp: poll_version_loading_def same_session_def versions.in_view_def split: option.split sum.split)

definition polled :: "frame \<Rightarrow> app \<Rightarrow> app" where
  "polled f a = poll_version_loading (fr_versions f) (poll_install_progress (env_now (fr_env f)) (fr_messages f) a)"

lemma polled_session: "same_session a (polled f a)"
  unfolding polled_def
  using poll_install_progress_session poll_version_loading_session same_session_trans by blast

lemma polled_ok: "app_ok a \<Longrightarrow> app_ok (polled f a)"
  using app_ok_session [OF _ polled_session] app_ok_in_view(3) [of a]
    poll_install_progress_session [of a] poll_version_loading_session
  by (metis polled_def)

text \<open>When drawing panics: the directory is cut inside a character; in a debug build, the column of the cursor does not fit in
  16 bits, or a toolchain has a date whose days or seconds are out of range.\<close>

definition cwd_cut :: "frame \<Rightarrow> bool" where
  "cwd_cut f \<longleftrightarrow>
     (\<exists>cwd. fr_cwd f = Some cwd \<and> 3 < fr_info_width f - 15 \<and> fr_info_width f - 15 < str_len cwd
        \<and> \<not> (\<exists>before after. cwd = before @ after \<and> str_len after = fr_info_width f - 15 - 3))"

definition cursor_too_far :: "frame \<Rightarrow> app \<Rightarrow> bool" where
  "cursor_too_far f a \<longleftrightarrow> app_input_mode a = Command
     \<and> (\<exists>before after. app_command_input a = before @ after \<and> app_cursor_pos a = str_len before
          \<and> (2 ^ 16 \<le> fst (fr_input_area f) + 2 + length before mod 2 ^ 16 \<or> 2 ^ 16 \<le> snd (fr_input_area f) + 1))"

definition bad_date :: "frame \<Rightarrow> app \<Rightarrow> bool" where
  "bad_date f a \<longleftrightarrow>
     (\<exists>t\<in>set (ts_toolchains (app_toolchains_state a)). \<exists>m. ti_metadata t = Some m \<and> is_date (tm_installed_at m)
        \<and> installed_ago (env_now (fr_env f)) (map char_of (tm_installed_at m)) = None)"

definition drawing_panics :: "frame \<Rightarrow> app \<Rightarrow> bool" where
  "drawing_panics f a \<longleftrightarrow>
     app_screen a = Screen_Main \<and> (cwd_cut f \<or> fr_debug f \<and> cursor_too_far f a)
     \<or> app_screen a = Screen_Toolchains \<and> fr_debug f \<and> bad_date f a"

lemma split_at_None: "split_at k s = None \<longleftrightarrow> \<not> (\<exists>before after. s = before @ after \<and> k = str_len before)"
  using split_at_iff [of k s] by (cases "split_at k s") auto

lemma display_cwd_panics: "display_cwd (fr_info_width f) (fr_cwd f) = None \<longleftrightarrow> cwd_cut f"
proof (cases "fr_cwd f")
  case None
  have ascii: "split_at k s \<noteq> None" if "k \<le> length s" "\<forall>c\<in>set s. c < 128" for k s
    using that
  proof (induction k s rule: split_at.induct)
    case (2 k c s)
    then show ?case by (cases k) (auto simp: len_utf8_def)
  qed simp
  have "length (chars_of ''<unknown>'') = 9" "str_len (chars_of ''<unknown>'') = 9" by (simp_all add: len_utf8_def)
  then have "split_at (str_len (chars_of ''<unknown>'') - n) (chars_of ''<unknown>'') \<noteq> None" for n
    by (intro ascii) simp_all
  then show ?thesis using None by (simp add: display_cwd_def cwd_cut_def Let_def)
next
  case (Some cwd)
  have "split_at (str_len cwd - n) cwd = None \<longleftrightarrow> \<not> (\<exists>before after. cwd = before @ after \<and> str_len after = n)"
    if "n \<le> str_len cwd" for n
  proof -
    have "(cwd = before @ after \<and> str_len cwd - n = str_len before) \<longleftrightarrow> (cwd = before @ after \<and> str_len after = n)"
      for before after using that by auto
    then show ?thesis unfolding split_at_None by simp
  qed
  from this [of "fr_info_width f - 15 - 3"] Some show ?thesis by (auto simp: display_cwd_def cwd_cut_def Let_def)
qed

lemma ages_panic:
  "fold_opt (\<lambda>t u. case ti_metadata t of None \<Rightarrow> Some u | Some m \<Rightarrow> metadata_age debug now m) ts u = None
     \<longleftrightarrow> debug \<and> (\<exists>t\<in>set ts. \<exists>m. ti_metadata t = Some m \<and> is_date (tm_installed_at m)
           \<and> installed_ago now (map char_of (tm_installed_at m)) = None)"
proof (induction ts)
  case (Cons t ts)
  show ?case
  proof (cases "ti_metadata t")
    case (Some m)
    then show ?thesis using Cons by (cases "metadata_age debug now m") (auto simp: metadata_age_def split: if_splits)
  qed (use Cons in simp)
qed simp

lemma render_panics: "app_ok a \<Longrightarrow> render f a = None \<longleftrightarrow> drawing_panics f a"
proof -
  assume "app_ok a"
  then obtain z where z: "at_gap a z" using app_okD(1) by blast
  then have pos: "cursor_display_pos a = Some (length (fst z))" and gap: "app_command_input a = fst z @ snd z"
      "app_cursor_pos a = str_len (fst z)"
    by (auto simp: cursor_display_pos_def at_gap_def split: prod.split)
  have "cursor_too_far f a \<longleftrightarrow> app_input_mode a = Command
     \<and> (2 ^ 16 \<le> fst (fr_input_area f) + 2 + length (fst z) mod 2 ^ 16 \<or> 2 ^ 16 \<le> snd (fr_input_area f) + 1)"
  proof -
    have "before = fst z" if "fst z @ snd z = before @ after" "str_len (fst z) = str_len before" for before after
    proof -
      have "split_at (str_len (fst z)) (fst z @ snd z) = split_at (str_len before) (before @ after)"
        by (simp only: that)
      then show ?thesis unfolding split_at_append by simp
    qed
    then show ?thesis unfolding cursor_too_far_def gap by blast
  qed
  moreover have "input_cursor (fr_debug f) (fr_input_area f) n = None \<longleftrightarrow> fr_debug f
     \<and> (2 ^ 16 \<le> fst (fr_input_area f) + 2 + n mod 2 ^ 16 \<or> 2 ^ 16 \<le> snd (fr_input_area f) + 1)" for n
    by (simp add: input_cursor_def Let_def)
  ultimately have main: "main_view_render f a = None \<longleftrightarrow> cwd_cut f \<or> fr_debug f \<and> cursor_too_far f a"
    using display_cwd_panics [of f] pos by (cases "display_cwd (fr_info_width f) (fr_cwd f)") (auto simp: main_view_render_def)
  have tools: "toolchain_view_render f a = None \<longleftrightarrow> fr_debug f \<and> bad_date f a"
    unfolding toolchain_view_render_def bad_date_def by (rule ages_panic)
  show ?thesis
    by (cases "app_screen a") (simp_all add: render_def drawing_panics_def main tools)
qed

lemma app_round_unfold:
  assumes "app_ok a" "\<not> drawing_panics f (polled f a)"
  shows "app_round f a =
     (if fr_draw_fails f then Some (Exits (Inl (chars_of ''failed to draw frame'')))
      else
        (case fr_event f of
           Inl err \<Rightarrow> Some (Exits (Inl err))
         | Inr ev \<Rightarrow>
             do { a1 \<leftarrow> (case ev of None \<Rightarrow> Some (polled f a)
                        | Some (code, control) \<Rightarrow> handle_key (fr_env f) code control (polled f a));
                  Some (if app_should_quit a1 then Exits (Inr (app_pending_command a1)) else Running a1) }))"
  using render_panics [OF polled_ok [OF assms(1), of f], of f] assms(2)
  by (cases "render f (polled f a)") (simp_all add: app_round_def polled_def [symmetric] Let_def)

lemma app_round_draws:
  assumes "app_ok a" "drawing_panics f (polled f a)"
  shows "app_round f a = None"
  using render_panics [OF polled_ok [OF assms(1), of f], of f] assms(2)
  by (simp add: app_round_def polled_def [symmetric] Let_def)

lemma app_round_cases:
  assumes ok: "app_ok a"
  shows "app_round f a = None \<Longrightarrow> drawing_panics f (polled f a) \<or> quick_cut (fr_env f)"
    "app_round f a = Some (Running a1) \<Longrightarrow> app_ok a1 \<and> \<not> app_should_quit a1"
    "app_round f a = Some (Exits (Inr (Some c))) \<Longrightarrow> c \<in> pending_commands"
proof -
  have pending: "c \<in> pending_commands" if "app_ok b" "app_pending_command b = Some c" for b c
    using that by (simp add: app_ok_def)
  have handled: "keeps_ok (fr_env f) (case ev of None \<Rightarrow> Some (polled f a)
      | Some (code, control) \<Rightarrow> handle_key (fr_env f) code control (polled f a))" for ev
    using polled_ok [OF ok] handle_key_keeps [OF polled_ok [OF ok]] by (cases ev) auto
  have "(app_round f a = None \<longrightarrow> drawing_panics f (polled f a) \<or> quick_cut (fr_env f))
    \<and> (app_round f a = Some (Running a1) \<longrightarrow> app_ok a1 \<and> \<not> app_should_quit a1)
    \<and> (app_round f a = Some (Exits (Inr (Some c))) \<longrightarrow> c \<in> pending_commands)"
  proof (cases "drawing_panics f (polled f a)")
    case True
    then show ?thesis using app_round_draws [OF ok True] by simp
  next
    case drawn: False
    show ?thesis
    proof (cases "fr_draw_fails f \<or> isl (fr_event f)")
      case True
      then show ?thesis by (auto simp: app_round_unfold [OF ok drawn] split: sum.split)
    next
      case False
      then obtain ev where "fr_event f = Inr ev" "\<not> fr_draw_fails f" by (cases "fr_event f") auto
      then show ?thesis
        using handled [of ev] pending
        by (auto simp: app_round_unfold [OF ok drawn] keeps_ok_def bind_Some_iff split: option.splits if_splits)
    qed
  qed
  then show "app_round f a = None \<Longrightarrow> drawing_panics f (polled f a) \<or> quick_cut (fr_env f)"
    "app_round f a = Some (Running a1) \<Longrightarrow> app_ok a1 \<and> \<not> app_should_quit a1"
    "app_round f a = Some (Exits (Inr (Some c))) \<Longrightarrow> c \<in> pending_commands" by blast+
qed

text \<open>A round of the session \<open>fs\<close> and the state in which it starts.\<close>

definition round_of :: "frame list \<Rightarrow> app \<Rightarrow> frame \<Rightarrow> app \<Rightarrow> bool" where
  "round_of fs a f b \<longleftrightarrow> (\<exists>before after. fs = before @ f # after \<and> run_app before a = Some (Running b))"

lemma round_of_Cons:
  "round_of (g # fs) a f b \<longleftrightarrow> f = g \<and> b = a \<or> (\<exists>c. app_round g a = Some (Running c) \<and> round_of fs c f b)"
proof
  assume "round_of (g # fs) a f b"
  then obtain before after where fs: "g # fs = before @ f # after" and run: "run_app before a = Some (Running b)"
    by (auto simp: round_of_def)
  show "f = g \<and> b = a \<or> (\<exists>c. app_round g a = Some (Running c) \<and> round_of fs c f b)"
  proof (cases before)
    case Nil
    then show ?thesis using fs run by simp
  next
    case (Cons x xs)
    then obtain c where "app_round g a = Some (Running c)" "run_app xs c = Some (Running b)"
    proof -
      obtain r where r: "app_round g a = Some r" "(case r of Running c \<Rightarrow> run_app xs c | Exits y \<Rightarrow> Some (Exits y)) = Some (Running b)"
        using fs run Cons by (auto simp: bind_Some_iff)
      then show thesis using that by (cases r) auto
    qed
    then show ?thesis using fs Cons by (auto simp: round_of_def)
  qed
next
  assume "f = g \<and> b = a \<or> (\<exists>c. app_round g a = Some (Running c) \<and> round_of fs c f b)"
  then consider "f = g" "b = a" | c before after where "app_round g a = Some (Running c)" "fs = before @ f # after"
      "run_app before c = Some (Running b)" by (auto simp: round_of_def)
  then show "round_of (g # fs) a f b"
  proof cases
    case 1
    then have "g # fs = [] @ f # fs" "run_app [] a = Some (Running b)" by simp_all
    then show ?thesis unfolding round_of_def by blast
  next
    case (2 c before after)
    then have "g # fs = (g # before) @ f # after" "run_app (g # before) a = Some (Running b)" by simp_all
    then show ?thesis unfolding round_of_def by blast
  qed
qed

lemma run_app_cases:
  "app_ok a \<Longrightarrow> \<not> app_should_quit a \<Longrightarrow>
     (run_app fs a = None \<longrightarrow> (\<exists>f b. round_of fs a f b \<and> (drawing_panics f (polled f b) \<or> quick_cut (fr_env f))))
     \<and> (\<forall>f b. round_of fs a f b \<longrightarrow> drawing_panics f (polled f b) \<longrightarrow> run_app fs a = None)
     \<and> (\<forall>b. run_app fs a = Some (Running b) \<longrightarrow> app_ok b \<and> \<not> app_should_quit b)
     \<and> (\<forall>c. run_app fs a = Some (Exits (Inr (Some c))) \<longrightarrow> c \<in> pending_commands)"
proof (induction fs arbitrary: a)
  case Nil
  then show ?case by (simp add: round_of_def)
next
  case (Cons f fs)
  show ?case
  proof (cases "app_round f a")
    case None
    then show ?thesis using app_round_cases(1) [OF Cons.prems(1)] by (auto simp: round_of_Cons)
  next
    case (Some r)
    then have drawn: "\<not> drawing_panics f (polled f a)" using app_round_draws [OF Cons.prems(1)] by fastforce
    show ?thesis
    proof (cases r)
      case (Running b)
      then have "app_ok b \<and> \<not> app_should_quit b" using app_round_cases(2) [OF Cons.prems(1)] Some by simp
      then show ?thesis using Cons.IH [of b] Some Running drawn by (auto simp: round_of_Cons)
    next
      case (Exits x)
      then show ?thesis using app_round_cases(3) [OF Cons.prems(1)] Some drawn by (auto simp: round_of_Cons)
    qed
  qed
qed

lemma reached_ok: "run_app fs default_app = Some (Running a) \<Longrightarrow> app_ok a \<and> \<not> app_should_quit a"
  using run_app_cases [OF default_app_ok, of fs] by (simp add: default_app_def)

text \<open>C13: In every session of the terminal interface, whatever the keys, messages, files and outputs, the
  cursor stays on the boundary of a character of the command line, every selection stays inside its
  list, the history is bounded, and each screen knows the screen to go back to; a command
  handed to the shell is one of the five that need the terminal. The session panics only in these cases: the output
  of a quick command is cut inside a character; on the main screen the working directory is too long for the header and is cut
  inside a character; and in a debug build, the column of the cursor in the command line does not fit in 16 bits, or
  the list of toolchains shows one whose date of installation has day 0 or is out of range. Each of the last three does make it panic.\<close>

theorem interface_panics:
  "(run_app fs default_app = None \<longrightarrow>
      (\<exists>f a. round_of fs default_app f a \<and> (drawing_panics f (polled f a) \<or> quick_cut (fr_env f))))
   \<and> (\<forall>f a. round_of fs default_app f a \<longrightarrow> drawing_panics f (polled f a) \<longrightarrow> run_app fs default_app = None)
   \<and> (\<forall>a. run_app fs default_app = Some (Running a) \<longrightarrow> app_ok a)
   \<and> (\<forall>c. run_app fs default_app = Some (Exits (Inr (Some c))) \<longrightarrow> c \<in> pending_commands)"
  using run_app_cases [OF default_app_ok, of fs] by (simp add: default_app_def)

text \<open>A session: the user asks for help, whose first line has a dash of three bytes across byte 57.\<close>

definition dash_line :: chars where
  "dash_line = replicate 55 97 @ 8212 # replicate 10 97"

definition calm :: surroundings where
  "calm = \<lparr>env_paths_error = None, env_default_version = Inr None, env_installed_versions = Inr [],
     env_metadata = (\<lambda>_. None), env_set_default = (\<lambda>_. None), env_checks = [], env_os = None,
     env_output = (\<lambda>_. Inr (dash_line, [])), env_now = 0, env_lowercase = (\<lambda>s. s)\<rparr>"

definition press :: "key_code \<Rightarrow> frame" where
  "press k = \<lparr>fr_env = calm, fr_debug = False, fr_cwd = None, fr_info_width = 66, fr_input_area = (0, 20), fr_messages = [], fr_versions = None, fr_draw_fails = False, fr_event = Inr (Some (k, False))\<rparr>"

definition ask_help :: "frame list" where
  "ask_help = map press [key_char (CHR '':''), key_char (CHR ''h''), key_char (CHR ''e''), key_char (CHR ''l''),
     key_char (CHR ''p''), Key_Enter]"

lemma render_calm:
  assumes "\<not> fr_debug f" "fr_cwd f = None"
  shows "render f a = (case app_screen a of Screen_Main \<Rightarrow> map_option (\<lambda>_. ()) (cursor_display_pos a) | _ \<Rightarrow> Some ())"
proof -
  have "\<not> cwd_cut f" using assms(2) by (simp add: cwd_cut_def)
  then obtain d where "display_cwd (fr_info_width f) None = Some d" using display_cwd_panics [of f] assms(2) by auto
  moreover have "toolchain_view_render f a \<noteq> None" unfolding toolchain_view_render_def ages_panic using assms(1) by simp
  then have "toolchain_view_render f a = Some ()" by simp
  ultimately show ?thesis using assms
    by (cases "cursor_display_pos a") (auto simp: render_def main_view_render_def input_cursor_def Let_def split: screen.split)
qed

lemmas session_simps = press_def calm_def app_round_def poll_install_progress_def poll_version_loading_def
  render_calm cursor_display_pos_def handle_key_def handle_normal_key_def handle_main_key_def status_def
  set_input_def reset_navigation_def insert_char_def str_insert_def default_app_def history_new_def Let_def

lemma ask_help_panics: "run_app ask_help default_app = None"
proof -
  have letters: "len_utf8 104 = 1" "len_utf8 101 = 1" "len_utf8 108 = 1" "len_utf8 112 = 1" by (simp_all add: len_utf8_def)
  have trimmed: "trim [104, 101, 108, 112] = [104, 101, 108, 112]"
    by (simp add: trim_def is_whitespace_def)
  have all: "takeWhile (\<lambda>c. c \<noteq> 10) dash_line = dash_line"
    unfolding takeWhile_eq_all_conv by (auto simp: dash_line_def)
  have line: "first_line dash_line = Some dash_line"
    unfolding first_line_def Let_def all by (simp add: dash_line_def)
  have long: "60 < str_len dash_line"
    by (simp add: dash_line_def str_len_def len_utf8_def sum_list_replicate)
  have "split_at (n + 2) (replicate n 97 @ 8212 # replicate 10 97) = None" for n
    by (induction n) (simp_all add: len_utf8_def del: One_nat_def)
  from this [of 55] have "split_at 57 dash_line = None" by (simp add: dash_line_def)
  then have "run_quick_command calm [''--help''] a = None" for a
    using line long by (simp add: run_quick_command_def calm_def Let_def)
  then show ?thesis
    by (simp add: ask_help_def session_simps letters execute_command_def trimmed)
qed

text \<open>A working directory of 52 bytes, where 48 fit behind the dots: the cut falls into the letter of two bytes.\<close>

definition cut_directory :: chars where
  "cut_directory = replicate 3 97 @ 228 # replicate 47 97"

definition in_cut_directory :: frame where
  "in_cut_directory = (press Key_Other)\<lparr>fr_cwd := Some cut_directory\<rparr>"

lemma in_cut_directory_panics: "drawing_panics in_cut_directory (polled in_cut_directory default_app)"
proof -
  have long: "str_len cut_directory = 52" by (simp add: cut_directory_def str_len_def len_utf8_def sum_list_replicate)
  have "split_at 4 cut_directory = None"
    by (simp add: cut_directory_def len_utf8_def numeral_eq_Suc)
  then have "cwd_cut in_cut_directory"
    unfolding display_cwd_panics [symmetric] by (simp add: display_cwd_def in_cut_directory_def press_def long)
  then show ?thesis
    by (simp add: drawing_panics_def polled_def in_cut_directory_def press_def poll_install_progress_def
        poll_version_loading_def default_app_def)
qed

theorem interface_panics_witness:
  "(\<exists>f a. round_of ask_help default_app f a \<and> (drawing_panics f (polled f a) \<or> quick_cut (fr_env f)))
   \<and> run_app [in_cut_directory] default_app = None"
proof -
  have "round_of [in_cut_directory] default_app in_cut_directory default_app" by (simp add: round_of_Cons)
  then show ?thesis
    using interface_panics [of ask_help] interface_panics [of "[in_cut_directory]"] ask_help_panics in_cut_directory_panics by blast
qed

section \<open>Editing and the history\<close>

text \<open>C14: Editing the command line is editing a text with a gap: every sequence of editing keys succeeds and
  does to the input and the cursor's byte offset what it does to the texts before and behind
  the gap, and to nothing else; typed characters land at the gap in order, and the cursor counts bytes.\<close>

theorem editing_moves_a_gap:
  assumes "at_gap a z" "\<forall>(k, control)\<in>set ks. k \<in> edit_keys"
  shows "fold_opt (\<lambda>(k, control). handle_command_key e k control) ks a =
       Some (put_gap (fold (\<lambda>(k, control). edit k control) ks z) a)
     \<and> at_gap (put_gap (fold (\<lambda>(k, control). edit k control) ks z) a) (fold (\<lambda>(k, control). edit k control) ks z)
     \<and> put_gap (fold (\<lambda>k. edit (Key_Char k) False) s z) a = put_gap (fst z @ s, snd z) a"
proof -
  have twice: "put_gap y (put_gap z a) = put_gap y a" for y z a
    by (simp add: put_gap_def set_input_def)
  have "fold_opt (\<lambda>(k, control). handle_command_key e k control) ks a =
      Some (put_gap (fold (\<lambda>(k, control). edit k control) ks z) a)"
    using assms
  proof (induction ks arbitrary: a z)
    case (Cons x ks)
    obtain k control where x: "x = (k, control)" by (cases x)
    have "handle_command_key e k control a = Some (put_gap (edit k control z) a)"
      using edit_gap [OF Cons.prems(1), of k] Cons.prems(2) x by simp
    then show ?case
      using Cons.IH [OF put_gap_at, of "edit k control z" a] Cons.prems(2) by (simp add: x twice)
  qed (simp add: put_gap_same)
  moreover have "fold (\<lambda>k. edit (Key_Char k) False) s z = (fst z @ s, snd z)" for s z
    by (induction s arbitrary: z) (auto simp: case_prod_beta' split: prod.split)
  ultimately show ?thesis using put_gap_at by simp
qed

theorem editing_moves_a_gap_witness:
  "\<exists>a. fold_opt (\<lambda>(k, control). handle_command_key calm k control)
      [(Key_Char 228, False), (Key_Left, False), (Key_Char 97, False), (Key_End, False)] default_app = Some a
    \<and> app_command_input a = [97, 228] \<and> app_cursor_pos a = 3"
proof -
  let ?ks = "[(Key_Char 228, False), (Key_Left, False), (Key_Char 97, False), (Key_End, False)]"
  have "at_gap default_app ([], [])" by (simp add: at_gap_def default_app_def)
  moreover have "\<forall>(k, control)\<in>set ?ks. k \<in> edit_keys" by (simp add: edit_keys_def)
  ultimately have "fold_opt (\<lambda>(k, control). handle_command_key calm k control) ?ks default_app =
      Some (put_gap (fold (\<lambda>(k, control). edit k control) ?ks ([], [])) default_app)"
    by (rule conjunct1 [OF editing_moves_a_gap])
  then show ?thesis by (simp add: put_gap_def set_input_def len_utf8_def)
qed

text \<open>How far back \<open>n\<close> presses of Up reach.\<close>

lemma history_back:
  assumes "ch_index (app_command_history a) = None" "0 < n" "n \<le> length (ch_commands (app_command_history a))"
  defines "b \<equiv> (history_previous ^^ n) a"
  shows "app_command_input b = ch_commands (app_command_history a) ! (length (ch_commands (app_command_history a)) - n)
    \<and> app_cursor_pos b = str_len (app_command_input b)
    \<and> app_command_history b = (app_command_history a)
        \<lparr>ch_index := Some (length (ch_commands (app_command_history a)) - n), ch_temp_input := app_command_input a\<rparr>"
  unfolding b_def using assms(2,3)
proof (induction n)
  case (Suc n)
  let ?h = "app_command_history a"
  show ?case
  proof (cases n)
    case 0
    have "ch_commands ?h \<noteq> []" using Suc.prems by auto
    then show ?thesis
      using assms(1) 0
      by (simp add: history_previous_def command_history_previous_def set_input_def Let_def last_conv_nth)
  next
    case (Suc m)
    define b where "b = (history_previous ^^ n) a"
    have IH: "app_command_history b = ?h
        \<lparr>ch_index := Some (length (ch_commands ?h) - n), ch_temp_input := app_command_input a\<rparr>"
      using Suc.IH Suc.prems Suc by (simp add: b_def)
    have ge: "n < length (ch_commands ?h)" "ch_commands ?h \<noteq> []" using Suc.prems by auto
    then have pos: "0 < length (ch_commands ?h) - n" "length (ch_commands ?h) - n - 1 < length (ch_commands ?h)" by auto
    have step: "(history_previous ^^ Suc n) a = history_previous b" by (simp add: b_def)
    show ?thesis
      unfolding step using ge pos
      by (simp add: history_previous_def command_history_previous_def get_nth_def set_input_def Let_def IH)
  qed
qed simp

lemma history_forward:
  assumes "ch_index (app_command_history b) = Some i" "i + m \<le> length (ch_commands (app_command_history b))" "0 < m"
  defines "c \<equiv> (history_next ^^ m) b"
  shows "app_command_input c =
      (if i + m = length (ch_commands (app_command_history b)) then ch_temp_input (app_command_history b)
       else ch_commands (app_command_history b) ! (i + m))
    \<and> app_command_history c = (app_command_history b)
        \<lparr>ch_index := (if i + m = length (ch_commands (app_command_history b)) then None else Some (i + m))\<rparr>"
  unfolding c_def using assms(2,3)
proof (induction m)
  case (Suc m)
  let ?h = "app_command_history b"
  show ?case
  proof (cases m)
    case 0
    then show ?thesis
      using assms(1) Suc.prems
      by (simp add: history_next_def command_history_next_def get_nth_def set_input_def Let_def)
  next
    case (Suc k)
    define c where "c = (history_next ^^ m) b"
    have IH: "app_command_history c = ?h\<lparr>ch_index := Some (i + m)\<rparr>"
      using Suc.IH Suc.prems Suc by (simp add: c_def)
    have step: "(history_next ^^ Suc m) b = history_next c" by (simp add: c_def)
    show ?thesis
      unfolding step using Suc.prems
      by (simp add: history_next_def command_history_next_def get_nth_def set_input_def Let_def IH)
  qed
qed simp

text \<open>C16: Going up the history \<open>n\<close> times shows the \<open>n\<close>-th last command, and going down as often gives back
  the text that was being typed, with the history as it was.\<close>

theorem history_round_trip:
  assumes "ch_index (app_command_history a) = None" "n \<le> length (ch_commands (app_command_history a))"
  shows "app_command_input ((history_previous ^^ n) a) =
       (if n = 0 then app_command_input a
        else ch_commands (app_command_history a) ! (length (ch_commands (app_command_history a)) - n))
    \<and> app_command_input ((history_next ^^ n) ((history_previous ^^ n) a)) = app_command_input a
    \<and> ch_index (app_command_history ((history_next ^^ n) ((history_previous ^^ n) a))) = None
    \<and> ch_commands (app_command_history ((history_next ^^ n) ((history_previous ^^ n) a))) =
        ch_commands (app_command_history a)"
proof (cases "n = 0")
  case False
  define b where "b = (history_previous ^^ n) a"
  let ?h = "app_command_history a"
  have up: "app_command_input b = ch_commands ?h ! (length (ch_commands ?h) - n)"
    "app_command_history b = ?h\<lparr>ch_index := Some (length (ch_commands ?h) - n), ch_temp_input := app_command_input a\<rparr>"
    using history_back [OF assms(1) _ assms(2)] False by (simp_all add: b_def)
  have "length (ch_commands ?h) - n + n = length (ch_commands ?h)" using assms(2) by simp
  then show ?thesis
    using history_forward [of b "length (ch_commands ?h) - n" n] up False
    by (simp add: b_def [symmetric])
qed (use assms in simp)

definition used_app :: app where
  "used_app = default_app\<lparr>app_input_mode := Command, app_command_input := [120], app_cursor_pos := 1,
     app_command_history := history_push [98] (history_push [97] history_new)\<rparr>"

theorem history_round_trip_witness:
  "app_command_input ((history_previous ^^ 2) used_app) = [97]
   \<and> app_command_input ((history_next ^^ 2) ((history_previous ^^ 2) used_app)) = [120]"
proof -
  have "ch_commands (app_command_history used_app) = [[97], [98]]" "ch_index (app_command_history used_app) = None"
    "app_command_input used_app = [120]"
    by (simp_all add: used_app_def history_push_def history_new_def Let_def)
  then show ?thesis using history_round_trip [of used_app 2] by simp
qed

section \<open>The way back and the list of toolchains\<close>

lemma load_data_frame [simp]:
  "app_input_mode (load_doctor_data e a) = app_input_mode a"
  "app_previous_screen (load_doctor_data e a) = app_previous_screen a"
  "app_should_quit (load_doctor_data e a) = app_should_quit a"
  "app_toolchains_state (load_doctor_data e a) = app_toolchains_state a"
  "app_input_mode (load_version_data e a) = app_input_mode a"
  "app_previous_screen (load_version_data e a) = app_previous_screen a"
  "app_should_quit (load_version_data e a) = app_should_quit a"
  "app_toolchains_state (load_version_data e a) = app_toolchains_state a"
  by (simp_all add: load_doctor_data_def load_version_data_def)

lemma navigate_to_frame [simp]:
  "app_input_mode (navigate_to e sc a) = app_input_mode a"
  "app_previous_screen (navigate_to e sc a) = app_previous_screen a"
  "app_should_quit (navigate_to e sc a) = app_should_quit a"
  by (cases sc; simp add: navigate_to_def Let_def status_def)+

lemma navigate_to_loaded:
  "ts_loaded (app_toolchains_state a) \<Longrightarrow> app_toolchains_state (navigate_to e sc a) = app_toolchains_state a"
  by (cases sc) (simp_all add: navigate_to_def Let_def status_def)

text \<open>How many presses of Esc a state is away from the menu.\<close>

definition home_distance :: "app \<Rightarrow> nat" where
  "home_distance a =
     (if app_input_mode a = Command then 1
      else
        (case app_screen a of
           Screen_Main \<Rightarrow> 0 | Screen_Toolchains \<Rightarrow> 1 | Screen_Doctor \<Rightarrow> 1
         | Screen_VersionSelect \<Rightarrow> (if app_previous_screen a = None then 1 else 2)
         | Screen_Progress \<Rightarrow> (if ps_completed (app_progress_state a) then 2 else 3)))"

lemma messages_keep_completed:
  "ps_completed (app_progress_state a) \<Longrightarrow>
   ps_completed (app_progress_state (fst (fold (install_message now) msgs (a, clear))))"
proof (induction msgs arbitrary: a clear)
  case (Cons msg msgs)
  obtain b c where b: "install_message now msg (a, clear) = (b, c)" by (cases "install_message now msg (a, clear)")
  have "ps_completed (app_progress_state b)"
    using b Cons.prems
    by (cases msg) (auto simp: update_first_def set_status_def progress_complete_def set_error_def)
  then show ?case using Cons.IH [of b c] by (simp add: b)
qed simp

lemma polled_completed:
  "ps_completed (app_progress_state a) \<Longrightarrow> ps_completed (app_progress_state (polled f a))"
  using messages_keep_completed [of a "env_now (fr_env f)" "fr_messages f" False]
  by (auto simp: polled_def poll_version_loading_def poll_install_progress_def Let_def
      split: prod.split option.split sum.split)

lemma polled_distance: "home_distance (polled f a) \<le> home_distance a"
  using polled_session [of a f] polled_completed [of a f]
  by (auto simp: home_distance_def same_session_def split: screen.split)

lemma escape_steps:
  assumes ok: "app_ok a" and run: "\<not> app_should_quit a"
  shows "\<exists>b. handle_key e Key_Esc control a = Some b \<and> \<not> app_should_quit b \<and> home_distance b \<le> home_distance a - 1"
proof (cases "app_input_mode a")
  case Command
  then show ?thesis
    using run app_okD(3) [OF ok] by (simp add: handle_key_def status_def set_input_def home_distance_def)
next
  case Normal
  show ?thesis
  proof (cases "app_screen a")
    case Screen_Main
    then show ?thesis using Normal run by (simp add: handle_key_def handle_normal_key_def handle_main_key_def home_distance_def)
  next
    case Screen_Progress
    then show ?thesis
      using Normal run return_from_progress_unfold [OF ok Screen_Progress]
      by (simp add: handle_key_def handle_normal_key_def handle_progress_key_def cancel_installation_def set_error_def
          home_distance_def)
  next
    case Screen_VersionSelect
    then show ?thesis
      using Normal run app_okD(6) [OF ok]
      by (auto simp: handle_key_def handle_normal_key_def handle_version_select_key_def home_distance_def)
  qed (use Normal run in \<open>simp_all add: handle_key_def handle_normal_key_def handle_toolchains_key_def
      handle_doctor_key_def home_distance_def\<close>)
qed

text \<open>A press of Esc in a release build, on a screen that can be drawn.\<close>

definition escapes :: "frame \<Rightarrow> bool" where
  "escapes f \<longleftrightarrow> \<not> fr_draw_fails f \<and> \<not> fr_debug f \<and> \<not> cwd_cut f \<and> (\<exists>control. fr_event f = Inr (Some (Key_Esc, control)))"

lemma escape_rounds:
  "app_ok a \<Longrightarrow> \<not> app_should_quit a \<Longrightarrow> list_all escapes fs \<Longrightarrow>
   \<exists>b. run_app fs a = Some (Running b) \<and> home_distance b \<le> home_distance a - length fs"
proof (induction fs arbitrary: a)
  case (Cons f fs)
  obtain control where f: "\<not> fr_draw_fails f" "fr_event f = Inr (Some (Key_Esc, control))"
    and drawn: "\<not> drawing_panics f (polled f a)"
    using Cons.prems(3) by (auto simp: escapes_def drawing_panics_def)
  have ok: "app_ok (polled f a)" by (rule polled_ok [OF Cons.prems(1)])
  moreover have "\<not> app_should_quit (polled f a)" using Cons.prems(2) polled_session [of a f] by (simp add: same_session_def)
  ultimately obtain b where b: "handle_key (fr_env f) Key_Esc control (polled f a) = Some b" "\<not> app_should_quit b"
    "home_distance b \<le> home_distance (polled f a) - 1"
    using escape_steps by blast
  have round_b: "app_round f a = Some (Running b)" using b f by (simp add: app_round_unfold [OF Cons.prems(1) drawn])
  have "app_ok b" using app_round_cases(2) [OF Cons.prems(1) round_b] by simp
  from Cons.IH [OF this b(2)] Cons.prems(3) obtain c where
    c: "run_app fs b = Some (Running c)" "home_distance c \<le> home_distance b - length fs" by auto
  then show ?case using round_b b(3) polled_distance [of f a] by auto
qed auto

text \<open>C15: From wherever a session is - in the command line, in a list, or in the middle of an installation -
  at most three presses of Esc lead back to the main menu, whatever messages arrive meanwhile (in a release build, with a
  working directory the header does not cut inside a character: see the panics of drawing above).\<close>

theorem escape_leads_home:
  assumes "run_app fs default_app = Some (Running a)" "list_all escapes gs" "3 \<le> length gs"
  shows "\<exists>b. run_app gs a = Some (Running b) \<and> app_screen b = Screen_Main \<and> app_input_mode b = Normal"
proof -
  note a = reached_ok [OF assms(1)]
  have "home_distance a \<le> 3" by (simp add: home_distance_def split: screen.split)
  then obtain b where b: "run_app gs a = Some (Running b)" "home_distance b = 0"
    using escape_rounds [of a gs] a assms(2,3) by auto
  then have "app_screen b = Screen_Main \<and> app_input_mode b = Normal"
    by (cases "app_input_mode b"; cases "app_screen b") (auto simp: home_distance_def split: if_splits)
  then show ?thesis using b by blast
qed

definition browse :: "frame list" where
  "browse = map press [key_char (CHR ''t''), key_char (CHR ''i'')]"

lemma browse_reached: "\<exists>a. run_app browse default_app = Some (Running a)
    \<and> app_screen a = Screen_VersionSelect \<and> app_toolchains_state a = \<lparr>ts_toolchains = [], ts_selected = 0, ts_loaded = True\<rparr>"
  by (simp add: browse_def session_simps find_by_key_def MENU_ITEMS_def menu_screen_def menu_quit_def navigate_to_def
      toolchains_new_def load_toolchain_data_def handle_toolchains_key_def show_versions_def
      version_select_new_def load_version_data_def)

theorem escape_leads_home_witness:
  "\<exists>a b. run_app browse default_app = Some (Running a) \<and> app_screen a = Screen_VersionSelect
     \<and> run_app (map press [Key_Esc, Key_Esc, Key_Esc]) a = Some (Running b) \<and> app_screen b = Screen_Main"
proof -
  obtain a where a: "run_app browse default_app = Some (Running a)" "app_screen a = Screen_VersionSelect"
    using browse_reached by blast
  have "list_all escapes (map press [Key_Esc, Key_Esc, Key_Esc])" by (auto simp: escapes_def press_def cwd_cut_def)
  from escape_leads_home [OF a(1) this] show ?thesis using a by auto
qed

lemma execute_command_tools:
  assumes "ts_loaded (app_toolchains_state a)" "execute_command e a = Some b"
  shows "app_toolchains_state b = app_toolchains_state a"
proof -
  have quick: "app_toolchains_state b = app_toolchains_state c" if "run_quick_command e args c = Some b" for args c
    using run_quick_command_cases(2) [OF that] by auto
  have nav: "app_toolchains_state (navigate_to e sc c) = app_toolchains_state a"
    if "app_toolchains_state c = app_toolchains_state a" for sc c
    using navigate_to_loaded [of c] assms(1) that by simp
  show ?thesis
    using assms(2) nav
    by (auto simp: execute_command_def Let_def set_input_def status_def dest!: quick split: if_splits)
qed

lemma load_loaded [simp]: "ts_loaded (app_toolchains_state (load_toolchain_data e a))"
  by (simp add: load_toolchain_data_def Let_def split: option.split sum.split)

lemma handle_key_tools:
  assumes ok: "app_ok a" and loaded: "ts_loaded (app_toolchains_state a)"
    and run: "handle_key e code control a = Some b"
    and other: "ts_toolchains (app_toolchains_state b) \<noteq> ts_toolchains (app_toolchains_state a)"
  shows "app_screen a = Screen_Toolchains \<and> code = Key_Enter"
proof (rule ccontr)
  assume "\<not> ?thesis"
  then have no: "app_screen a = Screen_Toolchains \<Longrightarrow> code \<noteq> Key_Enter" by blast
  have nav: "app_toolchains_state (navigate_to e sc c) = app_toolchains_state a"
    if "app_toolchains_state c = app_toolchains_state a" for sc c
    using navigate_to_loaded [of c] loaded that by simp
  have "ts_toolchains (app_toolchains_state b) = ts_toolchains (app_toolchains_state a)"
  proof (cases "control \<and> code = key_char (CHR ''c'')")
    case True
    then show ?thesis using run by (auto simp: handle_key_def)
  next
    case False
    show ?thesis
    proof (cases "app_input_mode a")
      case Command
      then have b: "handle_command_key e code control a = Some b" using run False by (simp add: handle_key_def split: if_splits)
      show ?thesis
      proof (cases "code \<in> edit_keys")
        case True
        obtain z where "at_gap a z" using app_okD(1) [OF ok] by blast
        from edit_gap [OF this True] show ?thesis using b by (auto simp: put_gap_def set_input_def)
      next
        case False
        then show ?thesis
          using b execute_command_tools [OF loaded]
          by (cases code) (auto simp: edit_keys_def status_def set_input_def history_previous_def history_next_def
              tab_complete_def Let_def split: prod.splits option.splits list.splits if_splits)
      qed
    next
      case Normal
      then have b: "handle_normal_key e code a = Some b" using run False by (simp add: handle_key_def split: if_splits)
      show ?thesis
      proof (cases "app_screen a")
        case Screen_Main
        then have m: "handle_main_key e code a = Some b" using b by (simp add: handle_normal_key_def)
        have "app_toolchains_state b = app_toolchains_state a"
          using m nav [of a] unfolding handle_main_key_def activate_menu_item_def
          by (auto simp: status_def set_input_def bind_Some_iff
              split: if_splits option.splits key_code.splits)
        then show ?thesis by simp
      next
        case Screen_Toolchains
        then show ?thesis
          using b no nav
          by (auto simp: handle_normal_key_def handle_toolchains_key_def toolchains_previous_def toolchains_next_def
              show_versions_def split: if_splits)
      next
        case Screen_Doctor
        then show ?thesis
          using b by (auto simp: handle_normal_key_def handle_doctor_key_def split: if_splits)
      next
        case Screen_Progress
        then show ?thesis
          using b nav return_from_progress_unfold [OF ok Screen_Progress]
          by (auto simp: handle_normal_key_def handle_progress_key_def cancel_installation_def split: if_splits)
      next
        case Screen_VersionSelect
        then show ?thesis
          using b nav
          by (auto simp: handle_normal_key_def handle_version_select_key_def status_def start_installation_def
              split: if_splits option.splits)
      qed
    qed
  qed
  then show False using other by simp
qed

text \<open>Once the list of toolchains has been loaded, only Enter on its own screen changes what it shows:
  an installation that completes does not, since the screen to go back to is then always the
  choice of versions, and the newly installed toolchain is missing from the list.\<close>

theorem installation_leaves_list_stale:
  assumes "run_app fs default_app = Some (Running a)" "ts_loaded (app_toolchains_state a)"
    and "app_round f a = Some (Running b)"
    and "app_screen a \<noteq> Screen_Toolchains \<or> (\<nexists>control. fr_event f = Inr (Some (Key_Enter, control)))"
  shows "ts_toolchains (app_toolchains_state b) = ts_toolchains (app_toolchains_state a)
    \<and> (app_screen a = Screen_Progress \<longrightarrow> app_screen b \<in> {Screen_Progress, Screen_VersionSelect})"
proof -
  have ok: "app_ok a" using reached_ok [OF assms(1)] by simp
  note pa = polled_ok [OF ok, of f] polled_session [of a f]
  have drawn: "\<not> drawing_panics f (polled f a)" using assms(3) app_round_draws [OF ok, of f] by auto
  obtain ev where ev: "fr_event f = Inr ev" "(case ev of None \<Rightarrow> Some (polled f a)
      | Some (code, control) \<Rightarrow> handle_key (fr_env f) code control (polled f a)) = Some b"
    using assms(3) by (auto simp: app_round_unfold [OF ok drawn] bind_Some_iff split: if_splits sum.splits)
  show ?thesis
  proof (cases ev)
    case None
    then show ?thesis using ev pa(2) by (auto simp: same_session_def)
  next
    case (Some x)
    obtain code control where x: "x = (code, control)" by (cases x)
    have run: "handle_key (fr_env f) code control (polled f a) = Some b" using ev Some x by simp
    have "ts_toolchains (app_toolchains_state b) = ts_toolchains (app_toolchains_state (polled f a))"
      using handle_key_tools [OF pa(1) _ run] assms(2,4) pa(2) ev(1) Some x by (auto simp: same_session_def)
    moreover have "app_screen b \<in> {Screen_Progress, Screen_VersionSelect}" if "app_screen a = Screen_Progress"
    proof -
      have screen: "app_screen (polled f a) = Screen_Progress" using that pa(2) by (simp add: same_session_def)
      then have "app_input_mode (polled f a) = Normal"
        using app_okD(3) [OF pa(1)] by (cases "app_input_mode (polled f a)") auto
      then show ?thesis
        using run screen return_from_progress_unfold [OF pa(1) screen]
        by (auto simp: handle_key_def handle_normal_key_def handle_progress_key_def cancel_installation_def split: if_splits)
    qed
    ultimately show ?thesis using pa(2) by (simp add: same_session_def)
  qed
qed

text \<open>A session: the empty list is shown, a version is chosen and its installation completes.\<close>

definition version_one :: version_select_info where
  "version_one = \<lparr>vi_version = [49], vi_stable = True, vi_platforms = [], vi_available_for_current = True\<rparr>"

definition install_one :: "frame list" where
  "install_one = browse @ [(press Key_Enter)\<lparr>fr_versions := Some (Inr [version_one])\<rparr>,
     (press Key_Other)\<lparr>fr_messages := [Completed [49]]\<rparr>]"

lemma install_one_reached: "\<exists>a. run_app install_one default_app = Some (Running a)
    \<and> app_screen a = Screen_Progress \<and> ps_completed (app_progress_state a)
    \<and> app_toolchains_state a = \<lparr>ts_toolchains = [], ts_selected = 0, ts_loaded = True\<rparr>"
  by (simp add: install_one_def version_one_def browse_def session_simps find_by_key_def MENU_ITEMS_def menu_screen_def
      menu_quit_def navigate_to_def toolchains_new_def load_toolchain_data_def handle_toolchains_key_def show_versions_def
      version_select_new_def load_version_data_def handle_version_select_key_def can_install_selected_def
      selected_version_def start_installation_def handle_progress_key_def progress_complete_def set_status_def
      add_item_def update_first_def progress_new_def)

theorem installation_leaves_list_stale_witness:
  "\<exists>a b. run_app install_one default_app = Some (Running a) \<and> ps_completed (app_progress_state a)
     \<and> app_round (press Key_Esc) a = Some (Running b) \<and> ts_toolchains (app_toolchains_state b) = []"
proof -
  obtain a where a: "run_app install_one default_app = Some (Running a)" "app_screen a = Screen_Progress"
    "ps_completed (app_progress_state a)" "app_toolchains_state a = \<lparr>ts_toolchains = [], ts_selected = 0, ts_loaded = True\<rparr>"
    using install_one_reached by blast
  note ok = reached_ok [OF a(1)]
  have "list_all escapes [press Key_Esc]" by (auto simp: escapes_def press_def cwd_cut_def)
  then obtain b where "run_app [press Key_Esc] a = Some (Running b)" using escape_rounds [of a "[press Key_Esc]"] ok by auto
  then have b: "app_round (press Key_Esc) a = Some (Running b)"
    by (cases "app_round (press Key_Esc) a") (auto split: outcome.splits)
  show ?thesis
    using installation_leaves_list_stale [OF a(1) _ b] a b by auto
qed

end
