(* ===== verification/Releases.thy ===== *)
theory Releases
  imports Dates "HOL-Library.Char_ord" "HOL-Library.List_Lexorder" "HOL-Library.Multiset"
begin

text \<open>
  The releases of the toolchain (\<open>apps/infs/src/toolchain/manifest.rs\<close>, \<open>toolchain/platform.rs\<close>): the entries of the
  release manifest, the choice of a version and of a file, and the fetching of the manifest through its
  cache. The parser of semantic versions and the reader of JSON are third-party code, hence
  parameters; versions are only known to be linearly ordered.
\<close>

section \<open>Platforms and entries\<close>

datatype platform = LinuxX64 | MacosArm64 | WindowsX64

fun platform_as_str :: "platform \<Rightarrow> string" where
  "platform_as_str LinuxX64 = ''linux-x64''"
| "platform_as_str MacosArm64 = ''macos-arm64''"
| "platform_as_str WindowsX64 = ''windows-x64''"

fun executable_extension :: "platform \<Rightarrow> string" where
  "executable_extension WindowsX64 = ''.exe''"
| "executable_extension _ = ''''"

fun platform_os :: "platform \<Rightarrow> string" where
  "platform_os LinuxX64 = ''linux''"
| "platform_os MacosArm64 = ''macos''"
| "platform_os WindowsX64 = ''windows''"

record file_entry =
  fe_url :: string
  fe_sha256 :: string

record version_entry =
  ve_version :: string
  ve_stable :: bool
  ve_files :: "file_entry list"

type_synonym manifest = "version_entry list"

text \<open>\<open>rsplit('/').next()\<close>, \<open>split('-').next()\<close> and \<open>split('-').nth(1)\<close>.\<close>

definition file_entry_filename :: "file_entry \<Rightarrow> string" where
  "file_entry_filename f = last (split_on (CHR ''/'') (fe_url f))"

definition file_entry_tool :: "file_entry \<Rightarrow> string" where
  "file_entry_tool f = hd (split_on (CHR ''-'') (file_entry_filename f))"

definition file_entry_os :: "file_entry \<Rightarrow> string" where
  "file_entry_os f =
     (case split_on (CHR ''-'') (file_entry_filename f) of _ # os # _ \<Rightarrow> os | _ \<Rightarrow> '''')"

definition has_platform :: "platform \<Rightarrow> version_entry \<Rightarrow> bool" where
  "has_platform p v \<longleftrightarrow> list_ex (\<lambda>f. file_entry_os f = platform_os p) (ve_files v)"

definition available_platforms :: "version_entry \<Rightarrow> string list" where
  "available_platforms v = sorted_list_of_set (set (filter (\<lambda>os. os \<noteq> '''') (map file_entry_os (ve_files v))))"

definition find_artifact :: "platform \<Rightarrow> string \<Rightarrow> version_entry \<Rightarrow> file_entry option" where
  "find_artifact p tool v =
     find (\<lambda>f. file_entry_os f = platform_os p \<and> file_entry_tool f = tool) (ve_files v)"

definition find_infc_artifact :: "platform \<Rightarrow> version_entry \<Rightarrow> file_entry option" where
  "find_infc_artifact p = find_artifact p ''infc''"

definition find_infs_artifact :: "platform \<Rightarrow> version_entry \<Rightarrow> file_entry option" where
  "find_infs_artifact p = find_artifact p ''infs''"

section \<open>The choice of a version\<close>

datatype ordering = Less | Equal | Greater

definition cmp :: "'a :: linorder \<Rightarrow> 'a \<Rightarrow> ordering" where
  "cmp x y = (if x < y then Less else if x = y then Equal else Greater)"

text \<open>The comparison of \<open>latest_stable\<close> and \<open>latest_version\<close>, and that of \<open>sorted_versions\<close>.\<close>

definition by_age :: "(string \<Rightarrow> 'v :: linorder option) \<Rightarrow> version_entry \<Rightarrow> version_entry \<Rightarrow> ordering" where
  "by_age parse a b =
     (case (parse (ve_version a), parse (ve_version b)) of
        (Some x, Some y) \<Rightarrow> cmp x y
      | (Some _, None) \<Rightarrow> Greater
      | (None, Some _) \<Rightarrow> Less
      | (None, None) \<Rightarrow> cmp (ve_version a) (ve_version b))"

definition newest_first :: "(string \<Rightarrow> 'v :: linorder option) \<Rightarrow> version_entry \<Rightarrow> version_entry \<Rightarrow> ordering" where
  "newest_first parse a b =
     (case (parse (ve_version a), parse (ve_version b)) of
        (Some x, Some y) \<Rightarrow> cmp y x
      | (Some _, None) \<Rightarrow> Less
      | (None, Some _) \<Rightarrow> Greater
      | (None, None) \<Rightarrow> cmp (ve_version b) (ve_version a))"

text \<open>\<open>Iterator::max_by\<close> gives the last of the greatest; \<open>sort_by\<close> is stable.\<close>

fun max_by :: "('a \<Rightarrow> 'a \<Rightarrow> ordering) \<Rightarrow> 'a list \<Rightarrow> 'a option" where
  "max_by c [] = None"
| "max_by c (x # xs) = Some (fold (\<lambda>y best. if c best y = Greater then best else y) xs x)"

fun sort_insert :: "('a \<Rightarrow> 'a \<Rightarrow> ordering) \<Rightarrow> 'a \<Rightarrow> 'a list \<Rightarrow> 'a list" where
  "sort_insert c x [] = [x]"
| "sort_insert c x (y # ys) = (if c x y = Greater then y # sort_insert c x ys else x # y # ys)"

definition sort_by :: "('a \<Rightarrow> 'a \<Rightarrow> ordering) \<Rightarrow> 'a list \<Rightarrow> 'a list" where
  "sort_by c xs = foldr (sort_insert c) xs []"

definition latest_stable :: "(string \<Rightarrow> 'v :: linorder option) \<Rightarrow> manifest \<Rightarrow> version_entry option" where
  "latest_stable parse m = max_by (by_age parse) (filter ve_stable m)"

definition latest_version :: "(string \<Rightarrow> 'v :: linorder option) \<Rightarrow> manifest \<Rightarrow> version_entry option" where
  "latest_version parse m = max_by (by_age parse) m"

definition find_version :: "string \<Rightarrow> manifest \<Rightarrow> version_entry option" where
  "find_version v m = find (\<lambda>e. ve_version e = v) m"

definition available_versions :: "manifest \<Rightarrow> string list" where
  "available_versions m = map ve_version m"

definition sorted_versions :: "(string \<Rightarrow> 'v :: linorder option) \<Rightarrow> manifest \<Rightarrow> version_entry list" where
  "sorted_versions parse m = sort_by (newest_first parse) m"

section \<open>Fetching\<close>

text \<open>\<open>INFS_DIST_SERVER\<close> and the address of the manifest.\<close>

definition blank :: "char \<Rightarrow> bool" where
  "blank c \<longleftrightarrow> c \<in> set [CHR '' '', CHR 0x09, CHR 0x0A, CHR 0x0B, CHR 0x0C, CHR 0x0D]"

definition trim_text :: "string \<Rightarrow> string" where
  "trim_text s = rev (dropWhile blank (rev (dropWhile blank s)))"

definition releases_url :: "string option \<Rightarrow> string" where
  "releases_url env =
     (let server = (case env of
                      Some s \<Rightarrow> if trim_text s \<noteq> [] then s else ''https://inference-lang.org''
                    | None \<Rightarrow> ''https://inference-lang.org'');
          base = rev (dropWhile (\<lambda>c. c = CHR ''/'') (rev (trim_text server)))
      in base @ ''/releases.json'')"

definition handle_http_error :: "nat \<Rightarrow> string \<Rightarrow> string" where
  "handle_http_error status url =
     (if status = 404 then ''Release manifest not found at '' @ url
      else if 500 \<le> status then ''Server error ('' @ show_nat status @ ''): '' @ url
      else ''HTTP error '' @ show_nat status @ '': '' @ url)"

text \<open>What the server does, and the cache file: absent, unreadable, or with a content that is or is not a
  cached manifest.\<close>

datatype answer = No_client | No_answer | Status nat | No_text | Text string

datatype cache_file = No_cache | Unreadable | Corrupt | Cached manifest nat

record fetching =
  ft_server :: "string option"
  ft_answer :: answer
  ft_json :: "string \<Rightarrow> manifest option"
  ft_writable :: bool
  ft_removable :: bool
  ft_now :: nat

definition fetch_manifest_from_network :: "fetching \<Rightarrow> string + manifest" where
  "fetch_manifest_from_network w =
     (let url = releases_url (ft_server w)
      in case ft_answer w of
           No_client \<Rightarrow> Inl ''Failed to create HTTP client''
         | No_answer \<Rightarrow> Inl (''Failed to fetch manifest from '' @ url)
         | Status status \<Rightarrow> Inl (handle_http_error status url)
         | No_text \<Rightarrow> Inl (''Failed to read response from '' @ url)
         | Text t \<Rightarrow>
             (case ft_json w t of
                Some m \<Rightarrow> Inr m
              | None \<Rightarrow> Inl (''Failed to parse manifest from '' @ url)))"

definition load_from_cache :: "fetching \<Rightarrow> cache_file \<Rightarrow> manifest option \<times> cache_file" where
  "load_from_cache w c =
     (case c of
        Cached m timestamp \<Rightarrow> (Some m, c)
      | Corrupt \<Rightarrow> (None, if ft_removable w then No_cache else c)
      | _ \<Rightarrow> (None, c))"

definition save_to_cache :: "fetching \<Rightarrow> manifest \<Rightarrow> cache_file \<Rightarrow> cache_file" where
  "save_to_cache w m c = (if ft_writable w then Cached m (ft_now w) else c)"

definition fetch_manifest :: "fetching \<Rightarrow> cache_file \<Rightarrow> (string + manifest) \<times> cache_file" where
  "fetch_manifest w c =
     (case load_from_cache w c of
        (Some m, c1) \<Rightarrow> (Inr m, c1)
      | (None, c1) \<Rightarrow>
          (case fetch_manifest_from_network w of
             Inl e \<Rightarrow> (Inl e, c1)
           | Inr m \<Rightarrow> (Inr m, save_to_cache w m c1)))"

definition fetch_artifact ::
  "(string \<Rightarrow> 'v :: linorder option) \<Rightarrow> fetching \<Rightarrow> string option \<Rightarrow> platform \<Rightarrow> cache_file
     \<Rightarrow> (string + (string \<times> file_entry)) \<times> cache_file" where
  "fetch_artifact parse w version p c =
     (case fetch_manifest w c of
        (Inl e, c1) \<Rightarrow> (Inl e, c1)
      | (Inr m, c1) \<Rightarrow>
          (let found =
                 (if version = None \<or> version = Some ''latest'' then
                    (case (case latest_stable parse m of Some e \<Rightarrow> Some e | None \<Rightarrow> latest_version parse m) of
                       Some e \<Rightarrow> Inr e
                     | None \<Rightarrow> Inl ''No version found in manifest'')
                  else
                    (case find_version (the version) m of
                       Some e \<Rightarrow> Inr e
                     | None \<Rightarrow> Inl (''Version '' @ the version @ '' not found in manifest'')))
           in case found of
                Inl e \<Rightarrow> (Inl e, c1)
              | Inr e \<Rightarrow>
                  (case find_infc_artifact p e of
                     Some f \<Rightarrow> (Inr (ve_version e, f), c1)
                   | None \<Rightarrow>
                       (Inl (''No artifact found for platform '' @ platform_as_str p @ '' in version '' @ ve_version e),
                        c1))))"

end
