(* ===== verification/ReleaseProperties.thy ===== *)
theory ReleaseProperties
  imports Releases
begin

text \<open>
  Properties of the releases: the order of versions, what is chosen for an installation, and that a
  cached manifest is never fetched again. A total order given by a comparison is a locale, with two
  interpretations: the ages of versions and the order of the list.
\<close>

section \<open>Comparisons\<close>

locale comparison =
  fixes c :: "'a \<Rightarrow> 'a \<Rightarrow> ordering"
  assumes total: "c x y = Greater \<Longrightarrow> c y x = Less"
    and less_flip: "c x y = Less \<Longrightarrow> c y x = Greater"
    and trans: "c x y \<noteq> Greater \<Longrightarrow> c y z \<noteq> Greater \<Longrightarrow> c x z \<noteq> Greater"
begin

lemma refl: "c x x \<noteq> Greater"
  using total [of x x] by (cases "c x x") auto

lemma fold_max:
  "(let m = fold (\<lambda>y best. if c best y = Greater then best else y) xs x
    in m \<in> set (x # xs) \<and> (\<forall>y\<in>set (x # xs). c y m \<noteq> Greater))"
proof (induction xs arbitrary: x)
  case (Cons z xs)
  define b where "b = (if c x z = Greater then x else z)"
  define m where "m = fold (\<lambda>y best. if c best y = Greater then best else y) xs b"
  have m: "m \<in> set (b # xs)" "\<And>y. y \<in> set (b # xs) \<Longrightarrow> c y m \<noteq> Greater"
    using Cons.IH [of b] by (auto simp: m_def Let_def)
  have "c x b \<noteq> Greater" "c z b \<noteq> Greater"
    using refl total [of x z] by (auto simp: b_def)
  then have "c x m \<noteq> Greater" "c z m \<noteq> Greater" using m(2) [of b] trans by auto
  then show ?case using m by (auto simp: Let_def m_def [symmetric] b_def [symmetric]) (auto simp: b_def split: if_splits)
qed (simp add: refl)

lemma max_by_correct:
  "max_by c xs = None \<longleftrightarrow> xs = []"
  "max_by c xs = Some m \<Longrightarrow> m \<in> set xs \<and> (\<forall>y\<in>set xs. c y m \<noteq> Greater)"
  using fold_max by (cases xs; force simp: Let_def)+

lemma mset_sort_insert [simp]: "mset (sort_insert c x ys) = add_mset x (mset ys)"
  by (induction ys) auto

lemma set_sort_insert [simp]: "set (sort_insert c x ys) = insert x (set ys)"
  by (induction ys) auto

lemma sorted_insert: "sorted_wrt (\<lambda>a b. c a b \<noteq> Greater) ys \<Longrightarrow> sorted_wrt (\<lambda>a b. c a b \<noteq> Greater) (sort_insert c x ys)"
proof (induction ys)
  case (Cons y ys)
  show ?case
  proof (cases "c x y = Greater")
    case True
    then have "c y x \<noteq> Greater" using total by auto
    then show ?thesis using Cons True by auto
  next
    case False
    then show ?thesis using Cons.prems trans [of x y] by auto
  qed
qed simp

lemma sort_by_correct: "mset (sort_by c xs) = mset xs \<and> sorted_wrt (\<lambda>a b. c a b \<noteq> Greater) (sort_by c xs)"
  by (induction xs) (simp_all add: sort_by_def sorted_insert)

end

lemma cmp_simps:
  "cmp x y = Greater \<longleftrightarrow> y < (x :: 'a :: linorder)" "cmp x y = Less \<longleftrightarrow> x < y"
  by (auto simp: cmp_def)

interpretation age: comparison "by_age parse" for parse :: "string \<Rightarrow> 'v :: linorder option"
  by unfold_locales (auto simp: by_age_def cmp_simps split: option.splits)

interpretation listed: comparison "newest_first parse" for parse :: "string \<Rightarrow> 'v :: linorder option"
  by unfold_locales (auto simp: newest_first_def cmp_simps split: option.splits)

lemma newest_first_flip: "newest_first parse a b = by_age parse b a"
  by (simp add: newest_first_def by_age_def split: option.split)

text \<open>No entry of a list is newer.\<close>

definition newest_of :: "(string \<Rightarrow> 'v :: linorder option) \<Rightarrow> version_entry \<Rightarrow> version_entry list \<Rightarrow> bool" where
  "newest_of parse e es \<longleftrightarrow> e \<in> set es \<and> (\<forall>u\<in>set es. by_age parse u e \<noteq> Greater)"

text \<open>C21: The list of versions has every entry of the manifest as often as the manifest has, newest first, with
  the texts that are no versions behind the versions; its first entry is as new as the latest version.\<close>

theorem versions_are_listed_newest_first:
  fixes parse :: "string \<Rightarrow> 'v :: linorder option"
  shows "mset (sorted_versions parse m) = mset m
    \<and> sorted_wrt (\<lambda>a b. by_age parse b a \<noteq> Greater) (sorted_versions parse m)
    \<and> sorted_wrt (\<lambda>a b. parse (ve_version b) \<noteq> None \<longrightarrow> parse (ve_version a) \<noteq> None) (sorted_versions parse m)
    \<and> (latest_version parse m = None \<longleftrightarrow> m = [])
    \<and> (\<forall>e. latest_version parse m = Some e \<longrightarrow> newest_of parse e m
         \<and> by_age parse (hd (sorted_versions parse m)) e \<noteq> Greater
         \<and> by_age parse e (hd (sorted_versions parse m)) \<noteq> Greater)"
proof -
  note sort = listed.sort_by_correct [of parse m, folded sorted_versions_def]
  have age: "sorted_wrt (\<lambda>a b. by_age parse b a \<noteq> Greater) (sorted_versions parse m)"
    using sort by (simp add: newest_first_flip)
  moreover have "sorted_wrt (\<lambda>a b. parse (ve_version b) \<noteq> None \<longrightarrow> parse (ve_version a) \<noteq> None) (sorted_versions parse m)"
    by (rule sorted_wrt_mono_rel [OF _ age]) (auto simp: by_age_def split: option.splits)
  moreover have "newest_of parse e m \<and> by_age parse (hd (sorted_versions parse m)) e \<noteq> Greater
      \<and> by_age parse e (hd (sorted_versions parse m)) \<noteq> Greater" if e: "latest_version parse m = Some e" for e
  proof -
    have newest: "newest_of parse e m"
      using age.max_by_correct(2) [of parse m e] e by (simp add: latest_version_def newest_of_def)
    have same: "set (sorted_versions parse m) = set m" using sort by (metis mset_eq_setD)
    obtain h t where h: "sorted_versions parse m = h # t"
      using newest same by (cases "sorted_versions parse m") (auto simp: newest_of_def)
    then have "h \<in> set m" "e \<in> set (h # t)" using same newest by (auto simp: newest_of_def)
    then show ?thesis using newest age age.refl [of parse h] by (auto simp: h newest_of_def)
  qed
  ultimately show ?thesis
    using sort age.max_by_correct(1) [of parse m] by (simp add: latest_version_def)
qed

definition sample_manifest :: manifest where
  "sample_manifest =
     [\<lparr>ve_version = ''9'', ve_stable = True,
       ve_files = [\<lparr>fe_url = ''https://h/infs-linux-x64.tar.gz'', fe_sha256 = ''00''\<rparr>,
                   \<lparr>fe_url = ''https://h/infc-linux-x64.tar.gz'', fe_sha256 = ''01''\<rparr>]\<rparr>,
      \<lparr>ve_version = ''10'', ve_stable = False, ve_files = []\<rparr>]"

theorem versions_are_listed_newest_first_witness:
  "latest_version parse_u64 sample_manifest = Some (sample_manifest ! 1) \<and> newest_of parse_u64 (sample_manifest ! 1) sample_manifest"
proof -
  have v: "parse_u64 ''9'' = Some 9" "parse_u64 ''10'' = Some 10"
    by (simp_all add: parse_u64_def digit_value_def)
  have "latest_version parse_u64 sample_manifest = Some (sample_manifest ! 1)"
    by (simp add: latest_version_def sample_manifest_def by_age_def v cmp_def)
  then show ?thesis using versions_are_listed_newest_first [of parse_u64 sample_manifest] by blast
qed

section \<open>What is installed\<close>

text \<open>C20: The file chosen for an installation belongs to an entry of the manifest that was fetched, is the
  compiler for the platform, and the entry is the one that was asked for: without a version, the
  newest stable one, and the newest of all when none is stable.\<close>

theorem installation_takes_newest_stable:
  fixes parse :: "string \<Rightarrow> 'v :: linorder option"
  assumes "fetch_artifact parse w version p c = (Inr (v, f), c')"
  shows "\<exists>m e. fetch_manifest w c = (Inr m, c') \<and> e \<in> set m \<and> ve_version e = v \<and> f \<in> set (ve_files e)
    \<and> file_entry_os f = platform_os p \<and> file_entry_tool f = ''infc''
    \<and> (if version = None \<or> version = Some ''latest''
       then newest_of parse e (if \<exists>u\<in>set m. ve_stable u then filter ve_stable m else m)
       else v = the version)"
proof -
  obtain m where m: "fetch_manifest w c = (Inr m, c')"
    using assms by (auto simp: fetch_artifact_def Let_def split: prod.splits sum.splits option.splits if_splits)
  obtain e where e: "find_infc_artifact p e = Some f" "ve_version e = v"
    "if version = None \<or> version = Some ''latest''
     then (case latest_stable parse m of Some e \<Rightarrow> Some e | None \<Rightarrow> latest_version parse m) = Some e
     else find_version (the version) m = Some e"
    using assms m by (auto simp: fetch_artifact_def Let_def split: sum.splits option.splits if_splits)
  have file': "f \<in> set (ve_files e)" "file_entry_os f = platform_os p" "file_entry_tool f = ''infc''"
    using e(1) by (auto simp: find_infc_artifact_def find_artifact_def find_Some_iff)
  have "e \<in> set m \<and> (if version = None \<or> version = Some ''latest''
       then newest_of parse e (if \<exists>u\<in>set m. ve_stable u then filter ve_stable m else m)
       else v = the version)"
  proof (cases "version = None \<or> version = Some ''latest''")
    case True
    show ?thesis
    proof (cases "latest_stable parse m")
      case None
      then have none: "filter ve_stable m = []" using age.max_by_correct(1) by (metis latest_stable_def)
      have "newest_of parse e m"
        using age.max_by_correct(2) [of parse m e] e(3) True None by (simp add: latest_version_def newest_of_def)
      then show ?thesis using True none by (auto simp: newest_of_def filter_empty_conv)
    next
      case (Some s)
      then have "newest_of parse e (filter ve_stable m)"
        using age.max_by_correct(2) [of parse "filter ve_stable m" e] e(3) True
        by (simp add: latest_stable_def newest_of_def)
      then show ?thesis using True by (auto simp: newest_of_def)
    qed
  next
    case False
    then show ?thesis using e(2,3) by (auto simp: find_version_def find_Some_iff)
  qed
  then show ?thesis using m e(2) file' by blast
qed

definition online :: "string \<Rightarrow> fetching" where
  "online t = \<lparr>ft_server = None, ft_answer = Text t,
     ft_json = (\<lambda>t. if t = ''a'' then Some sample_manifest else if t = ''b'' then Some [] else None),
     ft_writable = True, ft_removable = True, ft_now = 0\<rparr>"

lemma fetch_online: "fetch_manifest (online ''a'') No_cache = (Inr sample_manifest, Cached sample_manifest 0)"
  by (simp add: fetch_manifest_def load_from_cache_def fetch_manifest_from_network_def online_def save_to_cache_def Let_def)

theorem installation_takes_newest_stable_witness:
  "\<exists>f. fst (fetch_artifact parse_u64 (online ''a'') None LinuxX64 No_cache) = Inr (''9'', f)
     \<and> file_entry_tool f = ''infc''"
proof -
  have "latest_stable parse_u64 sample_manifest = Some (sample_manifest ! 0)"
    by (simp add: latest_stable_def sample_manifest_def)
  moreover have "find_infc_artifact LinuxX64 (sample_manifest ! 0) = Some (ve_files (sample_manifest ! 0) ! 1)"
    by (simp add: sample_manifest_def find_infc_artifact_def find_artifact_def file_entry_os_def file_entry_tool_def
        file_entry_filename_def)
  ultimately have "fetch_artifact parse_u64 (online ''a'') None LinuxX64 No_cache =
      (Inr (''9'', ve_files (sample_manifest ! 0) ! 1), Cached sample_manifest 0)"
    by (simp add: fetch_artifact_def fetch_online) (simp add: sample_manifest_def)
  from installation_takes_newest_stable [OF this] this show ?thesis by auto
qed

section \<open>The cache\<close>

text \<open>A sequence of fetches, each with its own server, clock and file system.\<close>

fun fetches :: "fetching list \<Rightarrow> cache_file \<Rightarrow> (string + manifest) list" where
  "fetches [] c = []"
| "fetches (w # ws) c = (case fetch_manifest w c of (r, c1) \<Rightarrow> r # fetches ws c1)"

text \<open>Once a manifest has been written to the cache, every later fetch returns it, whatever the server
  offers and however much time has passed: new releases are not seen.\<close>

theorem cached_releases_never_refresh:
  assumes "fetch_manifest w c = (Inr m, c1)" "ft_writable w"
  shows "fetches ws c1 = replicate (length ws) (Inr m)
    \<and> (\<forall>v. fetch_manifest v c1 = (Inr m, c1))"
proof -
  obtain t where c1: "c1 = Cached m t"
    using assms by (auto simp: fetch_manifest_def load_from_cache_def save_to_cache_def
        split: cache_file.splits sum.splits if_splits)
  have again: "fetch_manifest v c1 = (Inr m, c1)" for v
    by (simp add: c1 fetch_manifest_def load_from_cache_def)
  then have "fetches ws c1 = replicate (length ws) (Inr m)" by (induction ws) simp_all
  then show ?thesis using again by blast
qed

theorem cached_releases_never_refresh_witness:
  "fetches [(online ''b'')\<lparr>ft_now := 1000000\<rparr>] (snd (fetch_manifest (online ''a'') No_cache)) = [Inr sample_manifest]"
proof -
  have "ft_writable (online ''a'')" by (simp add: online_def)
  from cached_releases_never_refresh [OF fetch_online this] show ?thesis by (simp add: fetch_online)
qed

end
