(* ===== verification/ToolStore.thy ===== *)
theory ToolStore
  imports Releases
begin

text \<open>
  The directory of installed toolchains (\<open>apps/infs/src/toolchain/paths.rs\<close>), the search for the compiler
  (\<open>toolchain/resolver.rs\<close>) and the commands \<open>uninstall\<close>, \<open>default\<close> and \<open>install\<close> of \<open>infs\<close> on Unix. The
  disk is a table of entries by absolute path; a path is the list of its components, and \<open>..\<close> is
  resolved by the file system. An operation that fails leaves what was done before it. What is printed
  is left out, and of a message over several lines the first is given. The paths in the environment are
  taken to be absolute, and the directories on the way to a path exist and are no links.
\<close>

section \<open>The file system\<close>

datatype entry = Directory | File string | Symlink "string list"

type_synonym path = "string list"
type_synonym disk = "(path \<times> entry) list"

definition look :: "disk \<Rightarrow> path \<Rightarrow> entry option" where
  "look d p = map_of d p"

definition unlink :: "path \<Rightarrow> disk \<Rightarrow> disk" where
  "unlink p d = filter (\<lambda>(q, e). q \<noteq> p) d"

definition put_entry :: "path \<Rightarrow> entry \<Rightarrow> disk \<Rightarrow> disk" where
  "put_entry p e d = (p, e) # unlink p d"

definition below :: "path \<Rightarrow> path \<Rightarrow> bool" where
  "below p q \<longleftrightarrow> take (length p) q = p"

text \<open>\<open>PathBuf::join\<close>: an absolute path replaces the base. Resolving goes up at \<open>..\<close>.\<close>

definition components :: "string \<Rightarrow> path" where
  "components s = filter (\<lambda>c. c \<noteq> '''' \<and> c \<noteq> ''.'') (split_on (CHR ''/'') s)"

definition join_path :: "path \<Rightarrow> string \<Rightarrow> path" where
  "join_path p s = (if s \<noteq> '''' \<and> hd s = CHR ''/'' then components s else p @ components s)"

definition resolve :: "path \<Rightarrow> path" where
  "resolve p = fold (\<lambda>c acc. if c = ''..'' then butlast acc else acc @ [c]) p []"

definition display :: "path \<Rightarrow> string" where
  "display p = ''/'' @ join ''/'' p"

text \<open>\<open>exists\<close> and \<open>is_dir\<close> follow a link, \<open>symlink_metadata\<close> does not.\<close>

definition follow :: "disk \<Rightarrow> path \<Rightarrow> entry option" where
  "follow d p = (case look d (resolve p) of Some (Symlink t) \<Rightarrow> look d t | r \<Rightarrow> r)"

definition path_exists :: "disk \<Rightarrow> path \<Rightarrow> bool" where
  "path_exists d p \<longleftrightarrow> follow d p \<noteq> None"

definition is_dir :: "disk \<Rightarrow> path \<Rightarrow> bool" where
  "is_dir d p \<longleftrightarrow> follow d p = Some Directory"

definition link_exists :: "disk \<Rightarrow> path \<Rightarrow> bool" where
  "link_exists d p \<longleftrightarrow> look d (resolve p) \<noteq> None"

text \<open>Operations that may fail; the system may refuse to touch some paths. Removing a directory by a path that
  ends in \<open>..\<close> removes what is in it and then cannot find the path any more: the directory stays, and
  the standard library takes that for success or not, by its version.\<close>

record system =
  sy_denied :: "path \<Rightarrow> bool"
  sy_inference_home :: "string option"
  sy_home :: "string option"
  sy_platform :: "string + platform"
  sy_infc_path :: "string option"
  sy_which_infc :: "path option"
  sy_infs_metadata :: string
  sy_metadata :: string
  sy_vanished_ok :: bool

type_synonym 'a io = "disk \<Rightarrow> (string + 'a) \<times> disk"

definition io_ok :: "'a \<Rightarrow> 'a io" where
  "io_ok x d = (Inr x, d)"

definition io_fail :: "string \<Rightarrow> 'a io" where
  "io_fail e d = (Inl e, d)"

definition io_then :: "'a io \<Rightarrow> ('a \<Rightarrow> 'b io) \<Rightarrow> 'b io" where
  "io_then m f d = (case m d of (Inl e, d1) \<Rightarrow> (Inl e, d1) | (Inr x, d1) \<Rightarrow> f x d1)"

fun io_each :: "('a \<Rightarrow> unit io) \<Rightarrow> 'a list \<Rightarrow> unit io" where
  "io_each f [] = io_ok ()"
| "io_each f (x # xs) = io_then (f x) (\<lambda>_. io_each f xs)"

definition create_dir_all :: "system \<Rightarrow> path \<Rightarrow> string \<Rightarrow> unit io" where
  "create_dir_all sys p0 err d =
     (let p = resolve p0; dirs = map (\<lambda>n. take n p) [1..<length p + 1]
      in if sy_denied sys p \<or> list_ex (\<lambda>q. look d q \<noteq> None \<and> look d q \<noteq> Some Directory) dirs then (Inl err, d)
         else (Inr (), fold (\<lambda>q d. if look d q = None then put_entry q Directory d else d) dirs d))"

definition write_file :: "system \<Rightarrow> path \<Rightarrow> string \<Rightarrow> string \<Rightarrow> unit io" where
  "write_file sys p0 content err d =
     (let p = resolve p0
      in if sy_denied sys p \<or> look d p = Some Directory \<or> look d (butlast p) \<noteq> Some Directory then (Inl err, d)
         else (Inr (), put_entry p (File content) d))"

definition read_file :: "system \<Rightarrow> path \<Rightarrow> string \<Rightarrow> string io" where
  "read_file sys p err d =
     (case follow d p of
        Some (File s) \<Rightarrow> if sy_denied sys (resolve p) then (Inl err, d) else (Inr s, d)
      | _ \<Rightarrow> (Inl err, d))"

definition remove_file :: "system \<Rightarrow> path \<Rightarrow> string \<Rightarrow> unit io" where
  "remove_file sys p0 err d =
     (let p = resolve p0
      in if sy_denied sys p \<or> look d p = None \<or> look d p = Some Directory then (Inl err, d)
         else (Inr (), unlink p d))"

definition remove_dir_all :: "system \<Rightarrow> path \<Rightarrow> string \<Rightarrow> unit io" where
  "remove_dir_all sys p0 err d =
     (let p = resolve p0
      in if sy_denied sys p \<or> look d p \<noteq> Some Directory then (Inl err, d)
         else if p0 \<noteq> [] \<and> last p0 = ''..'' then
           (if sy_vanished_ok sys then Inr () else Inl err, filter (\<lambda>(q, e). q = p \<or> \<not> below p q) d)
         else (Inr (), filter (\<lambda>(q, e). \<not> below p q) d))"

definition symlink :: "system \<Rightarrow> path \<Rightarrow> path \<Rightarrow> string \<Rightarrow> unit io" where
  "symlink sys source target err d =
     (let p = resolve target
      in if sy_denied sys p \<or> look d p \<noteq> None \<or> look d (butlast p) \<noteq> Some Directory then (Inl err, d)
         else (Inr (), put_entry p (Symlink (resolve source)) d))"

definition read_dir :: "system \<Rightarrow> path \<Rightarrow> string \<Rightarrow> string list io" where
  "read_dir sys p0 err d =
     (let p = resolve p0
      in if sy_denied sys p \<or> look d p \<noteq> Some Directory then (Inl err, d)
         else (Inr (map (\<lambda>(q, e). last q) (filter (\<lambda>(q, e). q \<noteq> [] \<and> butlast q = p) d)), d))"

section \<open>Paths\<close>

record toolchain_paths =
  tp_root :: path
  tp_toolchains :: path
  tp_bin :: path
  tp_downloads :: path

definition MANAGED_BINARIES :: "string list" where
  "MANAGED_BINARIES = [''infc'', ''inf-llc'', ''rust-lld'']"

definition with_root :: "path \<Rightarrow> toolchain_paths" where
  "with_root root =
     \<lparr>tp_root = root, tp_toolchains = join_path root ''toolchains'', tp_bin = join_path root ''bin'',
      tp_downloads = join_path root ''downloads''\<rparr>"

definition toolchain_paths_new :: "system \<Rightarrow> string + toolchain_paths" where
  "toolchain_paths_new sys =
     (case sy_inference_home sys of
        Some home \<Rightarrow> Inr (with_root (components home))
      | None \<Rightarrow>
          (case sy_home sys of
             Some home \<Rightarrow> Inr (with_root (join_path (components home) ''.inference''))
           | None \<Rightarrow> Inl ''Cannot determine home directory. Set INFERENCE_HOME environment variable.''))"

definition toolchain_dir :: "toolchain_paths \<Rightarrow> string \<Rightarrow> path" where
  "toolchain_dir P version = join_path (tp_toolchains P) version"

definition toolchain_bin_dir :: "toolchain_paths \<Rightarrow> string \<Rightarrow> path" where
  "toolchain_bin_dir P version = join_path (toolchain_dir P version) ''bin''"

definition default_file :: "toolchain_paths \<Rightarrow> path" where
  "default_file P = join_path (tp_root P) ''default''"

definition infs_metadata_path :: "toolchain_paths \<Rightarrow> path" where
  "infs_metadata_path P = join_path (tp_root P) ''infs.json''"

definition download_path :: "toolchain_paths \<Rightarrow> string \<Rightarrow> path" where
  "download_path P filename = join_path (tp_downloads P) filename"

definition metadata_path :: "toolchain_paths \<Rightarrow> string \<Rightarrow> path" where
  "metadata_path P version = join_path (toolchain_dir P version) ''.metadata.json''"

definition symlink_path :: "toolchain_paths \<Rightarrow> string \<Rightarrow> path" where
  "symlink_path P binary_name = join_path (tp_bin P) binary_name"

definition is_version_installed :: "toolchain_paths \<Rightarrow> string \<Rightarrow> disk \<Rightarrow> bool" where
  "is_version_installed P version d = path_exists d (toolchain_dir P version)"

definition binary_path :: "toolchain_paths \<Rightarrow> disk \<Rightarrow> string \<Rightarrow> string \<Rightarrow> path" where
  "binary_path P d version binary_name =
     (let bin_path = join_path (toolchain_bin_dir P version) binary_name;
          root_path = join_path (toolchain_dir P version) binary_name
      in if path_exists d bin_path then bin_path
         else if path_exists d root_path then root_path
         else bin_path)"

definition write_infs_metadata :: "system \<Rightarrow> toolchain_paths \<Rightarrow> unit io" where
  "write_infs_metadata sys P =
     write_file sys (infs_metadata_path P) (sy_infs_metadata sys)
       (''Failed to write infs metadata to '' @ display (infs_metadata_path P))"

definition ensure_infs_metadata :: "system \<Rightarrow> toolchain_paths \<Rightarrow> unit io" where
  "ensure_infs_metadata sys P d =
     (if \<not> path_exists d (infs_metadata_path P) then write_infs_metadata sys P d else io_ok () d)"

definition ensure_directories :: "system \<Rightarrow> toolchain_paths \<Rightarrow> unit io" where
  "ensure_directories sys P =
     io_then (io_each (\<lambda>dir. create_dir_all sys dir (''Failed to create directory: '' @ display dir))
       [tp_root P, tp_toolchains P, tp_bin P, tp_downloads P]) (\<lambda>_. ensure_infs_metadata sys P)"

definition write_metadata :: "system \<Rightarrow> toolchain_paths \<Rightarrow> string \<Rightarrow> unit io" where
  "write_metadata sys P version =
     write_file sys (metadata_path P version) (sy_metadata sys)
       (''Failed to write metadata to '' @ display (metadata_path P version))"

definition get_default_version :: "system \<Rightarrow> toolchain_paths \<Rightarrow> string option io" where
  "get_default_version sys P d =
     (if \<not> path_exists d (default_file P) then io_ok None d
      else
        io_then (read_file sys (default_file P)
            (''Failed to read default version from '' @ display (default_file P)))
          (\<lambda>content. (let version = trim_text content in io_ok (if version = '''' then None else Some version))) d)"

definition set_default_version :: "system \<Rightarrow> toolchain_paths \<Rightarrow> string \<Rightarrow> unit io" where
  "set_default_version sys P version =
     io_then (create_dir_all sys (tp_root P) (''Failed to create directory: '' @ display (tp_root P)))
       (\<lambda>_. write_file sys (default_file P) version
          (''Failed to write default version to '' @ display (default_file P)))"

definition list_installed_versions :: "system \<Rightarrow> toolchain_paths \<Rightarrow> string list io" where
  "list_installed_versions sys P d =
     (if \<not> path_exists d (tp_toolchains P) then io_ok [] d
      else
        io_then (read_dir sys (tp_toolchains P)
            (''Failed to read toolchains directory: '' @ display (tp_toolchains P)))
          (\<lambda>names. io_ok (sort (filter (\<lambda>n. is_dir d (tp_toolchains P @ [n])) names))) d)"

section \<open>Links\<close>

definition create_symlink :: "system \<Rightarrow> toolchain_paths \<Rightarrow> string \<Rightarrow> string \<Rightarrow> unit io" where
  "create_symlink sys P version binary_name d =
     (let source = binary_path P d version binary_name; target = symlink_path P binary_name
      in if \<not> path_exists d source then
           io_fail (''Source binary not found: '' @ display source
             @ ''. The toolchain archive may be incomplete or corrupted.'') d
         else
           io_then (if path_exists d target
                    then remove_file sys target (''Failed to remove existing symlink: '' @ display target)
                    else io_ok ())
             (\<lambda>_. symlink sys source target
                (''Failed to create symlink from '' @ display source @ '' to '' @ display target)) d)"

definition remove_symlink :: "system \<Rightarrow> toolchain_paths \<Rightarrow> string \<Rightarrow> unit io" where
  "remove_symlink sys P binary_name d =
     (let target = symlink_path P binary_name
      in if link_exists d target then remove_file sys target (''Failed to remove symlink: '' @ display target) d
         else io_ok () d)"

definition update_symlinks :: "system \<Rightarrow> toolchain_paths \<Rightarrow> string \<Rightarrow> unit io" where
  "update_symlinks sys P version =
     (case sy_platform sys of
        Inl e \<Rightarrow> io_fail e
      | Inr platform \<Rightarrow>
          io_then (create_dir_all sys (tp_bin P) (''Failed to create bin directory: '' @ display (tp_bin P)))
            (\<lambda>_. io_each (\<lambda>name. create_symlink sys P version (name @ executable_extension platform)) MANAGED_BINARIES))"

definition remove_symlinks :: "system \<Rightarrow> toolchain_paths \<Rightarrow> unit io" where
  "remove_symlinks sys P =
     (case sy_platform sys of
        Inl e \<Rightarrow> io_fail e
      | Inr platform \<Rightarrow>
          io_each (\<lambda>name. remove_symlink sys P (name @ executable_extension platform)) MANAGED_BINARIES)"

definition validate_symlinks :: "system \<Rightarrow> toolchain_paths \<Rightarrow> disk \<Rightarrow> string list" where
  "validate_symlinks sys P d =
     (case sy_platform sys of
        Inl e \<Rightarrow> []
      | Inr platform \<Rightarrow>
          filter (\<lambda>binary. link_exists d (symlink_path P binary) \<and> \<not> path_exists d (symlink_path P binary))
            (map (\<lambda>name. name @ executable_extension platform) MANAGED_BINARIES))"

definition repair_symlinks :: "system \<Rightarrow> toolchain_paths \<Rightarrow> unit io" where
  "repair_symlinks sys P d =
     (if validate_symlinks sys P d = [] then io_ok () d
      else
        io_then (get_default_version sys P)
          (\<lambda>default_version d1.
             (case default_version of
                Some version \<Rightarrow>
                  if is_version_installed P version d1 then update_symlinks sys P version d1
                  else remove_symlinks sys P d1
              | None \<Rightarrow> remove_symlinks sys P d1)) d)"

section \<open>Commands\<close>

text \<open>\<open>std::fs::remove_file(..).ok()\<close> forgets an error.\<close>

definition uninstall_execute :: "system \<Rightarrow> toolchain_paths \<Rightarrow> string \<Rightarrow> unit io" where
  "uninstall_execute sys P version d =
     (if \<not> is_version_installed P version d then
        io_fail (''Toolchain version '' @ version @ '' is not installed.'') d
      else
        io_then (get_default_version sys P)
          (\<lambda>default_version.
             io_then (remove_dir_all sys (toolchain_dir P version)
                 (''Failed to remove toolchain directory: '' @ display (toolchain_dir P version)))
               (\<lambda>_ d1.
                  if default_version = Some version then
                    io_then (list_installed_versions sys P)
                      (\<lambda>remaining d2.
                         if remaining = [] then
                           remove_symlinks sys P (snd (remove_file sys (default_file P) '''' d2))
                         else
                           io_then (set_default_version sys P (last remaining))
                             (\<lambda>_. update_symlinks sys P (last remaining)) d2) d1
                  else repair_symlinks sys P d1)) d)"

definition default_execute :: "system \<Rightarrow> toolchain_paths \<Rightarrow> fetching \<Rightarrow> cache_file \<Rightarrow> string \<Rightarrow> unit io" where
  "default_execute sys P w c version d =
     (if \<not> is_version_installed P version d then
        io_fail
          (case fst (fetch_manifest w c) of
             Inr m \<Rightarrow>
               if find_version version m \<noteq> None then ''Toolchain version '' @ version @ '' is not installed.''
               else ''Toolchain version '' @ version @ '' does not exist.''
           | Inl e \<Rightarrow> ''Toolchain version '' @ version @ '' is not installed.'') d
      else
        io_then (get_default_version sys P)
          (\<lambda>current_default.
             if current_default = Some version then io_ok ()
             else io_then (set_default_version sys P version) (\<lambda>_. update_symlinks sys P version)) d)"

text \<open>The steps of an installation that use the network and the archive: what they fail with, and the
  entries they put into the directory of the version. The archive itself, and the set-up of the shell after
  the first installation, are left out.\<close>

record delivery =
  dl_artifact :: "string + (string \<times> file_entry)"
  dl_download :: "string option"
  dl_checksum :: "string option"
  dl_extract :: "string + (path \<times> entry) list"
  dl_permissions :: "string option"

definition io_step :: "string option \<Rightarrow> unit io" where
  "io_step r = (case r of Some e \<Rightarrow> io_fail e | None \<Rightarrow> io_ok ())"

definition extract_archive :: "delivery \<Rightarrow> path \<Rightarrow> unit io" where
  "extract_archive w dir d =
     (case dl_extract w of
        Inl e \<Rightarrow> (Inl e, d)
      | Inr entries \<Rightarrow> (Inr (), fold (\<lambda>(p, e). put_entry (resolve dir @ p) e) (([], Directory) # entries) d))"

definition install_execute :: "system \<Rightarrow> toolchain_paths \<Rightarrow> delivery \<Rightarrow> unit io" where
  "install_execute sys P w =
     (case sy_platform sys of
        Inl e \<Rightarrow> io_fail e
      | Inr platform \<Rightarrow>
          io_then (ensure_directories sys P) (\<lambda>_.
            (case dl_artifact w of
               Inl e \<Rightarrow> io_fail e
             | Inr (version, artifact) \<Rightarrow>
                 (\<lambda>d. if is_version_installed P version d then
                     io_then (get_default_version sys P) (\<lambda>current_default.
                       if current_default = None then
                         io_then (set_default_version sys P version) (\<lambda>_. update_symlinks sys P version)
                       else io_ok ()) d
                   else
                     io_then (io_step (dl_download w)) (\<lambda>_.
                     io_then (io_step (dl_checksum w)) (\<lambda>_.
                     io_then (extract_archive w (toolchain_dir P version)) (\<lambda>_.
                     io_then (io_step (dl_permissions w)) (\<lambda>_.
                     io_then (write_metadata sys P version) (\<lambda>_.
                     io_then (list_installed_versions sys P) (\<lambda>installed.
                     io_then (get_default_version sys P) (\<lambda>current_default.
                       if installed = [version] \<or> current_default = None then
                         io_then (set_default_version sys P version) (\<lambda>_. update_symlinks sys P version)
                       else io_ok ()))))))) d))))"

section \<open>The search for the compiler\<close>

definition find_infc :: "system \<Rightarrow> disk \<Rightarrow> string + path" where
  "find_infc sys d =
     (case sy_infc_path sys of
        Some p \<Rightarrow>
          if path_exists d (components p) then Inr (components p)
          else Inl (''INFC_PATH environment variable set to '' @ [CHR 0x27] @ p @ [CHR 0x27] @ '', but file does not exist'')
      | None \<Rightarrow>
          (case sy_which_infc sys of
             Some p \<Rightarrow> Inr p
           | None \<Rightarrow>
               (case toolchain_paths_new sys of
                  Inl e \<Rightarrow> Inl ''infc compiler not found.''
                | Inr P \<Rightarrow>
                    (case fst (get_default_version sys P d) of
                       Inr (Some version) \<Rightarrow>
                         (case sy_platform sys of
                            Inl e \<Rightarrow> Inl ''Failed to detect platform while searching for infc''
                          | Inr platform \<Rightarrow>
                              (let infc_path = join_path (toolchain_bin_dir P version)
                                     (''infc'' @ executable_extension platform)
                               in if path_exists d infc_path then Inr infc_path
                                  else Inl ''infc compiler not found.''))
                     | _ \<Rightarrow> Inl ''infc compiler not found.''))))"

end
