(* ===== verification/StoreFacts.thy ===== *)
theory StoreFacts
  imports ToolStore
begin

text \<open>
  The file system of the store: looking up after an update, plain names and normal paths, and the
  interface \<open>untouched\<close> of a set of paths that the operations on links and on the default never write to,
  with the entries of another version as its instance.
\<close>

section \<open>Paths\<close>

definition plain :: "string \<Rightarrow> bool" where
  "plain s \<longleftrightarrow> s \<noteq> '''' \<and> s \<noteq> ''.'' \<and> s \<noteq> ''..'' \<and> CHR ''/'' \<notin> set s"

definition normal :: "path \<Rightarrow> bool" where
  "normal p \<longleftrightarrow> ''..'' \<notin> set p"

lemma plain_join [simp]: "plain s \<Longrightarrow> join_path p s = p @ [s]"
  by (cases s) (auto simp: plain_def join_path_def components_def split_on_last)

lemma resolve_append: "normal p \<Longrightarrow> resolve p = p"
proof -
  have "normal p \<Longrightarrow> fold (\<lambda>c acc. if c = ''..'' then butlast acc else acc @ [c]) p acc = acc @ p" for acc
    by (induction p arbitrary: acc) (auto simp: normal_def)
  then show "normal p \<Longrightarrow> resolve p = p" by (simp add: resolve_def)
qed

lemma resolve_up: "normal p \<Longrightarrow> resolve (p @ [''..'']) = butlast p"
  using resolve_append [of p] by (simp add: resolve_def)

lemma normal_append [simp]: "normal (p @ q) \<longleftrightarrow> normal p \<and> normal q"
  by (auto simp: normal_def)

lemma plain_normal: "plain s \<Longrightarrow> normal [s]"
  by (auto simp: plain_def normal_def)

lemma plain_names [simp]:
  "plain ''toolchains''" "plain ''bin''" "plain ''default''" "plain ''downloads''" "plain ''infs.json''"
  by (simp_all add: plain_def)

lemma plain_binaries: "name \<in> set MANAGED_BINARIES \<Longrightarrow> plain (name @ executable_extension pl)"
  by (cases pl) (auto simp: MANAGED_BINARIES_def plain_def)

lemma with_root_simps [simp]:
  "tp_root (with_root r) = r" "tp_toolchains (with_root r) = r @ [''toolchains'']"
  "tp_bin (with_root r) = r @ [''bin'']" "default_file (with_root r) = r @ [''default'']"
  by (simp_all add: with_root_def default_file_def)

lemma resolve_paths:
  assumes "normal r"
  shows "resolve r = r" "resolve (r @ [''toolchains'']) = r @ [''toolchains'']" "resolve (r @ [''bin'']) = r @ [''bin'']"
    "resolve (r @ [''default'']) = r @ [''default'']"
    "plain v \<Longrightarrow> resolve (r @ [''toolchains'', v]) = r @ [''toolchains'', v]"
    "plain v \<Longrightarrow> resolve (r @ [''bin'', v]) = r @ [''bin'', v]"
  using assms plain_normal [of v] by (auto intro!: resolve_append simp: normal_def)

lemma below_refl [simp]: "below p p" "below p (p @ q)"
  by (simp_all add: below_def)

lemma below_append: "below p q \<longleftrightarrow> (\<exists>r. q = p @ r)"
  by (metis append_take_drop_id below_def append_eq_conv_conj)

section \<open>Entries\<close>

lemma look_filter: "look (filter (\<lambda>(q, e). P q) d) q = (if P q then look d q else None)"
  by (induction d) (auto simp: look_def)

lemma look_unlink [simp]: "look (unlink p d) q = (if q = p then None else look d q)"
  unfolding unlink_def by (subst look_filter [of "\<lambda>q. q \<noteq> p"]) simp

lemma look_put [simp]: "look (put_entry p e d) q = (if q = p then Some e else look d q)"
  using look_unlink [of p d q] by (simp add: put_entry_def look_def)

lemma look_remove_all [simp]:
  "look (filter (\<lambda>(q, e). \<not> below p q) d) q = (if below p q then None else look d q)"
  by (subst look_filter [of "\<lambda>q. \<not> below p q"]) simp

lemma look_in: "look d q = Some e \<Longrightarrow> (q, e) \<in> set d"
  by (simp add: look_def map_of_SomeD)

lemma look_dirs:
  "look (fold (\<lambda>q d. if look d q = None then put_entry q Directory d else d) qs d) q =
     (if q \<in> set qs \<and> look d q = None then Some Directory else look d q)"
  by (induction qs arbitrary: d) auto

lemma io_simps [simp]:
  "io_ok x d = (Inr x, d)" "io_fail e d = (Inl e, d)"
  "io_then m f d = (case m d of (Inl e, d1) \<Rightarrow> (Inl e, d1) | (Inr x, d1) \<Rightarrow> f x d1)"
  by (simp_all add: io_ok_def io_fail_def io_then_def)

lemma io_then_ok: "io_then m f d = (Inr y, d') \<longleftrightarrow> (\<exists>x d1. m d = (Inr x, d1) \<and> f x d1 = (Inr y, d'))"
  by (auto split: prod.split sum.split)

lemma reads_keep_disk:
  "snd (read_file sys p e d) = d" "snd (read_dir sys p e d) = d"
  "snd (get_default_version sys P d) = d" "snd (list_installed_versions sys P d) = d"
  by (auto simp: read_file_def read_dir_def get_default_version_def list_installed_versions_def Let_def
      split: option.split entry.split prod.split sum.split)

section \<open>Paths nothing is written to\<close>

definition keeps_paths :: "path set \<Rightarrow> 'a io \<Rightarrow> bool" where
  "keeps_paths K m \<longleftrightarrow> (\<forall>d. \<forall>q\<in>K. look (snd (m d)) q = look d q)"

lemma keeps_pathsI [intro]: "(\<And>d q. q \<in> K \<Longrightarrow> look (snd (m d)) q = look d q) \<Longrightarrow> keeps_paths K m"
  by (simp add: keeps_paths_def)

lemma keeps_pathsD: "keeps_paths K m \<Longrightarrow> q \<in> K \<Longrightarrow> look (snd (m d)) q = look d q"
  by (simp add: keeps_paths_def)

lemma keeps_basic:
  "keeps_paths K (io_ok x)" "keeps_paths K (io_fail e)"
  "keeps_paths K (get_default_version sys P)" "keeps_paths K (list_installed_versions sys P)"
  by (auto simp: reads_keep_disk)

lemma keeps_then: "keeps_paths K m \<Longrightarrow> (\<And>x. keeps_paths K (f x)) \<Longrightarrow> keeps_paths K (io_then m f)"
  unfolding keeps_paths_def
proof (intro allI ballI)
  fix d q
  assume m: "\<forall>d. \<forall>q\<in>K. look (snd (m d)) q = look d q" and f: "\<And>x. \<forall>d. \<forall>q\<in>K. look (snd (f x d)) q = look d q"
    and q: "q \<in> K"
  obtain r d1 where r: "m d = (r, d1)" by (cases "m d")
  then have "look d1 q = look d q" using m q by (metis snd_conv)
  then show "look (snd (io_then m f d)) q = look d q" using f q r by (cases r) simp_all
qed

lemma keeps_io_each: "(\<And>x. x \<in> set xs \<Longrightarrow> keeps_paths K (f x)) \<Longrightarrow> keeps_paths K (io_each f xs)"
  by (induction xs) (auto intro!: keeps_then keeps_basic)

lemma keeps_writes:
  "(\<And>n. take n (resolve p) \<notin> K) \<Longrightarrow> keeps_paths K (create_dir_all sys p e)"
  "resolve p \<notin> K \<Longrightarrow> keeps_paths K (write_file sys p c e)"
  "resolve p \<notin> K \<Longrightarrow> keeps_paths K (remove_file sys p e)"
  "resolve p \<notin> K \<Longrightarrow> keeps_paths K (symlink sys s p e)"
  "(\<And>q. q \<in> K \<Longrightarrow> \<not> below (resolve p) q) \<Longrightarrow> keeps_paths K (remove_dir_all sys p e)"
proof -
  assume "\<And>n. take n (resolve p) \<notin> K"
  then have "q \<notin> set (map (\<lambda>n. take n (resolve p)) [1..<length (resolve p) + 1])" if "q \<in> K" for q
    using that by auto
  then show "keeps_paths K (create_dir_all sys p e)"
    by (auto simp: create_dir_all_def Let_def look_dirs simp del: set_map)
qed (auto simp: write_file_def remove_file_def symlink_def remove_dir_all_def look_filter [of "\<lambda>q. q = resolve p \<or> \<not> below (resolve p) q"] Let_def)

locale untouched =
  fixes P :: toolchain_paths and K :: "path set"
  assumes apart: "take n (resolve (tp_root P)) \<notin> K" "take n (resolve (tp_bin P)) \<notin> K"
      "resolve (default_file P) \<notin> K" "name \<in> set MANAGED_BINARIES \<Longrightarrow> resolve (symlink_path P (name @ executable_extension pl)) \<notin> K"
begin

lemma set_default_keeps: "keeps_paths K (set_default_version sys P version)"
  unfolding set_default_version_def by (intro keeps_then keeps_writes apart)

lemma create_symlink_keeps:
  assumes "name \<in> set MANAGED_BINARIES"
  shows "keeps_paths K (create_symlink sys P version (name @ executable_extension pl))"
proof
  fix d q
  assume q: "q \<in> K"
  let ?b = "name @ executable_extension pl"
  have "keeps_paths K (io_then (if path_exists d (symlink_path P ?b)
                    then remove_file sys (symlink_path P ?b) (''Failed to remove existing symlink: '' @ display (symlink_path P ?b))
                    else io_ok ())
             (\<lambda>_. symlink sys (binary_path P d version ?b) (symlink_path P ?b)
                (''Failed to create symlink from '' @ display (binary_path P d version ?b) @ '' to '' @ display (symlink_path P ?b))))"
    using apart(4) [OF assms] by (auto intro!: keeps_then keeps_writes keeps_basic)
  from keeps_pathsD [OF this q, of d]
  show "look (snd (create_symlink sys P version ?b d)) q = look d q"
    by (simp only: create_symlink_def Let_def split: if_split) simp
qed

lemma update_symlinks_keeps: "keeps_paths K (update_symlinks sys P version)"
  unfolding update_symlinks_def
  by (auto intro!: keeps_then keeps_io_each keeps_writes keeps_basic apart(2) create_symlink_keeps split: sum.split)

lemma remove_symlinks_keeps: "keeps_paths K (remove_symlinks sys P)"
proof -
  have "keeps_paths K (remove_symlink sys P (name @ executable_extension pl))" if "name \<in> set MANAGED_BINARIES" for name pl
    using keeps_writes(3) [OF apart(4) [OF that]] by (auto simp: remove_symlink_def Let_def keeps_paths_def)
  then show ?thesis
    unfolding remove_symlinks_def by (auto intro!: keeps_io_each keeps_basic split: sum.split)
qed

lemma repair_symlinks_keeps: "keeps_paths K (repair_symlinks sys P)"
proof
  fix d q
  assume q: "q \<in> K"
  have next_step: "keeps_paths K (\<lambda>d1. (case dv of
                Some version \<Rightarrow>
                  if is_version_installed P version d1 then update_symlinks sys P version d1
                  else remove_symlinks sys P d1
              | None \<Rightarrow> remove_symlinks sys P d1))" for dv
    using update_symlinks_keeps remove_symlinks_keeps by (auto simp: keeps_paths_def split: option.split)
  have "keeps_paths K (io_then (get_default_version sys P) (\<lambda>dv d1. (case dv of
                Some version \<Rightarrow>
                  if is_version_installed P version d1 then update_symlinks sys P version d1
                  else remove_symlinks sys P d1
              | None \<Rightarrow> remove_symlinks sys P d1)))"
    by (rule keeps_then [OF keeps_basic(3) next_step])
  from keeps_pathsD [OF this q, of d]
  show "look (snd (repair_symlinks sys P d)) q = look d q"
    by (simp add: repair_symlinks_def del: io_simps(3))
qed

lemma finish_uninstall_keeps:
  "keeps_paths K (\<lambda>d1. io_then (list_installed_versions sys P)
      (\<lambda>remaining d2.
         if remaining = [] then remove_symlinks sys P (snd (remove_file sys (default_file P) '''' d2))
         else io_then (set_default_version sys P (last remaining)) (\<lambda>_. update_symlinks sys P (last remaining)) d2) d1)"
proof -
  have new: "keeps_paths K (io_then (set_default_version sys P v) (\<lambda>_. update_symlinks sys P v))" for v
    by (rule keeps_then [OF set_default_keeps update_symlinks_keeps])
  have "keeps_paths K (\<lambda>d2. if remaining = [] then remove_symlinks sys P (snd (remove_file sys (default_file P) '''' d2))
         else io_then (set_default_version sys P (last remaining)) (\<lambda>_. update_symlinks sys P (last remaining)) d2)" for remaining
    using keeps_pathsD [OF remove_symlinks_keeps] keeps_pathsD [OF keeps_writes(3) [OF apart(3)]]
      keeps_pathsD [OF new]
    by (auto simp: keeps_paths_def simp del: io_simps(3))
  from keeps_then [OF keeps_basic(4) this] show ?thesis by (simp add: keeps_paths_def)
qed

end

text \<open>The entries of one version, in a store with a normal root.\<close>

definition version_entries :: "path \<Rightarrow> string \<Rightarrow> path set" where
  "version_entries root u = (if normal root then {q. below (root @ [''toolchains'', u]) q} else {})"

interpretation other: untouched "with_root root" "version_entries root u" for root u
proof unfold_locales
  show "take n (resolve (tp_root (with_root root))) \<notin> version_entries root u" for n
    by (auto simp: version_entries_def below_append resolve_paths dest!: arg_cong [of _ _ length])
  show "take n (resolve (tp_bin (with_root root))) \<notin> version_entries root u" for n
    by (auto simp: version_entries_def below_append resolve_paths dest!: arg_cong [of _ _ length])
  show "resolve (default_file (with_root root)) \<notin> version_entries root u"
    by (auto simp: version_entries_def below_append resolve_paths)
  show "resolve (symlink_path (with_root root) (name @ executable_extension pl)) \<notin> version_entries root u"
    if "name \<in> set MANAGED_BINARIES" for name pl
    using plain_binaries [OF that, of pl]
    by (auto simp: version_entries_def below_append resolve_paths symlink_path_def)
qed

end
