(* ===== verification/StoreProperties.thy ===== *)
theory StoreProperties
  imports StoreFacts
begin

text \<open>
  Properties of the commands on the store of toolchains: what \<open>default\<close> achieves, that removing a version
  leaves the others alone, and two cases in which removing goes wrong.
\<close>

lemma normal_store [simp]:
  "normal r \<Longrightarrow> resolve (tp_root (with_root r)) = r"
  "normal r \<Longrightarrow> resolve (tp_bin (with_root r)) = r @ [''bin'']"
  by (simp_all add: resolve_paths)

lemma toolchain_dir_plain: "plain v \<Longrightarrow> toolchain_dir (with_root r) v = r @ [''toolchains'', v]"
  by (simp add: toolchain_dir_def)

lemma link_path:
  "name \<in> set MANAGED_BINARIES \<Longrightarrow>
   symlink_path (with_root r) (name @ executable_extension pl) = r @ [''bin'', name @ executable_extension pl]"
  using plain_binaries [of name pl] by (simp add: symlink_path_def)

lemma link_resolved:
  "normal r \<Longrightarrow> name \<in> set MANAGED_BINARIES \<Longrightarrow>
   resolve (symlink_path (with_root r) (name @ executable_extension pl)) = r @ [''bin'', name @ executable_extension pl]"
  using plain_binaries [of name pl] by (simp add: link_path resolve_paths)

section \<open>Removing a version\<close>

lemma uninstall_keeps_paths:
  assumes norm: "normal root" and v: "plain v" and u: "plain u" "u \<noteq> v"
  shows "keeps_paths (version_entries root u) (uninstall_execute sys (with_root root) v)"
proof
  fix d q
  assume q: "q \<in> version_entries root u"
  have apart: "\<not> below (resolve (toolchain_dir (with_root root) v)) q" if "q \<in> version_entries root u" for q
    using that u(2) norm by (auto simp: version_entries_def toolchain_dir_plain [OF v] resolve_paths v below_append)
  let ?P = "with_root root"
  have removed: "keeps_paths (version_entries root u)
      (remove_dir_all sys (toolchain_dir ?P v) (''Failed to remove toolchain directory: '' @ display (toolchain_dir ?P v)))"
    by (rule keeps_writes(5) [OF apart])
  have "keeps_paths (version_entries root u) (\<lambda>d1.
      if default_version = Some v then
        io_then (list_installed_versions sys ?P)
          (\<lambda>remaining d2.
             if remaining = [] then
               remove_symlinks sys ?P (snd (remove_file sys (default_file ?P) '''' d2))
             else
               io_then (set_default_version sys ?P (last remaining))
                 (\<lambda>_. update_symlinks sys ?P (last remaining)) d2) d1
      else repair_symlinks sys ?P d1)" for default_version
    using other.finish_uninstall_keeps [of root u sys] other.repair_symlinks_keeps [of root u sys]
    by (auto simp: keeps_paths_def simp del: io_simps(3))
  then have "keeps_paths (version_entries root u) (io_then (get_default_version sys ?P)
      (\<lambda>default_version. io_then (remove_dir_all sys (toolchain_dir ?P v)
                 (''Failed to remove toolchain directory: '' @ display (toolchain_dir ?P v))) (\<lambda>_ d1.
      if default_version = Some v then
        io_then (list_installed_versions sys ?P)
          (\<lambda>remaining d2.
             if remaining = [] then
               remove_symlinks sys ?P (snd (remove_file sys (default_file ?P) '''' d2))
             else
               io_then (set_default_version sys ?P (last remaining))
                 (\<lambda>_. update_symlinks sys ?P (last remaining)) d2) d1
      else repair_symlinks sys ?P d1)))"
    by (intro keeps_then keeps_basic removed)
  from keeps_pathsD [OF this q, of d]
  show "look (snd (uninstall_execute sys ?P v d)) q = look d q"
    by (simp add: uninstall_execute_def del: io_simps(3))
qed


text \<open>A store with two versions, of which 9 is the default.\<close>

definition linux :: system where
  "linux = \<lparr>sy_denied = (\<lambda>_. False), sy_inference_home = Some ''/s'', sy_home = None, sy_platform = Inr LinuxX64,
     sy_infc_path = None, sy_which_infc = None, sy_infs_metadata = ''{}'', sy_metadata = ''{}'', sy_vanished_ok = True\<rparr>"

definition two_versions :: disk where
  "two_versions =
     [([''s''], Directory), ([''s'', ''bin''], Directory), ([''s'', ''toolchains''], Directory),
      ([''s'', ''default''], File ''9''),
      ([''s'', ''toolchains'', ''9''], Directory), ([''s'', ''toolchains'', ''9'', ''infc''], File ''old''),
      ([''s'', ''toolchains'', ''10''], Directory), ([''s'', ''toolchains'', ''10'', ''infc''], File ''new''),
      ([''s'', ''bin'', ''infc''], Symlink [''s'', ''toolchains'', ''9'', ''infc''])]"

lemma sample_paths: "normal [''s'']" "plain ''9''" "plain ''10''" "''10'' \<noteq> ''9''"
  by (simp_all add: normal_def plain_def)


section \<open>Removing the default version\<close>

lemma created_link_is_old:
  assumes norm: "normal root" and name: "name \<in> set MANAGED_BINARIES"
    and there: "look d (root @ [''bin'', name @ executable_extension pl]) = Some (Symlink t)" "look d t = None"
  shows "\<exists>e. create_symlink sys (with_root root) w (name @ executable_extension pl) d = (Inl e, d)"
proof -
  note res = link_resolved [OF norm name, of pl]
  have "\<not> path_exists d (symlink_path (with_root root) (name @ executable_extension pl))"
    using there by (simp add: path_exists_def follow_def res)
  then show ?thesis using there(1) by (simp add: create_symlink_def Let_def symlink_def res)
qed

text \<open>C19: Removing the default version while another one is installed always ends in an error: the
  directory is gone and the default has been moved or not, but the link to the compiler, which now dangles, is
  taken for absent and cannot be created again; it is left dangling.\<close>

theorem uninstalling_the_default_fails:
  assumes norm: "normal root" and v: "plain v" and u: "u \<noteq> v"
    and allowed: "\<not> sy_denied sys (root @ [''toolchains'', v])" and platform: "sy_platform sys = Inr pl"
    and default_v: "fst (get_default_version sys (with_root root) d) = Inr (Some v)"
    and dirs: "look d (root @ [''toolchains'']) = Some Directory" "look d (root @ [''toolchains'', v]) = Some Directory"
      "look d (root @ [''toolchains'', u]) = Some Directory" "plain u"
    and link: "look d (root @ [''bin'', ''infc'' @ executable_extension pl]) = Some (Symlink (root @ [''toolchains'', v] @ t))"
  shows "\<exists>e d'. uninstall_execute sys (with_root root) v d = (Inl e, d')
    \<and> look d' (root @ [''bin'', ''infc'' @ executable_extension pl]) = Some (Symlink (root @ [''toolchains'', v] @ t))
    \<and> look d' (root @ [''toolchains'', v] @ t) = None"
proof -
  let ?P = "with_root root" and ?link = "root @ [''bin'', ''infc'' @ executable_extension pl]"
  define d1 where "d1 = filter (\<lambda>(q, e). \<not> below (root @ [''toolchains'', v]) q) d"
  have name: "''infc'' \<in> set MANAGED_BINARIES" by (simp add: MANAGED_BINARIES_def)
  define K where "K = {?link} \<union> {q. below (root @ [''toolchains'', v]) q}"
  define holds where "holds = (\<lambda>d'. look d' ?link = Some (Symlink (root @ [''toolchains'', v] @ t))
    \<and> look d' (root @ [''toolchains'', v] @ t) = None)"
  have d1_look: "look d1 q = (if below (root @ [''toolchains'', v]) q then None else look d q)" for q
    unfolding d1_def by (rule look_remove_all)
  have d1: "holds d1"
    using link by (auto simp: holds_def d1_look below_append)
  have "v \<noteq> ''..''" using v by (simp add: plain_def)
  then have removed: "remove_dir_all sys (toolchain_dir ?P v) e d = (Inr (), d1)" for e
    using allowed dirs(2) by (simp add: remove_dir_all_def toolchain_dir_plain [OF v] resolve_paths norm v d1_def Let_def)
  have same: "holds (snd (m d'))" if "keeps_paths K m" "holds d'" for m :: "'x io" and d'
    using that keeps_pathsD [OF that(1)] by (simp add: holds_def K_def below_append)
  have read: "get_default_version sys ?P d = (Inr (Some v), d)"
    using default_v reads_keep_disk(3) [of sys ?P d] by (metis prod.collapse)
  have installed: "is_version_installed ?P v d"
    using dirs(2) by (simp add: is_version_installed_def path_exists_def follow_def toolchain_dir_plain [OF v] resolve_paths norm v)
  have run: "uninstall_execute sys ?P v d =
      io_then (list_installed_versions sys ?P)
        (\<lambda>remaining d2.
           if remaining = [] then remove_symlinks sys ?P (snd (remove_file sys (default_file ?P) '''' d2))
           else io_then (set_default_version sys ?P (last remaining))
                  (\<lambda>_. update_symlinks sys ?P (last remaining)) d2) d1"
    using installed by (simp add: uninstall_execute_def read removed)
  have set_default: "keeps_paths K (set_default_version sys ?P w)" for w
    unfolding set_default_version_def
    by (intro keeps_then keeps_writes)
      (use norm in \<open>auto simp: K_def below_append resolve_paths dest!: arg_cong [of _ _ length]\<close>)
  have bin: "keeps_paths K (create_dir_all sys (tp_bin ?P) e)" for e
    by (intro keeps_writes) (use norm in \<open>auto simp: K_def below_append resolve_paths dest!: arg_cong [of _ _ length]\<close>)
  have update: "\<exists>e d'. update_symlinks sys ?P w d2 = (Inl e, d') \<and> holds d'" if d2: "holds d2" for w d2
  proof -
    obtain r d3 where d3: "create_dir_all sys (tp_bin ?P) (''Failed to create bin directory: '' @ display (tp_bin ?P)) d2 = (r, d3)"
      by (cases "create_dir_all sys (tp_bin ?P) (''Failed to create bin directory: '' @ display (tp_bin ?P)) d2")
    have h3: "holds d3" using same [OF bin d2] d3 by (metis snd_conv)
    then have "look d3 ?link = Some (Symlink (root @ [''toolchains'', v] @ t))" "look d3 (root @ [''toolchains'', v] @ t) = None"
      unfolding holds_def by blast+
    from created_link_is_old [OF norm name this]
    obtain e where "create_symlink sys ?P w (''infc'' @ executable_extension pl) d3 = (Inl e, d3)" by blast
    then show ?thesis using d3 h3 by (cases r) (simp_all add: update_symlinks_def platform MANAGED_BINARIES_def)
  qed
  obtain r d2 where list: "list_installed_versions sys ?P d1 = (r, d1)"
    using reads_keep_disk(4) [of sys ?P d1] by (metis prod.collapse)
  show ?thesis
  proof (cases r)
    case (Inl e)
    then show ?thesis using run list d1 by (simp add: holds_def)
  next
    case (Inr remaining)
    have "remaining \<noteq> []"
    proof -
      have tools: "look d1 (root @ [''toolchains'']) = Some Directory" "look d1 (root @ [''toolchains'', u]) = Some Directory"
        using dirs u by (auto simp: d1_look below_append)
      have dir_u: "is_dir d1 (root @ [''toolchains'', u])"
        using tools(2) dirs(4) by (simp add: is_dir_def follow_def resolve_paths norm)
      obtain names where names: "read_dir sys (tp_toolchains ?P)
          (''Failed to read toolchains directory: '' @ display (tp_toolchains ?P)) d1 = (Inr names, d1)"
        "remaining = sort (filter (\<lambda>n. is_dir d1 (tp_toolchains ?P @ [n])) names)"
        using list Inr tools(1)
        by (auto simp: list_installed_versions_def path_exists_def follow_def resolve_paths norm split: prod.splits sum.splits)
      have "names = map (\<lambda>(q, e). last q) (filter (\<lambda>(q, e). q \<noteq> [] \<and> butlast q = root @ [''toolchains'']) d1)"
        using names(1) by (simp add: read_dir_def Let_def resolve_paths norm split: if_splits)
      moreover have "(root @ [''toolchains'', u], Directory)
          \<in> set (filter (\<lambda>(q, e). q \<noteq> [] \<and> butlast q = root @ [''toolchains'']) d1)"
        using look_in [OF tools(2)] by (simp add: butlast_append)
      ultimately have "u \<in> set names" by (force intro: rev_image_eqI)
      then show ?thesis using names(2) dir_u by (auto simp: filter_empty_conv dest!: arg_cong [of _ _ set])
    qed
    then have run': "uninstall_execute sys ?P v d =
        io_then (set_default_version sys ?P (last remaining)) (\<lambda>_. update_symlinks sys ?P (last remaining)) d1"
      using run list Inr by simp
    obtain s d3 where d3: "set_default_version sys ?P (last remaining) d1 = (s, d3)"
      by (cases "set_default_version sys ?P (last remaining) d1")
    have "holds d3" using same [OF set_default d1] d3 by (metis snd_conv)
    then show ?thesis
      using update [of d3 "last remaining"] run' d3 by (cases s) (auto simp: holds_def)
  qed
qed

lemma two_versions_default: "get_default_version linux (with_root [''s'']) two_versions = (Inr (Some ''9''), two_versions)"
  using resolve_paths(4) [OF sample_paths(1)]
  by (simp add: get_default_version_def read_file_def path_exists_def follow_def resolve_paths sample_paths(1) look_def
      two_versions_def linux_def trim_text_def blank_def)

theorem uninstalling_the_default_fails_witness:
  "\<exists>e d'. uninstall_execute linux (with_root [''s'']) ''9'' two_versions = (Inl e, d')
     \<and> look d' [''s'', ''bin'', ''infc''] = Some (Symlink [''s'', ''toolchains'', ''9'', ''infc''])
     \<and> look d' [''s'', ''toolchains'', ''9'', ''infc''] = None"
proof -
  have "\<exists>e d'. uninstall_execute linux (with_root [''s'']) ''9'' two_versions = (Inl e, d')
    \<and> look d' ([''s''] @ [''bin'', ''infc'' @ executable_extension LinuxX64]) = Some (Symlink ([''s''] @ [''toolchains'', ''9''] @ [''infc'']))
    \<and> look d' ([''s''] @ [''toolchains'', ''9''] @ [''infc'']) = None"
  proof (rule uninstalling_the_default_fails [where u = "''10''"])
    show "fst (get_default_version linux (with_root [''s'']) two_versions) = Inr (Some ''9'')"
      by (simp add: two_versions_default)
  qed (simp_all add: sample_paths linux_def two_versions_def look_def)
  then show ?thesis by simp
qed

section \<open>A name that is a path\<close>

text \<open>The name of a version is not checked: removing the version \<open>..\<close> removes everything in the store,
  every other version, the default and the links included; the command succeeds, or fails after that.\<close>

theorem uninstall_parent_empties_the_store:
  assumes norm: "normal root" and allowed: "\<not> sy_denied sys root"
    and dir: "look d root = Some Directory" "look d (root @ [''toolchains'']) = Some Directory"
    and default_v: "fst (get_default_version sys (with_root root) d) = Inr default_v" "default_v \<noteq> Some ''..''"
  shows "\<exists>r d'. uninstall_execute sys (with_root root) ''..'' d = (r, d') \<and> (sy_vanished_ok sys \<longrightarrow> r = Inr ())
    \<and> (\<forall>q. below root q \<and> q \<noteq> root \<longrightarrow> look d' q = None)"
proof -
  let ?P = "with_root root"
  define d1 where "d1 = filter (\<lambda>(q, e). q = root \<or> \<not> below root q) d"
  have gone: "look d1 q = None" if "below root q" "q \<noteq> root" for q
    using that by (simp add: d1_def look_filter [of "\<lambda>q. q = root \<or> \<not> below root q"])
  have path: "toolchain_dir ?P ''..'' = root @ [''toolchains'', ''..'']"
    by (simp add: toolchain_dir_def join_path_def components_def)
  have res: "resolve (root @ [''toolchains'', ''..'']) = root"
    using resolve_up [of "root @ [''toolchains'']"] norm by (simp add: normal_def)
  have installed: "is_version_installed ?P ''..'' d"
    using dir by (simp add: is_version_installed_def path_exists_def follow_def path res)
  have read: "get_default_version sys ?P d = (Inr default_v, d)"
    using default_v(1) reads_keep_disk(3) [of sys ?P d] by (metis prod.collapse)
  have "\<not> link_exists d1 (symlink_path ?P (name @ executable_extension pl))" if "name \<in> set MANAGED_BINARIES" for name pl
    using gone by (simp add: link_exists_def link_resolved [OF norm that] below_append)
  then have "validate_symlinks sys ?P d1 = []"
    by (auto simp: validate_symlinks_def filter_empty_conv split: sum.split)
  then have "repair_symlinks sys ?P d1 = (Inr (), d1)" by (simp add: repair_symlinks_def)
  moreover have "remove_dir_all sys (toolchain_dir ?P ''..'') e d = (if sy_vanished_ok sys then Inr () else Inl e, d1)" for e
    using allowed dir(1) by (simp add: remove_dir_all_def path res d1_def Let_def)
  ultimately have "\<exists>r. uninstall_execute sys ?P ''..'' d = (r, d1) \<and> (sy_vanished_ok sys \<longrightarrow> r = Inr ())"
    using installed default_v(2) by (simp add: uninstall_execute_def read)
  then show ?thesis using gone by blast
qed

theorem uninstall_parent_empties_the_store_witness:
  "\<exists>d'. uninstall_execute linux (with_root [''s'']) ''..'' two_versions = (Inr (), d')
     \<and> look d' [''s'', ''toolchains'', ''10'', ''infc''] = None"
proof -
  have "\<exists>r d'. uninstall_execute linux (with_root [''s'']) ''..'' two_versions = (r, d')
    \<and> (sy_vanished_ok linux \<longrightarrow> r = Inr ()) \<and> (\<forall>q. below [''s''] q \<and> q \<noteq> [''s''] \<longrightarrow> look d' q = None)"
  proof (rule uninstall_parent_empties_the_store)
    show "fst (get_default_version linux (with_root [''s'']) two_versions) = Inr (Some ''9'')"
      by (simp add: two_versions_default)
  qed (simp_all add: sample_paths linux_def two_versions_def look_def)
  moreover have "below [''s''] [''s'', ''toolchains'', ''10'', ''infc'']" by (simp add: below_def)
  moreover have "sy_vanished_ok linux" by (simp add: linux_def)
  ultimately show ?thesis by blast
qed

section \<open>Choosing the default\<close>

lemma created_link:
  assumes norm: "normal root" and v: "plain v" and name: "name \<in> set MANAGED_BINARIES"
    and done_ok: "create_symlink sys (with_root root) v (name @ executable_extension pl) d = (Inr x, d')"
  shows "\<exists>t. look d' (root @ [''bin'', name @ executable_extension pl]) = Some (Symlink t)
      \<and> below (root @ [''toolchains'', v]) t \<and> look d t \<noteq> None
      \<and> (\<forall>q. q \<noteq> root @ [''bin'', name @ executable_extension pl] \<longrightarrow> look d' q = look d q)"
proof -
  let ?b = "name @ executable_extension pl" and ?P = "with_root root"
  let ?s = "binary_path ?P d v ?b"
  note res = link_resolved [OF norm name, of pl]
  have b: "plain ?b" by (rule plain_binaries [OF name])
  have s: "?s = root @ [''toolchains'', v, ''bin'', ?b] \<or> ?s = root @ [''toolchains'', v, ?b]"
    using v b by (auto simp: binary_path_def toolchain_bin_dir_def toolchain_dir_plain Let_def)
  then have "normal ?s" using norm plain_normal [OF v] plain_normal [OF b] by (auto simp: normal_def)
  then have rs: "resolve ?s = ?s" by (rule resolve_append)
  have source: "path_exists d ?s"
    using done_ok by (auto simp: create_symlink_def Let_def split: if_splits)
  then have "look d ?s \<noteq> None" by (cases "look d ?s") (simp_all add: path_exists_def follow_def rs)
  moreover have "below (root @ [''toolchains'', v]) ?s" using s by (auto simp: below_append)
  moreover have "look d' (root @ [''bin'', ?b]) = Some (Symlink ?s)
      \<and> (\<forall>q. q \<noteq> root @ [''bin'', ?b] \<longrightarrow> look d' q = look d q)"
  proof (cases "path_exists d (symlink_path ?P ?b)")
    case True
    then show ?thesis
      using done_ok source
      by (auto simp: create_symlink_def Let_def remove_file_def symlink_def res rs split: if_splits)
  next
    case False
    then show ?thesis
      using done_ok source
      by (auto simp: create_symlink_def Let_def symlink_def res rs split: if_splits)
  qed
  ultimately show ?thesis by blast
qed

lemma created_links:
  assumes norm: "normal root" and v: "plain v"
  shows "io_each (\<lambda>name. create_symlink sys (with_root root) v (name @ executable_extension pl)) names d = (Inr x, d') \<Longrightarrow>
    set names \<subseteq> set MANAGED_BINARIES \<Longrightarrow>
    (\<forall>name\<in>set names. \<exists>t. look d' (root @ [''bin'', name @ executable_extension pl]) = Some (Symlink t)
        \<and> below (root @ [''toolchains'', v]) t \<and> look d' t \<noteq> None)
    \<and> (\<forall>q. (\<forall>b. q \<noteq> root @ [''bin'', b]) \<longrightarrow> look d' q = look d q)
    \<and> (\<forall>q. (\<forall>name\<in>set names. q \<noteq> root @ [''bin'', name @ executable_extension pl]) \<longrightarrow> look d' q = look d q)"
proof (induction names arbitrary: d)
  case (Cons name names)
  have first: "name \<in> set MANAGED_BINARIES" "set names \<subseteq> set MANAGED_BINARIES" using Cons.prems(2) by auto
  obtain y d1 where d1: "create_symlink sys (with_root root) v (name @ executable_extension pl) d = (Inr y, d1)"
    "io_each (\<lambda>name. create_symlink sys (with_root root) v (name @ executable_extension pl)) names d1 = (Inr x, d')"
    using Cons.prems(1) by (auto split: prod.splits sum.splits)
  obtain t where t: "look d1 (root @ [''bin'', name @ executable_extension pl]) = Some (Symlink t)"
    "below (root @ [''toolchains'', v]) t" "look d t \<noteq> None"
    "\<And>q. q \<noteq> root @ [''bin'', name @ executable_extension pl] \<Longrightarrow> look d1 q = look d q"
    using created_link [OF norm v first(1) d1(1)] by blast
  note IH = Cons.IH [OF d1(2) first(2)]
  have apart: "t \<noteq> root @ [''bin'', b]" for b using t(2) by (auto simp: below_append)
  have "\<exists>t. look d' (root @ [''bin'', name @ executable_extension pl]) = Some (Symlink t)
        \<and> below (root @ [''toolchains'', v]) t \<and> look d' t \<noteq> None"
  proof (cases "name \<in> set names")
    case False
    then have "\<forall>n\<in>set names. root @ [''bin'', name @ executable_extension pl] \<noteq> root @ [''bin'', n @ executable_extension pl]"
      by auto
    then have "look d' (root @ [''bin'', name @ executable_extension pl]) = Some (Symlink t)"
      unfolding t(1) [symmetric] using IH by blast
    moreover have "look d' t \<noteq> None" using IH t(3,4) apart by simp
    ultimately show ?thesis using t(2) by blast
  qed (use IH in blast)
  then show ?case using IH t(4) by auto
qed simp

text \<open>C18: When \<open>infs default\<close> succeeds, the version is the default that is read back, and if it was not
  before, each of the three links points to an entry in the directory of that version; when the
  version is not installed nothing changes.\<close>

theorem default_command_links_the_version:
  assumes norm: "normal root" and v: "plain v" "trim_text v = v"
  shows "(\<forall>d'. default_execute sys (with_root root) w c v d = (Inr (), d') \<longrightarrow>
      get_default_version sys (with_root root) d' = (Inr (Some v), d')
      \<and> (d' = d \<or> (\<forall>pl. sy_platform sys = Inr pl \<longrightarrow> (\<forall>name\<in>set MANAGED_BINARIES.
            \<exists>t. look d' (root @ [''bin'', name @ executable_extension pl]) = Some (Symlink t)
              \<and> below (root @ [''toolchains'', v]) t \<and> look d' t \<noteq> None))))
    \<and> (\<not> is_version_installed (with_root root) v d \<longrightarrow>
        (\<exists>e. default_execute sys (with_root root) w c v d = (Inl e, d)))"
proof -
  let ?P = "with_root root"
  have main: "get_default_version sys ?P d' = (Inr (Some v), d')
      \<and> (d' = d \<or> (\<forall>pl. sy_platform sys = Inr pl \<longrightarrow> (\<forall>name\<in>set MANAGED_BINARIES.
            \<exists>t. look d' (root @ [''bin'', name @ executable_extension pl]) = Some (Symlink t)
              \<and> below (root @ [''toolchains'', v]) t \<and> look d' t \<noteq> None)))"
    if run: "default_execute sys ?P w c v d = (Inr (), d')" for d'
  proof -
    have installed: "is_version_installed ?P v d" using run by (auto simp: default_execute_def split: if_splits)
    then obtain old where old: "get_default_version sys ?P d = (Inr old, d)"
      using run reads_keep_disk(3) [of sys ?P d] by (auto simp: default_execute_def split: prod.splits sum.splits)
    show ?thesis
    proof (cases "old = Some v")
      case True
      then show ?thesis using run installed old by (simp add: default_execute_def)
    next
      case False
      then obtain d1 where d1: "set_default_version sys ?P v d = (Inr (), d1)" "update_symlinks sys ?P v d1 = (Inr (), d')"
        using run installed old by (auto simp: default_execute_def split: prod.splits sum.splits)
      then obtain pl d2 where pl: "sy_platform sys = Inr pl"
        "create_dir_all sys (tp_bin ?P) (''Failed to create bin directory: '' @ display (tp_bin ?P)) d1 = (Inr (), d2)"
        "io_each (\<lambda>name. create_symlink sys ?P v (name @ executable_extension pl)) MANAGED_BINARIES d2 = (Inr (), d')"
        by (auto simp: update_symlinks_def split: prod.splits sum.splits)
      note links = created_links [OF norm v(1) pl(3) order_refl]
      have default_path: "resolve (root @ [''default'']) = root @ [''default'']" using norm by (simp add: resolve_paths)
      have written: "look d1 (root @ [''default'']) = Some (File v)" "\<not> sy_denied sys (root @ [''default''])"
        using d1(1)
        by (auto simp: set_default_version_def write_file_def default_path Let_def split: prod.splits sum.splits if_splits)
      have "take n (root @ [''bin'']) \<noteq> root @ [''default'']" for n
        by (cases "n \<le> length root") (auto dest: arg_cong [of _ _ length])
      then have "keeps_paths {root @ [''default'']} (create_dir_all sys (tp_bin ?P) e)" for e
        by (intro keeps_writes) (simp add: resolve_paths norm)
      from keeps_pathsD [OF this, of "root @ [''default'']"] have "look d2 (root @ [''default'']) = Some (File v)"
        using pl(2) written(1) by (metis singletonI snd_conv)
      then have "look d' (root @ [''default'']) = Some (File v)" using links by auto
      then have "get_default_version sys ?P d' = (Inr (Some v), d')"
        using written(2) v by (simp add: get_default_version_def read_file_def path_exists_def follow_def default_path
            plain_def)
      then show ?thesis using links pl(1) by auto
    qed
  qed
  moreover have "\<exists>e. default_execute sys ?P w c v d = (Inl e, d)" if "\<not> is_version_installed ?P v d"
    using that by (simp add: default_execute_def)
  ultimately show ?thesis by blast
qed

text \<open>The store with the three binaries in the directory of version 10.\<close>

definition offline :: fetching where
  "offline = \<lparr>ft_server = None, ft_answer = No_client, ft_json = (\<lambda>_. None), ft_writable = True, ft_removable = True,
     ft_now = 0\<rparr>"

definition stocked :: disk where
  "stocked = map (\<lambda>b. ([''s'', ''toolchains'', ''10'', ''bin'', b], File b)) MANAGED_BINARIES
     @ ([''s'', ''toolchains'', ''10'', ''bin''], Directory) # two_versions"

theorem default_command_links_the_version_witness:
  "\<exists>d'. default_execute linux (with_root [''s'']) offline No_cache ''10'' stocked = (Inr (), d')
     \<and> get_default_version linux (with_root [''s'']) d' = (Inr (Some ''10''), d')"
proof -
  have "trim_text ''10'' = ''10''" by (simp add: trim_text_def blank_def)
  note all = default_command_links_the_version [OF sample_paths(1,3) this]
  have "fst (default_execute linux (with_root [''s'']) offline No_cache ''10'' stocked) = Inr ()" by code_simp
  then obtain d' where "default_execute linux (with_root [''s'']) offline No_cache ''10'' stocked = (Inr (), d')"
    by (metis prod.collapse)
  then show ?thesis using all by blast
qed

end
