(* ===== verification/ByteReader.thy ===== *)
theory ByteReader
  imports "HOL-Library.Word" SyntaxTrees
begin

text \<open>
  Reading bytes (\<open>tools/inf-wasmparser/src/binary_reader.rs\<close>): the reader with its position in a buffer,
  the errors with the offset they occurred at, fixed and variable length integers, strings, counted items.
  Bytes and integers are words of their width. A reader that fails has advanced to
  where it failed. Positions are offsets in memory and do not overflow. The shifts by more than the width
  the loops of the source could ask for are never reached (see \<open>LebFacts\<close>).
\<close>

unbundle bit_operations_syntax

type_synonym byte = "8 word"

section \<open>Errors\<close>

datatype error_kind = Custom | Invalid

record reader_error =
  re_kind :: error_kind
  re_message :: string
  re_offset :: nat
  re_needed_hint :: "nat option"

definition error_new :: "string \<Rightarrow> nat \<Rightarrow> reader_error" where
  "error_new message offset = \<lparr>re_kind = Custom, re_message = message, re_offset = offset, re_needed_hint = None\<rparr>"

definition error_invalid :: "string \<Rightarrow> nat \<Rightarrow> reader_error" where
  "error_invalid message offset = \<lparr>re_kind = Invalid, re_message = message, re_offset = offset, re_needed_hint = None\<rparr>"

definition error_eof :: "nat \<Rightarrow> nat \<Rightarrow> reader_error" where
  "error_eof offset needed_hint = (error_new ''unexpected end-of-file'' offset)\<lparr>re_needed_hint := Some needed_hint\<rparr>"

text \<open>\<open>{:x}\<close>.\<close>

fun show_hex :: "nat \<Rightarrow> string" where
  "show_hex n = (if n < 16 then [''0123456789abcdef'' ! n] else show_hex (n div 16) @ [''0123456789abcdef'' ! (n mod 16)])"

declare show_hex.simps [simp del]

definition show_reader_error :: "reader_error \<Rightarrow> string" where
  "show_reader_error e = re_message e @ '' (at offset 0x'' @ show_hex (re_offset e) @ '')''"

section \<open>The reader\<close>

text \<open>The features that change how bytes are read.\<close>

datatype feature = Multi_memory | Memory64 | Reference_types | Shared_everything_threads

record byte_reader =
  br_buffer :: "byte list"
  br_position :: nat
  br_original_offset :: nat
  br_features :: "feature list"

definition all_features :: "feature list" where
  "all_features = [Multi_memory, Memory64, Reference_types, Shared_everything_threads]"

type_synonym 'a reading = "byte_reader \<Rightarrow> (reader_error + 'a) \<times> byte_reader"

definition reader_new :: "byte list \<Rightarrow> nat \<Rightarrow> byte_reader" where
  "reader_new bytes original_offset =
     \<lparr>br_buffer = bytes, br_position = 0, br_original_offset = original_offset,
      br_features = all_features\<rparr>"

definition new_features :: "byte list \<Rightarrow> nat \<Rightarrow> feature list \<Rightarrow> byte_reader" where
  "new_features bytes original_offset features =
     \<lparr>br_buffer = bytes, br_position = 0, br_original_offset = original_offset, br_features = features\<rparr>"

definition set_features :: "feature list \<Rightarrow> byte_reader \<Rightarrow> byte_reader" where
  "set_features features r = r\<lparr>br_features := features\<rparr>"

definition original_position :: "byte_reader \<Rightarrow> nat" where
  "original_position r = br_original_offset r + br_position r"

definition remaining_buffer :: "byte_reader \<Rightarrow> byte list" where
  "remaining_buffer r = drop (br_position r) (br_buffer r)"

definition shrink :: "byte_reader \<Rightarrow> byte_reader" where
  "shrink r = r\<lparr>br_buffer := remaining_buffer r, br_position := 0, br_original_offset := original_position r\<rparr>"

definition reader_range :: "byte_reader \<Rightarrow> nat \<times> nat" where
  "reader_range r = (br_original_offset r, br_original_offset r + length (br_buffer r))"

definition reader_eof :: "byte_reader \<Rightarrow> bool" where
  "reader_eof r \<longleftrightarrow> length (br_buffer r) \<le> br_position r"

definition bytes_remaining :: "byte_reader \<Rightarrow> nat" where
  "bytes_remaining r = length (br_buffer r) - br_position r"

definition is_end_then_eof :: "byte_reader \<Rightarrow> bool" where
  "is_end_then_eof r \<longleftrightarrow> remaining_buffer r = [0x0b]"

text \<open>\<open>Ok\<close>, \<open>Err\<close> and \<open>?\<close>.\<close>

definition rd_ok :: "'a \<Rightarrow> 'a reading" where
  "rd_ok x r = (Inr x, r)"

definition rd_err :: "(byte_reader \<Rightarrow> reader_error) \<Rightarrow> 'a reading" where
  "rd_err e r = (Inl (e r), r)"

definition rd_then :: "'a reading \<Rightarrow> ('a \<Rightarrow> 'b reading) \<Rightarrow> 'b reading" where
  "rd_then m f r = (case m r of (Inl e, r1) \<Rightarrow> (Inl e, r1) | (Inr x, r1) \<Rightarrow> f x r1)"

definition fail_before :: "string \<Rightarrow> 'a reading" where
  "fail_before message = rd_err (\<lambda>r. error_new message (original_position r - 1))"

definition move_on :: "nat \<Rightarrow> byte_reader \<Rightarrow> byte_reader" where
  "move_on n r = r\<lparr>br_position := br_position r + n\<rparr>"

definition ensure_has_byte :: "unit reading" where
  "ensure_has_byte r =
     (if br_position r < length (br_buffer r) then (Inr (), r) else (Inl (error_eof (original_position r) 1), r))"

definition ensure_has_bytes :: "nat \<Rightarrow> unit reading" where
  "ensure_has_bytes len r =
     (if br_position r + len \<le> length (br_buffer r) then (Inr (), r)
      else (Inl (error_eof (original_position r) (br_position r + len - length (br_buffer r))), r))"

section \<open>Bytes\<close>

definition read_u8 :: "byte reading" where
  "read_u8 r =
     (if br_position r < length (br_buffer r) then (Inr (br_buffer r ! br_position r), move_on 1 r)
      else (Inl (error_eof (original_position r) 1), r))"

definition peek :: "byte reading" where
  "peek = rd_then ensure_has_byte (\<lambda>_ r. (Inr (br_buffer r ! br_position r), r))"

definition read_bytes :: "nat \<Rightarrow> byte list reading" where
  "read_bytes n =
     rd_then (ensure_has_bytes n) (\<lambda>_ r. (Inr (take n (drop (br_position r) (br_buffer r))), move_on n r))"

definition from_le_bytes :: "byte list \<Rightarrow> 'w::len word" where
  "from_le_bytes bs = foldr (\<lambda>b w. ucast b OR push_bit 8 w) bs 0"

definition read_u32 :: "32 word reading" where
  "read_u32 = rd_then (read_bytes 4) (\<lambda>bs. rd_ok (from_le_bytes bs))"

definition read_u64 :: "64 word reading" where
  "read_u64 = rd_then (read_bytes 8) (\<lambda>bs. rd_ok (from_le_bytes bs))"

text \<open>A floating point number is its bits.\<close>

definition read_f32 :: "32 word reading" where
  "read_f32 = read_u32"

definition read_f64 :: "64 word reading" where
  "read_f64 = read_u64"

definition read_v128 :: "byte list reading" where
  "read_v128 = read_bytes 16"

definition read_u7 :: "byte reading" where
  "read_u7 = rd_then read_u8 (\<lambda>b. if b AND 0x80 \<noteq> 0 then fail_before ''invalid u7'' else rd_ok b)"

definition read_lane_index :: "byte \<Rightarrow> byte reading" where
  "read_lane_index limit =
     rd_then read_u8 (\<lambda>index. if limit \<le> index then fail_before ''invalid lane index'' else rd_ok index)"

definition invalid_leading_byte_error :: "byte \<Rightarrow> string \<Rightarrow> nat \<Rightarrow> reader_error" where
  "invalid_leading_byte_error b desc offset =
     error_new (''invalid leading byte (0x'' @ show_hex (unat b) @ '') for '' @ desc) offset"

definition invalid_leading_byte :: "byte \<Rightarrow> string \<Rightarrow> 'a reading" where
  "invalid_leading_byte b desc = rd_err (\<lambda>r. invalid_leading_byte_error b desc (original_position r - 1))"

section \<open>Variable length integers\<close>

lemma read_u8_shorter:
  "read_u8 r = (Inr b, r1) \<Longrightarrow> length (br_buffer r1) - br_position r1 < length (br_buffer r) - br_position r"
  by (auto simp: read_u8_def move_on_def split: if_splits)

function var_u32_loop :: "32 word \<Rightarrow> nat \<Rightarrow> 32 word reading" where
  "var_u32_loop result shift r =
     (case read_u8 r of
        (Inl e, r1) \<Rightarrow> (Inl e, r1)
      | (Inr b, r1) \<Rightarrow>
          (let result1 = result OR push_bit shift (ucast (b AND 0x7F))
           in if 25 \<le> shift \<and> drop_bit (32 - shift) b \<noteq> 0 then
                fail_before (if b AND 0x80 \<noteq> 0 then ''invalid var_u32: integer representation too long''
                             else ''invalid var_u32: integer too large'') r1
              else if b AND 0x80 = 0 then (Inr result1, r1)
              else var_u32_loop result1 (shift + 7) r1))"
  by pat_completeness auto
termination var_u32_loop
  by (relation "measure (\<lambda>(_, _, r). length (br_buffer r) - br_position r)") (auto dest: read_u8_shorter [OF sym])

definition read_var_u32_big :: "byte \<Rightarrow> 32 word reading" where
  "read_var_u32_big b = var_u32_loop (ucast (b AND 0x7F)) 7"

definition read_var_u32 :: "32 word reading" where
  "read_var_u32 = rd_then read_u8 (\<lambda>b. if b AND 0x80 = 0 then rd_ok (ucast b) else read_var_u32_big b)"

text \<open>The byte is widened to 64 bits first.\<close>

function var_u64_loop :: "64 word \<Rightarrow> nat \<Rightarrow> 64 word reading" where
  "var_u64_loop result shift r =
     (case read_u8 r of
        (Inl e, r1) \<Rightarrow> (Inl e, r1)
      | (Inr b8, r1) \<Rightarrow>
          (let b = ucast b8 :: 64 word; result1 = result OR push_bit shift (b AND 0x7F)
           in if 57 \<le> shift \<and> drop_bit (64 - shift) b \<noteq> 0 then
                fail_before (if b AND 0x80 \<noteq> 0 then ''invalid var_u64: integer representation too long''
                             else ''invalid var_u64: integer too large'') r1
              else if b AND 0x80 = 0 then (Inr result1, r1)
              else var_u64_loop result1 (shift + 7) r1))"
  by pat_completeness auto
termination var_u64_loop
  by (relation "measure (\<lambda>(_, _, r). length (br_buffer r) - br_position r)") (auto dest: read_u8_shorter [OF sym])

definition read_var_u64_big :: "64 word \<Rightarrow> 64 word reading" where
  "read_var_u64_big b = var_u64_loop (b AND 0x7F) 7"

definition read_var_u64 :: "64 word reading" where
  "read_var_u64 =
     rd_then read_u8 (\<lambda>b8. let b = ucast b8 :: 64 word in if b AND 0x80 = 0 then rd_ok b else read_var_u64_big b)"

text \<open>\<open>(byte << 1) as i8 >> k\<close>: all the bits it keeps are zero or all are one.\<close>

definition sign_and_unused_bit :: "nat \<Rightarrow> byte \<Rightarrow> byte" where
  "sign_and_unused_bit k b = signed_drop_bit k (push_bit 1 b)"

function var_i32_loop :: "32 word \<Rightarrow> nat \<Rightarrow> 32 word reading" where
  "var_i32_loop result shift r =
     (case read_u8 r of
        (Inl e, r1) \<Rightarrow> (Inl e, r1)
      | (Inr b, r1) \<Rightarrow>
          (let result1 = result OR push_bit shift (ucast (b AND 0x7F)); bits = sign_and_unused_bit (32 - shift) b
           in if 25 \<le> shift then
                (if b AND 0x80 \<noteq> 0 \<or> bits \<noteq> 0 \<and> bits \<noteq> - 1 then
                   fail_before (if b AND 0x80 \<noteq> 0 then ''invalid var_i32: integer representation too long''
                                else ''invalid var_i32: integer too large'') r1
                 else (Inr result1, r1))
              else if b AND 0x80 = 0 then
                (Inr (signed_drop_bit (32 - (shift + 7)) (push_bit (32 - (shift + 7)) result1)), r1)
              else var_i32_loop result1 (shift + 7) r1))"
  by pat_completeness auto
termination var_i32_loop
  by (relation "measure (\<lambda>(_, _, r). length (br_buffer r) - br_position r)") (auto dest: read_u8_shorter [OF sym])

definition read_var_i32_big :: "byte \<Rightarrow> 32 word reading" where
  "read_var_i32_big b = var_i32_loop (ucast (b AND 0x7F)) 7"

definition read_var_i32 :: "32 word reading" where
  "read_var_i32 =
     rd_then read_u8 (\<lambda>b. if b AND 0x80 = 0 then rd_ok (signed_drop_bit 25 (push_bit 25 (ucast b)))
       else read_var_i32_big b)"

text \<open>An integer of 33 bits in an \<open>i64\<close>.\<close>

function var_s33_loop :: "64 word \<Rightarrow> nat \<Rightarrow> 64 word reading" where
  "var_s33_loop result shift r =
     (case read_u8 r of
        (Inl e, r1) \<Rightarrow> (Inl e, r1)
      | (Inr b, r1) \<Rightarrow>
          (let result1 = result OR push_bit shift (ucast (b AND 0x7F)); bits = sign_and_unused_bit (33 - shift) b
           in if 25 \<le> shift then
                (if b AND 0x80 \<noteq> 0 \<or> bits \<noteq> 0 \<and> bits \<noteq> - 1 then
                   fail_before ''invalid var_s33: integer representation too long'' r1
                 else (Inr result1, r1))
              else if b AND 0x80 = 0 then
                (Inr (signed_drop_bit (64 - (shift + 7)) (push_bit (64 - (shift + 7)) result1)), r1)
              else var_s33_loop result1 (shift + 7) r1))"
  by pat_completeness auto
termination var_s33_loop
  by (relation "measure (\<lambda>(_, _, r). length (br_buffer r) - br_position r)") (auto dest: read_u8_shorter [OF sym])

definition read_var_s33 :: "64 word reading" where
  "read_var_s33 =
     rd_then read_u8 (\<lambda>b. if b AND 0x80 = 0 then rd_ok (signed_drop_bit 1 (scast (push_bit 1 b)))
       else var_s33_loop (ucast (b AND 0x7F)) 7)"

function var_i64_loop :: "64 word \<Rightarrow> nat \<Rightarrow> 64 word reading" where
  "var_i64_loop result shift r =
     (case read_u8 r of
        (Inl e, r1) \<Rightarrow> (Inl e, r1)
      | (Inr b, r1) \<Rightarrow>
          (let result1 = result OR push_bit shift (ucast (b AND 0x7F)); bits = sign_and_unused_bit (64 - shift) b
           in if 57 \<le> shift then
                (if b AND 0x80 \<noteq> 0 \<or> bits \<noteq> 0 \<and> bits \<noteq> - 1 then
                   fail_before (if b AND 0x80 \<noteq> 0 then ''invalid var_i64: integer representation too long''
                                else ''invalid var_i64: integer too large'') r1
                 else (Inr result1, r1))
              else if b AND 0x80 = 0 then
                (Inr (signed_drop_bit (64 - (shift + 7)) (push_bit (64 - (shift + 7)) result1)), r1)
              else var_i64_loop result1 (shift + 7) r1))"
  by pat_completeness auto
termination var_i64_loop
  by (relation "measure (\<lambda>(_, _, r). length (br_buffer r) - br_position r)") (auto dest: read_u8_shorter [OF sym])

definition read_var_i64 :: "64 word reading" where
  "read_var_i64 = var_i64_loop 0 0"

declare var_u32_loop.simps [simp del] var_u64_loop.simps [simp del] var_i32_loop.simps [simp del]
  var_s33_loop.simps [simp del] var_i64_loop.simps [simp del]

section \<open>Sizes, strings and parts\<close>

definition MAX_WASM_STRING_SIZE :: nat where "MAX_WASM_STRING_SIZE = 100000"

definition read_size :: "nat \<Rightarrow> string \<Rightarrow> nat reading" where
  "read_size limit desc r =
     rd_then read_var_u32
       (\<lambda>size. if limit < unat size then rd_err (\<lambda>_. error_new (desc @ '' size is out of bounds'') (original_position r))
               else rd_ok (unat size)) r"

definition skip :: "unit reading \<Rightarrow> byte_reader reading" where
  "skip f r =
     rd_then f
       (\<lambda>_ r1. (Inr (r1\<lparr>br_buffer := take (br_position r1 - br_position r) (drop (br_position r) (br_buffer r1)),
                        br_position := 0, br_original_offset := br_original_offset r1 + br_position r\<rparr>), r1)) r"

definition read_reader :: "byte_reader reading" where
  "read_reader =
     rd_then read_var_u32 (\<lambda>size. skip (rd_then (read_bytes (unat size)) (\<lambda>_. rd_ok ())))"

definition skip_string :: "unit reading" where
  "skip_string =
     rd_then read_var_u32 (\<lambda>len.
       if MAX_WASM_STRING_SIZE < unat len then fail_before ''string size out of bounds''
       else rd_then (ensure_has_bytes (unat len)) (\<lambda>_ r. (Inr (), move_on (unat len) r)))"

definition internal_read_string :: "nat \<Rightarrow> string reading" where
  "internal_read_string len =
     rd_then (read_bytes len)
       (\<lambda>bytes. case from_utf8 (map (\<lambda>b. char_of (unat b)) bytes) of
          Some s \<Rightarrow> rd_ok s
        | None \<Rightarrow> fail_before ''malformed UTF-8 encoding'')"

definition read_string :: "string reading" where
  "read_string =
     rd_then read_var_u32 (\<lambda>len.
       if MAX_WASM_STRING_SIZE < unat len then fail_before ''string size out of bounds''
       else internal_read_string (unat len))"

definition read_unlimited_string :: "string reading" where
  "read_unlimited_string = rd_then read_var_u32 (\<lambda>len. internal_read_string (unat len))"

text \<open>\<open>BinaryReaderIter\<close>: the next item, until one fails; collecting the items.\<close>

record iter =
  it_remaining :: nat
  it_reader :: byte_reader

definition iter_next :: "'a reading \<Rightarrow> iter \<Rightarrow> (reader_error + 'a) option \<times> iter" where
  "iter_next item it =
     (if it_remaining it = 0 then (None, it)
      else
        (case item (it_reader it) of
           (Inl e, r1) \<Rightarrow> (Some (Inl e), \<lparr>it_remaining = 0, it_reader = r1\<rparr>)
         | (Inr x, r1) \<Rightarrow> (Some (Inr x), \<lparr>it_remaining = it_remaining it - 1, it_reader = r1\<rparr>)))"

function collect_items :: "'a reading \<Rightarrow> iter \<Rightarrow> (reader_error + 'a list) \<times> iter" where
  "collect_items item it =
     (case iter_next item it of
        (None, it1) \<Rightarrow> (Inr [], it1)
      | (Some (Inl e), it1) \<Rightarrow> (Inl e, it1)
      | (Some (Inr x), it1) \<Rightarrow>
          (case collect_items item it1 of (Inl e, it2) \<Rightarrow> (Inl e, it2) | (Inr xs, it2) \<Rightarrow> (Inr (x # xs), it2)))"
  by pat_completeness auto
termination collect_items
  by (relation "measure (\<lambda>(_, it). it_remaining it)") (auto simp: iter_next_def split: if_splits prod.splits sum.splits)

declare collect_items.simps [simp del]

definition read_iter :: "nat \<Rightarrow> string \<Rightarrow> 'a reading \<Rightarrow> 'a list reading" where
  "read_iter limit desc item =
     rd_then (read_size limit desc)
       (\<lambda>size r. case collect_items item \<lparr>it_remaining = size, it_reader = r\<rparr> of (res, it) \<Rightarrow> (res, it_reader it))"

section \<open>Indices that used to be a zero byte\<close>

definition zero_byte :: "32 word reading" where
  "zero_byte = rd_then read_u8 (\<lambda>b. if b = 0 then rd_ok 0 else fail_before ''zero byte expected'')"

definition read_memory_index_or_zero_if_not_multi_memory :: "32 word reading" where
  "read_memory_index_or_zero_if_not_multi_memory r =
     (if Multi_memory \<in> set (br_features r) then read_var_u32 r else zero_byte r)"

definition read_table_index_or_zero_if_not_reference_types :: "32 word reading" where
  "read_table_index_or_zero_if_not_reference_types r =
     (if Reference_types \<in> set (br_features r) then read_var_u32 r else zero_byte r)"

definition WASM_MAGIC_NUMBER :: "byte list" where "WASM_MAGIC_NUMBER = [0x00, 0x61, 0x73, 0x6D]"

text \<open>The message shows both magic numbers as lists of numbers over several lines; its first part is given.\<close>

definition read_header_version :: "32 word reading" where
  "read_header_version =
     rd_then (read_bytes 4) (\<lambda>magic_number.
       if magic_number \<noteq> WASM_MAGIC_NUMBER then
         rd_err (\<lambda>r. error_new ''magic header not detected: bad magic number'' (original_position r - 4))
       else read_u32)"

section \<open>Branch tables\<close>

record branch_table =
  bra_reader :: byte_reader
  bra_count :: nat
  bra_default :: "32 word"

definition MAX_WASM_BR_TABLE_SIZE :: nat where "MAX_WASM_BR_TABLE_SIZE = 128 * 1024"

fun skip_var_u32s :: "nat \<Rightarrow> unit reading" where
  "skip_var_u32s 0 = rd_ok ()"
| "skip_var_u32s (Suc n) = rd_then read_var_u32 (\<lambda>_. skip_var_u32s n)"

definition read_br_table :: "branch_table reading" where
  "read_br_table =
     rd_then (read_size MAX_WASM_BR_TABLE_SIZE ''br_table'') (\<lambda>cnt.
     rd_then (skip (skip_var_u32s cnt)) (\<lambda>reader.
     rd_then read_var_u32 (\<lambda>default_target.
       rd_ok \<lparr>bra_reader = reader, bra_count = cnt, bra_default = default_target\<rparr>)))"

text \<open>\<open>BrTableTargets::next\<close>, and the sequence of its results.\<close>

definition targets_next :: "nat \<times> byte_reader \<Rightarrow> (reader_error + 32 word) option \<times> (nat \<times> byte_reader)" where
  "targets_next st =
     (case st of (n, r) \<Rightarrow>
        if n = 0 then
          (if \<not> reader_eof r then (Some (Inl (error_new ''trailing data in br_table'' (original_position r))), st)
           else (None, st))
        else (case read_var_u32 r of (res, r1) \<Rightarrow> (Some res, (n - 1, r1))))"

fun targets_from :: "nat \<Rightarrow> byte_reader \<Rightarrow> (reader_error + 32 word) list" where
  "targets_from 0 r =
     (case targets_next (0, r) of (Some res, _) \<Rightarrow> [res] | (None, _) \<Rightarrow> [])"
| "targets_from (Suc n) r =
     (case targets_next (Suc n, r) of (Some res, (_, r1)) \<Rightarrow> res # targets_from n r1 | (None, _) \<Rightarrow> [])"

definition targets :: "branch_table \<Rightarrow> (reader_error + 32 word) list" where
  "targets t = targets_from (bra_count t) (bra_reader t)"

end
