(* ===== verification/LebFacts.thy ===== *)
theory LebFacts
  imports ByteReader
begin

text \<open>
  What the variable length integers are: a number in groups of seven bits, lowest first, each byte but the
  last with its top bit set. The locales \<open>unsigned_loop\<close> and \<open>signed_loop\<close> say what a loop over the bytes
  gives, from its equation; they are interpreted on the loops of the reader.
\<close>

section \<open>Groups of seven bits\<close>

fun leb :: "byte list \<Rightarrow> nat" where
  "leb [] = 0"
| "leb (b # bs) = unat b mod 128 + 128 * leb bs"

fun is_leb :: "byte list \<Rightarrow> bool" where
  "is_leb [] = False"
| "is_leb (b # bs) = (if unat b < 128 then bs = [] else is_leb bs)"

definition sleb :: "byte list \<Rightarrow> int" where
  "sleb bs = (if 2 * leb bs < 128 ^ length bs then int (leb bs) else int (leb bs) - 128 ^ length bs)"

lemma leb_bound: "leb bs < 128 ^ length bs"
proof (induction bs)
  case (Cons b bs)
  have "unat b mod 128 < 128" by simp
  then show ?case using Cons by simp
qed simp

lemma is_leb_nonempty: "is_leb bs \<Longrightarrow> 0 < length bs"
  by (cases bs) auto

lemma is_leb_unique: "is_leb xs \<Longrightarrow> is_leb ys \<Longrightarrow> xs @ us = ys @ vs \<Longrightarrow> xs = ys"
proof (induction xs arbitrary: ys)
  case (Cons x xs)
  then show ?case by (cases ys) (auto split: if_splits)
qed simp

section \<open>Words\<close>

lemma byte_cases: "list_all (\<lambda>n. P (word_of_nat n)) [0..<256] \<Longrightarrow> P (b :: byte)"
  using unsigned_less [of b] by (auto simp: list_all_iff dest!: bspec [of _ _ "unat b"])

lemma bit_of_unat: "bit (w :: 'a::len word) n \<longleftrightarrow> odd (unat w div 2 ^ n)"
  using bit_unsigned_iff [of w n, where 'a = nat] by (simp add: bit_iff_odd [of "unat w"] possible_bit_def)

lemma continuation_iff: "(b :: byte) AND 0x80 = 0 \<longleftrightarrow> unat b < 128"
proof -
  have "b AND 2 ^ 7 = 0 \<longleftrightarrow> \<not> bit b 7" by (rule and_exp_eq_0_iff_not_bit)
  also have "\<dots> \<longleftrightarrow> even (unat b div 128)" by (simp add: bit_of_unat)
  also have "\<dots> \<longleftrightarrow> unat b < 128"
  proof -
    have "unat b div 128 < 2" using unsigned_less [of b, where 'a = nat] by (simp add: div_less_iff_less_mult)
    then have "even (unat b div 128) \<longleftrightarrow> unat b div 128 = 0" by (auto simp: less_2_cases_iff)
    then show ?thesis by (simp add: div_eq_0_iff)
  qed
  finally show ?thesis by simp
qed

lemma low_bits: "unat ((b :: byte) AND 0x7F) = unat b mod 128"
proof -
  have "(0x7F :: byte) = mask 7" by (simp add: mask_eq_exp_minus_1)
  then have "b AND 0x7F = take_bit 7 b" by (simp only: take_bit_eq_mask)
  then have "unat (b AND 0x7F) = take_bit 7 (unat b)" by (simp only: unsigned_take_bit_eq)
  then show ?thesis by (simp add: take_bit_eq_mod)
qed

lemma unat_group:
  assumes "LENGTH('a::len) \<ge> 7"
  shows "unat (ucast ((b :: byte) AND 0x7F) :: 'a word) = unat b mod 128"
proof -
  have "unat b mod 128 < 2 ^ 7" by simp
  also have "(2 :: nat) ^ 7 \<le> 2 ^ LENGTH('a)" using assms by (simp add: power_increasing del: power_numeral numeral_power_le_of_nat_cancel_iff)
  finally show ?thesis by (simp add: unsigned_ucast_eq low_bits take_bit_nat_eq_self)
qed

text \<open>Putting a group above the bits that are there is an addition.\<close>

lemma word_add_group:
  fixes res x :: "'a::len word"
  assumes "unat res < 2 ^ s"
  shows "res OR push_bit s x = word_of_nat (unat res + 2 ^ s * unat x)"
proof -
  have "\<not> bit res n" if "s \<le> n" for n
  proof -
    have "unat res < 2 ^ n" using assms that by (meson le_less_trans less_le_trans one_le_numeral power_increasing)
    then show ?thesis by (simp add: bit_of_unat)
  qed
  then have "res AND push_bit s x = 0" by (auto simp: bit_eq_iff bit_simps)
  then have "res OR push_bit s x = res + push_bit s x" by (rule disjunctive_add_eq_or [symmetric])
  moreover have "push_bit s x = word_of_nat (2 ^ s * unat x)" by (simp add: push_bit_eq_mult mult.commute)
  moreover have "res + word_of_nat (2 ^ s * unat x) = word_of_nat (unat res + 2 ^ s * unat x)"
    by (simp only: of_nat_add of_nat_unat ucast_id)
  ultimately show ?thesis by (simp only:)
qed

lemma unat_drop_bit: "unat (drop_bit k w) = unat w div 2 ^ k"
  by (simp only: unsigned_drop_bit_eq take_bit_nat_eq_self [OF unsigned_less]) (simp only: drop_bit_eq_div)

lemma unat_add_group:
  fixes res x :: "'a::len word"
  assumes "unat res < 2 ^ s" "unat res + 2 ^ s * unat x < 2 ^ LENGTH('a)"
  shows "unat (res OR push_bit s x) = unat res + 2 ^ s * unat x"
  unfolding word_add_group [OF assms(1)] unsigned_of_nat using assms(2) by (simp add: take_bit_nat_eq_self)

section \<open>Unsigned integers\<close>

lemma read_u8_cases:
  "read_u8 r = (case remaining_buffer r of [] \<Rightarrow> (Inl (error_eof (original_position r) 1), r) | b # _ \<Rightarrow> (Inr b, move_on 1 r))"
  by (cases "br_position r < length (br_buffer r)")
    (simp_all add: read_u8_def remaining_buffer_def Cons_nth_drop_Suc [symmetric])

lemma remaining_move_on [simp]: "remaining_buffer (move_on n r) = drop n (remaining_buffer r)"
  by (simp add: remaining_buffer_def move_on_def add.commute)

lemma move_on_move_on [simp]: "move_on m (move_on n r) = move_on (n + m) r"
  by (simp add: move_on_def add.assoc)

lemma move_on_0 [simp]: "move_on 0 r = r"
  by (simp add: move_on_def)

locale unsigned_loop =
  fixes loop :: "'a::len word \<Rightarrow> nat \<Rightarrow> 'a word reading" and too_large :: "byte \<Rightarrow> string"
  assumes width: "7 < LENGTH('a)"
    and loop: "loop res s r =
      (case read_u8 r of
         (Inl e, r1) \<Rightarrow> (Inl e, r1)
       | (Inr b, r1) \<Rightarrow>
           (let res1 = res OR push_bit s (ucast (b AND 0x7F))
            in if LENGTH('a) - 7 \<le> s \<and> unat b div 2 ^ (LENGTH('a) - s) \<noteq> 0 then fail_before (too_large b) r1
               else if unat b < 128 then (Inr res1, r1)
               else loop res1 (s + 7) r1))"
begin

text \<open>What the loop accepts, started with the bits below \<open>s\<close>.\<close>

lemma loop_iff:
  assumes "unat res < 2 ^ s" "s < LENGTH('a)"
  shows "loop res s r = (Inr v, r') \<longleftrightarrow>
    (\<exists>bs tl. remaining_buffer r = bs @ tl \<and> is_leb bs \<and> s + 7 * (length bs - 1) < LENGTH('a)
      \<and> unat res + 2 ^ s * leb bs < 2 ^ LENGTH('a) \<and> unat v = unat res + 2 ^ s * leb bs \<and> r' = move_on (length bs) r)"
    (is "_ \<longleftrightarrow> (\<exists>bs tl. ?P res s r bs tl)")
  using assms
proof (induction "remaining_buffer r" arbitrary: res s r)
  case Nil
  then show ?case by (subst loop) (auto simp: read_u8_cases)
next
  case (Cons b rest)
  note rest = Cons.hyps(2) [symmetric]
  let ?res = "res OR push_bit s (ucast (b AND 0x7F))"
  have group: "unat (ucast (b AND 0x7F) :: 'a word) = unat b mod 128" using width by (intro unat_group) simp
  have P_Cons: "(\<exists>bs tl. ?P res s r bs tl) \<longleftrightarrow> (\<exists>bs tl. ?P res s r (b # bs) tl)"
  proof
    assume "\<exists>bs tl. ?P res s r bs tl"
    then obtain bs tl where P: "?P res s r bs tl" by blast
    then obtain bs' where "bs = b # bs'" using rest by (cases bs) auto
    then show "\<exists>bs tl. ?P res s r (b # bs) tl" using P by blast
  qed blast
  show ?case
  proof (cases "LENGTH('a) - 7 \<le> s")
    case True
    define k where "k = LENGTH('a) - s"
    have k: "0 < k" "k \<le> 7" "LENGTH('a) = s + k" using True Cons.prems(2) by (auto simp: k_def)
    then have le: "(2 :: nat) ^ k \<le> 128" using power_increasing [of k 7 "2 :: nat"] by simp
    show ?thesis
    proof (cases "unat b < 2 ^ k")
      case True
      then have small: "unat b < 128" using le by simp
      have "2 ^ s * unat b + 2 ^ s \<le> 2 ^ s * 2 ^ k" using True by (metis Suc_leI mult_Suc_right add.commute mult_le_mono2)
      then have bound: "unat res + 2 ^ s * unat b < 2 ^ LENGTH('a)" using Cons.prems(1) by (simp add: k(3) power_add)
      then have val: "unat ?res = unat res + 2 ^ s * unat b"
        using unat_add_group [OF Cons.prems(1), of "ucast (b AND 0x7F)"] group small by simp
      have "loop res s r = (Inr ?res, move_on 1 r)"
        using True small by (subst loop) (simp add: read_u8_cases rest k_def [symmetric] div_eq_0_iff)
      then show ?thesis unfolding P_Cons using small bound val rest Cons.prems(2) by (auto simp: word_unat_eq_iff)
    next
      case False
      then have "loop res s r = (Inl (error_new (too_large b) (original_position (move_on 1 r) - 1)), move_on 1 r)"
        using True by (subst loop) (simp add: read_u8_cases rest k_def [symmetric] div_eq_0_iff fail_before_def rd_err_def)
      moreover have "\<not> ?P res s r (b # bs) tl" for bs tl
      proof
        assume P: "?P res s r (b # bs) tl"
        show False
        proof (cases "unat b < 128")
          case True
          then have "unat res + 2 ^ s * unat b < 2 ^ s * 2 ^ k" using P by (auto simp: k(3) power_add)
          then have "2 ^ s * unat b < 2 ^ s * 2 ^ k" by linarith
          then show False using False by simp
        next
          case False
          then have "0 < length bs" using P by (auto dest: is_leb_nonempty)
          moreover have "s + 7 * length bs < LENGTH('a)" using P by simp
          ultimately show False using True by linarith
        qed
      qed
      ultimately show ?thesis unfolding P_Cons by (metis (no_types, lifting) prod.inject sum.distinct(2))
    qed
  next
    case False
    then have s7: "s + 7 < LENGTH('a)" by simp
    have le: "unat res + 2 ^ s * (unat b mod 128) < 2 ^ (s + 7)"
    proof -
      have "2 ^ s * (unat b mod 128) + 2 ^ s \<le> (2 :: nat) ^ s * 128"
        by (metis Suc_leI mult_Suc_right add.commute mult_le_mono2 mod_less_divisor zero_less_numeral)
      then have "unat res + 2 ^ s * (unat b mod 128) < 2 ^ s * 128" using Cons.prems(1) by linarith
      then show ?thesis by (simp add: power_add)
    qed
    also have lt: "(2 :: nat) ^ (s + 7) < 2 ^ LENGTH('a)" using s7 by (simp add: power_strict_increasing)
    finally have val: "unat ?res = unat res + 2 ^ s * (unat b mod 128)"
      using unat_add_group [OF Cons.prems(1), of "ucast (b AND 0x7F)"] group by simp
    show ?thesis
    proof (cases "unat b < 128")
      case True
      then have "loop res s r = (Inr ?res, move_on 1 r)"
        using False by (subst loop) (simp add: read_u8_cases rest)
      then show ?thesis unfolding P_Cons using True val le lt rest s7 by (auto simp: word_unat_eq_iff)
    next
      case big: False
      have "loop res s r = loop ?res (s + 7) (move_on 1 r)"
        using False big by (subst loop) (simp add: read_u8_cases rest)
      then have IH: "loop res s r = (Inr v, r') \<longleftrightarrow> (\<exists>bs tl. ?P ?res (s + 7) (move_on 1 r) bs tl)"
        using Cons.hyps(1) [of "move_on 1 r" ?res "s + 7"] rest val le s7 by simp
      have step: "?P ?res (s + 7) (move_on 1 r) bs tl \<longleftrightarrow> ?P res s r (b # bs) tl" for bs tl
        using big rest val by (cases bs) (auto simp: power_add algebra_simps)
      show ?thesis unfolding P_Cons IH step ..
    qed
  qed
qed

end

interpretation u32: unsigned_loop var_u32_loop
  "\<lambda>b. if b AND 0x80 \<noteq> 0 then ''invalid var_u32: integer representation too long'' else ''invalid var_u32: integer too large''"
proof
  fix res :: "32 word" and s r
  have "drop_bit k b = 0 \<longleftrightarrow> unat b div 2 ^ k = 0" for k and b :: byte
    unfolding word_unat_eq_iff [of "drop_bit k b"] unat_drop_bit by simp
  then show "var_u32_loop res s r =
      (case read_u8 r of
         (Inl e, r1) \<Rightarrow> (Inl e, r1)
       | (Inr b, r1) \<Rightarrow>
           (let res1 = res OR push_bit s (ucast (b AND 0x7F))
            in if LENGTH(32) - 7 \<le> s \<and> unat b div 2 ^ (LENGTH(32) - s) \<noteq> 0 then
                 fail_before (if b AND 0x80 \<noteq> 0 then ''invalid var_u32: integer representation too long''
                   else ''invalid var_u32: integer too large'') r1
               else if unat b < 128 then (Inr res1, r1)
               else var_u32_loop res1 (s + 7) r1))"
    by (subst var_u32_loop.simps) (simp add: Let_def continuation_iff split: prod.split sum.split)
qed simp

text \<open>Widening a byte keeps its number, and its groups.\<close>

lemma unat_wide: "unat (ucast (b :: byte) :: 64 word) = unat b"
  using unsigned_less [of b, where 'a = nat] by (simp add: unsigned_ucast_eq take_bit_nat_eq_self)

lemma widened_byte:
  "(ucast (b :: byte) :: 64 word) AND 0x80 = 0 \<longleftrightarrow> unat b < 128"
  "(ucast (b :: byte) :: 64 word) AND 0x7F = ucast (b AND 0x7F)"
proof -
  have low: "(ucast b :: 64 word) AND ucast c = ucast (b AND c)" for c :: byte by (simp only: unsigned_and_eq)
  from low [of "0x7F"] show "(ucast b :: 64 word) AND 0x7F = ucast (b AND 0x7F)" by simp
  from low [of "0x80"] have "(ucast b :: 64 word) AND 0x80 = ucast (b AND 0x80)" by simp
  then show "(ucast b :: 64 word) AND 0x80 = 0 \<longleftrightarrow> unat b < 128"
    unfolding continuation_iff [symmetric] word_unat_eq_iff [of "_ AND _"] by (simp only: unat_wide unsigned_0)
qed

interpretation u64: unsigned_loop var_u64_loop
  "\<lambda>b. if b AND 0x80 \<noteq> 0 then ''invalid var_u64: integer representation too long'' else ''invalid var_u64: integer too large''"
proof
  fix res :: "64 word" and s r
  have "drop_bit k (ucast b :: 64 word) = 0 \<longleftrightarrow> unat b div 2 ^ k = 0" for k and b :: byte
    unfolding word_unat_eq_iff [of "drop_bit k (ucast b :: 64 word)"] unat_drop_bit unat_wide by simp
  then show "var_u64_loop res s r =
      (case read_u8 r of
         (Inl e, r1) \<Rightarrow> (Inl e, r1)
       | (Inr b, r1) \<Rightarrow>
           (let res1 = res OR push_bit s (ucast (b AND 0x7F))
            in if LENGTH(64) - 7 \<le> s \<and> unat b div 2 ^ (LENGTH(64) - s) \<noteq> 0 then
                 fail_before (if b AND 0x80 \<noteq> 0 then ''invalid var_u64: integer representation too long''
                   else ''invalid var_u64: integer too large'') r1
               else if unat b < 128 then (Inr res1, r1)
               else var_u64_loop res1 (s + 7) r1))"
    by (subst var_u64_loop.simps) (simp add: Let_def continuation_iff widened_byte split: prod.split sum.split del: push_bit_and)
qed simp

section \<open>Signed integers\<close>

definition signed_value :: "nat \<Rightarrow> nat \<Rightarrow> int" where
  "signed_value n t = (if 2 * t < 2 ^ n then int t else int t - 2 ^ n)"

lemma sleb_value: "sleb bs = signed_value (7 * length bs) (leb bs)"
proof -
  have "(128 :: 'b::comm_semiring_1) ^ length bs = 2 ^ (7 * length bs)" by (simp add: power_mult)
  then show ?thesis unfolding sleb_def signed_value_def by (simp add: power_mult)
qed

lemma signed_value_range:
  assumes "0 < n" "t < 2 ^ n"
  shows "- (2 ^ (n - 1)) \<le> signed_value n t" "signed_value n t < 2 ^ (n - 1)"
proof -
  obtain m where m: "n = Suc m" using assms(1) by (cases n) auto
  have "int t < int (2 * 2 ^ m)" using assms(2) m by (simp only: of_nat_less_iff power_Suc)
  then have t: "int t < 2 * 2 ^ m" by simp
  have pos: "(0 :: int) < 2 ^ m" by simp
  have half: "t < 2 ^ m \<longleftrightarrow> int t < 2 ^ m"
    using of_nat_less_iff [of t "2 ^ m", where 'a = int] by simp
  have split: "signed_value n t = (if int t < 2 ^ m then int t else int t - 2 * 2 ^ m)"
    unfolding signed_value_def m half [symmetric] by simp
  show "- (2 ^ (n - 1)) \<le> signed_value n t" "signed_value n t < 2 ^ (n - 1)"
    unfolding split using t pos by (simp_all add: m)
qed

lemma sint_in_range:
  fixes w :: "'a::len word"
  assumes "w = word_of_int x" "- (2 ^ (LENGTH('a) - 1)) \<le> x" "x < 2 ^ (LENGTH('a) - 1)"
  shows "sint w = x"
  using assms by (simp add: sint_sbintrunc' signed_take_bit_int_eq_self)

lemma word_of_int_sint: "word_of_int (sint (w :: 'a::len word)) = w"
  by (simp only: of_int_sint scast_id)

lemma word_of_int_wrap: "LENGTH('a) \<le> n \<Longrightarrow> (word_of_int (x - 2 ^ n) :: 'a::len word) = word_of_int x"
proof -
  assume n: "LENGTH('a) \<le> n"
  then have "2 ^ n = (2 :: int) ^ LENGTH('a) * 2 ^ (n - LENGTH('a))" by (simp flip: power_add)
  then have "(word_of_int (2 ^ n) :: 'a word) = word_of_int (2 ^ LENGTH('a)) * word_of_int (2 ^ (n - LENGTH('a)))"
    by (simp only: of_int_mult)
  then show ?thesis by (simp only: word_of_int_2p_len of_int_diff) simp
qed

lemma sign_extended:
  fixes w :: "'a::len word"
  assumes n: "0 < n" "n < LENGTH('a)" "unat w < 2 ^ n"
  shows "signed_drop_bit (LENGTH('a) - n) (push_bit (LENGTH('a) - n) w) = word_of_int (signed_value n (unat w))"
proof -
  define a where "a = LENGTH('a) - n"
  let ?S = "signed_value n (unat w)"
  have a: "LENGTH('a) = n + a" using n by (simp add: a_def)
  note S = signed_value_range [OF n(1,3)]
  have "push_bit a w = word_of_int (int (unat w) * 2 ^ a)"
    by (simp add: push_bit_eq_mult mult.commute)
  also have "\<dots> = word_of_int (?S * 2 ^ a)"
  proof (cases "2 * unat w < 2 ^ n")
    case False
    then have "?S * 2 ^ a = int (unat w) * 2 ^ a - 2 ^ LENGTH('a)" by (simp add: signed_value_def a power_add algebra_simps)
    then show ?thesis by (simp only: word_of_int_wrap [OF order_refl])
  qed (simp add: signed_value_def)
  finally have push: "push_bit a w = word_of_int (?S * 2 ^ a)" .
  have half: "(2 :: int) ^ (LENGTH('a) - 1) = 2 ^ (n - 1) * 2 ^ a" using n(1) by (simp add: a flip: power_add)
  have "sint (push_bit a w) = ?S * 2 ^ a"
  proof (rule sint_in_range [OF push])
    show "- (2 ^ (LENGTH('a) - 1)) \<le> ?S * 2 ^ a"
      unfolding half using S(1) mult_right_mono [of "- (2 ^ (n - 1))" ?S "2 ^ a"] by simp
    show "?S * 2 ^ a < 2 ^ (LENGTH('a) - 1)" unfolding half using S(2) by simp
  qed
  then have "sint (signed_drop_bit a (push_bit a w)) = ?S" by (simp add: sint_signed_drop_bit_eq drop_bit_eq_div)
  then show ?thesis unfolding a_def [symmetric] using word_of_int_sint by metis
qed

text \<open>The last group of an integer of \<open>k\<close> more bits: the bits it has beyond them repeat its sign.\<close>

definition fits :: "nat \<Rightarrow> nat \<Rightarrow> bool" where
  "fits k b \<longleftrightarrow> 2 * b < 2 ^ k \<or> 256 \<le> 2 * b + 2 ^ k"

lemma fits_range:
  assumes k: "0 < k" "k \<le> 7" and b: "b < 128" and r: "r < 2 ^ s"
  shows "fits k b \<longleftrightarrow> - (2 ^ (s + k - 1)) \<le> signed_value (s + 7) (r + 2 ^ s * b)
    \<and> signed_value (s + 7) (r + 2 ^ s * b) < 2 ^ (s + k - 1)"
proof -
  obtain j where j: "k = Suc j" using k(1) by (cases k) auto
  have le: "(2 :: nat) ^ j \<le> 64" using power_increasing [of j 6 "2 :: nat"] k(2) j by simp
  let ?t = "r + 2 ^ s * b"
  have n: "(2 :: nat) ^ (s + 7) = 2 ^ s * 128" by (simp add: power_add)
  have below: "?t < 2 ^ s * c \<longleftrightarrow> b < c" for c
  proof
    assume "b < c"
    then have "2 ^ s * b + 2 ^ s \<le> 2 ^ s * c" by (metis Suc_leI mult_Suc_right add.commute mult_le_mono2)
    then show "?t < 2 ^ s * c" using r by linarith
  next
    assume "?t < 2 ^ s * c"
    then have "2 ^ s * b < 2 ^ s * c" by linarith
    then show "b < c" by simp
  qed
  have small: "2 * ?t < 2 ^ (s + 7) \<longleftrightarrow> b < 64" unfolding n below [of 64, symmetric] by arith
  have low: "?t < 2 ^ (s + j) \<longleftrightarrow> b < 2 ^ j" using below [of "2 ^ j"] by (simp add: power_add)
  have high: "2 ^ (s + 7) \<le> ?t + 2 ^ (s + j) \<longleftrightarrow> 128 \<le> b + 2 ^ j"
  proof -
    have "2 ^ (s + 7) \<le> ?t + 2 ^ (s + j) \<longleftrightarrow> \<not> ?t < 2 ^ s * (128 - 2 ^ j)"
      using le by (simp add: n power_add right_diff_distrib' not_less le_diff_conv2) (simp add: algebra_simps le_diff_conv)
    then show ?thesis unfolding below using le by linarith
  qed
  have pos: "0 < (2 :: int) ^ (s + j)" by simp
  have fits: "fits k b \<longleftrightarrow> b < 2 ^ j \<or> 128 \<le> b + 2 ^ j" by (auto simp: fits_def j)
  have sj: "s + k - 1 = s + j" by (simp add: j)
  show ?thesis
  proof (cases "b < 64")
    case True
    have "\<not> 128 \<le> b + 2 ^ j" using True le by linarith
    moreover have "int ?t < 2 ^ (s + j) \<longleftrightarrow> b < 2 ^ j"
      unfolding low [symmetric] by (metis of_nat_less_iff of_nat_numeral of_nat_power)
    moreover have "- (2 ^ (s + j)) \<le> int ?t" using pos by linarith
    ultimately show ?thesis unfolding fits sj signed_value_def small if_P [OF True] by blast
  next
    case False
    have "b < 2 ^ j \<longrightarrow> 128 \<le> b + 2 ^ j" using False le by linarith
    moreover have "- (2 ^ (s + j)) \<le> int ?t - 2 ^ (s + 7) \<longleftrightarrow> 128 \<le> b + 2 ^ j"
    proof -
      have "2 ^ (s + 7) \<le> ?t + 2 ^ (s + j) \<longleftrightarrow> int (2 ^ (s + 7)) \<le> int (?t + 2 ^ (s + j))" by (simp only: of_nat_le_iff)
      then show ?thesis unfolding high [symmetric] by (simp only: of_nat_add of_nat_power of_nat_numeral) arith
    qed
    moreover have "int ?t - 2 ^ (s + 7) < 2 ^ (s + j)"
    proof -
      have "?t < 2 ^ (s + 7)" using below [of 128] b n by simp
      then have "int ?t < int (2 ^ (s + 7))" by (simp only: of_nat_less_iff)
      then have "int ?t < 2 ^ (s + 7)" by (simp only: of_nat_power of_nat_numeral)
      then show ?thesis using pos by linarith
    qed
    ultimately show ?thesis unfolding fits sj signed_value_def small if_not_P [OF False] by blast
  qed
qed

locale signed_loop =
  fixes loop :: "'a::len word \<Rightarrow> nat \<Rightarrow> 'a word reading" and W :: nat and too_large :: "byte \<Rightarrow> string"
  assumes width: "7 < W" "W \<le> LENGTH('a)"
    and loop: "7 dvd s \<Longrightarrow> loop res s r =
      (case read_u8 r of
         (Inl e, r1) \<Rightarrow> (Inl e, r1)
       | (Inr b, r1) \<Rightarrow>
           (let res1 = res OR push_bit s (ucast (b AND 0x7F))
            in if W - 7 \<le> s then
                 (if 128 \<le> unat b \<or> \<not> fits (W - s) (unat b) then fail_before (too_large b) r1 else (Inr res1, r1))
               else if unat b < 128 then
                 (Inr (signed_drop_bit (LENGTH('a) - (s + 7)) (push_bit (LENGTH('a) - (s + 7)) res1)), r1)
               else loop res1 (s + 7) r1))"
begin

definition total :: "'a word \<Rightarrow> nat \<Rightarrow> byte list \<Rightarrow> nat" where
  "total res s bs = unat res + 2 ^ s * leb bs"

definition accepts :: "'a word \<Rightarrow> nat \<Rightarrow> byte list \<Rightarrow> bool" where
  "accepts res s bs \<longleftrightarrow> is_leb bs \<and> s + 7 * (length bs - 1) < W
     \<and> - (2 ^ (W - 1)) \<le> signed_value (s + 7 * length bs) (total res s bs)
     \<and> signed_value (s + 7 * length bs) (total res s bs) < 2 ^ (W - 1)"

definition outcome :: "'a word \<Rightarrow> nat \<Rightarrow> byte list \<Rightarrow> 'a word" where
  "outcome res s bs =
     (if s + 7 * length bs < W then word_of_int (signed_value (s + 7 * length bs) (total res s bs))
      else word_of_nat (total res s bs))"

lemma loop_iff:
  assumes "7 dvd s" "unat res < 2 ^ s" "s < W"
  shows "loop res s r = (Inr v, r') \<longleftrightarrow>
    (\<exists>bs tl. remaining_buffer r = bs @ tl \<and> accepts res s bs \<and> v = outcome res s bs \<and> r' = move_on (length bs) r)"
    (is "_ \<longleftrightarrow> (\<exists>bs tl. ?P res s r bs tl)")
  using assms
proof (induction "remaining_buffer r" arbitrary: res s r)
  case Nil
  then show ?case by (subst loop) (auto simp: read_u8_cases accepts_def)
next
  case (Cons b rest)
  note rest = Cons.hyps(2) [symmetric] and small_res = Cons.prems(2)
  let ?res = "res OR push_bit s (ucast (b AND 0x7F))"
  have group: "unat (ucast (b AND 0x7F) :: 'a word) = unat b mod 128" using width by (intro unat_group) simp
  have P_Cons: "(\<exists>bs tl. ?P res s r bs tl) \<longleftrightarrow> (\<exists>bs tl. ?P res s r (b # bs) tl)"
  proof
    assume "\<exists>bs tl. ?P res s r bs tl"
    then obtain bs tl where P: "?P res s r bs tl" by blast
    then obtain bs' where "bs = b # bs'" using rest by (cases bs) (auto simp: accepts_def)
    then show "\<exists>bs tl. ?P res s r (b # bs) tl" using P by blast
  qed blast
  have last: "(\<exists>bs tl. ?P res s r (b # bs) tl) \<longleftrightarrow> accepts res s [b] \<and> v = outcome res s [b] \<and> r' = move_on 1 r"
    if "unat b < 128"
    using that rest by (auto simp: accepts_def)
  have value_b: "total res s [b] = unat res + 2 ^ s * unat b" if "unat b < 128" using that by (simp add: total_def)
  have le: "unat res + 2 ^ s * (unat b mod 128) < 2 ^ (s + 7)"
  proof -
    have "2 ^ s * (unat b mod 128) + 2 ^ s \<le> (2 :: nat) ^ s * 128"
      by (metis Suc_leI mult_Suc_right add.commute mult_le_mono2 mod_less_divisor zero_less_numeral)
    then have "unat res + 2 ^ s * (unat b mod 128) < 2 ^ s * 128" using small_res by linarith
    then show ?thesis by (simp add: power_add)
  qed
  show ?case
  proof (cases "W - 7 \<le> s")
    case True
    define k where "k = W - s"
    have k: "0 < k" "k \<le> 7" "W = s + k" using True Cons.prems(3) by (auto simp: k_def)
    show ?thesis
    proof (cases "unat b < 128")
      case small: True
      have acc: "accepts res s [b] \<longleftrightarrow> fits k (unat b)"
        using fits_range [OF k(1,2) small small_res] Cons.prems(3) small by (simp add: accepts_def value_b flip: k(3))
      have out: "outcome res s [b] = ?res"
      proof -
        have "\<not> s + 7 < W" using True by linarith
        then show ?thesis
          using word_add_group [OF small_res, of "ucast (b AND 0x7F)"] group small
          by (simp add: outcome_def value_b del: of_nat_add)
      qed
      have run: "loop res s r = (if fits k (unat b) then (Inr ?res, move_on 1 r) else fail_before (too_large b) (move_on 1 r))"
        using True small Cons.prems(1) by (subst loop) (simp_all add: read_u8_cases rest k_def)
      show ?thesis unfolding P_Cons last [OF small] acc out run
        by (cases "fits k (unat b)") (auto simp: fail_before_def rd_err_def)
    next
      case False
      have "loop res s r = fail_before (too_large b) (move_on 1 r)"
        using True False Cons.prems(1) by (subst loop) (simp_all add: read_u8_cases rest)
      then have "loop res s r \<noteq> (Inr v, r')" by (simp add: fail_before_def rd_err_def)
      moreover have "\<not> ?P res s r (b # bs) tl" for bs tl
      proof
        assume P: "?P res s r (b # bs) tl"
        then have "0 < length bs" using False by (auto simp: accepts_def dest: is_leb_nonempty)
        moreover have "s + 7 * length bs < W" using P by (simp add: accepts_def)
        ultimately show False using True by linarith
      qed
      ultimately show ?thesis unfolding P_Cons by blast
    qed
  next
    case False
    then have s7: "s + 7 < W" by simp
    have "(2 :: nat) ^ (s + 7) < 2 ^ LENGTH('a)" using s7 width(2) by (simp add: power_strict_increasing)
    then have "unat res + 2 ^ s * (unat b mod 128) < 2 ^ LENGTH('a)" by (rule less_trans [OF le])
    then have val: "unat ?res = unat res + 2 ^ s * (unat b mod 128)"
      using unat_add_group [OF small_res, of "ucast (b AND 0x7F)"] group by simp
    show ?thesis
    proof (cases "unat b < 128")
      case small: True
      have T: "total res s [b] = unat ?res" "unat ?res < 2 ^ (s + 7)" using val le small by (simp_all add: value_b)
      have range: "- (2 ^ (W - 1)) \<le> signed_value (s + 7) (unat ?res) \<and> signed_value (s + 7) (unat ?res) < 2 ^ (W - 1)"
      proof -
        have "(2 :: int) ^ (s + 7 - 1) \<le> 2 ^ (W - 1)" using s7 by (intro power_increasing) auto
        moreover have "0 < s + 7" by simp
        note signed_value_range [OF this T(2)]
        ultimately show ?thesis by linarith
      qed
      then have acc: "accepts res s [b]" using small s7 by (simp add: accepts_def T(1))
      have "outcome res s [b] = word_of_int (signed_value (s + 7) (unat ?res))" using s7 by (simp add: outcome_def T(1))
      also have "\<dots> = signed_drop_bit (LENGTH('a) - (s + 7)) (push_bit (LENGTH('a) - (s + 7)) ?res)"
        using s7 width(2) T(2) by (intro sign_extended [symmetric]) auto
      finally have out: "outcome res s [b] = signed_drop_bit (LENGTH('a) - (s + 7)) (push_bit (LENGTH('a) - (s + 7)) ?res)" .
      have run: "loop res s r = (Inr (signed_drop_bit (LENGTH('a) - (s + 7)) (push_bit (LENGTH('a) - (s + 7)) ?res)), move_on 1 r)"
        using False small Cons.prems(1) by (subst loop) (simp_all add: read_u8_cases rest)
      show ?thesis unfolding P_Cons last [OF small] run out using acc by auto
    next
      case big: False
      have run: "loop res s r = loop ?res (s + 7) (move_on 1 r)"
        using False big Cons.prems(1) by (subst loop) (simp_all add: read_u8_cases rest)
      have IH: "loop ?res (s + 7) (move_on 1 r) = (Inr v, r') \<longleftrightarrow> (\<exists>bs tl. ?P ?res (s + 7) (move_on 1 r) bs tl)"
        using Cons.hyps(1) [of "move_on 1 r" "s + 7" ?res] rest val le s7 Cons.prems(1) by simp
      have T: "total ?res (s + 7) bs = total res s (b # bs)" for bs
        using val by (simp add: total_def power_add algebra_simps)
      have len: "s + 7 + 7 * length bs = s + 7 * length (b # bs)" for bs :: "byte list" by simp
      have step: "?P ?res (s + 7) (move_on 1 r) bs tl \<longleftrightarrow> ?P res s r (b # bs) tl" for bs tl
      proof -
        have "accepts ?res (s + 7) bs \<longleftrightarrow> accepts res s (b # bs)"
          unfolding accepts_def T len using big by (cases bs) (simp_all add: add.assoc)
        moreover have "outcome ?res (s + 7) bs = outcome res s (b # bs)"
          unfolding outcome_def T len ..
        ultimately show ?thesis using rest by simp
      qed
      show ?thesis unfolding P_Cons run IH step ..
    qed
  qed
qed

end

lemma sint_shifted:
  assumes "unat b < 128"
  shows "sint (push_bit 1 (b :: byte)) = (if unat b < 64 then 2 * int (unat b) else 2 * int (unat b) - 256)"
proof -
  obtain n where n: "unat b = n" by blast
  define x where "x = (if n < 64 then 2 * int n else 2 * int n - 256)"
  have "push_bit 1 b = word_of_int (2 * int (unat b))" by (simp add: push_bit_eq_mult)
  also have "\<dots> = word_of_int x"
    using word_of_int_wrap [where 'a = 8, of 8 "2 * int n"] by (simp only: n x_def) simp
  finally have "push_bit 1 b = word_of_int x" .
  from sint_in_range [OF this] show ?thesis using assms unfolding x_def n by auto
qed

lemma sign_bits:
  assumes b: "unat b < 128"
  shows "(sign_and_unused_bit k b = 0 \<or> sign_and_unused_bit k b = - 1) \<longleftrightarrow> fits k (unat b)"
proof -
  obtain n where n: "unat b = n" by blast
  then have n128: "n < 128" using b by simp
  define x where "x = (if n < 64 then 2 * int n else 2 * int n - 256)"
  have "sint (push_bit 1 b) = x" using sint_shifted [OF b] by (simp only: n x_def)
  then have sint: "sint (sign_and_unused_bit k b) = x div 2 ^ k"
    by (simp add: sign_and_unused_bit_def sint_signed_drop_bit_eq drop_bit_eq_div)
  have "sign_and_unused_bit k b = 0 \<longleftrightarrow> x div 2 ^ k = 0"
    unfolding sint [symmetric] by (metis signed_0 word_of_int_sint)
  moreover have "sign_and_unused_bit k b = - 1 \<longleftrightarrow> x div 2 ^ k = - 1"
    unfolding sint [symmetric] by (metis sint_n1 word_of_int_sint)
  moreover have "x div 2 ^ k = 0 \<longleftrightarrow> 0 \<le> x \<and> x < 2 ^ k"
  proof
    assume "x div 2 ^ k = 0"
    then have "x = x mod 2 ^ k" by (metis add_0 mult_zero_right mult_div_mod_eq)
    moreover have "0 \<le> x mod 2 ^ k" "x mod 2 ^ k < 2 ^ k" by simp_all
    ultimately show "0 \<le> x \<and> x < 2 ^ k" by simp
  next
    assume "0 \<le> x \<and> x < 2 ^ k"
    then show "x div 2 ^ k = 0" by (intro div_pos_pos_trivial) auto
  qed
  moreover have "x div 2 ^ k = - 1 \<longleftrightarrow> x < 0 \<and> - (2 ^ k) \<le> x"
  proof
    assume "x div 2 ^ k = - 1"
    then have "x = x mod 2 ^ k - 2 ^ k" using mult_div_mod_eq [of "2 ^ k" x] by simp
    moreover have "0 \<le> x mod 2 ^ k" "x mod 2 ^ k < 2 ^ k" by simp_all
    ultimately show "x < 0 \<and> - (2 ^ k) \<le> x" by linarith
  next
    assume "x < 0 \<and> - (2 ^ k) \<le> x"
    then have "(x + 2 ^ k) div 2 ^ k = 0" by (intro div_pos_pos_trivial) auto
    then show "x div 2 ^ k = - 1" by (simp add: div_add_self2)
  qed
  ultimately have "(sign_and_unused_bit k b = 0 \<or> sign_and_unused_bit k b = - 1) \<longleftrightarrow> - (2 ^ k) \<le> x \<and> x < 2 ^ k"
    by (smt (verit) zero_less_power)
  also have "\<dots> \<longleftrightarrow> fits k n"
  proof (cases "k < 8")
    case True
    then have "k \<in> {0, 1, 2, 3, 4, 5, 6, 7}" by auto
    then show ?thesis using n128 by (auto simp: x_def fits_def)
  next
    case False
    then have "(2 :: nat) ^ 8 \<le> 2 ^ k" "(2 :: int) ^ 8 \<le> 2 ^ k" by (intro power_increasing; simp)+
    then show ?thesis using n128 by (auto simp: x_def fits_def)
  qed
  finally show ?thesis unfolding n .
qed

interpretation i32: signed_loop var_i32_loop 32
  "\<lambda>b. if b AND 0x80 \<noteq> 0 then ''invalid var_i32: integer representation too long'' else ''invalid var_i32: integer too large''"
proof
  fix s :: nat and res :: "32 word" and r
  assume "7 dvd s"
  show "var_i32_loop res s r =
      (case read_u8 r of
         (Inl e, r1) \<Rightarrow> (Inl e, r1)
       | (Inr b, r1) \<Rightarrow>
           (let res1 = res OR push_bit s (ucast (b AND 0x7F))
            in if 32 - 7 \<le> s then
                 (if 128 \<le> unat b \<or> \<not> fits (32 - s) (unat b) then
                    fail_before (if b AND 0x80 \<noteq> 0 then ''invalid var_i32: integer representation too long''
                      else ''invalid var_i32: integer too large'') r1
                  else (Inr res1, r1))
               else if unat b < 128 then
                 (Inr (signed_drop_bit (LENGTH(32) - (s + 7)) (push_bit (LENGTH(32) - (s + 7)) res1)), r1)
               else var_i32_loop res1 (s + 7) r1))"
    using sign_bits [of _ "32 - s"]
    by (subst var_i32_loop.simps) (auto simp: Let_def continuation_iff split: prod.split sum.split)
qed simp_all

interpretation i64: signed_loop var_i64_loop 64
  "\<lambda>b. if b AND 0x80 \<noteq> 0 then ''invalid var_i64: integer representation too long'' else ''invalid var_i64: integer too large''"
proof
  fix s :: nat and res :: "64 word" and r
  assume "7 dvd s"
  show "var_i64_loop res s r =
      (case read_u8 r of
         (Inl e, r1) \<Rightarrow> (Inl e, r1)
       | (Inr b, r1) \<Rightarrow>
           (let res1 = res OR push_bit s (ucast (b AND 0x7F))
            in if 64 - 7 \<le> s then
                 (if 128 \<le> unat b \<or> \<not> fits (64 - s) (unat b) then
                    fail_before (if b AND 0x80 \<noteq> 0 then ''invalid var_i64: integer representation too long''
                      else ''invalid var_i64: integer too large'') r1
                  else (Inr res1, r1))
               else if unat b < 128 then
                 (Inr (signed_drop_bit (LENGTH(64) - (s + 7)) (push_bit (LENGTH(64) - (s + 7)) res1)), r1)
               else var_i64_loop res1 (s + 7) r1))"
    using sign_bits [of _ "64 - s"]
    by (subst var_i64_loop.simps) (auto simp: Let_def continuation_iff split: prod.split sum.split)
qed simp_all

interpretation s33: signed_loop var_s33_loop 33 "\<lambda>b. ''invalid var_s33: integer representation too long''"
proof
  fix s :: nat and res :: "64 word" and r
  assume "7 dvd s"
  then have limit: "33 - 7 \<le> s \<longleftrightarrow> 25 \<le> s" by presburger
  show "var_s33_loop res s r =
      (case read_u8 r of
         (Inl e, r1) \<Rightarrow> (Inl e, r1)
       | (Inr b, r1) \<Rightarrow>
           (let res1 = res OR push_bit s (ucast (b AND 0x7F))
            in if 33 - 7 \<le> s then
                 (if 128 \<le> unat b \<or> \<not> fits (33 - s) (unat b) then
                    fail_before ''invalid var_s33: integer representation too long'' r1
                  else (Inr res1, r1))
               else if unat b < 128 then
                 (Inr (signed_drop_bit (LENGTH(64) - (s + 7)) (push_bit (LENGTH(64) - (s + 7)) res1)), r1)
               else var_s33_loop res1 (s + 7) r1))"
    unfolding limit using sign_bits [of _ "33 - s"]
    by (subst var_s33_loop.simps) (auto simp: Let_def continuation_iff split: prod.split sum.split)
qed simp_all

section \<open>The readers\<close>

lemma first_group: "(0 :: 'a::len word) OR push_bit 0 w = w"
  by simp

lemma small_byte: "unat (b :: byte) < 128 \<Longrightarrow> b AND 0x7F = b"
  using low_bits [of b] by (simp add: word_unat_eq_iff)

lemma read_var_u32_loop: "read_var_u32 = var_u32_loop 0 0"
proof
  fix r
  show "read_var_u32 r = var_u32_loop 0 0 r"
    by (subst var_u32_loop.simps)
      (auto simp: read_var_u32_def read_var_u32_big_def rd_then_def rd_ok_def continuation_iff small_byte Let_def
        split: prod.split sum.split)
qed

lemma read_var_u64_loop: "read_var_u64 = var_u64_loop 0 0"
proof
  fix r
  show "read_var_u64 r = var_u64_loop 0 0 r"
    by (subst var_u64_loop.simps)
      (auto simp: read_var_u64_def read_var_u64_big_def rd_then_def rd_ok_def widened_byte small_byte Let_def
        split: prod.split sum.split)
qed

lemma read_var_i32_loop: "read_var_i32 = var_i32_loop 0 0"
proof
  fix r
  show "read_var_i32 r = var_i32_loop 0 0 r"
    by (subst var_i32_loop.simps)
      (auto simp: read_var_i32_def read_var_i32_big_def rd_then_def rd_ok_def continuation_iff small_byte Let_def
        split: prod.split sum.split)
qed

lemma s33_byte:
  assumes b: "unat (b :: byte) < 128"
  shows "signed_drop_bit 1 (scast (push_bit 1 b) :: 64 word) = signed_drop_bit 57 (push_bit 57 (ucast b))"
proof -
  have "sint (scast (push_bit 1 b) :: 64 word) = sint (push_bit 1 b)" by (simp add: sint_up_scast is_up)
  then have "sint (signed_drop_bit 1 (scast (push_bit 1 b) :: 64 word)) = signed_value 7 (unat b)"
    unfolding sint_signed_drop_bit_eq drop_bit_eq_div using sint_shifted [OF b] by (auto simp: signed_value_def)
  then have "signed_drop_bit 1 (scast (push_bit 1 b) :: 64 word) = word_of_int (signed_value 7 (unat b))"
    using word_of_int_sint by metis
  also have "\<dots> = signed_drop_bit 57 (push_bit 57 (ucast b))"
    using sign_extended [of 7 "ucast b :: 64 word"] b by (simp add: unat_wide)
  finally show ?thesis .
qed

lemma read_var_s33_loop: "read_var_s33 = var_s33_loop 0 0"
proof
  fix r
  show "read_var_s33 r = var_s33_loop 0 0 r"
    by (subst var_s33_loop.simps)
      (auto simp: read_var_s33_def rd_then_def rd_ok_def continuation_iff small_byte s33_byte [simplified] Let_def
        split: prod.split sum.split)
qed

lemma groups: "0 < n \<Longrightarrow> 7 * (n - 1) < 32 \<longleftrightarrow> n \<le> 5" "0 < n \<Longrightarrow> 7 * (n - 1) < 33 \<longleftrightarrow> n \<le> 5"
  "0 < n \<Longrightarrow> 7 * (n - 1) < 64 \<longleftrightarrow> n \<le> 10" for n :: nat
  by auto

lemma read_var_u32_iff:
  "read_var_u32 r = (Inr v, r') \<longleftrightarrow> (\<exists>bs tl. remaining_buffer r = bs @ tl \<and> is_leb bs \<and> length bs \<le> 5
     \<and> leb bs < 2 ^ 32 \<and> unat v = leb bs \<and> r' = move_on (length bs) r)"
  unfolding read_var_u32_loop by (subst u32.loop_iff) (auto simp: groups dest: is_leb_nonempty)

lemma read_var_u64_iff:
  "read_var_u64 r = (Inr v, r') \<longleftrightarrow> (\<exists>bs tl. remaining_buffer r = bs @ tl \<and> is_leb bs \<and> length bs \<le> 10
     \<and> leb bs < 2 ^ 64 \<and> unat v = leb bs \<and> r' = move_on (length bs) r)"
  unfolding read_var_u64_loop by (subst u64.loop_iff) (auto simp: groups dest: is_leb_nonempty)

lemma signed_outcome:
  fixes v :: "'a::len word"
  assumes n: "n = 7 * length bs" and range: "- (2 ^ (LENGTH('a) - 1)) \<le> sleb bs" "sleb bs < 2 ^ (LENGTH('a) - 1)"
  shows "v = (if n < LENGTH('a) then word_of_int (signed_value n (leb bs)) else word_of_nat (leb bs)) \<longleftrightarrow> sint v = sleb bs"
proof -
  have "(if n < LENGTH('a) then word_of_int (signed_value n (leb bs)) else word_of_nat (leb bs)) = (word_of_int (sleb bs) :: 'a word)"
  proof (cases "n < LENGTH('a)")
    case False
    then have "(word_of_int (int (leb bs) - 2 ^ n) :: 'a word) = word_of_int (int (leb bs))" by (intro word_of_int_wrap) simp
    then show ?thesis using False by (simp add: sleb_value signed_value_def n)
  qed (simp add: sleb_value n)
  then show ?thesis using sint_in_range [OF _ range] word_of_int_sint by metis
qed

lemma read_var_i32_iff:
  "read_var_i32 r = (Inr v, r') \<longleftrightarrow> (\<exists>bs tl. remaining_buffer r = bs @ tl \<and> is_leb bs \<and> length bs \<le> 5
     \<and> - (2 ^ 31) \<le> sleb bs \<and> sleb bs < 2 ^ 31 \<and> sint v = sleb bs \<and> r' = move_on (length bs) r)"
proof -
  have "i32.accepts 0 0 bs \<longleftrightarrow> is_leb bs \<and> length bs \<le> 5 \<and> - (2 ^ 31) \<le> sleb bs \<and> sleb bs < 2 ^ 31" for bs
    by (auto simp: i32.accepts_def i32.total_def sleb_value groups dest: is_leb_nonempty)
  moreover have "v = i32.outcome 0 0 bs \<longleftrightarrow> sint v = sleb bs" if "- (2 ^ 31) \<le> sleb bs" "sleb bs < 2 ^ 31" for bs
    using signed_outcome [where 'a = 32, OF refl, of bs v] that
    by (cases "7 * length bs < 32") (simp_all add: i32.outcome_def i32.total_def)
  ultimately show ?thesis unfolding read_var_i32_loop by (subst i32.loop_iff) auto
qed

lemma read_var_i64_iff:
  "read_var_i64 r = (Inr v, r') \<longleftrightarrow> (\<exists>bs tl. remaining_buffer r = bs @ tl \<and> is_leb bs \<and> length bs \<le> 10
     \<and> - (2 ^ 63) \<le> sleb bs \<and> sleb bs < 2 ^ 63 \<and> sint v = sleb bs \<and> r' = move_on (length bs) r)"
proof -
  have "i64.accepts 0 0 bs \<longleftrightarrow> is_leb bs \<and> length bs \<le> 10 \<and> - (2 ^ 63) \<le> sleb bs \<and> sleb bs < 2 ^ 63" for bs
    by (auto simp: i64.accepts_def i64.total_def sleb_value groups dest: is_leb_nonempty)
  moreover have "v = i64.outcome 0 0 bs \<longleftrightarrow> sint v = sleb bs" if "- (2 ^ 63) \<le> sleb bs" "sleb bs < 2 ^ 63" for bs
    using signed_outcome [where 'a = 64, OF refl, of bs v] that
    by (cases "7 * length bs < 64") (simp_all add: i64.outcome_def i64.total_def)
  ultimately show ?thesis unfolding read_var_i64_def by (subst i64.loop_iff) auto
qed

lemma read_var_s33_iff:
  "read_var_s33 r = (Inr v, r') \<longleftrightarrow> (\<exists>bs tl. remaining_buffer r = bs @ tl \<and> is_leb bs \<and> length bs \<le> 5
     \<and> - (2 ^ 32) \<le> sleb bs \<and> sleb bs < 2 ^ 32
     \<and> sint v = (if length bs < 5 then sleb bs else int (leb bs)) \<and> r' = move_on (length bs) r)"
proof -
  have acc: "s33.accepts 0 0 bs \<longleftrightarrow> is_leb bs \<and> length bs \<le> 5 \<and> - (2 ^ 32) \<le> sleb bs \<and> sleb bs < 2 ^ 32" for bs
    by (auto simp: s33.accepts_def s33.total_def sleb_value groups dest: is_leb_nonempty)
  have out: "v = s33.outcome 0 0 bs \<longleftrightarrow> sint v = (if length bs < 5 then sleb bs else int (leb bs))"
    if "- (2 ^ 32) \<le> sleb bs" "sleb bs < 2 ^ 32" "length bs \<le> 5" for bs
  proof -
    define x where "x = (if length bs < 5 then sleb bs else int (leb bs))"
    have "leb bs < 128 ^ length bs" by (rule leb_bound)
    also have "(128 :: nat) ^ length bs \<le> 128 ^ 5" using that(3) by (intro power_increasing) auto
    finally have range: "- (2 ^ (LENGTH(64) - 1)) \<le> x" "x < 2 ^ (LENGTH(64) - 1)" using that by (simp_all add: x_def)
    have "s33.outcome 0 0 bs = word_of_int x" by (simp add: s33.outcome_def s33.total_def x_def sleb_value)
    then show ?thesis unfolding x_def [symmetric] using sint_in_range [OF _ range, of v] word_of_int_sint [of v] by metis
  qed
  have "var_s33_loop 0 0 r = (Inr v, r') \<longleftrightarrow>
      (\<exists>bs tl. remaining_buffer r = bs @ tl \<and> s33.accepts 0 0 bs \<and> v = s33.outcome 0 0 bs \<and> r' = move_on (length bs) r)"
    by (rule s33.loop_iff) simp_all
  then show ?thesis unfolding read_var_s33_loop using acc out by blast
qed

section \<open>Encoding\<close>

function unsigned_leb :: "nat \<Rightarrow> byte list" where
  "unsigned_leb n = (if n < 128 then [word_of_nat n] else word_of_nat (128 + n mod 128) # unsigned_leb (n div 128))"
  by pat_completeness auto
termination unsigned_leb by (relation "measure id") auto

function signed_leb :: "int \<Rightarrow> byte list" where
  "signed_leb i =
     (if - 64 \<le> i \<and> i < 64 then [word_of_int (i mod 128)] else word_of_int (128 + i mod 128) # signed_leb (i div 128))"
  by pat_completeness auto
termination signed_leb by (relation "measure (\<lambda>i. nat \<bar>i\<bar>)") auto

declare unsigned_leb.simps [simp del] signed_leb.simps [simp del]

lemma unat_byte: "n < 256 \<Longrightarrow> unat (word_of_nat n :: byte) = n"
  by (simp add: unsigned_of_nat take_bit_nat_eq_self)

lemma unsigned_leb: "is_leb (unsigned_leb n) \<and> leb (unsigned_leb n) = n"
proof (induction n rule: unsigned_leb.induct)
  case (1 n)
  show ?case
  proof (cases "n < 128")
    case True
    then show ?thesis by (simp add: unsigned_leb.simps [of n] unat_byte)
  next
    case False
    have "unat (word_of_nat (128 + n mod 128) :: byte) = 128 + n mod 128" by (rule unat_byte) simp
    then show ?thesis using 1 [OF False] False by (subst (1 2) unsigned_leb.simps) (simp del: of_nat_add)
  qed
qed

lemma unsigned_leb_length: "0 < k \<Longrightarrow> n < 128 ^ k \<Longrightarrow> length (unsigned_leb n) \<le> k"
proof (induction k arbitrary: n)
  case (Suc k)
  show ?case
  proof (cases "n < 128")
    case False
    then have "0 < k" using Suc.prems by (cases k) auto
    moreover have "n div 128 < 128 ^ k" using Suc.prems(2) by (simp add: div_less_iff_less_mult mult.commute)
    ultimately show ?thesis using Suc.IH False by (subst unsigned_leb.simps) simp
  qed (subst unsigned_leb.simps, simp)
qed simp

lemma unsigned_leb_shortest: "is_leb bs \<Longrightarrow> length (unsigned_leb (leb bs)) \<le> length bs"
  using unsigned_leb_length [OF is_leb_nonempty leb_bound] .

lemma sleb_Cons:
  assumes "bs \<noteq> []"
  shows "sleb (b # bs) = int (unat b mod 128) + 128 * sleb bs"
proof -
  obtain q :: nat where q: "128 ^ length bs = 2 * q" using assms by (cases bs) (auto intro: that [of "64 * 128 ^ (length bs - 1)"])
  have split: "2 * (m + 128 * l) < 128 * (2 * q) \<longleftrightarrow> l < q" if "m < 128" for m l :: nat
  proof
    assume "l < q"
    then have "128 * (l + 1) \<le> 128 * q" by (intro mult_le_mono2) simp
    with that have "m + 128 * l < 128 * q" by simp
    then show "2 * (m + 128 * l) < 128 * (2 * q)" by simp
  next
    assume "2 * (m + 128 * l) < 128 * (2 * q)"
    then have "128 * l < 128 * q" by simp
    then show "l < q" by simp
  qed
  have "unat b mod 128 < 128" by simp
  from split [OF this] have "2 * leb (b # bs) < 128 ^ length (b # bs) \<longleftrightarrow> 2 * leb bs < 128 ^ length bs"
    by (simp only: leb.simps length_Cons power_Suc q mult_less_cancel1) simp
  then show ?thesis unfolding sleb_def by simp
qed

lemma signed_leb: "is_leb (signed_leb i) \<and> sleb (signed_leb i) = i"
proof (induction i rule: signed_leb.induct)
  case (1 i)
  have byte: "unat (word_of_int j :: byte) = nat j" if "0 \<le> j" "j < 256" for j
  proof -
    have "word_of_int j = (word_of_nat (nat j) :: byte)" using that(1) by simp
    then show ?thesis using unat_byte [of "nat j"] that by (simp only: nat_less_iff)
  qed
  have mod_range: "0 \<le> i mod 128" "i mod 128 < 128" by simp_all
  show ?case
  proof (cases "- 64 \<le> i \<and> i < 64")
    case True
    then have "signed_leb i = [word_of_int (i mod 128)]" by (subst signed_leb.simps) simp
    moreover have "i mod 128 = (if 0 \<le> i then i else i + 128)" using True by presburger
    ultimately show ?thesis using True mod_range byte [of "i mod 128"] by (auto simp: sleb_def)
  next
    case False
    let ?b = "word_of_int (128 + i mod 128) :: byte"
    have step: "signed_leb i = ?b # signed_leb (i div 128)" using False by (subst signed_leb.simps) auto
    have b: "unat ?b = 128 + nat (i mod 128)" using mod_range byte [of "128 + i mod 128"] by (simp add: nat_add_distrib)
    have low: "(128 + nat (i mod 128)) mod 128 = nat (i mod 128)" using mod_range(2) by simp
    have "signed_leb (i div 128) \<noteq> []" using 1 [OF False] by auto
    then have "sleb (signed_leb i) = int (nat (i mod 128)) + 128 * (i div 128)"
      using 1 [OF False] by (simp add: step sleb_Cons b low del: of_int_add)
    also have "\<dots> = i" using mod_range(1) by simp
    finally show ?thesis using 1 [OF False] b by (simp add: step del: of_int_add)
  qed
qed

lemma signed_leb_length:
  "0 < k \<Longrightarrow> - (64 * 128 ^ (k - 1)) \<le> i \<Longrightarrow> i < 64 * 128 ^ (k - 1) \<Longrightarrow> length (signed_leb i) \<le> k"
proof (induction k arbitrary: i)
  case (Suc k)
  show ?case
  proof (cases "- 64 \<le> i \<and> i < 64")
    case False
    then have k: "0 < k" using Suc.prems by (cases k) auto
    define x :: int where "x = 64 * 128 ^ (k - 1)"
    have "64 * 128 ^ (Suc k - 1) = 128 * x" using k by (cases k) (simp_all add: x_def)
    then have "- (128 * x) \<le> i" "i < 128 * x" using Suc.prems(2,3) by simp_all
    moreover have "i = 128 * (i div 128) + i mod 128" "0 \<le> i mod 128" "i mod 128 < 128" by simp_all
    ultimately have "- x \<le> i div 128" "i div 128 < x" by linarith+
    then have "- (64 * 128 ^ (k - 1)) \<le> i div 128" "i div 128 < 64 * 128 ^ (k - 1)" unfolding x_def .
    from Suc.IH [OF k this] show ?thesis using False by (subst signed_leb.simps) auto
  qed (subst signed_leb.simps, auto)
qed simp

end
