(* ===== verification/ReaderFacts.thy ===== *)
theory ReaderFacts
  imports LebFacts
begin

text \<open>
  How reading moves: a steady reading goes forward over the buffer it has and stays in it, whether it succeeds or
  fails; a consuming reading that succeeds has gone at least one byte. The locale \<open>byte_loop\<close> is
  the contract of the loops over bytes. Every reading of the reader is steady.
\<close>

named_theorems steadiness and consumption

definition steady :: "'a reading \<Rightarrow> bool" where
  "steady m \<longleftrightarrow> (\<forall>r. \<exists>k. snd (m r) = move_on k r \<and> (k = 0 \<or> br_position r + k \<le> length (br_buffer r)))"

definition consuming :: "'a reading \<Rightarrow> bool" where
  "consuming m \<longleftrightarrow> (\<forall>r x. fst (m r) = Inr x \<longrightarrow> br_position r < br_position (snd (m r)))"

lemma move_on_simps [simp]:
  "br_position (move_on k r) = br_position r + k"
  "br_buffer (move_on k r) = br_buffer r"
  "br_original_offset (move_on k r) = br_original_offset r"
  "br_features (move_on k r) = br_features r"
  by (simp_all add: move_on_def)

lemma steadyI: "(\<And>r. \<exists>k. snd (m r) = move_on k r \<and> (k = 0 \<or> br_position r + k \<le> length (br_buffer r))) \<Longrightarrow> steady m"
  by (simp add: steady_def)

lemma steadyD: "steady m \<Longrightarrow> \<exists>k. snd (m r) = move_on k r \<and> (k = 0 \<or> br_position r + k \<le> length (br_buffer r))"
  by (simp add: steady_def)

lemma stays: "snd (m r) = r \<Longrightarrow> \<exists>k. snd (m r) = move_on k r \<and> (k = 0 \<or> br_position r + k \<le> length (br_buffer r))"
  by (rule exI [of _ 0]) simp

lemma steady_trans:
  assumes "r1 = move_on k r" "k = 0 \<or> br_position r + k \<le> length (br_buffer r)"
    and "r2 = move_on k' r1" "k' = 0 \<or> br_position r1 + k' \<le> length (br_buffer r1)"
  shows "\<exists>k. r2 = move_on k r \<and> (k = 0 \<or> br_position r + k \<le> length (br_buffer r))"
  using assms by (intro exI [of _ "k + k'"]) auto

lemma steady_keeps:
  assumes "steady m"
  shows "br_buffer (snd (m r)) = br_buffer r" "br_position r \<le> br_position (snd (m r))"
    "br_original_offset (snd (m r)) = br_original_offset r" "br_features (snd (m r)) = br_features r"
    "br_position r \<le> length (br_buffer r) \<Longrightarrow> br_position (snd (m r)) \<le> length (br_buffer r)"
  using steadyD [OF assms, of r] by auto

section \<open>Putting readings together\<close>

lemma steady_ok [steadiness]: "steady (rd_ok x)"
  by (intro steadyI stays) (simp add: rd_ok_def)

lemma steady_err [steadiness]: "steady (rd_err e)"
  by (intro steadyI stays) (simp add: rd_err_def)

lemma steady_fail_before [steadiness]: "steady (fail_before message)"
  by (simp add: fail_before_def steady_err)

lemma steady_invalid [steadiness]: "steady (invalid_leading_byte b desc)"
  by (simp add: invalid_leading_byte_def steady_err)

lemma steady_then [steadiness]:
  assumes "steady m" "\<And>x. steady (f x)"
  shows "steady (rd_then m f)"
proof (rule steadyI)
  fix r
  obtain k where k: "snd (m r) = move_on k r" "k = 0 \<or> br_position r + k \<le> length (br_buffer r)"
    using steadyD [OF assms(1)] by blast
  show "\<exists>k. snd (rd_then m f r) = move_on k r \<and> (k = 0 \<or> br_position r + k \<le> length (br_buffer r))"
  proof (cases "m r")
    case (Pair res r1)
    show ?thesis
    proof (cases res)
      case (Inl e)
      then show ?thesis using k Pair by (auto simp: rd_then_def)
    next
      case (Inr x)
      obtain k' where "snd (f x r1) = move_on k' r1" "k' = 0 \<or> br_position r1 + k' \<le> length (br_buffer r1)"
        using steadyD [OF assms(2)] by blast
      then show ?thesis using steady_trans [of r1 k r "snd (f x r1)" k'] k Pair Inr by (simp add: rd_then_def)
    qed
  qed
qed

lemma steady_if [steadiness]: "steady m \<Longrightarrow> steady n \<Longrightarrow> steady (if c then m else n)"
  by simp

lemma then_ok_iff: "fst (rd_then m f r) = Inr y \<longleftrightarrow> (\<exists>x. fst (m r) = Inr x \<and> fst (f x (snd (m r))) = Inr y)"
  by (cases "m r"; cases "fst (m r)") (auto simp: rd_then_def)

lemma then_ok_reader: "fst (m r) = Inr x \<Longrightarrow> snd (rd_then m f r) = snd (f x (snd (m r)))"
  by (cases "m r") (auto simp: rd_then_def)

lemma consuming_first [consumption]:
  assumes "consuming m" "\<And>x. steady (f x)"
  shows "consuming (rd_then m f)"
  unfolding consuming_def
proof (intro allI impI)
  fix r y
  assume "fst (rd_then m f r) = Inr y"
  then obtain x where x: "fst (m r) = Inr x" unfolding then_ok_iff by blast
  then have "br_position r < br_position (snd (m r))" using assms(1) unfolding consuming_def by blast
  also have "\<dots> \<le> br_position (snd (f x (snd (m r))))" by (rule steady_keeps(2) [OF assms(2)])
  finally show "br_position r < br_position (snd (rd_then m f r))" using x by (simp add: then_ok_reader)
qed

lemma consuming_second:
  assumes "steady m" "\<And>x. consuming (f x)"
  shows "consuming (rd_then m f)"
  unfolding consuming_def
proof (intro allI impI)
  fix r y
  assume "fst (rd_then m f r) = Inr y"
  then obtain x where x: "fst (m r) = Inr x" "fst (f x (snd (m r))) = Inr y" unfolding then_ok_iff by blast
  have "br_position r \<le> br_position (snd (m r))" by (rule steady_keeps(2) [OF assms(1)])
  also have "\<dots> < br_position (snd (f x (snd (m r))))" using assms(2) x(2) unfolding consuming_def by blast
  finally show "br_position r < br_position (snd (rd_then m f r))" using x(1) by (simp add: then_ok_reader)
qed

section \<open>Bytes\<close>

lemma steady_read_u8 [steadiness]: "steady read_u8"
  by (rule steadyI) (auto simp: read_u8_def intro: exI [of _ 0] exI [of _ 1])

lemma consuming_read_u8 [consumption]: "consuming read_u8"
  by (simp add: consuming_def read_u8_def)

lemma read_u8_moves: "read_u8 r = (Inr b, r1) \<longleftrightarrow> br_position r < length (br_buffer r) \<and> b = br_buffer r ! br_position r \<and> r1 = move_on 1 r"
  by (auto simp: read_u8_def)

lemma steady_ensure [steadiness]: "steady ensure_has_byte" "steady (ensure_has_bytes n)"
  by (intro steadyI stays; simp add: ensure_has_byte_def ensure_has_bytes_def)+

lemma steady_peek [steadiness]: "steady peek"
  by (intro steadyI stays) (simp add: peek_def rd_then_def ensure_has_byte_def)

lemma steady_read_bytes [steadiness]: "steady (read_bytes n)"
  by (rule steadyI) (auto simp: read_bytes_def rd_then_def ensure_has_bytes_def intro: exI [of _ 0] exI [of _ n])

lemma steady_fixed [steadiness]:
  "steady read_u32" "steady read_u64" "steady read_f32" "steady read_f64" "steady read_v128" "steady read_u7"
  "steady (read_lane_index limit)" "steady zero_byte"
  unfolding read_u32_def read_u64_def read_f32_def read_f64_def read_v128_def read_u7_def read_lane_index_def zero_byte_def
  by (intro steadiness)+

section \<open>Loops over bytes\<close>

locale byte_loop =
  fixes loop :: "'w \<Rightarrow> nat \<Rightarrow> 'w reading"
  assumes step: "snd (loop w s r) = snd (read_u8 r) \<or>
    (\<exists>b w1 s1. fst (read_u8 r) = Inr b \<and> snd (loop w s r) = snd (loop w1 s1 (snd (read_u8 r))))"
begin

lemma steady_byte_loop: "steady (loop w s)"
proof (rule steadyI)
  fix r
  show "\<exists>k. snd (loop w s r) = move_on k r \<and> (k = 0 \<or> br_position r + k \<le> length (br_buffer r))"
  proof (induction "bytes_remaining r" arbitrary: w s r rule: less_induct)
    case less
    show ?case
    proof (cases "snd (loop w s r) = snd (read_u8 r)")
      case True
      then show ?thesis using steadyD [OF steady_read_u8] by simp
    next
      case False
      then obtain b w1 s1 where more: "fst (read_u8 r) = Inr b" "snd (loop w s r) = snd (loop w1 s1 (snd (read_u8 r)))"
        using step [of w s r] by blast
      then have r1: "br_position r < length (br_buffer r)" "snd (read_u8 r) = move_on 1 r"
        by (simp_all add: read_u8_def split: if_splits)
      then have "bytes_remaining (move_on 1 r) < bytes_remaining r" by (simp add: bytes_remaining_def)
      then obtain k where k: "snd (loop w1 s1 (move_on 1 r)) = move_on k (move_on 1 r)"
        "k = 0 \<or> br_position (move_on 1 r) + k \<le> length (br_buffer (move_on 1 r))" using less by blast
      show ?thesis unfolding more(2) r1(2) by (rule steady_trans [OF refl _ k]) (use r1(1) in simp)
    qed
  qed
qed

end

interpretation u32_bytes: byte_loop var_u32_loop
  by unfold_locales (subst (1 2) var_u32_loop.simps,
    fastforce simp: fail_before_def rd_err_def Let_def split: prod.split sum.split)

interpretation u64_bytes: byte_loop var_u64_loop
  by unfold_locales (subst (1 2) var_u64_loop.simps,
    fastforce simp: fail_before_def rd_err_def Let_def split: prod.split sum.split)

interpretation i32_bytes: byte_loop var_i32_loop
  by unfold_locales (subst (1 2) var_i32_loop.simps,
    fastforce simp: fail_before_def rd_err_def Let_def split: prod.split sum.split)

interpretation s33_bytes: byte_loop var_s33_loop
  by unfold_locales (subst (1 2) var_s33_loop.simps,
    fastforce simp: fail_before_def rd_err_def Let_def split: prod.split sum.split)

interpretation i64_bytes: byte_loop var_i64_loop
  by unfold_locales (subst (1 2) var_i64_loop.simps,
    fastforce simp: fail_before_def rd_err_def Let_def split: prod.split sum.split)

lemma steady_var [steadiness]:
  "steady read_var_u32" "steady read_var_u64" "steady read_var_i32" "steady read_var_s33" "steady read_var_i64"
  by (simp_all add: read_var_u32_loop read_var_u64_loop read_var_i32_loop read_var_s33_loop read_var_i64_def
    u32_bytes.steady_byte_loop u64_bytes.steady_byte_loop i32_bytes.steady_byte_loop s33_bytes.steady_byte_loop
    i64_bytes.steady_byte_loop)

lemma consuming_var_u32 [consumption]: "consuming read_var_u32"
  unfolding consuming_def
proof (intro allI impI)
  fix r and x :: "32 word"
  assume "fst (read_var_u32 r) = Inr x"
  then have "read_var_u32 r = (Inr x, snd (read_var_u32 r))" by (simp add: prod_eq_iff)
  then obtain bs where "is_leb bs" "snd (read_var_u32 r) = move_on (length bs) r" unfolding read_var_u32_iff by blast
  then show "br_position r < br_position (snd (read_var_u32 r))" using is_leb_nonempty [of bs] by simp
qed

section \<open>Sizes, strings and parts\<close>

lemma steady_eta: "steady (\<lambda>r. m r) \<Longrightarrow> steady m"
  by simp

lemma steady_read_size [steadiness]: "steady (read_size limit desc)"
proof (rule steadyI)
  fix r
  have "steady (rd_then read_var_u32 (\<lambda>size. if limit < unat size then rd_err (\<lambda>_. error_new (desc @ '' size is out of bounds'') (original_position r))
      else rd_ok (unat size)))"
    by (intro steadiness)
  from steadyD [OF this] show "\<exists>k. snd (read_size limit desc r) = move_on k r \<and> (k = 0 \<or> br_position r + k \<le> length (br_buffer r))"
    by (simp only: read_size_def)
qed

lemma steady_skip [steadiness]:
  assumes "steady f"
  shows "steady (skip f)"
proof (rule steadyI)
  fix r
  show "\<exists>k. snd (skip f r) = move_on k r \<and> (k = 0 \<or> br_position r + k \<le> length (br_buffer r))"
    using steadyD [OF assms, of r] by (cases "f r"; cases "fst (f r)") (auto simp: skip_def rd_then_def)
qed

lemma steady_advance:
  "steady (rd_then (ensure_has_bytes n) (\<lambda>_ r. (Inr (), move_on n r)))"
  by (rule steadyI) (auto simp: rd_then_def ensure_has_bytes_def intro: exI [of _ 0] exI [of _ n])

lemma steady_utf8 [steadiness]:
  "steady (case from_utf8 bs of Some s \<Rightarrow> rd_ok s | None \<Rightarrow> fail_before msg)"
  by (simp add: steadiness split: option.split)

lemma steady_strings [steadiness]:
  "steady read_reader" "steady skip_string" "steady (internal_read_string len)" "steady read_string"
  "steady read_unlimited_string"
  unfolding read_reader_def skip_string_def internal_read_string_def read_string_def read_unlimited_string_def
  by (intro steadiness steady_advance)+

lemma steady_indices [steadiness]:
  "steady read_memory_index_or_zero_if_not_multi_memory" "steady read_table_index_or_zero_if_not_reference_types"
  by (rule steadyI, use steadyD [OF steady_var(1)] steadyD [OF steady_fixed(8)] in
    \<open>simp add: read_memory_index_or_zero_if_not_multi_memory_def read_table_index_or_zero_if_not_reference_types_def\<close>)+

lemma steady_collect_items:
  assumes "steady item"
  shows "\<exists>k. it_reader (snd (collect_items item it)) = move_on k (it_reader it)
    \<and> (k = 0 \<or> br_position (it_reader it) + k \<le> length (br_buffer (it_reader it)))"
proof (induction "it_remaining it" arbitrary: it)
  case 0
  then show ?case by (subst collect_items.simps) (auto simp: iter_next_def intro: exI [of _ 0])
next
  case (Suc n)
  obtain k where k: "snd (item (it_reader it)) = move_on k (it_reader it)"
    "k = 0 \<or> br_position (it_reader it) + k \<le> length (br_buffer (it_reader it))"
    using steadyD [OF assms] by blast
  show ?case
  proof (cases "item (it_reader it)")
    case (Pair res r1)
    show ?thesis
    proof (cases res)
      case (Inl e)
      then show ?thesis using k Pair Suc.hyps(2) by (subst collect_items.simps) (auto simp: iter_next_def)
    next
      case (Inr x)
      let ?it1 = "\<lparr>it_remaining = n, it_reader = r1\<rparr>"
      obtain k' where "it_reader (snd (collect_items item ?it1)) = move_on k' (it_reader ?it1)"
        "k' = 0 \<or> br_position (it_reader ?it1) + k' \<le> length (br_buffer (it_reader ?it1))"
        using Suc.hyps(1) [of ?it1] by auto
      then have "\<exists>k. it_reader (snd (collect_items item ?it1)) = move_on k (it_reader it)
          \<and> (k = 0 \<or> br_position (it_reader it) + k \<le> length (br_buffer (it_reader it)))"
        using k Pair by (intro steady_trans [of r1]) auto
      moreover have "snd (collect_items item it) = snd (collect_items item ?it1)"
        using Pair Inr Suc.hyps(2) [symmetric]
        by (subst collect_items.simps) (simp add: iter_next_def split: prod.split sum.split)
      ultimately show ?thesis by simp
    qed
  qed
qed

lemma steady_read_iter [steadiness]: "steady item \<Longrightarrow> steady (read_iter limit desc item)"
  unfolding read_iter_def
proof (intro steady_then steady_read_size)
  fix size
  assume item: "steady item"
  show "steady (\<lambda>r. case collect_items item \<lparr>it_remaining = size, it_reader = r\<rparr> of (res, it) \<Rightarrow> (res, it_reader it))"
    using steady_collect_items [OF item, of "\<lparr>it_remaining = size, it_reader = _\<rparr>"]
    by (intro steadyI) (simp add: split_beta)
qed

lemma steady_skip_var_u32s [steadiness]: "steady (skip_var_u32s n)"
  by (induction n) (auto intro: steadiness)

lemma steady_read_br_table [steadiness]: "steady read_br_table"
  unfolding read_br_table_def by (intro steadiness)

lemma steady_header [steadiness]: "steady read_header_version"
  unfolding read_header_version_def by (intro steadiness)

end
