(* ===== verification/ValueReader.thy ===== *)
theory ValueReader
  imports ReaderFacts WasmModules
begin

text \<open>
  Reading of types and of the immediates of operators (\<open>readers/core/types.rs\<close>,
  \<open>readers/core/operators.rs\<close> and the private readers of \<open>binary_reader.rs\<close>): reference and value
  types, where the readers reclassify the errors of the reading they rest on, block types, memory
  arguments, branch tables as the sequence of their targets. An immediate that is read and then
  not part of the operator's data in the model is forgotten.
\<close>

section \<open>Combinations\<close>

definition rd_map :: "('a \<Rightarrow> 'b) \<Rightarrow> 'a reading \<Rightarrow> 'b reading" where
  "rd_map f m = rd_then m (\<lambda>x. rd_ok (f x))"

definition rd_map2 :: "('a \<Rightarrow> 'b \<Rightarrow> 'c) \<Rightarrow> 'a reading \<Rightarrow> 'b reading \<Rightarrow> 'c reading" where
  "rd_map2 f m n = rd_then m (\<lambda>x. rd_then n (\<lambda>y. rd_ok (f x y)))"

definition forget :: "'a reading \<Rightarrow> unit reading" where
  "forget m = rd_map (\<lambda>_. ()) m"

fun each_in_turn :: "unit reading list \<Rightarrow> unit reading" where
  "each_in_turn [] = rd_ok ()"
| "each_in_turn (m # ms) = rd_then m (\<lambda>_. each_in_turn ms)"

definition bail :: "nat \<Rightarrow> string \<Rightarrow> 'a reading" where
  "bail offset message = rd_err (\<lambda>_. error_new message offset)"

text \<open>An error after the reading, where the reader is then.\<close>

definition fail_here :: "string \<Rightarrow> 'a reading" where
  "fail_here message = rd_err (\<lambda>r. error_new message (original_position r))"

text \<open>\<open>map_err\<close> with \<open>set_message\<close> on the errors of kind \<open>Invalid\<close>.\<close>

definition reclassify :: "string \<Rightarrow> 'a reading \<Rightarrow> 'a reading" where
  "reclassify message m r =
     (case m r of
        (Inl e, r1) \<Rightarrow> (Inl (if re_kind e = Invalid then e\<lparr>re_message := message\<rparr> else e), r1)
      | (Inr x, r1) \<Rightarrow> (Inr x, r1))"

definition read_index :: "nat reading" where
  "read_index = rd_map unat read_var_u32"

text \<open>\<open>u32::try_from\<close> of a signed integer.\<close>

definition u32_try_from :: "64 word \<Rightarrow> nat option" where
  "u32_try_from s = (if 0 \<le> sint s \<and> sint s < 2 ^ 32 then Some (nat (sint s)) else None)"

section \<open>Types\<close>

text \<open>A packed index has twenty bits.\<close>

definition from_module_index :: "nat \<Rightarrow> unpacked_index option" where
  "from_module_index index = (if index < 2 ^ 20 then Some (Module_index index) else None)"

definition read_abstract_heap_type :: "abstract_heap_type reading" where
  "read_abstract_heap_type =
     rd_then read_u8 (\<lambda>b.
       case map_of
         [(0x70, Heap_Func), (0x6F, Heap_Extern), (0x6E, Heap_Any), (0x71, Heap_None), (0x72, Heap_NoExtern),
          (0x73, Heap_NoFunc), (0x6D, Heap_Eq), (0x6B, Heap_Struct), (0x6A, Heap_Array), (0x6C, Heap_I31),
          (0x69, Heap_Exn), (0x74, Heap_NoExn), (0x68, Heap_Cont), (0x75, Heap_NoCont)] (unat b) of
         Some ty \<Rightarrow> rd_ok ty
       | None \<Rightarrow> rd_err (\<lambda>r. error_invalid ''invalid abstract heap type'' (original_position r - 1)))"

text \<open>
  The integer is read on a clone of the reader; a negative one is read again as an abstract type.
\<close>

definition read_heap_type :: "heap_type reading" where
  "read_heap_type r =
     (case read_var_s33 r of
        (Inl e, _) \<Rightarrow> (Inl e, r)
      | (Inr s33, clone) \<Rightarrow>
          (case u32_try_from s33 of
             Some idx \<Rightarrow>
               (case from_module_index idx of
                  Some i \<Rightarrow> rd_ok (Concrete i)
                | None \<Rightarrow> fail_here ''type index greater than implementation limits'') clone
           | None \<Rightarrow>
               rd_then peek (\<lambda>b.
                 if b = 0x65 then rd_then read_u8 (\<lambda>_. rd_map (Abstract True) read_abstract_heap_type)
                 else rd_map (Abstract False) (reclassify ''invalid heap type'' read_abstract_heap_type)) r))"

definition ref_type_new :: "bool \<Rightarrow> heap_type \<Rightarrow> ref_type option" where
  "ref_type_new nullable heap_type =
     (case heap_type of
        Concrete (Module_index i) \<Rightarrow>
          (if i < 2 ^ 20 then Some \<lparr>rt_nullable = nullable, rt_heap_type = heap_type\<rparr> else None)
      | Concrete (RecGroup_index i) \<Rightarrow>
          (if i < 2 ^ 20 then Some \<lparr>rt_nullable = nullable, rt_heap_type = heap_type\<rparr> else None)
      | Abstract shared ty \<Rightarrow> Some \<lparr>rt_nullable = nullable, rt_heap_type = heap_type\<rparr>)"

definition ok_or_too_large :: "nat \<Rightarrow> ref_type option \<Rightarrow> ref_type reading" where
  "ok_or_too_large pos t = (case t of Some rt \<Rightarrow> rd_ok rt | None \<Rightarrow> bail pos ''type index too large'')"

definition read_ref_type :: "ref_type reading" where
  "read_ref_type r =
     rd_then peek (\<lambda>b.
       if b = 0x63 \<or> b = 0x64 then
         rd_then read_u8 (\<lambda>b1. rd_then read_heap_type (\<lambda>hty.
           ok_or_too_large (original_position r) (ref_type_new (b1 = 0x63) hty)))
       else
         rd_then (reclassify ''malformed reference type'' read_heap_type) (\<lambda>hty.
           ok_or_too_large (original_position r) (ref_type_new True hty))) r"

definition read_val_type :: "val_type reading" where
  "read_val_type =
     rd_then peek (\<lambda>b.
       case map_of [(0x7F, I32), (0x7E, I64), (0x7D, F32), (0x7C, F64), (0x7B, V128)] (unat b) of
         Some ty \<Rightarrow> rd_then read_u8 (\<lambda>_. rd_ok ty)
       | None \<Rightarrow> rd_map Ref (reclassify ''invalid value type'' read_ref_type))"

definition read_block_type :: "wasm_block_type reading" where
  "read_block_type =
     rd_then peek (\<lambda>b.
       if b AND 0x80 = 0 \<and> b AND 0x40 \<noteq> 0 then
         (if b = 0x40 then rd_then read_u8 (\<lambda>_. rd_ok Empty_type) else rd_map Result_type read_val_type)
       else
         rd_then read_var_s33 (\<lambda>idx.
           case u32_try_from idx of
             Some i \<Rightarrow> rd_ok (FuncType_index i)
           | None \<Rightarrow> fail_here ''invalid function type''))"

section \<open>Immediates of operators\<close>

definition table_of :: "branch_table \<Rightarrow> br_table" where
  "table_of t =
     \<lparr>bt_targets = map (\<lambda>res. case res of Inl e \<Rightarrow> Inl (show_reader_error e) | Inr i \<Rightarrow> Inr (unat i)) (targets t),
      bt_default = unat (bra_default t)\<rparr>"

text \<open>The flags hold the alignment below the bit of an explicit memory.\<close>

definition read_memarg_from :: "nat \<Rightarrow> nat \<Rightarrow> bool \<Rightarrow> bool \<Rightarrow> memarg reading" where
  "read_memarg_from max_align flags_pos multi_memory memory64 =
     rd_then read_var_u32 (\<lambda>flags0.
       let explicit = multi_memory \<and> flags0 AND 0x40 \<noteq> 0; flags = (if explicit then flags0 XOR 0x40 else flags0)
       in rd_then (if explicit then read_index else rd_ok 0) (\<lambda>memory.
         if 0x40 \<le> flags then bail flags_pos ''malformed memop alignment: alignment too large''
         else rd_then (if memory64 then rd_map unat read_var_u64 else read_index) (\<lambda>offset.
           rd_ok \<lparr>ma_align = unat flags, ma_max_align = max_align, ma_offset = offset, ma_memory = memory\<rparr>)))"

definition read_memarg :: "nat \<Rightarrow> memarg reading" where
  "read_memarg max_align r =
     read_memarg_from max_align (original_position r) (Multi_memory \<in> set (br_features r))
       (Memory64 \<in> set (br_features r)) r"

datatype memory_ordering = AcqRel | SeqCst

definition read_ordering :: "memory_ordering reading" where
  "read_ordering =
     rd_then read_var_u32 (\<lambda>b.
       if b = 0 then rd_ok SeqCst else if b = 1 then rd_ok AcqRel
       else fail_before (''invalid atomic consistency ordering '' @ show_nat (unat b)))"

definition MAX_WASM_CATCHES :: nat where "MAX_WASM_CATCHES = 10000"
definition MAX_WASM_HANDLERS :: nat where "MAX_WASM_HANDLERS = 10000"

datatype try_catch = Catch_One nat nat | Catch_OneRef nat nat | Catch_All nat | Catch_AllRef nat

definition read_catch :: "try_catch reading" where
  "read_catch =
     rd_then read_u8 (\<lambda>b.
       if b = 0 then rd_map2 Catch_One read_index read_index
       else if b = 1 then rd_map2 Catch_OneRef read_index read_index
       else if b = 2 then rd_map Catch_All read_index
       else if b = 3 then rd_map Catch_AllRef read_index
       else invalid_leading_byte b ''catch'')"

definition read_try_table :: "(wasm_block_type \<times> try_catch list) reading" where
  "read_try_table = rd_map2 Pair read_block_type (read_iter MAX_WASM_CATCHES ''catches'' read_catch)"

datatype resume_handle = OnLabel nat nat | OnSwitch nat

definition read_handle :: "resume_handle reading" where
  "read_handle =
     rd_then read_u8 (\<lambda>b.
       if b = 0 then rd_map2 OnLabel read_index read_index
       else if b = 1 then rd_map OnSwitch read_index
       else invalid_leading_byte b ''on clause'')"

definition read_resume_table :: "resume_handle list reading" where
  "read_resume_table = read_iter MAX_WASM_HANDLERS ''resume table'' read_handle"

section \<open>How they move\<close>

lemma steady_map [steadiness]: "steady m \<Longrightarrow> steady (rd_map f m)"
  unfolding rd_map_def by (intro steadiness)

lemma steady_map2 [steadiness]: "steady m \<Longrightarrow> steady n \<Longrightarrow> steady (rd_map2 f m n)"
  unfolding rd_map2_def by (intro steadiness)

lemma steady_forget [steadiness]: "steady m \<Longrightarrow> steady (forget m)"
  unfolding forget_def by (intro steadiness)

lemma steady_each_in_turn [steadiness]: "list_all steady ms \<Longrightarrow> steady (each_in_turn ms)"
  by (induction ms) (auto intro: steadiness)

lemma steady_bail [steadiness]: "steady (bail offset message)" "steady (fail_here message)"
  by (simp_all add: bail_def fail_here_def steady_err)

lemma steady_reclassify [steadiness]:
  assumes "steady m"
  shows "steady (reclassify message m)"
proof (rule steadyI)
  fix r
  have "snd (reclassify message m r) = snd (m r)"
    by (simp add: reclassify_def split: prod.split sum.split)
  then show "\<exists>k. snd (reclassify message m r) = move_on k r \<and> (k = 0 \<or> br_position r + k \<le> length (br_buffer r))"
    using steadyD [OF assms] by simp
qed

lemma steady_at: "(\<And>r. steady (m r)) \<Longrightarrow> steady (\<lambda>r. m r r)"
  by (auto simp: steady_def)

lemma steady_option [steadiness]:
  "(\<And>x. steady (f x)) \<Longrightarrow> steady n \<Longrightarrow> steady (case opt of Some x \<Rightarrow> f x | None \<Rightarrow> n)"
  by (cases opt) auto

lemma steady_sum [steadiness]:
  "(\<And>e. steady (f e)) \<Longrightarrow> (\<And>x. steady (g x)) \<Longrightarrow> steady (case s of Inl e \<Rightarrow> f e | Inr x \<Rightarrow> g x)"
  by (cases s) auto

lemma steady_let [steadiness]: "steady (f x) \<Longrightarrow> steady (let y = x in f y)"
  by simp

lemma steady_read_index [steadiness]: "steady read_index"
  unfolding read_index_def by (intro steadiness)

lemma steady_abstract [steadiness]: "steady read_abstract_heap_type"
  unfolding read_abstract_heap_type_def by (intro steadiness)

lemma steady_read_heap_type [steadiness]: "steady read_heap_type"
proof (rule steadyI)
  fix r
  show "\<exists>k. snd (read_heap_type r) = move_on k r \<and> (k = 0 \<or> br_position r + k \<le> length (br_buffer r))"
  proof (cases "read_var_s33 r")
    case (Pair res clone)
    obtain k where k: "clone = move_on k r" "k = 0 \<or> br_position r + k \<le> length (br_buffer r)"
      using steadyD [OF steady_var(4), of r] Pair by auto
    show ?thesis
    proof (cases res)
      case (Inl e)
      then show ?thesis using Pair by (intro stays) (simp add: read_heap_type_def)
    next
      case (Inr s33)
      let ?again = "rd_then peek (\<lambda>b.
        if b = 0x65 then rd_then read_u8 (\<lambda>_. rd_map (Abstract True) read_abstract_heap_type)
        else rd_map (Abstract False) (reclassify ''invalid heap type'' read_abstract_heap_type))"
      show ?thesis
      proof (cases "u32_try_from s33")
        case None
        have "steady ?again" by (intro steadiness)
        then show ?thesis using Pair Inr None steadyD [of ?again r] by (simp add: read_heap_type_def)
      next
        case (Some idx)
        then have "snd (read_heap_type r) = clone"
          using Pair Inr by (simp add: read_heap_type_def fail_here_def rd_err_def rd_ok_def split: option.split)
        then show ?thesis using k by blast
      qed
    qed
  qed
qed

lemma steady_too_large [steadiness]: "steady (ok_or_too_large pos t)"
  unfolding ok_or_too_large_def by (intro steadiness)

lemma steady_read_ref_type [steadiness]: "steady read_ref_type"
proof -
  have eq: "read_ref_type = (\<lambda>r. rd_then peek (\<lambda>b.
       if b = 0x63 \<or> b = 0x64 then
         rd_then read_u8 (\<lambda>b1. rd_then read_heap_type (\<lambda>hty.
           ok_or_too_large (original_position r) (ref_type_new (b1 = 0x63) hty)))
       else
         rd_then (reclassify ''malformed reference type'' read_heap_type) (\<lambda>hty.
           ok_or_too_large (original_position r) (ref_type_new True hty))) r)"
    by (rule ext) (rule read_ref_type_def)
  show ?thesis unfolding eq by (rule steady_at) (intro steadiness)
qed

lemma steady_read_types [steadiness]: "steady read_val_type" "steady read_block_type"
  unfolding read_val_type_def read_block_type_def by (intro steadiness)+

lemma steady_memarg [steadiness]: "steady (read_memarg max_align)"
proof -
  have "steady (read_memarg_from a p m n)" for a p m n unfolding read_memarg_from_def by (intro steadiness)
  moreover have "read_memarg max_align = (\<lambda>r. read_memarg_from max_align (original_position r)
      (Multi_memory \<in> set (br_features r)) (Memory64 \<in> set (br_features r)) r)"
    by (rule ext) (rule read_memarg_def)
  ultimately show ?thesis by (simp only:) (rule steady_at)
qed

lemma steady_immediates [steadiness]:
  "steady read_ordering" "steady read_catch" "steady read_try_table" "steady read_handle" "steady read_resume_table"
proof -
  show catch: "steady read_catch" "steady read_handle" "steady read_ordering"
    unfolding read_catch_def read_handle_def read_ordering_def by (intro steadiness)+
  show "steady read_try_table" "steady read_resume_table"
    unfolding read_try_table_def read_resume_table_def by (intro steadiness catch)+
qed

end
