(* ===== verification/OperatorReader.thy ===== *)
theory OperatorReader
  imports ValueReader
begin

text \<open>
  Reading an operator (\<open>binary_reader.rs\<close>, \<open>binary_reader/simd.rs\<close>, with the constructors the macro of \<open>lib.rs\<close>
  gives the visits): the tables from opcodes to the reading of the immediates, one part of the
  source's \<open>match\<close> each, and \<open>visit_operator\<close>, which reads the opcode and, after a prefix byte,
  its second part. The visitor is the one that makes the operator. Operators whose immediates
  the model does not keep read them all the same, in their order.
\<close>

section \<open>Operators with a reading of their own\<close>

definition named :: "string \<Rightarrow> unit reading list \<Rightarrow> operator reading" where
  "named n immediates = rd_map (\<lambda>_. Named n) (each_in_turn immediates)"

text \<open>The position in the error is the one in the buffer, not in the module.\<close>

definition typed_select :: "operator reading" where
  "typed_select =
     rd_then read_var_u32 (\<lambda>results.
       if results \<noteq> 1 then rd_err (\<lambda>r. error_new ''invalid result arity'' (br_position r))
       else named ''TypedSelect'' [forget read_val_type])"

text \<open>\<open>{:08b}\<close>.\<close>

definition show_bits :: "byte \<Rightarrow> string" where
  "show_bits b = map (\<lambda>i. if bit b i then CHR ''1'' else CHR ''0'') [7, 6, 5, 4, 3, 2, 1, 0]"

definition ok_or_implementation_error :: "nat \<Rightarrow> ref_type option \<Rightarrow> ref_type reading" where
  "ok_or_implementation_error pos t =
     (case t of Some rt \<Rightarrow> rd_ok rt | None \<Rightarrow> bail pos ''implementation error: type index too large'')"

definition br_on_cast_from :: "string \<Rightarrow> nat \<Rightarrow> operator reading" where
  "br_on_cast_from n pos =
     rd_then read_u8 (\<lambda>cast_flags. rd_then read_index (\<lambda>relative_depth.
       if 3 < cast_flags then bail pos (''invalid cast flags: '' @ show_bits cast_flags)
       else
         rd_then read_heap_type (\<lambda>from_heap_type.
         rd_then (ok_or_implementation_error pos (ref_type_new (cast_flags AND 1 \<noteq> 0) from_heap_type)) (\<lambda>_.
         rd_then read_heap_type (\<lambda>to_heap_type.
         rd_then (ok_or_implementation_error pos (ref_type_new (cast_flags AND 2 \<noteq> 0) to_heap_type)) (\<lambda>_.
           rd_ok (Named n)))))))"

definition br_on_cast :: "string \<Rightarrow> operator reading" where
  "br_on_cast n r = br_on_cast_from n (original_position r) r"

definition atomic_fence :: "nat \<Rightarrow> operator reading" where
  "atomic_fence pos =
     rd_then read_u8 (\<lambda>b.
       if b \<noteq> 0 then bail pos ''nonzero byte after `atomic.fence`'' else rd_ok (Named ''AtomicFence''))"

section \<open>Opcodes of one byte\<close>

definition control_operators :: "(nat \<times> operator reading) list" where
  "control_operators =
    [(0x00, rd_ok Unreachable), (0x01, rd_ok Nop), (0x02, rd_map Block read_block_type),
     (0x03, rd_map Loop read_block_type), (0x04, rd_map If read_block_type), (0x05, rd_ok Else),
     (0x06, named ''Try'' [forget read_block_type]), (0x07, named ''Catch'' [forget read_index]),
     (0x08, named ''Throw'' [forget read_index]), (0x09, named ''Rethrow'' [forget read_index]),
     (0x0a, named ''ThrowRef'' []), (0x0b, rd_ok End), (0x0c, rd_map Br read_index), (0x0d, rd_map BrIf read_index),
     (0x0e, rd_map BrTable (rd_map table_of read_br_table)), (0x0f, rd_ok Return), (0x10, rd_map Call read_index),
     (0x11, rd_map2 CallIndirect read_index (rd_map unat read_table_index_or_zero_if_not_reference_types)),
     (0x12, named ''ReturnCall'' [forget read_index]),
     (0x13, named ''ReturnCallIndirect'' [forget read_index, forget read_index]),
     (0x14, named ''CallRef'' [forget read_index]), (0x15, named ''ReturnCallRef'' [forget read_index]),
     (0x18, named ''Delegate'' [forget read_index]), (0x19, named ''CatchAll'' []), (0x1a, rd_ok Drop),
     (0x1b, rd_ok Select), (0x1c, typed_select), (0x1f, named ''TryTable'' [forget read_try_table])]"

definition variable_operators :: "(nat \<times> operator reading) list" where
  "variable_operators =
    [(0x20, rd_map LocalGet read_index), (0x21, rd_map LocalSet read_index), (0x22, rd_map LocalTee read_index),
     (0x23, rd_map GlobalGet read_index), (0x24, rd_map GlobalSet read_index), (0x25, rd_map TableGet read_index),
     (0x26, rd_map TableSet read_index)]"

definition memory_operators :: "(nat \<times> operator reading) list" where
  "memory_operators =
    [(0x28, rd_map (\<lambda>x. Memory_access (I32Load x)) (read_memarg 2)),
     (0x29, rd_map (\<lambda>x. Memory_access (I64Load x)) (read_memarg 3)),
     (0x2a, rd_map (\<lambda>x. Memory_access (F32Load x)) (read_memarg 2)),
     (0x2b, rd_map (\<lambda>x. Memory_access (F64Load x)) (read_memarg 3)),
     (0x2c, rd_map (\<lambda>x. Memory_access (I32Load8S x)) (read_memarg 0)),
     (0x2d, rd_map (\<lambda>x. Memory_access (I32Load8U x)) (read_memarg 0)),
     (0x2e, rd_map (\<lambda>x. Memory_access (I32Load16S x)) (read_memarg 1)),
     (0x2f, rd_map (\<lambda>x. Memory_access (I32Load16U x)) (read_memarg 1)),
     (0x30, rd_map (\<lambda>x. Memory_access (I64Load8S x)) (read_memarg 0)),
     (0x31, rd_map (\<lambda>x. Memory_access (I64Load8U x)) (read_memarg 0)),
     (0x32, rd_map (\<lambda>x. Memory_access (I64Load16S x)) (read_memarg 1)),
     (0x33, rd_map (\<lambda>x. Memory_access (I64Load16U x)) (read_memarg 1)),
     (0x34, rd_map (\<lambda>x. Memory_access (I64Load32S x)) (read_memarg 2)),
     (0x35, rd_map (\<lambda>x. Memory_access (I64Load32U x)) (read_memarg 2)),
     (0x36, rd_map (\<lambda>x. Memory_access (I32Store x)) (read_memarg 2)),
     (0x37, rd_map (\<lambda>x. Memory_access (I64Store x)) (read_memarg 3)),
     (0x38, rd_map (\<lambda>x. Memory_access (F32Store x)) (read_memarg 2)),
     (0x39, rd_map (\<lambda>x. Memory_access (F64Store x)) (read_memarg 3)),
     (0x3a, rd_map (\<lambda>x. Memory_access (I32Store8 x)) (read_memarg 0)),
     (0x3b, rd_map (\<lambda>x. Memory_access (I32Store16 x)) (read_memarg 1)),
     (0x3c, rd_map (\<lambda>x. Memory_access (I64Store8 x)) (read_memarg 0)),
     (0x3d, rd_map (\<lambda>x. Memory_access (I64Store16 x)) (read_memarg 1)),
     (0x3e, rd_map (\<lambda>x. Memory_access (I64Store32 x)) (read_memarg 2)),
     (0x3f, rd_map MemorySize (rd_map unat read_memory_index_or_zero_if_not_multi_memory)),
     (0x40, rd_map MemoryGrow (rd_map unat read_memory_index_or_zero_if_not_multi_memory))]"

definition constant_operators :: "(nat \<times> operator reading) list" where
  "constant_operators =
    [(0x41, rd_map I32Const (rd_map sint read_var_i32)), (0x42, rd_map I64Const (rd_map sint read_var_i64)),
     (0x43, rd_map F32Const (rd_map unat read_f32)), (0x44, rd_map F64Const (rd_map unat read_f64))]"

definition comparison_operators :: "(nat \<times> operator reading) list" where
  "comparison_operators =
    [(0x45, rd_ok (Int_relation I32Eqz)), (0x46, rd_ok (Int_relation I32Eq)), (0x47, rd_ok (Int_relation I32Ne)),
     (0x48, rd_ok (Int_relation I32LtS)), (0x49, rd_ok (Int_relation I32LtU)), (0x4a, rd_ok (Int_relation I32GtS)),
     (0x4b, rd_ok (Int_relation I32GtU)), (0x4c, rd_ok (Int_relation I32LeS)), (0x4d, rd_ok (Int_relation I32LeU)),
     (0x4e, rd_ok (Int_relation I32GeS)), (0x4f, rd_ok (Int_relation I32GeU)), (0x50, rd_ok (Int_relation I64Eqz)),
     (0x51, rd_ok (Int_relation I64Eq)), (0x52, rd_ok (Int_relation I64Ne)), (0x53, rd_ok (Int_relation I64LtS)),
     (0x54, rd_ok (Int_relation I64LtU)), (0x55, rd_ok (Int_relation I64GtS)), (0x56, rd_ok (Int_relation I64GtU)),
     (0x57, rd_ok (Int_relation I64LeS)), (0x58, rd_ok (Int_relation I64LeU)), (0x59, rd_ok (Int_relation I64GeS)),
     (0x5a, rd_ok (Int_relation I64GeU)), (0x5b, rd_ok (Float_relation F32Eq)), (0x5c, rd_ok (Float_relation F32Ne)),
     (0x5d, rd_ok (Float_relation F32Lt)), (0x5e, rd_ok (Float_relation F32Gt)), (0x5f, rd_ok (Float_relation F32Le)),
     (0x60, rd_ok (Float_relation F32Ge)), (0x61, rd_ok (Float_relation F64Eq)), (0x62, rd_ok (Float_relation F64Ne)),
     (0x63, rd_ok (Float_relation F64Lt)), (0x64, rd_ok (Float_relation F64Gt)), (0x65, rd_ok (Float_relation F64Le)),
     (0x66, rd_ok (Float_relation F64Ge))]"

definition integer_operators :: "(nat \<times> operator reading) list" where
  "integer_operators =
    [(0x67, rd_ok (Int_arithmetic I32Clz)), (0x68, rd_ok (Int_arithmetic I32Ctz)),
     (0x69, rd_ok (Int_arithmetic I32Popcnt)), (0x6a, rd_ok (Int_arithmetic I32Add)),
     (0x6b, rd_ok (Int_arithmetic I32Sub)), (0x6c, rd_ok (Int_arithmetic I32Mul)),
     (0x6d, rd_ok (Int_arithmetic I32DivS)), (0x6e, rd_ok (Int_arithmetic I32DivU)),
     (0x6f, rd_ok (Int_arithmetic I32RemS)), (0x70, rd_ok (Int_arithmetic I32RemU)),
     (0x71, rd_ok (Int_arithmetic I32And)), (0x72, rd_ok (Int_arithmetic I32Or)),
     (0x73, rd_ok (Int_arithmetic I32Xor)), (0x74, rd_ok (Int_arithmetic I32Shl)),
     (0x75, rd_ok (Int_arithmetic I32ShrS)), (0x76, rd_ok (Int_arithmetic I32ShrU)),
     (0x77, rd_ok (Int_arithmetic I32Rotl)), (0x78, rd_ok (Int_arithmetic I32Rotr)),
     (0x79, rd_ok (Int_arithmetic I64Clz)), (0x7a, rd_ok (Int_arithmetic I64Ctz)),
     (0x7b, rd_ok (Int_arithmetic I64Popcnt)), (0x7c, rd_ok (Int_arithmetic I64Add)),
     (0x7d, rd_ok (Int_arithmetic I64Sub)), (0x7e, rd_ok (Int_arithmetic I64Mul)),
     (0x7f, rd_ok (Int_arithmetic I64DivS)), (0x80, rd_ok (Int_arithmetic I64DivU)),
     (0x81, rd_ok (Int_arithmetic I64RemS)), (0x82, rd_ok (Int_arithmetic I64RemU)),
     (0x83, rd_ok (Int_arithmetic I64And)), (0x84, rd_ok (Int_arithmetic I64Or)),
     (0x85, rd_ok (Int_arithmetic I64Xor)), (0x86, rd_ok (Int_arithmetic I64Shl)),
     (0x87, rd_ok (Int_arithmetic I64ShrS)), (0x88, rd_ok (Int_arithmetic I64ShrU)),
     (0x89, rd_ok (Int_arithmetic I64Rotl)), (0x8a, rd_ok (Int_arithmetic I64Rotr))]"

definition float_operators :: "(nat \<times> operator reading) list" where
  "float_operators =
    [(0x8b, rd_ok (Float_arithmetic F32Abs)), (0x8c, rd_ok (Float_arithmetic F32Neg)),
     (0x8d, rd_ok (Float_arithmetic F32Ceil)), (0x8e, rd_ok (Float_arithmetic F32Floor)),
     (0x8f, rd_ok (Float_arithmetic F32Trunc)), (0x90, rd_ok (Float_arithmetic F32Nearest)),
     (0x91, rd_ok (Float_arithmetic F32Sqrt)), (0x92, rd_ok (Float_arithmetic F32Add)),
     (0x93, rd_ok (Float_arithmetic F32Sub)), (0x94, rd_ok (Float_arithmetic F32Mul)),
     (0x95, rd_ok (Float_arithmetic F32Div)), (0x96, rd_ok (Float_arithmetic F32Min)),
     (0x97, rd_ok (Float_arithmetic F32Max)), (0x98, rd_ok (Float_arithmetic F32Copysign)),
     (0x99, rd_ok (Float_arithmetic F64Abs)), (0x9a, rd_ok (Float_arithmetic F64Neg)),
     (0x9b, rd_ok (Float_arithmetic F64Ceil)), (0x9c, rd_ok (Float_arithmetic F64Floor)),
     (0x9d, rd_ok (Float_arithmetic F64Trunc)), (0x9e, rd_ok (Float_arithmetic F64Nearest)),
     (0x9f, rd_ok (Float_arithmetic F64Sqrt)), (0xa0, rd_ok (Float_arithmetic F64Add)),
     (0xa1, rd_ok (Float_arithmetic F64Sub)), (0xa2, rd_ok (Float_arithmetic F64Mul)),
     (0xa3, rd_ok (Float_arithmetic F64Div)), (0xa4, rd_ok (Float_arithmetic F64Min)),
     (0xa5, rd_ok (Float_arithmetic F64Max)), (0xa6, rd_ok (Float_arithmetic F64Copysign))]"

definition conversion_operators :: "(nat \<times> operator reading) list" where
  "conversion_operators =
    [(0xa7, rd_ok (Conversion I32WrapI64)), (0xa8, rd_ok (Conversion I32TruncF32S)),
     (0xa9, rd_ok (Conversion I32TruncF32U)), (0xaa, rd_ok (Conversion I32TruncF64S)),
     (0xab, rd_ok (Conversion I32TruncF64U)), (0xac, rd_ok (Conversion I64ExtendI32S)),
     (0xad, rd_ok (Conversion I64ExtendI32U)), (0xae, rd_ok (Conversion I64TruncF32S)),
     (0xaf, rd_ok (Conversion I64TruncF32U)), (0xb0, rd_ok (Conversion I64TruncF64S)),
     (0xb1, rd_ok (Conversion I64TruncF64U)), (0xb2, rd_ok (Conversion F32ConvertI32S)),
     (0xb3, rd_ok (Conversion F32ConvertI32U)), (0xb4, rd_ok (Conversion F32ConvertI64S)),
     (0xb5, rd_ok (Conversion F32ConvertI64U)), (0xb6, rd_ok (Conversion F32DemoteF64)),
     (0xb7, rd_ok (Conversion F64ConvertI32S)), (0xb8, rd_ok (Conversion F64ConvertI32U)),
     (0xb9, rd_ok (Conversion F64ConvertI64S)), (0xba, rd_ok (Conversion F64ConvertI64U)),
     (0xbb, rd_ok (Conversion F64PromoteF32)), (0xbc, rd_ok (Conversion I32ReinterpretF32)),
     (0xbd, rd_ok (Conversion I64ReinterpretF64)), (0xbe, rd_ok (Conversion F32ReinterpretI32)),
     (0xbf, rd_ok (Conversion F64ReinterpretI64)), (0xc0, named ''I32Extend8S'' []),
     (0xc1, named ''I32Extend16S'' []), (0xc2, named ''I64Extend8S'' []), (0xc3, named ''I64Extend16S'' []),
     (0xc4, named ''I64Extend32S'' [])]"

definition reference_operators :: "(nat \<times> operator reading) list" where
  "reference_operators =
    [(0xd0, named ''RefNull'' [forget read_heap_type]), (0xd1, rd_ok RefIsNull), (0xd2, rd_map RefFunc read_index),
     (0xd3, named ''RefEq'' []), (0xd4, named ''RefAsNonNull'' []), (0xd5, named ''BrOnNull'' [forget read_index]),
     (0xd6, named ''BrOnNonNull'' [forget read_index])]"

definition stack_operators :: "(nat \<times> operator reading) list" where
  "stack_operators =
    [(0xe0, named ''ContNew'' [forget read_index]), (0xe1, named ''ContBind'' [forget read_index, forget read_index]),
     (0xe2, named ''Suspend'' [forget read_index]),
     (0xe3, named ''Resume'' [forget read_index, forget read_resume_table]),
     (0xe4, named ''ResumeThrow'' [forget read_index, forget read_index, forget read_resume_table]),
     (0xe5, named ''Switch'' [forget read_index, forget read_index])]"

section \<open>After the prefixes 0xfb and 0xfc\<close>

definition gc_operators :: "(nat \<times> operator reading) list" where
  "gc_operators =
    [(0x0, named ''StructNew'' [forget read_index]), (0x01, named ''StructNewDefault'' [forget read_index]),
     (0x02, named ''StructGet'' [forget read_index, forget read_index]),
     (0x03, named ''StructGetS'' [forget read_index, forget read_index]),
     (0x04, named ''StructGetU'' [forget read_index, forget read_index]),
     (0x05, named ''StructSet'' [forget read_index, forget read_index]),
     (0x06, named ''ArrayNew'' [forget read_index]), (0x07, named ''ArrayNewDefault'' [forget read_index]),
     (0x08, named ''ArrayNewFixed'' [forget read_index, forget read_index]),
     (0x09, named ''ArrayNewData'' [forget read_index, forget read_index]),
     (0x0a, named ''ArrayNewElem'' [forget read_index, forget read_index]),
     (0x0b, named ''ArrayGet'' [forget read_index]), (0x0c, named ''ArrayGetS'' [forget read_index]),
     (0x0d, named ''ArrayGetU'' [forget read_index]), (0x0e, named ''ArraySet'' [forget read_index]),
     (0x0f, named ''ArrayLen'' []), (0x10, named ''ArrayFill'' [forget read_index]),
     (0x11, named ''ArrayCopy'' [forget read_index, forget read_index]),
     (0x12, named ''ArrayInitData'' [forget read_index, forget read_index]),
     (0x13, named ''ArrayInitElem'' [forget read_index, forget read_index]),
     (0x14, named ''RefTestNonNull'' [forget read_heap_type]),
     (0x15, named ''RefTestNullable'' [forget read_heap_type]),
     (0x16, named ''RefCastNonNull'' [forget read_heap_type]),
     (0x17, named ''RefCastNullable'' [forget read_heap_type]), (0x18, br_on_cast ''BrOnCast''),
     (0x19, br_on_cast ''BrOnCastFail''), (0x1a, named ''AnyConvertExtern'' []),
     (0x1b, named ''ExternConvertAny'' []), (0x1c, named ''RefI31'' []), (0x1d, named ''I31GetS'' []),
     (0x1e, named ''I31GetU'' [])]"

definition misc_operators :: "(nat \<times> operator reading) list" where
  "misc_operators =
    [(0x00, named ''I32TruncSatF32S'' []), (0x01, named ''I32TruncSatF32U'' []), (0x02, named ''I32TruncSatF64S'' []),
     (0x03, named ''I32TruncSatF64U'' []), (0x04, named ''I64TruncSatF32S'' []), (0x05, named ''I64TruncSatF32U'' []),
     (0x06, named ''I64TruncSatF64S'' []), (0x07, named ''I64TruncSatF64U'' []),
     (0x08, rd_map2 MemoryInit read_index read_index), (0x09, rd_map DataDrop read_index),
     (0x0a, rd_map2 MemoryCopy read_index read_index), (0x0b, rd_map MemoryFill read_index),
     (0x0c, named ''TableInit'' [forget read_index, forget read_index]),
     (0x0d, named ''ElemDrop'' [forget read_index]),
     (0x0e, named ''TableCopy'' [forget read_index, forget read_index]), (0x0f, rd_map TableGrow read_index),
     (0x10, rd_map TableSize read_index), (0x11, rd_map TableFill read_index),
     (0x12, named ''MemoryDiscard'' [forget read_index]), (0x3a, rd_map Forall read_block_type),
     (0x3b, rd_map Exists read_block_type), (0x3c, rd_map Assume read_block_type),
     (0x3d, rd_map Unique read_block_type), (0x31, rd_ok (I32Uzumaki 0xff)), (0x32, rd_ok (I64Uzumaki 0xffff)),
     (0x13, named ''I64Add128'' []), (0x14, named ''I64Sub128'' []), (0x15, named ''I64MulWideS'' []),
     (0x16, named ''I64MulWideU'' [])]"

section \<open>After the prefix 0xfe\<close>

definition atomic_accesses :: "nat \<Rightarrow> (nat \<times> operator reading) list" where
  "atomic_accesses pos =
    [(0x00, named ''MemoryAtomicNotify'' [forget (read_memarg 2)]),
     (0x01, named ''MemoryAtomicWait32'' [forget (read_memarg 2)]),
     (0x02, named ''MemoryAtomicWait64'' [forget (read_memarg 3)]), (0x03, atomic_fence pos),
     (0x10, named ''I32AtomicLoad'' [forget (read_memarg 2)]),
     (0x11, named ''I64AtomicLoad'' [forget (read_memarg 3)]),
     (0x12, named ''I32AtomicLoad8U'' [forget (read_memarg 0)]),
     (0x13, named ''I32AtomicLoad16U'' [forget (read_memarg 1)]),
     (0x14, named ''I64AtomicLoad8U'' [forget (read_memarg 0)]),
     (0x15, named ''I64AtomicLoad16U'' [forget (read_memarg 1)]),
     (0x16, named ''I64AtomicLoad32U'' [forget (read_memarg 2)]),
     (0x17, named ''I32AtomicStore'' [forget (read_memarg 2)]),
     (0x18, named ''I64AtomicStore'' [forget (read_memarg 3)]),
     (0x19, named ''I32AtomicStore8'' [forget (read_memarg 0)]),
     (0x1a, named ''I32AtomicStore16'' [forget (read_memarg 1)]),
     (0x1b, named ''I64AtomicStore8'' [forget (read_memarg 0)]),
     (0x1c, named ''I64AtomicStore16'' [forget (read_memarg 1)]),
     (0x1d, named ''I64AtomicStore32'' [forget (read_memarg 2)])]"

definition atomic_updates :: "(nat \<times> operator reading) list" where
  "atomic_updates =
    [(0x1e, named ''I32AtomicRmwAdd'' [forget (read_memarg 2)]),
     (0x1f, named ''I64AtomicRmwAdd'' [forget (read_memarg 3)]),
     (0x20, named ''I32AtomicRmw8AddU'' [forget (read_memarg 0)]),
     (0x21, named ''I32AtomicRmw16AddU'' [forget (read_memarg 1)]),
     (0x22, named ''I64AtomicRmw8AddU'' [forget (read_memarg 0)]),
     (0x23, named ''I64AtomicRmw16AddU'' [forget (read_memarg 1)]),
     (0x24, named ''I64AtomicRmw32AddU'' [forget (read_memarg 2)]),
     (0x25, named ''I32AtomicRmwSub'' [forget (read_memarg 2)]),
     (0x26, named ''I64AtomicRmwSub'' [forget (read_memarg 3)]),
     (0x27, named ''I32AtomicRmw8SubU'' [forget (read_memarg 0)]),
     (0x28, named ''I32AtomicRmw16SubU'' [forget (read_memarg 1)]),
     (0x29, named ''I64AtomicRmw8SubU'' [forget (read_memarg 0)]),
     (0x2a, named ''I64AtomicRmw16SubU'' [forget (read_memarg 1)]),
     (0x2b, named ''I64AtomicRmw32SubU'' [forget (read_memarg 2)]),
     (0x2c, named ''I32AtomicRmwAnd'' [forget (read_memarg 2)]),
     (0x2d, named ''I64AtomicRmwAnd'' [forget (read_memarg 3)]),
     (0x2e, named ''I32AtomicRmw8AndU'' [forget (read_memarg 0)]),
     (0x2f, named ''I32AtomicRmw16AndU'' [forget (read_memarg 1)]),
     (0x30, named ''I64AtomicRmw8AndU'' [forget (read_memarg 0)]),
     (0x31, named ''I64AtomicRmw16AndU'' [forget (read_memarg 1)]),
     (0x32, named ''I64AtomicRmw32AndU'' [forget (read_memarg 2)]),
     (0x33, named ''I32AtomicRmwOr'' [forget (read_memarg 2)]),
     (0x34, named ''I64AtomicRmwOr'' [forget (read_memarg 3)]),
     (0x35, named ''I32AtomicRmw8OrU'' [forget (read_memarg 0)]),
     (0x36, named ''I32AtomicRmw16OrU'' [forget (read_memarg 1)]),
     (0x37, named ''I64AtomicRmw8OrU'' [forget (read_memarg 0)]),
     (0x38, named ''I64AtomicRmw16OrU'' [forget (read_memarg 1)]),
     (0x39, named ''I64AtomicRmw32OrU'' [forget (read_memarg 2)]),
     (0x3a, named ''I32AtomicRmwXor'' [forget (read_memarg 2)]),
     (0x3b, named ''I64AtomicRmwXor'' [forget (read_memarg 3)]),
     (0x3c, named ''I32AtomicRmw8XorU'' [forget (read_memarg 0)]),
     (0x3d, named ''I32AtomicRmw16XorU'' [forget (read_memarg 1)]),
     (0x3e, named ''I64AtomicRmw8XorU'' [forget (read_memarg 0)]),
     (0x3f, named ''I64AtomicRmw16XorU'' [forget (read_memarg 1)]),
     (0x40, named ''I64AtomicRmw32XorU'' [forget (read_memarg 2)]),
     (0x41, named ''I32AtomicRmwXchg'' [forget (read_memarg 2)]),
     (0x42, named ''I64AtomicRmwXchg'' [forget (read_memarg 3)]),
     (0x43, named ''I32AtomicRmw8XchgU'' [forget (read_memarg 0)]),
     (0x44, named ''I32AtomicRmw16XchgU'' [forget (read_memarg 1)]),
     (0x45, named ''I64AtomicRmw8XchgU'' [forget (read_memarg 0)]),
     (0x46, named ''I64AtomicRmw16XchgU'' [forget (read_memarg 1)]),
     (0x47, named ''I64AtomicRmw32XchgU'' [forget (read_memarg 2)]),
     (0x48, named ''I32AtomicRmwCmpxchg'' [forget (read_memarg 2)]),
     (0x49, named ''I64AtomicRmwCmpxchg'' [forget (read_memarg 3)]),
     (0x4a, named ''I32AtomicRmw8CmpxchgU'' [forget (read_memarg 0)]),
     (0x4b, named ''I32AtomicRmw16CmpxchgU'' [forget (read_memarg 1)]),
     (0x4c, named ''I64AtomicRmw8CmpxchgU'' [forget (read_memarg 0)]),
     (0x4d, named ''I64AtomicRmw16CmpxchgU'' [forget (read_memarg 1)]),
     (0x4e, named ''I64AtomicRmw32CmpxchgU'' [forget (read_memarg 2)])]"

definition shared_operators :: "(nat \<times> operator reading) list" where
  "shared_operators =
    [(0x4f, named ''GlobalAtomicGet'' [forget read_ordering, forget read_index]),
     (0x50, named ''GlobalAtomicSet'' [forget read_ordering, forget read_index]),
     (0x51, named ''GlobalAtomicRmwAdd'' [forget read_ordering, forget read_index]),
     (0x52, named ''GlobalAtomicRmwSub'' [forget read_ordering, forget read_index]),
     (0x53, named ''GlobalAtomicRmwAnd'' [forget read_ordering, forget read_index]),
     (0x54, named ''GlobalAtomicRmwOr'' [forget read_ordering, forget read_index]),
     (0x55, named ''GlobalAtomicRmwXor'' [forget read_ordering, forget read_index]),
     (0x56, named ''GlobalAtomicRmwXchg'' [forget read_ordering, forget read_index]),
     (0x57, named ''GlobalAtomicRmwCmpxchg'' [forget read_ordering, forget read_index]),
     (0x58, named ''TableAtomicGet'' [forget read_ordering, forget read_index]),
     (0x59, named ''TableAtomicSet'' [forget read_ordering, forget read_index]),
     (0x5a, named ''TableAtomicRmwXchg'' [forget read_ordering, forget read_index]),
     (0x5b, named ''TableAtomicRmwCmpxchg'' [forget read_ordering, forget read_index]),
     (0x5c, named ''StructAtomicGet'' [forget read_ordering, forget read_index, forget read_index]),
     (0x5d, named ''StructAtomicGetS'' [forget read_ordering, forget read_index, forget read_index]),
     (0x5e, named ''StructAtomicGetU'' [forget read_ordering, forget read_index, forget read_index]),
     (0x5f, named ''StructAtomicSet'' [forget read_ordering, forget read_index, forget read_index]),
     (0x60, named ''StructAtomicRmwAdd'' [forget read_ordering, forget read_index, forget read_index]),
     (0x61, named ''StructAtomicRmwSub'' [forget read_ordering, forget read_index, forget read_index]),
     (0x62, named ''StructAtomicRmwAnd'' [forget read_ordering, forget read_index, forget read_index]),
     (0x63, named ''StructAtomicRmwOr'' [forget read_ordering, forget read_index, forget read_index]),
     (0x64, named ''StructAtomicRmwXor'' [forget read_ordering, forget read_index, forget read_index]),
     (0x65, named ''StructAtomicRmwXchg'' [forget read_ordering, forget read_index, forget read_index]),
     (0x66, named ''StructAtomicRmwCmpxchg'' [forget read_ordering, forget read_index, forget read_index]),
     (0x67, named ''ArrayAtomicGet'' [forget read_ordering, forget read_index]),
     (0x68, named ''ArrayAtomicGetS'' [forget read_ordering, forget read_index]),
     (0x69, named ''ArrayAtomicGetU'' [forget read_ordering, forget read_index]),
     (0x6a, named ''ArrayAtomicSet'' [forget read_ordering, forget read_index]),
     (0x6b, named ''ArrayAtomicRmwAdd'' [forget read_ordering, forget read_index]),
     (0x6c, named ''ArrayAtomicRmwSub'' [forget read_ordering, forget read_index]),
     (0x6d, named ''ArrayAtomicRmwAnd'' [forget read_ordering, forget read_index]),
     (0x6e, named ''ArrayAtomicRmwOr'' [forget read_ordering, forget read_index]),
     (0x6f, named ''ArrayAtomicRmwXor'' [forget read_ordering, forget read_index]),
     (0x70, named ''ArrayAtomicRmwXchg'' [forget read_ordering, forget read_index]),
     (0x71, named ''ArrayAtomicRmwCmpxchg'' [forget read_ordering, forget read_index]),
     (0x72, named ''RefI31Shared'' [])]"

section \<open>After the prefix 0xfd\<close>

definition vector_operators :: "(nat \<times> operator reading) list" where
  "vector_operators =
    [(0x00, rd_map (\<lambda>x. Vector_access (V128Load x)) (read_memarg 4)),
     (0x01, rd_map (\<lambda>x. Vector_access (V128Load8x8S x)) (read_memarg 3)),
     (0x02, rd_map (\<lambda>x. Vector_access (V128Load8x8U x)) (read_memarg 3)),
     (0x03, rd_map (\<lambda>x. Vector_access (V128Load16x4S x)) (read_memarg 3)),
     (0x04, rd_map (\<lambda>x. Vector_access (V128Load16x4U x)) (read_memarg 3)),
     (0x05, rd_map (\<lambda>x. Vector_access (V128Load32x2S x)) (read_memarg 3)),
     (0x06, rd_map (\<lambda>x. Vector_access (V128Load32x2U x)) (read_memarg 3)),
     (0x07, rd_map (\<lambda>x. Vector_access (V128Load8Splat x)) (read_memarg 0)),
     (0x08, rd_map (\<lambda>x. Vector_access (V128Load16Splat x)) (read_memarg 1)),
     (0x09, rd_map (\<lambda>x. Vector_access (V128Load32Splat x)) (read_memarg 2)),
     (0x0a, rd_map (\<lambda>x. Vector_access (V128Load64Splat x)) (read_memarg 3)),
     (0x0b, rd_map (\<lambda>x. Vector_access (V128Store x)) (read_memarg 4)),
     (0x0c, rd_map V128Const (rd_map (map unat) read_v128)),
     (0x0d, named ''I8x16Shuffle'' (replicate 16 (forget (read_lane_index 32)))), (0x0e, named ''I8x16Swizzle'' []),
     (0x0f, rd_ok (Vector_splat I8x16Splat)), (0x10, rd_ok (Vector_splat I16x8Splat)),
     (0x11, rd_ok (Vector_splat I32x4Splat)), (0x12, rd_ok (Vector_splat I64x2Splat)),
     (0x13, rd_ok (Vector_splat F32x4Splat)), (0x14, rd_ok (Vector_splat F64x2Splat)),
     (0x15, rd_map (\<lambda>x. Vector_lane (I8x16ExtractLaneS x)) (rd_map unat (read_lane_index 16))),
     (0x16, rd_map (\<lambda>x. Vector_lane (I8x16ExtractLaneU x)) (rd_map unat (read_lane_index 16))),
     (0x17, rd_map (\<lambda>x. Vector_lane (I8x16ReplaceLane x)) (rd_map unat (read_lane_index 16))),
     (0x18, rd_map (\<lambda>x. Vector_lane (I16x8ExtractLaneS x)) (rd_map unat (read_lane_index 8))),
     (0x19, rd_map (\<lambda>x. Vector_lane (I16x8ExtractLaneU x)) (rd_map unat (read_lane_index 8))),
     (0x1a, rd_map (\<lambda>x. Vector_lane (I16x8ReplaceLane x)) (rd_map unat (read_lane_index 8))),
     (0x1b, rd_map (\<lambda>x. Vector_lane (I32x4ExtractLane x)) (rd_map unat (read_lane_index 4))),
     (0x1c, rd_map (\<lambda>x. Vector_lane (I32x4ReplaceLane x)) (rd_map unat (read_lane_index 4))),
     (0x1d, rd_map (\<lambda>x. Vector_lane (I64x2ExtractLane x)) (rd_map unat (read_lane_index 2))),
     (0x1e, rd_map (\<lambda>x. Vector_lane (I64x2ReplaceLane x)) (rd_map unat (read_lane_index 2))),
     (0x1f, rd_map (\<lambda>x. Vector_lane (F32x4ExtractLane x)) (rd_map unat (read_lane_index 4))),
     (0x20, rd_map (\<lambda>x. Vector_lane (F32x4ReplaceLane x)) (rd_map unat (read_lane_index 4))),
     (0x21, rd_map (\<lambda>x. Vector_lane (F64x2ExtractLane x)) (rd_map unat (read_lane_index 2))),
     (0x22, rd_map (\<lambda>x. Vector_lane (F64x2ReplaceLane x)) (rd_map unat (read_lane_index 2)))]"

definition vector_comparisons :: "(nat \<times> operator reading) list" where
  "vector_comparisons =
    [(0x23, named ''I8x16Eq'' []), (0x24, named ''I8x16Ne'' []), (0x25, named ''I8x16LtS'' []),
     (0x26, named ''I8x16LtU'' []), (0x27, named ''I8x16GtS'' []), (0x28, named ''I8x16GtU'' []),
     (0x29, named ''I8x16LeS'' []), (0x2a, named ''I8x16LeU'' []), (0x2b, named ''I8x16GeS'' []),
     (0x2c, named ''I8x16GeU'' []), (0x2d, named ''I16x8Eq'' []), (0x2e, named ''I16x8Ne'' []),
     (0x2f, named ''I16x8LtS'' []), (0x30, named ''I16x8LtU'' []), (0x31, named ''I16x8GtS'' []),
     (0x32, named ''I16x8GtU'' []), (0x33, named ''I16x8LeS'' []), (0x34, named ''I16x8LeU'' []),
     (0x35, named ''I16x8GeS'' []), (0x36, named ''I16x8GeU'' []), (0x37, named ''I32x4Eq'' []),
     (0x38, named ''I32x4Ne'' []), (0x39, named ''I32x4LtS'' []), (0x3a, named ''I32x4LtU'' []),
     (0x3b, named ''I32x4GtS'' []), (0x3c, named ''I32x4GtU'' []), (0x3d, named ''I32x4LeS'' []),
     (0x3e, named ''I32x4LeU'' []), (0x3f, named ''I32x4GeS'' []), (0x40, named ''I32x4GeU'' []),
     (0x41, named ''F32x4Eq'' []), (0x42, named ''F32x4Ne'' []), (0x43, named ''F32x4Lt'' []),
     (0x44, named ''F32x4Gt'' []), (0x45, named ''F32x4Le'' []), (0x46, named ''F32x4Ge'' []),
     (0x47, named ''F64x2Eq'' []), (0x48, named ''F64x2Ne'' []), (0x49, named ''F64x2Lt'' []),
     (0x4a, named ''F64x2Gt'' []), (0x4b, named ''F64x2Le'' []), (0x4c, named ''F64x2Ge'' []),
     (0x4d, named ''V128Not'' []), (0x4e, named ''V128And'' []), (0x4f, named ''V128AndNot'' []),
     (0x50, named ''V128Or'' []), (0x51, named ''V128Xor'' []), (0x52, named ''V128Bitselect'' []),
     (0x53, named ''V128AnyTrue'' [])]"

definition vector_lane_operators :: "(nat \<times> operator reading) list" where
  "vector_lane_operators =
    [(0x54, rd_map2 (\<lambda>x y. Vector_lane_access (V128Load8Lane x y)) (read_memarg 0) (rd_map unat (read_lane_index 16))),
     (0x55, rd_map2 (\<lambda>x y. Vector_lane_access (V128Load16Lane x y)) (read_memarg 1) (rd_map unat (read_lane_index 8))),
     (0x56, rd_map2 (\<lambda>x y. Vector_lane_access (V128Load32Lane x y)) (read_memarg 2) (rd_map unat (read_lane_index 4))),
     (0x57, rd_map2 (\<lambda>x y. Vector_lane_access (V128Load64Lane x y)) (read_memarg 3) (rd_map unat (read_lane_index 2))),
     (0x58, rd_map2 (\<lambda>x y. Vector_lane_access (V128Store8Lane x y)) (read_memarg 0) (rd_map unat (read_lane_index 16))),
     (0x59, rd_map2 (\<lambda>x y. Vector_lane_access (V128Store16Lane x y)) (read_memarg 1) (rd_map unat (read_lane_index 8))),
     (0x5a, rd_map2 (\<lambda>x y. Vector_lane_access (V128Store32Lane x y)) (read_memarg 2) (rd_map unat (read_lane_index 4))),
     (0x5b, rd_map2 (\<lambda>x y. Vector_lane_access (V128Store64Lane x y)) (read_memarg 3) (rd_map unat (read_lane_index 2))),
     (0x5c, rd_map (\<lambda>x. Vector_access (V128Load32Zero x)) (read_memarg 2)),
     (0x5d, rd_map (\<lambda>x. Vector_access (V128Load64Zero x)) (read_memarg 3)),
     (0x5e, named ''F32x4DemoteF64x2Zero'' []), (0x5f, named ''F64x2PromoteLowF32x4'' [])]"

definition vector_arithmetic :: "(nat \<times> operator reading) list" where
  "vector_arithmetic =
    [(0x60, named ''I8x16Abs'' []), (0x61, named ''I8x16Neg'' []), (0x62, named ''I8x16Popcnt'' []),
     (0x63, named ''I8x16AllTrue'' []), (0x64, named ''I8x16Bitmask'' []), (0x65, named ''I8x16NarrowI16x8S'' []),
     (0x66, named ''I8x16NarrowI16x8U'' []), (0x67, named ''F32x4Ceil'' []), (0x68, named ''F32x4Floor'' []),
     (0x69, named ''F32x4Trunc'' []), (0x6a, named ''F32x4Nearest'' []), (0x6b, named ''I8x16Shl'' []),
     (0x6c, named ''I8x16ShrS'' []), (0x6d, named ''I8x16ShrU'' []), (0x6e, named ''I8x16Add'' []),
     (0x6f, named ''I8x16AddSatS'' []), (0x70, named ''I8x16AddSatU'' []), (0x71, named ''I8x16Sub'' []),
     (0x72, named ''I8x16SubSatS'' []), (0x73, named ''I8x16SubSatU'' []), (0x74, named ''F64x2Ceil'' []),
     (0x75, named ''F64x2Floor'' []), (0x76, named ''I8x16MinS'' []), (0x77, named ''I8x16MinU'' []),
     (0x78, named ''I8x16MaxS'' []), (0x79, named ''I8x16MaxU'' []), (0x7a, named ''F64x2Trunc'' []),
     (0x7b, named ''I8x16AvgrU'' []), (0x7c, named ''I16x8ExtAddPairwiseI8x16S'' []),
     (0x7d, named ''I16x8ExtAddPairwiseI8x16U'' []), (0x7e, named ''I32x4ExtAddPairwiseI16x8S'' []),
     (0x7f, named ''I32x4ExtAddPairwiseI16x8U'' []), (0x80, named ''I16x8Abs'' []), (0x81, named ''I16x8Neg'' []),
     (0x82, named ''I16x8Q15MulrSatS'' []), (0x83, named ''I16x8AllTrue'' []), (0x84, named ''I16x8Bitmask'' []),
     (0x85, named ''I16x8NarrowI32x4S'' []), (0x86, named ''I16x8NarrowI32x4U'' []),
     (0x87, named ''I16x8ExtendLowI8x16S'' []), (0x88, named ''I16x8ExtendHighI8x16S'' []),
     (0x89, named ''I16x8ExtendLowI8x16U'' []), (0x8a, named ''I16x8ExtendHighI8x16U'' []),
     (0x8b, named ''I16x8Shl'' []), (0x8c, named ''I16x8ShrS'' []), (0x8d, named ''I16x8ShrU'' []),
     (0x8e, named ''I16x8Add'' []), (0x8f, named ''I16x8AddSatS'' []), (0x90, named ''I16x8AddSatU'' []),
     (0x91, named ''I16x8Sub'' []), (0x92, named ''I16x8SubSatS'' []), (0x93, named ''I16x8SubSatU'' []),
     (0x94, named ''F64x2Nearest'' []), (0x95, named ''I16x8Mul'' []), (0x96, named ''I16x8MinS'' []),
     (0x97, named ''I16x8MinU'' []), (0x98, named ''I16x8MaxS'' []), (0x99, named ''I16x8MaxU'' []),
     (0x9b, named ''I16x8AvgrU'' []), (0x9c, named ''I16x8ExtMulLowI8x16S'' []),
     (0x9d, named ''I16x8ExtMulHighI8x16S'' []), (0x9e, named ''I16x8ExtMulLowI8x16U'' []),
     (0x9f, named ''I16x8ExtMulHighI8x16U'' []), (0xa0, named ''I32x4Abs'' []), (0xa1, named ''I32x4Neg'' []),
     (0xa3, named ''I32x4AllTrue'' []), (0xa4, named ''I32x4Bitmask'' []), (0xa7, named ''I32x4ExtendLowI16x8S'' []),
     (0xa8, named ''I32x4ExtendHighI16x8S'' []), (0xa9, named ''I32x4ExtendLowI16x8U'' []),
     (0xaa, named ''I32x4ExtendHighI16x8U'' []), (0xab, named ''I32x4Shl'' []), (0xac, named ''I32x4ShrS'' []),
     (0xad, named ''I32x4ShrU'' []), (0xae, named ''I32x4Add'' []), (0xb1, named ''I32x4Sub'' []),
     (0xb5, named ''I32x4Mul'' []), (0xb6, named ''I32x4MinS'' []), (0xb7, named ''I32x4MinU'' []),
     (0xb8, named ''I32x4MaxS'' []), (0xb9, named ''I32x4MaxU'' []), (0xba, named ''I32x4DotI16x8S'' []),
     (0xbc, named ''I32x4ExtMulLowI16x8S'' []), (0xbd, named ''I32x4ExtMulHighI16x8S'' []),
     (0xbe, named ''I32x4ExtMulLowI16x8U'' []), (0xbf, named ''I32x4ExtMulHighI16x8U'' []),
     (0xc0, named ''I64x2Abs'' []), (0xc1, named ''I64x2Neg'' []), (0xc3, named ''I64x2AllTrue'' []),
     (0xc4, named ''I64x2Bitmask'' []), (0xc7, named ''I64x2ExtendLowI32x4S'' []),
     (0xc8, named ''I64x2ExtendHighI32x4S'' []), (0xc9, named ''I64x2ExtendLowI32x4U'' []),
     (0xca, named ''I64x2ExtendHighI32x4U'' []), (0xcb, named ''I64x2Shl'' []), (0xcc, named ''I64x2ShrS'' []),
     (0xcd, named ''I64x2ShrU'' []), (0xce, named ''I64x2Add'' []), (0xd1, named ''I64x2Sub'' []),
     (0xd5, named ''I64x2Mul'' []), (0xd6, named ''I64x2Eq'' []), (0xd7, named ''I64x2Ne'' []),
     (0xd8, named ''I64x2LtS'' []), (0xd9, named ''I64x2GtS'' []), (0xda, named ''I64x2LeS'' []),
     (0xdb, named ''I64x2GeS'' []), (0xdc, named ''I64x2ExtMulLowI32x4S'' []),
     (0xdd, named ''I64x2ExtMulHighI32x4S'' []), (0xde, named ''I64x2ExtMulLowI32x4U'' []),
     (0xdf, named ''I64x2ExtMulHighI32x4U'' []), (0xe0, named ''F32x4Abs'' []), (0xe1, named ''F32x4Neg'' []),
     (0xe3, named ''F32x4Sqrt'' []), (0xe4, named ''F32x4Add'' []), (0xe5, named ''F32x4Sub'' []),
     (0xe6, named ''F32x4Mul'' []), (0xe7, named ''F32x4Div'' []), (0xe8, named ''F32x4Min'' []),
     (0xe9, named ''F32x4Max'' []), (0xea, named ''F32x4PMin'' []), (0xeb, named ''F32x4PMax'' []),
     (0xec, named ''F64x2Abs'' []), (0xed, named ''F64x2Neg'' []), (0xef, named ''F64x2Sqrt'' []),
     (0xf0, named ''F64x2Add'' []), (0xf1, named ''F64x2Sub'' []), (0xf2, named ''F64x2Mul'' []),
     (0xf3, named ''F64x2Div'' []), (0xf4, named ''F64x2Min'' []), (0xf5, named ''F64x2Max'' []),
     (0xf6, named ''F64x2PMin'' []), (0xf7, named ''F64x2PMax'' []), (0xf8, named ''I32x4TruncSatF32x4S'' []),
     (0xf9, named ''I32x4TruncSatF32x4U'' []), (0xfa, named ''F32x4ConvertI32x4S'' []),
     (0xfb, named ''F32x4ConvertI32x4U'' []), (0xfc, named ''I32x4TruncSatF64x2SZero'' []),
     (0xfd, named ''I32x4TruncSatF64x2UZero'' []), (0xfe, named ''F64x2ConvertLowI32x4S'' []),
     (0xff, named ''F64x2ConvertLowI32x4U'' [])]"

definition relaxed_operators :: "(nat \<times> operator reading) list" where
  "relaxed_operators =
    [(0x100, named ''I8x16RelaxedSwizzle'' []), (0x101, named ''I32x4RelaxedTruncF32x4S'' []),
     (0x102, named ''I32x4RelaxedTruncF32x4U'' []), (0x103, named ''I32x4RelaxedTruncF64x2SZero'' []),
     (0x104, named ''I32x4RelaxedTruncF64x2UZero'' []), (0x105, named ''F32x4RelaxedMadd'' []),
     (0x106, named ''F32x4RelaxedNmadd'' []), (0x107, named ''F64x2RelaxedMadd'' []),
     (0x108, named ''F64x2RelaxedNmadd'' []), (0x109, named ''I8x16RelaxedLaneselect'' []),
     (0x10a, named ''I16x8RelaxedLaneselect'' []), (0x10b, named ''I32x4RelaxedLaneselect'' []),
     (0x10c, named ''I64x2RelaxedLaneselect'' []), (0x10d, named ''F32x4RelaxedMin'' []),
     (0x10e, named ''F32x4RelaxedMax'' []), (0x10f, named ''F64x2RelaxedMin'' []),
     (0x110, named ''F64x2RelaxedMax'' []), (0x111, named ''I16x8RelaxedQ15mulrS'' []),
     (0x112, named ''I16x8RelaxedDotI8x16I7x16S'' []), (0x113, named ''I32x4RelaxedDotI8x16I7x16AddS'' [])]"

section \<open>Reading an operator\<close>

text \<open>The arm of the opcode, or the error at the position of the operator.\<close>

definition visit_code :: "nat \<Rightarrow> string \<Rightarrow> (nat \<times> operator reading) list \<Rightarrow> nat \<Rightarrow> operator reading" where
  "visit_code pos what arms code =
     (case map_of arms code of Some m \<Rightarrow> m | None \<Rightarrow> bail pos (what @ ''0x'' @ show_hex code))"

definition visit_0xfb_operator :: "nat \<Rightarrow> operator reading" where
  "visit_0xfb_operator pos = rd_then read_index (visit_code pos ''unknown 0xfb subopcode: '' gc_operators)"

definition visit_0xfc_operator :: "nat \<Rightarrow> operator reading" where
  "visit_0xfc_operator pos = rd_then read_index (visit_code pos ''unknown 0xfc subopcode: '' misc_operators)"

definition visit_0xfd_operator :: "nat \<Rightarrow> operator reading" where
  "visit_0xfd_operator pos =
     rd_then read_index
       (visit_code pos ''unknown 0xfd subopcode: ''
         (vector_operators @ vector_comparisons @ vector_lane_operators @ vector_arithmetic @ relaxed_operators))"

definition visit_0xfe_operator :: "nat \<Rightarrow> operator reading" where
  "visit_0xfe_operator pos =
     rd_then read_index
       (visit_code pos ''unknown 0xfe subopcode: '' (atomic_accesses pos @ atomic_updates @ shared_operators))"

definition core_operators :: "(nat \<times> operator reading) list" where
  "core_operators =
     control_operators @ variable_operators @ memory_operators @ constant_operators @ comparison_operators @
     integer_operators @ float_operators @ conversion_operators @ reference_operators @ stack_operators"

definition visit_operator_at :: "nat \<Rightarrow> operator reading" where
  "visit_operator_at pos =
     rd_then read_u8 (\<lambda>code.
       if code = 0xfb then visit_0xfb_operator pos
       else if code = 0xfc then visit_0xfc_operator pos
       else if code = 0xfd then visit_0xfd_operator pos
       else if code = 0xfe then visit_0xfe_operator pos
       else visit_code pos ''illegal opcode: '' core_operators (unat code))"

definition read_operator :: "operator reading" where
  "read_operator r = visit_operator_at (original_position r) r"

section \<open>How operators move\<close>

text \<open>
  Reading an operator is steady and consumes a byte: table by table, every entry is steady. Loops that
  read operators until the end of a buffer or an \<open>end\<close> therefore return.
\<close>

definition steady_arms :: "(nat \<times> operator reading) list \<Rightarrow> bool" where
  "steady_arms arms \<longleftrightarrow> list_all (\<lambda>(_, m). steady m) arms"

lemma steady_arms_simps [simp]:
  "steady_arms []"
  "steady_arms ((c, m) # arms) \<longleftrightarrow> steady m \<and> steady_arms arms"
  "steady_arms (arms @ arms') \<longleftrightarrow> steady_arms arms \<and> steady_arms arms'"
  by (simp_all add: steady_arms_def)

lemma steady_visit_code [steadiness]: "steady_arms arms \<Longrightarrow> steady (visit_code pos what arms code)"
  unfolding visit_code_def
  by (auto simp: steady_arms_def list_all_iff steadiness split: option.split dest: map_of_SomeD)

lemma steady_named: "list_all steady immediates \<Longrightarrow> steady (named n immediates)"
  unfolding named_def by (intro steadiness)

lemma steady_replicate: "steady m \<Longrightarrow> list_all steady (replicate n m)"
  by (simp add: list_all_iff)

lemma steady_special:
  "steady typed_select" "steady (br_on_cast n)" "steady (atomic_fence pos)"
proof -
  show "steady typed_select" unfolding typed_select_def by (intro steadiness steady_named) (simp add: steadiness)
  show "steady (atomic_fence pos)" unfolding atomic_fence_def by (intro steadiness)
  have "steady (br_on_cast_from n p)" for p
    unfolding br_on_cast_from_def ok_or_implementation_error_def by (intro steadiness)
  moreover have "br_on_cast n = (\<lambda>r. br_on_cast_from n (original_position r) r)" by (rule ext) (rule br_on_cast_def)
  ultimately show "steady (br_on_cast n)" using steady_at [of "\<lambda>r. br_on_cast_from n (original_position r)"] by simp
qed

lemmas steady_entries = steady_ok steady_map steady_map2 steady_forget steady_named steady_replicate steady_special steady_var steady_fixed
  steady_indices steady_read_index steady_read_heap_type steady_read_types steady_memarg steady_immediates
  steady_read_br_table

subsection \<open>The tables\<close>

lemma steady_control_operators: "steady_arms control_operators"
  by (simp add: control_operators_def steady_entries)

lemma steady_variable_operators: "steady_arms variable_operators"
  by (simp add: variable_operators_def steady_entries)

lemma steady_memory_operators: "steady_arms memory_operators"
  by (simp add: memory_operators_def steady_entries)

lemma steady_constant_operators: "steady_arms constant_operators"
  by (simp add: constant_operators_def steady_entries)

lemma steady_comparison_operators: "steady_arms comparison_operators"
  by (simp add: comparison_operators_def steady_entries)

lemma steady_integer_operators: "steady_arms integer_operators"
  by (simp add: integer_operators_def steady_entries)

lemma steady_float_operators: "steady_arms float_operators"
  by (simp add: float_operators_def steady_entries)

lemma steady_conversion_operators: "steady_arms conversion_operators"
  by (simp add: conversion_operators_def steady_entries)

lemma steady_reference_operators: "steady_arms reference_operators"
  by (simp add: reference_operators_def steady_entries)

lemma steady_stack_operators: "steady_arms stack_operators"
  by (simp add: stack_operators_def steady_entries)

lemma steady_gc_operators: "steady_arms gc_operators"
  by (simp add: gc_operators_def steady_entries)

lemma steady_misc_operators: "steady_arms misc_operators"
  by (simp add: misc_operators_def steady_entries)

lemma steady_atomic_accesses: "steady_arms (atomic_accesses pos)"
  by (simp add: atomic_accesses_def steady_entries)

lemma steady_atomic_updates: "steady_arms atomic_updates"
  by (simp add: atomic_updates_def steady_entries)

lemma steady_shared_operators: "steady_arms shared_operators"
  by (simp add: shared_operators_def steady_entries)

lemma steady_vector_operators: "steady_arms vector_operators"
  by (simp add: vector_operators_def steady_entries)

lemma steady_vector_comparisons: "steady_arms vector_comparisons"
  by (simp add: vector_comparisons_def steady_entries)

lemma steady_vector_lane_operators: "steady_arms vector_lane_operators"
  by (simp add: vector_lane_operators_def steady_entries)

lemma steady_vector_arithmetic: "steady_arms vector_arithmetic"
  by (simp add: vector_arithmetic_def steady_entries)

lemma steady_relaxed_operators: "steady_arms relaxed_operators"
  by (simp add: relaxed_operators_def steady_entries)

lemmas steady_tables = steady_control_operators steady_variable_operators steady_memory_operators steady_constant_operators
  steady_comparison_operators steady_integer_operators steady_float_operators
  steady_conversion_operators steady_reference_operators steady_stack_operators steady_gc_operators
  steady_misc_operators steady_atomic_accesses steady_atomic_updates steady_shared_operators
  steady_vector_operators steady_vector_comparisons steady_vector_lane_operators
  steady_vector_arithmetic steady_relaxed_operators

subsection \<open>The operator\<close>

lemma steady_prefixed [steadiness]:
  "steady (visit_0xfb_operator pos)" "steady (visit_0xfc_operator pos)" "steady (visit_0xfd_operator pos)"
  "steady (visit_0xfe_operator pos)"
  unfolding visit_0xfb_operator_def visit_0xfc_operator_def visit_0xfd_operator_def visit_0xfe_operator_def
  by (intro steadiness; simp add: steady_tables)+

lemma steady_core_operators: "steady_arms core_operators"
  by (simp add: core_operators_def steady_tables)

lemma visit_operator_moves: "steady (visit_operator_at pos)" "consuming (visit_operator_at pos)"
  unfolding visit_operator_at_def by (intro steadiness consumption steady_core_operators)+

lemma steady_read_operator [steadiness]: "steady read_operator"
proof -
  have "read_operator = (\<lambda>r. visit_operator_at (original_position r) r)" by (rule ext) (rule read_operator_def)
  then show ?thesis using steady_at [of "\<lambda>r. visit_operator_at (original_position r)"] visit_operator_moves(1) by simp
qed

lemma consuming_read_operator [consumption]: "consuming read_operator"
  using visit_operator_moves(2) by (simp add: consuming_def read_operator_def)

lemma read_operator_shorter:
  assumes "read_operator r = (Inr op, r1)"
  shows "bytes_remaining r1 < bytes_remaining r"
proof -
  obtain k where k: "r1 = move_on k r" "k = 0 \<or> br_position r + k \<le> length (br_buffer r)"
    using steadyD [OF steady_read_operator, of r] assms by auto
  have "br_position r < br_position r1"
    using consuming_read_operator assms unfolding consuming_def by (metis fst_conv snd_conv)
  then show ?thesis using k by (auto simp: bytes_remaining_def)
qed

end
