(* ===== verification/SectionReader.thy ===== *)
theory SectionReader
  imports OperatorReader WasmParse
begin

text \<open>
  Reading the items of sections (\<open>readers.rs\<close> and the files of \<open>readers/core\<close>). A section is a count and a
  reader; iterating it gives its items, stops after an error, and ends with an error when bytes
  are left. The iterators, constant expressions and function bodies the translator goes through
  are the sequences of their results, with errors as their text.
\<close>

section \<open>Iterating\<close>

record section_limited =
  sl_reader :: byte_reader
  sl_count :: nat

definition section_new :: "byte_reader \<Rightarrow> reader_error + section_limited" where
  "section_new reader =
     (case read_index reader of
        (Inl e, _) \<Rightarrow> Inl e
      | (Inr cnt, r1) \<Rightarrow> Inr \<lparr>sl_reader = r1, sl_count = cnt\<rparr>)"

record limited_iter =
  li_reader :: byte_reader
  li_remaining :: nat
  li_end :: bool

definition section_into_iter :: "section_limited \<Rightarrow> limited_iter" where
  "section_into_iter s = \<lparr>li_reader = sl_reader s, li_remaining = sl_count s, li_end = False\<rparr>"

definition section_next :: "'a reading \<Rightarrow> limited_iter \<Rightarrow> (reader_error + 'a) option \<times> limited_iter" where
  "section_next item it =
     (if li_end it then (None, it)
      else if li_remaining it = 0 then
        (if reader_eof (li_reader it) then None
         else Some (Inl (error_new ''section size mismatch: unexpected data at the end of the section''
           (original_position (li_reader it)))),
         it\<lparr>li_end := True\<rparr>)
      else
        (case item (li_reader it) of
           (Inl e, r1) \<Rightarrow> (Some (Inl e), \<lparr>li_reader = r1, li_remaining = li_remaining it - 1, li_end = True\<rparr>)
         | (Inr x, r1) \<Rightarrow> (Some (Inr x), \<lparr>li_reader = r1, li_remaining = li_remaining it - 1, li_end = False\<rparr>)))"

definition text_of :: "reader_error + 'a \<Rightarrow> string + 'a" where
  "text_of res = (case res of Inl e \<Rightarrow> Inl (show_reader_error e) | Inr x \<Rightarrow> Inr x)"

function section_results :: "'a reading \<Rightarrow> limited_iter \<Rightarrow> (string + 'a) list" where
  "section_results item it =
     (case section_next item it of
        (None, _) \<Rightarrow> []
      | (Some res, it1) \<Rightarrow> text_of res # section_results item it1)"
  by pat_completeness auto
termination section_results
  by (relation "measure (\<lambda>(_, it). if li_end it then 0 else Suc (li_remaining it))")
    (auto simp: section_next_def split: if_splits prod.splits sum.splits)

declare section_results.simps [simp del]

definition section_items :: "'a reading \<Rightarrow> byte_reader \<Rightarrow> reader_error + (string + 'a) list" where
  "section_items item reader =
     (case section_new reader of
        Inl e \<Rightarrow> Inl e
      | Inr s \<Rightarrow> Inr (section_results item (section_into_iter s)))"

text \<open>A constructor that fails, on a part of the reader that was skipped.\<close>

definition rd_with :: "byte_reader reading \<Rightarrow> (byte_reader \<Rightarrow> reader_error + 'a) \<Rightarrow> 'a reading" where
  "rd_with part ctor =
     rd_then part (\<lambda>reader. case ctor reader of Inl e \<Rightarrow> rd_err (\<lambda>_. e) | Inr x \<Rightarrow> rd_ok x)"

text \<open>A loop that reads and forgets.\<close>

fun times :: "nat \<Rightarrow> unit reading \<Rightarrow> unit reading" where
  "times 0 m = rd_ok ()"
| "times (Suc n) m = rd_then m (\<lambda>_. times n m)"

section \<open>Operators\<close>

text \<open>\<open>OperatorsIterator\<close>.\<close>

function operators_from :: "byte_reader \<Rightarrow> operators_reader" where
  "operators_from r =
     (if reader_eof r then []
      else
        (case read_operator r of
           (Inl e, _) \<Rightarrow> [Inl (show_reader_error e)]
         | (Inr op, r1) \<Rightarrow> Inr op # operators_from r1))"
  by pat_completeness auto
termination operators_from
  by (relation "measure bytes_remaining") (auto dest: read_operator_shorter [OF sym])

function skip_const_expr :: "unit reading" where
  "skip_const_expr r =
     (case read_operator r of
        (Inl e, r1) \<Rightarrow> (Inl e, r1)
      | (Inr op, r1) \<Rightarrow> (case op of End \<Rightarrow> (Inr (), r1) | _ \<Rightarrow> skip_const_expr r1))"
  by pat_completeness auto
termination skip_const_expr
  by (relation "measure bytes_remaining") (auto dest: read_operator_shorter [OF sym])

declare operators_from.simps [simp del] skip_const_expr.simps [simp del]

definition read_const_expr :: "operators_reader reading" where
  "read_const_expr = rd_map operators_from (skip skip_const_expr)"

section \<open>Function bodies\<close>

definition skip_locals :: "unit reading" where
  "skip_locals = rd_then read_index (\<lambda>cnt. times cnt (rd_then read_index (\<lambda>_. forget read_val_type)))"

definition read_local :: "(nat \<times> val_type) reading" where
  "read_local = rd_map2 Pair read_index read_val_type"

fun locals_from :: "nat \<Rightarrow> byte_reader \<Rightarrow> (string + nat \<times> val_type) list" where
  "locals_from 0 r = []"
| "locals_from (Suc left) r =
     (case read_local r of
        (Inl e, _) \<Rightarrow> [Inl (show_reader_error e)]
      | (Inr l, r1) \<Rightarrow> Inr l # locals_from left r1)"

definition get_locals_reader :: "byte_reader \<Rightarrow> string + (string + nat \<times> val_type) list" where
  "get_locals_reader reader =
     (case read_index reader of
        (Inl e, _) \<Rightarrow> Inl (show_reader_error e)
      | (Inr cnt, r1) \<Rightarrow> Inr (locals_from cnt r1))"

definition get_operators_reader :: "byte_reader \<Rightarrow> string + operators_reader" where
  "get_operators_reader reader =
     (case skip_locals reader of
        (Inl e, _) \<Rightarrow> Inl (show_reader_error e)
      | (Inr _, r1) \<Rightarrow> Inr (operators_from r1))"

definition function_body_new :: "byte_reader \<Rightarrow> function_body" where
  "function_body_new reader =
     \<lparr>fb_locals_reader = get_locals_reader reader, fb_operators_reader = get_operators_reader reader\<rparr>"

section \<open>Types\<close>

definition MAX_WASM_TYPES :: nat where "MAX_WASM_TYPES = 1000000"
definition MAX_WASM_SUPERTYPES :: nat where "MAX_WASM_SUPERTYPES = 1"
definition MAX_WASM_FUNCTION_PARAMS :: nat where "MAX_WASM_FUNCTION_PARAMS = 1000"
definition MAX_WASM_FUNCTION_RETURNS :: nat where "MAX_WASM_FUNCTION_RETURNS = 1000"
definition MAX_WASM_STRUCT_FIELDS :: nat where "MAX_WASM_STRUCT_FIELDS = 10000"

definition read_func_type :: "composite_type reading" where
  "read_func_type =
     rd_map2 Composite_Func (read_iter MAX_WASM_FUNCTION_PARAMS ''function params'' read_val_type)
       (read_iter MAX_WASM_FUNCTION_RETURNS ''function returns'' read_val_type)"

definition read_storage_type :: "unit reading" where
  "read_storage_type =
     rd_then peek (\<lambda>b. if b = 0x78 \<or> b = 0x77 then forget read_u8 else forget read_val_type)"

definition read_field_type :: "unit reading" where
  "read_field_type =
     rd_then read_storage_type (\<lambda>_. rd_then read_u8 (\<lambda>mutable.
       if mutable = 0 \<or> mutable = 1 then rd_ok () else fail_here ''malformed mutability byte for field type''))"

definition read_cont_type :: "unit reading" where
  "read_cont_type =
     rd_then read_var_s33 (\<lambda>s.
       case u32_try_from s of
         None \<Rightarrow> fail_here ''invalid continuation type''
       | Some idx \<Rightarrow>
           (case from_module_index idx of
              Some _ \<Rightarrow> rd_ok ()
            | None \<Rightarrow> fail_here ''type index greater than implementation limits''))"

definition read_composite_inner :: "byte \<Rightarrow> composite_type reading" where
  "read_composite_inner opcode =
     (if opcode = 0x60 then read_func_type
      else if opcode = 0x5e then rd_map (\<lambda>_. Composite_Array) read_field_type
      else if opcode = 0x5f then rd_map (\<lambda>_. Composite_Struct) (read_iter MAX_WASM_STRUCT_FIELDS ''struct fields'' read_field_type)
      else if opcode = 0x5d then rd_map (\<lambda>_. Composite_Cont) read_cont_type
      else invalid_leading_byte opcode ''type'')"

definition read_composite_type :: "byte \<Rightarrow> composite_type reading" where
  "read_composite_type opcode =
     (if opcode = 0x65 then rd_then read_u8 read_composite_inner else read_composite_inner opcode)"

definition read_sub_type_at :: "nat \<Rightarrow> composite_type reading" where
  "read_sub_type_at pos =
     rd_then read_u8 (\<lambda>opcode.
       if opcode = 0x4f \<or> opcode = 0x50 then
         rd_then (read_iter MAX_WASM_SUPERTYPES ''supertype idxs'' read_index) (\<lambda>idxs.
           if 1 < length idxs then bail pos ''multiple supertypes not supported''
           else if list_ex (\<lambda>i. from_module_index i = None) idxs then fail_here ''type index greater than implementation limits''
           else rd_then read_u8 read_composite_type)
       else read_composite_type opcode)"

definition read_sub_type :: "composite_type reading" where
  "read_sub_type r = read_sub_type_at (original_position r) r"

definition read_rec_group :: "rec_group reading" where
  "read_rec_group =
     rd_then peek (\<lambda>b.
       if b = 0x4e then rd_then read_u8 (\<lambda>_. read_iter MAX_WASM_TYPES ''rec group types'' read_sub_type)
       else rd_map (\<lambda>ty. [ty]) read_sub_type)"

section \<open>Imports and exports\<close>

definition external_kind_from_byte :: "byte \<Rightarrow> nat \<Rightarrow> reader_error + external_kind" where
  "external_kind_from_byte b offset =
     (case map_of [(0, Kind_Func), (1, Kind_Table), (2, Kind_Memory), (3, Kind_Global), (4, Kind_Tag)] (unat b) of
        Some k \<Rightarrow> Inr k
      | None \<Rightarrow> Inl (invalid_leading_byte_error b ''external kind'' offset))"

definition read_external_kind :: "external_kind reading" where
  "read_external_kind r =
     rd_then read_u8 (\<lambda>b. case external_kind_from_byte b (original_position r) of Inl e \<Rightarrow> rd_err (\<lambda>_. e) | Inr k \<Rightarrow> rd_ok k) r"

text \<open>The sizes of tables and memories, of the width the flags give.\<close>

definition read_limit :: "bool \<Rightarrow> nat reading" where
  "read_limit wide = (if wide then rd_map unat read_var_u64 else read_index)"

definition read_maximum :: "bool \<Rightarrow> bool \<Rightarrow> nat option reading" where
  "read_maximum has_max wide = (if \<not> has_max then rd_ok None else rd_map Some (read_limit wide))"

definition read_table_type_from :: "ref_type \<Rightarrow> nat \<Rightarrow> table_type reading" where
  "read_table_type_from element_type pos =
     rd_then read_u8 (\<lambda>flags.
       if flags AND NOT 7 \<noteq> 0 then bail pos ''invalid table resizable limits flags''
       else
         let has_max = flags AND 1 \<noteq> 0; shared = flags AND 2 \<noteq> 0; table64 = flags AND 4 \<noteq> 0
         in rd_map2 (\<lambda>initial maximum. \<lparr>tt_element_type = element_type, tt_table64 = table64, tt_initial = initial,
              tt_maximum = maximum, tt_shared = shared\<rparr>) (read_limit table64) (read_maximum has_max table64))"

definition read_table_type :: "table_type reading" where
  "read_table_type =
     rd_then read_ref_type (\<lambda>element_type r. read_table_type_from element_type (original_position r) r)"

definition read_memory_type_at :: "nat \<Rightarrow> memory_type reading" where
  "read_memory_type_at pos =
     rd_then read_u8 (\<lambda>flags.
       if flags AND NOT 15 \<noteq> 0 then bail pos ''invalid memory limits flags''
       else
         let memory64 = flags AND 4 \<noteq> 0; shared = flags AND 2 \<noteq> 0; has_max = flags AND 1 \<noteq> 0;
           has_page_size = flags AND 8 \<noteq> 0
         in rd_then (read_limit memory64) (\<lambda>initial. rd_then (read_maximum has_max memory64) (\<lambda>maximum.
            rd_then (read_maximum has_page_size False) (\<lambda>page_size_log2.
              rd_ok \<lparr>mt_memory64 = memory64, mt_shared = shared, mt_initial = initial, mt_maximum = maximum,
                mt_page_size_log2 = page_size_log2\<rparr>))))"

definition read_memory_type :: "memory_type reading" where
  "read_memory_type r = read_memory_type_at (original_position r) r"

definition read_global_type_with :: "bool \<Rightarrow> global_type reading" where
  "read_global_type_with shared_everything_threads =
     rd_then read_val_type (\<lambda>content_type. rd_then read_u8 (\<lambda>flags.
       if shared_everything_threads \<and> 3 < flags then fail_before ''malformed global flags''
       else if \<not> shared_everything_threads \<and> 1 < flags then
         fail_before ''malformed mutability -- or shared globals require the shared-everything-threads proposal''
       else rd_ok \<lparr>gt_content_type = content_type, gt_mutable = (flags AND 1 \<noteq> 0), gt_shared = (flags AND 2 \<noteq> 0)\<rparr>))"

definition read_global_type :: "global_type reading" where
  "read_global_type r = read_global_type_with (Shared_everything_threads \<in> set (br_features r)) r"

definition read_tag_type :: "nat reading" where
  "read_tag_type =
     rd_then read_u8 (\<lambda>attribute. if attribute \<noteq> 0 then fail_before ''invalid tag attributes'' else read_index)"

definition read_type_ref :: "type_ref reading" where
  "read_type_ref =
     rd_then read_external_kind (\<lambda>k.
       case k of
         Kind_Func \<Rightarrow> rd_map TypeRef_Func read_index
       | Kind_Table \<Rightarrow> rd_map TypeRef_Table read_table_type
       | Kind_Memory \<Rightarrow> rd_map TypeRef_Memory read_memory_type
       | Kind_Global \<Rightarrow> rd_map TypeRef_Global read_global_type
       | Kind_Tag \<Rightarrow> rd_map TypeRef_Tag read_tag_type)"

definition read_import :: "wasm_import reading" where
  "read_import =
     rd_then read_string (\<lambda>m. rd_then read_string (\<lambda>n. rd_then read_type_ref (\<lambda>ty.
       rd_ok \<lparr>im_module = m, im_name = n, im_ty = ty\<rparr>)))"

definition read_export :: "wasm_export reading" where
  "read_export =
     rd_then read_string (\<lambda>n. rd_then read_external_kind (\<lambda>k. rd_then read_index (\<lambda>i.
       rd_ok \<lparr>ex_name = n, ex_kind = k, ex_index = i\<rparr>)))"

section \<open>Tables, globals, data and elements\<close>

definition read_table :: "wasm_table reading" where
  "read_table =
     rd_then peek (\<lambda>b.
       if b = 0x40 then
         rd_then read_u8 (\<lambda>_. rd_then read_u8 (\<lambda>b1.
           if b1 \<noteq> 0 then fail_before ''invalid table encoding''
           else rd_map2 (\<lambda>ty e. \<lparr>tb_ty = ty, tb_init = Expr_init e\<rparr>) read_table_type read_const_expr))
       else rd_map (\<lambda>ty. \<lparr>tb_ty = ty, tb_init = RefNull_init\<rparr>) read_table_type)"

definition read_global :: "wasm_global reading" where
  "read_global = rd_map2 (\<lambda>ty e. \<lparr>gl_ty = ty, gl_init_expr = e\<rparr>) read_global_type read_const_expr"

definition read_data_at :: "nat \<Rightarrow> wasm_data reading" where
  "read_data_at segment_start =
     rd_then read_index (\<lambda>flags.
     rd_then
       (if flags = 1 then rd_ok Data_Passive
        else if flags = 0 \<or> flags = 2 then
          rd_map2 Data_Active (if flags = 0 then rd_ok 0 else read_index) read_const_expr
        else bail segment_start ''invalid flags byte in data segment'') (\<lambda>k.
     rd_then read_reader (\<lambda>d.
       rd_ok \<lparr>da_kind = k, da_data = map unat (remaining_buffer d)\<rparr>)))"

definition read_data :: "wasm_data reading" where
  "read_data r = read_data_at (original_position r) r"

definition read_element_kind :: "32 word \<Rightarrow> element_kind reading" where
  "read_element_kind flags =
     (if flags AND 1 \<noteq> 0 then rd_ok (if flags AND 2 \<noteq> 0 then Element_Declared else Element_Passive)
      else rd_map2 Element_Active (if flags AND 2 = 0 then rd_ok None else rd_map Some read_index) read_const_expr)"

definition read_element_type :: "32 word \<Rightarrow> ref_type option reading" where
  "read_element_type flags =
     (if flags AND 3 \<noteq> 0 then
        (if flags AND 4 \<noteq> 0 then rd_map Some read_ref_type
         else
           rd_then read_external_kind (\<lambda>k.
             if k = Kind_Func then rd_ok None
             else fail_before ''only the function external type is supported in elem segment''))
      else rd_ok None)"

definition skip_element_items :: "bool \<Rightarrow> unit reading" where
  "skip_element_items exprs =
     rd_then read_index (\<lambda>items_count. times items_count (if exprs then skip_const_expr else forget read_index))"

definition element_items_new :: "bool \<Rightarrow> ref_type option \<Rightarrow> byte_reader \<Rightarrow> reader_error + element_items" where
  "element_items_new exprs ty d =
     (if exprs then map_sum id (Items_Expressions (case ty of Some t \<Rightarrow> t | None \<Rightarrow> FUNCREF)) (section_items read_const_expr d)
      else map_sum id Items_Functions (section_items read_index d))"

definition read_element :: "wasm_element reading" where
  "read_element =
     rd_then read_var_u32 (\<lambda>flags.
       if flags AND NOT 7 \<noteq> 0 then fail_before ''invalid flags byte in element segment''
       else
         rd_then (read_element_kind flags) (\<lambda>k.
         rd_then (read_element_type flags) (\<lambda>ty.
         rd_map (\<lambda>elem_items. \<lparr>el_kind = k, el_items = elem_items\<rparr>)
           (rd_with (skip (skip_element_items (flags AND 4 \<noteq> 0))) (element_items_new (flags AND 4 \<noteq> 0) ty)))))"

section \<open>Names\<close>

definition read_naming :: "(nat \<times> string) reading" where
  "read_naming = rd_map2 Pair read_index read_unlimited_string"

definition read_indirect_naming :: "(nat \<times> (string + nat \<times> string) list) reading" where
  "read_indirect_naming =
     rd_map2 Pair read_index
       (rd_with (skip (rd_then read_index (\<lambda>cnt. times cnt (rd_then read_index (\<lambda>_. skip_string)))))
         (section_items read_naming))"

definition module_name_reading :: "wasm_name reading" where
  "module_name_reading =
     rd_then read_string (\<lambda>n r.
       if \<not> reader_eof r then fail_here ''trailing data at the end of a name'' r else rd_ok (Name_Module n) r)"

definition name_from_reader :: "nat \<Rightarrow> byte_reader \<Rightarrow> reader_error + wasm_name" where
  "name_from_reader i reader =
     (if i = 0 then fst (module_name_reading reader)
      else if i = 1 then map_sum id Name_Function (section_items read_naming reader)
      else if i = 2 then map_sum id Name_Local (section_items read_indirect_naming reader)
      else
        (case map_of
           [(3, Name_Label), (4, Name_Type), (5, Name_Table), (6, Name_Memory), (7, Name_Global), (8, Name_Element),
            (9, Name_Data), (10, Name_Field), (11, Name_Tag)] i of
           Some n \<Rightarrow> map_sum id (\<lambda>_. n) (section_new reader)
         | None \<Rightarrow> Inr Name_Unknown))"

definition read_subsection :: "wasm_name reading" where
  "read_subsection =
     rd_then read_u7 (\<lambda>subsection_id. rd_with read_reader (name_from_reader (unat subsection_id)))"

text \<open>The iterator goes on after an error.\<close>

lemma read_u8_first: "\<not> reader_eof r \<Longrightarrow> snd (read_u8 r) = move_on 1 r"
  by (simp add: reader_eof_def read_u8_def)

lemma steady_rd_with [steadiness]: "steady part \<Longrightarrow> steady (rd_with part ctor)"
  unfolding rd_with_def by (intro steadiness)

lemma steady_times [steadiness]: "steady m \<Longrightarrow> steady (times n m)"
  by (induction n) (auto intro: steadiness)

lemma read_subsection_shorter:
  assumes "\<not> reader_eof r"
  shows "bytes_remaining (snd (read_subsection r)) < bytes_remaining r"
proof -
  let ?rest = "\<lambda>b. if b AND 0x80 \<noteq> 0 then fail_before ''invalid u7''
    else rd_with read_reader (name_from_reader (unat b))"
  obtain b where b: "read_u8 r = (Inr b, move_on 1 r)" using assms by (simp add: reader_eof_def read_u8_def)
  have "steady (?rest b)" by (intro steadiness)
  moreover have "snd (read_subsection r) = snd (?rest b (move_on 1 r))"
    using b by (simp add: read_subsection_def read_u7_def rd_then_def rd_ok_def fail_before_def rd_err_def)
  ultimately obtain k where "snd (read_subsection r) = move_on k (move_on 1 r)"
    "k = 0 \<or> br_position (move_on 1 r) + k \<le> length (br_buffer r)"
    using steadyD [of "?rest b" "move_on 1 r"] by auto
  then show ?thesis using assms by (auto simp: bytes_remaining_def reader_eof_def)
qed

function subsections_from :: "byte_reader \<Rightarrow> (string + wasm_name) list" where
  "subsections_from r =
     (if reader_eof r then []
      else (case read_subsection r of (res, r1) \<Rightarrow> text_of res # subsections_from r1))"
  by pat_completeness auto
termination subsections_from
  by (relation "measure bytes_remaining") (auto, metis read_subsection_shorter snd_conv)

declare subsections_from.simps [simp del]

record custom_section =
  cs_name :: string
  cs_reader :: byte_reader

definition custom_section_new :: "byte_reader \<Rightarrow> reader_error + custom_section" where
  "custom_section_new reader =
     (case read_string reader of
        (Inl e, _) \<Rightarrow> Inl e
      | (Inr n, r1) \<Rightarrow> Inr \<lparr>cs_name = n, cs_reader = r1\<rparr>)"

text \<open>The readers of the other known sections fail, if at all, into \<open>Unknown\<close>.\<close>

definition as_known :: "custom_section \<Rightarrow> known_custom" where
  "as_known s = (if cs_name s = ''name'' then Custom_Name (subsections_from (shrink (cs_reader s))) else Custom_other)"

end
