(* ===== verification/ModuleParser.thy ===== *)
theory ModuleParser
  imports SectionReader
begin

text \<open>
  The parser of modules and components (\<open>tools/inf-wasmparser/src/parser.rs\<close>): its state between two calls,
  one call on the bytes that are there, and \<open>parse_all\<close> with its stack of parsers for nested modules.
  A payload that has a parser of its own is paired with it. Sizes fit: a section that would make the
  subtractions underflow is refused first. \<open>translate_module\<close> is the translation to Rocq from the bytes.
\<close>

datatype wasm_encoding = Module_encoding | Component_encoding

datatype parser_state = Header_state | SectionStart_state | FunctionBody_state nat nat

record wasm_parser =
  ps_state :: parser_state
  ps_offset :: nat
  ps_max_size :: nat
  ps_encoding :: wasm_encoding
  ps_features :: "feature list"

type_synonym parsed_payload = "wasm_payload \<times> wasm_parser option"

datatype chunk = NeedMoreData nat | Parsed nat parsed_payload

definition parser_new :: "nat \<Rightarrow> wasm_parser" where
  "parser_new offset =
     \<lparr>ps_state = Header_state, ps_offset = offset, ps_max_size = 2 ^ 64 - 1, ps_encoding = Module_encoding,
      ps_features = all_features\<rparr>"

section \<open>Sections\<close>

definition clear_hint :: "reader_error \<Rightarrow> reader_error" where
  "clear_hint e = e\<lparr>re_needed_hint := None\<rparr>"

definition wasm_section :: "nat \<Rightarrow> (byte_reader \<Rightarrow> reader_error + 'a) \<Rightarrow> ('a \<Rightarrow> wasm_payload) \<Rightarrow> wasm_payload reading" where
  "wasm_section len ctor variant =
     rd_map variant (rd_with (skip (forget (read_bytes len))) (\<lambda>reader. map_sum clear_hint id (ctor reader)))"

definition single_item :: "nat \<Rightarrow> string \<Rightarrow> 'a reading \<Rightarrow> 'a reading" where
  "single_item len desc item =
     rd_then (skip (forget (read_bytes len))) (\<lambda>content.
       case item content of
         (Inl e, _) \<Rightarrow> rd_err (\<lambda>_. clear_hint e)
       | (Inr x, c1) \<Rightarrow>
           (if \<not> reader_eof c1 then bail (original_position c1) (''unexpected content in the '' @ desc @ '' section'')
            else rd_ok x))"

definition delimited :: "nat \<Rightarrow> 'a reading \<Rightarrow> ('a \<times> nat) reading" where
  "delimited len f r =
     rd_then f (\<lambda>ret r1.
       let used = original_position r1 - original_position r
       in if used \<le> len then (Inr (ret, len - used), r1)
          else (Inl (error_new ''unexpected end-of-file'' (original_position r)), r1)) r"

definition MAX_WASM_START_ARGS :: nat where "MAX_WASM_START_ARGS = 1000"
definition MAX_WASM_MODULE_SIZE :: nat where "MAX_WASM_MODULE_SIZE = 1024 * 1024 * 1024"

definition read_component_start :: "unit reading" where
  "read_component_start =
     rd_then read_index (\<lambda>_. rd_then (read_iter MAX_WASM_START_ARGS ''start function arguments'' read_index) (\<lambda>_.
       forget (read_size MAX_WASM_FUNCTION_RETURNS ''start function results'')))"

text \<open>The sections but the code section and nested modules.\<close>

definition module_section :: "nat \<Rightarrow> (nat \<times> wasm_payload reading) list" where
  "module_section len =
     [(1, wasm_section len (section_items read_rec_group) TypeSection),
      (2, wasm_section len (section_items read_import) ImportSection),
      (3, wasm_section len (section_items read_index) FunctionSection),
      (4, wasm_section len (section_items read_table) TableSection),
      (5, wasm_section len (section_items read_memory_type) MemorySection),
      (6, wasm_section len (section_items read_global) GlobalSection),
      (7, wasm_section len (section_items read_export) ExportSection),
      (8, rd_map StartSection (single_item len ''start'' read_index)),
      (9, wasm_section len (section_items read_element) ElementSection),
      (11, wasm_section len (section_items read_data) DataSection),
      (12, rd_map DataCountSection (single_item len ''data count'' read_index)),
      (13, wasm_section len section_new (\<lambda>_. TagSection))]"

definition component_section :: "nat \<Rightarrow> (nat \<times> wasm_payload reading) list" where
  "component_section len =
     [(2, wasm_section len section_new (\<lambda>_. InstanceSection)),
      (3, wasm_section len section_new (\<lambda>_. CoreTypeSection)),
      (5, wasm_section len section_new (\<lambda>_. ComponentInstanceSection)),
      (6, wasm_section len section_new (\<lambda>_. ComponentAliasSection)),
      (7, wasm_section len section_new (\<lambda>_. ComponentTypeSection)),
      (8, wasm_section len section_new (\<lambda>_. ComponentCanonicalSection)),
      (9, rd_map (\<lambda>_. ComponentStartSection) (single_item len ''component start'' read_component_start)),
      (10, wasm_section len section_new (\<lambda>_. ComponentImportSection)),
      (11, wasm_section len section_new (\<lambda>_. ComponentExportSection))]"

definition plain_section :: "wasm_encoding \<Rightarrow> nat \<Rightarrow> nat \<Rightarrow> wasm_payload reading" where
  "plain_section encoding i len =
     (if i = 0 then wasm_section len custom_section_new (\<lambda>s. CustomSection (as_known s))
      else
        (case map_of (case encoding of Module_encoding \<Rightarrow> module_section len | Component_encoding \<Rightarrow> component_section len) i of
           Some m \<Rightarrow> m
         | None \<Rightarrow> rd_map (\<lambda>_. UnknownSection) (read_bytes len)))"

text \<open>A nested parser starts after the header of its section and has the section's size.\<close>

definition nested_section :: "wasm_parser \<Rightarrow> nat \<Rightarrow> nat \<Rightarrow> nat \<Rightarrow> (parsed_payload \<times> wasm_parser) reading" where
  "nested_section p i len len_pos =
     (if MAX_WASM_MODULE_SIZE < len then
        bail len_pos ((if i = 1 then ''module'' else ''component '') @ '' section is too large'')
      else (\<lambda>r. rd_ok
        ((if i = 1 then ModuleSection else ComponentSection,
          Some ((parser_new (original_position r))\<lparr>ps_features := ps_features p, ps_max_size := len\<rparr>)),
         p\<lparr>ps_max_size := ps_max_size p - len, ps_offset := ps_offset p + len\<rparr>) r))"

definition code_section :: "wasm_parser \<Rightarrow> nat \<Rightarrow> (parsed_payload \<times> wasm_parser) reading" where
  "code_section p len =
     rd_map (\<lambda>(cnt, len1). ((CodeSectionStart cnt, None), p\<lparr>ps_state := FunctionBody_state cnt len1\<rparr>))
       (delimited len read_index)"

definition section_body :: "wasm_parser \<Rightarrow> nat \<Rightarrow> nat \<Rightarrow> nat \<Rightarrow> (parsed_payload \<times> wasm_parser) reading" where
  "section_body p i len len_pos =
     (if ps_encoding p = Module_encoding \<and> i = 10 then code_section p len
      else if ps_encoding p = Component_encoding \<and> (i = 1 \<or> i = 4) then nested_section p i len len_pos
      else rd_map (\<lambda>payload. ((payload, None), p)) (plain_section (ps_encoding p) i len))"

section \<open>One step\<close>

definition header_step :: "wasm_parser \<Rightarrow> nat \<Rightarrow> (parsed_payload \<times> wasm_parser) reading" where
  "header_step p start =
     rd_then read_header_version (\<lambda>header_version.
       case map_of [(0, Module_encoding), (1, Component_encoding)] (unat (drop_bit 16 header_version)) of
         Some encoding \<Rightarrow> rd_ok ((Version, None), p\<lparr>ps_encoding := encoding, ps_state := SectionStart_state\<rparr>)
       | None \<Rightarrow>
           (let hex = ''0x'' @ show_hex (unat header_version)
            in bail (start + 4) (''unknown binary version: '' @ replicate (10 - length hex) CHR '' '' @ hex)))"

definition section_step :: "wasm_parser \<Rightarrow> nat \<Rightarrow> (parsed_payload \<times> wasm_parser) reading" where
  "section_step p id_pos =
     rd_then read_u8 (\<lambda>i.
       if i AND 0x80 \<noteq> 0 then bail id_pos ''malformed section id''
       else
         rd_then read_index (\<lambda>len r.
           if ps_max_size p < original_position r - id_pos + len then
             bail (id_pos + 1) ''section too large'' r
           else section_body p (unat i) len (id_pos + 1) r))"

definition body_step :: "wasm_parser \<Rightarrow> nat \<Rightarrow> nat \<Rightarrow> (parsed_payload \<times> wasm_parser) reading" where
  "body_step p remaining len =
     (if remaining = 0 then fail_here ''trailing bytes at end of section''
      else
        rd_map (\<lambda>(reader, len1). ((CodeSectionEntry (function_body_new reader), None),
            p\<lparr>ps_state := FunctionBody_state (remaining - 1) len1\<rparr>))
          (delimited len read_reader))"

text \<open>After the last function body, the parser is at the start of a section again.\<close>

definition bodies_done :: "wasm_parser \<Rightarrow> wasm_parser" where
  "bodies_done p = (if ps_state p = FunctionBody_state 0 0 then p\<lparr>ps_state := SectionStart_state\<rparr> else p)"

definition parse_step :: "wasm_parser \<Rightarrow> bool \<Rightarrow> (parsed_payload \<times> wasm_parser) reading" where
  "parse_step p eof r =
     (case ps_state p of
        Header_state \<Rightarrow> header_step p (original_position r) r
      | SectionStart_state \<Rightarrow>
          (if eof \<and> bytes_remaining r = 0 then rd_ok ((End_payload, None), p) r
           else section_step p (original_position r) r)
      | FunctionBody_state remaining len \<Rightarrow> body_step p remaining len r)"

definition parse_reader :: "wasm_parser \<Rightarrow> bool \<Rightarrow> byte_reader \<Rightarrow> (reader_error + parsed_payload) \<times> wasm_parser \<times> byte_reader" where
  "parse_reader p eof r =
     (case parse_step (bodies_done p) eof r of
        (Inl e, r1) \<Rightarrow> (Inl e, bodies_done p, r1)
      | (Inr (payload, p1), r1) \<Rightarrow> (Inr payload, p1, r1))"

definition parse_chunk :: "wasm_parser \<Rightarrow> byte list \<Rightarrow> bool \<Rightarrow> (reader_error + chunk) \<times> wasm_parser" where
  "parse_chunk p bytes eof0 =
     (let (bytes1, eof) = (if ps_max_size p < length bytes then (take (ps_max_size p) bytes, True) else (bytes, eof0))
      in case parse_reader p eof (set_features (ps_features p) (reader_new bytes1 (ps_offset p))) of
           (Inr payload, p1, r1) \<Rightarrow>
             (let consumed = original_position r1 - ps_offset p
              in (Inr (Parsed consumed payload),
                  p1\<lparr>ps_offset := ps_offset p1 + consumed, ps_max_size := ps_max_size p1 - consumed\<rparr>))
         | (Inl e, p1, _) \<Rightarrow>
             (if eof then (Inl e, p1)
              else
                (case re_needed_hint e of
                   Some hint \<Rightarrow> (Inr (NeedMoreData hint), p1)
                 | None \<Rightarrow> (Inl e, p1))))"

text \<open>Leaving out the code section, after its start; in any other state this panics.\<close>

definition skip_section :: "wasm_parser \<Rightarrow> wasm_parser option" where
  "skip_section p =
     (case ps_state p of
        FunctionBody_state _ len \<Rightarrow>
          Some (p\<lparr>ps_offset := ps_offset p + len, ps_max_size := ps_max_size p - len, ps_state := SectionStart_state\<rparr>)
      | _ \<Rightarrow> None)"

section \<open>How far a step goes\<close>

lemma set_features_reader_new [simp]: "set_features features (reader_new bytes offset) = new_features bytes offset features"
  by (simp add: set_features_def reader_new_def new_features_def)

lemma steady_section [steadiness]: "steady (wasm_section len ctor variant)" "steady (single_item len desc item)"
  unfolding wasm_section_def single_item_def
  by (intro steadiness) (intro steadiness; simp add: split_beta; intro steadiness)

lemma steady_delimited [steadiness]:
  assumes "steady f"
  shows "steady (delimited len f)"
proof (rule steadyI)
  fix r
  have "snd (delimited len f r) = snd (f r)"
    by (simp add: delimited_def rd_then_def Let_def split: prod.split sum.split)
  then show "\<exists>k. snd (delimited len f r) = move_on k r \<and> (k = 0 \<or> br_position r + k \<le> length (br_buffer r))"
    using steadyD [OF assms] by simp
qed

lemma consuming_delimited [consumption]:
  assumes "consuming f"
  shows "consuming (delimited len f)"
  unfolding consuming_def
proof (intro allI impI)
  fix r y
  assume y: "fst (delimited len f r) = Inr y"
  have "snd (delimited len f r) = snd (f r)"
    by (simp add: delimited_def rd_then_def Let_def split: prod.split sum.split)
  moreover obtain x where "fst (f r) = Inr x" using y unfolding delimited_def then_ok_iff by blast
  ultimately show "br_position r < br_position (snd (delimited len f r))" using assms by (simp add: consuming_def)
qed

lemma consuming_map [consumption]: "consuming m \<Longrightarrow> consuming (rd_map f m)"
  unfolding rd_map_def by (intro consumption steadiness)

lemma consuming_read_index [consumption]: "consuming read_index"
  unfolding read_index_def by (intro consumption)

lemma consuming_skip: "consuming f \<Longrightarrow> consuming (skip f)"
  by (auto simp: consuming_def skip_def then_ok_iff then_ok_reader)

lemma consuming_read_reader [consumption]: "consuming read_reader"
  unfolding read_reader_def by (intro consumption steadiness)

lemma consuming_header: "consuming (header_step p start)"
proof -
  have "consuming (read_bytes 4)"
    by (auto simp: consuming_def read_bytes_def rd_then_def ensure_has_bytes_def)
  then show ?thesis unfolding header_step_def read_header_version_def Let_def by (intro consumption steadiness)
qed

definition steady_sections :: "(nat \<times> wasm_payload reading) list \<Rightarrow> bool" where
  "steady_sections ms \<longleftrightarrow> (\<forall>(i, m) \<in> set ms. steady m)"

lemma steady_plain_section [steadiness]: "steady (plain_section encoding i len)"
proof -
  have "steady_sections (module_section len)" "steady_sections (component_section len)"
    by (simp_all add: steady_sections_def module_section_def component_section_def steady_map steady_section)
  then have "steady m" if "map_of (case encoding of Module_encoding \<Rightarrow> module_section len
      | Component_encoding \<Rightarrow> component_section len) i = Some m" for m
    using map_of_SomeD [OF that] by (auto simp: steady_sections_def split: wasm_encoding.splits)
  then show ?thesis unfolding plain_section_def by (auto simp: steadiness split: option.split)
qed

lemma steady_nested [steadiness]: "steady (nested_section p i len len_pos)"
proof -
  have "steady (\<lambda>r. rd_ok (f r) r)" for f :: "byte_reader \<Rightarrow> parsed_payload \<times> wasm_parser"
    using steady_at [of "\<lambda>r. rd_ok (f r)"] by (simp add: steadiness)
  then show ?thesis unfolding nested_section_def by (intro steady_if steady_bail)
qed

lemma steady_section_body [steadiness]: "steady (section_body p i len len_pos)"
  unfolding section_body_def code_section_def by (intro steadiness)

lemma consuming_section_step: "consuming (section_step p id_pos)"
proof -
  have "steady (\<lambda>r. if ps_max_size p < original_position r - id_pos + len then bail (id_pos + 1) ''section too large'' r
      else section_body p (unat i) len (id_pos + 1) r)" for i :: byte and len
    using steady_at [of "\<lambda>r. if ps_max_size p < original_position r - id_pos + len then bail (id_pos + 1) ''section too large''
      else section_body p (unat i) len (id_pos + 1)"] by (simp add: steadiness if_distribR)
  then show ?thesis unfolding section_step_def by (intro consumption steadiness)
qed

lemma consuming_body_step: "consuming (body_step p remaining len)"
proof (cases "remaining = 0")
  case True
  then show ?thesis by (simp add: body_step_def consuming_def fail_here_def rd_err_def)
qed (auto simp: body_step_def intro!: consumption)

lemma steady_header_step: "steady (header_step p start)"
  unfolding header_step_def Let_def by (intro steadiness)

lemma steady_section_step: "steady (section_step p id_pos)"
proof -
  have "steady (\<lambda>r. if ps_max_size p < original_position r - id_pos + len then bail (id_pos + 1) ''section too large'' r
      else section_body p (unat i) len (id_pos + 1) r)" for i :: byte and len
    using steady_at [of "\<lambda>r. if ps_max_size p < original_position r - id_pos + len then bail (id_pos + 1) ''section too large''
      else section_body p (unat i) len (id_pos + 1)"] by (simp add: steadiness if_distribR)
  then show ?thesis unfolding section_step_def by (intro steadiness)
qed

lemma steady_parse_step: "steady (parse_step p eof)"
proof -
  define step where "step r =
     (case ps_state p of
        Header_state \<Rightarrow> header_step p (original_position r)
      | SectionStart_state \<Rightarrow>
          (if eof \<and> bytes_remaining r = 0 then rd_ok ((End_payload, None), p) else section_step p (original_position r))
      | FunctionBody_state remaining len \<Rightarrow> body_step p remaining len)" for r
  have "steady (step r)" for r
    by (auto simp: step_def body_step_def steadiness steady_header_step steady_section_step split: parser_state.split)
  then have "steady (\<lambda>r. step r r)" by (rule steady_at)
  moreover have "parse_step p eof = (\<lambda>r. step r r)"
    by (rule ext) (auto simp: parse_step_def step_def split: parser_state.split)
  ultimately show ?thesis by simp
qed

lemma parse_step_progress:
  assumes "parse_step p eof r = (Inr (payload, p1), r1)"
  shows "payload = (End_payload, None) \<and> p1 = p \<and> r1 = r \<and> eof \<and> bytes_remaining r = 0 \<or> br_position r < br_position r1"
proof (cases "ps_state p = SectionStart_state \<and> eof \<and> bytes_remaining r = 0")
  case True
  then show ?thesis using assms by (auto simp: parse_step_def rd_ok_def)
next
  case False
  have "consuming (case ps_state p of
        Header_state \<Rightarrow> header_step p (original_position r)
      | SectionStart_state \<Rightarrow> section_step p (original_position r)
      | FunctionBody_state remaining len \<Rightarrow> body_step p remaining len)"
    by (simp add: consuming_header consuming_section_step consuming_body_step split: parser_state.split)
  moreover have "(case ps_state p of
        Header_state \<Rightarrow> header_step p (original_position r)
      | SectionStart_state \<Rightarrow> section_step p (original_position r)
      | FunctionBody_state remaining len \<Rightarrow> body_step p remaining len) r = (Inr (payload, p1), r1)"
    using assms False by (auto simp: parse_step_def split: parser_state.splits)
  ultimately show ?thesis unfolding consuming_def by (metis fst_conv snd_conv)
qed

lemma parse_reader_progress:
  assumes "parse_reader p eof r = (Inr payload, p1, r1)"
  shows "payload = (End_payload, None) \<and> r1 = r \<and> eof \<and> bytes_remaining r = 0 \<or> br_position r < br_position r1"
    and "\<exists>k. r1 = move_on k r \<and> (k = 0 \<or> br_position r + k \<le> length (br_buffer r))"
proof -
  have step: "parse_step (bodies_done p) eof r = (Inr (payload, p1), r1)"
    using assms by (auto simp: parse_reader_def split: prod.splits sum.splits)
  from parse_step_progress [OF step]
  show "payload = (End_payload, None) \<and> r1 = r \<and> eof \<and> bytes_remaining r = 0 \<or> br_position r < br_position r1" by blast
  show "\<exists>k. r1 = move_on k r \<and> (k = 0 \<or> br_position r + k \<le> length (br_buffer r))"
    using steadyD [OF steady_parse_step [of "bodies_done p" eof], of r] by (simp add: step)
qed

text \<open>With no more data to come, a step that succeeds has found the end or consumed bytes that were there.\<close>

lemma parse_chunk_progress:
  assumes "parse_chunk p bytes True = (Inr (Parsed consumed payload), p1)"
  shows "payload = (End_payload, None) \<and> consumed = 0 \<or> 0 < consumed \<and> consumed \<le> length bytes"
proof -
  let ?bytes = "if ps_max_size p < length bytes then take (ps_max_size p) bytes else bytes"
  let ?r = "new_features ?bytes (ps_offset p) (ps_features p)"
  obtain p2 r1 where run: "parse_reader p True ?r = (Inr payload, p2, r1)" "consumed = original_position r1 - ps_offset p"
    using assms by (auto simp: parse_chunk_def Let_def split: if_splits sum.splits prod.splits)
  obtain k where "r1 = move_on k ?r" "k = 0 \<or> br_position ?r + k \<le> length (br_buffer ?r)"
    using parse_reader_progress(2) [OF run(1)] by blast
  moreover have "length ?bytes \<le> length bytes" by simp
  ultimately show ?thesis
    using parse_reader_progress(1) [OF run(1)] run(2) by (auto simp: new_features_def original_position_def split: if_splits)
qed

lemma parse_chunk_eof: "parse_chunk p bytes True \<noteq> (Inr (NeedMoreData hint), p1)"
  by (auto simp: parse_chunk_def Let_def split: if_splits sum.splits prod.splits)

section \<open>The whole module\<close>

fun is_end :: "wasm_payload \<Rightarrow> bool" where
  "is_end End_payload = True"
| "is_end _ = False"

text \<open>The branch for more data is never taken (\<open>parse_chunk_eof\<close>); in the source it is unreachable.\<close>

function parser_parse_all_from :: "wasm_parser list \<Rightarrow> wasm_parser \<Rightarrow> byte list \<Rightarrow> (string + wasm_payload) list" where
  "parser_parse_all_from stack cur bytes =
     (case parse_chunk cur bytes True of
        (Inl e, _) \<Rightarrow> [Inl (show_reader_error e)]
      | (Inr (NeedMoreData _), _) \<Rightarrow> []
      | (Inr (Parsed consumed (payload, nested)), cur1) \<Rightarrow>
          Inr payload #
          (case nested of
             Some p \<Rightarrow> parser_parse_all_from (cur1 # stack) p (drop consumed bytes)
           | None \<Rightarrow>
               if is_end payload then
                 (case stack of p # ps \<Rightarrow> parser_parse_all_from ps p (drop consumed bytes) | [] \<Rightarrow> [])
               else parser_parse_all_from stack cur1 (drop consumed bytes)))"
  by pat_completeness auto
termination parser_parse_all_from
  by (relation "measures [\<lambda>(_, _, bytes). length bytes, \<lambda>(stack, _, _). length stack]")
    (auto dest!: parse_chunk_progress [OF sym])

declare parser_parse_all_from.simps [simp del]

definition parser_parse_all :: "wasm_parser \<Rightarrow> byte list \<Rightarrow> (string + wasm_payload) list" where
  "parser_parse_all p bytes = parser_parse_all_from [] p bytes"

text \<open>\<open>translate_bytes\<close> on bytes.\<close>

definition translate_module :: "(nat \<Rightarrow> string) \<Rightarrow> string \<Rightarrow> byte list \<Rightarrow> string translated" where
  "translate_module uuids mod_name bytes = translate_bytes uuids mod_name (parser_parse_all (parser_new 0) bytes)"

end
