(* ===== verification/ByteProperties.thy ===== *)
theory ByteProperties
  imports ModuleParser
begin

text \<open>
  The properties of reading WebAssembly bytes: what the integers are, that reading goes forward and
  stays in the buffer, what the iterators and the parser of a module give.
\<close>

section \<open>Lemmas\<close>

lemma encoded_length: "n < 2 ^ 32 \<Longrightarrow> length (unsigned_leb n) \<le> 5" "n < 2 ^ 64 \<Longrightarrow> length (unsigned_leb n) \<le> 10"
proof -
  assume "n < 2 ^ 32"
  also have "(2 :: nat) ^ 32 \<le> 128 ^ 5" by simp
  finally show "length (unsigned_leb n) \<le> 5" by (intro unsigned_leb_length) simp_all
next
  assume "n < 2 ^ 64"
  also have "(2 :: nat) ^ 64 \<le> 128 ^ 10" by simp
  finally show "length (unsigned_leb n) \<le> 10" by (intro unsigned_leb_length) simp_all
qed

lemma signed_encoded_length:
  "- (2 ^ 32) \<le> i \<Longrightarrow> i < 2 ^ 32 \<Longrightarrow> length (signed_leb i) \<le> 5"
  "- (2 ^ 63) \<le> i \<Longrightarrow> i < 2 ^ 63 \<Longrightarrow> length (signed_leb i) \<le> 10"
  using signed_leb_length [of 5 i] signed_leb_length [of 10 i] by simp_all

lemma read_unsigned_leb:
  "n < 2 ^ 32 \<Longrightarrow> remaining_buffer r = unsigned_leb n @ rest \<Longrightarrow>
    read_var_u32 r = (Inr (word_of_nat n), move_on (length (unsigned_leb n)) r)"
  "n < 2 ^ 64 \<Longrightarrow> remaining_buffer r = unsigned_leb n @ rest \<Longrightarrow>
    read_var_u64 r = (Inr (word_of_nat n), move_on (length (unsigned_leb n)) r)"
proof -
  assume n: "n < 2 ^ 32" and r: "remaining_buffer r = unsigned_leb n @ rest"
  have "unat (word_of_nat n :: 32 word) = n" using n by (simp add: unsigned_of_nat take_bit_nat_eq_self)
  then show "read_var_u32 r = (Inr (word_of_nat n), move_on (length (unsigned_leb n)) r)"
    unfolding read_var_u32_iff using n r unsigned_leb [of n] encoded_length(1) [OF n]
    by (intro exI [of _ "unsigned_leb n"] exI [of _ rest]) simp
next
  assume n: "n < 2 ^ 64" and r: "remaining_buffer r = unsigned_leb n @ rest"
  have "unat (word_of_nat n :: 64 word) = n" using n by (simp add: unsigned_of_nat take_bit_nat_eq_self)
  then show "read_var_u64 r = (Inr (word_of_nat n), move_on (length (unsigned_leb n)) r)"
    unfolding read_var_u64_iff using n r unsigned_leb [of n] encoded_length(2) [OF n]
    by (intro exI [of _ "unsigned_leb n"] exI [of _ rest]) simp
qed

lemma read_signed_leb:
  "- (2 ^ 31) \<le> i \<Longrightarrow> i < 2 ^ 31 \<Longrightarrow> remaining_buffer r = signed_leb i @ rest \<Longrightarrow>
    read_var_i32 r = (Inr (word_of_int i), move_on (length (signed_leb i)) r)"
  "- (2 ^ 63) \<le> i \<Longrightarrow> i < 2 ^ 63 \<Longrightarrow> remaining_buffer r = signed_leb i @ rest \<Longrightarrow>
    read_var_i64 r = (Inr (word_of_int i), move_on (length (signed_leb i)) r)"
proof -
  assume i: "- (2 ^ 31) \<le> i" "i < 2 ^ 31" and r: "remaining_buffer r = signed_leb i @ rest"
  then have "sint (word_of_int i :: 32 word) = i" by (intro sint_in_range) simp_all
  moreover have "length (signed_leb i) \<le> 5" using i by (intro signed_encoded_length) simp_all
  ultimately show "read_var_i32 r = (Inr (word_of_int i), move_on (length (signed_leb i)) r)"
    unfolding read_var_i32_iff using i r signed_leb [of i]
    by (intro exI [of _ "signed_leb i"] exI [of _ rest]) simp
next
  assume i: "- (2 ^ 63) \<le> i" "i < 2 ^ 63" and r: "remaining_buffer r = signed_leb i @ rest"
  then have "sint (word_of_int i :: 64 word) = i" by (intro sint_in_range) simp_all
  then show "read_var_i64 r = (Inr (word_of_int i), move_on (length (signed_leb i)) r)"
    unfolding read_var_i64_iff using i r signed_leb [of i] signed_encoded_length(2) [of i]
    by (intro exI [of _ "signed_leb i"] exI [of _ rest]) simp
qed

section \<open>Integers\<close>

text \<open>C32: An unsigned integer of variable length is read exactly from the sequences of bytes that are its number
  in groups of seven bits, of at most five (ten) bytes and below 2^32 (2^64), longer than necessary or
  not; a signed one from those whose two's complement number is in the range of the type. The reader has then gone past
  these bytes and nothing else; every other sequence is an error. An integer of 33 bits is accepted by the
  same rule, but of five bytes that stand for a negative number the result is the number without
  its sign, so that a negative index of a type looks like a large positive one.\<close>

theorem integers_decode:
  "(read_var_u32 r = (Inr i, r') \<longleftrightarrow>
      (\<exists>bs tl. remaining_buffer r = bs @ tl \<and> is_leb bs \<and> length bs \<le> 5 \<and> leb bs < 2 ^ 32
        \<and> unat i = leb bs \<and> r' = move_on (length bs) r))
   \<and> (read_var_u64 r = (Inr j, r') \<longleftrightarrow>
      (\<exists>bs tl. remaining_buffer r = bs @ tl \<and> is_leb bs \<and> length bs \<le> 10 \<and> leb bs < 2 ^ 64
        \<and> unat j = leb bs \<and> r' = move_on (length bs) r))
   \<and> (read_var_i32 r = (Inr i, r') \<longleftrightarrow>
      (\<exists>bs tl. remaining_buffer r = bs @ tl \<and> is_leb bs \<and> length bs \<le> 5 \<and> - (2 ^ 31) \<le> sleb bs \<and> sleb bs < 2 ^ 31
        \<and> sint i = sleb bs \<and> r' = move_on (length bs) r))
   \<and> (read_var_i64 r = (Inr j, r') \<longleftrightarrow>
      (\<exists>bs tl. remaining_buffer r = bs @ tl \<and> is_leb bs \<and> length bs \<le> 10 \<and> - (2 ^ 63) \<le> sleb bs \<and> sleb bs < 2 ^ 63
        \<and> sint j = sleb bs \<and> r' = move_on (length bs) r))
   \<and> (read_var_s33 r = (Inr j, r') \<longleftrightarrow>
      (\<exists>bs tl. remaining_buffer r = bs @ tl \<and> is_leb bs \<and> length bs \<le> 5 \<and> - (2 ^ 32) \<le> sleb bs \<and> sleb bs < 2 ^ 32
        \<and> sint j = (if length bs < 5 then sleb bs else int (leb bs)) \<and> r' = move_on (length bs) r))"
  by (intro conjI read_var_u32_iff read_var_u64_iff read_var_i32_iff read_var_i64_iff read_var_s33_iff)

text \<open>C36: Reading what the shortest encoding of an integer wrote gives the integer back and leaves the rest
  of the bytes, for every integer of the type.\<close>

theorem integers_round_trip:
  assumes "n < 2 ^ 32" "n' < 2 ^ 64" "- (2 ^ 31) \<le> i" "i < 2 ^ 31" "- (2 ^ 63) \<le> i'" "i' < 2 ^ 63"
  shows "read_var_u32 (reader_new (unsigned_leb n @ rest) offset)
      = (Inr (word_of_nat n), move_on (length (unsigned_leb n)) (reader_new (unsigned_leb n @ rest) offset))
    \<and> read_var_u64 (reader_new (unsigned_leb n' @ rest) offset)
      = (Inr (word_of_nat n'), move_on (length (unsigned_leb n')) (reader_new (unsigned_leb n' @ rest) offset))
    \<and> read_var_i32 (reader_new (signed_leb i @ rest) offset)
      = (Inr (word_of_int i), move_on (length (signed_leb i)) (reader_new (signed_leb i @ rest) offset))
    \<and> read_var_i64 (reader_new (signed_leb i' @ rest) offset)
      = (Inr (word_of_int i'), move_on (length (signed_leb i')) (reader_new (signed_leb i' @ rest) offset))"
proof -
  have "remaining_buffer (reader_new bytes offset) = bytes" for bytes
    by (simp add: remaining_buffer_def reader_new_def)
  with assms show ?thesis by (intro conjI read_unsigned_leb read_signed_leb) simp_all
qed

theorem integers_round_trip_witness:
  "read_var_u32 (reader_new (unsigned_leb 300 @ [7]) 0)
      = (Inr (word_of_nat 300), move_on (length (unsigned_leb 300)) (reader_new (unsigned_leb 300 @ [7]) 0))
    \<and> read_var_u64 (reader_new (unsigned_leb 5 @ [7]) 0)
      = (Inr (word_of_nat 5), move_on (length (unsigned_leb 5)) (reader_new (unsigned_leb 5 @ [7]) 0))
    \<and> read_var_i32 (reader_new (signed_leb (- 129) @ [7]) 0)
      = (Inr (word_of_int (- 129)), move_on (length (signed_leb (- 129))) (reader_new (signed_leb (- 129) @ [7]) 0))
    \<and> read_var_i64 (reader_new (signed_leb 64 @ [7]) 0)
      = (Inr (word_of_int 64), move_on (length (signed_leb 64)) (reader_new (signed_leb 64 @ [7]) 0))"
  by (rule integers_round_trip) simp_all

section \<open>Operators\<close>

text \<open>C33: Reading an operator only moves the reader forward, over the same buffer and never past its end,
  whether it succeeds or fails; when it succeeds it has consumed at least one byte. So the loops that
  read operators until the end of a body return.\<close>

theorem operators_are_read_forward:
  assumes "read_operator r = (res, r1)"
  shows "\<exists>k. r1 = move_on k r \<and> (k = 0 \<or> br_position r + k \<le> length (br_buffer r))
    \<and> (case res of Inl _ \<Rightarrow> True | Inr _ \<Rightarrow> 0 < k)"
proof -
  obtain k where k: "r1 = move_on k r" "k = 0 \<or> br_position r + k \<le> length (br_buffer r)"
    using steadyD [OF steady_read_operator, of r] assms by auto
  moreover have "0 < k" if "res = Inr x" for x
    using consuming_read_operator assms that k(1) unfolding consuming_def by (metis fst_conv snd_conv less_add_same_cancel1 move_on_simps(1))
  ultimately show ?thesis by (intro exI [of _ k]) (auto split: sum.split)
qed

theorem operators_are_read_forward_witness:
  "\<exists>k. snd (read_operator (reader_new [0xfc, 0x31, 0x1a] 0)) = move_on k (reader_new [0xfc, 0x31, 0x1a] 0)
    \<and> (k = 0 \<or> br_position (reader_new [0xfc, 0x31, 0x1a] 0) + k \<le> length (br_buffer (reader_new [0xfc, 0x31, 0x1a] 0)))
    \<and> (case fst (read_operator (reader_new [0xfc, 0x31, 0x1a] 0)) of Inl _ \<Rightarrow> True | Inr _ \<Rightarrow> 0 < k)"
  by (rule operators_are_read_forward) simp

section \<open>Iterating a section\<close>

lemma section_results_end [simp]: "li_end it \<Longrightarrow> section_results item it = []"
  by (subst section_results.simps) (simp add: section_next_def)

text \<open>C34: The results of going through a section are its items, followed by at most one error. Without
  an error they are as many as the section announces, so that a list of items is complete.\<close>

theorem sections_are_complete:
  "\<exists>xs es. section_results item (section_into_iter s) = map Inr xs @ es
     \<and> (es = [] \<and> length xs = sl_count s \<or> (\<exists>e. es = [Inl e]) \<and> length xs \<le> sl_count s)"
proof -
  have "\<exists>xs es. section_results item \<lparr>li_reader = r, li_remaining = n, li_end = False\<rparr> = map Inr xs @ es
      \<and> (es = [] \<and> length xs = n \<or> (\<exists>e. es = [Inl e]) \<and> length xs \<le> n)" for r n
  proof (induction n arbitrary: r)
    case 0
    then show ?case
      by (subst section_results.simps) (auto simp: section_next_def text_of_def intro: exI [of _ "[]"])
  next
    case (Suc n)
    show ?case
    proof (cases "item r")
      case (Pair res r1)
      show ?thesis
      proof (cases res)
        case (Inl e)
        then show ?thesis
          using Pair by (subst section_results.simps) (auto simp: section_next_def text_of_def intro: exI [of _ "[]"])
      next
        case (Inr x)
        obtain xs es where "section_results item \<lparr>li_reader = r1, li_remaining = n, li_end = False\<rparr> = map Inr xs @ es"
          "es = [] \<and> length xs = n \<or> (\<exists>e. es = [Inl e]) \<and> length xs \<le> n"
          using Suc by blast
        moreover have "section_results item \<lparr>li_reader = r, li_remaining = Suc n, li_end = False\<rparr>
            = Inr x # section_results item \<lparr>li_reader = r1, li_remaining = n, li_end = False\<rparr>"
          using Pair Inr by (subst section_results.simps) (simp add: section_next_def text_of_def)
        ultimately show ?thesis by (intro exI [of _ "x # xs"] exI [of _ es]) auto
      qed
    qed
  qed
  then show ?thesis by (simp add: section_into_iter_def)
qed

section \<open>The parser\<close>

text \<open>C30: Parsing all of a byte sequence, whatever it is, returns, and ends exactly once: the results are
  payloads followed by one last result, which is an error or the end of the module.\<close>

theorem parsing_ends_once:
  "\<exists>payloads result. parser_parse_all p bytes = map Inr payloads @ [result]
     \<and> (case result of Inl e \<Rightarrow> True | Inr payload \<Rightarrow> is_end payload)"
proof -
  have "\<exists>payloads result. parser_parse_all_from stack cur bytes = map Inr payloads @ [result]
      \<and> (case result of Inl e \<Rightarrow> True | Inr payload \<Rightarrow> is_end payload)" for stack cur
  proof (induction stack cur bytes rule: parser_parse_all_from.induct)
    case (1 stack cur bytes)
    obtain res cur1 where chunk: "parse_chunk cur bytes True = (res, cur1)" by fastforce
    consider e where "res = Inl e" | consumed payload nested where "res = Inr (Parsed consumed (payload, nested))"
      using chunk parse_chunk_eof [of cur bytes _ cur1] by (metis chunk.exhaust obj_sumE surj_pair)
    then show ?case
    proof cases
      case (1 e)
      then have "parser_parse_all_from stack cur bytes = map Inr [] @ [Inl (show_reader_error e)]"
        using chunk by (subst parser_parse_all_from.simps) simp
      then show ?thesis by (intro exI) auto
    next
      case (2 consumed payload nested)
      have step: "parser_parse_all_from stack cur bytes = Inr payload #
          (case nested of
             Some p \<Rightarrow> parser_parse_all_from (cur1 # stack) p (drop consumed bytes)
           | None \<Rightarrow>
               if is_end payload then
                 (case stack of p # ps \<Rightarrow> parser_parse_all_from ps p (drop consumed bytes) | [] \<Rightarrow> [])
               else parser_parse_all_from stack cur1 (drop consumed bytes))"
        using chunk 2 by (subst parser_parse_all_from.simps) simp
      note IH = "1.IH" [OF chunk [symmetric] 2 refl refl]
      have more: "\<exists>payloads result. Inr payload # rest = map Inr payloads @ [result]
          \<and> (case result of Inl e \<Rightarrow> True | Inr payload \<Rightarrow> is_end payload)"
        if "\<exists>payloads result. rest = map Inr payloads @ [result]
          \<and> (case result of Inl e \<Rightarrow> True | Inr payload \<Rightarrow> is_end payload)" for rest :: "(string + wasm_payload) list"
        using that by (metis append_Cons list.simps(9))
      show ?thesis
      proof (cases nested)
        case (Some q)
        show ?thesis unfolding step using more [OF IH(3) [OF Some]] by (simp only: Some option.case)
      next
        case None
        show ?thesis
        proof (cases "is_end payload")
          case False
          show ?thesis unfolding step using more [OF IH(2) [OF None False]] by (simp only: None False option.case if_False)
        next
          case True
          show ?thesis
          proof (cases stack)
            case Nil
            then show ?thesis unfolding step using None True by (intro exI [of _ "[]"]) auto
          next
            case (Cons q qs)
            show ?thesis unfolding step using more [OF IH(1) [OF None True Cons]] by (simp only: None True Cons option.case list.case if_True)
          qed
        qed
      qed
    qed
  qed
  then show ?thesis by (simp add: parser_parse_all_def)
qed


section \<open>Branch tables\<close>

definition index_bytes :: "byte list \<Rightarrow> bool" where
  "index_bytes bs \<longleftrightarrow> is_leb bs \<and> length bs \<le> 5 \<and> leb bs < 2 ^ 32"

lemma read_index_bytes:
  assumes "index_bytes bs" "remaining_buffer r = bs @ rest"
  shows "read_var_u32 r = (Inr (word_of_nat (leb bs)), move_on (length bs) r)"
proof -
  have "unat (word_of_nat (leb bs) :: 32 word) = leb bs"
    using assms(1) by (simp add: index_bytes_def unsigned_of_nat take_bit_nat_eq_self)
  then show ?thesis using assms unfolding read_var_u32_iff index_bytes_def by blast
qed

lemma skip_var_u32s_bytes:
  "skip_var_u32s n r = (Inr (), r1) \<Longrightarrow>
    \<exists>bss tl. length bss = n \<and> (\<forall>bs \<in> set bss. index_bytes bs) \<and> remaining_buffer r = concat bss @ tl
      \<and> r1 = move_on (length (concat bss)) r"
proof (induction n arbitrary: r)
  case 0
  then show ?case by (auto simp: rd_ok_def intro: exI [of _ "[]"])
next
  case (Suc n)
  then obtain v r2 where r2: "read_var_u32 r = (Inr v, r2)" "skip_var_u32s n r2 = (Inr (), r1)"
    by (auto simp: rd_then_def split: prod.splits sum.splits)
  then obtain bs tl where bs: "index_bytes bs" "remaining_buffer r = bs @ tl" "r2 = move_on (length bs) r"
    unfolding read_var_u32_iff index_bytes_def by blast
  obtain bss tl' where "length bss = n" "\<forall>bs \<in> set bss. index_bytes bs" "remaining_buffer r2 = concat bss @ tl'"
    "r1 = move_on (length (concat bss)) r2"
    using Suc.IH [OF r2(2)] by blast
  then show ?case using bs by (intro exI [of _ "bs # bss"] exI [of _ tl']) simp
qed

lemma targets_from_bytes:
  "\<forall>bs \<in> set bss. index_bytes bs \<Longrightarrow> remaining_buffer r = concat bss \<Longrightarrow>
    targets_from (length bss) r = map (\<lambda>bs. Inr (word_of_nat (leb bs))) bss"
proof (induction bss arbitrary: r)
  case Nil
  then have "reader_eof r" by (simp add: reader_eof_def remaining_buffer_def)
  then show ?case by (simp add: targets_next_def)
next
  case (Cons bs bss)
  have "read_var_u32 r = (Inr (word_of_nat (leb bs)), move_on (length bs) r)"
    using Cons.prems by (intro read_index_bytes) simp_all
  moreover have "targets_from (length bss) (move_on (length bs) r) = map (\<lambda>bs. Inr (word_of_nat (leb bs))) bss"
    using Cons.prems by (intro Cons.IH) simp_all
  ultimately show ?case by (simp add: targets_next_def)
qed

definition bra_of :: "byte list \<Rightarrow> branch_table" where
  "bra_of bytes = projr (fst (read_br_table (reader_new bytes 0)))"

text \<open>C35: The targets of a branch table are read a second time when the table is used: of a table that was
  read they are all there, as many as it announces, with no error and nothing left over.\<close>

theorem branch_targets_never_fail:
  assumes "read_br_table r = (Inr t, r1)"
  shows "\<exists>indices. targets t = map Inr indices \<and> length indices = bra_count t"
proof -
  obtain n r2 q r3 where run: "read_size MAX_WASM_BR_TABLE_SIZE ''br_table'' r = (Inr n, r2)"
    "skip (skip_var_u32s n) r2 = (Inr q, r3)" and t: "bra_reader t = q" "bra_count t = n"
    using assms by (auto simp: read_br_table_def rd_then_def rd_ok_def split: prod.splits sum.splits)
  obtain r4 where r4: "skip_var_u32s n r2 = (Inr (), r4)"
    and q: "q = r4\<lparr>br_buffer := take (br_position r4 - br_position r2) (drop (br_position r2) (br_buffer r4)),
      br_position := 0, br_original_offset := br_original_offset r4 + br_position r2\<rparr>"
    using run(2) by (auto simp: skip_def rd_then_def split: prod.splits sum.splits)
  obtain bss tl where bss: "length bss = n" "\<forall>bs \<in> set bss. index_bytes bs" "remaining_buffer r2 = concat bss @ tl"
    "r4 = move_on (length (concat bss)) r2"
    using skip_var_u32s_bytes [OF r4] by blast
  have "remaining_buffer q = concat bss"
    using bss(3) by (simp add: q bss(4) remaining_buffer_def)
  then have "targets t = map Inr (map (\<lambda>bs. word_of_nat (leb bs)) bss)"
    using targets_from_bytes [OF bss(2)] t bss(1) by (simp add: targets_def)
  then show ?thesis using t bss(1) by (metis length_map)
qed

theorem branch_targets_never_fail_witness:
  "\<exists>indices. targets (bra_of [1, 0, 3]) = map Inr indices \<and> length indices = bra_count (bra_of [1, 0, 3])"
proof (rule branch_targets_never_fail)
  have "\<exists>t r1. read_br_table (reader_new [1, 0, 3] 0) = (Inr t, r1)"
    by (simp add: read_br_table_def read_size_def skip_def rd_then_def rd_ok_def read_var_u32_def read_u8_def reader_new_def
      MAX_WASM_BR_TABLE_SIZE_def)
  then show "read_br_table (reader_new [1, 0, 3] 0) = (Inr (bra_of [1, 0, 3]), snd (read_br_table (reader_new [1, 0, 3] 0)))"
    by (auto simp: bra_of_def)
qed

section \<open>The operators of the language\<close>

text \<open>
  The bytes the text format library writes (\<open>tools/inf-wast/src/core/expr.rs\<close> for the operators,
  \<open>binary.rs\<close> for block types, over the encodings of types of the WebAssembly specification): a nullable
  reference to an unshared abstract type has a byte of its own, any other reference a byte for its
  nullability before the heap type.
\<close>

primrec abstract_byte :: "abstract_heap_type \<Rightarrow> byte" where
  "abstract_byte Heap_Func = 0x70" | "abstract_byte Heap_Extern = 0x6F" | "abstract_byte Heap_Any = 0x6E"
| "abstract_byte Heap_None = 0x71" | "abstract_byte Heap_NoExtern = 0x72" | "abstract_byte Heap_NoFunc = 0x73"
| "abstract_byte Heap_Eq = 0x6D" | "abstract_byte Heap_Struct = 0x6B" | "abstract_byte Heap_Array = 0x6A"
| "abstract_byte Heap_I31 = 0x6C" | "abstract_byte Heap_Exn = 0x69" | "abstract_byte Heap_NoExn = 0x74"
| "abstract_byte Heap_Cont = 0x68" | "abstract_byte Heap_NoCont = 0x75"

fun encode_heap_type :: "heap_type \<Rightarrow> byte list" where
  "encode_heap_type (Abstract shared ty) = (if shared then [0x65] else []) @ [abstract_byte ty]"
| "encode_heap_type (Concrete (Module_index i)) = signed_leb (int i)"
| "encode_heap_type (Concrete (RecGroup_index i)) = []"

definition encode_ref_type :: "ref_type \<Rightarrow> byte list" where
  "encode_ref_type rt =
     (if rt_nullable rt \<and> (\<exists>ty. rt_heap_type rt = Abstract False ty) then encode_heap_type (rt_heap_type rt)
      else (if rt_nullable rt then 0x63 else 0x64) # encode_heap_type (rt_heap_type rt))"

fun encode_val_type :: "val_type \<Rightarrow> byte list" where
  "encode_val_type I32 = [0x7F]" | "encode_val_type I64 = [0x7E]" | "encode_val_type F32 = [0x7D]"
| "encode_val_type F64 = [0x7C]" | "encode_val_type V128 = [0x7B]" | "encode_val_type (Ref rt) = encode_ref_type rt"

fun encode_block_type :: "wasm_block_type \<Rightarrow> byte list" where
  "encode_block_type Empty_type = [0x40]"
| "encode_block_type (Result_type t) = encode_val_type t"
| "encode_block_type (FuncType_index i) = signed_leb (int i)"

text \<open>
  Indices within the limits of the format and of a packed reference type; an index into a recursion
  group exists only after validation.
\<close>

fun plain_block_type :: "wasm_block_type \<Rightarrow> bool" where
  "plain_block_type (Result_type (Ref rt)) =
     (case rt_heap_type rt of
        Abstract shared ty \<Rightarrow> True | Concrete (Module_index i) \<Rightarrow> i < 2 ^ 20 | Concrete (RecGroup_index i) \<Rightarrow> False)"
| "plain_block_type (FuncType_index i) = (i < 2 ^ 32)"
| "plain_block_type bt = True"

fun encode_nondet :: "operator \<Rightarrow> byte list" where
  "encode_nondet (Forall bt) = [0xfc, 0x3a] @ encode_block_type bt"
| "encode_nondet (Exists bt) = [0xfc, 0x3b] @ encode_block_type bt"
| "encode_nondet (Assume bt) = [0xfc, 0x3c] @ encode_block_type bt"
| "encode_nondet (Unique bt) = [0xfc, 0x3d] @ encode_block_type bt"
| "encode_nondet (I32Uzumaki v) = [0xfc, 0x31]"
| "encode_nondet (I64Uzumaki v) = [0xfc, 0x32]"
| "encode_nondet op = []"

fun nondet_operator :: "operator \<Rightarrow> bool" where
  "nondet_operator (Forall bt) = plain_block_type bt"
| "nondet_operator (Exists bt) = plain_block_type bt"
| "nondet_operator (Assume bt) = plain_block_type bt"
| "nondet_operator (Unique bt) = plain_block_type bt"
| "nondet_operator (I32Uzumaki v) = (v = 0xff)"
| "nondet_operator (I64Uzumaki v) = (v = 0xffff)"
| "nondet_operator op = False"

lemma read_byte: "remaining_buffer r = b # rest \<Longrightarrow> read_u8 r = (Inr b, move_on 1 r)"
  by (simp add: read_u8_cases)

lemma peek_byte: "remaining_buffer r = b # rest \<Longrightarrow> peek r = (Inr b, r)"
  by (cases "br_position r < length (br_buffer r)")
    (simp_all add: peek_def rd_then_def ensure_has_byte_def remaining_buffer_def Cons_nth_drop_Suc [symmetric])

lemma unat_byte_u32: "unat (ucast (b :: byte) :: 32 word) = unat b"
  using unsigned_less [of b, where 'a = nat] by (simp add: unsigned_ucast_eq take_bit_nat_eq_self)

lemma read_small_index: "remaining_buffer r = b # rest \<Longrightarrow> unat b < 128 \<Longrightarrow> read_index r = (Inr (unat b), move_on 1 r)"
  using read_index_bytes [of "[b]" r rest]
  by (simp add: index_bytes_def read_index_def rd_map_def rd_then_def rd_ok_def unat_byte_u32)

lemma sign_bit: "unat (b :: byte) < 64 \<Longrightarrow> b AND 0x40 = 0"
proof -
  assume "unat b < 64"
  then have "\<not> bit b 6" by (simp add: bit_of_unat)
  then show ?thesis using and_exp_eq_0_iff_not_bit [of b 6] by simp
qed

lemma index_block_byte:
  obtains b bs where "signed_leb (int i) = b # bs" "\<not> (b AND 0x80 = 0 \<and> b AND 0x40 \<noteq> 0)"
proof (cases "i < 64")
  case True
  then have "signed_leb (int i) = [word_of_nat i]" by (subst signed_leb.simps) simp
  moreover have "unat (word_of_nat i :: byte) < 64" using True by (simp add: unat_byte)
  ultimately show ?thesis using that sign_bit by blast
next
  case False
  have "128 + int i mod 128 = int (128 + i mod 128)" by (simp add: zmod_int)
  then have "word_of_int (128 + int i mod 128) = (word_of_nat (128 + i mod 128) :: byte)" by (simp only: of_int_of_nat_eq)
  then have "signed_leb (int i) = word_of_nat (128 + i mod 128) # signed_leb (int i div 128)"
    using False by (subst signed_leb.simps) (simp del: of_int_add of_nat_add)
  moreover have "unat (word_of_nat (128 + i mod 128) :: byte) = 128 + i mod 128" by (intro unat_byte) simp
  ultimately show ?thesis using that continuation_iff by (metis not_add_less1)
qed

lemma read_index_s33:
  assumes "i < 2 ^ 32" "remaining_buffer r = signed_leb (int i) @ rest"
  obtains v where "read_var_s33 r = (Inr v, move_on (length (signed_leb (int i))) r)" "u32_try_from v = Some i"
proof -
  have i: "int i < 2 ^ 32" using assms(1) by simp
  define v where "v = (word_of_int (int i) :: 64 word)"
  have v: "sint v = int i" unfolding v_def using i by (intro sint_in_range [OF refl]) simp_all
  have leb: "sleb (signed_leb (int i)) = int i" "is_leb (signed_leb (int i))" using signed_leb [of "int i"] by simp_all
  have lt: "int (leb (signed_leb (int i))) < 128 ^ length (signed_leb (int i))"
    using leb_bound [of "signed_leb (int i)"] by (metis of_nat_less_iff of_nat_numeral of_nat_power)
  have "int (leb (signed_leb (int i))) = int i"
  proof (cases "2 * leb (signed_leb (int i)) < 128 ^ length (signed_leb (int i))")
    case False
    then have "int i = int (leb (signed_leb (int i))) - 128 ^ length (signed_leb (int i))" using leb(1) by (simp add: sleb_def)
    then show ?thesis using lt by linarith
  qed (use leb(1) in \<open>simp add: sleb_def\<close>)
  moreover have "length (signed_leb (int i)) \<le> 5" using i by (intro signed_encoded_length) simp_all
  ultimately have "read_var_s33 r = (Inr v, move_on (length (signed_leb (int i))) r)"
    unfolding read_var_s33_iff using i leb v assms(2)
    by (intro exI [of _ "signed_leb (int i)"] exI [of _ rest]) simp
  moreover have "u32_try_from v = Some i" using i v by (simp add: u32_try_from_def)
  ultimately show thesis by (rule that)
qed

lemma read_negative_s33:
  assumes "remaining_buffer r = b # rest" "64 \<le> unat b" "unat b < 128"
  obtains v where "read_var_s33 r = (Inr v, move_on 1 r)" "u32_try_from v = None"
proof -
  define v where "v = (word_of_int (int (unat b) - 128) :: 64 word)"
  have "- (2 ^ (LENGTH(64) - 1)) \<le> int n - 128 \<and> int n - 128 < 2 ^ (LENGTH(64) - 1)" if "n < 128" for n
    using that by simp
  from this [OF assms(3)] have v: "sint v = int (unat b) - 128" unfolding v_def by (intro sint_in_range [OF refl]) blast+
  have leb: "leb [b] = unat b" "is_leb [b]" using assms(3) by (simp_all add: continuation_iff)
  then have "sleb [b] = int (unat b) - 128" using assms(2) by (simp add: sleb_def)
  moreover have "int n - 128 < 2 ^ 32 \<and> - (2 ^ 32) \<le> int n - 128" if "64 \<le> n" "n < 128" for n
    using that by simp
  note this [OF assms(2,3)]
  ultimately have range: "sleb [b] = int (unat b) - 128" "sleb [b] < 2 ^ 32" "- (2 ^ 32) \<le> sleb [b]" by simp_all
  have "remaining_buffer r = [b] @ rest \<and> is_leb [b] \<and> length [b] \<le> 5 \<and> - (2 ^ 32) \<le> sleb [b] \<and> sleb [b] < 2 ^ 32
      \<and> sint v = (if length [b] < 5 then sleb [b] else int (leb [b])) \<and> move_on 1 r = move_on (length [b]) r"
    by (intro conjI range(2,3) leb(2)) (use assms(1) v range(1) in simp_all)
  then have "read_var_s33 r = (Inr v, move_on 1 r)" unfolding read_var_s33_iff by blast
  moreover have "sint v < 0" using assms(3) v by linarith
  then have "u32_try_from v = None" by (simp add: u32_try_from_def)
  ultimately show thesis by (rule that)
qed

lemma abstract_byte_range: "64 \<le> unat (abstract_byte ty)" "unat (abstract_byte ty) < 128"
  "abstract_byte ty \<noteq> 0x63" "abstract_byte ty \<noteq> 0x64" "abstract_byte ty \<noteq> 0x65" "abstract_byte ty \<noteq> 0x40"
  "abstract_byte ty AND 0x80 = 0" "abstract_byte ty AND 0x40 \<noteq> 0" "unat (abstract_byte ty) < 0x7B"
  by (cases ty; simp)+

lemma read_abstract_byte:
  assumes "remaining_buffer r = abstract_byte ty # rest"
  shows "read_abstract_heap_type r = (Inr ty, move_on 1 r)"
  using read_byte [OF assms] by (cases ty) (simp_all add: read_abstract_heap_type_def rd_then_def rd_ok_def)

lemma read_encoded_heap_type:
  assumes "plain_block_type (Result_type (Ref rt))" "remaining_buffer r = encode_heap_type (rt_heap_type rt) @ rest"
  shows "read_heap_type r = (Inr (rt_heap_type rt), move_on (length (encode_heap_type (rt_heap_type rt))) r)"
proof (cases "rt_heap_type rt")
  case (Abstract shared ty)
  show ?thesis
  proof (cases shared)
    case True
    then have buf: "remaining_buffer r = 0x65 # abstract_byte ty # rest" using assms(2) Abstract by simp
    obtain v where "read_var_s33 r = (Inr v, move_on 1 r)" "u32_try_from v = None"
      by (rule read_negative_s33 [OF buf]) simp_all
    moreover have "read_abstract_heap_type (move_on 1 r) = (Inr ty, move_on 2 r)"
      using read_abstract_byte [of "move_on 1 r" ty rest] buf by simp
    ultimately show ?thesis using Abstract True read_byte [OF buf] peek_byte [OF buf]
      by (simp add: read_heap_type_def rd_map_def rd_then_def rd_ok_def)
  next
    case False
    then have buf: "remaining_buffer r = abstract_byte ty # rest" using assms(2) Abstract by simp
    obtain v where "read_var_s33 r = (Inr v, move_on 1 r)" "u32_try_from v = None"
      by (rule read_negative_s33 [OF buf abstract_byte_range(1,2)])
    then show ?thesis using Abstract False read_abstract_byte [OF buf] peek_byte [OF buf] abstract_byte_range(5)
      by (simp add: read_heap_type_def rd_map_def rd_then_def rd_ok_def reclassify_def)
  qed
next
  case (Concrete idx)
  then obtain i where idx: "idx = Module_index i" "i < 2 ^ 20" using assms(1) by (cases idx) auto
  then have buf: "remaining_buffer r = signed_leb (int i) @ rest" using assms(2) Concrete by simp
  have "i < 2 ^ 32" using idx(2) by simp
  from read_index_s33 [OF this buf] obtain v where
    "read_var_s33 r = (Inr v, move_on (length (signed_leb (int i))) r)" "u32_try_from v = Some i" .
  then show ?thesis using Concrete idx by (simp add: read_heap_type_def from_module_index_def rd_ok_def)
qed

lemma read_encoded_ref_type:
  assumes "plain_block_type (Result_type (Ref rt))" "remaining_buffer r = encode_ref_type rt @ rest"
  shows "read_ref_type r = (Inr rt, move_on (length (encode_ref_type rt)) r)"
proof -
  have new: "ok_or_too_large pos (ref_type_new (rt_nullable rt) (rt_heap_type rt)) = rd_ok rt" for pos
    using assms(1) by (cases rt) (auto simp: ok_or_too_large_def ref_type_new_def split: heap_type.splits unpacked_index.splits)
  show ?thesis
  proof (cases "rt_nullable rt \<and> (\<exists>ty. rt_heap_type rt = Abstract False ty)")
    case True
    then obtain ty where ty: "rt_nullable rt" "rt_heap_type rt = Abstract False ty" by blast
    then have buf: "remaining_buffer r = abstract_byte ty # rest" using assms(2) by (simp add: encode_ref_type_def)
    have "read_heap_type r = (Inr (rt_heap_type rt), move_on 1 r)"
      using read_encoded_heap_type [OF assms(1), of r rest] buf ty(2) by simp
    then show ?thesis
      using ty new peek_byte [OF buf] abstract_byte_range(3,4)
      by (simp add: read_ref_type_def rd_then_def reclassify_def encode_ref_type_def rd_ok_def)
  next
    case False
    define b :: byte where "b = (if rt_nullable rt then 0x63 else 0x64)"
    have code: "encode_ref_type rt = b # encode_heap_type (rt_heap_type rt)"
      using False by (auto simp: encode_ref_type_def b_def)
    then have buf: "remaining_buffer r = b # encode_heap_type (rt_heap_type rt) @ rest" using assms(2) by simp
    have heap: "read_heap_type (move_on 1 r)
        = (Inr (rt_heap_type rt), move_on (length (encode_heap_type (rt_heap_type rt))) (move_on 1 r))"
      using buf by (intro read_encoded_heap_type [OF assms(1), where rest = rest]) simp
    show ?thesis
    proof (cases "rt_nullable rt")
      case True
      then show ?thesis using heap new peek_byte [OF buf] read_byte [OF buf]
        by (simp add: read_ref_type_def rd_then_def code rd_ok_def b_def del: One_nat_def)
    next
      case False
      then show ?thesis using heap new peek_byte [OF buf] read_byte [OF buf]
        by (simp add: read_ref_type_def rd_then_def code rd_ok_def b_def del: One_nat_def)
    qed
  qed
qed

text \<open>The first byte of a reference type is none of the bytes the readers of value and block types look for.\<close>

lemma encode_ref_first:
  obtains b bs where "encode_ref_type rt = b # bs" "b AND 0x80 = 0" "b AND 0x40 \<noteq> 0" "b \<noteq> 0x40" "unat b < 0x7B"
proof (cases "rt_nullable rt \<and> (\<exists>ty. rt_heap_type rt = Abstract False ty)")
  case True
  then obtain ty where "encode_ref_type rt = [abstract_byte ty]" by (auto simp: encode_ref_type_def)
  then show thesis using that abstract_byte_range [of ty] by blast
next
  case False
  then have "encode_ref_type rt = (if rt_nullable rt then 0x63 else 0x64) # encode_heap_type (rt_heap_type rt)"
    by (auto simp: encode_ref_type_def)
  then show thesis by (rule that) simp_all
qed

lemma read_encoded_block_type:
  assumes "plain_block_type bt" "remaining_buffer r = encode_block_type bt @ rest"
  shows "read_block_type r = (Inr bt, move_on (length (encode_block_type bt)) r)"
proof (cases bt)
  case (FuncType_index i)
  obtain b bs where b: "signed_leb (int i) = b # bs" "\<not> (b AND 0x80 = 0 \<and> b AND 0x40 \<noteq> 0)" by (rule index_block_byte)
  have "i < 2 ^ 32" "remaining_buffer r = signed_leb (int i) @ rest" using assms FuncType_index by simp_all
  from read_index_s33 [OF this] obtain v where
    "read_var_s33 r = (Inr v, move_on (length (signed_leb (int i))) r)" "u32_try_from v = Some i" .
  moreover have "peek r = (Inr b, r)" using assms(2) FuncType_index b(1) by (intro peek_byte) simp
  ultimately show ?thesis using b(2) FuncType_index by (auto simp: read_block_type_def rd_then_def rd_ok_def)
next
  case Empty_type
  then show ?thesis using assms(2) peek_byte [of r] read_byte [of r]
    by (simp add: read_block_type_def rd_then_def rd_ok_def)
next
  case (Result_type t)
  show ?thesis
  proof (cases "\<exists>rt. t = Ref rt")
    case True
    then obtain rt where t: "t = Ref rt" by blast
    obtain b bs where b: "encode_ref_type rt = b # bs" "b AND 0x80 = 0" "b AND 0x40 \<noteq> 0" "b \<noteq> 0x40" "unat b < 0x7B"
      by (rule encode_ref_first)
    have buf: "remaining_buffer r = encode_ref_type rt @ rest" using assms(2) Result_type t by simp
    have "peek r = (Inr b, r)" using buf b(1) by (intro peek_byte) simp
    moreover have "read_ref_type r = (Inr rt, move_on (length (encode_ref_type rt)) r)"
      using read_encoded_ref_type assms(1) buf Result_type t by blast
    ultimately show ?thesis using Result_type t b(2-5)
      by (simp add: read_block_type_def read_val_type_def rd_map_def rd_then_def rd_ok_def reclassify_def)
  next
    case False
    then show ?thesis using Result_type assms peek_byte [of r] read_byte [of r]
      by (cases t) (simp_all add: read_block_type_def read_val_type_def rd_map_def rd_then_def rd_ok_def)
  qed
qed

lemma read_misc_operator:
  assumes "remaining_buffer r = 0xfc # code # rest" "unat code < 128"
    "map_of misc_operators (unat code) = Some m"
  shows "read_operator r = m (move_on 2 r)"
  using assms(3) read_byte [OF assms(1)] read_small_index [of "move_on 1 r" code rest] assms(1,2)
  by (simp add: read_operator_def visit_operator_at_def visit_0xfc_operator_def visit_code_def rd_then_def numeral_2_eq_2)

text \<open>C29: The instructions of the extension of WebAssembly for nondeterministic code (the blocks \<open>forall\<close>,
  \<open>exists\<close>, \<open>assume\<close> and \<open>unique\<close> with any block type - none, a value type, a reference type or the index
  of a function type - and \<open>uzumaki\<close> of both widths) are read back from the bytes the text format library
  of the repository writes for them, which the reader consumes exactly. The opcodes are those of that library and of the
  documents of the reader; the documents of the translator, of the code generation and of the crate of the phases give other numbers
  to \<open>uzumaki\<close>, \<open>assume\<close> and \<open>unique\<close>.\<close>

theorem nondeterministic_operators_round_trip:
  assumes "nondet_operator op" "remaining_buffer r = encode_nondet op @ rest"
  shows "read_operator r = (Inr op, move_on (length (encode_nondet op)) r)"
proof -
  have block: "read_operator r = (Inr (mark bt), move_on (2 + length (encode_block_type bt)) r)"
    if "plain_block_type bt" "remaining_buffer r = 0xfc # code # encode_block_type bt @ rest" "unat code < 128"
      "map_of misc_operators (unat code) = Some (rd_map mark read_block_type)" for mark bt code
  proof -
    have "read_block_type (move_on 2 r) = (Inr bt, move_on (length (encode_block_type bt)) (move_on 2 r))"
      using that(1,2) by (intro read_encoded_block_type) simp_all
    then show ?thesis
      using read_misc_operator [OF that(2-4)] by (simp add: rd_map_def rd_then_def rd_ok_def)
  qed
  show ?thesis
    using assms block read_misc_operator [of r]
    by (cases op) (simp_all add: misc_operators_def rd_ok_def)
qed

theorem nondeterministic_operators_round_trip_witness:
  "read_operator (reader_new ([0xfc, 0x3a] @ signed_leb 70 @ [0x0b]) 0)
     = (Inr (Forall (FuncType_index 70)), move_on (length ([0xfc, 0x3a] @ signed_leb 70))
         (reader_new ([0xfc, 0x3a] @ signed_leb 70 @ [0x0b]) 0))
   \<and> read_operator (reader_new [0xfc, 0x3d, 0x64, 0x70, 0x0b] 0)
     = (Inr (Unique (Result_type (Ref \<lparr>rt_nullable = False, rt_heap_type = Abstract False Heap_Func\<rparr>))),
        move_on 4 (reader_new [0xfc, 0x3d, 0x64, 0x70, 0x0b] 0))"
  using nondeterministic_operators_round_trip [of "Forall (FuncType_index 70)"
      "reader_new ([0xfc, 0x3a] @ signed_leb 70 @ [0x0b]) 0" "[0x0b]"]
    nondeterministic_operators_round_trip [of "Unique (Result_type (Ref \<lparr>rt_nullable = False, rt_heap_type = Abstract False Heap_Func\<rparr>))"
      "reader_new [0xfc, 0x3d, 0x64, 0x70, 0x0b] 0" "[0x0b]"]
  by (simp add: reader_new_def remaining_buffer_def encode_ref_type_def)

section \<open>The whole translation\<close>

text \<open>A step of \<open>parse_all\<close>, told by what the step reads.\<close>

lemma parser_parse_all_step:
  assumes "length bytes \<le> ps_max_size cur" "ps_state (bodies_done cur) = SectionStart_state \<or> ps_state (bodies_done cur) = Header_state"
    and "parse_step (bodies_done cur) True (new_features bytes (ps_offset cur) (ps_features cur)) = (Inr ((payload, None), p1), r1)"
    and "\<not> is_end payload"
  shows "parser_parse_all_from stack cur bytes = Inr payload #
    parser_parse_all_from stack (p1\<lparr>ps_offset := ps_offset p1 + (original_position r1 - ps_offset cur),
      ps_max_size := ps_max_size p1 - (original_position r1 - ps_offset cur)\<rparr>) (drop (original_position r1 - ps_offset cur) bytes)"
  using assms by (subst parser_parse_all_from.simps) (simp add: parse_chunk_def parse_reader_def Let_def)

definition module_header :: "byte list" where
  "module_header = [0x00, 0x61, 0x73, 0x6d, 0x01, 0x00, 0x00, 0x00]"

lemma read_module_header:
  "parse_step (parser_new 0) True (new_features (module_header @ rest) 0 all_features)
     = (Inr ((Version, None), (parser_new 0)\<lparr>ps_state := SectionStart_state\<rparr>), move_on 8 (new_features (module_header @ rest) 0 all_features))"
  by (simp add: parse_step_def parser_new_def header_step_def read_header_version_def read_u32_def read_bytes_def rd_then_def
    ensure_has_bytes_def new_features_def module_header_def WASM_MAGIC_NUMBER_def from_le_bytes_def rd_ok_def move_on_def)

lemma skip_bytes:
  assumes "remaining_buffer r = contents @ rest" "br_position r \<le> length (br_buffer r)"
  shows "skip (forget (read_bytes (length contents))) r =
    (Inr (r\<lparr>br_buffer := contents, br_position := 0, br_original_offset := original_position r\<rparr>), move_on (length contents) r)"
proof -
  have len: "length (br_buffer r) - br_position r = length contents + length rest"
    using arg_cong [OF assms(1), of length] by (simp add: remaining_buffer_def)
  have here: "take (length contents) (drop (br_position r) (br_buffer r)) = contents"
    using assms(1) by (simp add: remaining_buffer_def)
  have "br_position r + length contents \<le> length (br_buffer r)" using len assms(2) by linarith
  then show ?thesis using here
    by (simp add: skip_def forget_def rd_map_def read_bytes_def rd_then_def rd_ok_def ensure_has_bytes_def original_position_def move_on_def)
qed

lemma read_plain_section:
  assumes "remaining_buffer r = i # word_of_nat (length contents) # contents @ rest" "length contents < 128" "unat i < 128"
    and "original_position r = id_pos" "2 + length contents \<le> ps_max_size p" "ps_encoding p = Module_encoding"
    and "map_of (module_section (length contents)) (unat i) = Some (wasm_section (length contents) ctor variant)" "i \<noteq> 0" "i \<noteq> 10"
    and "ctor (r\<lparr>br_buffer := contents, br_position := 0, br_original_offset := id_pos + 2\<rparr>) = Inr x"
  shows "section_step p id_pos r = (Inr ((variant x, None), p), move_on (2 + length contents) r)"
proof -
  have "unat (word_of_nat (length contents) :: byte) = length contents" using assms(2) by (intro unat_byte) simp
  then have len: "read_index (move_on 1 r) = (Inr (length contents), move_on 2 r)"
    using read_small_index [of "move_on 1 r" "word_of_nat (length contents)" "contents @ rest"] assms(1,2) by simp
  have room: "br_position r + 2 \<le> length (br_buffer r)"
    using arg_cong [OF assms(1), of length] by (simp add: remaining_buffer_def)
  have "unat i \<noteq> 10" "unat i \<noteq> 0" using assms(8,9) by (auto simp: word_unat_eq_iff)
  moreover have "(move_on 2 r)\<lparr>br_buffer := contents, br_position := 0, br_original_offset := original_position (move_on 2 r)\<rparr>
      = r\<lparr>br_buffer := contents, br_position := 0, br_original_offset := id_pos + 2\<rparr>"
    using assms(4) by (simp add: move_on_def original_position_def)
  moreover have "skip (forget (read_bytes (length contents))) (move_on 2 r) =
      (Inr ((move_on 2 r)\<lparr>br_buffer := contents, br_position := 0, br_original_offset := original_position (move_on 2 r)\<rparr>),
        move_on (length contents) (move_on 2 r))"
    using assms(1) room by (intro skip_bytes [where rest = rest]) simp_all
  ultimately show ?thesis
    using read_byte [OF assms(1)] len assms(3-7,10) continuation_iff [of i]
    by (simp add: section_step_def section_body_def plain_section_def wasm_section_def rd_with_def rd_map_def rd_then_def rd_ok_def
      original_position_def)
qed

text \<open>What the pass does on payloads, some of which it may not get to.\<close>

lemma read_items_returns: "read_items is \<noteq> None"
  by (induction "is" rule: read_items.induct) (auto simp: attempt_def split: option.split sum.split)

lemma read_local_names_returns: "read_local_names ls m \<noteq> None"
  using read_items_returns
  by (induction ls m rule: read_local_names.induct) (auto simp: attempt_def split: option.split sum.split)

lemma parse_names_returns: "parse_names ns d \<noteq> None"
proof -
  have "parse_name n d \<noteq> None" for n d
    using read_items_returns read_local_names_returns
    by (cases n) (auto simp: attempt_def Let_def split: option.split sum.split)
  then show ?thesis
    by (induction ns d rule: parse_names.induct) (auto simp: attempt_def split: option.split sum.split)
qed

lemma unwrap_items_panics: "unwrap_items items = None \<longleftrightarrow> (\<exists>e. Inl e \<in> set items)"
  by (induction items rule: unwrap_items.induct) (auto split: option.split)

lemma parse_payload_panics:
  "parse_payload payload d = None \<longleftrightarrow> (\<exists>items e. payload = FunctionSection items \<and> Inl e \<in> set items)"
proof (cases payload)
  case (FunctionSection items)
  then show ?thesis using unwrap_items_panics [of items] by (cases "unwrap_items items") auto
next
  case (CustomSection c)
  then show ?thesis using parse_names_returns by (cases c) auto
qed (use read_items_returns in \<open>auto simp: attempt_def split: option.split sum.split\<close>)

text \<open>The pass has got through all sections before this one.\<close>

definition unreadable_functions :: "string \<Rightarrow> (string + wasm_payload) list \<Rightarrow> bool" where
  "unreadable_functions mod_name results \<longleftrightarrow>
     (\<exists>before items e after d. results = map Inr before @ Inr (FunctionSection items) # after
        \<and> parse mod_name (map Inr before) = ok d \<and> Inl e \<in> set items)"

lemma parse_panics: "parse mod_name results = None \<longleftrightarrow> unreadable_functions mod_name results"
proof -
  have "parse_payloads results d0 = None \<longleftrightarrow>
      (\<exists>before items e after d. results = map Inr before @ Inr (FunctionSection items) # after
        \<and> parse_payloads (map Inr before) d0 = ok d \<and> Inl e \<in> set items)" for d0
  proof (induction results d0 rule: parse_payloads.induct)
    case (3 p ps d0)
    show ?case
    proof (cases "parse_payload p d0")
      case None
      then obtain items e where p: "p = FunctionSection items" "Inl e \<in> set items"
        using parse_payload_panics [of p d0] by blast
      have "Inr p # ps = map Inr [] @ Inr (FunctionSection items) # ps" "parse_payloads (map Inr []) d0 = ok d0"
        using p(1) by simp_all
      moreover have "parse_payloads (Inr p # ps) d0 = None" using None by simp
      ultimately show ?thesis using p(2) by blast
    next
      case (Some r)
      show ?thesis
      proof (cases r)
        case (Inl e)
        have "\<not> (\<exists>items e. p = FunctionSection items \<and> Inl e \<in> set items)"
          using parse_payload_panics [of p d0] Some by auto
        then show ?thesis using Some Inl
          by (auto simp: attempt_def Cons_eq_append_conv map_eq_Cons_conv)
      next
        case (Inr d1)
        have no: "\<not> (\<exists>items e. p = FunctionSection items \<and> Inl e \<in> set items)"
          using parse_payload_panics [of p d0] Some by auto
        have step: "parse_payloads (Inr p # qs) d0 = parse_payloads qs d1" for qs
          using Some Inr by (simp add: attempt_def)
        have "parse_payloads ps d1 = None \<longleftrightarrow>
            (\<exists>before items e after d. ps = map Inr before @ Inr (FunctionSection items) # after
              \<and> parse_payloads (map Inr before) d1 = ok d \<and> Inl e \<in> set items)"
          by (rule "3.IH"; use Some Inr in \<open>simp add: attempt_def\<close>)
        then show ?thesis unfolding step
        proof (rule trans, intro iffI; elim exE conjE)
          fix before items e after d
          assume "ps = map Inr before @ Inr (FunctionSection items) # after"
            "parse_payloads (map Inr before) d1 = ok d" "Inl e \<in> set items"
          then show "\<exists>before items e after d. Inr p # ps = map Inr before @ Inr (FunctionSection items) # after
              \<and> parse_payloads (map Inr before) d0 = ok d \<and> Inl e \<in> set items"
            using step by (intro exI [of _ "p # before"] exI [of _ items] exI [of _ e] exI [of _ after] exI [of _ d]) simp
        next
          fix before items e after d
          assume r: "Inr p # ps = map Inr before @ Inr (FunctionSection items) # after"
            "parse_payloads (map Inr before) d0 = ok d" "Inl e \<in> set items"
          then obtain q qs where b: "before = q # qs" using no by (cases before) auto
          with r step show "\<exists>before items e after d. ps = map Inr before @ Inr (FunctionSection items) # after
              \<and> parse_payloads (map Inr before) d1 = ok d \<and> Inl e \<in> set items"
            by (intro exI [of _ qs] exI [of _ items] exI [of _ e] exI [of _ after] exI [of _ d]) simp
        qed
      qed
    qed
  qed (auto simp: Cons_eq_append_conv map_eq_Cons_conv)
  then show ?thesis by (simp add: parse_def unreadable_functions_def)
qed

text \<open>C31: The translation of a sequence of bytes panics in two cases only: when the pass over the sections comes to a
  function section, all sections before it having been read, in which an item cannot be read - the pass unwraps the
  items of this section and of no other - or when the second phase panics on the data the pass has collected.\<close>

theorem unreadable_function_section_panics:
  "translate_module uuids mod_name bytes = None \<longleftrightarrow>
     unreadable_functions mod_name (parser_parse_all (parser_new 0) bytes)
     \<or> (\<exists>d. parse mod_name (parser_parse_all (parser_new 0) bytes) = ok d \<and> translate uuids d = None)"
  using parse_panics [of mod_name "parser_parse_all (parser_new 0) bytes"]
  by (auto simp: translate_module_def translate_bytes_def attempt_def split: option.split sum.split)

lemma function_section_first:
  assumes "section_items read_index
      \<lparr>br_buffer = contents, br_position = 0, br_original_offset = 10, br_features = all_features\<rparr> = Inr items"
    and "length contents < 128" "length rest < 2 ^ 32"
  obtains ps where "parser_parse_all (parser_new 0) (module_header @ [3, word_of_nat (length contents)] @ contents @ rest)
     = Inr Version # Inr (FunctionSection items) # ps"
proof -
  let ?section = "[3, word_of_nat (length contents)] @ contents @ rest"
  let ?p = "(parser_new 0)\<lparr>ps_state := SectionStart_state\<rparr>"
  let ?p1 = "?p\<lparr>ps_offset := 8, ps_max_size := 2 ^ 64 - 9\<rparr>"
  let ?r = "new_features ?section 8 all_features"
  have "parser_parse_all_from [] (parser_new 0) (module_header @ ?section) = Inr Version # parser_parse_all_from [] ?p1 ?section"
    using parser_parse_all_step [of "module_header @ ?section" "parser_new 0" Version ?p "move_on 8 (new_features (module_header @ ?section) 0 all_features)" "[]"]
      read_module_header [of ?section] assms(2,3)
    by (simp add: parser_new_def bodies_done_def original_position_def new_features_def module_header_def)
  moreover have "\<exists>ps. parser_parse_all_from [] ?p1 ?section = Inr (FunctionSection items) # ps"
  proof -
    have sub: "?r\<lparr>br_buffer := contents, br_position := 0, br_original_offset := 8 + 2\<rparr> =
        \<lparr>br_buffer = contents, br_position = 0, br_original_offset = 10, br_features = all_features\<rparr>"
      by (simp add: new_features_def)
    have "section_step ?p1 8 ?r = (Inr ((FunctionSection items, None), ?p1), move_on (2 + length contents) ?r)"
      using assms(1,2) unfolding sub [symmetric]
      by (intro read_plain_section [where rest = rest and i = 3 and ctor = "section_items read_index" and variant = FunctionSection])
        (simp_all add: new_features_def remaining_buffer_def original_position_def parser_new_def module_section_def)
    then have "parse_step (bodies_done ?p1) True ?r = (Inr ((FunctionSection items, None), ?p1), move_on (2 + length contents) ?r)"
      by (simp add: parse_step_def bodies_done_def original_position_def new_features_def bytes_remaining_def)
    then show ?thesis
      using parser_parse_all_step [of ?section ?p1 "FunctionSection items" ?p1 "move_on (2 + length contents) ?r" "[]"] assms(2,3)
      by (simp add: bodies_done_def parser_new_def)
  qed
  ultimately obtain ps where "parser_parse_all (parser_new 0) (module_header @ ?section) = Inr Version # Inr (FunctionSection items) # ps"
    by (auto simp: parser_parse_all_def)
  then show thesis by (rule that)
qed

text \<open>A module of a function section that announces one function and has none.\<close>

theorem unreadable_function_section_panics_witness:
  "translate_module (\<lambda>_. ''u'') ''m'' (module_header @ [3, 1, 1]) = None"
proof -
  have items: "section_items read_index \<lparr>br_buffer = [1], br_position = 0, br_original_offset = 10, br_features = all_features\<rparr>
      = Inr [Inl ''unexpected end-of-file (at offset 0xb)'']"
    by code_simp
  obtain ps where "parser_parse_all (parser_new 0) (module_header @ [3, word_of_nat (length [1 :: byte])] @ [1] @ [])
      = Inr Version # Inr (FunctionSection [Inl ''unexpected end-of-file (at offset 0xb)'']) # ps"
    by (rule function_section_first [OF items, of "[]"]) simp_all
  then have "unreadable_functions ''m'' (parser_parse_all (parser_new 0) (module_header @ [3, 1, 1]))"
    by (auto simp: unreadable_functions_def parse_def intro!: exI [of _ "[Version]"])
  then show ?thesis using unreadable_function_section_panics [of "\<lambda>_. ''u''" "''m''"] by blast
qed

end
