(* ===== verification/Spec2Isabelle.thy ===== *)
theory Spec2Isabelle
  imports ArenaProperties TypeProperties TableProperties ModuleProperties ImportProperties CheckerProperties
    RocqProperties CodegenProperties BuilderProperties
    WatProperties PipelineProperties TuiProperties ReleaseProperties StoreProperties ByteProperties
begin

text \<open>
  A verification development for the Inference compiler and its tools: the builder of the syntax tree, the
  store of its nodes and the type checker (\<open>core/ast\<close>, \<open>core/type-checker\<close>), the generation of code
  (\<open>core/wasm-codegen\<close>), the translation of WebAssembly modules to Rocq (\<open>core/wasm-to-v\<close>) with the reading of
  modules from bytes (\<open>tools/inf-wasmparser\<close>), the phases and
  the program \<open>infc\<close> (\<open>core/inference\<close>, \<open>core/cli\<close>), the formatter of WebAssembly text (\<open>tools/wat-fmt\<close>), and
  of the manager \<open>infs\<close> (\<open>apps/infs\<close>) the terminal interface, the choice of releases and the store of
  toolchains.

  \<^bold>\<open>The program.\<close> The concrete tree of a source file, which a generated parser makes, is turned by
  \<open>Builder\<close> (\<open>core/ast/src/builder.rs\<close>) into nodes kept in an arena
  (\<open>core/ast/src/arena.rs\<close>). \<open>TypeCheckerBuilder::build_typed_context\<close> runs the checker over the
  arena: it registers imports, types, functions and constants in a tree of scopes
  (\<open>core/type-checker/src/symbol_table.rs\<close>), then infers the types of all bodies
  (\<open>core/type-checker/src/type_checker.rs\<close>), and returns the map from nodes to types
  (\<open>core/type-checker/src/typed_context.rs\<close>) or the joined messages of all errors. \<open>codegen\<close>
  (\<open>core/wasm-codegen/src/lib.rs\<close>, \<open>compiler.rs\<close>) lowers the functions of the typed tree through LLVM. On
  the other side of code generation, \<open>translate_bytes\<close> (\<open>core/wasm-to-v/src/wasm_parser.rs\<close>) collects the sections of
  a WebAssembly module, which the parser (\<open>tools/inf-wasmparser/src/parser.rs\<close>, over the byte reader of
  \<open>binary_reader.rs\<close>) hands out one by one, and \<open>WasmParseData::translate\<close> (\<open>core/wasm-to-v/src/translator.rs\<close>) prints them
  as a Rocq file; the flat code of a function is turned back into nested expressions on the way.
  \<open>core/cli/src/main.rs\<close> runs these phases and writes the files. \<open>infs\<close> fetches the manifest of releases
  (\<open>toolchain/manifest.rs\<close>), installs, removes and selects versions in a directory
  (\<open>toolchain/paths.rs\<close>, \<open>commands/\<close>), and has an interactive interface (\<open>tui/app.rs\<close>, \<open>tui/state.rs\<close>).

  \<^bold>\<open>The model.\<close> The definitions follow the functions of the source under the same names.
  \<^item> \<open>Inf_Prelude\<close>: failing folds and maps, decimal output, \<open>parse::<u32>\<close>, ASCII case folding,
    joining; the collections \<open>run_simps\<close> (unfolding of partial functions) and \<open>inv_intros\<close>.
  \<^item> \<open>AstNodes\<close>, \<open>AstArena\<close>: the nodes and the arena.
  \<^item> \<open>SyntaxTrees\<close>: the concrete tree with its fields, kinds, errors and byte ranges, as data.
  \<^item> \<open>BuilderState\<close>, \<open>BuilderExpr\<close>, \<open>BuilderStmt\<close>, \<open>BuilderDefs\<close>: the builder: its state (arena, errors,
    counter of identifiers), types and expressions, statements and blocks, definitions and files.
  \<^item> \<open>TypeInfos\<close>, \<open>TcErrors\<close>: the representation of types, the errors and their messages.
  \<^item> \<open>Scopes\<close>, \<open>TypedContexts\<close>: the symbol table and the store of node types.
  \<^item> \<open>CheckerState\<close>: the state of the checker, error reporting, visibility, type references, imports.
  \<^item> \<open>InferExpr\<close>, \<open>InferStmt\<close>, \<open>CheckDriver\<close>: inference of expressions and statements, the phases.
  \<^item> \<open>Codegen\<close>: the lowering of functions; a call to LLVM is an entry of a trace, its value the position
    in the trace.
  \<^item> \<open>WasmModules\<close>: the data of a decoded module, as the fork of \<open>wasmparser\<close> declares them.
  \<^item> \<open>RocqOperators\<close>, \<open>RocqTranslator\<close>: the text of an operator; expressions, sections, the module.
  \<^item> \<open>WasmParse\<close>: the pass over the payloads of a module and the two phases together.
  \<^item> \<open>ByteReader\<close>, \<open>ValueReader\<close>, \<open>OperatorReader\<close>: the reader over a buffer of bytes, types and immediates,
    the tables of all opcodes. \<open>SectionReader\<close>: the items of the sections, names, iteration.
    \<open>ModuleParser\<close>: the parser as a state machine, all payloads of a byte sequence, and \<open>translate_module\<close>,
    which is \<open>translate_bytes\<close> on bytes.
  \<^item> \<open>Pipeline\<close>: the phases of \<open>core/inference\<close>, the program \<open>infc\<close> with its exit codes and effects, and
    the modules of other packages (\<open>core/ast/src/extern_prelude.rs\<close>).
  \<^item> \<open>Chars\<close>: characters of several bytes and texts addressed by bytes, as \<open>String\<close> is.
  \<^item> \<open>WatFormat\<close>: tokens, nested lists and the printer of \<open>tools/wat-fmt/src/lib.rs\<close>.
  \<^item> \<open>TuiState\<close>, \<open>TuiApp\<close>, \<open>TuiKeys\<close>: screens, menu, history and the state of the interface; navigation and
    installation; editing, keys, messages, the computations of drawing that can panic (\<open>tui/views\<close>) and the main loop.
  \<^item> \<open>Dates\<close>: the date in the metadata of a toolchain and its age. \<open>Releases\<close>: platforms, the manifest, the
    choice of a version, fetching and its cache. \<open>ToolStore\<close>: the store on a table of paths, its links, and
    the commands \<open>install\<close>, \<open>default\<close> and \<open>uninstall\<close>; the search for the compiler.

  \<^bold>\<open>Conventions.\<close> A panic or a loop that does not end is \<^term>\<open>None\<close> of an outer option; an error value
  is a left of a sum. A \<open>Rc<RefCell<Scope>>\<close> is the identifier of a scope in one map, so an update
  through one reference is seen through all. Where the source iterates over a hash map, the order is
  a parameter: \<open>ord\<close> for the nodes of an arena, \<open>scope_ord\<close> for the scopes, \<open>sym_ord\<close> for the symbols
  of a scope; every theorem holds for all orders. Identifiers are natural numbers; the code
  counts scopes in a \<open>u32\<close> and a table of 2 ^ 32 scopes is out of scope. The \<open>debug_assert!\<close> of the
  builder is a parameter that says whether the build has it. \<open>to_lowercase\<close> is the ASCII folding,
  since identifiers are ASCII by the grammar. Locations are \<open>u32\<close> and wrap as in a release build; a node
  identifier of the builder is the value of a counter. A source is a list of bytes with the
  well-formedness of UTF-8 written out; a text the user edits is a list of characters with its
  byte offsets. Bytes and the integers read from them are words of their width. An iterator of the WebAssembly library is the list of its
  results; the enum of operators is cut into groups with the same payload, and the operators without a
  translation are given by their names. UUIDs are a parameter. What a program finds around it - files,
  the clock, the answers of a server, the frames and keys of a terminal, whether an operation on the disk is
  allowed - are parameters or a record; an operation that fails leaves the effects before it. Loops with
  no structural bound return within fuel or by a measure, and the theorems that say so are properties.

  \<^bold>\<open>The proofs.\<close>
  \<^item> \<open>ScopeFacts\<close>, \<open>ScopeSteps\<close>: the invariant of the symbol table, the table as a step relation,
    that every step keeps the invariant and loses no declaration.
  \<^item> \<open>ScopeEnv\<close>: the locales \<open>lexical_env\<close> and \<open>two_namespaces\<close>, the interface of a stack of frames the
    checker relies on, interpreted on the variables and the symbols of the table.
  \<^item> \<open>ExprFacts\<close>, \<open>StmtFacts\<close>: the locales \<open>checker_relation\<close> and \<open>program_relation\<close>, which carry a
    relation on states from the primitive updates through all of inference and all phases; their
    interpretations are that errors only grow, that the table is extended, that reported names are
    distinct and that no circular import is reported.
  \<^item> \<open>ExprTotal\<close>, \<open>StmtTotal\<close>: on a well-formed table inference and all phases return.
  \<^item> \<open>BlockScoping\<close>: blocks and bodies leave the frames as they found them.
  \<^item> \<open>Utf8Facts\<close>, \<open>BuilderFacts\<close>, \<open>BuilderArena\<close>, \<open>BuilderFiles\<close>, \<open>BuilderRoots\<close>: what slicing a source gives; the
    locale \<open>builder_relation\<close> carries a relation from the primitive updates through the builder, interpreted
    on the soundness of the arena and on the list of errors.
  \<^item> \<open>BuilderTotal\<close>, \<open>BuilderReturns\<close>, \<open>BuilderRuns\<close>, \<open>BuilderBlocks\<close>: on trees the grammar allows the builder
    returns, and a tree with an error is refused.
  \<^item> \<open>RocqFacts\<close>: reading an expression loses no operator and returns; the trees of structured code whose layout it
    inverts are in \<open>RocqProperties\<close>.
  \<^item> \<open>RocqTotal\<close>: the translation returns; the locale \<open>section_returns\<close> is the contract of a section,
    interpreted on the eight sections.
  \<^item> \<open>RocqBrackets\<close>: the text is well bracketed; the locale \<open>section_balanced\<close> is interpreted on the same.
  \<^item> \<open>ParseFacts\<close>: what the pass over the payloads collects.
  \<^item> \<open>LebFacts\<close>: the integers of variable length; the locales \<open>unsigned_loop\<close> and \<open>signed_loop\<close> say what a loop over
    the bytes gives, interpreted on the five loops of the reader. \<open>ReaderFacts\<close>: reading goes
    forward and stays in the buffer (the locale \<open>byte_loop\<close> for the same loops), so the loops over operators
    and sections return.
  \<^item> \<open>CodegenFacts\<close>: the locale \<open>compiler_relation\<close> carries a relation from the calls to LLVM through the
    lowering of a body; interpreted on the trace, the variables, exports, barriers and declarations.
  \<^item> \<open>CodegenTotal\<close>: the supported subset of the language, on which lowering returns.
  \<^item> \<open>Typing\<close>: the typing rules as an inductive relation, in the strength the checker enforces and in the strength of the
    documentation, what lies between the two, and the soundness of inference. \<open>BodyRecords\<close>: a run without errors
    records a type for every identifier of the program it looks at, through the cache of recorded types.
  \<^item> \<open>TuiFacts\<close>: the invariant of the interface that keeps it from panicking, as an invariant of its main
    loop; the locale \<open>selection\<close>, interpreted on the menu and the two lists.
  \<^item> \<open>StoreFacts\<close>: paths, and the locale \<open>untouched\<close>, which carries the entries an operation leaves alone
    through the commands, interpreted on the directory of another version.
  \<^item> \<open>ArenaProperties\<close>, \<open>TypeProperties\<close>, \<open>TableProperties\<close>, \<open>ModuleProperties\<close>, \<open>ImportProperties\<close>,
    \<open>CheckerProperties\<close>, \<open>CodegenProperties\<close>, \<open>RocqProperties\<close>, \<open>BuilderProperties\<close>, \<open>PipelineProperties\<close>,
    \<open>WatProperties\<close>, \<open>TuiProperties\<close>, \<open>Dates\<close>, \<open>ReleaseProperties\<close> (with the locale \<open>comparison\<close> of the two orders
    of versions), \<open>StoreProperties\<close> and \<open>ByteProperties\<close>: the properties, each with a witness at
    a concrete input where it has hypotheses.

  \<^bold>\<open>Not modelled.\<close> The parser is generated from a grammar that is not in this repository.
  \<open>core/ast/src/parser_context.rs\<close> and \<open>build_module_definition\<close> have no implementation. The layout, colours and
  percentages of the terminal interface; download, archives, checksums, shell profiles, checks of the
  environment, templates of projects and the remaining commands of \<open>infs\<close> are input and output around
  libraries. The forks of \<open>wasmparser\<close> and \<open>wast\<close> are vendored libraries: what the
  translation runs of the first is modelled; its validator, the items of the sections of components and of
  custom sections other than names, and the second are not. LLVM and the external
  tools the code generator launches (\<open>core/wasm-codegen/src/utils.rs\<close>) are libraries and processes.
  \<open>tools/wasm-fmt\<close>, \<open>apps/lsp\<close> and \<open>ide/vfs\<close> are stubs.
\<close>

end
